(* ===== verification/Prelude.thy ===== *)
theory Prelude
  imports Complex_Main "HOL-Library.Word" "HOL-Library.Char_ord" "HOL-Library.List_Lexorder"
    "HOL-Library.Product_Lexorder"
begin

text \<open>
  What every component of the development shares: results of code that may raise
  (\<open>'e + 'a\<close>, with \<open>Inl\<close> the exception), the sequencing of such results, runs of a step
  function over a list of inputs, Python floats with their non-finite values, and the two
  string helpers (\<open>join\<close>, decimal rendering) that the content-derived identities use.
\<close>

named_theorems result_simps \<open>evaluation of results that may be exceptions\<close>
named_theorems contract_defs \<open>the validators of the pydantic contracts\<close>

subsection \<open>Results\<close>

definition rbind :: "'e + 'a \<Rightarrow> ('a \<Rightarrow> 'e + 'b) \<Rightarrow> 'e + 'b" where
  "rbind m f = (case m of Inl e \<Rightarrow> Inl e | Inr x \<Rightarrow> f x)"

lemma rbind_Inl [simp, result_simps]: "rbind (Inl e) f = Inl e"
  by (simp add: rbind_def)

lemma rbind_Inr [simp, result_simps]: "rbind (Inr x) f = f x"
  by (simp add: rbind_def)

lemma rbind_eq_Inr [simp]: "rbind m f = Inr y \<longleftrightarrow> (\<exists>x. m = Inr x \<and> f x = Inr y)"
  by (cases m) simp_all

lemma rbind_eq_Inl: "rbind m f = Inl e \<longleftrightarrow> m = Inl e \<or> (\<exists>x. m = Inr x \<and> f x = Inl e)"
  by (cases m) simp_all

lemma rbind_assoc: "rbind (rbind m f) g = rbind m (\<lambda>x. rbind (f x) g)"
  by (cases m) simp_all

lemma rbind_Inr_right [simp]: "rbind m Inr = m"
  by (cases m) simp_all

lemma rbind_cong [fundef_cong]:
  "m = m' \<Longrightarrow> (\<And>x. m' = Inr x \<Longrightarrow> f x = f' x) \<Longrightarrow> rbind m f = rbind m' f'"
  by (cases m') simp_all

text \<open>A check that raises \<open>e\<close> unless \<open>b\<close> holds.\<close>

definition ensure :: "bool \<Rightarrow> 'e \<Rightarrow> 'e + unit" where
  "ensure b e = (if b then Inr () else Inl e)"

lemma ensure_eq_Inr [simp]: "ensure b e = Inr u \<longleftrightarrow> b"
  by (simp add: ensure_def)

lemma ensure_eq_Inl [simp]: "ensure b e = Inl e' \<longleftrightarrow> \<not> b \<and> e' = e"
  by (auto simp: ensure_def)

lemma ensure_True [simp, result_simps]: "ensure True e = Inr ()"
  by (simp add: ensure_def)

lemma ensure_False [simp, result_simps]: "ensure False e = Inl e"
  by (simp add: ensure_def)

lemma ensure_holds: "b \<Longrightarrow> ensure b e = Inr ()"
  by simp

text \<open>A loop whose body may raise: the first exception stops it.\<close>

fun mapM :: "('a \<Rightarrow> 'e + 'b) \<Rightarrow> 'a list \<Rightarrow> 'e + 'b list" where
  "mapM f [] = Inr []"
| "mapM f (x # xs) = rbind (f x) (\<lambda>y. rbind (mapM f xs) (\<lambda>ys. Inr (y # ys)))"

lemma mapM_Inr_length: "mapM f xs = Inr ys \<Longrightarrow> length ys = length xs"
  by (induction xs arbitrary: ys) auto

lemma mapM_Inr_nth:
  "mapM f xs = Inr ys \<Longrightarrow> i < length xs \<Longrightarrow> f (xs ! i) = Inr (ys ! i)"
proof (induction xs arbitrary: ys i)
  case Nil
  then show ?case by simp
next
  case (Cons x xs)
  then show ?case by (cases i) auto
qed

lemma mapM_Inr_set: "mapM f xs = Inr ys \<Longrightarrow> y \<in> set ys \<Longrightarrow> \<exists>x\<in>set xs. f x = Inr y"
  by (induction xs arbitrary: ys) auto

lemma mapM_cong [fundef_cong]:
  "xs = ys \<Longrightarrow> (\<And>x. x \<in> set ys \<Longrightarrow> f x = g x) \<Longrightarrow> mapM f xs = mapM g ys"
  by (induction ys arbitrary: xs) auto

subsection \<open>Runs of a step function\<close>

fun run_steps :: "('s \<Rightarrow> 'i \<Rightarrow> 'e + 's) \<Rightarrow> 's \<Rightarrow> 'i list \<Rightarrow> 'e + 's" where
  "run_steps f s [] = Inr s"
| "run_steps f s (i # is) = rbind (f s i) (\<lambda>s'. run_steps f s' is)"

lemma run_steps_append:
  "run_steps f s (xs @ ys) = rbind (run_steps f s xs) (\<lambda>s'. run_steps f s' ys)"
  by (induction xs arbitrary: s) (simp_all add: rbind_assoc)

lemma run_steps_invariant:
  assumes step: "\<And>s i s'. P s \<Longrightarrow> f s i = Inr s' \<Longrightarrow> P s'"
  shows "P s \<Longrightarrow> run_steps f s is = Inr s' \<Longrightarrow> P s'"
proof (induction "is" arbitrary: s)
  case Nil
  then show ?case by simp
next
  case (Cons i "is")
  then obtain s1 where "f s i = Inr s1" and "run_steps f s1 is = Inr s'"
    by auto
  with Cons show ?case by (blast intro: step)
qed

subsection \<open>Floats\<close>

text \<open>
  A Python float is a finite number, an infinity or a NaN. Finite floats are modelled by the
  real number they denote, and arithmetic on them is exact: rounding and overflow of the double
  format are not modelled.
\<close>

datatype pyfloat = Fin real | PosInf | NegInf | NaN

fun isfinite :: "pyfloat \<Rightarrow> bool" where
  "isfinite (Fin _) = True"
| "isfinite _ = False"

fun float_value :: "pyfloat \<Rightarrow> real option" where
  "float_value (Fin r) = Some r"
| "float_value _ = None"

text \<open>Comparison of a float with a finite bound; every comparison with NaN is false.\<close>

fun float_gt :: "pyfloat \<Rightarrow> real \<Rightarrow> bool" where
  "float_gt (Fin r) b = (r > b)"
| "float_gt PosInf b = True"
| "float_gt _ b = False"

fun float_lt :: "pyfloat \<Rightarrow> real \<Rightarrow> bool" where
  "float_lt (Fin r) b = (r < b)"
| "float_lt NegInf b = True"
| "float_lt _ b = False"

fun float_nonneg :: "pyfloat \<Rightarrow> bool" where
  "float_nonneg (Fin r) = (0 \<le> r)"
| "float_nonneg PosInf = True"
| "float_nonneg _ = False"

fun float_in :: "real \<Rightarrow> pyfloat \<Rightarrow> real \<Rightarrow> bool" where
  "float_in lo (Fin r) hi = (lo \<le> r \<and> r \<le> hi)"
| "float_in lo _ hi = False"

lemma isfinite_iff: "isfinite x \<longleftrightarrow> (\<exists>r. x = Fin r)"
  by (cases x) auto

lemma float_gt_lt_exclusive: "b \<le> a \<Longrightarrow> float_gt x a \<Longrightarrow> \<not> float_lt x b"
  by (cases x) auto

subsection \<open>Strings\<close>

fun join_str :: "string \<Rightarrow> string list \<Rightarrow> string" where
  "join_str sep [] = []"
| "join_str sep [x] = x"
| "join_str sep (x # y # ys) = x @ sep @ join_str sep (y # ys)"

fun str_nat :: "nat \<Rightarrow> string" where
  "str_nat n = (if n < 10 then [char_of (48 + n)] else str_nat (n div 10) @ [char_of (48 + n mod 10)])"

declare str_nat.simps [simp del]

subsection \<open>Lists\<close>

text \<open>Python's \<open>xs[-n:]\<close> for a positive \<open>n\<close>.\<close>

definition last_n :: "nat \<Rightarrow> 'a list \<Rightarrow> 'a list" where
  "last_n n xs = drop (length xs - n) xs"

lemma length_last_n [simp]: "length (last_n n xs) = min n (length xs)"
  by (simp add: last_n_def)

lemma set_last_n: "set (last_n n xs) \<subseteq> set xs"
  by (simp add: last_n_def set_drop_subset)

end
