(* ===== verification/Common_Contracts.thy ===== *)
theory Common_Contracts
  imports Prelude
begin

text \<open>
  The shared contract vocabulary (\<open>contracts/common\<close>): identifiers, timestamps and the schema
  version. Identifiers are 128-bit UUIDs, compared as numbers; their text form is the usual
  8-4-4-4-12 hexadecimal rendering. A timestamp is an instant in microseconds with an optional
  offset from UTC (\<open>None\<close> for a naive datetime). The standard-library functions that are not
  modelled concretely, \<open>uuid5\<close>, \<open>isoformat\<close>, \<open>repr\<close> of a float and \<open>float\<close> of a string, form the record
  \<open>stdlib\<close> that the operations take as an argument.
\<close>

subsection \<open>Identifiers\<close>

type_synonym uuid = "128 word"

definition hex_char :: "nat \<Rightarrow> char" where
  "hex_char d = (if d < 10 then char_of (48 + d) else char_of (87 + d))"

definition uuid_digit :: "uuid \<Rightarrow> nat \<Rightarrow> nat" where
  "uuid_digit u i = (unat u div 16 ^ (31 - i)) mod 16"

definition hex_range :: "uuid \<Rightarrow> nat \<Rightarrow> nat \<Rightarrow> string" where
  "hex_range u a b = map (\<lambda>i. hex_char (uuid_digit u i)) [a..<b]"

definition str_uuid :: "uuid \<Rightarrow> string" where
  "str_uuid u = hex_range u 0 8 @ ''-'' @ hex_range u 8 12 @ ''-'' @ hex_range u 12 16 @ ''-'' @
     hex_range u 16 20 @ ''-'' @ hex_range u 20 32"

lemma length_hex_range [simp]: "length (hex_range u a b) = b - a"
  by (simp add: hex_range_def)

lemma length_str_uuid [simp]: "length (str_uuid u) = 36"
  by (simp add: str_uuid_def)

lemma of_char_hex_char: "d < 16 \<Longrightarrow> of_char (hex_char d) = (if d < 10 then 48 + d else 87 + d)"
  by (simp add: hex_char_def)

lemma hex_char_inj: "d < 16 \<Longrightarrow> e < 16 \<Longrightarrow> hex_char d = hex_char e \<longleftrightarrow> d = e"
proof
  assume d: "d < 16" and e: "e < 16" and eq: "hex_char d = hex_char e"
  from eq have "(of_char (hex_char d) :: nat) = of_char (hex_char e)"
    by (rule arg_cong)
  then show "d = e"
    by (auto simp: of_char_hex_char d e split: if_splits)
qed simp

lemma bar_not_hex_char: "d < 16 \<Longrightarrow> hex_char d \<noteq> CHR ''|''"
proof
  assume d: "d < 16" and "hex_char d = CHR ''|''"
  then have "(of_char (hex_char d) :: nat) = 124"
    by simp
  with d show False
    by (auto simp: of_char_hex_char split: if_splits)
qed

lemma bar_not_in_str_uuid: "CHR ''|'' \<notin> set (str_uuid u)"
proof -
  have "CHR ''|'' \<notin> set (hex_range u a b)" for a b
    using bar_not_hex_char [of "uuid_digit u _"]
    by (auto simp: hex_range_def uuid_digit_def dest: sym)
  then show ?thesis
    by (simp add: str_uuid_def)
qed

lemma digits_mod_eq:
  "(\<forall>i<k. (n div 16 ^ i) mod 16 = (m div 16 ^ i) mod (16::nat)) \<Longrightarrow> n mod 16 ^ k = m mod 16 ^ k"
proof (induction k)
  case 0
  then show ?case by simp
next
  case (Suc k)
  then have "n mod 16 ^ k = m mod 16 ^ k" and "(n div 16 ^ k) mod 16 = (m div 16 ^ k) mod 16"
    by simp_all
  then show ?case
    by (metis mod_mult2_eq mult.commute power_Suc)
qed

lemma uuid_digits_inj:
  assumes "\<forall>i<32. uuid_digit u i = uuid_digit v i"
  shows "u = v"
proof -
  have "(unat u div 16 ^ i) mod 16 = (unat v div 16 ^ i) mod 16" if "i < 32" for i
    using assms [rule_format, of "31 - i"] that by (simp add: uuid_digit_def)
  then have "unat u mod 16 ^ 32 = unat v mod 16 ^ 32"
    by (intro digits_mod_eq) blast
  moreover have "unat w < 16 ^ 32" for w :: uuid
    using unsigned_less [of w] by simp
  ultimately show ?thesis
    by (simp add: word_unat_eq_iff)
qed

lemma hex_range_inj:
  "hex_range u a b = hex_range v a b \<Longrightarrow> a \<le> i \<Longrightarrow> i < b \<Longrightarrow> uuid_digit u i = uuid_digit v i"
proof -
  assume "hex_range u a b = hex_range v a b" and "a \<le> i" and "i < b"
  then have "hex_char (uuid_digit u i) = hex_char (uuid_digit v i)"
    by (auto simp: hex_range_def)
  then show ?thesis
    by (subst (asm) hex_char_inj) (simp_all add: uuid_digit_def)
qed

lemma str_uuid_inj: "str_uuid u = str_uuid v \<longleftrightarrow> u = v"
proof
  assume eq: "str_uuid u = str_uuid v"
  have parts: "hex_range u 0 8 = hex_range v 0 8" "hex_range u 8 12 = hex_range v 8 12"
    "hex_range u 12 16 = hex_range v 12 16" "hex_range u 16 20 = hex_range v 16 20"
    "hex_range u 20 32 = hex_range v 20 32"
    using eq by (simp_all add: str_uuid_def)
  have "uuid_digit u i = uuid_digit v i" if "i < 32" for i
  proof -
    consider "i < 8" | "8 \<le> i" "i < 12" | "12 \<le> i" "i < 16" | "16 \<le> i" "i < 20" | "20 \<le> i"
      by linarith
    then show ?thesis
      using parts that by cases (auto intro: hex_range_inj)
  qed
  then show "u = v"
    by (intro uuid_digits_inj) blast
qed simp

subsection \<open>Timestamps\<close>

text \<open>
  \<open>dt_instant\<close> is the position on the time line in microseconds (for a naive datetime, its wall
  clock); \<open>dt_offset\<close> is the offset from UTC in microseconds, \<open>None\<close> when \<open>tzinfo is None\<close>.
  Aware datetimes compare, and subtract, by their instants.
\<close>

record datetime =
  dt_instant :: int
  dt_offset :: "int option"

definition aware :: "datetime \<Rightarrow> bool" where
  "aware d = (dt_offset d \<noteq> None)"

definition utc_at :: "int \<Rightarrow> datetime" where
  "utc_at us = \<lparr>dt_instant = us, dt_offset = Some 0\<rparr>"

lemma aware_utc_at [simp]: "aware (utc_at us)"
  by (simp add: aware_def utc_at_def)

lemma dt_instant_utc_at [simp]: "dt_instant (utc_at us) = us"
  by (simp add: utc_at_def)

definition dt_eq :: "datetime \<Rightarrow> datetime \<Rightarrow> bool" where
  "dt_eq a b = (dt_instant a = dt_instant b)"

definition dt_less :: "datetime \<Rightarrow> datetime \<Rightarrow> bool" where
  "dt_less a b = (dt_instant a < dt_instant b)"

text \<open>\<open>(a - b).total_seconds()\<close>.\<close>

definition seconds_between :: "datetime \<Rightarrow> datetime \<Rightarrow> real" where
  "seconds_between a b = real_of_int (dt_instant a - dt_instant b) / 1000000"

lemma seconds_between_nonneg: "\<not> dt_less a b \<Longrightarrow> 0 \<le> seconds_between a b"
  by (simp add: seconds_between_def dt_less_def)

lemma seconds_between_triangle:
  "seconds_between c a = seconds_between c b + seconds_between b a"
  by (simp add: seconds_between_def field_simps)

datatype time_error = NaiveDatetime

definition to_utc :: "datetime \<Rightarrow> time_error + datetime" where
  "to_utc dt = (if \<not> aware dt then Inl NaiveDatetime else Inr (dt\<lparr>dt_offset := Some 0\<rparr>))"

definition validate_utc :: "datetime \<Rightarrow> time_error + datetime" where
  "validate_utc dt = (if \<not> aware dt then Inl NaiveDatetime else Inr dt)"

text \<open>The validator on an optional field lets \<open>None\<close> through.\<close>

fun validate_utc_opt :: "datetime option \<Rightarrow> bool" where
  "validate_utc_opt None = True"
| "validate_utc_opt (Some dt) = (validate_utc dt \<noteq> Inl NaiveDatetime)"

lemma validate_utc_ok [simp]: "validate_utc dt = Inr dt' \<longleftrightarrow> aware dt \<and> dt' = dt"
  by (auto simp: validate_utc_def)

declare validate_utc_opt.simps(2) [simp del]

lemma validate_utc_opt_Some [simp]: "validate_utc_opt (Some dt) \<longleftrightarrow> aware dt"
  by (simp add: validate_utc_opt.simps(2) validate_utc_def)

subsection \<open>The standard library as an argument\<close>

record stdlib =
  std_uuid5 :: "uuid \<Rightarrow> string \<Rightarrow> uuid"
  std_isoformat :: "datetime \<Rightarrow> string"
  std_repr_float :: "real \<Rightarrow> string"
  std_parse_float :: "string \<Rightarrow> pyfloat option"

definition serialize_utc :: "stdlib \<Rightarrow> datetime \<Rightarrow> time_error + string" where
  "serialize_utc L dt = (if \<not> aware dt then Inl NaiveDatetime
     else rbind (to_utc dt) (\<lambda>d. Inr (std_isoformat L d)))"

subsection \<open>Schema version\<close>

definition SCHEMA_VERSION :: string where
  "SCHEMA_VERSION = ''1.0''"

definition supported_versions :: "string list" where
  "supported_versions = [''1.0'']"

definition validate_schema_version :: "string \<Rightarrow> bool" where
  "validate_schema_version v = (v \<in> set supported_versions)"

lemma validate_schema_version_current [simp]: "validate_schema_version SCHEMA_VERSION"
  by (simp add: validate_schema_version_def supported_versions_def SCHEMA_VERSION_def)

end
