(* ===== verification/Geometry_Contracts.thy ===== *)
theory Geometry_Contracts
  imports Common_Contracts
begin

text \<open>
  The geometry contract (\<open>contracts/geometry/models.py\<close>, ADR-010): coordinate spaces, geometry
  types and scopes, the \<open>GeometryModel\<close> with its two validators, canonicalisation (rounding and
  ring closure), the ring accessor and the entity geometry contract. Coordinates are Python floats,
  so a value that skipped the validators may be non-finite.
\<close>

datatype coordinate_space = IMAGE_NORMALIZED | VENUE_LOCAL

datatype geometry_type = POINT | LINESTRING | POLYGON

datatype geometry_scope = CAMERA | VENUE

datatype overlap_policy = ALLOW | REJECT | VALIDATE

record geometry_model =
  gm_geometry_id :: string
  gm_geometry_type :: geometry_type
  gm_coordinate_space :: coordinate_space
  gm_geometry_scope :: geometry_scope
  gm_coordinates :: "pyfloat list list"
  gm_reference_camera_profile_id :: "string option"
  gm_reference_width :: "int option"
  gm_reference_height :: "int option"

subsection \<open>Validators\<close>

definition validate_coordinates :: "pyfloat list list \<Rightarrow> bool" where
  "validate_coordinates v =
     (v \<noteq> [] \<and> list_all (\<lambda>point. length point \<in> {2, 3} \<and> list_all isfinite point) v)"

definition ring_counts_ok :: "geometry_type \<Rightarrow> nat \<Rightarrow> bool" where
  "ring_counts_ok t n =
     (case t of POINT \<Rightarrow> n = 1 | LINESTRING \<Rightarrow> 2 \<le> n | POLYGON \<Rightarrow> 4 \<le> n)"

definition validate_geometry_consistency :: "geometry_model \<Rightarrow> bool" where
  "validate_geometry_consistency g =
     (if \<not> ring_counts_ok (gm_geometry_type g) (length (gm_coordinates g)) then False
      else if gm_geometry_scope g = CAMERA \<and> gm_coordinate_space g \<noteq> IMAGE_NORMALIZED then False
      else if gm_geometry_scope g = CAMERA \<and>
        (gm_reference_camera_profile_id g = None \<or> gm_reference_camera_profile_id g = Some '''') then False
      else if gm_geometry_scope g = VENUE \<and> gm_coordinate_space g \<noteq> VENUE_LOCAL then False
      else if gm_coordinate_space g = IMAGE_NORMALIZED then
        list_all (\<lambda>point. list_all (\<lambda>value. float_in 0 value 1) (take 2 point)) (gm_coordinates g)
      else True)"

text \<open>What pydantic accepts: the field constraints, then the two validators.\<close>

definition geometry_model_valid :: "geometry_model \<Rightarrow> bool" where
  "geometry_model_valid g =
     (gm_geometry_id g \<noteq> '''' \<and>
      (case gm_reference_width g of None \<Rightarrow> True | Some w \<Rightarrow> 1 \<le> w) \<and>
      (case gm_reference_height g of None \<Rightarrow> True | Some h \<Rightarrow> 1 \<le> h) \<and>
      validate_coordinates (gm_coordinates g) \<and> validate_geometry_consistency g)"

subsection \<open>Canonicalisation\<close>

definition PRECISION :: "coordinate_space \<Rightarrow> nat" where
  "PRECISION s = (case s of IMAGE_NORMALIZED \<Rightarrow> 6 | VENUE_LOCAL \<Rightarrow> 3)"

definition CLOSURE_EPSILON :: real where
  "CLOSURE_EPSILON = 1 / 1000000"

text \<open>Python's \<open>round\<close>: to the nearest, ties to even; infinities and NaN are kept.\<close>

definition round_half_even :: "real \<Rightarrow> int" where
  "round_half_even y =
     (let f = \<lfloor>y\<rfloor>; d = y - of_int f
      in if d < 1 / 2 then f else if d > 1 / 2 then f + 1 else if even f then f else f + 1)"

fun py_round :: "pyfloat \<Rightarrow> nat \<Rightarrow> pyfloat" where
  "py_round (Fin r) p = Fin (of_int (round_half_even (r * 10 ^ p)) / 10 ^ p)"
| "py_round x p = x"

fun float_close :: "pyfloat \<Rightarrow> pyfloat \<Rightarrow> bool" where
  "float_close (Fin a) (Fin b) = (\<bar>a - b\<bar> \<le> CLOSURE_EPSILON)"
| "float_close _ _ = False"

datatype ring_error = NotAPolygon | ZipLengthMismatch

text \<open>
  \<open>all(abs(a - b) <= eps for a, b in zip(first, last, strict=True))\<close>: the generator stops at the
  first pair that is too far apart, and \<open>zip\<close> raises \<open>ValueError\<close> when one of the two
  points ends before the other.
\<close>

fun ring_closed :: "pyfloat list \<Rightarrow> pyfloat list \<Rightarrow> ring_error + bool" where
  "ring_closed [] [] = Inr True"
| "ring_closed (a # as) (b # bs) = (if float_close a b then ring_closed as bs else Inr False)"
| "ring_closed _ _ = Inl ZipLengthMismatch"

definition canonicalize :: "geometry_model \<Rightarrow> ring_error + geometry_model" where
  "canonicalize g =
     (let precision = PRECISION (gm_coordinate_space g);
          coords = map (map (\<lambda>c. py_round c precision)) (gm_coordinates g)
      in if gm_geometry_type g = POLYGON then
           rbind (ring_closed (hd coords) (last coords)) (\<lambda>closed.
             Inr (g\<lparr>gm_coordinates := (if closed then coords else coords @ [hd coords])\<rparr>))
         else Inr (g\<lparr>gm_coordinates := coords\<rparr>))"

definition ring :: "geometry_model \<Rightarrow> ring_error + pyfloat list list" where
  "ring g = (if gm_geometry_type g \<noteq> POLYGON then Inl NotAPolygon
     else rbind (canonicalize g) (\<lambda>c. Inr (gm_coordinates c)))"

definition is_camera_relative :: "geometry_model \<Rightarrow> bool" where
  "is_camera_relative g = (gm_geometry_scope g = CAMERA)"

subsection \<open>Entity geometry contract\<close>

record entity_geometry_contract =
  eg_entity_type :: string
  eg_allowed_geometry_types :: "geometry_type set"
  eg_allowed_coordinate_spaces :: "coordinate_space set"
  eg_allowed_scopes :: "geometry_scope set"
  eg_min_area :: "real option"
  eg_requires_camera_reference :: bool

definition permits :: "entity_geometry_contract \<Rightarrow> geometry_model \<Rightarrow> bool" where
  "permits c g =
     (gm_geometry_type g \<in> eg_allowed_geometry_types c \<and>
      gm_coordinate_space g \<in> eg_allowed_coordinate_spaces c \<and>
      gm_geometry_scope g \<in> eg_allowed_scopes c)"

subsection \<open>Facts\<close>

lemma round_half_even_of_int [simp]: "round_half_even (of_int z) = z"
  by (simp add: round_half_even_def)

lemma py_round_idem [simp]: "py_round (py_round x p) p = py_round x p"
  by (cases x) simp_all

lemma isfinite_py_round [simp]: "isfinite (py_round x p) = isfinite x"
  by (cases x) simp_all

lemma float_close_refl: "isfinite x \<Longrightarrow> float_close x x"
  by (cases x) (simp_all add: CLOSURE_EPSILON_def)

lemma ring_closed_refl: "list_all isfinite p \<Longrightarrow> ring_closed p p = Inr True"
  by (induction p) (simp_all add: float_close_refl)

text \<open>
  Canonicalising twice changes nothing: the rounded coordinates are fixed points of rounding and
  a closed ring is not closed again.
\<close>

lemma canonicalize_idem:
  assumes fin: "validate_coordinates (gm_coordinates g)" and c: "canonicalize g = Inr h"
  shows "canonicalize h = Inr h"
proof -
  let ?p = "PRECISION (gm_coordinate_space g)"
  let ?r = "map (map (\<lambda>c. py_round c ?p)) :: pyfloat list list \<Rightarrow> pyfloat list list"
  define coords where "coords = ?r (gm_coordinates g)"
  from fin have ne: "coords \<noteq> []" and all_fin: "\<forall>p\<in>set coords. list_all isfinite p"
    by (auto simp: validate_coordinates_def coords_def list_all_iff)
  have fix1: "?r coords = coords"
    by (simp add: coords_def)
  show ?thesis
  proof (cases "gm_geometry_type g = POLYGON")
    case False
    with c have h: "h = g\<lparr>gm_coordinates := coords\<rparr>"
      by (simp add: canonicalize_def coords_def Let_def)
    with False fix1 show ?thesis
      by (simp add: canonicalize_def Let_def)
  next
    case True
    with c obtain closed where cl: "ring_closed (hd coords) (last coords) = Inr closed"
      and h: "h = g\<lparr>gm_coordinates := (if closed then coords else coords @ [hd coords])\<rparr>"
      by (auto simp: canonicalize_def coords_def Let_def)
    show ?thesis
    proof (cases closed)
      case True
      with \<open>gm_geometry_type g = POLYGON\<close> h cl fix1 show ?thesis
        by (simp add: canonicalize_def Let_def)
    next
      case False
      let ?cs = "coords @ [hd coords]"
      have hd_cs: "hd ?cs = hd coords" and last_cs: "last ?cs = hd coords"
        using ne by simp_all
      have "hd coords \<in> set coords"
        using ne by simp
      then have "ring_closed (hd ?cs) (last ?cs) = Inr True"
        unfolding hd_cs last_cs using all_fin ring_closed_refl by blast
      moreover have "?r ?cs = ?cs"
        using fix1 ne by (metis hd_map list.simps(8,9) map_append)
      ultimately show ?thesis
        using \<open>gm_geometry_type g = POLYGON\<close> h False by (simp add: canonicalize_def Let_def)
    qed
  qed
qed

end
