(* ===== verification/Config_Contracts.thy ===== *)
theory Config_Contracts
  imports Geometry_Contracts
begin

text \<open>
  The configuration contract (\<open>contracts/configuration/models.py\<close>): the version-owned profiles of
  a venue, the structured validation result, the immutable configuration version with its two
  validators and its content revision, and the logical configuration. Free-form metadata, the
  decimal installation data of a camera and the texts of findings are left out: no modelled
  component reads them.
\<close>

datatype configuration_status = DRAFT | VALIDATING | VALIDATED | PUBLISHED

datatype zone_type = LOBBY | RECEPTION | RESTAURANT | POOL_AREA | CORRIDOR | PARKING | WAITING_AREA | CUSTOM

datatype entrance_direction = ENTRANCE | EXIT | BIDIRECTIONAL

record camera_profile =
  cam_profile_id :: string
  cam_camera_id :: uuid
  cam_camera_reference :: string
  cam_resolution_width :: int
  cam_resolution_height :: int
  cam_analysis_enabled :: bool
  cam_detection_zones :: "string list"
  cam_privacy_rois :: "string list"
  cam_exclusion_rois :: "string list"
  cam_physical_placement :: "geometry_model option"

record zone =
  zone_profile_id :: string
  zone_name :: string
  zone_zone_type :: zone_type
  zone_geometry :: geometry_model
  zone_labels :: "string list"
  zone_contained_tables :: "string list"
  zone_contained_entrances :: "string list"
  zone_contained_queue_areas :: "string list"
  zone_contained_service_areas :: "string list"

record table =
  table_profile_id :: string
  table_name :: string
  table_geometry :: geometry_model
  table_seat_count :: "int option"

record entrance =
  ent_profile_id :: string
  ent_name :: string
  ent_geometry :: geometry_model
  ent_direction :: entrance_direction
  ent_zone_profile_id :: "string option"
  ent_camera_profiles :: "string list"

record queue_area =
  qa_profile_id :: string
  qa_name :: string
  qa_geometry :: geometry_model
  qa_max_queue_length :: "int option"
  qa_zone_profile_id :: "string option"
  qa_camera_profiles :: "string list"

record service_area =
  sa_profile_id :: string
  sa_name :: string
  sa_geometry :: geometry_model
  sa_service_type :: "string option"
  sa_zone_profile_id :: "string option"
  sa_camera_profiles :: "string list"

record privacy_roi =
  priv_profile_id :: string
  priv_name :: string
  priv_geometry :: geometry_model
  priv_action :: string
  priv_camera_profiles :: "string list"

record exclusion_roi =
  excl_profile_id :: string
  excl_name :: string
  excl_geometry :: geometry_model
  excl_excluded_tasks :: "string list"
  excl_camera_profiles :: "string list"

record validation_finding =
  vf_code :: string
  vf_severity :: string
  vf_entity_type :: "string option"
  vf_entity_id :: "string option"
  vf_related_entity_id :: "string option"

record validation_result =
  vr_valid :: bool
  vr_validator_version :: string
  vr_content_revision :: string
  vr_configuration_version_id :: uuid
  vr_configuration_id :: uuid
  vr_tenant_id :: uuid
  vr_venue_id :: uuid
  vr_validated_at :: datetime
  vr_validated_by :: string
  vr_errors :: "validation_finding list"
  vr_warnings :: "validation_finding list"
  vr_checks_performed :: int

definition validation_result_valid :: "validation_result \<Rightarrow> bool" where
  "validation_result_valid r = aware (vr_validated_at r)"

definition blocking_errors :: "validation_result \<Rightarrow> validation_finding list" where
  "blocking_errors r = vr_errors r"

record configuration_version =
  cv_configuration_version_id :: uuid
  cv_configuration_id :: uuid
  cv_venue_id :: uuid
  cv_tenant_id :: uuid
  cv_version :: int
  cv_status :: configuration_status
  cv_cameras :: "camera_profile list"
  cv_zones :: "zone list"
  cv_tables :: "table list"
  cv_entrances :: "entrance list"
  cv_queue_areas :: "queue_area list"
  cv_service_areas :: "service_area list"
  cv_privacy_rois :: "privacy_roi list"
  cv_exclusion_rois :: "exclusion_roi list"
  cv_validation_result :: "validation_result option"
  cv_validated_at :: "datetime option"
  cv_validated_by :: "string option"
  cv_published_at :: "datetime option"
  cv_published_by :: "string option"
  cv_replaced_version_id :: "uuid option"
  cv_created_at :: datetime
  cv_updated_at :: datetime
  cv_schema_version :: string

text \<open>The profile ids in the order the validator visits the categories.\<close>

definition all_profile_ids :: "configuration_version \<Rightarrow> string list" where
  "all_profile_ids c =
     map cam_profile_id (cv_cameras c) @ map zone_profile_id (cv_zones c) @
     map table_profile_id (cv_tables c) @ map ent_profile_id (cv_entrances c) @
     map qa_profile_id (cv_queue_areas c) @ map sa_profile_id (cv_service_areas c) @
     map priv_profile_id (cv_privacy_rois c) @ map excl_profile_id (cv_exclusion_rois c)"

fun first_duplicate :: "string set \<Rightarrow> string list \<Rightarrow> string option" where
  "first_duplicate seen [] = None"
| "first_duplicate seen (x # xs) =
     (if x \<in> seen then Some x else first_duplicate (insert x seen) xs)"

definition validate_profile_ids_unique :: "configuration_version \<Rightarrow> bool" where
  "validate_profile_ids_unique c = (first_duplicate {} (all_profile_ids c) = None)"

definition validate_published_immutable :: "configuration_version \<Rightarrow> bool" where
  "validate_published_immutable c =
     (if cv_status c = PUBLISHED then
        if cv_cameras c = [] then False
        else if cv_validated_at c = None then False
        else if cv_validated_by c = None then False
        else if cv_published_at c = None then False
        else cv_published_by c \<noteq> None
      else True)"

definition configuration_version_valid :: "configuration_version \<Rightarrow> bool" where
  "configuration_version_valid c =
     (1 \<le> cv_version c \<and> validate_schema_version (cv_schema_version c) \<and>
      aware (cv_created_at c) \<and> aware (cv_updated_at c) \<and>
      (case cv_validation_result c of None \<Rightarrow> True | Some r \<Rightarrow> validation_result_valid r) \<and>
      validate_utc_opt (cv_validated_at c) \<and> validate_utc_opt (cv_published_at c) \<and>
      validate_profile_ids_unique c \<and> validate_published_immutable c)"

text \<open>
  \<open>content_revision\<close>: the digest (SHA-256 of canonical JSON, an argument here) of the version
  number and the eight entity lists, and of nothing else.
\<close>

record content_payload =
  cp_version :: int
  cp_cameras :: "camera_profile list"
  cp_zones :: "zone list"
  cp_tables :: "table list"
  cp_entrances :: "entrance list"
  cp_queue_areas :: "queue_area list"
  cp_service_areas :: "service_area list"
  cp_privacy_rois :: "privacy_roi list"
  cp_exclusion_rois :: "exclusion_roi list"

definition content_payload_of :: "configuration_version \<Rightarrow> content_payload" where
  "content_payload_of c = \<lparr>cp_version = cv_version c, cp_cameras = cv_cameras c, cp_zones = cv_zones c,
     cp_tables = cv_tables c, cp_entrances = cv_entrances c, cp_queue_areas = cv_queue_areas c,
     cp_service_areas = cv_service_areas c, cp_privacy_rois = cv_privacy_rois c,
     cp_exclusion_rois = cv_exclusion_rois c\<rparr>"

definition content_revision :: "(content_payload \<Rightarrow> string) \<Rightarrow> configuration_version \<Rightarrow> string" where
  "content_revision digest c = digest (content_payload_of c)"

record configuration =
  cfg_configuration_id :: uuid
  cfg_venue_id :: uuid
  cfg_tenant_id :: uuid
  cfg_name :: string
  cfg_current_published_version_id :: "uuid option"
  cfg_updated_at :: datetime

lemma first_duplicate_None_iff:
  "first_duplicate seen xs = None \<longleftrightarrow> distinct xs \<and> set xs \<inter> seen = {}"
  by (induction xs arbitrary: seen) auto

lemma validate_profile_ids_unique_iff: "validate_profile_ids_unique c \<longleftrightarrow> distinct (all_profile_ids c)"
  by (simp add: validate_profile_ids_unique_def first_duplicate_None_iff)

lemma unique_zone:
  "validate_profile_ids_unique c \<Longrightarrow> z \<in> set (cv_zones c) \<Longrightarrow> z' \<in> set (cv_zones c) \<Longrightarrow>
     zone_profile_id z = zone_profile_id z' \<Longrightarrow> z = z'"
  by (auto simp: validate_profile_ids_unique_iff all_profile_ids_def distinct_map dest: inj_onD)

end
