(* ===== verification/Spatial_Contracts.thy ===== *)
theory Spatial_Contracts
  imports Config_Contracts
begin

text \<open>
  The spatial contract (\<open>contracts/spatial/models.py\<close>) and the part of the vision contract it
  starts from (\<open>contracts/vision/models.py\<close>): bounding boxes, track observations, spatial points
  and the two observation types the temporal engines consume.
\<close>

subsection \<open>Vision\<close>

record bounding_box =
  x_min :: pyfloat
  y_min :: pyfloat
  x_max :: pyfloat
  y_max :: pyfloat

fun pyfloat_le :: "pyfloat \<Rightarrow> pyfloat \<Rightarrow> bool" where
  "pyfloat_le NaN _ = False"
| "pyfloat_le _ NaN = False"
| "pyfloat_le NegInf _ = True"
| "pyfloat_le _ PosInf = True"
| "pyfloat_le (Fin a) (Fin b) = (a \<le> b)"
| "pyfloat_le _ _ = False"

definition bounding_box_valid :: "bounding_box \<Rightarrow> bool" where
  "bounding_box_valid b =
     (float_in 0 (x_min b) 1 \<and> float_in 0 (y_min b) 1 \<and> float_in 0 (x_max b) 1 \<and>
      float_in 0 (y_max b) 1 \<and> pyfloat_le (x_min b) (x_max b) \<and> pyfloat_le (y_min b) (y_max b))"

datatype track_state = ACTIVE | LOST | TERMINATED

record track_observation =
  to_track_id :: uuid
  to_detection_id :: uuid
  to_frame_id :: uuid
  to_session_id :: uuid
  to_schema_version :: string
  to_event_time :: datetime
  to_track_state :: track_state

definition track_observation_valid :: "track_observation \<Rightarrow> bool" where
  "track_observation_valid t =
     (validate_schema_version (to_schema_version t) \<and> aware (to_event_time t))"

subsection \<open>Spatial points and outcomes\<close>

definition SPATIAL_ENGINE_VERSION :: string where
  "SPATIAL_ENGINE_VERSION = ''0.2.0''"

datatype spatial_point_policy = CENTROID | FOOTPOINT

record spatial_point =
  sp_x :: pyfloat
  sp_y :: pyfloat
  sp_coordinate_space :: coordinate_space
  sp_policy :: spatial_point_policy

definition spatial_point_valid :: "spatial_point \<Rightarrow> bool" where
  "spatial_point_valid p =
     (sp_coordinate_space p = IMAGE_NORMALIZED \<longrightarrow> float_in 0 (sp_x p) 1 \<and> float_in 0 (sp_y p) 1)"

datatype spatial_status = INSIDE | OUTSIDE | AMBIGUOUS | EXCLUDED | PRIVACY

datatype crossing_state = CROSSED | NO_CROSSING

datatype crossing_direction = FORWARD | REVERSE | UNKNOWN

subsection \<open>Observations\<close>

record line_crossing_observation =
  lc_schema_version :: string
  lc_session_id :: uuid
  lc_track_id :: uuid
  lc_camera_id :: uuid
  lc_configuration_version_id :: uuid
  lc_line_profile_id :: string
  lc_previous_frame_id :: uuid
  lc_current_frame_id :: uuid
  lc_previous_event_time :: datetime
  lc_current_event_time :: datetime
  lc_previous_point :: spatial_point
  lc_current_point :: spatial_point
  lc_crossing_state :: crossing_state
  lc_direction :: crossing_direction
  lc_engine_version :: string

definition line_crossing_observation_valid :: "line_crossing_observation \<Rightarrow> bool" where
  "line_crossing_observation_valid ob =
     (validate_schema_version (lc_schema_version ob) \<and> lc_line_profile_id ob \<noteq> '''' \<and>
      aware (lc_previous_event_time ob) \<and> aware (lc_current_event_time ob) \<and>
      \<not> dt_less (lc_current_event_time ob) (lc_previous_event_time ob))"

record spatial_observation =
  so_schema_version :: string
  so_session_id :: uuid
  so_track_id :: uuid
  so_frame_id :: uuid
  so_event_time :: datetime
  so_camera_id :: uuid
  so_configuration_version_id :: uuid
  so_spatial_point :: spatial_point
  so_status :: spatial_status
  so_zone_profile_id :: "string option"
  so_table_profile_id :: "string option"
  so_engine_version :: string

definition spatial_observation_valid :: "spatial_observation \<Rightarrow> bool" where
  "spatial_observation_valid ob =
     (validate_schema_version (so_schema_version ob) \<and> aware (so_event_time ob) \<and>
      so_zone_profile_id ob \<noteq> Some '''' \<and> so_table_profile_id ob \<noteq> Some '''')"

end
