(* ===== verification/Fsm.thy ===== *)
theory Fsm
  imports Common_Contracts
begin

text \<open>
  The deterministic state machine of the temporal engines (\<open>temporal/fsm.py\<close>) and the exceptions
  of \<open>temporal/exceptions.py\<close>. A machine is built from a declared table of rules; the constructor
  rejects undeclared states and duplicate rules. The locale \<open>legal_fsm\<close> states what the
  constructor guarantees, and is interpreted for every machine the engines declare.
\<close>

subsection \<open>Exceptions\<close>

text \<open>
  The reasons for which an \<open>InvalidTemporalInputError\<close> is raised; the messages of the other
  exceptions are reduced to the values they print.
\<close>

datatype input_fault =
    MissingObservationKind
  | UnknownObservationKind string
  | StateFsmKindMismatch string
  | CheckpointFsmKindMismatch string
  | KeyFsmKindMismatch string
  | InputKeyMismatch
  | ScopeTrackRequired
  | FactFsmKindMismatch string
  | KindFactMismatch
  | UnknownClassification string
  | NaiveProcessingTime
  | NaiveEventTime
  | SpaceMismatch
  | MeasurementTimeMismatch
  | NonFiniteDistance
  | MeasurementPolicyMismatch string
  | ContextNotCapable
  | MissingField string

datatype temporal_error =
    InvalidTemporalInput input_fault
  | LateEvent real
  | InvalidTransition string string string "string list"
  | StateKeyMismatch "string list"
  | FsmVersionMismatch string string
  | CheckpointIntegrity string string
  | ContractViolation string
  | InvalidCoordinate
  | PyTypeError

subsection \<open>The machine\<close>

record fsm_rule =
  rule_from :: string
  rule_event :: string
  rule_to :: string

abbreviation FsmRule :: "string \<Rightarrow> string \<Rightarrow> string \<Rightarrow> fsm_rule" where
  "FsmRule f e t \<equiv> \<lparr>rule_from = f, rule_event = e, rule_to = t\<rparr>"

record fsm =
  fsm_name :: string
  fsm_version :: string
  fsm_states :: "string list"
  fsm_initial_state :: string
  fsm_lookup :: "((string \<times> string) \<times> string) list"

datatype fsm_error = UndeclaredInitial string | UndeclaredRuleState fsm_rule | DuplicateRule string string

text \<open>The table is a dict in insertion order.\<close>

fun build_lookup :: "((string \<times> string) \<times> string) list \<Rightarrow> fsm_rule list \<Rightarrow>
    fsm_error + ((string \<times> string) \<times> string) list" where
  "build_lookup acc [] = Inr acc"
| "build_lookup acc (r # rs) =
     (if map_of acc (rule_from r, rule_event r) \<noteq> None then Inl (DuplicateRule (rule_from r) (rule_event r))
      else build_lookup (acc @ [((rule_from r, rule_event r), rule_to r)]) rs)"

definition make_fsm :: "string \<Rightarrow> string \<Rightarrow> string list \<Rightarrow> string \<Rightarrow> fsm_rule list \<Rightarrow> fsm_error + fsm" where
  "make_fsm name version states initial rules =
     (if initial \<notin> set states then Inl (UndeclaredInitial initial)
      else case find (\<lambda>r. rule_from r \<notin> set states \<or> rule_to r \<notin> set states) rules of
        Some r \<Rightarrow> Inl (UndeclaredRuleState r)
      | None \<Rightarrow> rbind (build_lookup [] rules) (\<lambda>lookup.
          Inr \<lparr>fsm_name = name, fsm_version = version, fsm_states = states,
            fsm_initial_state = initial, fsm_lookup = lookup\<rparr>))"

definition can_transition :: "fsm \<Rightarrow> string \<Rightarrow> string \<Rightarrow> bool" where
  "can_transition m s e = (map_of (fsm_lookup m) (s, e) \<noteq> None)"

definition next_state :: "fsm \<Rightarrow> string \<Rightarrow> string \<Rightarrow> string option" where
  "next_state m s e = map_of (fsm_lookup m) (s, e)"

definition allowed_events :: "fsm \<Rightarrow> string \<Rightarrow> string list" where
  "allowed_events m s = map (\<lambda>((state, event), to). event)
     (filter (\<lambda>((state, event), to). state = s) (fsm_lookup m))"

definition transition :: "fsm \<Rightarrow> string \<Rightarrow> string \<Rightarrow> temporal_error + string" where
  "transition m s e = (case map_of (fsm_lookup m) (s, e) of
     None \<Rightarrow> Inl (InvalidTransition (fsm_name m) s e (allowed_events m s))
   | Some t \<Rightarrow> Inr t)"

text \<open>What the constructor promises of the machines it returns.\<close>

definition fsm_legal :: "fsm \<Rightarrow> bool" where
  "fsm_legal m = (fsm_initial_state m \<in> set (fsm_states m) \<and>
     list_all (\<lambda>((s, e), t). s \<in> set (fsm_states m) \<and> t \<in> set (fsm_states m)) (fsm_lookup m) \<and>
     distinct (map fst (fsm_lookup m)))"

lemma build_lookup_distinct:
  "build_lookup acc rs = Inr l \<Longrightarrow> distinct (map fst acc) \<Longrightarrow> distinct (map fst l)"
proof (induction acc rs rule: build_lookup.induct)
  case (1 acc)
  then show ?case by simp
next
  case (2 acc r rs)
  then show ?case
    by (auto simp: map_of_eq_None_iff split: if_splits)
qed

lemma build_lookup_rules:
  "build_lookup acc rs = Inr l \<Longrightarrow>
     l = acc @ map (\<lambda>r. ((rule_from r, rule_event r), rule_to r)) rs"
  by (induction acc rs rule: build_lookup.induct) (auto split: if_splits)

lemma make_fsm_legal:
  assumes "make_fsm name version states initial rules = Inr m"
  shows "fsm_legal m"
proof -
  from assms obtain lookup where ini: "initial \<in> set states"
    and none: "find (\<lambda>r. rule_from r \<notin> set states \<or> rule_to r \<notin> set states) rules = None"
    and look: "build_lookup [] rules = Inr lookup"
    and m: "m = \<lparr>fsm_name = name, fsm_version = version, fsm_states = states,
            fsm_initial_state = initial, fsm_lookup = lookup\<rparr>"
    by (auto simp: make_fsm_def split: if_splits option.splits)
  have "lookup = map (\<lambda>r. ((rule_from r, rule_event r), rule_to r)) rules"
    using build_lookup_rules [OF look] by simp
  moreover have "distinct (map fst lookup)"
    using build_lookup_distinct [OF look] by simp
  ultimately show ?thesis
    using ini none by (auto simp: m fsm_legal_def list_all_iff find_None_iff)
qed

subsection \<open>The contract of a legal machine\<close>

locale legal_fsm =
  fixes m :: fsm
  assumes legal: "fsm_legal m"
begin

lemma initial_declared: "fsm_initial_state m \<in> set (fsm_states m)"
  using legal by (simp add: fsm_legal_def)

lemma transition_Inr_iff: "transition m s e = Inr t \<longleftrightarrow> next_state m s e = Some t"
  by (auto simp: transition_def next_state_def split: option.splits)

lemma transition_total_iff: "(\<exists>t. transition m s e = Inr t) \<longleftrightarrow> can_transition m s e"
  by (auto simp: transition_def can_transition_def split: option.splits)

lemma transition_closed:
  assumes "transition m s e = Inr t"
  shows "s \<in> set (fsm_states m)" and "t \<in> set (fsm_states m)"
proof -
  from assms have "((s, e), t) \<in> set (fsm_lookup m)"
    by (auto simp: transition_def split: option.splits dest: map_of_SomeD)
  with legal show "s \<in> set (fsm_states m)" and "t \<in> set (fsm_states m)"
    by (auto simp: fsm_legal_def list_all_iff)
qed

lemma allowed_events_iff: "e \<in> set (allowed_events m s) \<longleftrightarrow> can_transition m s e"
proof -
  have "e \<in> set (allowed_events m s) \<longleftrightarrow> (\<exists>t. ((s, e), t) \<in> set (fsm_lookup m))"
    by (force simp: allowed_events_def)
  also have "\<dots> \<longleftrightarrow> can_transition m s e"
    by (force simp: can_transition_def map_of_eq_None_iff)
  finally show ?thesis .
qed

lemma allowed_events_distinct: "distinct (allowed_events m s)"
proof -
  have "distinct (map fst (filter (\<lambda>x. fst (fst x) = s) (fsm_lookup m)))"
    using legal by (auto simp: fsm_legal_def distinct_map intro: inj_on_subset)
  moreover have "allowed_events m s =
      map snd (map fst (filter (\<lambda>x. fst (fst x) = s) (fsm_lookup m)))"
    by (simp add: allowed_events_def case_prod_unfold)
  moreover have "inj_on snd (set (map fst (filter (\<lambda>x. fst (fst x) = s) (fsm_lookup m))))"
    by (rule inj_onI) auto
  ultimately show ?thesis
    by (simp add: distinct_map comp_inj_on)
qed

lemma run_closed:
  "run_steps (transition m) s es = Inr t \<Longrightarrow> s \<in> set (fsm_states m) \<Longrightarrow> t \<in> set (fsm_states m)"
  by (rule run_steps_invariant [where P = "\<lambda>s. s \<in> set (fsm_states m)"])
    (auto intro: transition_closed)

end

lemma make_fsm_legal_fsm: "make_fsm name version states initial rules = Inr m \<Longrightarrow> legal_fsm m"
  by unfold_locales (rule make_fsm_legal)

end
