(* ===== verification/Temporal_Contracts.thy ===== *)
theory Temporal_Contracts
  imports Spatial_Contracts Fsm
begin

text \<open>
  The temporal contract (\<open>contracts/temporal/models.py\<close>): the state key and its canonical
  identity, the policy with its hysteresis validator, and the state, fact and checkpoint records of
  every temporal engine with the validators pydantic runs when one is constructed. The engines
  update a state with \<open>model_copy\<close>, which runs no validator: that they keep the validators true is
  therefore a theorem about each engine, not part of the model.
\<close>

text \<open>The construction of a contract object: a failing validator raises.\<close>

definition construct :: "string \<Rightarrow> ('a \<Rightarrow> bool) \<Rightarrow> 'a \<Rightarrow> temporal_error + 'a" where
  "construct cls valid x = (if valid x then Inr x else Inl (ContractViolation cls))"

lemma construct_eq_Inr [simp]: "construct cls valid x = Inr y \<longleftrightarrow> valid x \<and> y = x"
  by (auto simp: construct_def)

lemma construct_eq_Inl: "construct cls valid x = Inl e \<longleftrightarrow> \<not> valid x \<and> e = ContractViolation cls"
  by (auto simp: construct_def)

subsection \<open>Constants and enumerations\<close>

definition MOVEMENT_STATES :: "string list" where
  "MOVEMENT_STATES = [''unknown'', ''stationary'', ''moving'']"

definition WAITING_STATES :: "string list" where
  "WAITING_STATES = [''not_waiting'', ''waiting_candidate'', ''waiting'']"

definition TEMPORAL_ENGINE_VERSION :: string where
  "TEMPORAL_ENGINE_VERSION = ''0.2.0''"

definition TEMPORAL_ID_NAMESPACE :: uuid where
  "TEMPORAL_ID_NAMESPACE = 0x6ba7b8119dad11d180b400c04fd430c8"

datatype temporal_reason =
    OBSERVED_STAY
  | ENTER_CONFIRMED
  | EXIT_CONFIRMED
  | MISSING_EXPIRED
  | DEDUPLICATED
  | REORDERED
  | SESSION_CLOSED
  | MOVEMENT_EXCEEDED

fun reason_value :: "temporal_reason \<Rightarrow> string" where
  "reason_value OBSERVED_STAY = ''observed_stay''"
| "reason_value ENTER_CONFIRMED = ''enter_confirmed''"
| "reason_value EXIT_CONFIRMED = ''exit_confirmed''"
| "reason_value MISSING_EXPIRED = ''missing_expired''"
| "reason_value DEDUPLICATED = ''deduplicated''"
| "reason_value REORDERED = ''reordered''"
| "reason_value SESSION_CLOSED = ''session_closed''"
| "reason_value MOVEMENT_EXCEEDED = ''movement_exceeded''"

datatype temporal_occlusion_state = OBSERVED | TEMPORARILY_MISSING | NOT_OBSERVED

subsection \<open>State key\<close>

record temporal_state_key =
  key_fsm_kind :: string
  key_tenant_id :: uuid
  key_venue_id :: uuid
  key_session_id :: uuid
  key_camera_id :: uuid
  key_configuration_version_id :: uuid
  key_track_id :: uuid
  key_semantic_context :: "string option"

definition temporal_state_key_valid :: "temporal_state_key \<Rightarrow> bool" where
  "temporal_state_key_valid k = (key_fsm_kind k \<noteq> '''' \<and> key_semantic_context k \<noteq> Some '''')"

definition canonical :: "temporal_state_key \<Rightarrow> string" where
  "canonical k = join_str ''|''
     [key_fsm_kind k,
      str_uuid (key_tenant_id k),
      str_uuid (key_venue_id k),
      str_uuid (key_session_id k),
      str_uuid (key_camera_id k),
      str_uuid (key_configuration_version_id k),
      str_uuid (key_track_id k),
      (case key_semantic_context k of None \<Rightarrow> '''' | Some c \<Rightarrow> c)]"

subsection \<open>Policy\<close>

record temporal_policy =
  pol_revision :: string
  pol_reorder_window_seconds :: real
  pol_entry_confirmation :: int
  pol_exit_confirmation :: int
  pol_minimum_dwell_seconds :: real
  pol_exit_grace_seconds :: real
  pol_occlusion_tolerance_seconds :: real
  pol_dwell_minimum_seconds :: real
  pol_movement_threshold :: real
  pol_movement_enter_threshold :: real
  pol_movement_exit_threshold :: real
  pol_movement_qualification_seconds :: real
  pol_waiting_qualification_seconds :: real
  pol_waiting_contexts :: "string set"
  pol_transition_history_limit :: nat

definition default_policy :: temporal_policy where
  "default_policy = \<lparr>pol_revision = ''v1'', pol_reorder_window_seconds = 60,
     pol_entry_confirmation = 2, pol_exit_confirmation = 3, pol_minimum_dwell_seconds = 10,
     pol_exit_grace_seconds = 30, pol_occlusion_tolerance_seconds = 60,
     pol_dwell_minimum_seconds = 0, pol_movement_threshold = 0, pol_movement_enter_threshold = 0,
     pol_movement_exit_threshold = 0, pol_movement_qualification_seconds = 0,
     pol_waiting_qualification_seconds = 0, pol_waiting_contexts = {},
     pol_transition_history_limit = 8\<rparr>"

definition validate_hysteresis :: "temporal_policy \<Rightarrow> bool" where
  "validate_hysteresis p = (\<not> pol_movement_exit_threshold p > pol_movement_enter_threshold p)"

definition temporal_policy_valid :: "temporal_policy \<Rightarrow> bool" where
  "temporal_policy_valid p =
     (pol_revision p \<noteq> '''' \<and> 0 \<le> pol_reorder_window_seconds p \<and> 1 \<le> pol_entry_confirmation p \<and>
      1 \<le> pol_exit_confirmation p \<and> 0 \<le> pol_minimum_dwell_seconds p \<and>
      0 \<le> pol_exit_grace_seconds p \<and> 0 \<le> pol_occlusion_tolerance_seconds p \<and>
      0 \<le> pol_dwell_minimum_seconds p \<and> 0 \<le> pol_movement_threshold p \<and>
      0 \<le> pol_movement_enter_threshold p \<and> 0 \<le> pol_movement_exit_threshold p \<and>
      0 \<le> pol_movement_qualification_seconds p \<and> 0 \<le> pol_waiting_qualification_seconds p \<and>
      validate_hysteresis p)"

lemma default_policy_valid: "temporal_policy_valid default_policy"
  by (simp add: temporal_policy_valid_def validate_hysteresis_def default_policy_def)

subsection \<open>Transition and state of the foundation engine\<close>

record temporal_transition =
  tt_schema_version :: string
  tt_transition_id :: uuid
  tt_fsm_kind :: string
  tt_key :: temporal_state_key
  tt_from_state :: string
  tt_to_state :: string
  tt_event_kind :: string
  tt_reason :: temporal_reason
  tt_observation_frame_id :: uuid
  tt_event_time :: datetime
  tt_processing_time :: datetime
  tt_configuration_version_id :: uuid
  tt_fsm_version :: string

definition temporal_transition_valid :: "temporal_transition \<Rightarrow> bool" where
  "temporal_transition_valid t = (validate_schema_version (tt_schema_version t) \<and>
     aware (tt_event_time t) \<and> aware (tt_processing_time t))"

record temporal_state =
  ts_schema_version :: string
  ts_fsm_version :: string
  ts_key :: temporal_state_key
  ts_current_state :: string
  ts_state_since :: "datetime option"
  ts_last_seen :: "datetime option"
  ts_last_present_seen :: "datetime option"
  ts_watermark_event_time :: "datetime option"
  ts_last_applied_frame_id :: "uuid option"
  ts_entry_confirm_count :: int
  ts_exit_confirm_count :: int
  ts_occlusion_state :: temporal_occlusion_state
  ts_missing_since :: "datetime option"
  ts_recent_transitions :: "temporal_transition list"

definition temporal_state_valid :: "temporal_state \<Rightarrow> bool" where
  "temporal_state_valid s = (validate_schema_version (ts_schema_version s) \<and>
     validate_utc_opt (ts_state_since s) \<and> validate_utc_opt (ts_last_seen s) \<and>
     validate_utc_opt (ts_last_present_seen s) \<and> validate_utc_opt (ts_watermark_event_time s) \<and>
     validate_utc_opt (ts_missing_since s))"

subsection \<open>Dwell interval\<close>

record dwell_interval =
  di_schema_version :: string
  di_interval_id :: uuid
  di_fsm_kind :: string
  di_key :: temporal_state_key
  di_dwell_start :: datetime
  di_dwell_end :: "datetime option"
  di_last_seen :: datetime
  di_duration_seconds :: "real option"
  di_qualified :: bool
  di_minimum_dwell_seconds :: real
  di_reason :: "temporal_reason option"
  di_fsm_version :: string
  di_policy_revision :: string

definition dwell_interval_valid :: "dwell_interval \<Rightarrow> bool" where
  "dwell_interval_valid d =
     (validate_schema_version (di_schema_version d) \<and> di_fsm_kind d \<noteq> '''' \<and>
      0 \<le> di_minimum_dwell_seconds d \<and>
      aware (di_dwell_start d) \<and> validate_utc_opt (di_dwell_end d) \<and> aware (di_last_seen d) \<and>
      (case di_duration_seconds d of None \<Rightarrow> True | Some x \<Rightarrow> \<not> x < 0) \<and>
      (case di_dwell_end d of None \<Rightarrow> True | Some e \<Rightarrow> \<not> dt_less e (di_dwell_start d)) \<and>
      \<not> dt_less (di_last_seen d) (di_dwell_start d))"

subsection \<open>Occupancy\<close>

record occupancy_state =
  os_schema_version :: string
  os_fsm_version :: string
  os_key :: temporal_state_key
  os_occupied_tracks :: "uuid set"
  os_entity_positions :: "uuid \<rightharpoonup> datetime \<times> uuid"
  os_watermark_event_time :: "datetime option"
  os_last_applied_frame_id :: "uuid option"

definition occupancy_count :: "occupancy_state \<Rightarrow> nat" where
  "occupancy_count s = card (os_occupied_tracks s)"

definition validate_occupancy_invariants :: "occupancy_state \<Rightarrow> bool" where
  "validate_occupancy_invariants s =
     (key_fsm_kind (os_key s) = ''occupancy'' \<and> os_occupied_tracks s \<subseteq> dom (os_entity_positions s))"

definition occupancy_state_valid :: "occupancy_state \<Rightarrow> bool" where
  "occupancy_state_valid s = (validate_schema_version (os_schema_version s) \<and>
     validate_utc_opt (os_watermark_event_time s) \<and> validate_occupancy_invariants s)"

record occupancy_snapshot =
  sn_schema_version :: string
  sn_snapshot_id :: uuid
  sn_fsm_kind :: string
  sn_key :: temporal_state_key
  sn_event_time :: datetime
  sn_previous_count :: int
  sn_delta :: int
  sn_occupancy_count :: int
  sn_occupied_tracks :: "uuid list"
  sn_source_transition_id :: uuid
  sn_fsm_version :: string
  sn_policy_revision :: string

definition occupancy_snapshot_valid :: "occupancy_snapshot \<Rightarrow> bool" where
  "occupancy_snapshot_valid s =
     (validate_schema_version (sn_schema_version s) \<and> sn_fsm_kind s \<noteq> '''' \<and>
      aware (sn_event_time s) \<and> 0 \<le> sn_previous_count s \<and> 0 \<le> sn_occupancy_count s \<and>
      sn_previous_count s + sn_delta s = sn_occupancy_count s)"

subsection \<open>Movement\<close>

record movement_state =
  ms_schema_version :: string
  ms_fsm_version :: string
  ms_key :: temporal_state_key
  ms_current_state :: string
  ms_state_since :: "datetime option"
  ms_previous_position :: "spatial_point option"
  ms_previous_event_time :: "datetime option"
  ms_last_seen :: "datetime option"
  ms_watermark_event_time :: "datetime option"
  ms_last_applied_frame_id :: "uuid option"

definition validate_movement_invariants :: "movement_state \<Rightarrow> bool" where
  "validate_movement_invariants s =
     (key_fsm_kind (ms_key s) = ''movement'' \<and> ms_current_state s \<in> set MOVEMENT_STATES \<and>
      (ms_previous_position s = None) = (ms_previous_event_time s = None))"

definition movement_state_valid :: "movement_state \<Rightarrow> bool" where
  "movement_state_valid s = (validate_schema_version (ms_schema_version s) \<and>
     validate_utc_opt (ms_state_since s) \<and> validate_utc_opt (ms_previous_event_time s) \<and>
     validate_utc_opt (ms_last_seen s) \<and> validate_utc_opt (ms_watermark_event_time s) \<and>
     validate_movement_invariants s)"

record movement_measurement =
  mm_schema_version :: string
  mm_measurement_id :: uuid
  mm_fsm_kind :: string
  mm_key :: temporal_state_key
  mm_previous_position :: spatial_point
  mm_current_position :: spatial_point
  mm_previous_event_time :: datetime
  mm_event_time :: datetime
  mm_distance :: pyfloat
  mm_time_delta_seconds :: real
  mm_fsm_version :: string
  mm_policy_revision :: string

definition movement_measurement_valid :: "movement_measurement \<Rightarrow> bool" where
  "movement_measurement_valid m =
     (validate_schema_version (mm_schema_version m) \<and> mm_fsm_kind m \<noteq> '''' \<and>
      aware (mm_previous_event_time m) \<and> aware (mm_event_time m) \<and>
      float_nonneg (mm_distance m) \<and> 0 \<le> mm_time_delta_seconds m \<and>
      \<not> dt_less (mm_event_time m) (mm_previous_event_time m) \<and>
      sp_coordinate_space (mm_previous_position m) = sp_coordinate_space (mm_current_position m))"

subsection \<open>Movement classification\<close>

record movement_classification_state =
  cs_schema_version :: string
  cs_fsm_version :: string
  cs_key :: temporal_state_key
  cs_current_state :: string
  cs_state_since :: "datetime option"
  cs_pending_state :: "string option"
  cs_qualification_started :: "datetime option"
  cs_last_seen :: "datetime option"
  cs_watermark_event_time :: "datetime option"
  cs_last_applied_frame_id :: "uuid option"

definition validate_classification_invariants :: "movement_classification_state \<Rightarrow> bool" where
  "validate_classification_invariants s =
     (key_fsm_kind (cs_key s) = ''movement_classification'' \<and>
      cs_current_state s \<in> set MOVEMENT_STATES \<and>
      (case cs_pending_state s of None \<Rightarrow> True | Some p \<Rightarrow> p \<in> set MOVEMENT_STATES) \<and>
      (cs_pending_state s = None) = (cs_qualification_started s = None) \<and>
      cs_pending_state s \<noteq> Some (cs_current_state s))"

definition movement_classification_state_valid :: "movement_classification_state \<Rightarrow> bool" where
  "movement_classification_state_valid s = (validate_schema_version (cs_schema_version s) \<and>
     validate_utc_opt (cs_state_since s) \<and> validate_utc_opt (cs_qualification_started s) \<and>
     validate_utc_opt (cs_last_seen s) \<and> validate_utc_opt (cs_watermark_event_time s) \<and>
     validate_classification_invariants s)"

record movement_classification_transition =
  ct_schema_version :: string
  ct_transition_id :: uuid
  ct_fsm_kind :: string
  ct_key :: temporal_state_key
  ct_from_state :: string
  ct_to_state :: string
  ct_event_time :: datetime
  ct_measurement_id :: uuid
  ct_qualification_started :: "datetime option"
  ct_fsm_version :: string
  ct_policy_revision :: string

definition movement_classification_transition_valid :: "movement_classification_transition \<Rightarrow> bool" where
  "movement_classification_transition_valid t =
     (validate_schema_version (ct_schema_version t) \<and> ct_fsm_kind t \<noteq> '''' \<and>
      aware (ct_event_time t) \<and> validate_utc_opt (ct_qualification_started t) \<and>
      ct_from_state t \<in> set MOVEMENT_STATES \<and> ct_to_state t \<in> set MOVEMENT_STATES \<and>
      ct_from_state t \<noteq> ct_to_state t)"

subsection \<open>Waiting\<close>

record waiting_state =
  ws_schema_version :: string
  ws_fsm_version :: string
  ws_key :: temporal_state_key
  ws_current_state :: string
  ws_presence_confirmed :: bool
  ws_candidate_start :: "datetime option"
  ws_waiting_start :: "datetime option"
  ws_last_seen :: "datetime option"
  ws_watermark_event_time :: "datetime option"
  ws_last_applied_frame_id :: "uuid option"

definition validate_waiting_invariants :: "waiting_state \<Rightarrow> bool" where
  "validate_waiting_invariants s =
     (if key_fsm_kind (ws_key s) \<noteq> ''waiting'' then False
      else if ws_current_state s \<notin> set WAITING_STATES then False
      else if ws_current_state s = ''not_waiting'' then
        \<not> (ws_candidate_start s \<noteq> None \<or> ws_waiting_start s \<noteq> None)
      else if ws_current_state s = ''waiting_candidate'' then
        ws_candidate_start s \<noteq> None \<and> ws_waiting_start s = None \<and> ws_presence_confirmed s
      else ws_candidate_start s \<noteq> None \<and> ws_waiting_start s \<noteq> None \<and> ws_presence_confirmed s)"

definition waiting_state_valid :: "waiting_state \<Rightarrow> bool" where
  "waiting_state_valid s = (validate_schema_version (ws_schema_version s) \<and>
     validate_utc_opt (ws_candidate_start s) \<and> validate_utc_opt (ws_waiting_start s) \<and>
     validate_utc_opt (ws_last_seen s) \<and> validate_utc_opt (ws_watermark_event_time s) \<and>
     validate_waiting_invariants s)"

record waiting_interval =
  wi_schema_version :: string
  wi_interval_id :: uuid
  wi_fsm_kind :: string
  wi_key :: temporal_state_key
  wi_waiting_start :: datetime
  wi_waiting_end :: "datetime option"
  wi_last_seen :: datetime
  wi_duration_seconds :: "real option"
  wi_qualified :: bool
  wi_minimum_waiting_seconds :: real
  wi_reason :: "temporal_reason option"
  wi_fsm_version :: string
  wi_policy_revision :: string

definition waiting_interval_valid :: "waiting_interval \<Rightarrow> bool" where
  "waiting_interval_valid w =
     (validate_schema_version (wi_schema_version w) \<and> wi_fsm_kind w \<noteq> '''' \<and>
      0 \<le> wi_minimum_waiting_seconds w \<and>
      aware (wi_waiting_start w) \<and> validate_utc_opt (wi_waiting_end w) \<and> aware (wi_last_seen w) \<and>
      (case wi_duration_seconds w of None \<Rightarrow> True | Some x \<Rightarrow> \<not> x < 0) \<and>
      (case wi_waiting_end w of None \<Rightarrow> True | Some e \<Rightarrow> \<not> dt_less e (wi_waiting_start w)) \<and>
      \<not> dt_less (wi_last_seen w) (wi_waiting_start w))"

subsection \<open>Checkpoints\<close>

text \<open>
  The five checkpoint classes have the same fields around the state of their family; their
  validators check the schema version and the nested state.
\<close>

record 's checkpoint =
  cp_schema_version :: string
  cp_engine_version :: string
  cp_policy_revision :: string
  cp_state :: 's

type_synonym temporal_checkpoint = "temporal_state checkpoint"
type_synonym occupancy_state_checkpoint = "occupancy_state checkpoint"
type_synonym movement_state_checkpoint = "movement_state checkpoint"
type_synonym classification_state_checkpoint = "movement_classification_state checkpoint"
type_synonym waiting_state_checkpoint = "waiting_state checkpoint"

definition make_checkpoint :: "temporal_policy \<Rightarrow> 's \<Rightarrow> 's checkpoint" where
  "make_checkpoint p s = \<lparr>cp_schema_version = SCHEMA_VERSION,
     cp_engine_version = TEMPORAL_ENGINE_VERSION, cp_policy_revision = pol_revision p, cp_state = s\<rparr>"

lemma make_checkpoint_simps [simp]:
  "cp_schema_version (make_checkpoint p s) = SCHEMA_VERSION"
  "cp_engine_version (make_checkpoint p s) = TEMPORAL_ENGINE_VERSION"
  "cp_policy_revision (make_checkpoint p s) = pol_revision p"
  "cp_state (make_checkpoint p s) = s"
  by (simp_all add: make_checkpoint_def)

end
