(* ===== verification/Event_Order.thy ===== *)
theory Event_Order
  imports Temporal_Contracts
begin

text \<open>
  The ordering discipline every temporal engine follows: an input has a position
  \<open>(event_time, frame_id)\<close>, a state has a watermark, and an input is newer than the watermark,
  equal to it (a redelivery) or older. The locales state what an engine promises about its
  step function and prove once what follows for whole runs: the watermark only grows, a run has
  the same outcome as the run of its in-order inputs, a redelivered input changes nothing, and a
  checkpoint/restore in the middle of a run cannot be observed.
\<close>

subsection \<open>Comparing a position with the watermark\<close>

datatype position_order = Newer | Same | Older

text \<open>
  \<open>if watermark[0] is not None: if position == watermark: ... if position < watermark: ...\<close>, a
  comparison of tuples: with equal times it falls through to the frame ids, and comparing a frame
  id with \<open>None\<close> is a \<open>TypeError\<close>.
\<close>

definition compare_position ::
    "datetime \<times> uuid \<Rightarrow> datetime option \<Rightarrow> uuid option \<Rightarrow> temporal_error + position_order" where
  "compare_position position wm last_frame =
     (case wm of None \<Rightarrow> Inr Newer
      | Some w \<Rightarrow>
          if dt_eq (fst position) w \<and> last_frame = Some (snd position) then Inr Same
          else if dt_less (fst position) w then Inr Older
          else if dt_eq (fst position) w then
            (case last_frame of None \<Rightarrow> Inl PyTypeError
             | Some l \<Rightarrow> if snd position < l then Inr Older else Inr Newer)
          else Inr Newer)"

type_synonym mark = "(int \<times> uuid) option"

definition position_key :: "datetime \<times> uuid \<Rightarrow> int \<times> uuid" where
  "position_key position = (dt_instant (fst position), snd position)"

definition watermark :: "datetime option \<Rightarrow> uuid option \<Rightarrow> mark" where
  "watermark wm last_frame =
     (case (wm, last_frame) of (Some w, Some l) \<Rightarrow> Some (dt_instant w, l) | _ \<Rightarrow> None)"

definition newer_than :: "mark \<Rightarrow> int \<times> uuid \<Rightarrow> bool" where
  "newer_than m p = (case m of None \<Rightarrow> True | Some q \<Rightarrow> q < p)"

lemma newer_than_simps [simp]:
  "newer_than None p" "newer_than (Some q) p \<longleftrightarrow> q < p"
  by (simp_all add: newer_than_def)

text \<open>On a state whose watermark is set as a whole, the comparison is that of the pairs.\<close>

definition mark_whole :: "datetime option \<Rightarrow> uuid option \<Rightarrow> bool" where
  "mark_whole wm last_frame = ((wm = None) = (last_frame = None))"

lemma mark_whole_simps [simp]:
  "mark_whole None None" "mark_whole (Some w) (Some l)"
  by (simp_all add: mark_whole_def)

lemma watermark_simps [simp]:
  "watermark None l = None" "watermark (Some w) (Some f) = Some (dt_instant w, f)"
  "watermark v None = None"
  by (simp_all add: watermark_def split: option.splits)

lemma compare_position_whole:
  assumes "mark_whole wm l"
  shows "compare_position p wm l =
    (if newer_than (watermark wm l) (position_key p) then Inr Newer
     else if watermark wm l = Some (position_key p) then Inr Same else Inr Older)"
proof (cases wm)
  case None
  then show ?thesis by (simp add: compare_position_def)
next
  case (Some w)
  with assms obtain f where l: "l = Some f"
    by (cases l) (auto simp: mark_whole_def)
  show ?thesis
    by (cases p) (auto simp: Some l compare_position_def position_key_def dt_eq_def dt_less_def split: prod.splits)
qed

lemma compare_position_Newer:
  "mark_whole wm l \<Longrightarrow> compare_position p wm l = Inr Newer \<longleftrightarrow> newer_than (watermark wm l) (position_key p)"
  by (simp add: compare_position_whole)

lemma compare_position_total: "mark_whole wm l \<Longrightarrow> compare_position p wm l \<noteq> Inl e"
  by (simp add: compare_position_whole)

text \<open>What an input newer than the watermark gives whatever the watermark is.\<close>

lemma compare_position_Newer_time:
  "compare_position p (Some w) l = Inr Newer \<Longrightarrow> \<not> dt_less (fst p) w"
  by (auto simp: compare_position_def split: if_splits)

lemma compare_position_Same:
  "compare_position p wm l = Inr Same \<longleftrightarrow>
     (\<exists>w. wm = Some w \<and> dt_instant w = dt_instant (fst p) \<and> l = Some (snd p))"
  by (auto simp: compare_position_def dt_eq_def split: option.splits)

lemma compare_position_Older:
  "compare_position p wm l = Inr Older \<Longrightarrow> \<exists>w. wm = Some w \<and> \<not> dt_less w (fst p)"
  by (auto simp: compare_position_def dt_eq_def dt_less_def split: option.splits if_splits)

subsection \<open>Runs that collect facts\<close>

fun run_facts :: "('s \<Rightarrow> 'i \<Rightarrow> 'e + 's \<times> 'o list) \<Rightarrow> 's \<Rightarrow> 'i list \<Rightarrow> 'e + 's \<times> 'o list" where
  "run_facts f s [] = Inr (s, [])"
| "run_facts f s (i # is) = rbind (f s i) (\<lambda>(s1, o1).
     rbind (run_facts f s1 is) (\<lambda>(s2, o2). Inr (s2, o1 @ o2)))"

lemma run_facts_append:
  "run_facts f s (xs @ ys) = rbind (run_facts f s xs) (\<lambda>(s1, o1).
     rbind (run_facts f s1 ys) (\<lambda>(s2, o2). Inr (s2, o1 @ o2)))"
proof (induction xs arbitrary: s)
  case Nil
  then show ?case by (cases "run_facts f s ys") auto
next
  case (Cons x xs)
  then show ?case
    by (auto simp: rbind_def split: sum.splits prod.splits)
qed

lemma run_facts_Cons_Inr:
  "run_facts f s (i # is) = Inr (s', os) \<longleftrightarrow>
     (\<exists>s1 o1 o2. f s i = Inr (s1, o1) \<and> run_facts f s1 is = Inr (s', o2) \<and> os = o1 @ o2)"
  by (auto split: prod.splits)

lemma run_facts_invariant:
  assumes step: "\<And>s i s' os. P s \<Longrightarrow> f s i = Inr (s', os) \<Longrightarrow> P s'"
  shows "P s \<Longrightarrow> run_facts f s is = Inr (s', os) \<Longrightarrow> P s'"
proof (induction "is" arbitrary: s os)
  case Nil
  then show ?case by simp
next
  case (Cons i "is")
  then show ?case
    by (metis run_facts_Cons_Inr step)
qed

text \<open>The inputs that are newer than everything before them.\<close>

fun in_order :: "('i \<Rightarrow> int \<times> uuid) \<Rightarrow> mark \<Rightarrow> 'i list \<Rightarrow> 'i list" where
  "in_order pos m [] = []"
| "in_order pos m (i # is) =
     (if newer_than m (pos i) then i # in_order pos (Some (pos i)) is else in_order pos m is)"

lemma in_order_idem: "in_order pos m (in_order pos m is) = in_order pos m is"
  by (induction pos m "is" rule: in_order.induct) auto

lemma set_in_order: "set (in_order pos m is) \<subseteq> set is"
  by (induction pos m "is" rule: in_order.induct) auto

subsection \<open>The contract of an engine\<close>

locale engine_core =
  fixes step :: "'s \<Rightarrow> 'i \<Rightarrow> 'e + 's \<times> 'o list" and ok :: "'s \<Rightarrow> bool"
  assumes step_ok: "ok s \<Longrightarrow> step s i = Inr (s', os) \<Longrightarrow> ok s'"
begin

lemma run_ok: "ok s \<Longrightarrow> run_facts step s is = Inr (s', os) \<Longrightarrow> ok s'"
  by (rule run_facts_invariant [where P = ok]) (auto intro: step_ok)

end

locale event_time_engine = engine_core step ok
  for step :: "'s \<Rightarrow> 'i \<Rightarrow> 'e + 's \<times> 'o list" and ok :: "'s \<Rightarrow> bool" +
  fixes pos :: "'i \<Rightarrow> int \<times> uuid" and mark_of :: "'s \<Rightarrow> mark" and core :: "'s \<Rightarrow> 'c"
  assumes newer_mark: "ok s \<Longrightarrow> newer_than (mark_of s) (pos i) \<Longrightarrow> step s i = Inr (s', os) \<Longrightarrow>
      mark_of s' = Some (pos i)"
    and older_core: "ok s \<Longrightarrow> \<not> newer_than (mark_of s) (pos i) \<Longrightarrow> step s i = Inr (s', os) \<Longrightarrow>
      core s' = core s"
    and core_mark: "ok s \<Longrightarrow> ok t \<Longrightarrow> core s = core t \<Longrightarrow> mark_of s = mark_of t"
    and newer_core: "ok s \<Longrightarrow> ok t \<Longrightarrow> core s = core t \<Longrightarrow> newer_than (mark_of s) (pos i) \<Longrightarrow>
      step s i = Inr (s', os) \<Longrightarrow> \<exists>t'. step t i = Inr (t', os) \<and> core t' = core s'"
    and redelivery: "ok s \<Longrightarrow> newer_than (mark_of s) (pos i) \<Longrightarrow> step s i = Inr (s', os) \<Longrightarrow>
      \<exists>os'. step s' i = Inr (s', os')"
begin

lemma step_mark_mono:
  assumes "ok s" and "step s i = Inr (s', os)" and "mark_of s = Some m"
  shows "\<exists>m'. mark_of s' = Some m' \<and> m \<le> m'"
proof (cases "newer_than (mark_of s) (pos i)")
  case True
  with assms newer_mark [OF assms(1) True assms(2)] show ?thesis by auto
next
  case False
  from older_core [OF assms(1) False assms(2)] have "mark_of s' = mark_of s"
    using assms(1,2) core_mark step_ok by blast
  with assms(3) show ?thesis by simp
qed

lemma run_mark_mono:
  "ok s \<Longrightarrow> run_facts step s is = Inr (s', os) \<Longrightarrow> mark_of s = Some m \<Longrightarrow>
     \<exists>m'. mark_of s' = Some m' \<and> m \<le> m'"
proof (induction "is" arbitrary: s os m)
  case Nil
  then show ?case by auto
next
  case (Cons i "is")
  then obtain s1 o1 o2 where st: "step s i = Inr (s1, o1)" and run: "run_facts step s1 is = Inr (s', o2)"
    by (auto simp: run_facts_Cons_Inr simp del: run_facts.simps)
  from step_mark_mono [OF Cons.prems(1) st Cons.prems(3)]
  obtain m1 where "mark_of s1 = Some m1" and "m \<le> m1" by blast
  moreover from Cons.IH [OF step_ok [OF Cons.prems(1) st] run this(1)]
  obtain m' where "mark_of s' = Some m'" and "m1 \<le> m'" by blast
  ultimately show ?case by auto
qed

text \<open>Late and redelivered inputs leave no trace in the core of the state.\<close>

lemma run_in_order:
  "ok s \<Longrightarrow> ok t \<Longrightarrow> core s = core t \<Longrightarrow> run_facts step s is = Inr (s', os) \<Longrightarrow>
     \<exists>t' os'. run_facts step t (in_order pos (mark_of s) is) = Inr (t', os') \<and> core t' = core s'"
proof (induction "is" arbitrary: s t os)
  case Nil
  then show ?case by simp
next
  case (Cons i "is")
  from Cons.prems(4) obtain s1 o1 o2 where st: "step s i = Inr (s1, o1)"
    and run: "run_facts step s1 is = Inr (s', o2)"
    by (auto simp: run_facts_Cons_Inr simp del: run_facts.simps)
  note ok1 = step_ok [OF Cons.prems(1) st]
  show ?case
  proof (cases "newer_than (mark_of s) (pos i)")
    case True
    from newer_core [OF Cons.prems(1-3) True st] obtain t1 where
      t1: "step t i = Inr (t1, o1)" and core1: "core t1 = core s1" by blast
    have "mark_of s1 = Some (pos i)"
      by (rule newer_mark [OF Cons.prems(1) True st])
    with Cons.IH [OF ok1 step_ok [OF Cons.prems(2) t1] core1 [symmetric] run] True t1
    show ?thesis by (auto simp: run_facts_Cons_Inr)
  next
    case False
    from older_core [OF Cons.prems(1) False st] have same: "core s1 = core s" .
    then have "mark_of s1 = mark_of s"
      using core_mark [OF ok1 Cons.prems(1)] by blast
    with Cons.IH [OF ok1 Cons.prems(2) _ run] same Cons.prems(3) False
    show ?thesis by simp
  qed
qed

lemma run_core_of_in_order:
  assumes "ok s" and "run_facts step s is = Inr (s1, os1)" and "run_facts step s js = Inr (s2, os2)"
    and "in_order pos (mark_of s) is = in_order pos (mark_of s) js"
  shows "core s1 = core s2"
proof -
  obtain a oa where a: "run_facts step s (in_order pos (mark_of s) is) = Inr (a, oa)" "core a = core s1"
    using run_in_order [OF assms(1) assms(1) refl assms(2)] by blast
  obtain b ob where b: "run_facts step s (in_order pos (mark_of s) js) = Inr (b, ob)" "core b = core s2"
    using run_in_order [OF assms(1) assms(1) refl assms(3)] by blast
  from a b assms(4) show ?thesis by simp
qed

lemma older_mark: "ok s \<Longrightarrow> \<not> newer_than (mark_of s) (pos i) \<Longrightarrow> step s i = Inr (s', os) \<Longrightarrow>
    mark_of s' = mark_of s"
  using older_core core_mark step_ok by metis

lemma in_order_run_append:
  "ok s \<Longrightarrow> run_facts step s xs = Inr (s1, os) \<Longrightarrow>
     in_order pos (mark_of s) (xs @ ys) = in_order pos (mark_of s) xs @ in_order pos (mark_of s1) ys"
proof (induction xs arbitrary: s os)
  case Nil
  then show ?case by simp
next
  case (Cons i xs)
  then obtain s0 o1 o2 where st: "step s i = Inr (s0, o1)" and run: "run_facts step s0 xs = Inr (s1, o2)"
    by (auto simp: run_facts_Cons_Inr simp del: run_facts.simps)
  note IH = Cons.IH [OF step_ok [OF Cons.prems(1) st] run]
  show ?case
    using IH newer_mark [OF Cons.prems(1) _ st] older_mark [OF Cons.prems(1) _ st]
    by (cases "newer_than (mark_of s) (pos i)") simp_all
qed

text \<open>A property that relates the state to the history of its in-order inputs.\<close>

lemma run_history:
  assumes new: "\<And>s i s' os h. ok s \<Longrightarrow> newer_than (mark_of s) (pos i) \<Longrightarrow> step s i = Inr (s', os) \<Longrightarrow>
      R s h \<Longrightarrow> R s' (h @ [i])"
    and old: "\<And>s s' h. ok s \<Longrightarrow> ok s' \<Longrightarrow> core s' = core s \<Longrightarrow> R s h \<Longrightarrow> R s' h"
  shows "ok s \<Longrightarrow> R s h \<Longrightarrow> run_facts step s is = Inr (s', os) \<Longrightarrow>
      R s' (h @ in_order pos (mark_of s) is)"
proof (induction "is" arbitrary: s h os)
  case Nil
  then show ?case by simp
next
  case (Cons i "is")
  then obtain s0 o1 o2 where st: "step s i = Inr (s0, o1)" and run: "run_facts step s0 is = Inr (s', o2)"
    by (auto simp: run_facts_Cons_Inr simp del: run_facts.simps)
  note ok0 = step_ok [OF Cons.prems(1) st]
  show ?case
  proof (cases "newer_than (mark_of s) (pos i)")
    case True
    with Cons.IH [OF ok0 new [OF Cons.prems(1) True st Cons.prems(2)] run]
      newer_mark [OF Cons.prems(1) True st]
    show ?thesis by simp
  next
    case False
    with Cons.IH [OF ok0 old [OF Cons.prems(1) ok0 older_core [OF Cons.prems(1) False st] Cons.prems(2)] run]
      older_mark [OF Cons.prems(1) False st]
    show ?thesis by simp
  qed
qed

lemma redelivery_twice:
  "ok s \<Longrightarrow> newer_than (mark_of s) (pos i) \<Longrightarrow> step s i = Inr (s', os) \<Longrightarrow>
     \<exists>os'. run_facts step s [i, i] = Inr (s', os')"
  using redelivery by (fastforce simp: run_facts_Cons_Inr simp del: run_facts.simps(2))

end

locale restartable_engine = engine_core step ok
  for step :: "'s \<Rightarrow> 'i \<Rightarrow> 'e + 's \<times> 'o list" and ok :: "'s \<Rightarrow> bool" +
  fixes save :: "'s \<Rightarrow> 'k" and load :: "'k \<Rightarrow> 'e + 's"
  assumes load_save: "ok s \<Longrightarrow> load (save s) = Inr s"
begin

text \<open>Stopping after any prefix, and resuming from the checkpoint, is not observable.\<close>

lemma restart_transparent:
  assumes "ok s"
  shows "run_facts step s (xs @ ys) = rbind (run_facts step s xs) (\<lambda>(s1, o1).
     rbind (load (save s1)) (\<lambda>s2. rbind (run_facts step s2 ys) (\<lambda>(s3, o2). Inr (s3, o1 @ o2))))"
proof (cases "run_facts step s xs")
  case (Inl e)
  then show ?thesis by (simp add: run_facts_append)
next
  case (Inr r)
  then obtain s1 o1 where r: "run_facts step s xs = Inr (s1, o1)"
    by (cases r) auto
  then show ?thesis
    by (simp add: run_facts_append load_save [OF run_ok [OF assms r]])
qed

end

end
