(* ===== verification/Temporal_Engine.thy ===== *)
theory Temporal_Engine
  imports Event_Order
begin

text \<open>
  The foundation engine (\<open>TemporalEngine\<close> of \<open>temporal/engine.py\<close>): validation of the input,
  ordering against the watermark, redelivery, the out-of-order policy, materialisation of an
  evaluation, transition identities and checkpoints. The subclass hook \<open>_evaluate\<close> is an argument;
  the presence and dwell engines supply theirs.
\<close>

subsection \<open>Observations and inputs\<close>

datatype observation = SpatialObs spatial_observation | LineObs line_crossing_observation

fun observation_position :: "observation \<Rightarrow> datetime \<times> uuid" where
  "observation_position (SpatialObs ob) = (so_event_time ob, so_frame_id ob)"
| "observation_position (LineObs ob) = (lc_current_event_time ob, lc_current_frame_id ob)"

fun obs_session_id :: "observation \<Rightarrow> uuid" where
  "obs_session_id (SpatialObs ob) = so_session_id ob"
| "obs_session_id (LineObs ob) = lc_session_id ob"

fun obs_track_id :: "observation \<Rightarrow> uuid" where
  "obs_track_id (SpatialObs ob) = so_track_id ob"
| "obs_track_id (LineObs ob) = lc_track_id ob"

fun obs_camera_id :: "observation \<Rightarrow> uuid" where
  "obs_camera_id (SpatialObs ob) = so_camera_id ob"
| "obs_camera_id (LineObs ob) = lc_camera_id ob"

fun obs_configuration_version_id :: "observation \<Rightarrow> uuid" where
  "obs_configuration_version_id (SpatialObs ob) = so_configuration_version_id ob"
| "obs_configuration_version_id (LineObs ob) = lc_configuration_version_id ob"

record temporal_input =
  in_key :: temporal_state_key
  in_observation :: observation
  in_observation_kind :: string
  in_processing_time :: datetime

record temporal_result =
  res_state :: temporal_state
  res_transitions :: "temporal_transition list"
  res_deduplicated :: bool
  res_dwell_intervals :: "dwell_interval list"

record evaluation =
  ev_state :: string
  ev_reason :: temporal_reason
  ev_present_seen :: bool
  ev_state_since :: "datetime option"
  ev_entry_confirm_count :: int
  ev_exit_confirm_count :: int
  ev_occlusion_state :: temporal_occlusion_state
  ev_missing_since :: "datetime option"

text \<open>An evaluation with the defaults of the dataclass; the fields given are updated.\<close>

definition Evaluation :: "string \<Rightarrow> temporal_reason \<Rightarrow> evaluation" where
  "Evaluation st reason = \<lparr>ev_state = st, ev_reason = reason, ev_present_seen = False,
     ev_state_since = None, ev_entry_confirm_count = 0, ev_exit_confirm_count = 0,
     ev_occlusion_state = NOT_OBSERVED, ev_missing_since = None\<rparr>"

record engine =
  eng_fsm :: fsm
  eng_policy :: temporal_policy
  eng_observation_kinds :: "string list"

subsection \<open>Public operations\<close>

definition te_initial_state :: "engine \<Rightarrow> temporal_state_key \<Rightarrow> temporal_state" where
  "te_initial_state E key = \<lparr>ts_schema_version = SCHEMA_VERSION,
     ts_fsm_version = fsm_version (eng_fsm E), ts_key = key,
     ts_current_state = fsm_initial_state (eng_fsm E), ts_state_since = None, ts_last_seen = None,
     ts_last_present_seen = None, ts_watermark_event_time = None, ts_last_applied_frame_id = None,
     ts_entry_confirm_count = 0, ts_exit_confirm_count = 0, ts_occlusion_state = NOT_OBSERVED,
     ts_missing_since = None, ts_recent_transitions = []\<rparr>"

definition check_key_matches_observation ::
    "temporal_state_key \<Rightarrow> observation \<Rightarrow> temporal_error + unit" where
  "check_key_matches_observation key ob =
     (let mismatches =
        (if key_session_id key \<noteq> obs_session_id ob then [''session_id''] else []) @
        (if key_track_id key \<noteq> obs_track_id ob then [''track_id''] else []) @
        (if key_camera_id key \<noteq> obs_camera_id ob then [''camera_id''] else []) @
        (if key_configuration_version_id key \<noteq> obs_configuration_version_id ob
         then [''configuration_version_id''] else [])
      in ensure (mismatches = []) (StateKeyMismatch mismatches))"

definition te_validate :: "engine \<Rightarrow> temporal_state \<Rightarrow> temporal_input \<Rightarrow> temporal_error + unit" where
  "te_validate E st inp =
     (let kind = in_observation_kind inp; ob = in_observation inp; m = eng_fsm E in
      if kind = '''' then Inl (InvalidTemporalInput MissingObservationKind)
      else if eng_observation_kinds E \<noteq> [] \<and> kind \<notin> set (eng_observation_kinds E)
      then Inl (InvalidTemporalInput (UnknownObservationKind kind))
      else if key_fsm_kind (ts_key st) \<noteq> fsm_name m
      then Inl (InvalidTemporalInput (StateFsmKindMismatch (key_fsm_kind (ts_key st))))
      else if \<not> aware (in_processing_time inp) then Inl (InvalidTemporalInput NaiveProcessingTime)
      else if \<not> aware (fst (observation_position ob)) then Inl (InvalidTemporalInput NaiveEventTime)
      else if ts_fsm_version st \<noteq> fsm_version m
      then Inl (FsmVersionMismatch (ts_fsm_version st) (fsm_version m))
      else check_key_matches_observation (in_key inp) ob)"

definition te_build_transition :: "stdlib \<Rightarrow> engine \<Rightarrow> temporal_state_key \<Rightarrow> uuid \<Rightarrow> datetime \<Rightarrow> string \<Rightarrow>
    string \<Rightarrow> string \<Rightarrow> temporal_reason \<Rightarrow> datetime \<Rightarrow> temporal_error + temporal_transition" where
  "te_build_transition L E key frame_id event_time kind from_state to_state reason processing_time =
     (let identity = join_str ''|''
        [canonical key, str_uuid frame_id, std_isoformat L event_time, from_state, to_state, kind,
         reason_value reason]
      in construct ''TemporalTransition'' temporal_transition_valid
        \<lparr>tt_schema_version = SCHEMA_VERSION,
         tt_transition_id = std_uuid5 L TEMPORAL_ID_NAMESPACE identity,
         tt_fsm_kind = key_fsm_kind key, tt_key = key, tt_from_state = from_state,
         tt_to_state = to_state, tt_event_kind = kind, tt_reason = reason,
         tt_observation_frame_id = frame_id, tt_event_time = event_time,
         tt_processing_time = processing_time,
         tt_configuration_version_id = key_configuration_version_id key,
         tt_fsm_version = fsm_version (eng_fsm E)\<rparr>)"

definition te_apply_out_of_order :: "stdlib \<Rightarrow> engine \<Rightarrow> temporal_state \<Rightarrow> temporal_input \<Rightarrow> datetime \<Rightarrow>
    temporal_error + temporal_result" where
  "te_apply_out_of_order L E st inp wm =
     (let event_time = fst (observation_position (in_observation inp));
          frame_id = snd (observation_position (in_observation inp));
          delta = seconds_between wm event_time
      in if delta \<le> pol_reorder_window_seconds (eng_policy E) then
           (let last_seen = (case ts_last_seen st of
                  Some seen \<Rightarrow> if dt_less event_time seen then seen else event_time
                | None \<Rightarrow> event_time);
                updated = st\<lparr>ts_last_seen := Some last_seen\<rparr>
            in rbind (te_build_transition L E (in_key inp) frame_id event_time
                 (in_observation_kind inp) (ts_current_state st) (ts_current_state st) REORDERED
                 (in_processing_time inp)) (\<lambda>transition.
               Inr \<lparr>res_state = updated, res_transitions = [transition],
                 res_deduplicated = False, res_dwell_intervals = []\<rparr>))
         else Inl (LateEvent delta))"

definition push_history :: "nat \<Rightarrow> 'a list \<Rightarrow> 'a \<Rightarrow> 'a list" where
  "push_history limit recent tr =
     (let history = recent @ [tr]
      in if limit > 0 \<and> length history > limit then last_n limit history else history)"

definition te_apply_evaluation :: "engine \<Rightarrow> temporal_state \<Rightarrow> evaluation \<Rightarrow> temporal_transition \<Rightarrow>
    datetime \<Rightarrow> uuid \<Rightarrow> temporal_state" where
  "te_apply_evaluation E st ev tr event_time frame_id =
     st\<lparr>ts_current_state := ev_state ev,
        ts_state_since := (if ev_state_since ev \<noteq> None then ev_state_since ev else ts_state_since st),
        ts_last_seen := Some event_time,
        ts_last_present_seen := (if ev_present_seen ev then Some event_time else ts_last_present_seen st),
        ts_watermark_event_time := Some event_time,
        ts_last_applied_frame_id := Some frame_id,
        ts_entry_confirm_count := ev_entry_confirm_count ev,
        ts_exit_confirm_count := ev_exit_confirm_count ev,
        ts_occlusion_state := ev_occlusion_state ev,
        ts_missing_since := ev_missing_since ev,
        ts_recent_transitions := push_history (pol_transition_history_limit (eng_policy E))
          (ts_recent_transitions st) tr\<rparr>"

type_synonym evaluator =
  "temporal_state \<Rightarrow> string \<Rightarrow> datetime \<Rightarrow> observation \<Rightarrow> temporal_error + evaluation"

definition te_apply :: "stdlib \<Rightarrow> engine \<Rightarrow> evaluator \<Rightarrow> temporal_state \<Rightarrow> temporal_input \<Rightarrow>
    temporal_error + temporal_result" where
  "te_apply L E evaluate st inp =
     rbind (te_validate E st inp) (\<lambda>_.
       let ob = in_observation inp; kind = in_observation_kind inp;
           position = observation_position ob; event_time = fst position; frame_id = snd position
       in rbind (compare_position position (ts_watermark_event_time st) (ts_last_applied_frame_id st))
         (\<lambda>order. case order of
            Same \<Rightarrow> rbind (te_build_transition L E (in_key inp) frame_id event_time kind
                (ts_current_state st) (ts_current_state st) DEDUPLICATED (in_processing_time inp))
              (\<lambda>transition. Inr \<lparr>res_state = st, res_transitions = [transition],
                 res_deduplicated = True, res_dwell_intervals = []\<rparr>)
          | Older \<Rightarrow> te_apply_out_of_order L E st inp (the (ts_watermark_event_time st))
          | Newer \<Rightarrow> rbind (evaluate st kind event_time ob) (\<lambda>evaluation.
              rbind (te_build_transition L E (in_key inp) frame_id event_time kind
                (ts_current_state st) (ev_state evaluation) (ev_reason evaluation)
                (in_processing_time inp)) (\<lambda>transition.
              Inr \<lparr>res_state = te_apply_evaluation E st evaluation transition event_time frame_id,
                 res_transitions = [transition], res_deduplicated = False,
                 res_dwell_intervals = []\<rparr>))))"

definition te_checkpoint :: "engine \<Rightarrow> temporal_state \<Rightarrow> temporal_checkpoint" where
  "te_checkpoint E st = make_checkpoint (eng_policy E) st"

definition te_restore :: "engine \<Rightarrow> temporal_checkpoint \<Rightarrow> temporal_error + temporal_state" where
  "te_restore E cp =
     (let m = eng_fsm E; st = cp_state cp in
      if cp_engine_version cp \<noteq> TEMPORAL_ENGINE_VERSION
      then Inl (FsmVersionMismatch (cp_engine_version cp) TEMPORAL_ENGINE_VERSION)
      else if cp_policy_revision cp \<noteq> pol_revision (eng_policy E)
      then Inl (CheckpointIntegrity (cp_policy_revision cp) (pol_revision (eng_policy E)))
      else if ts_fsm_version st \<noteq> fsm_version m
      then Inl (FsmVersionMismatch (ts_fsm_version st) (fsm_version m))
      else if key_fsm_kind (ts_key st) \<noteq> fsm_name m
      then Inl (InvalidTemporalInput (CheckpointFsmKindMismatch (key_fsm_kind (ts_key st))))
      else Inr st)"

subsection \<open>The foundation invariant\<close>

text \<open>
  What every state of a family satisfies: the contract's validators, the family and the version of
  the engine, a watermark set as a whole, and a watermark not older than any other time recorded.
\<close>

definition time_le :: "datetime option \<Rightarrow> datetime option \<Rightarrow> bool" where
  "time_le a b = (case a of None \<Rightarrow> True | Some x \<Rightarrow> (case b of None \<Rightarrow> False | Some y \<Rightarrow> \<not> dt_less y x))"

lemma time_le_None [simp]: "time_le None b"
  by (simp add: time_le_def)

lemma time_le_Some [simp]: "time_le (Some x) (Some y) \<longleftrightarrow> \<not> dt_less y x"
  by (simp add: time_le_def)

lemma time_le_refl [simp]: "time_le a a"
  by (cases a) (simp_all add: dt_less_def)

lemma time_le_trans: "time_le a b \<Longrightarrow> time_le b c \<Longrightarrow> time_le a c"
  by (auto simp: time_le_def dt_less_def split: option.splits)

lemma time_le_trans_newer:
  "time_le a wm \<Longrightarrow> compare_position p wm l = Inr Newer \<Longrightarrow> time_le a (Some (fst p))"
  by (cases a; cases wm)
    (auto simp: time_le_def dt_less_def dest!: compare_position_Newer_time)

definition te_ok :: "engine \<Rightarrow> temporal_state \<Rightarrow> bool" where
  "te_ok E s = (temporal_state_valid s \<and> key_fsm_kind (ts_key s) = fsm_name (eng_fsm E) \<and>
     ts_fsm_version s = fsm_version (eng_fsm E) \<and> ts_current_state s \<in> set (fsm_states (eng_fsm E)) \<and>
     mark_whole (ts_watermark_event_time s) (ts_last_applied_frame_id s) \<and>
     time_le (ts_state_since s) (ts_watermark_event_time s) \<and>
     time_le (ts_last_present_seen s) (ts_watermark_event_time s) \<and>
     time_le (ts_watermark_event_time s) (ts_last_seen s))"

definition te_mark :: "temporal_state \<Rightarrow> mark" where
  "te_mark s = watermark (ts_watermark_event_time s) (ts_last_applied_frame_id s)"

definition te_pos :: "temporal_input \<Rightarrow> int \<times> uuid" where
  "te_pos inp = position_key (observation_position (in_observation inp))"

text \<open>The core of a state: everything but \<open>last_seen\<close>, which a late input may refresh.\<close>

definition te_core :: "temporal_state \<Rightarrow> temporal_state" where
  "te_core s = s\<lparr>ts_last_seen := None\<rparr>"

lemma te_core_eq_iff:
  "te_core s = te_core t \<longleftrightarrow> (\<exists>v. s = t\<lparr>ts_last_seen := v\<rparr>)"
  by (cases s; cases t) (auto simp: te_core_def)

lemma te_initial_ok:
  "fsm_initial_state (eng_fsm E) \<in> set (fsm_states (eng_fsm E)) \<Longrightarrow>
     key_fsm_kind key = fsm_name (eng_fsm E) \<Longrightarrow> te_ok E (te_initial_state E key)"
  by (simp add: te_ok_def te_initial_state_def temporal_state_valid_def mark_whole_def)

text \<open>An evaluator stays in the machine's states and stamps times of the event at hand.\<close>

definition evaluator_ok :: "engine \<Rightarrow> evaluator \<Rightarrow> bool" where
  "evaluator_ok E evaluate = (\<forall>s kind t ob ev.
     aware t \<longrightarrow> te_ok E s \<longrightarrow> time_le (ts_watermark_event_time s) (Some t) \<longrightarrow>
     evaluate s kind t ob = Inr ev \<longrightarrow>
       ev_state ev \<in> set (fsm_states (eng_fsm E)) \<and>
       (ev_state_since ev = None \<or> ev_state_since ev = Some t) \<and>
       (ev_missing_since ev = None \<or> ev_missing_since ev = Some t \<or>
        ev_missing_since ev = ts_missing_since s))"

text \<open>An evaluator that does not read \<open>last_seen\<close>.\<close>

definition evaluator_core :: "evaluator \<Rightarrow> bool" where
  "evaluator_core evaluate = (\<forall>s v kind t ob. evaluate (s\<lparr>ts_last_seen := v\<rparr>) kind t ob = evaluate s kind t ob)"

subsection \<open>Steps\<close>

text \<open>The three ways an input is accepted.\<close>

lemma te_validate_Inr:
  "te_validate E s inp = Inr u \<Longrightarrow>
     key_fsm_kind (ts_key s) = fsm_name (eng_fsm E) \<and> ts_fsm_version s = fsm_version (eng_fsm E) \<and>
     aware (in_processing_time inp) \<and> aware (fst (observation_position (in_observation inp))) \<and>
     check_key_matches_observation (in_key inp) (in_observation inp) = Inr ()"
  by (auto simp: te_validate_def Let_def split: if_splits)

lemma te_validate_core:
  "ts_key s = ts_key t \<Longrightarrow> ts_fsm_version s = ts_fsm_version t \<Longrightarrow> te_validate E s inp = te_validate E t inp"
  by (simp add: te_validate_def Let_def)

lemma te_build_transition_Inr:
  "te_build_transition L E key f t kind a b r pt = Inr tr \<Longrightarrow>
     temporal_transition_valid tr \<and> tt_from_state tr = a \<and> tt_to_state tr = b \<and> tt_reason tr = r \<and>
     tt_event_time tr = t \<and> tt_observation_frame_id tr = f \<and> tt_key tr = key"
  by (auto simp: te_build_transition_def Let_def)

lemma te_build_transition_total:
  "aware t \<Longrightarrow> aware pt \<Longrightarrow> \<exists>tr. te_build_transition L E key f t kind a b r pt = Inr tr"
  by (simp add: te_build_transition_def Let_def temporal_transition_valid_def)

lemma te_apply_Newer:
  assumes "te_apply L E evaluate s inp = Inr r" and "te_ok E s"
    and "newer_than (te_mark s) (te_pos inp)"
  obtains ev tr where
    "te_validate E s inp = Inr ()"
    "compare_position (observation_position (in_observation inp)) (ts_watermark_event_time s)
       (ts_last_applied_frame_id s) = Inr Newer"
    "evaluate s (in_observation_kind inp) (fst (observation_position (in_observation inp)))
       (in_observation inp) = Inr ev"
    "te_build_transition L E (in_key inp) (snd (observation_position (in_observation inp)))
       (fst (observation_position (in_observation inp))) (in_observation_kind inp)
       (ts_current_state s) (ev_state ev) (ev_reason ev) (in_processing_time inp) = Inr tr"
    "res_state r = te_apply_evaluation E s ev tr (fst (observation_position (in_observation inp)))
       (snd (observation_position (in_observation inp)))"
    "res_transitions r = [tr]"
proof -
  have "compare_position (observation_position (in_observation inp)) (ts_watermark_event_time s)
       (ts_last_applied_frame_id s) = Inr Newer"
    using assms(2,3) by (simp add: compare_position_Newer te_ok_def te_mark_def te_pos_def)
  with assms(1) that show thesis
    by (auto simp: te_apply_def Let_def)
qed

lemma te_apply_not_Newer:
  assumes "te_apply L E evaluate s inp = Inr r" and "te_ok E s"
    and "\<not> newer_than (te_mark s) (te_pos inp)"
  shows "res_state r = s \<or> (\<exists>seen. ts_watermark_event_time s \<noteq> None \<and> aware seen \<and>
           res_state r = s\<lparr>ts_last_seen := Some seen\<rparr> \<and> time_le (ts_last_seen s) (Some seen))"
proof -
  let ?p = "observation_position (in_observation inp)"
  have cmp: "compare_position ?p (ts_watermark_event_time s) (ts_last_applied_frame_id s) =
      (if te_mark s = Some (te_pos inp) then Inr Same else Inr Older)"
    using assms(2,3) by (simp add: compare_position_whole te_ok_def te_mark_def te_pos_def)
  have aw: "aware (fst ?p)"
    using assms(1) by (auto simp: te_apply_def dest!: te_validate_Inr)
  show ?thesis
  proof (cases "te_mark s = Some (te_pos inp)")
    case True
    with assms(1) cmp show ?thesis by (auto simp: te_apply_def Let_def)
  next
    case False
    with cmp have old: "compare_position ?p (ts_watermark_event_time s) (ts_last_applied_frame_id s) = Inr Older"
      by simp
    with assms(1) have "te_apply_out_of_order L E s inp (the (ts_watermark_event_time s)) = Inr r"
      by (auto simp: te_apply_def Let_def)
    moreover have "ts_watermark_event_time s \<noteq> None"
      using compare_position_Older [OF old] by auto
    moreover have "validate_utc_opt (ts_last_seen s)"
      using assms(2) by (simp add: te_ok_def temporal_state_valid_def)
    ultimately show ?thesis
      using aw by (cases "ts_last_seen s")
        (auto simp: te_apply_out_of_order_def Let_def dt_less_def split: if_splits)
  qed
qed

lemma te_apply_total:
  assumes val: "te_validate E s inp = Inr ()"
    and cmp: "compare_position (observation_position (in_observation inp)) (ts_watermark_event_time s)
       (ts_last_applied_frame_id s) = Inr order"
    and new: "order = Newer \<Longrightarrow> \<exists>ev. evaluate s (in_observation_kind inp)
       (fst (observation_position (in_observation inp))) (in_observation inp) = Inr ev"
    and old: "order = Older \<Longrightarrow> seconds_between (the (ts_watermark_event_time s))
       (fst (observation_position (in_observation inp))) \<le> pol_reorder_window_seconds (eng_policy E)"
  shows "\<exists>r. te_apply L E evaluate s inp = Inr r"
proof -
  let ?p = "observation_position (in_observation inp)"
  have total: "\<exists>tr. te_build_transition L E (in_key inp) (snd ?p) (fst ?p) k a b r
      (in_processing_time inp) = Inr tr" for k a b r
    using te_validate_Inr [OF val] by (intro te_build_transition_total) simp_all
  show ?thesis
  proof (cases order)
    case Newer
    with new obtain ev where "evaluate s (in_observation_kind inp) (fst ?p) (in_observation inp) = Inr ev"
      by blast
    with Newer val cmp total [of "in_observation_kind inp" "ts_current_state s" "ev_state ev" "ev_reason ev"]
    show ?thesis by (auto simp: te_apply_def Let_def)
  next
    case Same
    with val cmp total [of "in_observation_kind inp" "ts_current_state s" "ts_current_state s" DEDUPLICATED]
    show ?thesis by (auto simp: te_apply_def Let_def)
  next
    case Older
    with old val cmp total [of "in_observation_kind inp" "ts_current_state s" "ts_current_state s" REORDERED]
    show ?thesis by (auto simp: te_apply_def te_apply_out_of_order_def Let_def)
  qed
qed

lemma te_apply_Older_window:
  assumes "te_apply L E evaluate s inp = Inr r"
    and "compare_position (observation_position (in_observation inp)) (ts_watermark_event_time s)
       (ts_last_applied_frame_id s) = Inr Older"
  shows "seconds_between (the (ts_watermark_event_time s)) (fst (observation_position (in_observation inp)))
     \<le> pol_reorder_window_seconds (eng_policy E)"
  using assms by (auto simp: te_apply_def te_apply_out_of_order_def Let_def split: if_splits)

lemma te_ok_last_seen:
  "te_ok E s \<Longrightarrow> ts_watermark_event_time s \<noteq> None \<Longrightarrow> aware seen \<Longrightarrow>
     time_le (ts_last_seen s) (Some seen) \<Longrightarrow> te_ok E (s\<lparr>ts_last_seen := Some seen\<rparr>)"
  by (cases "ts_last_seen s"; cases "ts_watermark_event_time s")
    (auto simp: te_ok_def temporal_state_valid_def time_le_def dt_less_def)

lemma te_apply_evaluation_ok:
  assumes ok: "te_ok E s" and aw: "aware t"
    and cmp: "compare_position (t, f) (ts_watermark_event_time s) (ts_last_applied_frame_id s) = Inr Newer"
    and st: "ev_state ev \<in> set (fsm_states (eng_fsm E))"
    and since: "ev_state_since ev = None \<or> ev_state_since ev = Some t"
    and miss: "ev_missing_since ev = None \<or> ev_missing_since ev = Some t \<or>
        ev_missing_since ev = ts_missing_since s"
  shows "te_ok E (te_apply_evaluation E s ev tr t f)"
proof -
  have "time_le (ts_state_since s) (Some t)" "time_le (ts_last_present_seen s) (Some t)"
    using ok time_le_trans_newer [OF _ cmp] by (simp_all add: te_ok_def)
  then show ?thesis
    using ok aw st since miss
    by (auto simp: te_ok_def te_apply_evaluation_def temporal_state_valid_def mark_whole_def)
qed

lemma te_apply_ok:
  assumes ev: "evaluator_ok E evaluate" and ok: "te_ok E s" and ap: "te_apply L E evaluate s inp = Inr r"
  shows "te_ok E (res_state r)"
proof (cases "newer_than (te_mark s) (te_pos inp)")
  case True
  let ?p = "observation_position (in_observation inp)"
  from te_apply_Newer [OF ap ok True] obtain ev tr where
    val: "te_validate E s inp = Inr ()"
    and cmp: "compare_position ?p (ts_watermark_event_time s) (ts_last_applied_frame_id s) = Inr Newer"
    and e: "evaluate s (in_observation_kind inp) (fst ?p) (in_observation inp) = Inr ev"
    and r: "res_state r = te_apply_evaluation E s ev tr (fst ?p) (snd ?p)"
    by metis
  have aw: "aware (fst ?p)" using te_validate_Inr [OF val] by simp
  have "time_le (ts_watermark_event_time s) (Some (fst ?p))"
    using time_le_trans_newer [OF time_le_refl cmp] .
  with ev ok aw e have "ev_state ev \<in> set (fsm_states (eng_fsm E))"
    and "ev_state_since ev = None \<or> ev_state_since ev = Some (fst ?p)"
    and "ev_missing_since ev = None \<or> ev_missing_since ev = Some (fst ?p) \<or>
        ev_missing_since ev = ts_missing_since s"
    unfolding evaluator_ok_def by blast+
  with te_apply_evaluation_ok [OF ok aw, of "snd ?p" ev] cmp show ?thesis
    by (simp add: r)
next
  case False
  with te_apply_not_Newer [OF ap ok False] ok te_ok_last_seen show ?thesis by auto
qed

lemma te_newer_mark:
  "te_apply L E evaluate s inp = Inr r \<Longrightarrow> te_ok E s \<Longrightarrow> newer_than (te_mark s) (te_pos inp) \<Longrightarrow>
     te_mark (res_state r) = Some (te_pos inp)"
  by (erule te_apply_Newer, assumption, assumption)
    (simp add: te_mark_def te_apply_evaluation_def te_pos_def position_key_def)

lemma te_older_core:
  "te_apply L E evaluate s inp = Inr r \<Longrightarrow> te_ok E s \<Longrightarrow> \<not> newer_than (te_mark s) (te_pos inp) \<Longrightarrow>
     te_core (res_state r) = te_core s"
  using te_apply_not_Newer [of L E evaluate s inp r] by (auto simp: te_core_def)

lemma te_core_mark: "te_core s = te_core t \<Longrightarrow> te_mark s = te_mark t"
  by (auto simp: te_core_eq_iff te_mark_def)

lemma te_newer_core:
  assumes ec: "evaluator_core evaluate" and ok: "te_ok E s" "te_ok E t" and core: "te_core s = te_core t"
    and newer: "newer_than (te_mark s) (te_pos inp)" and ap: "te_apply L E evaluate s inp = Inr r"
  shows "\<exists>r'. te_apply L E evaluate t inp = Inr r' \<and> res_transitions r' = res_transitions r \<and>
      te_core (res_state r') = te_core (res_state r)"
proof -
  from core obtain v where t: "t = s\<lparr>ts_last_seen := v\<rparr>"
    using te_core_eq_iff by metis
  from te_apply_Newer [OF ap ok(1) newer] obtain ev tr where
    facts: "te_validate E s inp = Inr ()"
    "compare_position (observation_position (in_observation inp)) (ts_watermark_event_time s)
       (ts_last_applied_frame_id s) = Inr Newer"
    "evaluate s (in_observation_kind inp) (fst (observation_position (in_observation inp)))
       (in_observation inp) = Inr ev"
    "te_build_transition L E (in_key inp) (snd (observation_position (in_observation inp)))
       (fst (observation_position (in_observation inp))) (in_observation_kind inp)
       (ts_current_state s) (ev_state ev) (ev_reason ev) (in_processing_time inp) = Inr tr"
    "res_state r = te_apply_evaluation E s ev tr (fst (observation_position (in_observation inp)))
       (snd (observation_position (in_observation inp)))"
    "res_transitions r = [tr]"
    by metis
  have "te_validate E t inp = Inr ()"
    using facts(1) te_validate_core [of t s E inp] by (simp add: t)
  with facts ec show ?thesis
    by (simp add: te_apply_def t Let_def evaluator_core_def te_core_def te_apply_evaluation_def)
qed

lemma te_redelivery:
  assumes ok: "te_ok E s" and newer: "newer_than (te_mark s) (te_pos inp)"
    and ap: "te_apply L E evaluate s inp = Inr r"
  shows "\<exists>r'. te_apply L E evaluate (res_state r) inp = Inr r' \<and> res_state r' = res_state r \<and>
     res_deduplicated r'"
proof -
  let ?p = "observation_position (in_observation inp)"
  from te_apply_Newer [OF ap ok newer] obtain ev tr where
    val: "te_validate E s inp = Inr ()"
    and r: "res_state r = te_apply_evaluation E s ev tr (fst ?p) (snd ?p)"
    by metis
  have "te_validate E (res_state r) inp = Inr ()"
    using val te_validate_core [of "res_state r" s E inp] by (simp add: r te_apply_evaluation_def)
  moreover have "compare_position ?p (ts_watermark_event_time (res_state r))
      (ts_last_applied_frame_id (res_state r)) = Inr Same"
    by (simp add: compare_position_Same r te_apply_evaluation_def)
  moreover obtain tr' where "te_build_transition L E (in_key inp) (snd ?p) (fst ?p)
      (in_observation_kind inp) (ts_current_state (res_state r)) (ts_current_state (res_state r))
      DEDUPLICATED (in_processing_time inp) = Inr tr'"
    using te_build_transition_total te_validate_Inr [OF val] by metis
  ultimately show ?thesis
    by (simp add: te_apply_def Let_def)
qed

lemma te_restore_checkpoint: "te_ok E s \<Longrightarrow> te_restore E (te_checkpoint E s) = Inr s"
  by (simp add: te_restore_def te_checkpoint_def te_ok_def)

lemma te_restore_Inr_iff:
  "te_restore E cp = Inr s \<longleftrightarrow> s = cp_state cp \<and> cp_engine_version cp = TEMPORAL_ENGINE_VERSION \<and>
     cp_policy_revision cp = pol_revision (eng_policy E) \<and>
     ts_fsm_version s = fsm_version (eng_fsm E) \<and> key_fsm_kind (ts_key s) = fsm_name (eng_fsm E)"
  by (auto simp: te_restore_def Let_def)

lemma length_push_history:
  "0 < limit \<Longrightarrow> length recent \<le> limit \<Longrightarrow> length (push_history limit recent tr) \<le> limit"
  by (simp add: push_history_def Let_def)

subsection \<open>The engine as an instance of the ordering contract\<close>

definition te_step :: "stdlib \<Rightarrow> engine \<Rightarrow> evaluator \<Rightarrow> temporal_state \<Rightarrow> temporal_input \<Rightarrow>
    temporal_error + temporal_state \<times> temporal_transition list" where
  "te_step L E evaluate s inp =
     rbind (te_apply L E evaluate s inp) (\<lambda>r. Inr (res_state r, res_transitions r))"

lemma te_step_Inr:
  "te_step L E evaluate s inp = Inr (s', trs) \<longleftrightarrow>
     (\<exists>r. te_apply L E evaluate s inp = Inr r \<and> s' = res_state r \<and> trs = res_transitions r)"
  by (auto simp: te_step_def)

lemma te_step_newer:
  assumes "te_step L E evaluate s inp = Inr (s', trs)" and "te_ok E s"
    and "newer_than (te_mark s) (te_pos inp)"
  obtains ev tr t f where
    "t = fst (observation_position (in_observation inp))"
    "f = snd (observation_position (in_observation inp))"
    "te_validate E s inp = Inr ()"
    "evaluate s (in_observation_kind inp) t (in_observation inp) = Inr ev"
    "s' = te_apply_evaluation E s ev tr t f" "trs = [tr]" "temporal_transition_valid tr"
    "tt_reason tr = ev_reason ev" "tt_from_state tr = ts_current_state s"
    "tt_to_state tr = ev_state ev" "tt_event_time tr = t" "tt_key tr = in_key inp" "aware t"
    "time_le (ts_watermark_event_time s) (Some t)"
proof -
  let ?p = "observation_position (in_observation inp)"
  from assms(1) obtain r where r: "te_apply L E evaluate s inp = Inr r" "s' = res_state r"
    "trs = res_transitions r"
    by (auto simp: te_step_Inr)
  from te_apply_Newer [OF r(1) assms(2,3)] obtain ev tr where
    val: "te_validate E s inp = Inr ()"
    and cmp: "compare_position ?p (ts_watermark_event_time s) (ts_last_applied_frame_id s) = Inr Newer"
    and ev: "evaluate s (in_observation_kind inp) (fst ?p) (in_observation inp) = Inr ev"
    and tr: "te_build_transition L E (in_key inp) (snd ?p) (fst ?p) (in_observation_kind inp)
       (ts_current_state s) (ev_state ev) (ev_reason ev) (in_processing_time inp) = Inr tr"
    and st: "res_state r = te_apply_evaluation E s ev tr (fst ?p) (snd ?p)"
    and trs: "res_transitions r = [tr]"
    by metis
  have aw: "aware (fst ?p)" using te_validate_Inr [OF val] by simp
  have le: "time_le (ts_watermark_event_time s) (Some (fst ?p))"
    by (rule time_le_trans_newer [OF time_le_refl cmp])
  show thesis
    by (rule that [where tr = tr, OF refl refl val ev])
      (use st trs r te_build_transition_Inr [OF tr] aw le in simp_all)
qed

lemma te_step_not_newer:
  assumes "te_step L E evaluate s inp = Inr (s', trs)" and "te_ok E s"
    and "\<not> newer_than (te_mark s) (te_pos inp)"
  obtains tr where "te_core s' = te_core s" "trs = [tr]" "tt_reason tr \<in> {DEDUPLICATED, REORDERED}"
    "tt_from_state tr = ts_current_state s" "tt_to_state tr = ts_current_state s"
proof -
  let ?p = "observation_position (in_observation inp)"
  from assms(1) obtain r where r: "te_apply L E evaluate s inp = Inr r" "s' = res_state r"
    "trs = res_transitions r"
    by (auto simp: te_step_Inr)
  have cmp: "compare_position ?p (ts_watermark_event_time s) (ts_last_applied_frame_id s) =
      (if te_mark s = Some (te_pos inp) then Inr Same else Inr Older)"
    using assms(2,3) by (simp add: compare_position_whole te_ok_def te_mark_def te_pos_def)
  have "\<exists>tr. trs = [tr] \<and> tt_reason tr \<in> {DEDUPLICATED, REORDERED} \<and>
      tt_from_state tr = ts_current_state s \<and> tt_to_state tr = ts_current_state s"
    using r(1,3) cmp
    by (cases "te_mark s = Some (te_pos inp)")
      (auto simp: te_apply_def te_apply_out_of_order_def Let_def split: if_splits
        dest!: te_build_transition_Inr)
  with te_older_core [OF r(1) assms(2,3)] r(2) that show thesis by blast
qed

lemma te_step_one_fact:
  assumes "te_step L E evaluate s inp = Inr (s', trs)" and "te_ok E s"
  shows "\<exists>tr. trs = [tr]"
  using assms te_step_newer te_step_not_newer by (metis (no_types))

text \<open>Every fact carries the key of its input and the position of its observation.\<close>

lemma te_apply_fact_provenance:
  assumes "te_apply L E evaluate s inp = Inr r"
  shows "\<exists>tr. res_transitions r = [tr] \<and> tt_key tr = in_key inp \<and>
    (tt_event_time tr, tt_observation_frame_id tr) = observation_position (in_observation inp) \<and>
    aware (in_processing_time inp) \<and> aware (tt_event_time tr)"
proof -
  have val: "te_validate E s inp = Inr ()" using assms by (auto simp: te_apply_def)
  show ?thesis
    using assms te_validate_Inr [OF val]
    by (cases "compare_position (observation_position (in_observation inp)) (ts_watermark_event_time s)
        (ts_last_applied_frame_id s)")
      (auto simp: te_apply_def te_apply_out_of_order_def Let_def dest!: te_build_transition_Inr
        split: position_order.splits if_splits)
qed

lemma te_step_event_time_engine:
  assumes "evaluator_ok E evaluate" and "evaluator_core evaluate"
  shows "event_time_engine (te_step L E evaluate) (te_ok E) te_pos te_mark te_core"
proof
  fix s t i s' os
  show "te_ok E s \<Longrightarrow> te_step L E evaluate s i = Inr (s', os) \<Longrightarrow> te_ok E s'"
    using te_apply_ok [OF assms(1)] by (auto simp: te_step_Inr)
  show "te_ok E s \<Longrightarrow> newer_than (te_mark s) (te_pos i) \<Longrightarrow> te_step L E evaluate s i = Inr (s', os) \<Longrightarrow>
      te_mark s' = Some (te_pos i)"
    using te_newer_mark by (auto simp: te_step_Inr)
  show "te_ok E s \<Longrightarrow> \<not> newer_than (te_mark s) (te_pos i) \<Longrightarrow> te_step L E evaluate s i = Inr (s', os) \<Longrightarrow>
      te_core s' = te_core s"
    using te_older_core by (auto simp: te_step_Inr)
  show "te_core s = te_core t \<Longrightarrow> te_mark s = te_mark t"
    by (rule te_core_mark)
  show "te_ok E s \<Longrightarrow> te_ok E t \<Longrightarrow> te_core s = te_core t \<Longrightarrow> newer_than (te_mark s) (te_pos i) \<Longrightarrow>
      te_step L E evaluate s i = Inr (s', os) \<Longrightarrow>
      \<exists>t'. te_step L E evaluate t i = Inr (t', os) \<and> te_core t' = te_core s'"
    using te_newer_core [OF assms(2), of E s t i L] by (fastforce simp: te_step_Inr)
  show "te_ok E s \<Longrightarrow> newer_than (te_mark s) (te_pos i) \<Longrightarrow> te_step L E evaluate s i = Inr (s', os) \<Longrightarrow>
      \<exists>os'. te_step L E evaluate s' i = Inr (s', os')"
    using te_redelivery [of E s i L evaluate] by (fastforce simp: te_step_Inr)
qed

lemma te_step_restartable_engine:
  assumes "evaluator_ok E evaluate"
  shows "restartable_engine (te_step L E evaluate) (te_ok E) (te_checkpoint E) (te_restore E)"
proof
  fix s i s' os
  show "te_ok E s \<Longrightarrow> te_step L E evaluate s i = Inr (s', os) \<Longrightarrow> te_ok E s'"
    using te_apply_ok [OF assms] by (auto simp: te_step_Inr)
  show "te_ok E s \<Longrightarrow> te_restore E (te_checkpoint E s) = Inr s"
    by (rule te_restore_checkpoint)
qed

end
