(* ===== verification/Samples.thy ===== *)
theory Samples
  imports Temporal_Engine
begin

text \<open>
  Concrete data on which the theorems are exercised: an instance of the standard-library argument,
  a policy with small thresholds, keys and observations of two tracks.
\<close>

definition sample_lib :: stdlib where
  "sample_lib = \<lparr>std_uuid5 = (\<lambda>ns name. ns), std_isoformat = (\<lambda>t. ''t''), std_repr_float = (\<lambda>x. ''x''),
     std_parse_float = (\<lambda>s. None)\<rparr>"

definition sample_policy :: temporal_policy where
  "sample_policy = default_policy\<lparr>pol_minimum_dwell_seconds := 1, pol_exit_grace_seconds := 2,
     pol_exit_confirmation := 2, pol_occlusion_tolerance_seconds := 5, pol_reorder_window_seconds := 3,
     pol_movement_threshold := 1 / 10, pol_movement_enter_threshold := 1 / 5,
     pol_movement_exit_threshold := 1 / 10, pol_movement_qualification_seconds := 2,
     pol_waiting_qualification_seconds := 2, pol_waiting_contexts := {''queue-1''}\<rparr>"

lemma sample_policy_valid [simp]: "temporal_policy_valid sample_policy"
  by (simp add: sample_policy_def default_policy_def temporal_policy_valid_def validate_hysteresis_def)

lemma sample_policy_simps [simp]:
  "pol_revision sample_policy = ''v1''"
  "pol_minimum_dwell_seconds sample_policy = 1" "pol_exit_grace_seconds sample_policy = 2"
  "pol_entry_confirmation sample_policy = 2" "pol_exit_confirmation sample_policy = 2"
  "pol_occlusion_tolerance_seconds sample_policy = 5" "pol_reorder_window_seconds sample_policy = 3"
  "pol_dwell_minimum_seconds sample_policy = 0" "pol_movement_threshold sample_policy = 1 / 10"
  "pol_movement_enter_threshold sample_policy = 1 / 5"
  "pol_movement_exit_threshold sample_policy = 1 / 10"
  "pol_movement_qualification_seconds sample_policy = 2"
  "pol_waiting_qualification_seconds sample_policy = 2"
  "pol_waiting_contexts sample_policy = {''queue-1''}" "pol_transition_history_limit sample_policy = 8"
  by (simp_all add: sample_policy_def default_policy_def)

definition sample_key :: "string \<Rightarrow> uuid \<Rightarrow> temporal_state_key" where
  "sample_key kind track = \<lparr>key_fsm_kind = kind, key_tenant_id = 1, key_venue_id = 2,
     key_session_id = 3, key_camera_id = 4, key_configuration_version_id = 5, key_track_id = track,
     key_semantic_context = Some ''queue-1''\<rparr>"

lemma sample_key_simps [simp]:
  "key_fsm_kind (sample_key kind track) = kind" "key_tenant_id (sample_key kind track) = 1"
  "key_venue_id (sample_key kind track) = 2" "key_session_id (sample_key kind track) = 3"
  "key_camera_id (sample_key kind track) = 4"
  "key_configuration_version_id (sample_key kind track) = 5"
  "key_track_id (sample_key kind track) = track"
  "key_semantic_context (sample_key kind track) = Some ''queue-1''"
  by (simp_all add: sample_key_def)

definition sample_obs :: "uuid \<Rightarrow> int \<Rightarrow> uuid \<Rightarrow> real \<Rightarrow> spatial_observation" where
  "sample_obs track seconds frame x = \<lparr>so_schema_version = SCHEMA_VERSION, so_session_id = 3,
     so_track_id = track, so_frame_id = frame, so_event_time = utc_at (seconds * 1000000),
     so_camera_id = 4, so_configuration_version_id = 5,
     so_spatial_point = \<lparr>sp_x = Fin x, sp_y = Fin (1 / 2), sp_coordinate_space = IMAGE_NORMALIZED,
       sp_policy = CENTROID\<rparr>, so_status = INSIDE, so_zone_profile_id = Some ''queue-1'',
     so_table_profile_id = None, so_engine_version = SPATIAL_ENGINE_VERSION\<rparr>"

lemma sample_obs_simps [simp]:
  "so_session_id (sample_obs track seconds frame x) = 3"
  "so_track_id (sample_obs track seconds frame x) = track"
  "so_frame_id (sample_obs track seconds frame x) = frame"
  "so_event_time (sample_obs track seconds frame x) = utc_at (seconds * 1000000)"
  "so_camera_id (sample_obs track seconds frame x) = 4"
  "so_configuration_version_id (sample_obs track seconds frame x) = 5"
  by (simp_all add: sample_obs_def)

definition sample_input :: "string \<Rightarrow> uuid \<Rightarrow> string \<Rightarrow> int \<Rightarrow> uuid \<Rightarrow> temporal_input" where
  "sample_input family track kind seconds frame = \<lparr>in_key = sample_key family track,
     in_observation = SpatialObs (sample_obs track seconds frame (1 / 4)),
     in_observation_kind = kind, in_processing_time = utc_at (seconds * 1000000)\<rparr>"

lemma sample_input_simps [simp]:
  "in_key (sample_input family track kind seconds frame) = sample_key family track"
  "in_observation (sample_input family track kind seconds frame) =
     SpatialObs (sample_obs track seconds frame (1 / 4))"
  "in_observation_kind (sample_input family track kind seconds frame) = kind"
  "in_processing_time (sample_input family track kind seconds frame) = utc_at (seconds * 1000000)"
  by (simp_all add: sample_input_def)

text \<open>What evaluating a step of the foundation engine on such data needs.\<close>

lemmas te_eval =
  te_step_def te_apply_def te_validate_def check_key_matches_observation_def compare_position_def
  te_build_transition_def construct_def temporal_transition_valid_def te_apply_evaluation_def
  te_apply_out_of_order_def push_history_def te_initial_state_def dt_eq_def dt_less_def
  seconds_between_def Let_def ensure_def sample_lib_def

definition sample_fact :: "uuid \<Rightarrow> temporal_reason \<Rightarrow> int \<Rightarrow> uuid \<Rightarrow> temporal_transition" where
  "sample_fact track reason seconds frame = \<lparr>tt_schema_version = SCHEMA_VERSION, tt_transition_id = 0,
     tt_fsm_kind = ''presence'', tt_key = sample_key ''presence'' track, tt_from_state = ''present'',
     tt_to_state = ''present'', tt_event_kind = ''present'', tt_reason = reason,
     tt_observation_frame_id = frame, tt_event_time = utc_at (seconds * 1000000),
     tt_processing_time = utc_at (seconds * 1000000), tt_configuration_version_id = 5,
     tt_fsm_version = TEMPORAL_ENGINE_VERSION\<rparr>"

lemma sample_fact_simps [simp]:
  "tt_key (sample_fact track reason seconds frame) = sample_key ''presence'' track"
  "tt_reason (sample_fact track reason seconds frame) = reason"
  "tt_observation_frame_id (sample_fact track reason seconds frame) = frame"
  "tt_event_time (sample_fact track reason seconds frame) = utc_at (seconds * 1000000)"
  by (simp_all add: sample_fact_def)

end
