(* ===== verification/Presence.thy ===== *)
theory Presence
  imports Samples
begin

text \<open>
  The enter/exit engine (\<open>temporal/presence.py\<close> and \<open>PresenceTemporalEngine\<close> of
  \<open>temporal/engine.py\<close>): the four-state machine, the mapping from spatial statuses to observation
  kinds and the evaluator with its confirmation counters, dwell and grace guards and occlusion
  tolerance.
\<close>

subsection \<open>The machine\<close>

definition presence_rules :: "fsm_rule list" where
  "presence_rules =
    [FsmRule ''absent'' ''enter_pending'' ''entering'',
     FsmRule ''absent'' ''enter_confirmed'' ''present'',
     FsmRule ''entering'' ''enter_confirmed'' ''present'',
     FsmRule ''entering'' ''enter_aborted'' ''absent'',
     FsmRule ''absent'' ''stay'' ''absent'',
     FsmRule ''entering'' ''stay'' ''entering'',
     FsmRule ''present'' ''stay'' ''present'',
     FsmRule ''exiting'' ''stay'' ''exiting'',
     FsmRule ''present'' ''exit_pending'' ''exiting'',
     FsmRule ''present'' ''exit_confirmed'' ''absent'',
     FsmRule ''present'' ''missing_expired'' ''absent'',
     FsmRule ''exiting'' ''exit_confirmed'' ''absent'',
     FsmRule ''exiting'' ''recovered'' ''present'',
     FsmRule ''absent'' ''session_closed'' ''absent'',
     FsmRule ''entering'' ''session_closed'' ''absent'',
     FsmRule ''present'' ''session_closed'' ''absent'',
     FsmRule ''exiting'' ''session_closed'' ''absent'']"

definition presence_states :: "string list" where
  "presence_states = [''absent'', ''entering'', ''present'', ''exiting'']"

lemma presence_states_cases:
  assumes "st \<in> set presence_states"
  obtains (absent) "st = ''absent''" | (entering) "st = ''entering''" | (present) "st = ''present''"
    | (exiting) "st = ''exiting''"
  using assms by (auto simp: presence_states_def)

lemma presence_states_members [simp]:
  "''absent'' \<in> set presence_states" "''entering'' \<in> set presence_states"
  "''present'' \<in> set presence_states" "''exiting'' \<in> set presence_states"
  by (simp_all add: presence_states_def)

definition PRESENCE_FSM :: fsm where
  "PRESENCE_FSM = \<lparr>fsm_name = ''presence'', fsm_version = TEMPORAL_ENGINE_VERSION,
     fsm_states = presence_states, fsm_initial_state = ''absent'',
     fsm_lookup = map (\<lambda>r. ((rule_from r, rule_event r), rule_to r)) presence_rules\<rparr>"

lemma PRESENCE_FSM_constructed:
  "make_fsm ''presence'' TEMPORAL_ENGINE_VERSION presence_states ''absent'' presence_rules = Inr PRESENCE_FSM"
  by (simp add: make_fsm_def PRESENCE_FSM_def presence_rules_def presence_states_def)

interpretation presence_fsm: legal_fsm PRESENCE_FSM
  by (rule make_fsm_legal_fsm [OF PRESENCE_FSM_constructed])

lemma presence_fsm_simps [simp]:
  "fsm_name PRESENCE_FSM = ''presence''"
  "fsm_version PRESENCE_FSM = TEMPORAL_ENGINE_VERSION"
  "fsm_initial_state PRESENCE_FSM = ''absent''"
  "fsm_states PRESENCE_FSM = presence_states"
  by (simp_all add: PRESENCE_FSM_def)

lemma presence_transition [simp]:
  "transition PRESENCE_FSM ''absent'' ''enter_pending'' = Inr ''entering''"
  "transition PRESENCE_FSM ''absent'' ''enter_confirmed'' = Inr ''present''"
  "transition PRESENCE_FSM ''entering'' ''enter_confirmed'' = Inr ''present''"
  "transition PRESENCE_FSM ''entering'' ''enter_aborted'' = Inr ''absent''"
  "transition PRESENCE_FSM ''present'' ''exit_pending'' = Inr ''exiting''"
  "transition PRESENCE_FSM ''present'' ''exit_confirmed'' = Inr ''absent''"
  "transition PRESENCE_FSM ''present'' ''missing_expired'' = Inr ''absent''"
  "transition PRESENCE_FSM ''exiting'' ''exit_confirmed'' = Inr ''absent''"
  "transition PRESENCE_FSM ''exiting'' ''recovered'' = Inr ''present''"
  by (simp_all add: transition_def PRESENCE_FSM_def presence_rules_def)

lemma presence_transition_closed [simp]:
  "st \<in> set presence_states \<Longrightarrow> transition PRESENCE_FSM st ''session_closed'' = Inr ''absent''"
  by (auto simp: transition_def PRESENCE_FSM_def presence_rules_def presence_states_def)

definition presence_kind :: "spatial_observation \<Rightarrow> string" where
  "presence_kind ob = (if so_status ob = INSIDE \<or> so_status ob = AMBIGUOUS then ''present''
     else if so_status ob = OUTSIDE then ''absent'' else ''not_observed'')"

subsection \<open>The engine\<close>

definition presence_observation_kinds :: "string list" where
  "presence_observation_kinds = [''present'', ''absent'', ''not_observed'', ''session_closed'']"

definition presence_engine :: "temporal_policy \<Rightarrow> engine" where
  "presence_engine p = \<lparr>eng_fsm = PRESENCE_FSM, eng_policy = p,
     eng_observation_kinds = presence_observation_kinds\<rparr>"

lemma presence_engine_simps [simp]:
  "eng_fsm (presence_engine p) = PRESENCE_FSM"
  "eng_policy (presence_engine p) = p"
  "eng_observation_kinds (presence_engine p) = presence_observation_kinds"
  by (simp_all add: presence_engine_def)

definition dwell_ok :: "temporal_policy \<Rightarrow> temporal_state \<Rightarrow> datetime \<Rightarrow> bool" where
  "dwell_ok p st event_time = (case ts_state_since st of None \<Rightarrow> True
     | Some since \<Rightarrow> seconds_between event_time since \<ge> pol_minimum_dwell_seconds p)"

definition grace_ok :: "temporal_policy \<Rightarrow> temporal_state \<Rightarrow> datetime \<Rightarrow> bool" where
  "grace_ok p st event_time = (case ts_last_present_seen st of None \<Rightarrow> True
     | Some seen \<Rightarrow> seconds_between event_time seen \<ge> pol_exit_grace_seconds p)"

text \<open>\<open>gap >= occlusion_tolerance_seconds\<close>, where a state never seen present has an infinite gap.\<close>

definition gap_expired :: "temporal_policy \<Rightarrow> temporal_state \<Rightarrow> datetime \<Rightarrow> bool" where
  "gap_expired p st event_time = (case ts_last_present_seen st of None \<Rightarrow> True
     | Some seen \<Rightarrow> seconds_between event_time seen \<ge> pol_occlusion_tolerance_seconds p)"

definition missing_since_or :: "temporal_state \<Rightarrow> datetime \<Rightarrow> datetime option" where
  "missing_since_or st event_time = (case ts_missing_since st of None \<Rightarrow> Some event_time | Some m \<Rightarrow> Some m)"

definition evaluate_present :: "temporal_policy \<Rightarrow> fsm \<Rightarrow> temporal_state \<Rightarrow> datetime \<Rightarrow>
    temporal_error + evaluation" where
  "evaluate_present p m st event_time =
     (let current = ts_current_state st in
      if current = ''absent'' then
        if pol_entry_confirmation p = 1 then
          rbind (transition m ''absent'' ''enter_confirmed'') (\<lambda>next_st.
            Inr ((Evaluation next_st ENTER_CONFIRMED)
              \<lparr>ev_present_seen := True, ev_state_since := Some event_time\<rparr>))
        else
          rbind (transition m ''absent'' ''enter_pending'') (\<lambda>next_st.
            Inr ((Evaluation next_st OBSERVED_STAY)
              \<lparr>ev_present_seen := True, ev_state_since := Some event_time,
               ev_entry_confirm_count := 1, ev_occlusion_state := OBSERVED\<rparr>))
      else if current = ''entering'' then
        let entry = ts_entry_confirm_count st + 1 in
        if entry \<ge> pol_entry_confirmation p then
          rbind (transition m ''entering'' ''enter_confirmed'') (\<lambda>next_st.
            Inr ((Evaluation next_st ENTER_CONFIRMED)
              \<lparr>ev_present_seen := True, ev_state_since := Some event_time\<rparr>))
        else Inr ((Evaluation ''entering'' OBSERVED_STAY)
               \<lparr>ev_present_seen := True, ev_entry_confirm_count := entry,
                ev_occlusion_state := OBSERVED\<rparr>)
      else if current = ''exiting'' then
        rbind (transition m ''exiting'' ''recovered'') (\<lambda>next_st.
          Inr ((Evaluation next_st OBSERVED_STAY)
            \<lparr>ev_present_seen := True, ev_state_since := Some event_time,
             ev_occlusion_state := OBSERVED\<rparr>))
      else Inr ((Evaluation ''present'' OBSERVED_STAY)
             \<lparr>ev_present_seen := True, ev_occlusion_state := OBSERVED\<rparr>))"

definition evaluate_absent :: "temporal_policy \<Rightarrow> fsm \<Rightarrow> temporal_state \<Rightarrow> datetime \<Rightarrow>
    temporal_error + evaluation" where
  "evaluate_absent p m st event_time =
     (let current = ts_current_state st in
      if current = ''absent'' then Inr (Evaluation ''absent'' OBSERVED_STAY)
      else if current = ''entering'' then
        rbind (transition m ''entering'' ''enter_aborted'') (\<lambda>next_st.
          Inr ((Evaluation next_st OBSERVED_STAY)\<lparr>ev_state_since := Some event_time\<rparr>))
      else if current = ''present'' then
        if dwell_ok p st event_time \<and> grace_ok p st event_time then
          if pol_exit_confirmation p = 1 then
            rbind (transition m ''present'' ''exit_confirmed'') (\<lambda>next_st.
              Inr ((Evaluation next_st EXIT_CONFIRMED)\<lparr>ev_state_since := Some event_time\<rparr>))
          else
            rbind (transition m ''present'' ''exit_pending'') (\<lambda>next_st.
              Inr ((Evaluation next_st OBSERVED_STAY)
                \<lparr>ev_state_since := Some event_time, ev_exit_confirm_count := 1,
                 ev_occlusion_state := OBSERVED\<rparr>))
        else Inr ((Evaluation ''present'' OBSERVED_STAY)\<lparr>ev_occlusion_state := OBSERVED\<rparr>)
      else
        let exit_count = ts_exit_confirm_count st + 1 in
        if exit_count \<ge> pol_exit_confirmation p then
          rbind (transition m ''exiting'' ''exit_confirmed'') (\<lambda>next_st.
            Inr ((Evaluation next_st EXIT_CONFIRMED)\<lparr>ev_state_since := Some event_time\<rparr>))
        else Inr ((Evaluation ''exiting'' OBSERVED_STAY)
               \<lparr>ev_exit_confirm_count := exit_count, ev_occlusion_state := OBSERVED\<rparr>))"

definition evaluate_not_observed :: "temporal_policy \<Rightarrow> fsm \<Rightarrow> temporal_state \<Rightarrow> datetime \<Rightarrow>
    temporal_error + evaluation" where
  "evaluate_not_observed p m st event_time =
     (let current = ts_current_state st in
      if current = ''absent'' then Inr (Evaluation ''absent'' OBSERVED_STAY)
      else if current = ''entering'' then
        rbind (transition m ''entering'' ''enter_aborted'') (\<lambda>next_st.
          Inr ((Evaluation next_st OBSERVED_STAY)\<lparr>ev_state_since := Some event_time\<rparr>))
      else if current = ''present'' then
        if dwell_ok p st event_time \<and> gap_expired p st event_time then
          rbind (transition m ''present'' ''missing_expired'') (\<lambda>next_st.
            Inr ((Evaluation next_st MISSING_EXPIRED)\<lparr>ev_state_since := Some event_time\<rparr>))
        else Inr ((Evaluation ''present'' OBSERVED_STAY)
               \<lparr>ev_occlusion_state := TEMPORARILY_MISSING,
                ev_missing_since := missing_since_or st event_time\<rparr>)
      else
        let exit_count = ts_exit_confirm_count st + 1 in
        if exit_count \<ge> pol_exit_confirmation p then
          rbind (transition m ''exiting'' ''exit_confirmed'') (\<lambda>next_st.
            Inr ((Evaluation next_st EXIT_CONFIRMED)\<lparr>ev_state_since := Some event_time\<rparr>))
        else Inr ((Evaluation ''exiting'' OBSERVED_STAY)
               \<lparr>ev_exit_confirm_count := exit_count, ev_occlusion_state := TEMPORARILY_MISSING,
                ev_missing_since := missing_since_or st event_time\<rparr>))"

definition presence_evaluate :: "engine \<Rightarrow> evaluator" where
  "presence_evaluate E st kind event_time ob =
     (let p = eng_policy E; m = eng_fsm E in
      if kind = ''present'' then evaluate_present p m st event_time
      else if kind = ''absent'' then evaluate_absent p m st event_time
      else if kind = ''not_observed'' then evaluate_not_observed p m st event_time
      else if kind = ''session_closed'' then
        rbind (transition m (ts_current_state st) ''session_closed'') (\<lambda>next_st.
          Inr ((Evaluation next_st SESSION_CLOSED)\<lparr>ev_state_since := Some event_time\<rparr>))
      else Inl (InvalidTemporalInput (UnknownObservationKind kind)))"

abbreviation presence_apply :: "stdlib \<Rightarrow> temporal_policy \<Rightarrow> temporal_state \<Rightarrow> temporal_input \<Rightarrow>
    temporal_error + temporal_result" where
  "presence_apply L p \<equiv> te_apply L (presence_engine p) (presence_evaluate (presence_engine p))"

abbreviation presence_step :: "stdlib \<Rightarrow> temporal_policy \<Rightarrow> temporal_state \<Rightarrow> temporal_input \<Rightarrow>
    temporal_error + temporal_state \<times> temporal_transition list" where
  "presence_step L p \<equiv> te_step L (presence_engine p) (presence_evaluate (presence_engine p))"

abbreviation presence_initial :: "temporal_policy \<Rightarrow> temporal_state_key \<Rightarrow> temporal_state" where
  "presence_initial p \<equiv> te_initial_state (presence_engine p)"

lemma Evaluation_simps [simp]:
  "ev_state (Evaluation a r) = a" "ev_reason (Evaluation a r) = r"
  "ev_present_seen (Evaluation a r) = False" "ev_state_since (Evaluation a r) = None"
  "ev_entry_confirm_count (Evaluation a r) = 0" "ev_exit_confirm_count (Evaluation a r) = 0"
  "ev_occlusion_state (Evaluation a r) = NOT_OBSERVED" "ev_missing_since (Evaluation a r) = None"
  by (simp_all add: Evaluation_def)

lemmas presence_evaluate_defs =
  presence_evaluate_def evaluate_present_def evaluate_absent_def evaluate_not_observed_def Let_def

subsection \<open>The evaluator keeps the foundation invariant\<close>

lemma presence_evaluate_states:
  "ts_current_state s \<in> set presence_states \<Longrightarrow> presence_evaluate (presence_engine p) s kind t ob = Inr ev \<Longrightarrow>
     ev_state ev \<in> set presence_states \<and> (ev_state_since ev = None \<or> ev_state_since ev = Some t) \<and>
     (ev_missing_since ev = None \<or> ev_missing_since ev = Some t \<or> ev_missing_since ev = ts_missing_since s)"
  by (auto simp: presence_evaluate_defs presence_states_def missing_since_or_def
      split: if_splits option.splits)

lemma presence_evaluator_ok: "evaluator_ok (presence_engine p) (presence_evaluate (presence_engine p))"
  unfolding evaluator_ok_def presence_engine_simps presence_fsm_simps
  by (intro allI impI, rule presence_evaluate_states) (simp_all add: te_ok_def)

lemma presence_evaluator_core: "evaluator_core (presence_evaluate (presence_engine p))"
  by (simp add: evaluator_core_def presence_evaluate_defs dwell_ok_def grace_ok_def gap_expired_def
      missing_since_or_def)

interpretation presence_order: event_time_engine "presence_step L p" "te_ok (presence_engine p)"
    te_pos te_mark te_core for L p
  by (rule te_step_event_time_engine [OF presence_evaluator_ok presence_evaluator_core])

interpretation presence_restart: restartable_engine "presence_step L p" "te_ok (presence_engine p)"
    "te_checkpoint (presence_engine p)" "te_restore (presence_engine p)" for L p
  by (rule te_step_restartable_engine [OF presence_evaluator_ok])

end
