(* ===== verification/Presence_Facts.thy ===== *)
theory Presence_Facts
  imports Presence
begin

text \<open>
  What the enter/exit engine guarantees: it raises only for invalid input and for events that are
  too late; the reasons of the facts it emits alternate between entering and leaving; an entry is
  confirmed only by the configured number of consecutive positive observations and an exit only by
  consecutive negative ones, after the grace period; and the ordering and restart contracts of the
  foundation engine.
\<close>

subsection \<open>The engine's own invariant\<close>

definition presence_ok :: "temporal_policy \<Rightarrow> temporal_state \<Rightarrow> bool" where
  "presence_ok p s = (te_ok (presence_engine p) s \<and>
     (ts_current_state s = ''entering'' \<longrightarrow>
        1 \<le> ts_entry_confirm_count s \<and> ts_entry_confirm_count s < pol_entry_confirmation p) \<and>
     (ts_current_state s = ''exiting'' \<longrightarrow>
        1 \<le> ts_exit_confirm_count s \<and> ts_exit_confirm_count s < pol_exit_confirmation p \<and>
        grace_ok p s (the (ts_state_since s))) \<and>
     (ts_current_state s \<in> {''present'', ''exiting''} \<longrightarrow>
        ts_last_present_seen s \<noteq> None \<and> ts_state_since s \<noteq> None))"

definition occupied :: "string \<Rightarrow> bool" where
  "occupied st = (st = ''present'' \<or> st = ''exiting'')"

text \<open>
  The contract of the facts: entering is confirmed only while outside, an exit or an expiry only
  while inside; the other reasons keep the side. The result is the final side.
\<close>

fun presence_trace :: "bool \<Rightarrow> temporal_reason list \<Rightarrow> bool option" where
  "presence_trace inside [] = Some inside"
| "presence_trace inside (r # rs) =
     (case r of
        ENTER_CONFIRMED \<Rightarrow> if inside then None else presence_trace True rs
      | EXIT_CONFIRMED \<Rightarrow> if inside then presence_trace False rs else None
      | MISSING_EXPIRED \<Rightarrow> if inside then presence_trace False rs else None
      | SESSION_CLOSED \<Rightarrow> presence_trace False rs
      | MOVEMENT_EXCEEDED \<Rightarrow> None
      | _ \<Rightarrow> presence_trace inside rs)"

text \<open>The number of inputs at the end of a history that satisfy \<open>P\<close>.\<close>

definition trailing :: "('a \<Rightarrow> bool) \<Rightarrow> 'a list \<Rightarrow> int" where
  "trailing P ks = int (length (takeWhile P (rev ks)))"

lemma trailing_Nil [simp]: "trailing P [] = 0"
  by (simp add: trailing_def)

lemma trailing_snoc [simp]: "trailing P (ks @ [k]) = (if P k then trailing P ks + 1 else 0)"
  by (simp add: trailing_def)

lemma trailing_nonneg [simp]: "0 \<le> trailing P ks"
  by (simp add: trailing_def)

subsection \<open>One step\<close>

lemma presence_evaluate_total:
  "ts_current_state s \<in> set presence_states \<Longrightarrow> kind \<in> set presence_observation_kinds \<Longrightarrow>
     \<exists>ev. presence_evaluate (presence_engine p) s kind t ob = Inr ev"
  by (auto simp: presence_evaluate_defs presence_states_def presence_observation_kinds_def)

lemma te_validate_kind: "te_validate (presence_engine p) s inp = Inr u \<Longrightarrow>
    in_observation_kind inp \<in> set presence_observation_kinds"
  by (auto simp: te_validate_def Let_def presence_observation_kinds_def split: if_splits)

lemma presence_eval_core:
  "ts_current_state s \<in> set presence_states \<Longrightarrow> presence_evaluate (presence_engine p) s kind t ob = Inr ev \<Longrightarrow>
     presence_trace (occupied (ts_current_state s)) [ev_reason ev] = Some (occupied (ev_state ev))"
  by (auto simp: presence_evaluate_defs presence_states_def occupied_def split: if_splits)

lemma grace_ok_later:
  "grace_ok p s t \<Longrightarrow> \<not> dt_less t' t \<Longrightarrow> grace_ok p s t'"
  by (auto simp: grace_ok_def seconds_between_def dt_less_def divide_right_mono split: option.splits
      elim!: order_trans)

lemma presence_ok_eval:
  assumes ok: "presence_ok p s" and pol: "temporal_policy_valid p"
    and ev: "presence_evaluate (presence_engine p) s kind t ob = Inr ev"
  shows "(ev_state ev = ''entering'' \<longrightarrow>
        1 \<le> ev_entry_confirm_count ev \<and> ev_entry_confirm_count ev < pol_entry_confirmation p) \<and>
     (ev_state ev = ''exiting'' \<longrightarrow>
        1 \<le> ev_exit_confirm_count ev \<and> ev_exit_confirm_count ev < pol_exit_confirmation p \<and>
        \<not> ev_present_seen ev \<and>
        (if ev_state_since ev = None then ts_current_state s = ''exiting''
         else ev_state_since ev = Some t \<and> grace_ok p s t)) \<and>
     (ev_state ev \<in> {''present'', ''exiting''} \<longrightarrow>
        (ev_present_seen ev \<or> ts_last_present_seen s \<noteq> None) \<and>
        (ev_state_since ev \<noteq> None \<or> ts_state_since s \<noteq> None))"
proof -
  have inv: "ts_current_state s = ''entering'' \<Longrightarrow> 1 \<le> ts_entry_confirm_count s"
    "ts_current_state s = ''exiting'' \<Longrightarrow> 1 \<le> ts_exit_confirm_count s"
    "ts_current_state s \<in> {''present'', ''exiting''} \<Longrightarrow>
        ts_last_present_seen s \<noteq> None \<and> ts_state_since s \<noteq> None"
    using ok unfolding presence_ok_def by blast+
  have conf: "1 \<le> pol_entry_confirmation p" "1 \<le> pol_exit_confirmation p"
    using pol by (simp_all add: temporal_policy_valid_def)
  have "ts_current_state s \<in> set presence_states"
    using ok by (simp add: presence_ok_def te_ok_def)
  then show ?thesis
  proof (cases rule: presence_states_cases)
    case absent
    with ev conf show ?thesis by (auto simp: presence_evaluate_defs split: if_splits)
  next
    case entering
    with ev conf inv(1) show ?thesis by (auto simp: presence_evaluate_defs split: if_splits)
  next
    case present
    with ev conf inv(3) show ?thesis by (auto simp: presence_evaluate_defs split: if_splits)
  next
    case exiting
    with ev conf inv(2,3) show ?thesis by (auto simp: presence_evaluate_defs split: if_splits)
  qed
qed

lemma presence_ok_core: "presence_ok p s \<Longrightarrow> te_ok (presence_engine p) s' \<Longrightarrow> te_core s' = te_core s \<Longrightarrow> presence_ok p s'"
  by (auto simp: presence_ok_def te_core_eq_iff grace_ok_def)

lemma presence_ok_step:
  assumes pol: "temporal_policy_valid p" and ok: "presence_ok p s"
    and st: "presence_step L p s i = Inr (s', os)"
  shows "presence_ok p s'"
proof -
  have te: "te_ok (presence_engine p) s" using ok by (simp add: presence_ok_def)
  have te': "te_ok (presence_engine p) s'" using presence_order.step_ok [OF te st] .
  show ?thesis
  proof (cases "newer_than (te_mark s) (te_pos i)")
    case True
    from te_step_newer [OF st te True] obtain ev tr t f where
      ev: "presence_evaluate (presence_engine p) s (in_observation_kind i) t (in_observation i) = Inr ev"
      and s': "s' = te_apply_evaluation (presence_engine p) s ev tr t f"
      by metis
    from presence_ok_eval [OF ok pol ev] ok te' show ?thesis
      unfolding presence_ok_def
      by (auto simp: s' te_apply_evaluation_def grace_ok_def split: if_splits)
  next
    case False
    from te_step_not_newer [OF st te False] have "te_core s' = te_core s" by metis
    with presence_ok_core [OF ok te'] show ?thesis by blast
  qed
qed

lemma presence_initial_ok: "key_fsm_kind key = ''presence'' \<Longrightarrow> presence_ok p (presence_initial p key)"
  using te_initial_ok [of "presence_engine p" key]
  by (simp add: presence_ok_def presence_states_def te_initial_state_def)

lemma presence_run_ok:
  "temporal_policy_valid p \<Longrightarrow> presence_ok p s \<Longrightarrow> run_facts (presence_step L p) s is = Inr (s', trs) \<Longrightarrow>
     presence_ok p s'"
  by (rule run_facts_invariant [where P = "presence_ok p"]) (auto intro: presence_ok_step)

lemma presence_step_trace:
  assumes te: "te_ok (presence_engine p) s" and st: "presence_step L p s i = Inr (s', os)"
  shows "presence_trace (occupied (ts_current_state s)) (map tt_reason os) = Some (occupied (ts_current_state s'))"
proof (cases "newer_than (te_mark s) (te_pos i)")
  case True
  from te_step_newer [OF st te True] obtain ev tr t f where
    ev: "presence_evaluate (presence_engine p) s (in_observation_kind i) t (in_observation i) = Inr ev"
    and s': "s' = te_apply_evaluation (presence_engine p) s ev tr t f"
    and os: "os = [tr]" "tt_reason tr = ev_reason ev"
    by metis
  with presence_eval_core [OF _ ev] te show ?thesis
    by (simp add: te_ok_def te_apply_evaluation_def)
next
  case False
  from te_step_not_newer [OF st te False] obtain tr where
    "te_core s' = te_core s" "os = [tr]" "tt_reason tr \<in> {DEDUPLICATED, REORDERED}" by metis
  then show ?thesis by (auto simp: te_core_eq_iff)
qed

lemma presence_trace_append:
  "presence_trace b (rs @ qs) = Option.bind (presence_trace b rs) (\<lambda>b'. presence_trace b' qs)"
  by (induction b rs rule: presence_trace.induct) (auto split: temporal_reason.splits)

lemma presence_run_trace:
  "te_ok (presence_engine p) s \<Longrightarrow> run_facts (presence_step L p) s is = Inr (s', os) \<Longrightarrow>
     presence_trace (occupied (ts_current_state s)) (map tt_reason os) = Some (occupied (ts_current_state s'))"
proof (induction "is" arbitrary: s os)
  case Nil
  then show ?case by simp
next
  case (Cons i "is")
  then obtain s1 o1 o2 where st: "presence_step L p s i = Inr (s1, o1)"
    and run: "run_facts (presence_step L p) s1 is = Inr (s', o2)" and os: "os = o1 @ o2"
    by (auto simp: run_facts_Cons_Inr simp del: run_facts.simps)
  from Cons.IH [OF presence_order.step_ok [OF Cons.prems(1) st] run] presence_step_trace [OF Cons.prems(1) st]
  show ?case by (simp add: os presence_trace_append)
qed


subsection \<open>Confirmation counts and the history they count\<close>

definition negative :: "string \<Rightarrow> bool" where
  "negative k = (k = ''absent'' \<or> k = ''not_observed'')"

definition presence_history :: "temporal_state \<Rightarrow> string list \<Rightarrow> bool" where
  "presence_history s ks =
     ((ts_current_state s = ''entering'' \<longrightarrow> ts_entry_confirm_count s \<le> trailing (\<lambda>k. k = ''present'') ks) \<and>
      (ts_current_state s = ''exiting'' \<longrightarrow> ts_exit_confirm_count s \<le> trailing negative ks))"

lemma presence_eval_history:
  assumes st: "ts_current_state s \<in> set presence_states" and pol: "temporal_policy_valid p"
    and ev: "presence_evaluate (presence_engine p) s kind t ob = Inr ev" and hist: "presence_history s ks"
  shows "(ev_state ev = ''entering'' \<longrightarrow> ev_entry_confirm_count ev \<le> trailing (\<lambda>k. k = ''present'') (ks @ [kind])) \<and>
      (ev_state ev = ''exiting'' \<longrightarrow> ev_exit_confirm_count ev \<le> trailing negative (ks @ [kind])) \<and>
      (ev_reason ev = ENTER_CONFIRMED \<longrightarrow> pol_entry_confirmation p \<le> trailing (\<lambda>k. k = ''present'') (ks @ [kind])) \<and>
      (ev_reason ev = EXIT_CONFIRMED \<longrightarrow> pol_exit_confirmation p \<le> trailing negative (ks @ [kind]))"
  using st
proof (cases rule: presence_states_cases)
  case absent
  with ev show ?thesis by (auto simp: presence_evaluate_defs negative_def split: if_splits)
next
  case entering
  with ev hist show ?thesis
    by (auto simp: presence_evaluate_defs negative_def presence_history_def split: if_splits)
next
  case present
  with ev show ?thesis by (auto simp: presence_evaluate_defs negative_def split: if_splits)
next
  case exiting
  with ev hist show ?thesis
    by (auto simp: presence_evaluate_defs negative_def presence_history_def split: if_splits)
qed

lemma presence_run_history:
  assumes pol: "temporal_policy_valid p" and te: "te_ok (presence_engine p) s"
    and hist: "presence_history s []" and run: "run_facts (presence_step L p) s is = Inr (s', os)"
  shows "presence_history s' (map in_observation_kind (in_order te_pos (te_mark s) is))"
proof -
  have "presence_history s' (map in_observation_kind ([] @ in_order te_pos (te_mark s) is))"
  proof (rule presence_order.run_history [where R = "\<lambda>s (h :: temporal_input list). presence_history s (map in_observation_kind h)",
        OF _ _ te _ run])
    fix s i s' os and h :: "temporal_input list"
    assume te: "te_ok (presence_engine p) s" and new: "newer_than (te_mark s) (te_pos i)"
      and st: "presence_step L p s i = Inr (s', os)" and h: "presence_history s (map in_observation_kind h)"
    from te_step_newer [OF st te new] obtain ev tr t f where
      ev: "presence_evaluate (presence_engine p) s (in_observation_kind i) t (in_observation i) = Inr ev"
      and s': "s' = te_apply_evaluation (presence_engine p) s ev tr t f"
      by metis
    from presence_eval_history [OF _ pol ev h] te
    show "presence_history s' (map in_observation_kind (h @ [i]))"
      by (simp add: te_ok_def s' presence_history_def te_apply_evaluation_def)
  next
    fix s s' and h :: "temporal_input list"
    assume "te_core s' = te_core s" and "presence_history s (map in_observation_kind h)"
    then show "presence_history s' (map in_observation_kind h)"
      by (auto simp: te_core_eq_iff presence_history_def)
  qed (use hist in simp)
  then show ?thesis by simp
qed

lemma presence_last_fact:
  assumes pol: "temporal_policy_valid p" and te: "te_ok (presence_engine p) s"
    and hist: "presence_history s []" and run: "run_facts (presence_step L p) s (is @ [i]) = Inr (s', os)"
    and reason: "tt_reason (last os) \<in> {ENTER_CONFIRMED, EXIT_CONFIRMED}"
  shows "let ks = map in_observation_kind (in_order te_pos (te_mark s) (is @ [i])) in
     (tt_reason (last os) = ENTER_CONFIRMED \<longrightarrow> pol_entry_confirmation p \<le> trailing (\<lambda>k. k = ''present'') ks) \<and>
     (tt_reason (last os) = EXIT_CONFIRMED \<longrightarrow> pol_exit_confirmation p \<le> trailing negative ks)"
proof -
  from run obtain s1 o1 o2 where r1: "run_facts (presence_step L p) s is = Inr (s1, o1)"
    and st: "presence_step L p s1 i = Inr (s', o2)" and os: "os = o1 @ o2"
    by (auto simp: run_facts_append split: prod.splits)
  have te1: "te_ok (presence_engine p) s1"
    by (rule presence_order.run_ok [OF te r1])
  have new: "newer_than (te_mark s1) (te_pos i)"
  proof (rule ccontr)
    assume "\<not> newer_than (te_mark s1) (te_pos i)"
    from te_step_not_newer [OF st te1 this] obtain tr where
      "o2 = [tr]" "tt_reason tr \<in> {DEDUPLICATED, REORDERED}" by metis
    with reason show False by (auto simp: os)
  qed
  from te_step_newer [OF st te1 new] obtain ev tr t where
    ev: "presence_evaluate (presence_engine p) s1 (in_observation_kind i) t (in_observation i) = Inr ev"
    and tr: "o2 = [tr]" "tt_reason tr = ev_reason ev"
    by metis
  have "in_order te_pos (te_mark s) (is @ [i]) = in_order te_pos (te_mark s) is @ [i]"
    using presence_order.in_order_run_append [OF te r1, of "[i]"] new by simp
  with presence_eval_history [OF _ pol ev presence_run_history [OF pol te hist r1]] te1 tr
  show ?thesis by (simp add: os te_ok_def Let_def)
qed

lemma presence_initial_facts:
  assumes "key_fsm_kind key = ''presence''"
  shows "te_ok (presence_engine p) (presence_initial p key)" "presence_ok p (presence_initial p key)"
    "te_mark (presence_initial p key) = None" "presence_history (presence_initial p key) []"
  using presence_initial_ok [OF assms] te_initial_ok [of "presence_engine p" key] assms
  by (simp_all add: te_mark_def te_initial_state_def presence_history_def)

lemma presence_eval_leave:
  assumes ok: "presence_ok p s" and ev: "presence_evaluate (presence_engine p) s kind t ob = Inr ev"
    and t: "time_le (ts_watermark_event_time s) (Some t)"
  shows "(ev_reason ev = EXIT_CONFIRMED \<longrightarrow> grace_ok p s t) \<and>
      (ev_reason ev = MISSING_EXPIRED \<longrightarrow> dwell_ok p s t \<and> gap_expired p s t) \<and>
      (ev_reason ev \<in> {EXIT_CONFIRMED, MISSING_EXPIRED} \<longrightarrow> ts_last_present_seen s \<noteq> None)"
proof -
  have te: "te_ok (presence_engine p) s" and exiting: "ts_current_state s = ''exiting'' \<Longrightarrow>
      grace_ok p s (the (ts_state_since s)) \<and> ts_last_present_seen s \<noteq> None \<and> ts_state_since s \<noteq> None"
    and present: "ts_current_state s = ''present'' \<Longrightarrow> ts_last_present_seen s \<noteq> None"
    using ok unfolding presence_ok_def by blast+
  have ex: "grace_ok p s t \<and> ts_last_present_seen s \<noteq> None" if "ts_current_state s = ''exiting''"
  proof -
    from exiting [OF that] obtain since where since: "ts_state_since s = Some since" "grace_ok p s since"
      by auto
    with te t have "\<not> dt_less t since"
      by (cases "ts_watermark_event_time s") (auto simp: te_ok_def time_le_def dt_less_def)
    with grace_ok_later [OF since(2)] exiting [OF that] show ?thesis by blast
  qed
  have "ts_current_state s \<in> set presence_states"
    using te by (simp add: te_ok_def)
  then show ?thesis
  proof (cases rule: presence_states_cases)
    case absent
    with ev show ?thesis by (auto simp: presence_evaluate_defs split: if_splits)
  next
    case entering
    with ev show ?thesis by (auto simp: presence_evaluate_defs split: if_splits)
  next
    case present
    with ev \<open>ts_current_state s = ''present'' \<Longrightarrow> ts_last_present_seen s \<noteq> None\<close> show ?thesis
      by (auto simp: presence_evaluate_defs split: if_splits)
  next
    case exiting
    with ev ex show ?thesis by (auto simp: presence_evaluate_defs split: if_splits)
  qed
qed

lemma sample_presence_run: "\<exists>s trs. run_facts (presence_step sample_lib sample_policy)
    (presence_initial sample_policy (sample_key ''presence'' 7))
    [sample_input ''presence'' 7 ''present'' 0 1, sample_input ''presence'' 7 ''present'' 1 2] = Inr (s, trs) \<and>
    map tt_reason trs = [OBSERVED_STAY, ENTER_CONFIRMED]"
  by (simp add: te_eval presence_evaluate_defs presence_observation_kinds_def)


lemma sample_presence_exit: "\<exists>s s' facts tr. run_facts (presence_step sample_lib sample_policy)
    (presence_initial sample_policy (sample_key ''presence'' 7))
    [sample_input ''presence'' 7 ''present'' 0 1, sample_input ''presence'' 7 ''present'' 1 2,
     sample_input ''presence'' 7 ''absent'' 4 3] = Inr (s, facts) \<and>
    presence_step sample_lib sample_policy s (sample_input ''presence'' 7 ''absent'' 5 4) = Inr (s', [tr]) \<and>
    tt_reason tr = EXIT_CONFIRMED"
  by (simp add: te_eval presence_evaluate_defs presence_observation_kinds_def dwell_ok_def grace_ok_def)

subsection \<open>Properties\<close>

text \<open>
  C1: An entry is confirmed only when the last \<open>entry_confirmation\<close> in-order observations were all
  positive, and an exit only when the last \<open>exit_confirmation\<close> of them were all negative (absent
  or not observed), whatever late and duplicated observations were delivered in between.
\<close>

theorem presence_confirmation:
  assumes "temporal_policy_valid p" and "key_fsm_kind key = ''presence''"
    and "run_facts (presence_step L p) (presence_initial p key) (is @ [i]) = Inr (s, facts)"
    and "tt_reason (last facts) \<in> {ENTER_CONFIRMED, EXIT_CONFIRMED}"
  shows "let kinds = map in_observation_kind (in_order te_pos None (is @ [i])) in
     (tt_reason (last facts) = ENTER_CONFIRMED \<longrightarrow>
        pol_entry_confirmation p \<le> trailing (\<lambda>k. k = ''present'') kinds) \<and>
     (tt_reason (last facts) = EXIT_CONFIRMED \<longrightarrow> pol_exit_confirmation p \<le> trailing negative kinds)"
  using presence_last_fact [OF assms(1) presence_initial_facts(1,4) [OF assms(2)] assms(3,4)]
    presence_initial_facts(3) [OF assms(2)]
  by simp

theorem presence_confirmation_witness:
  "2 \<le> trailing (\<lambda>k. k = ''present'') (map in_observation_kind (in_order te_pos None
     [sample_input ''presence'' 7 ''present'' 0 1, sample_input ''presence'' 7 ''present'' 1 2]))"
proof -
  from sample_presence_run obtain s facts where
    run: "run_facts (presence_step sample_lib sample_policy) (presence_initial sample_policy (sample_key ''presence'' 7))
      ([sample_input ''presence'' 7 ''present'' 0 1] @ [sample_input ''presence'' 7 ''present'' 1 2]) = Inr (s, facts)"
    and facts: "map tt_reason facts = [OBSERVED_STAY, ENTER_CONFIRMED]"
    by (auto simp del: run_facts.simps)
  from facts have "tt_reason (last facts) = ENTER_CONFIRMED"
    by (metis last_ConsR last.simps list.distinct(1) last_map map_is_Nil_conv)
  with presence_confirmation [OF sample_policy_valid _ run] show ?thesis
    by (simp add: Let_def)
qed

text \<open>
  C2: The facts of any run alternate: an entry is confirmed only while the entity is outside, an exit
  or an occlusion expiry only while it is inside, and the last fact agrees with the final state.
\<close>

theorem presence_facts_alternate:
  assumes "key_fsm_kind key = ''presence''"
    and "run_facts (presence_step L p) (presence_initial p key) is = Inr (s, facts)"
  shows "presence_trace False (map tt_reason facts) = Some (occupied (ts_current_state s))"
  using presence_run_trace [OF presence_initial_facts(1) [OF assms(1)] assms(2)]
  by (simp add: te_initial_state_def occupied_def)

theorem presence_facts_alternate_witness:
  "\<exists>(s :: temporal_state) (facts :: temporal_transition list). presence_trace False (map tt_reason facts) = Some (occupied (ts_current_state s)) \<and>
     map tt_reason facts = [OBSERVED_STAY, ENTER_CONFIRMED]"
proof -
  from sample_presence_run obtain s facts where
    run: "run_facts (presence_step sample_lib sample_policy) (presence_initial sample_policy (sample_key ''presence'' 7))
      [sample_input ''presence'' 7 ''present'' 0 1, sample_input ''presence'' 7 ''present'' 1 2] = Inr (s, facts)"
    and facts: "map tt_reason facts = [OBSERVED_STAY, ENTER_CONFIRMED]"
    by (auto simp del: run_facts.simps)
  have "presence_trace False (map tt_reason facts) = Some (occupied (ts_current_state s))"
    by (rule presence_facts_alternate [OF _ run]) simp
  with facts show ?thesis by (intro exI conjI)
qed

text \<open>
  On every state the engine can reach, an input raises only when it fails validation or when it
  lies behind the watermark by more than the reordering window, and then with exactly that error:
  the machine never rejects an event the evaluator emits.
\<close>

theorem presence_errors:
  assumes "te_ok (presence_engine p) s"
  shows "presence_apply L p s inp = Inl e \<longleftrightarrow>
     te_validate (presence_engine p) s inp = Inl e \<or>
     (te_validate (presence_engine p) s inp = Inr () \<and>
      compare_position (observation_position (in_observation inp)) (ts_watermark_event_time s)
        (ts_last_applied_frame_id s) = Inr Older \<and>
      (let late = seconds_between (the (ts_watermark_event_time s)) (fst (observation_position (in_observation inp)))
       in late > pol_reorder_window_seconds p \<and> e = LateEvent late))"
proof (cases "te_validate (presence_engine p) s inp")
  case (Inl e')
  then show ?thesis by (auto simp: te_apply_def)
next
  case (Inr u)
  let ?p = "observation_position (in_observation inp)"
  have total: "\<exists>tr. te_build_transition L (presence_engine p) (in_key inp) (snd ?p) (fst ?p) k a b r
      (in_processing_time inp) = Inr tr" for k a b r
    using te_validate_Inr [OF Inr] by (intro te_build_transition_total) simp_all
  obtain ev where ev: "presence_evaluate (presence_engine p) s (in_observation_kind inp) (fst ?p) (in_observation inp) = Inr ev"
    using presence_evaluate_total te_validate_kind [OF Inr] assms
    by (fastforce simp: te_ok_def)
  have "mark_whole (ts_watermark_event_time s) (ts_last_applied_frame_id s)"
    using assms by (simp add: te_ok_def)
  then obtain order where order: "compare_position ?p (ts_watermark_event_time s) (ts_last_applied_frame_id s) = Inr order"
    by (cases "compare_position ?p (ts_watermark_event_time s) (ts_last_applied_frame_id s)")
      (auto simp: compare_position_total)
  show ?thesis
  proof (cases order)
    case Newer
    with order Inr ev total [of "in_observation_kind inp" "ts_current_state s" "ev_state ev" "ev_reason ev"]
    show ?thesis by (auto simp: te_apply_def Let_def)
  next
    case Same
    with order Inr total [of "in_observation_kind inp" "ts_current_state s" "ts_current_state s" DEDUPLICATED]
    show ?thesis by (auto simp: te_apply_def Let_def)
  next
    case Older
    with order Inr total [of "in_observation_kind inp" "ts_current_state s" "ts_current_state s" REORDERED]
    show ?thesis by (auto simp: te_apply_def te_apply_out_of_order_def Let_def)
  qed
qed

theorem presence_errors_witness:
  "presence_apply sample_lib sample_policy (presence_initial sample_policy (sample_key ''presence'' 7))
     (sample_input ''presence'' 8 ''nap'' 0 1) =
   Inl (InvalidTemporalInput (UnknownObservationKind ''nap''))"
proof -
  have "te_ok (presence_engine sample_policy) (presence_initial sample_policy (sample_key ''presence'' 7))"
    by (rule presence_initial_facts(1)) simp
  from iffD2 [OF presence_errors [OF this]] show ?thesis
    by (simp add: te_validate_def presence_observation_kinds_def Let_def)
qed

text \<open>
  An exit is confirmed only at least \<open>exit_grace_seconds\<close> after the last positive observation,
  and an occlusion expiry only \<open>occlusion_tolerance_seconds\<close> after it and after the minimum dwell.
\<close>

theorem presence_exit_timing:
  assumes "temporal_policy_valid p" and "key_fsm_kind key = ''presence''"
    and "run_facts (presence_step L p) (presence_initial p key) is = Inr (s, facts)"
    and "presence_step L p s i = Inr (s', [tr])"
  shows "(tt_reason tr = EXIT_CONFIRMED \<longrightarrow> (\<exists>seen. ts_last_present_seen s = Some seen \<and>
            pol_exit_grace_seconds p \<le> seconds_between (tt_event_time tr) seen)) \<and>
     (tt_reason tr = MISSING_EXPIRED \<longrightarrow> dwell_ok p s (tt_event_time tr) \<and>
        (\<exists>seen. ts_last_present_seen s = Some seen \<and>
            pol_occlusion_tolerance_seconds p \<le> seconds_between (tt_event_time tr) seen))"
proof -
  have ok: "presence_ok p s"
    by (rule presence_run_ok [OF assms(1) presence_initial_facts(2) [OF assms(2)] assms(3)])
  then have te: "te_ok (presence_engine p) s" by (simp add: presence_ok_def)
  show ?thesis
  proof (cases "newer_than (te_mark s) (te_pos i)")
    case True
    from te_step_newer [OF assms(4) te True] obtain ev tr' t where
      "presence_evaluate (presence_engine p) s (in_observation_kind i) t (in_observation i) = Inr ev"
      "[tr] = [tr']" "tt_reason tr' = ev_reason ev" "tt_event_time tr' = t"
      "time_le (ts_watermark_event_time s) (Some t)"
      by metis
    with presence_eval_leave [OF ok] show ?thesis
      by (fastforce simp: grace_ok_def gap_expired_def)
  next
    case False
    from te_step_not_newer [OF assms(4) te False] obtain tr' where
      "[tr] = [tr']" "tt_reason tr' \<in> {DEDUPLICATED, REORDERED}" by metis
    then show ?thesis by auto
  qed
qed

theorem presence_exit_timing_witness:
  "\<exists>(tr :: temporal_transition) (seen :: datetime). tt_reason tr = EXIT_CONFIRMED \<and>
     2 \<le> seconds_between (tt_event_time tr) seen"
proof -
  from sample_presence_exit obtain s s' facts tr where
    run: "run_facts (presence_step sample_lib sample_policy) (presence_initial sample_policy (sample_key ''presence'' 7))
      [sample_input ''presence'' 7 ''present'' 0 1, sample_input ''presence'' 7 ''present'' 1 2,
       sample_input ''presence'' 7 ''absent'' 4 3] = Inr (s, facts)"
    and st: "presence_step sample_lib sample_policy s (sample_input ''presence'' 7 ''absent'' 5 4) = Inr (s', [tr])"
    and reason: "tt_reason tr = EXIT_CONFIRMED"
    by (auto simp del: run_facts.simps)
  from presence_exit_timing [OF sample_policy_valid _ run st] reason show ?thesis
    by auto
qed

text \<open>
  Late and redelivered observations do not influence the outcome: two deliveries of a timeline
  with the same in-order observations end in states that differ at most in \<open>last_seen\<close>.
\<close>

theorem presence_delivery_order:
  assumes "key_fsm_kind key = ''presence''"
    and "run_facts (presence_step L p) (presence_initial p key) is = Inr (s1, facts1)"
    and "run_facts (presence_step L p) (presence_initial p key) js = Inr (s2, facts2)"
    and "in_order te_pos None is = in_order te_pos None js"
  shows "s1\<lparr>ts_last_seen := None\<rparr> = s2\<lparr>ts_last_seen := None\<rparr>"
  using presence_order.run_core_of_in_order [OF presence_initial_facts(1) [OF assms(1)] assms(2,3)]
    assms(4) presence_initial_facts(3) [OF assms(1)]
  by (simp add: te_core_def)

theorem presence_delivery_order_witness:
  "\<exists>(s1 :: temporal_state) (s2 :: temporal_state). s1 \<noteq> presence_initial sample_policy (sample_key ''presence'' 7) \<and>
     s1\<lparr>ts_last_seen := None\<rparr> = s2\<lparr>ts_last_seen := None\<rparr>"
proof -
  let ?a = "sample_input ''presence'' 7 ''present'' 0 1" and ?b = "sample_input ''presence'' 7 ''present'' 1 2"
  let ?init = "presence_initial sample_policy (sample_key ''presence'' 7)"
  obtain s1 f1 where r1: "run_facts (presence_step sample_lib sample_policy) ?init [?a, ?b] = Inr (s1, f1)"
    and ne: "ts_watermark_event_time s1 \<noteq> None"
    by (simp add: te_eval presence_evaluate_defs presence_observation_kinds_def)
  obtain s2 f2 where r2: "run_facts (presence_step sample_lib sample_policy) ?init [?a, ?b, ?a] = Inr (s2, f2)"
    by (simp add: te_eval presence_evaluate_defs presence_observation_kinds_def)
  have "in_order te_pos None [?a, ?b] = in_order te_pos None [?a, ?b, ?a]"
    by (simp add: te_pos_def position_key_def)
  from presence_delivery_order [OF _ r1 r2 this]
  have "s1\<lparr>ts_last_seen := None\<rparr> = s2\<lparr>ts_last_seen := None\<rparr>" by simp
  moreover from ne have "s1 \<noteq> ?init" by (auto simp: te_initial_state_def)
  ultimately show ?thesis by blast
qed

text \<open>
  C23: A restart is not observable: running the rest of a timeline from a checkpoint taken after any
  prefix gives the state, the facts and the errors of the uninterrupted run.
\<close>

theorem presence_restart_transparent:
  assumes "key_fsm_kind key = ''presence''"
  shows "run_facts (presence_step L p) (presence_initial p key) (xs @ ys) =
    rbind (run_facts (presence_step L p) (presence_initial p key) xs) (\<lambda>(s1, facts1).
      rbind (te_restore (presence_engine p) (te_checkpoint (presence_engine p) s1)) (\<lambda>s2.
        rbind (run_facts (presence_step L p) s2 ys) (\<lambda>(s3, facts2). Inr (s3, facts1 @ facts2))))"
  by (rule presence_restart.restart_transparent [OF presence_initial_facts(1) [OF assms]])

theorem presence_restart_transparent_witness:
  "run_facts (presence_step sample_lib sample_policy) (presence_initial sample_policy (sample_key ''presence'' 7))
      ([sample_input ''presence'' 7 ''present'' 0 1] @ [sample_input ''presence'' 7 ''present'' 1 2]) =
    rbind (run_facts (presence_step sample_lib sample_policy) (presence_initial sample_policy (sample_key ''presence'' 7))
      [sample_input ''presence'' 7 ''present'' 0 1]) (\<lambda>(s1, facts1).
      rbind (te_restore (presence_engine sample_policy) (te_checkpoint (presence_engine sample_policy) s1)) (\<lambda>s2.
        rbind (run_facts (presence_step sample_lib sample_policy) s2 [sample_input ''presence'' 7 ''present'' 1 2])
          (\<lambda>(s3, facts2). Inr (s3, facts1 @ facts2))))"
  by (rule presence_restart_transparent) simp

end
