(* ===== verification/Dwell.thy ===== *)
theory Dwell
  imports Presence_Facts
begin

text \<open>
  The dwell engine (\<open>temporal/dwell.py\<close>): a second machine on the foundation engine, driven by the
  facts of the enter/exit engine, that emits one closed interval per confirmed stay and exposes the
  running one. \<open>presence_dwell_step\<close> is the wiring that the module's documentation prescribes.
\<close>

subsection \<open>The machine\<close>

definition dwell_rules :: "fsm_rule list" where
  "dwell_rules =
    [FsmRule ''idle'' ''enter_confirmed'' ''dwelling'',
     FsmRule ''dwelling'' ''exit_confirmed'' ''idle'',
     FsmRule ''dwelling'' ''missing_expired'' ''idle'',
     FsmRule ''idle'' ''stay'' ''idle'',
     FsmRule ''dwelling'' ''stay'' ''dwelling'',
     FsmRule ''idle'' ''session_closed'' ''idle'',
     FsmRule ''dwelling'' ''session_closed'' ''idle'']"

definition DWELL_FSM :: fsm where
  "DWELL_FSM = \<lparr>fsm_name = ''dwell'', fsm_version = TEMPORAL_ENGINE_VERSION,
     fsm_states = [''idle'', ''dwelling''], fsm_initial_state = ''idle'',
     fsm_lookup = map (\<lambda>r. ((rule_from r, rule_event r), rule_to r)) dwell_rules\<rparr>"

lemma DWELL_FSM_constructed:
  "make_fsm ''dwell'' TEMPORAL_ENGINE_VERSION [''idle'', ''dwelling''] ''idle'' dwell_rules = Inr DWELL_FSM"
  by (simp add: make_fsm_def DWELL_FSM_def dwell_rules_def)

interpretation dwell_fsm: legal_fsm DWELL_FSM
  by (rule make_fsm_legal_fsm [OF DWELL_FSM_constructed])

lemma dwell_fsm_simps [simp]:
  "fsm_name DWELL_FSM = ''dwell''" "fsm_version DWELL_FSM = TEMPORAL_ENGINE_VERSION"
  "fsm_initial_state DWELL_FSM = ''idle''" "fsm_states DWELL_FSM = [''idle'', ''dwelling'']"
  by (simp_all add: DWELL_FSM_def)

lemma dwell_transition [simp]:
  "transition DWELL_FSM ''idle'' ''enter_confirmed'' = Inr ''dwelling''"
  "transition DWELL_FSM ''dwelling'' ''exit_confirmed'' = Inr ''idle''"
  "transition DWELL_FSM ''dwelling'' ''missing_expired'' = Inr ''idle''"
  "transition DWELL_FSM ''idle'' ''session_closed'' = Inr ''idle''"
  "transition DWELL_FSM ''dwelling'' ''session_closed'' = Inr ''idle''"
  by (simp_all add: transition_def DWELL_FSM_def dwell_rules_def)

lemma dwell_transition_Inr:
  "transition DWELL_FSM st e = Inr st' \<Longrightarrow> st \<in> {''idle'', ''dwelling''} \<and> st' \<in> {''idle'', ''dwelling''}"
  using dwell_fsm.transition_closed [of st e st'] by simp

lemma dwell_transition_illegal [simp]:
  "transition DWELL_FSM ''dwelling'' ''enter_confirmed'' =
     Inl (InvalidTransition ''dwell'' ''dwelling'' ''enter_confirmed''
       [''exit_confirmed'', ''missing_expired'', ''stay'', ''session_closed''])"
  "transition DWELL_FSM ''idle'' ''exit_confirmed'' =
     Inl (InvalidTransition ''dwell'' ''idle'' ''exit_confirmed''
       [''enter_confirmed'', ''stay'', ''session_closed''])"
  "transition DWELL_FSM ''idle'' ''missing_expired'' =
     Inl (InvalidTransition ''dwell'' ''idle'' ''missing_expired''
       [''enter_confirmed'', ''stay'', ''session_closed''])"
  by (simp_all add: transition_def DWELL_FSM_def dwell_rules_def allowed_events_def)

definition dwell_event_from_presence :: "temporal_transition \<Rightarrow> string" where
  "dwell_event_from_presence tr =
     (if tt_reason tr = ENTER_CONFIRMED then ''enter_confirmed''
      else if tt_reason tr = EXIT_CONFIRMED then ''exit_confirmed''
      else if tt_reason tr = MISSING_EXPIRED then ''missing_expired''
      else if tt_reason tr = SESSION_CLOSED then ''session_closed''
      else ''stay'')"

subsection \<open>The engine\<close>

definition dwell_observation_kinds :: "string list" where
  "dwell_observation_kinds =
     [''enter_confirmed'', ''exit_confirmed'', ''missing_expired'', ''stay'', ''session_closed'']"

definition dwell_engine :: "temporal_policy \<Rightarrow> engine" where
  "dwell_engine p = \<lparr>eng_fsm = DWELL_FSM, eng_policy = p, eng_observation_kinds = dwell_observation_kinds\<rparr>"

lemma dwell_engine_simps [simp]:
  "eng_fsm (dwell_engine p) = DWELL_FSM" "eng_policy (dwell_engine p) = p"
  "eng_observation_kinds (dwell_engine p) = dwell_observation_kinds"
  by (simp_all add: dwell_engine_def)

definition dwell_evaluate :: "engine \<Rightarrow> evaluator" where
  "dwell_evaluate E st kind event_time ob =
     (let m = eng_fsm E; current = ts_current_state st in
      if kind = ''enter_confirmed'' then
        rbind (transition m current ''enter_confirmed'') (\<lambda>next_st.
          Inr ((Evaluation next_st ENTER_CONFIRMED)\<lparr>ev_state_since := Some event_time\<rparr>))
      else if kind = ''exit_confirmed'' then
        rbind (transition m current ''exit_confirmed'') (\<lambda>next_st.
          Inr ((Evaluation next_st EXIT_CONFIRMED)\<lparr>ev_state_since := Some event_time\<rparr>))
      else if kind = ''missing_expired'' then
        rbind (transition m current ''missing_expired'') (\<lambda>next_st.
          Inr ((Evaluation next_st MISSING_EXPIRED)\<lparr>ev_state_since := Some event_time\<rparr>))
      else if kind = ''session_closed'' then
        rbind (transition m current ''session_closed'') (\<lambda>next_st.
          Inr ((Evaluation next_st SESSION_CLOSED)\<lparr>ev_state_since := Some event_time\<rparr>))
      else if kind = ''stay'' then Inr (Evaluation current OBSERVED_STAY)
      else Inl (InvalidTemporalInput (UnknownObservationKind kind)))"

definition interval_closing_reasons :: "temporal_reason list" where
  "interval_closing_reasons = [EXIT_CONFIRMED, MISSING_EXPIRED, SESSION_CLOSED]"

definition dwell_interval_identity :: "stdlib \<Rightarrow> engine \<Rightarrow> temporal_state_key \<Rightarrow> datetime \<Rightarrow>
    datetime option \<Rightarrow> bool \<Rightarrow> temporal_error + string" where
  "dwell_interval_identity L E key dwell_start dwell_end is_open =
     (if is_open then
        Inr (join_str ''|'' [canonical key, ''open'', std_isoformat L dwell_start,
          fsm_version (eng_fsm E), pol_revision (eng_policy E)])
      else case dwell_end of
        None \<Rightarrow> Inl (InvalidTemporalInput (MissingField ''dwell_end''))
      | Some e \<Rightarrow> Inr (join_str ''|'' [canonical key, ''closed'', std_isoformat L dwell_start,
          std_isoformat L e, fsm_version (eng_fsm E), pol_revision (eng_policy E)]))"

definition build_closed_interval :: "stdlib \<Rightarrow> engine \<Rightarrow> temporal_state_key \<Rightarrow> datetime option \<Rightarrow>
    datetime \<Rightarrow> temporal_reason \<Rightarrow> temporal_error + dwell_interval" where
  "build_closed_interval L E key start_opt dwell_end reason =
     (case start_opt of
        None \<Rightarrow> Inl (InvalidTemporalInput (MissingField ''dwell_start''))
      | Some dwell_start \<Rightarrow>
          let duration = seconds_between dwell_end dwell_start in
          rbind (dwell_interval_identity L E key dwell_start (Some dwell_end) False) (\<lambda>identity.
            construct ''DwellInterval'' dwell_interval_valid
              \<lparr>di_schema_version = SCHEMA_VERSION,
               di_interval_id = std_uuid5 L TEMPORAL_ID_NAMESPACE identity,
               di_fsm_kind = fsm_name (eng_fsm E), di_key = key, di_dwell_start = dwell_start,
               di_dwell_end = Some dwell_end, di_last_seen = dwell_end,
               di_duration_seconds = Some duration,
               di_qualified = (duration \<ge> pol_dwell_minimum_seconds (eng_policy E)),
               di_minimum_dwell_seconds = pol_dwell_minimum_seconds (eng_policy E),
               di_reason = Some reason, di_fsm_version = fsm_version (eng_fsm E),
               di_policy_revision = pol_revision (eng_policy E)\<rparr>))"

definition dwell_apply :: "stdlib \<Rightarrow> temporal_policy \<Rightarrow> temporal_state \<Rightarrow> temporal_input \<Rightarrow>
    temporal_error + temporal_result" where
  "dwell_apply L p st inp =
     rbind (te_apply L (dwell_engine p) (dwell_evaluate (dwell_engine p)) st inp) (\<lambda>result.
       let tr = hd (res_transitions result) in
       if tt_reason tr \<in> set interval_closing_reasons \<and> ts_current_state st = ''dwelling'' then
         rbind (build_closed_interval L (dwell_engine p) (in_key inp) (ts_state_since st)
             (tt_event_time tr) (tt_reason tr)) (\<lambda>interval.
           Inr (result\<lparr>res_dwell_intervals := [interval]\<rparr>))
       else Inr result)"

definition open_interval :: "stdlib \<Rightarrow> temporal_policy \<Rightarrow> temporal_state \<Rightarrow>
    temporal_error + dwell_interval option" where
  "open_interval L p st =
     (let E = dwell_engine p in
      if ts_current_state st \<noteq> ''dwelling'' then Inr None
      else case ts_state_since st of
        None \<Rightarrow> Inl (InvalidTemporalInput (MissingField ''dwell_start''))
      | Some dwell_start \<Rightarrow>
          let last_seen = (case ts_last_seen st of None \<Rightarrow> dwell_start | Some seen \<Rightarrow> seen);
              duration = seconds_between last_seen dwell_start
          in rbind (dwell_interval_identity L E (ts_key st) dwell_start None True) (\<lambda>identity.
            rbind (construct ''DwellInterval'' dwell_interval_valid
              \<lparr>di_schema_version = SCHEMA_VERSION,
               di_interval_id = std_uuid5 L TEMPORAL_ID_NAMESPACE identity,
               di_fsm_kind = fsm_name (eng_fsm E), di_key = ts_key st, di_dwell_start = dwell_start,
               di_dwell_end = None, di_last_seen = last_seen,
               di_duration_seconds = Some duration,
               di_qualified = (duration \<ge> pol_dwell_minimum_seconds p),
               di_minimum_dwell_seconds = pol_dwell_minimum_seconds p,
               di_reason = None, di_fsm_version = fsm_version (eng_fsm E),
               di_policy_revision = pol_revision p\<rparr>) (\<lambda>d. Inr (Some d))))"

definition dwell_step :: "stdlib \<Rightarrow> temporal_policy \<Rightarrow> temporal_state \<Rightarrow> temporal_input \<Rightarrow>
    temporal_error + temporal_state \<times> (temporal_transition \<times> dwell_interval list) list" where
  "dwell_step L p st inp = rbind (dwell_apply L p st inp) (\<lambda>r.
     Inr (res_state r, [(hd (res_transitions r), res_dwell_intervals r)]))"

abbreviation dwell_initial :: "temporal_policy \<Rightarrow> temporal_state_key \<Rightarrow> temporal_state" where
  "dwell_initial p \<equiv> te_initial_state (dwell_engine p)"

text \<open>Both engines fed with the same observations, the dwell engine with the presence fact as kind.\<close>

definition presence_dwell_step :: "stdlib \<Rightarrow> temporal_policy \<Rightarrow> temporal_state \<times> temporal_state \<Rightarrow>
    temporal_input \<Rightarrow> temporal_error + (temporal_state \<times> temporal_state) \<times>
      (temporal_transition \<times> dwell_interval list) list" where
  "presence_dwell_step L p s inp = rbind (presence_apply L p (fst s) inp) (\<lambda>pr.
     rbind (dwell_step L p (snd s) (inp\<lparr>in_key := (in_key inp)\<lparr>key_fsm_kind := ''dwell''\<rparr>,
         in_observation_kind := dwell_event_from_presence (hd (res_transitions pr))\<rparr>)) (\<lambda>(ds, facts).
       Inr ((res_state pr, ds), facts)))"

subsection \<open>The evaluator keeps the foundation invariant\<close>

lemma dwell_evaluate_states:
  "ts_current_state s \<in> {''idle'', ''dwelling''} \<Longrightarrow> dwell_evaluate (dwell_engine p) s kind t ob = Inr ev \<Longrightarrow>
     ev_state ev \<in> {''idle'', ''dwelling''} \<and> (ev_state_since ev = None \<or> ev_state_since ev = Some t) \<and>
     ev_missing_since ev = None \<and> \<not> ev_present_seen ev"
  by (auto simp: dwell_evaluate_def Let_def dest!: dwell_transition_Inr split: if_splits)

lemma dwell_evaluator_ok: "evaluator_ok (dwell_engine p) (dwell_evaluate (dwell_engine p))"
  unfolding evaluator_ok_def dwell_engine_simps dwell_fsm_simps
proof (intro allI impI)
  fix s kind t ob ev
  assume "te_ok (dwell_engine p) s" and "dwell_evaluate (dwell_engine p) s kind t ob = Inr ev"
  with dwell_evaluate_states [of s p kind t ob ev]
  show "ev_state ev \<in> set [''idle'', ''dwelling''] \<and> (ev_state_since ev = None \<or> ev_state_since ev = Some t) \<and>
      (ev_missing_since ev = None \<or> ev_missing_since ev = Some t \<or> ev_missing_since ev = ts_missing_since s)"
    by (simp add: te_ok_def)
qed

lemma dwell_evaluator_core: "evaluator_core (dwell_evaluate (dwell_engine p))"
  by (simp add: evaluator_core_def dwell_evaluate_def)

end
