(* ===== verification/Dwell_Facts.thy ===== *)
theory Dwell_Facts
  imports Dwell
begin

text \<open>
  What the dwell engine guarantees: its closed intervals are exactly the spans between a confirmed
  entry and the fact that ends the stay, they are valid contract objects, they never overlap, and
  in the prescribed wiring the machine is never asked for an illegal transition.
\<close>

subsection \<open>Steps\<close>

definition dwell_state_ok :: "temporal_policy \<Rightarrow> temporal_state \<Rightarrow> bool" where
  "dwell_state_ok p s = (te_ok (dwell_engine p) s \<and>
     (ts_current_state s = ''dwelling'' \<longrightarrow> ts_state_since s \<noteq> None))"

abbreviation dwell_base_step :: "stdlib \<Rightarrow> temporal_policy \<Rightarrow> temporal_state \<Rightarrow> temporal_input \<Rightarrow>
    temporal_error + temporal_state \<times> temporal_transition list" where
  "dwell_base_step L p \<equiv> te_step L (dwell_engine p) (dwell_evaluate (dwell_engine p))"

definition closes :: "temporal_state \<Rightarrow> temporal_transition \<Rightarrow> bool" where
  "closes s tr = (tt_reason tr \<in> set interval_closing_reasons \<and> ts_current_state s = ''dwelling'')"

lemma te_apply_no_intervals:
  assumes "te_apply L E ev s i = Inr r"
  shows "res_dwell_intervals r = []"
proof -
  from assms obtain order where
    "compare_position (observation_position (in_observation i)) (ts_watermark_event_time s)
       (ts_last_applied_frame_id s) = Inr order"
    by (auto simp: te_apply_def Let_def)
  with assms show ?thesis
    by (cases order) (auto simp: te_apply_def te_apply_out_of_order_def Let_def split: if_splits)
qed

lemma dwell_step_Inr:
  "dwell_step L p s i = Inr (s', out) \<longleftrightarrow>
     (\<exists>r. te_apply L (dwell_engine p) (dwell_evaluate (dwell_engine p)) s i = Inr r \<and> s' = res_state r \<and>
        (if closes s (hd (res_transitions r)) then
           \<exists>d. build_closed_interval L (dwell_engine p) (in_key i) (ts_state_since s)
             (tt_event_time (hd (res_transitions r))) (tt_reason (hd (res_transitions r))) = Inr d \<and>
             out = [(hd (res_transitions r), [d])]
         else out = [(hd (res_transitions r), [])]))"
proof (cases "te_apply L (dwell_engine p) (dwell_evaluate (dwell_engine p)) s i")
  case (Inl e)
  then show ?thesis by (simp add: dwell_step_def dwell_apply_def)
next
  case (Inr r)
  from te_apply_no_intervals [OF this] Inr show ?thesis
    by (cases "closes s (hd (res_transitions r))")
      (auto simp: dwell_step_def dwell_apply_def closes_def Let_def)
qed

lemma dwell_step_facts:
  assumes "dwell_step L p s i = Inr (s', out)" and "te_ok (dwell_engine p) s"
  obtains tr ivs where "dwell_base_step L p s i = Inr (s', [tr])" "out = [(tr, ivs)]"
    "if closes s tr then \<exists>d. build_closed_interval L (dwell_engine p) (in_key i) (ts_state_since s)
         (tt_event_time tr) (tt_reason tr) = Inr d \<and> ivs = [d] else ivs = []"
proof -
  from assms(1) obtain r where r: "te_apply L (dwell_engine p) (dwell_evaluate (dwell_engine p)) s i = Inr r"
    and s': "s' = res_state r" unfolding dwell_step_Inr by blast
  then have st: "dwell_base_step L p s i = Inr (s', res_transitions r)"
    by (simp add: te_step_def)
  from te_step_one_fact [OF st assms(2)] obtain tr where "res_transitions r = [tr]" ..
  with st r assms(1) that show thesis
    by (auto simp: dwell_step_Inr split: if_splits)
qed

lemma dwell_step_of_base:
  assumes "dwell_base_step L p s i = Inr (s', [tr])"
  shows "dwell_step L p s i =
    (if closes s tr then rbind (build_closed_interval L (dwell_engine p) (in_key i) (ts_state_since s)
         (tt_event_time tr) (tt_reason tr)) (\<lambda>d. Inr (s', [(tr, [d])]))
     else Inr (s', [(tr, [])]))"
proof -
  from assms obtain r where r: "te_apply L (dwell_engine p) (dwell_evaluate (dwell_engine p)) s i = Inr r"
    and s': "s' = res_state r" "res_transitions r = [tr]"
    by (auto simp: te_step_Inr)
  from te_apply_no_intervals [OF r] r s' show ?thesis
    by (simp add: dwell_step_def dwell_apply_def closes_def Let_def rbind_assoc)
qed

lemma dwell_eval_cases:
  assumes "ts_current_state s \<in> {''idle'', ''dwelling''}" and "dwell_evaluate (dwell_engine p) s kind t ob = Inr ev"
  shows "(ev_reason ev = ENTER_CONFIRMED \<and> ts_current_state s = ''idle'' \<and> ev_state ev = ''dwelling'' \<and> ev_state_since ev = Some t)
    \<or> (ev_reason ev \<in> set interval_closing_reasons \<and> ev_state ev = ''idle'' \<and> ev_state_since ev = Some t)
    \<or> (ev_reason ev = OBSERVED_STAY \<and> ev_state ev = ts_current_state s \<and> ev_state_since ev = None)"
  using assms by (auto simp: dwell_evaluate_def interval_closing_reasons_def Let_def split: if_splits)

lemma dwell_base_cases:
  assumes st: "dwell_base_step L p s i = Inr (s', [tr])" and ok: "te_ok (dwell_engine p) s"
  obtains (enter) "tt_reason tr = ENTER_CONFIRMED" "ts_current_state s = ''idle''"
      "ts_current_state s' = ''dwelling''" "ts_state_since s' = Some (tt_event_time tr)"
      "ts_watermark_event_time s' = Some (tt_event_time tr)" "aware (tt_event_time tr)"
      "time_le (ts_watermark_event_time s) (Some (tt_event_time tr))"
    | (close) "tt_reason tr \<in> set interval_closing_reasons" "ts_current_state s' = ''idle''"
      "ts_watermark_event_time s' = Some (tt_event_time tr)" "aware (tt_event_time tr)"
      "time_le (ts_watermark_event_time s) (Some (tt_event_time tr))"
    | (stay) "tt_reason tr \<in> {OBSERVED_STAY, DEDUPLICATED, REORDERED}" "ts_current_state s' = ts_current_state s"
      "ts_state_since s' = ts_state_since s" "time_le (ts_watermark_event_time s) (ts_watermark_event_time s')"
proof (cases "newer_than (te_mark s) (te_pos i)")
  case True
  from te_step_newer [OF st ok True] obtain ev tr' t f where
    ev: "dwell_evaluate (dwell_engine p) s (in_observation_kind i) t (in_observation i) = Inr ev"
    and s': "s' = te_apply_evaluation (dwell_engine p) s ev tr' t f"
    and tr: "[tr] = [tr']" "tt_reason tr' = ev_reason ev" "tt_event_time tr' = t" "aware t"
      "time_le (ts_watermark_event_time s) (Some t)"
    by metis
  have "ts_current_state s \<in> {''idle'', ''dwelling''}"
    using ok by (simp add: te_ok_def)
  from dwell_eval_cases [OF this ev] show thesis
  proof (elim disjE conjE)
    assume "ev_reason ev = ENTER_CONFIRMED" "ts_current_state s = ''idle''" "ev_state ev = ''dwelling''"
      "ev_state_since ev = Some t"
    with enter tr show thesis by (simp add: s' te_apply_evaluation_def)
  next
    assume "ev_reason ev \<in> set interval_closing_reasons" "ev_state ev = ''idle''" "ev_state_since ev = Some t"
    with close tr show thesis by (simp add: s' te_apply_evaluation_def)
  next
    assume "ev_reason ev = OBSERVED_STAY" "ev_state ev = ts_current_state s" "ev_state_since ev = None"
    with stay tr show thesis by (simp add: s' te_apply_evaluation_def)
  qed
next
  case False
  from te_step_not_newer [OF st ok False] obtain tr' where
    "te_core s' = te_core s" "[tr] = [tr']" "tt_reason tr' \<in> {DEDUPLICATED, REORDERED}" by metis
  with stay show thesis by (auto simp: te_core_eq_iff)
qed

lemma dwell_state_ok_step:
  assumes ok: "dwell_state_ok p s" and st: "dwell_step L p s i = Inr (s', out)"
  shows "dwell_state_ok p s'"
proof -
  have te: "te_ok (dwell_engine p) s" using ok by (simp add: dwell_state_ok_def)
  from dwell_step_facts [OF st te] obtain tr where base: "dwell_base_step L p s i = Inr (s', [tr])" by metis
  then obtain r where r: "te_apply L (dwell_engine p) (dwell_evaluate (dwell_engine p)) s i = Inr r" "s' = res_state r"
    by (auto simp: te_step_Inr)
  have te': "te_ok (dwell_engine p) s'"
    using te_apply_ok [OF dwell_evaluator_ok te r(1)] r(2) by simp
  from base te show ?thesis
    by (cases rule: dwell_base_cases) (use te' ok in \<open>simp_all add: dwell_state_ok_def\<close>)
qed

lemma dwell_initial_ok: "key_fsm_kind key = ''dwell'' \<Longrightarrow> dwell_state_ok p (dwell_initial p key)"
  using te_initial_ok [of "dwell_engine p" key]
  by (simp add: dwell_state_ok_def te_initial_state_def)

subsection \<open>Instances of the contracts\<close>

lemma dwell_base_order: "event_time_engine (dwell_base_step L p) (te_ok (dwell_engine p)) te_pos te_mark te_core"
  by (rule te_step_event_time_engine [OF dwell_evaluator_ok dwell_evaluator_core])

interpretation dwell_base: event_time_engine "dwell_base_step L p" "te_ok (dwell_engine p)"
    te_pos te_mark te_core for L p
  by (rule dwell_base_order)

interpretation dwell_order: event_time_engine "dwell_step L p" "dwell_state_ok p" te_pos te_mark te_core for L p
proof
  fix s t i s' os
  assume ok: "dwell_state_ok p s"
  then have te: "te_ok (dwell_engine p) s" by (simp add: dwell_state_ok_def)
  {
    assume st: "dwell_step L p s i = Inr (s', os)"
    show "dwell_state_ok p s'" by (rule dwell_state_ok_step [OF ok st])
    from dwell_step_facts [OF st te] obtain tr ivs where
      base: "dwell_base_step L p s i = Inr (s', [tr])" and out: "os = [(tr, ivs)]"
      and ivs: "if closes s tr then \<exists>d. build_closed_interval L (dwell_engine p) (in_key i) (ts_state_since s)
         (tt_event_time tr) (tt_reason tr) = Inr d \<and> ivs = [d] else ivs = []"
      by metis
    {
      assume new: "newer_than (te_mark s) (te_pos i)"
      show "te_mark s' = Some (te_pos i)"
        by (rule dwell_base.newer_mark [OF te new base])
      show "\<exists>os'. dwell_step L p s' i = Inr (s', os')"
      proof -
        from dwell_base.redelivery [OF te new base] obtain trs where
          again: "dwell_base_step L p s' i = Inr (s', trs)" ..
        have te': "te_ok (dwell_engine p) s'" by (rule dwell_base.step_ok [OF te base])
        have "\<not> newer_than (te_mark s') (te_pos i)"
          by (simp add: dwell_base.newer_mark [OF te new base])
        from te_step_not_newer [OF again te' this] obtain tr' where
          tr': "trs = [tr']" "tt_reason tr' \<in> {DEDUPLICATED, REORDERED}" by metis
        then have "\<not> closes s' tr'" by (auto simp: closes_def interval_closing_reasons_def)
        with again tr'(1) show ?thesis by (simp add: dwell_step_of_base)
      qed
      assume core: "te_core s = te_core t" and okt: "dwell_state_ok p t"
      then have tet: "te_ok (dwell_engine p) t" by (simp add: dwell_state_ok_def)
      from dwell_base.newer_core [OF te tet core new base] obtain t' where
        t': "dwell_base_step L p t i = Inr (t', [tr])" "te_core t' = te_core s'" by blast
      have "ts_state_since t = ts_state_since s" "closes t tr = closes s tr"
        using core by (auto simp: te_core_eq_iff closes_def)
      with t' ivs show "\<exists>t'. dwell_step L p t i = Inr (t', os) \<and> te_core t' = te_core s'"
        by (auto simp: dwell_step_of_base out split: if_splits)
    }
    assume "\<not> newer_than (te_mark s) (te_pos i)"
    then show "te_core s' = te_core s" by (rule dwell_base.older_core [OF te _ base])
  }
  show "te_core s = te_core t \<Longrightarrow> te_mark s = te_mark t" by (rule te_core_mark)
qed

interpretation dwell_restart: restartable_engine "dwell_step L p" "dwell_state_ok p"
    "te_checkpoint (dwell_engine p)" "te_restore (dwell_engine p)" for L p
  by unfold_locales (simp add: dwell_state_ok_def te_restore_checkpoint)

subsection \<open>Intervals\<close>

definition dwell_fact_ok :: "temporal_policy \<Rightarrow> dwell_interval \<Rightarrow> bool" where
  "dwell_fact_ok p d = (dwell_interval_valid d \<and> (\<exists>e. di_dwell_end d = Some e \<and> di_last_seen d = e \<and>
     di_duration_seconds d = Some (seconds_between e (di_dwell_start d)) \<and>
     di_qualified d = (pol_dwell_minimum_seconds p \<le> seconds_between e (di_dwell_start d))))"

definition interval_span :: "dwell_interval \<Rightarrow> datetime \<times> datetime" where
  "interval_span d = (di_dwell_start d, the (di_dwell_end d))"

text \<open>
  The specification of the intervals, over the facts alone: a confirmed entry opens a span, the next
  exit, expiry or session closure ends it.
\<close>

fun closed_spans :: "datetime option \<Rightarrow> temporal_transition list \<Rightarrow> (datetime \<times> datetime) list" where
  "closed_spans since [] = []"
| "closed_spans since (tr # trs) =
     (if tt_reason tr = ENTER_CONFIRMED then closed_spans (Some (tt_event_time tr)) trs
      else if tt_reason tr \<in> {EXIT_CONFIRMED, MISSING_EXPIRED, SESSION_CLOSED} then
        (case since of None \<Rightarrow> [] | Some a \<Rightarrow> [(a, tt_event_time tr)]) @ closed_spans None trs
      else closed_spans since trs)"

definition open_since :: "temporal_state \<Rightarrow> datetime option" where
  "open_since s = (if ts_current_state s = ''dwelling'' then ts_state_since s else None)"

lemma build_closed_interval_Inr:
  "build_closed_interval L E key since e r = Inr d \<longleftrightarrow> (\<exists>a. since = Some a \<and> dwell_interval_valid d \<and>
     d = \<lparr>di_schema_version = SCHEMA_VERSION,
       di_interval_id = std_uuid5 L TEMPORAL_ID_NAMESPACE (join_str ''|'' [canonical key, ''closed'',
         std_isoformat L a, std_isoformat L e, fsm_version (eng_fsm E), pol_revision (eng_policy E)]),
       di_fsm_kind = fsm_name (eng_fsm E), di_key = key, di_dwell_start = a, di_dwell_end = Some e,
       di_last_seen = e, di_duration_seconds = Some (seconds_between e a),
       di_qualified = (seconds_between e a \<ge> pol_dwell_minimum_seconds (eng_policy E)),
       di_minimum_dwell_seconds = pol_dwell_minimum_seconds (eng_policy E), di_reason = Some r,
       di_fsm_version = fsm_version (eng_fsm E), di_policy_revision = pol_revision (eng_policy E)\<rparr>)"
  by (auto simp: build_closed_interval_def dwell_interval_identity_def Let_def split: option.splits)

lemma build_closed_interval_total:
  "aware a \<Longrightarrow> aware e \<Longrightarrow> \<not> dt_less e a \<Longrightarrow> fsm_name (eng_fsm E) \<noteq> '''' \<Longrightarrow>
     0 \<le> pol_dwell_minimum_seconds (eng_policy E) \<Longrightarrow>
     \<exists>d. build_closed_interval L E key (Some a) e r = Inr d"
  by (auto simp: build_closed_interval_def dwell_interval_identity_def dwell_interval_valid_def Let_def
      construct_def dt_less_def seconds_between_def)

lemma dwell_step_spans:
  assumes ok: "dwell_state_ok p s" and st: "dwell_step L p s i = Inr (s', out)"
  obtains tr ivs where "out = [(tr, ivs)]" "\<forall>d\<in>set ivs. dwell_fact_ok p d"
    "\<And>trs. closed_spans (open_since s) (tr # trs) = map interval_span ivs @ closed_spans (open_since s') trs"
proof -
  have te: "te_ok (dwell_engine p) s" using ok by (simp add: dwell_state_ok_def)
  from dwell_step_facts [OF st te] obtain tr ivs where
    base: "dwell_base_step L p s i = Inr (s', [tr])" and out: "out = [(tr, ivs)]"
    and ivs: "if closes s tr then \<exists>d. build_closed_interval L (dwell_engine p) (in_key i) (ts_state_since s)
         (tt_event_time tr) (tt_reason tr) = Inr d \<and> ivs = [d] else ivs = []"
    by metis
  have facts: "\<forall>d\<in>set ivs. dwell_fact_ok p d"
    using ivs by (auto simp: build_closed_interval_Inr dwell_fact_ok_def split: if_splits)
  have "closed_spans (open_since s) (tr # trs) = map interval_span ivs @ closed_spans (open_since s') trs" for trs
    using base te
  proof (cases rule: dwell_base_cases)
    case enter
    with ivs show ?thesis by (simp add: open_since_def closes_def interval_closing_reasons_def)
  next
    case close
    with ivs ok show ?thesis
      by (auto simp: open_since_def closes_def interval_closing_reasons_def build_closed_interval_Inr interval_span_def
          dwell_state_ok_def te_ok_def)
  next
    case stay
    with ivs show ?thesis by (auto simp: open_since_def closes_def interval_closing_reasons_def)
  qed
  with out facts that show thesis by blast
qed

lemma dwell_run_spans:
  "dwell_state_ok p s \<Longrightarrow> run_facts (dwell_step L p) s is = Inr (s', out) \<Longrightarrow>
     map interval_span (concat (map snd out)) = closed_spans (open_since s) (map fst out) \<and>
     (\<forall>d\<in>set (concat (map snd out)). dwell_fact_ok p d)"
proof (induction "is" arbitrary: s out)
  case Nil
  then show ?case by simp
next
  case (Cons i "is")
  then obtain s1 o1 o2 where st: "dwell_step L p s i = Inr (s1, o1)"
    and run: "run_facts (dwell_step L p) s1 is = Inr (s', o2)" and out: "out = o1 @ o2"
    by (auto simp: run_facts_Cons_Inr simp del: run_facts.simps)
  from dwell_step_spans [OF Cons.prems(1) st] obtain tr ivs where o1: "o1 = [(tr, ivs)]"
    "\<forall>d\<in>set ivs. dwell_fact_ok p d"
    and spans: "\<And>trs. closed_spans (open_since s) (tr # trs) = map interval_span ivs @ closed_spans (open_since s1) trs"
    by metis
  from Cons.IH [OF dwell_state_ok_step [OF Cons.prems(1) st] run] o1 spans show ?case
    by (auto simp: out simp del: closed_spans.simps)
qed

subsection \<open>Intervals do not overlap\<close>

definition frontier :: "temporal_state \<Rightarrow> datetime option" where
  "frontier s = (if ts_current_state s = ''dwelling'' then ts_state_since s else ts_watermark_event_time s)"

lemma dwell_step_frontier:
  assumes ok: "dwell_state_ok p s" and st: "dwell_step L p s i = Inr (s', [(tr, ivs)])"
  shows "time_le (frontier s) (frontier s') \<and>
     (\<forall>d\<in>set ivs. ivs = [d] \<and> time_le (frontier s) (Some (di_dwell_start d)) \<and>
        time_le (di_dwell_end d) (frontier s'))"
proof -
  have te: "te_ok (dwell_engine p) s" using ok by (simp add: dwell_state_ok_def)
  from dwell_step_facts [OF st te] have
    base: "dwell_base_step L p s i = Inr (s', [tr])"
    and ivs: "if closes s tr then \<exists>d. build_closed_interval L (dwell_engine p) (in_key i) (ts_state_since s)
         (tt_event_time tr) (tt_reason tr) = Inr d \<and> ivs = [d] else ivs = []"
    by (metis list.inject prod.inject)+
  have since: "time_le (ts_state_since s) (ts_watermark_event_time s)"
    using te by (simp add: te_ok_def)
  from base te show ?thesis
  proof (cases rule: dwell_base_cases)
    case enter
    with ivs show ?thesis by (simp add: frontier_def closes_def)
  next
    case close
    with ivs since show ?thesis
      by (auto simp: frontier_def closes_def build_closed_interval_Inr intro: time_le_trans split: if_splits)
  next
    case stay
    with ivs show ?thesis by (auto simp: frontier_def closes_def interval_closing_reasons_def)
  qed
qed

definition before :: "dwell_interval \<Rightarrow> dwell_interval \<Rightarrow> bool" where
  "before a b = time_le (di_dwell_end a) (Some (di_dwell_start b))"

lemma dwell_run_disjoint:
  "dwell_state_ok p s \<Longrightarrow> run_facts (dwell_step L p) s is = Inr (s', out) \<Longrightarrow>
     sorted_wrt before (concat (map snd out)) \<and>
     (\<forall>d\<in>set (concat (map snd out)). time_le (frontier s) (Some (di_dwell_start d)))"
proof (induction "is" arbitrary: s out)
  case Nil
  then show ?case by simp
next
  case (Cons i "is")
  then obtain s1 o1 o2 where st: "dwell_step L p s i = Inr (s1, o1)"
    and run: "run_facts (dwell_step L p) s1 is = Inr (s', o2)" and out: "out = o1 @ o2"
    by (auto simp: run_facts_Cons_Inr simp del: run_facts.simps)
  from dwell_step_spans [OF Cons.prems(1) st] obtain tr ivs where o1: "o1 = [(tr, ivs)]" by metis
  note front = dwell_step_frontier [OF Cons.prems(1) st [unfolded o1]]
  from Cons.IH [OF dwell_state_ok_step [OF Cons.prems(1) st] run]
  have sorted: "sorted_wrt before (concat (map snd o2))"
    and later: "\<And>d. d \<in> set (concat (map snd o2)) \<Longrightarrow> time_le (frontier s1) (Some (di_dwell_start d))"
    by blast+
  have "ivs = [] \<or> (\<exists>d. ivs = [d])"
    using front by (cases ivs) auto
  then show ?case
  proof
    assume "ivs = []"
    with sorted later front show ?thesis by (auto simp: out o1 intro: time_le_trans)
  next
    assume "\<exists>d. ivs = [d]"
    then obtain d where d: "ivs = [d]" ..
    have "before d e" if "e \<in> set (concat (map snd o2))" for e
      using front d later [OF that] by (auto simp: before_def intro: time_le_trans)
    with sorted later front d show ?thesis by (auto simp: out o1 intro: time_le_trans)
  qed
qed

subsection \<open>The wiring with the enter/exit engine\<close>

definition lockstep :: "temporal_policy \<Rightarrow> temporal_state \<times> temporal_state \<Rightarrow> bool" where
  "lockstep p s = (presence_ok p (fst s) \<and> dwell_state_ok p (snd s) \<and>
     ts_watermark_event_time (snd s) = ts_watermark_event_time (fst s) \<and>
     ts_last_applied_frame_id (snd s) = ts_last_applied_frame_id (fst s) \<and>
     (ts_current_state (snd s) = ''dwelling'') = occupied (ts_current_state (fst s)))"

lemma dwell_validate_follows:
  assumes "te_validate (presence_engine p) ps inp = Inr u" and "te_ok (dwell_engine p) ds"
  shows "te_validate (dwell_engine p) ds (inp\<lparr>in_key := (in_key inp)\<lparr>key_fsm_kind := ''dwell''\<rparr>,
      in_observation_kind := dwell_event_from_presence tr\<rparr>) = Inr ()"
proof -
  have "dwell_event_from_presence tr \<in> set dwell_observation_kinds" "dwell_event_from_presence tr \<noteq> ''''"
    by (simp_all add: dwell_event_from_presence_def dwell_observation_kinds_def)
  with te_validate_Inr [OF assms(1)] assms(2) show ?thesis
    by (simp add: te_validate_def te_ok_def check_key_matches_observation_def)
qed

lemma dwell_evaluate_follows:
  assumes "presence_trace inside [tt_reason tr] = Some inside'"
    and "ts_current_state ds = (if inside then ''dwelling'' else ''idle'')"
  shows "\<exists>ev. dwell_evaluate (dwell_engine p) ds (dwell_event_from_presence tr) t ob = Inr ev \<and>
     ev_state ev = (if inside' then ''dwelling'' else ''idle'')"
  using assms
  by (cases "tt_reason tr"; cases inside) (auto simp: dwell_evaluate_def dwell_event_from_presence_def Let_def)

lemma dwell_reason_follows:
  "tt_reason tr \<in> {DEDUPLICATED, REORDERED} \<Longrightarrow> dwell_event_from_presence tr = ''stay''"
  by (auto simp: dwell_event_from_presence_def)

abbreviation dwell_input :: "temporal_input \<Rightarrow> temporal_transition \<Rightarrow> temporal_input" where
  "dwell_input inp tr \<equiv> inp\<lparr>in_key := (in_key inp)\<lparr>key_fsm_kind := ''dwell''\<rparr>,
     in_observation_kind := dwell_event_from_presence tr\<rparr>"

lemma lockstep_dwell_total:
  assumes lock: "lockstep p (ps, ds)" and pres: "presence_step L p ps inp = Inr (ps', [tr])"
  shows "\<exists>ds' tr'. dwell_base_step L p ds (dwell_input inp tr) = Inr (ds', [tr']) \<and>
     ts_watermark_event_time ds' = ts_watermark_event_time ps' \<and>
     ts_last_applied_frame_id ds' = ts_last_applied_frame_id ps' \<and>
     (ts_current_state ds' = ''dwelling'') = occupied (ts_current_state ps')"
proof -
  let ?p = "observation_position (in_observation inp)" and ?inp = "dwell_input inp tr"
  let ?cmp = "compare_position ?p (ts_watermark_event_time ps) (ts_last_applied_frame_id ps)"
  from lock have pte: "te_ok (presence_engine p) ps" and dte: "te_ok (dwell_engine p) ds"
    and wm: "ts_watermark_event_time ds = ts_watermark_event_time ps"
      "ts_last_applied_frame_id ds = ts_last_applied_frame_id ps"
    and occ: "(ts_current_state ds = ''dwelling'') = occupied (ts_current_state ps)"
    by (simp_all add: lockstep_def presence_ok_def dwell_state_ok_def)
  from pres obtain r where r: "presence_apply L p ps inp = Inr r" "ps' = res_state r"
    by (auto simp: te_step_Inr)
  have val: "te_validate (presence_engine p) ps inp = Inr ()" and
    "\<exists>order. ?cmp = Inr order"
    using r(1) by (auto simp: te_apply_def Let_def)
  then obtain order where order: "?cmp = Inr order" by blast
  have marks: "te_mark ds = te_mark ps" "te_pos ?inp = te_pos inp"
    by (simp_all add: te_mark_def te_pos_def wm)
  have states: "ts_current_state ds = (if occupied (ts_current_state ps) then ''dwelling'' else ''idle'')"
    using occ dte by (auto simp: te_ok_def)
  obtain ev where ev: "order = Newer \<Longrightarrow> dwell_evaluate (dwell_engine p) ds (dwell_event_from_presence tr)
      (fst ?p) (in_observation inp) = Inr ev" "order = Newer \<Longrightarrow>
      ev_state ev = (if occupied (ts_current_state ps') then ''dwelling'' else ''idle'')"
    using dwell_evaluate_follows [OF presence_step_trace [OF pte pres, simplified list.map] states] by blast
  have "\<exists>r. te_apply L (dwell_engine p) (dwell_evaluate (dwell_engine p)) ds ?inp = Inr r"
    by (rule te_apply_total [OF dwell_validate_follows [OF val dte], where order = order])
      (use order ev te_apply_Older_window [OF r(1)] in \<open>simp_all add: wm\<close>)
  then obtain ds' trs where dst: "dwell_base_step L p ds ?inp = Inr (ds', trs)"
    by (auto simp: te_step_Inr)
  with te_step_one_fact [OF dst dte] obtain tr' where dst: "dwell_base_step L p ds ?inp = Inr (ds', [tr'])"
    by blast
  show ?thesis
  proof (cases "newer_than (te_mark ps) (te_pos inp)")
    case True
    from te_step_newer [OF pres pte True] obtain pev ptr where
      ps': "ps' = te_apply_evaluation (presence_engine p) ps pev ptr (fst ?p) (snd ?p)" by metis
    have "newer_than (te_mark ds) (te_pos ?inp)"
      using True marks by simp
    from te_step_newer [OF dst dte this] obtain dev dtr t f where
      "t = fst (observation_position (in_observation ?inp))"
      "f = snd (observation_position (in_observation ?inp))"
      "dwell_evaluate (dwell_engine p) ds (in_observation_kind ?inp) t (in_observation ?inp) = Inr dev"
      "ds' = te_apply_evaluation (dwell_engine p) ds dev dtr t f"
      by metis
    then have dev: "dwell_evaluate (dwell_engine p) ds (dwell_event_from_presence tr) (fst ?p) (in_observation inp) = Inr dev"
      and ds': "ds' = te_apply_evaluation (dwell_engine p) ds dev dtr (fst ?p) (snd ?p)"
      by simp_all
    have "order = Newer"
      using True order pte by (simp add: compare_position_whole te_ok_def te_mark_def te_pos_def)
    with ev dev have "ev_state dev = (if occupied (ts_current_state ps') then ''dwelling'' else ''idle'')"
      by simp
    with dst show ?thesis by (auto simp: ds' te_apply_evaluation_def ps')
  next
    case False
    from te_step_not_newer [OF pres pte False] have "te_core ps' = te_core ps" by metis
    moreover from te_step_not_newer [OF dst dte] False marks have "te_core ds' = te_core ds" by metis
    ultimately show ?thesis using dst wm occ by (auto simp: te_core_eq_iff)
  qed
qed

lemma dwell_step_total:
  assumes pol: "temporal_policy_valid p" and ok: "dwell_state_ok p s"
    and base: "dwell_base_step L p s i = Inr (s', [tr])"
  shows "\<exists>out. dwell_step L p s i = Inr (s', out)"
proof (cases "closes s tr")
  case False
  with base show ?thesis by (simp add: dwell_step_of_base)
next
  case True
  have te: "te_ok (dwell_engine p) s" using ok by (simp add: dwell_state_ok_def)
  from True ok obtain a where a: "ts_state_since s = Some a"
    by (auto simp: closes_def dwell_state_ok_def)
  have aw: "aware a" "time_le (Some a) (ts_watermark_event_time s)"
    using te a by (auto simp: te_ok_def temporal_state_valid_def)
  have "aware (tt_event_time tr) \<and> \<not> dt_less (tt_event_time tr) a"
    using base te
  proof (cases rule: dwell_base_cases)
    case close
    with time_le_trans [OF aw(2) close(5)] show ?thesis by simp
  qed (use True in \<open>auto simp: closes_def interval_closing_reasons_def\<close>)
  then have "\<exists>d. build_closed_interval L (dwell_engine p) (in_key i) (Some a)
      (tt_event_time tr) (tt_reason tr) = Inr d"
    by (intro build_closed_interval_total [OF aw(1)])
      (use pol in \<open>simp_all add: temporal_policy_valid_def\<close>)
  then obtain d where "build_closed_interval L (dwell_engine p) (in_key i) (Some a)
      (tt_event_time tr) (tt_reason tr) = Inr d" ..
  with base True a show ?thesis by (simp add: dwell_step_of_base)
qed

lemma lockstep_step:
  assumes pol: "temporal_policy_valid p" and lock: "lockstep p s"
    and pres: "presence_apply L p (fst s) inp = Inr r"
  shows "\<exists>s' out. presence_dwell_step L p s inp = Inr (s', out) \<and> fst s' = res_state r \<and> lockstep p s'"
proof -
  obtain ps ds where s: "s = (ps, ds)" by (cases s)
  have pok: "presence_ok p ps" and pte: "te_ok (presence_engine p) ps" and dok: "dwell_state_ok p ds"
    using lock by (simp_all add: s lockstep_def presence_ok_def)
  have "presence_step L p ps inp = Inr (res_state r, res_transitions r)"
    using pres by (simp add: te_step_def s)
  with te_step_one_fact [OF this pte] obtain tr where
    pst: "presence_step L p ps inp = Inr (res_state r, [tr])" and tr: "res_transitions r = [tr]"
    by auto
  from lockstep_dwell_total [OF lock [unfolded s] pst] obtain ds' tr' where
    base: "dwell_base_step L p ds (dwell_input inp tr) = Inr (ds', [tr'])"
    and rel: "ts_watermark_event_time ds' = ts_watermark_event_time (res_state r)"
      "ts_last_applied_frame_id ds' = ts_last_applied_frame_id (res_state r)"
      "(ts_current_state ds' = ''dwelling'') = occupied (ts_current_state (res_state r))"
    by blast
  from dwell_step_total [OF pol dok base] obtain out where
    dst: "dwell_step L p ds (dwell_input inp tr) = Inr (ds', out)" ..
  have "lockstep p (res_state r, ds')"
    using rel presence_ok_step [OF pol pok pst] dwell_state_ok_step [OF dok dst]
    by (simp add: lockstep_def)
  with pres dst tr show ?thesis by (simp add: presence_dwell_step_def s)
qed

lemma lockstep_initial:
  "key_fsm_kind pkey = ''presence'' \<Longrightarrow> key_fsm_kind dkey = ''dwell'' \<Longrightarrow>
     lockstep p (presence_initial p pkey, dwell_initial p dkey)"
  using presence_initial_ok [of pkey p] dwell_initial_ok [of dkey p]
  by (simp add: lockstep_def te_initial_state_def occupied_def)

lemma lockstep_presence:
  "presence_dwell_step L p s inp = Inr (s', out) \<Longrightarrow> \<exists>r. presence_apply L p (fst s) inp = Inr r"
  by (auto simp: presence_dwell_step_def)

lemma lockstep_step_run:
  assumes pol: "temporal_policy_valid p" and lock: "lockstep p s" and st: "presence_dwell_step L p s i = Inr (s', out)"
  shows "lockstep p s'"
proof -
  from lockstep_presence [OF st] obtain r where "presence_apply L p (fst s) i = Inr r" ..
  from lockstep_step [OF pol lock this] st show ?thesis by auto
qed

lemma lockstep_run:
  assumes "temporal_policy_valid p"
  shows "lockstep p s \<Longrightarrow> run_facts (presence_dwell_step L p) s is = Inr (s', out) \<Longrightarrow> lockstep p s'"
  by (rule run_facts_invariant [where P = "lockstep p" and f = "presence_dwell_step L p"])
    (rule lockstep_step_run [OF assms])

lemmas dwell_eval =
  te_eval dwell_step_def dwell_apply_def dwell_evaluate_def dwell_observation_kinds_def
  interval_closing_reasons_def build_closed_interval_def dwell_interval_identity_def
  dwell_interval_valid_def dwell_event_from_presence_def

abbreviation sample_stay :: "temporal_input list" where
  "sample_stay \<equiv> [sample_input ''dwell'' 7 ''enter_confirmed'' 1 1,
     sample_input ''dwell'' 7 ''stay'' 2 2, sample_input ''dwell'' 7 ''exit_confirmed'' 5 3]"

lemma sample_dwell_run: "\<exists>s out. run_facts (dwell_step sample_lib sample_policy)
    (dwell_initial sample_policy (sample_key ''dwell'' 7)) sample_stay = Inr (s, out) \<and>
    map interval_span (concat (map snd out)) = [(utc_at 1000000, utc_at 5000000)]"
  by (simp add: dwell_eval interval_span_def)

lemma sample_lockstep_run: "\<exists>s out r. run_facts (presence_dwell_step sample_lib sample_policy)
    (presence_initial sample_policy (sample_key ''presence'' 7), dwell_initial sample_policy (sample_key ''dwell'' 7))
    [sample_input ''presence'' 7 ''present'' 0 1] = Inr (s, out) \<and>
    presence_apply sample_lib sample_policy (fst s) (sample_input ''presence'' 7 ''present'' 1 2) = Inr r \<and>
    ts_current_state (res_state r) = ''present''"
  by (simp add: dwell_eval presence_dwell_step_def presence_evaluate_defs presence_observation_kinds_def)

subsection \<open>Properties\<close>

text \<open>
  C3: Fed with the facts of the enter/exit engine, the dwell engine accepts every observation that the
  enter/exit engine accepts (its machine is never asked for an illegal transition and every interval
  it builds is a valid contract object), and it is dwelling exactly while presence is confirmed.
\<close>

theorem dwell_follows_presence:
  assumes "temporal_policy_valid p" and "key_fsm_kind pkey = ''presence''" and "key_fsm_kind dkey = ''dwell''"
    and "run_facts (presence_dwell_step L p) (presence_initial p pkey, dwell_initial p dkey) is = Inr (s, facts)"
    and "presence_apply L p (fst s) inp = Inr r"
  shows "\<exists>s' facts'. presence_dwell_step L p s inp = Inr (s', facts') \<and> fst s' = res_state r \<and>
     (ts_current_state (snd s') = ''dwelling'') = occupied (ts_current_state (res_state r))"
proof -
  have "lockstep p s"
    by (rule lockstep_run [OF assms(1) lockstep_initial [OF assms(2,3)] assms(4)])
  from lockstep_step [OF assms(1) this assms(5)] show ?thesis
    by (auto simp: lockstep_def)
qed

theorem dwell_follows_presence_witness:
  "\<exists>(s :: temporal_state \<times> temporal_state). ts_current_state (snd s) = ''dwelling'' \<and>
     ts_current_state (fst s) = ''present''"
proof -
  from sample_lockstep_run obtain s out r where
    run: "run_facts (presence_dwell_step sample_lib sample_policy)
      (presence_initial sample_policy (sample_key ''presence'' 7), dwell_initial sample_policy (sample_key ''dwell'' 7))
      [sample_input ''presence'' 7 ''present'' 0 1] = Inr (s, out)"
    and st: "presence_apply sample_lib sample_policy (fst s) (sample_input ''presence'' 7 ''present'' 1 2) = Inr r"
    and cur: "ts_current_state (res_state r) = ''present''"
    by (auto simp del: run_facts.simps)
  from dwell_follows_presence [OF sample_policy_valid _ _ run st] cur show ?thesis
    by (auto simp: occupied_def)
qed

text \<open>
  The closed intervals of a run of the dwell engine are exactly the spans between a confirmed entry
  and the fact that ends the stay, with that duration, qualified exactly when the duration reaches
  the threshold, and each satisfies the validators of the contract.
\<close>

theorem dwell_intervals_are_spans:
  assumes "key_fsm_kind key = ''dwell''"
    and "run_facts (dwell_step L p) (dwell_initial p key) is = Inr (s, out)"
  shows "map interval_span (concat (map snd out)) = closed_spans None (map fst out) \<and>
     list_all (dwell_fact_ok p) (concat (map snd out))"
  using dwell_run_spans [OF dwell_initial_ok [OF assms(1)] assms(2)]
  by (simp add: open_since_def te_initial_state_def list_all_iff)

theorem dwell_intervals_are_spans_witness:
  "\<exists>(facts :: temporal_transition list). closed_spans None facts = [(utc_at 1000000, utc_at 5000000)]"
proof -
  from sample_dwell_run obtain s out where
    run: "run_facts (dwell_step sample_lib sample_policy) (dwell_initial sample_policy (sample_key ''dwell'' 7))
      sample_stay = Inr (s, out)"
    and spans: "map interval_span (concat (map snd out)) = [(utc_at 1000000, utc_at 5000000)]"
    by (auto simp del: run_facts.simps)
  from dwell_intervals_are_spans [OF _ run] spans have
    "closed_spans None (map fst out) = [(utc_at 1000000, utc_at 5000000)]" by simp
  then show ?thesis by blast
qed

text \<open>
  The closed intervals of a run never overlap: each starts no earlier than the previous one ended.
\<close>

theorem dwell_intervals_disjoint:
  assumes "key_fsm_kind key = ''dwell''"
    and "run_facts (dwell_step L p) (dwell_initial p key) is = Inr (s, out)"
  shows "sorted_wrt before (concat (map snd out))"
  using dwell_run_disjoint [OF dwell_initial_ok [OF assms(1)] assms(2)] by blast

theorem dwell_intervals_disjoint_witness:
  "\<exists>(ds :: dwell_interval list). map interval_span ds = [(utc_at 1000000, utc_at 5000000)] \<and> sorted_wrt before ds"
proof -
  from sample_dwell_run obtain s out where
    run: "run_facts (dwell_step sample_lib sample_policy) (dwell_initial sample_policy (sample_key ''dwell'' 7))
      sample_stay = Inr (s, out)"
    and spans: "map interval_span (concat (map snd out)) = [(utc_at 1000000, utc_at 5000000)]"
    by (auto simp del: run_facts.simps)
  have "sorted_wrt before (concat (map snd out))"
    by (rule dwell_intervals_disjoint [OF _ run]) simp
  with spans show ?thesis by (intro exI conjI)
qed

end
