(* ===== verification/Occupancy.thy ===== *)
theory Occupancy
  imports Dwell_Facts
begin

text \<open>
  The occupancy engine (\<open>temporal/occupancy.py\<close>): one aggregate state per spatial scope, fed with the
  facts of the enter/exit engine of every track in the scope. It counts the tracks that are
  confirmed present, keeps the last applied position of every track to recognise redeliveries, and
  emits a snapshot for every change of the counted set.
\<close>

subsection \<open>The machine and the scope\<close>

definition occupancy_rules :: "fsm_rule list" where
  "occupancy_rules =
    [FsmRule ''idle'' ''enter_confirmed'' ''occupied'',
     FsmRule ''occupied'' ''exit_confirmed'' ''idle'',
     FsmRule ''occupied'' ''missing_expired'' ''idle'',
     FsmRule ''occupied'' ''session_closed'' ''idle'',
     FsmRule ''idle'' ''session_closed'' ''idle'',
     FsmRule ''idle'' ''stay'' ''idle'',
     FsmRule ''occupied'' ''stay'' ''occupied'']"

definition OCCUPANCY_FSM :: fsm where
  "OCCUPANCY_FSM = \<lparr>fsm_name = ''occupancy'', fsm_version = TEMPORAL_ENGINE_VERSION,
     fsm_states = [''idle'', ''occupied''], fsm_initial_state = ''idle'',
     fsm_lookup = map (\<lambda>r. ((rule_from r, rule_event r), rule_to r)) occupancy_rules\<rparr>"

lemma OCCUPANCY_FSM_constructed:
  "make_fsm ''occupancy'' TEMPORAL_ENGINE_VERSION [''idle'', ''occupied''] ''idle'' occupancy_rules =
     Inr OCCUPANCY_FSM"
  by (simp add: make_fsm_def OCCUPANCY_FSM_def occupancy_rules_def)

interpretation occupancy_fsm: legal_fsm OCCUPANCY_FSM
  by (rule make_fsm_legal_fsm [OF OCCUPANCY_FSM_constructed])

lemma occupancy_fsm_simps [simp]:
  "fsm_name OCCUPANCY_FSM = ''occupancy''" "fsm_version OCCUPANCY_FSM = TEMPORAL_ENGINE_VERSION"
  by (simp_all add: OCCUPANCY_FSM_def)

definition OCCUPANCY_SCOPE_TRACK :: "stdlib \<Rightarrow> uuid" where
  "OCCUPANCY_SCOPE_TRACK L = std_uuid5 L TEMPORAL_ID_NAMESPACE ''occupancy-scope-aggregate''"

definition occupancy_event_from_presence :: "temporal_transition \<Rightarrow> string" where
  "occupancy_event_from_presence tr =
     (if tt_reason tr = ENTER_CONFIRMED then ''enter_confirmed''
      else if tt_reason tr = EXIT_CONFIRMED then ''exit_confirmed''
      else if tt_reason tr = MISSING_EXPIRED then ''missing_expired''
      else if tt_reason tr = SESSION_CLOSED then ''session_closed''
      else ''stay'')"

definition occupancy_scope_key :: "stdlib \<Rightarrow> temporal_state_key \<Rightarrow> temporal_state_key" where
  "occupancy_scope_key L presence_key =
     presence_key\<lparr>key_fsm_kind := ''occupancy'', key_track_id := OCCUPANCY_SCOPE_TRACK L\<rparr>"

record occupancy_input =
  oi_key :: temporal_state_key
  oi_transition :: temporal_transition
  oi_observation_kind :: string
  oi_processing_time :: datetime

record occupancy_result =
  or_state :: occupancy_state
  or_snapshot :: "occupancy_snapshot option"
  or_deduplicated :: bool
  or_reordered :: bool

definition occupancy_observation_kinds :: "string list" where
  "occupancy_observation_kinds =
     [''enter_confirmed'', ''exit_confirmed'', ''missing_expired'', ''stay'', ''session_closed'']"

subsection \<open>Operations\<close>

definition occupancy_initial_state :: "stdlib \<Rightarrow> temporal_state_key \<Rightarrow> temporal_error + occupancy_state" where
  "occupancy_initial_state L key =
     (if key_fsm_kind key \<noteq> ''occupancy''
      then Inl (InvalidTemporalInput (KeyFsmKindMismatch (key_fsm_kind key)))
      else if key_track_id key \<noteq> OCCUPANCY_SCOPE_TRACK L
      then Inl (InvalidTemporalInput ScopeTrackRequired)
      else construct ''OccupancyState'' occupancy_state_valid
        \<lparr>os_schema_version = SCHEMA_VERSION, os_fsm_version = fsm_version OCCUPANCY_FSM, os_key = key,
         os_occupied_tracks = {}, os_entity_positions = Map.empty, os_watermark_event_time = None,
         os_last_applied_frame_id = None\<rparr>)"

definition check_scope_matches_transition ::
    "temporal_state_key \<Rightarrow> temporal_state_key \<Rightarrow> temporal_error + unit" where
  "check_scope_matches_transition scope_key transition_key =
     (let mismatches =
        (if key_tenant_id scope_key \<noteq> key_tenant_id transition_key then [''tenant_id''] else []) @
        (if key_venue_id scope_key \<noteq> key_venue_id transition_key then [''venue_id''] else []) @
        (if key_session_id scope_key \<noteq> key_session_id transition_key then [''session_id''] else []) @
        (if key_camera_id scope_key \<noteq> key_camera_id transition_key then [''camera_id''] else []) @
        (if key_configuration_version_id scope_key \<noteq> key_configuration_version_id transition_key
         then [''configuration_version_id''] else []) @
        (if key_semantic_context scope_key \<noteq> key_semantic_context transition_key
         then [''semantic_context''] else [])
      in ensure (mismatches = []) (StateKeyMismatch mismatches))"

definition occupancy_validate :: "stdlib \<Rightarrow> occupancy_state \<Rightarrow> occupancy_input \<Rightarrow> temporal_error + unit" where
  "occupancy_validate L st inp =
     (let tr = oi_transition inp; key = oi_key inp; kind = oi_observation_kind inp in
      if os_key st \<noteq> key then Inl (InvalidTemporalInput InputKeyMismatch)
      else if key_fsm_kind key \<noteq> ''occupancy''
      then Inl (InvalidTemporalInput (KeyFsmKindMismatch (key_fsm_kind key)))
      else if key_track_id key \<noteq> OCCUPANCY_SCOPE_TRACK L
      then Inl (InvalidTemporalInput ScopeTrackRequired)
      else if os_fsm_version st \<noteq> fsm_version OCCUPANCY_FSM
      then Inl (FsmVersionMismatch (os_fsm_version st) (fsm_version OCCUPANCY_FSM))
      else if key_fsm_kind (tt_key tr) \<noteq> ''presence''
      then Inl (InvalidTemporalInput (FactFsmKindMismatch (key_fsm_kind (tt_key tr))))
      else if kind \<notin> set occupancy_observation_kinds
      then Inl (InvalidTemporalInput (UnknownObservationKind kind))
      else if occupancy_event_from_presence tr \<noteq> kind
      then Inl (InvalidTemporalInput KindFactMismatch)
      else if \<not> aware (oi_processing_time inp) then Inl (InvalidTemporalInput NaiveProcessingTime)
      else if \<not> aware (tt_event_time tr) then Inl (InvalidTemporalInput NaiveEventTime)
      else check_scope_matches_transition key (tt_key tr))"

text \<open>\<open>tuple(sorted(occupied_tracks, key=str))\<close>: the rendering of a UUID determines it.\<close>

definition sorted_tracks :: "uuid set \<Rightarrow> uuid list" where
  "sorted_tracks A = sort_key str_uuid (sorted_list_of_set A)"

definition snapshot_identity :: "stdlib \<Rightarrow> temporal_policy \<Rightarrow> temporal_state_key \<Rightarrow> datetime \<Rightarrow> nat \<Rightarrow>
    uuid \<Rightarrow> string" where
  "snapshot_identity L p key event_time count source_transition_id =
     join_str ''|'' [canonical key, std_isoformat L event_time, str_nat count,
       str_uuid source_transition_id, fsm_version OCCUPANCY_FSM, pol_revision p]"

definition build_snapshot :: "stdlib \<Rightarrow> temporal_policy \<Rightarrow> occupancy_state \<Rightarrow> nat \<Rightarrow> datetime \<Rightarrow>
    temporal_transition \<Rightarrow> temporal_error + occupancy_snapshot" where
  "build_snapshot L p st previous_count event_time source =
     (let count = occupancy_count st; delta = int count - int previous_count in
      construct ''OccupancySnapshot'' occupancy_snapshot_valid
        \<lparr>sn_schema_version = SCHEMA_VERSION,
         sn_snapshot_id = std_uuid5 L TEMPORAL_ID_NAMESPACE
           (snapshot_identity L p (os_key st) event_time count (tt_transition_id source)),
         sn_fsm_kind = fsm_name OCCUPANCY_FSM, sn_key = os_key st, sn_event_time = event_time,
         sn_previous_count = int previous_count, sn_delta = delta, sn_occupancy_count = int count,
         sn_occupied_tracks = sorted_tracks (os_occupied_tracks st),
         sn_source_transition_id = tt_transition_id source, sn_fsm_version = fsm_version OCCUPANCY_FSM,
         sn_policy_revision = pol_revision p\<rparr>)"

text \<open>The in-order branch of \<open>apply\<close>.\<close>

definition occupancy_apply_in_order :: "stdlib \<Rightarrow> temporal_policy \<Rightarrow> occupancy_state \<Rightarrow> occupancy_input \<Rightarrow>
    position_order \<Rightarrow> temporal_error + occupancy_result" where
  "occupancy_apply_in_order L p st inp order =
     (let tr = oi_transition inp; track = key_track_id (tt_key tr);
          position = (tt_event_time tr, tt_observation_frame_id tr);
          entity_state = (if track \<in> os_occupied_tracks st then ''occupied'' else ''idle'')
      in rbind (transition OCCUPANCY_FSM entity_state (oi_observation_kind inp)) (\<lambda>next_st.
        let occupied = (if next_st = ''occupied'' then insert track (os_occupied_tracks st)
              else if next_st = ''idle'' \<and> track \<in> os_occupied_tracks st
              then os_occupied_tracks st - {track} else os_occupied_tracks st);
            updated = st\<lparr>os_occupied_tracks := occupied,
              os_entity_positions := (os_entity_positions st)(track \<mapsto> position),
              os_watermark_event_time :=
                (if order = Newer then Some (fst position) else os_watermark_event_time st),
              os_last_applied_frame_id :=
                (if order = Newer then Some (snd position) else os_last_applied_frame_id st)\<rparr>
        in if occupied \<noteq> os_occupied_tracks st then
             rbind (build_snapshot L p updated (occupancy_count st) (fst position) tr) (\<lambda>snapshot.
               Inr \<lparr>or_state = updated, or_snapshot = Some snapshot, or_deduplicated = False,
                 or_reordered = False\<rparr>)
           else Inr \<lparr>or_state = updated, or_snapshot = None, or_deduplicated = False,
                 or_reordered = False\<rparr>))"

definition same_position :: "datetime \<times> uuid \<Rightarrow> datetime \<times> uuid \<Rightarrow> bool" where
  "same_position a b = (dt_eq (fst a) (fst b) \<and> snd a = snd b)"

definition occupancy_apply :: "stdlib \<Rightarrow> temporal_policy \<Rightarrow> occupancy_state \<Rightarrow> occupancy_input \<Rightarrow>
    temporal_error + occupancy_result" where
  "occupancy_apply L p st inp =
     rbind (occupancy_validate L st inp) (\<lambda>_.
       let tr = oi_transition inp; position = (tt_event_time tr, tt_observation_frame_id tr);
           duplicate = (case os_entity_positions st (key_track_id (tt_key tr)) of
               None \<Rightarrow> False | Some last_position \<Rightarrow> same_position position last_position)
       in if duplicate then
            Inr \<lparr>or_state = st, or_snapshot = None, or_deduplicated = True, or_reordered = False\<rparr>
          else rbind (compare_position position (os_watermark_event_time st) (os_last_applied_frame_id st))
            (\<lambda>order. if order = Older then
                (let delta = seconds_between (the (os_watermark_event_time st)) (fst position) in
                 if delta \<le> pol_reorder_window_seconds p then
                   Inr \<lparr>or_state = st, or_snapshot = None, or_deduplicated = False, or_reordered = True\<rparr>
                 else Inl (LateEvent delta))
              else occupancy_apply_in_order L p st inp order))"

definition occupancy_checkpoint :: "temporal_policy \<Rightarrow> occupancy_state \<Rightarrow> occupancy_state_checkpoint" where
  "occupancy_checkpoint p st = make_checkpoint p st"

definition occupancy_restore :: "stdlib \<Rightarrow> temporal_policy \<Rightarrow> occupancy_state_checkpoint \<Rightarrow>
    temporal_error + occupancy_state" where
  "occupancy_restore L p cp =
     (let st = cp_state cp in
      if cp_engine_version cp \<noteq> TEMPORAL_ENGINE_VERSION
      then Inl (FsmVersionMismatch (cp_engine_version cp) TEMPORAL_ENGINE_VERSION)
      else if cp_policy_revision cp \<noteq> pol_revision p
      then Inl (CheckpointIntegrity (cp_policy_revision cp) (pol_revision p))
      else if os_fsm_version st \<noteq> fsm_version OCCUPANCY_FSM
      then Inl (FsmVersionMismatch (os_fsm_version st) (fsm_version OCCUPANCY_FSM))
      else if key_fsm_kind (os_key st) \<noteq> ''occupancy''
      then Inl (InvalidTemporalInput (CheckpointFsmKindMismatch (key_fsm_kind (os_key st))))
      else if key_track_id (os_key st) \<noteq> OCCUPANCY_SCOPE_TRACK L
      then Inl (InvalidTemporalInput ScopeTrackRequired)
      else Inr st)"

end
