(* ===== verification/Occupancy_Facts.thy ===== *)
theory Occupancy_Facts
  imports Occupancy
begin

text \<open>
  What the occupancy engine guarantees: the counted set is the specification set of the tracks whose
  last applied confirmation is an entry, every change of the count is explained by a valid snapshot,
  an entry of a counted track and an exit of a track never counted are rejected, and the contract's
  invariants are kept. It also shows what the acceptance of late entries costs.
\<close>

lemma occupancy_transition [simp]:
  "transition OCCUPANCY_FSM ''idle'' ''enter_confirmed'' = Inr ''occupied''"
  "transition OCCUPANCY_FSM ''occupied'' ''exit_confirmed'' = Inr ''idle''"
  "transition OCCUPANCY_FSM ''occupied'' ''missing_expired'' = Inr ''idle''"
  "transition OCCUPANCY_FSM ''occupied'' ''session_closed'' = Inr ''idle''"
  "transition OCCUPANCY_FSM ''idle'' ''session_closed'' = Inr ''idle''"
  "transition OCCUPANCY_FSM ''idle'' ''stay'' = Inr ''idle''"
  "transition OCCUPANCY_FSM ''occupied'' ''stay'' = Inr ''occupied''"
  by (simp_all add: transition_def OCCUPANCY_FSM_def occupancy_rules_def)

lemma occupancy_transition_illegal [simp]:
  "transition OCCUPANCY_FSM ''occupied'' ''enter_confirmed'' =
     Inl (InvalidTransition ''occupancy'' ''occupied'' ''enter_confirmed''
       [''exit_confirmed'', ''missing_expired'', ''session_closed'', ''stay''])"
  "transition OCCUPANCY_FSM ''idle'' ''exit_confirmed'' =
     Inl (InvalidTransition ''occupancy'' ''idle'' ''exit_confirmed''
       [''enter_confirmed'', ''session_closed'', ''stay''])"
  "transition OCCUPANCY_FSM ''idle'' ''missing_expired'' =
     Inl (InvalidTransition ''occupancy'' ''idle'' ''missing_expired''
       [''enter_confirmed'', ''session_closed'', ''stay''])"
  by (simp_all add: transition_def OCCUPANCY_FSM_def occupancy_rules_def allowed_events_def)

subsection \<open>The specification of the counted set\<close>

definition counted :: "uuid set \<Rightarrow> temporal_transition \<Rightarrow> uuid set" where
  "counted S tr = (if tt_reason tr = ENTER_CONFIRMED then insert (key_track_id (tt_key tr)) S
     else if tt_reason tr \<in> {EXIT_CONFIRMED, MISSING_EXPIRED, SESSION_CLOSED}
     then S - {key_track_id (tt_key tr)} else S)"

text \<open>The steps of a run; an output for every input that was applied (not redelivered, not late).\<close>

definition occupancy_step :: "stdlib \<Rightarrow> temporal_policy \<Rightarrow> occupancy_state \<Rightarrow> occupancy_input \<Rightarrow>
    temporal_error + occupancy_state \<times> (temporal_transition \<times> occupancy_snapshot option) list" where
  "occupancy_step L p s i = rbind (occupancy_apply L p s i) (\<lambda>r.
     Inr (or_state r, if or_deduplicated r \<or> or_reordered r then [] else [(oi_transition i, or_snapshot r)]))"

definition occupancy_ok :: "stdlib \<Rightarrow> occupancy_state \<Rightarrow> bool" where
  "occupancy_ok L s = (occupancy_state_valid s \<and> os_fsm_version s = fsm_version OCCUPANCY_FSM \<and>
     key_track_id (os_key s) = OCCUPANCY_SCOPE_TRACK L \<and>
     mark_whole (os_watermark_event_time s) (os_last_applied_frame_id s))"

lemma occupancy_validate_Inr:
  "occupancy_validate L s i = Inr u \<Longrightarrow> aware (tt_event_time (oi_transition i)) \<and>
     oi_observation_kind i = occupancy_event_from_presence (oi_transition i)"
  by (auto simp: occupancy_validate_def Let_def split: if_splits)

lemma build_snapshot_total:
  "aware t \<Longrightarrow> \<exists>sn. build_snapshot L p s n t src = Inr sn \<and> occupancy_snapshot_valid sn \<and>
     sn_previous_count sn = int n \<and> sn_occupancy_count sn = int (occupancy_count s)"
  by (simp add: build_snapshot_def occupancy_snapshot_valid_def construct_def Let_def)

lemma card_change: "finite A \<Longrightarrow> insert x A \<noteq> A \<Longrightarrow> card (insert x A) = Suc (card A)"
  by (auto simp: card_insert_if)

lemma in_order_cases:
  assumes kind: "oi_observation_kind i = occupancy_event_from_presence (oi_transition i)"
    and ap: "occupancy_apply_in_order L p s i order = Inr r"
  shows "os_occupied_tracks (or_state r) = counted (os_occupied_tracks s) (oi_transition i)"
    and "\<not> or_deduplicated r" and "\<not> or_reordered r"
    and "os_key (or_state r) = os_key s" and "os_fsm_version (or_state r) = os_fsm_version s"
    and "os_schema_version (or_state r) = os_schema_version s"
    and "os_entity_positions (or_state r) = (os_entity_positions s)(key_track_id (tt_key (oi_transition i)) \<mapsto>
        (tt_event_time (oi_transition i), tt_observation_frame_id (oi_transition i)))"
    and "os_watermark_event_time (or_state r) =
        (if order = Newer then Some (tt_event_time (oi_transition i)) else os_watermark_event_time s)"
    and "os_last_applied_frame_id (or_state r) =
        (if order = Newer then Some (tt_observation_frame_id (oi_transition i)) else os_last_applied_frame_id s)"
    and "(or_snapshot r = None) = (os_occupied_tracks (or_state r) = os_occupied_tracks s)"
    and "or_snapshot r = Some sn \<Longrightarrow> build_snapshot L p (or_state r) (occupancy_count s)
        (tt_event_time (oi_transition i)) (oi_transition i) = Inr sn"
proof -
  let ?tr = "oi_transition i" and ?S = "os_occupied_tracks s"
  let ?x = "key_track_id (tt_key ?tr)"
  let ?st = "if ?x \<in> ?S then ''occupied'' else ''idle''"
  from ap obtain nx where nx: "transition OCCUPANCY_FSM ?st (oi_observation_kind i) = Inr nx"
    by (auto simp: occupancy_apply_in_order_def Let_def)
  have nx_cases: "nx = (if ?x \<in> counted ?S ?tr then ''occupied'' else ''idle'')"
    and set: "(if nx = ''occupied'' then insert ?x ?S else if nx = ''idle'' \<and> ?x \<in> ?S then ?S - {?x} else ?S)
        = counted ?S ?tr"
    using nx by (cases "tt_reason ?tr"; auto simp: kind occupancy_event_from_presence_def counted_def split: if_splits)+
  define upd where "upd = s\<lparr>os_occupied_tracks := counted ?S ?tr,
      os_entity_positions := (os_entity_positions s)(?x \<mapsto> (tt_event_time ?tr, tt_observation_frame_id ?tr)),
      os_watermark_event_time := (if order = Newer then Some (tt_event_time ?tr) else os_watermark_event_time s),
      os_last_applied_frame_id :=
        (if order = Newer then Some (tt_observation_frame_id ?tr) else os_last_applied_frame_id s)\<rparr>"
  have "occupancy_apply_in_order L p s i order =
      (if counted ?S ?tr \<noteq> ?S then rbind (build_snapshot L p upd (occupancy_count s) (tt_event_time ?tr) ?tr)
         (\<lambda>snapshot. Inr \<lparr>or_state = upd, or_snapshot = Some snapshot, or_deduplicated = False, or_reordered = False\<rparr>)
       else Inr \<lparr>or_state = upd, or_snapshot = None, or_deduplicated = False, or_reordered = False\<rparr>)"
    using nx set by (simp add: occupancy_apply_in_order_def Let_def upd_def)
  with ap have st: "or_state r = upd" and flags: "\<not> or_deduplicated r" "\<not> or_reordered r"
    and snap: "(or_snapshot r = None) = (counted ?S ?tr = ?S)"
      "or_snapshot r = Some sn \<Longrightarrow> build_snapshot L p upd (occupancy_count s) (tt_event_time ?tr) ?tr = Inr sn"
    by (auto split: if_splits)
  show "os_occupied_tracks (or_state r) = counted ?S ?tr" "\<not> or_deduplicated r" "\<not> or_reordered r"
    "os_key (or_state r) = os_key s" "os_fsm_version (or_state r) = os_fsm_version s"
    "os_schema_version (or_state r) = os_schema_version s"
    "os_entity_positions (or_state r) = (os_entity_positions s)(?x \<mapsto> (tt_event_time ?tr, tt_observation_frame_id ?tr))"
    "os_watermark_event_time (or_state r) = (if order = Newer then Some (tt_event_time ?tr) else os_watermark_event_time s)"
    "os_last_applied_frame_id (or_state r) =
        (if order = Newer then Some (tt_observation_frame_id ?tr) else os_last_applied_frame_id s)"
    by (simp_all add: st flags) (simp_all add: upd_def)
  show "(or_snapshot r = None) = (os_occupied_tracks (or_state r) = ?S)"
    "or_snapshot r = Some sn \<Longrightarrow> build_snapshot L p (or_state r) (occupancy_count s) (tt_event_time ?tr) ?tr = Inr sn"
    using snap by (simp_all add: st) (simp add: upd_def)
qed

lemma occupancy_step_cases:
  assumes "occupancy_step L p s i = Inr (s', out)"
  obtains (ignored) "s' = s" "out = []"
    | (applied) order r where "order \<noteq> Older" "occupancy_apply_in_order L p s i order = Inr r"
      "compare_position (tt_event_time (oi_transition i), tt_observation_frame_id (oi_transition i))
         (os_watermark_event_time s) (os_last_applied_frame_id s) = Inr order"
      "s' = or_state r" "out = [(oi_transition i, or_snapshot r)]"
      "aware (tt_event_time (oi_transition i))"
      "oi_observation_kind i = occupancy_event_from_presence (oi_transition i)"
proof -
  let ?tr = "oi_transition i"
  let ?cmp = "compare_position (tt_event_time ?tr, tt_observation_frame_id ?tr)
      (os_watermark_event_time s) (os_last_applied_frame_id s)"
  from assms obtain r where ap: "occupancy_apply L p s i = Inr r" and s': "s' = or_state r"
    and out: "out = (if or_deduplicated r \<or> or_reordered r then [] else [(?tr, or_snapshot r)])"
    by (auto simp: occupancy_step_def)
  then have val: "occupancy_validate L s i = Inr ()"
    by (auto simp: occupancy_apply_def)
  from ap val consider (none) "or_state r = s" "or_deduplicated r \<or> or_reordered r"
    | (app) order where "?cmp = Inr order" "order \<noteq> Older" "occupancy_apply_in_order L p s i order = Inr r"
    by (auto simp: occupancy_apply_def Let_def split: if_splits)
  then show thesis
  proof cases
    case none
    with s' out ignored show thesis by simp
  next
    case app
    note kind = occupancy_validate_Inr [OF val, THEN conjunct2]
    from in_order_cases(2,3) [OF kind app(3)] s' out have "out = [(?tr, or_snapshot r)]" by simp
    with applied [OF app(2,3,1) s' this] occupancy_validate_Inr [OF val] show thesis by blast
  qed
qed

lemma occupancy_ok_step:
  assumes ok: "occupancy_ok L s" and st: "occupancy_step L p s i = Inr (s', out)"
  shows "occupancy_ok L s'"
  using st
proof (cases rule: occupancy_step_cases)
  case ignored
  with ok show ?thesis by simp
next
  case (applied order r)
  let ?tr = "oi_transition i"
  note facts = in_order_cases [OF applied(7) applied(2)]
  have "os_occupied_tracks s \<subseteq> dom (os_entity_positions s)"
    using ok by (simp add: occupancy_ok_def occupancy_state_valid_def validate_occupancy_invariants_def)
  then have "counted (os_occupied_tracks s) ?tr \<subseteq>
      dom ((os_entity_positions s)(key_track_id (tt_key ?tr) \<mapsto> (tt_event_time ?tr, tt_observation_frame_id ?tr)))"
    by (auto simp: counted_def)
  with ok applied(4,6) facts show ?thesis
    by (simp add: occupancy_ok_def occupancy_state_valid_def validate_occupancy_invariants_def)
qed

lemma occupancy_initial_ok: "occupancy_initial_state L key = Inr s \<Longrightarrow> occupancy_ok L s \<and> os_occupied_tracks s = {}"
  by (auto simp: occupancy_initial_state_def occupancy_ok_def occupancy_state_valid_def
      validate_occupancy_invariants_def split: if_splits)

interpretation occupancy_engine: engine_core "occupancy_step L p" "occupancy_ok L" for L p
  by unfold_locales (rule occupancy_ok_step)

interpretation occupancy_restart: restartable_engine "occupancy_step L p" "occupancy_ok L"
    "occupancy_checkpoint p" "occupancy_restore L p" for L p
proof
  fix s
  assume "occupancy_ok L s"
  then show "occupancy_restore L p (occupancy_checkpoint p s) = Inr s"
    by (simp add: occupancy_restore_def occupancy_checkpoint_def occupancy_ok_def occupancy_state_valid_def
        validate_occupancy_invariants_def)
qed

subsection \<open>Counting\<close>

lemma occupancy_run_counted:
  "run_facts (occupancy_step L p) s is = Inr (s', out) \<Longrightarrow>
     os_occupied_tracks s' = foldl counted (os_occupied_tracks s) (map fst out)"
proof (induction "is" arbitrary: s out)
  case Nil
  then show ?case by simp
next
  case (Cons i "is")
  then obtain s1 o1 o2 where st: "occupancy_step L p s i = Inr (s1, o1)"
    and run: "run_facts (occupancy_step L p) s1 is = Inr (s', o2)" and out: "out = o1 @ o2"
    by (auto simp: run_facts_Cons_Inr simp del: run_facts.simps)
  from st have "os_occupied_tracks s1 = foldl counted (os_occupied_tracks s) (map fst o1)"
  proof (cases rule: occupancy_step_cases)
    case (applied order r)
    with in_order_cases(1) [OF applied(7) applied(2)] show ?thesis by simp
  qed simp
  with Cons.IH [OF run] show ?case by (simp add: out)
qed

text \<open>A chain of snapshots that explains the change of a count from \<open>n\<close> to \<open>m\<close>, one at a time.\<close>

fun explains :: "int \<Rightarrow> occupancy_snapshot list \<Rightarrow> int \<Rightarrow> bool" where
  "explains n [] m = (n = m)"
| "explains n (sn # sns) m = (occupancy_snapshot_valid sn \<and> sn_previous_count sn = n \<and>
     \<bar>sn_delta sn\<bar> = 1 \<and> explains (sn_occupancy_count sn) sns m)"

lemma explains_append: "explains n xs k \<Longrightarrow> explains k ys m \<Longrightarrow> explains n (xs @ ys) m"
  by (induction n xs k rule: explains.induct) auto

lemma card_counted:
  fixes S :: "uuid set"
  assumes "counted S tr \<noteq> S"
  shows "\<bar>int (card (counted S tr)) - int (card S)\<bar> = 1"
proof -
  let ?x = "key_track_id (tt_key tr)"
  have fin: "finite S" by simp
  show ?thesis
  proof (cases "tt_reason tr = ENTER_CONFIRMED")
    case True
    with assms have "?x \<notin> S" by (auto simp: counted_def)
    with True fin show ?thesis by (simp add: counted_def)
  next
    case False
    with assms have x: "?x \<in> S" and c: "counted S tr = S - {?x}"
      by (auto simp: counted_def split: if_splits)
    from card_Suc_Diff1 [OF fin x] show ?thesis by (simp add: c)
  qed
qed

lemma occupancy_run_explained:
  "run_facts (occupancy_step L p) s is = Inr (s', out) \<Longrightarrow>
     explains (int (occupancy_count s)) (List.map_filter snd out) (int (occupancy_count s'))"
proof (induction "is" arbitrary: s out)
  case Nil
  then show ?case by (simp add: List.map_filter_def)
next
  case (Cons i "is")
  then obtain s1 o1 o2 where st: "occupancy_step L p s i = Inr (s1, o1)"
    and run: "run_facts (occupancy_step L p) s1 is = Inr (s', o2)" and out: "out = o1 @ o2"
    by (auto simp: run_facts_Cons_Inr simp del: run_facts.simps)
  from st have "explains (int (occupancy_count s)) (List.map_filter snd o1) (int (occupancy_count s1))"
  proof (cases rule: occupancy_step_cases)
    case ignored
    then show ?thesis by (simp add: List.map_filter_def)
  next
    case (applied order r)
    note facts = in_order_cases [OF applied(7) applied(2)]
    show ?thesis
    proof (cases "or_snapshot r")
      case None
      with facts(10) applied show ?thesis by (simp add: List.map_filter_def occupancy_count_def)
    next
      case (Some sn)
      with facts(1,10) have "counted (os_occupied_tracks s) (oi_transition i) \<noteq> os_occupied_tracks s" by simp
      from card_counted [OF this] have "\<bar>int (occupancy_count s1) - int (occupancy_count s)\<bar> = 1"
        by (simp add: occupancy_count_def facts(1) applied(4))
      moreover from build_snapshot_total [OF applied(6), of L p s1 "occupancy_count s" "oi_transition i"]
        facts(11) [OF Some] have "occupancy_snapshot_valid sn"
        "sn_previous_count sn = int (occupancy_count s)" "sn_occupancy_count sn = int (occupancy_count s1)"
        by (auto simp: applied(4))
      ultimately show ?thesis
        by (auto simp: applied(5) Some List.map_filter_def occupancy_snapshot_valid_def)
    qed
  qed
  with Cons.IH [OF run] show ?case
    by (simp add: out List.map_filter_def explains_append)
qed

subsection \<open>Sample data\<close>

definition sample_scope :: temporal_state_key where
  "sample_scope = occupancy_scope_key sample_lib (sample_key ''presence'' 7)"

definition sample_occupancy_input :: "uuid \<Rightarrow> temporal_reason \<Rightarrow> int \<Rightarrow> uuid \<Rightarrow> occupancy_input" where
  "sample_occupancy_input track reason seconds frame = \<lparr>oi_key = sample_scope,
     oi_transition = sample_fact track reason seconds frame,
     oi_observation_kind = occupancy_event_from_presence (sample_fact track reason seconds frame),
     oi_processing_time = utc_at (seconds * 1000000)\<rparr>"

lemma sample_occupancy_input_simps [simp]:
  "oi_key (sample_occupancy_input track reason seconds frame) = sample_scope"
  "oi_transition (sample_occupancy_input track reason seconds frame) = sample_fact track reason seconds frame"
  "oi_observation_kind (sample_occupancy_input track reason seconds frame) =
     occupancy_event_from_presence (sample_fact track reason seconds frame)"
  "oi_processing_time (sample_occupancy_input track reason seconds frame) = utc_at (seconds * 1000000)"
  by (simp_all add: sample_occupancy_input_def)

lemma sample_scope_simps [simp]:
  "key_fsm_kind sample_scope = ''occupancy''" "key_track_id sample_scope = OCCUPANCY_SCOPE_TRACK sample_lib"
  "key_tenant_id sample_scope = 1" "key_venue_id sample_scope = 2" "key_session_id sample_scope = 3"
  "key_camera_id sample_scope = 4" "key_configuration_version_id sample_scope = 5"
  "key_semantic_context sample_scope = Some ''queue-1''"
  by (simp_all add: sample_scope_def occupancy_scope_key_def)

definition sample_occupancy :: occupancy_state where
  "sample_occupancy = \<lparr>os_schema_version = SCHEMA_VERSION, os_fsm_version = TEMPORAL_ENGINE_VERSION,
     os_key = sample_scope, os_occupied_tracks = {}, os_entity_positions = Map.empty,
     os_watermark_event_time = None, os_last_applied_frame_id = None\<rparr>"

lemma sample_occupancy_initial: "occupancy_initial_state sample_lib sample_scope = Inr sample_occupancy"
  by (simp add: occupancy_initial_state_def sample_occupancy_def construct_def occupancy_state_valid_def
      validate_occupancy_invariants_def)

lemmas occupancy_eval =
  occupancy_step_def occupancy_apply_def occupancy_validate_def occupancy_apply_in_order_def
  check_scope_matches_transition_def compare_position_def same_position_def dt_eq_def dt_less_def
  seconds_between_def Let_def ensure_def occupancy_event_from_presence_def occupancy_observation_kinds_def
  build_snapshot_def construct_def occupancy_snapshot_valid_def occupancy_count_def sample_occupancy_def

lemma sample_occupancy_run:
  "\<exists>s out. run_facts (occupancy_step sample_lib sample_policy) sample_occupancy
     [sample_occupancy_input 7 ENTER_CONFIRMED 10 1, sample_occupancy_input 8 ENTER_CONFIRMED 11 2,
      sample_occupancy_input 7 EXIT_CONFIRMED 12 3] = Inr (s, out) \<and> os_occupied_tracks s = {8}"
  by (simp add: occupancy_eval insert_Diff_if)

subsection \<open>Properties\<close>

text \<open>
  The counted tracks after any run are those the specification counts: a confirmed entry adds its
  track, a confirmed exit, an expiry or a session closure removes it, over the inputs the engine
  applied; and the contract's invariants hold of the resulting state.
\<close>

theorem occupancy_counts_confirmed:
  assumes "occupancy_initial_state L key = Inr s0" and "run_facts (occupancy_step L p) s0 is = Inr (s, out)"
  shows "os_occupied_tracks s = foldl counted {} (map fst out) \<and> occupancy_state_valid s"
  using occupancy_run_counted [OF assms(2)] occupancy_initial_ok [OF assms(1)]
    occupancy_engine.run_ok [of L s0 p "is" s out] assms(2)
  by (simp add: occupancy_ok_def)

theorem occupancy_counts_confirmed_witness:
  "\<exists>facts :: temporal_transition list. foldl counted {} facts = {8}"
proof -
  from sample_occupancy_run obtain s out where
    run: "run_facts (occupancy_step sample_lib sample_policy) sample_occupancy
     [sample_occupancy_input 7 ENTER_CONFIRMED 10 1, sample_occupancy_input 8 ENTER_CONFIRMED 11 2,
      sample_occupancy_input 7 EXIT_CONFIRMED 12 3] = Inr (s, out)" and s: "os_occupied_tracks s = {8}"
    by (auto simp del: run_facts.simps)
  from occupancy_counts_confirmed [OF sample_occupancy_initial run] s
  have "foldl counted {} (map fst out) = {8}" by simp
  then show ?thesis by (rule exI)
qed

text \<open>
  No count changes without an explanation: the snapshots of a run are valid contract objects that
  lead from zero to the final count, each starting at the count the previous one ended with and
  changing it by exactly one.
\<close>

theorem occupancy_changes_explained:
  assumes "occupancy_initial_state L key = Inr s0" and "run_facts (occupancy_step L p) s0 is = Inr (s, out)"
  shows "explains 0 (List.map_filter snd out) (int (occupancy_count s))"
  using occupancy_run_explained [OF assms(2)] occupancy_initial_ok [OF assms(1)]
  by (simp add: occupancy_count_def)

theorem occupancy_changes_explained_witness:
  "\<exists>snapshots. explains 0 snapshots 1"
proof -
  from sample_occupancy_run obtain s out where
    run: "run_facts (occupancy_step sample_lib sample_policy) sample_occupancy
     [sample_occupancy_input 7 ENTER_CONFIRMED 10 1, sample_occupancy_input 8 ENTER_CONFIRMED 11 2,
      sample_occupancy_input 7 EXIT_CONFIRMED 12 3] = Inr (s, out)" and s: "os_occupied_tracks s = {8}"
    by (auto simp del: run_facts.simps)
  from occupancy_changes_explained [OF sample_occupancy_initial run] s show ?thesis
    by (auto simp: occupancy_count_def)
qed

text \<open>
  An in-order, not yet applied confirmation is rejected, by the machine, exactly when it confirms
  the entry of a counted track, or the exit or expiry of a track that is not counted. The set is
  never repaired or clamped.
\<close>

theorem occupancy_rejections:
  assumes "occupancy_ok L s" and "occupancy_validate L s i = Inr ()"
    and "compare_position (tt_event_time (oi_transition i), tt_observation_frame_id (oi_transition i))
       (os_watermark_event_time s) (os_last_applied_frame_id s) = Inr Newer"
    and "os_entity_positions s (key_track_id (tt_key (oi_transition i))) = None \<or>
       \<not> same_position (tt_event_time (oi_transition i), tt_observation_frame_id (oi_transition i))
         (the (os_entity_positions s (key_track_id (tt_key (oi_transition i)))))"
  shows "(\<exists>e. occupancy_apply L p s i = Inl e) \<longleftrightarrow>
     (if key_track_id (tt_key (oi_transition i)) \<in> os_occupied_tracks s
      then tt_reason (oi_transition i) = ENTER_CONFIRMED
      else tt_reason (oi_transition i) \<in> {EXIT_CONFIRMED, MISSING_EXPIRED})"
proof -
  let ?tr = "oi_transition i"
  note kind = occupancy_validate_Inr [OF assms(2)]
  have ap: "occupancy_apply L p s i = occupancy_apply_in_order L p s i Newer"
    using assms(2-4) by (auto simp: occupancy_apply_def Let_def split: option.splits)
  have snap: "build_snapshot L p st n (tt_event_time ?tr) ?tr \<noteq> Inl e" for st n e
    using build_snapshot_total [OF conjunct1 [OF kind], of L p st n ?tr] by auto
  show ?thesis
    unfolding ap using kind snap
    by (cases "tt_reason ?tr"; cases "key_track_id (tt_key ?tr) \<in> os_occupied_tracks s")
      (auto simp: occupancy_apply_in_order_def occupancy_event_from_presence_def Let_def rbind_eq_Inl)
qed

theorem occupancy_rejections_witness:
  "\<exists>e. occupancy_apply sample_lib sample_policy sample_occupancy (sample_occupancy_input 7 EXIT_CONFIRMED 10 1) = Inl e"
proof -
  have "occupancy_ok sample_lib sample_occupancy"
    using occupancy_initial_ok [OF sample_occupancy_initial] by simp
  from iffD2 [OF occupancy_rejections [OF this]] show ?thesis
    by (simp add: occupancy_validate_def check_scope_matches_transition_def occupancy_event_from_presence_def
        occupancy_observation_kinds_def compare_position_def sample_occupancy_def Let_def ensure_def)
qed

text \<open>
  The price of accepting late facts without rewinding: when the confirmed entry of a track arrives
  behind the aggregate watermark (confirmed later than a fact of another track), it is acknowledged
  but the track is not counted, and the track's own confirmed exit is then rejected as an illegal
  transition although the enter/exit engine emitted both facts in order.
\<close>

theorem occupancy_late_entry_lost:
  assumes "occupancy_apply L p s i = Inr r" and "or_reordered r"
    and "key_track_id (tt_key (oi_transition i)) \<notin> os_occupied_tracks s"
    and "key_track_id (tt_key (oi_transition j)) = key_track_id (tt_key (oi_transition i))"
    and "tt_reason (oi_transition j) = EXIT_CONFIRMED" and "occupancy_validate L s j = Inr ()"
    and "os_entity_positions s (key_track_id (tt_key (oi_transition j))) = None"
    and "compare_position (tt_event_time (oi_transition j), tt_observation_frame_id (oi_transition j))
       (os_watermark_event_time s) (os_last_applied_frame_id s) = Inr Newer"
  shows "or_state r = s \<and> occupancy_apply L p (or_state r) j =
     Inl (InvalidTransition ''occupancy'' ''idle'' ''exit_confirmed''
       [''enter_confirmed'', ''session_closed'', ''stay''])"
proof -
  have val: "occupancy_validate L s i = Inr ()"
    using assms(1) by (auto simp: occupancy_apply_def)
  have "or_state r = s"
  proof (rule ccontr)
    assume ne: "or_state r \<noteq> s"
    with assms(1) val obtain order where "occupancy_apply_in_order L p s i order = Inr r"
      by (auto simp: occupancy_apply_def Let_def split: if_splits)
    with in_order_cases(3) occupancy_validate_Inr [OF val] assms(2) show False by blast
  qed
  moreover have "oi_observation_kind j = ''exit_confirmed''"
    using occupancy_validate_Inr [OF assms(6)] assms(5) by (simp add: occupancy_event_from_presence_def)
  ultimately show ?thesis
    using assms(3,4,6-8)
    by (simp add: occupancy_apply_def occupancy_apply_in_order_def Let_def)
qed

theorem occupancy_late_entry_lost_witness:
  "\<exists>s. occupancy_apply sample_lib sample_policy s (sample_occupancy_input 8 EXIT_CONFIRMED 12 3) =
     Inl (InvalidTransition ''occupancy'' ''idle'' ''exit_confirmed''
       [''enter_confirmed'', ''session_closed'', ''stay''])"
proof -
  let ?enter = "sample_occupancy_input 8 ENTER_CONFIRMED 9 1"
    and ?exit = "sample_occupancy_input 8 EXIT_CONFIRMED 12 3"
  obtain s out where run: "occupancy_step sample_lib sample_policy sample_occupancy
      (sample_occupancy_input 7 ENTER_CONFIRMED 10 2) = Inr (s, out)"
    and s: "os_occupied_tracks s = {7}" "os_entity_positions s 8 = None" "os_key s = sample_scope"
      "os_fsm_version s = TEMPORAL_ENGINE_VERSION" "os_watermark_event_time s = Some (utc_at 10000000)"
      "os_last_applied_frame_id s = Some 2"
    by (simp add: occupancy_eval)
  obtain r where r: "occupancy_apply sample_lib sample_policy s ?enter = Inr r" "or_reordered r"
    using s by (simp add: occupancy_eval)
  have "occupancy_validate sample_lib s ?exit = Inr ()"
    using s by (simp add: occupancy_validate_def check_scope_matches_transition_def
        occupancy_event_from_presence_def occupancy_observation_kinds_def Let_def)
  with occupancy_late_entry_lost [OF r, of ?exit] s show ?thesis
    by (auto simp: compare_position_def dt_less_def dt_eq_def)
qed

end
