(* ===== verification/Geometry.thy ===== *)
theory Geometry
  imports Spatial_Contracts
begin

text \<open>
  The deterministic geometry layer (\<open>intelligence/geometry\<close>): validation of boxes, points, rings and
  lines, extraction of the spatial point, distances and sides of segments, and the classification
  of a point against a polygon. Validated coordinates are reals; \<open>hypot\<close> is the exact square root.
\<close>

datatype geometry_error =
    InvalidBoundingBoxError
  | InvalidCoordinateError
  | InvalidPolygonError
  | InvalidLineError
  | RawError

type_synonym point2 = "real \<times> real"

definition GEOMETRY_TOLERANCE :: real where
  "GEOMETRY_TOLERANCE = 1 / 1000000000"

definition hypot :: "real \<Rightarrow> real \<Rightarrow> real" where
  "hypot x y = sqrt (x\<^sup>2 + y\<^sup>2)"

subsection \<open>Boxes and points\<close>

definition validate_bounding_box :: "bounding_box \<Rightarrow> geometry_error + unit" where
  "validate_bounding_box box =
     (if list_ex (\<lambda>v. \<not> isfinite v \<or> \<not> float_in 0 v 1) [x_min box, y_min box, x_max box, y_max box]
      then Inl InvalidBoundingBoxError
      else if \<not> pyfloat_le (x_min box) (x_max box) \<or> \<not> pyfloat_le (y_min box) (y_max box)
      then Inl InvalidBoundingBoxError
      else Inr ())"

definition validate_coordinate :: "pyfloat \<Rightarrow> pyfloat \<Rightarrow> coordinate_space \<Rightarrow> geometry_error + unit" where
  "validate_coordinate x y space =
     (if \<not> isfinite x \<or> \<not> isfinite y then Inl InvalidCoordinateError
      else if space = IMAGE_NORMALIZED \<and> \<not> (float_in 0 x 1 \<and> float_in 0 y 1)
      then Inl InvalidCoordinateError
      else Inr ())"

fun midpoint :: "pyfloat \<Rightarrow> pyfloat \<Rightarrow> pyfloat" where
  "midpoint (Fin a) (Fin b) = Fin ((a + b) / 2)"
| "midpoint _ _ = NaN"

definition extract_point :: "bounding_box \<Rightarrow> spatial_point_policy \<Rightarrow> geometry_error + spatial_point" where
  "extract_point box policy =
     rbind (validate_bounding_box box) (\<lambda>_.
       let x = midpoint (x_min box) (x_max box);
           y = (case policy of CENTROID \<Rightarrow> midpoint (y_min box) (y_max box) | FOOTPOINT \<Rightarrow> y_max box);
           p = \<lparr>sp_x = x, sp_y = y, sp_coordinate_space = IMAGE_NORMALIZED, sp_policy = policy\<rparr>
       in if spatial_point_valid p then Inr p else Inl RawError)"

subsection \<open>Segments\<close>

datatype line_side = LEFT | RIGHT | ON_LINE

definition distance_point_to_segment :: "point2 \<Rightarrow> point2 \<Rightarrow> point2 \<Rightarrow> real" where
  "distance_point_to_segment point a b =
     (let (px, py) = point; (ax, ay) = a; (bx, by) = b;
          dx = bx - ax; dy = by - ay; length_sq = dx * dx + dy * dy
      in if length_sq \<le> GEOMETRY_TOLERANCE\<^sup>2 then hypot (px - ax) (py - ay)
         else let t0 = ((px - ax) * dx + (py - ay) * dy) / length_sq;
                  t = max 0 (min 1 t0)
              in hypot (px - (ax + t * dx)) (py - (ay + t * dy)))"

definition signed_side :: "point2 \<Rightarrow> point2 \<Rightarrow> point2 \<Rightarrow> real" where
  "signed_side a b p = (fst b - fst a) * (snd p - snd a) - (snd b - snd a) * (fst p - fst a)"

definition side_of_line :: "point2 \<Rightarrow> point2 \<Rightarrow> point2 \<Rightarrow> real \<Rightarrow> line_side" where
  "side_of_line a b p tolerance =
     (let side = signed_side a b p in
      if side > tolerance then LEFT else if side < - tolerance then RIGHT else ON_LINE)"

text \<open>\<open>(float(p[0]), float(p[1]))\<close>; a shorter coordinate would be an \<open>IndexError\<close>.\<close>

fun first_two :: "pyfloat list \<Rightarrow> geometry_error + pyfloat \<times> pyfloat" where
  "first_two (x # y # zs) = Inr (x, y)"
| "first_two _ = Inl RawError"

fun finite_point :: "pyfloat \<times> pyfloat \<Rightarrow> point2 option" where
  "finite_point (Fin x, Fin y) = Some (x, y)"
| "finite_point _ = None"

definition require_finite :: "geometry_error \<Rightarrow> pyfloat \<times> pyfloat \<Rightarrow> geometry_error + point2" where
  "require_finite e p = (case finite_point p of None \<Rightarrow> Inl e | Some q \<Rightarrow> Inr q)"

definition in_unit_square :: "point2 \<Rightarrow> bool" where
  "in_unit_square q = (0 \<le> fst q \<and> fst q \<le> 1 \<and> 0 \<le> snd q \<and> snd q \<le> 1)"

definition validate_linestring :: "geometry_model \<Rightarrow> geometry_error + point2 list" where
  "validate_linestring g =
     (if gm_geometry_type g \<noteq> LINESTRING then Inl InvalidLineError
      else rbind (mapM first_two (gm_coordinates g)) (\<lambda>vertices.
        if length vertices < 2 then Inl InvalidLineError
        else rbind (mapM (require_finite InvalidLineError) vertices) (\<lambda>points.
          if gm_coordinate_space g = IMAGE_NORMALIZED \<and> \<not> list_all in_unit_square points
          then Inl InvalidLineError else Inr points)))"

subsection \<open>Rings\<close>

datatype point_location = PL_INSIDE | PL_OUTSIDE | PL_BOUNDARY

text \<open>The edges of an implicitly closed ring, and each vertex with the one before it.\<close>

definition edges :: "'a list \<Rightarrow> ('a \<times> 'a) list" where
  "edges points = zip points (rotate1 points)"

definition with_previous :: "'a list \<Rightarrow> ('a \<times> 'a) list" where
  "with_previous points = zip (last points # butlast points) points"

definition ring_area :: "point2 list \<Rightarrow> real" where
  "ring_area points = sum_list (map (\<lambda>((x1, y1), (x2, y2)). x1 * y2 - x2 * y1) (edges points)) / 2"

fun distinct_points :: "real \<Rightarrow> point2 list \<Rightarrow> point2 list \<Rightarrow> point2 list" where
  "distinct_points tolerance acc [] = acc"
| "distinct_points tolerance acc (p # ps) =
     (if list_all (\<lambda>(u, v). hypot (fst p - u) (snd p - v) > tolerance) acc
      then distinct_points tolerance (acc @ [p]) ps else distinct_points tolerance acc ps)"

text \<open>The checks of \<open>validate_polygon_ring\<close>, returning the points it has read.\<close>

definition validate_polygon_ring :: "(pyfloat \<times> pyfloat) list \<Rightarrow> real \<Rightarrow> geometry_error + point2 list" where
  "validate_polygon_ring rg tolerance =
     (if length rg < 4 then Inl InvalidPolygonError
      else rbind (mapM (require_finite InvalidPolygonError) rg) (\<lambda>points.
        if length (distinct_points tolerance [] points) < 3 then Inl InvalidPolygonError
        else if \<bar>ring_area points\<bar> \<le> tolerance then Inl InvalidPolygonError
        else Inr points))"

fun ring_result :: "ring_error + 'a \<Rightarrow> geometry_error + 'a" where
  "ring_result (Inl _) = Inl RawError"
| "ring_result (Inr x) = Inr x"

definition validate_polygon :: "geometry_model \<Rightarrow> geometry_error + (pyfloat \<times> pyfloat) list" where
  "validate_polygon g =
     (if gm_geometry_type g \<noteq> POLYGON then Inl InvalidPolygonError
      else rbind (ring_result (ring g)) (\<lambda>coords.
        rbind (mapM first_two coords) (\<lambda>rg.
          rbind (validate_polygon_ring rg GEOMETRY_TOLERANCE) (\<lambda>points.
            if gm_coordinate_space g = IMAGE_NORMALIZED \<and> \<not> list_all in_unit_square points
            then Inl InvalidPolygonError else Inr rg))))"

text \<open>The ray of the half-open rule: does the edge from \<open>prev\<close> to \<open>cur\<close> lie to the right of the query?\<close>

definition ray_crosses :: "point2 \<Rightarrow> point2 \<times> point2 \<Rightarrow> bool" where
  "ray_crosses query e =
     (let (xj, yj) = fst e; (xi, yi) = snd e in
      (yi > snd query) \<noteq> (yj > snd query) \<and>
      fst query < (xj - xi) * (snd query - yi) / (yj - yi) + xi)"

definition ray_cast :: "point2 \<Rightarrow> point2 list \<Rightarrow> bool" where
  "ray_cast query points = foldl (\<lambda>inside e. if ray_crosses query e then \<not> inside else inside) False
     (with_previous points)"

definition classify_point_in_polygon :: "pyfloat \<times> pyfloat \<Rightarrow> (pyfloat \<times> pyfloat) list \<Rightarrow> real \<Rightarrow>
    geometry_error + point_location" where
  "classify_point_in_polygon point rg tolerance =
     rbind (require_finite InvalidCoordinateError point) (\<lambda>query.
       rbind (validate_polygon_ring rg tolerance) (\<lambda>points.
         if list_ex (\<lambda>(a, b). distance_point_to_segment query a b \<le> tolerance) (edges points)
         then Inr PL_BOUNDARY
         else Inr (if ray_cast query points then PL_INSIDE else PL_OUTSIDE)))"

end
