(* ===== verification/Movement.thy ===== *)
theory Movement
  imports Samples Geometry
begin

text \<open>
  The movement engine (\<open>temporal/movement.py\<close>): the displacement between consecutive in-order
  observations of one track, emitted as a measurement, and the classification of each pair against
  a single threshold. A finite point that passed the geometry boundary gives a finite distance.
\<close>

subsection \<open>The machine\<close>

definition movement_rules :: "fsm_rule list" where
  "movement_rules =
    [FsmRule ''unknown'' ''first_observed'' ''unknown'',
     FsmRule ''unknown'' ''observed_stationary'' ''stationary'',
     FsmRule ''unknown'' ''observed_moving'' ''moving'',
     FsmRule ''stationary'' ''observed_stationary'' ''stationary'',
     FsmRule ''stationary'' ''observed_moving'' ''moving'',
     FsmRule ''moving'' ''observed_moving'' ''moving'',
     FsmRule ''moving'' ''observed_stationary'' ''stationary'']"

definition MOVEMENT_FSM :: fsm where
  "MOVEMENT_FSM = \<lparr>fsm_name = ''movement'', fsm_version = TEMPORAL_ENGINE_VERSION,
     fsm_states = MOVEMENT_STATES, fsm_initial_state = ''unknown'',
     fsm_lookup = map (\<lambda>r. ((rule_from r, rule_event r), rule_to r)) movement_rules\<rparr>"

lemma MOVEMENT_FSM_constructed:
  "make_fsm ''movement'' TEMPORAL_ENGINE_VERSION MOVEMENT_STATES ''unknown'' movement_rules = Inr MOVEMENT_FSM"
  by (simp add: make_fsm_def MOVEMENT_FSM_def movement_rules_def MOVEMENT_STATES_def)

interpretation movement_fsm: legal_fsm MOVEMENT_FSM
  by (rule make_fsm_legal_fsm [OF MOVEMENT_FSM_constructed])

lemma movement_fsm_simps [simp]:
  "fsm_name MOVEMENT_FSM = ''movement''" "fsm_version MOVEMENT_FSM = TEMPORAL_ENGINE_VERSION"
  "fsm_states MOVEMENT_FSM = MOVEMENT_STATES"
  by (simp_all add: MOVEMENT_FSM_def)

lemma movement_states_cases:
  assumes "st \<in> set MOVEMENT_STATES"
  obtains (unknown) "st = ''unknown''" | (stationary) "st = ''stationary''" | (moving) "st = ''moving''"
  using assms by (auto simp: MOVEMENT_STATES_def)

lemma movement_states_members [simp]:
  "''unknown'' \<in> set MOVEMENT_STATES" "''stationary'' \<in> set MOVEMENT_STATES" "''moving'' \<in> set MOVEMENT_STATES"
  by (simp_all add: MOVEMENT_STATES_def)

lemma movement_transition [simp]:
  "transition MOVEMENT_FSM ''unknown'' ''first_observed'' = Inr ''unknown''"
  "st \<in> set MOVEMENT_STATES \<Longrightarrow> transition MOVEMENT_FSM st ''observed_stationary'' = Inr ''stationary''"
  "st \<in> set MOVEMENT_STATES \<Longrightarrow> transition MOVEMENT_FSM st ''observed_moving'' = Inr ''moving''"
  by (auto simp: transition_def MOVEMENT_FSM_def movement_rules_def MOVEMENT_STATES_def)

subsection \<open>Inputs and results\<close>

record movement_input =
  mi_key :: temporal_state_key
  mi_observation :: spatial_observation
  mi_processing_time :: datetime

record movement_result =
  mr_state :: movement_state
  mr_measurement :: "movement_measurement option"
  mr_deduplicated :: bool
  mr_reordered :: bool

text \<open>
  \<open>hypot(a.x - b.x, a.y - b.y)\<close>; both points have been validated, the other case is a displacement
  that is not a number.
\<close>

definition euclidean_distance :: "spatial_point \<Rightarrow> spatial_point \<Rightarrow> pyfloat" where
  "euclidean_distance a b =
     (case (sp_x a, sp_y a, sp_x b, sp_y b) of
        (Fin ax, Fin ay, Fin bx, Fin by') \<Rightarrow> Fin (hypot (ax - bx) (ay - by'))
      | _ \<Rightarrow> NaN)"

fun repr_float :: "stdlib \<Rightarrow> pyfloat \<Rightarrow> string" where
  "repr_float L (Fin r) = std_repr_float L r"
| "repr_float L PosInf = ''inf''"
| "repr_float L NegInf = ''-inf''"
| "repr_float L NaN = ''nan''"

subsection \<open>Operations\<close>

definition movement_initial_state :: "temporal_state_key \<Rightarrow> temporal_error + movement_state" where
  "movement_initial_state key =
     (if key_fsm_kind key \<noteq> ''movement''
      then Inl (InvalidTemporalInput (KeyFsmKindMismatch (key_fsm_kind key)))
      else construct ''MovementState'' movement_state_valid
        \<lparr>ms_schema_version = SCHEMA_VERSION, ms_fsm_version = fsm_version MOVEMENT_FSM, ms_key = key,
         ms_current_state = ''unknown'', ms_state_since = None, ms_previous_position = None,
         ms_previous_event_time = None, ms_last_seen = None, ms_watermark_event_time = None,
         ms_last_applied_frame_id = None\<rparr>)"

fun geometry_result :: "geometry_error + unit \<Rightarrow> temporal_error + unit" where
  "geometry_result (Inl e) = Inl InvalidCoordinate"
| "geometry_result (Inr u) = Inr u"

definition validate_point :: "spatial_point \<Rightarrow> temporal_error + unit" where
  "validate_point pt = geometry_result (validate_coordinate (sp_x pt) (sp_y pt) (sp_coordinate_space pt))"

definition movement_validate :: "movement_state \<Rightarrow> movement_input \<Rightarrow> temporal_error + unit" where
  "movement_validate st inp =
     (let key = mi_key inp; ob = mi_observation inp; point = so_spatial_point ob in
      if key \<noteq> ms_key st then Inl (InvalidTemporalInput InputKeyMismatch)
      else if key_fsm_kind key \<noteq> ''movement''
      then Inl (InvalidTemporalInput (KeyFsmKindMismatch (key_fsm_kind key)))
      else if ms_fsm_version st \<noteq> fsm_version MOVEMENT_FSM
      then Inl (FsmVersionMismatch (ms_fsm_version st) (fsm_version MOVEMENT_FSM))
      else if \<not> aware (mi_processing_time inp) then Inl (InvalidTemporalInput NaiveProcessingTime)
      else if \<not> aware (so_event_time ob) then Inl (InvalidTemporalInput NaiveEventTime)
      else rbind (check_key_matches_observation key (SpatialObs ob)) (\<lambda>_.
        rbind (validate_point point) (\<lambda>_.
          case ms_previous_position st of
            None \<Rightarrow> Inr ()
          | Some previous \<Rightarrow> rbind (validate_point previous) (\<lambda>_.
              ensure (sp_coordinate_space previous = sp_coordinate_space point)
                (InvalidTemporalInput SpaceMismatch)))))"

definition measurement_identity :: "stdlib \<Rightarrow> temporal_policy \<Rightarrow> temporal_state_key \<Rightarrow> datetime \<Rightarrow>
    datetime \<Rightarrow> spatial_point \<Rightarrow> spatial_point \<Rightarrow> string" where
  "measurement_identity L p key previous_event_time event_time previous_position current_position =
     join_str ''|'' [canonical key, std_isoformat L previous_event_time, std_isoformat L event_time,
       repr_float L (sp_x previous_position), repr_float L (sp_y previous_position),
       repr_float L (sp_x current_position), repr_float L (sp_y current_position),
       fsm_version MOVEMENT_FSM, pol_revision p]"

definition build_measurement :: "stdlib \<Rightarrow> temporal_policy \<Rightarrow> temporal_state_key \<Rightarrow> spatial_point \<Rightarrow>
    datetime \<Rightarrow> spatial_point \<Rightarrow> datetime \<Rightarrow> pyfloat \<Rightarrow> real \<Rightarrow> temporal_error + movement_measurement" where
  "build_measurement L p key previous_position previous_event_time current_position event_time
     distance time_delta =
     construct ''MovementMeasurement'' movement_measurement_valid
       \<lparr>mm_schema_version = SCHEMA_VERSION,
        mm_measurement_id = std_uuid5 L TEMPORAL_ID_NAMESPACE
          (measurement_identity L p key previous_event_time event_time previous_position current_position),
        mm_fsm_kind = fsm_name MOVEMENT_FSM, mm_key = key, mm_previous_position = previous_position,
        mm_current_position = current_position, mm_previous_event_time = previous_event_time,
        mm_event_time = event_time, mm_distance = distance, mm_time_delta_seconds = time_delta,
        mm_fsm_version = fsm_version MOVEMENT_FSM, mm_policy_revision = pol_revision p\<rparr>"

definition movement_out_of_order :: "temporal_policy \<Rightarrow> movement_state \<Rightarrow> datetime \<Rightarrow> datetime \<Rightarrow>
    temporal_error + movement_result" where
  "movement_out_of_order p st event_time wm =
     (let delta = seconds_between wm event_time in
      if delta \<le> pol_reorder_window_seconds p then
        (let last_seen = (case ms_last_seen st of
               Some seen \<Rightarrow> if dt_less event_time seen then seen else event_time
             | None \<Rightarrow> event_time)
         in Inr \<lparr>mr_state = st\<lparr>ms_last_seen := Some last_seen\<rparr>, mr_measurement = None,
              mr_deduplicated = False, mr_reordered = True\<rparr>)
      else Inl (LateEvent delta))"

text \<open>The measured pair and the next classification of the in-order branch.\<close>

definition movement_measure :: "stdlib \<Rightarrow> temporal_policy \<Rightarrow> movement_state \<Rightarrow> movement_input \<Rightarrow>
    temporal_error + string \<times> movement_measurement option" where
  "movement_measure L p st inp =
     (let ob = mi_observation inp in
      case ms_previous_position st of
        None \<Rightarrow> rbind (transition MOVEMENT_FSM (ms_current_state st) ''first_observed'') (\<lambda>next_st.
          Inr (next_st, None))
      | Some previous_position \<Rightarrow>
          let previous_time = the (ms_previous_event_time st);
              distance = euclidean_distance previous_position (so_spatial_point ob);
              time_delta = seconds_between (so_event_time ob) previous_time;
              event_kind = (if float_gt distance (pol_movement_threshold p)
                then ''observed_moving'' else ''observed_stationary'')
          in rbind (transition MOVEMENT_FSM (ms_current_state st) event_kind) (\<lambda>next_st.
            rbind (build_measurement L p (mi_key inp) previous_position previous_time
                (so_spatial_point ob) (so_event_time ob) distance time_delta) (\<lambda>m.
              Inr (next_st, Some m))))"

definition movement_apply :: "stdlib \<Rightarrow> temporal_policy \<Rightarrow> movement_state \<Rightarrow> movement_input \<Rightarrow>
    temporal_error + movement_result" where
  "movement_apply L p st inp =
     rbind (movement_validate st inp) (\<lambda>_.
       let ob = mi_observation inp; event_time = so_event_time ob; frame_id = so_frame_id ob in
       rbind (compare_position (event_time, frame_id) (ms_watermark_event_time st)
           (ms_last_applied_frame_id st)) (\<lambda>order.
         case order of
           Same \<Rightarrow> Inr \<lparr>mr_state = st, mr_measurement = None, mr_deduplicated = True, mr_reordered = False\<rparr>
         | Older \<Rightarrow> movement_out_of_order p st event_time (the (ms_watermark_event_time st))
         | Newer \<Rightarrow> rbind (movement_measure L p st inp) (\<lambda>(next_st, measurement).
             Inr \<lparr>mr_state = st\<lparr>ms_current_state := next_st,
                ms_state_since := (if next_st \<noteq> ms_current_state st then Some event_time else ms_state_since st),
                ms_previous_position := Some (so_spatial_point ob),
                ms_previous_event_time := Some event_time, ms_last_seen := Some event_time,
                ms_watermark_event_time := Some event_time, ms_last_applied_frame_id := Some frame_id\<rparr>,
              mr_measurement = measurement, mr_deduplicated = False, mr_reordered = False\<rparr>)))"

definition movement_checkpoint :: "temporal_policy \<Rightarrow> movement_state \<Rightarrow> movement_state_checkpoint" where
  "movement_checkpoint p st = make_checkpoint p st"

definition movement_restore :: "temporal_policy \<Rightarrow> movement_state_checkpoint \<Rightarrow> temporal_error + movement_state" where
  "movement_restore p cp =
     (let st = cp_state cp in
      if cp_engine_version cp \<noteq> TEMPORAL_ENGINE_VERSION
      then Inl (FsmVersionMismatch (cp_engine_version cp) TEMPORAL_ENGINE_VERSION)
      else if cp_policy_revision cp \<noteq> pol_revision p
      then Inl (CheckpointIntegrity (cp_policy_revision cp) (pol_revision p))
      else if ms_fsm_version st \<noteq> fsm_version MOVEMENT_FSM
      then Inl (FsmVersionMismatch (ms_fsm_version st) (fsm_version MOVEMENT_FSM))
      else if key_fsm_kind (ms_key st) \<noteq> ''movement''
      then Inl (InvalidTemporalInput (CheckpointFsmKindMismatch (key_fsm_kind (ms_key st))))
      else Inr st)"

subsection \<open>The contract instances\<close>

definition movement_step :: "stdlib \<Rightarrow> temporal_policy \<Rightarrow> movement_state \<Rightarrow> movement_input \<Rightarrow>
    temporal_error + movement_state \<times> movement_measurement list" where
  "movement_step L p s i = rbind (movement_apply L p s i) (\<lambda>r.
     Inr (mr_state r, case mr_measurement r of None \<Rightarrow> [] | Some m \<Rightarrow> [m]))"

definition movement_pos :: "movement_input \<Rightarrow> int \<times> uuid" where
  "movement_pos i = position_key (so_event_time (mi_observation i), so_frame_id (mi_observation i))"

definition movement_mark :: "movement_state \<Rightarrow> mark" where
  "movement_mark s = watermark (ms_watermark_event_time s) (ms_last_applied_frame_id s)"

definition movement_core :: "movement_state \<Rightarrow> movement_state" where
  "movement_core s = s\<lparr>ms_last_seen := None\<rparr>"

text \<open>
  The contract's validators, the version, and the anchor: it is the last in-order observation, so its
  time is the watermark; a classified state has an anchor.
\<close>

definition movement_ok :: "movement_state \<Rightarrow> bool" where
  "movement_ok s = (movement_state_valid s \<and> ms_fsm_version s = fsm_version MOVEMENT_FSM \<and>
     mark_whole (ms_watermark_event_time s) (ms_last_applied_frame_id s) \<and>
     ms_previous_event_time s = ms_watermark_event_time s \<and>
     (ms_previous_position s = None \<longrightarrow> ms_current_state s = ''unknown'') \<and>
     time_le (ms_state_since s) (ms_watermark_event_time s))"

lemma movement_core_eq_iff: "movement_core s = movement_core t \<longleftrightarrow> (\<exists>v. s = t\<lparr>ms_last_seen := v\<rparr>)"
  by (cases s; cases t) (auto simp: movement_core_def)

lemma movement_validate_Inr:
  "movement_validate s i = Inr u \<Longrightarrow> aware (so_event_time (mi_observation i)) \<and> mi_key i = ms_key s \<and>
     validate_point (so_spatial_point (mi_observation i)) = Inr () \<and>
     (\<forall>q. ms_previous_position s = Some q \<longrightarrow> validate_point q = Inr () \<and>
        sp_coordinate_space q = sp_coordinate_space (so_spatial_point (mi_observation i)))"
  by (auto simp: movement_validate_def Let_def split: if_splits option.splits)

lemma movement_initial_ok: "movement_initial_state key = Inr s \<Longrightarrow> movement_ok s \<and> ms_previous_position s = None"
  by (auto simp: movement_initial_state_def movement_ok_def split: if_splits)

lemma movement_apply_Newer:
  assumes ap: "movement_apply L p s i = Inr r" and ok: "movement_ok s"
    and new: "newer_than (movement_mark s) (movement_pos i)"
  obtains st m where "movement_validate s i = Inr ()" "movement_measure L p s i = Inr (st, m)"
    "compare_position (so_event_time (mi_observation i), so_frame_id (mi_observation i))
       (ms_watermark_event_time s) (ms_last_applied_frame_id s) = Inr Newer"
    "mr_measurement r = m" "\<not> mr_deduplicated r" "\<not> mr_reordered r"
    "mr_state r = s\<lparr>ms_current_state := st,
        ms_state_since := (if st \<noteq> ms_current_state s then Some (so_event_time (mi_observation i)) else ms_state_since s),
        ms_previous_position := Some (so_spatial_point (mi_observation i)),
        ms_previous_event_time := Some (so_event_time (mi_observation i)),
        ms_last_seen := Some (so_event_time (mi_observation i)),
        ms_watermark_event_time := Some (so_event_time (mi_observation i)),
        ms_last_applied_frame_id := Some (so_frame_id (mi_observation i))\<rparr>"
proof -
  have cmp: "compare_position (so_event_time (mi_observation i), so_frame_id (mi_observation i))
       (ms_watermark_event_time s) (ms_last_applied_frame_id s) = Inr Newer"
    using ok new by (simp add: compare_position_whole movement_ok_def movement_mark_def movement_pos_def)
  from ap have val: "movement_validate s i = Inr ()" by (auto simp: movement_apply_def)
  from ap cmp val obtain st m where meas: "movement_measure L p s i = Inr (st, m)"
    by (auto simp: movement_apply_def Let_def)
  show thesis
    by (rule that [OF val meas cmp]) (use ap cmp val meas in \<open>auto simp: movement_apply_def Let_def\<close>)
qed

lemma movement_apply_not_Newer:
  assumes ap: "movement_apply L p s i = Inr r" and ok: "movement_ok s"
    and new: "\<not> newer_than (movement_mark s) (movement_pos i)"
  shows "(mr_state r = s \<or> (\<exists>seen. aware seen \<and> mr_state r = s\<lparr>ms_last_seen := Some seen\<rparr>)) \<and>
      mr_measurement r = None"
proof -
  let ?t = "so_event_time (mi_observation i)" and ?f = "so_frame_id (mi_observation i)"
  have cmp: "compare_position (?t, ?f) (ms_watermark_event_time s) (ms_last_applied_frame_id s) =
      (if movement_mark s = Some (movement_pos i) then Inr Same else Inr Older)"
    using ok new by (simp add: compare_position_whole movement_ok_def movement_mark_def movement_pos_def)
  have val: "movement_validate s i = Inr ()" using ap by (auto simp: movement_apply_def)
  have aw: "aware ?t" "validate_utc_opt (ms_last_seen s)"
    using movement_validate_Inr [OF val] ok by (simp_all add: movement_ok_def movement_state_valid_def)
  show ?thesis
  proof (cases "movement_mark s = Some (movement_pos i)")
    case True
    with ap cmp val show ?thesis by (auto simp: movement_apply_def Let_def)
  next
    case False
    with ap cmp val have "movement_out_of_order p s ?t (the (ms_watermark_event_time s)) = Inr r"
      by (auto simp: movement_apply_def Let_def)
    with aw show ?thesis
      by (cases "ms_last_seen s") (auto simp: movement_out_of_order_def Let_def split: if_splits)
  qed
qed

end
