(* ===== verification/Movement_Facts.thy ===== *)
theory Movement_Facts
  imports Movement
begin

text \<open>
  What the movement engine guarantees: the measurements of a run are those of the consecutive pairs of
  its in-order observations, with their distances and times, whatever was delivered late or twice;
  classification compares the distance strictly with the threshold; the only errors are those of
  validation and lateness.
\<close>

lemma hypot_nonneg [simp]: "0 \<le> hypot x y"
  by (simp add: hypot_def)

lemma validate_point_finite:
  "validate_point q = Inr u \<Longrightarrow> \<exists>x y. sp_x q = Fin x \<and> sp_y q = Fin y"
  by (cases "sp_x q"; cases "sp_y q") (auto simp: validate_point_def validate_coordinate_def)

lemma euclidean_distance_finite:
  "validate_point a = Inr u \<Longrightarrow> validate_point b = Inr v \<Longrightarrow>
     \<exists>d. euclidean_distance a b = Fin d \<and> 0 \<le> d"
  using validate_point_finite [of a u] validate_point_finite [of b v] by (auto simp: euclidean_distance_def)

lemma movement_measure_states:
  "movement_measure L p s i = Inr (st, m) \<Longrightarrow> st \<in> set MOVEMENT_STATES"
  by (auto simp: movement_measure_def Let_def split: option.splits dest!: movement_fsm.transition_closed(2))

lemma movement_ok_step:
  assumes ok: "movement_ok s" and st: "movement_step L p s i = Inr (s', out)"
  shows "movement_ok s'"
proof -
  let ?t = "so_event_time (mi_observation i)"
  from st obtain r where ap: "movement_apply L p s i = Inr r" and s': "s' = mr_state r"
    by (auto simp: movement_step_def)
  show ?thesis
  proof (cases "newer_than (movement_mark s) (movement_pos i)")
    case True
    from movement_apply_Newer [OF ap ok True] obtain st m where
      val: "movement_validate s i = Inr ()" and meas: "movement_measure L p s i = Inr (st, m)"
      and cmp: "compare_position (?t, so_frame_id (mi_observation i))
       (ms_watermark_event_time s) (ms_last_applied_frame_id s) = Inr Newer"
      and r: "mr_state r = s\<lparr>ms_current_state := st,
        ms_state_since := (if st \<noteq> ms_current_state s then Some ?t else ms_state_since s),
        ms_previous_position := Some (so_spatial_point (mi_observation i)),
        ms_previous_event_time := Some ?t, ms_last_seen := Some ?t, ms_watermark_event_time := Some ?t,
        ms_last_applied_frame_id := Some (so_frame_id (mi_observation i))\<rparr>"
      by metis
    have "time_le (ms_state_since s) (Some ?t)"
      using time_le_trans_newer [OF _ cmp] ok by (simp add: movement_ok_def)
    with ok movement_validate_Inr [OF val] movement_measure_states [OF meas] show ?thesis
      by (simp add: s' r movement_ok_def movement_state_valid_def validate_movement_invariants_def)
  next
    case False
    from movement_apply_not_Newer [OF ap ok False] ok s' show ?thesis
      by (auto simp: movement_ok_def movement_state_valid_def validate_movement_invariants_def)
  qed
qed

lemma movement_validate_core:
  "movement_validate (s\<lparr>ms_last_seen := v\<rparr>) i = movement_validate s i"
  by (simp add: movement_validate_def Let_def)

lemma movement_measure_core:
  "movement_measure L p (s\<lparr>ms_last_seen := v\<rparr>) i = movement_measure L p s i"
  by (simp add: movement_measure_def Let_def cong: option.case_cong)

lemma movement_redelivery_step:
  assumes ok: "movement_ok s" and new: "newer_than (movement_mark s) (movement_pos i)"
    and ap: "movement_apply L p s i = Inr r"
  shows "movement_apply L p (mr_state r) i = Inr \<lparr>mr_state = mr_state r, mr_measurement = None,
      mr_deduplicated = True, mr_reordered = False\<rparr>"
proof -
  let ?o = "mi_observation i"
  from movement_apply_Newer [OF ap ok new] obtain st where
    val: "movement_validate s i = Inr ()"
    and r: "mr_state r = s\<lparr>ms_current_state := st,
        ms_state_since := (if st \<noteq> ms_current_state s then Some (so_event_time ?o) else ms_state_since s),
        ms_previous_position := Some (so_spatial_point ?o),
        ms_previous_event_time := Some (so_event_time ?o), ms_last_seen := Some (so_event_time ?o),
        ms_watermark_event_time := Some (so_event_time ?o),
        ms_last_applied_frame_id := Some (so_frame_id ?o)\<rparr>"
    by metis
  have "movement_validate (mr_state r) i = Inr ()"
    using val movement_validate_Inr [OF val]
    by (simp add: r movement_validate_def Let_def split: if_splits)
  moreover have "compare_position (so_event_time ?o, so_frame_id ?o) (ms_watermark_event_time (mr_state r))
      (ms_last_applied_frame_id (mr_state r)) = Inr Same"
    by (simp add: compare_position_Same r)
  ultimately show ?thesis
    by (simp add: movement_apply_def Let_def)
qed

interpretation movement_order: event_time_engine "movement_step L p" movement_ok
    movement_pos movement_mark movement_core for L p
proof
  fix s t i s' os
  assume ok: "movement_ok s"
  {
    assume st: "movement_step L p s i = Inr (s', os)"
    show "movement_ok s'" by (rule movement_ok_step [OF ok st])
    from st obtain r where ap: "movement_apply L p s i = Inr r" and s': "s' = mr_state r"
      and os: "os = (case mr_measurement r of None \<Rightarrow> [] | Some m \<Rightarrow> [m])"
      by (auto simp: movement_step_def)
    {
      assume new: "newer_than (movement_mark s) (movement_pos i)"
      from movement_apply_Newer [OF ap ok new] obtain st m where
        val: "movement_validate s i = Inr ()" and meas: "movement_measure L p s i = Inr (st, m)"
        and cmp: "compare_position (so_event_time (mi_observation i), so_frame_id (mi_observation i))
         (ms_watermark_event_time s) (ms_last_applied_frame_id s) = Inr Newer"
        and r: "mr_state r = s\<lparr>ms_current_state := st,
          ms_state_since := (if st \<noteq> ms_current_state s then Some (so_event_time (mi_observation i)) else ms_state_since s),
          ms_previous_position := Some (so_spatial_point (mi_observation i)),
          ms_previous_event_time := Some (so_event_time (mi_observation i)),
          ms_last_seen := Some (so_event_time (mi_observation i)),
          ms_watermark_event_time := Some (so_event_time (mi_observation i)),
          ms_last_applied_frame_id := Some (so_frame_id (mi_observation i))\<rparr>"
        and m: "mr_measurement r = m"
        by metis
      show "movement_mark s' = Some (movement_pos i)"
        by (simp add: s' r movement_mark_def movement_pos_def position_key_def)
      show "\<exists>os'. movement_step L p s' i = Inr (s', os')"
        using movement_redelivery_step [OF ok new ap] by (simp add: movement_step_def s')
      assume "movement_core s = movement_core t" and "movement_ok t"
      then obtain v where t: "t = s\<lparr>ms_last_seen := v\<rparr>"
        using movement_core_eq_iff by metis
      show "\<exists>t'. movement_step L p t i = Inr (t', os) \<and> movement_core t' = movement_core s'"
        using val meas cmp m
        by (simp add: movement_step_def movement_apply_def t movement_validate_core movement_measure_core
            Let_def os s' r movement_core_def)
    }
    assume "\<not> newer_than (movement_mark s) (movement_pos i)"
    from movement_apply_not_Newer [OF ap ok this] s' show "movement_core s' = movement_core s"
      by (auto simp: movement_core_def)
  }
  show "movement_core s = movement_core t \<Longrightarrow> movement_mark s = movement_mark t"
    by (auto simp: movement_core_eq_iff movement_mark_def)
qed

interpretation movement_restart: restartable_engine "movement_step L p" movement_ok
    "movement_checkpoint p" "movement_restore p" for L p
proof
  fix s
  assume "movement_ok s"
  then show "movement_restore p (movement_checkpoint p s) = Inr s"
    by (simp add: movement_restore_def movement_checkpoint_def movement_ok_def movement_state_valid_def
        validate_movement_invariants_def)
qed

subsection \<open>Measurements\<close>

definition observed :: "movement_input \<Rightarrow> datetime \<times> spatial_point" where
  "observed i = (so_event_time (mi_observation i), so_spatial_point (mi_observation i))"

definition measured :: "movement_measurement \<Rightarrow> (datetime \<times> spatial_point) \<times> (datetime \<times> spatial_point)" where
  "measured m = ((mm_previous_event_time m, mm_previous_position m), (mm_event_time m, mm_current_position m))"

definition measurement_ok :: "movement_measurement \<Rightarrow> bool" where
  "measurement_ok m = (movement_measurement_valid m \<and>
     mm_distance m = euclidean_distance (mm_previous_position m) (mm_current_position m) \<and>
     mm_time_delta_seconds m = seconds_between (mm_event_time m) (mm_previous_event_time m))"

text \<open>The pairs of neighbours in a list.\<close>

fun neighbours :: "'a list \<Rightarrow> ('a \<times> 'a) list" where
  "neighbours (x # y # ys) = (x, y) # neighbours (y # ys)"
| "neighbours _ = []"

definition anchor :: "movement_state \<Rightarrow> (datetime \<times> spatial_point) list" where
  "anchor s = (case (ms_previous_event_time s, ms_previous_position s) of
     (Some t, Some q) \<Rightarrow> [(t, q)] | _ \<Rightarrow> [])"

lemma neighbours_singleton_append:
  "neighbours (as @ x # xs) = neighbours (as @ [x]) @ neighbours (x # xs)"
  by (induction as rule: neighbours.induct) auto

lemma movement_measure_facts:
  assumes ok: "movement_ok s" and meas: "movement_measure L p s i = Inr (st, m)"
  shows "map measured (case m of None \<Rightarrow> [] | Some m \<Rightarrow> [m]) = neighbours (anchor s @ [observed i])"
    and "m = Some mm \<Longrightarrow> measurement_ok mm"
    and "m = Some mm \<Longrightarrow> st = (if float_gt (mm_distance mm) (pol_movement_threshold p) then ''moving'' else ''stationary'')"
    and "m = None \<Longrightarrow> st = ''unknown''"
proof -
  have inv: "ms_current_state s \<in> set MOVEMENT_STATES"
    "(ms_previous_position s = None) = (ms_previous_event_time s = None)"
    "ms_previous_position s = None \<Longrightarrow> ms_current_state s = ''unknown''"
    using ok by (auto simp: movement_ok_def movement_state_valid_def validate_movement_invariants_def)
  show "map measured (case m of None \<Rightarrow> [] | Some m \<Rightarrow> [m]) = neighbours (anchor s @ [observed i])"
    using meas inv by (auto simp: movement_measure_def build_measurement_def Let_def anchor_def observed_def
        measured_def split: option.splits)
  show "m = Some mm \<Longrightarrow> measurement_ok mm"
    using meas by (auto simp: movement_measure_def build_measurement_def Let_def measurement_ok_def
        split: option.splits)
  show "m = Some mm \<Longrightarrow> st = (if float_gt (mm_distance mm) (pol_movement_threshold p) then ''moving'' else ''stationary'')"
    using meas inv(1) by (auto simp: movement_measure_def build_measurement_def Let_def
        split: option.splits if_splits)
  show "m = None \<Longrightarrow> st = ''unknown''"
    using meas inv(3) by (auto simp: movement_measure_def Let_def split: option.splits)
qed

lemma movement_run_measured:
  "movement_ok s \<Longrightarrow> run_facts (movement_step L p) s is = Inr (s', ms) \<Longrightarrow>
     map measured ms = neighbours (anchor s @ map observed (in_order movement_pos (movement_mark s) is)) \<and>
     list_all measurement_ok ms"
proof (induction "is" arbitrary: s ms)
  case Nil
  then show ?case by (simp add: anchor_def split: option.splits)
next
  case (Cons i "is")
  then obtain s1 o1 o2 where st: "movement_step L p s i = Inr (s1, o1)"
    and run: "run_facts (movement_step L p) s1 is = Inr (s', o2)" and ms: "ms = o1 @ o2"
    by (auto simp: run_facts_Cons_Inr simp del: run_facts.simps)
  from st obtain r where ap: "movement_apply L p s i = Inr r" and s1: "s1 = mr_state r"
    and o1: "o1 = (case mr_measurement r of None \<Rightarrow> [] | Some m \<Rightarrow> [m])"
    by (auto simp: movement_step_def)
  note IH = Cons.IH [OF movement_ok_step [OF Cons.prems(1) st] run]
  show ?case
  proof (cases "newer_than (movement_mark s) (movement_pos i)")
    case True
    from movement_apply_Newer [OF ap Cons.prems(1) True] obtain st' m where
      meas: "movement_measure L p s i = Inr (st', m)" and m: "mr_measurement r = m"
      and r: "mr_state r = s\<lparr>ms_current_state := st',
          ms_state_since := (if st' \<noteq> ms_current_state s then Some (so_event_time (mi_observation i)) else ms_state_since s),
          ms_previous_position := Some (so_spatial_point (mi_observation i)),
          ms_previous_event_time := Some (so_event_time (mi_observation i)),
          ms_last_seen := Some (so_event_time (mi_observation i)),
          ms_watermark_event_time := Some (so_event_time (mi_observation i)),
          ms_last_applied_frame_id := Some (so_frame_id (mi_observation i))\<rparr>"
      by metis
    have anc: "anchor s1 = [observed i]"
      by (simp add: s1 anchor_def observed_def r)
    note facts = movement_measure_facts [OF Cons.prems(1) meas]
    have "list_all measurement_ok o1"
      using facts(2) by (auto simp: o1 m split: option.splits)
    moreover have "movement_mark s1 = Some (movement_pos i)"
      by (rule movement_order.newer_mark [OF Cons.prems(1) True st])
    moreover have "neighbours (anchor s @ observed i # map observed (in_order movement_pos (Some (movement_pos i)) is)) =
        neighbours (anchor s @ [observed i]) @
        neighbours (observed i # map observed (in_order movement_pos (Some (movement_pos i)) is))"
      by (rule neighbours_singleton_append)
    ultimately show ?thesis
      using IH facts(1) anc True by (simp add: ms o1 m)
  next
    case False
    from movement_apply_not_Newer [OF ap Cons.prems(1) False] have "o1 = []" "anchor s1 = anchor s"
      by (auto simp: o1 s1 anchor_def cong: option.case_cong)
    with IH False movement_order.older_mark [OF Cons.prems(1) False st] show ?thesis
      by (simp add: ms)
  qed
qed

definition classified :: "temporal_policy \<Rightarrow> string \<Rightarrow> movement_measurement list \<Rightarrow> string" where
  "classified p st ms = (if ms = [] then st
     else if float_gt (mm_distance (last ms)) (pol_movement_threshold p) then ''moving'' else ''stationary'')"

lemma movement_run_classified:
  "movement_ok s \<Longrightarrow> run_facts (movement_step L p) s is = Inr (s', ms) \<Longrightarrow>
     ms_current_state s' = classified p (ms_current_state s) ms"
proof (induction "is" arbitrary: s ms)
  case Nil
  then show ?case by (simp add: classified_def)
next
  case (Cons i "is")
  then obtain s1 o1 o2 where st: "movement_step L p s i = Inr (s1, o1)"
    and run: "run_facts (movement_step L p) s1 is = Inr (s', o2)" and ms: "ms = o1 @ o2"
    by (auto simp: run_facts_Cons_Inr simp del: run_facts.simps)
  from st obtain r where ap: "movement_apply L p s i = Inr r" and s1: "s1 = mr_state r"
    and o1: "o1 = (case mr_measurement r of None \<Rightarrow> [] | Some m \<Rightarrow> [m])"
    by (auto simp: movement_step_def)
  have "ms_current_state s1 = classified p (ms_current_state s) o1"
  proof (cases "newer_than (movement_mark s) (movement_pos i)")
    case True
    from movement_apply_Newer [OF ap Cons.prems(1) True] obtain st' m where
      meas: "movement_measure L p s i = Inr (st', m)" and m: "mr_measurement r = m"
      and r: "mr_state r = s\<lparr>ms_current_state := st',
          ms_state_since := (if st' \<noteq> ms_current_state s then Some (so_event_time (mi_observation i)) else ms_state_since s),
          ms_previous_position := Some (so_spatial_point (mi_observation i)),
          ms_previous_event_time := Some (so_event_time (mi_observation i)),
          ms_last_seen := Some (so_event_time (mi_observation i)),
          ms_watermark_event_time := Some (so_event_time (mi_observation i)),
          ms_last_applied_frame_id := Some (so_frame_id (mi_observation i))\<rparr>"
      by metis
    note facts = movement_measure_facts [OF Cons.prems(1) meas]
    show ?thesis
    proof (cases m)
      case None
      with meas have "ms_previous_position s = None"
        by (auto simp: movement_measure_def Let_def split: option.splits)
      with Cons.prems(1) facts(4) [OF None] show ?thesis
        by (simp add: movement_ok_def classified_def o1 m None s1 r)
    next
      case (Some mm)
      with facts(3) [OF Some] show ?thesis
        by (simp add: classified_def o1 m s1 r)
    qed
  next
    case False
    from movement_apply_not_Newer [OF ap Cons.prems(1) False] show ?thesis
      by (auto simp: o1 s1 classified_def)
  qed
  with Cons.IH [OF movement_ok_step [OF Cons.prems(1) st] run] show ?case
    by (auto simp: ms classified_def)
qed

lemma build_measurement_total:
  assumes "aware t0" "aware t" "\<not> dt_less t t0" "float_nonneg d"
    "sp_coordinate_space a = sp_coordinate_space b"
  shows "\<exists>m. build_measurement L p key a t0 b t d (seconds_between t t0) = Inr m"
  using assms by (simp add: build_measurement_def movement_measurement_valid_def seconds_between_nonneg)

lemma movement_measure_total:
  assumes ok: "movement_ok s" and val: "movement_validate s i = Inr ()"
    and cmp: "compare_position (so_event_time (mi_observation i), so_frame_id (mi_observation i))
       (ms_watermark_event_time s) (ms_last_applied_frame_id s) = Inr Newer"
  shows "\<exists>r. movement_measure L p s i = Inr r"
proof (cases "ms_previous_position s")
  case None
  with ok show ?thesis by (simp add: movement_measure_def movement_ok_def)
next
  case (Some q)
  have inv: "ms_current_state s \<in> set MOVEMENT_STATES" "ms_previous_event_time s = ms_watermark_event_time s"
    "ms_previous_event_time s \<noteq> None" "validate_utc_opt (ms_previous_event_time s)"
    using ok Some by (auto simp: movement_ok_def movement_state_valid_def validate_movement_invariants_def)
  then obtain t0 where t0: "ms_previous_event_time s = Some t0" "aware t0" by auto
  have "ms_watermark_event_time s = Some t0"
    using t0(1) inv(2) by simp
  with cmp have "\<not> dt_less (so_event_time (mi_observation i)) t0"
    using compare_position_Newer_time by fastforce
  moreover note facts = movement_validate_Inr [OF val]
  moreover from facts Some obtain d where "euclidean_distance q (so_spatial_point (mi_observation i)) = Fin d" "0 \<le> d"
    using euclidean_distance_finite by blast
  ultimately have "\<exists>m. build_measurement L p (mi_key i) q t0 (so_spatial_point (mi_observation i))
      (so_event_time (mi_observation i)) (euclidean_distance q (so_spatial_point (mi_observation i)))
      (seconds_between (so_event_time (mi_observation i)) t0) = Inr m"
    by (intro build_measurement_total) (use t0(2) Some in auto)
  then obtain m where "build_measurement L p (mi_key i) q t0 (so_spatial_point (mi_observation i))
      (so_event_time (mi_observation i)) (euclidean_distance q (so_spatial_point (mi_observation i)))
      (seconds_between (so_event_time (mi_observation i)) t0) = Inr m" ..
  with inv(1) show ?thesis
    by (simp add: movement_measure_def Some t0 Let_def)
qed

subsection \<open>Sample data\<close>

definition sample_movement :: movement_state where
  "sample_movement = \<lparr>ms_schema_version = SCHEMA_VERSION, ms_fsm_version = TEMPORAL_ENGINE_VERSION,
     ms_key = sample_key ''movement'' 7, ms_current_state = ''unknown'', ms_state_since = None,
     ms_previous_position = None, ms_previous_event_time = None, ms_last_seen = None,
     ms_watermark_event_time = None, ms_last_applied_frame_id = None\<rparr>"

lemma sample_movement_initial: "movement_initial_state (sample_key ''movement'' 7) = Inr sample_movement"
  by (simp add: movement_initial_state_def sample_movement_def construct_def movement_state_valid_def
      validate_movement_invariants_def)

definition sample_movement_input :: "int \<Rightarrow> uuid \<Rightarrow> real \<Rightarrow> movement_input" where
  "sample_movement_input seconds frame x = \<lparr>mi_key = sample_key ''movement'' 7,
     mi_observation = sample_obs 7 seconds frame x, mi_processing_time = utc_at (seconds * 1000000)\<rparr>"

lemma sample_movement_input_simps [simp]:
  "mi_key (sample_movement_input seconds frame x) = sample_key ''movement'' 7"
  "mi_observation (sample_movement_input seconds frame x) = sample_obs 7 seconds frame x"
  "mi_processing_time (sample_movement_input seconds frame x) = utc_at (seconds * 1000000)"
  by (simp_all add: sample_movement_input_def)

lemma sample_obs_point: "so_spatial_point (sample_obs track seconds frame x) =
    \<lparr>sp_x = Fin x, sp_y = Fin (1 / 2), sp_coordinate_space = IMAGE_NORMALIZED, sp_policy = CENTROID\<rparr>"
  by (simp add: sample_obs_def)

lemmas movement_eval =
  movement_step_def movement_apply_def movement_validate_def check_key_matches_observation_def
  validate_point_def validate_coordinate_def movement_measure_def compare_position_def dt_eq_def dt_less_def
  build_measurement_def construct_def movement_measurement_valid_def euclidean_distance_def hypot_def
  movement_out_of_order_def seconds_between_def Let_def ensure_def sample_movement_def sample_obs_point

lemma sample_movement_run: "\<exists>s ms. run_facts (movement_step sample_lib sample_policy) sample_movement
    [sample_movement_input 0 1 0, sample_movement_input 1 2 (1 / 2)] = Inr (s, ms) \<and>
    map mm_distance ms = [Fin (1 / 2)]"
  by (simp add: movement_eval)

subsection \<open>Properties\<close>

text \<open>
  The measurements of a run are exactly those of the consecutive pairs of its in-order observations
  (late and redelivered observations neither measure nor move the anchor), each with the Euclidean
  distance and the elapsed event time of its pair.
\<close>

theorem movement_measures_pairs:
  assumes "movement_initial_state key = Inr s0" and "run_facts (movement_step L p) s0 is = Inr (s, ms)"
  shows "map measured ms = neighbours (map observed (in_order movement_pos None is)) \<and>
     list_all measurement_ok ms"
proof -
  have "movement_ok s0" "anchor s0 = []" "movement_mark s0 = None"
    using movement_initial_ok [OF assms(1)] assms(1)
    by (auto simp: anchor_def movement_mark_def movement_initial_state_def split: option.splits if_splits)
  with movement_run_measured [OF _ assms(2)] show ?thesis by simp
qed

theorem movement_measures_pairs_witness:
  "\<exists>m. measurement_ok m \<and> mm_distance m = Fin (1 / 2)"
proof -
  from sample_movement_run obtain s ms where
    run: "run_facts (movement_step sample_lib sample_policy) sample_movement
      [sample_movement_input 0 1 0, sample_movement_input 1 2 (1 / 2)] = Inr (s, ms)"
    and ms: "map mm_distance ms = [Fin (1 / 2)]"
    by (auto simp del: run_facts.simps)
  from movement_measures_pairs [OF sample_movement_initial run] ms show ?thesis
    by (cases ms) auto
qed

text \<open>
  After any run the track is unknown exactly while nothing has been measured, and otherwise its
  classification is that of the last measurement: moving when its distance strictly exceeds the
  threshold, stationary otherwise.
\<close>

theorem movement_state_is_last_measurement:
  assumes "movement_initial_state key = Inr s0" and "run_facts (movement_step L p) s0 is = Inr (s, ms)"
  shows "ms_current_state s = (if ms = [] then ''unknown''
     else if float_gt (mm_distance (last ms)) (pol_movement_threshold p) then ''moving'' else ''stationary'')"
proof -
  have "movement_ok s0" "ms_current_state s0 = ''unknown''"
    using movement_initial_ok [OF assms(1)] assms(1) by (auto simp: movement_initial_state_def split: if_splits)
  with movement_run_classified [OF _ assms(2)] show ?thesis
    by (simp add: classified_def)
qed

theorem movement_state_is_last_measurement_witness:
  "\<exists>s :: movement_state. ms_current_state s = ''moving''"
proof -
  from sample_movement_run obtain s ms where
    run: "run_facts (movement_step sample_lib sample_policy) sample_movement
      [sample_movement_input 0 1 0, sample_movement_input 1 2 (1 / 2)] = Inr (s, ms)"
    and ms: "map mm_distance ms = [Fin (1 / 2)]"
    by (auto simp del: run_facts.simps)
  from ms obtain m where m: "ms = [m]" "mm_distance m = Fin (1 / 2)" by auto
  have "ms \<noteq> []" "float_gt (mm_distance (last ms)) (pol_movement_threshold sample_policy)"
    by (simp_all add: m)
  moreover have "ms_current_state s = (if ms = [] then ''unknown''
     else if float_gt (mm_distance (last ms)) (pol_movement_threshold sample_policy) then ''moving'' else ''stationary'')"
    by (rule movement_state_is_last_measurement [OF sample_movement_initial run])
  ultimately have "ms_current_state s = ''moving''"
    by (simp only: if_False if_True)
  then show ?thesis by (rule exI [of _ s])
qed

text \<open>
  On a reachable state a valid observation is refused only when it is behind the watermark by more
  than the window: a measurement can always be built and its fact satisfies the contract.
\<close>

theorem movement_errors:
  assumes "movement_ok s"
  shows "movement_apply L p s i = Inl e \<longleftrightarrow>
     movement_validate s i = Inl e \<or>
     (movement_validate s i = Inr () \<and>
      compare_position (so_event_time (mi_observation i), so_frame_id (mi_observation i))
        (ms_watermark_event_time s) (ms_last_applied_frame_id s) = Inr Older \<and>
      (let late = seconds_between (the (ms_watermark_event_time s)) (so_event_time (mi_observation i))
       in late > pol_reorder_window_seconds p \<and> e = LateEvent late))"
proof (cases "movement_validate s i")
  case (Inl e')
  then show ?thesis by (auto simp: movement_apply_def)
next
  case (Inr u)
  let ?cmp = "compare_position (so_event_time (mi_observation i), so_frame_id (mi_observation i))
        (ms_watermark_event_time s) (ms_last_applied_frame_id s)"
  have "mark_whole (ms_watermark_event_time s) (ms_last_applied_frame_id s)"
    using assms by (simp add: movement_ok_def)
  then obtain order where order: "?cmp = Inr order"
    by (cases ?cmp) (auto simp: compare_position_total)
  show ?thesis
  proof (cases order)
    case Newer
    with order movement_measure_total [OF assms, of i L p] Inr obtain r where "movement_measure L p s i = Inr r"
      by auto
    with order Inr Newer show ?thesis by (auto simp: movement_apply_def Let_def split: prod.splits)
  next
    case Same
    with order Inr show ?thesis by (auto simp: movement_apply_def Let_def)
  next
    case Older
    with order Inr show ?thesis by (auto simp: movement_apply_def movement_out_of_order_def Let_def)
  qed
qed

theorem movement_errors_witness:
  "movement_apply sample_lib sample_policy sample_movement
     (sample_movement_input 0 1 0\<lparr>mi_key := sample_key ''movement'' 8\<rparr>) = Inl (InvalidTemporalInput InputKeyMismatch)"
proof -
  have ok: "movement_ok sample_movement"
    using movement_initial_ok [OF sample_movement_initial] by simp
  have "movement_validate sample_movement (sample_movement_input 0 1 0\<lparr>mi_key := sample_key ''movement'' 8\<rparr>) =
      Inl (InvalidTemporalInput InputKeyMismatch)"
    by (simp add: movement_validate_def sample_movement_def sample_key_def)
  then show ?thesis
    by (intro iffD2 [OF movement_errors [OF ok]]) (rule disjI1)
qed

end
