(* ===== verification/Classification.thy ===== *)
theory Classification
  imports Movement_Facts
begin

text \<open>
  The movement classification engine (\<open>temporal/classification.py\<close>): hysteresis and event-time
  qualification over the measurements of the movement engine. A state carries at most one
  qualification run, towards the classification it is not in.
\<close>

subsection \<open>The machine\<close>

definition classification_rules :: "fsm_rule list" where
  "classification_rules =
    [FsmRule ''unknown'' ''first_observed'' ''unknown'',
     FsmRule ''unknown'' ''observed_stationary'' ''stationary'',
     FsmRule ''unknown'' ''observed_moving'' ''moving'',
     FsmRule ''unknown'' ''observed_band'' ''stationary'',
     FsmRule ''stationary'' ''observed_stationary'' ''stationary'',
     FsmRule ''stationary'' ''observed_moving'' ''stationary'',
     FsmRule ''stationary'' ''observed_band'' ''stationary'',
     FsmRule ''stationary'' ''qualify_moving'' ''moving'',
     FsmRule ''moving'' ''observed_moving'' ''moving'',
     FsmRule ''moving'' ''observed_stationary'' ''moving'',
     FsmRule ''moving'' ''observed_band'' ''moving'',
     FsmRule ''moving'' ''qualify_stationary'' ''stationary'']"

definition MOVEMENT_CLASSIFICATION_FSM :: fsm where
  "MOVEMENT_CLASSIFICATION_FSM = \<lparr>fsm_name = ''movement_classification'',
     fsm_version = TEMPORAL_ENGINE_VERSION, fsm_states = MOVEMENT_STATES, fsm_initial_state = ''unknown'',
     fsm_lookup = map (\<lambda>r. ((rule_from r, rule_event r), rule_to r)) classification_rules\<rparr>"

lemma CLASSIFICATION_FSM_constructed:
  "make_fsm ''movement_classification'' TEMPORAL_ENGINE_VERSION MOVEMENT_STATES ''unknown''
     classification_rules = Inr MOVEMENT_CLASSIFICATION_FSM"
  by (simp add: make_fsm_def MOVEMENT_CLASSIFICATION_FSM_def classification_rules_def MOVEMENT_STATES_def)

interpretation classification_fsm: legal_fsm MOVEMENT_CLASSIFICATION_FSM
  by (rule make_fsm_legal_fsm [OF CLASSIFICATION_FSM_constructed])

lemma classification_fsm_simps [simp]:
  "fsm_name MOVEMENT_CLASSIFICATION_FSM = ''movement_classification''"
  "fsm_version MOVEMENT_CLASSIFICATION_FSM = TEMPORAL_ENGINE_VERSION"
  by (simp_all add: MOVEMENT_CLASSIFICATION_FSM_def)

lemma classification_transition [simp]:
  "transition MOVEMENT_CLASSIFICATION_FSM ''unknown'' ''observed_stationary'' = Inr ''stationary''"
  "transition MOVEMENT_CLASSIFICATION_FSM ''unknown'' ''observed_moving'' = Inr ''moving''"
  "transition MOVEMENT_CLASSIFICATION_FSM ''stationary'' ''observed_stationary'' = Inr ''stationary''"
  "transition MOVEMENT_CLASSIFICATION_FSM ''stationary'' ''observed_band'' = Inr ''stationary''"
  "transition MOVEMENT_CLASSIFICATION_FSM ''stationary'' ''qualify_moving'' = Inr ''moving''"
  "transition MOVEMENT_CLASSIFICATION_FSM ''moving'' ''observed_moving'' = Inr ''moving''"
  "transition MOVEMENT_CLASSIFICATION_FSM ''moving'' ''observed_band'' = Inr ''moving''"
  "transition MOVEMENT_CLASSIFICATION_FSM ''moving'' ''qualify_stationary'' = Inr ''stationary''"
  by (simp_all add: transition_def MOVEMENT_CLASSIFICATION_FSM_def classification_rules_def)

subsection \<open>Inputs and results\<close>

record classification_input =
  ci_key :: temporal_state_key
  ci_measurement :: "movement_measurement option"
  ci_event_time :: datetime
  ci_frame_id :: uuid
  ci_processing_time :: datetime

record classification_result =
  cr_state :: movement_classification_state
  cr_transition :: "movement_classification_transition option"
  cr_measurement :: "movement_measurement option"
  cr_deduplicated :: bool
  cr_reordered :: bool

subsection \<open>Validation\<close>

definition classification_initial_state :: "temporal_state_key \<Rightarrow> temporal_error + movement_classification_state" where
  "classification_initial_state key =
     (if key_fsm_kind key \<noteq> ''movement_classification''
      then Inl (InvalidTemporalInput (KeyFsmKindMismatch (key_fsm_kind key)))
      else construct ''MovementClassificationState'' movement_classification_state_valid
        \<lparr>cs_schema_version = SCHEMA_VERSION, cs_fsm_version = fsm_version MOVEMENT_CLASSIFICATION_FSM,
         cs_key = key, cs_current_state = ''unknown'', cs_state_since = None, cs_pending_state = None,
         cs_qualification_started = None, cs_last_seen = None, cs_watermark_event_time = None,
         cs_last_applied_frame_id = None\<rparr>)"

text \<open>The scope components on which two keys of different families must agree.\<close>

definition scope_mismatches :: "temporal_state_key \<Rightarrow> temporal_state_key \<Rightarrow> string list" where
  "scope_mismatches key other =
     (if key_tenant_id key \<noteq> key_tenant_id other then [''tenant_id''] else []) @
     (if key_venue_id key \<noteq> key_venue_id other then [''venue_id''] else []) @
     (if key_session_id key \<noteq> key_session_id other then [''session_id''] else []) @
     (if key_camera_id key \<noteq> key_camera_id other then [''camera_id''] else []) @
     (if key_configuration_version_id key \<noteq> key_configuration_version_id other
      then [''configuration_version_id''] else []) @
     (if key_track_id key \<noteq> key_track_id other then [''track_id''] else []) @
     (if key_semantic_context key \<noteq> key_semantic_context other then [''semantic_context''] else [])"

definition check_measurement_matches_key ::
    "temporal_state_key \<Rightarrow> movement_measurement \<Rightarrow> temporal_error + unit" where
  "check_measurement_matches_key key m =
     (let mismatches = scope_mismatches key (mm_key m)
      in ensure (mismatches = []) (StateKeyMismatch mismatches))"

definition classification_validate :: "temporal_policy \<Rightarrow> movement_classification_state \<Rightarrow>
    classification_input \<Rightarrow> temporal_error + unit" where
  "classification_validate p st inp =
     (let key = ci_key inp in
      if key \<noteq> cs_key st then Inl (InvalidTemporalInput InputKeyMismatch)
      else if key_fsm_kind key \<noteq> ''movement_classification''
      then Inl (InvalidTemporalInput (KeyFsmKindMismatch (key_fsm_kind key)))
      else if cs_fsm_version st \<noteq> fsm_version MOVEMENT_CLASSIFICATION_FSM
      then Inl (FsmVersionMismatch (cs_fsm_version st) (fsm_version MOVEMENT_CLASSIFICATION_FSM))
      else if \<not> aware (ci_processing_time inp) then Inl (InvalidTemporalInput NaiveProcessingTime)
      else if \<not> aware (ci_event_time inp) then Inl (InvalidTemporalInput NaiveEventTime)
      else case ci_measurement inp of
        None \<Rightarrow> Inr ()
      | Some m \<Rightarrow>
          if key_fsm_kind (mm_key m) \<noteq> ''movement''
          then Inl (InvalidTemporalInput (FactFsmKindMismatch (key_fsm_kind (mm_key m))))
          else if \<not> dt_eq (mm_event_time m) (ci_event_time inp)
          then Inl (InvalidTemporalInput MeasurementTimeMismatch)
          else if \<not> aware (mm_event_time m) then Inl (InvalidTemporalInput NaiveEventTime)
          else if \<not> isfinite (mm_distance m) then Inl (InvalidTemporalInput NonFiniteDistance)
          else if mm_policy_revision m \<noteq> pol_revision p
          then Inl (InvalidTemporalInput (MeasurementPolicyMismatch (mm_policy_revision m)))
          else check_measurement_matches_key key m)"

subsection \<open>Classification\<close>

definition classification_build_transition :: "stdlib \<Rightarrow> temporal_policy \<Rightarrow> temporal_state_key \<Rightarrow> string \<Rightarrow>
    string \<Rightarrow> datetime \<Rightarrow> movement_measurement \<Rightarrow> datetime option \<Rightarrow>
    temporal_error + movement_classification_transition" where
  "classification_build_transition L p key from_state to_state event_time m started =
     (let identity = join_str ''|'' [canonical key, from_state, to_state, std_isoformat L event_time,
        str_uuid (mm_measurement_id m), (case started of None \<Rightarrow> '''' | Some q \<Rightarrow> std_isoformat L q),
        fsm_version MOVEMENT_CLASSIFICATION_FSM, pol_revision p]
      in construct ''MovementClassificationTransition'' movement_classification_transition_valid
        \<lparr>ct_schema_version = SCHEMA_VERSION,
         ct_transition_id = std_uuid5 L TEMPORAL_ID_NAMESPACE identity,
         ct_fsm_kind = fsm_name MOVEMENT_CLASSIFICATION_FSM, ct_key = key, ct_from_state = from_state,
         ct_to_state = to_state, ct_event_time = event_time, ct_measurement_id = mm_measurement_id m,
         ct_qualification_started = started, ct_fsm_version = fsm_version MOVEMENT_CLASSIFICATION_FSM,
         ct_policy_revision = pol_revision p\<rparr>)"

type_synonym classify_outcome =
  "string \<times> string option \<times> datetime option \<times> movement_classification_transition option"

text \<open>A change of the classification, with the fact that records it.\<close>

definition classify_change :: "stdlib \<Rightarrow> temporal_policy \<Rightarrow> movement_classification_state \<Rightarrow> string \<Rightarrow>
    string \<Rightarrow> datetime \<Rightarrow> movement_measurement \<Rightarrow> datetime option \<Rightarrow> temporal_error + classify_outcome" where
  "classify_change L p st from_state event event_time m started =
     rbind (transition MOVEMENT_CLASSIFICATION_FSM from_state event) (\<lambda>next_st.
       rbind (classification_build_transition L p (cs_key st) from_state next_st event_time m started)
         (\<lambda>tr. Inr (next_st, None, None, Some tr)))"

text \<open>A stay: the machine is asked, the current classification is kept and any run is cancelled.\<close>

definition classify_stay :: "string \<Rightarrow> string \<Rightarrow> temporal_error + classify_outcome" where
  "classify_stay current event =
     rbind (transition MOVEMENT_CLASSIFICATION_FSM current event) (\<lambda>_. Inr (current, None, None, None))"

definition qualify :: "stdlib \<Rightarrow> temporal_policy \<Rightarrow> movement_classification_state \<Rightarrow> string \<Rightarrow> datetime \<Rightarrow>
    movement_measurement \<Rightarrow> temporal_error + classify_outcome" where
  "qualify L p st target event_time m =
     (case cs_qualification_started st of
        Some started \<Rightarrow>
          if cs_pending_state st = Some target then
            if seconds_between event_time started \<ge> pol_movement_qualification_seconds p then
              classify_change L p st (cs_current_state st) (''qualify_'' @ target) event_time m (Some started)
            else Inr (cs_current_state st, Some target, Some started, None)
          else if pol_movement_qualification_seconds p = 0 then
            classify_change L p st (cs_current_state st) (''qualify_'' @ target) event_time m None
          else Inr (cs_current_state st, Some target, Some event_time, None)
      | None \<Rightarrow>
          if pol_movement_qualification_seconds p = 0 then
            classify_change L p st (cs_current_state st) (''qualify_'' @ target) event_time m None
          else Inr (cs_current_state st, Some target, Some event_time, None))"

datatype evidence = EMoving | EStationary | EBand

definition evidence_of :: "temporal_policy \<Rightarrow> pyfloat \<Rightarrow> evidence" where
  "evidence_of p distance =
     (if float_gt distance (pol_movement_enter_threshold p) then EMoving
      else if float_lt distance (pol_movement_exit_threshold p) then EStationary else EBand)"

definition classify :: "stdlib \<Rightarrow> temporal_policy \<Rightarrow> movement_classification_state \<Rightarrow> movement_measurement \<Rightarrow>
    temporal_error + classify_outcome" where
  "classify L p st m =
     (let distance = mm_distance m; event_time = mm_event_time m; current = cs_current_state st in
      if current = ''unknown'' then
        if float_gt distance (pol_movement_enter_threshold p)
        then classify_change L p st ''unknown'' ''observed_moving'' event_time m None
        else classify_change L p st ''unknown'' ''observed_stationary'' event_time m None
      else case evidence_of p distance of
        EBand \<Rightarrow> classify_stay current ''observed_band''
      | EMoving \<Rightarrow> if current = ''stationary'' then qualify L p st ''moving'' event_time m
          else classify_stay current ''observed_moving''
      | EStationary \<Rightarrow> if current = ''stationary'' then classify_stay current ''observed_stationary''
          else qualify L p st ''stationary'' event_time m)"

subsection \<open>Operations\<close>

definition classification_out_of_order :: "temporal_policy \<Rightarrow> movement_classification_state \<Rightarrow> datetime \<Rightarrow>
    datetime \<Rightarrow> temporal_error + classification_result" where
  "classification_out_of_order p st event_time wm =
     (let delta = seconds_between wm event_time in
      if delta \<le> pol_reorder_window_seconds p then
        (let last_seen = (case cs_last_seen st of
               Some seen \<Rightarrow> if dt_less event_time seen then seen else event_time
             | None \<Rightarrow> event_time)
         in Inr \<lparr>cr_state = st\<lparr>cs_last_seen := Some last_seen\<rparr>, cr_transition = None,
              cr_measurement = None, cr_deduplicated = False, cr_reordered = True\<rparr>)
      else Inl (LateEvent delta))"

definition classification_apply :: "stdlib \<Rightarrow> temporal_policy \<Rightarrow> movement_classification_state \<Rightarrow>
    classification_input \<Rightarrow> temporal_error + classification_result" where
  "classification_apply L p st inp =
     rbind (classification_validate p st inp) (\<lambda>_.
       let event_time = ci_event_time inp; frame_id = ci_frame_id inp in
       rbind (compare_position (event_time, frame_id) (cs_watermark_event_time st)
           (cs_last_applied_frame_id st)) (\<lambda>order.
         case order of
           Same \<Rightarrow> Inr \<lparr>cr_state = st, cr_transition = None, cr_measurement = None,
             cr_deduplicated = True, cr_reordered = False\<rparr>
         | Older \<Rightarrow> classification_out_of_order p st event_time (the (cs_watermark_event_time st))
         | Newer \<Rightarrow>
             case ci_measurement inp of
               None \<Rightarrow> Inr \<lparr>cr_state = st\<lparr>cs_last_seen := Some event_time,
                   cs_watermark_event_time := Some event_time, cs_last_applied_frame_id := Some frame_id\<rparr>,
                 cr_transition = None, cr_measurement = None, cr_deduplicated = False, cr_reordered = False\<rparr>
             | Some m \<Rightarrow> rbind (classify L p st m) (\<lambda>(next_st, pending, started, tr).
                 Inr \<lparr>cr_state = st\<lparr>cs_current_state := next_st,
                     cs_state_since := (if next_st \<noteq> cs_current_state st then Some event_time else cs_state_since st),
                     cs_pending_state := pending, cs_qualification_started := started,
                     cs_last_seen := Some event_time, cs_watermark_event_time := Some event_time,
                     cs_last_applied_frame_id := Some frame_id\<rparr>,
                   cr_transition = tr, cr_measurement = Some m, cr_deduplicated = False,
                   cr_reordered = False\<rparr>)))"

definition classification_checkpoint :: "temporal_policy \<Rightarrow> movement_classification_state \<Rightarrow>
    classification_state_checkpoint" where
  "classification_checkpoint p st = make_checkpoint p st"

definition classification_restore :: "temporal_policy \<Rightarrow> classification_state_checkpoint \<Rightarrow>
    temporal_error + movement_classification_state" where
  "classification_restore p cp =
     (let st = cp_state cp in
      if cp_engine_version cp \<noteq> TEMPORAL_ENGINE_VERSION
      then Inl (FsmVersionMismatch (cp_engine_version cp) TEMPORAL_ENGINE_VERSION)
      else if cp_policy_revision cp \<noteq> pol_revision p
      then Inl (CheckpointIntegrity (cp_policy_revision cp) (pol_revision p))
      else if cs_fsm_version st \<noteq> fsm_version MOVEMENT_CLASSIFICATION_FSM
      then Inl (FsmVersionMismatch (cs_fsm_version st) (fsm_version MOVEMENT_CLASSIFICATION_FSM))
      else if key_fsm_kind (cs_key st) \<noteq> ''movement_classification''
      then Inl (InvalidTemporalInput (CheckpointFsmKindMismatch (key_fsm_kind (cs_key st))))
      else Inr st)"

definition classification_input_from_movement :: "temporal_state_key \<Rightarrow> spatial_observation \<Rightarrow>
    movement_result \<Rightarrow> datetime \<Rightarrow> temporal_error + classification_input" where
  "classification_input_from_movement key ob result processing_time =
     (if (case mr_measurement result of None \<Rightarrow> False
          | Some m \<Rightarrow> \<not> dt_eq (mm_event_time m) (so_event_time ob))
      then Inl (InvalidTemporalInput MeasurementTimeMismatch)
      else Inr \<lparr>ci_key = key, ci_measurement = mr_measurement result, ci_event_time = so_event_time ob,
        ci_frame_id = so_frame_id ob, ci_processing_time = processing_time\<rparr>)"

end
