(* ===== verification/Classification_Facts.thy ===== *)
theory Classification_Facts
  imports Classification
begin

text \<open>
  What the classification engine guarantees: its states keep the contract although they are copied
  without validation; a classification changes only after a qualification run, every measurement of
  which since its start was evidence of the other side; the facts of a run chain the classifications;
  the only errors are those of validation and lateness.
\<close>

subsection \<open>The contract instances\<close>

definition classification_step :: "stdlib \<Rightarrow> temporal_policy \<Rightarrow> movement_classification_state \<Rightarrow>
    classification_input \<Rightarrow> temporal_error + movement_classification_state \<times> movement_classification_transition list" where
  "classification_step L p s i = rbind (classification_apply L p s i) (\<lambda>r.
     Inr (cr_state r, case cr_transition r of None \<Rightarrow> [] | Some t \<Rightarrow> [t]))"

definition classification_pos :: "classification_input \<Rightarrow> int \<times> uuid" where
  "classification_pos i = position_key (ci_event_time i, ci_frame_id i)"

definition classification_mark :: "movement_classification_state \<Rightarrow> mark" where
  "classification_mark s = watermark (cs_watermark_event_time s) (cs_last_applied_frame_id s)"

definition classification_core :: "movement_classification_state \<Rightarrow> movement_classification_state" where
  "classification_core s = s\<lparr>cs_last_seen := None\<rparr>"

text \<open>The side a known classification is not on, and evidence of a side.\<close>

definition opposite :: "string \<Rightarrow> string" where
  "opposite c = (if c = ''stationary'' then ''moving'' else ''stationary'')"

definition evidence_for :: "temporal_policy \<Rightarrow> string \<Rightarrow> movement_measurement \<Rightarrow> bool" where
  "evidence_for p target m =
     (evidence_of p (mm_distance m) = (if target = ''moving'' then EMoving else EStationary))"

definition classification_ok :: "movement_classification_state \<Rightarrow> bool" where
  "classification_ok s = (movement_classification_state_valid s \<and>
     cs_fsm_version s = fsm_version MOVEMENT_CLASSIFICATION_FSM \<and>
     mark_whole (cs_watermark_event_time s) (cs_last_applied_frame_id s) \<and>
     time_le (cs_state_since s) (cs_watermark_event_time s) \<and>
     time_le (cs_qualification_started s) (cs_watermark_event_time s) \<and>
     (case cs_pending_state s of None \<Rightarrow> True
      | Some t \<Rightarrow> cs_current_state s \<noteq> ''unknown'' \<and> t = opposite (cs_current_state s)))"

lemma classification_core_eq_iff:
  "classification_core s = classification_core t \<longleftrightarrow> (\<exists>v. s = t\<lparr>cs_last_seen := v\<rparr>)"
  by (cases s; cases t) (auto simp: classification_core_def)

lemma classification_validate_Inr:
  "classification_validate p s i = Inr u \<Longrightarrow> aware (ci_event_time i) \<and> ci_key i = cs_key s \<and>
     (\<forall>m. ci_measurement i = Some m \<longrightarrow> dt_eq (mm_event_time m) (ci_event_time i) \<and>
        aware (mm_event_time m) \<and> isfinite (mm_distance m))"
  by (auto simp: classification_validate_def Let_def split: if_splits option.splits)

lemma classification_initial_ok:
  "classification_initial_state key = Inr s \<Longrightarrow> classification_ok s \<and> cs_current_state s = ''unknown'' \<and>
     cs_pending_state s = None \<and> cs_qualification_started s = None \<and> classification_mark s = None"
  by (auto simp: classification_initial_state_def classification_ok_def classification_mark_def split: if_splits)

subsection \<open>The outcomes of a classification\<close>

lemma build_transition_Inr:
  "classification_build_transition L p key a b t m q = Inr f \<Longrightarrow>
     ct_from_state f = a \<and> ct_to_state f = b \<and> ct_event_time f = t \<and>
     ct_measurement_id f = mm_measurement_id m \<and> ct_qualification_started f = q \<and>
     movement_classification_transition_valid f"
  by (auto simp: classification_build_transition_def Let_def)

lemma build_transition_total:
  assumes "aware t" "validate_utc_opt q" "a \<in> set MOVEMENT_STATES" "b \<in> set MOVEMENT_STATES" "a \<noteq> b"
  shows "\<exists>f. classification_build_transition L p key a b t m q = Inr f"
  using assms by (simp add: classification_build_transition_def movement_classification_transition_valid_def Let_def)

datatype outcome = First | Stay | Start | Continue | Change

text \<open>Which branch \<open>_classify\<close> takes, as a function of the state and the measurement.\<close>

definition outcome_of :: "temporal_policy \<Rightarrow> movement_classification_state \<Rightarrow> movement_measurement \<Rightarrow> outcome" where
  "outcome_of p s m =
     (if cs_current_state s = ''unknown'' then First
      else if \<not> evidence_for p (opposite (cs_current_state s)) m then Stay
      else case cs_qualification_started s of
        None \<Rightarrow> if pol_movement_qualification_seconds p = 0 then Change else Start
      | Some q \<Rightarrow> if seconds_between (mm_event_time m) q \<ge> pol_movement_qualification_seconds p
          then Change else Continue)"

definition outcome_result :: "stdlib \<Rightarrow> temporal_policy \<Rightarrow> movement_classification_state \<Rightarrow>
    movement_measurement \<Rightarrow> outcome \<Rightarrow> temporal_error + classify_outcome" where
  "outcome_result L p s m oc =
     (let c = cs_current_state s; t = mm_event_time m; q = cs_qualification_started s;
          first = (if float_gt (mm_distance m) (pol_movement_enter_threshold p) then ''moving'' else ''stationary'');
          record_change = (\<lambda>b q. rbind (classification_build_transition L p (cs_key s) c b t m q)
            (\<lambda>f. Inr (b, None, None, Some f)))
      in case oc of
        First \<Rightarrow> record_change first None
      | Stay \<Rightarrow> Inr (c, None, None, None)
      | Start \<Rightarrow> Inr (c, Some (opposite c), Some t, None)
      | Continue \<Rightarrow> Inr (c, Some (opposite c), q, None)
      | Change \<Rightarrow> record_change (opposite c) q)"

lemma classify_outcome:
  assumes ok: "classification_ok s"
  shows "classify L p s m = outcome_result L p s m (outcome_of p s m)"
proof -
  have c: "cs_current_state s \<in> set MOVEMENT_STATES"
    and pq: "(cs_pending_state s = None) = (cs_qualification_started s = None)"
    and pt: "\<And>t. cs_pending_state s = Some t \<Longrightarrow> t = opposite (cs_current_state s)"
    using ok by (auto simp: classification_ok_def movement_classification_state_valid_def
        validate_classification_invariants_def)
  from pq pt consider (no) "cs_pending_state s = None" "cs_qualification_started s = None"
    | (run) q where "cs_pending_state s = Some (opposite (cs_current_state s))" "cs_qualification_started s = Some q"
    by (cases "cs_pending_state s") auto
  note pend = this
  show ?thesis
  proof (cases rule: movement_states_cases [OF c])
    case 1
    then show ?thesis
      by (simp add: classify_def classify_change_def outcome_of_def outcome_result_def Let_def)
  next
    case 2
    show ?thesis
      by (cases rule: pend; cases "evidence_of p (mm_distance m)")
        (simp_all add: 2 classify_def classify_change_def classify_stay_def outcome_of_def outcome_result_def
          evidence_for_def opposite_def qualify_def Let_def)
  next
    case 3
    show ?thesis
      by (cases rule: pend; cases "evidence_of p (mm_distance m)")
        (simp_all add: 3 classify_def classify_change_def classify_stay_def outcome_of_def outcome_result_def
          evidence_for_def opposite_def qualify_def Let_def)
  qed
qed

subsection \<open>Operations\<close>

text \<open>The state after an in-order input, its measurement classified or absent.\<close>

definition classified_state :: "movement_classification_state \<Rightarrow> classification_input \<Rightarrow> classify_outcome \<Rightarrow>
    movement_classification_state" where
  "classified_state s i r = (case r of (n, pend, q, tr) \<Rightarrow>
     s\<lparr>cs_current_state := n,
       cs_state_since := (if n \<noteq> cs_current_state s then Some (ci_event_time i) else cs_state_since s),
       cs_pending_state := pend, cs_qualification_started := q, cs_last_seen := Some (ci_event_time i),
       cs_watermark_event_time := Some (ci_event_time i), cs_last_applied_frame_id := Some (ci_frame_id i)\<rparr>)"

definition classify_input :: "stdlib \<Rightarrow> temporal_policy \<Rightarrow> movement_classification_state \<Rightarrow>
    classification_input \<Rightarrow> temporal_error + classify_outcome" where
  "classify_input L p s i = (case ci_measurement i of
     None \<Rightarrow> Inr (cs_current_state s, cs_pending_state s, cs_qualification_started s, None)
   | Some m \<Rightarrow> classify L p s m)"

lemma classification_apply_in_order:
  assumes "classification_validate p s i = Inr ()"
    and "compare_position (ci_event_time i, ci_frame_id i) (cs_watermark_event_time s)
       (cs_last_applied_frame_id s) = Inr Newer"
  shows "classification_apply L p s i = rbind (classify_input L p s i) (\<lambda>r.
    Inr \<lparr>cr_state = classified_state s i r, cr_transition = snd (snd (snd r)),
         cr_measurement = ci_measurement i, cr_deduplicated = False, cr_reordered = False\<rparr>)"
proof (cases "ci_measurement i")
  case None
  then show ?thesis
    using assms by (simp add: classification_apply_def classify_input_def classified_state_def Let_def)
next
  case (Some m)
  show ?thesis
  proof (cases "classify L p s m")
    case (Inl e)
    with Some show ?thesis
      using assms by (simp add: classification_apply_def classify_input_def Let_def)
  next
    case (Inr r)
    with Some show ?thesis
      using assms by (cases r) (simp add: classification_apply_def classify_input_def classified_state_def Let_def)
  qed
qed

lemma classification_apply_Newer:
  assumes ap: "classification_apply L p s i = Inr r" and ok: "classification_ok s"
    and new: "newer_than (classification_mark s) (classification_pos i)"
  obtains out where "classification_validate p s i = Inr ()" "classify_input L p s i = Inr out"
    "compare_position (ci_event_time i, ci_frame_id i) (cs_watermark_event_time s)
       (cs_last_applied_frame_id s) = Inr Newer"
    "cr_state r = classified_state s i out" "cr_transition r = snd (snd (snd out))"
proof -
  have cmp: "compare_position (ci_event_time i, ci_frame_id i) (cs_watermark_event_time s)
       (cs_last_applied_frame_id s) = Inr Newer"
    using ok new by (simp add: compare_position_whole classification_ok_def classification_mark_def
        classification_pos_def)
  from ap have val: "classification_validate p s i = Inr ()" by (auto simp: classification_apply_def)
  from ap have "rbind (classify_input L p s i) (\<lambda>r.
    Inr \<lparr>cr_state = classified_state s i r, cr_transition = snd (snd (snd r)),
         cr_measurement = ci_measurement i, cr_deduplicated = False, cr_reordered = False\<rparr>) = Inr r"
    by (simp only: classification_apply_in_order [OF val cmp])
  then obtain out where "classify_input L p s i = Inr out"
    and "r = \<lparr>cr_state = classified_state s i out, cr_transition = snd (snd (snd out)),
         cr_measurement = ci_measurement i, cr_deduplicated = False, cr_reordered = False\<rparr>"
    by auto
  with that [OF val _ cmp] show thesis by simp
qed

lemma classification_apply_not_Newer:
  assumes ap: "classification_apply L p s i = Inr r" and ok: "classification_ok s"
    and new: "\<not> newer_than (classification_mark s) (classification_pos i)"
  shows "(cr_state r = s \<or> (\<exists>seen. aware seen \<and> cr_state r = s\<lparr>cs_last_seen := Some seen\<rparr>)) \<and>
      cr_transition r = None"
proof -
  let ?t = "ci_event_time i" and ?f = "ci_frame_id i"
  have cmp: "compare_position (?t, ?f) (cs_watermark_event_time s) (cs_last_applied_frame_id s) =
      (if classification_mark s = Some (classification_pos i) then Inr Same else Inr Older)"
    using ok new by (simp add: compare_position_whole classification_ok_def classification_mark_def
        classification_pos_def)
  have val: "classification_validate p s i = Inr ()" using ap by (auto simp: classification_apply_def)
  have aw: "aware ?t" "validate_utc_opt (cs_last_seen s)"
    using classification_validate_Inr [OF val] ok
    by (simp_all add: classification_ok_def movement_classification_state_valid_def)
  show ?thesis
  proof (cases "classification_mark s = Some (classification_pos i)")
    case True
    with ap cmp val show ?thesis by (auto simp: classification_apply_def Let_def)
  next
    case False
    with ap cmp val have "classification_out_of_order p s ?t (the (cs_watermark_event_time s)) = Inr r"
      by (auto simp: classification_apply_def Let_def)
    with aw show ?thesis
      by (cases "cs_last_seen s") (auto simp: classification_out_of_order_def Let_def split: if_splits)
  qed
qed

lemma opposite_simps [simp]:
  "opposite ''stationary'' = ''moving''" "opposite ''moving'' = ''stationary''"
  "opposite c \<noteq> ''unknown''" "opposite c \<noteq> c" "opposite c \<in> set MOVEMENT_STATES"
  by (auto simp: opposite_def)

lemma outcome_preserves:
  assumes ok: "classification_ok s" and res: "outcome_result L p s m (outcome_of p s m) = Inr out"
    and t: "dt_eq (mm_event_time m) (ci_event_time i)" "aware (mm_event_time m)" "aware (ci_event_time i)"
    and cmp: "compare_position (ci_event_time i, ci_frame_id i) (cs_watermark_event_time s)
       (cs_last_applied_frame_id s) = Inr Newer"
  shows "classification_ok (classified_state s i out)"
proof -
  have since: "time_le (cs_state_since s) (Some (ci_event_time i))"
    and qual: "time_le (cs_qualification_started s) (Some (ci_event_time i))"
    using time_le_trans_newer [OF _ cmp] ok by (simp_all add: classification_ok_def)
  have now: "\<not> dt_less (ci_event_time i) (mm_event_time m)"
    using t(1) by (simp add: dt_eq_def dt_less_def)
  have base: "validate_schema_version (cs_schema_version s)" "validate_utc_opt (cs_state_since s)"
    "validate_utc_opt (cs_qualification_started s)" "key_fsm_kind (cs_key s) = ''movement_classification''"
    "cs_current_state s \<in> set MOVEMENT_STATES" "cs_fsm_version s = TEMPORAL_ENGINE_VERSION"
    "opposite (cs_current_state s) \<in> set MOVEMENT_STATES"
    using ok by (simp_all add: classification_ok_def movement_classification_state_valid_def
        validate_classification_invariants_def)
  have cont: "\<exists>q. cs_qualification_started s = Some q" if "outcome_of p s m = Continue"
    using that by (auto simp: outcome_of_def split: if_splits option.splits)
  have known: "cs_current_state s \<noteq> ''unknown''" if "outcome_of p s m \<noteq> First"
    using that by (auto simp: outcome_of_def)
  show ?thesis
    using res cont known since qual now t(2,3) base
    by (cases "outcome_of p s m")
      (auto simp: outcome_result_def classified_state_def classification_ok_def
        movement_classification_state_valid_def validate_classification_invariants_def Let_def)
qed

lemma classification_ok_step:
  assumes ok: "classification_ok s" and st: "classification_step L p s i = Inr (s', out)"
  shows "classification_ok s'"
proof -
  from st obtain r where ap: "classification_apply L p s i = Inr r" and s': "s' = cr_state r"
    by (auto simp: classification_step_def)
  show ?thesis
  proof (cases "newer_than (classification_mark s) (classification_pos i)")
    case True
    from classification_apply_Newer [OF ap ok True] obtain res where
      val: "classification_validate p s i = Inr ()" and inp: "classify_input L p s i = Inr res"
      and cmp: "compare_position (ci_event_time i, ci_frame_id i) (cs_watermark_event_time s)
       (cs_last_applied_frame_id s) = Inr Newer"
      and r: "cr_state r = classified_state s i res"
      by metis
    show ?thesis
    proof (cases "ci_measurement i")
      case None
      have "time_le (cs_state_since s) (Some (ci_event_time i))"
        "time_le (cs_qualification_started s) (Some (ci_event_time i))"
        using time_le_trans_newer [OF _ cmp] ok by (simp_all add: classification_ok_def)
      moreover have "res = (cs_current_state s, cs_pending_state s, cs_qualification_started s, None)"
        using inp None by (simp add: classify_input_def)
      ultimately show ?thesis
        using ok classification_validate_Inr [OF val]
        by (simp add: s' r classified_state_def classification_ok_def movement_classification_state_valid_def
            validate_classification_invariants_def cong: option.case_cong)
    next
      case (Some m)
      with inp have "outcome_result L p s m (outcome_of p s m) = Inr res"
        by (simp add: classify_input_def classify_outcome [OF ok])
      from outcome_preserves [OF ok this _ _ _ cmp] Some classification_validate_Inr [OF val] show ?thesis
        by (simp add: s' r)
    qed
  next
    case False
    from classification_apply_not_Newer [OF ap ok False] ok s' show ?thesis
      by (auto simp: classification_ok_def movement_classification_state_valid_def
          validate_classification_invariants_def cong: option.case_cong)
  qed
qed

lemma classify_change_core: "classify_change L p (s\<lparr>cs_last_seen := v\<rparr>) = classify_change L p s"
  by (simp add: fun_eq_iff classify_change_def)

lemma qualify_core: "qualify L p (s\<lparr>cs_last_seen := v\<rparr>) = qualify L p s"
  by (intro ext) (simp add: qualify_def classify_change_core split: option.splits)

lemma classify_core: "classify L p (s\<lparr>cs_last_seen := v\<rparr>) = classify L p s"
  by (intro ext) (simp add: classify_def classify_change_core qualify_core Let_def split: evidence.splits)

lemma classification_core_same:
  "classification_validate p (s\<lparr>cs_last_seen := v\<rparr>) i = classification_validate p s i"
  "classify_input L p (s\<lparr>cs_last_seen := v\<rparr>) i = classify_input L p s i"
  "classified_state (s\<lparr>cs_last_seen := v\<rparr>) i r = classified_state s i r"
  by (simp_all add: classification_validate_def classify_input_def classify_core classified_state_def Let_def
      split: prod.splits cong: option.case_cong)

lemma classified_state_position [simp]:
  "cs_watermark_event_time (classified_state s i r) = Some (ci_event_time i)"
  "cs_last_applied_frame_id (classified_state s i r) = Some (ci_frame_id i)"
  "cs_key (classified_state s i r) = cs_key s" "cs_fsm_version (classified_state s i r) = cs_fsm_version s"
  by (simp_all add: classified_state_def split: prod.splits)

lemma classification_redelivery_step:
  assumes "classification_validate p s i = Inr ()" and "cr_state r = classified_state s i out"
  shows "classification_step L p (cr_state r) i = Inr (cr_state r, [])"
proof -
  have "classification_validate p (cr_state r) i = Inr ()"
    using assms classification_validate_Inr [OF assms(1)]
    by (simp add: classification_validate_def Let_def split: if_splits)
  moreover have "compare_position (ci_event_time i, ci_frame_id i) (cs_watermark_event_time (cr_state r))
      (cs_last_applied_frame_id (cr_state r)) = Inr Same"
    by (simp add: compare_position_Same assms(2))
  ultimately show ?thesis
    by (simp add: classification_step_def classification_apply_def Let_def)
qed

interpretation classification_order: event_time_engine "classification_step L p" classification_ok
    classification_pos classification_mark classification_core for L p
proof
  fix s t i s' os
  assume ok: "classification_ok s"
  {
    assume st: "classification_step L p s i = Inr (s', os)"
    show "classification_ok s'" by (rule classification_ok_step [OF ok st])
    from st obtain r where ap: "classification_apply L p s i = Inr r" and s': "s' = cr_state r"
      and os: "os = (case cr_transition r of None \<Rightarrow> [] | Some t \<Rightarrow> [t])"
      by (auto simp: classification_step_def)
    {
      assume new: "newer_than (classification_mark s) (classification_pos i)"
      from classification_apply_Newer [OF ap ok new] obtain out where
        val: "classification_validate p s i = Inr ()" and inp: "classify_input L p s i = Inr out"
        and cmp: "compare_position (ci_event_time i, ci_frame_id i) (cs_watermark_event_time s)
       (cs_last_applied_frame_id s) = Inr Newer"
        and r: "cr_state r = classified_state s i out" and tr: "cr_transition r = snd (snd (snd out))"
        by metis
      show "classification_mark s' = Some (classification_pos i)"
        by (simp add: s' r classification_mark_def classification_pos_def position_key_def)
      show "\<exists>os'. classification_step L p s' i = Inr (s', os')"
        using classification_redelivery_step [OF val r] by (simp add: s')
      assume "classification_core s = classification_core t" and "classification_ok t"
      then obtain v where t: "t = s\<lparr>cs_last_seen := v\<rparr>"
        using classification_core_eq_iff by metis
      have "classification_apply L p t i = Inr \<lparr>cr_state = classified_state s i out,
          cr_transition = snd (snd (snd out)), cr_measurement = ci_measurement i, cr_deduplicated = False,
          cr_reordered = False\<rparr>"
        using val cmp inp by (subst classification_apply_in_order) (simp_all add: t classification_core_same)
      then show "\<exists>t'. classification_step L p t i = Inr (t', os) \<and> classification_core t' = classification_core s'"
        by (simp add: classification_step_def os s' r tr)
    }
    assume "\<not> newer_than (classification_mark s) (classification_pos i)"
    from classification_apply_not_Newer [OF ap ok this] s' show "classification_core s' = classification_core s"
      by (auto simp: classification_core_def)
  }
  show "classification_core s = classification_core t \<Longrightarrow> classification_mark s = classification_mark t"
    by (auto simp: classification_core_eq_iff classification_mark_def)
qed

interpretation classification_restart: restartable_engine "classification_step L p" classification_ok
    "classification_checkpoint p" "classification_restore p" for L p
proof
  fix s
  assume "classification_ok s"
  then show "classification_restore p (classification_checkpoint p s) = Inr s"
    by (simp add: classification_restore_def classification_checkpoint_def classification_ok_def
        movement_classification_state_valid_def validate_classification_invariants_def)
qed

subsection \<open>Qualification runs\<close>

text \<open>
  The history ends with a run of evidence for \<open>target\<close> that began at \<open>q\<close>: an input measured at \<open>q\<close>,
  after which (itself included) every measurement was evidence for \<open>target\<close>.
\<close>

definition evidence_run :: "temporal_policy \<Rightarrow> string \<Rightarrow> datetime \<Rightarrow> classification_input list \<Rightarrow> bool" where
  "evidence_run p target q h = (\<exists>k<length h. (\<exists>m. ci_measurement (h ! k) = Some m \<and> mm_event_time m = q) \<and>
     (\<forall>j. k \<le> j \<and> j < length h \<longrightarrow> (\<forall>m. ci_measurement (h ! j) = Some m \<longrightarrow> evidence_for p target m)))"

definition qualifying :: "temporal_policy \<Rightarrow> movement_classification_state \<Rightarrow> classification_input list \<Rightarrow> bool" where
  "qualifying p s h = (\<forall>q. cs_qualification_started s = Some q \<longrightarrow>
     evidence_run p (opposite (cs_current_state s)) q h)"

lemma evidence_run_extend:
  assumes "evidence_run p target q h" and "\<And>m. ci_measurement i = Some m \<Longrightarrow> evidence_for p target m"
  shows "evidence_run p target q (h @ [i])"
proof -
  from assms(1) obtain k m where k: "k < length h" "ci_measurement (h ! k) = Some m" "mm_event_time m = q"
    and run: "\<And>j m. k \<le> j \<Longrightarrow> j < length h \<Longrightarrow> ci_measurement (h ! j) = Some m \<Longrightarrow> evidence_for p target m"
    unfolding evidence_run_def by blast
  show ?thesis
    unfolding evidence_run_def
  proof (intro exI [of _ k] conjI allI impI)
    show "\<exists>m. ci_measurement ((h @ [i]) ! k) = Some m \<and> mm_event_time m = q"
      using k by (simp add: nth_append)
    show "evidence_for p target m"
      if "k \<le> j \<and> j < length (h @ [i])" "ci_measurement ((h @ [i]) ! j) = Some m" for j m
      using that run assms(2) by (cases "j < length h") (auto simp: nth_append)
  qed (use k in simp)
qed

lemma evidence_run_start:
  "ci_measurement i = Some m \<Longrightarrow> evidence_for p target m \<Longrightarrow> evidence_run p target (mm_event_time m) (h @ [i])"
  by (auto simp: evidence_run_def nth_append intro!: exI [of _ "length h"])

text \<open>A change after a run: what the fact records and what supports it.\<close>

definition sustained :: "temporal_policy \<Rightarrow> classification_input list \<Rightarrow> movement_classification_transition \<Rightarrow> bool" where
  "sustained p h f = (case ct_qualification_started f of
     None \<Rightarrow> ct_from_state f = ''unknown'' \<or> pol_movement_qualification_seconds p = 0
   | Some q \<Rightarrow> evidence_run p (ct_to_state f) q h \<and>
       pol_movement_qualification_seconds p \<le> seconds_between (ct_event_time f) q)"

lemma outcome_qualifying:
  assumes ok: "classification_ok s" and q: "qualifying p s h" and m: "ci_measurement i = Some m"
    and res: "outcome_result L p s m (outcome_of p s m) = Inr out"
  shows "qualifying p (classified_state s i out) (h @ [i]) \<and>
     (\<forall>f. snd (snd (snd out)) = Some f \<longrightarrow> sustained p (h @ [i]) f \<and>
        ct_from_state f = cs_current_state s \<and> ct_to_state f = fst out \<and> fst out \<noteq> cs_current_state s) \<and>
     (snd (snd (snd out)) = None \<longrightarrow> fst out = cs_current_state s)"
proof (cases "outcome_of p s m")
  case First
  then have "cs_current_state s = ''unknown''" by (auto simp: outcome_of_def split: if_splits option.splits)
  with First res show ?thesis
    by (auto simp: outcome_result_def qualifying_def classified_state_def sustained_def Let_def
        dest!: build_transition_Inr split: if_splits)
next
  case Stay
  with res show ?thesis by (auto simp: outcome_result_def qualifying_def classified_state_def Let_def)
next
  case Start
  then have "evidence_for p (opposite (cs_current_state s)) m"
    by (auto simp: outcome_of_def split: if_splits)
  from evidence_run_start [OF m this] Start res show ?thesis
    by (auto simp: outcome_result_def qualifying_def classified_state_def Let_def)
next
  case Continue
  then have ev: "evidence_for p (opposite (cs_current_state s)) m"
    by (auto simp: outcome_of_def split: if_splits)
  have "evidence_run p (opposite (cs_current_state s)) q (h @ [i])" if "cs_qualification_started s = Some q" for q
    using evidence_run_extend [of p _ q h i] assms(2) that ev m by (auto simp: qualifying_def)
  with Continue res show ?thesis
    by (auto simp: outcome_result_def qualifying_def classified_state_def Let_def)
next
  case Change
  then have ev: "evidence_for p (opposite (cs_current_state s)) m"
    by (auto simp: outcome_of_def split: if_splits)
  have run: "evidence_run p (opposite (cs_current_state s)) q (h @ [i])" if "cs_qualification_started s = Some q" for q
    using evidence_run_extend [of p _ q h i] assms(2) that ev m by (auto simp: qualifying_def)
  from Change res obtain f where
    f: "classification_build_transition L p (cs_key s) (cs_current_state s) (opposite (cs_current_state s))
      (mm_event_time m) m (cs_qualification_started s) = Inr f"
    and out: "out = (opposite (cs_current_state s), None, None, Some f)"
    by (auto simp: outcome_result_def Let_def)
  have "sustained p (h @ [i]) f"
    using Change run build_transition_Inr [OF f]
    by (auto simp: sustained_def outcome_of_def split: if_splits option.splits)
  with build_transition_Inr [OF f] show ?thesis
    by (auto simp: out qualifying_def classified_state_def)
qed

fun chained :: "string \<Rightarrow> movement_classification_transition list \<Rightarrow> string option" where
  "chained c [] = Some c"
| "chained c (f # fs) =
     (if ct_from_state f = c \<and> ct_to_state f \<noteq> c then chained (ct_to_state f) fs else None)"

lemma chained_append: "chained c (xs @ ys) = Option.bind (chained c xs) (\<lambda>d. chained d ys)"
  by (induction xs arbitrary: c) auto

lemma classification_step_new:
  assumes ok: "classification_ok s" and q: "qualifying p s h"
    and new: "newer_than (classification_mark s) (classification_pos i)"
    and st: "classification_step L p s i = Inr (s', fs)"
  shows "qualifying p s' (h @ [i]) \<and> (\<forall>f\<in>set fs. sustained p (h @ [i]) f) \<and>
     chained (cs_current_state s) fs = Some (cs_current_state s')"
proof -
  from st obtain r where ap: "classification_apply L p s i = Inr r" and s': "s' = cr_state r"
    and fs: "fs = (case cr_transition r of None \<Rightarrow> [] | Some t \<Rightarrow> [t])"
    by (auto simp: classification_step_def)
  from classification_apply_Newer [OF ap ok new] obtain out where
    inp: "classify_input L p s i = Inr out" and r: "cr_state r = classified_state s i out"
    and tr: "cr_transition r = snd (snd (snd out))"
    by metis
  have cur: "cs_current_state s' = fst out"
    by (simp add: s' r classified_state_def split: prod.splits)
  show ?thesis
  proof (cases "ci_measurement i")
    case None
    with inp have out: "out = (cs_current_state s, cs_pending_state s, cs_qualification_started s, None)"
      by (simp add: classify_input_def)
    from q None have "qualifying p s' (h @ [i])"
      by (auto simp: s' r out qualifying_def classified_state_def intro: evidence_run_extend)
    with cur show ?thesis by (simp add: fs tr out)
  next
    case (Some m)
    with inp have "outcome_result L p s m (outcome_of p s m) = Inr out"
      by (simp add: classify_input_def classify_outcome [OF ok])
    from outcome_qualifying [OF ok q Some this] cur show ?thesis
      by (auto simp: s' r fs tr split: option.splits)
  qed
qed

lemma classification_run_sustained:
  "classification_ok s \<Longrightarrow> qualifying p s h \<Longrightarrow> run_facts (classification_step L p) s is = Inr (s', fs) \<Longrightarrow>
     chained (cs_current_state s) fs = Some (cs_current_state s') \<and>
     (\<forall>f\<in>set fs. \<exists>xs ys. in_order classification_pos (classification_mark s) is = xs @ ys \<and> xs \<noteq> [] \<and>
        sustained p (h @ xs) f)"
proof (induction "is" arbitrary: s h fs)
  case Nil
  then show ?case by simp
next
  case (Cons i "is")
  then obtain s1 f1 f2 where st: "classification_step L p s i = Inr (s1, f1)"
    and run: "run_facts (classification_step L p) s1 is = Inr (s', f2)" and fs: "fs = f1 @ f2"
    by (auto simp: run_facts_Cons_Inr simp del: run_facts.simps)
  note ok1 = classification_ok_step [OF Cons.prems(1) st]
  show ?case
  proof (cases "newer_than (classification_mark s) (classification_pos i)")
    case True
    note new = classification_step_new [OF Cons.prems(1,2) True st]
    note IH = Cons.IH [OF ok1 _ run, of "h @ [i]"]
    have mark: "classification_mark s1 = Some (classification_pos i)"
      by (rule classification_order.newer_mark [OF Cons.prems(1) True st])
    let ?rest = "in_order classification_pos (Some (classification_pos i)) is"
    have "\<exists>xs ys. i # ?rest = xs @ ys \<and> xs \<noteq> [] \<and> sustained p (h @ xs) f" if "f \<in> set fs" for f
    proof (cases "f \<in> set f1")
      case True
      with new show ?thesis by (intro exI [of _ "[i]"] exI [of _ ?rest]) simp
    next
      case False
      with that fs IH new mark obtain xs ys where "?rest = xs @ ys" "sustained p ((h @ [i]) @ xs) f" by auto
      then show ?thesis by (intro exI [of _ "i # xs"] exI [of _ ys]) simp
    qed
    with True new IH mark show ?thesis by (auto simp: fs chained_append)
  next
    case False
    from st obtain r where ap: "classification_apply L p s i = Inr r" and "s1 = cr_state r"
      "f1 = (case cr_transition r of None \<Rightarrow> [] | Some t \<Rightarrow> [t])"
      by (auto simp: classification_step_def)
    with classification_apply_not_Newer [OF ap Cons.prems(1) False]
    have "f1 = []" "cs_current_state s1 = cs_current_state s" "qualifying p s1 h"
      using Cons.prems(2) by (auto simp: qualifying_def)
    with Cons.IH [OF ok1 _ run, of h] False classification_order.older_mark [OF Cons.prems(1) False st]
    show ?thesis by (simp add: fs)
  qed
qed

subsection \<open>Errors\<close>

lemma classify_total:
  assumes ok: "classification_ok s" and t: "aware (mm_event_time m)"
  shows "\<exists>out. classify L p s m = Inr out"
proof -
  have base: "cs_current_state s \<in> set MOVEMENT_STATES" "validate_utc_opt (cs_qualification_started s)"
    using ok by (simp_all add: classification_ok_def movement_classification_state_valid_def
        validate_classification_invariants_def)
  have step: "\<exists>out. rbind (classification_build_transition L p k a b u m q) (\<lambda>f. Inr (b, None, None, Some f)) = Inr out"
    if "aware u" "validate_utc_opt q" "a \<in> set MOVEMENT_STATES" "b \<in> set MOVEMENT_STATES" "a \<noteq> b" for k a b u q
    using build_transition_total [OF that, of L p k m] by auto
  show ?thesis
  proof (cases "outcome_of p s m")
    case First
    then have "cs_current_state s = ''unknown''" by (auto simp: outcome_of_def split: if_splits option.splits)
    with First t show ?thesis
      unfolding classify_outcome [OF ok] First outcome_result_def Let_def outcome.case
      by (intro step) simp_all
  next
    case Change
    have "opposite (cs_current_state s) \<noteq> cs_current_state s" by simp
    with base t show ?thesis
      unfolding classify_outcome [OF ok] Change outcome_result_def Let_def outcome.case
      by (intro step) (simp_all add: eq_commute [of "cs_current_state s"])
  qed (simp_all add: classify_outcome [OF ok] outcome_result_def Let_def)
qed

text \<open>With an exit threshold of zero no measurement is evidence of stationarity.\<close>

definition measured_valid :: "classification_input \<Rightarrow> bool" where
  "measured_valid i = (case ci_measurement i of None \<Rightarrow> True | Some m \<Rightarrow> movement_measurement_valid m)"

lemma zero_exit_no_evidence:
  assumes "pol_movement_exit_threshold p \<le> 0" and "movement_measurement_valid m"
  shows "\<not> evidence_for p ''stationary'' m"
  using assms by (cases "mm_distance m")
    (auto simp: evidence_for_def evidence_of_def movement_measurement_valid_def split: if_splits)

lemma moving_step:
  assumes ok: "classification_ok s" and zero: "pol_movement_exit_threshold p \<le> 0"
    and mv: "cs_current_state s = ''moving''" and m: "measured_valid i"
    and st: "classification_step L p s i = Inr (s', fs)"
  shows "cs_current_state s' = ''moving'' \<and> fs = []"
proof -
  from st obtain r where ap: "classification_apply L p s i = Inr r" and s': "s' = cr_state r"
    and fs: "fs = (case cr_transition r of None \<Rightarrow> [] | Some t \<Rightarrow> [t])"
    by (auto simp: classification_step_def)
  show ?thesis
  proof (cases "newer_than (classification_mark s) (classification_pos i)")
    case True
    from classification_apply_Newer [OF ap ok True] obtain out where
      inp: "classify_input L p s i = Inr out" and r: "cr_state r = classified_state s i out"
      and tr: "cr_transition r = snd (snd (snd out))"
      by metis
    have "fst out = ''moving'' \<and> snd (snd (snd out)) = None"
    proof (cases "ci_measurement i")
      case None
      with inp mv show ?thesis by (auto simp: classify_input_def)
    next
      case (Some mm)
      with m zero have "\<not> evidence_for p ''stationary'' mm"
        by (intro zero_exit_no_evidence) (simp_all add: measured_valid_def)
      then have "outcome_of p s mm = Stay" by (simp add: outcome_of_def mv)
      with inp Some mv show ?thesis
        by (auto simp: classify_input_def classify_outcome [OF ok] outcome_result_def)
    qed
    then show ?thesis by (cases out) (simp add: s' r fs tr classified_state_def)
  next
    case False
    from classification_apply_not_Newer [OF ap ok False] mv show ?thesis by (auto simp: s' fs)
  qed
qed

lemma moving_run:
  "classification_ok s \<Longrightarrow> pol_movement_exit_threshold p \<le> 0 \<Longrightarrow> cs_current_state s = ''moving'' \<Longrightarrow>
     list_all measured_valid is \<Longrightarrow> run_facts (classification_step L p) s is = Inr (s', fs) \<Longrightarrow>
     cs_current_state s' = ''moving'' \<and> fs = []"
proof (induction "is" arbitrary: s fs)
  case Nil
  then show ?case by simp
next
  case (Cons i "is")
  then obtain s1 f1 f2 where st: "classification_step L p s i = Inr (s1, f1)"
    and run: "run_facts (classification_step L p) s1 is = Inr (s', f2)" and fs: "fs = f1 @ f2"
    by (auto simp: run_facts_Cons_Inr simp del: run_facts.simps)
  from moving_step [OF Cons.prems(1-3) _ st] Cons.prems(4)
    Cons.IH [OF classification_ok_step [OF Cons.prems(1) st] Cons.prems(2) _ _ run]
  show ?case by (simp add: fs)
qed

subsection \<open>Sample data\<close>

definition sample_measurement :: "int \<Rightarrow> real \<Rightarrow> movement_measurement" where
  "sample_measurement seconds d = \<lparr>mm_schema_version = SCHEMA_VERSION, mm_measurement_id = word_of_int seconds,
     mm_fsm_kind = ''movement'', mm_key = sample_key ''movement'' 7,
     mm_previous_position = \<lparr>sp_x = Fin 0, sp_y = Fin 0, sp_coordinate_space = IMAGE_NORMALIZED, sp_policy = CENTROID\<rparr>,
     mm_current_position = \<lparr>sp_x = Fin d, sp_y = Fin 0, sp_coordinate_space = IMAGE_NORMALIZED, sp_policy = CENTROID\<rparr>,
     mm_previous_event_time = utc_at (seconds * 1000000 - 1), mm_event_time = utc_at (seconds * 1000000),
     mm_distance = Fin d, mm_time_delta_seconds = 1 / 1000000,
     mm_fsm_version = TEMPORAL_ENGINE_VERSION, mm_policy_revision = ''v1''\<rparr>"

lemma sample_measurement_simps [simp]:
  "mm_key (sample_measurement seconds d) = sample_key ''movement'' 7"
  "mm_event_time (sample_measurement seconds d) = utc_at (seconds * 1000000)"
  "mm_distance (sample_measurement seconds d) = Fin d"
  "mm_policy_revision (sample_measurement seconds d) = ''v1''"
  "mm_measurement_id (sample_measurement seconds d) = word_of_int seconds"
  by (simp_all add: sample_measurement_def)

definition sample_class_input :: "int \<Rightarrow> uuid \<Rightarrow> real option \<Rightarrow> classification_input" where
  "sample_class_input seconds frame d = \<lparr>ci_key = sample_key ''movement_classification'' 7,
     ci_measurement = map_option (sample_measurement seconds) d,
     ci_event_time = utc_at (seconds * 1000000), ci_frame_id = frame,
     ci_processing_time = utc_at (seconds * 1000000)\<rparr>"

lemma sample_class_input_simps [simp]:
  "ci_key (sample_class_input seconds frame d) = sample_key ''movement_classification'' 7"
  "ci_measurement (sample_class_input seconds frame d) = map_option (sample_measurement seconds) d"
  "ci_event_time (sample_class_input seconds frame d) = utc_at (seconds * 1000000)"
  "ci_frame_id (sample_class_input seconds frame d) = frame"
  "ci_processing_time (sample_class_input seconds frame d) = utc_at (seconds * 1000000)"
  by (simp_all add: sample_class_input_def)

definition sample_classification :: movement_classification_state where
  "sample_classification = \<lparr>cs_schema_version = SCHEMA_VERSION,
     cs_fsm_version = fsm_version MOVEMENT_CLASSIFICATION_FSM, cs_key = sample_key ''movement_classification'' 7,
     cs_current_state = ''unknown'', cs_state_since = None, cs_pending_state = None,
     cs_qualification_started = None, cs_last_seen = None, cs_watermark_event_time = None,
     cs_last_applied_frame_id = None\<rparr>"

lemma sample_classification_initial:
  "classification_initial_state (sample_key ''movement_classification'' 7) = Inr sample_classification"
  by (simp add: classification_initial_state_def sample_classification_def construct_def
      movement_classification_state_valid_def validate_classification_invariants_def)

lemmas classification_eval =
  classification_step_def classification_apply_def classification_validate_def
  check_measurement_matches_key_def scope_mismatches_def classify_def classify_change_def classify_stay_def
  qualify_def evidence_of_def classification_build_transition_def construct_def
  movement_classification_transition_valid_def classification_out_of_order_def compare_position_def
  dt_eq_def dt_less_def seconds_between_def Let_def ensure_def sample_classification_def

lemma sample_classification_run: "\<exists>s fs. run_facts (classification_step sample_lib sample_policy) sample_classification
    [sample_class_input 0 1 None, sample_class_input 1 2 (Some 0), sample_class_input 2 3 (Some 1),
     sample_class_input 3 4 None, sample_class_input 4 5 (Some 1)] = Inr (s, fs) \<and>
    map ct_to_state fs = [''stationary'', ''moving''] \<and> cs_current_state s = ''moving'' \<and>
    map ct_qualification_started fs = [None, Some (utc_at 2000000)]"
  by (simp add: classification_eval)

subsection \<open>Properties\<close>

text \<open>
  A classification only changes on sustained evidence: over any delivery, the facts of a run chain
  the classifications from unknown to the current one, and each fact after the first records a
  qualification start such that every in-order measurement since it (late and duplicate inputs, and
  inputs without measurement, do not count) was evidence of the side changed to, for at least the
  policy's qualification time.
\<close>

theorem classification_changes_sustained:
  assumes "classification_initial_state key = Inr s0"
    and "run_facts (classification_step L p) s0 is = Inr (s, fs)"
  shows "chained ''unknown'' fs = Some (cs_current_state s) \<and>
     (\<forall>f\<in>set fs. \<exists>xs ys. in_order classification_pos None is = xs @ ys \<and> xs \<noteq> [] \<and> sustained p xs f)"
proof -
  have "classification_ok s0" "cs_current_state s0 = ''unknown''" "classification_mark s0 = None" "qualifying p s0 []"
    using classification_initial_ok [OF assms(1)] by (auto simp: qualifying_def)
  with classification_run_sustained [OF _ _ assms(2), of "[]"] show ?thesis by simp
qed

theorem classification_changes_sustained_witness:
  "\<exists>xs f. ct_to_state f = ''moving'' \<and> sustained sample_policy xs f \<and> xs \<noteq> []"
proof -
  from sample_classification_run obtain s fs where
    run: "run_facts (classification_step sample_lib sample_policy) sample_classification
    [sample_class_input 0 1 None, sample_class_input 1 2 (Some 0), sample_class_input 2 3 (Some 1),
     sample_class_input 3 4 None, sample_class_input 4 5 (Some 1)] = Inr (s, fs)"
    and to: "map ct_to_state fs = [''stationary'', ''moving'']"
    by (auto simp del: run_facts.simps)
  from to obtain f where f: "f \<in> set fs" "ct_to_state f = ''moving''"
    by (cases fs; cases "tl fs") auto
  from classification_changes_sustained [OF sample_classification_initial run] f show ?thesis by blast
qed

text \<open>
  The decision on an in-order measurement of a classified track, as a table: the classification
  changes exactly when the measurement is evidence of the other side and the run it belongs to (the
  pending one, or the one it starts) has lasted the qualification time; evidence short of that time keeps
  the run; anything else, the hysteresis band included, cancels it.
\<close>

theorem classification_decision:
  assumes "classification_ok s" and "0 \<le> pol_movement_qualification_seconds p"
    and "cs_current_state s \<noteq> ''unknown''"
    and "classification_validate p s i = Inr ()" and "ci_measurement i = Some m"
    and "newer_than (classification_mark s) (classification_pos i)"
  shows "\<exists>s' fs. classification_step L p s i = Inr (s', fs) \<and>
     (let other = opposite (cs_current_state s);
          start = (case cs_qualification_started s of None \<Rightarrow> mm_event_time m | Some q \<Rightarrow> q);
          long = (pol_movement_qualification_seconds p \<le> seconds_between (mm_event_time m) start)
      in cs_current_state s' = (if evidence_for p other m \<and> long then other else cs_current_state s) \<and>
         cs_qualification_started s' = (if evidence_for p other m \<and> \<not> long then Some start else None) \<and>
         (fs \<noteq> []) = (evidence_for p other m \<and> long))"
proof -
  have aw: "aware (mm_event_time m)"
    using classification_validate_Inr [OF assms(4)] assms(5) by simp
  from classify_total [OF assms(1) aw] obtain out where out: "classify L p s m = Inr out" by blast
  have "compare_position (ci_event_time i, ci_frame_id i) (cs_watermark_event_time s)
       (cs_last_applied_frame_id s) = Inr Newer"
    using assms(1,6) by (simp add: compare_position_whole classification_ok_def classification_mark_def
        classification_pos_def)
  from classification_apply_in_order [OF assms(4) this, of L]
  have step: "classification_step L p s i = Inr (classified_state s i out,
      case snd (snd (snd out)) of None \<Rightarrow> [] | Some f \<Rightarrow> [f])"
    by (simp add: classification_step_def classify_input_def assms(5) out)
  have res: "outcome_result L p s m (outcome_of p s m) = Inr out"
    using out by (simp add: classify_outcome [OF assms(1)])
  have zero: "seconds_between t t = 0" for t by (simp add: seconds_between_def)
  show ?thesis
    unfolding step using res assms(2,3) zero
    by (cases "outcome_of p s m")
      (auto simp: outcome_of_def outcome_result_def classified_state_def Let_def split: option.splits if_splits)
qed

theorem classification_decision_witness:
  "\<exists>s' fs. classification_step sample_lib sample_policy
      (sample_classification\<lparr>cs_current_state := ''stationary''\<rparr>) (sample_class_input 1 2 (Some 1)) = Inr (s', fs) \<and>
     cs_current_state s' = ''stationary'' \<and> cs_qualification_started s' = Some (utc_at 1000000) \<and> fs = []"
proof -
  let ?s = "sample_classification\<lparr>cs_current_state := ''stationary''\<rparr>"
    and ?i = "sample_class_input 1 2 (Some 1)"
  have "classification_ok ?s"
    by (simp add: classification_ok_def movement_classification_state_valid_def
        validate_classification_invariants_def sample_classification_def)
  moreover have "cs_current_state ?s \<noteq> ''unknown''" by simp
  moreover have "classification_validate sample_policy ?s ?i = Inr ()"
    by (simp add: classification_eval)
  moreover have "newer_than (classification_mark ?s) (classification_pos ?i)"
    by (simp add: classification_mark_def sample_classification_def)
  ultimately obtain s' fs where st: "classification_step sample_lib sample_policy ?s ?i = Inr (s', fs)"
    and tab: "let other = opposite (cs_current_state ?s);
          start = (case cs_qualification_started ?s of None \<Rightarrow> mm_event_time (sample_measurement 1 1) | Some q \<Rightarrow> q);
          long = (pol_movement_qualification_seconds sample_policy \<le> seconds_between (mm_event_time (sample_measurement 1 1)) start)
      in cs_current_state s' = (if evidence_for sample_policy other (sample_measurement 1 1) \<and> long then other else cs_current_state ?s) \<and>
         cs_qualification_started s' = (if evidence_for sample_policy other (sample_measurement 1 1) \<and> \<not> long then Some start else None) \<and>
         (fs \<noteq> []) = (evidence_for sample_policy other (sample_measurement 1 1) \<and> long)"
    using classification_decision [of ?s sample_policy ?i "sample_measurement 1 1" sample_lib] by auto
  then show ?thesis
    by (intro exI [of _ s'] exI [of _ fs])
      (simp add: sample_classification_def evidence_for_def evidence_of_def seconds_between_def)
qed

text \<open>
  Under an exit threshold of zero, the policy's default, a track once classified as moving is never
  reclassified: no measurement the contract admits is strictly below zero.
\<close>

theorem classification_moving_absorbing:
  assumes "classification_ok s" and "pol_movement_exit_threshold p \<le> 0"
    and "cs_current_state s = ''moving''" and "list_all measured_valid is"
    and "run_facts (classification_step L p) s is = Inr (s', fs)"
  shows "cs_current_state s' = ''moving'' \<and> fs = []"
  using moving_run [OF assms] .

theorem classification_moving_absorbing_witness:
  "pol_movement_exit_threshold default_policy \<le> 0 \<and>
   (\<exists>s fs. run_facts (classification_step sample_lib default_policy)
      (sample_classification\<lparr>cs_current_state := ''moving''\<rparr>)
      [sample_class_input 1 2 (Some 0), sample_class_input 100 3 (Some 0)] = Inr (s, fs) \<and>
      cs_current_state s = ''moving'')"
proof -
  let ?s = "sample_classification\<lparr>cs_current_state := ''moving''\<rparr>"
    and ?is = "[sample_class_input 1 2 (Some 0), sample_class_input 100 3 (Some 0)]"
  have ok: "classification_ok ?s"
    by (simp add: classification_ok_def movement_classification_state_valid_def
        validate_classification_invariants_def sample_classification_def)
  have mv: "cs_current_state ?s = ''moving''" by simp
  have zero: "pol_movement_exit_threshold default_policy \<le> 0" by (simp add: default_policy_def)
  have valid: "list_all measured_valid ?is"
    by (simp add: measured_valid_def movement_measurement_valid_def sample_measurement_def dt_less_def)
  have "\<exists>s fs. run_facts (classification_step sample_lib default_policy) ?s ?is = Inr (s, fs)"
    by (simp add: classification_eval default_policy_def)
  then obtain s fs where run: "run_facts (classification_step sample_lib default_policy) ?s ?is = Inr (s, fs)"
    by blast
  from classification_moving_absorbing [OF ok zero mv valid run] run zero show ?thesis by blast
qed

text \<open>
  On a reachable state a valid input is refused only when it is behind the watermark by more than
  the window: every branch of the classification is one the machine and the fact's contract allow.
\<close>

theorem classification_errors:
  assumes "classification_ok s"
  shows "classification_apply L p s i = Inl e \<longleftrightarrow>
     classification_validate p s i = Inl e \<or>
     (classification_validate p s i = Inr () \<and>
      compare_position (ci_event_time i, ci_frame_id i) (cs_watermark_event_time s)
        (cs_last_applied_frame_id s) = Inr Older \<and>
      (let late = seconds_between (the (cs_watermark_event_time s)) (ci_event_time i)
       in late > pol_reorder_window_seconds p \<and> e = LateEvent late))"
proof (cases "classification_validate p s i")
  case (Inl e')
  then show ?thesis by (auto simp: classification_apply_def)
next
  case (Inr u)
  let ?cmp = "compare_position (ci_event_time i, ci_frame_id i) (cs_watermark_event_time s) (cs_last_applied_frame_id s)"
  have "mark_whole (cs_watermark_event_time s) (cs_last_applied_frame_id s)"
    using assms by (simp add: classification_ok_def)
  then obtain order where order: "?cmp = Inr order"
    by (cases ?cmp) (auto simp: compare_position_total)
  show ?thesis
  proof (cases order)
    case Newer
    have "\<exists>out. classify_input L p s i = Inr out"
      using classify_total [OF assms] Inr classification_validate_Inr [OF Inr]
      by (cases "ci_measurement i") (auto simp: classify_input_def)
    with order Inr Newer show ?thesis
      using classification_apply_in_order [of p s i L] by auto
  next
    case Same
    with order Inr show ?thesis by (auto simp: classification_apply_def Let_def)
  next
    case Older
    with order Inr show ?thesis by (auto simp: classification_apply_def classification_out_of_order_def Let_def)
  qed
qed

theorem classification_errors_witness:
  "classification_apply sample_lib sample_policy sample_classification
     (sample_class_input 0 1 None\<lparr>ci_key := sample_key ''movement_classification'' 8\<rparr>) =
   Inl (InvalidTemporalInput InputKeyMismatch)"
proof -
  have ok: "classification_ok sample_classification"
    using classification_initial_ok [OF sample_classification_initial] by simp
  have "classification_validate sample_policy sample_classification
      (sample_class_input 0 1 None\<lparr>ci_key := sample_key ''movement_classification'' 8\<rparr>) =
      Inl (InvalidTemporalInput InputKeyMismatch)"
    by (simp add: classification_validate_def sample_classification_def sample_key_def)
  then show ?thesis
    by (intro iffD2 [OF classification_errors [OF ok]]) (rule disjI1)
qed

end
