(* ===== verification/Waiting.thy ===== *)
theory Waiting
  imports Classification Config_Contracts
begin

text \<open>
  The waiting engine (\<open>temporal/waiting.py\<close>): a per-track machine over the confirmed presence of
  the presence engine, the stationary signal of the classification engine and the waiting-capable
  contexts of the policy.
\<close>

subsection \<open>The machine\<close>

definition waiting_rules :: "fsm_rule list" where
  "waiting_rules =
    [FsmRule ''not_waiting'' ''candidate_started'' ''waiting_candidate'',
     FsmRule ''not_waiting'' ''stay'' ''not_waiting'',
     FsmRule ''waiting_candidate'' ''waiting_confirmed'' ''waiting'',
     FsmRule ''waiting_candidate'' ''candidate_aborted'' ''not_waiting'',
     FsmRule ''waiting_candidate'' ''stay'' ''waiting_candidate'',
     FsmRule ''waiting'' ''waiting_ended'' ''not_waiting'',
     FsmRule ''waiting'' ''stay'' ''waiting'']"

definition WAITING_FSM :: fsm where
  "WAITING_FSM = \<lparr>fsm_name = ''waiting'', fsm_version = TEMPORAL_ENGINE_VERSION,
     fsm_states = WAITING_STATES, fsm_initial_state = ''not_waiting'',
     fsm_lookup = map (\<lambda>r. ((rule_from r, rule_event r), rule_to r)) waiting_rules\<rparr>"

lemma WAITING_FSM_constructed:
  "make_fsm ''waiting'' TEMPORAL_ENGINE_VERSION WAITING_STATES ''not_waiting'' waiting_rules = Inr WAITING_FSM"
  by (simp add: make_fsm_def WAITING_FSM_def waiting_rules_def WAITING_STATES_def)

interpretation waiting_fsm: legal_fsm WAITING_FSM
  by (rule make_fsm_legal_fsm [OF WAITING_FSM_constructed])

lemma waiting_fsm_simps [simp]:
  "fsm_name WAITING_FSM = ''waiting''" "fsm_version WAITING_FSM = TEMPORAL_ENGINE_VERSION"
  by (simp_all add: WAITING_FSM_def)

lemma waiting_transition [simp]:
  "transition WAITING_FSM ''not_waiting'' ''candidate_started'' = Inr ''waiting_candidate''"
  "transition WAITING_FSM ''waiting_candidate'' ''waiting_confirmed'' = Inr ''waiting''"
  "transition WAITING_FSM ''waiting_candidate'' ''candidate_aborted'' = Inr ''not_waiting''"
  "transition WAITING_FSM ''waiting_candidate'' ''stay'' = Inr ''waiting_candidate''"
  "transition WAITING_FSM ''waiting'' ''waiting_ended'' = Inr ''not_waiting''"
  "transition WAITING_FSM ''waiting'' ''stay'' = Inr ''waiting''"
  "transition WAITING_FSM ''waiting_candidate'' ''candidate_started'' =
     Inl (InvalidTransition ''waiting'' ''waiting_candidate'' ''candidate_started''
       (allowed_events WAITING_FSM ''waiting_candidate''))"
  "transition WAITING_FSM ''waiting'' ''candidate_started'' =
     Inl (InvalidTransition ''waiting'' ''waiting'' ''candidate_started'' (allowed_events WAITING_FSM ''waiting''))"
  by (simp_all add: transition_def WAITING_FSM_def waiting_rules_def)

lemma waiting_states_cases:
  assumes "st \<in> set WAITING_STATES"
  obtains (not_waiting) "st = ''not_waiting''" | (candidate) "st = ''waiting_candidate''" | (waiting) "st = ''waiting''"
  using assms by (auto simp: WAITING_STATES_def)

lemma waiting_states_members [simp]:
  "''not_waiting'' \<in> set WAITING_STATES" "''waiting_candidate'' \<in> set WAITING_STATES"
  "''waiting'' \<in> set WAITING_STATES"
  by (simp_all add: WAITING_STATES_def)

subsection \<open>Inputs and results\<close>

definition presence_lost_kinds :: "string list" where
  "presence_lost_kinds = [''exit_confirmed'', ''missing_expired'', ''session_closed'']"

definition waiting_event_from_presence :: "temporal_transition \<Rightarrow> string" where
  "waiting_event_from_presence tr =
     (if tt_reason tr = ENTER_CONFIRMED then ''enter_confirmed''
      else if tt_reason tr = EXIT_CONFIRMED then ''exit_confirmed''
      else if tt_reason tr = MISSING_EXPIRED then ''missing_expired''
      else if tt_reason tr = SESSION_CLOSED then ''session_closed''
      else ''stay'')"

definition waiting_contexts_from_configuration :: "configuration_version \<Rightarrow> string set" where
  "waiting_contexts_from_configuration version =
     set (map zone_profile_id (filter (\<lambda>z. zone_zone_type z = WAITING_AREA) (cv_zones version))) \<union>
     set (map qa_profile_id (cv_queue_areas version)) \<union>
     set (map sa_profile_id (cv_service_areas version))"

record waiting_input =
  wn_key :: temporal_state_key
  wn_presence_transition :: temporal_transition
  wn_classification_state :: movement_classification_state
  wn_observation_kind :: string
  wn_processing_time :: datetime

record waiting_result =
  wr_state :: waiting_state
  wr_interval :: "waiting_interval option"
  wr_deduplicated :: bool
  wr_reordered :: bool

definition waiting_observation_kinds :: "string list" where
  "waiting_observation_kinds =
     [''enter_confirmed'', ''exit_confirmed'', ''missing_expired'', ''session_closed'', ''stay'']"

definition waiting_initial_state :: "temporal_state_key \<Rightarrow> temporal_error + waiting_state" where
  "waiting_initial_state key =
     (if key_fsm_kind key \<noteq> ''waiting''
      then Inl (InvalidTemporalInput (KeyFsmKindMismatch (key_fsm_kind key)))
      else construct ''WaitingState'' waiting_state_valid
        \<lparr>ws_schema_version = SCHEMA_VERSION, ws_fsm_version = fsm_version WAITING_FSM, ws_key = key,
         ws_current_state = ''not_waiting'', ws_presence_confirmed = False, ws_candidate_start = None,
         ws_waiting_start = None, ws_last_seen = None, ws_watermark_event_time = None,
         ws_last_applied_frame_id = None\<rparr>)"

subsection \<open>Validation\<close>

definition waiting_check_key_matches_transition ::
    "temporal_state_key \<Rightarrow> temporal_state_key \<Rightarrow> temporal_error + unit" where
  "waiting_check_key_matches_transition key transition_key =
     (let mismatches = scope_mismatches key transition_key
      in ensure (mismatches = []) (StateKeyMismatch mismatches))"

definition check_key_matches_classification ::
    "temporal_state_key \<Rightarrow> temporal_state_key \<Rightarrow> temporal_error + unit" where
  "check_key_matches_classification key classification_key =
     (let mismatches = scope_mismatches key classification_key
      in ensure (mismatches = []) (StateKeyMismatch mismatches))"

definition waiting_validate :: "waiting_state \<Rightarrow> waiting_input \<Rightarrow> temporal_error + unit" where
  "waiting_validate st inp =
     (let key = wn_key inp; tr = wn_presence_transition inp; cl = wn_classification_state inp;
          kind = wn_observation_kind inp in
      if key \<noteq> ws_key st then Inl (InvalidTemporalInput InputKeyMismatch)
      else if key_fsm_kind key \<noteq> ''waiting''
      then Inl (InvalidTemporalInput (KeyFsmKindMismatch (key_fsm_kind key)))
      else if ws_fsm_version st \<noteq> fsm_version WAITING_FSM
      then Inl (FsmVersionMismatch (ws_fsm_version st) (fsm_version WAITING_FSM))
      else if key_fsm_kind (tt_key tr) \<noteq> ''presence''
      then Inl (InvalidTemporalInput (FactFsmKindMismatch (key_fsm_kind (tt_key tr))))
      else if key_fsm_kind (cs_key cl) \<noteq> ''movement_classification''
      then Inl (InvalidTemporalInput (FactFsmKindMismatch (key_fsm_kind (cs_key cl))))
      else if cs_current_state cl \<notin> set MOVEMENT_STATES
      then Inl (InvalidTemporalInput (UnknownClassification (cs_current_state cl)))
      else if kind \<notin> set waiting_observation_kinds
      then Inl (InvalidTemporalInput (UnknownObservationKind kind))
      else if waiting_event_from_presence tr \<noteq> kind then Inl (InvalidTemporalInput KindFactMismatch)
      else if \<not> aware (wn_processing_time inp) then Inl (InvalidTemporalInput NaiveProcessingTime)
      else if \<not> aware (tt_event_time tr) then Inl (InvalidTemporalInput NaiveEventTime)
      else rbind (waiting_check_key_matches_transition key (tt_key tr)) (\<lambda>_.
        check_key_matches_classification key (cs_key cl)))"

subsection \<open>Intervals\<close>

definition waiting_interval_identity :: "stdlib \<Rightarrow> temporal_policy \<Rightarrow> temporal_state_key \<Rightarrow> datetime \<Rightarrow>
    datetime option \<Rightarrow> bool \<Rightarrow> temporal_error + string" where
  "waiting_interval_identity L p key waiting_start waiting_end is_open =
     (if is_open then
        Inr (join_str ''|'' [canonical key, ''open'', std_isoformat L waiting_start,
          fsm_version WAITING_FSM, pol_revision p])
      else case waiting_end of
        None \<Rightarrow> Inl (InvalidTemporalInput (MissingField ''waiting_end''))
      | Some e \<Rightarrow> Inr (join_str ''|'' [canonical key, ''closed'', std_isoformat L waiting_start,
          std_isoformat L e, fsm_version WAITING_FSM, pol_revision p]))"

definition waiting_build_closed_interval :: "stdlib \<Rightarrow> temporal_policy \<Rightarrow> temporal_state_key \<Rightarrow>
    datetime option \<Rightarrow> datetime \<Rightarrow> temporal_reason \<Rightarrow> temporal_error + waiting_interval" where
  "waiting_build_closed_interval L p key start_opt waiting_end reason =
     (case start_opt of
        None \<Rightarrow> Inl (InvalidTemporalInput (MissingField ''waiting_start''))
      | Some waiting_start \<Rightarrow>
          let duration = seconds_between waiting_end waiting_start in
          rbind (waiting_interval_identity L p key waiting_start (Some waiting_end) False) (\<lambda>identity.
            construct ''WaitingInterval'' waiting_interval_valid
              \<lparr>wi_schema_version = SCHEMA_VERSION,
               wi_interval_id = std_uuid5 L TEMPORAL_ID_NAMESPACE identity,
               wi_fsm_kind = fsm_name WAITING_FSM, wi_key = key, wi_waiting_start = waiting_start,
               wi_waiting_end = Some waiting_end, wi_last_seen = waiting_end,
               wi_duration_seconds = Some duration,
               wi_qualified = (duration \<ge> pol_waiting_qualification_seconds p),
               wi_minimum_waiting_seconds = pol_waiting_qualification_seconds p,
               wi_reason = Some reason, wi_fsm_version = fsm_version WAITING_FSM,
               wi_policy_revision = pol_revision p\<rparr>))"

definition waiting_open_interval :: "stdlib \<Rightarrow> temporal_policy \<Rightarrow> waiting_state \<Rightarrow>
    temporal_error + waiting_interval option" where
  "waiting_open_interval L p st =
     (if ws_current_state st \<noteq> ''waiting'' then Inr None
      else case ws_waiting_start st of
        None \<Rightarrow> Inl (InvalidTemporalInput (MissingField ''waiting_start''))
      | Some waiting_start \<Rightarrow>
          let last_seen = (case ws_last_seen st of None \<Rightarrow> waiting_start | Some seen \<Rightarrow> seen);
              duration = seconds_between last_seen waiting_start
          in rbind (waiting_interval_identity L p (ws_key st) waiting_start None True) (\<lambda>identity.
            rbind (construct ''WaitingInterval'' waiting_interval_valid
              \<lparr>wi_schema_version = SCHEMA_VERSION,
               wi_interval_id = std_uuid5 L TEMPORAL_ID_NAMESPACE identity,
               wi_fsm_kind = fsm_name WAITING_FSM, wi_key = ws_key st, wi_waiting_start = waiting_start,
               wi_waiting_end = None, wi_last_seen = last_seen,
               wi_duration_seconds = Some duration,
               wi_qualified = (duration \<ge> pol_waiting_qualification_seconds p),
               wi_minimum_waiting_seconds = pol_waiting_qualification_seconds p,
               wi_reason = None, wi_fsm_version = fsm_version WAITING_FSM,
               wi_policy_revision = pol_revision p\<rparr>) (\<lambda>d. Inr (Some d))))"

subsection \<open>Evaluation\<close>

definition context_ok :: "temporal_policy \<Rightarrow> temporal_state_key \<Rightarrow> bool" where
  "context_ok p key = (case key_semantic_context key of
     None \<Rightarrow> False | Some c \<Rightarrow> c \<in> pol_waiting_contexts p)"

text \<open>The next state, candidate start, waiting start, closed interval and confirmed presence.\<close>

type_synonym waiting_outcome =
  "string \<times> datetime option \<times> datetime option \<times> waiting_interval option \<times> bool"

definition lost_reason :: "string \<Rightarrow> temporal_reason" where
  "lost_reason kind = (if kind = ''exit_confirmed'' then EXIT_CONFIRMED
     else if kind = ''missing_expired'' then MISSING_EXPIRED else SESSION_CLOSED)"

text \<open>The end of a confirmed waiting, with its interval.\<close>

definition waiting_end_outcome :: "stdlib \<Rightarrow> temporal_policy \<Rightarrow> waiting_state \<Rightarrow> datetime \<Rightarrow>
    temporal_reason \<Rightarrow> bool \<Rightarrow> temporal_error + waiting_outcome" where
  "waiting_end_outcome L p st event_time reason confirmed =
     rbind (transition WAITING_FSM ''waiting'' ''waiting_ended'') (\<lambda>next_st.
       rbind (waiting_build_closed_interval L p (ws_key st) (ws_waiting_start st) event_time reason)
         (\<lambda>interval. Inr (next_st, None, None, Some interval, confirmed)))"

definition waiting_abort_outcome :: "bool \<Rightarrow> temporal_error + waiting_outcome" where
  "waiting_abort_outcome confirmed =
     rbind (transition WAITING_FSM ''waiting_candidate'' ''candidate_aborted'') (\<lambda>next_st.
       Inr (next_st, None, None, None, confirmed))"

text \<open>The start of a candidate, confirmed at once when no qualification time is configured.\<close>

definition candidate_outcome :: "temporal_policy \<Rightarrow> string \<Rightarrow> datetime \<Rightarrow> bool \<Rightarrow>
    temporal_error + waiting_outcome" where
  "candidate_outcome p current event_time confirmed =
     rbind (transition WAITING_FSM current ''candidate_started'') (\<lambda>next_st.
       if pol_waiting_qualification_seconds p = 0 then
         rbind (transition WAITING_FSM next_st ''waiting_confirmed'') (\<lambda>next_st.
           Inr (next_st, Some event_time, Some event_time, None, confirmed))
       else Inr (next_st, Some event_time, None, None, confirmed))"

definition waiting_evaluate :: "stdlib \<Rightarrow> temporal_policy \<Rightarrow> waiting_state \<Rightarrow> string \<Rightarrow> datetime \<Rightarrow> bool \<Rightarrow>
    temporal_error + waiting_outcome" where
  "waiting_evaluate L p st kind event_time stationary =
     (let current = ws_current_state st;
          confirmed = (if kind = ''enter_confirmed'' then True
            else if kind \<in> set presence_lost_kinds then False else ws_presence_confirmed st) in
      if kind \<in> set presence_lost_kinds then
        if current = ''waiting'' then waiting_end_outcome L p st event_time (lost_reason kind) False
        else if current = ''waiting_candidate'' then waiting_abort_outcome False
        else Inr (current, None, None, None, False)
      else if \<not> stationary then
        if current = ''waiting'' then waiting_end_outcome L p st event_time MOVEMENT_EXCEEDED confirmed
        else if current = ''waiting_candidate'' then waiting_abort_outcome confirmed
        else Inr (current, None, None, None, confirmed)
      else if \<not> confirmed then Inr (current, None, None, None, False)
      else if \<not> context_ok p (ws_key st) then
        if current \<noteq> ''not_waiting'' then Inl (InvalidTemporalInput ContextNotCapable)
        else Inr (current, None, None, None, confirmed)
      else if kind = ''enter_confirmed'' then candidate_outcome p current event_time confirmed
      else if current = ''not_waiting'' then candidate_outcome p ''not_waiting'' event_time confirmed
      else if current = ''waiting_candidate'' then
        (case ws_candidate_start st of
           None \<Rightarrow> Inl (InvalidTemporalInput (MissingField ''candidate_start''))
         | Some started \<Rightarrow>
             if seconds_between event_time started \<ge> pol_waiting_qualification_seconds p then
               rbind (transition WAITING_FSM ''waiting_candidate'' ''waiting_confirmed'') (\<lambda>next_st.
                 Inr (next_st, Some started, Some event_time, None, confirmed))
             else rbind (transition WAITING_FSM ''waiting_candidate'' ''stay'') (\<lambda>next_st.
                 Inr (next_st, Some started, None, None, confirmed)))
      else rbind (transition WAITING_FSM ''waiting'' ''stay'') (\<lambda>next_st.
        Inr (next_st, ws_candidate_start st, ws_waiting_start st, None, confirmed)))"

subsection \<open>Operations\<close>

definition waiting_out_of_order :: "temporal_policy \<Rightarrow> waiting_state \<Rightarrow> datetime \<Rightarrow> datetime \<Rightarrow>
    temporal_error + waiting_result" where
  "waiting_out_of_order p st event_time wm =
     (let delta = seconds_between wm event_time in
      if delta \<le> pol_reorder_window_seconds p then
        (let last_seen = (case ws_last_seen st of
               Some seen \<Rightarrow> if dt_less event_time seen then seen else event_time
             | None \<Rightarrow> event_time)
         in Inr \<lparr>wr_state = st\<lparr>ws_last_seen := Some last_seen\<rparr>, wr_interval = None,
              wr_deduplicated = False, wr_reordered = True\<rparr>)
      else Inl (LateEvent delta))"

definition waiting_apply :: "stdlib \<Rightarrow> temporal_policy \<Rightarrow> waiting_state \<Rightarrow> waiting_input \<Rightarrow>
    temporal_error + waiting_result" where
  "waiting_apply L p st inp =
     rbind (waiting_validate st inp) (\<lambda>_.
       let tr = wn_presence_transition inp; event_time = tt_event_time tr;
           frame_id = tt_observation_frame_id tr in
       rbind (compare_position (event_time, frame_id) (ws_watermark_event_time st)
           (ws_last_applied_frame_id st)) (\<lambda>order.
         case order of
           Same \<Rightarrow> Inr \<lparr>wr_state = st, wr_interval = None, wr_deduplicated = True, wr_reordered = False\<rparr>
         | Older \<Rightarrow> waiting_out_of_order p st event_time (the (ws_watermark_event_time st))
         | Newer \<Rightarrow>
             rbind (waiting_evaluate L p st (wn_observation_kind inp) event_time
                 (cs_current_state (wn_classification_state inp) = ''stationary''))
               (\<lambda>(next_st, candidate_start, waiting_start, interval, confirmed).
                 Inr \<lparr>wr_state = st\<lparr>ws_current_state := next_st, ws_presence_confirmed := confirmed,
                     ws_candidate_start := candidate_start, ws_waiting_start := waiting_start,
                     ws_last_seen := Some event_time, ws_watermark_event_time := Some event_time,
                     ws_last_applied_frame_id := Some frame_id\<rparr>,
                   wr_interval = interval, wr_deduplicated = False, wr_reordered = False\<rparr>)))"

definition waiting_checkpoint :: "temporal_policy \<Rightarrow> waiting_state \<Rightarrow> waiting_state_checkpoint" where
  "waiting_checkpoint p st = make_checkpoint p st"

definition waiting_restore :: "temporal_policy \<Rightarrow> waiting_state_checkpoint \<Rightarrow> temporal_error + waiting_state" where
  "waiting_restore p cp =
     (let st = cp_state cp in
      if cp_engine_version cp \<noteq> TEMPORAL_ENGINE_VERSION
      then Inl (FsmVersionMismatch (cp_engine_version cp) TEMPORAL_ENGINE_VERSION)
      else if cp_policy_revision cp \<noteq> pol_revision p
      then Inl (CheckpointIntegrity (cp_policy_revision cp) (pol_revision p))
      else if ws_fsm_version st \<noteq> fsm_version WAITING_FSM
      then Inl (FsmVersionMismatch (ws_fsm_version st) (fsm_version WAITING_FSM))
      else if key_fsm_kind (ws_key st) \<noteq> ''waiting''
      then Inl (InvalidTemporalInput (CheckpointFsmKindMismatch (key_fsm_kind (ws_key st))))
      else Inr st)"

end
