(* ===== verification/Config_Samples.thy ===== *)
theory Config_Samples
  imports Config_Contracts
begin

text \<open>
  A concrete configuration on which theorems about configurations are exercised: one camera, one queue
  area over the left half of its image and one lobby zone.
\<close>

definition sample_square :: "string \<Rightarrow> real \<Rightarrow> geometry_model" where
  "sample_square ident right = \<lparr>gm_geometry_id = ident, gm_geometry_type = POLYGON,
     gm_coordinate_space = IMAGE_NORMALIZED, gm_geometry_scope = CAMERA,
     gm_coordinates = [[Fin 0, Fin 0], [Fin right, Fin 0], [Fin right, Fin 1], [Fin 0, Fin 1], [Fin 0, Fin 0]],
     gm_reference_camera_profile_id = Some ''cam-1'', gm_reference_width = None, gm_reference_height = None\<rparr>"

lemma sample_square_valid: "ident \<noteq> '''' \<Longrightarrow> 0 \<le> right \<Longrightarrow> right \<le> 1 \<Longrightarrow> geometry_model_valid (sample_square ident right)"
  by (simp add: geometry_model_valid_def sample_square_def validate_coordinates_def
      validate_geometry_consistency_def ring_counts_ok_def take_Cons')

definition sample_zone :: "string \<Rightarrow> zone_type \<Rightarrow> zone" where
  "sample_zone ident kind = \<lparr>zone_profile_id = ident, zone_name = ident, zone_zone_type = kind,
     zone_geometry = sample_square ident 1, zone_labels = [], zone_contained_tables = [],
     zone_contained_entrances = [], zone_contained_queue_areas = [], zone_contained_service_areas = []\<rparr>"

definition sample_queue :: "string \<Rightarrow> queue_area" where
  "sample_queue ident = \<lparr>qa_profile_id = ident, qa_name = ident, qa_geometry = sample_square ident (1 / 2),
     qa_max_queue_length = None, qa_zone_profile_id = None, qa_camera_profiles = [''cam-1'']\<rparr>"

definition sample_configuration :: configuration_version where
  "sample_configuration = \<lparr>cv_configuration_version_id = 5, cv_configuration_id = 6, cv_venue_id = 2,
     cv_tenant_id = 1, cv_version = 1, cv_status = DRAFT, cv_cameras = [],
     cv_zones = [sample_zone ''lobby-1'' LOBBY], cv_tables = [], cv_entrances = [],
     cv_queue_areas = [sample_queue ''queue-1''], cv_service_areas = [], cv_privacy_rois = [],
     cv_exclusion_rois = [], cv_validation_result = None, cv_validated_at = None,
     cv_validated_by = None, cv_published_at = None, cv_published_by = None, cv_replaced_version_id = None,
     cv_created_at = utc_at 0, cv_updated_at = utc_at 0,
     cv_schema_version = SCHEMA_VERSION\<rparr>"

lemma sample_configuration_valid [simp]: "configuration_version_valid sample_configuration"
  by (simp add: configuration_version_valid_def sample_configuration_def validate_profile_ids_unique_iff
      all_profile_ids_def validate_published_immutable_def sample_zone_def sample_queue_def)

end
