(* ===== verification/Waiting_Facts.thy ===== *)
theory Waiting_Facts
  imports Waiting Dwell_Facts Classification_Facts Config_Samples
begin

text \<open>
  What the waiting engine guarantees: a track is reported as waiting only in a declared context, after
  a confirmed entry, and after standing still for the qualification time; every closed interval is a
  span that began with such a confirmation, and the intervals of a track do not overlap; in the wiring
  with the enter/exit engine the machine never rejects an event.
\<close>

subsection \<open>The contract instances\<close>

definition waiting_step :: "stdlib \<Rightarrow> temporal_policy \<Rightarrow> waiting_state \<Rightarrow> waiting_input \<Rightarrow>
    temporal_error + waiting_state \<times> waiting_interval list" where
  "waiting_step L p s i = rbind (waiting_apply L p s i) (\<lambda>r.
     Inr (wr_state r, case wr_interval r of None \<Rightarrow> [] | Some d \<Rightarrow> [d]))"

abbreviation wn_event_time :: "waiting_input \<Rightarrow> datetime" where
  "wn_event_time i \<equiv> tt_event_time (wn_presence_transition i)"

abbreviation wn_frame :: "waiting_input \<Rightarrow> uuid" where
  "wn_frame i \<equiv> tt_observation_frame_id (wn_presence_transition i)"

abbreviation stands_still :: "waiting_input \<Rightarrow> bool" where
  "stands_still i \<equiv> cs_current_state (wn_classification_state i) = ''stationary''"

definition waiting_pos :: "waiting_input \<Rightarrow> int \<times> uuid" where
  "waiting_pos i = position_key (wn_event_time i, wn_frame i)"

definition waiting_mark :: "waiting_state \<Rightarrow> mark" where
  "waiting_mark s = watermark (ws_watermark_event_time s) (ws_last_applied_frame_id s)"

definition waiting_core :: "waiting_state \<Rightarrow> waiting_state" where
  "waiting_core s = s\<lparr>ws_last_seen := None\<rparr>"

definition waiting_ok :: "temporal_policy \<Rightarrow> waiting_state \<Rightarrow> bool" where
  "waiting_ok p s = (waiting_state_valid s \<and> ws_fsm_version s = fsm_version WAITING_FSM \<and>
     mark_whole (ws_watermark_event_time s) (ws_last_applied_frame_id s) \<and>
     time_le (ws_candidate_start s) (ws_watermark_event_time s) \<and>
     time_le (ws_waiting_start s) (ws_watermark_event_time s) \<and>
     (ws_current_state s \<noteq> ''not_waiting'' \<longrightarrow> context_ok p (ws_key s)))"

lemma waiting_core_eq_iff: "waiting_core s = waiting_core t \<longleftrightarrow> (\<exists>v. s = t\<lparr>ws_last_seen := v\<rparr>)"
  by (cases s; cases t) (auto simp: waiting_core_def)

lemma waiting_validate_Inr:
  "waiting_validate s i = Inr u \<Longrightarrow> aware (wn_event_time i) \<and> wn_key i = ws_key s \<and>
     wn_observation_kind i \<in> set waiting_observation_kinds \<and>
     waiting_event_from_presence (wn_presence_transition i) = wn_observation_kind i"
  by (auto simp: waiting_validate_def Let_def split: if_splits)

lemma waiting_initial_ok:
  "waiting_initial_state key = Inr s \<Longrightarrow> waiting_ok p s \<and> ws_current_state s = ''not_waiting'' \<and>
     \<not> ws_presence_confirmed s \<and> waiting_mark s = None \<and> ws_key s = key"
  by (auto simp: waiting_initial_state_def waiting_ok_def waiting_mark_def split: if_splits)

subsection \<open>The outcomes of an evaluation\<close>

datatype waiting_case = Idle | Begin | Keep | Confirm | Abort | Finish temporal_reason

text \<open>Which branch \<open>_evaluate\<close> takes on a reachable state, and the presence it keeps.\<close>

definition presence_after :: "bool \<Rightarrow> string \<Rightarrow> bool" where
  "presence_after confirmed kind = (kind = ''enter_confirmed'' \<or> (kind \<notin> set presence_lost_kinds \<and> confirmed))"

definition waiting_case_of :: "temporal_policy \<Rightarrow> waiting_state \<Rightarrow> string \<Rightarrow> datetime \<Rightarrow> bool \<Rightarrow> waiting_case" where
  "waiting_case_of p s kind t stationary =
     (let c = ws_current_state s in
      if kind \<in> set presence_lost_kinds \<or> \<not> stationary then
        if c = ''waiting'' then
          Finish (if kind \<in> set presence_lost_kinds then lost_reason kind else MOVEMENT_EXCEEDED)
        else if c = ''waiting_candidate'' then Abort else Idle
      else if \<not> presence_after (ws_presence_confirmed s) kind \<or> \<not> context_ok p (ws_key s) then Idle
      else if c = ''not_waiting'' then Begin
      else if c = ''waiting_candidate'' \<and>
        pol_waiting_qualification_seconds p \<le> seconds_between t (the (ws_candidate_start s)) then Confirm
      else Keep)"

definition waiting_case_result :: "stdlib \<Rightarrow> temporal_policy \<Rightarrow> waiting_state \<Rightarrow> datetime \<Rightarrow> bool \<Rightarrow>
    waiting_case \<Rightarrow> temporal_error + waiting_outcome" where
  "waiting_case_result L p s t confirmed c =
     (case c of
        Idle \<Rightarrow> Inr (''not_waiting'', None, None, None, confirmed)
      | Begin \<Rightarrow> if pol_waiting_qualification_seconds p = 0
          then Inr (''waiting'', Some t, Some t, None, confirmed)
          else Inr (''waiting_candidate'', Some t, None, None, confirmed)
      | Keep \<Rightarrow> Inr (ws_current_state s, ws_candidate_start s, ws_waiting_start s, None, confirmed)
      | Confirm \<Rightarrow> Inr (''waiting'', ws_candidate_start s, Some t, None, confirmed)
      | Abort \<Rightarrow> Inr (''not_waiting'', None, None, None, confirmed)
      | Finish reason \<Rightarrow> rbind (waiting_build_closed_interval L p (ws_key s) (ws_waiting_start s) t reason)
          (\<lambda>d. Inr (''not_waiting'', None, None, Some d, confirmed)))"

text \<open>The only event the machine rejects: a second confirmed entry while a candidate or waiting.\<close>

definition entry_rejected :: "temporal_policy \<Rightarrow> waiting_state \<Rightarrow> string \<Rightarrow> bool \<Rightarrow> bool" where
  "entry_rejected p s kind stationary =
     (kind = ''enter_confirmed'' \<and> stationary \<and> ws_current_state s \<noteq> ''not_waiting'')"

lemma lost_kind_cases:
  assumes "kind \<in> set waiting_observation_kinds"
  obtains (enter) "kind = ''enter_confirmed''" | (lost) "kind \<in> set presence_lost_kinds" | (stay) "kind = ''stay''"
  using assms by (auto simp: waiting_observation_kinds_def presence_lost_kinds_def)

lemma lost_kind_simps [simp]:
  "''enter_confirmed'' \<notin> set presence_lost_kinds" "''stay'' \<notin> set presence_lost_kinds"
  by (simp_all add: presence_lost_kinds_def)

lemma waiting_ok_facts:
  assumes "waiting_ok p s"
  shows "ws_current_state s \<in> set WAITING_STATES"
    and "ws_current_state s = ''not_waiting'' \<longleftrightarrow> ws_candidate_start s = None"
    and "ws_current_state s = ''waiting'' \<longleftrightarrow> ws_waiting_start s \<noteq> None"
    and "ws_current_state s \<noteq> ''not_waiting'' \<Longrightarrow> ws_presence_confirmed s \<and> context_ok p (ws_key s)"
proof -
  have inv: "validate_waiting_invariants s" "ws_current_state s \<noteq> ''not_waiting'' \<Longrightarrow> context_ok p (ws_key s)"
    using assms by (simp_all add: waiting_ok_def waiting_state_valid_def)
  show st: "ws_current_state s \<in> set WAITING_STATES"
    using inv(1) by (simp add: validate_waiting_invariants_def split: if_splits)
  from st have "(ws_current_state s = ''not_waiting'' \<longleftrightarrow> ws_candidate_start s = None) \<and>
    (ws_current_state s = ''waiting'' \<longleftrightarrow> ws_waiting_start s \<noteq> None) \<and>
    (ws_current_state s \<noteq> ''not_waiting'' \<longrightarrow> ws_presence_confirmed s \<and> context_ok p (ws_key s))"
  proof (cases rule: waiting_states_cases)
    case not_waiting
    with inv(1) show ?thesis by (simp add: validate_waiting_invariants_def split: if_splits)
  next
    case candidate
    with inv show ?thesis by (simp add: validate_waiting_invariants_def split: if_splits)
  next
    case waiting
    with inv show ?thesis by (simp add: validate_waiting_invariants_def split: if_splits)
  qed
  then show "ws_current_state s = ''not_waiting'' \<longleftrightarrow> ws_candidate_start s = None"
    "ws_current_state s = ''waiting'' \<longleftrightarrow> ws_waiting_start s \<noteq> None"
    "ws_current_state s \<noteq> ''not_waiting'' \<Longrightarrow> ws_presence_confirmed s \<and> context_ok p (ws_key s)"
    by blast+
qed

lemma waiting_evaluate_case:
  assumes ok: "waiting_ok p s" and kind: "kind \<in> set waiting_observation_kinds"
    and legal: "\<not> entry_rejected p s kind stationary"
  shows "waiting_evaluate L p s kind t stationary =
    waiting_case_result L p s t (presence_after (ws_presence_confirmed s) kind) (waiting_case_of p s kind t stationary)"
proof -
  note facts = waiting_ok_facts [OF ok]
  note defs = waiting_evaluate_def waiting_case_of_def waiting_case_result_def waiting_end_outcome_def
    waiting_abort_outcome_def candidate_outcome_def presence_after_def entry_rejected_def
  from kind show ?thesis
  proof (cases rule: lost_kind_cases)
    case enter
    with facts legal show ?thesis
      by (cases rule: waiting_states_cases [OF facts(1)]) (simp_all add: defs Let_def)
  next
    case lost
    with facts have "kind \<noteq> ''enter_confirmed''" by (auto simp: presence_lost_kinds_def)
    with lost facts show ?thesis
      by (cases rule: waiting_states_cases [OF facts(1)]) (simp_all add: defs Let_def)
  next
    case stay
    from facts(1) show ?thesis
    proof (cases rule: waiting_states_cases)
      case candidate
      with facts(2) obtain c where "ws_candidate_start s = Some c" by auto
      with stay candidate facts show ?thesis by (simp add: defs Let_def)
    qed (use stay facts in \<open>simp_all add: defs Let_def\<close>)
  qed
qed

lemma waiting_evaluate_rejected:
  assumes ok: "waiting_ok p s" and rej: "entry_rejected p s kind stationary"
  shows "waiting_evaluate L p s kind t stationary =
    Inl (InvalidTransition ''waiting'' (ws_current_state s) ''candidate_started''
      (allowed_events WAITING_FSM (ws_current_state s)))"
proof -
  note facts = waiting_ok_facts [OF ok]
  from facts(4) rej have "context_ok p (ws_key s)" by (simp add: entry_rejected_def)
  with rej show ?thesis
    by (cases rule: waiting_states_cases [OF facts(1)])
      (simp_all add: waiting_evaluate_def candidate_outcome_def entry_rejected_def Let_def)
qed

subsection \<open>Operations\<close>

definition state_after :: "waiting_state \<Rightarrow> waiting_input \<Rightarrow> waiting_outcome \<Rightarrow> waiting_state" where
  "state_after s i r = (case r of (n, c, w, d, confirmed) \<Rightarrow>
     s\<lparr>ws_current_state := n, ws_presence_confirmed := confirmed, ws_candidate_start := c,
       ws_waiting_start := w, ws_last_seen := Some (wn_event_time i),
       ws_watermark_event_time := Some (wn_event_time i), ws_last_applied_frame_id := Some (wn_frame i)\<rparr>)"

abbreviation interval_of :: "waiting_outcome \<Rightarrow> waiting_interval option" where
  "interval_of r \<equiv> fst (snd (snd (snd r)))"

lemma waiting_apply_in_order:
  assumes "waiting_validate s i = Inr ()"
    and "compare_position (wn_event_time i, wn_frame i) (ws_watermark_event_time s)
       (ws_last_applied_frame_id s) = Inr Newer"
  shows "waiting_apply L p s i =
    rbind (waiting_evaluate L p s (wn_observation_kind i) (wn_event_time i) (stands_still i)) (\<lambda>r.
      Inr \<lparr>wr_state = state_after s i r, wr_interval = interval_of r, wr_deduplicated = False,
        wr_reordered = False\<rparr>)"
proof (cases "waiting_evaluate L p s (wn_observation_kind i) (wn_event_time i) (stands_still i)")
  case (Inl e)
  then show ?thesis using assms by (simp add: waiting_apply_def Let_def)
next
  case (Inr r)
  then show ?thesis using assms by (cases r) (simp add: waiting_apply_def state_after_def Let_def)
qed

lemma waiting_apply_Newer:
  assumes ap: "waiting_apply L p s i = Inr r" and ok: "waiting_ok p s"
    and new: "newer_than (waiting_mark s) (waiting_pos i)"
  obtains out where "waiting_validate s i = Inr ()"
    "waiting_evaluate L p s (wn_observation_kind i) (wn_event_time i) (stands_still i) = Inr out"
    "compare_position (wn_event_time i, wn_frame i) (ws_watermark_event_time s)
       (ws_last_applied_frame_id s) = Inr Newer"
    "wr_state r = state_after s i out" "wr_interval r = interval_of out"
proof -
  have cmp: "compare_position (wn_event_time i, wn_frame i) (ws_watermark_event_time s)
       (ws_last_applied_frame_id s) = Inr Newer"
    using ok new by (simp add: compare_position_whole waiting_ok_def waiting_mark_def waiting_pos_def)
  from ap have val: "waiting_validate s i = Inr ()" by (auto simp: waiting_apply_def)
  from ap have "rbind (waiting_evaluate L p s (wn_observation_kind i) (wn_event_time i) (stands_still i)) (\<lambda>r.
      Inr \<lparr>wr_state = state_after s i r, wr_interval = interval_of r, wr_deduplicated = False,
        wr_reordered = False\<rparr>) = Inr r"
    by (simp only: waiting_apply_in_order [OF val cmp])
  then obtain out where "waiting_evaluate L p s (wn_observation_kind i) (wn_event_time i) (stands_still i) = Inr out"
    and "r = \<lparr>wr_state = state_after s i out, wr_interval = interval_of out, wr_deduplicated = False,
        wr_reordered = False\<rparr>"
    by auto
  with that [OF val _ cmp] show thesis by simp
qed

lemma waiting_apply_not_Newer:
  assumes ap: "waiting_apply L p s i = Inr r" and ok: "waiting_ok p s"
    and new: "\<not> newer_than (waiting_mark s) (waiting_pos i)"
  shows "(wr_state r = s \<or> (\<exists>seen. aware seen \<and> wr_state r = s\<lparr>ws_last_seen := Some seen\<rparr>)) \<and>
      wr_interval r = None"
proof -
  let ?t = "wn_event_time i" and ?f = "wn_frame i"
  have cmp: "compare_position (?t, ?f) (ws_watermark_event_time s) (ws_last_applied_frame_id s) =
      (if waiting_mark s = Some (waiting_pos i) then Inr Same else Inr Older)"
    using ok new by (simp add: compare_position_whole waiting_ok_def waiting_mark_def waiting_pos_def)
  have val: "waiting_validate s i = Inr ()" using ap by (auto simp: waiting_apply_def)
  have aw: "aware ?t" "validate_utc_opt (ws_last_seen s)"
    using waiting_validate_Inr [OF val] ok by (simp_all add: waiting_ok_def waiting_state_valid_def)
  show ?thesis
  proof (cases "waiting_mark s = Some (waiting_pos i)")
    case True
    with ap cmp val show ?thesis by (auto simp: waiting_apply_def Let_def)
  next
    case False
    with ap cmp val have "waiting_out_of_order p s ?t (the (ws_watermark_event_time s)) = Inr r"
      by (auto simp: waiting_apply_def Let_def)
    with aw show ?thesis
      by (cases "ws_last_seen s") (auto simp: waiting_out_of_order_def Let_def split: if_splits)
  qed
qed

lemma waiting_interval_Inr:
  "waiting_build_closed_interval L p key start t reason = Inr d \<longleftrightarrow>
     (\<exists>w. start = Some w \<and> waiting_interval_valid d \<and>
       d = \<lparr>wi_schema_version = SCHEMA_VERSION,
            wi_interval_id = std_uuid5 L TEMPORAL_ID_NAMESPACE (join_str ''|'' [canonical key, ''closed'',
              std_isoformat L w, std_isoformat L t, fsm_version WAITING_FSM, pol_revision p]),
            wi_fsm_kind = ''waiting'', wi_key = key, wi_waiting_start = w, wi_waiting_end = Some t,
            wi_last_seen = t, wi_duration_seconds = Some (seconds_between t w),
            wi_qualified = (seconds_between t w \<ge> pol_waiting_qualification_seconds p),
            wi_minimum_waiting_seconds = pol_waiting_qualification_seconds p, wi_reason = Some reason,
            wi_fsm_version = TEMPORAL_ENGINE_VERSION, wi_policy_revision = pol_revision p\<rparr>)"
  by (auto simp: waiting_build_closed_interval_def waiting_interval_identity_def Let_def split: option.splits)

lemma waiting_case_ok:
  assumes ok: "waiting_ok p s"
    and res: "waiting_case_result L p s (wn_event_time i) (presence_after (ws_presence_confirmed s) kind)
       (waiting_case_of p s kind (wn_event_time i) (stands_still i)) = Inr out"
    and aw: "aware (wn_event_time i)"
    and cmp: "compare_position (wn_event_time i, wn_frame i) (ws_watermark_event_time s)
       (ws_last_applied_frame_id s) = Inr Newer"
  shows "waiting_ok p (state_after s i out)"
proof -
  note facts = waiting_ok_facts [OF ok]
  let ?c = "waiting_case_of p s kind (wn_event_time i) (stands_still i)"
    and ?conf = "presence_after (ws_presence_confirmed s) kind" and ?s = "state_after s i out"
  have wm: "time_le (ws_candidate_start s) (Some (wn_event_time i))" "time_le (ws_waiting_start s) (Some (wn_event_time i))"
    using time_le_trans_newer [OF _ cmp] ok by (simp_all add: waiting_ok_def)
  have base: "validate_schema_version (ws_schema_version s)" "key_fsm_kind (ws_key s) = ''waiting''"
    "ws_fsm_version s = TEMPORAL_ENGINE_VERSION" "validate_utc_opt (ws_candidate_start s)"
    "validate_utc_opt (ws_waiting_start s)"
    using ok by (simp_all add: waiting_ok_def waiting_state_valid_def validate_waiting_invariants_def split: if_splits)
  have ready: "?c \<in> {Begin, Keep, Confirm} \<Longrightarrow> ?conf \<and> context_ok p (ws_key s)"
    by (auto simp: waiting_case_of_def Let_def split: if_splits)
  have keep: "?c = Keep \<Longrightarrow> ws_current_state s \<noteq> ''not_waiting''"
    "?c = Confirm \<Longrightarrow> ws_candidate_start s \<noteq> None"
    using facts(2) by (auto simp: waiting_case_of_def Let_def split: if_splits)
  have inv: "validate_waiting_invariants s"
    using ok by (simp add: waiting_ok_def waiting_state_valid_def)
  have invariants: "validate_waiting_invariants (state_after s i out)"
  proof (cases ?c)
    case Begin
    with res ready base(2) show ?thesis
      by (cases "pol_waiting_qualification_seconds p = 0")
        (auto simp: waiting_case_result_def state_after_def validate_waiting_invariants_def)
  next
    case Keep
    with ready keep(1) facts(4) have "?conf = ws_presence_confirmed s" by simp
    with Keep res have "ws_key ?s = ws_key s" "ws_current_state ?s = ws_current_state s"
      "ws_candidate_start ?s = ws_candidate_start s" "ws_waiting_start ?s = ws_waiting_start s"
      "ws_presence_confirmed ?s = ws_presence_confirmed s"
      by (auto simp: waiting_case_result_def state_after_def)
    with inv show ?thesis unfolding validate_waiting_invariants_def by (simp only:)
  next
    case Confirm
    with res ready keep(2) base(2) show ?thesis
      by (auto simp: waiting_case_result_def state_after_def validate_waiting_invariants_def)
  qed (use res base(2) in \<open>auto simp: waiting_case_result_def state_after_def validate_waiting_invariants_def\<close>)
  have times: "waiting_state_valid (state_after s i out) \<and>
      time_le (ws_candidate_start (state_after s i out)) (Some (wn_event_time i)) \<and>
      time_le (ws_waiting_start (state_after s i out)) (Some (wn_event_time i))"
    using res base aw wm invariants unfolding waiting_state_valid_def
    by (cases ?c) (auto simp: waiting_case_result_def state_after_def split: if_splits)
  have "ws_current_state (state_after s i out) \<noteq> ''not_waiting'' \<Longrightarrow> context_ok p (ws_key s)"
    using res ready by (cases ?c) (auto simp: waiting_case_result_def state_after_def)
  with times base show ?thesis
    unfolding waiting_ok_def by (cases out) (simp add: state_after_def)
qed

lemma waiting_evaluate_Inr:
  assumes ok: "waiting_ok p s" and kind: "kind \<in> set waiting_observation_kinds"
    and ev: "waiting_evaluate L p s kind t stationary = Inr out"
  shows "\<not> entry_rejected p s kind stationary"
    and "waiting_case_result L p s t (presence_after (ws_presence_confirmed s) kind)
       (waiting_case_of p s kind t stationary) = Inr out"
proof -
  show legal: "\<not> entry_rejected p s kind stationary"
    using waiting_evaluate_rejected [OF ok, of kind stationary L t] ev by auto
  show "waiting_case_result L p s t (presence_after (ws_presence_confirmed s) kind)
       (waiting_case_of p s kind t stationary) = Inr out"
    using waiting_evaluate_case [OF ok kind legal] ev by simp
qed

lemma validate_waiting_last_seen [simp]:
  "validate_waiting_invariants (s\<lparr>ws_last_seen := v\<rparr>) = validate_waiting_invariants s"
  by (simp add: validate_waiting_invariants_def cong: if_cong)

lemma waiting_ok_step:
  assumes ok: "waiting_ok p s" and st: "waiting_step L p s i = Inr (s', out)"
  shows "waiting_ok p s'"
proof -
  from st obtain r where ap: "waiting_apply L p s i = Inr r" and s': "s' = wr_state r"
    by (auto simp: waiting_step_def)
  show ?thesis
  proof (cases "newer_than (waiting_mark s) (waiting_pos i)")
    case True
    from waiting_apply_Newer [OF ap ok True] obtain res where
      val: "waiting_validate s i = Inr ()" and cmp: "compare_position (wn_event_time i, wn_frame i)
        (ws_watermark_event_time s) (ws_last_applied_frame_id s) = Inr Newer"
      and ev: "waiting_evaluate L p s (wn_observation_kind i) (wn_event_time i) (stands_still i) = Inr res"
      and r: "wr_state r = state_after s i res"
      by metis
    note v = waiting_validate_Inr [OF val]
    from waiting_case_ok [OF ok waiting_evaluate_Inr(2) [OF ok _ ev] _ cmp] v show ?thesis
      by (simp add: s' r)
  next
    case False
    from waiting_apply_not_Newer [OF ap ok False] consider "s' = s"
      | seen where "aware seen" "s' = s\<lparr>ws_last_seen := Some seen\<rparr>"
      by (auto simp: s')
    then show ?thesis
      using ok by cases (simp_all add: waiting_ok_def waiting_state_valid_def)
  qed
qed

lemma waiting_core_same:
  "waiting_validate (s\<lparr>ws_last_seen := v\<rparr>) i = waiting_validate s i"
  "state_after (s\<lparr>ws_last_seen := v\<rparr>) i r = state_after s i r"
  by (simp_all add: waiting_validate_def state_after_def Let_def split: prod.splits)

lemma waiting_end_core: "waiting_end_outcome L p (s\<lparr>ws_last_seen := v\<rparr>) = waiting_end_outcome L p s"
  by (intro ext) (simp add: waiting_end_outcome_def)

lemma waiting_evaluate_core: "waiting_evaluate L p (s\<lparr>ws_last_seen := v\<rparr>) kind t b = waiting_evaluate L p s kind t b"
  by (simp add: waiting_evaluate_def waiting_end_core Let_def cong: if_cong option.case_cong)

lemma state_after_simps [simp]:
  "ws_watermark_event_time (state_after s i r) = Some (wn_event_time i)"
  "ws_last_applied_frame_id (state_after s i r) = Some (wn_frame i)"
  "ws_key (state_after s i r) = ws_key s" "ws_fsm_version (state_after s i r) = ws_fsm_version s"
  "ws_current_state (state_after s i r) = fst r"
  by (simp_all add: state_after_def split: prod.splits)

lemma waiting_redelivery_step:
  assumes "waiting_validate s i = Inr ()" and "wr_state r = state_after s i out"
  shows "waiting_step L p (wr_state r) i = Inr (wr_state r, [])"
proof -
  have "waiting_validate (wr_state r) i = Inr ()"
    using assms waiting_validate_Inr [OF assms(1)]
    by (simp add: waiting_validate_def Let_def split: if_splits)
  moreover have "compare_position (wn_event_time i, wn_frame i) (ws_watermark_event_time (wr_state r))
      (ws_last_applied_frame_id (wr_state r)) = Inr Same"
    by (simp add: compare_position_Same assms(2))
  ultimately show ?thesis by (simp add: waiting_step_def waiting_apply_def Let_def)
qed

interpretation waiting_order: event_time_engine "waiting_step L p" "waiting_ok p"
    waiting_pos waiting_mark waiting_core for L p
proof
  fix s t i s' os
  assume ok: "waiting_ok p s"
  {
    assume st: "waiting_step L p s i = Inr (s', os)"
    show "waiting_ok p s'" by (rule waiting_ok_step [OF ok st])
    from st obtain r where ap: "waiting_apply L p s i = Inr r" and s': "s' = wr_state r"
      and os: "os = (case wr_interval r of None \<Rightarrow> [] | Some d \<Rightarrow> [d])"
      by (auto simp: waiting_step_def)
    {
      assume new: "newer_than (waiting_mark s) (waiting_pos i)"
      from waiting_apply_Newer [OF ap ok new] obtain out where
        val: "waiting_validate s i = Inr ()" and cmp: "compare_position (wn_event_time i, wn_frame i)
          (ws_watermark_event_time s) (ws_last_applied_frame_id s) = Inr Newer"
        and ev: "waiting_evaluate L p s (wn_observation_kind i) (wn_event_time i) (stands_still i) = Inr out"
        and r: "wr_state r = state_after s i out" and tr: "wr_interval r = interval_of out"
        by metis
      show "waiting_mark s' = Some (waiting_pos i)"
        by (simp add: s' r waiting_mark_def waiting_pos_def position_key_def)
      show "\<exists>os'. waiting_step L p s' i = Inr (s', os')"
        using waiting_redelivery_step [OF val r] by (simp add: s')
      assume "waiting_core s = waiting_core t" and "waiting_ok p t"
      then obtain v where t: "t = s\<lparr>ws_last_seen := v\<rparr>"
        using waiting_core_eq_iff by metis
      have "waiting_apply L p t i = Inr \<lparr>wr_state = state_after s i out, wr_interval = interval_of out,
          wr_deduplicated = False, wr_reordered = False\<rparr>"
        using val cmp ev
        by (subst waiting_apply_in_order) (simp_all add: t waiting_core_same waiting_evaluate_core)
      then show "\<exists>t'. waiting_step L p t i = Inr (t', os) \<and> waiting_core t' = waiting_core s'"
        by (simp add: waiting_step_def os s' r tr)
    }
    assume "\<not> newer_than (waiting_mark s) (waiting_pos i)"
    from waiting_apply_not_Newer [OF ap ok this] s' show "waiting_core s' = waiting_core s"
      by (auto simp: waiting_core_def)
  }
  show "waiting_core s = waiting_core t \<Longrightarrow> waiting_mark s = waiting_mark t"
    by (auto simp: waiting_core_eq_iff waiting_mark_def)
qed

interpretation waiting_restart: restartable_engine "waiting_step L p" "waiting_ok p"
    "waiting_checkpoint p" "waiting_restore p" for L p
proof
  fix s
  assume "waiting_ok p s"
  then show "waiting_restore p (waiting_checkpoint p s) = Inr s"
    by (simp add: waiting_restore_def waiting_checkpoint_def waiting_ok_def waiting_state_valid_def
        validate_waiting_invariants_def split: if_splits)
qed

subsection \<open>What a waiting rests on\<close>

definition confirmed_by :: "waiting_input list \<Rightarrow> bool" where
  "confirmed_by h = foldl presence_after False (map wn_observation_kind h)"

definition undisturbed :: "waiting_input list \<Rightarrow> bool" where
  "undisturbed h = list_all (\<lambda>j. stands_still j \<and> wn_observation_kind j \<notin> set presence_lost_kinds) h"

text \<open>The candidate of a state began at an input of the history and nothing disturbed it since.\<close>

definition waiting_history :: "temporal_policy \<Rightarrow> waiting_state \<Rightarrow> waiting_input list \<Rightarrow> bool" where
  "waiting_history p s h = (ws_presence_confirmed s = confirmed_by h \<and>
     (ws_current_state s \<noteq> ''not_waiting'' \<longrightarrow>
       (\<exists>h1 i h2. h = h1 @ i # h2 \<and> ws_candidate_start s = Some (wn_event_time i) \<and>
          confirmed_by (h1 @ [i]) \<and> undisturbed (i # h2) \<and>
          (\<forall>w. ws_waiting_start s = Some w \<longrightarrow>
             pol_waiting_qualification_seconds p \<le> seconds_between w (wn_event_time i)))))"

lemma confirmed_by_snoc: "confirmed_by (h @ [i]) = presence_after (confirmed_by h) (wn_observation_kind i)"
  by (simp add: confirmed_by_def)

lemma undisturbed_snoc: "undisturbed (h @ [i]) \<longleftrightarrow>
    undisturbed h \<and> stands_still i \<and> wn_observation_kind i \<notin> set presence_lost_kinds"
  by (auto simp: undisturbed_def)

lemma waiting_history_step:
  assumes ok: "waiting_ok p s" and hist: "waiting_history p s h"
    and res: "waiting_case_result L p s (wn_event_time i)
       (presence_after (ws_presence_confirmed s) (wn_observation_kind i))
       (waiting_case_of p s (wn_observation_kind i) (wn_event_time i) (stands_still i)) = Inr out"
  shows "waiting_history p (state_after s i out) (h @ [i])"
proof -
  let ?c = "waiting_case_of p s (wn_observation_kind i) (wn_event_time i) (stands_still i)"
    and ?conf = "presence_after (ws_presence_confirmed s) (wn_observation_kind i)"
  have conf: "?conf = confirmed_by (h @ [i])"
    using hist by (simp add: waiting_history_def confirmed_by_snoc)
  have out: "snd (snd (snd (snd out))) = ?conf"
    using res by (cases ?c) (auto simp: waiting_case_result_def split: if_splits)
  then have first: "ws_presence_confirmed (state_after s i out) = confirmed_by (h @ [i])"
    by (cases out) (simp add: state_after_def conf)
  have still: "?c \<in> {Begin, Keep, Confirm} \<Longrightarrow>
      stands_still i \<and> wn_observation_kind i \<notin> set presence_lost_kinds \<and> ?conf"
    by (auto simp: waiting_case_of_def Let_def split: if_splits)
  have cand: "?c = Confirm \<Longrightarrow> ws_current_state s \<noteq> ''not_waiting'' \<and>
      pol_waiting_qualification_seconds p \<le> seconds_between (wn_event_time i) (the (ws_candidate_start s))"
    "?c = Keep \<Longrightarrow> ws_current_state s \<noteq> ''not_waiting''"
    by (auto simp: waiting_case_of_def Let_def split: if_splits)
  have zero: "seconds_between t t = 0" for t by (simp add: seconds_between_def)
  have goal: "\<exists>h1 j h2. h @ [i] = h1 @ j # h2 \<and> ws_candidate_start (state_after s i out) = Some (wn_event_time j) \<and>
      confirmed_by (h1 @ [j]) \<and> undisturbed (j # h2) \<and> (\<forall>w. ws_waiting_start (state_after s i out) = Some w \<longrightarrow>
        pol_waiting_qualification_seconds p \<le> seconds_between w (wn_event_time j))"
    if "?c \<in> {Begin, Keep, Confirm}"
  proof (cases "?c = Begin")
    case True
    with res have "ws_candidate_start (state_after s i out) = Some (wn_event_time i)"
      "\<forall>w. ws_waiting_start (state_after s i out) = Some w \<longrightarrow>
        pol_waiting_qualification_seconds p \<le> seconds_between w (wn_event_time i)"
      by (auto simp: waiting_case_result_def state_after_def zero split: if_splits)
    moreover have "confirmed_by (h @ [i])" "undisturbed [i]"
      using still [OF that] conf by (simp_all add: undisturbed_def)
    ultimately show ?thesis
      by (intro exI [of _ h] exI [of _ i] exI [of _ "[]"] conjI) simp_all
  next
    case False
    with that cand hist obtain h1 j h2 where h: "h = h1 @ j # h2"
      "ws_candidate_start s = Some (wn_event_time j)" "confirmed_by (h1 @ [j])" "undisturbed (j # h2)"
      "\<forall>w. ws_waiting_start s = Some w \<longrightarrow> pol_waiting_qualification_seconds p \<le> seconds_between w (wn_event_time j)"
      unfolding waiting_history_def by blast
    have "ws_candidate_start (state_after s i out) = Some (wn_event_time j) \<and>
      (\<forall>w. ws_waiting_start (state_after s i out) = Some w \<longrightarrow>
        pol_waiting_qualification_seconds p \<le> seconds_between w (wn_event_time j))"
      using False that res h(2,5) cand(1)
      by (cases ?c) (auto simp: waiting_case_result_def state_after_def)
    moreover have "undisturbed (j # h2 @ [i])"
      using undisturbed_snoc [of "j # h2" i] h(4) still [OF that] by simp
    ultimately show ?thesis
      using h(1,3) by (intro exI [of _ h1] exI [of _ j] exI [of _ "h2 @ [i]"]) simp
  qed
  have "ws_current_state (state_after s i out) \<noteq> ''not_waiting'' \<Longrightarrow> ?c \<in> {Begin, Keep, Confirm}"
    using res by (cases ?c) (auto simp: waiting_case_result_def)
  with first goal show ?thesis unfolding waiting_history_def by blast
qed

lemma waiting_run_history:
  assumes "waiting_ok p s" and "waiting_history p s h" and "run_facts (waiting_step L p) s is = Inr (s', ds)"
  shows "waiting_history p s' (h @ in_order waiting_pos (waiting_mark s) is)"
proof (rule waiting_order.run_history [where R = "waiting_history p", OF _ _ assms])
  fix s i s' ds h
  assume ok: "waiting_ok p s" and new: "newer_than (waiting_mark s) (waiting_pos i)"
    and st: "waiting_step L p s i = Inr (s', ds)" and hist: "waiting_history p s h"
  from st obtain r where ap: "waiting_apply L p s i = Inr r" and s': "s' = wr_state r"
    by (auto simp: waiting_step_def)
  from waiting_apply_Newer [OF ap ok new] obtain out where val: "waiting_validate s i = Inr ()"
    and ev: "waiting_evaluate L p s (wn_observation_kind i) (wn_event_time i) (stands_still i) = Inr out"
    and r: "wr_state r = state_after s i out" by metis
  from waiting_validate_Inr [OF val] waiting_history_step [OF ok hist waiting_evaluate_Inr(2) [OF ok _ ev]]
  show "waiting_history p s' (h @ [i])" by (simp add: s' r)
next
  fix s s' h
  assume "waiting_core s' = waiting_core s" and "waiting_history p s h"
  then obtain v where "s = s'\<lparr>ws_last_seen := v\<rparr>" and "waiting_history p s h"
    using waiting_core_eq_iff [of s s'] by auto
  then show "waiting_history p s' h" by (simp add: waiting_history_def)
qed

subsection \<open>Closed intervals\<close>

text \<open>Nothing before this time can still be reported.\<close>

definition waiting_frontier :: "waiting_state \<Rightarrow> datetime option" where
  "waiting_frontier s = (case ws_waiting_start s of None \<Rightarrow> ws_watermark_event_time s | Some w \<Rightarrow> Some w)"

definition waiting_fact_ok :: "temporal_policy \<Rightarrow> temporal_state_key \<Rightarrow> waiting_interval \<Rightarrow> bool" where
  "waiting_fact_ok p key d = (waiting_interval_valid d \<and> wi_key d = key \<and> context_ok p key \<and>
     (\<exists>e. wi_waiting_end d = Some e \<and> wi_last_seen d = e \<and>
        wi_duration_seconds d = Some (seconds_between e (wi_waiting_start d)) \<and>
        wi_qualified d = (pol_waiting_qualification_seconds p \<le> seconds_between e (wi_waiting_start d))) \<and>
     wi_reason d \<in> {Some EXIT_CONFIRMED, Some MISSING_EXPIRED, Some SESSION_CLOSED, Some MOVEMENT_EXCEEDED})"

lemma dt_less_irrefl [simp]: "\<not> dt_less t t"
  by (simp add: dt_less_def)

lemma waiting_step_frontier:
  assumes ok: "waiting_ok p s" and st: "waiting_step L p s i = Inr (s', ds)"
  shows "time_le (waiting_frontier s) (waiting_frontier s') \<and> ws_key s' = ws_key s \<and>
     (\<forall>d\<in>set ds. ds = [d] \<and> waiting_fact_ok p (ws_key s) d \<and>
        time_le (waiting_frontier s) (Some (wi_waiting_start d)) \<and>
        time_le (wi_waiting_end d) (waiting_frontier s'))"
proof -
  note facts = waiting_ok_facts [OF ok]
  from st obtain r where ap: "waiting_apply L p s i = Inr r" and s': "s' = wr_state r"
    and ds: "ds = (case wr_interval r of None \<Rightarrow> [] | Some d \<Rightarrow> [d])"
    by (auto simp: waiting_step_def)
  show ?thesis
  proof (cases "newer_than (waiting_mark s) (waiting_pos i)")
    case True
    from waiting_apply_Newer [OF ap ok True] obtain out where val: "waiting_validate s i = Inr ()"
      and ev: "waiting_evaluate L p s (wn_observation_kind i) (wn_event_time i) (stands_still i) = Inr out"
      and cmp: "compare_position (wn_event_time i, wn_frame i) (ws_watermark_event_time s)
          (ws_last_applied_frame_id s) = Inr Newer"
      and r: "wr_state r = state_after s i out" and tr: "wr_interval r = interval_of out" by metis
    let ?c = "waiting_case_of p s (wn_observation_kind i) (wn_event_time i) (stands_still i)"
    from waiting_validate_Inr [OF val] waiting_evaluate_Inr(2) [OF ok _ ev] have
      res: "waiting_case_result L p s (wn_event_time i)
        (presence_after (ws_presence_confirmed s) (wn_observation_kind i)) ?c = Inr out" by simp
    have wm: "time_le (ws_waiting_start s) (Some (wn_event_time i))"
      "time_le (ws_watermark_event_time s) (Some (wn_event_time i))"
      using time_le_trans_newer [OF _ cmp] ok by (simp_all add: waiting_ok_def)
    then have fr: "time_le (waiting_frontier s) (Some (wn_event_time i))"
      by (cases "ws_waiting_start s") (simp_all add: waiting_frontier_def)
    show ?thesis
    proof (cases ?c)
      case (Finish reason)
      with res obtain d where d: "waiting_build_closed_interval L p (ws_key s) (ws_waiting_start s)
          (wn_event_time i) reason = Inr d" and out: "out = (''not_waiting'', None, None, Some d,
          presence_after (ws_presence_confirmed s) (wn_observation_kind i))"
        by (auto simp: waiting_case_result_def)
      from Finish have "ws_current_state s = ''waiting''"
        by (auto simp: waiting_case_of_def Let_def split: if_splits)
      with facts(4) have ctx: "context_ok p (ws_key s)" by simp
      from Finish have "reason \<in> {EXIT_CONFIRMED, MISSING_EXPIRED, SESSION_CLOSED, MOVEMENT_EXCEEDED}"
        by (auto simp: waiting_case_of_def Let_def lost_reason_def split: if_splits)
      with d ctx have "waiting_fact_ok p (ws_key s) d"
        by (auto simp: waiting_interval_Inr waiting_fact_ok_def)
      moreover from d have "waiting_frontier s = Some (wi_waiting_start d)" "wi_waiting_end d = Some (wn_event_time i)"
        by (auto simp: waiting_interval_Inr waiting_frontier_def)
      ultimately show ?thesis
        using fr by (simp add: ds tr out s' r waiting_frontier_def state_after_def)
    qed (use res facts wm fr in \<open>auto simp: waiting_case_result_def ds tr s' r waiting_frontier_def
          state_after_def split: option.splits if_splits\<close>)
  next
    case False
    from waiting_apply_not_Newer [OF ap ok False] show ?thesis
      by (auto simp: ds s' waiting_frontier_def split: option.splits)
  qed
qed

definition waited_before :: "waiting_interval \<Rightarrow> waiting_interval \<Rightarrow> bool" where
  "waited_before a b = time_le (wi_waiting_end a) (Some (wi_waiting_start b))"

lemma waiting_run_intervals:
  "waiting_ok p s \<Longrightarrow> run_facts (waiting_step L p) s is = Inr (s', ds) \<Longrightarrow>
     sorted_wrt waited_before ds \<and> ws_key s' = ws_key s \<and>
     (\<forall>d\<in>set ds. waiting_fact_ok p (ws_key s) d \<and> time_le (waiting_frontier s) (Some (wi_waiting_start d)))"
proof (induction "is" arbitrary: s ds)
  case Nil
  then show ?case by simp
next
  case (Cons i "is")
  then obtain s1 d1 d2 where st: "waiting_step L p s i = Inr (s1, d1)"
    and run: "run_facts (waiting_step L p) s1 is = Inr (s', d2)" and ds: "ds = d1 @ d2"
    by (auto simp: run_facts_Cons_Inr simp del: run_facts.simps)
  note fr = waiting_step_frontier [OF Cons.prems(1) st]
  note IH = Cons.IH [OF waiting_ok_step [OF Cons.prems(1) st] run]
  have later: "waited_before a b" if "a \<in> set d1" "b \<in> set d2" for a b
    using fr IH that time_le_trans [of "wi_waiting_end a" "waiting_frontier s1"] by (auto simp: waited_before_def)
  have "sorted_wrt waited_before d1"
    using fr by (cases d1) auto
  with later IH have "sorted_wrt waited_before ds" by (auto simp: ds sorted_wrt_append)
  moreover have "waiting_fact_ok p (ws_key s) d \<and> time_le (waiting_frontier s) (Some (wi_waiting_start d))"
    if "d \<in> set ds" for d
    using that fr IH time_le_trans by (auto simp: ds)
  ultimately show ?case using fr IH by simp
qed

subsection \<open>Errors\<close>

lemma waiting_evaluate_total:
  assumes pol: "temporal_policy_valid p" and ok: "waiting_ok p s"
    and kind: "kind \<in> set waiting_observation_kinds" and aw: "aware t"
    and le: "time_le (ws_watermark_event_time s) (Some t)"
    and legal: "\<not> entry_rejected p s kind stationary"
  shows "\<exists>out. waiting_evaluate L p s kind t stationary = Inr out"
proof (cases "waiting_case_of p s kind t stationary")
  case (Finish reason)
  then have "ws_current_state s = ''waiting''"
    by (auto simp: waiting_case_of_def Let_def split: if_splits)
  with waiting_ok_facts(3) [OF ok] obtain w where w: "ws_waiting_start s = Some w" by auto
  have "time_le (Some w) (Some t)" "aware w"
    using ok w time_le_trans [OF _ le, of "Some w"] by (auto simp: waiting_ok_def waiting_state_valid_def)
  with aw pol have "\<exists>d. waiting_build_closed_interval L p (ws_key s) (Some w) t reason = Inr d"
    by (simp add: waiting_interval_Inr waiting_interval_valid_def seconds_between_nonneg not_less
        temporal_policy_valid_def)
  then show ?thesis
    by (auto simp: waiting_evaluate_case [OF ok kind legal] waiting_case_result_def Finish w)
qed (simp_all add: waiting_evaluate_case [OF ok kind legal] waiting_case_result_def)

subsection \<open>The wiring with the enter/exit engine\<close>

text \<open>
  The presence engine is fed with the observation, and the waiting engine with its fact and the
  classification of the track after the observation.
\<close>

definition presence_waiting_step :: "stdlib \<Rightarrow> temporal_policy \<Rightarrow> temporal_state \<times> waiting_state \<Rightarrow>
    temporal_input \<times> movement_classification_state \<Rightarrow>
    temporal_error + (temporal_state \<times> waiting_state) \<times> waiting_interval list" where
  "presence_waiting_step L p s inp = rbind (presence_apply L p (fst s) (fst inp)) (\<lambda>pr.
     let tr = hd (res_transitions pr) in
     rbind (waiting_step L p (snd s) \<lparr>wn_key = (in_key (fst inp))\<lparr>key_fsm_kind := ''waiting''\<rparr>,
         wn_presence_transition = tr, wn_classification_state = snd inp,
         wn_observation_kind = waiting_event_from_presence tr,
         wn_processing_time = in_processing_time (fst inp)\<rparr>) (\<lambda>(ws, ds). Inr ((res_state pr, ws), ds)))"

definition waiting_lockstep :: "temporal_policy \<Rightarrow> temporal_state \<times> waiting_state \<Rightarrow> bool" where
  "waiting_lockstep p s = (presence_ok p (fst s) \<and> waiting_ok p (snd s) \<and>
     ws_key (snd s) = (ts_key (fst s))\<lparr>key_fsm_kind := ''waiting''\<rparr> \<and>
     ws_watermark_event_time (snd s) = ts_watermark_event_time (fst s) \<and>
     ws_last_applied_frame_id (snd s) = ts_last_applied_frame_id (fst s) \<and>
     ws_presence_confirmed (snd s) = occupied (ts_current_state (fst s)))"

text \<open>The inputs of one track: the keys agree and the classification is one the engine produces.\<close>

definition same_track :: "temporal_state \<Rightarrow> temporal_input \<times> movement_classification_state \<Rightarrow> bool" where
  "same_track ps inp = (in_key (fst inp) = ts_key ps \<and>
     cs_key (snd inp) = (in_key (fst inp))\<lparr>key_fsm_kind := ''movement_classification''\<rparr> \<and>
     cs_current_state (snd inp) \<in> set MOVEMENT_STATES)"

abbreviation lockstep_input :: "temporal_input \<times> movement_classification_state \<Rightarrow> temporal_transition \<Rightarrow> waiting_input" where
  "lockstep_input inp tr \<equiv> \<lparr>wn_key = (in_key (fst inp))\<lparr>key_fsm_kind := ''waiting''\<rparr>,
     wn_presence_transition = tr, wn_classification_state = snd inp,
     wn_observation_kind = waiting_event_from_presence tr, wn_processing_time = in_processing_time (fst inp)\<rparr>"

lemma waiting_compare:
  "waiting_ok p s \<Longrightarrow> compare_position (wn_event_time i, wn_frame i) (ws_watermark_event_time s)
     (ws_last_applied_frame_id s) =
    (if newer_than (waiting_mark s) (waiting_pos i) then Inr Newer
     else if waiting_mark s = Some (waiting_pos i) then Inr Same else Inr Older)"
  by (simp add: compare_position_whole waiting_ok_def waiting_mark_def waiting_pos_def)

lemma waiting_kind_known: "waiting_event_from_presence tr \<in> set waiting_observation_kinds"
  by (simp add: waiting_event_from_presence_def waiting_observation_kinds_def)

lemma waiting_validate_follows:
  assumes "waiting_ok p ws" and "same_track ps inp" and "key_fsm_kind (ts_key ps) = ''presence''"
    and "ws_key ws = (ts_key ps)\<lparr>key_fsm_kind := ''waiting''\<rparr>" and "tt_key tr = in_key (fst inp)"
    and "aware (in_processing_time (fst inp))" and "aware (tt_event_time tr)"
  shows "waiting_validate ws (lockstep_input inp tr) = Inr ()"
  using assms waiting_kind_known [of tr]
  by (simp add: waiting_validate_def waiting_ok_def same_track_def waiting_check_key_matches_transition_def
      check_key_matches_classification_def scope_mismatches_def)

lemma presence_after_trace:
  assumes "presence_trace inside [tt_reason tr] = Some inside'"
  shows "presence_after inside (waiting_event_from_presence tr) = inside'"
    and "waiting_event_from_presence tr = ''enter_confirmed'' \<Longrightarrow> \<not> inside"
  using assms by (cases "tt_reason tr"; simp add: presence_after_def waiting_event_from_presence_def
      presence_lost_kinds_def split: if_splits)+

lemma waiting_case_confirmed:
  "waiting_case_result L p s t confirmed c = Inr out \<Longrightarrow> snd (snd (snd (snd out))) = confirmed"
  by (cases c) (auto simp: waiting_case_result_def split: if_splits)

lemma waiting_lockstep_step:
  assumes pol: "temporal_policy_valid p" and lock: "waiting_lockstep p s" and same: "same_track (fst s) inp"
    and pres: "presence_apply L p (fst s) (fst inp) = Inr pr"
  shows "\<exists>s' ds. presence_waiting_step L p s inp = Inr (s', ds) \<and> fst s' = res_state pr \<and> waiting_lockstep p s'"
proof -
  obtain ps ws where s: "s = (ps, ws)" by (cases s)
  from lock have pok: "presence_ok p ps" and pte: "te_ok (presence_engine p) ps" and wok: "waiting_ok p ws"
    and key: "ws_key ws = (ts_key ps)\<lparr>key_fsm_kind := ''waiting''\<rparr>"
    and wm: "ws_watermark_event_time ws = ts_watermark_event_time ps"
      "ws_last_applied_frame_id ws = ts_last_applied_frame_id ps"
    and conf: "ws_presence_confirmed ws = occupied (ts_current_state ps)"
    by (simp_all add: s waiting_lockstep_def presence_ok_def)
  let ?pos = "observation_position (in_observation (fst inp))"
  from te_apply_fact_provenance [OF pres] obtain tr where tr: "res_transitions pr = [tr]"
    "tt_key tr = in_key (fst inp)" "(tt_event_time tr, tt_observation_frame_id tr) = ?pos"
    "aware (in_processing_time (fst inp))" "aware (tt_event_time tr)"
    by blast
  have pst: "presence_step L p ps (fst inp) = Inr (res_state pr, [tr])"
    using pres tr(1) by (simp add: s te_step_def)
  let ?i = "lockstep_input inp tr" and ?kind = "waiting_event_from_presence tr"
  have val: "waiting_validate ws ?i = Inr ()"
    using wok same key tr(2,4,5) pte
    by (intro waiting_validate_follows) (simp_all add: s te_ok_def)
  note trace = presence_after_trace [OF presence_step_trace [OF pte pst, simplified list.map]]
  have legal: "\<not> entry_rejected p ws ?kind b" for b
    using trace(2) waiting_ok_facts(4) [OF wok] conf by (auto simp: entry_rejected_def)
  have presence: "presence_ok p (res_state pr)"
    by (rule presence_ok_step [OF pol pok pst])
  have mark: "te_mark (res_state pr) = (if newer_than (te_mark ps) (te_pos (fst inp))
      then Some (te_pos (fst inp)) else te_mark ps)"
    using presence_order.newer_mark [OF pte _ pst] presence_order.older_mark [OF pte _ pst] by simp
  have marks: "waiting_mark ws = te_mark ps" "waiting_pos ?i = te_pos (fst inp)"
    using tr(3) by (simp_all add: waiting_mark_def te_mark_def wm waiting_pos_def te_pos_def)
  have cmp: "compare_position (wn_event_time ?i, wn_frame ?i) (ws_watermark_event_time ws)
      (ws_last_applied_frame_id ws) = compare_position ?pos (ts_watermark_event_time ps) (ts_last_applied_frame_id ps)"
    using tr(3) by (simp add: wm)
  show ?thesis
  proof (cases "newer_than (te_mark ps) (te_pos (fst inp))")
    case True
    from te_step_newer [OF pst pte True] obtain pev ptr where
      ps': "res_state pr = te_apply_evaluation (presence_engine p) ps pev ptr (fst ?pos) (snd ?pos)"
      and le: "time_le (ts_watermark_event_time ps) (Some (fst ?pos))" by metis
    have newer: "compare_position (wn_event_time ?i, wn_frame ?i) (ws_watermark_event_time ws)
        (ws_last_applied_frame_id ws) = Inr Newer"
      unfolding waiting_compare [OF wok] marks using True by simp
    have "time_le (ws_watermark_event_time ws) (Some (tt_event_time tr))"
      using le tr(3) by (simp add: wm) (metis fst_conv)
    from waiting_evaluate_total [OF pol wok waiting_kind_known tr(5) this legal] obtain out where
      ev: "waiting_evaluate L p ws ?kind (tt_event_time tr) (stands_still ?i) = Inr out" by blast
    note res = waiting_evaluate_Inr(2) [OF wok waiting_kind_known ev]
    have st: "waiting_step L p ws ?i = Inr (state_after ws ?i out, case interval_of out of None \<Rightarrow> [] | Some d \<Rightarrow> [d])"
      using ev by (simp add: waiting_step_def waiting_apply_in_order [OF val newer])
    have "ws_presence_confirmed (state_after ws ?i out) = presence_after (ws_presence_confirmed ws) ?kind"
      using waiting_case_confirmed [OF res] by (cases out) (simp add: state_after_def)
    moreover have "ws_watermark_event_time (state_after ws ?i out) = ts_watermark_event_time (res_state pr)"
      "ws_last_applied_frame_id (state_after ws ?i out) = ts_last_applied_frame_id (res_state pr)"
      "ts_key (res_state pr) = ts_key ps"
      using tr(3) by (simp_all add: ps' te_apply_evaluation_def) (metis fst_conv snd_conv)+
    ultimately have "waiting_lockstep p (res_state pr, state_after ws ?i out)"
      using presence waiting_ok_step [OF wok st] trace(1) conf key by (simp add: waiting_lockstep_def)
    with pres tr(1) st show ?thesis by (simp add: presence_waiting_step_def s)
  next
    case False
    from te_step_not_newer [OF pst pte False] have core: "te_core (res_state pr) = te_core ps" by metis
    have "\<exists>r. waiting_apply L p ws ?i = Inr r"
    proof (cases "te_mark ps = Some (te_pos (fst inp))")
      case True
      with False have "compare_position (wn_event_time ?i, wn_frame ?i) (ws_watermark_event_time ws)
        (ws_last_applied_frame_id ws) = Inr Same"
        unfolding waiting_compare [OF wok] marks by simp
      with val show ?thesis by (simp add: waiting_apply_def Let_def)
    next
      case older: False
      with False have old: "compare_position (wn_event_time ?i, wn_frame ?i) (ws_watermark_event_time ws)
        (ws_last_applied_frame_id ws) = Inr Older"
        unfolding waiting_compare [OF wok] marks by simp
      from te_apply_Older_window [OF pres [unfolded s fst_conv] old [unfolded cmp]] tr(3)
      have "seconds_between (the (ws_watermark_event_time ws)) (tt_event_time tr) \<le> pol_reorder_window_seconds p"
        by (simp add: wm) (metis fst_conv)
      with val old show ?thesis by (simp add: waiting_apply_def waiting_out_of_order_def Let_def)
    qed
    then obtain r where ap: "waiting_apply L p ws ?i = Inr r" ..
    have notnew: "\<not> newer_than (waiting_mark ws) (waiting_pos ?i)" using False marks by simp
    from waiting_apply_not_Newer [OF ap wok notnew] have st: "waiting_step L p ws ?i = Inr (wr_state r, [])"
      and same': "\<exists>v. wr_state r = ws\<lparr>ws_last_seen := v\<rparr>"
      using ap by (auto simp: waiting_step_def intro: exI [of _ "ws_last_seen ws"])
    from core have "waiting_lockstep p (res_state pr, wr_state r)"
      using presence waiting_ok_step [OF wok st] same' conf key wm
      by (auto simp: waiting_lockstep_def te_core_eq_iff)
    with pres tr(1) st show ?thesis by (simp add: presence_waiting_step_def s)
  qed
qed

lemma scope_mismatches_Nil:
  "scope_mismatches k o' = [] \<Longrightarrow> o' = k\<lparr>key_fsm_kind := key_fsm_kind o'\<rparr>"
  by (cases k; cases o') (simp add: scope_mismatches_def split: if_splits)

text \<open>A step of the wiring that succeeds was about the one track of its states.\<close>

lemma lockstep_same_track:
  assumes lock: "waiting_lockstep p s" and st: "presence_waiting_step L p s inp = Inr (s', ds)"
  shows "same_track (fst s) inp \<and> (\<exists>pr. presence_apply L p (fst s) (fst inp) = Inr pr)"
proof -
  from st obtain pr where pr: "presence_apply L p (fst s) (fst inp) = Inr pr"
    by (auto simp: presence_waiting_step_def)
  from te_apply_fact_provenance [OF pr] obtain tr where tr: "res_transitions pr = [tr]"
    "tt_key tr = in_key (fst inp)" by blast
  with st pr have val: "waiting_validate (snd s) (lockstep_input inp tr) = Inr ()"
    by (auto simp: presence_waiting_step_def waiting_step_def waiting_apply_def)
  have kind: "key_fsm_kind (ts_key (fst s)) = ''presence''"
    using lock by (simp add: waiting_lockstep_def presence_ok_def te_ok_def)
  have "(in_key (fst inp))\<lparr>key_fsm_kind := ''waiting''\<rparr> = (ts_key (fst s))\<lparr>key_fsm_kind := ''waiting''\<rparr>"
    "key_fsm_kind (in_key (fst inp)) = ''presence''"
    using val lock tr(2) by (auto simp: waiting_validate_def waiting_lockstep_def Let_def split: if_splits)
  with kind have key: "in_key (fst inp) = ts_key (fst s)"
    by (cases "in_key (fst inp)"; cases "ts_key (fst s)") simp
  from val have "cs_current_state (snd inp) \<in> set MOVEMENT_STATES"
    "key_fsm_kind (cs_key (snd inp)) = ''movement_classification''"
    "scope_mismatches ((in_key (fst inp))\<lparr>key_fsm_kind := ''waiting''\<rparr>) (cs_key (snd inp)) = []"
    by (auto simp: waiting_validate_def check_key_matches_classification_def Let_def split: if_splits)
  with scope_mismatches_Nil [of "(in_key (fst inp))\<lparr>key_fsm_kind := ''waiting''\<rparr>" "cs_key (snd inp)"] key pr
  show ?thesis by (simp add: same_track_def)
qed

lemma waiting_lockstep_run:
  assumes "temporal_policy_valid p"
  shows "waiting_lockstep p s \<Longrightarrow> run_facts (presence_waiting_step L p) s is = Inr (s', ds) \<Longrightarrow> waiting_lockstep p s'"
proof (rule run_facts_invariant [where P = "waiting_lockstep p" and f = "presence_waiting_step L p"])
  fix s i s' ds
  assume lock: "waiting_lockstep p s" and st: "presence_waiting_step L p s i = Inr (s', ds)"
  from lockstep_same_track [OF lock st] obtain pr where "same_track (fst s) i"
    "presence_apply L p (fst s) (fst i) = Inr pr" by blast
  from waiting_lockstep_step [OF assms lock this] st show "waiting_lockstep p s'" by auto
qed

lemma waiting_lockstep_initial:
  assumes "key_fsm_kind pkey = ''presence''" and "waiting_initial_state (pkey\<lparr>key_fsm_kind := ''waiting''\<rparr>) = Inr ws"
  shows "waiting_lockstep p (presence_initial p pkey, ws)"
  using waiting_initial_ok [OF assms(2), of p] presence_initial_ok [of pkey p] assms
  by (auto simp: waiting_lockstep_def te_initial_state_def occupied_def waiting_initial_state_def split: if_splits)

subsection \<open>Sample data\<close>

definition sample_still :: "uuid \<Rightarrow> string \<Rightarrow> movement_classification_state" where
  "sample_still track st = sample_classification\<lparr>cs_key := sample_key ''movement_classification'' track,
     cs_current_state := st\<rparr>"

definition sample_waiting :: waiting_state where
  "sample_waiting = \<lparr>ws_schema_version = SCHEMA_VERSION, ws_fsm_version = fsm_version WAITING_FSM,
     ws_key = sample_key ''waiting'' 7, ws_current_state = ''not_waiting'', ws_presence_confirmed = False,
     ws_candidate_start = None, ws_waiting_start = None, ws_last_seen = None,
     ws_watermark_event_time = None, ws_last_applied_frame_id = None\<rparr>"

lemma sample_waiting_initial: "waiting_initial_state (sample_key ''waiting'' 7) = Inr sample_waiting"
  by (simp add: waiting_initial_state_def sample_waiting_def construct_def waiting_state_valid_def
      validate_waiting_invariants_def)

definition sample_waiting_input :: "temporal_reason \<Rightarrow> int \<Rightarrow> uuid \<Rightarrow> string \<Rightarrow> waiting_input" where
  "sample_waiting_input reason seconds frame cls = \<lparr>wn_key = sample_key ''waiting'' 7,
     wn_presence_transition = sample_fact 7 reason seconds frame,
     wn_classification_state = sample_still 7 cls,
     wn_observation_kind = waiting_event_from_presence (sample_fact 7 reason seconds frame),
     wn_processing_time = utc_at (seconds * 1000000)\<rparr>"

lemma sample_waiting_input_simps [simp]:
  "wn_key (sample_waiting_input reason seconds frame cls) = sample_key ''waiting'' 7"
  "wn_presence_transition (sample_waiting_input reason seconds frame cls) = sample_fact 7 reason seconds frame"
  "cs_current_state (wn_classification_state (sample_waiting_input reason seconds frame cls)) = cls"
  "cs_key (wn_classification_state (sample_waiting_input reason seconds frame cls)) =
     sample_key ''movement_classification'' 7"
  "wn_observation_kind (sample_waiting_input reason seconds frame cls) =
     waiting_event_from_presence (sample_fact 7 reason seconds frame)"
  "wn_processing_time (sample_waiting_input reason seconds frame cls) = utc_at (seconds * 1000000)"
  by (simp_all add: sample_waiting_input_def sample_still_def)

lemma sample_fact_kind [simp]:
  "waiting_event_from_presence (sample_fact t ENTER_CONFIRMED x f) = ''enter_confirmed''"
  "waiting_event_from_presence (sample_fact t EXIT_CONFIRMED x f) = ''exit_confirmed''"
  "waiting_event_from_presence (sample_fact t OBSERVED_STAY x f) = ''stay''"
  by (simp_all add: waiting_event_from_presence_def)

lemmas waiting_eval =
  waiting_step_def waiting_apply_def waiting_validate_def waiting_observation_kinds_def
  waiting_check_key_matches_transition_def check_key_matches_classification_def scope_mismatches_def
  waiting_evaluate_def candidate_outcome_def waiting_end_outcome_def waiting_abort_outcome_def context_ok_def
  lost_reason_def waiting_build_closed_interval_def waiting_interval_identity_def construct_def
  waiting_interval_valid_def waiting_out_of_order_def compare_position_def dt_eq_def dt_less_def
  seconds_between_def Let_def ensure_def sample_waiting_def presence_lost_kinds_def

abbreviation sample_wait :: "waiting_input list" where
  "sample_wait \<equiv> [sample_waiting_input ENTER_CONFIRMED 1 1 ''moving'',
     sample_waiting_input OBSERVED_STAY 2 2 ''stationary'', sample_waiting_input OBSERVED_STAY 4 3 ''stationary'']"

lemma sample_waiting_run: "\<exists>s. run_facts (waiting_step sample_lib sample_policy) sample_waiting sample_wait = Inr (s, []) \<and>
    ws_current_state s = ''waiting'' \<and> ws_waiting_start s = Some (utc_at 4000000)"
  by (simp add: waiting_eval)

lemma sample_waiting_closed: "\<exists>s d. run_facts (waiting_step sample_lib sample_policy) sample_waiting
    (sample_wait @ [sample_waiting_input EXIT_CONFIRMED 7 4 ''stationary'']) = Inr (s, [d]) \<and>
    wi_duration_seconds d = Some 3 \<and> wi_reason d = Some EXIT_CONFIRMED"
  by (simp add: waiting_eval)

subsection \<open>Properties\<close>

text \<open>
  C4: Waiting is never mere standing still: whenever a run leaves a track waiting (or a candidate), its
  context is one the policy declares, its presence was confirmed, and the in-order inputs since the start
  of the candidate were all stationary and without loss of presence; a waiting track was confirmed no
  earlier than the qualification time after that start.
\<close>

theorem waiting_rests_on_evidence:
  assumes "waiting_initial_state key = Inr s0" and "run_facts (waiting_step L p) s0 is = Inr (s, ds)"
    and "ws_current_state s \<noteq> ''not_waiting''"
  shows "context_ok p key \<and> ws_presence_confirmed s \<and>
     (\<exists>h1 i h2. in_order waiting_pos None is = h1 @ i # h2 \<and> ws_candidate_start s = Some (wn_event_time i) \<and>
        confirmed_by (h1 @ [i]) \<and> undisturbed (i # h2) \<and>
        (\<forall>w. ws_waiting_start s = Some w \<longrightarrow>
           pol_waiting_qualification_seconds p \<le> seconds_between w (wn_event_time i)))"
proof -
  note init = waiting_initial_ok [OF assms(1), of p]
  then have ok: "waiting_ok p s0" and "waiting_history p s0 []"
    by (simp_all add: waiting_history_def confirmed_by_def)
  from waiting_run_history [OF this assms(2)] init assms(3)
    waiting_ok_facts(4) [OF waiting_order.run_ok [OF ok assms(2)] assms(3)]
    waiting_run_intervals [OF ok assms(2)]
  show ?thesis by (simp add: waiting_history_def)
qed

theorem waiting_rests_on_evidence_witness:
  "context_ok sample_policy (sample_key ''waiting'' 7) \<and> (\<exists>h. confirmed_by h \<and> h \<noteq> [])"
proof -
  from sample_waiting_run obtain s where run: "run_facts (waiting_step sample_lib sample_policy) sample_waiting
      sample_wait = Inr (s, [])" and st: "ws_current_state s = ''waiting''"
    by (auto simp del: run_facts.simps)
  from st have "ws_current_state s \<noteq> ''not_waiting''" by simp
  from waiting_rests_on_evidence [OF sample_waiting_initial run this] show ?thesis by blast
qed

text \<open>
  Every interval a run reports satisfies its contract, belongs to the track and to a declared
  context, lasts from the confirmation to the observation that ended it, names a legal reason, and no two
  intervals of the track overlap.
\<close>

theorem waiting_intervals_sound:
  assumes "waiting_initial_state key = Inr s0" and "run_facts (waiting_step L p) s0 is = Inr (s, ds)"
  shows "sorted_wrt waited_before ds \<and> list_all (waiting_fact_ok p key) ds"
  using waiting_run_intervals [OF _ assms(2)] waiting_initial_ok [OF assms(1), of p]
  by (auto simp: list_all_iff)

theorem waiting_intervals_sound_witness:
  "\<exists>d. waiting_fact_ok sample_policy (sample_key ''waiting'' 7) d \<and> wi_duration_seconds d = Some 3"
proof -
  from sample_waiting_closed obtain s d where run: "run_facts (waiting_step sample_lib sample_policy) sample_waiting
    (sample_wait @ [sample_waiting_input EXIT_CONFIRMED 7 4 ''stationary'']) = Inr (s, [d])"
    and d: "wi_duration_seconds d = Some 3"
    by (auto simp del: run_facts.simps append.simps)
  from waiting_intervals_sound [OF sample_waiting_initial run] d show ?thesis by auto
qed

text \<open>
  On a reachable state a valid input fails in two ways only: it is behind the watermark by more than
  the window, or it confirms an entry while the track is a stationary candidate or waiting, which the
  machine rejects.
\<close>

theorem waiting_errors:
  assumes "temporal_policy_valid p" and "waiting_ok p s"
  shows "waiting_apply L p s i = Inl e \<longleftrightarrow>
     waiting_validate s i = Inl e \<or>
     (waiting_validate s i = Inr () \<and>
      (let order = compare_position (wn_event_time i, wn_frame i) (ws_watermark_event_time s)
             (ws_last_applied_frame_id s);
           late = seconds_between (the (ws_watermark_event_time s)) (wn_event_time i)
       in order = Inr Older \<and> late > pol_reorder_window_seconds p \<and> e = LateEvent late \<or>
          order = Inr Newer \<and> wn_observation_kind i = ''enter_confirmed'' \<and> stands_still i \<and>
          ws_current_state s \<noteq> ''not_waiting'' \<and>
          e = InvalidTransition ''waiting'' (ws_current_state s) ''candidate_started''
            (allowed_events WAITING_FSM (ws_current_state s))))"
proof (cases "waiting_validate s i")
  case (Inl e')
  then show ?thesis by (auto simp: waiting_apply_def)
next
  case (Inr u)
  note val = waiting_validate_Inr [OF Inr]
  have inr: "waiting_validate s i = Inr ()" using Inr by simp
  from waiting_compare [OF assms(2), of i] obtain order where
    order: "compare_position (wn_event_time i, wn_frame i) (ws_watermark_event_time s) (ws_last_applied_frame_id s) = Inr order"
    by (auto split: if_splits)
  show ?thesis
  proof (cases order)
    case Newer
    note new = order [unfolded Newer]
    have "time_le (ws_watermark_event_time s) (Some (wn_event_time i))"
      using time_le_trans_newer [OF time_le_refl new] by simp
    note total = waiting_evaluate_total [OF assms _ _ this, of "wn_observation_kind i" "stands_still i" L]
      and rejected = waiting_evaluate_rejected [OF assms(2), of "wn_observation_kind i" "stands_still i" L "wn_event_time i"]
    show ?thesis
    proof (cases "entry_rejected p s (wn_observation_kind i) (stands_still i)")
      case True
      from True rejected [OF True] new inr show ?thesis
        unfolding waiting_apply_in_order [OF inr new] entry_rejected_def by (auto simp: Let_def)
    next
      case False
      with total val obtain out where "waiting_evaluate L p s (wn_observation_kind i) (wn_event_time i) (stands_still i) = Inr out"
        by auto
      with False new inr show ?thesis
        unfolding waiting_apply_in_order [OF inr new] entry_rejected_def by (auto simp: Let_def)
    qed
  next
    case Same
    with order inr show ?thesis by (simp add: waiting_apply_def Let_def)
  next
    case Older
    with order inr show ?thesis by (auto simp: waiting_apply_def waiting_out_of_order_def Let_def)
  qed
qed

theorem waiting_errors_witness:
  "waiting_apply sample_lib sample_policy sample_waiting
     (sample_waiting_input OBSERVED_STAY 1 1 ''stationary''\<lparr>wn_key := sample_key ''waiting'' 8\<rparr>) =
   Inl (InvalidTemporalInput InputKeyMismatch)"
proof -
  have ok: "waiting_ok sample_policy sample_waiting"
    using waiting_initial_ok [OF sample_waiting_initial] by simp
  have "waiting_validate sample_waiting
      (sample_waiting_input OBSERVED_STAY 1 1 ''stationary''\<lparr>wn_key := sample_key ''waiting'' 8\<rparr>) =
      Inl (InvalidTemporalInput InputKeyMismatch)"
    by (simp add: waiting_validate_def sample_waiting_def sample_key_def)
  then show ?thesis
    by (intro iffD2 [OF waiting_errors [OF sample_policy_valid ok]]) (rule disjI1)
qed

text \<open>
  In the wiring with the enter/exit engine the waiting engine accepts whatever the enter/exit engine
  accepts: after any run, if the presence engine accepts the next observation of the track, so does the
  waiting engine, which then agrees with it on the watermark and on the confirmed presence.
\<close>

theorem waiting_follows_presence:
  assumes "temporal_policy_valid p" and "key_fsm_kind pkey = ''presence''"
    and "waiting_initial_state (pkey\<lparr>key_fsm_kind := ''waiting''\<rparr>) = Inr w0"
    and "run_facts (presence_waiting_step L p) (presence_initial p pkey, w0) is = Inr (s, ds)"
    and "same_track (fst s) inp" and "presence_apply L p (fst s) (fst inp) = Inr pr"
  shows "\<exists>w ds'. presence_waiting_step L p s inp = Inr ((res_state pr, w), ds') \<and>
     ws_watermark_event_time w = ts_watermark_event_time (res_state pr) \<and>
     ws_presence_confirmed w = occupied (ts_current_state (res_state pr))"
proof -
  have "waiting_lockstep p s"
    by (rule waiting_lockstep_run [OF assms(1) waiting_lockstep_initial [OF assms(2,3)] assms(4)])
  from waiting_lockstep_step [OF assms(1) this assms(5,6)] obtain s' ds' where
    "presence_waiting_step L p s inp = Inr (s', ds')" "fst s' = res_state pr" "waiting_lockstep p s'" by blast
  then show ?thesis by (cases s') (auto simp: waiting_lockstep_def)
qed

theorem waiting_follows_presence_witness:
  "\<exists>s ds. presence_waiting_step sample_lib sample_policy
     (presence_initial sample_policy (sample_key ''presence'' 7), sample_waiting)
     (sample_input ''presence'' 7 ''present'' 1 1, sample_still 7 ''stationary'') = Inr (s, ds)"
proof -
  let ?s = "(presence_initial sample_policy (sample_key ''presence'' 7), sample_waiting)"
    and ?i = "(sample_input ''presence'' 7 ''present'' 1 1, sample_still 7 ''stationary'')"
  have keys: "(sample_key ''presence'' 7)\<lparr>key_fsm_kind := k\<rparr> = sample_key k 7" for k
    by (simp add: sample_key_def)
  have w0: "waiting_initial_state ((sample_key ''presence'' 7)\<lparr>key_fsm_kind := ''waiting''\<rparr>) = Inr sample_waiting"
    by (simp add: keys sample_waiting_initial)
  have run: "run_facts (presence_waiting_step sample_lib sample_policy) ?s [] = Inr (?s, [])" by simp
  have same: "same_track (fst ?s) ?i"
    by (simp add: same_track_def te_initial_state_def sample_still_def keys)
  have kind: "key_fsm_kind (sample_key ''presence'' 7) = ''presence''" by simp
  have "\<exists>pr. presence_apply sample_lib sample_policy (fst ?s) (fst ?i) = Inr pr"
    by (simp add: te_eval presence_evaluate_defs presence_observation_kinds_def)
  then obtain pr where "presence_apply sample_lib sample_policy (fst ?s) (fst ?i) = Inr pr" ..
  from waiting_follows_presence [OF sample_policy_valid kind w0 run same this] show ?thesis by blast
qed

text \<open>
  The contexts taken from a valid configuration are declared ones only: each is a profile of that
  configuration, and none is a table, an entrance, a camera or a zone of another kind, since the profile
  ids of a version are unique across all categories.
\<close>

theorem waiting_contexts_declared:
  assumes "configuration_version_valid c" and "x \<in> waiting_contexts_from_configuration c"
  shows "x \<in> set (all_profile_ids c) \<and> x \<notin> set (map table_profile_id (cv_tables c)) \<and>
     x \<notin> set (map ent_profile_id (cv_entrances c)) \<and> x \<notin> set (map cam_profile_id (cv_cameras c)) \<and>
     (\<forall>z\<in>set (cv_zones c). zone_profile_id z = x \<longrightarrow> zone_zone_type z = WAITING_AREA)"
proof -
  have d: "distinct (all_profile_ids c)"
    using assms(1) by (simp add: configuration_version_valid_def validate_profile_ids_unique_iff)
  consider (zone) z where "z \<in> set (cv_zones c)" "zone_zone_type z = WAITING_AREA" "x = zone_profile_id z"
    | (other) "x \<in> set (map qa_profile_id (cv_queue_areas c)) \<union> set (map sa_profile_id (cv_service_areas c))"
    using assms(2) by (auto simp: waiting_contexts_from_configuration_def)
  then show ?thesis
  proof cases
    case zone
    have "zone_zone_type z' = WAITING_AREA" if "z' \<in> set (cv_zones c)" "zone_profile_id z' = x" for z'
      using unique_zone [of c z' z] that zone assms(1) by (simp add: configuration_version_valid_def)
    with zone d show ?thesis by (auto simp: all_profile_ids_def)
  next
    case other
    have "x \<notin> set (map zone_profile_id (cv_zones c))"
      using other d unfolding all_profile_ids_def by auto
    then show ?thesis
      using other d unfolding all_profile_ids_def by auto
  qed
qed

theorem waiting_contexts_declared_witness:
  "''queue-1'' \<in> waiting_contexts_from_configuration sample_configuration \<and>
   ''queue-1'' \<in> set (all_profile_ids sample_configuration)"
proof -
  have "''queue-1'' \<in> waiting_contexts_from_configuration sample_configuration"
    by (simp add: waiting_contexts_from_configuration_def sample_configuration_def sample_queue_def)
  with waiting_contexts_declared [OF sample_configuration_valid this] show ?thesis by blast
qed

end
