(* ===== verification/Geometry_Facts.thy ===== *)
theory Geometry_Facts
  imports Geometry
begin

text \<open>
  What the geometry layer guarantees: the segment distance is the least distance to a point of the
  segment, the ray cast agrees with the bounding box of every ring and with the exact rectangle, and
  canonical geometries are fixed points of canonicalisation.
\<close>

subsection \<open>Lengths\<close>

lemma hypot_le_iff: "0 \<le> c \<Longrightarrow> hypot x y \<le> c \<longleftrightarrow> x\<^sup>2 + y\<^sup>2 \<le> c\<^sup>2"
  using real_sqrt_le_iff [of "x\<^sup>2 + y\<^sup>2" "c\<^sup>2"] by (simp add: hypot_def)

lemma hypot_mono: "x\<^sup>2 + y\<^sup>2 \<le> u\<^sup>2 + v\<^sup>2 \<Longrightarrow> hypot x y \<le> hypot u v"
  by (simp add: hypot_def)

lemma hypot_nonneg' [simp]: "0 \<le> hypot x y"
  by (simp add: hypot_def)

lemma hypot_triangle: "hypot (x + u) (y + v) \<le> hypot x y + hypot u v"
  using real_sqrt_sum_squares_triangle_ineq by (simp add: hypot_def)

subsection \<open>The distance to a segment\<close>

text \<open>The point of the segment at parameter \<open>t\<close>, and its distance from \<open>p\<close>.\<close>

definition along :: "point2 \<Rightarrow> point2 \<Rightarrow> real \<Rightarrow> point2" where
  "along a b t = (fst a + t * (fst b - fst a), snd a + t * (snd b - snd a))"

definition dist2 :: "point2 \<Rightarrow> point2 \<Rightarrow> real" where
  "dist2 p q = hypot (fst p - fst q) (snd p - snd q)"

definition length_sq :: "point2 \<Rightarrow> point2 \<Rightarrow> real" where
  "length_sq a b = (fst b - fst a)\<^sup>2 + (snd b - snd a)\<^sup>2"

definition clamp :: "real \<Rightarrow> real" where
  "clamp t = max 0 (min 1 t)"

lemma clamp_range [simp]: "0 \<le> clamp t" "clamp t \<le> 1"
  by (simp_all add: clamp_def)

lemma clamp_nearest: "0 \<le> t \<Longrightarrow> t \<le> 1 \<Longrightarrow> (clamp u - u)\<^sup>2 \<le> (t - u)\<^sup>2"
  by (auto simp: clamp_def max_def min_def abs_if simp flip: abs_le_square_iff)

lemma dist2_along_sq:
  fixes p a b :: point2
  assumes "length_sq a b \<noteq> 0"
  defines "u \<equiv> ((fst p - fst a) * (fst b - fst a) + (snd p - snd a) * (snd b - snd a)) / length_sq a b"
  shows "(fst p - fst (along a b t))\<^sup>2 + (snd p - snd (along a b t))\<^sup>2 =
     (fst p - fst a)\<^sup>2 + (snd p - snd a)\<^sup>2 + length_sq a b * ((t - u)\<^sup>2 - u\<^sup>2)"
proof -
  let ?c = "(fst p - fst a) * (fst b - fst a) + (snd p - snd a) * (snd b - snd a)"
  have "length_sq a b * u = ?c" using assms(1) by (simp add: u_def)
  moreover have "length_sq a b * ((t - u)\<^sup>2 - u\<^sup>2) = length_sq a b * t\<^sup>2 - 2 * t * (length_sq a b * u)"
    by (simp add: power2_eq_square algebra_simps)
  ultimately have "length_sq a b * ((t - u)\<^sup>2 - u\<^sup>2) = length_sq a b * t\<^sup>2 - 2 * t * ?c" by simp
  then show ?thesis by (simp add: along_def length_sq_def power2_eq_square algebra_simps)
qed

lemma distance_code:
  "distance_point_to_segment p a b =
     (if length_sq a b \<le> GEOMETRY_TOLERANCE\<^sup>2 then dist2 p (along a b 0)
      else dist2 p (along a b (clamp (((fst p - fst a) * (fst b - fst a) +
        (snd p - snd a) * (snd b - snd a)) / length_sq a b))))"
  by (simp add: distance_point_to_segment_def length_sq_def dist2_def along_def clamp_def Let_def
      power2_eq_square split: prod.splits)

lemma dist2_along_triangle: "dist2 p (along a b s) \<le> dist2 p (along a b t) + \<bar>t - s\<bar> * sqrt (length_sq a b)"
proof -
  have "dist2 p (along a b s) = hypot ((fst p - fst (along a b t)) + (t - s) * (fst b - fst a))
      ((snd p - snd (along a b t)) + (t - s) * (snd b - snd a))"
    by (simp add: dist2_def along_def algebra_simps)
  also have "\<dots> \<le> dist2 p (along a b t) + hypot ((t - s) * (fst b - fst a)) ((t - s) * (snd b - snd a))"
    by (simp add: dist2_def hypot_triangle)
  also have "hypot ((t - s) * (fst b - fst a)) ((t - s) * (snd b - snd a)) = \<bar>t - s\<bar> * sqrt (length_sq a b)"
    by (simp add: hypot_def length_sq_def power_mult_distrib real_sqrt_mult flip: distrib_left)
  finally show ?thesis by simp
qed

text \<open>On a segment longer than the tolerance the distance is attained and least; on a shorter one it is that of
  the first end point.\<close>

lemma distance_attained: "\<exists>t. 0 \<le> t \<and> t \<le> 1 \<and> distance_point_to_segment p a b = dist2 p (along a b t)"
  unfolding distance_code by (metis clamp_range order_refl zero_le_one)

lemma distance_least:
  assumes "0 \<le> t" "t \<le> 1"
  shows "distance_point_to_segment p a b \<le>
    dist2 p (along a b t) + (if length_sq a b \<le> GEOMETRY_TOLERANCE\<^sup>2 then GEOMETRY_TOLERANCE else 0)"
proof (cases "length_sq a b \<le> GEOMETRY_TOLERANCE\<^sup>2")
  case True
  have "sqrt (length_sq a b) \<le> GEOMETRY_TOLERANCE"
    using True by (intro real_le_lsqrt) (simp_all add: length_sq_def GEOMETRY_TOLERANCE_def)
  then have "\<bar>t - 0\<bar> * sqrt (length_sq a b) \<le> 1 * GEOMETRY_TOLERANCE"
    using assms by (intro mult_mono) (simp_all add: length_sq_def)
  with dist2_along_triangle [of p a b 0 t] True show ?thesis by (simp add: distance_code)
next
  case False
  let ?u = "((fst p - fst a) * (fst b - fst a) + (snd p - snd a) * (snd b - snd a)) / length_sq a b"
  have pos: "0 < length_sq a b"
    using False by (auto simp: not_le intro: le_less_trans [of _ "GEOMETRY_TOLERANCE\<^sup>2"])
  have "dist2 p (along a b (clamp ?u)) \<le> dist2 p (along a b t)"
    unfolding dist2_def
  proof (rule hypot_mono)
    have "length_sq a b * (clamp ?u - ?u)\<^sup>2 \<le> length_sq a b * (t - ?u)\<^sup>2"
      using clamp_nearest [OF assms] pos by (intro mult_left_mono) simp_all
    then show "(fst p - fst (along a b (clamp ?u)))\<^sup>2 + (snd p - snd (along a b (clamp ?u)))\<^sup>2
      \<le> (fst p - fst (along a b t))\<^sup>2 + (snd p - snd (along a b t))\<^sup>2"
      using dist2_along_sq [of a b p] pos by (simp add: right_diff_distrib)
  qed
  with False show ?thesis by (simp add: distance_code)
qed

subsection \<open>Ray casting\<close>

text \<open>The ray cast counts the crossings; the edges that straddle the height of the query are even in number.\<close>

definition straddles :: "point2 \<Rightarrow> point2 \<times> point2 \<Rightarrow> bool" where
  "straddles query e = ((snd (snd e) > snd query) \<noteq> (snd (fst e) > snd query))"

lemma foldl_parity:
  "foldl (\<lambda>inside e. if P e then \<not> inside else inside) b es \<longleftrightarrow> (b \<noteq> odd (length (filter P es)))"
  by (induction es arbitrary: b) auto

lemma ray_cast_parity: "ray_cast query points \<longleftrightarrow> odd (length (filter (ray_crosses query) (with_previous points)))"
  by (simp add: ray_cast_def foldl_parity)

lemma changes_parity:
  "odd (length (filter (\<lambda>e. (f (snd e) :: bool) \<noteq> f (fst e)) (zip (x # xs) (xs @ [y])))) \<longleftrightarrow> f x \<noteq> f y"
proof (induction xs arbitrary: x)
  case Nil
  then show ?case by auto
next
  case (Cons z zs)
  then show ?case by auto
qed

lemma with_previous_Cons: "points = p # ps \<Longrightarrow> with_previous points = zip (last points # butlast points) points"
  by (simp add: with_previous_def)

lemma straddles_even: "even (length (filter (straddles query) (with_previous points)))"
proof (cases points rule: rev_cases)
  case Nil
  then show ?thesis by (simp add: with_previous_def)
next
  case (snoc ps p)
  have "straddles query = (\<lambda>e. ((\<lambda>q. snd q > snd query) (snd e)) \<noteq> ((\<lambda>q. snd q > snd query) (fst e)))"
    by (simp add: straddles_def fun_eq_iff)
  with changes_parity [of "\<lambda>q. snd q > snd query" p ps p] show ?thesis
    by (simp add: with_previous_def snoc)
qed

lemma with_previous_members: "e \<in> set (with_previous points) \<Longrightarrow> fst e \<in> set points \<and> snd e \<in> set points"
proof (cases points rule: rev_cases)
  case (snoc ps p)
  assume e: "e \<in> set (with_previous points)"
  obtain a b where ab: "e = (a, b)" by (cases e)
  from e have "(a, b) \<in> set (zip (p # ps) (ps @ [p]))" by (simp add: with_previous_def snoc ab)
  then have "a \<in> set (p # ps)" "b \<in> set (ps @ [p])"
    using set_zip_leftD set_zip_rightD by metis+
  with ab show ?thesis by (auto simp: snoc)
qed (simp add: with_previous_def)

text \<open>A crossing lies between the end points of its edge.\<close>

lemma crossing_between:
  assumes "straddles query e"
  shows "min (fst (fst e)) (fst (snd e)) \<le> (fst (fst e) - fst (snd e)) * (snd query - snd (snd e)) /
      (snd (fst e) - snd (snd e)) + fst (snd e)"
    and "(fst (fst e) - fst (snd e)) * (snd query - snd (snd e)) / (snd (fst e) - snd (snd e)) + fst (snd e)
      \<le> max (fst (fst e)) (fst (snd e))"
proof -
  obtain xj yj xi yi where e: "e = ((xj, yj), (xi, yi))" by (metis prod.collapse)
  define s where "s = (snd query - yi) / (yj - yi)"
  have s: "0 \<le> s" "s \<le> 1"
    using assms by (auto simp: s_def e straddles_def divide_le_eq zero_le_divide_iff split: if_splits)
  have "(xj - xi) * (snd query - yi) / (yj - yi) + xi = xi + s * (xj - xi)"
    by (simp add: s_def)
  moreover have "min xj xi \<le> xi + s * (xj - xi)" "xi + s * (xj - xi) \<le> max xj xi"
  proof (atomize(full), cases "xi \<le> xj")
    case True
    then have "s * (xj - xi) \<le> 1 * (xj - xi)" "0 \<le> s * (xj - xi)"
      using s by (intro mult_right_mono mult_nonneg_nonneg; simp)+
    with True show "min xj xi \<le> xi + s * (xj - xi) \<and> xi + s * (xj - xi) \<le> max xj xi"
      unfolding min_def max_def mult_1 by (intro conjI; (split if_split)?; linarith)
  next
    case False
    then have "1 * (xj - xi) \<le> s * (xj - xi)" "s * (xj - xi) \<le> 0"
      using s by (intro mult_right_mono_neg mult_nonneg_nonpos; simp)+
    with False show "min xj xi \<le> xi + s * (xj - xi) \<and> xi + s * (xj - xi) \<le> max xj xi"
      unfolding min_def max_def mult_1 by (intro conjI; (split if_split)?; linarith)
  qed
  ultimately show "min (fst (fst e)) (fst (snd e)) \<le> (fst (fst e) - fst (snd e)) * (snd query - snd (snd e)) /
      (snd (fst e) - snd (snd e)) + fst (snd e)"
    "(fst (fst e) - fst (snd e)) * (snd query - snd (snd e)) / (snd (fst e) - snd (snd e)) + fst (snd e)
      \<le> max (fst (fst e)) (fst (snd e))"
    by (simp_all add: e)
qed

lemma ray_crosses_iff: "ray_crosses query e \<longleftrightarrow> straddles query e \<and>
    fst query < (fst (fst e) - fst (snd e)) * (snd query - snd (snd e)) / (snd (fst e) - snd (snd e)) + fst (snd e)"
  by (auto simp: ray_crosses_def straddles_def Let_def split: prod.splits)

lemma ray_cast_box:
  assumes "ray_cast query points"
  shows "(\<exists>p\<in>set points. fst p \<le> fst query) \<and> (\<exists>p\<in>set points. fst query < fst p) \<and>
    (\<exists>p\<in>set points. snd p \<le> snd query) \<and> (\<exists>p\<in>set points. snd query < snd p)"
proof -
  let ?es = "with_previous points"
  have odd: "odd (length (filter (ray_crosses query) ?es))"
    using assms by (simp add: ray_cast_parity)
  then obtain e where e: "e \<in> set ?es" "ray_crosses query e"
    by (metis even_zero filter_empty_conv list.size(3))
  then have str: "straddles query e" and right: "fst query < max (fst (fst e)) (fst (snd e))"
    using crossing_between(2) [of query e] by (auto simp: ray_crosses_iff)
  have mem: "fst e \<in> set points" "snd e \<in> set points"
    using with_previous_members [OF e(1)] by simp_all
  have "\<exists>p\<in>set points. fst p \<le> fst query"
  proof (rule ccontr)
    assume far: "\<not> (\<exists>p\<in>set points. fst p \<le> fst query)"
    have "ray_crosses query e' = straddles query e'" if "e' \<in> set ?es" for e'
    proof -
      have "fst query < min (fst (fst e')) (fst (snd e'))"
        using far with_previous_members [OF that] by auto
      with crossing_between(1) [of query e'] show ?thesis by (auto simp: ray_crosses_iff)
    qed
    then have "filter (ray_crosses query) ?es = filter (straddles query) ?es"
      by (auto intro: filter_cong)
    with odd straddles_even [of query points] show False by simp
  qed
  moreover have "\<exists>p\<in>set points. fst query < fst p"
    using right mem by (auto simp: max_def split: if_splits)
  moreover have "\<exists>p\<in>set points. snd p \<le> snd query" "\<exists>p\<in>set points. snd query < snd p"
    using str mem by (auto simp: straddles_def not_le not_less)
  ultimately show ?thesis by blast
qed

subsection \<open>Rectangles\<close>

definition rectangle :: "real \<Rightarrow> real \<Rightarrow> real \<Rightarrow> real \<Rightarrow> point2 list" where
  "rectangle x0 y0 x1 y1 = [(x0, y0), (x1, y0), (x1, y1), (x0, y1), (x0, y0)]"

lemma ray_cast_rectangle:
  assumes "x0 < x1" "y0 < y1"
  shows "ray_cast (x, y) (rectangle x0 y0 x1 y1) \<longleftrightarrow> x0 \<le> x \<and> x < x1 \<and> y0 \<le> y \<and> y < y1"
  using assms by (auto simp: ray_cast_parity rectangle_def with_previous_def ray_crosses_iff straddles_def)

lemma on_segment_distance: "0 \<le> t \<Longrightarrow> t \<le> 1 \<Longrightarrow> p = along a b t \<Longrightarrow> GEOMETRY_TOLERANCE \<le> tol \<Longrightarrow>
    distance_point_to_segment p a b \<le> tol"
  using distance_least [of t p a b] by (auto simp: dist2_def hypot_def GEOMETRY_TOLERANCE_def split: if_splits)

subsection \<open>The properties\<close>

text \<open>The distance to a segment is the distance to a point of the segment, and no point of the segment is
  nearer; for a segment no longer than the tolerance the code measures to the first end point instead,
  which is off by at most the tolerance.\<close>

theorem segment_distance_is_least:
  assumes "0 \<le> t" "t \<le> 1"
  shows "distance_point_to_segment p a b \<le>
      dist2 p (along a b t) + (if length_sq a b \<le> GEOMETRY_TOLERANCE\<^sup>2 then GEOMETRY_TOLERANCE else 0) \<and>
    (\<exists>s. 0 \<le> s \<and> s \<le> 1 \<and> distance_point_to_segment p a b = dist2 p (along a b s))"
  using distance_least [OF assms] distance_attained by blast

theorem segment_distance_is_least_witness:
  "distance_point_to_segment (1, 1) (0, 0) (2, 0) \<le> dist2 (1, 1) (along (0, 0) (2, 0) (1 / 4)) + 0"
  using segment_distance_is_least [of "1 / 4" "(1, 1)" "(0, 0)" "(2, 0)"]
  by (simp add: length_sq_def GEOMETRY_TOLERANCE_def power2_eq_square)

lemma mapM_require_finite:
  "mapM (require_finite e) rg = Inr points \<Longrightarrow> rg = map (\<lambda>(x, y). (Fin x, Fin y)) points"
proof (induction rg arbitrary: points)
  case (Cons p rg)
  then show ?case
    by (cases p rule: finite_point.cases) (auto simp: require_finite_def)
qed simp

lemma validate_polygon_ring_points:
  "validate_polygon_ring rg tol = Inr points \<Longrightarrow> rg = map (\<lambda>(x, y). (Fin x, Fin y)) points"
  by (auto simp: validate_polygon_ring_def dest: mapM_require_finite split: if_splits)

lemma require_finite_eq: "require_finite e p = Inr q \<longleftrightarrow> p = (Fin (fst q), Fin (snd q))"
  by (cases p rule: finite_point.cases) (auto simp: require_finite_def)

definition near_edge :: "real \<Rightarrow> point2 \<Rightarrow> point2 list \<Rightarrow> bool" where
  "near_edge tol query points = list_ex (\<lambda>(a, b). distance_point_to_segment query a b \<le> tol) (edges points)"

lemma classify_eq_Inr:
  "classify_point_in_polygon point rg tol = Inr loc \<longleftrightarrow>
     (\<exists>query points. point = (Fin (fst query), Fin (snd query)) \<and> validate_polygon_ring rg tol = Inr points \<and>
       loc = (if near_edge tol query points then PL_BOUNDARY
              else if ray_cast query points then PL_INSIDE else PL_OUTSIDE))"
  unfolding classify_point_in_polygon_def near_edge_def rbind_eq_Inr require_finite_eq
  by (intro ex_cong1 iffI conjI; elim exE conjE; auto split: if_splits)

text \<open>A point classified \<open>INSIDE\<close> is further than the tolerance from every edge of the ring and lies
  within the ring's bounding box: some vertex is at or left of it, one right of it, one at or below it
  and one above it.\<close>

theorem inside_within_bounding_box:
  assumes "classify_point_in_polygon point rg tol = Inr PL_INSIDE"
  shows "\<exists>query points. point = (Fin (fst query), Fin (snd query)) \<and>
    rg = map (\<lambda>(x, y). (Fin x, Fin y)) points \<and>
    list_all (\<lambda>(a, b). tol < distance_point_to_segment query a b) (edges points) \<and>
    list_ex (\<lambda>p. fst p \<le> fst query) points \<and> list_ex (\<lambda>p. fst query < fst p) points \<and>
    list_ex (\<lambda>p. snd p \<le> snd query) points \<and> list_ex (\<lambda>p. snd query < snd p) points"
proof -
  from assms obtain query points where p: "point = (Fin (fst query), Fin (snd query))"
    and v: "validate_polygon_ring rg tol = Inr points"
    and loc: "PL_INSIDE = (if near_edge tol query points then PL_BOUNDARY
              else if ray_cast query points then PL_INSIDE else PL_OUTSIDE)"
    unfolding classify_eq_Inr by blast
  from loc have "\<not> near_edge tol query points" and cast: "ray_cast query points"
    by (simp_all split: if_splits)
  then have "list_all (\<lambda>(a, b). tol < distance_point_to_segment query a b) (edges points)"
    by (auto simp: near_edge_def list_ex_iff list_all_iff not_le)
  with p validate_polygon_ring_points [OF v] ray_cast_box [OF cast] show ?thesis
    unfolding list_ex_iff by blast
qed

subsection \<open>The exact rectangle\<close>

definition float_ring :: "point2 list \<Rightarrow> (pyfloat \<times> pyfloat) list" where
  "float_ring points = map (\<lambda>(x, y). (Fin x, Fin y)) points"

lemma mapM_float_ring: "mapM (require_finite e) (float_ring points) = Inr points"
  by (induction points) (auto simp: float_ring_def require_finite_def)

lemma length_float_ring [simp]: "length (float_ring points) = length points"
  by (simp add: float_ring_def)

lemma hypot_ge: "\<bar>x\<bar> \<le> hypot x y" "\<bar>y\<bar> \<le> hypot x y"
  by (simp_all add: hypot_def)

lemma hypot_gt: "c < \<bar>x\<bar> \<or> c < \<bar>y\<bar> \<Longrightarrow> c < hypot x y"
  using hypot_ge [of x y] hypot_ge [of y x] by linarith

lemma rectangle_area: "ring_area (rectangle x0 y0 x1 y1) = (x1 - x0) * (y1 - y0)"
  by (simp add: ring_area_def edges_def rectangle_def field_simps)

lemma validate_rectangle:
  assumes "0 \<le> tol" "tol < x1 - x0" "tol < y1 - y0" "tol < (x1 - x0) * (y1 - y0)"
  shows "validate_polygon_ring (float_ring (rectangle x0 y0 x1 y1)) tol = Inr (rectangle x0 y0 x1 y1)"
proof -
  have "length (distinct_points tol [] (rectangle x0 y0 x1 y1)) \<ge> 3"
    using assms by (simp add: rectangle_def hypot_gt)
  moreover have "\<not> \<bar>ring_area (rectangle x0 y0 x1 y1)\<bar> \<le> tol"
    using assms(4) by (simp add: rectangle_area)
  moreover have "length (float_ring (rectangle x0 y0 x1 y1)) = 5" by (simp add: rectangle_def)
  ultimately show ?thesis
    by (simp add: validate_polygon_ring_def mapM_float_ring)
qed

lemma far_from_segment:
  assumes "\<And>t. 0 \<le> t \<Longrightarrow> t \<le> 1 \<Longrightarrow> c < dist2 p (along a b t)"
  shows "c < distance_point_to_segment p a b"
  using assms distance_attained [of p a b] by auto

lemma near_segment:
  assumes "0 \<le> t" "t \<le> 1" "dist2 p (along a b t) \<le> c" "GEOMETRY_TOLERANCE\<^sup>2 < length_sq a b"
  shows "distance_point_to_segment p a b \<le> c"
  using distance_least [OF assms(1,2), of p a b] assms(3,4) by simp

lemma near_horizontal:
  assumes "GEOMETRY_TOLERANCE < \<bar>b - a\<bar>" "min a b \<le> x" "x \<le> max a b" "\<bar>y - k\<bar> \<le> c"
  shows "distance_point_to_segment (x, y) (a, k) (b, k) \<le> c"
proof (rule near_segment [of "(x - a) / (b - a)"])
  have ne: "b - a \<noteq> 0" using assms(1) by (auto simp: GEOMETRY_TOLERANCE_def)
  show "0 \<le> (x - a) / (b - a)" "(x - a) / (b - a) \<le> 1"
    using assms(2,3) ne by (auto simp: min_def max_def divide_le_eq zero_le_divide_iff split: if_splits)
  show "dist2 (x, y) (along (a, k) (b, k) ((x - a) / (b - a))) \<le> c"
    using ne assms(4) by (simp add: dist2_def along_def hypot_def)
  have "GEOMETRY_TOLERANCE\<^sup>2 < \<bar>b - a\<bar>\<^sup>2"
    using assms(1) by (intro power_strict_mono) (simp_all add: GEOMETRY_TOLERANCE_def)
  then show "GEOMETRY_TOLERANCE\<^sup>2 < length_sq (a, k) (b, k)" by (simp add: length_sq_def)
qed

lemma near_vertical:
  assumes "GEOMETRY_TOLERANCE < \<bar>b - a\<bar>" "min a b \<le> y" "y \<le> max a b" "\<bar>x - k\<bar> \<le> c"
  shows "distance_point_to_segment (x, y) (k, a) (k, b) \<le> c"
proof (rule near_segment [of "(y - a) / (b - a)"])
  have ne: "b - a \<noteq> 0" using assms(1) by (auto simp: GEOMETRY_TOLERANCE_def)
  show "0 \<le> (y - a) / (b - a)" "(y - a) / (b - a) \<le> 1"
    using assms(2,3) ne by (auto simp: min_def max_def divide_le_eq zero_le_divide_iff split: if_splits)
  show "dist2 (x, y) (along (k, a) (k, b) ((y - a) / (b - a))) \<le> c"
    using ne assms(4) by (simp add: dist2_def along_def hypot_def)
  have "GEOMETRY_TOLERANCE\<^sup>2 < \<bar>b - a\<bar>\<^sup>2"
    using assms(1) by (intro power_strict_mono) (simp_all add: GEOMETRY_TOLERANCE_def)
  then show "GEOMETRY_TOLERANCE\<^sup>2 < length_sq (k, a) (k, b)" by (simp add: length_sq_def)
qed

lemma near_rectangle_iff:
  assumes "GEOMETRY_TOLERANCE \<le> tol" "tol < x1 - x0" "tol < y1 - y0"
    and inside: "x0 \<le> x" "x \<le> x1" "y0 \<le> y" "y \<le> y1"
  shows "near_edge tol (x, y) (rectangle x0 y0 x1 y1) \<longleftrightarrow>
    x \<le> x0 + tol \<or> x1 - tol \<le> x \<or> y \<le> y0 + tol \<or> y1 - tol \<le> y"
proof
  assume near: "near_edge tol (x, y) (rectangle x0 y0 x1 y1)"
  show "x \<le> x0 + tol \<or> x1 - tol \<le> x \<or> y \<le> y0 + tol \<or> y1 - tol \<le> y"
  proof (rule ccontr)
    assume "\<not> ?thesis"
    then have d: "tol < x - x0" "tol < x1 - x" "tol < y - y0" "tol < y1 - y" by auto
    have "tol < distance_point_to_segment (x, y) a b" if "(a, b) \<in> set (edges (rectangle x0 y0 x1 y1))" for a b
    proof (rule far_from_segment)
      fix t :: real assume "0 \<le> t" "t \<le> 1"
      from that consider "fst a = fst b" "fst a \<in> {x0, x1}" | "snd a = snd b" "snd a \<in> {y0, y1}"
        by (auto simp: rectangle_def edges_def)
      then show "tol < dist2 (x, y) (along a b t)"
        unfolding dist2_def along_def using d by cases (auto intro!: hypot_gt)
    qed
    with near show False by (force simp: near_edge_def list_ex_iff)
  qed
next
  have "x \<le> x0 + tol \<Longrightarrow> distance_point_to_segment (x, y) (x0, y1) (x0, y0) \<le> tol"
    "x1 - tol \<le> x \<Longrightarrow> distance_point_to_segment (x, y) (x1, y0) (x1, y1) \<le> tol"
    "y \<le> y0 + tol \<Longrightarrow> distance_point_to_segment (x, y) (x0, y0) (x1, y0) \<le> tol"
    "y1 - tol \<le> y \<Longrightarrow> distance_point_to_segment (x, y) (x1, y1) (x0, y1) \<le> tol"
    using assms by (auto intro!: near_vertical near_horizontal)
  moreover assume "x \<le> x0 + tol \<or> x1 - tol \<le> x \<or> y \<le> y0 + tol \<or> y1 - tol \<le> y"
  ultimately show "near_edge tol (x, y) (rectangle x0 y0 x1 y1)"
    by (auto simp: near_edge_def edges_def rectangle_def)
qed

lemma rectangle_inside_iff:
  assumes "GEOMETRY_TOLERANCE \<le> tol" "tol < x1 - x0" "tol < y1 - y0" "tol < (x1 - x0) * (y1 - y0)"
  shows "classify_point_in_polygon (Fin x, Fin y) (float_ring (rectangle x0 y0 x1 y1)) tol = Inr PL_INSIDE \<longleftrightarrow>
    x0 + tol < x \<and> x < x1 - tol \<and> y0 + tol < y \<and> y < y1 - tol"
proof -
  have tol: "0 \<le> tol" using assms(1) by (simp add: GEOMETRY_TOLERANCE_def)
  have "classify_point_in_polygon (Fin x, Fin y) (float_ring (rectangle x0 y0 x1 y1)) tol = Inr PL_INSIDE \<longleftrightarrow>
      \<not> near_edge tol (x, y) (rectangle x0 y0 x1 y1) \<and> ray_cast (x, y) (rectangle x0 y0 x1 y1)"
    using validate_rectangle [OF tol assms(2-4)] by (auto simp: classify_eq_Inr)
  moreover have "ray_cast (x, y) (rectangle x0 y0 x1 y1) \<longleftrightarrow> x0 \<le> x \<and> x < x1 \<and> y0 \<le> y \<and> y < y1"
    using assms(2,3) tol by (intro ray_cast_rectangle) linarith+
  ultimately show ?thesis
    using near_rectangle_iff [OF assms(1-3), of x y] tol by auto
qed

text \<open>On an axis-parallel rectangle whose sides and area exceed the tolerance, a point is classified
  \<open>INSIDE\<close> exactly when it is further than the tolerance inside all four sides, whatever the tolerance
  from \<open>GEOMETRY_TOLERANCE\<close> up.\<close>

theorem rectangle_classification:
  assumes "GEOMETRY_TOLERANCE \<le> tol" "tol < x1 - x0" "tol < y1 - y0" "tol < (x1 - x0) * (y1 - y0)"
  shows "classify_point_in_polygon (Fin x, Fin y) (float_ring (rectangle x0 y0 x1 y1)) tol = Inr PL_INSIDE \<longleftrightarrow>
    x0 + tol < x \<and> x < x1 - tol \<and> y0 + tol < y \<and> y < y1 - tol"
  using assms by (rule rectangle_inside_iff)

theorem rectangle_classification_witness:
  "classify_point_in_polygon (Fin 5, Fin 5) (float_ring (rectangle 0 0 10 10)) GEOMETRY_TOLERANCE = Inr PL_INSIDE"
  using rectangle_classification [of GEOMETRY_TOLERANCE 10 0 10 0 5 5] by (simp add: GEOMETRY_TOLERANCE_def)

theorem inside_within_bounding_box_witness:
  "\<exists>query points. (Fin 5, Fin 5) = (Fin (fst query), Fin (snd query)) \<and>
    float_ring (rectangle 0 0 10 10) = map (\<lambda>(x, y). (Fin x, Fin y)) points \<and>
    list_ex (\<lambda>p. fst query < fst p) points"
  using inside_within_bounding_box [of "(Fin 5, Fin 5)" "float_ring (rectangle 0 0 10 10)" GEOMETRY_TOLERANCE]
    rectangle_inside_iff [of GEOMETRY_TOLERANCE 10 0 10 0 5 5] by (auto simp: GEOMETRY_TOLERANCE_def)

subsection \<open>Canonical geometries\<close>

lemma round_half_even_near: "\<bar>of_int (round_half_even y) - y\<bar> \<le> 1 / 2"
proof -
  have "0 \<le> y - of_int \<lfloor>y\<rfloor>" "y - of_int \<lfloor>y\<rfloor> < 1" by linarith+
  then show ?thesis unfolding round_half_even_def Let_def by (auto simp: abs_le_iff)
qed

definition float_near :: "real \<Rightarrow> pyfloat \<Rightarrow> pyfloat \<Rightarrow> bool" where
  "float_near c x y = (case (float_value x, float_value y) of (Some a, Some b) \<Rightarrow> \<bar>b - a\<bar> \<le> c | _ \<Rightarrow> False)"

lemma py_round_near: "isfinite x \<Longrightarrow> float_near (1 / (2 * 10 ^ p)) x (py_round x p)"
proof (cases x)
  case (Fin r)
  have "\<bar>(of_int (round_half_even (r * 10 ^ p)) - r * 10 ^ p) / 10 ^ p\<bar> \<le> (1 / 2) / 10 ^ p"
    using divide_right_mono [OF round_half_even_near [of "r * 10 ^ p"], of "10 ^ p"] by (simp add: abs_divide)
  then show ?thesis using Fin by (simp add: float_near_def diff_divide_distrib)
qed simp_all

lemma canonicalize_closed:
  assumes fin: "validate_coordinates (gm_coordinates g)" and c: "canonicalize g = Inr h"
    and polygon: "gm_geometry_type g = POLYGON"
  shows "ring_closed (hd (gm_coordinates h)) (last (gm_coordinates h)) = Inr True"
proof -
  define coords where "coords = map (map (\<lambda>c. py_round c (PRECISION (gm_coordinate_space g)))) (gm_coordinates g)"
  from fin have ne: "coords \<noteq> []" and all_fin: "list_all isfinite (hd coords)"
    by (auto simp: validate_coordinates_def coords_def list_all_iff hd_map)
  from c polygon obtain closed where cl: "ring_closed (hd coords) (last coords) = Inr closed"
    and h: "gm_coordinates h = (if closed then coords else coords @ [hd coords])"
    by (auto simp: canonicalize_def coords_def Let_def)
  with ne all_fin show ?thesis by (cases closed) (simp_all add: ring_closed_refl)
qed

lemma canonicalize_near:
  assumes fin: "validate_coordinates (gm_coordinates g)" and c: "canonicalize g = Inr h"
  shows "list_all2 (list_all2 (float_near (1 / (2 * 10 ^ PRECISION (gm_coordinate_space g)))))
    (gm_coordinates g) (take (length (gm_coordinates g)) (gm_coordinates h))"
proof -
  let ?p = "PRECISION (gm_coordinate_space g)"
  define coords where "coords = map (map (\<lambda>c. py_round c ?p)) (gm_coordinates g)"
  have take: "take (length (gm_coordinates g)) (gm_coordinates h) = coords"
    using c by (auto simp: canonicalize_def coords_def Let_def split: if_splits)
  have "list_all2 (list_all2 (float_near (1 / (2 * 10 ^ ?p)))) (gm_coordinates g) coords"
    using fin unfolding coords_def validate_coordinates_def
    by (auto simp: list_all2_map2 list.rel_map list_all_iff intro!: list.rel_refl_strong py_round_near)
  with take show ?thesis by simp
qed

text \<open>A canonical geometry is a fixed point of canonicalisation; canonicalising moves no coordinate by more
  than half a unit of the declared precision, keeps the order of the points, and leaves every polygon
  closed.\<close>

theorem canonical_form:
  assumes "validate_coordinates (gm_coordinates g)" "canonicalize g = Inr h"
  shows "canonicalize h = Inr h \<and>
    list_all2 (list_all2 (float_near (1 / (2 * 10 ^ PRECISION (gm_coordinate_space g)))))
      (gm_coordinates g) (take (length (gm_coordinates g)) (gm_coordinates h)) \<and>
    (gm_geometry_type g = POLYGON \<longrightarrow>
      ring_closed (hd (gm_coordinates h)) (last (gm_coordinates h)) = Inr True)"
  using canonicalize_idem canonicalize_near canonicalize_closed assms by blast

definition sample_open_ring :: geometry_model where
  "sample_open_ring = \<lparr>gm_geometry_id = ''open'', gm_geometry_type = POLYGON,
     gm_coordinate_space = VENUE_LOCAL, gm_geometry_scope = VENUE,
     gm_coordinates = [[Fin 0, Fin 0], [Fin 4, Fin 0], [Fin 4, Fin 3], [Fin 0, Fin 3]],
     gm_reference_camera_profile_id = None, gm_reference_width = None, gm_reference_height = None\<rparr>"

lemma py_round_int: "py_round (Fin (of_int z)) p = Fin (of_int z)"
proof -
  have "of_int z * (10::real) ^ p = of_int (z * 10 ^ p)" by simp
  then show ?thesis unfolding py_round.simps by (simp only: round_half_even_of_int) simp
qed

lemmas py_round_values [simp] = py_round_int [of 0, simplified] py_round_int [of 1, simplified]
  py_round_int [of "numeral n" for n, simplified]

theorem canonical_form_witness:
  "canonicalize (sample_open_ring\<lparr>gm_coordinates := gm_coordinates sample_open_ring @ [[Fin 0, Fin 0]]\<rparr>) =
     Inr (sample_open_ring\<lparr>gm_coordinates := gm_coordinates sample_open_ring @ [[Fin 0, Fin 0]]\<rparr>)"
proof -
  have "canonicalize sample_open_ring =
      Inr (sample_open_ring\<lparr>gm_coordinates := gm_coordinates sample_open_ring @ [[Fin 0, Fin 0]]\<rparr>)"
    by (simp add: canonicalize_def sample_open_ring_def CLOSURE_EPSILON_def)
  moreover have "validate_coordinates (gm_coordinates sample_open_ring)"
    by (simp add: validate_coordinates_def sample_open_ring_def)
  ultimately show ?thesis using canonical_form by blast
qed

end
