(* ===== verification/Spatial_Engine.thy ===== *)
theory Spatial_Engine
  imports Geometry
begin

text \<open>
  The spatial interpretation engine (\<open>intelligence/spatial/engine.py\<close>): one spatial point of a track is
  classified against the privacy and exclusion regions, the zones and the tables of the pinned
  configuration version. The exceptions are an error type; the messages are dropped.
\<close>

datatype spatial_error =
    InvalidSpatialInput
  | ConfigurationNotPublished
  | CameraNotInConfiguration
  | ReferenceIntegrity
  | BoundaryPolicyUndefined
  | VenuePointRequired
  | TransitionScope
  | TransitionOrder
  | LineNotApplicable
  | SpatialInvalidLine
  | SpatialRawError

subsection \<open>Inputs and results\<close>

record spatial_evaluation_input =
  si_configuration :: configuration_version
  si_track :: track_observation
  si_camera_id :: uuid
  si_point :: spatial_point
  si_zone_priority :: "string list"
  si_table_priority :: "string list"

text \<open>A membership is the profile id with the outcome of the geometry layer.\<close>

type_synonym membership = "string \<times> point_location"

record spatial_evaluation_result =
  sr_observation :: spatial_observation
  sr_zone_memberships :: "membership list"
  sr_table_memberships :: "membership list"
  sr_matched_exclusion_roi :: "string option"
  sr_matched_privacy_roi :: "string option"
  sr_matched_zone_contained_tables :: "string list"

subsection \<open>Reference resolution\<close>

definition resolve_camera :: "configuration_version \<Rightarrow> uuid \<Rightarrow> spatial_error + camera_profile" where
  "resolve_camera c cam = (case find (\<lambda>k. cam_camera_id k = cam) (cv_cameras c) of
     None \<Rightarrow> Inl CameraNotInConfiguration | Some k \<Rightarrow> Inr k)"

text \<open>The dict comprehension \<open>{x.profile_id: x for x in xs}\<close>: a later item replaces an earlier one.\<close>

definition by_id :: "('a \<Rightarrow> string) \<Rightarrow> 'a list \<Rightarrow> string \<rightharpoonup> 'a" where
  "by_id ident xs = map_of (rev (map (\<lambda>x. (ident x, x)) xs))"

definition venue_polygon :: "geometry_model \<Rightarrow> bool" where
  "venue_polygon g = (gm_geometry_type g = POLYGON \<and> gm_coordinate_space g = VENUE_LOCAL)"

definition assert_zone_contract :: "zone \<Rightarrow> spatial_error + unit" where
  "assert_zone_contract z = ensure (venue_polygon (zone_geometry z)) ReferenceIntegrity"

definition assert_roi_contract :: "geometry_model \<Rightarrow> spatial_error + unit" where
  "assert_roi_contract g = ensure (gm_geometry_type g = POLYGON \<and>
     gm_coordinate_space g \<in> {IMAGE_NORMALIZED, VENUE_LOCAL}) ReferenceIntegrity"

definition assert_table_contract :: "table \<Rightarrow> spatial_error + unit" where
  "assert_table_contract t = ensure (venue_polygon (table_geometry t)) ReferenceIntegrity"

text \<open>The loop shared by the three camera-declared sets: sorted ids, lookup, contract.\<close>

definition declared :: "(string \<rightharpoonup> 'a) \<Rightarrow> ('a \<Rightarrow> spatial_error + unit) \<Rightarrow> string list \<Rightarrow>
    spatial_error + 'a list" where
  "declared lookup contract ids = mapM (\<lambda>pid. case lookup pid of
       None \<Rightarrow> Inl ReferenceIntegrity
     | Some x \<Rightarrow> rbind (contract x) (\<lambda>_. Inr x)) (sort ids)"

definition camera_declared_zones :: "configuration_version \<Rightarrow> camera_profile \<Rightarrow> spatial_error + zone list" where
  "camera_declared_zones c camera =
     declared (by_id zone_profile_id (cv_zones c)) assert_zone_contract (cam_detection_zones camera)"

definition camera_declared_privacy_rois ::
    "configuration_version \<Rightarrow> camera_profile \<Rightarrow> spatial_error + privacy_roi list" where
  "camera_declared_privacy_rois c camera =
     declared (by_id priv_profile_id (cv_privacy_rois c)) (\<lambda>r. assert_roi_contract (priv_geometry r))
       (cam_privacy_rois camera)"

definition camera_declared_exclusion_rois ::
    "configuration_version \<Rightarrow> camera_profile \<Rightarrow> spatial_error + exclusion_roi list" where
  "camera_declared_exclusion_rois c camera =
     declared (by_id excl_profile_id (cv_exclusion_rois c)) (\<lambda>r. assert_roi_contract (excl_geometry r))
       (cam_exclusion_rois camera)"

definition validate_zone_priority :: "string list \<Rightarrow> camera_profile \<Rightarrow> spatial_error + unit" where
  "validate_zone_priority priority camera =
     (if priority = [] then Inr ()
      else if \<not> distinct priority then Inl InvalidSpatialInput
      else ensure (set priority \<subseteq> set (cam_detection_zones camera)) ReferenceIntegrity)"

definition version_tables :: "configuration_version \<Rightarrow> spatial_error + table list" where
  "version_tables c = (let tables = sort_key table_profile_id (cv_tables c) in
     rbind (mapM assert_table_contract tables) (\<lambda>_. Inr tables))"

definition validate_table_priority :: "string list \<Rightarrow> configuration_version \<Rightarrow> spatial_error + unit" where
  "validate_table_priority priority c =
     (if priority = [] then Inr ()
      else if \<not> distinct priority then Inl InvalidSpatialInput
      else ensure (set priority \<subseteq> set (map table_profile_id (cv_tables c))) ReferenceIntegrity)"

definition validate_contained_tables_references :: "configuration_version \<Rightarrow> spatial_error + unit" where
  "validate_contained_tables_references c =
     ensure (list_all (\<lambda>z. set (zone_contained_tables z) \<subseteq> set (map table_profile_id (cv_tables c)))
       (cv_zones c)) ReferenceIntegrity"

definition matched_contained_tables :: "configuration_version \<Rightarrow> string option \<Rightarrow> spatial_error + string list" where
  "matched_contained_tables c zone_id =
     (case zone_id of
        None \<Rightarrow> Inr []
      | Some pid \<Rightarrow> (case find (\<lambda>z. zone_profile_id z = pid) (cv_zones c) of
            None \<Rightarrow> Inl ReferenceIntegrity
          | Some z \<Rightarrow> Inr (sort (zone_contained_tables z))))"

subsection \<open>Classification\<close>

text \<open>Only \<open>GeometryError\<close>s are wrapped; another exception of the geometry layer escapes.\<close>

fun wrap_geometry :: "spatial_error \<Rightarrow> geometry_error + 'a \<Rightarrow> spatial_error + 'a" where
  "wrap_geometry e (Inl RawError) = Inl SpatialRawError"
| "wrap_geometry e (Inl _) = Inl e"
| "wrap_geometry e (Inr x) = Inr x"

definition classify_spatial :: "spatial_point \<Rightarrow> geometry_model \<Rightarrow> spatial_error + point_location" where
  "classify_spatial point g = wrap_geometry ReferenceIntegrity
     (rbind (validate_polygon g) (\<lambda>rg.
        classify_point_in_polygon (sp_x point, sp_y point) rg GEOMETRY_TOLERANCE))"

text \<open>A classification that may not be a boundary.\<close>

definition classify_strict :: "spatial_point \<Rightarrow> geometry_model \<Rightarrow> spatial_error + point_location" where
  "classify_strict point g = rbind (classify_spatial point g) (\<lambda>location.
     if location = PL_BOUNDARY then Inl BoundaryPolicyUndefined else Inr location)"

fun evaluate_roi_pass :: "spatial_point \<Rightarrow> (string \<times> geometry_model) list \<Rightarrow> spatial_error + string option" where
  "evaluate_roi_pass point [] = Inr None"
| "evaluate_roi_pass point ((pid, g) # rois) =
     (if gm_coordinate_space g \<noteq> sp_coordinate_space point then evaluate_roi_pass point rois
      else rbind (classify_strict point g) (\<lambda>location.
        if location = PL_INSIDE then Inr (Some pid) else evaluate_roi_pass point rois))"

definition memberships :: "spatial_point \<Rightarrow> (string \<times> geometry_model) list \<Rightarrow> spatial_error + membership list" where
  "memberships point items = mapM (\<lambda>(pid, g). rbind (classify_strict point g) (\<lambda>location. Inr (pid, location))) items"

definition matched_ids :: "membership list \<Rightarrow> string list" where
  "matched_ids ms = map fst (filter (\<lambda>m. snd m = PL_INSIDE) ms)"

definition evaluate_zone_membership :: "spatial_point \<Rightarrow> zone list \<Rightarrow> string list \<Rightarrow>
    spatial_error + spatial_status \<times> string option \<times> membership list" where
  "evaluate_zone_membership point zones priority =
     rbind (memberships point (map (\<lambda>z. (zone_profile_id z, zone_geometry z)) zones)) (\<lambda>ms.
       let matched = matched_ids ms in
       if length matched = 1 then Inr (INSIDE, Some (hd matched), ms)
       else if length matched > 1 then
         (case find (\<lambda>pid. pid \<in> set matched) priority of
            Some primary \<Rightarrow> Inr (INSIDE, Some primary, ms)
          | None \<Rightarrow> Inr (AMBIGUOUS, None, ms))
       else Inr (OUTSIDE, None, ms))"

definition evaluate_table_membership :: "spatial_point \<Rightarrow> table list \<Rightarrow> string list \<Rightarrow>
    spatial_error + string option \<times> membership list \<times> bool" where
  "evaluate_table_membership point tables priority =
     rbind (memberships point (map (\<lambda>t. (table_profile_id t, table_geometry t)) tables)) (\<lambda>ms.
       let matched = matched_ids ms in
       if length matched > 1 then
         (case find (\<lambda>pid. pid \<in> set matched) priority of
            Some primary \<Rightarrow> Inr (Some primary, ms, False)
          | None \<Rightarrow> Inr (None, ms, True))
       else if length matched = 1 then Inr (Some (hd matched), ms, False)
       else Inr (None, ms, False))"

definition resolve_combined :: "configuration_version \<Rightarrow> spatial_status \<Rightarrow> string option \<Rightarrow> string option \<Rightarrow>
    bool \<Rightarrow> spatial_error + spatial_status \<times> string option \<times> string option \<times> string list" where
  "resolve_combined c zone_status zone_id table_id table_ambiguous =
     (if zone_status = AMBIGUOUS \<or> table_ambiguous then Inr (AMBIGUOUS, None, None, [])
      else if zone_status = INSIDE then
        rbind (matched_contained_tables c zone_id) (\<lambda>contained. Inr (INSIDE, zone_id, table_id, contained))
      else Inr (OUTSIDE, None, table_id, []))"

definition declares_venue_geometry :: "zone list \<Rightarrow> privacy_roi list \<Rightarrow> exclusion_roi list \<Rightarrow> table list \<Rightarrow> bool" where
  "declares_venue_geometry zones privacy exclusion tables =
     (zones \<noteq> [] \<or> tables \<noteq> [] \<or>
      list_ex (\<lambda>r. gm_coordinate_space (priv_geometry r) = VENUE_LOCAL) privacy \<or>
      list_ex (\<lambda>r. gm_coordinate_space (excl_geometry r) = VENUE_LOCAL) exclusion)"

definition build_observation :: "spatial_evaluation_input \<Rightarrow> spatial_status \<Rightarrow> string option \<Rightarrow>
    string option \<Rightarrow> spatial_error + spatial_observation" where
  "build_observation inp status zone_id table_id =
     (let ob = \<lparr>so_schema_version = SCHEMA_VERSION, so_session_id = to_session_id (si_track inp),
          so_track_id = to_track_id (si_track inp), so_frame_id = to_frame_id (si_track inp),
          so_event_time = to_event_time (si_track inp), so_camera_id = si_camera_id inp,
          so_configuration_version_id = cv_configuration_version_id (si_configuration inp),
          so_spatial_point = si_point inp, so_status = status, so_zone_profile_id = zone_id,
          so_table_profile_id = table_id, so_engine_version = SPATIAL_ENGINE_VERSION\<rparr>
      in if spatial_observation_valid ob then Inr ob else Inl SpatialRawError)"

subsection \<open>Public API\<close>

definition intercepted :: "spatial_observation \<Rightarrow> spatial_evaluation_result" where
  "intercepted ob = \<lparr>sr_observation = ob, sr_zone_memberships = [], sr_table_memberships = [],
     sr_matched_exclusion_roi = None, sr_matched_privacy_roi = None, sr_matched_zone_contained_tables = []\<rparr>"

text \<open>The part of \<open>evaluate_spatial\<close> after the regions of both kinds have been passed.\<close>

definition evaluate_membership :: "spatial_evaluation_input \<Rightarrow> zone list \<Rightarrow> table list \<Rightarrow>
    spatial_error + spatial_evaluation_result" where
  "evaluate_membership inp zones tables =
     rbind (evaluate_zone_membership (si_point inp) zones (si_zone_priority inp)) (\<lambda>(zone_status, zone_id, zms).
     rbind (evaluate_table_membership (si_point inp) tables (si_table_priority inp)) (\<lambda>(table_id, tms, ambiguous).
     rbind (resolve_combined (si_configuration inp) zone_status zone_id table_id ambiguous)
       (\<lambda>(status, primary_zone, primary_table, contained).
     rbind (build_observation inp status primary_zone primary_table) (\<lambda>ob.
       Inr ((intercepted ob)\<lparr>sr_zone_memberships := zms, sr_table_memberships := tms,
         sr_matched_zone_contained_tables := contained\<rparr>)))))"

definition evaluate_spatial :: "spatial_evaluation_input \<Rightarrow> spatial_error + spatial_evaluation_result" where
  "evaluate_spatial inp =
     (let c = si_configuration inp; point = si_point inp in
      rbind (wrap_geometry InvalidSpatialInput
          (validate_coordinate (sp_x point) (sp_y point) (sp_coordinate_space point))) (\<lambda>_.
      if cv_status c \<noteq> PUBLISHED then Inl ConfigurationNotPublished
      else rbind (resolve_camera c (si_camera_id inp)) (\<lambda>camera.
      rbind (validate_zone_priority (si_zone_priority inp) camera) (\<lambda>_.
      rbind (validate_table_priority (si_table_priority inp) c) (\<lambda>_.
      rbind (validate_contained_tables_references c) (\<lambda>_.
      rbind (camera_declared_zones c camera) (\<lambda>zones.
      rbind (version_tables c) (\<lambda>tables.
      rbind (camera_declared_privacy_rois c camera) (\<lambda>privacy.
      rbind (camera_declared_exclusion_rois c camera) (\<lambda>exclusion.
      rbind (evaluate_roi_pass point (map (\<lambda>r. (priv_profile_id r, priv_geometry r)) privacy)) (\<lambda>matched_privacy.
      if matched_privacy \<noteq> None then
        rbind (build_observation inp PRIVACY None None) (\<lambda>ob.
          Inr ((intercepted ob)\<lparr>sr_matched_privacy_roi := matched_privacy\<rparr>))
      else rbind (evaluate_roi_pass point (map (\<lambda>r. (excl_profile_id r, excl_geometry r)) exclusion)) (\<lambda>matched_exclusion.
      if matched_exclusion \<noteq> None then
        rbind (build_observation inp EXCLUDED None None) (\<lambda>ob.
          Inr ((intercepted ob)\<lparr>sr_matched_exclusion_roi := matched_exclusion\<rparr>))
      else if sp_coordinate_space point = IMAGE_NORMALIZED \<and>
        declares_venue_geometry zones privacy exclusion tables then Inl VenuePointRequired
      else evaluate_membership inp zones tables))))))))))))"

end
