(* ===== verification/Spatial_Facts.thy ===== *)
theory Spatial_Facts
  imports Spatial_Engine Geometry_Facts
begin

text \<open>
  What the spatial interpretation engine promises: its nested loops compute a specification over sets of
  regions, zones and tables; a list of detection zones with a repeated entry breaks that promise.
\<close>

subsection \<open>Lookups\<close>

lemma by_id_Some: "by_id ident xs pid = Some x \<Longrightarrow> x \<in> set xs \<and> ident x = pid"
  unfolding by_id_def by (drule map_of_SomeD) auto

lemma by_id_unique:
  assumes "distinct (map ident xs)"
  shows "by_id ident xs pid = Some x \<longleftrightarrow> x \<in> set xs \<and> ident x = pid"
proof -
  have "distinct (map fst (rev (map (\<lambda>x. (ident x, x)) xs)))"
    using assms by (simp add: o_def flip: rev_map)
  from map_of_eq_Some_iff [OF this] show ?thesis by (auto simp: by_id_def)
qed

text \<open>Every id is resolved, in sorted order, to an item that satisfies the contract.\<close>

lemma declared_Inr:
  assumes "declared (by_id ident xs) contract ids = Inr ys"
  shows "map ident ys = sort ids \<and> set ys \<subseteq> set xs"
proof -
  have "mapM (\<lambda>pid. case by_id ident xs pid of None \<Rightarrow> Inl ReferenceIntegrity
       | Some x \<Rightarrow> rbind (contract x) (\<lambda>_. Inr x)) is = Inr ys \<Longrightarrow> map ident ys = is \<and> set ys \<subseteq> set xs" for "is"
    by (induction "is" arbitrary: ys) (fastforce split: option.splits dest: by_id_Some)+
  with assms show ?thesis by (simp add: declared_def)
qed

lemma declared_set:
  assumes d: "declared (by_id ident xs) contract ids = Inr ys" and u: "distinct (map ident xs)"
  shows "set ys = {x \<in> set xs. ident x \<in> set ids}"
proof -
  from declared_Inr [OF d] have m: "map ident ys = sort ids" and sub: "set ys \<subseteq> set xs" by simp_all
  from m have ids: "ident ` set ys = set ids" by (metis set_map set_sort)
  from u have "inj_on ident (set xs)" by (simp add: distinct_map)
  with ids sub show ?thesis by (auto dest: inj_onD)
qed

subsection \<open>The passes\<close>

definition containing :: "spatial_point \<Rightarrow> (string \<times> geometry_model) set \<Rightarrow> string set" where
  "containing point items = fst ` {i \<in> items. classify_spatial point (snd i) = Inr PL_INSIDE}"

definition in_space :: "spatial_point \<Rightarrow> (string \<times> geometry_model) set \<Rightarrow> (string \<times> geometry_model) set" where
  "in_space point items = {i \<in> items. gm_coordinate_space (snd i) = sp_coordinate_space point}"

lemma classify_strict_Inr:
  "classify_strict point g = Inr l \<longleftrightarrow> classify_spatial point g = Inr l \<and> l \<noteq> PL_BOUNDARY"
  by (auto simp: classify_strict_def split: if_splits)

lemma containing_insert:
  "containing point (insert (pid, g) X) =
     (if classify_spatial point g = Inr PL_INSIDE then insert pid (containing point X) else containing point X)"
  by (auto simp: containing_def image_iff)

lemma in_space_insert:
  "in_space point (insert i X) =
     (if gm_coordinate_space (snd i) = sp_coordinate_space point then insert i (in_space point X) else in_space point X)"
  by (auto simp: in_space_def)

lemma containing_sub: "containing point (in_space point X) \<subseteq> fst ` X"
  by (auto simp: containing_def in_space_def)

lemma containing_empty [simp]: "containing point {} = {}" "in_space point {} = {}"
  by (simp_all add: containing_def in_space_def)

text \<open>A pass over sorted regions returns the least id of a region that contains the point.\<close>

lemma evaluate_roi_pass_spec:
  "evaluate_roi_pass point items = Inr m \<Longrightarrow> sorted (map fst items) \<Longrightarrow>
     m = (if containing point (in_space point (set items)) = {} then None
          else Some (Min (containing point (in_space point (set items)))))"
proof (induction items arbitrary: m)
  case Nil
  then show ?case by simp
next
  case (Cons i items)
  obtain pid g where i: "i = (pid, g)" by (cases i)
  have fin: "finite (containing point (in_space point (set items)))"
    by (auto simp: containing_def in_space_def)
  have least: "x \<in> containing point (in_space point (set items)) \<Longrightarrow> pid \<le> x" for x
    using containing_sub [of point "set items"] Cons.prems(2) by (auto simp: i)
  from Cons.prems(1) show ?case
  proof (cases "gm_coordinate_space g = sp_coordinate_space point \<and> classify_spatial point g = Inr PL_INSIDE")
    case True
    then have "m = Some pid" using Cons.prems(1) by (auto simp: i classify_strict_Inr split: if_splits)
    moreover have "Min (insert pid (containing point (in_space point (set items)))) = pid"
      using fin least by (intro Min_eqI) auto
    ultimately show ?thesis using True by (simp add: i in_space_insert containing_insert)
  next
    case False
    then have "evaluate_roi_pass point items = Inr m"
      using Cons.prems(1) by (auto simp: i classify_strict_Inr split: if_splits)
    then show ?thesis using Cons.IH Cons.prems(2) False by (auto simp: i in_space_insert containing_insert)
  qed
qed

lemma memberships_Inr:
  "memberships point items = Inr ms \<Longrightarrow>
     matched_ids ms = map fst (filter (\<lambda>i. classify_spatial point (snd i) = Inr PL_INSIDE) items)"
  unfolding memberships_def matched_ids_def
  by (induction items arbitrary: ms) (auto simp: classify_strict_Inr)

lemma memberships_strict:
  "memberships point items = Inr ms \<Longrightarrow> i \<in> set items \<Longrightarrow> classify_spatial point (snd i) \<noteq> Inr PL_BOUNDARY"
  unfolding memberships_def by (induction items arbitrary: ms) (auto simp: classify_strict_Inr)

text \<open>The choice among the containing candidates: \<open>None\<close> is the unresolved ambiguity.\<close>

definition pick :: "string list \<Rightarrow> string set \<Rightarrow> string option option" where
  "pick priority S =
     (if S = {} then Some None
      else if card S = 1 then Some (Some (the_elem S))
      else map_option Some (find (\<lambda>p. p \<in> S) priority))"

lemma pick_list:
  assumes "distinct xs"
  shows "pick priority (set xs) =
    (if length xs = 1 then Some (Some (hd xs)) else if 1 < length xs then map_option Some (find (\<lambda>p. p \<in> set xs) priority)
     else Some None)"
proof (cases xs)
  case (Cons x ys)
  then show ?thesis using distinct_card [OF assms] by (cases ys) (simp_all add: pick_def)
qed (simp add: pick_def)

lemma matched_distinct:
  assumes "memberships point items = Inr ms" "distinct (map fst items)"
  shows "distinct (matched_ids ms)" "set (matched_ids ms) = containing point (set items)"
  using assms by (auto simp: memberships_Inr distinct_map_filter containing_def)

lemma evaluate_zone_membership_spec:
  assumes "evaluate_zone_membership point zones priority = Inr (status, zid, ms)"
    and "distinct (map zone_profile_id zones)"
  defines "Z \<equiv> containing point ((\<lambda>z. (zone_profile_id z, zone_geometry z)) ` set zones)"
  shows "pick priority Z = (if status = AMBIGUOUS then None else Some zid)"
    "status = (if status = AMBIGUOUS then AMBIGUOUS else if zid = None then OUTSIDE else INSIDE)"
proof -
  let ?items = "map (\<lambda>z. (zone_profile_id z, zone_geometry z)) zones"
  from assms(1) obtain ms' where ms: "memberships point ?items = Inr ms'"
    by (auto simp: evaluate_zone_membership_def)
  have "distinct (map fst ?items)" using assms(2) by (simp add: o_def)
  note m = matched_distinct [OF ms this]
  from m(2) have Z: "set (matched_ids ms') = Z" by (simp add: Z_def)
  note facts = assms(1) pick_list [OF m(1), of priority, unfolded Z] ms
  from facts show "pick priority Z = (if status = AMBIGUOUS then None else Some zid)"
    by (cases "find (\<lambda>p. p \<in> Z) priority")
      (auto simp: evaluate_zone_membership_def Let_def Z split: if_splits)
  from facts show "status = (if status = AMBIGUOUS then AMBIGUOUS else if zid = None then OUTSIDE else INSIDE)"
    by (cases "find (\<lambda>p. p \<in> Z) priority")
      (auto simp: evaluate_zone_membership_def Let_def Z split: if_splits dest!: sym [of "Some _"])
qed

lemma evaluate_table_membership_spec:
  assumes "evaluate_table_membership point tables priority = Inr (tid, ms, ambiguous)"
    and "distinct (map table_profile_id tables)"
  defines "T \<equiv> containing point ((\<lambda>t. (table_profile_id t, table_geometry t)) ` set tables)"
  shows "pick priority T = (if ambiguous then None else Some tid)"
proof -
  let ?items = "map (\<lambda>t. (table_profile_id t, table_geometry t)) tables"
  from assms(1) obtain ms' where ms: "memberships point ?items = Inr ms'"
    by (auto simp: evaluate_table_membership_def)
  have "distinct (map fst ?items)" using assms(2) by (simp add: o_def)
  note m = matched_distinct [OF ms this]
  from m(2) have T: "set (matched_ids ms') = T" by (simp add: T_def)
  show ?thesis
    using assms(1) pick_list [OF m(1), of priority] ms unfolding T
    by (cases "find (\<lambda>p. p \<in> T) priority";
        auto simp: evaluate_table_membership_def Let_def T split: if_splits option.splits)
qed


subsection \<open>The specification\<close>

text \<open>The candidates of a camera: the profiles of the version that it declares; every table of the version.\<close>

definition zone_items :: "configuration_version \<Rightarrow> camera_profile \<Rightarrow> (string \<times> geometry_model) set" where
  "zone_items c k = (\<lambda>z. (zone_profile_id z, zone_geometry z)) `
     {z \<in> set (cv_zones c). zone_profile_id z \<in> set (cam_detection_zones k)}"

definition table_items :: "configuration_version \<Rightarrow> (string \<times> geometry_model) set" where
  "table_items c = (\<lambda>t. (table_profile_id t, table_geometry t)) ` set (cv_tables c)"

definition privacy_items :: "configuration_version \<Rightarrow> camera_profile \<Rightarrow> (string \<times> geometry_model) set" where
  "privacy_items c k = (\<lambda>r. (priv_profile_id r, priv_geometry r)) `
     {r \<in> set (cv_privacy_rois c). priv_profile_id r \<in> set (cam_privacy_rois k)}"

definition exclusion_items :: "configuration_version \<Rightarrow> camera_profile \<Rightarrow> (string \<times> geometry_model) set" where
  "exclusion_items c k = (\<lambda>r. (excl_profile_id r, excl_geometry r)) `
     {r \<in> set (cv_exclusion_rois c). excl_profile_id r \<in> set (cam_exclusion_rois k)}"

text \<open>Privacy first, then exclusion, then the choice among the zones and among the tables.\<close>

definition spatial_spec :: "configuration_version \<Rightarrow> camera_profile \<Rightarrow> spatial_point \<Rightarrow> string list \<Rightarrow>
    string list \<Rightarrow> spatial_status \<times> string option \<times> string option" where
  "spatial_spec c k point zone_priority table_priority =
     (if containing point (in_space point (privacy_items c k)) \<noteq> {} then (PRIVACY, None, None)
      else if containing point (in_space point (exclusion_items c k)) \<noteq> {} then (EXCLUDED, None, None)
      else case (pick zone_priority (containing point (zone_items c k)),
                 pick table_priority (containing point (table_items c))) of
          (Some z, Some t) \<Rightarrow> (if z = None then OUTSIDE else INSIDE, z, t)
        | _ \<Rightarrow> (AMBIGUOUS, None, None))"

lemma unique_categories:
  assumes "validate_profile_ids_unique c"
  shows "distinct (map zone_profile_id (cv_zones c))" "distinct (map table_profile_id (cv_tables c))"
    "distinct (map priv_profile_id (cv_privacy_rois c))" "distinct (map excl_profile_id (cv_exclusion_rois c))"
  using assms by (simp_all add: validate_profile_ids_unique_iff all_profile_ids_def)

lemma build_observation_Inr:
  "build_observation inp status zid tid = Inr ob \<Longrightarrow>
     so_status ob = status \<and> so_zone_profile_id ob = zid \<and> so_table_profile_id ob = tid \<and>
     spatial_observation_valid ob"
  by (auto simp: build_observation_def Let_def split: if_splits)

lemma evaluate_membership_spec:
  assumes e: "evaluate_membership inp zones tables = Inr r"
    and dz: "distinct (map zone_profile_id zones)" and dt: "distinct (map table_profile_id tables)"
  shows "(so_status (sr_observation r), so_zone_profile_id (sr_observation r), so_table_profile_id (sr_observation r)) =
    (case (pick (si_zone_priority inp) (containing (si_point inp) ((\<lambda>z. (zone_profile_id z, zone_geometry z)) ` set zones)),
           pick (si_table_priority inp) (containing (si_point inp) ((\<lambda>t. (table_profile_id t, table_geometry t)) ` set tables))) of
       (Some z, Some t) \<Rightarrow> (if z = None then OUTSIDE else INSIDE, z, t) | _ \<Rightarrow> (AMBIGUOUS, None, None))"
proof -
  from e obtain status zid zms tid tms amb st pz pt contained ob where
    z: "evaluate_zone_membership (si_point inp) zones (si_zone_priority inp) = Inr (status, zid, zms)"
    and t: "evaluate_table_membership (si_point inp) tables (si_table_priority inp) = Inr (tid, tms, amb)"
    and c: "resolve_combined (si_configuration inp) status zid tid amb = Inr (st, pz, pt, contained)"
    and o: "build_observation inp st pz pt = Inr ob" and r: "sr_observation r = ob"
    by (auto simp: evaluate_membership_def intercepted_def split: prod.splits)
  note zs = evaluate_zone_membership_spec [OF z dz] and ts = evaluate_table_membership_spec [OF t dt]
  from c zs(2) have "(st, pz, pt) = (if status = AMBIGUOUS \<or> amb then (AMBIGUOUS, None, None)
      else (if zid = None then OUTSIDE else INSIDE, zid, tid))"
    by (auto simp: resolve_combined_def split: if_splits)
  with zs(1) ts build_observation_Inr [OF o] show ?thesis by (auto simp: r split: if_splits)
qed

text \<open>The stages of a successful evaluation.\<close>

lemma evaluate_spatial_stages:
  assumes "evaluate_spatial inp = Inr r"
  obtains camera zones tables privacy exclusion mp where
    "cv_status (si_configuration inp) = PUBLISHED"
    "resolve_camera (si_configuration inp) (si_camera_id inp) = Inr camera"
    "camera_declared_zones (si_configuration inp) camera = Inr zones"
    "version_tables (si_configuration inp) = Inr tables"
    "camera_declared_privacy_rois (si_configuration inp) camera = Inr privacy"
    "camera_declared_exclusion_rois (si_configuration inp) camera = Inr exclusion"
    "evaluate_roi_pass (si_point inp) (map (\<lambda>r. (priv_profile_id r, priv_geometry r)) privacy) = Inr mp"
    "sr_matched_privacy_roi r = mp"
    "(if mp \<noteq> None then build_observation inp PRIVACY None None = Inr (sr_observation r)
      else \<exists>me. evaluate_roi_pass (si_point inp) (map (\<lambda>r. (excl_profile_id r, excl_geometry r)) exclusion) = Inr me \<and>
        sr_matched_exclusion_roi r = me \<and>
        (if me \<noteq> None then build_observation inp EXCLUDED None None = Inr (sr_observation r)
         else \<not> (sp_coordinate_space (si_point inp) = IMAGE_NORMALIZED \<and>
              declares_venue_geometry zones privacy exclusion tables) \<and>
           evaluate_membership inp zones tables = Inr r))"
proof -
  have member: "evaluate_membership inp zs ts = Inr r \<Longrightarrow> sr_matched_privacy_roi r = None \<and> sr_matched_exclusion_roi r = None"
    for zs ts by (auto simp: evaluate_membership_def intercepted_def split: prod.splits)
  from assms that member show thesis
    unfolding evaluate_spatial_def Let_def rbind_eq_Inr
    by (elim exE conjE; simp only: if_splits; elim exE conjE disjE; auto simp: intercepted_def split: if_splits)
qed

subsection \<open>The properties\<close>

text \<open>C6: on a version with unique profile ids and a camera that lists each detection zone once, a successful
  evaluation reports exactly the status, zone and table of the specification over sets: a containing
  privacy region wins, then a containing exclusion region, then the only or the best-ranked containing
  zone and table, and an unranked overlap is ambiguous. The region reported is the least id of those
  that contain the point.\<close>

theorem spatial_refines_spec:
  assumes e: "evaluate_spatial inp = Inr r"
    and u: "validate_profile_ids_unique (si_configuration inp)"
    and k: "resolve_camera (si_configuration inp) (si_camera_id inp) = Inr camera"
    and d: "distinct (cam_detection_zones camera)"
  shows "(so_status (sr_observation r), so_zone_profile_id (sr_observation r), so_table_profile_id (sr_observation r)) =
      spatial_spec (si_configuration inp) camera (si_point inp) (si_zone_priority inp) (si_table_priority inp) \<and>
    sr_matched_privacy_roi r =
      (let P = containing (si_point inp) (in_space (si_point inp) (privacy_items (si_configuration inp) camera))
       in if P = {} then None else Some (Min P))"
proof -
  let ?c = "si_configuration inp" and ?p = "si_point inp"
  note uniq = unique_categories [OF u]
  from e k obtain zones tables privacy exclusion mp where
    z: "camera_declared_zones ?c camera = Inr zones" and t: "version_tables ?c = Inr tables"
    and pr: "camera_declared_privacy_rois ?c camera = Inr privacy"
    and ex: "camera_declared_exclusion_rois ?c camera = Inr exclusion"
    and mp: "evaluate_roi_pass ?p (map (\<lambda>r. (priv_profile_id r, priv_geometry r)) privacy) = Inr mp"
    and smp: "sr_matched_privacy_roi r = mp"
    and rest: "if mp \<noteq> None then build_observation inp PRIVACY None None = Inr (sr_observation r)
      else \<exists>me. evaluate_roi_pass ?p (map (\<lambda>r. (excl_profile_id r, excl_geometry r)) exclusion) = Inr me \<and>
        sr_matched_exclusion_roi r = me \<and>
        (if me \<noteq> None then build_observation inp EXCLUDED None None = Inr (sr_observation r)
         else \<not> (sp_coordinate_space ?p = IMAGE_NORMALIZED \<and> declares_venue_geometry zones privacy exclusion tables) \<and>
           evaluate_membership inp zones tables = Inr r)"
    by (auto elim!: evaluate_spatial_stages)
  note zs = declared_Inr [OF z [unfolded camera_declared_zones_def]]
    declared_set [OF z [unfolded camera_declared_zones_def] uniq(1)]
  note ps = declared_Inr [OF pr [unfolded camera_declared_privacy_rois_def]]
    declared_set [OF pr [unfolded camera_declared_privacy_rois_def] uniq(3)]
  note es = declared_Inr [OF ex [unfolded camera_declared_exclusion_rois_def]]
    declared_set [OF ex [unfolded camera_declared_exclusion_rois_def] uniq(4)]
  have ts: "set tables = set (cv_tables ?c)" "distinct (map table_profile_id tables)"
    using t uniq(2) by (auto simp: version_tables_def Let_def distinct_map)
  have dz: "distinct (map zone_profile_id zones)" using zs(1) d by simp
  let ?P = "containing ?p (in_space ?p (privacy_items ?c camera))"
  let ?E = "containing ?p (in_space ?p (exclusion_items ?c camera))"
  have P: "mp = (if ?P = {} then None else Some (Min ?P))"
    using evaluate_roi_pass_spec [OF mp] ps by (simp add: privacy_items_def o_def)
  show ?thesis
  proof (cases "?P = {}")
    case False
    then show ?thesis using P rest smp by (auto simp: spatial_spec_def dest: build_observation_Inr)
  next
    case True
    with P rest obtain me where
      me: "evaluate_roi_pass ?p (map (\<lambda>r. (excl_profile_id r, excl_geometry r)) exclusion) = Inr me"
      and rest: "if me \<noteq> None then build_observation inp EXCLUDED None None = Inr (sr_observation r)
         else evaluate_membership inp zones tables = Inr r" by (auto split: if_splits)
    have E: "me = (if ?E = {} then None else Some (Min ?E))"
      using evaluate_roi_pass_spec [OF me] es by (simp add: exclusion_items_def o_def)
    show ?thesis
    proof (cases "?E = {}")
      case False
      then show ?thesis using True P E rest smp by (auto simp: spatial_spec_def dest: build_observation_Inr)
    next
      case E0: True
      with rest E have "evaluate_membership inp zones tables = Inr r" by simp
      from evaluate_membership_spec [OF this dz ts(2)] show ?thesis
        using True E0 P smp by (simp add: spatial_spec_def zone_items_def table_items_def zs(2) ts(1))
    qed
  qed
qed

subsection \<open>A concrete venue\<close>

text \<open>A lobby of ten by ten metres with a table in its middle, seen by one camera.\<close>

definition venue_rect :: "string \<Rightarrow> int \<Rightarrow> int \<Rightarrow> int \<Rightarrow> int \<Rightarrow> geometry_model" where
  "venue_rect ident x0 y0 x1 y1 = \<lparr>gm_geometry_id = ident, gm_geometry_type = POLYGON,
     gm_coordinate_space = VENUE_LOCAL, gm_geometry_scope = VENUE,
     gm_coordinates = map (\<lambda>(x, y). [Fin (of_int x), Fin (of_int y)]) [(x0, y0), (x1, y0), (x1, y1), (x0, y1), (x0, y0)],
     gm_reference_camera_profile_id = None, gm_reference_width = None, gm_reference_height = None\<rparr>"

lemma int_area:
  assumes "x0 < x1" "y0 < (y1 :: int)"
  shows "1 \<le> (real_of_int x1 - of_int x0) * (of_int y1 - of_int y0)"
  using assms mult_mono [of 1 "real_of_int x1 - of_int x0" 1 "of_int y1 - of_int y0"] by simp

lemma validate_venue_rect:
  assumes "x0 < x1" "y0 < y1"
  shows "validate_polygon (venue_rect ident x0 y0 x1 y1) =
    Inr (float_ring (rectangle (of_int x0) (of_int y0) (of_int x1) (of_int y1)))"
proof -
  let ?R = "rectangle (of_int x0) (of_int y0) (of_int x1) (of_int y1)"
  note int_area [OF assms(1,2)]
  then have "validate_polygon_ring (float_ring ?R) GEOMETRY_TOLERANCE = Inr ?R"
    using assms by (intro validate_rectangle) (auto simp: GEOMETRY_TOLERANCE_def intro: less_le_trans)
  moreover have "ring (venue_rect ident x0 y0 x1 y1) = Inr (gm_coordinates (venue_rect ident x0 y0 x1 y1))"
    by (simp add: ring_def canonicalize_def venue_rect_def py_round_int CLOSURE_EPSILON_def del: py_round.simps)
  ultimately show ?thesis
    by (simp add: validate_polygon_def) (simp add: venue_rect_def float_ring_def rectangle_def)
qed

lemma inside_venue_rect:
  assumes "x0 < x1" "y0 < y1" "of_int x0 + GEOMETRY_TOLERANCE < x" "x < of_int x1 - GEOMETRY_TOLERANCE"
    "of_int y0 + GEOMETRY_TOLERANCE < y" "y < of_int y1 - GEOMETRY_TOLERANCE"
    "sp_x p = Fin x" "sp_y p = Fin y"
  shows "classify_spatial p (venue_rect ident x0 y0 x1 y1) = Inr PL_INSIDE"
proof -
  have "1 \<le> (real_of_int x1 - of_int x0) * (of_int y1 - of_int y0)"
    using mult_mono [of 1 "x1 - x0" 1 "y1 - y0"] assms(1,2)
    by (metis (mono_tags) of_int_diff of_int_mult of_int_1_le_iff diff_gt_0_iff_gt mult_1 int_one_le_iff_zero_less
        zero_le_one order_trans)
  then have "classify_point_in_polygon (Fin x, Fin y)
      (float_ring (rectangle (of_int x0) (of_int y0) (of_int x1) (of_int y1))) GEOMETRY_TOLERANCE = Inr PL_INSIDE"
    using assms by (subst rectangle_inside_iff) (auto simp: GEOMETRY_TOLERANCE_def intro: less_le_trans)
  then show ?thesis using assms by (simp add: classify_spatial_def validate_venue_rect)
qed

definition venue_camera :: "string list \<Rightarrow> camera_profile" where
  "venue_camera zones = \<lparr>cam_profile_id = ''cam-1'', cam_camera_id = 4, cam_camera_reference = ''rtsp'',
     cam_resolution_width = 1920, cam_resolution_height = 1080, cam_analysis_enabled = True,
     cam_detection_zones = zones, cam_privacy_rois = [], cam_exclusion_rois = [], cam_physical_placement = None\<rparr>"

definition venue_zone :: zone where
  "venue_zone = \<lparr>zone_profile_id = ''lobby-1'', zone_name = ''Lobby'', zone_zone_type = LOBBY,
     zone_geometry = venue_rect ''lobby-1'' 0 0 10 10, zone_labels = [], zone_contained_tables = [''table-1''],
     zone_contained_entrances = [], zone_contained_queue_areas = [], zone_contained_service_areas = []\<rparr>"

definition venue_table :: table where
  "venue_table = \<lparr>table_profile_id = ''table-1'', table_name = ''Table'',
     table_geometry = venue_rect ''table-1'' 4 4 6 6, table_seat_count = None\<rparr>"

definition venue_configuration :: "string list \<Rightarrow> configuration_version" where
  "venue_configuration zones = \<lparr>cv_configuration_version_id = 5, cv_configuration_id = 6, cv_venue_id = 2,
     cv_tenant_id = 1, cv_version = 1, cv_status = PUBLISHED, cv_cameras = [venue_camera zones],
     cv_zones = [venue_zone], cv_tables = [venue_table], cv_entrances = [], cv_queue_areas = [],
     cv_service_areas = [], cv_privacy_rois = [], cv_exclusion_rois = [], cv_validation_result = None,
     cv_validated_at = Some (utc_at 0), cv_validated_by = Some ''a'', cv_published_at = Some (utc_at 0),
     cv_published_by = Some ''a'', cv_replaced_version_id = None, cv_created_at = utc_at 0, cv_updated_at = utc_at 0, cv_schema_version = SCHEMA_VERSION\<rparr>"

definition venue_point :: spatial_point where
  "venue_point = \<lparr>sp_x = Fin 5, sp_y = Fin 5, sp_coordinate_space = VENUE_LOCAL, sp_policy = FOOTPOINT\<rparr>"

definition venue_track :: track_observation where
  "venue_track = \<lparr>to_track_id = 11, to_detection_id = 12, to_frame_id = 13, to_session_id = 14,
     to_schema_version = SCHEMA_VERSION, to_event_time = utc_at 1, to_track_state = ACTIVE\<rparr>"

definition venue_input :: "string list \<Rightarrow> spatial_evaluation_input" where
  "venue_input zones = \<lparr>si_configuration = venue_configuration zones, si_track = venue_track,
     si_camera_id = 4, si_point = venue_point, si_zone_priority = [], si_table_priority = []\<rparr>"

lemma venue_valid: "configuration_version_valid (venue_configuration zones)"
  by (simp add: configuration_version_valid_def venue_configuration_def validate_profile_ids_unique_iff
      all_profile_ids_def validate_published_immutable_def venue_zone_def venue_table_def venue_camera_def)

lemma venue_classified:
  "classify_strict venue_point (zone_geometry venue_zone) = Inr PL_INSIDE"
  "classify_strict venue_point (table_geometry venue_table) = Inr PL_INSIDE"
  by (simp_all add: classify_strict_Inr venue_zone_def venue_table_def venue_point_def inside_venue_rect [where x = 5 and y = 5]
      GEOMETRY_TOLERANCE_def)

lemma venue_stages:
  "validate_coordinate (sp_x venue_point) (sp_y venue_point) (sp_coordinate_space venue_point) = Inr ()"
  "cv_status (venue_configuration zones) = PUBLISHED"
  "resolve_camera (venue_configuration zones) 4 = Inr (venue_camera zones)"
  "validate_zone_priority [] k = Inr ()"
  "validate_table_priority [] c = Inr ()"
  "validate_contained_tables_references (venue_configuration zones) = Inr ()"
  "version_tables (venue_configuration zones) = Inr [venue_table]"
  "camera_declared_privacy_rois (venue_configuration zones) (venue_camera zones) = Inr []"
  "camera_declared_exclusion_rois (venue_configuration zones) (venue_camera zones) = Inr []"
  by (simp_all add: validate_coordinate_def venue_point_def venue_configuration_def resolve_camera_def venue_camera_def
      validate_zone_priority_def validate_table_priority_def validate_contained_tables_references_def venue_zone_def
      venue_table_def version_tables_def assert_table_contract_def venue_polygon_def venue_rect_def Let_def
      camera_declared_privacy_rois_def camera_declared_exclusion_rois_def declared_def ensure_def)

lemma venue_zones:
  "camera_declared_zones (venue_configuration zones) (venue_camera (replicate n ''lobby-1'')) = Inr (replicate n venue_zone)"
proof -
  let ?look = "by_id zone_profile_id [venue_zone]"
  have "mapM (\<lambda>pid. case ?look pid of None \<Rightarrow> Inl ReferenceIntegrity
       | Some x \<Rightarrow> rbind (assert_zone_contract x) (\<lambda>_. Inr x)) (replicate n ''lobby-1'') = Inr (replicate n venue_zone)"
    by (induction n) (simp_all add: by_id_def venue_zone_def assert_zone_contract_def venue_polygon_def venue_rect_def)
  moreover have "sort (replicate n ''lobby-1'') = replicate n ''lobby-1''"
    by (simp add: sorted_sort_id)
  ultimately show ?thesis
    by (simp add: camera_declared_zones_def declared_def venue_configuration_def venue_camera_def)
qed

lemma venue_evaluation:
  "evaluate_spatial (venue_input (replicate n ''lobby-1'')) =
    evaluate_membership (venue_input (replicate n ''lobby-1'')) (replicate n venue_zone) [venue_table]"
  by (simp add: evaluate_spatial_def venue_input_def venue_stages venue_zones Let_def)
    (simp add: venue_point_def)

lemma venue_memberships:
  "memberships venue_point (replicate n (zone_profile_id venue_zone, zone_geometry venue_zone)) =
    Inr (replicate n (''lobby-1'', PL_INSIDE))"
  by (induction n) (simp_all add: memberships_def venue_classified, simp add: venue_zone_def)

lemma venue_table_membership:
  "evaluate_table_membership venue_point [venue_table] [] = Inr (Some ''table-1'', [(''table-1'', PL_INSIDE)], False)"
  by (simp add: evaluate_table_membership_def memberships_def venue_classified matched_ids_def Let_def)
    (simp add: venue_table_def)

lemma venue_zone_membership:
  "evaluate_zone_membership venue_point (replicate (Suc n) venue_zone) [] =
     Inr (if n = 0 then (INSIDE, Some ''lobby-1'', [(''lobby-1'', PL_INSIDE)])
          else (AMBIGUOUS, None, replicate (Suc n) (''lobby-1'', PL_INSIDE)))"
  using venue_memberships [of "Suc n"] by (simp add: evaluate_zone_membership_def matched_ids_def Let_def)

lemma venue_result:
  "\<exists>r. evaluate_spatial (venue_input (replicate (Suc n) ''lobby-1'')) = Inr r \<and>
    so_status (sr_observation r) = (if n = 0 then INSIDE else AMBIGUOUS) \<and>
    so_zone_profile_id (sr_observation r) = (if n = 0 then Some ''lobby-1'' else None)"
  unfolding venue_evaluation
  using venue_zone_membership [of n]
  by (simp add: evaluate_membership_def venue_input_def venue_table_membership resolve_combined_def
      matched_contained_tables_def venue_configuration_def build_observation_def
      spatial_observation_valid_def venue_track_def intercepted_def)
    (simp add: venue_zone_def)

theorem spatial_refines_spec_witness:
  "\<exists>r. evaluate_spatial (venue_input [''lobby-1'']) = Inr r \<and>
    spatial_spec (venue_configuration [''lobby-1'']) (venue_camera [''lobby-1'']) venue_point [] [] =
      (INSIDE, Some ''lobby-1'', so_table_profile_id (sr_observation r))"
proof -
  obtain r where r: "evaluate_spatial (venue_input [''lobby-1'']) = Inr r"
    and st: "so_status (sr_observation r) = INSIDE" "so_zone_profile_id (sr_observation r) = Some ''lobby-1''"
    using venue_result [of 0] by auto
  have "validate_profile_ids_unique (si_configuration (venue_input [''lobby-1'']))"
    using venue_valid by (simp add: venue_input_def configuration_version_valid_def)
  moreover have "resolve_camera (si_configuration (venue_input [''lobby-1''])) (si_camera_id (venue_input [''lobby-1''])) =
      Inr (venue_camera [''lobby-1''])"
    by (simp add: venue_input_def venue_stages)
  ultimately have "(INSIDE, Some ''lobby-1'', so_table_profile_id (sr_observation r)) =
      spatial_spec (venue_configuration [''lobby-1'']) (venue_camera [''lobby-1'']) venue_point [] []"
    using spatial_refines_spec [OF r, of "venue_camera [''lobby-1'']"] st
    by (simp add: venue_input_def) (simp add: venue_camera_def)
  with r show ?thesis by metis
qed

text \<open>A camera may list one detection zone more than once, in a version that satisfies its contract, and then
  a point in the interior of this single zone, which belongs to no other, is reported \<open>AMBIGUOUS\<close> with no zone,
  although the same camera with the entry listed once reports it \<open>INSIDE\<close>.\<close>

theorem duplicate_detection_zone_ambiguous:
  "configuration_version_valid (venue_configuration [''lobby-1'', ''lobby-1'']) \<and>
   (\<exists>r. evaluate_spatial (venue_input [''lobby-1'', ''lobby-1'']) = Inr r \<and>
     so_status (sr_observation r) = AMBIGUOUS \<and> so_zone_profile_id (sr_observation r) = None) \<and>
   (\<exists>r. evaluate_spatial (venue_input [''lobby-1'']) = Inr r \<and>
     so_status (sr_observation r) = INSIDE \<and> so_zone_profile_id (sr_observation r) = Some ''lobby-1'')"
  using venue_valid venue_result [of 0] venue_result [of 1] by (auto simp: numeral_2_eq_2)

end
