(* ===== verification/Line_Crossing.thy ===== *)
theory Line_Crossing
  imports Spatial_Engine
begin

text \<open>
  The line-crossing engine (\<open>intelligence/spatial/transitions.py\<close>): two consecutive positions of one track
  against a configured line of the pinned version.
\<close>

record line_crossing_input =
  li_configuration :: configuration_version
  li_previous_track :: track_observation
  li_current_track :: track_observation
  li_camera_id :: uuid
  li_previous_point :: spatial_point
  li_current_point :: spatial_point
  li_line :: entrance

definition validate_spatial_point :: "spatial_point \<Rightarrow> spatial_error + unit" where
  "validate_spatial_point point = wrap_geometry InvalidSpatialInput
     (validate_coordinate (sp_x point) (sp_y point) (sp_coordinate_space point))"

definition assert_line_applies_to_camera :: "entrance \<Rightarrow> camera_profile \<Rightarrow> spatial_error + unit" where
  "assert_line_applies_to_camera line camera =
     (if gm_geometry_scope (ent_geometry line) = CAMERA
      then ensure (gm_reference_camera_profile_id (ent_geometry line) = Some (cam_profile_id camera)) LineNotApplicable
      else if ent_camera_profiles line \<noteq> [] \<and> cam_profile_id camera \<notin> set (ent_camera_profiles line)
      then Inl LineNotApplicable
      else Inr ())"

definition space_mismatch :: "entrance \<Rightarrow> coordinate_space \<Rightarrow> spatial_error" where
  "space_mismatch line point_space =
     (if point_space = IMAGE_NORMALIZED \<and> gm_coordinate_space (ent_geometry line) = VENUE_LOCAL
      then VenuePointRequired else SpatialInvalidLine)"

definition polyline_edges :: "point2 list \<Rightarrow> (point2 \<times> point2) list" where
  "polyline_edges vertices = zip (butlast vertices) (tl vertices)"

text \<open>The body of the second loop of \<open>_classify_crossing\<close>: an edge is passed over (\<open>continue\<close>) or decides.\<close>

definition edge_crossed :: "point2 \<Rightarrow> point2 \<Rightarrow> point2 \<Rightarrow> point2 \<Rightarrow> bool" where
  "edge_crossed p1 p2 a b =
     (if side_of_line a b p1 GEOMETRY_TOLERANCE = side_of_line a b p2 GEOMETRY_TOLERANCE then False
      else let t1 = side_of_line p1 p2 a GEOMETRY_TOLERANCE; t2 = side_of_line p1 p2 b GEOMETRY_TOLERANCE in
        if t1 = ON_LINE \<or> t2 = ON_LINE then False else t1 \<noteq> t2)"

definition crossing_side :: "point2 \<Rightarrow> point2 \<Rightarrow> point2 \<Rightarrow> point2 \<Rightarrow> bool \<Rightarrow> crossing_direction" where
  "crossing_side p1 p2 a b directional =
     (if directional then
        (if side_of_line a b p1 GEOMETRY_TOLERANCE = LEFT \<and> side_of_line a b p2 GEOMETRY_TOLERANCE = RIGHT
         then FORWARD else REVERSE)
      else UNKNOWN)"

text \<open>The first loop looks for an endpoint on the line, the second for the first edge that decides.\<close>

definition classify_crossing :: "point2 \<Rightarrow> point2 \<Rightarrow> point2 list \<Rightarrow> bool \<Rightarrow>
    crossing_state \<times> crossing_direction" where
  "classify_crossing p1 p2 vertices directional =
     (if list_ex (\<lambda>(a, b). distance_point_to_segment p1 a b \<le> GEOMETRY_TOLERANCE \<or>
           distance_point_to_segment p2 a b \<le> GEOMETRY_TOLERANCE) (polyline_edges vertices)
      then (NO_CROSSING, UNKNOWN)
      else case find (\<lambda>(a, b). edge_crossed p1 p2 a b) (polyline_edges vertices) of
          None \<Rightarrow> (NO_CROSSING, UNKNOWN)
        | Some (a, b) \<Rightarrow> (CROSSED, crossing_side p1 p2 a b directional))"

definition finite_spatial_point :: "spatial_point \<Rightarrow> spatial_error + point2" where
  "finite_spatial_point p = (case finite_point (sp_x p, sp_y p) of None \<Rightarrow> Inl SpatialRawError | Some q \<Rightarrow> Inr q)"

definition build_line_crossing :: "line_crossing_input \<Rightarrow> crossing_state \<times> crossing_direction \<Rightarrow>
    spatial_error + line_crossing_observation" where
  "build_line_crossing inp outcome =
     (let ob = \<lparr>lc_schema_version = SCHEMA_VERSION, lc_session_id = to_session_id (li_current_track inp),
          lc_track_id = to_track_id (li_current_track inp), lc_camera_id = li_camera_id inp,
          lc_configuration_version_id = cv_configuration_version_id (li_configuration inp),
          lc_line_profile_id = ent_profile_id (li_line inp),
          lc_previous_frame_id = to_frame_id (li_previous_track inp),
          lc_current_frame_id = to_frame_id (li_current_track inp),
          lc_previous_event_time = to_event_time (li_previous_track inp),
          lc_current_event_time = to_event_time (li_current_track inp),
          lc_previous_point = li_previous_point inp, lc_current_point = li_current_point inp,
          lc_crossing_state = fst outcome, lc_direction = snd outcome,
          lc_engine_version = SPATIAL_ENGINE_VERSION\<rparr>
      in if line_crossing_observation_valid ob then Inr ob else Inl SpatialRawError)"

definition evaluate_line_crossing :: "line_crossing_input \<Rightarrow> spatial_error + line_crossing_observation" where
  "evaluate_line_crossing inp =
     (let c = li_configuration inp; prev = li_previous_track inp; cur = li_current_track inp;
          pp = li_previous_point inp; cp = li_current_point inp; line = li_line inp in
      rbind (validate_spatial_point pp) (\<lambda>_.
      rbind (validate_spatial_point cp) (\<lambda>_.
      if sp_coordinate_space pp \<noteq> sp_coordinate_space cp then Inl InvalidSpatialInput
      else if sp_policy pp \<noteq> sp_policy cp then Inl InvalidSpatialInput
      else if cv_status c \<noteq> PUBLISHED then Inl ConfigurationNotPublished
      else rbind (resolve_camera c (li_camera_id inp)) (\<lambda>camera.
      if to_track_id prev \<noteq> to_track_id cur then Inl TransitionScope
      else if to_session_id prev \<noteq> to_session_id cur then Inl TransitionScope
      else if to_frame_id cur = to_frame_id prev then Inl TransitionOrder
      else if dt_less (to_event_time cur) (to_event_time prev) then Inl TransitionOrder
      else case find (\<lambda>e. ent_profile_id e = ent_profile_id line) (cv_entrances c) of
          None \<Rightarrow> Inl ReferenceIntegrity
        | Some config_line \<Rightarrow>
            if config_line \<noteq> line then Inl ReferenceIntegrity
            else rbind (assert_line_applies_to_camera line camera) (\<lambda>_.
            rbind (wrap_geometry SpatialInvalidLine (validate_linestring (ent_geometry line))) (\<lambda>vertices.
            if gm_coordinate_space (ent_geometry line) \<noteq> sp_coordinate_space pp
            then Inl (space_mismatch line (sp_coordinate_space pp))
            else rbind (finite_spatial_point pp) (\<lambda>p1. rbind (finite_spatial_point cp) (\<lambda>p2.
              build_line_crossing inp (classify_crossing p1 p2 vertices (ent_direction line \<noteq> BIDIRECTIONAL))))))))))"

end
