(* ===== verification/Line_Crossing_Facts.thy ===== *)
theory Line_Crossing_Facts
  imports Line_Crossing Spatial_Facts
begin

text \<open>
  What the sided tests of the line-crossing engine guarantee: away from the tolerance they decide exactly
  whether the movement properly crosses an edge, and a forward crossing is always a proper one; close
  to a short edge a reverse crossing need not be.
\<close>

subsection \<open>Sides and intersections\<close>

text \<open>Two segments cross properly when a point strictly between the ends of each is common to both.\<close>

definition properly_cross :: "point2 \<Rightarrow> point2 \<Rightarrow> point2 \<Rightarrow> point2 \<Rightarrow> bool" where
  "properly_cross p1 p2 a b =
     (\<exists>t u. 0 < t \<and> t < 1 \<and> 0 < u \<and> u < 1 \<and> along p1 p2 u = along a b t)"

lemma side_cases:
  "side_of_line a b p GEOMETRY_TOLERANCE = LEFT \<longleftrightarrow> GEOMETRY_TOLERANCE < signed_side a b p"
  "side_of_line a b p GEOMETRY_TOLERANCE = RIGHT \<longleftrightarrow> signed_side a b p < - GEOMETRY_TOLERANCE"
  "side_of_line a b p GEOMETRY_TOLERANCE = ON_LINE \<longleftrightarrow> \<bar>signed_side a b p\<bar> \<le> GEOMETRY_TOLERANCE"
  by (auto simp: side_of_line_def Let_def GEOMETRY_TOLERANCE_def)

text \<open>The four signed sides of two segments are related: crossing differences agree up to sign.\<close>

lemma signed_sides: "signed_side a b p1 - signed_side a b p2 = signed_side p1 p2 b - signed_side p1 p2 a"
  by (simp add: signed_side_def algebra_simps)

lemma meeting_point:
  assumes d: "signed_side a b p1 \<noteq> signed_side a b p2"
  shows "along p1 p2 (signed_side a b p1 / (signed_side a b p1 - signed_side a b p2)) =
     along a b (signed_side p1 p2 a / (signed_side p1 p2 a - signed_side p1 p2 b))"
proof -
  define D where "D = signed_side a b p1 - signed_side a b p2"
  have D: "D \<noteq> 0" and D': "signed_side p1 p2 a - signed_side p1 p2 b = - D"
    using d signed_sides [of a b p1 p2] by (simp_all add: D_def)
  have "D * fst p1 + signed_side a b p1 * (fst p2 - fst p1) = D * fst a - signed_side p1 p2 a * (fst b - fst a)"
    "D * snd p1 + signed_side a b p1 * (snd p2 - snd p1) = D * snd a - signed_side p1 p2 a * (snd b - snd a)"
    unfolding D_def signed_side_def by algebra+
  then have "fst p1 + signed_side a b p1 / D * (fst p2 - fst p1) = fst a - signed_side p1 p2 a / D * (fst b - fst a)"
    "snd p1 + signed_side a b p1 / D * (snd p2 - snd p1) = snd a - signed_side p1 p2 a / D * (snd b - snd a)"
    using D by (simp_all add: field_simps)
  then show ?thesis unfolding D' by (simp add: along_def flip: D_def)
qed

lemma opposite_ratio:
  fixes s t :: real
  assumes "0 < s \<and> t < 0 \<or> s < 0 \<and> 0 < t"
  shows "0 < s / (s - t) \<and> s / (s - t) < 1"
  using assms by (auto simp: divide_simps)

lemma opposite_sides_cross:
  assumes "0 < signed_side a b p1 \<and> signed_side a b p2 < 0 \<or> signed_side a b p1 < 0 \<and> 0 < signed_side a b p2"
    and "0 < signed_side p1 p2 a \<and> signed_side p1 p2 b < 0 \<or> signed_side p1 p2 a < 0 \<and> 0 < signed_side p1 p2 b"
  shows "properly_cross p1 p2 a b"
proof -
  have "signed_side a b p1 \<noteq> signed_side a b p2" using assms(1) by auto
  from meeting_point [OF this] opposite_ratio [OF assms(1)] opposite_ratio [OF assms(2)]
  show ?thesis unfolding properly_cross_def by blast
qed

lemma cross_opposite_sides:
  assumes "properly_cross p1 p2 a b"
  shows "signed_side a b p1 * signed_side a b p2 \<le> 0"
proof -
  from assms obtain t u where tu: "0 < u" "u < 1" and eq: "along p1 p2 u = along a b t"
    unfolding properly_cross_def by blast
  have "signed_side a b (along a b t) = 0" by (simp add: signed_side_def along_def algebra_simps)
  then have "signed_side a b (along p1 p2 u) = 0" by (simp add: eq)
  then have eq: "(1 - u) * signed_side a b p1 + u * signed_side a b p2 = 0"
    by (simp add: signed_side_def along_def algebra_simps)
  show ?thesis
  proof (rule ccontr)
    assume "\<not> ?thesis"
    then consider "0 < signed_side a b p1" "0 < signed_side a b p2" | "signed_side a b p1 < 0" "signed_side a b p2 < 0"
      by (auto simp: not_le zero_less_mult_iff)
    then show False
    proof cases
      case 1
      with tu have "0 < (1 - u) * signed_side a b p1" "0 < u * signed_side a b p2" by simp_all
      with eq show False by linarith
    next
      case 2
      with tu have "(1 - u) * signed_side a b p1 < 0" "u * signed_side a b p2 < 0" by (simp_all add: mult_less_0_iff)
      with eq show False by linarith
    qed
  qed
qed

lemma properly_cross_sym: "properly_cross p1 p2 a b \<Longrightarrow> properly_cross a b p1 p2"
  unfolding properly_cross_def by metis

definition robust_side :: "point2 \<Rightarrow> point2 \<Rightarrow> point2 \<Rightarrow> bool" where
  "robust_side a b p = (GEOMETRY_TOLERANCE < \<bar>signed_side a b p\<bar>)"

lemma edge_crossed_iff:
  assumes "robust_side a b p1" "robust_side a b p2" "robust_side p1 p2 a" "robust_side p1 p2 b"
  shows "edge_crossed p1 p2 a b \<longleftrightarrow> properly_cross p1 p2 a b"
proof -
  have side: "side_of_line c d q GEOMETRY_TOLERANCE = (if 0 < signed_side c d q then LEFT else RIGHT)"
    if "robust_side c d q" for c d q
    using that by (auto simp: side_of_line_def robust_side_def Let_def GEOMETRY_TOLERANCE_def)
  have ne: "signed_side c d q \<noteq> 0" if "robust_side c d q" for c d q
    using that by (auto simp: robust_side_def GEOMETRY_TOLERANCE_def)
  have "edge_crossed p1 p2 a b \<longleftrightarrow> (0 < signed_side a b p1) \<noteq> (0 < signed_side a b p2) \<and>
      (0 < signed_side p1 p2 a) \<noteq> (0 < signed_side p1 p2 b)"
    using assms by (simp add: edge_crossed_def side Let_def)
  also have "\<dots> \<longleftrightarrow> properly_cross p1 p2 a b"
    using opposite_sides_cross [of a b p1 p2] cross_opposite_sides [of p1 p2 a b]
      cross_opposite_sides [OF properly_cross_sym, of p1 p2 a b] assms [THEN ne]
    by (auto simp: mult_le_0_iff not_less)
  finally show ?thesis .
qed


subsection \<open>The classification\<close>

lemma polyline_edges_two [simp]: "polyline_edges [a, b] = [(a, b)]"
  by (simp add: polyline_edges_def)

definition off_line :: "point2 \<Rightarrow> point2 list \<Rightarrow> bool" where
  "off_line p vertices = list_all (\<lambda>(a, b). GEOMETRY_TOLERANCE < distance_point_to_segment p a b) (polyline_edges vertices)"

lemma find_SomeD: "find P xs = Some x \<Longrightarrow> x \<in> set xs \<and> P x"
  by (auto simp: find_Some_iff)

lemma classify_crossing_off:
  "off_line p1 vertices \<Longrightarrow> off_line p2 vertices \<Longrightarrow> classify_crossing p1 p2 vertices directional =
     (case find (\<lambda>(a, b). edge_crossed p1 p2 a b) (polyline_edges vertices) of
        None \<Rightarrow> (NO_CROSSING, UNKNOWN) | Some (a, b) \<Rightarrow> (CROSSED, crossing_side p1 p2 a b directional))"
  by (fastforce simp: classify_crossing_def off_line_def list_ex_iff list_all_iff not_le)

lemma classify_crossing_crossed:
  assumes "classify_crossing p1 p2 vertices directional = (CROSSED, d)"
  obtains a b where "(a, b) \<in> set (polyline_edges vertices)" "edge_crossed p1 p2 a b"
    "d = crossing_side p1 p2 a b directional" "off_line p1 vertices" "off_line p2 vertices"
proof -
  from assms obtain e where e: "find (\<lambda>(a, b). edge_crossed p1 p2 a b) (polyline_edges vertices) = Some e"
    and d: "d = crossing_side p1 p2 (fst e) (snd e) directional"
    and off: "off_line p1 vertices" "off_line p2 vertices"
    by (fastforce simp: classify_crossing_def off_line_def list_ex_iff list_all_iff not_le split: if_splits option.splits)
  from find_SomeD [OF e] have "e \<in> set (polyline_edges vertices)" "edge_crossed p1 p2 (fst e) (snd e)"
    by auto
  with that [of "fst e" "snd e"] d off show thesis by simp
qed

text \<open>C7: when both positions are further than the tolerance from the line and no signed side involved is within the
  tolerance of zero, the engine reports \<open>CROSSED\<close> exactly when the movement and some edge of the line
  share a point strictly inside both.\<close>

theorem crossing_exact:
  assumes "off_line p1 vertices" "off_line p2 vertices"
    and "list_all (\<lambda>(a, b). robust_side a b p1 \<and> robust_side a b p2 \<and> robust_side p1 p2 a \<and> robust_side p1 p2 b)
      (polyline_edges vertices)"
  shows "fst (classify_crossing p1 p2 vertices directional) =
    (if list_ex (\<lambda>(a, b). properly_cross p1 p2 a b) (polyline_edges vertices) then CROSSED else NO_CROSSING)"
proof -
  have "edge_crossed p1 p2 a b \<longleftrightarrow> properly_cross p1 p2 a b" if "(a, b) \<in> set (polyline_edges vertices)" for a b
    using assms(3) that edge_crossed_iff [of a b p1 p2] unfolding list_all_iff by blast
  then have "find (\<lambda>(a, b). edge_crossed p1 p2 a b) (polyline_edges vertices) =
      find (\<lambda>(a, b). properly_cross p1 p2 a b) (polyline_edges vertices)"
    by (intro find_cong) auto
  then have c: "classify_crossing p1 p2 vertices directional =
     (case find (\<lambda>(a, b). properly_cross p1 p2 a b) (polyline_edges vertices) of
        None \<Rightarrow> (NO_CROSSING, UNKNOWN) | Some (a, b) \<Rightarrow> (CROSSED, crossing_side p1 p2 a b directional))"
    by (simp add: classify_crossing_off [OF assms(1,2)])
  show ?thesis
  proof (cases "find (\<lambda>(a, b). properly_cross p1 p2 a b) (polyline_edges vertices)")
    case None
    then have "\<not> list_ex (\<lambda>(a, b). properly_cross p1 p2 a b) (polyline_edges vertices)"
      unfolding find_None_iff list_ex_iff by blast
    with c None show ?thesis by simp
  next
    case (Some e)
    then have "list_ex (\<lambda>(a, b). properly_cross p1 p2 a b) (polyline_edges vertices)"
      unfolding list_ex_iff by (blast dest: find_SomeD)
    with c Some show ?thesis by (simp split: prod.splits)
  qed
qed

text \<open>A crossing reported \<open>FORWARD\<close> is real whatever the tolerance does: the movement starts strictly left of
  an edge, ends strictly right of it, and the two properly cross.\<close>

theorem forward_crossing_proper:
  assumes "classify_crossing p1 p2 vertices directional = (CROSSED, FORWARD)"
  shows "list_ex (\<lambda>(a, b). properly_cross p1 p2 a b \<and> GEOMETRY_TOLERANCE < signed_side a b p1 \<and>
      signed_side a b p2 < - GEOMETRY_TOLERANCE) (polyline_edges vertices) \<and> directional"
proof -
  from assms obtain a b where ab: "(a, b) \<in> set (polyline_edges vertices)" "edge_crossed p1 p2 a b"
    and f: "FORWARD = crossing_side p1 p2 a b directional" by (rule classify_crossing_crossed)
  from f have dir: directional and s: "GEOMETRY_TOLERANCE < signed_side a b p1" "signed_side a b p2 < - GEOMETRY_TOLERANCE"
    by (auto simp: crossing_side_def side_cases split: if_splits)
  have tol: "0 < GEOMETRY_TOLERANCE" by (simp add: GEOMETRY_TOLERANCE_def)
  have "side_of_line p1 p2 a GEOMETRY_TOLERANCE = LEFT \<and> side_of_line p1 p2 b GEOMETRY_TOLERANCE = RIGHT \<or>
      side_of_line p1 p2 a GEOMETRY_TOLERANCE = RIGHT \<and> side_of_line p1 p2 b GEOMETRY_TOLERANCE = LEFT"
    using ab(2) by (auto simp: edge_crossed_def Let_def split: if_splits) (metis line_side.exhaust)+
  then have "0 < signed_side p1 p2 a \<and> signed_side p1 p2 b < 0 \<or> signed_side p1 p2 a < 0 \<and> 0 < signed_side p1 p2 b"
    unfolding side_cases using tol by linarith
  with s tol have "properly_cross p1 p2 a b" by (intro opposite_sides_cross) auto
  with ab(1) s dir show ?thesis by (auto simp: list_ex_iff)
qed

lemma off_vertical:
  assumes "GEOMETRY_TOLERANCE < \<bar>x\<bar>"
  shows "off_line (x, y) [(0, b), (0, d)]"
  unfolding off_line_def
  by (auto intro!: far_from_segment hypot_gt simp: dist2_def along_def assms)

theorem crossing_exact_witness:
  "fst (classify_crossing (- 1, 1) (1, 1) [(0, 0), (0, 2)] True) = CROSSED"
  using crossing_exact [of "(- 1, 1)" "[(0, 0), (0, 2)]" "(1, 1)" True]
    opposite_sides_cross [of "(0, 0)" "(0, 2)" "(- 1, 1)" "(1, 1)"] off_vertical
  by (simp add: robust_side_def signed_side_def GEOMETRY_TOLERANCE_def)

lemma crossing_vertical:
  "classify_crossing (- 1, 1) (1, 1) [(0, 0), (0, 2)] True = (CROSSED, FORWARD)"
  by (subst classify_crossing_off)
    (auto simp: off_vertical GEOMETRY_TOLERANCE_def edge_crossed_def crossing_side_def side_of_line_def signed_side_def)

theorem forward_crossing_proper_witness:
  "properly_cross (- 1, 1) (1, 1) (0, 0) (0, 2)"
  using forward_crossing_proper [OF crossing_vertical] by simp

subsection \<open>The observation\<close>

lemma finite_spatial_point_Inr: "finite_spatial_point p = Inr q \<longleftrightarrow> sp_x p = Fin (fst q) \<and> sp_y p = Fin (snd q)"
  by (cases "(sp_x p, sp_y p)" rule: finite_point.cases) (auto simp: finite_spatial_point_def)

lemma build_line_crossing_Inr:
  "build_line_crossing inp outcome = Inr ob \<Longrightarrow> line_crossing_observation_valid ob \<and>
     lc_crossing_state ob = fst outcome \<and> lc_direction ob = snd outcome \<and>
     lc_track_id ob = to_track_id (li_current_track inp) \<and> lc_session_id ob = to_session_id (li_current_track inp) \<and>
     lc_line_profile_id ob = ent_profile_id (li_line inp)"
  by (auto simp: build_line_crossing_def Let_def split: if_splits)

text \<open>A transition is only ever reported between two different frames of one track of one session, not going
  back in time, for a line pinned in the published version; the reported state and direction are those of
  the classification of the two points against the vertices of that line, and the observation satisfies
  its contract.\<close>

theorem line_crossing_provenance:
  assumes "evaluate_line_crossing inp = Inr ob"
  shows "line_crossing_observation_valid ob \<and>
    cv_status (li_configuration inp) = PUBLISHED \<and> li_line inp \<in> set (cv_entrances (li_configuration inp)) \<and>
    to_track_id (li_previous_track inp) = lc_track_id ob \<and> to_track_id (li_current_track inp) = lc_track_id ob \<and>
    to_session_id (li_previous_track inp) = lc_session_id ob \<and>
    to_session_id (li_current_track inp) = lc_session_id ob \<and>
    to_frame_id (li_previous_track inp) \<noteq> to_frame_id (li_current_track inp) \<and>
    \<not> dt_less (to_event_time (li_current_track inp)) (to_event_time (li_previous_track inp)) \<and>
    (\<exists>p1 p2 vertices. sp_x (li_previous_point inp) = Fin (fst p1) \<and> sp_y (li_previous_point inp) = Fin (snd p1) \<and>
       sp_x (li_current_point inp) = Fin (fst p2) \<and> sp_y (li_current_point inp) = Fin (snd p2) \<and>
       validate_linestring (ent_geometry (li_line inp)) = Inr vertices \<and>
       (lc_crossing_state ob, lc_direction ob) =
         classify_crossing p1 p2 vertices (ent_direction (li_line inp) \<noteq> BIDIRECTIONAL))"
proof -
  have wrap: "wrap_geometry e m = Inr v \<longleftrightarrow> m = Inr v" for e :: spatial_error and m and v :: "point2 list"
    by (cases "(e, m)" rule: wrap_geometry.cases) auto
  from assms obtain camera p1 p2 vertices where
    f: "finite_spatial_point (li_previous_point inp) = Inr p1" "finite_spatial_point (li_current_point inp) = Inr p2"
    and v: "validate_linestring (ent_geometry (li_line inp)) = Inr vertices"
    and o: "build_line_crossing inp (classify_crossing p1 p2 vertices (ent_direction (li_line inp) \<noteq> BIDIRECTIONAL)) = Inr ob"
    and l: "find (\<lambda>e. ent_profile_id e = ent_profile_id (li_line inp)) (cv_entrances (li_configuration inp)) = Some (li_line inp)"
    and g: "cv_status (li_configuration inp) = PUBLISHED"
      "to_track_id (li_previous_track inp) = to_track_id (li_current_track inp)"
      "to_session_id (li_previous_track inp) = to_session_id (li_current_track inp)"
      "to_frame_id (li_current_track inp) \<noteq> to_frame_id (li_previous_track inp)"
      "\<not> dt_less (to_event_time (li_current_track inp)) (to_event_time (li_previous_track inp))"
    unfolding evaluate_line_crossing_def Let_def
    by (simp only: rbind_eq_Inr) (auto simp: wrap split: if_splits option.splits)
  from find_SomeD [OF l] f v g build_line_crossing_Inr [OF o] show ?thesis
    unfolding finite_spatial_point_Inr by (metis prod.collapse)
qed

subsection \<open>A concrete line\<close>

text \<open>An entrance whose threshold is a vertical segment of the given length, and a movement from left to right at
  half its height.\<close>

definition door :: "real \<Rightarrow> entrance" where
  "door len = \<lparr>ent_profile_id = ''door-1'', ent_name = ''Door'',
     ent_geometry = \<lparr>gm_geometry_id = ''door-1'', gm_geometry_type = LINESTRING,
       gm_coordinate_space = VENUE_LOCAL, gm_geometry_scope = VENUE,
       gm_coordinates = [[Fin 0, Fin 0], [Fin 0, Fin len]],
       gm_reference_camera_profile_id = None, gm_reference_width = None, gm_reference_height = None\<rparr>,
     ent_direction = ENTRANCE, ent_zone_profile_id = None, ent_camera_profiles = []\<rparr>"

definition door_input :: "real \<Rightarrow> real \<Rightarrow> real \<Rightarrow> line_crossing_input" where
  "door_input len x1 x2 = \<lparr>
     li_configuration = (venue_configuration [])\<lparr>cv_entrances := [door len]\<rparr>,
     li_previous_track = venue_track, li_current_track = venue_track\<lparr>to_frame_id := 15, to_event_time := utc_at 2\<rparr>,
     li_camera_id = 4, li_previous_point = venue_point\<lparr>sp_x := Fin x1, sp_y := Fin (len / 2)\<rparr>,
     li_current_point = venue_point\<lparr>sp_x := Fin x2, sp_y := Fin (len / 2)\<rparr>, li_line = door len\<rparr>"

lemma door_geometry:
  "geometry_model_valid (ent_geometry (door len))" "validate_linestring (ent_geometry (door len)) = Inr [(0, 0), (0, len)]"
  by (simp_all add: geometry_model_valid_def validate_coordinates_def validate_geometry_consistency_def
      ring_counts_ok_def validate_linestring_def require_finite_def door_def)

lemma door_evaluated:
  "\<exists>ob. evaluate_line_crossing (door_input len x1 x2) = Inr ob \<and>
    (lc_crossing_state ob, lc_direction ob) = classify_crossing (x1, len / 2) (x2, len / 2) [(0, 0), (0, len)] True"
proof -
  let ?inp = "door_input len x1 x2"
  let ?o = "classify_crossing (x1, len / 2) (x2, len / 2) [(0, 0), (0, len)] True"
  have "evaluate_line_crossing ?inp = build_line_crossing ?inp ?o"
    by (simp add: evaluate_line_crossing_def door_input_def validate_spatial_point_def validate_coordinate_def
        venue_point_def venue_configuration_def resolve_camera_def venue_camera_def venue_track_def dt_less_def
        utc_at_def assert_line_applies_to_camera_def door_geometry Let_def)
      (simp add: door_def finite_spatial_point_def)
  moreover have "\<exists>ob. build_line_crossing ?inp ?o = Inr ob"
    by (simp add: build_line_crossing_def line_crossing_observation_valid_def door_input_def venue_track_def
        dt_less_def utc_at_def aware_def door_def)
  ultimately show ?thesis using build_line_crossing_Inr by fastforce
qed

theorem line_crossing_provenance_witness:
  "\<exists>ob. evaluate_line_crossing (door_input 2 (- 1) 1) = Inr ob \<and> line_crossing_observation_valid ob \<and>
    lc_crossing_state ob = CROSSED \<and> lc_direction ob = FORWARD"
proof -
  obtain ob where ob: "evaluate_line_crossing (door_input 2 (- 1) 1) = Inr ob"
    and c: "(lc_crossing_state ob, lc_direction ob) = (CROSSED, FORWARD)"
    using door_evaluated [of 2 "- 1" 1] crossing_vertical by auto
  from line_crossing_provenance [OF ob] have "line_crossing_observation_valid ob" by blast
  with ob c show ?thesis by auto
qed

text \<open>The tolerance of the sided test bounds a cross product and not a distance, so on a threshold of a tenth of
  a millimetre the engine reports a \<open>CROSSED\<close> transition in direction \<open>REVERSE\<close> for a movement both of whose
  ends lie strictly right of the line, a thousand tolerances away from it, and which does not cross it.\<close>

theorem short_line_false_crossing:
  "(\<exists>ob. evaluate_line_crossing (door_input (1 / 10000) (1 / 1000000) 1) = Inr ob \<and>
     lc_crossing_state ob = CROSSED \<and> lc_direction ob = REVERSE) \<and>
   geometry_model_valid (ent_geometry (door (1 / 10000))) \<and>
   signed_side (0, 0) (0, 1 / 10000) (1 / 1000000, 1 / 20000) < 0 \<and>
   signed_side (0, 0) (0, 1 / 10000) (1, 1 / 20000) < 0 \<and>
   off_line (1 / 1000000, 1 / 20000) [(0, 0), (0, 1 / 10000)] \<and> off_line (1, 1 / 20000) [(0, 0), (0, 1 / 10000)] \<and>
   \<not> properly_cross (1 / 1000000, 1 / 20000) (1, 1 / 20000) (0, 0) (0, 1 / 10000)"
proof (intro conjI)
  have off: "off_line (1 / 1000000, 1 / 20000) [(0, 0), (0, 1 / 10000)]" "off_line (1, 1 / 20000) [(0, 0), (0, 1 / 10000)]"
    by (simp_all add: off_vertical GEOMETRY_TOLERANCE_def)
  then show "off_line (1 / 1000000, 1 / 20000) [(0, 0), (0, 1 / 10000)]" "off_line (1, 1 / 20000) [(0, 0), (0, 1 / 10000)]" .
  have "classify_crossing (1 / 1000000, 1 / 20000) (1, 1 / 20000) [(0, 0), (0, 1 / 10000)] True = (CROSSED, REVERSE)"
    using off by (subst classify_crossing_off)
      (auto simp: GEOMETRY_TOLERANCE_def edge_crossed_def crossing_side_def side_of_line_def signed_side_def)
  then show "\<exists>ob. evaluate_line_crossing (door_input (1 / 10000) (1 / 1000000) 1) = Inr ob \<and>
     lc_crossing_state ob = CROSSED \<and> lc_direction ob = REVERSE"
    using door_evaluated [of "1 / 10000" "1 / 1000000" 1] by auto
  show "geometry_model_valid (ent_geometry (door (1 / 10000)))" by (rule door_geometry)
  show sides: "signed_side (0, 0) (0, 1 / 10000) (1 / 1000000, 1 / 20000) < 0"
    "signed_side (0, 0) (0, 1 / 10000) (1, 1 / 20000) < 0" by (simp_all add: signed_side_def)
  show "\<not> properly_cross (1 / 1000000, 1 / 20000) (1, 1 / 20000) (0, 0) (0, 1 / 10000)"
    using cross_opposite_sides sides mult_neg_neg [OF sides] by (metis not_le)
qed

end
