(* ===== verification/Rules_Contracts.thy ===== *)
theory Rules_Contracts
  imports Temporal_Contracts
begin

text \<open>
  The contracts of the rule layer (\<open>contracts/rules/models.py\<close>) with the two event contracts it emits
  (\<open>contracts/events/envelope.py\<close>, \<open>contracts/events/evidence.py\<close>): rule definitions, the evaluation
  input and result, the typed payloads, the event envelope and the evidence reference, each with the
  validators pydantic runs when one is constructed.
\<close>

subsection \<open>Errors\<close>

text \<open>The exceptions of \<open>rules/exceptions.py\<close>; \<open>ContractError\<close> is pydantic's, which is not a \<open>RuleError\<close>.\<close>

datatype rule_error =
    UnknownRule
  | UnsupportedRuleVersion
  | InvalidRuleDefinition
  | DuplicateRuleError
  | UnsupportedEvaluator
  | UnsupportedDeterministicVersion
  | MixedScopeRuleInput
  | DuplicateEvaluator
  | InvalidRuleEvaluation
  | RuleEvaluationExecution
  | InvalidRuleInput
  | MissingRuleConfiguration
  | RuleConfigurationMismatch
  | UnsupportedFactType
  | InvalidEvidenceRequest
  | ContractError string

fun is_rule_error :: "rule_error \<Rightarrow> bool" where
  "is_rule_error (ContractError _) = False"
| "is_rule_error _ = True"

definition validated :: "string \<Rightarrow> ('a \<Rightarrow> bool) \<Rightarrow> 'a \<Rightarrow> rule_error + 'a" where
  "validated cls valid x = (if valid x then Inr x else Inl (ContractError cls))"

lemma validated_eq_Inr [simp]: "validated cls valid x = Inr y \<longleftrightarrow> valid x \<and> y = x"
  by (auto simp: validated_def)

subsection \<open>Controlled vocabularies\<close>

datatype rule_event_type =
    OCCUPANCY_SESSION
  | DWELL_THRESHOLD
  | QUEUE_CANDIDATE
  | SERVICE_GAP_CANDIDATE
  | TURNOVER_DELAY
  | DATA_QUALITY

text \<open>\<open>RuleIdentifier\<close> and \<open>RuleEventType\<close> have the same members and the same values.\<close>

fun event_type_value :: "rule_event_type \<Rightarrow> string" where
  "event_type_value OCCUPANCY_SESSION = ''occupancy_session''"
| "event_type_value DWELL_THRESHOLD = ''dwell_threshold''"
| "event_type_value QUEUE_CANDIDATE = ''queue_candidate''"
| "event_type_value SERVICE_GAP_CANDIDATE = ''service_gap_candidate''"
| "event_type_value TURNOVER_DELAY = ''turnover_delay''"
| "event_type_value DATA_QUALITY = ''data_quality''"

datatype fact_type =
    TEMPORAL_TRANSITION
  | DWELL_INTERVAL
  | OCCUPANCY_SNAPSHOT
  | MOVEMENT_MEASUREMENT
  | MOVEMENT_CLASSIFICATION_TRANSITION
  | WAITING_INTERVAL

datatype temporal_fact =
    TransitionFact temporal_transition
  | DwellFact dwell_interval
  | SnapshotFact occupancy_snapshot
  | MeasurementFact movement_measurement
  | ClassificationFact movement_classification_transition
  | WaitingFact waiting_interval

fun fact_type_of :: "temporal_fact \<Rightarrow> fact_type" where
  "fact_type_of (TransitionFact _) = TEMPORAL_TRANSITION"
| "fact_type_of (DwellFact _) = DWELL_INTERVAL"
| "fact_type_of (SnapshotFact _) = OCCUPANCY_SNAPSHOT"
| "fact_type_of (MeasurementFact _) = MOVEMENT_MEASUREMENT"
| "fact_type_of (ClassificationFact _) = MOVEMENT_CLASSIFICATION_TRANSITION"
| "fact_type_of (WaitingFact _) = WAITING_INTERVAL"

fun fact_key :: "temporal_fact \<Rightarrow> temporal_state_key" where
  "fact_key (TransitionFact t) = tt_key t"
| "fact_key (DwellFact d) = di_key d"
| "fact_key (SnapshotFact s) = sn_key s"
| "fact_key (MeasurementFact m) = mm_key m"
| "fact_key (ClassificationFact c) = ct_key c"
| "fact_key (WaitingFact w) = wi_key w"

datatype evidence_requirement = EVIDENCE_NONE | EVIDENCE_OPTIONAL | EVIDENCE_REQUIRED

subsection \<open>Versions\<close>

text \<open>Digit groups separated by single dots: \<open>[0-9]+(?:\.[0-9]+)*\<close>.\<close>

definition is_digit :: "char \<Rightarrow> bool" where
  "is_digit c = (48 \<le> (of_char c :: nat) \<and> (of_char c :: nat) \<le> 57)"

fun digit_groups :: "bool \<Rightarrow> string \<Rightarrow> bool" where
  "digit_groups seen [] = seen"
| "digit_groups seen (c # cs) =
     (if is_digit c then digit_groups True cs
      else if c = CHR ''.'' \<and> seen then digit_groups False cs
      else False)"

fun validate_rule_version :: "string \<Rightarrow> bool" where
  "validate_rule_version [] = False"
| "validate_rule_version (c # cs) = (c = CHR ''v'' \<and> digit_groups False cs)"

text \<open>Python's \<open>str.isspace\<close> on the first 256 code points, and \<open>not s.strip()\<close>.\<close>

definition is_space :: "char \<Rightarrow> bool" where
  "is_space c = (let n = (of_char c :: nat) in 9 \<le> n \<and> n \<le> 13 \<or> 28 \<le> n \<and> n \<le> 32 \<or> n = 133 \<or> n = 160)"

definition blank :: "string \<Rightarrow> bool" where
  "blank s = list_all is_space s"

subsection \<open>Definitions\<close>

record cooldown_policy =
  cd_enabled :: bool
  cd_duration_seconds :: real

definition cooldown_policy_valid :: "cooldown_policy \<Rightarrow> bool" where
  "cooldown_policy_valid c =
     (0 \<le> cd_duration_seconds c \<and> \<not> (cd_enabled c \<and> cd_duration_seconds c \<le> 0))"

record rule_definition =
  rd_schema_version :: string
  rd_rule_id :: string
  rd_rule_version :: string
  rd_rule_name :: string
  rd_description :: string
  rd_enabled :: bool
  rd_input_fact_types :: "fact_type set"
  rd_configuration_requirements :: "string set"
  rd_evaluator_id :: string
  rd_output_event_type :: rule_event_type
  rd_evidence_requirement :: evidence_requirement
  rd_cooldown_policy :: cooldown_policy
  rd_deterministic_version :: string

definition rule_definition_valid :: "rule_definition \<Rightarrow> bool" where
  "rule_definition_valid r =
     (validate_schema_version (rd_schema_version r) \<and> validate_rule_version (rd_rule_version r) \<and>
      rd_input_fact_types r \<noteq> {} \<and> rd_deterministic_version r \<noteq> '''' \<and>
      cooldown_policy_valid (rd_cooldown_policy r) \<and>
      \<not> blank (rd_rule_id r) \<and> \<not> blank (rd_rule_name r) \<and> \<not> blank (rd_description r) \<and>
      \<not> blank (rd_evaluator_id r))"

definition rule_identity :: "string \<Rightarrow> string \<Rightarrow> string" where
  "rule_identity rule_id rule_version = rule_id @ '':'' @ rule_version"

subsection \<open>Evaluation input\<close>

text \<open>
  The values of a configuration snapshot as the evaluators look at them: what \<open>float\<close> and \<open>list\<close> of the
  value give. A Boolean behaves like the number 0 or 1, an object like the list of its keys.
\<close>

datatype config_value =
    ConfNull
  | ConfNumber pyfloat
  | ConfString string
  | ConfList "config_value list"
  | ConfObject "string list"

record rule_evaluation_input =
  ri_schema_version :: string
  ri_facts :: "temporal_fact list"
  ri_configuration :: "string \<rightharpoonup> config_value"
  ri_configuration_version_id :: uuid
  ri_rule_version :: string
  ri_event_time :: datetime
  ri_processing_time :: "datetime option"

definition rule_evaluation_input_valid :: "rule_evaluation_input \<Rightarrow> bool" where
  "rule_evaluation_input_valid i =
     (validate_schema_version (ri_schema_version i) \<and> validate_rule_version (ri_rule_version i) \<and>
      aware (ri_event_time i) \<and> validate_utc_opt (ri_processing_time i) \<and> ri_facts i \<noteq> [])"

subsection \<open>Payloads\<close>

datatype occupancy_session_phase = STARTED | ENDED

datatype data_quality_severity = SEVERITY_INFO | SEVERITY_WARNING | SEVERITY_ERROR | SEVERITY_CRITICAL

record occupancy_session_payload =
  op_phase :: occupancy_session_phase
  op_tenant_id :: uuid
  op_venue_id :: uuid
  op_session_id :: uuid
  op_camera_id :: uuid
  op_spatial_context_id :: "string option"
  op_occupancy_count :: int
  op_occupied_tracks :: "uuid list"
  op_occupancy_time :: datetime
  op_configuration_version_id :: uuid
  op_rule_id :: string
  op_rule_version :: string

record dwell_threshold_payload =
  dp_interval_id :: uuid
  dp_tenant_id :: uuid
  dp_venue_id :: uuid
  dp_session_id :: uuid
  dp_camera_id :: uuid
  dp_spatial_context_id :: "string option"
  dp_dwell_start_time :: datetime
  dp_threshold_crossing_time :: datetime
  dp_dwell_duration :: real
  dp_threshold_seconds :: pyfloat
  dp_configuration_version_id :: uuid
  dp_rule_id :: string
  dp_rule_version :: string

record queue_candidate_payload =
  qp_interval_id :: uuid
  qp_tenant_id :: uuid
  qp_venue_id :: uuid
  qp_session_id :: uuid
  qp_camera_id :: uuid
  qp_track_id :: uuid
  qp_spatial_context_id :: "string option"
  qp_waiting_start_time :: datetime
  qp_qualification_time :: datetime
  qp_waiting_duration :: real
  qp_threshold_seconds :: pyfloat
  qp_configuration_version_id :: uuid
  qp_rule_id :: string
  qp_rule_version :: string

record service_gap_payload =
  gp_interval_id :: uuid
  gp_tenant_id :: uuid
  gp_venue_id :: uuid
  gp_session_id :: uuid
  gp_camera_id :: uuid
  gp_track_id :: uuid
  gp_service_area_id :: "string option"
  gp_gap_start_time :: datetime
  gp_qualification_time :: datetime
  gp_gap_duration :: real
  gp_threshold_seconds :: pyfloat
  gp_configuration_version_id :: uuid
  gp_rule_id :: string
  gp_rule_version :: string

record turnover_delay_payload =
  tp_interval_id :: uuid
  tp_tenant_id :: uuid
  tp_venue_id :: uuid
  tp_session_id :: uuid
  tp_camera_id :: uuid
  tp_track_id :: uuid
  tp_spatial_context_id :: "string option"
  tp_turnover_start_time :: datetime
  tp_threshold_crossing_time :: datetime
  tp_turnover_duration :: real
  tp_service_window_seconds :: pyfloat
  tp_threshold_seconds :: pyfloat
  tp_configuration_version_id :: uuid
  tp_rule_id :: string
  tp_rule_version :: string

record quality_finding =
  qf_quality_code :: string
  qf_severity :: data_quality_severity
  qf_description :: string
  qf_affected_fact_type :: string
  qf_affected_fact_id :: string
  qf_check_version :: string

record data_quality_payload =
  ip_findings :: "quality_finding list"
  ip_primary_quality_code :: string
  ip_primary_severity :: data_quality_severity
  ip_affected_fact_type :: string
  ip_affected_fact_id :: string
  ip_tenant_id :: uuid
  ip_venue_id :: uuid
  ip_session_id :: uuid
  ip_camera_id :: "uuid option"
  ip_track_id :: "uuid option"
  ip_spatial_context_id :: "string option"
  ip_event_time :: datetime
  ip_configuration_version_id :: uuid
  ip_rule_id :: string
  ip_rule_version :: string

datatype rule_payload =
    OccupancySessionPayload occupancy_session_payload
  | DwellThresholdPayload dwell_threshold_payload
  | QueueCandidatePayload queue_candidate_payload
  | ServiceGapPayload service_gap_payload
  | TurnoverDelayPayload turnover_delay_payload
  | DataQualityPayload data_quality_payload

text \<open>The field constraints and validators of the payload classes.\<close>

definition quality_finding_valid :: "quality_finding \<Rightarrow> bool" where
  "quality_finding_valid f = (qf_quality_code f \<noteq> '''' \<and> qf_description f \<noteq> '''' \<and>
     qf_affected_fact_type f \<noteq> '''' \<and> qf_affected_fact_id f \<noteq> '''' \<and> qf_check_version f \<noteq> '''')"

fun payload_valid :: "rule_payload \<Rightarrow> bool" where
  "payload_valid (OccupancySessionPayload p) = (0 \<le> op_occupancy_count p \<and> aware (op_occupancy_time p))"
| "payload_valid (DwellThresholdPayload p) = (0 \<le> dp_dwell_duration p \<and> float_gt (dp_threshold_seconds p) 0 \<and>
     aware (dp_dwell_start_time p) \<and> aware (dp_threshold_crossing_time p))"
| "payload_valid (QueueCandidatePayload p) = (0 \<le> qp_waiting_duration p \<and> float_gt (qp_threshold_seconds p) 0 \<and>
     aware (qp_waiting_start_time p) \<and> aware (qp_qualification_time p))"
| "payload_valid (ServiceGapPayload p) = (0 \<le> gp_gap_duration p \<and> float_gt (gp_threshold_seconds p) 0 \<and>
     aware (gp_gap_start_time p) \<and> aware (gp_qualification_time p))"
| "payload_valid (TurnoverDelayPayload p) = (0 \<le> tp_turnover_duration p \<and>
     float_nonneg (tp_service_window_seconds p) \<and> float_gt (tp_threshold_seconds p) 0 \<and>
     aware (tp_turnover_start_time p) \<and> aware (tp_threshold_crossing_time p))"
| "payload_valid (DataQualityPayload p) = (ip_findings p \<noteq> [] \<and> list_all quality_finding_valid (ip_findings p) \<and>
     ip_primary_quality_code p \<noteq> '''' \<and> ip_affected_fact_type p \<noteq> '''' \<and> ip_affected_fact_id p \<noteq> '''' \<and>
     aware (ip_event_time p))"

subsection \<open>Events and evidence\<close>

text \<open>The optional trace fields of the envelope are never set by the rule layer and left out.\<close>

record event_envelope =
  ee_event_id :: uuid
  ee_event_type :: string
  ee_schema_version :: string
  ee_event_time :: datetime
  ee_produced_at :: datetime
  ee_correlation_id :: "string option"
  ee_causation_id :: "string option"
  ee_source :: string
  ee_payload :: rule_payload

definition event_envelope_valid :: "event_envelope \<Rightarrow> bool" where
  "event_envelope_valid e =
     (ee_event_type e \<noteq> '''' \<and> ee_source e \<noteq> '''' \<and> validate_schema_version (ee_schema_version e) \<and>
      aware (ee_event_time e) \<and> aware (ee_produced_at e))"

datatype evidence_type = FRAME | IMAGE | VIDEO_CLIP | OBJECT_STORAGE | ANALYTICAL_ARTIFACT

definition media_evidence_types :: "evidence_type set" where
  "media_evidence_types = {FRAME, IMAGE, VIDEO_CLIP}"

text \<open>\<open>re.match\<close> with a final \<open>$\<close> also accepts one newline after the version.\<close>

definition evidence_rule_version_ok :: "string \<Rightarrow> bool" where
  "evidence_rule_version_ok s =
     (validate_rule_version s \<or> s \<noteq> [] \<and> last s = CHR 0x0A \<and> validate_rule_version (butlast s))"

record evidence_ref =
  ev_ref_id :: uuid
  ev_schema_version :: string
  ev_ref_type :: evidence_type
  ev_ref_uri :: string
  ev_event_id :: uuid
  ev_event_time :: datetime
  ev_tenant_id :: "uuid option"
  ev_venue_id :: "uuid option"
  ev_video_asset_id :: "uuid option"
  ev_video_session_id :: "uuid option"
  ev_camera_id :: "uuid option"
  ev_start_time :: "datetime option"
  ev_end_time :: "datetime option"
  ev_start_frame :: "int option"
  ev_end_frame :: "int option"
  ev_configuration_version_id :: "uuid option"
  ev_detector_version :: "string option"
  ev_tracker_version :: "string option"
  ev_rule_id :: "string option"
  ev_rule_version :: "string option"
  ev_checksum :: "string option"
  ev_created_at :: "datetime option"
  ev_metadata :: "(string \<times> string option) list"

definition validate_evidence_chain :: "evidence_ref \<Rightarrow> bool" where
  "validate_evidence_chain r =
     (if ev_venue_id r \<noteq> None \<and> ev_tenant_id r = None then False
      else if (case (ev_start_time r, ev_end_time r) of (Some s, Some e) \<Rightarrow> dt_less e s | _ \<Rightarrow> False) then False
      else if (case (ev_start_frame r, ev_end_frame r) of (Some s, Some e) \<Rightarrow> e < s | _ \<Rightarrow> False) then False
      else if ev_ref_type r \<in> media_evidence_types \<and>
        \<not> (ev_video_asset_id r \<noteq> None \<or> ev_video_session_id r \<noteq> None \<or> ev_camera_id r \<noteq> None) then False
      else \<not> (ev_rule_id r \<noteq> None \<and> (ev_configuration_version_id r = None \<or> ev_rule_version r = None)))"

definition is_hex :: "char \<Rightarrow> bool" where
  "is_hex c = (is_digit c \<or> 97 \<le> (of_char c :: nat) \<and> (of_char c :: nat) \<le> 102)"

definition to_lower :: "char \<Rightarrow> char" where
  "to_lower c = (let n = (of_char c :: nat) in if 65 \<le> n \<and> n \<le> 90 then char_of (n + 32) else c)"

text \<open>Detector and tracker versions: dotted digit groups, then an optional suffix after \<open>-\<close> or \<open>+\<close>.\<close>

definition is_suffix_char :: "char \<Rightarrow> bool" where
  "is_suffix_char c = (is_digit c \<or> (let n = (of_char c :: nat) in 65 \<le> n \<and> n \<le> 90 \<or> 97 \<le> n \<and> n \<le> 122) \<or>
     c = CHR ''.'' \<or> c = CHR ''-'')"

fun component_groups :: "bool \<Rightarrow> string \<Rightarrow> bool" where
  "component_groups seen [] = seen"
| "component_groups seen (c # cs) =
     (if is_digit c then component_groups True cs
      else if c = CHR ''.'' \<and> seen then component_groups False cs
      else (c = CHR ''-'' \<or> c = CHR ''+'') \<and> seen \<and> cs \<noteq> [] \<and> list_all is_suffix_char cs)"

definition component_version_ok :: "string \<Rightarrow> bool" where
  "component_version_ok s =
     (component_groups False s \<or> s \<noteq> [] \<and> last s = CHR 0x0A \<and> component_groups False (butlast s))"

definition checksum_ok :: "string \<Rightarrow> bool" where
  "checksum_ok s = (length s = 64 \<and> list_all (\<lambda>c. is_hex (to_lower c)) s)"

definition evidence_ref_valid :: "evidence_ref \<Rightarrow> bool" where
  "evidence_ref_valid r =
     (validate_schema_version (ev_schema_version r) \<and> ev_ref_uri r \<noteq> '''' \<and> aware (ev_event_time r) \<and>
      validate_utc_opt (ev_start_time r) \<and> validate_utc_opt (ev_end_time r) \<and> validate_utc_opt (ev_created_at r) \<and>
      pred_option (\<lambda>n. 0 \<le> n) (ev_start_frame r) \<and> pred_option (\<lambda>n. 0 \<le> n) (ev_end_frame r) \<and>
      pred_option checksum_ok (ev_checksum r) \<and> pred_option evidence_rule_version_ok (ev_rule_version r) \<and>
      pred_option component_version_ok (ev_detector_version r) \<and>
      pred_option component_version_ok (ev_tracker_version r) \<and> validate_evidence_chain r)"

subsection \<open>Evaluation result\<close>

datatype rule_evaluation_status = NO_MATCH | MATCH | SUPPRESSED | INVALID

record rule_evaluation_result =
  rr_schema_version :: string
  rr_rule_id :: string
  rr_rule_version :: string
  rr_status :: rule_evaluation_status
  rr_event_time :: datetime
  rr_configuration_version_id :: uuid
  rr_event :: "event_envelope option"
  rr_evidence_requests :: "evidence_ref list"
  rr_tenant_id :: "uuid option"
  rr_venue_id :: "uuid option"
  rr_session_id :: "uuid option"
  rr_reason :: "string option"

definition rule_evaluation_result_valid :: "rule_evaluation_result \<Rightarrow> bool" where
  "rule_evaluation_result_valid r =
     (validate_schema_version (rr_schema_version r) \<and> validate_rule_version (rr_rule_version r) \<and>
      aware (rr_event_time r) \<and>
      (if rr_status r = MATCH then rr_event r \<noteq> None else rr_event r = None) \<and>
      (rr_status r = INVALID \<longrightarrow> rr_reason r \<noteq> None \<and> rr_reason r \<noteq> Some ''''))"

end
