(* ===== verification/Rule_Engine.thy ===== *)
theory Rule_Engine
  imports Rules_Contracts
begin

text \<open>
  The rule registry, the evaluator registry and the evaluation engine (\<open>rules/registry.py\<close>,
  \<open>rules/evaluator.py\<close>, \<open>rules/engine.py\<close>). A registry is the insertion-ordered content of its dict;
  an evaluator is a function that may raise. The telemetry of step 11 is not modelled.
\<close>

subsection \<open>The rule registry\<close>

type_synonym rule_key = "string \<times> string"

record rule_registry =
  rg_rules :: "(rule_key \<times> rule_definition) list"
  rg_supported_evaluators :: "string set"
  rg_supported_deterministic_versions :: "string set"

definition new_registry :: "string set \<Rightarrow> rule_registry" where
  "new_registry evaluators = \<lparr>rg_rules = [], rg_supported_evaluators = evaluators,
     rg_supported_deterministic_versions = {TEMPORAL_ENGINE_VERSION}\<rparr>"

definition validate_definition :: "rule_registry \<Rightarrow> rule_definition \<Rightarrow> rule_error + unit" where
  "validate_definition g rule =
     (if blank (rd_rule_id rule) then Inl InvalidRuleDefinition
      else if blank (rd_rule_name rule) then Inl InvalidRuleDefinition
      else if blank (rd_description rule) then Inl InvalidRuleDefinition
      else if blank (rd_evaluator_id rule) then Inl InvalidRuleDefinition
      else if rd_input_fact_types rule = {} then Inl InvalidRuleDefinition
      else if rd_deterministic_version rule \<notin> rg_supported_deterministic_versions g
      then Inl UnsupportedDeterministicVersion
      else if rd_evaluator_id rule \<notin> rg_supported_evaluators g then Inl UnsupportedEvaluator
      else Inr ())"

definition registry_get :: "rule_registry \<Rightarrow> string \<Rightarrow> string \<Rightarrow> rule_definition option" where
  "registry_get g rule_id version = map_of (rg_rules g) (rule_id, version)"

definition registry_has :: "rule_registry \<Rightarrow> string \<Rightarrow> string \<Rightarrow> bool" where
  "registry_has g rule_id version = (registry_get g rule_id version \<noteq> None)"

definition register :: "rule_registry \<Rightarrow> rule_definition \<Rightarrow> rule_error + rule_registry" where
  "register g rule = rbind (validate_definition g rule) (\<lambda>_.
     if registry_has g (rd_rule_id rule) (rd_rule_version rule) then Inl DuplicateRuleError
     else Inr (g\<lparr>rg_rules := rg_rules g @ [((rd_rule_id rule, rd_rule_version rule), rule)]\<rparr>))"

definition registry_list :: "rule_registry \<Rightarrow> rule_definition list" where
  "registry_list g = map snd (sort_key fst (rg_rules g))"

definition registry_resolve :: "rule_registry \<Rightarrow> string \<Rightarrow> string \<Rightarrow> rule_error + rule_definition" where
  "registry_resolve g rule_id version =
     (case registry_get g rule_id version of
        Some rule \<Rightarrow> Inr rule
      | None \<Rightarrow> if list_ex (\<lambda>(key, _). fst key = rule_id) (rg_rules g) then Inl UnsupportedRuleVersion
                else Inl UnknownRule)"

text \<open>The report of \<open>validate\<close>: the identities of the definitions that no longer pass, with the error.\<close>

definition registry_validate :: "rule_registry \<Rightarrow> (string \<times> rule_error) list" where
  "registry_validate g = concat (map (\<lambda>rule. case validate_definition g rule of
       Inl e \<Rightarrow> [(rule_identity (rd_rule_id rule) (rd_rule_version rule), e)] | Inr _ \<Rightarrow> []) (registry_list g))"

type_synonym scope = "uuid \<times> uuid \<times> uuid"

definition scope_of :: "temporal_fact \<Rightarrow> scope" where
  "scope_of item = (key_tenant_id (fact_key item), key_venue_id (fact_key item), key_session_id (fact_key item))"

fun check_facts :: "rule_definition \<Rightarrow> scope option \<Rightarrow> temporal_fact list \<Rightarrow> rule_error + unit" where
  "check_facts rule scope [] = Inr ()"
| "check_facts rule scope (item # facts) =
     (if fact_type_of item \<notin> rd_input_fact_types rule then Inl UnsupportedFactType
      else if scope = None then check_facts rule (Some (scope_of item)) facts
      else if scope \<noteq> Some (scope_of item) then Inl MixedScopeRuleInput
      else check_facts rule scope facts)"

definition validate_input :: "rule_definition \<Rightarrow> rule_evaluation_input \<Rightarrow> rule_error + unit" where
  "validate_input rule inp =
     (if ri_rule_version inp \<noteq> rd_rule_version rule then Inl RuleConfigurationMismatch
      else if \<not> rd_configuration_requirements rule \<subseteq> dom (ri_configuration inp) then Inl MissingRuleConfiguration
      else check_facts rule None (ri_facts inp))"

subsection \<open>Deterministic identities\<close>

definition primary_key :: "rule_evaluation_input \<Rightarrow> temporal_state_key" where
  "primary_key inp = fact_key (hd (ri_facts inp))"

definition event_identity :: "stdlib \<Rightarrow> rule_definition \<Rightarrow> rule_evaluation_input \<Rightarrow> datetime \<Rightarrow> string \<Rightarrow> string" where
  "event_identity L rule inp event_time event_type =
     (let key = primary_key inp in ''rule_event|'' @ join_str ''|''
       [str_uuid (key_tenant_id key), str_uuid (key_venue_id key), str_uuid (key_session_id key),
        str_uuid (key_camera_id key), str_uuid (key_track_id key),
        (case key_semantic_context key of None \<Rightarrow> '''' | Some c \<Rightarrow> c),
        rd_rule_id rule, rd_rule_version rule, event_type, std_isoformat L event_time,
        str_uuid (ri_configuration_version_id inp)])"

definition deterministic_event_id :: "stdlib \<Rightarrow> rule_definition \<Rightarrow> rule_evaluation_input \<Rightarrow> datetime \<Rightarrow>
    string \<Rightarrow> uuid" where
  "deterministic_event_id L rule inp event_time event_type =
     std_uuid5 L TEMPORAL_ID_NAMESPACE (event_identity L rule inp event_time event_type)"

definition EVIDENCE_ID_PREFIX :: string where
  "EVIDENCE_ID_PREFIX = ''rule_evidence|''"

definition evidence_id :: "stdlib \<Rightarrow> uuid \<Rightarrow> uuid \<Rightarrow> uuid" where
  "evidence_id L event_id session_id =
     std_uuid5 L TEMPORAL_ID_NAMESPACE (EVIDENCE_ID_PREFIX @ str_uuid event_id @ ''|'' @ str_uuid session_id)"

definition evidence_uri :: "uuid \<Rightarrow> uuid \<Rightarrow> string \<Rightarrow> string" where
  "evidence_uri tenant_id session_id rule_id =
     ''s3://evidence/'' @ str_uuid tenant_id @ ''/'' @ str_uuid session_id @ ''/rule/'' @ rule_id"

definition deterministic_evidence_ref :: "stdlib \<Rightarrow> rule_definition \<Rightarrow> rule_evaluation_input \<Rightarrow> uuid \<Rightarrow>
    rule_error + evidence_ref" where
  "deterministic_evidence_ref L rule inp event_id =
     (let key = primary_key inp in validated ''EvidenceRef'' evidence_ref_valid
       \<lparr>ev_ref_id = evidence_id L event_id (key_session_id key), ev_schema_version = SCHEMA_VERSION,
        ev_ref_type = VIDEO_CLIP, ev_ref_uri = evidence_uri (key_tenant_id key) (key_session_id key) (rd_rule_id rule),
        ev_event_id = event_id, ev_event_time = ri_event_time inp,
        ev_tenant_id = Some (key_tenant_id key), ev_venue_id = Some (key_venue_id key),
        ev_video_asset_id = None, ev_video_session_id = Some (key_session_id key),
        ev_camera_id = Some (key_camera_id key), ev_start_time = None, ev_end_time = None,
        ev_start_frame = None, ev_end_frame = None,
        ev_configuration_version_id = Some (ri_configuration_version_id inp),
        ev_detector_version = None, ev_tracker_version = None,
        ev_rule_id = Some (rd_rule_id rule), ev_rule_version = Some (rd_rule_version rule),
        ev_checksum = None, ev_created_at = None,
        ev_metadata =
          [(''tenant_id'', Some (str_uuid (key_tenant_id key))), (''venue_id'', Some (str_uuid (key_venue_id key))),
           (''session_id'', Some (str_uuid (key_session_id key))), (''camera_id'', Some (str_uuid (key_camera_id key))),
           (''track_id'', Some (str_uuid (key_track_id key))), (''semantic_context'', key_semantic_context key),
           (''event_time'', Some (std_isoformat L (ri_event_time inp))),
           (''source'', Some (''rule:'' @ rule_identity (rd_rule_id rule) (rd_rule_version rule))),
           (''configuration_version_id'', Some (str_uuid (ri_configuration_version_id inp))),
           (''rule_id'', Some (rd_rule_id rule)), (''rule_version'', Some (rd_rule_version rule)),
           (''event_id'', Some (str_uuid event_id))]\<rparr>)"

subsection \<open>The evaluator registry\<close>

type_synonym rule_evaluator = "rule_definition \<Rightarrow> rule_evaluation_input \<Rightarrow> rule_error + rule_evaluation_result"

type_synonym evaluator_registry = "(string \<times> rule_evaluator) list"

definition register_evaluator :: "evaluator_registry \<Rightarrow> string \<times> rule_evaluator \<Rightarrow> rule_error + evaluator_registry" where
  "register_evaluator g e =
     (if blank (fst e) then Inl DuplicateEvaluator
      else if map_of g (fst e) \<noteq> None then Inl DuplicateEvaluator
      else Inr (g @ [e]))"

definition evaluator_list :: "evaluator_registry \<Rightarrow> rule_evaluator list" where
  "evaluator_list g = map snd (sort_key fst g)"

definition resolve_evaluator :: "evaluator_registry \<Rightarrow> string \<Rightarrow> rule_error + rule_evaluator" where
  "resolve_evaluator g evaluator_id =
     (case map_of g evaluator_id of None \<Rightarrow> Inl UnsupportedEvaluator | Some e \<Rightarrow> Inr e)"

subsection \<open>The engine\<close>

definition input_scope :: "rule_evaluation_input \<Rightarrow> scope" where
  "input_scope inp = scope_of (hd (ri_facts inp))"

definition execute_evaluator :: "rule_evaluator \<Rightarrow> rule_definition \<Rightarrow> rule_evaluation_input \<Rightarrow>
    rule_error + rule_evaluation_result" where
  "execute_evaluator f rule inp =
     (case f rule inp of
        Inr r \<Rightarrow> Inr r
      | Inl e \<Rightarrow> if is_rule_error e then Inl e else Inl RuleEvaluationExecution)"

definition validate_provenance :: "rule_evaluation_result \<Rightarrow> scope \<Rightarrow> rule_error + unit" where
  "validate_provenance r s =
     (let (tenant, venue, session) = s in
      if rr_tenant_id r \<noteq> None \<and> rr_tenant_id r \<noteq> Some tenant then Inl InvalidRuleEvaluation
      else if rr_venue_id r \<noteq> None \<and> rr_venue_id r \<noteq> Some venue then Inl InvalidRuleEvaluation
      else if rr_session_id r \<noteq> None \<and> rr_session_id r \<noteq> Some session then Inl InvalidRuleEvaluation
      else if rr_status r = MATCH \<and> (rr_tenant_id r = None \<or> rr_venue_id r = None \<or> rr_session_id r = None)
      then Inl InvalidRuleEvaluation
      else Inr ())"

definition validate_match :: "stdlib \<Rightarrow> rule_definition \<Rightarrow> rule_evaluation_input \<Rightarrow> rule_evaluation_result \<Rightarrow>
    rule_error + unit" where
  "validate_match L rule inp r =
     (case rr_event r of
        None \<Rightarrow> Inl InvalidRuleEvaluation
      | Some event \<Rightarrow>
          if ee_event_type event \<noteq> event_type_value (rd_output_event_type rule) then Inl InvalidRuleEvaluation
          else if ee_event_id event \<noteq> deterministic_event_id L rule inp (ri_event_time inp)
              (event_type_value (rd_output_event_type rule)) then Inl InvalidRuleEvaluation
          else if \<not> dt_eq (ee_event_time event) (ri_event_time inp) then Inl InvalidRuleEvaluation
          else Inr ())"

definition validate_rule_result :: "stdlib \<Rightarrow> rule_definition \<Rightarrow> rule_evaluation_input \<Rightarrow> rule_evaluation_result \<Rightarrow>
    rule_error + unit" where
  "validate_rule_result L rule inp r =
     (if rr_rule_id r \<noteq> rd_rule_id rule \<or> rr_rule_version r \<noteq> rd_rule_version rule then Inl InvalidRuleEvaluation
      else if rr_configuration_version_id r \<noteq> ri_configuration_version_id inp then Inl InvalidRuleEvaluation
      else if \<not> dt_eq (rr_event_time r) (ri_event_time inp) then Inl InvalidRuleEvaluation
      else rbind (validate_provenance r (input_scope inp)) (\<lambda>_.
        if rr_status r = MATCH then validate_match L rule inp r
        else if rr_status r = NO_MATCH \<or> rr_status r = SUPPRESSED then
          ensure (rr_event r = None) InvalidRuleEvaluation
        else ensure (rr_reason r \<noteq> None \<and> rr_reason r \<noteq> Some '''') InvalidRuleEvaluation))"

definition apply_evidence_policy :: "stdlib \<Rightarrow> rule_definition \<Rightarrow> rule_evaluation_input \<Rightarrow>
    rule_evaluation_result \<Rightarrow> rule_error + rule_evaluation_result" where
  "apply_evidence_policy L rule inp r =
     (if rr_status r \<noteq> MATCH then Inr r
      else case rr_event r of
        None \<Rightarrow> Inl InvalidRuleEvaluation
      | Some event \<Rightarrow>
          if rd_evidence_requirement rule = EVIDENCE_REQUIRED then
            (if rr_evidence_requests r = [] then
               rbind (deterministic_evidence_ref L rule inp (ee_event_id event)) (\<lambda>request.
                 Inr (r\<lparr>rr_evidence_requests := [request]\<rparr>))
             else Inr r)
          else if rd_evidence_requirement rule = EVIDENCE_NONE \<and> rr_evidence_requests r \<noteq> []
          then Inl InvalidRuleEvaluation
          else Inr r)"

definition evaluate_rule :: "stdlib \<Rightarrow> rule_registry \<Rightarrow> evaluator_registry \<Rightarrow> string \<Rightarrow> string \<Rightarrow>
    rule_evaluation_input \<Rightarrow> rule_error + rule_evaluation_result" where
  "evaluate_rule L g evaluators rule_id rule_version inp =
     rbind (registry_resolve g rule_id rule_version) (\<lambda>rule.
     rbind (validate_input rule inp) (\<lambda>_.
     rbind (resolve_evaluator evaluators (rd_evaluator_id rule)) (\<lambda>f.
     rbind (execute_evaluator f rule inp) (\<lambda>result.
     rbind (validate_rule_result L rule inp result) (\<lambda>_.
       apply_evidence_policy L rule inp result)))))"

end
