(* ===== verification/Operational_Rules.thy ===== *)
theory Operational_Rules
  imports Rule_Engine
begin

text \<open>
  The operational rules (\<open>rules/occupancy_session.py\<close>, \<open>dwell_threshold.py\<close>, \<open>queue_candidate.py\<close>,
  \<open>service_gap_candidate.py\<close>, \<open>turnover_delay.py\<close>): their definitions and their evaluators, and the
  sanctioned wiring of \<open>bootstrap.py\<close>. The reason texts are reduced to a tag; the data-quality evaluator
  is an argument of the wiring.
\<close>

subsection \<open>Reading a configuration snapshot\<close>

text \<open>\<open>float(raw)\<close>, where \<open>None\<close> is a \<open>TypeError\<close> or \<open>ValueError\<close>.\<close>

fun conf_float :: "stdlib \<Rightarrow> config_value \<Rightarrow> pyfloat option" where
  "conf_float L (ConfNumber x) = Some x"
| "conf_float L (ConfString s) = std_parse_float L s"
| "conf_float L _ = None"

text \<open>\<open>list(raw)\<close>: a string is the list of its characters, an object that of its keys.\<close>

fun conf_list :: "config_value \<Rightarrow> config_value list option" where
  "conf_list (ConfList vs) = Some vs"
| "conf_list (ConfString s) = Some (map (\<lambda>c. ConfString [c]) s)"
| "conf_list (ConfObject keys) = Some (map ConfString keys)"
| "conf_list _ = None"

fun conf_string :: "config_value \<Rightarrow> string option" where
  "conf_string (ConfString s) = (if blank s then None else Some s)"
| "conf_string _ = None"

text \<open>\<open>value <= 0\<close> is false of a NaN.\<close>

fun float_le_zero :: "pyfloat \<Rightarrow> bool" where
  "float_le_zero (Fin x) = (x \<le> 0)"
| "float_le_zero NegInf = True"
| "float_le_zero _ = False"

fun below_float :: "real \<Rightarrow> pyfloat \<Rightarrow> bool" where
  "below_float d (Fin x) = (d < x)"
| "below_float d PosInf = True"
| "below_float d _ = False"

fun float_add :: "pyfloat \<Rightarrow> pyfloat \<Rightarrow> pyfloat" where
  "float_add (Fin x) (Fin y) = Fin (x + y)"
| "float_add NaN y = NaN"
| "float_add x NaN = NaN"
| "float_add PosInf NegInf = NaN"
| "float_add NegInf PosInf = NaN"
| "float_add PosInf y = PosInf"
| "float_add x PosInf = PosInf"
| "float_add NegInf y = NegInf"
| "float_add x NegInf = NegInf"

text \<open>The \<open>_threshold_of\<close> of every rule, on its own key: present, a number, positive.\<close>

definition threshold_of :: "stdlib \<Rightarrow> string \<Rightarrow> rule_evaluation_input \<Rightarrow> pyfloat option" where
  "threshold_of L key inp =
     (case ri_configuration inp key of
        None \<Rightarrow> None
      | Some raw \<Rightarrow> (case conf_float L raw of
            None \<Rightarrow> None
          | Some value \<Rightarrow> if float_le_zero value then None else Some value))"

definition service_window_of :: "stdlib \<Rightarrow> string \<Rightarrow> rule_evaluation_input \<Rightarrow> pyfloat option" where
  "service_window_of L key inp =
     (case ri_configuration inp key of
        None \<Rightarrow> None
      | Some raw \<Rightarrow> (case conf_float L raw of
            None \<Rightarrow> None
          | Some value \<Rightarrow> if float_lt value 0 then None else Some value))"

definition area_ids_of :: "string \<Rightarrow> rule_evaluation_input \<Rightarrow> string set option" where
  "area_ids_of key inp =
     (case ri_configuration inp key of
        None \<Rightarrow> None
      | Some raw \<Rightarrow> (case conf_list raw of
            None \<Rightarrow> None
          | Some values \<Rightarrow> if values = [] then None
              else if list_ex (\<lambda>v. conf_string v = None) values then None
              else Some (set (map (\<lambda>v. the (conf_string v)) values))))"

subsection \<open>Results\<close>

definition rule_result :: "rule_definition \<Rightarrow> rule_evaluation_input \<Rightarrow> rule_evaluation_status \<Rightarrow>
    event_envelope option \<Rightarrow> temporal_state_key option \<Rightarrow> string option \<Rightarrow> rule_error + rule_evaluation_result" where
  "rule_result rule inp status event key reason = validated ''RuleEvaluationResult'' rule_evaluation_result_valid
     \<lparr>rr_schema_version = SCHEMA_VERSION, rr_rule_id = rd_rule_id rule, rr_rule_version = rd_rule_version rule,
      rr_status = status, rr_event_time = ri_event_time inp,
      rr_configuration_version_id = ri_configuration_version_id inp, rr_event = event,
      rr_evidence_requests = [], rr_tenant_id = map_option key_tenant_id key,
      rr_venue_id = map_option key_venue_id key, rr_session_id = map_option key_session_id key,
      rr_reason = reason\<rparr>"

abbreviation invalid_result :: "rule_definition \<Rightarrow> rule_evaluation_input \<Rightarrow> string \<Rightarrow>
    rule_error + rule_evaluation_result" where
  "invalid_result rule inp reason \<equiv> rule_result rule inp INVALID None None (Some reason)"

abbreviation no_match_result :: "rule_definition \<Rightarrow> rule_evaluation_input \<Rightarrow> temporal_state_key \<Rightarrow>
    rule_error + rule_evaluation_result" where
  "no_match_result rule inp key \<equiv> rule_result rule inp NO_MATCH None (Some key) None"

text \<open>The end of every \<open>_build_event\<close> with the result that carries the event.\<close>

definition match_result :: "stdlib \<Rightarrow> rule_definition \<Rightarrow> rule_evaluation_input \<Rightarrow> temporal_state_key \<Rightarrow>
    rule_payload \<Rightarrow> rule_error + rule_evaluation_result" where
  "match_result L rule inp key payload =
     (let event_type = event_type_value (rd_output_event_type rule) in
      rbind (validated ''Payload'' payload_valid payload) (\<lambda>p.
      rbind (validated ''EventEnvelope'' event_envelope_valid
        \<lparr>ee_event_id = deterministic_event_id L rule inp (ri_event_time inp) event_type,
         ee_event_type = event_type, ee_schema_version = SCHEMA_VERSION, ee_event_time = ri_event_time inp,
         ee_produced_at = (case ri_processing_time inp of None \<Rightarrow> ri_event_time inp | Some t \<Rightarrow> t),
         ee_correlation_id = None, ee_causation_id = None,
         ee_source = ''rule:'' @ rule_identity (rd_rule_id rule) (rd_rule_version rule), ee_payload = p\<rparr>) (\<lambda>event.
      rule_result rule inp MATCH (Some event) (Some key) None)))"

subsection \<open>Occupancy session\<close>

definition occupancy_session_definition :: "string \<Rightarrow> rule_error + rule_definition" where
  "occupancy_session_definition version = validated ''RuleDefinition'' rule_definition_valid
     \<lparr>rd_schema_version = SCHEMA_VERSION, rd_rule_id = event_type_value OCCUPANCY_SESSION, rd_rule_version = version,
      rd_rule_name = ''Occupancy Session'', rd_description = ''Converts a confirmed Task 15.4 occupancy boundary into an occupancy_session started/ended operational event.'',
      rd_enabled = True, rd_input_fact_types = {OCCUPANCY_SNAPSHOT}, rd_configuration_requirements = {},
      rd_evaluator_id = ''occupancy_session_evaluator.v1'', rd_output_event_type = OCCUPANCY_SESSION,
      rd_evidence_requirement = EVIDENCE_REQUIRED,
      rd_cooldown_policy = \<lparr>cd_enabled = False, cd_duration_seconds = 0\<rparr>,
      rd_deterministic_version = TEMPORAL_ENGINE_VERSION\<rparr>"

definition occupancy_session_event :: "stdlib \<Rightarrow> rule_definition \<Rightarrow> rule_evaluation_input \<Rightarrow> occupancy_snapshot \<Rightarrow>
    occupancy_session_phase \<Rightarrow> rule_error + rule_evaluation_result" where
  "occupancy_session_event L rule inp s phase =
     match_result L rule inp (sn_key s) (OccupancySessionPayload
       \<lparr>op_phase = phase, op_tenant_id = key_tenant_id (sn_key s), op_venue_id = key_venue_id (sn_key s),
        op_session_id = key_session_id (sn_key s), op_camera_id = key_camera_id (sn_key s),
        op_spatial_context_id = key_semantic_context (sn_key s), op_occupancy_count = sn_occupancy_count s,
        op_occupied_tracks = sn_occupied_tracks s, op_occupancy_time = sn_event_time s,
        op_configuration_version_id = ri_configuration_version_id inp,
        op_rule_id = rd_rule_id rule, op_rule_version = rd_rule_version rule\<rparr>)"

definition occupancy_session_evaluator :: "stdlib \<Rightarrow> rule_evaluator" where
  "occupancy_session_evaluator L rule inp =
     (case hd (ri_facts inp) of
        SnapshotFact s \<Rightarrow>
          if key_fsm_kind (sn_key s) \<noteq> ''occupancy'' then invalid_result rule inp ''fsm_kind''
          else if \<not> dt_eq (sn_event_time s) (ri_event_time inp) then invalid_result rule inp ''event_time''
          else if sn_previous_count s = 0 \<and> 0 < sn_occupancy_count s then
            occupancy_session_event L rule inp s STARTED
          else if 0 < sn_previous_count s \<and> sn_occupancy_count s = 0 then
            occupancy_session_event L rule inp s ENDED
          else no_match_result rule inp (sn_key s)
      | _ \<Rightarrow> invalid_result rule inp ''fact'')"

subsection \<open>Dwell threshold\<close>

definition dwell_threshold_definition :: "string \<Rightarrow> rule_error + rule_definition" where
  "dwell_threshold_definition version = validated ''RuleDefinition'' rule_definition_valid
     \<lparr>rd_schema_version = SCHEMA_VERSION, rd_rule_id = event_type_value DWELL_THRESHOLD, rd_rule_version = version,
      rd_rule_name = ''Dwell Threshold'', rd_description = ''Converts a canonical Task 15.3 DwellInterval into a dwell_threshold event when the configured dwell duration threshold is crossed.'',
      rd_enabled = True, rd_input_fact_types = {DWELL_INTERVAL},
      rd_configuration_requirements = {''dwell_threshold_seconds''},
      rd_evaluator_id = ''dwell_threshold_evaluator.v1'', rd_output_event_type = DWELL_THRESHOLD,
      rd_evidence_requirement = EVIDENCE_REQUIRED,
      rd_cooldown_policy = \<lparr>cd_enabled = False, cd_duration_seconds = 0\<rparr>,
      rd_deterministic_version = TEMPORAL_ENGINE_VERSION\<rparr>"

definition dwell_threshold_evaluator :: "stdlib \<Rightarrow> rule_evaluator" where
  "dwell_threshold_evaluator L rule inp =
     (case hd (ri_facts inp) of
        DwellFact d \<Rightarrow>
          if key_fsm_kind (di_key d) \<noteq> ''dwell'' then invalid_result rule inp ''fsm_kind''
          else if \<not> dt_eq (di_last_seen d) (ri_event_time inp) then invalid_result rule inp ''event_time''
          else (case threshold_of L ''dwell_threshold_seconds'' inp of
              None \<Rightarrow> invalid_result rule inp ''threshold''
            | Some threshold \<Rightarrow> (case di_duration_seconds d of
                  None \<Rightarrow> invalid_result rule inp ''duration''
                | Some duration \<Rightarrow>
                    if duration < 0 then invalid_result rule inp ''duration''
                    else if below_float duration threshold then no_match_result rule inp (di_key d)
                    else match_result L rule inp (di_key d) (DwellThresholdPayload
                      \<lparr>dp_interval_id = di_interval_id d, dp_tenant_id = key_tenant_id (di_key d),
                       dp_venue_id = key_venue_id (di_key d), dp_session_id = key_session_id (di_key d),
                       dp_camera_id = key_camera_id (di_key d),
                       dp_spatial_context_id = key_semantic_context (di_key d),
                       dp_dwell_start_time = di_dwell_start d, dp_threshold_crossing_time = ri_event_time inp,
                       dp_dwell_duration = duration, dp_threshold_seconds = threshold,
                       dp_configuration_version_id = ri_configuration_version_id inp,
                       dp_rule_id = rd_rule_id rule, dp_rule_version = rd_rule_version rule\<rparr>)))
      | _ \<Rightarrow> invalid_result rule inp ''fact'')"

subsection \<open>Queue candidate\<close>

definition queue_candidate_definition :: "string \<Rightarrow> rule_error + rule_definition" where
  "queue_candidate_definition version = validated ''RuleDefinition'' rule_definition_valid
     \<lparr>rd_schema_version = SCHEMA_VERSION, rd_rule_id = event_type_value QUEUE_CANDIDATE, rd_rule_version = version,
      rd_rule_name = ''Queue Candidate'', rd_description = ''Converts a confirmed Task 15.5.3 WaitingInterval in a configured queue/service area into a queue_candidate event when the configured minimum waiting duration is reached.'',
      rd_enabled = True, rd_input_fact_types = {WAITING_INTERVAL},
      rd_configuration_requirements = {''waiting_qualification_seconds'', ''queue_area_ids''},
      rd_evaluator_id = ''queue_candidate_evaluator.v1'', rd_output_event_type = QUEUE_CANDIDATE,
      rd_evidence_requirement = EVIDENCE_REQUIRED,
      rd_cooldown_policy = \<lparr>cd_enabled = True, cd_duration_seconds = 60\<rparr>,
      rd_deterministic_version = TEMPORAL_ENGINE_VERSION\<rparr>"

definition queue_candidate_definition_v2 :: "rule_error + rule_definition" where
  "queue_candidate_definition_v2 = validated ''RuleDefinition'' rule_definition_valid
     \<lparr>rd_schema_version = SCHEMA_VERSION, rd_rule_id = event_type_value QUEUE_CANDIDATE, rd_rule_version = ''v2'',
      rd_rule_name = ''Queue Candidate'', rd_description = ''Queue-candidate semantics v2: same deterministic waiting qualification as v1 plus the queue_max_length configuration requirement (queue-capacity configuration contract).'',
      rd_enabled = True, rd_input_fact_types = {WAITING_INTERVAL, OCCUPANCY_SNAPSHOT},
      rd_configuration_requirements = {''waiting_qualification_seconds'', ''queue_area_ids'', ''queue_max_length''},
      rd_evaluator_id = ''queue_candidate_evaluator.v2'', rd_output_event_type = QUEUE_CANDIDATE,
      rd_evidence_requirement = EVIDENCE_REQUIRED,
      rd_cooldown_policy = \<lparr>cd_enabled = True, cd_duration_seconds = 120\<rparr>,
      rd_deterministic_version = TEMPORAL_ENGINE_VERSION\<rparr>"

text \<open>The method \<open>_extra_configuration_invalid\<close> is the argument \<open>extra\<close>: version 1 has none.\<close>

definition queue_evaluate :: "stdlib \<Rightarrow> (rule_evaluation_input \<Rightarrow> string option) \<Rightarrow> rule_evaluator" where
  "queue_evaluate L extra rule inp =
     (case hd (ri_facts inp) of
        WaitingFact w \<Rightarrow>
          if key_fsm_kind (wi_key w) \<noteq> ''waiting'' then invalid_result rule inp ''fsm_kind''
          else if \<not> dt_eq (wi_last_seen w) (ri_event_time inp) then invalid_result rule inp ''event_time''
          else (case key_semantic_context (wi_key w) of
              None \<Rightarrow> invalid_result rule inp ''context''
            | Some context \<Rightarrow> (case area_ids_of ''queue_area_ids'' inp of
                None \<Rightarrow> invalid_result rule inp ''areas''
              | Some areas \<Rightarrow>
                  if context \<notin> areas then no_match_result rule inp (wi_key w)
                  else (case extra inp of
                      Some reason \<Rightarrow> invalid_result rule inp reason
                    | None \<Rightarrow> (case threshold_of L ''waiting_qualification_seconds'' inp of
                        None \<Rightarrow> invalid_result rule inp ''threshold''
                      | Some threshold \<Rightarrow> (case wi_duration_seconds w of
                          None \<Rightarrow> invalid_result rule inp ''duration''
                        | Some duration \<Rightarrow>
                            if duration < 0 then invalid_result rule inp ''duration''
                            else if below_float duration threshold then no_match_result rule inp (wi_key w)
                            else match_result L rule inp (wi_key w) (QueueCandidatePayload
                              \<lparr>qp_interval_id = wi_interval_id w, qp_tenant_id = key_tenant_id (wi_key w),
                               qp_venue_id = key_venue_id (wi_key w), qp_session_id = key_session_id (wi_key w),
                               qp_camera_id = key_camera_id (wi_key w), qp_track_id = key_track_id (wi_key w),
                               qp_spatial_context_id = key_semantic_context (wi_key w),
                               qp_waiting_start_time = wi_waiting_start w, qp_qualification_time = ri_event_time inp,
                               qp_waiting_duration = duration, qp_threshold_seconds = threshold,
                               qp_configuration_version_id = ri_configuration_version_id inp,
                               qp_rule_id = rd_rule_id rule, qp_rule_version = rd_rule_version rule\<rparr>))))))
      | _ \<Rightarrow> invalid_result rule inp ''fact'')"

definition queue_candidate_evaluator :: "stdlib \<Rightarrow> rule_evaluator" where
  "queue_candidate_evaluator L = queue_evaluate L (\<lambda>_. None)"

definition queue_max_length_invalid :: "stdlib \<Rightarrow> rule_evaluation_input \<Rightarrow> string option" where
  "queue_max_length_invalid L inp =
     (if threshold_of L ''queue_max_length'' inp = None then Some ''queue_max_length'' else None)"

definition queue_candidate_evaluator_v2 :: "stdlib \<Rightarrow> rule_evaluator" where
  "queue_candidate_evaluator_v2 L = queue_evaluate L (queue_max_length_invalid L)"

subsection \<open>Service gap\<close>

definition service_gap_definition :: "string \<Rightarrow> rule_error + rule_definition" where
  "service_gap_definition version = validated ''RuleDefinition'' rule_definition_valid
     \<lparr>rd_schema_version = SCHEMA_VERSION, rd_rule_id = event_type_value SERVICE_GAP_CANDIDATE,
      rd_rule_version = version, rd_rule_name = ''Service Gap Candidate'',
      rd_description = ''Converts an OPEN confirmed Task 15.5.3 WaitingInterval in a configured service area into a service_gap_candidate event when the configured service-gap grace duration is reached.'',
      rd_enabled = True, rd_input_fact_types = {WAITING_INTERVAL},
      rd_configuration_requirements = {''service_gap_grace_seconds'', ''service_area_ids''},
      rd_evaluator_id = ''service_gap_evaluator.v1'', rd_output_event_type = SERVICE_GAP_CANDIDATE,
      rd_evidence_requirement = EVIDENCE_REQUIRED,
      rd_cooldown_policy = \<lparr>cd_enabled = False, cd_duration_seconds = 0\<rparr>,
      rd_deterministic_version = TEMPORAL_ENGINE_VERSION\<rparr>"

definition service_gap_evaluator :: "stdlib \<Rightarrow> rule_evaluator" where
  "service_gap_evaluator L rule inp =
     (case hd (ri_facts inp) of
        WaitingFact w \<Rightarrow>
          if key_fsm_kind (wi_key w) \<noteq> ''waiting'' then invalid_result rule inp ''fsm_kind''
          else if \<not> dt_eq (wi_last_seen w) (ri_event_time inp) then invalid_result rule inp ''event_time''
          else if wi_reason w \<noteq> None then no_match_result rule inp (wi_key w)
          else (case key_semantic_context (wi_key w) of
              None \<Rightarrow> invalid_result rule inp ''context''
            | Some context \<Rightarrow> (case area_ids_of ''service_area_ids'' inp of
                None \<Rightarrow> invalid_result rule inp ''areas''
              | Some areas \<Rightarrow>
                  if context \<notin> areas then no_match_result rule inp (wi_key w)
                  else (case threshold_of L ''service_gap_grace_seconds'' inp of
                      None \<Rightarrow> invalid_result rule inp ''threshold''
                    | Some threshold \<Rightarrow> (case wi_duration_seconds w of
                        None \<Rightarrow> invalid_result rule inp ''duration''
                      | Some duration \<Rightarrow>
                          if duration < 0 then invalid_result rule inp ''duration''
                          else if below_float duration threshold then no_match_result rule inp (wi_key w)
                          else match_result L rule inp (wi_key w) (ServiceGapPayload
                            \<lparr>gp_interval_id = wi_interval_id w, gp_tenant_id = key_tenant_id (wi_key w),
                             gp_venue_id = key_venue_id (wi_key w), gp_session_id = key_session_id (wi_key w),
                             gp_camera_id = key_camera_id (wi_key w), gp_track_id = key_track_id (wi_key w),
                             gp_service_area_id = key_semantic_context (wi_key w),
                             gp_gap_start_time = wi_waiting_start w, gp_qualification_time = ri_event_time inp,
                             gp_gap_duration = duration, gp_threshold_seconds = threshold,
                             gp_configuration_version_id = ri_configuration_version_id inp,
                             gp_rule_id = rd_rule_id rule, gp_rule_version = rd_rule_version rule\<rparr>)))))
      | _ \<Rightarrow> invalid_result rule inp ''fact'')"

subsection \<open>Turnover delay\<close>

definition turnover_delay_definition :: "string \<Rightarrow> rule_error + rule_definition" where
  "turnover_delay_definition version = validated ''RuleDefinition'' rule_definition_valid
     \<lparr>rd_schema_version = SCHEMA_VERSION, rd_rule_id = event_type_value TURNOVER_DELAY, rd_rule_version = version,
      rd_rule_name = ''Turnover Delay'', rd_description = ''Converts an OPEN confirmed Task 15.3 DwellInterval into a turnover_delay event when a table/service area stays occupied beyond the configured service window + turnover-delay window.'',
      rd_enabled = True, rd_input_fact_types = {DWELL_INTERVAL, OCCUPANCY_SNAPSHOT},
      rd_configuration_requirements = {''turnover_delay_seconds'', ''service_window_seconds''},
      rd_evaluator_id = ''turnover_delay_evaluator.v1'', rd_output_event_type = TURNOVER_DELAY,
      rd_evidence_requirement = EVIDENCE_REQUIRED,
      rd_cooldown_policy = \<lparr>cd_enabled = True, cd_duration_seconds = 300\<rparr>,
      rd_deterministic_version = TEMPORAL_ENGINE_VERSION\<rparr>"

text \<open>The first occupancy snapshot among the facts decides; without one the open interval does.\<close>

fun space_occupied :: "temporal_fact list \<Rightarrow> bool" where
  "space_occupied [] = True"
| "space_occupied (SnapshotFact s # facts) = (0 < sn_occupancy_count s)"
| "space_occupied (item # facts) = space_occupied facts"

definition turnover_delay_evaluator :: "stdlib \<Rightarrow> rule_evaluator" where
  "turnover_delay_evaluator L rule inp =
     (case hd (ri_facts inp) of
        DwellFact d \<Rightarrow>
          if key_fsm_kind (di_key d) \<noteq> ''dwell'' then invalid_result rule inp ''fsm_kind''
          else if \<not> dt_eq (di_last_seen d) (ri_event_time inp) then invalid_result rule inp ''event_time''
          else if di_reason d \<noteq> None then no_match_result rule inp (di_key d)
          else if key_semantic_context (di_key d) = None then invalid_result rule inp ''context''
          else if \<not> space_occupied (ri_facts inp) then no_match_result rule inp (di_key d)
          else (case (service_window_of L ''service_window_seconds'' inp, threshold_of L ''turnover_delay_seconds'' inp) of
              (Some service_window, Some threshold) \<Rightarrow> (case di_duration_seconds d of
                  None \<Rightarrow> invalid_result rule inp ''duration''
                | Some duration \<Rightarrow>
                    if duration < 0 then invalid_result rule inp ''duration''
                    else if below_float duration (float_add service_window threshold)
                    then no_match_result rule inp (di_key d)
                    else match_result L rule inp (di_key d) (TurnoverDelayPayload
                      \<lparr>tp_interval_id = di_interval_id d, tp_tenant_id = key_tenant_id (di_key d),
                       tp_venue_id = key_venue_id (di_key d), tp_session_id = key_session_id (di_key d),
                       tp_camera_id = key_camera_id (di_key d), tp_track_id = key_track_id (di_key d),
                       tp_spatial_context_id = key_semantic_context (di_key d),
                       tp_turnover_start_time = di_dwell_start d, tp_threshold_crossing_time = ri_event_time inp,
                       tp_turnover_duration = duration, tp_service_window_seconds = service_window,
                       tp_threshold_seconds = threshold,
                       tp_configuration_version_id = ri_configuration_version_id inp,
                       tp_rule_id = rd_rule_id rule, tp_rule_version = rd_rule_version rule\<rparr>))
            | _ \<Rightarrow> invalid_result rule inp ''thresholds'')
      | _ \<Rightarrow> invalid_result rule inp ''fact'')"

subsection \<open>The sanctioned wiring\<close>

text \<open>A chain of registrations, each of which may raise.\<close>

fun register_all :: "rule_registry \<Rightarrow> (rule_error + rule_definition) list \<Rightarrow> rule_error + rule_registry" where
  "register_all g [] = Inr g"
| "register_all g (d # ds) = rbind d (\<lambda>rule. rbind (register g rule) (\<lambda>g'. register_all g' ds))"

fun register_evaluators :: "evaluator_registry \<Rightarrow> (string \<times> rule_evaluator) list \<Rightarrow> rule_error + evaluator_registry" where
  "register_evaluators g [] = Inr g"
| "register_evaluators g (e # es) = rbind (register_evaluator g e) (\<lambda>g'. register_evaluators g' es)"

definition operational_evaluators :: "stdlib \<Rightarrow> rule_evaluator \<Rightarrow> (string \<times> rule_evaluator) list" where
  "operational_evaluators L data_quality =
     [(''occupancy_session_evaluator.v1'', occupancy_session_evaluator L),
      (''dwell_threshold_evaluator.v1'', dwell_threshold_evaluator L),
      (''queue_candidate_evaluator.v1'', queue_candidate_evaluator L),
      (''queue_candidate_evaluator.v2'', queue_candidate_evaluator_v2 L),
      (''service_gap_evaluator.v1'', service_gap_evaluator L),
      (''turnover_delay_evaluator.v1'', turnover_delay_evaluator L),
      (''data_quality_evaluator.v1'', data_quality)]"

definition data_quality_definition :: "string \<Rightarrow> rule_error + rule_definition" where
  "data_quality_definition version = validated ''RuleDefinition'' rule_definition_valid
     \<lparr>rd_schema_version = SCHEMA_VERSION, rd_rule_id = event_type_value DATA_QUALITY, rd_rule_version = version,
      rd_rule_name = ''Data Quality'', rd_description = ''Detects deterministic data-quality conditions in canonical Task 15 facts and emits an aggregate data_quality event with stable machine-readable quality codes.'',
      rd_enabled = True,
      rd_input_fact_types = {TEMPORAL_TRANSITION, DWELL_INTERVAL, OCCUPANCY_SNAPSHOT, MOVEMENT_MEASUREMENT,
        MOVEMENT_CLASSIFICATION_TRANSITION, WAITING_INTERVAL},
      rd_configuration_requirements = {''known_spatial_contexts''},
      rd_evaluator_id = ''data_quality_evaluator.v1'', rd_output_event_type = DATA_QUALITY,
      rd_evidence_requirement = EVIDENCE_OPTIONAL,
      rd_cooldown_policy = \<lparr>cd_enabled = False, cd_duration_seconds = 0\<rparr>,
      rd_deterministic_version = TEMPORAL_ENGINE_VERSION\<rparr>"

definition build_operational_registries :: "stdlib \<Rightarrow> rule_evaluator \<Rightarrow> string \<Rightarrow>
    rule_error + rule_registry \<times> evaluator_registry" where
  "build_operational_registries L data_quality rule_version =
     rbind (register_evaluators [] (operational_evaluators L data_quality)) (\<lambda>evaluators.
     rbind (register_all (new_registry (set (map fst (operational_evaluators L data_quality))))
       [occupancy_session_definition rule_version, dwell_threshold_definition rule_version,
        queue_candidate_definition rule_version, queue_candidate_definition_v2,
        service_gap_definition rule_version, turnover_delay_definition rule_version,
        data_quality_definition rule_version]) (\<lambda>registry. Inr (registry, evaluators)))"

end
