(* ===== verification/Rule_Engine_Facts.thy ===== *)
theory Rule_Engine_Facts
  imports Rule_Engine
begin

text \<open>
  What the rule engine guarantees: registries only grow and never change an entry, and whatever an
  evaluator returns, only results that keep the contract leave the engine. The locale states when an
  evaluator is never rejected; the operational rules are its instances.
\<close>

subsection \<open>The registry\<close>

text \<open>Every entry is stored under the identity of its definition, once, and passed validation.\<close>

definition registry_ok :: "rule_registry \<Rightarrow> bool" where
  "registry_ok g = (distinct (map fst (rg_rules g)) \<and>
     list_all (\<lambda>(key, rule). key = (rd_rule_id rule, rd_rule_version rule) \<and> validate_definition g rule = Inr ())
       (rg_rules g))"

lemma registry_ok_new [simp]: "registry_ok (new_registry evaluators)"
  by (simp add: registry_ok_def new_registry_def)

lemma validate_definition_cong:
  "rg_supported_evaluators g = rg_supported_evaluators h \<Longrightarrow>
     rg_supported_deterministic_versions g = rg_supported_deterministic_versions h \<Longrightarrow>
     validate_definition g rule = validate_definition h rule"
  by (simp add: validate_definition_def)

lemma register_Inr:
  "register g rule = Inr g' \<longleftrightarrow> validate_definition g rule = Inr () \<and>
     registry_get g (rd_rule_id rule) (rd_rule_version rule) = None \<and>
     g' = g\<lparr>rg_rules := rg_rules g @ [((rd_rule_id rule, rd_rule_version rule), rule)]\<rparr>"
  by (auto simp: register_def registry_has_def)

lemma registry_get_None_iff: "registry_get g i v = None \<longleftrightarrow> (i, v) \<notin> fst ` set (rg_rules g)"
  by (simp add: registry_get_def map_of_eq_None_iff)

lemma register_ok:
  assumes "registry_ok g" "register g rule = Inr g'"
  shows "registry_ok g'"
proof -
  from assms(2) have v: "validate_definition g rule = Inr ()"
    and new: "(rd_rule_id rule, rd_rule_version rule) \<notin> fst ` set (rg_rules g)"
    and g': "g' = g\<lparr>rg_rules := rg_rules g @ [((rd_rule_id rule, rd_rule_version rule), rule)]\<rparr>"
    by (auto simp: register_Inr registry_get_None_iff)
  have "validate_definition g' r = validate_definition g r" for r
    by (rule validate_definition_cong) (simp_all add: g')
  with assms(1) v new show ?thesis by (auto simp: registry_ok_def g' list_all_iff)
qed

lemma registry_get_key: "registry_ok g \<Longrightarrow> registry_get g i v = Some rule \<Longrightarrow> rd_rule_id rule = i \<and> rd_rule_version rule = v"
  by (auto simp: registry_ok_def registry_get_def list_all_iff dest!: map_of_SomeD)

lemma registry_resolve_Inr: "registry_resolve g i v = Inr rule \<longleftrightarrow> registry_get g i v = Some rule"
  by (auto simp: registry_resolve_def split: option.splits)

text \<open>C21: registering a definition keeps the registry well-formed and never changes what an identity already
  registered resolves to; a second registration of an identity is refused, whatever it contains, and afterwards the
  new definition is the one its identity resolves to.\<close>

theorem registry_immutable:
  assumes ok: "registry_ok g" and r: "register g rule = Inr g'"
  shows "registry_ok g' \<and> registry_resolve g' (rd_rule_id rule) (rd_rule_version rule) = Inr rule \<and>
    (\<forall>i v old. registry_resolve g i v = Inr old \<longrightarrow> registry_resolve g' i v = Inr old) \<and>
    (\<forall>other. rd_rule_id other = rd_rule_id rule \<longrightarrow> rd_rule_version other = rd_rule_version rule \<longrightarrow>
       (\<exists>e. register g' other = Inl e \<and> (validate_definition g' other = Inr () \<longrightarrow> e = DuplicateRuleError)))"
proof -
  from r have new: "registry_get g (rd_rule_id rule) (rd_rule_version rule) = None"
    and g': "g' = g\<lparr>rg_rules := rg_rules g @ [((rd_rule_id rule, rd_rule_version rule), rule)]\<rparr>"
    by (simp_all add: register_Inr)
  have get: "registry_get g' i v = (case registry_get g i v of Some old \<Rightarrow> Some old
      | None \<Rightarrow> if (i, v) = (rd_rule_id rule, rd_rule_version rule) then Some rule else None)" for i v
    by (auto simp: g' registry_get_def map_add_def split: option.splits)
  have "\<exists>e. register g' other = Inl e \<and> (validate_definition g' other = Inr () \<longrightarrow> e = DuplicateRuleError)"
    if "rd_rule_id other = rd_rule_id rule" "rd_rule_version other = rd_rule_version rule" for other
    using that new by (cases "validate_definition g' other") (simp_all add: register_def registry_has_def get)
  then show ?thesis
    using register_ok [OF ok r] new by (simp add: registry_resolve_Inr get)
qed

subsection \<open>The engine\<close>

lemma check_facts_Inr:
  "check_facts rule s facts = Inr () \<longleftrightarrow> list_all (\<lambda>f. fact_type_of f \<in> rd_input_fact_types rule) facts \<and>
     (case s of Some c \<Rightarrow> list_all (\<lambda>f. scope_of f = c) facts
      | None \<Rightarrow> list_all (\<lambda>f. scope_of f = scope_of (hd facts)) facts)"
  by (induction rule s facts rule: check_facts.induct) (auto simp: list_all_iff split: option.splits)

lemma validate_input_Inr:
  "validate_input rule inp = Inr () \<longleftrightarrow> ri_rule_version inp = rd_rule_version rule \<and>
     rd_configuration_requirements rule \<subseteq> dom (ri_configuration inp) \<and>
     list_all (\<lambda>f. fact_type_of f \<in> rd_input_fact_types rule \<and> scope_of f = input_scope inp) (ri_facts inp)"
  by (auto simp: validate_input_def check_facts_Inr input_scope_def list_all_iff)

lemma validate_provenance_Inr:
  "validate_provenance r (t, v, s) = Inr () \<longleftrightarrow>
     rr_tenant_id r \<in> {None, Some t} \<and> rr_venue_id r \<in> {None, Some v} \<and> rr_session_id r \<in> {None, Some s} \<and>
     (rr_status r = MATCH \<longrightarrow> rr_tenant_id r = Some t \<and> rr_venue_id r = Some v \<and> rr_session_id r = Some s)"
  by (auto simp: validate_provenance_def)

lemma validate_match_Inr:
  "validate_match L rule inp r = Inr () \<longleftrightarrow> (\<exists>e. rr_event r = Some e \<and>
     ee_event_type e = event_type_value (rd_output_event_type rule) \<and>
     ee_event_id e = deterministic_event_id L rule inp (ri_event_time inp) (event_type_value (rd_output_event_type rule)) \<and>
     dt_eq (ee_event_time e) (ri_event_time inp))"
  by (auto simp: validate_match_def split: option.splits)

lemma apply_evidence_policy_Inr:
  "apply_evidence_policy L rule inp r = Inr r' \<Longrightarrow> (\<exists>refs. r' = r\<lparr>rr_evidence_requests := refs\<rparr>) \<and>
     (rr_status r = MATCH \<longrightarrow> rr_event r \<noteq> None \<and>
       (rd_evidence_requirement rule = EVIDENCE_REQUIRED \<longrightarrow> rr_evidence_requests r' \<noteq> []) \<and>
       (rd_evidence_requirement rule = EVIDENCE_NONE \<longrightarrow> rr_evidence_requests r' = []))"
  by (auto simp: apply_evidence_policy_def split: if_splits option.splits) (rule exI [of _ "rr_evidence_requests r"]; simp)+

lemma resolve_evaluator_Inr: "resolve_evaluator evs i = Inr f \<longleftrightarrow> map_of evs i = Some f"
  by (auto simp: resolve_evaluator_def split: option.splits)

lemma execute_evaluator_Inr: "execute_evaluator f rule inp = Inr r \<longleftrightarrow> f rule inp = Inr r"
  by (auto simp: execute_evaluator_def split: sum.splits)

text \<open>The stages of a successful evaluation.\<close>

lemma evaluate_rule_stages:
  assumes "evaluate_rule L g evs i v inp = Inr r'"
  obtains rule f r where "registry_get g i v = Some rule" "validate_input rule inp = Inr ()"
    "map_of evs (rd_evaluator_id rule) = Some f" "f rule inp = Inr r"
    "validate_rule_result L rule inp r = Inr ()" "apply_evidence_policy L rule inp r = Inr r'"
  using assms that
  unfolding evaluate_rule_def rbind_eq_Inr registry_resolve_Inr resolve_evaluator_Inr execute_evaluator_Inr
  by (elim exE conjE) simp

text \<open>C8: whatever the registered evaluator returns, a result that leaves the engine is one for the rule and version asked for,
  evaluated under the version, the configuration version and the event time of the input, from facts of the declared types
  with the configuration the rule requires, and it names no tenant, venue or session but those of the one scope of its facts.
  A match names all three and carries an event of the declared type under the content-derived identity and at the event time of
  the input, with an evidence request where the rule demands one and none where it forbids them; no match and a suppression
  carry no event, and any other outcome carries a reason.\<close>

theorem engine_guards_evaluators:
  assumes ok: "registry_ok g" and e: "evaluate_rule L g evs rule_id version inp = Inr r"
  shows "rr_rule_id r = rule_id \<and> rr_rule_version r = version \<and> ri_rule_version inp = version \<and>
    rr_configuration_version_id r = ri_configuration_version_id inp \<and> dt_eq (rr_event_time r) (ri_event_time inp) \<and>
    rr_tenant_id r \<in> {None, Some (fst (input_scope inp))} \<and> rr_venue_id r \<in> {None, Some (fst (snd (input_scope inp)))} \<and>
    rr_session_id r \<in> {None, Some (snd (snd (input_scope inp)))} \<and>
    (rr_status r \<in> {NO_MATCH, SUPPRESSED} \<longrightarrow> rr_event r = None) \<and>
    (rr_status r \<notin> {MATCH, NO_MATCH, SUPPRESSED} \<longrightarrow> rr_reason r \<notin> {None, Some ''''}) \<and>
    (\<exists>rule. registry_resolve g rule_id version = Inr rule \<and> rd_configuration_requirements rule \<subseteq> dom (ri_configuration inp) \<and>
       list_all (\<lambda>f. fact_type_of f \<in> rd_input_fact_types rule \<and> scope_of f = input_scope inp) (ri_facts inp) \<and>
       (rr_status r = MATCH \<longrightarrow> (\<exists>ev. rr_event r = Some ev \<and>
          (rr_tenant_id r, rr_venue_id r, rr_session_id r) =
            (Some (fst (input_scope inp)), Some (fst (snd (input_scope inp))), Some (snd (snd (input_scope inp)))) \<and>
          ee_event_type ev = event_type_value (rd_output_event_type rule) \<and> dt_eq (ee_event_time ev) (ri_event_time inp) \<and>
          ee_event_id ev = deterministic_event_id L rule inp (ri_event_time inp) (event_type_value (rd_output_event_type rule)) \<and>
          (rd_evidence_requirement rule = EVIDENCE_REQUIRED \<longrightarrow> rr_evidence_requests r \<noteq> []) \<and>
          (rd_evidence_requirement rule = EVIDENCE_NONE \<longrightarrow> rr_evidence_requests r = []))))"
proof -
  from e obtain rule f r0 where g: "registry_get g rule_id version = Some rule" and i: "validate_input rule inp = Inr ()"
    and v: "validate_rule_result L rule inp r0 = Inr ()" and p: "apply_evidence_policy L rule inp r0 = Inr r"
    by (rule evaluate_rule_stages)
  obtain t w s where scope: "input_scope inp = (t, w, s)" by (metis prod_cases3)
  note key = registry_get_key [OF ok g]
  from apply_evidence_policy_Inr [OF p] obtain refs where r: "r = r0\<lparr>rr_evidence_requests := refs\<rparr>" by blast
  have prov: "validate_provenance r0 (t, w, s) = Inr ()"
    using v by (auto simp: validate_rule_result_def scope split: if_splits)
  have ids: "rr_rule_id r0 = rd_rule_id rule" "rr_rule_version r0 = rd_rule_version rule"
    "rr_configuration_version_id r0 = ri_configuration_version_id inp" "dt_eq (rr_event_time r0) (ri_event_time inp)"
    using v by (auto simp: validate_rule_result_def split: if_splits)
  have none: "rr_status r0 \<in> {NO_MATCH, SUPPRESSED} \<Longrightarrow> rr_event r0 = None"
    using v by (auto simp: validate_rule_result_def split: if_splits)
  have match: "rr_status r0 = MATCH \<Longrightarrow> validate_match L rule inp r0 = Inr ()"
    using v by (auto simp: validate_rule_result_def split: if_splits)
  have reason: "rr_status r0 \<notin> {MATCH, NO_MATCH, SUPPRESSED} \<Longrightarrow> rr_reason r0 \<notin> {None, Some ''''}"
    using v by (auto simp: validate_rule_result_def ensure_def split: if_splits)
  have inp: "ri_rule_version inp = version" using i key by (simp add: validate_input_Inr)
  have m: "rr_status r0 = MATCH \<Longrightarrow> \<exists>ev. rr_event r0 = Some ev \<and>
       (rr_tenant_id r0, rr_venue_id r0, rr_session_id r0) = (Some t, Some w, Some s) \<and>
       ee_event_type ev = event_type_value (rd_output_event_type rule) \<and> dt_eq (ee_event_time ev) (ri_event_time inp) \<and>
       ee_event_id ev = deterministic_event_id L rule inp (ri_event_time inp) (event_type_value (rd_output_event_type rule)) \<and>
       (rd_evidence_requirement rule = EVIDENCE_REQUIRED \<longrightarrow> refs \<noteq> []) \<and>
       (rd_evidence_requirement rule = EVIDENCE_NONE \<longrightarrow> refs = [])"
    using match prov apply_evidence_policy_Inr [OF p] by (auto simp: validate_match_Inr validate_provenance_Inr r)
  have rule: "registry_resolve g rule_id version = Inr rule \<and> rd_configuration_requirements rule \<subseteq> dom (ri_configuration inp) \<and>
       list_all (\<lambda>f. fact_type_of f \<in> rd_input_fact_types rule \<and> scope_of f = input_scope inp) (ri_facts inp)"
    using i g by (simp add: validate_input_Inr registry_resolve_Inr)
  show ?thesis
    using ids key inp none reason prov rule m
    by (simp add: r scope validate_provenance_Inr)
qed

subsection \<open>Lawful evaluators\<close>

text \<open>
  What the engine relies on: an evaluator's results pass the engine's validation for the rule and input they were made
  for. An evaluator that moreover leaves the evidence requests to the engine is never rejected.
\<close>

locale passing_evaluator =
  fixes L :: stdlib and f :: rule_evaluator
  assumes passes: "f rule inp = Inr r \<Longrightarrow> validate_rule_result L rule inp r = Inr ()"
begin

lemma obeyed:
  assumes "registry_resolve g i v = Inr rule" "validate_input rule inp = Inr ()"
    and "map_of evs (rd_evaluator_id rule) = Some f" "f rule inp = Inr r"
  shows "evaluate_rule L g evs i v inp = apply_evidence_policy L rule inp r"
  using assms passes [OF assms(4)] by (simp add: evaluate_rule_def resolve_evaluator_def execute_evaluator_def)

lemma match_carries_event: "f rule inp = Inr r \<Longrightarrow> rr_status r = MATCH \<Longrightarrow> rr_event r \<noteq> None"
  by (drule passes) (auto simp: validate_rule_result_def validate_match_Inr split: if_splits)

end

locale lawful_evaluator = passing_evaluator L f for L :: stdlib and f :: rule_evaluator +
  assumes leaves_evidence: "f rule inp = Inr r \<Longrightarrow> rr_evidence_requests r = []"
begin

lemma policy_accepts:
  assumes "f rule inp = Inr r"
  shows "apply_evidence_policy L rule inp r \<noteq> Inl InvalidRuleEvaluation"
proof -
  have "deterministic_evidence_ref L rule inp i \<noteq> Inl InvalidRuleEvaluation" for i
    by (auto simp: deterministic_evidence_ref_def validated_def Let_def)
  then show ?thesis
    using leaves_evidence [OF assms] match_carries_event [OF assms]
    by (auto simp: apply_evidence_policy_def rbind_eq_Inl split: option.splits)
qed

lemma never_rejected:
  assumes "registry_resolve g i v = Inr rule" "validate_input rule inp = Inr ()"
    and "map_of evs (rd_evaluator_id rule) = Some f" "f rule inp = Inr r"
  shows "evaluate_rule L g evs i v inp = apply_evidence_policy L rule inp r"
    and "evaluate_rule L g evs i v inp \<noteq> Inl InvalidRuleEvaluation"
  using obeyed [OF assms] policy_accepts [OF assms(4)] by simp_all

end

end
