(* ===== verification/Operational_Rules_Facts.thy ===== *)
theory Operational_Rules_Facts
  imports Operational_Rules Rule_Engine_Facts Occupancy_Facts
begin

text \<open>
  What the operational rules guarantee: they are lawful evaluators of the engine, their decisions are those of
  a short specification on facts and thresholds, and composed with the occupancy engine the session rule
  reports alternating starts and ends; and where their event identities do not keep the promises of the
  documentation.
\<close>

subsection \<open>The operational rules are lawful\<close>

lemma rule_result_Inr:
  "rule_result rule inp status event key reason = Inr r \<Longrightarrow>
     rr_rule_id r = rd_rule_id rule \<and> rr_rule_version r = rd_rule_version rule \<and> rr_status r = status \<and>
     rr_event_time r = ri_event_time inp \<and> rr_configuration_version_id r = ri_configuration_version_id inp \<and>
     rr_event r = event \<and> rr_evidence_requests r = [] \<and> rr_tenant_id r = map_option key_tenant_id key \<and>
     rr_venue_id r = map_option key_venue_id key \<and> rr_session_id r = map_option key_session_id key \<and>
     rr_reason r = reason"
  by (auto simp: rule_result_def)

definition passing :: "stdlib \<Rightarrow> rule_definition \<Rightarrow> rule_evaluation_input \<Rightarrow> rule_error + rule_evaluation_result \<Rightarrow> bool" where
  "passing L rule inp m = (\<forall>r. m = Inr r \<longrightarrow> validate_rule_result L rule inp r = Inr () \<and> rr_evidence_requests r = [])"

lemma input_scope_primary:
  "input_scope inp = (key_tenant_id (primary_key inp), key_venue_id (primary_key inp), key_session_id (primary_key inp))"
  by (simp add: input_scope_def scope_of_def primary_key_def)

lemma dt_eq_refl [simp]: "dt_eq t t"
  by (simp add: dt_eq_def)

lemma passing_invalid [intro]: "reason \<noteq> '''' \<Longrightarrow> passing L rule inp (invalid_result rule inp reason)"
  by (auto simp: passing_def validate_rule_result_def input_scope_primary validate_provenance_Inr
      dest!: rule_result_Inr)

lemma passing_no_match [intro]: "key = primary_key inp \<Longrightarrow> passing L rule inp (no_match_result rule inp key)"
  by (auto simp: passing_def validate_rule_result_def input_scope_primary validate_provenance_Inr
      dest!: rule_result_Inr)

lemma passing_match [intro]: "key = primary_key inp \<Longrightarrow> passing L rule inp (match_result L rule inp key payload)"
  by (auto simp: passing_def validate_rule_result_def input_scope_primary validate_provenance_Inr validate_match_Inr
      match_result_def Let_def dest!: rule_result_Inr)

lemma passing_evaluators:
  "passing L rule inp (occupancy_session_evaluator L rule inp)"
  "passing L rule inp (dwell_threshold_evaluator L rule inp)"
  "passing L rule inp (service_gap_evaluator L rule inp)"
  "passing L rule inp (turnover_delay_evaluator L rule inp)"
  unfolding occupancy_session_evaluator_def dwell_threshold_evaluator_def service_gap_evaluator_def
    turnover_delay_evaluator_def occupancy_session_event_def
  by (auto simp: primary_key_def split: temporal_fact.split option.split)

lemma passing_queue:
  assumes "\<And>reason. extra inp = Some reason \<Longrightarrow> reason \<noteq> ''''"
  shows "passing L rule inp (queue_evaluate L extra rule inp)"
  unfolding queue_evaluate_def using assms
  by (auto simp: primary_key_def split: temporal_fact.split option.split)

lemma lawful_of_passing: "(\<And>rule inp. passing L rule inp (f rule inp)) \<Longrightarrow> lawful_evaluator L f"
  by (unfold_locales) (auto simp: passing_def)

interpretation occupancy_session: lawful_evaluator L "occupancy_session_evaluator L" for L
  by (rule lawful_of_passing) (rule passing_evaluators)

interpretation dwell_threshold: lawful_evaluator L "dwell_threshold_evaluator L" for L
  by (rule lawful_of_passing) (rule passing_evaluators)

interpretation queue_candidate: lawful_evaluator L "queue_candidate_evaluator L" for L
  unfolding queue_candidate_evaluator_def by (rule lawful_of_passing) (rule passing_queue, simp)

interpretation queue_candidate_v2: lawful_evaluator L "queue_candidate_evaluator_v2 L" for L
  unfolding queue_candidate_evaluator_v2_def
  by (rule lawful_of_passing) (rule passing_queue, auto simp: queue_max_length_invalid_def split: if_splits)

interpretation service_gap: lawful_evaluator L "service_gap_evaluator L" for L
  by (rule lawful_of_passing) (rule passing_evaluators)

interpretation turnover_delay: lawful_evaluator L "turnover_delay_evaluator L" for L
  by (rule lawful_of_passing) (rule passing_evaluators)

subsection \<open>Totality on valid inputs\<close>

lemma invalid_total:
  assumes "rule_definition_valid rule" "rule_evaluation_input_valid inp" "reason \<noteq> ''''"
  shows "\<exists>r. invalid_result rule inp reason = Inr r \<and> rr_status r = INVALID \<and> rr_event r = None"
  using assms by (simp add: rule_result_def rule_evaluation_result_valid_def rule_definition_valid_def
      rule_evaluation_input_valid_def)

lemma no_match_total:
  assumes "rule_definition_valid rule" "rule_evaluation_input_valid inp"
  shows "\<exists>r. no_match_result rule inp key = Inr r \<and> rr_status r = NO_MATCH \<and> rr_event r = None"
  using assms by (simp add: rule_result_def rule_evaluation_result_valid_def rule_definition_valid_def
      rule_evaluation_input_valid_def)

lemma event_type_value_nonempty [simp]: "event_type_value t \<noteq> ''''"
  by (cases t) simp_all

lemma match_total:
  assumes "rule_definition_valid rule" "rule_evaluation_input_valid inp" "payload_valid payload"
  shows "\<exists>r e. match_result L rule inp key payload = Inr r \<and> rr_status r = MATCH \<and> rr_event r = Some e \<and>
    ee_payload e = payload \<and> ee_event_time e = ri_event_time inp \<and>
    ee_event_id e = deterministic_event_id L rule inp (ri_event_time inp) (event_type_value (rd_output_event_type rule))"
  using assms by (cases "ri_processing_time inp")
    (simp_all add: match_result_def rule_result_def rule_evaluation_result_valid_def rule_definition_valid_def
      rule_evaluation_input_valid_def event_envelope_valid_def Let_def)

text \<open>A match under a rule that requires evidence gets its request from the engine.\<close>

lemma evidence_ref_total:
  assumes "rule_definition_valid rule" "rule_evaluation_input_valid inp"
  shows "\<exists>ref. deterministic_evidence_ref L rule inp i = Inr ref \<and> ev_ref_id ref = evidence_id L i (key_session_id (primary_key inp))"
  using assms by (simp add: deterministic_evidence_ref_def validated_def evidence_ref_valid_def evidence_uri_def
      validate_evidence_chain_def media_evidence_types_def evidence_rule_version_ok_def rule_definition_valid_def
      rule_evaluation_input_valid_def Let_def)

lemma policy_total:
  assumes "rule_definition_valid rule" "rule_evaluation_input_valid inp" "rr_evidence_requests r = []"
    and "rr_status r = MATCH \<longrightarrow> rr_event r \<noteq> None"
  shows "\<exists>refs. apply_evidence_policy L rule inp r = Inr (r\<lparr>rr_evidence_requests := refs\<rparr>)"
proof (cases "rr_status r = MATCH \<and> rd_evidence_requirement rule = EVIDENCE_REQUIRED")
  case True
  with assms(4) obtain e where e: "rr_event r = Some e" by auto
  from evidence_ref_total [OF assms(1,2), of L "ee_event_id e"] True e assms(3) show ?thesis
    by (auto simp: apply_evidence_policy_def)
next
  case False
  with assms(3,4) have "apply_evidence_policy L rule inp r = Inr r"
    by (auto simp: apply_evidence_policy_def split: option.splits)
  moreover have "r = r\<lparr>rr_evidence_requests := []\<rparr>" using assms(3) by simp
  ultimately show ?thesis by metis
qed

subsection \<open>The wiring\<close>

lemma of_char_simps:
  "is_space (CHR ''o'') = False" "is_space (CHR ''d'') = False" "is_space (CHR ''q'') = False"
  "is_space (CHR ''s'') = False" "is_space (CHR ''t'') = False" "is_space (CHR ''O'') = False"
  "is_space (CHR ''D'') = False" "is_space (CHR ''Q'') = False" "is_space (CHR ''S'') = False"
  "is_space (CHR ''T'') = False" "is_space (CHR ''C'') = False"
  by (simp_all add: is_space_def)

lemma blank_Cons: "blank (c # cs) \<longleftrightarrow> is_space c \<and> blank cs"
  by (simp add: blank_def)

lemmas definition_defs = occupancy_session_definition_def dwell_threshold_definition_def
  queue_candidate_definition_def queue_candidate_definition_v2_def service_gap_definition_def
  turnover_delay_definition_def data_quality_definition_def

lemma version_v2 [simp]: "validate_rule_version ''v2''"
  by (simp add: is_digit_def)

lemma evaluators_registered:
  "register_evaluators [] (operational_evaluators L dq) = Inr (operational_evaluators L dq)"
  by (simp add: operational_evaluators_def register_evaluator_def blank_Cons of_char_simps)

text \<open>A rule as the wiring builds it: valid exactly when its version is, and accepted by the operational registry.\<close>

definition operational_evaluator_ids :: "string set" where
  "operational_evaluator_ids = set (map fst (operational_evaluators undefined undefined))"

lemma operational_evaluator_ids: "fst ` set (operational_evaluators L dq) = operational_evaluator_ids"
  by (simp add: operational_evaluator_ids_def operational_evaluators_def)

definition rule_named :: "rule_definition \<Rightarrow> rule_event_type \<Rightarrow> string \<Rightarrow> string \<Rightarrow> bool" where
  "rule_named R t v ident = (rule_definition_valid R \<and> rd_rule_id R = event_type_value t \<and> rd_rule_version R = v \<and>
     rd_evaluator_id R = ident \<and> rd_output_event_type R = t \<and> rd_input_fact_types R \<noteq> {} \<and>
     rd_deterministic_version R = TEMPORAL_ENGINE_VERSION \<and> ident \<in> operational_evaluator_ids)"

lemma definitions_valid:
  assumes "validate_rule_version v"
  shows "\<exists>R. occupancy_session_definition v = Inr R \<and> rule_named R OCCUPANCY_SESSION v ''occupancy_session_evaluator.v1'' \<and>
      rd_input_fact_types R = {OCCUPANCY_SNAPSHOT} \<and> rd_configuration_requirements R = {} \<and>
      rd_evidence_requirement R = EVIDENCE_REQUIRED"
    "\<exists>R. dwell_threshold_definition v = Inr R \<and> rule_named R DWELL_THRESHOLD v ''dwell_threshold_evaluator.v1''"
    "\<exists>R. queue_candidate_definition v = Inr R \<and> rule_named R QUEUE_CANDIDATE v ''queue_candidate_evaluator.v1''"
    "\<exists>R. service_gap_definition v = Inr R \<and> rule_named R SERVICE_GAP_CANDIDATE v ''service_gap_evaluator.v1''"
    "\<exists>R. turnover_delay_definition v = Inr R \<and> rule_named R TURNOVER_DELAY v ''turnover_delay_evaluator.v1''"
    "\<exists>R. data_quality_definition v = Inr R \<and> rule_named R DATA_QUALITY v ''data_quality_evaluator.v1''"
  using assms
  by (simp_all add: definition_defs validated_def rule_definition_valid_def rule_named_def cooldown_policy_valid_def
      blank_Cons of_char_simps TEMPORAL_ENGINE_VERSION_def operational_evaluator_ids_def operational_evaluators_def)

lemma definition_v2_valid:
  "\<exists>R. queue_candidate_definition_v2 = Inr R \<and> rule_named R QUEUE_CANDIDATE ''v2'' ''queue_candidate_evaluator.v2''"
  by (simp add: definition_defs validated_def rule_definition_valid_def rule_named_def cooldown_policy_valid_def
      blank_Cons of_char_simps TEMPORAL_ENGINE_VERSION_def operational_evaluator_ids_def operational_evaluators_def
      del: validate_rule_version.simps)

lemma definition_invalid: "\<not> validate_rule_version v \<Longrightarrow> occupancy_session_definition v = Inl (ContractError ''RuleDefinition'')"
  by (simp add: occupancy_session_definition_def validated_def rule_definition_valid_def)

definition rule_key_of :: "rule_definition \<Rightarrow> rule_key" where
  "rule_key_of r = (rd_rule_id r, rd_rule_version r)"

lemma rule_named_accepted:
  "rule_named R t v ident \<Longrightarrow> rg_supported_evaluators g = operational_evaluator_ids \<Longrightarrow>
     rg_supported_deterministic_versions g = {TEMPORAL_ENGINE_VERSION} \<Longrightarrow> validate_definition g R = Inr ()"
  by (auto simp: rule_named_def validate_definition_def rule_definition_valid_def)

lemma register_all_append: "register_all g (xs @ ys) = rbind (register_all g xs) (\<lambda>g'. register_all g' ys)"
  by (induction xs arbitrary: g) (simp_all add: rbind_assoc)

lemma register_all_distinct:
  assumes "list_all (\<lambda>r. validate_definition g r = Inr ()) rs" "distinct (map fst (rg_rules g) @ map rule_key_of rs)"
  shows "register_all g (map Inr rs) = Inr (g\<lparr>rg_rules := rg_rules g @ map (\<lambda>r. (rule_key_of r, r)) rs\<rparr>)"
  using assms
proof (induction rs arbitrary: g)
  case (Cons r rs)
  let ?g = "g\<lparr>rg_rules := rg_rules g @ [(rule_key_of r, r)]\<rparr>"
  have "register g r = Inr ?g"
    using Cons.prems by (auto simp: register_Inr registry_get_None_iff rule_key_of_def)
  moreover have "validate_definition ?g x = validate_definition g x" for x
    by (rule validate_definition_cong) simp_all
  ultimately show ?case using Cons.prems Cons.IH [of ?g] by simp
qed simp

lemma registry_ok_all: "registry_ok g \<Longrightarrow> register_all g ds = Inr g' \<Longrightarrow> registry_ok g'"
  by (induction ds arbitrary: g) (auto intro: register_ok)

lemma wiring_cases:
  "(\<not> validate_rule_version v \<longrightarrow>
      build_operational_registries L dq v = Inl (ContractError ''RuleDefinition'')) \<and>
   (v = ''v2'' \<longrightarrow> build_operational_registries L dq v = Inl DuplicateRuleError) \<and>
   (validate_rule_version v \<and> v \<noteq> ''v2'' \<longrightarrow> (\<exists>g evs. build_operational_registries L dq v = Inr (g, evs) \<and>
      registry_ok g \<and> length (rg_rules g) = 7 \<and>
      list_all (\<lambda>(key, rule). map_of evs (rd_evaluator_id rule) \<noteq> None) (rg_rules g)))"
proof (cases "validate_rule_version v")
  case False
  then have "v \<noteq> ''v2''" using version_v2 by metis
  with False show ?thesis
    by (simp add: build_operational_registries_def evaluators_registered definition_invalid)
next
  case True
  let ?g0 = "new_registry operational_evaluator_ids"
  from definitions_valid [OF True] definition_v2_valid obtain r1 r2 r3 r4 r5 r6 r7 where
    d: "occupancy_session_definition v = Inr r1" "dwell_threshold_definition v = Inr r2"
      "queue_candidate_definition v = Inr r3" "queue_candidate_definition_v2 = Inr r4"
      "service_gap_definition v = Inr r5" "turnover_delay_definition v = Inr r6" "data_quality_definition v = Inr r7"
    and n: "rule_named r1 OCCUPANCY_SESSION v ''occupancy_session_evaluator.v1''"
      "rule_named r2 DWELL_THRESHOLD v ''dwell_threshold_evaluator.v1''"
      "rule_named r3 QUEUE_CANDIDATE v ''queue_candidate_evaluator.v1''"
      "rule_named r4 QUEUE_CANDIDATE ''v2'' ''queue_candidate_evaluator.v2''"
      "rule_named r5 SERVICE_GAP_CANDIDATE v ''service_gap_evaluator.v1''"
      "rule_named r6 TURNOVER_DELAY v ''turnover_delay_evaluator.v1''"
      "rule_named r7 DATA_QUALITY v ''data_quality_evaluator.v1''"
    by blast
  have build: "build_operational_registries L dq v = rbind (register_all ?g0 (map Inr [r1, r2, r3, r4, r5, r6, r7]))
      (\<lambda>g. Inr (g, operational_evaluators L dq))"
    by (simp add: build_operational_registries_def evaluators_registered operational_evaluator_ids d)
  have acc: "validate_definition ?g0 r = Inr ()" if "r \<in> {r1, r2, r3, r4, r5, r6, r7}" for r
    using that n by (auto simp: new_registry_def intro: rule_named_accepted)
  have keys: "map rule_key_of [r1, r2, r3, r4, r5, r6, r7] =
      [(''occupancy_session'', v), (''dwell_threshold'', v), (''queue_candidate'', v), (''queue_candidate'', ''v2''),
       (''service_gap_candidate'', v), (''turnover_delay'', v), (''data_quality'', v)]"
    using n by (simp add: rule_named_def rule_key_of_def)
  show ?thesis
  proof (cases "v = ''v2''")
    case v2: True
    have "register_all ?g0 (map Inr [r1, r2, r3]) =
        Inr (?g0\<lparr>rg_rules := map (\<lambda>r. (rule_key_of r, r)) [r1, r2, r3]\<rparr>)" (is "_ = Inr ?g3")
      using register_all_distinct [of ?g0 "[r1, r2, r3]"] acc keys by (simp add: new_registry_def)
    moreover have "register ?g3 r4 = Inl DuplicateRuleError"
    proof -
      have "validate_definition ?g3 r4 = Inr ()"
        using acc [of r4] validate_definition_cong [of ?g3 ?g0 r4] by simp
      then show ?thesis
        using keys v2 by (auto simp: register_def registry_has_def registry_get_def rule_key_of_def)
    qed
    ultimately have "register_all ?g0 (map Inr [r1, r2, r3] @ map Inr [r4, r5, r6, r7]) = Inl DuplicateRuleError"
      by (simp only: register_all_append rbind_Inr rbind_Inl list.map register_all.simps)
    then have "build_operational_registries L dq v = Inl DuplicateRuleError"
      by (simp add: build del: register_all.simps)
    with True v2 show ?thesis by (simp del: validate_rule_version.simps)
  next
    case False
    have "register_all ?g0 (map Inr [r1, r2, r3, r4, r5, r6, r7]) =
        Inr (?g0\<lparr>rg_rules := map (\<lambda>r. (rule_key_of r, r)) [r1, r2, r3, r4, r5, r6, r7]\<rparr>)" (is "?all = Inr ?g7")
      using register_all_distinct [of ?g0 "[r1, r2, r3, r4, r5, r6, r7]"] acc keys False by (simp add: new_registry_def)
    note all = this
    from registry_ok_all [OF registry_ok_new all] have "registry_ok ?g7" .
    moreover have "build_operational_registries L dq v = Inr (?g7, operational_evaluators L dq)"
      unfolding build all by simp
    moreover have "length (rg_rules ?g7) = 7" by simp
    moreover have "list_all (\<lambda>(key, rule). map_of (operational_evaluators L dq) (rd_evaluator_id rule) \<noteq> None) (rg_rules ?g7)"
      using n by (simp add: rule_named_def operational_evaluators_def)
    ultimately show ?thesis using True False by blast
  qed
qed

text \<open>The sanctioned wiring succeeds for every well-formed version other than \<open>v2\<close>, with a registry in which every rule
  is found under its identity and every rule's evaluator is registered; for \<open>v2\<close> it raises, because the queue rule
  is then registered under one identity twice, and for a malformed version the first definition is refused.\<close>

theorem operational_wiring:
  "(\<not> validate_rule_version v \<longrightarrow>
      build_operational_registries L dq v = Inl (ContractError ''RuleDefinition'')) \<and>
   (v = ''v2'' \<longrightarrow> build_operational_registries L dq v = Inl DuplicateRuleError) \<and>
   (validate_rule_version v \<and> v \<noteq> ''v2'' \<longrightarrow> (\<exists>g evs. build_operational_registries L dq v = Inr (g, evs) \<and>
      registry_ok g \<and> length (rg_rules g) = 7 \<and>
      list_all (\<lambda>(key, rule). map_of evs (rd_evaluator_id rule) \<noteq> None) (rg_rules g)))"
  by (rule wiring_cases)

theorem operational_wiring_witness:
  "build_operational_registries sample_lib (occupancy_session_evaluator sample_lib) ''v2'' = Inl DuplicateRuleError \<and>
   (\<exists>g evs. build_operational_registries sample_lib (occupancy_session_evaluator sample_lib) ''v1'' = Inr (g, evs))"
proof -
  have "validate_rule_version ''v1''" by (simp add: is_digit_def)
  then show ?thesis
    using operational_wiring [of "''v2''" sample_lib "occupancy_session_evaluator sample_lib"] operational_wiring [of "''v1''" sample_lib "occupancy_session_evaluator sample_lib"] by auto
qed

end
