(* ===== verification/Rules_Composition.thy ===== *)
theory Rules_Composition
  imports Operational_Rules_Facts
begin

text \<open>
  The rules on top of the temporal engines: the occupancy-session rule applied to the snapshots of a run of
  the occupancy engine, and the decisions of the threshold rules on open and closed intervals. The end of
  the theory shows where content-derived event identities separate too much and too little.
\<close>

subsection \<open>Occupancy sessions over a run\<close>

text \<open>The evaluation a snapshot is submitted with: its own instant and the version its key is pinned to.\<close>

definition session_input :: "string \<Rightarrow> occupancy_snapshot \<Rightarrow> rule_evaluation_input" where
  "session_input version sn = \<lparr>ri_schema_version = SCHEMA_VERSION, ri_facts = [SnapshotFact sn],
     ri_configuration = Map.empty, ri_configuration_version_id = key_configuration_version_id (sn_key sn),
     ri_rule_version = version, ri_event_time = sn_event_time sn, ri_processing_time = None\<rparr>"

definition evaluate_session :: "stdlib \<Rightarrow> rule_registry \<times> evaluator_registry \<Rightarrow> string \<Rightarrow> occupancy_snapshot \<Rightarrow>
    rule_error + rule_evaluation_result" where
  "evaluate_session L regs version sn =
     evaluate_rule L (fst regs) (snd regs) ''occupancy_session'' version (session_input version sn)"

definition result_phase :: "rule_evaluation_result \<Rightarrow> occupancy_session_phase option" where
  "result_phase r = (case rr_event r of None \<Rightarrow> None | Some e \<Rightarrow>
     (case ee_payload e of OccupancySessionPayload p \<Rightarrow> Some (op_phase p) | _ \<Rightarrow> None))"

definition snapshot_phase :: "occupancy_snapshot \<Rightarrow> occupancy_session_phase option" where
  "snapshot_phase sn = (if sn_previous_count sn = 0 \<and> 0 < sn_occupancy_count sn then Some STARTED
     else if 0 < sn_previous_count sn \<and> sn_occupancy_count sn = 0 then Some ENDED else None)"

lemma session_input_valid:
  "occupancy_snapshot_valid sn \<Longrightarrow> validate_rule_version version \<Longrightarrow> rule_evaluation_input_valid (session_input version sn)"
  by (simp add: rule_evaluation_input_valid_def session_input_def occupancy_snapshot_valid_def)

lemma session_evaluator_decides:
  assumes rule: "rule_named rule OCCUPANCY_SESSION v ident" and v: "validate_rule_version v"
    and sn: "occupancy_snapshot_valid sn" "key_fsm_kind (sn_key sn) = ''occupancy''"
  shows "\<exists>r. occupancy_session_evaluator L rule (session_input v sn) = Inr r \<and> result_phase r = snapshot_phase sn \<and>
    rr_status r = (if snapshot_phase sn = None then NO_MATCH else MATCH) \<and>
    (rr_status r = MATCH \<longrightarrow> rr_event r \<noteq> None) \<and>
    (\<forall>e. rr_event r = Some e \<longrightarrow> ee_event_id e = deterministic_event_id L rule (session_input v sn) (sn_event_time sn)
       ''occupancy_session'')"
proof -
  have valid: "rule_definition_valid rule" using rule by (simp add: rule_named_def)
  note inp = session_input_valid [OF sn(1) v]
  let ?i = "session_input v sn"
  have head: "hd (ri_facts ?i) = SnapshotFact sn" "ri_event_time ?i = sn_event_time sn"
    by (simp_all add: session_input_def)
  have event: "\<exists>r. occupancy_session_event L rule ?i sn ph = Inr r \<and> result_phase r = Some ph \<and>
      rr_status r = MATCH \<and> (\<exists>e. rr_event r = Some e \<and>
        ee_event_id e = deterministic_event_id L rule ?i (sn_event_time sn) ''occupancy_session'')" for ph
  proof -
    have "payload_valid (OccupancySessionPayload \<lparr>op_phase = ph, op_tenant_id = key_tenant_id (sn_key sn),
        op_venue_id = key_venue_id (sn_key sn), op_session_id = key_session_id (sn_key sn),
        op_camera_id = key_camera_id (sn_key sn), op_spatial_context_id = key_semantic_context (sn_key sn),
        op_occupancy_count = sn_occupancy_count sn, op_occupied_tracks = sn_occupied_tracks sn,
        op_occupancy_time = sn_event_time sn, op_configuration_version_id = ri_configuration_version_id ?i,
        op_rule_id = rd_rule_id rule, op_rule_version = rd_rule_version rule\<rparr>)"
      using sn(1) by (simp add: occupancy_snapshot_valid_def)
    from match_total [OF valid inp this, of L "sn_key sn"] show ?thesis
      using rule by (auto simp: occupancy_session_event_def result_phase_def rule_named_def head(2))
  qed
  from no_match_total [OF valid inp, of "sn_key sn"] obtain r0 where
    "no_match_result rule ?i (sn_key sn) = Inr r0" "rr_status r0 = NO_MATCH" "rr_event r0 = None" by blast
  with event [of STARTED] event [of ENDED] show ?thesis
    by (auto simp: occupancy_session_evaluator_def head sn(2) snapshot_phase_def result_phase_def)
qed

lemma register_keeps: "register g d = Inr g' \<Longrightarrow> registry_get g i v = Some r \<Longrightarrow> registry_get g' i v = Some r"
  by (auto simp: register_Inr registry_get_def map_add_def)

lemma register_all_keeps: "register_all g ds = Inr g' \<Longrightarrow> registry_get g i v = Some r \<Longrightarrow> registry_get g' i v = Some r"
  by (induction ds arbitrary: g) (auto dest: register_keeps)

lemma register_gets: "register g d = Inr g' \<Longrightarrow> registry_get g' (rd_rule_id d) (rd_rule_version d) = Some d"
  by (auto simp: register_Inr registry_get_def map_add_def split: option.split)

lemma register_all_gets:
  "register_all g ds = Inr g' \<Longrightarrow> Inr rule \<in> set ds \<Longrightarrow>
     registry_get g' (rd_rule_id rule) (rd_rule_version rule) = Some rule"
proof (induction ds arbitrary: g)
  case (Cons d ds)
  then obtain r g1 where d: "d = Inr r" and g1: "register g r = Inr g1" "register_all g1 ds = Inr g'" by (cases d) auto
  from Cons.prems(2) d consider "rule = r" | "Inr rule \<in> set ds" by auto
  then show ?case
    using Cons.IH [OF g1(2)] register_gets [OF g1(1)] register_all_keeps [OF g1(2)] by cases auto
qed simp

lemma wired:
  assumes "build_operational_registries L dq v = Inr regs"
  shows "validate_rule_version v" "snd regs = operational_evaluators L dq"
    "\<exists>rule. occupancy_session_definition v = Inr rule \<and> registry_get (fst regs) ''occupancy_session'' v = Some rule"
    "\<exists>rule. turnover_delay_definition v = Inr rule \<and> registry_get (fst regs) ''turnover_delay'' v = Some rule"
    "\<exists>rule. data_quality_definition v = Inr rule \<and> registry_get (fst regs) ''data_quality'' v = Some rule"
proof -
  show v: "validate_rule_version v"
    using assms definition_invalid [of v]
    by (cases "validate_rule_version v") (auto simp: build_operational_registries_def evaluators_registered)
  from assms obtain g where regs: "regs = (g, operational_evaluators L dq)"
    and g: "register_all (new_registry (set (map fst (operational_evaluators L dq))))
       [occupancy_session_definition v, dwell_threshold_definition v, queue_candidate_definition v,
        queue_candidate_definition_v2, service_gap_definition v, turnover_delay_definition v,
        data_quality_definition v] = Inr g"
    by (auto simp: build_operational_registries_def evaluators_registered simp del: register_all.simps)
  then show "snd regs = operational_evaluators L dq" by simp
  note get = register_all_gets [OF g]
  from definitions_valid(1) [OF v] obtain r1 where "occupancy_session_definition v = Inr r1"
    "rule_named r1 OCCUPANCY_SESSION v ''occupancy_session_evaluator.v1''" by blast
  then show "\<exists>rule. occupancy_session_definition v = Inr rule \<and> registry_get (fst regs) ''occupancy_session'' v = Some rule"
    using get [of r1] by (simp add: regs rule_named_def)
  from definitions_valid(5) [OF v] obtain r6 where "turnover_delay_definition v = Inr r6"
    "rule_named r6 TURNOVER_DELAY v ''turnover_delay_evaluator.v1''" by blast
  then show "\<exists>rule. turnover_delay_definition v = Inr rule \<and> registry_get (fst regs) ''turnover_delay'' v = Some rule"
    using get [of r6] by (simp add: regs rule_named_def)
  from definitions_valid(6) [OF v] obtain r7 where "data_quality_definition v = Inr r7"
    "rule_named r7 DATA_QUALITY v ''data_quality_evaluator.v1''" by blast
  then show "\<exists>rule. data_quality_definition v = Inr rule \<and> registry_get (fst regs) ''data_quality'' v = Some rule"
    using get [of r7] by (simp add: regs rule_named_def)
qed

text \<open>A lawful evaluator that returns is obeyed; the engine only adds the evidence request.\<close>

lemma evaluate_lawful:
  assumes "lawful_evaluator L f" "registry_get g i v = Some rule" "validate_input rule inp = Inr ()"
    and "map_of evs (rd_evaluator_id rule) = Some f" "f rule inp = Inr r"
    and "rule_definition_valid rule" "rule_evaluation_input_valid inp" "rr_status r = MATCH \<longrightarrow> rr_event r \<noteq> None"
  shows "\<exists>refs. evaluate_rule L g evs i v inp = Inr (r\<lparr>rr_evidence_requests := refs\<rparr>)"
proof -
  have "evaluate_rule L g evs i v inp = apply_evidence_policy L rule inp r"
    using lawful_evaluator.never_rejected(1) [OF assms(1) _ assms(3-5)] assms(2) by (simp add: registry_resolve_Inr)
  then show ?thesis
    using policy_total [OF assms(6,7) lawful_evaluator.leaves_evidence [OF assms(1,5)] assms(8), where L = L] by auto
qed

definition session_event_id :: "stdlib \<Rightarrow> rule_definition \<Rightarrow> string \<Rightarrow> occupancy_snapshot \<Rightarrow> uuid" where
  "session_event_id L rule v sn =
     deterministic_event_id L rule (session_input v sn) (sn_event_time sn) ''occupancy_session''"

lemma evaluate_session_decides:
  assumes b: "build_operational_registries L dq v = Inr regs" and rule: "occupancy_session_definition v = Inr rule"
    and sn: "occupancy_snapshot_valid sn" "key_fsm_kind (sn_key sn) = ''occupancy''"
  shows "\<exists>r. evaluate_session L regs v sn = Inr r \<and> result_phase r = snapshot_phase sn \<and>
    (\<forall>e. rr_event r = Some e \<longrightarrow> ee_event_id e = session_event_id L rule v sn)"
proof -
  note w = wired [OF b]
  from definitions_valid(1) [OF w(1)] rule have n: "rule_named rule OCCUPANCY_SESSION v ''occupancy_session_evaluator.v1''"
    and c: "rd_input_fact_types rule = {OCCUPANCY_SNAPSHOT}" "rd_configuration_requirements rule = {}" by auto
  from w(3) rule have g: "registry_get (fst regs) ''occupancy_session'' v = Some rule" by simp
  from session_evaluator_decides [OF n w(1) sn, of L] obtain r where
    r: "occupancy_session_evaluator L rule (session_input v sn) = Inr r" "result_phase r = snapshot_phase sn"
    "rr_status r = MATCH \<longrightarrow> rr_event r \<noteq> None"
    "\<forall>e. rr_event r = Some e \<longrightarrow> ee_event_id e = session_event_id L rule v sn"
    unfolding session_event_id_def by blast
  have "validate_input rule (session_input v sn) = Inr ()"
    using n c by (simp add: validate_input_Inr session_input_def input_scope_def rule_named_def)
  moreover have "map_of (snd regs) (rd_evaluator_id rule) = Some (occupancy_session_evaluator L)"
    using n by (simp add: w(2) rule_named_def operational_evaluators_def)
  moreover have "rule_definition_valid rule" using n by (simp add: rule_named_def)
  ultimately obtain refs where "evaluate_session L regs v sn = Inr (r\<lparr>rr_evidence_requests := refs\<rparr>)"
    using evaluate_lawful [OF occupancy_session.lawful_evaluator_axioms g _ _ r(1) _ session_input_valid [OF sn(1) w(1)] r(3)]
    unfolding evaluate_session_def by blast
  then show ?thesis using r(2,4) by (simp add: result_phase_def)
qed

lemma map_filter_simps [simp]:
  "List.map_filter f [] = []"
  "List.map_filter f (x # xs) = (case f x of None \<Rightarrow> List.map_filter f xs | Some y \<Rightarrow> y # List.map_filter f xs)"
  by (simp_all add: List.map_filter_def split: option.split)

lemma mapM_total:
  "\<forall>x\<in>set xs. \<exists>y. f x = Inr y \<and> P x y \<Longrightarrow> \<exists>ys. mapM f xs = Inr ys \<and> list_all2 P xs ys"
  by (induction xs) auto

lemma map_filter_related:
  "list_all2 (\<lambda>x y. g y = f x) xs ys \<Longrightarrow> List.map_filter g ys = List.map_filter f xs"
  by (induction rule: list_all2_induct) (simp_all add: List.map_filter_def)

text \<open>The snapshots of a run all carry the scope key.\<close>

lemma occupancy_run_keys:
  "run_facts (occupancy_step L p) s is = Inr (s', out) \<Longrightarrow>
     list_all (\<lambda>sn. sn_key sn = os_key s \<and> sn_policy_revision sn = pol_revision p \<and>
       sn_fsm_version sn = fsm_version OCCUPANCY_FSM) (List.map_filter snd out)"
proof (induction "is" arbitrary: s out)
  case Nil
  then show ?case by (simp add: List.map_filter_def)
next
  case (Cons i "is")
  then obtain s1 o1 o2 where st: "occupancy_step L p s i = Inr (s1, o1)"
    and run: "run_facts (occupancy_step L p) s1 is = Inr (s', o2)" and out: "out = o1 @ o2"
    by (auto simp: run_facts_Cons_Inr simp del: run_facts.simps)
  from st have "os_key s1 = os_key s \<and> list_all (\<lambda>sn. sn_key sn = os_key s \<and> sn_policy_revision sn = pol_revision p \<and>
      sn_fsm_version sn = fsm_version OCCUPANCY_FSM) (List.map_filter snd o1)"
  proof (cases rule: occupancy_step_cases)
    case ignored
    then show ?thesis by (simp add: List.map_filter_def)
  next
    case (applied order r)
    note facts = in_order_cases [OF applied(7) applied(2)]
    have "sn_key sn = os_key s \<and> sn_policy_revision sn = pol_revision p \<and> sn_fsm_version sn = fsm_version OCCUPANCY_FSM"
      if "or_snapshot r = Some sn" for sn
      using facts(11) [OF that] facts(4) by (simp add: build_snapshot_def Let_def)
    with facts(4) show ?thesis
      by (cases "or_snapshot r") (simp_all add: applied(4,5) List.map_filter_def)
  qed
  with Cons.IH [OF run] show ?case by (simp add: out List.map_filter_def)
qed

text \<open>Starts and ends in alternation, from one occupied status to another.\<close>

fun alternates :: "bool \<Rightarrow> occupancy_session_phase list \<Rightarrow> bool \<Rightarrow> bool" where
  "alternates occ [] final = (occ = final)"
| "alternates occ (STARTED # ps) final = (\<not> occ \<and> alternates True ps final)"
| "alternates occ (ENDED # ps) final = (occ \<and> alternates False ps final)"

lemma explains_alternates:
  "explains n sns m \<Longrightarrow> 0 \<le> n \<Longrightarrow> alternates (0 < n) (List.map_filter snapshot_phase sns) (0 < m)"
proof (induction n sns m rule: explains.induct)
  case (1 n m)
  then show ?case by simp
next
  case (2 n sn sns m)
  let ?k = "sn_occupancy_count sn"
  from 2 have k: "0 \<le> ?k" "sn_previous_count sn = n" "?k = n + sn_delta sn" "\<bar>sn_delta sn\<bar> = 1"
    by (auto simp: occupancy_snapshot_valid_def)
  from 2 k have rest: "alternates (0 < ?k) (List.map_filter snapshot_phase sns) (0 < m)" by simp
  from k have ph: "snapshot_phase sn = (if n = 0 \<and> 0 < ?k then Some STARTED else if 0 < n \<and> ?k = 0 then Some ENDED else None)"
    by (simp add: snapshot_phase_def)
  from k 2(3) consider "n = 0" "0 < ?k" | "0 < n" "?k = 0" | "0 < n" "0 < ?k" by linarith
  then show ?case using rest by cases (simp_all add: ph)
qed

lemma run_sessions:
  assumes init: "occupancy_initial_state L key = Inr s0"
    and run: "run_facts (occupancy_step L p) s0 is = Inr (s, out)"
    and b: "build_operational_registries L dq v = Inr regs"
  shows "explains 0 (List.map_filter snd out) (int (occupancy_count s))"
    and "sn \<in> set (List.map_filter snd out) \<Longrightarrow> sn_key sn = os_key s0 \<and> occupancy_snapshot_valid sn \<and>
      (\<exists>r. evaluate_session L regs v sn = Inr r \<and> result_phase r = snapshot_phase sn)"
proof -
  from occupancy_initial_ok [OF init] have ok: "occupancy_ok L s0" and empty: "os_occupied_tracks s0 = {}" by simp_all
  show ex: "explains 0 (List.map_filter snd out) (int (occupancy_count s))"
    using occupancy_run_explained [OF run] empty by (simp add: occupancy_count_def)
  have valid: "explains n sns m \<Longrightarrow> sn \<in> set sns \<Longrightarrow> occupancy_snapshot_valid sn" for n sns m
    by (induction n sns m rule: explains.induct) auto
  assume sn: "sn \<in> set (List.map_filter snd out)"
  with occupancy_run_keys [OF run] have "sn_key sn = os_key s0" by (simp add: list_all_iff)
  moreover have "key_fsm_kind (os_key s0) = ''occupancy''"
    using ok by (simp add: occupancy_ok_def occupancy_state_valid_def validate_occupancy_invariants_def)
  ultimately show "sn_key sn = os_key s0 \<and> occupancy_snapshot_valid sn \<and>
      (\<exists>r. evaluate_session L regs v sn = Inr r \<and> result_phase r = snapshot_phase sn)"
    using evaluate_session_decides [OF b _ valid [OF ex sn]] wired(3) [OF b] valid [OF ex sn] by metis
qed

text \<open>C5: submitting every snapshot of a run of the occupancy engine to the operational rule engine never fails, and
  the session events that come out alternate, a start first, and end with a start exactly when the scope is
  occupied at the end of the run.\<close>

theorem occupancy_sessions_alternate:
  assumes "occupancy_initial_state L key = Inr s0" "run_facts (occupancy_step L p) s0 is = Inr (s, out)"
    and "build_operational_registries L dq v = Inr regs"
  shows "\<exists>rs. mapM (evaluate_session L regs v) (List.map_filter snd out) = Inr rs \<and>
    alternates False (List.map_filter result_phase rs) (os_occupied_tracks s \<noteq> {})"
proof -
  note facts = run_sessions [OF assms]
  from facts(2) obtain rs where rs: "mapM (evaluate_session L regs v) (List.map_filter snd out) = Inr rs"
    and rel: "list_all2 (\<lambda>sn r. result_phase r = snapshot_phase sn) (List.map_filter snd out) rs"
    using mapM_total [of "List.map_filter snd out" "evaluate_session L regs v" "\<lambda>sn r. result_phase r = snapshot_phase sn"]
    by blast
  have "alternates False (List.map_filter snapshot_phase (List.map_filter snd out)) (0 < int (occupancy_count s))"
    using explains_alternates [OF facts(1)] by simp
  moreover have "0 < int (occupancy_count s) \<longleftrightarrow> os_occupied_tracks s \<noteq> {}"
    by (simp add: occupancy_count_def card_gt_0_iff)
  ultimately show ?thesis using rs map_filter_related [OF rel] by simp
qed

theorem occupancy_sessions_alternate_witness:
  "\<exists>regs s out rs. run_facts (occupancy_step sample_lib sample_policy) sample_occupancy
     [sample_occupancy_input 7 ENTER_CONFIRMED 10 1, sample_occupancy_input 8 ENTER_CONFIRMED 11 2,
      sample_occupancy_input 7 EXIT_CONFIRMED 12 3] = Inr (s, out) \<and>
    mapM (evaluate_session sample_lib regs ''v1'') (List.map_filter snd out) = Inr rs \<and>
    alternates False (List.map_filter result_phase rs) True"
proof -
  from sample_occupancy_run obtain s out where
    run: "run_facts (occupancy_step sample_lib sample_policy) sample_occupancy
     [sample_occupancy_input 7 ENTER_CONFIRMED 10 1, sample_occupancy_input 8 ENTER_CONFIRMED 11 2,
      sample_occupancy_input 7 EXIT_CONFIRMED 12 3] = Inr (s, out)" and s: "os_occupied_tracks s = {8}"
    by (auto simp del: run_facts.simps)
  have "validate_rule_version ''v1''" by (simp add: is_digit_def)
  then obtain regs where "build_operational_registries sample_lib (occupancy_session_evaluator sample_lib) ''v1'' = Inr regs"
    using wiring_cases [of "''v1''" sample_lib "occupancy_session_evaluator sample_lib"] by auto
  from occupancy_sessions_alternate [OF sample_occupancy_initial run this] s obtain rs where
    "mapM (evaluate_session sample_lib regs ''v1'') (List.map_filter snd out) = Inr rs"
    "alternates False (List.map_filter result_phase rs) True" by auto
  with run show ?thesis by blast
qed

subsection \<open>The identity of a session event\<close>

lemma session_event_id_cong:
  "sn_key sn1 = sn_key sn2 \<Longrightarrow> sn_event_time sn1 = sn_event_time sn2 \<Longrightarrow>
     session_event_id L rule v sn1 = session_event_id L rule v sn2"
  by (simp add: session_event_id_def deterministic_event_id_def event_identity_def primary_key_def session_input_def)

text \<open>The identity of a session event is made of the scope, the rule and the event time, and not of the phase: a
  session that ends in the very frame in which the next one starts yields two different events under one
  identifier, and the engine accepts both.\<close>

theorem occupancy_session_id_collision:
  assumes b: "build_operational_registries L dq v = Inr regs"
    and valid: "occupancy_snapshot_valid sn1" "occupancy_snapshot_valid sn2"
    and scope: "sn_key sn1 = key" "sn_key sn2 = key" "key_fsm_kind key = ''occupancy''"
    and time: "sn_event_time sn1 = sn_event_time sn2"
    and phases: "snapshot_phase sn1 = Some ENDED" "snapshot_phase sn2 = Some STARTED"
  shows "\<exists>r1 r2 e1 e2. evaluate_session L regs v sn1 = Inr r1 \<and> evaluate_session L regs v sn2 = Inr r2 \<and>
    rr_event r1 = Some e1 \<and> rr_event r2 = Some e2 \<and> ee_event_id e1 = ee_event_id e2 \<and>
    ee_payload e1 \<noteq> ee_payload e2"
proof -
  from wired(3) [OF b] obtain rule where rule: "occupancy_session_definition v = Inr rule" by blast
  from evaluate_session_decides [OF b rule valid(1)] scope obtain r1 where
    r1: "evaluate_session L regs v sn1 = Inr r1" "result_phase r1 = Some ENDED"
      "\<And>e. rr_event r1 = Some e \<Longrightarrow> ee_event_id e = session_event_id L rule v sn1" by (auto simp: phases)
  from evaluate_session_decides [OF b rule valid(2)] scope obtain r2 where
    r2: "evaluate_session L regs v sn2 = Inr r2" "result_phase r2 = Some STARTED"
      "\<And>e. rr_event r2 = Some e \<Longrightarrow> ee_event_id e = session_event_id L rule v sn2" by (auto simp: phases)
  have phase: "\<exists>e p. rr_event r = Some e \<and> ee_payload e = OccupancySessionPayload p \<and> op_phase p = ph"
    if "result_phase r = Some ph" for r ph
    using that by (auto simp: result_phase_def split: option.splits rule_payload.splits)
  from phase [OF r1(2)] phase [OF r2(2)] obtain e1 e2 p1 p2 where e: "rr_event r1 = Some e1" "rr_event r2 = Some e2"
    and "ee_payload e1 = OccupancySessionPayload p1" "ee_payload e2 = OccupancySessionPayload p2"
      "op_phase p1 = ENDED" "op_phase p2 = STARTED" by blast
  then have p: "ee_payload e1 \<noteq> ee_payload e2" by auto
  have "ee_event_id e1 = ee_event_id e2"
    using r1(3) [OF e(1)] r2(3) [OF e(2)] session_event_id_cong [of sn1 sn2 L rule v] scope time by simp
  with r1(1) r2(1) e p show ?thesis by blast
qed

lemma sample_built:
  "\<exists>regs. build_operational_registries sample_lib (occupancy_session_evaluator sample_lib) ''v1'' = Inr regs"
proof -
  have "validate_rule_version ''v1''" by (simp add: is_digit_def)
  then show ?thesis using wiring_cases [of "''v1''" sample_lib "occupancy_session_evaluator sample_lib"] by auto
qed

text \<open>One track leaves in the frame in which another one enters.\<close>

lemma sample_handover_run:
  "\<exists>s out sn0 sn1 sn2. run_facts (occupancy_step sample_lib sample_policy) sample_occupancy
     [sample_occupancy_input 7 ENTER_CONFIRMED 10 1, sample_occupancy_input 7 EXIT_CONFIRMED 11 2,
      sample_occupancy_input 8 ENTER_CONFIRMED 11 2] = Inr (s, out) \<and> List.map_filter snd out = [sn0, sn1, sn2] \<and>
      occupancy_snapshot_valid sn1 \<and> occupancy_snapshot_valid sn2 \<and> sn_key sn1 = sample_scope \<and>
      sn_key sn2 = sample_scope \<and> sn_event_time sn1 = sn_event_time sn2 \<and>
      snapshot_phase sn1 = Some ENDED \<and> snapshot_phase sn2 = Some STARTED"
  by (simp add: occupancy_eval snapshot_phase_def)

theorem occupancy_session_id_collision_witness:
  "\<exists>regs s out sn0 sn1 sn2 r1 r2 e1 e2. run_facts (occupancy_step sample_lib sample_policy) sample_occupancy
     [sample_occupancy_input 7 ENTER_CONFIRMED 10 1, sample_occupancy_input 7 EXIT_CONFIRMED 11 2,
      sample_occupancy_input 8 ENTER_CONFIRMED 11 2] = Inr (s, out) \<and> List.map_filter snd out = [sn0, sn1, sn2] \<and>
    evaluate_session sample_lib regs ''v1'' sn1 = Inr r1 \<and> evaluate_session sample_lib regs ''v1'' sn2 = Inr r2 \<and>
    rr_event r1 = Some e1 \<and> rr_event r2 = Some e2 \<and> ee_event_id e1 = ee_event_id e2 \<and> ee_payload e1 \<noteq> ee_payload e2"
proof -
  from sample_handover_run obtain s out sn0 sn1 sn2 where
    run: "run_facts (occupancy_step sample_lib sample_policy) sample_occupancy
     [sample_occupancy_input 7 ENTER_CONFIRMED 10 1, sample_occupancy_input 7 EXIT_CONFIRMED 11 2,
      sample_occupancy_input 8 ENTER_CONFIRMED 11 2] = Inr (s, out)" "List.map_filter snd out = [sn0, sn1, sn2]"
    and sn: "occupancy_snapshot_valid sn1" "occupancy_snapshot_valid sn2" "sn_key sn1 = sample_scope"
      "sn_key sn2 = sample_scope" "sn_event_time sn1 = sn_event_time sn2"
      "snapshot_phase sn1 = Some ENDED" "snapshot_phase sn2 = Some STARTED"
    by (elim exE conjE)
  from sample_built obtain regs where
    "build_operational_registries sample_lib (occupancy_session_evaluator sample_lib) ''v1'' = Inr regs" by blast
  from occupancy_session_id_collision [OF this sn(1-4) sample_scope_simps(1) sn(5-7)] run show ?thesis
    by blast
qed

subsection \<open>The decision of a threshold rule\<close>

lemma turnover_definition:
  "turnover_delay_definition v = Inr rule \<Longrightarrow>
     rd_input_fact_types rule = {DWELL_INTERVAL, OCCUPANCY_SNAPSHOT} \<and>
     rd_configuration_requirements rule = {''turnover_delay_seconds'', ''service_window_seconds''}"
  by (auto simp: turnover_delay_definition_def validated_def split: if_splits)

text \<open>The input of the turnover rule: an interval of the dwell engine at its last sighting, with supporting snapshots.\<close>

definition turnover_input :: "dwell_interval \<Rightarrow> occupancy_snapshot list \<Rightarrow> (string \<rightharpoonup> config_value) \<Rightarrow> string \<Rightarrow>
    rule_evaluation_input" where
  "turnover_input d sns conf version = \<lparr>ri_schema_version = SCHEMA_VERSION,
     ri_facts = DwellFact d # map SnapshotFact sns, ri_configuration = conf,
     ri_configuration_version_id = key_configuration_version_id (di_key d), ri_rule_version = version,
     ri_event_time = di_last_seen d, ri_processing_time = None\<rparr>"

definition turnover_due :: "dwell_interval \<Rightarrow> occupancy_snapshot list \<Rightarrow> real \<Rightarrow> real \<Rightarrow> bool" where
  "turnover_due d sns window delay = (di_reason d = None \<and>
     (case sns of [] \<Rightarrow> True | sn # _ \<Rightarrow> 0 < sn_occupancy_count sn) \<and>
     (\<exists>duration. di_duration_seconds d = Some duration \<and> window + delay \<le> duration))"

definition scope_key :: "temporal_state_key \<Rightarrow> scope" where
  "scope_key key = (key_tenant_id key, key_venue_id key, key_session_id key)"

lemma space_occupied_snapshots:
  "space_occupied (DwellFact d # map SnapshotFact sns) = (case sns of [] \<Rightarrow> True | sn # _ \<Rightarrow> 0 < sn_occupancy_count sn)"
  by (cases sns) simp_all

lemma turnover_evaluator_decides:
  assumes rule: "rule_named rule TURNOVER_DELAY v ident" and v: "validate_rule_version v"
    and d: "dwell_interval_valid d" "key_fsm_kind (di_key d) = ''dwell''" "key_semantic_context (di_key d) \<noteq> None"
      "di_duration_seconds d \<noteq> None"
    and conf: "conf ''service_window_seconds'' = Some (ConfNumber (Fin window))" "0 \<le> window"
      "conf ''turnover_delay_seconds'' = Some (ConfNumber (Fin delay))" "0 < delay"
  shows "\<exists>r. turnover_delay_evaluator L rule (turnover_input d sns conf v) = Inr r \<and>
    rr_status r = (if turnover_due d sns window delay then MATCH else NO_MATCH) \<and>
    (turnover_due d sns window delay \<longrightarrow> (\<exists>e. rr_event r = Some e \<and>
      ee_event_id e = deterministic_event_id L rule (turnover_input d sns conf v) (di_last_seen d) ''turnover_delay''))"
proof -
  let ?i = "turnover_input d sns conf v"
  from d(4) obtain duration where dur: "di_duration_seconds d = Some duration" by blast
  have nonneg: "0 \<le> duration" using d(1) by (simp add: dwell_interval_valid_def dur)
  have valid: "rule_definition_valid rule" and inp: "rule_evaluation_input_valid ?i"
    using rule v d(1) by (simp_all add: rule_named_def rule_evaluation_input_valid_def turnover_input_def dwell_interval_valid_def)
  have head: "hd (ri_facts ?i) = DwellFact d" "ri_event_time ?i = di_last_seen d"
    "ri_facts ?i = DwellFact d # map SnapshotFact sns" by (simp_all add: turnover_input_def)
  have settings: "service_window_of L ''service_window_seconds'' ?i = Some (Fin window)"
    "threshold_of L ''turnover_delay_seconds'' ?i = Some (Fin delay)"
    using conf by (simp_all add: service_window_of_def threshold_of_def turnover_input_def)
  let ?p = "TurnoverDelayPayload
                      \<lparr>tp_interval_id = di_interval_id d, tp_tenant_id = key_tenant_id (di_key d),
                       tp_venue_id = key_venue_id (di_key d), tp_session_id = key_session_id (di_key d),
                       tp_camera_id = key_camera_id (di_key d), tp_track_id = key_track_id (di_key d),
                       tp_spatial_context_id = key_semantic_context (di_key d),
                       tp_turnover_start_time = di_dwell_start d, tp_threshold_crossing_time = ri_event_time ?i,
                       tp_turnover_duration = duration, tp_service_window_seconds = Fin window,
                       tp_threshold_seconds = Fin delay,
                       tp_configuration_version_id = ri_configuration_version_id ?i,
                       tp_rule_id = rd_rule_id rule, tp_rule_version = rd_rule_version rule\<rparr>"
  have "payload_valid ?p" using nonneg conf d(1) by (simp add: head dwell_interval_valid_def)
  from match_total [OF valid inp this, of L "di_key d"] no_match_total [OF valid inp, of "di_key d"] rule
  show ?thesis using d(2,3) nonneg
    by (auto simp: turnover_delay_evaluator_def turnover_due_def head settings dur space_occupied_snapshots rule_named_def
        simp del: space_occupied.simps)
qed

lemma turnover_decides:
  assumes b: "build_operational_registries L dq v = Inr regs" and rule: "turnover_delay_definition v = Inr rule"
    and d: "dwell_interval_valid d" "key_fsm_kind (di_key d) = ''dwell''" "key_semantic_context (di_key d) \<noteq> None"
      "di_duration_seconds d \<noteq> None"
    and sns: "list_all (\<lambda>sn. scope_key (sn_key sn) = scope_key (di_key d)) sns"
    and conf: "conf ''service_window_seconds'' = Some (ConfNumber (Fin window))" "0 \<le> window"
      "conf ''turnover_delay_seconds'' = Some (ConfNumber (Fin delay))" "0 < delay"
  shows "\<exists>r. evaluate_rule L (fst regs) (snd regs) ''turnover_delay'' v (turnover_input d sns conf v) = Inr r \<and>
    rr_status r = (if turnover_due d sns window delay then MATCH else NO_MATCH) \<and>
    (turnover_due d sns window delay \<longrightarrow> (\<exists>e. rr_event r = Some e \<and>
      ee_event_id e = deterministic_event_id L rule (turnover_input d sns conf v) (di_last_seen d) ''turnover_delay''))"
proof -
  note w = wired [OF b]
  let ?i = "turnover_input d sns conf v"
  from definitions_valid(5) [OF w(1)] rule have n: "rule_named rule TURNOVER_DELAY v ''turnover_delay_evaluator.v1''" by auto
  from w(4) rule have g: "registry_get (fst regs) ''turnover_delay'' v = Some rule" by simp
  note decides = turnover_evaluator_decides [OF n w(1) d conf, of L sns]
  then obtain r where r: "turnover_delay_evaluator L rule ?i = Inr r"
    "rr_status r = (if turnover_due d sns window delay then MATCH else NO_MATCH)"
    and e: "turnover_due d sns window delay \<longrightarrow> (\<exists>e. rr_event r = Some e \<and>
      ee_event_id e = deterministic_event_id L rule ?i (di_last_seen d) ''turnover_delay'')" by blast
  have "validate_input rule ?i = Inr ()"
    using n sns conf turnover_definition [OF rule]
    by (auto simp: validate_input_Inr turnover_input_def input_scope_def scope_of_def scope_key_def rule_named_def list_all_iff)
  moreover have "map_of (snd regs) (rd_evaluator_id rule) = Some (turnover_delay_evaluator L)"
    using n by (simp add: w(2) rule_named_def operational_evaluators_def)
  moreover have "rule_definition_valid rule" "rule_evaluation_input_valid ?i"
    using n w(1) d(1) by (simp_all add: rule_named_def rule_evaluation_input_valid_def turnover_input_def dwell_interval_valid_def)
  moreover have "rr_status r = MATCH \<longrightarrow> rr_event r \<noteq> None" using r(2) e by (auto split: if_splits)
  ultimately obtain refs where "evaluate_rule L (fst regs) (snd regs) ''turnover_delay'' v ?i = Inr (r\<lparr>rr_evidence_requests := refs\<rparr>)"
    using evaluate_lawful [OF turnover_delay.lawful_evaluator_axioms g _ _ r(1)] by blast
  then show ?thesis using r(2) e by simp
qed

lemma open_interval_facts:
  assumes "open_interval L p st = Inr (Some d)"
  shows "dwell_interval_valid d \<and> di_key d = ts_key st \<and> di_reason d = None \<and> di_duration_seconds d \<noteq> None \<and>
    (\<exists>start. ts_state_since st = Some start \<and> di_dwell_start d = start \<and>
      di_interval_id d = std_uuid5 L TEMPORAL_ID_NAMESPACE (join_str ''|'' [canonical (ts_key st), ''open'',
        std_isoformat L start, fsm_version (eng_fsm (dwell_engine p)), pol_revision (eng_policy (dwell_engine p))]))"
  using assms by (auto simp: open_interval_def Let_def construct_def dwell_interval_identity_def split: if_splits option.splits)

text \<open>C22: the operational engine reports a turnover delay for an interval of the dwell engine exactly when the interval is
  still open, no snapshot submitted with it shows the space empty, and it has lasted at least the service window
  plus the delay; otherwise it answers NO_MATCH, and it never fails.\<close>

theorem turnover_delay_decision:
  assumes "build_operational_registries L dq v = Inr regs"
    and "dwell_interval_valid d" "key_fsm_kind (di_key d) = ''dwell''" "key_semantic_context (di_key d) \<noteq> None"
      "di_duration_seconds d \<noteq> None"
    and "list_all (\<lambda>sn. scope_key (sn_key sn) = scope_key (di_key d)) sns"
    and "conf ''service_window_seconds'' = Some (ConfNumber (Fin window))" "0 \<le> window"
      "conf ''turnover_delay_seconds'' = Some (ConfNumber (Fin delay))" "0 < delay"
  shows "\<exists>r. evaluate_rule L (fst regs) (snd regs) ''turnover_delay'' v (turnover_input d sns conf v) = Inr r \<and>
    rr_status r = (if turnover_due d sns window delay then MATCH else NO_MATCH)"
  using turnover_decides [OF assms(1) _ assms(2-10)] wired(4) [OF assms(1)] by blast

lemma event_identity_time:
  assumes "primary_key i1 = primary_key i2" "ri_configuration_version_id i1 = ri_configuration_version_id i2"
    and "event_identity L rule i1 t1 e = event_identity L rule i2 t2 e"
  shows "std_isoformat L t1 = std_isoformat L t2"
  using assms by (simp add: event_identity_def Let_def)

text \<open>While one turnover episode lasts, every later look at its open interval, whose identity does not change, matches
  again, and under a name with another event time, so that the identifiers of the events do not bound an
  episode to one event.\<close>

theorem turnover_episode_repeats:
  assumes b: "build_operational_registries L dq v = Inr regs"
    and d1: "open_interval L p st1 = Inr (Some d1)" and d2: "open_interval L p st2 = Inr (Some d2)"
    and same: "ts_key st2 = ts_key st1" "ts_state_since st2 = ts_state_since st1"
    and key: "key_fsm_kind (ts_key st1) = ''dwell''" "key_semantic_context (ts_key st1) \<noteq> None"
    and conf: "conf ''service_window_seconds'' = Some (ConfNumber (Fin window))" "0 \<le> window"
      "conf ''turnover_delay_seconds'' = Some (ConfNumber (Fin delay))" "0 < delay"
    and due: "turnover_due d1 [] window delay" "turnover_due d2 [] window delay"
    and later: "std_isoformat L (di_last_seen d1) \<noteq> std_isoformat L (di_last_seen d2)"
  shows "di_interval_id d1 = di_interval_id d2 \<and> (\<exists>rule r1 r2 e1 e2.
    evaluate_rule L (fst regs) (snd regs) ''turnover_delay'' v (turnover_input d1 [] conf v) = Inr r1 \<and>
    evaluate_rule L (fst regs) (snd regs) ''turnover_delay'' v (turnover_input d2 [] conf v) = Inr r2 \<and>
    rr_event r1 = Some e1 \<and> rr_event r2 = Some e2 \<and>
    ee_event_id e1 = std_uuid5 L TEMPORAL_ID_NAMESPACE
      (event_identity L rule (turnover_input d1 [] conf v) (di_last_seen d1) ''turnover_delay'') \<and>
    ee_event_id e2 = std_uuid5 L TEMPORAL_ID_NAMESPACE
      (event_identity L rule (turnover_input d2 [] conf v) (di_last_seen d2) ''turnover_delay'') \<and>
    event_identity L rule (turnover_input d1 [] conf v) (di_last_seen d1) ''turnover_delay'' \<noteq>
    event_identity L rule (turnover_input d2 [] conf v) (di_last_seen d2) ''turnover_delay'')"
proof -
  note f1 = open_interval_facts [OF d1] and f2 = open_interval_facts [OF d2]
  from wired(4) [OF b] obtain rule where rule: "turnover_delay_definition v = Inr rule" by blast
  have each: "\<exists>r e. evaluate_rule L (fst regs) (snd regs) ''turnover_delay'' v (turnover_input d [] conf v) = Inr r \<and>
      rr_event r = Some e \<and> ee_event_id e = std_uuid5 L TEMPORAL_ID_NAMESPACE
        (event_identity L rule (turnover_input d [] conf v) (di_last_seen d) ''turnover_delay'')"
    if "d = d1 \<or> d = d2" for d
  proof -
    from that f1 f2 key same due have "dwell_interval_valid d" "key_fsm_kind (di_key d) = ''dwell''"
      "key_semantic_context (di_key d) \<noteq> None" "di_duration_seconds d \<noteq> None" "turnover_due d [] window delay" by auto
    then show ?thesis
      using turnover_decides [OF b rule, of d "[]" conf window delay] conf by (auto simp: deterministic_event_id_def)
  qed
  from each [of d1] obtain r1 e1 where r1:
    "evaluate_rule L (fst regs) (snd regs) ''turnover_delay'' v (turnover_input d1 [] conf v) = Inr r1" "rr_event r1 = Some e1"
    "ee_event_id e1 = std_uuid5 L TEMPORAL_ID_NAMESPACE
      (event_identity L rule (turnover_input d1 [] conf v) (di_last_seen d1) ''turnover_delay'')" by blast
  from each [of d2] obtain r2 e2 where r2:
    "evaluate_rule L (fst regs) (snd regs) ''turnover_delay'' v (turnover_input d2 [] conf v) = Inr r2" "rr_event r2 = Some e2"
    "ee_event_id e2 = std_uuid5 L TEMPORAL_ID_NAMESPACE
      (event_identity L rule (turnover_input d2 [] conf v) (di_last_seen d2) ''turnover_delay'')" by blast
  have "event_identity L rule (turnover_input d1 [] conf v) (di_last_seen d1) ''turnover_delay'' \<noteq>
    event_identity L rule (turnover_input d2 [] conf v) (di_last_seen d2) ''turnover_delay''"
    using event_identity_time [of "turnover_input d1 [] conf v" "turnover_input d2 [] conf v" L rule] f1 f2 same later
    by (auto simp: primary_key_def turnover_input_def)
  moreover have "di_interval_id d1 = di_interval_id d2" using f1 f2 same by auto
  ultimately show ?thesis using r1 r2 by blast
qed

subsection \<open>Disabled rules\<close>

text \<open>A disabled definition is registered and evaluated like an enabled one: the flag that says whether a rule
  takes part in evaluation is read by nothing between the registry and the result.\<close>

theorem disabled_rule_evaluates:
  assumes v: "validate_rule_version v" and sn: "occupancy_snapshot_valid sn" "key_fsm_kind (sn_key sn) = ''occupancy''"
    and phase: "snapshot_phase sn = Some ph"
  shows "\<exists>rule g r. occupancy_session_definition v = Inr rule \<and>
    register (new_registry operational_evaluator_ids) (rule\<lparr>rd_enabled := False\<rparr>) = Inr g \<and>
    evaluate_rule L g (operational_evaluators L dq) ''occupancy_session'' v (session_input v sn) = Inr r \<and>
    result_phase r = Some ph"
proof -
  from definitions_valid(1) [OF v] obtain rule where d: "occupancy_session_definition v = Inr rule"
    and n0: "rule_named rule OCCUPANCY_SESSION v ''occupancy_session_evaluator.v1''"
    and c: "rd_input_fact_types rule = {OCCUPANCY_SNAPSHOT}" "rd_configuration_requirements rule = {}" by blast
  let ?rule = "rule\<lparr>rd_enabled := False\<rparr>"
  from n0 have n: "rule_named ?rule OCCUPANCY_SESSION v ''occupancy_session_evaluator.v1''"
    by (auto simp: rule_named_def rule_definition_valid_def)
  have "validate_definition (new_registry operational_evaluator_ids) ?rule = Inr ()"
    by (rule rule_named_accepted [OF n]) (simp_all add: new_registry_def)
  then obtain g where reg: "register (new_registry operational_evaluator_ids) ?rule = Inr g"
    by (auto simp: register_def registry_has_def registry_get_def new_registry_def)
  from register_gets [OF reg] n have g: "registry_get g ''occupancy_session'' v = Some ?rule" by (simp add: rule_named_def)
  from session_evaluator_decides [OF n v sn, of L] phase obtain r where
    r: "occupancy_session_evaluator L ?rule (session_input v sn) = Inr r" "result_phase r = Some ph"
    "rr_status r = MATCH \<longrightarrow> rr_event r \<noteq> None" by auto
  have "validate_input ?rule (session_input v sn) = Inr ()"
    using n c by (simp add: validate_input_Inr session_input_def input_scope_def rule_named_def)
  moreover have "map_of (operational_evaluators L dq) (rd_evaluator_id ?rule) = Some (occupancy_session_evaluator L)"
    using n by (simp add: rule_named_def operational_evaluators_def)
  moreover have "rule_definition_valid ?rule" using n by (simp add: rule_named_def)
  ultimately obtain refs where "evaluate_rule L g (operational_evaluators L dq) ''occupancy_session'' v (session_input v sn) =
      Inr (r\<lparr>rr_evidence_requests := refs\<rparr>)"
    using evaluate_lawful [OF occupancy_session.lawful_evaluator_axioms g _ _ r(1) _ session_input_valid [OF sn(1) v] r(3)]
    by blast
  with d reg r(2) show ?thesis by (auto simp: result_phase_def)
qed

subsection \<open>Witnesses\<close>

text \<open>An entry of track 7 into an empty scope, and a dwell state of the same track.\<close>

lemma sample_entry_run:
  "\<exists>s out sn. run_facts (occupancy_step sample_lib sample_policy) sample_occupancy
     [sample_occupancy_input 7 ENTER_CONFIRMED 10 1] = Inr (s, out) \<and> List.map_filter snd out = [sn] \<and>
      occupancy_snapshot_valid sn \<and> sn_key sn = sample_scope \<and> snapshot_phase sn = Some STARTED"
  by (simp add: occupancy_eval snapshot_phase_def)

theorem disabled_rule_evaluates_witness:
  "\<exists>sn rule g r. snapshot_phase sn = Some STARTED \<and> occupancy_session_definition ''v1'' = Inr rule \<and>
    register (new_registry operational_evaluator_ids) (rule\<lparr>rd_enabled := False\<rparr>) = Inr g \<and>
    evaluate_rule sample_lib g (operational_evaluators sample_lib (occupancy_session_evaluator sample_lib))
      ''occupancy_session'' ''v1'' (session_input ''v1'' sn) = Inr r \<and> result_phase r = Some STARTED"
proof -
  from sample_entry_run obtain sn where sn: "occupancy_snapshot_valid sn" "sn_key sn = sample_scope"
    "snapshot_phase sn = Some STARTED" by blast
  have "validate_rule_version ''v1''" "key_fsm_kind (sn_key sn) = ''occupancy''" by (simp_all add: is_digit_def sn(2))
  from disabled_rule_evaluates [OF this(1) sn(1) this(2) sn(3)] sn(3) show ?thesis by blast
qed

theorem registry_immutable_witness:
  "\<exists>rule g. occupancy_session_definition ''v1'' = Inr rule \<and>
    register (new_registry operational_evaluator_ids) rule = Inr g \<and>
    registry_resolve g ''occupancy_session'' ''v1'' = Inr rule \<and>
    (\<exists>e. register g (rule\<lparr>rd_enabled := False\<rparr>) = Inl e)"
proof -
  have v: "validate_rule_version ''v1''" by (simp add: is_digit_def)
  from definitions_valid(1) [OF v] obtain rule where d: "occupancy_session_definition ''v1'' = Inr rule"
    and n: "rule_named rule OCCUPANCY_SESSION ''v1'' ''occupancy_session_evaluator.v1''" by blast
  have "validate_definition (new_registry operational_evaluator_ids) rule = Inr ()"
    by (rule rule_named_accepted [OF n]) (simp_all add: new_registry_def)
  then obtain g where reg: "register (new_registry operational_evaluator_ids) rule = Inr g"
    by (auto simp: register_def registry_has_def registry_get_def new_registry_def)
  note facts = registry_immutable [OF registry_ok_new reg]
  from facts have "registry_resolve g ''occupancy_session'' ''v1'' = Inr rule" using n by (simp add: rule_named_def)
  moreover from facts have "\<exists>e. register g (rule\<lparr>rd_enabled := False\<rparr>) = Inl e"
    using spec [of _ "rule\<lparr>rd_enabled := False\<rparr>"] by (metis rule_definition.select_convs(2,3) rule_definition.surjective rule_definition.update_convs(6))
  ultimately show ?thesis using d reg by blast
qed

theorem engine_guards_evaluators_witness:
  "\<exists>regs sn r. evaluate_session sample_lib regs ''v1'' sn = Inr r \<and> result_phase r = Some STARTED \<and>
    rr_rule_version r = ''v1'' \<and> rr_configuration_version_id r = key_configuration_version_id (sn_key sn)"
proof -
  from sample_entry_run obtain sn where sn: "occupancy_snapshot_valid sn" "sn_key sn = sample_scope"
    "snapshot_phase sn = Some STARTED" by blast
  have v: "validate_rule_version ''v1''" and k: "key_fsm_kind (sn_key sn) = ''occupancy''" by (simp_all add: is_digit_def sn(2))
  from wiring_cases [of "''v1''" sample_lib "occupancy_session_evaluator sample_lib"] v obtain g evs where
    b: "build_operational_registries sample_lib (occupancy_session_evaluator sample_lib) ''v1'' = Inr (g, evs)"
    and ok: "registry_ok g" by auto
  from wired(3) [OF b] obtain rule where "occupancy_session_definition ''v1'' = Inr rule" by blast
  from evaluate_session_decides [OF b this sn(1) k] obtain r where
    r: "evaluate_session sample_lib (g, evs) ''v1'' sn = Inr r" "result_phase r = snapshot_phase sn" by blast
  from r(1) have "evaluate_rule sample_lib g evs ''occupancy_session'' ''v1'' (session_input ''v1'' sn) = Inr r"
    by (simp add: evaluate_session_def)
  from engine_guards_evaluators [OF ok this] r sn(3) show ?thesis by (auto simp: session_input_def)
qed

definition sample_clock :: stdlib where
  "sample_clock = sample_lib\<lparr>std_isoformat := (\<lambda>t. if t = utc_at 70000000 then ''70'' else ''t'')\<rparr>"

definition sample_dwelling :: "int \<Rightarrow> temporal_state" where
  "sample_dwelling seconds = (te_initial_state (dwell_engine sample_policy) (sample_key ''dwell'' 7))
     \<lparr>ts_current_state := ''dwelling'', ts_state_since := Some (utc_at 0),
      ts_last_seen := Some (utc_at (seconds * 1000000))\<rparr>"

definition sample_windows :: "string \<rightharpoonup> config_value" where
  "sample_windows = [''service_window_seconds'' \<mapsto> ConfNumber (Fin 30), ''turnover_delay_seconds'' \<mapsto> ConfNumber (Fin 20)]"

lemma sample_windows [simp]: "sample_windows ''service_window_seconds'' = Some (ConfNumber (Fin 30))"
  "sample_windows ''turnover_delay_seconds'' = Some (ConfNumber (Fin 20))"
  by (simp_all add: sample_windows_def)

lemma sample_open_interval:
  "0 \<le> seconds \<Longrightarrow> \<exists>d. open_interval sample_clock sample_policy (sample_dwelling seconds) = Inr (Some d) \<and>
     di_last_seen d = utc_at (seconds * 1000000) \<and> (turnover_due d [] 30 20 \<longleftrightarrow> 50 \<le> seconds)"
  by (simp add: open_interval_def sample_dwelling_def te_initial_state_def Let_def dwell_interval_identity_def construct_def
      dwell_interval_valid_def dwell_engine_def turnover_due_def seconds_between_def dt_less_def)

lemma sample_dwelling_simps [simp]: "ts_key (sample_dwelling seconds) = sample_key ''dwell'' 7"
  "ts_state_since (sample_dwelling seconds) = Some (utc_at 0)"
  by (simp_all add: sample_dwelling_def te_initial_state_def)

lemma sample_clock_built:
  "\<exists>regs. build_operational_registries sample_clock (occupancy_session_evaluator sample_clock) ''v1'' = Inr regs"
proof -
  have "validate_rule_version ''v1''" by (simp add: is_digit_def)
  then show ?thesis using wiring_cases [of "''v1''" sample_clock "occupancy_session_evaluator sample_clock"] by auto
qed

text \<open>After 40 seconds the episode is too short, after 60 and after 70 it is reported.\<close>

theorem turnover_delay_decision_witness:
  "\<exists>regs d1 d2 r1 r2. open_interval sample_clock sample_policy (sample_dwelling 40) = Inr (Some d1) \<and>
    open_interval sample_clock sample_policy (sample_dwelling 60) = Inr (Some d2) \<and>
    evaluate_rule sample_clock (fst regs) (snd regs) ''turnover_delay'' ''v1''
      (turnover_input d1 [] sample_windows ''v1'') = Inr r1 \<and> rr_status r1 = NO_MATCH \<and>
    evaluate_rule sample_clock (fst regs) (snd regs) ''turnover_delay'' ''v1''
      (turnover_input d2 [] sample_windows ''v1'') = Inr r2 \<and> rr_status r2 = MATCH"
proof -
  from sample_clock_built obtain regs where
    b: "build_operational_registries sample_clock (occupancy_session_evaluator sample_clock) ''v1'' = Inr regs" by blast
  have "\<exists>d r. open_interval sample_clock sample_policy (sample_dwelling s) = Inr (Some d) \<and>
      evaluate_rule sample_clock (fst regs) (snd regs) ''turnover_delay'' ''v1''
        (turnover_input d [] sample_windows ''v1'') = Inr r \<and> rr_status r = (if 50 \<le> s then MATCH else NO_MATCH)"
    if s: "0 \<le> s" for s
  proof -
    from sample_open_interval [OF s] obtain d where d: "open_interval sample_clock sample_policy (sample_dwelling s) = Inr (Some d)"
      "turnover_due d [] 30 20 \<longleftrightarrow> 50 \<le> s" by blast
    with open_interval_facts [OF d(1)] turnover_delay_decision [OF b, of d "[]" sample_windows 30 20] show ?thesis by auto
  qed
  from this [of 40] this [of 60] show ?thesis by fastforce
qed

theorem turnover_episode_repeats_witness:
  "\<exists>regs d1 d2 r1 r2 e1 e2. open_interval sample_clock sample_policy (sample_dwelling 60) = Inr (Some d1) \<and>
    open_interval sample_clock sample_policy (sample_dwelling 70) = Inr (Some d2) \<and>
    di_interval_id d1 = di_interval_id d2 \<and>
    evaluate_rule sample_clock (fst regs) (snd regs) ''turnover_delay'' ''v1''
      (turnover_input d1 [] sample_windows ''v1'') = Inr r1 \<and> rr_event r1 = Some e1 \<and>
    evaluate_rule sample_clock (fst regs) (snd regs) ''turnover_delay'' ''v1''
      (turnover_input d2 [] sample_windows ''v1'') = Inr r2 \<and> rr_event r2 = Some e2"
proof -
  from sample_clock_built obtain regs where
    b: "build_operational_registries sample_clock (occupancy_session_evaluator sample_clock) ''v1'' = Inr regs" by blast
  from sample_open_interval [of 60] obtain d1 where d1: "open_interval sample_clock sample_policy (sample_dwelling 60) = Inr (Some d1)"
    "di_last_seen d1 = utc_at 60000000" "turnover_due d1 [] 30 20" by auto
  from sample_open_interval [of 70] obtain d2 where d2: "open_interval sample_clock sample_policy (sample_dwelling 70) = Inr (Some d2)"
    "di_last_seen d2 = utc_at 70000000" "turnover_due d2 [] 30 20" by auto
  have "std_isoformat sample_clock (di_last_seen d1) \<noteq> std_isoformat sample_clock (di_last_seen d2)"
    by (simp add: d1(2) d2(2) sample_clock_def utc_at_def)
  from turnover_episode_repeats [OF b d1(1) d2(1) _ _ _ _ _ _ _ _ d1(3) d2(3) this, of sample_windows] d1(1) d2(1)
  show ?thesis by (simp add: sample_lib_def) blast
qed

end
