(* ===== verification/Data_Quality.thy ===== *)
theory Data_Quality
  imports Operational_Rules
begin

text \<open>
  The data-quality rule (\<open>rules/data_quality.py\<close>): the quality checks and their registry, and the evaluator that
  runs every applicable check on the primary fact. \<open>getattr\<close> with a default is a function with an optional
  result; the detail texts are reduced to a tag. The gate on facts without tenant, venue or session is
  discharged by typing.
\<close>

subsection \<open>Reading a fact\<close>

fun fact_type_value :: "fact_type \<Rightarrow> string" where
  "fact_type_value TEMPORAL_TRANSITION = ''temporal_transition''"
| "fact_type_value DWELL_INTERVAL = ''dwell_interval''"
| "fact_type_value OCCUPANCY_SNAPSHOT = ''occupancy_snapshot''"
| "fact_type_value MOVEMENT_MEASUREMENT = ''movement_measurement''"
| "fact_type_value MOVEMENT_CLASSIFICATION_TRANSITION = ''movement_classification_transition''"
| "fact_type_value WAITING_INTERVAL = ''waiting_interval''"

fun fact_id_of :: "temporal_fact \<Rightarrow> string" where
  "fact_id_of (TransitionFact t) = str_uuid (tt_transition_id t)"
| "fact_id_of (DwellFact d) = str_uuid (di_interval_id d)"
| "fact_id_of (SnapshotFact s) = str_uuid (sn_snapshot_id s)"
| "fact_id_of (MeasurementFact m) = str_uuid (mm_measurement_id m)"
| "fact_id_of (ClassificationFact c) = str_uuid (ct_transition_id c)"
| "fact_id_of (WaitingFact w) = str_uuid (wi_interval_id w)"

fun fact_event_time :: "temporal_fact \<Rightarrow> datetime option" where
  "fact_event_time (TransitionFact t) = Some (tt_event_time t)"
| "fact_event_time (SnapshotFact s) = Some (sn_event_time s)"
| "fact_event_time (MeasurementFact m) = Some (mm_event_time m)"
| "fact_event_time (ClassificationFact c) = Some (ct_event_time c)"
| "fact_event_time _ = None"

fun fact_last_seen :: "temporal_fact \<Rightarrow> datetime option" where
  "fact_last_seen (DwellFact d) = Some (di_last_seen d)"
| "fact_last_seen (WaitingFact w) = Some (wi_last_seen w)"
| "fact_last_seen _ = None"

fun fact_fsm_version :: "temporal_fact \<Rightarrow> string option" where
  "fact_fsm_version (TransitionFact t) = Some (tt_fsm_version t)"
| "fact_fsm_version (DwellFact d) = Some (di_fsm_version d)"
| "fact_fsm_version (SnapshotFact s) = Some (sn_fsm_version s)"
| "fact_fsm_version (MeasurementFact m) = Some (mm_fsm_version m)"
| "fact_fsm_version (ClassificationFact c) = Some (ct_fsm_version c)"
| "fact_fsm_version (WaitingFact w) = Some (wi_fsm_version w)"

text \<open>A \<open>TemporalTransition\<close> has no field \<open>policy_revision\<close>.\<close>

fun fact_policy_revision :: "temporal_fact \<Rightarrow> string option" where
  "fact_policy_revision (TransitionFact t) = None"
| "fact_policy_revision (DwellFact d) = Some (di_policy_revision d)"
| "fact_policy_revision (SnapshotFact s) = Some (sn_policy_revision s)"
| "fact_policy_revision (MeasurementFact m) = Some (mm_policy_revision m)"
| "fact_policy_revision (ClassificationFact c) = Some (ct_policy_revision c)"
| "fact_policy_revision (WaitingFact w) = Some (wi_policy_revision w)"

definition key_attribute :: "temporal_state_key \<Rightarrow> string \<Rightarrow> uuid option" where
  "key_attribute key name = (if name = ''camera_id'' then Some (key_camera_id key)
     else if name = ''track_id'' then Some (key_track_id key)
     else if name = ''configuration_version_id'' then Some (key_configuration_version_id key) else None)"

subsection \<open>Checks\<close>

record quality_check =
  qc_check_id :: string
  qc_description :: string
  qc_severity :: data_quality_severity
  qc_applicability :: "fact_type set"
  qc_version :: string
  qc_evaluator :: "temporal_fact \<Rightarrow> quality_finding option"

definition make_quality_check :: "quality_check \<Rightarrow> rule_error + quality_check" where
  "make_quality_check c =
     (if blank (qc_check_id c) then Inl (ContractError ''check_id'')
      else if blank (qc_description c) then Inl (ContractError ''description'')
      else if qc_applicability c = {} then Inl (ContractError ''applicability'')
      else if blank (qc_version c) then Inl (ContractError ''version'')
      else Inr c)"

text \<open>The method \<open>finding\<close>, on the fields of the check.\<close>

definition finding :: "string \<Rightarrow> data_quality_severity \<Rightarrow> string \<Rightarrow> string \<Rightarrow> temporal_fact \<Rightarrow> string \<Rightarrow>
    quality_finding" where
  "finding code severity description version item detail =
     \<lparr>qf_quality_code = code, qf_severity = severity, qf_description = description @ '': '' @ detail,
      qf_affected_fact_type = fact_type_value (fact_type_of item), qf_affected_fact_id = fact_id_of item,
      qf_check_version = version\<rparr>"

text \<open>A check of version 1 whose evaluator reports a finding with the detail its condition gives.\<close>

definition quality_check_v1 :: "string \<Rightarrow> string \<Rightarrow> data_quality_severity \<Rightarrow> fact_type set \<Rightarrow>
    (temporal_fact \<Rightarrow> string option) \<Rightarrow> rule_error + quality_check" where
  "quality_check_v1 code description severity applicability condition =
     make_quality_check \<lparr>qc_check_id = code, qc_description = description, qc_severity = severity,
       qc_applicability = applicability, qc_version = ''v1'',
       qc_evaluator = (\<lambda>item. map_option (finding code severity description ''v1'' item) (condition item))\<rparr>"

definition all_fact_types :: "fact_type set" where
  "all_fact_types = {TEMPORAL_TRANSITION, DWELL_INTERVAL, OCCUPANCY_SNAPSHOT, MOVEMENT_MEASUREMENT,
     MOVEMENT_CLASSIFICATION_TRANSITION, WAITING_INTERVAL}"

definition missing_identity :: "temporal_fact \<Rightarrow> string option" where
  "missing_identity item =
     (let missing = filter (\<lambda>name. key_attribute (fact_key item) name = None) [''camera_id'', ''track_id''] in
      if missing = [] then None else Some (''missing required identity: '' @ join_str '', '' (sort missing)))"

definition identity_check :: "rule_error + quality_check" where
  "identity_check = quality_check_v1 ''DATA_MISSING_REQUIRED_IDENTITY''
     ''Source/subject identity (camera_id, track_id) missing from the fact key'' SEVERITY_ERROR all_fact_types
     missing_identity"

definition missing_event_time :: "temporal_fact \<Rightarrow> string option" where
  "missing_event_time item =
     (if fact_event_time item \<noteq> None \<or> fact_last_seen item \<noteq> None then None
      else Some ''fact carries no event_time/last_seen'')"

definition invalid_event_time_check :: "rule_error + quality_check" where
  "invalid_event_time_check = quality_check_v1 ''DATA_INVALID_EVENT_TIME''
     ''The fact's event-time field (event_time/last_seen) is missing'' SEVERITY_ERROR all_fact_types
     missing_event_time"

definition before_start :: "datetime \<Rightarrow> datetime option \<Rightarrow> datetime \<Rightarrow> bool" where
  "before_start start end_time last_seen =
     ((case end_time of None \<Rightarrow> False | Some e \<Rightarrow> dt_less e start) \<or> dt_less last_seen start)"

fun non_monotonic :: "temporal_fact \<Rightarrow> string option" where
  "non_monotonic (DwellFact d) = (if before_start (di_dwell_start d) (di_dwell_end d) (di_last_seen d)
     then Some ''non-monotonic event time'' else None)"
| "non_monotonic (WaitingFact w) = (if before_start (wi_waiting_start w) (wi_waiting_end w) (wi_last_seen w)
     then Some ''non-monotonic event time'' else None)"
| "non_monotonic (MeasurementFact m) = (if dt_less (mm_event_time m) (mm_previous_event_time m)
     then Some ''measurement event_time precedes previous_event_time'' else None)"
| "non_monotonic _ = None"

definition non_monotonic_event_time_check :: "rule_error + quality_check" where
  "non_monotonic_event_time_check = quality_check_v1 ''DATA_NON_MONOTONIC_EVENT_TIME''
     ''Impossible event-time ordering within the canonical fact'' SEVERITY_ERROR
     {DWELL_INTERVAL, WAITING_INTERVAL, MOVEMENT_MEASUREMENT} non_monotonic"

definition negative :: "real option \<Rightarrow> string option" where
  "negative duration = (case duration of None \<Rightarrow> None | Some x \<Rightarrow> if x < 0 then Some ''negative'' else None)"

fun negative_duration :: "temporal_fact \<Rightarrow> string option" where
  "negative_duration (DwellFact d) = negative (di_duration_seconds d)"
| "negative_duration (WaitingFact w) = negative (wi_duration_seconds w)"
| "negative_duration (MeasurementFact m) = negative (Some (mm_time_delta_seconds m))"
| "negative_duration _ = None"

definition negative_duration_check :: "rule_error + quality_check" where
  "negative_duration_check = quality_check_v1 ''DATA_NEGATIVE_DURATION'' ''The fact carries a negative duration''
     SEVERITY_ERROR {DWELL_INTERVAL, WAITING_INTERVAL, MOVEMENT_MEASUREMENT} negative_duration"

definition unqualified :: "bool \<Rightarrow> real option \<Rightarrow> real \<Rightarrow> bool" where
  "unqualified qualified duration minimum =
     (qualified \<and> (case duration of None \<Rightarrow> False | Some x \<Rightarrow> x < minimum))"

fun inconsistent :: "temporal_fact \<Rightarrow> string option" where
  "inconsistent (DwellFact d) =
     (if unqualified (di_qualified d) (di_duration_seconds d) (di_minimum_dwell_seconds d)
      then Some ''qualified below minimum_dwell_seconds'' else None)"
| "inconsistent (WaitingFact w) =
     (if unqualified (wi_qualified w) (wi_duration_seconds w) (wi_minimum_waiting_seconds w)
      then Some ''qualified below minimum_waiting_seconds'' else None)"
| "inconsistent (SnapshotFact s) =
     (if sn_previous_count s + sn_delta s \<noteq> sn_occupancy_count s then Some ''unreconciled counts'' else None)"
| "inconsistent _ = None"

definition temporal_inconsistency_check :: "rule_error + quality_check" where
  "temporal_inconsistency_check = quality_check_v1 ''DATA_TEMPORAL_INCONSISTENCY''
     ''Contradictory canonical state (qualified below minimum / unreconciled counts)'' SEVERITY_ERROR
     {DWELL_INTERVAL, WAITING_INTERVAL, OCCUPANCY_SNAPSHOT} inconsistent"

definition absent_or_blank :: "string option \<Rightarrow> bool" where
  "absent_or_blank s = (case s of None \<Rightarrow> True | Some x \<Rightarrow> blank x)"

definition provenance_issues :: "temporal_fact \<Rightarrow> string list" where
  "provenance_issues item =
     (if absent_or_blank (fact_fsm_version item) then [''fsm_version missing/blank''] else []) @
     (if absent_or_blank (fact_policy_revision item) then [''policy_revision missing/blank''] else []) @
     (if key_attribute (fact_key item) ''configuration_version_id'' = None
      then [''key configuration_version_id missing''] else [])"

definition invalid_provenance :: "temporal_fact \<Rightarrow> string option" where
  "invalid_provenance item = (let issues = provenance_issues item in
     if issues = [] then None else Some (join_str ''; '' issues))"

definition invalid_provenance_check :: "rule_error + quality_check" where
  "invalid_provenance_check = quality_check_v1 ''DATA_INVALID_PROVENANCE''
     ''Missing/blank provenance (fsm_version, policy_revision, configuration version)'' SEVERITY_WARNING all_fact_types
     invalid_provenance"

definition unknown_context :: "string set \<Rightarrow> temporal_fact \<Rightarrow> string option" where
  "unknown_context known item = (case key_semantic_context (fact_key item) of
       None \<Rightarrow> None
     | Some context \<Rightarrow> if context \<in> known then None else Some ''semantic_context not in the configured known set'')"

definition unknown_spatial_reference_check :: "string set \<Rightarrow> rule_error + quality_check" where
  "unknown_spatial_reference_check known = quality_check_v1 ''DATA_UNKNOWN_SPATIAL_REFERENCE''
     ''Fact references a spatial context outside the configured known set'' SEVERITY_WARNING all_fact_types
     (unknown_context known)"

definition other_configuration :: "uuid \<Rightarrow> temporal_fact \<Rightarrow> string option" where
  "other_configuration version item =
     (case key_attribute (fact_key item) ''configuration_version_id'' of
        None \<Rightarrow> None
      | Some key_version \<Rightarrow> if str_uuid key_version = str_uuid version then None else Some ''configuration'')"

definition configuration_mismatch_check :: "uuid \<Rightarrow> rule_error + quality_check" where
  "configuration_mismatch_check version = quality_check_v1 ''DATA_CONFIGURATION_MISMATCH''
     ''Fact key configuration version differs from the evaluation's pinned version'' SEVERITY_CRITICAL all_fact_types
     (other_configuration version)"

subsection \<open>The registry of checks\<close>

type_synonym check_registry = "(string \<times> quality_check) list"

definition register_check :: "check_registry \<Rightarrow> quality_check \<Rightarrow> rule_error + check_registry" where
  "register_check g c =
     (if map_of g (qc_check_id c) \<noteq> None then Inl (ContractError ''already registered'')
      else Inr (g @ [(qc_check_id c, c)]))"

definition check_list :: "check_registry \<Rightarrow> quality_check list" where
  "check_list g = map snd (sort_key fst g)"

fun register_checks :: "check_registry \<Rightarrow> (rule_error + quality_check) list \<Rightarrow> rule_error + check_registry" where
  "register_checks g [] = Inr g"
| "register_checks g (c # cs) = rbind c (\<lambda>check. rbind (register_check g check) (\<lambda>g'. register_checks g' cs))"

definition build_quality_check_registry :: "string set \<Rightarrow> uuid option \<Rightarrow> rule_error + check_registry" where
  "build_quality_check_registry known version = register_checks []
     ([identity_check, invalid_event_time_check, non_monotonic_event_time_check, negative_duration_check,
       temporal_inconsistency_check, invalid_provenance_check, unknown_spatial_reference_check known] @
      (case version of None \<Rightarrow> [] | Some v \<Rightarrow> [configuration_mismatch_check v]))"

subsection \<open>The evaluator\<close>

fun known_contexts_of :: "config_value option \<Rightarrow> string set option" where
  "known_contexts_of (Some (ConfList values)) =
     (if values = [] then Some {}
      else if list_ex (\<lambda>v. conf_string v = None) values then None
      else Some (set (map (\<lambda>v. the (conf_string v)) values)))"
| "known_contexts_of _ = None"

definition quality_findings :: "check_registry \<Rightarrow> temporal_fact \<Rightarrow> quality_finding list" where
  "quality_findings g item = List.map_filter (\<lambda>check.
     if fact_type_of item \<in> qc_applicability check then qc_evaluator check item else None) (check_list g)"

definition data_quality_event :: "stdlib \<Rightarrow> rule_definition \<Rightarrow> rule_evaluation_input \<Rightarrow> temporal_fact \<Rightarrow>
    quality_finding list \<Rightarrow> rule_error + event_envelope" where
  "data_quality_event L rule inp item findings =
     (let key = fact_key item; primary = hd findings; event_type = event_type_value (rd_output_event_type rule) in
      rbind (validated ''DataQualityPayload'' payload_valid (DataQualityPayload
        \<lparr>ip_findings = findings, ip_primary_quality_code = qf_quality_code primary,
         ip_primary_severity = qf_severity primary, ip_affected_fact_type = fact_type_value (fact_type_of item),
         ip_affected_fact_id = fact_id_of item, ip_tenant_id = key_tenant_id key, ip_venue_id = key_venue_id key,
         ip_session_id = key_session_id key, ip_camera_id = Some (key_camera_id key),
         ip_track_id = Some (key_track_id key), ip_spatial_context_id = key_semantic_context key,
         ip_event_time = ri_event_time inp, ip_configuration_version_id = ri_configuration_version_id inp,
         ip_rule_id = rd_rule_id rule, ip_rule_version = rd_rule_version rule\<rparr>)) (\<lambda>payload.
      validated ''EventEnvelope'' event_envelope_valid
        \<lparr>ee_event_id = deterministic_event_id L rule inp (ri_event_time inp) event_type,
         ee_event_type = event_type, ee_schema_version = SCHEMA_VERSION, ee_event_time = ri_event_time inp,
         ee_produced_at = (case ri_processing_time inp of None \<Rightarrow> ri_event_time inp | Some t \<Rightarrow> t),
         ee_correlation_id = None, ee_causation_id = None,
         ee_source = ''rule:'' @ rule_identity (rd_rule_id rule) (rd_rule_version rule), ee_payload = payload\<rparr>))"

definition data_quality_evaluator :: "stdlib \<Rightarrow> rule_evaluator" where
  "data_quality_evaluator L rule inp =
     (let item = hd (ri_facts inp); key = fact_key item in
      case known_contexts_of (ri_configuration inp ''known_spatial_contexts'') of
        None \<Rightarrow> invalid_result rule inp ''known_spatial_contexts''
      | Some known \<Rightarrow>
          rbind (build_quality_check_registry known (Some (ri_configuration_version_id inp))) (\<lambda>registry.
          let findings = quality_findings registry item in
          if findings = [] then no_match_result rule inp key
          else let ordered = sort_key qf_quality_code findings in
            rbind (data_quality_event L rule inp item ordered) (\<lambda>event.
            rbind (deterministic_evidence_ref L rule inp (ee_event_id event)) (\<lambda>evidence.
            rbind (rule_result rule inp MATCH (Some event) (Some key) None) (\<lambda>r.
              Inr (r\<lparr>rr_evidence_requests := [evidence]\<rparr>))))))"

definition build_operational :: "stdlib \<Rightarrow> string \<Rightarrow> rule_error + rule_registry \<times> evaluator_registry" where
  "build_operational L rule_version = build_operational_registries L (data_quality_evaluator L) rule_version"

end
