(* ===== verification/Data_Quality_Facts.thy ===== *)
theory Data_Quality_Facts
  imports Data_Quality Rules_Composition
begin

text \<open>
  The data-quality rule reports exactly the conditions of a table, in the order of their codes; facts of the
  temporal engines are clean in a known context, except that every temporal transition is reported,
  because the contract of a transition has no policy revision.
\<close>

subsection \<open>The registry\<close>

text \<open>The checks in the order of their codes, as conditions on a fact.\<close>

definition condition_table :: "string set \<Rightarrow> uuid \<Rightarrow> (string \<times> fact_type set \<times> (temporal_fact \<Rightarrow> string option)) list" where
  "condition_table known version =
     [(''DATA_CONFIGURATION_MISMATCH'', all_fact_types, other_configuration version),
      (''DATA_INVALID_EVENT_TIME'', all_fact_types, missing_event_time),
      (''DATA_INVALID_PROVENANCE'', all_fact_types, invalid_provenance),
      (''DATA_MISSING_REQUIRED_IDENTITY'', all_fact_types, missing_identity),
      (''DATA_NEGATIVE_DURATION'', {DWELL_INTERVAL, WAITING_INTERVAL, MOVEMENT_MEASUREMENT}, negative_duration),
      (''DATA_NON_MONOTONIC_EVENT_TIME'', {DWELL_INTERVAL, WAITING_INTERVAL, MOVEMENT_MEASUREMENT}, non_monotonic),
      (''DATA_TEMPORAL_INCONSISTENCY'', {DWELL_INTERVAL, WAITING_INTERVAL, OCCUPANCY_SNAPSHOT}, inconsistent),
      (''DATA_UNKNOWN_SPATIAL_REFERENCE'', all_fact_types, unknown_context known)]"

text \<open>The codes the rule has to report on a fact.\<close>

definition quality_codes :: "string set \<Rightarrow> uuid \<Rightarrow> temporal_fact \<Rightarrow> string list" where
  "quality_codes known version item = map fst (filter (\<lambda>(code, types, condition).
     fact_type_of item \<in> types \<and> condition item \<noteq> None) (condition_table known version))"

lemma blank_char: "is_space c \<longleftrightarrow> (let n = (of_char c :: nat) in 9 \<le> n \<and> n \<le> 13 \<or> 28 \<le> n \<and> n \<le> 32 \<or> n = 133 \<or> n = 160)"
  by (simp add: is_space_def)

lemma not_blank_D [simp]: "\<not> blank (CHR ''D'' # cs)" "\<not> blank (CHR ''v'' # cs)" "\<not> blank (CHR ''S'' # cs)"
  "\<not> blank (CHR ''T'' # cs)" "\<not> blank (CHR ''I'' # cs)" "\<not> blank (CHR ''C'' # cs)" "\<not> blank (CHR ''M'' # cs)"
  "\<not> blank (CHR ''F'' # cs)"
  by (simp_all add: blank_def is_space_def)

lemma quality_check_v1_Inr:
  "\<not> blank code \<Longrightarrow> \<not> blank description \<Longrightarrow> types \<noteq> {} \<Longrightarrow>
     quality_check_v1 code description severity types condition = Inr \<lparr>qc_check_id = code, qc_description = description,
       qc_severity = severity, qc_applicability = types, qc_version = ''v1'',
       qc_evaluator = (\<lambda>item. map_option (finding code severity description ''v1'' item) (condition item))\<rparr>"
  by (simp add: quality_check_v1_def make_quality_check_def)

lemmas check_defs = identity_check_def invalid_event_time_check_def non_monotonic_event_time_check_def
  negative_duration_check_def temporal_inconsistency_check_def invalid_provenance_check_def
  unknown_spatial_reference_check_def configuration_mismatch_check_def

text \<open>What a check contributes to the table.\<close>

definition check_entry :: "quality_check \<Rightarrow> string \<times> fact_type set \<times> (temporal_fact \<Rightarrow> bool)" where
  "check_entry c = (qc_check_id c, qc_applicability c, \<lambda>item. qc_evaluator c item \<noteq> None)"

definition reports_itself :: "quality_check \<Rightarrow> bool" where
  "reports_itself c = (\<forall>item f. qc_evaluator c item = Some f \<longrightarrow> qf_quality_code f = qc_check_id c \<and> quality_finding_valid f)"

lemma fact_type_value_nonempty [simp]: "fact_type_value t \<noteq> ''''"
  by (cases t) simp_all

lemma fact_id_nonempty [simp]: "fact_id_of item \<noteq> ''''"
proof -
  have "str_uuid u \<noteq> ''''" for u using length_str_uuid [of u] by (metis length_0_conv numeral_eq_iff zero_neq_numeral)
  then show ?thesis by (cases item) simp_all
qed

lemma finding_valid: "code \<noteq> '''' \<Longrightarrow> version \<noteq> '''' \<Longrightarrow> quality_finding_valid (finding code severity description version item detail)"
  by (simp add: finding_def quality_finding_valid_def)

lemma finding_code [simp]: "qf_quality_code (finding code severity description version item detail) = code"
  by (simp add: finding_def)

lemma all_fact_types_nonempty [simp]: "all_fact_types \<noteq> {}"
  by (simp add: all_fact_types_def)

lemma registry_built:
  "\<exists>g. build_quality_check_registry known (Some version) = Inr g \<and>
     map check_entry (check_list g) = map (\<lambda>(code, types, condition). (code, types, \<lambda>item. condition item \<noteq> None))
       (condition_table known version) \<and> list_all reports_itself (check_list g)"
  by (simp add: build_quality_check_registry_def check_defs quality_check_v1_Inr register_check_def
      check_list_def less_eq_char_def less_char_def check_entry_def condition_table_def reports_itself_def finding_valid)
    (auto simp: finding_valid)

subsection \<open>The findings\<close>

lemma codes_of_checks:
  "list_all reports_itself cs \<Longrightarrow>
     map qf_quality_code (List.map_filter (\<lambda>check.
       if fact_type_of item \<in> qc_applicability check then qc_evaluator check item else None) cs) =
     map fst (filter (\<lambda>(code, types, holds). fact_type_of item \<in> types \<and> holds item) (map check_entry cs)) \<and>
     list_all quality_finding_valid (List.map_filter (\<lambda>check.
       if fact_type_of item \<in> qc_applicability check then qc_evaluator check item else None) cs)"
proof (induction cs)
  case (Cons c cs)
  then have c: "qc_evaluator c item = Some f \<Longrightarrow> qf_quality_code f = qc_check_id c \<and> quality_finding_valid f" for f
    by (simp add: reports_itself_def)
  from Cons show ?case using c by (cases "qc_evaluator c item") (simp_all add: check_entry_def)
qed simp

lemma quality_findings_codes:
  "\<exists>g. build_quality_check_registry known (Some version) = Inr g \<and>
     map qf_quality_code (quality_findings g item) = quality_codes known version item \<and>
     list_all quality_finding_valid (quality_findings g item)"
proof -
  from registry_built [of known version] obtain g where g: "build_quality_check_registry known (Some version) = Inr g"
    and t: "map check_entry (check_list g) = map (\<lambda>(code, types, condition). (code, types, \<lambda>item. condition item \<noteq> None))
       (condition_table known version)" and r: "list_all reports_itself (check_list g)" by blast
  have "map fst (filter (\<lambda>(code, types, holds). fact_type_of item \<in> types \<and> holds item) (map check_entry (check_list g))) =
      quality_codes known version item"
    unfolding t quality_codes_def by (simp add: filter_map comp_def split_def)
  with g codes_of_checks [OF r, of item] show ?thesis by (auto simp: quality_findings_def)
qed

lemma codes_sorted: "sorted_wrt (<) (quality_codes known version item)"
proof -
  have "sorted_wrt (<) (map fst (condition_table known version))"
    by (simp add: condition_table_def less_char_def)
  then show ?thesis unfolding quality_codes_def sorted_wrt_map by (rule sorted_wrt_filter)
qed

lemma sort_findings: "map qf_quality_code fs = quality_codes known version item \<Longrightarrow> sort_key qf_quality_code fs = fs"
  using codes_sorted [of known version item] by (metis sort_key_id_if_sorted strict_sorted_imp_sorted)


subsection \<open>The evaluator\<close>

lemma str_uuid_nonempty [simp]: "str_uuid u \<noteq> ''''"
  using length_str_uuid [of u] by (metis list.size(3) zero_neq_numeral)

lemma data_quality_event_total:
  assumes "rule_definition_valid rule" "rule_evaluation_input_valid inp" "fs \<noteq> []" "list_all quality_finding_valid fs"
  shows "\<exists>e p. data_quality_event L rule inp item fs = Inr e \<and> ee_payload e = DataQualityPayload p \<and> ip_findings p = fs \<and>
    ip_primary_quality_code p = qf_quality_code (hd fs) \<and> ip_affected_fact_id p = fact_id_of item \<and>
    ee_event_time e = ri_event_time inp \<and> ee_event_type e = event_type_value (rd_output_event_type rule) \<and>
    ee_event_id e = deterministic_event_id L rule inp (ri_event_time inp) (event_type_value (rd_output_event_type rule))"
proof -
  have "quality_finding_valid (hd fs)" using assms(3,4) by (cases fs) simp_all
  then have "qf_quality_code (hd fs) \<noteq> ''''" by (simp add: quality_finding_valid_def)
  with assms show ?thesis
    by (cases "ri_processing_time inp") (simp_all add: data_quality_event_def validated_def event_envelope_valid_def
        rule_evaluation_input_valid_def Let_def)
qed

definition quality_reported :: "string list \<Rightarrow> rule_evaluation_result \<Rightarrow> bool" where
  "quality_reported codes r =
     (if codes = [] then rr_status r = NO_MATCH \<and> rr_event r = None
      else rr_status r = MATCH \<and> (case rr_event r of None \<Rightarrow> False | Some e \<Rightarrow> (case ee_payload e of
          DataQualityPayload p \<Rightarrow> map qf_quality_code (ip_findings p) = codes \<and> ip_primary_quality_code p = hd codes
        | _ \<Rightarrow> False)))"

lemma data_quality_decides:
  assumes rule: "rule_definition_valid rule" and inp: "rule_evaluation_input_valid inp"
    and known: "known_contexts_of (ri_configuration inp ''known_spatial_contexts'') = Some known"
  shows "\<exists>r. data_quality_evaluator L rule inp = Inr r \<and>
    quality_reported (quality_codes known (ri_configuration_version_id inp) (hd (ri_facts inp))) r"
proof -
  let ?item = "hd (ri_facts inp)" and ?v = "ri_configuration_version_id inp"
  let ?codes = "quality_codes known ?v ?item"
  from quality_findings_codes [of known ?v ?item] obtain g where
    g: "build_quality_check_registry known (Some ?v) = Inr g" and codes: "map qf_quality_code (quality_findings g ?item) = ?codes"
    and valid: "list_all quality_finding_valid (quality_findings g ?item)" by blast
  show ?thesis
  proof (cases "quality_findings g ?item = []")
    case True
    with codes have "?codes = []" by simp
    with True no_match_total [OF rule inp, of "fact_key ?item"] show ?thesis
      by (auto simp: data_quality_evaluator_def known g quality_reported_def Let_def)
  next
    case False
    from sort_findings [OF codes] data_quality_event_total [OF rule inp False valid, of L ?item] obtain e p where
      e: "data_quality_event L rule inp ?item (sort_key qf_quality_code (quality_findings g ?item)) = Inr e"
      "ee_payload e = DataQualityPayload p" "ip_findings p = quality_findings g ?item"
      "ip_primary_quality_code p = qf_quality_code (hd (quality_findings g ?item))" by auto
    from evidence_ref_total [OF rule inp] obtain ref where "deterministic_evidence_ref L rule inp (ee_event_id e) = Inr ref" by blast
    moreover have "rule_evaluation_result_valid (\<lparr>rr_schema_version = SCHEMA_VERSION, rr_rule_id = rd_rule_id rule,
        rr_rule_version = rd_rule_version rule, rr_status = MATCH, rr_event_time = ri_event_time inp,
        rr_configuration_version_id = ?v, rr_event = Some e, rr_evidence_requests = [],
        rr_tenant_id = Some (key_tenant_id (fact_key ?item)), rr_venue_id = Some (key_venue_id (fact_key ?item)),
        rr_session_id = Some (key_session_id (fact_key ?item)), rr_reason = None\<rparr>)"
      using rule inp by (simp add: rule_evaluation_result_valid_def rule_definition_valid_def rule_evaluation_input_valid_def)
    moreover have "?codes \<noteq> []" "hd ?codes = qf_quality_code (hd (quality_findings g ?item))"
      using codes False by (metis list.map_disc_iff, metis hd_map)
    ultimately show ?thesis using e False codes
      by (simp add: data_quality_evaluator_def known g quality_reported_def rule_result_def validated_def Let_def)
  qed
qed

lemma data_quality_event_identity:
  "data_quality_event L rule inp item fs = Inr e \<Longrightarrow> ee_event_time e = ri_event_time inp \<and>
    ee_event_type e = event_type_value (rd_output_event_type rule) \<and>
    ee_event_id e = deterministic_event_id L rule inp (ri_event_time inp) (event_type_value (rd_output_event_type rule))"
  by (auto simp: data_quality_event_def Let_def)

interpretation data_quality: passing_evaluator L "data_quality_evaluator L" for L
proof
  fix rule inp r
  assume r: "data_quality_evaluator L rule inp = Inr r"
  let ?item = "hd (ri_facts inp)"
  from r consider (bad) reason where "invalid_result rule inp reason = Inr r" "reason \<noteq> ''''"
    | (clean) "no_match_result rule inp (fact_key ?item) = Inr r"
    | (reported) fs e ref r0 where "data_quality_event L rule inp ?item fs = Inr e"
        "rule_result rule inp MATCH (Some e) (Some (fact_key ?item)) None = Inr r0" "r = r0\<lparr>rr_evidence_requests := [ref]\<rparr>"
    by (auto simp: data_quality_evaluator_def Let_def split: option.splits if_splits)
  then show "validate_rule_result L rule inp r = Inr ()"
  proof cases
    case bad
    then show ?thesis using passing_invalid [of "reason" L rule inp] by (auto simp: passing_def)
  next
    case clean
    then show ?thesis using passing_no_match [of "fact_key ?item" inp L rule] by (auto simp: passing_def primary_key_def)
  next
    case reported
    from rule_result_Inr [OF reported(2)] data_quality_event_identity [OF reported(1)] show ?thesis
      by (simp add: reported(3) validate_rule_result_def input_scope_primary validate_provenance_Inr validate_match_Inr primary_key_def)
  qed
qed

subsection \<open>The rule in the engine\<close>

text \<open>The input a fact is submitted with: the pinned configuration version and the catalogue of known contexts.\<close>

definition quality_input :: "string \<Rightarrow> string list \<Rightarrow> uuid \<Rightarrow> datetime \<Rightarrow> temporal_fact \<Rightarrow> rule_evaluation_input" where
  "quality_input version known configuration event_time item = \<lparr>ri_schema_version = SCHEMA_VERSION, ri_facts = [item],
     ri_configuration = [''known_spatial_contexts'' \<mapsto> ConfList (map ConfString known)],
     ri_configuration_version_id = configuration, ri_rule_version = version, ri_event_time = event_time,
     ri_processing_time = None\<rparr>"

lemma known_contexts_of_strings:
  "list_all (\<lambda>c. \<not> blank c) known \<Longrightarrow> known_contexts_of (Some (ConfList (map ConfString known))) = Some (set known)"
  by (auto simp: list_ex_iff list_all_iff image_image)

lemma data_quality_definition_facts:
  "data_quality_definition v = Inr rule \<Longrightarrow> rd_input_fact_types rule = all_fact_types \<and>
     rd_configuration_requirements rule = {''known_spatial_contexts''} \<and> rd_evidence_requirement rule = EVIDENCE_OPTIONAL"
  by (auto simp: data_quality_definition_def validated_def all_fact_types_def split: if_splits)

lemma fact_type_in_all [simp]: "t \<in> all_fact_types"
  by (cases t) (simp_all add: all_fact_types_def)

lemma optional_policy:
  "rd_evidence_requirement rule = EVIDENCE_OPTIONAL \<Longrightarrow> (rr_status r = MATCH \<Longrightarrow> rr_event r \<noteq> None) \<Longrightarrow>
     apply_evidence_policy L rule inp r = Inr r"
  by (cases "rr_event r") (auto simp: apply_evidence_policy_def)

lemma operational_quality:
  assumes b: "build_operational L v = Inr regs" and t: "aware event_time" and known: "list_all (\<lambda>c. \<not> blank c) known"
  shows "\<exists>r. evaluate_rule L (fst regs) (snd regs) ''data_quality'' v (quality_input v known cfg event_time item) = Inr r \<and>
    quality_reported (quality_codes (set known) cfg item) r"
proof -
  let ?i = "quality_input v known cfg event_time item"
  note w = wired [OF b [unfolded build_operational_def]]
  from w(5) obtain rule where d: "data_quality_definition v = Inr rule"
    and g: "registry_get (fst regs) ''data_quality'' v = Some rule" by blast
  from definitions_valid(6) [OF w(1)] d have n: "rule_named rule DATA_QUALITY v ''data_quality_evaluator.v1''" by auto
  note c = data_quality_definition_facts [OF d]
  from n have valid: "rule_definition_valid rule" by (simp add: rule_named_def)
  have inp: "rule_evaluation_input_valid ?i"
    using w(1) t by (simp add: rule_evaluation_input_valid_def quality_input_def)
  have "known_contexts_of (ri_configuration ?i ''known_spatial_contexts'') = Some (set known)"
    using known_contexts_of_strings [OF known] by (simp add: quality_input_def del: known_contexts_of.simps)
  moreover have "hd (ri_facts ?i) = item" "ri_configuration_version_id ?i = cfg" by (simp_all add: quality_input_def)
  ultimately obtain r where
    r: "data_quality_evaluator L rule ?i = Inr r" "quality_reported (quality_codes (set known) cfg item) r"
    using data_quality_decides [OF valid inp, of "set known" L] by metis
  have "validate_input rule ?i = Inr ()"
    using n c by (simp add: validate_input_Inr quality_input_def input_scope_def rule_named_def)
  moreover have "map_of (snd regs) (rd_evaluator_id rule) = Some (data_quality_evaluator L)"
    using n by (simp add: w(2) rule_named_def operational_evaluators_def)
  ultimately have "evaluate_rule L (fst regs) (snd regs) ''data_quality'' v ?i = apply_evidence_policy L rule ?i r"
    using data_quality.obeyed [OF _ _ _ r(1)] g by (simp add: registry_resolve_Inr)
  moreover have "apply_evidence_policy L rule ?i r = Inr r"
    by (rule optional_policy) (use c data_quality.match_carries_event [OF r(1)] in simp_all)
  ultimately show ?thesis using r(2) by simp
qed

text \<open>Under the sanctioned wiring every fact can be checked: the data-quality rule never fails, reports no event exactly
  when no condition of the table holds of the fact, and otherwise one event whose findings are the codes of
  all the conditions that hold, in strictly increasing order, headed by the first one.\<close>

theorem data_quality_complete:
  assumes "build_operational L v = Inr regs" "aware event_time" "list_all (\<lambda>c. \<not> blank c) known"
  shows "\<exists>r. evaluate_rule L (fst regs) (snd regs) ''data_quality'' v (quality_input v known cfg event_time item) = Inr r \<and>
    quality_reported (quality_codes (set known) cfg item) r \<and> sorted_wrt (<) (quality_codes (set known) cfg item)"
  using operational_quality [OF assms] codes_sorted by blast

text \<open>The contract of a temporal transition has no policy revision, so that every transition of the presence and
  dwell engines is reported with invalid provenance, however sound it is.\<close>

theorem transition_always_flagged:
  assumes "build_operational L v = Inr regs" "aware event_time" "list_all (\<lambda>c. \<not> blank c) known"
  shows "\<exists>r e p. evaluate_rule L (fst regs) (snd regs) ''data_quality'' v
      (quality_input v known cfg event_time (TransitionFact tr)) = Inr r \<and> rr_status r = MATCH \<and> rr_event r = Some e \<and>
    ee_payload e = DataQualityPayload p \<and> ''DATA_INVALID_PROVENANCE'' \<in> set (map qf_quality_code (ip_findings p))"
proof -
  let ?codes = "quality_codes (set known) cfg (TransitionFact tr)"
  have "(''DATA_INVALID_PROVENANCE'', all_fact_types, invalid_provenance) \<in> set (condition_table (set known) cfg)"
    by (simp add: condition_table_def)
  moreover have "invalid_provenance (TransitionFact tr) \<noteq> None"
    by (simp add: invalid_provenance_def provenance_issues_def absent_or_blank_def Let_def)
  ultimately have code: "''DATA_INVALID_PROVENANCE'' \<in> set ?codes"
    unfolding quality_codes_def by (force simp: image_iff)
  from operational_quality [OF assms, of cfg "TransitionFact tr"] obtain r where
    "evaluate_rule L (fst regs) (snd regs) ''data_quality'' v (quality_input v known cfg event_time (TransitionFact tr)) = Inr r"
    "quality_reported ?codes r" by blast
  moreover have "?codes \<noteq> []" using code by auto
  ultimately show ?thesis using code
    by (auto simp: quality_reported_def simp del: set_map split: option.splits rule_payload.splits)
qed

lemma snapshot_codes:
  assumes "sn_previous_count sn + sn_delta sn = sn_occupancy_count sn" "\<not> blank (sn_fsm_version sn)"
    "\<not> blank (sn_policy_revision sn)"
  shows "quality_codes known (key_configuration_version_id (sn_key sn)) (SnapshotFact sn) =
    (case key_semantic_context (sn_key sn) of None \<Rightarrow> []
     | Some c \<Rightarrow> if c \<in> known then [] else [''DATA_UNKNOWN_SPATIAL_REFERENCE''])"
  using assms by (simp add: quality_codes_def condition_table_def other_configuration_def key_attribute_def
      missing_event_time_def invalid_provenance_def provenance_issues_def absent_or_blank_def missing_identity_def
      unknown_context_def Let_def split: option.split)

text \<open>The snapshots of a run of the occupancy engine pass every check under the configuration version of their scope: the
  rule answers NO_MATCH when the context of the scope is known, and reports exactly the unknown context otherwise.\<close>

theorem occupancy_snapshots_clean:
  assumes b: "build_operational L v = Inr regs" and known: "list_all (\<lambda>c. \<not> blank c) known"
    and init: "occupancy_initial_state L key = Inr s0" and run: "run_facts (occupancy_step L p) s0 is = Inr (s, out)"
    and p: "\<not> blank (pol_revision p)" and sn: "sn \<in> set (List.map_filter snd out)"
  shows "\<exists>r. evaluate_rule L (fst regs) (snd regs) ''data_quality'' v
      (quality_input v known (key_configuration_version_id key) (sn_event_time sn) (SnapshotFact sn)) = Inr r \<and>
    quality_reported (case key_semantic_context key of None \<Rightarrow> []
      | Some c \<Rightarrow> if c \<in> set known then [] else [''DATA_UNKNOWN_SPATIAL_REFERENCE'']) r"
proof -
  note facts = run_sessions [OF init run b [unfolded build_operational_def]]
  from init have key: "os_key s0 = key" by (auto simp: occupancy_initial_state_def construct_def split: if_splits)
  from occupancy_run_keys [OF run] sn key have k: "sn_key sn = key" "sn_policy_revision sn = pol_revision p"
    "sn_fsm_version sn = fsm_version OCCUPANCY_FSM" by (auto simp: list_all_iff)
  from facts(2) [OF sn] have valid: "occupancy_snapshot_valid sn" by simp
  have "\<not> blank (fsm_version OCCUPANCY_FSM)" by (simp add: TEMPORAL_ENGINE_VERSION_def blank_def is_space_def)
  then have "quality_codes (set known) (key_configuration_version_id key) (SnapshotFact sn) =
    (case key_semantic_context key of None \<Rightarrow> []
     | Some c \<Rightarrow> if c \<in> set known then [] else [''DATA_UNKNOWN_SPATIAL_REFERENCE''])"
    using snapshot_codes [of sn "set known"] valid p k by (simp add: occupancy_snapshot_valid_def)
  moreover have "aware (sn_event_time sn)" using valid by (simp add: occupancy_snapshot_valid_def)
  ultimately show ?thesis using operational_quality [OF b _ known, of "sn_event_time sn"] by metis
qed

subsection \<open>Witnesses\<close>

lemma sample_operational: "\<exists>regs. build_operational sample_lib ''v1'' = Inr regs"
proof -
  have "validate_rule_version ''v1''" by (simp add: is_digit_def)
  then show ?thesis using wiring_cases [of "''v1''" sample_lib "data_quality_evaluator sample_lib"]
    by (auto simp: build_operational_def)
qed

lemma sample_known: "list_all (\<lambda>c. \<not> blank c) [''queue-1'']"
  by (simp add: blank_def is_space_def)

theorem data_quality_complete_witness:
  "\<exists>regs r. evaluate_rule sample_lib (fst regs) (snd regs) ''data_quality'' ''v1''
      (quality_input ''v1'' [''queue-1''] 6 (utc_at 0) (TransitionFact (sample_fact 7 ENTER_CONFIRMED 10 1))) = Inr r \<and>
    quality_reported [''DATA_CONFIGURATION_MISMATCH'', ''DATA_INVALID_PROVENANCE''] r"
proof -
  from sample_operational obtain regs where b: "build_operational sample_lib ''v1'' = Inr regs" by blast
  have "quality_codes {''queue-1''} 6 (TransitionFact (sample_fact 7 ENTER_CONFIRMED 10 1)) =
      [''DATA_CONFIGURATION_MISMATCH'', ''DATA_INVALID_PROVENANCE'']"
    by (simp add: quality_codes_def condition_table_def other_configuration_def key_attribute_def str_uuid_inj
        missing_event_time_def invalid_provenance_def provenance_issues_def absent_or_blank_def missing_identity_def
        unknown_context_def sample_fact_def Let_def)
  with data_quality_complete [OF b _ sample_known, of "utc_at 0" 6 "TransitionFact (sample_fact 7 ENTER_CONFIRMED 10 1)"]
  show ?thesis by auto
qed

theorem transition_always_flagged_witness:
  "\<exists>regs r. evaluate_rule sample_lib (fst regs) (snd regs) ''data_quality'' ''v1''
      (quality_input ''v1'' [''queue-1''] 5 (utc_at 0) (TransitionFact (sample_fact 7 ENTER_CONFIRMED 10 1))) = Inr r \<and>
    rr_status r = MATCH"
proof -
  from sample_operational obtain regs where "build_operational sample_lib ''v1'' = Inr regs" by blast
  from transition_always_flagged [OF this _ sample_known, of "utc_at 0" 5 "sample_fact 7 ENTER_CONFIRMED 10 1"]
  show ?thesis by auto
qed

theorem occupancy_snapshots_clean_witness:
  "\<exists>regs s out sn r. run_facts (occupancy_step sample_lib sample_policy) sample_occupancy
     [sample_occupancy_input 7 ENTER_CONFIRMED 10 1] = Inr (s, out) \<and> List.map_filter snd out = [sn] \<and>
    evaluate_rule sample_lib (fst regs) (snd regs) ''data_quality'' ''v1''
      (quality_input ''v1'' [''queue-1''] 5 (sn_event_time sn) (SnapshotFact sn)) = Inr r \<and> rr_status r = NO_MATCH"
proof -
  from sample_operational obtain regs where b: "build_operational sample_lib ''v1'' = Inr regs" by blast
  from sample_entry_run obtain s out sn where run: "run_facts (occupancy_step sample_lib sample_policy) sample_occupancy
     [sample_occupancy_input 7 ENTER_CONFIRMED 10 1] = Inr (s, out)" and sn: "List.map_filter snd out = [sn]"
    by (elim exE conjE)
  have "\<not> blank (pol_revision sample_policy)" by (simp add: blank_def is_space_def)
  from occupancy_snapshots_clean [OF b sample_known sample_occupancy_initial run this, of sn] sn obtain r where
    "evaluate_rule sample_lib (fst regs) (snd regs) ''data_quality'' ''v1''
      (quality_input ''v1'' [''queue-1''] 5 (sn_event_time sn) (SnapshotFact sn)) = Inr r" "quality_reported [] r"
    by auto
  with run sn show ?thesis unfolding quality_reported_def by (metis (full_types))
qed

end
