(* ===== verification/Evidence_State.thy ===== *)
theory Evidence_State
  imports Fsm
begin

text \<open>
  The evidence processing state machine (\<open>domain/evidence/state_machine.py\<close>) and the service that keeps the
  state on the metadata of an evidence reference (\<open>application/services/evidence_state.py\<close>). The metadata is
  the JSON object of the row; the database transaction that writes it back belongs to the caller.
\<close>

subsection \<open>Metadata\<close>

text \<open>A JSON value as far as the services look at it: a null, a string, a boolean, or another value with the text
  \<open>str\<close> gives it.\<close>

datatype meta_value = MetaNull | MetaString string | MetaBool bool | MetaOther string

type_synonym metadata = "string \<rightharpoonup> meta_value"

fun meta_str :: "meta_value \<Rightarrow> string" where
  "meta_str MetaNull = ''None''"
| "meta_str (MetaString s) = s"
| "meta_str (MetaBool b) = (if b then ''True'' else ''False'')"
| "meta_str (MetaOther text) = text"

text \<open>\<open>metadata.get(key)\<close>, where an absent key and a null give \<open>None\<close>.\<close>

definition meta_get :: "metadata \<Rightarrow> string \<Rightarrow> meta_value option" where
  "meta_get m key = (case m key of Some MetaNull \<Rightarrow> None | v \<Rightarrow> v)"

subsection \<open>States and events\<close>

datatype processing_state =
    REQUESTED | QUEUED | EXTRACTING | UPLOADING | FINALIZED | RETRYABLE_FAILURE | TERMINAL_FAILURE | EXPIRED

fun processing_value :: "processing_state \<Rightarrow> string" where
  "processing_value REQUESTED = ''requested''"
| "processing_value QUEUED = ''queued''"
| "processing_value EXTRACTING = ''extracting''"
| "processing_value UPLOADING = ''uploading''"
| "processing_value FINALIZED = ''finalized''"
| "processing_value RETRYABLE_FAILURE = ''retryable_failure''"
| "processing_value TERMINAL_FAILURE = ''terminal_failure''"
| "processing_value EXPIRED = ''expired''"

definition processing_states :: "processing_state list" where
  "processing_states = [REQUESTED, QUEUED, EXTRACTING, UPLOADING, FINALIZED, RETRYABLE_FAILURE, TERMINAL_FAILURE,
     EXPIRED]"

text \<open>\<open>EvidenceProcessingState(text)\<close>, a \<open>ValueError\<close> on other texts.\<close>

definition processing_state_of :: "string \<Rightarrow> processing_state option" where
  "processing_state_of text = find (\<lambda>s. processing_value s = text) processing_states"

datatype evidence_event =
    QUEUE | START_EXTRACTING | EXTRACTION_COMPLETE | FINALIZE | RETRYABLE_FAILURE_EVENT | TERMINAL_FAILURE_EVENT
  | RETRY | EXPIRE

fun event_value :: "evidence_event \<Rightarrow> string" where
  "event_value QUEUE = ''queue''"
| "event_value START_EXTRACTING = ''start_extracting''"
| "event_value EXTRACTION_COMPLETE = ''extraction_complete''"
| "event_value FINALIZE = ''finalize''"
| "event_value RETRYABLE_FAILURE_EVENT = ''retryable_failure''"
| "event_value TERMINAL_FAILURE_EVENT = ''terminal_failure''"
| "event_value RETRY = ''retry''"
| "event_value EXPIRE = ''expire''"

definition EVIDENCE_STATE_MACHINE_VERSION :: string where
  "EVIDENCE_STATE_MACHINE_VERSION = ''1''"

definition evidence_transitions :: "(processing_state \<times> evidence_event \<times> processing_state) list" where
  "evidence_transitions =
     [(REQUESTED, QUEUE, QUEUED),
      (QUEUED, START_EXTRACTING, EXTRACTING),
      (EXTRACTING, EXTRACTION_COMPLETE, UPLOADING),
      (UPLOADING, FINALIZE, FINALIZED),
      (EXTRACTING, RETRYABLE_FAILURE_EVENT, RETRYABLE_FAILURE),
      (RETRYABLE_FAILURE, RETRY, QUEUED),
      (EXTRACTING, TERMINAL_FAILURE_EVENT, TERMINAL_FAILURE),
      (UPLOADING, RETRYABLE_FAILURE_EVENT, RETRYABLE_FAILURE),
      (UPLOADING, TERMINAL_FAILURE_EVENT, TERMINAL_FAILURE),
      (REQUESTED, EXPIRE, EXPIRED),
      (QUEUED, EXPIRE, EXPIRED),
      (EXTRACTING, EXPIRE, EXPIRED),
      (UPLOADING, EXPIRE, EXPIRED)]"

definition evidence_rules :: "fsm_rule list" where
  "evidence_rules = map (\<lambda>(s, e, t). FsmRule (processing_value s) (event_value e) (processing_value t)) evidence_transitions"

definition EVIDENCE_FSM :: fsm where
  "EVIDENCE_FSM = (case make_fsm ''evidence_processing'' EVIDENCE_STATE_MACHINE_VERSION
       (map processing_value processing_states) (processing_value REQUESTED) evidence_rules of Inr m \<Rightarrow> m)"

definition terminal_states :: "processing_state set" where
  "terminal_states = {FINALIZED, TERMINAL_FAILURE, EXPIRED}"

definition is_terminal :: "processing_state \<Rightarrow> bool" where
  "is_terminal s = (s \<in> terminal_states)"

text \<open>The declared targets of an event; \<open>None\<close> unless there is exactly one.\<close>

definition event_target :: "evidence_event \<Rightarrow> processing_state option" where
  "event_target e =
     (case remdups (map (\<lambda>(s, ev, t). t) (filter (\<lambda>(s, ev, t). event_value ev = event_value e) evidence_transitions)) of
        [t] \<Rightarrow> Some t | _ \<Rightarrow> None)"

datatype evidence_error =
    FinalizedEvidenceMutation
  | InvalidEvidenceTransition
  | EvidenceStateMismatch
  | IdempotencyKeyInvalid
  | EvidenceValueError

definition evidence_next_state :: "processing_state \<Rightarrow> evidence_event \<Rightarrow> evidence_error + processing_state" where
  "evidence_next_state s e =
     (if s = FINALIZED then Inl FinalizedEvidenceMutation
      else case transition EVIDENCE_FSM (processing_value s) (event_value e) of
          Inl _ \<Rightarrow> Inl InvalidEvidenceTransition
        | Inr raw \<Rightarrow> (case processing_state_of raw of None \<Rightarrow> Inl EvidenceValueError | Some t \<Rightarrow> Inr t))"

definition evidence_can_transition :: "processing_state \<Rightarrow> evidence_event \<Rightarrow> bool" where
  "evidence_can_transition s e = can_transition EVIDENCE_FSM (processing_value s) (event_value e)"

definition evidence_event_of :: "string \<Rightarrow> evidence_event option" where
  "evidence_event_of text = find (\<lambda>e. event_value e = text)
     [QUEUE, START_EXTRACTING, EXTRACTION_COMPLETE, FINALIZE, RETRYABLE_FAILURE_EVENT, TERMINAL_FAILURE_EVENT, RETRY, EXPIRE]"

definition evidence_allowed_events :: "processing_state \<Rightarrow> evidence_event list" where
  "evidence_allowed_events s = List.map_filter evidence_event_of (allowed_events EVIDENCE_FSM (processing_value s))"

subsection \<open>The service\<close>

text \<open>\<open>[ -~]+\<close> with an optional newline at the end, which \<open>$\<close> lets through.\<close>

definition printable :: "char \<Rightarrow> bool" where
  "printable c = (32 \<le> (of_char c :: nat) \<and> (of_char c :: nat) \<le> 126)"

definition idempotency_key_ok :: "string \<Rightarrow> bool" where
  "idempotency_key_ok key = (1 \<le> length key \<and> length key \<le> 128 \<and>
     (list_all printable key \<or> key \<noteq> [] \<and> last key = CHR 0x0A \<and> butlast key \<noteq> [] \<and> list_all printable (butlast key)))"

record evidence_transition_result =
  er_from_state :: processing_state
  er_to_state :: processing_state
  er_applied :: bool

record evidence_checkpoint =
  ec_state :: processing_state
  ec_version :: string

definition current_state :: "metadata \<Rightarrow> evidence_error + processing_state" where
  "current_state m = (case meta_get m ''processing_state'' of
       None \<Rightarrow> Inr REQUESTED
     | Some raw \<Rightarrow> (case processing_state_of (meta_str raw) of None \<Rightarrow> Inl EvidenceValueError | Some s \<Rightarrow> Inr s))"

text \<open>\<open>str(metadata.get(key) or version)\<close>: the empty text and \<open>False\<close> count as absent.\<close>

definition evidence_restart :: "metadata \<Rightarrow> evidence_error + evidence_checkpoint" where
  "evidence_restart m = rbind (current_state m) (\<lambda>s. Inr \<lparr>ec_state = s, ec_version =
     (case meta_get m ''processing_state_version'' of
        None \<Rightarrow> EVIDENCE_STATE_MACHINE_VERSION
      | Some v \<Rightarrow> if v = MetaString [] \<or> v = MetaBool False then EVIDENCE_STATE_MACHINE_VERSION else meta_str v)\<rparr>)"

definition persist_state :: "metadata \<Rightarrow> processing_state \<Rightarrow> metadata" where
  "persist_state m s = m(''processing_state'' \<mapsto> MetaString (processing_value s),
     ''processing_state_version'' \<mapsto> MetaString EVIDENCE_STATE_MACHINE_VERSION)"

definition evidence_apply :: "metadata \<Rightarrow> evidence_event \<Rightarrow> processing_state option \<Rightarrow> string option \<Rightarrow>
    evidence_error + metadata \<times> evidence_transition_result" where
  "evidence_apply m e expected key =
     (if (case key of None \<Rightarrow> False | Some k \<Rightarrow> \<not> idempotency_key_ok k) then Inl IdempotencyKeyInvalid
      else rbind (current_state m) (\<lambda>persisted.
        if expected \<noteq> None \<and> expected \<noteq> Some persisted then Inl EvidenceStateMismatch
        else if \<not> is_terminal persisted \<and> event_target e = Some persisted then
          Inr (m, \<lparr>er_from_state = persisted, er_to_state = persisted, er_applied = False\<rparr>)
        else rbind (evidence_next_state persisted e) (\<lambda>to_state.
          Inr (persist_state m to_state, \<lparr>er_from_state = persisted, er_to_state = to_state, er_applied = True\<rparr>))))"

definition claim_for_extraction :: "metadata \<Rightarrow> evidence_error + metadata \<times> evidence_transition_result" where
  "claim_for_extraction m = evidence_apply m START_EXTRACTING (Some QUEUED) None"

definition evidence_finalize :: "metadata \<Rightarrow> evidence_error + metadata \<times> evidence_transition_result" where
  "evidence_finalize m = evidence_apply m FINALIZE (Some UPLOADING) None"

subsection \<open>Any sequence of calls\<close>

text \<open>A call that raises leaves the metadata as it was; the log holds the transitions newly applied.\<close>

type_synonym service_call = "evidence_event \<times> processing_state option \<times> string option"

type_synonym transition_log = "(processing_state \<times> evidence_event \<times> processing_state) list"

fun service_step :: "metadata \<Rightarrow> service_call \<Rightarrow> metadata \<times> transition_log" where
  "service_step m (e, expected, key) = (case evidence_apply m e expected key of
       Inl _ \<Rightarrow> (m, [])
     | Inr (m', r) \<Rightarrow> (m', if er_applied r then [(er_from_state r, e, er_to_state r)] else []))"

fun service_run :: "metadata \<Rightarrow> service_call list \<Rightarrow> metadata \<times> transition_log" where
  "service_run m [] = (m, [])"
| "service_run m (c # cs) =
     (let (m1, log1) = service_step m c; (m2, log2) = service_run m1 cs in (m2, log1 @ log2))"

subsection \<open>The machine is its table\<close>

lemma evidence_fsm_built:
  "make_fsm ''evidence_processing'' EVIDENCE_STATE_MACHINE_VERSION (map processing_value processing_states)
     (processing_value REQUESTED) evidence_rules = Inr EVIDENCE_FSM"
  by (simp add: EVIDENCE_FSM_def make_fsm_def evidence_rules_def evidence_transitions_def processing_states_def)

interpretation evidence_machine: legal_fsm EVIDENCE_FSM
  by (rule make_fsm_legal_fsm [OF evidence_fsm_built])

lemma processing_state_of_value [simp]: "processing_state_of (processing_value s) = Some s"
  by (cases s) (simp_all add: processing_state_of_def processing_states_def)

definition declared_transition :: "processing_state \<Rightarrow> evidence_event \<Rightarrow> processing_state option" where
  "declared_transition s e = map_of (map (\<lambda>(s, e, t). ((s, e), t)) evidence_transitions) (s, e)"

lemma evidence_next_state_table:
  "evidence_next_state s e =
     (if s = FINALIZED then Inl FinalizedEvidenceMutation
      else case declared_transition s e of None \<Rightarrow> Inl InvalidEvidenceTransition | Some t \<Rightarrow> Inr t)"
proof -
  have look: "fsm_lookup EVIDENCE_FSM = map (\<lambda>r. ((rule_from r, rule_event r), rule_to r)) evidence_rules"
    by (simp add: EVIDENCE_FSM_def make_fsm_def evidence_rules_def evidence_transitions_def processing_states_def)
  have "map_of (fsm_lookup EVIDENCE_FSM) (processing_value s, event_value e) =
      map_option processing_value (declared_transition s e)"
    unfolding look by (cases s; cases e; simp add: evidence_rules_def evidence_transitions_def declared_transition_def)
  then show ?thesis
    by (cases "declared_transition s e") (simp_all add: evidence_next_state_def transition_def)
qed

lemma event_target_table:
  "event_target QUEUE = Some QUEUED" "event_target START_EXTRACTING = Some EXTRACTING"
  "event_target EXTRACTION_COMPLETE = Some UPLOADING" "event_target FINALIZE = Some FINALIZED"
  "event_target RETRYABLE_FAILURE_EVENT = Some RETRYABLE_FAILURE"
  "event_target TERMINAL_FAILURE_EVENT = Some TERMINAL_FAILURE" "event_target RETRY = Some QUEUED"
  "event_target EXPIRE = Some EXPIRED"
  by (simp_all add: event_target_def evidence_transitions_def)

lemma declared_target: "declared_transition s e = Some t \<Longrightarrow> event_target e = Some t \<and> \<not> is_terminal s"
  by (cases s; cases e; simp add: declared_transition_def evidence_transitions_def event_target_table is_terminal_def
      terminal_states_def)

end
