(* ===== verification/Evidence_State_Facts.thy ===== *)
theory Evidence_State_Facts
  imports Evidence_State
begin

text \<open>
  What the evidence processing service promises about any sequence of calls: the transitions it applies form a path of
  the declared table, terminal states stay, a replayed event changes nothing, and the number of transitions is bounded
  by the number of retries.
\<close>

subsection \<open>One call\<close>

lemma current_state_persist [simp]: "current_state (persist_state m s) = Inr s"
  by (simp add: current_state_def persist_state_def meta_get_def)

lemma evidence_apply_cases:
  assumes "evidence_apply m e x k = Inr (m', r)"
  obtains (replay) s where "current_state m = Inr s" "x = None \<or> x = Some s" "\<not> is_terminal s"
      "event_target e = Some s" "m' = m" "r = \<lparr>er_from_state = s, er_to_state = s, er_applied = False\<rparr>"
    | (applied) s t where "current_state m = Inr s" "x = None \<or> x = Some s" "declared_transition s e = Some t"
      "event_target e \<noteq> Some s" "m' = persist_state m t"
      "r = \<lparr>er_from_state = s, er_to_state = t, er_applied = True\<rparr>"
proof -
  obtain s where s: "current_state m = Inr s"
    using assms by (cases "current_state m") (auto simp: evidence_apply_def split: if_splits)
  show thesis
  proof (cases "\<not> is_terminal s \<and> event_target e = Some s")
    case True
    with assms s show ?thesis by (intro replay [of s]) (auto simp: evidence_apply_def split: if_splits)
  next
    case False
    with assms s obtain t where t: "evidence_next_state s e = Inr t" "m' = persist_state m t"
        "r = \<lparr>er_from_state = s, er_to_state = t, er_applied = True\<rparr>" and x: "x = None \<or> x = Some s"
      by (auto simp: evidence_apply_def rbind_eq_Inr split: if_splits)
    from t(1) have d: "declared_transition s e = Some t"
      by (auto simp: evidence_next_state_table split: if_splits option.splits)
    with declared_target [OF d] False have "event_target e \<noteq> Some s" by auto
    with d t(2,3) x s show ?thesis by (intro applied [of s t]) auto
  qed
qed

lemma evidence_terminal_rejects:
  assumes "current_state m = Inr s" "is_terminal s"
  shows "service_step m (e, x, k) = (m, [])"
proof (cases "evidence_apply m e x k")
  case (Inr p)
  then obtain m' r where "evidence_apply m e x k = Inr (m', r)" by (cases p) auto
  then show ?thesis
    by (cases rule: evidence_apply_cases) (use assms declared_target in auto)
qed simp

lemma evidence_terminal_stays:
  "current_state m = Inr s \<Longrightarrow> is_terminal s \<Longrightarrow> service_run m calls = (m, [])"
proof (induction calls)
  case (Cons c calls)
  obtain e x k where "c = (e, x, k)" by (cases c) auto
  with Cons evidence_terminal_rejects [OF Cons.prems] show ?case by simp
qed simp

lemma evidence_reached:
  assumes "evidence_apply m e x k = Inr (m', r)"
  shows "current_state m' = Inr (er_to_state r) \<and> event_target e = Some (er_to_state r)"
  using assms by (cases rule: evidence_apply_cases) (auto dest: declared_target)

lemma evidence_same_event_again:
  assumes "evidence_apply m e x k = Inr (m', r)"
  shows "service_step m' (e, x', k') = (m', [])"
proof (cases "evidence_apply m' e x' k'")
  case (Inr p)
  then obtain m'' r' where again: "evidence_apply m' e x' k' = Inr (m'', r')" by (cases p) auto
  note reached = evidence_reached [OF assms]
  from again show ?thesis
    by (cases rule: evidence_apply_cases) (use again reached in auto)
qed simp

subsection \<open>The log is a path of the table\<close>

fun declared_path :: "processing_state \<Rightarrow> transition_log \<Rightarrow> processing_state \<Rightarrow> bool" where
  "declared_path s [] t = (s = t)"
| "declared_path s ((a, e, b) # applied_log) t = (a = s \<and> declared_transition a e = Some b \<and> declared_path b applied_log t)"

lemma declared_path_append: "declared_path s (l1 @ l2) t = (\<exists>u. declared_path s l1 u \<and> declared_path u l2 t)"
  by (induction l1 arbitrary: s) auto

lemma service_step_path:
  assumes "current_state m = Inr s" "service_step m c = (m', applied_log)"
  shows "\<exists>t. current_state m' = Inr t \<and> declared_path s applied_log t"
proof (cases c)
  case (fields e x k)
  show ?thesis
  proof (cases "evidence_apply m e x k")
    case (Inl err)
    with assms fields show ?thesis by auto
  next
    case (Inr p)
    then obtain m1 r where step: "evidence_apply m e x k = Inr (m1, r)" by (cases p) auto
    then show ?thesis by (cases rule: evidence_apply_cases) (use step assms fields in auto)
  qed
qed

lemma service_run_path:
  "current_state m = Inr s \<Longrightarrow> service_run m calls = (m', applied_log) \<Longrightarrow>
     \<exists>t. current_state m' = Inr t \<and> declared_path s applied_log t"
proof (induction calls arbitrary: m s applied_log)
  case (Cons c calls)
  obtain m1 l1 where one: "service_step m c = (m1, l1)" by (cases "service_step m c")
  obtain l2 where rest: "service_run m1 calls = (m', l2)" and applied_log: "applied_log = l1 @ l2"
    using Cons.prems(2) one by (auto split: prod.splits)
  from service_step_path [OF Cons.prems(1) one] obtain u where u: "current_state m1 = Inr u" "declared_path s l1 u" by blast
  from Cons.IH [OF u(1) rest] u(2) applied_log show ?case by (auto simp: declared_path_append)
qed simp

text \<open>The only way into a state, read off the table.\<close>

lemma declared_into:
  "declared_transition s e = Some FINALIZED \<Longrightarrow> s = UPLOADING \<and> e = FINALIZE"
  "declared_transition s e = Some UPLOADING \<Longrightarrow> s = EXTRACTING \<and> e = EXTRACTION_COMPLETE"
  "declared_transition s e = Some EXTRACTING \<Longrightarrow> s = QUEUED \<and> e = START_EXTRACTING"
  "declared_transition s e = Some QUEUED \<Longrightarrow> s = REQUESTED \<and> e = QUEUE \<or> s = RETRYABLE_FAILURE \<and> e = RETRY"
  by (cases s; cases e; simp add: declared_transition_def evidence_transitions_def)+

lemma declared_path_into:
  assumes "declared_path s applied_log t" "s \<noteq> t"
  obtains pre a e where "applied_log = pre @ [(a, e, t)]" "declared_path s pre a" "declared_transition a e = Some t"
proof -
  from assms have "applied_log \<noteq> []" by (cases applied_log) auto
  then obtain pre a e b where "applied_log = pre @ [(a, e, b)]" by (metis prod_cases3 rev_exhaust)
  with assms(1) that show thesis by (auto simp: declared_path_append)
qed

lemma finalized_path:
  assumes "declared_path REQUESTED applied_log FINALIZED"
  shows "\<exists>pre. applied_log = pre @ [(QUEUED, START_EXTRACTING, EXTRACTING), (EXTRACTING, EXTRACTION_COMPLETE, UPLOADING),
           (UPLOADING, FINALIZE, FINALIZED)] \<and> declared_path REQUESTED pre QUEUED"
proof -
  from assms obtain l1 a1 e1 where 1: "applied_log = l1 @ [(a1, e1, FINALIZED)]" "declared_path REQUESTED l1 a1"
      "declared_transition a1 e1 = Some FINALIZED" by (rule declared_path_into) auto
  from declared_into(1) [OF 1(3)] have a1: "a1 = UPLOADING" "e1 = FINALIZE" by auto
  from 1(2) a1 obtain l2 a2 e2 where 2: "l1 = l2 @ [(a2, e2, UPLOADING)]" "declared_path REQUESTED l2 a2"
      "declared_transition a2 e2 = Some UPLOADING" by (auto elim: declared_path_into)
  from declared_into(2) [OF 2(3)] have a2: "a2 = EXTRACTING" "e2 = EXTRACTION_COMPLETE" by auto
  from 2(2) a2 obtain l3 a3 e3 where 3: "l2 = l3 @ [(a3, e3, EXTRACTING)]" "declared_path REQUESTED l3 a3"
      "declared_transition a3 e3 = Some EXTRACTING" by (auto elim: declared_path_into)
  from declared_into(3) [OF 3(3)] have "a3 = QUEUED" "e3 = START_EXTRACTING" by auto
  with 1 2 3 a1 a2 show ?thesis by auto
qed

text \<open>Transitions left before a final or failed state is reached without a retry.\<close>

fun remaining :: "processing_state \<Rightarrow> nat" where
  "remaining REQUESTED = 4"
| "remaining QUEUED = 3"
| "remaining EXTRACTING = 2"
| "remaining UPLOADING = 1"
| "remaining _ = 0"

definition retries :: "transition_log \<Rightarrow> nat" where
  "retries applied_log = length (filter (\<lambda>(_, e, _). e = RETRY) applied_log)"

lemma retries_simps [simp]: "retries [] = 0"
  "retries ((a, e, b) # applied_log) = (if e = RETRY then Suc (retries applied_log) else retries applied_log)"
  by (simp_all add: retries_def)

lemma declared_remaining: "declared_transition s e = Some t \<Longrightarrow>
    remaining t + 1 \<le> remaining s + (if e = RETRY then 4 else 0)"
  by (cases s; cases e; simp add: declared_transition_def evidence_transitions_def)

lemma declared_path_bounded: "declared_path s applied_log t \<Longrightarrow> length applied_log + remaining t \<le> remaining s + 4 * retries applied_log"
proof (induction s applied_log t rule: declared_path.induct)
  case (2 s a e b applied_log t)
  then have "declared_transition s e = Some b" "length applied_log + remaining t \<le> remaining b + 4 * retries applied_log" "a = s" by auto
  with declared_remaining [of s e b] show ?case by (auto split: if_splits)
qed simp

subsection \<open>Properties\<close>

text \<open>Evidence that a sequence of service calls has finalized was queued, claimed, extracted and uploaded, in this
  order and without any other state in between: the applied transitions of every sequence of calls on fresh metadata
  form a path of the declared table that ends in the stored state, and if that state is FINALIZED the path ends with
  START_EXTRACTING from QUEUED, EXTRACTION_COMPLETE and FINALIZE.\<close>

theorem evidence_finalized_path:
  assumes "current_state m = Inr REQUESTED" "service_run m calls = (m', applied_log)"
  shows "\<exists>t. current_state m' = Inr t \<and> declared_path REQUESTED applied_log t \<and>
    (t = FINALIZED \<longrightarrow> (\<exists>pre. applied_log = pre @ [(QUEUED, START_EXTRACTING, EXTRACTING),
       (EXTRACTING, EXTRACTION_COMPLETE, UPLOADING), (UPLOADING, FINALIZE, FINALIZED)] \<and> declared_path REQUESTED pre QUEUED))"
  using service_run_path [OF assms] finalized_path by metis

lemma evidence_replay_harmless_parts:
  assumes "evidence_apply m e x k = Inr (m', r)"
  shows "service_step m' (e, x', k') = (m', [])"
    and "is_terminal (er_to_state r) \<Longrightarrow> service_run m' calls = (m', [])"
    and "e = START_EXTRACTING \<Longrightarrow> claim_for_extraction m' = Inl EvidenceStateMismatch"
proof -
  note reached = evidence_reached [OF assms]
  show "service_step m' (e, x', k') = (m', [])" by (rule evidence_same_event_again [OF assms])
  show "service_run m' calls = (m', [])" if "is_terminal (er_to_state r)"
    by (rule evidence_terminal_stays [OF conjunct1 [OF reached] that])
  show "claim_for_extraction m' = Inl EvidenceStateMismatch" if "e = START_EXTRACTING"
    using reached that by (simp add: claim_for_extraction_def evidence_apply_def event_target_table)
qed

text \<open>A replayed event never changes anything a second time: once an event has been accepted, applied or
  acknowledged as a replay, sending it again under any expectation and any idempotency key leaves the metadata and the
  applied_log alone; after a terminal state no sequence of calls changes the metadata; and of two claims of one reference only
  the first succeeds.\<close>

theorem evidence_replay_harmless:
  assumes "evidence_apply m e x k = Inr (m', r)"
  shows "(service_step m' (e, x', k') = (m', [])) \<and>
    (is_terminal (er_to_state r) \<longrightarrow> service_run m' calls = (m', [])) \<and>
    (e = START_EXTRACTING \<longrightarrow> claim_for_extraction m' = Inl EvidenceStateMismatch)"
  using evidence_replay_harmless_parts [OF assms] by blast

lemma evidence_run_bounded_parts:
  assumes "current_state m = Inr REQUESTED" "service_run m calls = (m', applied_log)"
  shows "length applied_log \<le> 4 + 4 * retries applied_log"
    and "current_state m' = Inr FINALIZED \<Longrightarrow> retries applied_log = 0 \<Longrightarrow> length applied_log = 4"
proof -
  from service_run_path [OF assms] obtain t where t: "current_state m' = Inr t" "declared_path REQUESTED applied_log t" by blast
  note bound = declared_path_bounded [OF t(2)]
  then show "length applied_log \<le> 4 + 4 * retries applied_log" by simp
  show "length applied_log = 4" if "current_state m' = Inr FINALIZED" "retries applied_log = 0"
  proof -
    from t that have "declared_path REQUESTED applied_log FINALIZED" by simp
    then obtain pre where pre: "applied_log = pre @ [(QUEUED, START_EXTRACTING, EXTRACTING),
        (EXTRACTING, EXTRACTION_COMPLETE, UPLOADING), (UPLOADING, FINALIZE, FINALIZED)]"
        "declared_path REQUESTED pre QUEUED" using finalized_path by metis
    have "pre \<noteq> []" using pre(2) by (metis declared_path.simps(1) processing_state.distinct(1))
    then have "1 \<le> length pre" by (cases pre) simp_all
    with pre(1) have "4 \<le> length applied_log" by simp
    with bound that(2) show ?thesis by simp
  qed
qed

text \<open>The processing of one reference ends unless it is retried: the number of transitions that any sequence of
  calls applies on fresh metadata is at most four plus four for each retry among them; without a retry the log has at
  most four entries, and four exactly when the evidence is finalized.\<close>

theorem evidence_run_bounded:
  assumes "current_state m = Inr REQUESTED" "service_run m calls = (m', applied_log)"
  shows "length applied_log \<le> 4 + 4 * retries applied_log \<and>
    (current_state m' = Inr FINALIZED \<longrightarrow> retries applied_log = 0 \<longrightarrow> length applied_log = 4)"
  using evidence_run_bounded_parts [OF assms] by blast

subsection \<open>Witnesses\<close>

definition sample_calls :: "service_call list" where
  "sample_calls = [(QUEUE, None, None), (START_EXTRACTING, Some QUEUED, None), (START_EXTRACTING, Some QUEUED, None),
     (EXTRACTION_COMPLETE, None, None), (FINALIZE, Some UPLOADING, None), (EXPIRE, None, None)]"

lemma fresh_current: "current_state Map.empty = Inr REQUESTED"
  by (simp add: current_state_def meta_get_def)

lemma service_step_applies:
  "current_state m = Inr s \<Longrightarrow> declared_transition s e = Some t \<Longrightarrow> event_target e \<noteq> Some s \<Longrightarrow> s \<noteq> FINALIZED \<Longrightarrow>
     x = None \<or> x = Some s \<Longrightarrow>
     evidence_apply m e x None = Inr (persist_state m t, \<lparr>er_from_state = s, er_to_state = t, er_applied = True\<rparr>)"
  by (auto simp: evidence_apply_def evidence_next_state_table)

lemma service_step_replays:
  "current_state m = Inr s \<Longrightarrow> event_target e = Some s \<Longrightarrow> service_step m (e, x, None) = (m, [])"
  by (auto simp: evidence_apply_def evidence_next_state_table declared_target dest: declared_target split: option.splits)

lemma sample_declared:
  "declared_transition REQUESTED QUEUE = Some QUEUED" "declared_transition QUEUED START_EXTRACTING = Some EXTRACTING"
  "declared_transition EXTRACTING EXTRACTION_COMPLETE = Some UPLOADING"
  "declared_transition UPLOADING FINALIZE = Some FINALIZED"
  by (simp_all add: declared_transition_def evidence_transitions_def)

lemma service_step_moves:
  "current_state m = Inr s \<Longrightarrow> declared_transition s e = Some t \<Longrightarrow> event_target e \<noteq> Some s \<Longrightarrow> s \<noteq> FINALIZED \<Longrightarrow>
     x = None \<or> x = Some s \<Longrightarrow> service_step m (e, x, None) = (persist_state m t, [(s, e, t)])"
  by (simp add: service_step_applies)

lemma sample_run:
  "\<exists>m'. service_run Map.empty sample_calls = (m', [(REQUESTED, QUEUE, QUEUED), (QUEUED, START_EXTRACTING, EXTRACTING),
     (EXTRACTING, EXTRACTION_COMPLETE, UPLOADING), (UPLOADING, FINALIZE, FINALIZED)]) \<and> current_state m' = Inr FINALIZED"
proof -
  let ?m1 = "persist_state Map.empty QUEUED" let ?m2 = "persist_state ?m1 EXTRACTING"
  let ?m3 = "persist_state ?m2 UPLOADING" let ?m4 = "persist_state ?m3 FINALIZED"
  have "service_step Map.empty (QUEUE, None, None) = (?m1, [(REQUESTED, QUEUE, QUEUED)])"
    by (rule service_step_moves [OF fresh_current sample_declared(1)]) (simp_all add: event_target_table)
  moreover have "service_step ?m1 (START_EXTRACTING, Some QUEUED, None) = (?m2, [(QUEUED, START_EXTRACTING, EXTRACTING)])"
    by (rule service_step_moves [OF current_state_persist sample_declared(2)]) (simp_all add: event_target_table)
  moreover have "service_step ?m2 (START_EXTRACTING, Some QUEUED, None) = (?m2, [])"
    by (rule service_step_replays [OF current_state_persist]) (simp add: event_target_table)
  moreover have "service_step ?m2 (EXTRACTION_COMPLETE, None, None) = (?m3, [(EXTRACTING, EXTRACTION_COMPLETE, UPLOADING)])"
    by (rule service_step_moves [OF current_state_persist sample_declared(3)]) (simp_all add: event_target_table)
  moreover have "service_step ?m3 (FINALIZE, Some UPLOADING, None) = (?m4, [(UPLOADING, FINALIZE, FINALIZED)])"
    by (rule service_step_moves [OF current_state_persist sample_declared(4)]) (simp_all add: event_target_table)
  moreover have "service_step ?m4 (EXPIRE, None, None) = (?m4, [])"
    by (rule evidence_terminal_rejects [OF current_state_persist]) (simp add: is_terminal_def terminal_states_def)
  ultimately show ?thesis by (simp add: sample_calls_def del: service_step.simps)
qed

lemma evidence_finalized_path_witness:
  "\<exists>m' applied_log t. service_run Map.empty sample_calls = (m', applied_log) \<and> current_state m' = Inr t \<and> declared_path REQUESTED applied_log t \<and>
     t = FINALIZED"
proof -
  from sample_run obtain m' applied_log where run: "service_run Map.empty sample_calls = (m', applied_log)" "current_state m' = Inr FINALIZED"
    by blast
  from evidence_finalized_path [OF fresh_current run(1)] run show ?thesis by auto
qed

lemma evidence_replay_harmless_witness:
  "\<exists>m' r. claim_for_extraction (persist_state Map.empty QUEUED) = Inr (m', r) \<and>
     service_step m' (START_EXTRACTING, Some EXTRACTING, None) = (m', []) \<and>
     claim_for_extraction m' = Inl EvidenceStateMismatch"
proof -
  have "\<exists>m' r. evidence_apply (persist_state Map.empty QUEUED) START_EXTRACTING (Some QUEUED) None = Inr (m', r)"
    using service_step_applies [OF current_state_persist sample_declared(2)] by (auto simp: event_target_table)
  then obtain m' r where ok: "evidence_apply (persist_state Map.empty QUEUED) START_EXTRACTING (Some QUEUED) None = Inr (m', r)"
    by blast
  from conjunct1 [OF evidence_replay_harmless [OF ok]] conjunct2 [OF conjunct2 [OF evidence_replay_harmless [OF ok]]] ok show ?thesis
    by (auto simp only: claim_for_extraction_def)
qed

lemma evidence_run_bounded_witness:
  "\<exists>m' applied_log. service_run Map.empty sample_calls = (m', applied_log) \<and> length applied_log \<le> 4 + 4 * retries applied_log \<and> length applied_log = 4"
proof -
  from sample_run obtain m' where run: "service_run Map.empty sample_calls = (m', [(REQUESTED, QUEUE, QUEUED),
     (QUEUED, START_EXTRACTING, EXTRACTING), (EXTRACTING, EXTRACTION_COMPLETE, UPLOADING), (UPLOADING, FINALIZE, FINALIZED)])"
      "current_state m' = Inr FINALIZED" by blast
  from evidence_run_bounded [OF fresh_current run(1)] run
  show ?thesis by auto
qed

end
