(* ===== verification/Evidence_Resolution.thy ===== *)
theory Evidence_Resolution
  imports Rules_Contracts
begin

text \<open>
  The resolution of the source recordings of an evidence reference (\<open>domain/evidence/resolution.py\<close>). Recordings
  and references are the validated contract values, so every timestamp is aware; texts of reasons are constructors that
  carry what the text names.
\<close>

subsection \<open>Data\<close>

datatype source_resolution_status = RESOLVED | PARTIAL_COVERAGE | SOURCE_NOT_FOUND | AUTHORIZATION_FAILURE

record source_recording =
  sr_asset_id :: uuid
  sr_tenant_id :: uuid
  sr_venue_id :: uuid
  sr_camera_id :: "uuid option"
  sr_session_id :: "uuid option"
  sr_start_time :: datetime
  sr_end_time :: datetime
  sr_available :: bool

definition source_recording_valid :: "source_recording \<Rightarrow> bool" where
  "source_recording_valid r = (aware (sr_start_time r) \<and> aware (sr_end_time r) \<and> \<not> dt_less (sr_end_time r) (sr_start_time r))"

record source_segment =
  ss_asset_id :: uuid
  ss_camera_id :: "uuid option"
  ss_session_id :: "uuid option"
  ss_start_time :: datetime
  ss_end_time :: datetime

datatype resolution_reason =
    NoScope
  | ForeignTenant uuid uuid
  | ForeignVenue uuid uuid
  | NoSourceIdentity
  | RecordingUnavailable
  | NoMatchingRecording
  | NothingCovered
  | InstantNotCovered
  | CoverageGaps "(datetime \<times> datetime) list"

record resolved_source =
  rs_status :: source_resolution_status
  rs_evidence_ref_id :: uuid
  rs_event_id :: uuid
  rs_tenant_id :: "uuid option"
  rs_venue_id :: "uuid option"
  rs_camera_id :: "uuid option"
  rs_video_session_id :: "uuid option"
  rs_configuration_version_id :: "uuid option"
  rs_rule_id :: "string option"
  rs_rule_version :: "string option"
  rs_requested_start :: datetime
  rs_requested_end :: datetime
  rs_segments :: "source_segment list"
  rs_reason :: "resolution_reason option"

subsection \<open>Matching and coverage\<close>

definition identity_matches :: "evidence_ref \<Rightarrow> source_recording \<Rightarrow> bool" where
  "identity_matches e r = (\<not>
     (ev_video_asset_id e \<noteq> None \<and> Some (sr_asset_id r) \<noteq> ev_video_asset_id e \<or>
      ev_camera_id e \<noteq> None \<and> sr_camera_id r \<noteq> ev_camera_id e \<or>
      ev_video_session_id e \<noteq> None \<and> sr_session_id r \<noteq> ev_video_session_id e))"

text \<open>\<open>max\<close> and \<open>min\<close> return the first of equal arguments.\<close>

definition dt_max :: "datetime \<Rightarrow> datetime \<Rightarrow> datetime" where
  "dt_max a b = (if dt_less a b then b else a)"

definition dt_min :: "datetime \<Rightarrow> datetime \<Rightarrow> datetime" where
  "dt_min a b = (if dt_less b a then b else a)"

type_synonym clip = "datetime \<times> datetime \<times> source_recording"

definition clipped :: "source_recording list \<Rightarrow> datetime \<Rightarrow> datetime \<Rightarrow> clip list" where
  "clipped recordings s e =
     map (\<lambda>r. (dt_max (sr_start_time r) s, dt_min (sr_end_time r) e, r))
       (filter (\<lambda>r. \<not> dt_less (dt_min (sr_end_time r) e) (dt_max (sr_start_time r) s)) recordings)"

definition clip_key :: "clip \<Rightarrow> int \<times> string" where
  "clip_key = (\<lambda>(lo, hi, r). (dt_instant lo, str_uuid (sr_asset_id r)))"

text \<open>The walk: the second argument tells whether a segment has been emitted already.\<close>

fun cover_walk :: "datetime \<Rightarrow> bool \<Rightarrow> clip list \<Rightarrow> source_segment list" where
  "cover_walk cursor emitted [] = []"
| "cover_walk cursor emitted ((lo, hi, r) # clips) =
     (if \<not> dt_less cursor hi \<and> emitted then cover_walk cursor emitted clips
      else \<lparr>ss_asset_id = sr_asset_id r, ss_camera_id = sr_camera_id r, ss_session_id = sr_session_id r,
             ss_start_time = dt_max lo cursor, ss_end_time = hi\<rparr> # cover_walk (dt_max cursor hi) True clips)"

definition source_cover :: "source_recording list \<Rightarrow> datetime \<Rightarrow> datetime \<Rightarrow> source_segment list" where
  "source_cover recordings s e = cover_walk s False (sort_key clip_key (clipped recordings s e))"

fun contiguous :: "source_segment list \<Rightarrow> bool" where
  "contiguous (a # b # segs) = (\<not> dt_less (ss_end_time a) (ss_start_time b) \<and> contiguous (b # segs))"
| "contiguous _ = True"

fun inner_gaps :: "source_segment list \<Rightarrow> (datetime \<times> datetime) list" where
  "inner_gaps (a # b # segs) =
     (if dt_less (ss_end_time a) (ss_start_time b) then [(ss_end_time a, ss_start_time b)] else []) @ inner_gaps (b # segs)"
| "inner_gaps _ = []"

definition gap_reason :: "source_segment list \<Rightarrow> datetime \<Rightarrow> datetime \<Rightarrow> (datetime \<times> datetime) list" where
  "gap_reason segs s e =
     (if dt_less s (ss_start_time (hd segs)) then [(s, ss_start_time (hd segs))] else []) @ inner_gaps segs @
     (if dt_less (ss_end_time (last segs)) e then [(ss_end_time (last segs), e)] else [])"

subsection \<open>Resolution\<close>

definition requested_start :: "evidence_ref \<Rightarrow> datetime" where
  "requested_start e = (case ev_start_time e of Some s \<Rightarrow> s | None \<Rightarrow> ev_event_time e)"

definition requested_end :: "evidence_ref \<Rightarrow> datetime" where
  "requested_end e = (case ev_end_time e of Some s \<Rightarrow> s | None \<Rightarrow> ev_event_time e)"

definition source_outcome :: "evidence_ref \<Rightarrow> source_resolution_status \<Rightarrow> source_segment list \<Rightarrow>
    resolution_reason option \<Rightarrow> resolved_source" where
  "source_outcome e status segs reason = \<lparr>
     rs_status = status, rs_evidence_ref_id = ev_ref_id e, rs_event_id = ev_event_id e,
     rs_tenant_id = ev_tenant_id e, rs_venue_id = ev_venue_id e,
     rs_camera_id = (if ev_camera_id e = None \<and> segs \<noteq> [] then ss_camera_id (hd segs) else ev_camera_id e),
     rs_video_session_id = ev_video_session_id e, rs_configuration_version_id = ev_configuration_version_id e,
     rs_rule_id = ev_rule_id e, rs_rule_version = ev_rule_version e,
     rs_requested_start = requested_start e, rs_requested_end = requested_end e,
     rs_segments = segs, rs_reason = reason\<rparr>"

text \<open>The first recording outside the scope decides the reason.\<close>

fun scope_violation :: "uuid \<Rightarrow> uuid \<Rightarrow> source_recording list \<Rightarrow> resolution_reason option" where
  "scope_violation tenant venue [] = None"
| "scope_violation tenant venue (r # rs) =
     (if sr_tenant_id r \<noteq> tenant then Some (ForeignTenant (sr_asset_id r) (sr_tenant_id r))
      else if sr_venue_id r \<noteq> venue then Some (ForeignVenue (sr_asset_id r) (sr_venue_id r))
      else scope_violation tenant venue rs)"

definition resolve_source :: "evidence_ref \<Rightarrow> source_recording list \<Rightarrow> resolved_source" where
  "resolve_source e recordings =
     (case (ev_tenant_id e, ev_venue_id e) of
        (Some tenant, Some venue) \<Rightarrow>
          (case scope_violation tenant venue recordings of
             Some reason \<Rightarrow> source_outcome e AUTHORIZATION_FAILURE [] (Some reason)
           | None \<Rightarrow>
               if ev_video_asset_id e = None \<and> ev_camera_id e = None \<and> ev_video_session_id e = None then
                 source_outcome e SOURCE_NOT_FOUND [] (Some NoSourceIdentity)
               else
                 let matching_all = filter (identity_matches e) recordings;
                     matching = filter sr_available matching_all;
                     s = requested_start e; t = requested_end e
                 in if matching = [] then
                      source_outcome e SOURCE_NOT_FOUND []
                        (Some (if matching_all \<noteq> [] then RecordingUnavailable else NoMatchingRecording))
                    else
                      let segs = source_cover matching s t
                      in if segs = [] then source_outcome e SOURCE_NOT_FOUND [] (Some NothingCovered)
                         else if \<not> dt_less s (ss_start_time (hd segs)) \<and> \<not> dt_less (ss_end_time (last segs)) t \<and>
                             contiguous segs then source_outcome e RESOLVED segs None
                         else if dt_eq s t then source_outcome e SOURCE_NOT_FOUND [] (Some InstantNotCovered)
                         else source_outcome e PARTIAL_COVERAGE segs (Some (CoverageGaps (gap_reason segs s t))))
      | _ \<Rightarrow> source_outcome e AUTHORIZATION_FAILURE [] (Some NoScope))"

end
