(* ===== verification/Evidence_Resolution_Facts.thy ===== *)
theory Evidence_Resolution_Facts
  imports Evidence_Resolution
begin

text \<open>
  The resolver against a specification on sets of instants: the segments cover exactly what the matching recordings
  cover of the request, they are ordered and disjoint, and the request is resolved exactly when nothing is missing.
  Instants are real numbers here, so a gap of one microsecond counts.
\<close>

subsection \<open>The walk on intervals\<close>

type_synonym span = "int \<times> int"

definition covers :: "span list \<Rightarrow> real \<Rightarrow> bool" where
  "covers spans x = (\<exists>(a, b)\<in>set spans. real_of_int a \<le> x \<and> x \<le> real_of_int b)"

lemma covers_Nil [simp]: "\<not> covers [] x"
  by (simp add: covers_def)

lemma covers_Cons [simp]: "covers ((a, b) # spans) x = (real_of_int a \<le> x \<and> x \<le> real_of_int b \<or> covers spans x)"
  by (simp add: covers_def)

fun span_walk :: "int \<Rightarrow> bool \<Rightarrow> span list \<Rightarrow> span list" where
  "span_walk c emitted [] = []"
| "span_walk c emitted ((lo, hi) # spans) =
     (if hi \<le> c \<and> emitted then span_walk c emitted spans else (max lo c, hi) # span_walk (max c hi) True spans)"

lemma span_walk_sound: "covers (span_walk c emitted spans) x \<Longrightarrow> covers spans x"
  by (induction c emitted spans rule: span_walk.induct) (auto split: if_splits)

lemma span_walk_complete:
  assumes "sorted (map fst spans)" "\<forall>(lo, hi)\<in>set spans. L \<le> lo" "covers spans x"
  shows "covers (span_walk c True spans) x \<or> real_of_int L \<le> x \<and> x \<le> real_of_int c"
  using assms
proof (induction spans arbitrary: c L)
  case (Cons p spans)
  obtain lo hi where p: "p = (lo, hi)" by (cases p)
  have lo: "L \<le> lo" "\<forall>(l, h)\<in>set spans. lo \<le> l" "\<forall>(l, h)\<in>set spans. L \<le> l" "sorted (map fst spans)"
    using Cons.prems p by auto
  note rest = Cons.IH [OF lo(4)]
  from Cons.prems(3) p have "real_of_int lo \<le> x \<and> x \<le> real_of_int hi \<or> covers spans x" by simp
  then show ?case
    using rest [of L c] rest [of lo "max c hi"] lo(1-3) p by (auto simp: max_def split: if_splits)
qed simp

lemma span_walk_first:
  assumes "sorted (map fst spans)" "\<forall>(lo, hi)\<in>set spans. c \<le> lo \<and> lo \<le> hi"
  shows "covers (span_walk c False spans) x \<longleftrightarrow> covers spans x"
proof (cases spans)
  case (Cons p rest)
  obtain lo hi where p: "p = (lo, hi)" by (cases p)
  have "\<forall>(l, h)\<in>set rest. lo \<le> l" "sorted (map fst rest)" "c \<le> lo" "lo \<le> hi" using assms Cons p by auto
  with span_walk_complete [of rest lo x hi] span_walk_sound [of c False spans x] show ?thesis
    using Cons p by (auto simp: max_def split: if_splits)
qed simp

definition ordered_spans :: "span list \<Rightarrow> bool" where
  "ordered_spans spans = (sorted_wrt (\<lambda>a b. snd a \<le> fst b) spans \<and> (\<forall>(a, b)\<in>set spans. a \<le> b))"

lemma span_walk_ordered:
  "\<forall>(lo, hi)\<in>set spans. lo \<le> hi \<Longrightarrow>
   ordered_spans (span_walk c True spans) \<and> (\<forall>(a, b)\<in>set (span_walk c True spans). c \<le> a)"
proof (induction spans arbitrary: c)
  case (Cons p spans)
  obtain lo hi where p: "p = (lo, hi)" by (cases p)
  show ?case
  proof (cases "hi \<le> c")
    case True
    with Cons p show ?thesis by simp
  next
    case False
    with Cons.IH [of hi] Cons.prems p show ?thesis by (fastforce simp: ordered_spans_def max_def)
  qed
qed (simp add: ordered_spans_def)

lemma span_walk_first_ordered:
  assumes "\<forall>(lo, hi)\<in>set spans. c \<le> lo \<and> lo \<le> hi"
  shows "ordered_spans (span_walk c False spans)"
proof (cases spans)
  case (Cons p rest)
  obtain lo hi where p: "p = (lo, hi)" by (cases p)
  from assms Cons have "\<forall>(lo, hi)\<in>set rest. lo \<le> hi" by auto
  from span_walk_ordered [OF this, of hi] assms Cons p show ?thesis
    by (fastforce simp: ordered_spans_def max_def)
qed (simp add: ordered_spans_def)

lemma span_walk_within:
  "\<forall>(lo, hi)\<in>set spans. s \<le> lo \<and> hi \<le> t \<Longrightarrow> \<forall>(a, b)\<in>set (span_walk c emitted spans). s \<le> a \<and> b \<le> t"
  by (induction c emitted spans rule: span_walk.induct) auto

text \<open>A request is covered without a gap when the ordered spans touch each other and reach both ends.\<close>

fun touching :: "span list \<Rightarrow> bool" where
  "touching (a # b # spans) = (fst b \<le> snd a \<and> touching (b # spans))"
| "touching _ = True"

lemma touching_covers:
  "touching spans \<Longrightarrow> spans \<noteq> [] \<Longrightarrow> real_of_int (fst (hd spans)) \<le> x \<Longrightarrow> x \<le> real_of_int (snd (last spans)) \<Longrightarrow>
   covers spans x"
proof (induction spans rule: touching.induct)
  case (1 a b spans)
  show ?case
  proof (cases "x \<le> real_of_int (snd a)")
    case True
    with 1 show ?thesis by (cases a) simp
  next
    case False
    with 1 have "covers (b # spans) x" by (intro 1(1)) auto
    then show ?thesis by (cases a) simp
  qed
qed (auto simp: covers_def)

lemma gap_uncovered:
  assumes "ordered_spans spans" "\<not> touching spans"
  shows "\<exists>x. \<not> covers spans x \<and> real_of_int (snd (hd spans)) < x \<and> x < real_of_int (fst (last spans))"
  using assms
proof (induction spans rule: touching.induct)
  case (1 a b spans)
  have ord: "snd a \<le> fst b" "\<forall>c\<in>set spans. snd a \<le> fst c \<and> snd b \<le> fst c" "ordered_spans (b # spans)"
      "fst a \<le> snd a" "fst b \<le> snd b"
    using 1(2) by (auto simp: ordered_spans_def)
  show ?case
  proof (cases "fst b \<le> snd a")
    case True
    with 1 ord obtain x where x: "\<not> covers (b # spans) x" "real_of_int (snd b) < x"
        "x < real_of_int (fst (last (b # spans)))" by auto
    have "real_of_int (snd a) \<le> real_of_int (fst b)" "real_of_int (fst b) \<le> real_of_int (snd b)"
      using ord by simp_all
    with x show ?thesis by (intro exI [of _ x]) (cases a, auto)
  next
    case False
    define x where "x = (real_of_int (snd a) + real_of_int (fst b)) / 2"
    from False have less: "real_of_int (snd a) < x" "x < real_of_int (fst b)"
      by (simp_all add: x_def field_simps)
    have later: "x < real_of_int (fst c)" if "c \<in> set (b # spans)" for c
    proof -
      from that ord have "fst b \<le> fst c" by auto
      then have "real_of_int (fst b) \<le> real_of_int (fst c)" by simp
      with less show ?thesis by simp
    qed
    then have "\<not> covers (b # spans) x" by (force simp: covers_def)
    moreover have "last (b # spans) \<in> set (b # spans)" by (rule last_in_set) simp
    ultimately show ?thesis using less later by (intro exI [of _ x]) (cases a, auto)
  qed
qed simp_all

lemma ordered_covers_all:
  assumes "ordered_spans spans" "s \<le> t" "\<forall>(a, b)\<in>set spans. s \<le> a \<and> b \<le> t"
  shows "(spans \<noteq> [] \<and> fst (hd spans) \<le> s \<and> t \<le> snd (last spans) \<and> touching spans) \<longleftrightarrow>
    (\<forall>x. real_of_int s \<le> x \<and> x \<le> real_of_int t \<longrightarrow> covers spans x)" (is "?full \<longleftrightarrow> ?all")
proof
  assume full: ?full
  show ?all
  proof (intro allI impI)
    fix x assume "real_of_int s \<le> x \<and> x \<le> real_of_int t"
    moreover from full have "real_of_int (fst (hd spans)) \<le> real_of_int s" "real_of_int t \<le> real_of_int (snd (last spans))"
      by simp_all
    ultimately show "covers spans x" using full by (intro touching_covers) auto
  qed
next
  assume all: ?all
  then have "covers spans (real_of_int s)" "covers spans (real_of_int t)" using assms(2) by simp_all
  then obtain p q where p: "p \<in> set spans" "fst p \<le> s" and q: "q \<in> set spans" "t \<le> snd q"
    by (auto simp: covers_def)
  from p(1) have ne: "spans \<noteq> []" by auto
  have "fst (hd spans) \<le> fst p"
  proof (cases spans)
    case (Cons a rest)
    with assms(1) p(1) show ?thesis by (auto simp: ordered_spans_def intro: order_trans)
  qed (use ne in simp)
  moreover have "snd q \<le> snd (last spans)"
  proof (cases spans rule: rev_cases)
    case (snoc rest a)
    with assms(1) q(1) show ?thesis by (auto simp: ordered_spans_def sorted_wrt_append intro: order_trans)
  qed (use ne in simp)
  moreover have "touching spans"
  proof (rule ccontr)
    assume "\<not> touching spans"
    from gap_uncovered [OF assms(1) this] obtain x where x: "\<not> covers spans x"
        "real_of_int (snd (hd spans)) < x" "x < real_of_int (fst (last spans))" by blast
    have "hd spans \<in> set spans" "last spans \<in> set spans" using ne by simp_all
    then have "s \<le> snd (hd spans)" "fst (last spans) \<le> t" using assms(1,3) by (fastforce simp: ordered_spans_def)+
    with x all show False by (smt (verit) of_int_le_iff)
  qed
  ultimately show ?full using p(2) q(2) ne by auto
qed

subsection \<open>The walk on recordings\<close>

definition segment_span :: "source_segment \<Rightarrow> span" where
  "segment_span s = (dt_instant (ss_start_time s), dt_instant (ss_end_time s))"

definition clip_span :: "clip \<Rightarrow> span" where
  "clip_span = (\<lambda>(lo, hi, r). (dt_instant lo, dt_instant hi))"

lemma dt_instant_max [simp]: "dt_instant (dt_max a b) = max (dt_instant a) (dt_instant b)"
  by (simp add: dt_max_def dt_less_def max_def)

lemma dt_instant_min [simp]: "dt_instant (dt_min a b) = min (dt_instant a) (dt_instant b)"
  by (simp add: dt_min_def dt_less_def min_def)

lemma cover_walk_spans:
  "map segment_span (cover_walk c emitted clips) = span_walk (dt_instant c) emitted (map clip_span clips)"
  by (induction c emitted clips rule: cover_walk.induct) (simp_all add: segment_span_def clip_span_def dt_less_def)

lemma clip_lower_sorted: "sorted (map (\<lambda>c. fst (clip_span c)) (sort_key clip_key clips))"
proof -
  have "sorted (map clip_key (sort_key clip_key clips))" by (rule sorted_sort_key)
  then have "sorted_wrt (\<lambda>a b. clip_key a \<le> clip_key b) (sort_key clip_key clips)" by (simp add: sorted_map)
  then have "sorted_wrt (\<lambda>a b. fst (clip_span a) \<le> fst (clip_span b)) (sort_key clip_key clips)"
    by (rule sorted_wrt_mono_rel [rotated]) (auto simp: clip_key_def clip_span_def split: prod.splits)
  then show ?thesis by (simp add: sorted_map)
qed

lemma contiguous_touching: "contiguous segs = touching (map segment_span segs)"
  by (induction segs rule: contiguous.induct) (auto simp: segment_span_def dt_less_def)

text \<open>What a set of recordings covers of a request.\<close>

definition recorded :: "source_recording list \<Rightarrow> datetime \<Rightarrow> datetime \<Rightarrow> real \<Rightarrow> bool" where
  "recorded recordings s t x = (real_of_int (dt_instant s) \<le> x \<and> x \<le> real_of_int (dt_instant t) \<and>
     (\<exists>r\<in>set recordings. real_of_int (dt_instant (sr_start_time r)) \<le> x \<and> x \<le> real_of_int (dt_instant (sr_end_time r))))"

lemma clip_spans_covers:
  "covers (map clip_span (sort_key clip_key (clipped recordings s t))) x = recorded recordings s t x"
proof -
  have "covers (map clip_span (sort_key clip_key (clipped recordings s t))) x =
      (\<exists>r\<in>set recordings. max (dt_instant (sr_start_time r)) (dt_instant s) \<le> min (dt_instant (sr_end_time r)) (dt_instant t) \<and>
         real_of_int (max (dt_instant (sr_start_time r)) (dt_instant s)) \<le> x \<and>
         x \<le> real_of_int (min (dt_instant (sr_end_time r)) (dt_instant t)))"
    by (force simp: covers_def clipped_def clip_span_def dt_less_def)
  also have "\<dots> = recorded recordings s t x"
    unfolding recorded_def by (force simp: max_def min_def)
  finally show ?thesis .
qed

lemma clipped_within:
  "\<forall>(lo, hi)\<in>set (map clip_span (sort_key clip_key (clipped recordings s t))).
     dt_instant s \<le> lo \<and> lo \<le> hi \<and> hi \<le> dt_instant t"
  by (auto simp: clipped_def clip_span_def dt_less_def)

lemma source_cover_spans:
  "map segment_span (source_cover recordings s t) =
     span_walk (dt_instant s) False (map clip_span (sort_key clip_key (clipped recordings s t)))"
  by (simp add: source_cover_def cover_walk_spans)

lemma source_cover_covers: "covers (map segment_span (source_cover recordings s t)) x = recorded recordings s t x"
proof -
  have "sorted (map fst (map clip_span (sort_key clip_key (clipped recordings s t))))"
    using clip_lower_sorted by (simp add: comp_def)
  moreover have "\<forall>(lo, hi)\<in>set (map clip_span (sort_key clip_key (clipped recordings s t))). dt_instant s \<le> lo \<and> lo \<le> hi"
    using clipped_within [of recordings s t] by fast
  ultimately show ?thesis
    unfolding source_cover_spans clip_spans_covers [symmetric] by (rule span_walk_first)
qed

lemma source_cover_ordered: "ordered_spans (map segment_span (source_cover recordings s t))"
proof -
  have "\<forall>(lo, hi)\<in>set (map clip_span (sort_key clip_key (clipped recordings s t))). dt_instant s \<le> lo \<and> lo \<le> hi"
    using clipped_within [of recordings s t] by fast
  then show ?thesis unfolding source_cover_spans by (rule span_walk_first_ordered)
qed

lemma source_cover_within:
  "\<forall>(a, b)\<in>set (map segment_span (source_cover recordings s t)). dt_instant s \<le> a \<and> b \<le> dt_instant t"
proof -
  have "\<forall>(lo, hi)\<in>set (map clip_span (sort_key clip_key (clipped recordings s t))). dt_instant s \<le> lo \<and> hi \<le> dt_instant t"
    using clipped_within [of recordings s t] by fast
  then show ?thesis unfolding source_cover_spans by (rule span_walk_within)
qed

lemma source_cover_complete:
  fixes recordings :: "source_recording list"
  assumes "dt_instant s \<le> dt_instant t"
  defines "segs \<equiv> source_cover recordings s t"
  shows "(segs \<noteq> [] \<and> \<not> dt_less s (ss_start_time (hd segs)) \<and> \<not> dt_less (ss_end_time (last segs)) t \<and> contiguous segs) \<longleftrightarrow>
    (\<forall>x. real_of_int (dt_instant s) \<le> x \<and> x \<le> real_of_int (dt_instant t) \<longrightarrow> recorded recordings s t x)"
proof -
  from ordered_covers_all [OF source_cover_ordered assms(1) source_cover_within [of recordings s t]]
  have "(map segment_span segs \<noteq> [] \<and> fst (hd (map segment_span segs)) \<le> dt_instant s \<and>
      dt_instant t \<le> snd (last (map segment_span segs)) \<and> touching (map segment_span segs)) \<longleftrightarrow>
    (\<forall>x. real_of_int (dt_instant s) \<le> x \<and> x \<le> real_of_int (dt_instant t) \<longrightarrow> recorded recordings s t x)"
    unfolding source_cover_covers segs_def .
  then show ?thesis
    by (auto simp: contiguous_touching hd_map last_map segment_span_def dt_less_def)
qed

text \<open>Every segment is a piece of one of the recordings.\<close>

definition piece_of :: "source_segment \<Rightarrow> source_recording \<Rightarrow> bool" where
  "piece_of s r = (ss_asset_id s = sr_asset_id r \<and> ss_camera_id s = sr_camera_id r \<and> ss_session_id s = sr_session_id r \<and>
     dt_instant (sr_start_time r) \<le> dt_instant (ss_start_time s) \<and> dt_instant (ss_end_time s) \<le> dt_instant (sr_end_time r))"

lemma cover_walk_pieces:
  "s \<in> set (cover_walk c emitted clips) \<Longrightarrow>
     \<exists>(lo, hi, r)\<in>set clips. ss_asset_id s = sr_asset_id r \<and> ss_camera_id s = sr_camera_id r \<and>
       ss_session_id s = sr_session_id r \<and> dt_instant lo \<le> dt_instant (ss_start_time s) \<and> ss_end_time s = hi"
  by (induction c emitted clips rule: cover_walk.induct) (auto split: if_splits)

lemma source_cover_pieces:
  assumes "seg \<in> set (source_cover recordings s t)"
  shows "\<exists>r\<in>set recordings. piece_of seg r"
proof -
  from cover_walk_pieces [OF assms [unfolded source_cover_def]] obtain lo hi r
    where "(lo, hi, r) \<in> set (clipped recordings s t)" "ss_asset_id seg = sr_asset_id r"
      "ss_camera_id seg = sr_camera_id r" "ss_session_id seg = sr_session_id r"
      "dt_instant lo \<le> dt_instant (ss_start_time seg)" "ss_end_time seg = hi" by auto
  then show ?thesis by (intro bexI [of _ r]) (auto simp: piece_of_def clipped_def)
qed

subsection \<open>The resolver\<close>

definition in_scope :: "evidence_ref \<Rightarrow> source_recording \<Rightarrow> bool" where
  "in_scope e r = (ev_tenant_id e = Some (sr_tenant_id r) \<and> ev_venue_id e = Some (sr_venue_id r))"

definition authorized :: "evidence_ref \<Rightarrow> source_recording list \<Rightarrow> bool" where
  "authorized e recordings = (ev_tenant_id e \<noteq> None \<and> ev_venue_id e \<noteq> None \<and> list_all (in_scope e) recordings)"

definition has_source_identity :: "evidence_ref \<Rightarrow> bool" where
  "has_source_identity e = (ev_video_asset_id e \<noteq> None \<or> ev_camera_id e \<noteq> None \<or> ev_video_session_id e \<noteq> None)"

definition usable :: "evidence_ref \<Rightarrow> source_recording list \<Rightarrow> source_recording list" where
  "usable e recordings = filter sr_available (filter (identity_matches e) recordings)"

lemma scope_violation_None: "scope_violation tenant venue recordings = None \<longleftrightarrow>
    (\<forall>r\<in>set recordings. sr_tenant_id r = tenant \<and> sr_venue_id r = venue)"
  by (induction recordings) auto

lemma source_outcome_simps [simp]:
  "rs_status (source_outcome e st segs why) = st" "rs_segments (source_outcome e st segs why) = segs"
  "rs_reason (source_outcome e st segs why) = why"
  by (simp_all add: source_outcome_def)

lemma source_outcome_inject [simp]:
  "source_outcome e st segs why = source_outcome e st' segs' why' \<longleftrightarrow> st = st' \<and> segs = segs' \<and> why = why'"
  by (metis source_outcome_simps)

lemma resolve_unauthorized:
  assumes "\<not> authorized e recordings"
  shows "\<exists>why. resolve_source e recordings = source_outcome e AUTHORIZATION_FAILURE [] (Some why)"
proof (cases "ev_tenant_id e = None \<or> ev_venue_id e = None")
  case False
  then obtain tenant venue where "ev_tenant_id e = Some tenant" "ev_venue_id e = Some venue" by auto
  moreover from this assms have "scope_violation tenant venue recordings \<noteq> None"
    by (auto simp: scope_violation_None authorized_def in_scope_def list_all_iff)
  ultimately show ?thesis by (auto simp: resolve_source_def)
qed (auto simp: resolve_source_def split: option.splits)

lemma resolve_unauthorized_result:
  assumes "\<not> authorized e recordings"
  shows "rs_status (resolve_source e recordings) = AUTHORIZATION_FAILURE" "rs_segments (resolve_source e recordings) = []"
  using resolve_unauthorized [OF assms] by auto

text \<open>In scope the outcome is decided by the cover of the usable recordings.\<close>

lemma resolve_authorized:
  assumes "authorized e recordings"
  defines "segs \<equiv> source_cover (usable e recordings) (requested_start e) (requested_end e)"
  shows "\<exists>why. resolve_source e recordings =
    (if \<not> has_source_identity e \<or> segs = [] then source_outcome e SOURCE_NOT_FOUND [] why
     else if \<not> dt_less (requested_start e) (ss_start_time (hd segs)) \<and> \<not> dt_less (ss_end_time (last segs)) (requested_end e) \<and>
        contiguous segs then source_outcome e RESOLVED segs None
     else if dt_eq (requested_start e) (requested_end e) then source_outcome e SOURCE_NOT_FOUND [] why
     else source_outcome e PARTIAL_COVERAGE segs why)"
proof -
  from assms(1) obtain tenant venue where scope: "ev_tenant_id e = Some tenant" "ev_venue_id e = Some venue"
    by (auto simp: authorized_def)
  moreover from this assms(1) have "scope_violation tenant venue recordings = None"
    by (auto simp: scope_violation_None authorized_def in_scope_def list_all_iff)
  moreover have "segs = []" if "usable e recordings = []"
    using that by (simp add: segs_def source_cover_def clipped_def)
  ultimately show ?thesis
    by (auto simp: resolve_source_def has_source_identity_def usable_def segs_def Let_def)
qed

lemma resolution_exact_parts:
  assumes "\<not> dt_less (requested_end e) (requested_start e)"
  shows "rs_status (resolve_source e recordings) = AUTHORIZATION_FAILURE \<longleftrightarrow> \<not> authorized e recordings"
    and "rs_status (resolve_source e recordings) = RESOLVED \<longleftrightarrow>
      authorized e recordings \<and> has_source_identity e \<and>
      (\<forall>x. real_of_int (dt_instant (requested_start e)) \<le> x \<and> x \<le> real_of_int (dt_instant (requested_end e)) \<longrightarrow>
         recorded (filter sr_available (filter (identity_matches e) recordings)) (requested_start e) (requested_end e) x)"
proof -
  let ?segs = "source_cover (usable e recordings) (requested_start e) (requested_end e)"
  from assms have "dt_instant (requested_start e) \<le> dt_instant (requested_end e)" by (simp add: dt_less_def)
  note complete = source_cover_complete [OF this, of "usable e recordings", unfolded usable_def, folded usable_def]
  show "rs_status (resolve_source e recordings) = AUTHORIZATION_FAILURE \<longleftrightarrow> \<not> authorized e recordings"
    using resolve_unauthorized [of e recordings] resolve_authorized [of e recordings]
    by (cases "authorized e recordings") (auto split: if_splits)
  show "rs_status (resolve_source e recordings) = RESOLVED \<longleftrightarrow>
      authorized e recordings \<and> has_source_identity e \<and>
      (\<forall>x. real_of_int (dt_instant (requested_start e)) \<le> x \<and> x \<le> real_of_int (dt_instant (requested_end e)) \<longrightarrow>
         recorded (filter sr_available (filter (identity_matches e) recordings)) (requested_start e) (requested_end e) x)"
    unfolding usable_def [symmetric] complete [symmetric]
    using resolve_unauthorized [of e recordings] resolve_authorized [of e recordings]
    by (cases "authorized e recordings") (auto split: if_splits)
qed

text \<open>C14: The resolver answers the question it is asked: it refuses exactly when the reference has no scope or some
  recording lies outside it, and otherwise a request with a start not after its end is RESOLVED exactly when the
  reference names a source and every instant of the requested interval, ends included, is covered by an available
  recording that matches every identity of the reference.\<close>

theorem resolution_exact:
  assumes "\<not> dt_less (requested_end e) (requested_start e)"
  shows "(rs_status (resolve_source e recordings) = AUTHORIZATION_FAILURE \<longleftrightarrow> \<not> authorized e recordings) \<and>
    (rs_status (resolve_source e recordings) = RESOLVED \<longleftrightarrow>
      authorized e recordings \<and> has_source_identity e \<and>
      (\<forall>x. real_of_int (dt_instant (requested_start e)) \<le> x \<and> x \<le> real_of_int (dt_instant (requested_end e)) \<longrightarrow>
         recorded (filter sr_available (filter (identity_matches e) recordings)) (requested_start e) (requested_end e) x))"
  using resolution_exact_parts [OF assms] by blast

lemma resolution_sound_parts:
  assumes "rs_segments (resolve_source e recordings) \<noteq> []"
  shows "list_all (\<lambda>seg. \<exists>r\<in>set recordings. piece_of seg r \<and> sr_available r \<and> in_scope e r \<and> identity_matches e r)
      (rs_segments (resolve_source e recordings))"
    and "ordered_spans (map segment_span (rs_segments (resolve_source e recordings)))"
    and "covers (map segment_span (rs_segments (resolve_source e recordings))) x =
      recorded (filter sr_available (filter (identity_matches e) recordings)) (requested_start e) (requested_end e) x"
proof -
  let ?segs = "source_cover (usable e recordings) (requested_start e) (requested_end e)"
  from assms have auth: "authorized e recordings" using resolve_unauthorized_result by blast
  from assms resolve_authorized [OF auth] have segs: "rs_segments (resolve_source e recordings) = ?segs"
    by (auto split: if_splits)
  show "list_all (\<lambda>seg. \<exists>r\<in>set recordings. piece_of seg r \<and> sr_available r \<and> in_scope e r \<and> identity_matches e r)
      (rs_segments (resolve_source e recordings))"
    unfolding segs list_all_iff
    using source_cover_pieces [of _ "usable e recordings" "requested_start e" "requested_end e"] auth
    by (fastforce simp: usable_def authorized_def list_all_iff)
  show "ordered_spans (map segment_span (rs_segments (resolve_source e recordings)))"
    unfolding segs by (rule source_cover_ordered)
  show "covers (map segment_span (rs_segments (resolve_source e recordings))) x =
      recorded (filter sr_available (filter (identity_matches e) recordings)) (requested_start e) (requested_end e) x"
    unfolding segs source_cover_covers by (simp add: usable_def)
qed

text \<open>What the resolver hands to the extraction is authorized and exact: every segment of a result is a piece of an
  available recording of the tenant and the venue of the reference that matches every identity of the reference, lies
  within the request, and the segments follow each other without overlapping; together they cover exactly what those
  recordings have of the request.\<close>

theorem resolution_sound:
  assumes "rs_segments (resolve_source e recordings) \<noteq> []"
  shows "(list_all (\<lambda>seg. \<exists>r\<in>set recordings. piece_of seg r \<and> sr_available r \<and> in_scope e r \<and> identity_matches e r)
      (rs_segments (resolve_source e recordings))) \<and>
    ordered_spans (map segment_span (rs_segments (resolve_source e recordings))) \<and>
    covers (map segment_span (rs_segments (resolve_source e recordings))) x =
      recorded (filter sr_available (filter (identity_matches e) recordings)) (requested_start e) (requested_end e) x"
  using resolution_sound_parts [OF assms] by blast

subsection \<open>The order of the candidates\<close>

lemma clip_key_inj:
  assumes "distinct (map sr_asset_id recordings)"
  shows "inj_on clip_key (set (clipped recordings s t))"
proof (rule inj_onI)
  fix c d assume c: "c \<in> set (clipped recordings s t)" and d: "d \<in> set (clipped recordings s t)" and eq: "clip_key c = clip_key d"
  from c obtain r where r: "r \<in> set recordings" "c = (dt_max (sr_start_time r) s, dt_min (sr_end_time r) t, r)"
    by (auto simp: clipped_def)
  from d obtain q where q: "q \<in> set recordings" "d = (dt_max (sr_start_time q) s, dt_min (sr_end_time q) t, q)"
    by (auto simp: clipped_def)
  from eq r q have "sr_asset_id r = sr_asset_id q" by (simp add: clip_key_def str_uuid_inj)
  with assms r(1) q(1) have "r = q" by (auto simp: distinct_map dest: inj_onD)
  with r q show "c = d" by simp
qed

lemma distinct_clipped: "distinct recordings \<Longrightarrow> distinct (clipped recordings s t)"
  by (auto simp: clipped_def distinct_map inj_on_def)

lemma source_cover_set:
  assumes "distinct (map sr_asset_id recordings)" "distinct others" "set others = set recordings"
  shows "source_cover others s t = source_cover recordings s t"
proof -
  from assms(1) have d: "distinct recordings" by (simp add: distinct_map)
  have same: "set (clipped others s t) = set (clipped recordings s t)" using assms(3) by (auto simp: clipped_def)
  note inj = clip_key_inj [OF assms(1), of s t]
  have "sort_key clip_key (clipped others s t) = sort_key clip_key (clipped recordings s t)"
    by (rule map_sorted_distinct_set_unique [of clip_key])
      (use same inj distinct_clipped [OF assms(2), of s t] distinct_clipped [OF d, of s t] in \<open>simp_all add: distinct_map\<close>)
  then show ?thesis by (simp add: source_cover_def)
qed

lemma resolution_order_free_parts:
  assumes "distinct (map sr_asset_id recordings)" "distinct others" "set others = set recordings"
  shows "rs_status (resolve_source e others) = rs_status (resolve_source e recordings)"
    and "rs_segments (resolve_source e others) = rs_segments (resolve_source e recordings)"
    and "authorized e recordings \<Longrightarrow> resolve_source e others = resolve_source e recordings"
proof -
  have auth: "authorized e others = authorized e recordings"
    using assms(3) by (simp add: authorized_def list_all_iff)
  show same: "resolve_source e others = resolve_source e recordings" if "authorized e recordings"
  proof -
    from that obtain tenant venue where scope: "ev_tenant_id e = Some tenant" "ev_venue_id e = Some venue"
      by (auto simp: authorized_def)
    from scope that have "scope_violation tenant venue recordings = None" "scope_violation tenant venue others = None"
      using assms(3) by (auto simp: scope_violation_None authorized_def in_scope_def list_all_iff)
    moreover have "source_cover (usable e others) s t = source_cover (usable e recordings) s t" for s t
      by (rule source_cover_set) (use assms in \<open>auto simp: usable_def distinct_map filter_filter inj_on_def\<close>)
    moreover have "usable e others = [] \<longleftrightarrow> usable e recordings = []"
      "filter (identity_matches e) others = [] \<longleftrightarrow> filter (identity_matches e) recordings = []"
      using assms(3) by (auto simp: usable_def filter_empty_conv)
    ultimately show ?thesis using scope unfolding resolve_source_def usable_def Let_def by simp
  qed
  show "rs_status (resolve_source e others) = rs_status (resolve_source e recordings)"
    "rs_segments (resolve_source e others) = rs_segments (resolve_source e recordings)"
    using same auth by (cases "authorized e recordings"; simp add: resolve_unauthorized_result)+
qed

text \<open>The resolution does not depend on the order in which the candidates are listed: two listings of the same
  candidates with different asset identifiers give the same result, except that the reason of a refusal names the first
  foreign candidate.\<close>

theorem resolution_order_free:
  assumes "distinct (map sr_asset_id recordings)" "distinct others" "set others = set recordings"
  shows "(rs_status (resolve_source e others) = rs_status (resolve_source e recordings)) \<and>
    (rs_segments (resolve_source e others) = rs_segments (resolve_source e recordings)) \<and>
    (authorized e recordings \<longrightarrow> resolve_source e others = resolve_source e recordings)"
  using resolution_order_free_parts [OF assms] by blast

subsection \<open>A recording that only touches the request\<close>

text \<open>A recording that ends at the instant at which the request begins contributes nothing to it, yet the request
  is reported as partially covered, with one segment of no duration, and not as without a source: the walk drops a
  redundant clip only after it has emitted a segment.\<close>

theorem touching_recording_partial:
  assumes "authorized e [r]" "has_source_identity e" "identity_matches e r" "sr_available r"
    and "\<not> dt_less (sr_end_time r) (sr_start_time r)" "dt_instant (sr_end_time r) = dt_instant (requested_start e)"
    and "dt_less (requested_start e) (requested_end e)"
  shows "rs_status (resolve_source e [r]) = PARTIAL_COVERAGE"
    and "map segment_span (rs_segments (resolve_source e [r])) =
      [(dt_instant (requested_start e), dt_instant (requested_start e))]"
proof -
  let ?segs = "source_cover [r] (requested_start e) (requested_end e)"
  from assms have usable: "usable e [r] = [r]" by (simp add: usable_def)
  have span: "map segment_span ?segs = [(dt_instant (requested_start e), dt_instant (requested_start e))]"
    unfolding source_cover_spans using assms(5-7) by (simp add: clipped_def clip_span_def dt_less_def)
  then obtain seg where seg: "?segs = [seg]" "dt_instant (ss_start_time seg) = dt_instant (requested_start e)"
      "dt_instant (ss_end_time seg) = dt_instant (requested_start e)"
    by (auto simp: segment_span_def)
  with resolve_authorized [OF assms(1)] assms(2,7) usable obtain why
    where "resolve_source e [r] = source_outcome e PARTIAL_COVERAGE ?segs why"
    by (auto simp: dt_less_def dt_eq_def)
  with span show "rs_status (resolve_source e [r]) = PARTIAL_COVERAGE"
    "map segment_span (rs_segments (resolve_source e [r])) =
      [(dt_instant (requested_start e), dt_instant (requested_start e))]" by simp_all
qed

subsection \<open>Witnesses\<close>

definition sample_evidence :: evidence_ref where
  "sample_evidence = \<lparr>ev_ref_id = 1, ev_schema_version = ''v1'', ev_ref_type = VIDEO_CLIP, ev_ref_uri = ''s3://evidence/1'',
     ev_event_id = 2, ev_event_time = utc_at 10, ev_tenant_id = Some 3, ev_venue_id = Some 4, ev_video_asset_id = None,
     ev_video_session_id = None, ev_camera_id = Some 5, ev_start_time = Some (utc_at 5), ev_end_time = Some (utc_at 15),
     ev_start_frame = None, ev_end_frame = None, ev_configuration_version_id = None, ev_detector_version = None,
     ev_tracker_version = None, ev_rule_id = None, ev_rule_version = None, ev_checksum = None, ev_created_at = None,
     ev_metadata = []\<rparr>"

definition sample_recording :: "uuid \<Rightarrow> int \<Rightarrow> int \<Rightarrow> source_recording" where
  "sample_recording asset s t = \<lparr>sr_asset_id = asset, sr_tenant_id = 3, sr_venue_id = 4, sr_camera_id = Some 5,
     sr_session_id = None, sr_start_time = utc_at s, sr_end_time = utc_at t, sr_available = True\<rparr>"

lemmas sample_resolution_defs = sample_evidence_def sample_recording_def authorized_def in_scope_def
  has_source_identity_def identity_matches_def requested_start_def requested_end_def


lemma resolution_exact_witness:
  "rs_status (resolve_source sample_evidence [sample_recording 7 8 20, sample_recording 6 0 10]) = RESOLVED \<and>
   rs_status (resolve_source sample_evidence [sample_recording 7 8 20]) \<noteq> RESOLVED"
proof -
  have "\<not> dt_less (requested_end sample_evidence) (requested_start sample_evidence)"
    by (simp add: sample_resolution_defs dt_less_def)
  note exact = conjunct2 [OF resolution_exact [OF this]]
  have "rs_status (resolve_source sample_evidence [sample_recording 7 8 20, sample_recording 6 0 10]) = RESOLVED"
    unfolding exact by (simp add: sample_resolution_defs recorded_def) linarith
  moreover have "rs_status (resolve_source sample_evidence [sample_recording 7 8 20]) \<noteq> RESOLVED"
    unfolding exact by (simp add: sample_resolution_defs recorded_def) (rule exI [of _ "6"], simp)
  ultimately show ?thesis by blast
qed

lemma sample_one_segment:
  "rs_segments (resolve_source sample_evidence [sample_recording 6 8 20]) =
     [\<lparr>ss_asset_id = 6, ss_camera_id = Some 5, ss_session_id = None, ss_start_time = utc_at 8, ss_end_time = utc_at 15\<rparr>]"
  by (simp add: resolve_source_def sample_resolution_defs source_cover_def clipped_def dt_less_def dt_max_def dt_min_def
      source_outcome_def Let_def dt_eq_def)

lemma resolution_sound_witness:
  "ordered_spans (map segment_span (rs_segments (resolve_source sample_evidence [sample_recording 6 8 20]))) \<and>
   covers (map segment_span (rs_segments (resolve_source sample_evidence [sample_recording 6 8 20]))) 9"
proof -
  have ne: "rs_segments (resolve_source sample_evidence [sample_recording 6 8 20]) \<noteq> []" by (simp add: sample_one_segment)
  note sound = conjunct2 [OF resolution_sound [OF ne]]
  show ?thesis unfolding conjunct2 [OF sound]
    using conjunct1 [OF sound] by (simp add: sample_resolution_defs recorded_def)
qed

lemma resolution_order_free_witness:
  "rs_status (resolve_source sample_evidence [sample_recording 6 0 10, sample_recording 7 8 20]) =
   rs_status (resolve_source sample_evidence [sample_recording 7 8 20, sample_recording 6 0 10])"
  by (rule conjunct1 [OF resolution_order_free]) (auto simp: sample_recording_def)

lemma touching_recording_partial_witness:
  "rs_status (resolve_source sample_evidence [sample_recording 6 0 5]) = PARTIAL_COVERAGE"
  by (rule touching_recording_partial(1)) (simp_all add: sample_resolution_defs dt_less_def)

end
