(* ===== verification/Identity.thy ===== *)
theory Identity
  imports Rules_Contracts
begin

text \<open>
  Identity and authorization: the permission catalogue and the roles (\<open>contracts/identity/models.py\<close>), the tokens
  (\<open>infrastructure/auth/service.py\<close>), the construction of the actor of a request (\<open>auth/context.py\<close>,
  \<open>auth/deps.py\<close>), the tenant and venue scope (\<open>auth/scope.py\<close>), the evidence policy
  (\<open>auth/evidence.py\<close>) and the channel subscriptions (\<open>auth/websocket.py\<close>). The lookups of users,
  memberships and tenants, the JWT library and the parser of identifiers are arguments.
\<close>

subsection \<open>Permissions and roles\<close>

datatype permission =
    VENUE_READ | VENUE_MANAGE | VIDEO_READ | VIDEO_ANALYZE | ANALYTICS_READ | EVIDENCE_READ | EVIDENCE_MANAGE
  | RECOMMENDATION_READ | RECOMMENDATION_MANAGE | ALERT_READ | ALERT_MANAGE | USER_READ | USER_MANAGE
  | MEMBERSHIP_READ | MEMBERSHIP_MANAGE

datatype role_name = ADMIN | MANAGER | OPERATOR

fun role_value :: "role_name \<Rightarrow> string" where
  "role_value ADMIN = ''admin''"
| "role_value MANAGER = ''manager''"
| "role_value OPERATOR = ''operator''"

definition role_of :: "string \<Rightarrow> role_name option" where
  "role_of text = find (\<lambda>r. role_value r = text) [ADMIN, MANAGER, OPERATOR]"

fun permissions_for_role :: "role_name \<Rightarrow> permission set" where
  "permissions_for_role ADMIN = {VENUE_READ, VENUE_MANAGE, VIDEO_READ, VIDEO_ANALYZE, ANALYTICS_READ, EVIDENCE_READ,
     EVIDENCE_MANAGE, RECOMMENDATION_READ, RECOMMENDATION_MANAGE, ALERT_READ, ALERT_MANAGE, USER_READ, USER_MANAGE,
     MEMBERSHIP_READ, MEMBERSHIP_MANAGE}"
| "permissions_for_role MANAGER = {VENUE_READ, VIDEO_READ, VIDEO_ANALYZE, ANALYTICS_READ, EVIDENCE_READ,
     EVIDENCE_MANAGE, RECOMMENDATION_READ, RECOMMENDATION_MANAGE, ALERT_READ, ALERT_MANAGE}"
| "permissions_for_role OPERATOR = {VENUE_READ, VIDEO_READ, ANALYTICS_READ, EVIDENCE_READ, RECOMMENDATION_READ,
     ALERT_READ}"

subsection \<open>Memberships\<close>

datatype membership_scope = ALL_VENUES | SPECIFIC_VENUES

text \<open>The validator of \<open>venue_ids\<close>; pydantic runs it on a value that is given, not on the default.\<close>

definition membership_accepted :: "membership_scope \<Rightarrow> uuid set option \<Rightarrow> bool" where
  "membership_accepted scope given = (case given of None \<Rightarrow> True | Some ids \<Rightarrow> \<not> (scope = SPECIFIC_VENUES \<and> ids = {}))"

subsection \<open>The actor\<close>

record actor_context =
  ac_actor_id :: uuid
  ac_tenant_id :: uuid
  ac_role_name :: role_name
  ac_permissions :: "permission set"
  ac_venue_scope :: "uuid set"
  ac_authenticated_at :: datetime
  ac_active :: bool

definition has_permission :: "actor_context \<Rightarrow> permission \<Rightarrow> bool" where
  "has_permission actor p = (p \<in> ac_permissions actor)"

definition has_venue_access :: "actor_context \<Rightarrow> uuid \<Rightarrow> bool" where
  "has_venue_access actor venue = (if ac_venue_scope actor = {} then False else venue \<in> ac_venue_scope actor)"

definition is_admin :: "actor_context \<Rightarrow> bool" where
  "is_admin actor = (ac_role_name actor = ADMIN)"

datatype auth_error = AuthenticationError | AuthorizationError | MalformedIdentifier | NoPermissionsGiven

subsection \<open>Scope\<close>

definition require_same_tenant :: "actor_context \<Rightarrow> uuid \<Rightarrow> auth_error + unit" where
  "require_same_tenant actor tenant = (if ac_tenant_id actor \<noteq> tenant then Inl AuthorizationError else Inr ())"

definition require_venue_access :: "actor_context \<Rightarrow> uuid \<Rightarrow> auth_error + unit" where
  "require_venue_access actor venue =
     (if ac_venue_scope actor = {} then Inr ()
      else if venue \<notin> ac_venue_scope actor then Inl AuthorizationError else Inr ())"

definition require_tenant_venue_access :: "actor_context \<Rightarrow> uuid \<Rightarrow> uuid \<Rightarrow> auth_error + unit" where
  "require_tenant_venue_access actor tenant venue =
     rbind (require_same_tenant actor tenant) (\<lambda>_. require_venue_access actor venue)"

subsection \<open>Evidence\<close>

datatype evidence_operation = OP_CREATE | OP_RETRIEVE | OP_METADATA | OP_SIGNED_URL | OP_DELETE | OP_RETENTION

fun operation_permission :: "evidence_operation \<Rightarrow> permission" where
  "operation_permission OP_CREATE = EVIDENCE_READ"
| "operation_permission OP_RETRIEVE = EVIDENCE_READ"
| "operation_permission OP_METADATA = EVIDENCE_READ"
| "operation_permission OP_SIGNED_URL = EVIDENCE_READ"
| "operation_permission OP_DELETE = EVIDENCE_MANAGE"
| "operation_permission OP_RETENTION = EVIDENCE_MANAGE"

definition require_valid_actor :: "actor_context \<Rightarrow> datetime \<Rightarrow> auth_error + unit" where
  "require_valid_actor actor now =
     (if \<not> ac_active actor then Inl AuthorizationError
      else if dt_less now (ac_authenticated_at actor) then Inl AuthorizationError else Inr ())"

definition require_evidence_scope :: "actor_context \<Rightarrow> uuid \<Rightarrow> uuid \<Rightarrow> auth_error + unit" where
  "require_evidence_scope actor tenant venue =
     rbind (require_same_tenant actor tenant) (\<lambda>_. require_venue_access actor venue)"

definition require_evidence_permission :: "actor_context \<Rightarrow> evidence_operation \<Rightarrow> auth_error + unit" where
  "require_evidence_permission actor operation =
     (if \<not> has_permission actor (operation_permission operation) then Inl AuthorizationError else Inr ())"

definition authorize_evidence :: "actor_context \<Rightarrow> evidence_operation \<Rightarrow> uuid \<Rightarrow> uuid \<Rightarrow> datetime \<Rightarrow> auth_error + unit" where
  "authorize_evidence actor operation tenant venue now =
     rbind (require_valid_actor actor now) (\<lambda>_.
     rbind (require_evidence_scope actor tenant venue) (\<lambda>_.
     require_evidence_permission actor operation))"

definition authorize_object_key_scope :: "actor_context \<Rightarrow> uuid \<Rightarrow> uuid \<Rightarrow> auth_error + unit" where
  "authorize_object_key_scope actor tenant venue =
     rbind (require_same_tenant actor tenant) (\<lambda>_. require_venue_access actor venue)"

subsection \<open>Permission dependencies\<close>

definition require_permission :: "permission \<Rightarrow> actor_context \<Rightarrow> auth_error + unit" where
  "require_permission p actor = (if \<not> has_permission actor p then Inl AuthorizationError else Inr ())"

definition require_any_permission :: "permission list \<Rightarrow> actor_context \<Rightarrow> auth_error + unit" where
  "require_any_permission ps actor =
     (if ps = [] then Inl NoPermissionsGiven
      else if list_ex (has_permission actor) ps then Inr () else Inl AuthorizationError)"

subsection \<open>Tokens\<close>

datatype claim = ClaimText string | ClaimTime datetime | ClaimNumber int

text \<open>The errors of \<open>jwt.decode\<close> all become one \<open>AuthenticationError\<close>; \<open>decode\<close> gives the
  subject, the issue time and the expiry in seconds, each when present.\<close>

record token_claims =
  tc_sub :: "string option"
  tc_iat :: "int option"
  tc_exp :: "int option"

record token_data =
  td_user_id :: string
  td_issued_at :: datetime
  td_expires_at :: datetime

definition blocked_claims :: "string list" where
  "blocked_claims = [''tenant_id'', ''role'', ''permissions'', ''venue_scope'', ''is_admin'']"

definition token_payload :: "string \<Rightarrow> datetime \<Rightarrow> int \<Rightarrow> (string \<times> claim) list \<Rightarrow> auth_error + (string \<rightharpoonup> claim)" where
  "token_payload user now minutes extra =
     (let payload = [''iss'' \<mapsto> ClaimText ''hotelops-ai'', ''sub'' \<mapsto> ClaimText user, ''iat'' \<mapsto> ClaimTime now,
        ''exp'' \<mapsto> ClaimTime (now\<lparr>dt_instant := dt_instant now + minutes * 60 * 1000000\<rparr>)]
      in if list_ex (\<lambda>(k, v). k \<in> set blocked_claims) extra then Inl AuthenticationError
         else Inr (fold (\<lambda>(k, v) m. m(k \<mapsto> v)) extra payload))"

definition create_access_token :: "((string \<rightharpoonup> claim) \<Rightarrow> string) \<Rightarrow> string \<Rightarrow> datetime \<Rightarrow> int \<Rightarrow> (string \<times> claim) list \<Rightarrow>
    auth_error + string" where
  "create_access_token encode user now minutes extra =
     rbind (token_payload user now minutes extra) (\<lambda>payload. Inr (encode payload))"

definition from_timestamp :: "datetime \<Rightarrow> int option \<Rightarrow> datetime" where
  "from_timestamp now t = (case t of None \<Rightarrow> now | Some s \<Rightarrow> if s = 0 then now else utc_at (s * 1000000))"

definition verify_token :: "(string \<Rightarrow> token_claims option) \<Rightarrow> datetime \<Rightarrow> string \<Rightarrow> auth_error + token_data" where
  "verify_token decode now token =
     (if token = [] then Inl AuthenticationError
      else case decode token of None \<Rightarrow> Inl AuthenticationError
        | Some claims \<Rightarrow> (case tc_sub claims of
              None \<Rightarrow> Inl AuthenticationError
            | Some user \<Rightarrow> if user = [] then Inl AuthenticationError
                else Inr \<lparr>td_user_id = user, td_issued_at = from_timestamp now (tc_iat claims),
                     td_expires_at = from_timestamp now (tc_exp claims)\<rparr>))"

text \<open>The bearer token of a request: the scheme and the credentials of the header.\<close>

definition get_token_data :: "(string \<Rightarrow> token_claims option) \<Rightarrow> datetime \<Rightarrow> (string \<times> string) option \<Rightarrow>
    auth_error + token_data" where
  "get_token_data decode now credentials =
     (case credentials of None \<Rightarrow> Inl AuthenticationError
      | Some (scheme, token) \<Rightarrow>
          if map to_lower scheme \<noteq> ''bearer'' then Inl AuthenticationError
          else if token = [] then Inl AuthenticationError else verify_token decode now token)"

subsection \<open>The actor of a request\<close>

text \<open>Rows are dictionaries: an absent key and a null are \<open>None\<close>, and an empty text counts as absent.\<close>

type_synonym status_row = "string option"

record membership_row =
  mr_tenant_id :: "string option"
  mr_role_name :: "string option"
  mr_scope :: "string option"
  mr_venue_ids :: "string list option"
  mr_status :: "string option"

definition inactive :: "string option \<Rightarrow> bool" where
  "inactive st = (case st of None \<Rightarrow> False | Some t \<Rightarrow> t \<noteq> [] \<and> t \<noteq> ''active'')"

definition get_current_user :: "(string \<Rightarrow> status_row option) option \<Rightarrow> token_data \<Rightarrow> auth_error + token_data" where
  "get_current_user lookup token =
     (case lookup of None \<Rightarrow> Inr token
      | Some find_user \<Rightarrow> (case find_user (td_user_id token) of
            None \<Rightarrow> Inl AuthenticationError
          | Some st \<Rightarrow> if inactive st then Inl AuthenticationError else Inr token))"

definition ensure_uuid :: "(string \<Rightarrow> uuid option) \<Rightarrow> string \<Rightarrow> auth_error + uuid" where
  "ensure_uuid parse text = (case parse text of None \<Rightarrow> Inl MalformedIdentifier | Some u \<Rightarrow> Inr u)"

definition resolve_venue_scope :: "(string \<Rightarrow> uuid option) \<Rightarrow> string option \<Rightarrow> string list option \<Rightarrow>
    auth_error + uuid set" where
  "resolve_venue_scope parse scope venue_ids =
     (if scope = None \<or> scope = Some [] \<or> scope = Some ''all_venues'' then Inr {}
      else if scope = Some ''specific_venues'' \<and> venue_ids \<noteq> None \<and> venue_ids \<noteq> Some [] then
        rbind (mapM (ensure_uuid parse) (the venue_ids)) (\<lambda>ids. Inr (set ids))
      else Inr {})"

text \<open>The membership used when no lookup is configured.\<close>

definition default_membership :: membership_row where
  "default_membership = \<lparr>mr_tenant_id = Some ''00000000-0000-0000-0000-000000000000'', mr_role_name = Some ''operator'',
     mr_scope = None, mr_venue_ids = None, mr_status = None\<rparr>"

record actor_lookups =
  al_user :: "(string \<Rightarrow> status_row option) option"
  al_membership :: "(string \<Rightarrow> membership_row option) option"
  al_tenant :: "(string \<Rightarrow> status_row option) option"

text \<open>The steps of \<open>build\<close>: the user, the membership, the tenant, the role, the venue scope.\<close>

definition check_row :: "(string \<Rightarrow> status_row option) option \<Rightarrow> string \<Rightarrow> auth_error + unit" where
  "check_row lookup key =
     (case lookup of None \<Rightarrow> Inr ()
      | Some get \<Rightarrow> (case get key of None \<Rightarrow> Inl AuthenticationError
          | Some st \<Rightarrow> if inactive st then Inl AuthenticationError else Inr ()))"

definition active_membership :: "(string \<Rightarrow> membership_row option) option \<Rightarrow> string \<Rightarrow> auth_error + membership_row" where
  "active_membership lookup user =
     (case lookup of None \<Rightarrow> Inr default_membership
      | Some get \<Rightarrow> (case get user of None \<Rightarrow> Inl AuthenticationError
          | Some m \<Rightarrow> if inactive (mr_status m) then Inl AuthenticationError else Inr m))"

definition present_text :: "string option \<Rightarrow> auth_error + string" where
  "present_text t = (case t of None \<Rightarrow> Inl AuthenticationError | Some s \<Rightarrow> if s = [] then Inl AuthenticationError else Inr s)"

definition build_actor :: "(string \<Rightarrow> uuid option) \<Rightarrow> actor_lookups \<Rightarrow> token_data \<Rightarrow> auth_error + actor_context" where
  "build_actor parse lookups token =
     rbind (check_row (al_user lookups) (td_user_id token)) (\<lambda>_.
     rbind (active_membership (al_membership lookups) (td_user_id token)) (\<lambda>m.
     rbind (present_text (mr_tenant_id m)) (\<lambda>tenant.
     rbind (check_row (al_tenant lookups) tenant) (\<lambda>_.
     rbind (present_text (mr_role_name m)) (\<lambda>role_text.
     (case role_of role_text of None \<Rightarrow> Inl AuthenticationError
      | Some role \<Rightarrow>
          rbind (resolve_venue_scope parse (mr_scope m) (mr_venue_ids m)) (\<lambda>venues.
          rbind (ensure_uuid parse (td_user_id token)) (\<lambda>actor_id.
          rbind (ensure_uuid parse tenant) (\<lambda>tenant_id.
            Inr \<lparr>ac_actor_id = actor_id, ac_tenant_id = tenant_id, ac_role_name = role,
                 ac_permissions = permissions_for_role role, ac_venue_scope = venues,
                 ac_authenticated_at = td_issued_at token, ac_active = True\<rparr>)))))))))"

text \<open>The wiring of the routes and of the sockets configures no lookup.\<close>

definition get_actor_context :: "(string \<Rightarrow> uuid option) \<Rightarrow> token_data \<Rightarrow> auth_error + actor_context" where
  "get_actor_context parse token = build_actor parse \<lparr>al_user = None, al_membership = None, al_tenant = None\<rparr> token"

definition authenticate_websocket_connection :: "(string \<Rightarrow> uuid option) \<Rightarrow> (string \<Rightarrow> token_claims option) \<Rightarrow> datetime \<Rightarrow>
    string \<Rightarrow> auth_error + actor_context" where
  "authenticate_websocket_connection parse decode now token =
     rbind (verify_token decode now token)
       (build_actor parse \<lparr>al_user = None, al_membership = None, al_tenant = None\<rparr>)"

subsection \<open>Channels\<close>

datatype channel = VIDEO_FEED | ANALYTICS | ALERTS | EVIDENCE_CHANNEL | RECOMMENDATIONS | SYSTEM

fun channel_permission :: "channel \<Rightarrow> permission" where
  "channel_permission VIDEO_FEED = VIDEO_READ"
| "channel_permission ANALYTICS = ANALYTICS_READ"
| "channel_permission ALERTS = ALERT_READ"
| "channel_permission EVIDENCE_CHANNEL = EVIDENCE_READ"
| "channel_permission RECOMMENDATIONS = RECOMMENDATION_READ"
| "channel_permission SYSTEM = ANALYTICS_READ"

record subscription_request =
  sq_channel :: channel
  sq_tenant_id :: uuid
  sq_venue_id :: "uuid option"

definition authorize_channel_subscription :: "actor_context \<Rightarrow> subscription_request \<Rightarrow> bool" where
  "authorize_channel_subscription actor request =
     (if sq_tenant_id request \<noteq> ac_tenant_id actor then False
      else if (case sq_venue_id request of None \<Rightarrow> False
          | Some venue \<Rightarrow> ac_venue_scope actor \<noteq> {} \<and> venue \<notin> ac_venue_scope actor) then False
      else has_permission actor (channel_permission (sq_channel request)))"

definition is_channel_accessible :: "actor_context \<Rightarrow> channel \<Rightarrow> bool" where
  "is_channel_accessible actor ch = has_permission actor (channel_permission ch)"

end
