(* ===== verification/Identity_Facts.thy ===== *)
theory Identity_Facts
  imports Identity
begin

text \<open>
  What an authorization says about the membership it rests on, where the venue scope fails open, and how the two
  places that authorize access to evidence compare.
\<close>

subsection \<open>Checks that succeed\<close>

lemma require_same_tenant_ok [simp]: "require_same_tenant actor t = Inr u \<longleftrightarrow> ac_tenant_id actor = t"
  by (simp add: require_same_tenant_def)

lemma require_venue_access_ok [simp]:
  "require_venue_access actor v = Inr u \<longleftrightarrow> ac_venue_scope actor = {} \<or> v \<in> ac_venue_scope actor"
  by (simp add: require_venue_access_def)

lemma require_valid_actor_ok [simp]:
  "require_valid_actor actor now = Inr u \<longleftrightarrow> ac_active actor \<and> \<not> dt_less now (ac_authenticated_at actor)"
  by (simp add: require_valid_actor_def)

lemma authorize_evidence_ok:
  "authorize_evidence actor op t v now = Inr u \<longleftrightarrow>
     ac_active actor \<and> \<not> dt_less now (ac_authenticated_at actor) \<and> ac_tenant_id actor = t \<and>
     (ac_venue_scope actor = {} \<or> v \<in> ac_venue_scope actor) \<and> operation_permission op \<in> ac_permissions actor"
  by (auto simp: authorize_evidence_def require_evidence_scope_def require_evidence_permission_def has_permission_def)

lemma check_row_ok: "check_row lookup key = Inr u \<longleftrightarrow>
    (case lookup of None \<Rightarrow> True | Some get \<Rightarrow> \<exists>st. get key = Some st \<and> \<not> inactive st)"
  by (simp add: check_row_def split: option.split)

lemma active_membership_ok: "active_membership (Some get) user = Inr m \<longleftrightarrow> get user = Some m \<and> \<not> inactive (mr_status m)"
  by (auto simp: active_membership_def split: option.splits)

lemma present_text_ok [simp]: "present_text t = Inr s \<longleftrightarrow> t = Some s \<and> s \<noteq> []"
  by (auto simp: present_text_def split: option.splits)

lemma ensure_uuid_ok [simp]: "ensure_uuid parse s = Inr u \<longleftrightarrow> parse s = Some u"
  by (auto simp: ensure_uuid_def split: option.splits)

text \<open>Everything a built actor carries comes from the token and the membership.\<close>

lemma build_actor_ok:
  assumes "build_actor parse lookups token = Inr actor"
  obtains m tenant role_text role venues where
    "check_row (al_user lookups) (td_user_id token) = Inr ()"
    "active_membership (al_membership lookups) (td_user_id token) = Inr m"
    "mr_tenant_id m = Some tenant" "check_row (al_tenant lookups) tenant = Inr ()"
    "mr_role_name m = Some role_text" "role_of role_text = Some role"
    "resolve_venue_scope parse (mr_scope m) (mr_venue_ids m) = Inr venues"
    "parse (td_user_id token) = Some (ac_actor_id actor)" "parse tenant = Some (ac_tenant_id actor)"
    "ac_role_name actor = role" "ac_permissions actor = permissions_for_role role" "ac_venue_scope actor = venues"
    "ac_authenticated_at actor = td_issued_at token" "ac_active actor"
  using assms by (fastforce simp: build_actor_def split: option.splits)

lemma mapM_ensure_uuid: "mapM (ensure_uuid parse) xs = Inr us \<Longrightarrow> map parse xs = map Some us"
  by (induction xs arbitrary: us) (auto simp: ensure_uuid_def split: option.splits)

text \<open>When the venue scope of a membership is a restriction.\<close>

definition restricted :: "membership_row \<Rightarrow> bool" where
  "restricted m = (mr_scope m = Some ''specific_venues'' \<and> mr_venue_ids m \<noteq> None \<and> mr_venue_ids m \<noteq> Some [])"

lemma resolve_venue_scope_restricted:
  assumes "restricted m" "resolve_venue_scope parse (mr_scope m) (mr_venue_ids m) = Inr venues"
  obtains ids where "mr_venue_ids m = Some ids" "venues \<noteq> {}" "\<forall>v. v \<in> venues \<longleftrightarrow> Some v \<in> parse ` set ids"
proof -
  from assms(1) obtain ids where ids: "mr_scope m = Some ''specific_venues''" "mr_venue_ids m = Some ids" "ids \<noteq> []"
    by (auto simp: restricted_def)
  with assms(2) obtain us where us: "mapM (ensure_uuid parse) ids = Inr us" "venues = set us"
    by (auto simp: resolve_venue_scope_def)
  note parsed = mapM_ensure_uuid [OF us(1)]
  have "us \<noteq> []" using parsed ids(3) by auto
  moreover have "parse ` set ids = Some ` set us" using arg_cong [OF parsed, of set] by simp
  ultimately show thesis using ids(2) us(2) by (intro that [of ids]) auto
qed

lemma resolve_venue_scope_open:
  "\<not> restricted m \<Longrightarrow> resolve_venue_scope parse (mr_scope m) (mr_venue_ids m) = Inr {}"
  by (auto simp: resolve_venue_scope_def restricted_def)

subsection \<open>Properties\<close>

text \<open>C16: What an evidence operation rests on. The actor built from a token comes from one membership: the row that was looked
  up and is not inactive, or the default operator where no lookup of memberships is configured; the user and the tenant of the
  membership are not inactive where their lookups are configured. Any evidence operation is then authorized exactly when
  the evidence belongs to the tenant of this membership, the role of the membership carries the permission of the operation,
  the token was not issued after the check and, where the membership is restricted to a non-empty list of venues, the list has
  the venue of the evidence. A membership with another scope, or with an empty list, is not restricted at all.\<close>

theorem evidence_authority_sound:
  assumes "build_actor parse lookups token = Inr actor"
  shows "\<exists>m tenant role.
      (case al_membership lookups of None \<Rightarrow> m = default_membership
       | Some get \<Rightarrow> get (td_user_id token) = Some m \<and> \<not> inactive (mr_status m)) \<and>
      (case al_user lookups of None \<Rightarrow> True | Some get \<Rightarrow> \<exists>st. get (td_user_id token) = Some st \<and> \<not> inactive st) \<and>
      (case al_tenant lookups of None \<Rightarrow> True | Some get \<Rightarrow> \<exists>st. get tenant = Some st \<and> \<not> inactive st) \<and>
      mr_tenant_id m = Some tenant \<and> mr_role_name m = Some (role_value role) \<and>
      (\<forall>op t v now. authorize_evidence actor op t v now = Inr () \<longleftrightarrow>
         parse tenant = Some t \<and> operation_permission op \<in> permissions_for_role role \<and> \<not> dt_less now (td_issued_at token) \<and>
         (mr_scope m = Some ''specific_venues'' \<and> mr_venue_ids m \<notin> {None, Some []} \<longrightarrow>
            (\<exists>ids. mr_venue_ids m = Some ids \<and> Some v \<in> parse ` set ids)))"
proof -
  from assms obtain m tenant role_text role venues where b:
    "check_row (al_user lookups) (td_user_id token) = Inr ()" "active_membership (al_membership lookups) (td_user_id token) = Inr m"
    "mr_tenant_id m = Some tenant" "check_row (al_tenant lookups) tenant = Inr ()"
    "mr_role_name m = Some role_text" "role_of role_text = Some role"
    "resolve_venue_scope parse (mr_scope m) (mr_venue_ids m) = Inr venues" "parse tenant = Some (ac_tenant_id actor)"
    "ac_permissions actor = permissions_for_role role" "ac_venue_scope actor = venues"
    "ac_authenticated_at actor = td_issued_at token" "ac_active actor"
    by (rule build_actor_ok)
  have role_text: "role_text = role_value role" using b(6) by (auto simp: role_of_def split: if_splits)
  have m: "case al_membership lookups of None \<Rightarrow> m = default_membership
       | Some get \<Rightarrow> get (td_user_id token) = Some m \<and> \<not> inactive (mr_status m)"
    using b(2) by (cases "al_membership lookups") (simp_all add: active_membership_ok, simp add: active_membership_def)
  have venue: "(venues = {} \<or> v \<in> venues) \<longleftrightarrow> (restricted m \<longrightarrow> (\<exists>ids. mr_venue_ids m = Some ids \<and> Some v \<in> parse ` set ids))" for v
  proof (cases "restricted m")
    case True
    from resolve_venue_scope_restricted [OF True b(7)] obtain ids where "mr_venue_ids m = Some ids" "venues \<noteq> {}"
      "\<forall>v. v \<in> venues \<longleftrightarrow> Some v \<in> parse ` set ids" by blast
    with True show ?thesis by simp
  next
    case False
    with resolve_venue_scope_open [OF False, of parse] b(7) show ?thesis by simp
  qed
  have "authorize_evidence actor op t v now = Inr () \<longleftrightarrow>
         parse tenant = Some t \<and> operation_permission op \<in> permissions_for_role role \<and> \<not> dt_less now (td_issued_at token) \<and>
         (restricted m \<longrightarrow> (\<exists>ids. mr_venue_ids m = Some ids \<and> Some v \<in> parse ` set ids))" for op t v now
    unfolding authorize_evidence_ok b(9-11) venue using b(8,12) by auto
  then show ?thesis using b(1,3,4,5) m unfolding role_text check_row_ok restricted_def by (intro exI [of _ m] exI [of _ tenant] exI [of _ role]) simp
qed

lemma venue_scope_fails_open_parts:
  assumes "build_actor parse lookups token = Inr actor"
    and "active_membership (al_membership lookups) (td_user_id token) = Inr m"
    and "mr_scope m = Some ''specific_venues'' \<and> (mr_venue_ids m = None \<or> mr_venue_ids m = Some []) \<or>
      mr_scope m \<noteq> Some ''specific_venues'' \<and> mr_scope m \<noteq> Some ''all_venues''"
  shows "require_venue_access actor v = Inr ()" and "\<not> has_venue_access actor v"
    and "has_permission actor EVIDENCE_READ \<Longrightarrow> \<not> dt_less now (td_issued_at token) \<Longrightarrow>
      authorize_evidence actor OP_RETRIEVE (ac_tenant_id actor) v now = Inr ()"
proof -
  from assms(3) have "\<not> restricted m" by (auto simp: restricted_def)
  from resolve_venue_scope_open [OF this, of parse] assms(1,2) have unrestricted: "ac_venue_scope actor = {}"
      "ac_active actor" "ac_authenticated_at actor = td_issued_at token"
    by (auto elim!: build_actor_ok)
  from unrestricted(1) show "require_venue_access actor v = Inr ()" "\<not> has_venue_access actor v"
    by (simp_all add: has_venue_access_def)
  show "authorize_evidence actor OP_RETRIEVE (ac_tenant_id actor) v now = Inr ()"
    if "has_permission actor EVIDENCE_READ" "\<not> dt_less now (td_issued_at token)"
    using that unrestricted by (simp add: authorize_evidence_ok has_permission_def)
qed

text \<open>The venue scope fails open: a membership that is restricted to specific venues but lists none, and one whose
  scope is missing or an unknown text, gives an actor that every check of a venue accepts for every venue of the tenant, although
  the scope is documented to mean no access and \<open>has_venue_access\<close> of the contract denies every venue.\<close>

theorem venue_scope_fails_open:
  assumes "build_actor parse lookups token = Inr actor"
    and "active_membership (al_membership lookups) (td_user_id token) = Inr m"
    and "mr_scope m = Some ''specific_venues'' \<and> (mr_venue_ids m = None \<or> mr_venue_ids m = Some []) \<or>
      mr_scope m \<noteq> Some ''specific_venues'' \<and> mr_scope m \<noteq> Some ''all_venues''"
  shows "(require_venue_access actor v = Inr ()) \<and>
    \<not> has_venue_access actor v \<and>
    (has_permission actor EVIDENCE_READ \<longrightarrow> \<not> dt_less now (td_issued_at token) \<longrightarrow> authorize_evidence actor OP_RETRIEVE (ac_tenant_id actor) v now = Inr ())"
  using venue_scope_fails_open_parts [OF assms] by blast

text \<open>The socket layer and the evidence layer agree on the evidence of a venue: for a valid actor a subscription to
  the evidence channel of a venue is authorized exactly when retrieving evidence of that venue is. A subscription that
  names no venue is authorized whatever the venue scope of the actor.\<close>

theorem channel_agrees_with_evidence_policy:
  assumes "require_valid_actor actor now = Inr ()"
  shows "authorize_channel_subscription actor \<lparr>sq_channel = EVIDENCE_CHANNEL, sq_tenant_id = t, sq_venue_id = Some v\<rparr>
      \<longleftrightarrow> authorize_evidence actor OP_RETRIEVE t v now = Inr ()"
    and "authorize_channel_subscription actor \<lparr>sq_channel = EVIDENCE_CHANNEL, sq_tenant_id = t, sq_venue_id = None\<rparr>
      \<longleftrightarrow> ac_tenant_id actor = t \<and> has_permission actor EVIDENCE_READ"
  using assms by (auto simp: authorize_channel_subscription_def authorize_evidence_ok has_permission_def)

text \<open>An extra claim may be the subject: a token created for one user with an extra \<open>sub\<close> claim is verified
  as a token of the other user, since only the five authorization claims are refused.\<close>

theorem token_subject_overridden:
  assumes "decode (encode ([''iss'' \<mapsto> ClaimText ''hotelops-ai'', ''sub'' \<mapsto> ClaimText other, ''iat'' \<mapsto> ClaimTime now,
      ''exp'' \<mapsto> ClaimTime (now\<lparr>dt_instant := dt_instant now + minutes * 60 * 1000000\<rparr>)])) =
      Some \<lparr>tc_sub = Some other, tc_iat = Some iat, tc_exp = Some expiry\<rparr>"
    and "encode ([''iss'' \<mapsto> ClaimText ''hotelops-ai'', ''sub'' \<mapsto> ClaimText other, ''iat'' \<mapsto> ClaimTime now,
      ''exp'' \<mapsto> ClaimTime (now\<lparr>dt_instant := dt_instant now + minutes * 60 * 1000000\<rparr>)]) \<noteq> []" and "other \<noteq> []"
  shows "\<exists>token data. create_access_token encode user now minutes [(''sub'', ClaimText other)] = Inr token \<and>
    verify_token decode later token = Inr data \<and> td_user_id data = other"
proof -
  have same: "[''iss'' \<mapsto> ClaimText ''hotelops-ai'', ''sub'' \<mapsto> ClaimText user, ''iat'' \<mapsto> ClaimTime now,
      ''exp'' \<mapsto> ClaimTime (now\<lparr>dt_instant := dt_instant now + minutes * 60 * 1000000\<rparr>), ''sub'' \<mapsto> ClaimText other] =
    [''iss'' \<mapsto> ClaimText ''hotelops-ai'', ''sub'' \<mapsto> ClaimText other, ''iat'' \<mapsto> ClaimTime now,
      ''exp'' \<mapsto> ClaimTime (now\<lparr>dt_instant := dt_instant now + minutes * 60 * 1000000\<rparr>)]"
    by (simp add: fun_eq_iff)
  show ?thesis using assms same
    by (simp add: create_access_token_def token_payload_def blocked_claims_def verify_token_def)
qed

subsection \<open>Witnesses\<close>

definition sample_parse :: "string \<Rightarrow> uuid option" where
  "sample_parse text = (if text = ''u'' then Some 1 else if text = ''t'' then Some 2 else if text = ''v'' then Some 3 else None)"

definition sample_member :: "string option \<Rightarrow> string list option \<Rightarrow> membership_row" where
  "sample_member scope ids = \<lparr>mr_tenant_id = Some ''t'', mr_role_name = Some ''manager'', mr_scope = scope,
     mr_venue_ids = ids, mr_status = Some ''active''\<rparr>"

definition sample_lookups :: "membership_row \<Rightarrow> actor_lookups" where
  "sample_lookups m = \<lparr>al_user = Some (\<lambda>_. Some (Some ''active'')), al_membership = Some (\<lambda>_. Some m),
     al_tenant = Some (\<lambda>_. Some (Some ''active''))\<rparr>"

definition sample_token :: token_data where
  "sample_token = \<lparr>td_user_id = ''u'', td_issued_at = utc_at 0, td_expires_at = utc_at 10\<rparr>"

definition sample_actor :: "uuid set \<Rightarrow> actor_context" where
  "sample_actor venues = \<lparr>ac_actor_id = 1, ac_tenant_id = 2, ac_role_name = MANAGER,
     ac_permissions = permissions_for_role MANAGER, ac_venue_scope = venues, ac_authenticated_at = utc_at 0, ac_active = True\<rparr>"

lemmas sample_actor_defs = build_actor_def sample_parse_def sample_member_def sample_lookups_def sample_token_def
  sample_actor_def check_row_def active_membership_def inactive_def present_text_def ensure_uuid_def role_of_def
  resolve_venue_scope_def

lemma sample_restricted_built:
  "build_actor sample_parse (sample_lookups (sample_member (Some ''specific_venues'') (Some [''v'']))) sample_token =
     Inr (sample_actor {3})"
  by (simp add: sample_actor_defs)

lemma sample_open_built:
  "build_actor sample_parse (sample_lookups (sample_member (Some ''specific_venues'') (Some []))) sample_token =
     Inr (sample_actor {})"
  by (simp add: sample_actor_defs)

lemma evidence_authority_sound_witness:
  "authorize_evidence (sample_actor {3}) OP_DELETE 2 3 (utc_at 5) = Inr () \<and> authorize_evidence (sample_actor {3}) OP_DELETE 2 4 (utc_at 5) \<noteq> Inr ()"
proof -
  let ?m = "sample_member (Some ''specific_venues'') (Some [''v''])"
  obtain m tenant role where r: "m = ?m" "mr_tenant_id m = Some tenant" "mr_role_name m = Some (role_value role)"
    and ok: "\<And>op t v now. authorize_evidence (sample_actor {3}) op t v now = Inr () \<longleftrightarrow>
         sample_parse tenant = Some t \<and> operation_permission op \<in> permissions_for_role role \<and> \<not> dt_less now (td_issued_at sample_token) \<and>
         (mr_scope m = Some ''specific_venues'' \<and> mr_venue_ids m \<notin> {None, Some []} \<longrightarrow>
            (\<exists>ids. mr_venue_ids m = Some ids \<and> Some v \<in> sample_parse ` set ids))"
    using evidence_authority_sound [OF sample_restricted_built] by (auto simp: sample_lookups_def)
  have "tenant = ''t''" "role = MANAGER" using r by (cases role; simp add: sample_member_def)+
  then show ?thesis unfolding ok r(1) by (simp add: sample_member_def sample_parse_def sample_token_def dt_less_def)
qed

lemma venue_scope_fails_open_witness:
  "require_venue_access (sample_actor {}) 77 = Inr () \<and> \<not> has_venue_access (sample_actor {}) 77 \<and>
   authorize_evidence (sample_actor {}) OP_RETRIEVE 2 77 (utc_at 5) = Inr ()"
proof -
  have m: "active_membership (al_membership (sample_lookups (sample_member (Some ''specific_venues'') (Some []))))
      (td_user_id sample_token) = Inr (sample_member (Some ''specific_venues'') (Some []))"
    by (simp add: sample_actor_defs)
  have empty: "mr_scope (sample_member (Some ''specific_venues'') (Some [])) = Some ''specific_venues'' \<and>
      (mr_venue_ids (sample_member (Some ''specific_venues'') (Some [])) = None \<or>
       mr_venue_ids (sample_member (Some ''specific_venues'') (Some [])) = Some []) \<or>
      mr_scope (sample_member (Some ''specific_venues'') (Some [])) \<noteq> Some ''specific_venues'' \<and>
      mr_scope (sample_member (Some ''specific_venues'') (Some [])) \<noteq> Some ''all_venues''"
    by (simp add: sample_member_def)
  have "has_permission (sample_actor {}) EVIDENCE_READ" "\<not> dt_less (utc_at 5) (td_issued_at sample_token)"
    by (simp_all add: has_permission_def sample_actor_def sample_token_def dt_less_def)
  with venue_scope_fails_open [OF sample_open_built m empty, of 77 "utc_at 5"]
  show ?thesis by (simp add: sample_actor_def)
qed

lemma channel_agrees_with_evidence_policy_witness:
  "authorize_channel_subscription (sample_actor {3}) \<lparr>sq_channel = EVIDENCE_CHANNEL, sq_tenant_id = 2, sq_venue_id = None\<rparr> \<and>
   \<not> authorize_channel_subscription (sample_actor {3}) \<lparr>sq_channel = EVIDENCE_CHANNEL, sq_tenant_id = 2, sq_venue_id = Some 4\<rparr>"
proof -
  have valid: "require_valid_actor (sample_actor {3}) (utc_at 5) = Inr ()" by (simp add: sample_actor_def dt_less_def)
  show ?thesis unfolding channel_agrees_with_evidence_policy [OF valid]
    by (simp add: authorize_evidence_ok has_permission_def sample_actor_def)
qed

lemma token_subject_overridden_witness:
  "\<exists>token data. create_access_token (\<lambda>_. ''x'') ''alice'' (utc_at 0) 5 [(''sub'', ClaimText ''bob'')] = Inr token \<and>
    verify_token (\<lambda>_. Some \<lparr>tc_sub = Some ''bob'', tc_iat = Some 0, tc_exp = Some 300\<rparr>) (utc_at 1) token = Inr data \<and>
    td_user_id data = ''bob''"
  by (rule token_subject_overridden) simp_all

end
