(* ===== verification/Evidence_Retention.thy ===== *)
theory Evidence_Retention
  imports Identity Evidence_State
begin

text \<open>
  Retention: the approved policies (\<open>domain/media/retention.py\<close>), the evaluation of an evidence reference
  (\<open>domain/evidence/retention.py\<close>) and the two-phase deletion with its audit records
  (\<open>application/services/evidence_retention.py\<close>). The object store is the outcome of its \<open>delete\<close>
  call, \<open>fromisoformat\<close> is an argument, and audit records are values in the order they are written; the sink
  itself is taken not to fail.
\<close>

subsection \<open>Policies\<close>

datatype media_category = RECORDINGS_MEDIA | EVIDENCE_MEDIA | REPORTS_MEDIA | ANALYTICS_MEDIA | TEMPORARY_MEDIA

record retention_policy =
  rp_retention_class :: string
  rp_duration :: int
  rp_protected :: bool

definition days :: "int \<Rightarrow> int" where
  "days n = n * 86400000000"

definition timedelta_max :: int where
  "timedelta_max = days 1000000000 - 1"

definition retention_policies :: "(string \<times> retention_policy) list" where
  "retention_policies =
     [(''cctv_30_days'', \<lparr>rp_retention_class = ''cctv_30_days'', rp_duration = days 30, rp_protected = False\<rparr>),
      (''evidence_365_days'', \<lparr>rp_retention_class = ''evidence_365_days'', rp_duration = days 365, rp_protected = False\<rparr>),
      (''report_730_days'', \<lparr>rp_retention_class = ''report_730_days'', rp_duration = days 730, rp_protected = False\<rparr>),
      (''analytics_90_days'', \<lparr>rp_retention_class = ''analytics_90_days'', rp_duration = days 90, rp_protected = False\<rparr>),
      (''standard_90_days'', \<lparr>rp_retention_class = ''standard_90_days'', rp_duration = days 90, rp_protected = False\<rparr>),
      (''legal_hold'', \<lparr>rp_retention_class = ''legal_hold'', rp_duration = timedelta_max, rp_protected = True\<rparr>)]"

fun category_default :: "media_category \<Rightarrow> string" where
  "category_default RECORDINGS_MEDIA = ''cctv_30_days''"
| "category_default EVIDENCE_MEDIA = ''evidence_365_days''"
| "category_default REPORTS_MEDIA = ''report_730_days''"
| "category_default ANALYTICS_MEDIA = ''analytics_90_days''"
| "category_default TEMPORARY_MEDIA = ''standard_90_days''"

definition is_known_class :: "string \<Rightarrow> bool" where
  "is_known_class c = (map_of retention_policies c \<noteq> None)"

definition resolve_retention_class :: "media_category \<Rightarrow> string option \<Rightarrow> string" where
  "resolve_retention_class category c =
     (case c of None \<Rightarrow> category_default category
      | Some name \<Rightarrow> if is_known_class name then name else category_default category)"

definition duration_for :: "string \<Rightarrow> int option" where
  "duration_for c = (case map_of retention_policies c of None \<Rightarrow> None
     | Some p \<Rightarrow> if rp_duration p = timedelta_max then None else Some (rp_duration p))"

definition is_protected :: "string \<Rightarrow> metadata \<Rightarrow> bool" where
  "is_protected c m =
     (if c = ''legal_hold'' then True
      else case m ''preservation_hold'' of
          Some (MetaString s) \<Rightarrow> map to_lower s = ''true''
        | Some (MetaBool b) \<Rightarrow> b
        | _ \<Rightarrow> False)"

subsection \<open>The state of a reference\<close>

datatype lifecycle_state = ACTIVE | LAPSED | PRESERVED | DELETION_PENDING | DELETED

fun lifecycle_value :: "lifecycle_state \<Rightarrow> string" where
  "lifecycle_value ACTIVE = ''active''"
| "lifecycle_value LAPSED = ''expired''"
| "lifecycle_value PRESERVED = ''preserved''"
| "lifecycle_value DELETION_PENDING = ''deletion_pending''"
| "lifecycle_value DELETED = ''deleted''"

definition lifecycle_of :: "string \<Rightarrow> lifecycle_state option" where
  "lifecycle_of text = find (\<lambda>s. lifecycle_value s = text) [ACTIVE, LAPSED, PRESERVED, DELETION_PENDING, DELETED]"

record retention_status =
  rt_retention_class :: string
  rt_expires_at :: "datetime option"
  rt_state :: lifecycle_state
  rt_protected :: bool

definition is_access_allowed :: "retention_status \<Rightarrow> bool" where
  "is_access_allowed s = (rt_state s \<in> {ACTIVE, PRESERVED})"

definition is_deletion_eligible :: "retention_status \<Rightarrow> bool" where
  "is_deletion_eligible s = (rt_state s = LAPSED)"

definition deadline_for :: "string \<Rightarrow> datetime \<Rightarrow> datetime option" where
  "deadline_for c created = (case duration_for c of None \<Rightarrow> None
     | Some d \<Rightarrow> Some (created\<lparr>dt_instant := dt_instant created + d\<rparr>))"

definition retention_evaluate :: "string \<Rightarrow> datetime \<Rightarrow> datetime \<Rightarrow> metadata \<Rightarrow> lifecycle_state option \<Rightarrow>
    datetime option \<Rightarrow> retention_status" where
  "retention_evaluate c created now m st expires =
     (let protected = is_protected c m in
      if st = Some DELETED then
        \<lparr>rt_retention_class = c, rt_expires_at = expires, rt_state = DELETED, rt_protected = protected\<rparr>
      else if protected then
        \<lparr>rt_retention_class = c, rt_expires_at = None, rt_state = PRESERVED, rt_protected = True\<rparr>
      else let deadline = deadline_for c created in
        if (case deadline of None \<Rightarrow> False | Some d \<Rightarrow> \<not> dt_less now d) then
          \<lparr>rt_retention_class = c, rt_expires_at = deadline, rt_state = LAPSED, rt_protected = False\<rparr>
        else if st = Some DELETION_PENDING then
          \<lparr>rt_retention_class = c, rt_expires_at = deadline, rt_state = DELETION_PENDING, rt_protected = False\<rparr>
        else \<lparr>rt_retention_class = c, rt_expires_at = deadline, rt_state = ACTIVE, rt_protected = False\<rparr>)"

definition resolve_class_evidence :: "string option \<Rightarrow> string" where
  "resolve_class_evidence c = resolve_retention_class EVIDENCE_MEDIA c"

text \<open>No approved class has the text of an empty value, so an empty and an absent record give the default alike.\<close>

definition retention_class_of :: "metadata \<Rightarrow> string" where
  "retention_class_of m = resolve_class_evidence (map_option meta_str (meta_get m ''retention_class''))"

datatype retention_error = NotAuthorized auth_error | BadTimestamp | NotAccessible

definition expires_at_of :: "(string \<Rightarrow> datetime option) \<Rightarrow> metadata \<Rightarrow> retention_error + datetime option" where
  "expires_at_of parse m = (case meta_get m ''expires_at'' of None \<Rightarrow> Inr None
     | Some v \<Rightarrow> (case parse (meta_str v) of None \<Rightarrow> Inl BadTimestamp | Some d \<Rightarrow> Inr (Some d)))"

definition lifecycle_state_of :: "metadata \<Rightarrow> lifecycle_state option" where
  "lifecycle_state_of m = (case meta_get m ''lifecycle_state'' of None \<Rightarrow> None | Some v \<Rightarrow> lifecycle_of (meta_str v))"

subsection \<open>The service\<close>

record evidence_row =
  eo_ref_id :: uuid
  eo_ref_uri :: string
  eo_tenant_id :: uuid
  eo_venue_id :: uuid
  eo_captured_at :: "datetime option"
  eo_created_at :: datetime
  eo_metadata :: metadata

datatype retention_effect =
    AuditDeletionRequested lifecycle_state
  | AuditCleanupFailed lifecycle_state
  | AuditDeleted lifecycle_state
  | AuditAccessDenied lifecycle_state
  | DeleteObject string

definition captured_or_created :: "evidence_row \<Rightarrow> datetime" where
  "captured_or_created row = (case eo_captured_at row of Some t \<Rightarrow> t | None \<Rightarrow> eo_created_at row)"

definition evaluate_row :: "(string \<Rightarrow> datetime option) \<Rightarrow> evidence_row \<Rightarrow> datetime \<Rightarrow> retention_error + retention_status" where
  "evaluate_row parse row now =
     rbind (expires_at_of parse (eo_metadata row)) (\<lambda>expires.
       Inr (retention_evaluate (retention_class_of (eo_metadata row)) (captured_or_created row) now (eo_metadata row)
         (lifecycle_state_of (eo_metadata row)) expires))"

definition authorize_row :: "actor_context \<Rightarrow> evidence_operation \<Rightarrow> evidence_row \<Rightarrow> datetime \<Rightarrow> retention_error + unit" where
  "authorize_row actor op row clock =
     (case authorize_evidence actor op (eo_tenant_id row) (eo_venue_id row) clock of
        Inl e \<Rightarrow> Inl (NotAuthorized e) | Inr _ \<Rightarrow> Inr ())"

definition assert_signed_url_allowed :: "(string \<Rightarrow> datetime option) \<Rightarrow> actor_context \<Rightarrow> evidence_row \<Rightarrow> datetime \<Rightarrow>
    datetime \<Rightarrow> retention_effect list \<times> (retention_error + unit)" where
  "assert_signed_url_allowed parse actor row now clock =
     (case rbind (authorize_row actor OP_SIGNED_URL row clock) (\<lambda>_. evaluate_row parse row now) of
        Inl e \<Rightarrow> ([], Inl e)
      | Inr status \<Rightarrow> if \<not> is_access_allowed status then ([AuditAccessDenied (rt_state status)], Inl NotAccessible)
          else ([], Inr ()))"

text \<open>The first phase records the pending state and the deadline, unless they are recorded already.\<close>

definition mark_pending :: "stdlib \<Rightarrow> evidence_row \<Rightarrow> retention_status \<Rightarrow> evidence_row \<times> retention_effect list" where
  "mark_pending L row status =
     (if lifecycle_state_of (eo_metadata row) = Some DELETION_PENDING then (row, [])
      else (row\<lparr>eo_metadata := (eo_metadata row)(''lifecycle_state'' \<mapsto> MetaString (lifecycle_value DELETION_PENDING),
             ''expires_at'' \<mapsto> (case rt_expires_at status of Some d \<Rightarrow> MetaString (std_isoformat L d) | None \<Rightarrow> MetaNull))\<rparr>,
           [AuditDeletionRequested (rt_state status)]))"

definition mark_deleted :: "stdlib \<Rightarrow> evidence_row \<Rightarrow> datetime \<Rightarrow> evidence_row" where
  "mark_deleted L row deleted_at = row\<lparr>eo_metadata := (eo_metadata row)(
     ''lifecycle_state'' \<mapsto> MetaString (lifecycle_value DELETED), ''deleted_at'' \<mapsto> MetaString (std_isoformat L deleted_at))\<rparr>"

text \<open>\<open>stored\<close> tells whether the store accepts the deletion of the object.\<close>

definition delete_expired :: "stdlib \<Rightarrow> (string \<Rightarrow> datetime option) \<Rightarrow> bool \<Rightarrow> actor_context \<Rightarrow> evidence_row \<Rightarrow> datetime \<Rightarrow>
    datetime \<Rightarrow> evidence_row \<times> retention_effect list \<times> (retention_error + bool)" where
  "delete_expired L parse accepts actor row now clock =
     (case rbind (authorize_row actor OP_DELETE row clock) (\<lambda>_. evaluate_row parse row now) of
        Inl e \<Rightarrow> (row, [], Inl e)
      | Inr status \<Rightarrow>
          if \<not> is_deletion_eligible status then (row, [], Inr False)
          else let (pending, audits) = mark_pending L row status in
            if \<not> accepts then
              (pending, audits @ [DeleteObject (eo_ref_uri row), AuditCleanupFailed (rt_state status)], Inr False)
            else (mark_deleted L pending clock,
                  audits @ [DeleteObject (eo_ref_uri row), AuditDeleted (rt_state status)], Inr True))"

subsection \<open>Cleanup cycles\<close>

text \<open>A cycle is one call: who calls, the policy time, the clock, and whether the store accepts the deletion.\<close>

type_synonym cleanup = "actor_context \<times> datetime \<times> datetime \<times> bool"

fun cleanup_run :: "stdlib \<Rightarrow> (string \<Rightarrow> datetime option) \<Rightarrow> evidence_row \<Rightarrow> cleanup list \<Rightarrow> evidence_row \<times> retention_effect list" where
  "cleanup_run L parse row [] = (row, [])"
| "cleanup_run L parse row ((actor, now, clock, accepts) # cycles) =
     (let (row1, effects1, result) = delete_expired L parse accepts actor row now clock;
          (row2, effects2) = cleanup_run L parse row1 cycles
      in (row2, effects1 @ effects2))"

end
