(* ===== verification/Evidence_Retention_Facts.thy ===== *)
theory Evidence_Retention_Facts
  imports Evidence_Retention Identity_Facts
begin

text \<open>
  What the retention workflow guarantees: what may be deleted and when, that a failed deletion is retried until it
  succeeds and that nothing happens afterwards, and which references may be signed.
\<close>

subsection \<open>The evaluation of a row\<close>

definition row_class :: "evidence_row \<Rightarrow> string" where
  "row_class row = retention_class_of (eo_metadata row)"

definition row_deadline :: "evidence_row \<Rightarrow> datetime option" where
  "row_deadline row = deadline_for (row_class row) (captured_or_created row)"

definition row_protected :: "evidence_row \<Rightarrow> bool" where
  "row_protected row = is_protected (row_class row) (eo_metadata row)"

definition row_state :: "evidence_row \<Rightarrow> lifecycle_state option" where
  "row_state row = lifecycle_state_of (eo_metadata row)"

definition deadline_passed :: "evidence_row \<Rightarrow> datetime \<Rightarrow> bool" where
  "deadline_passed row now = (case row_deadline row of None \<Rightarrow> False | Some d \<Rightarrow> \<not> dt_less now d)"

definition deadline_readable :: "(string \<Rightarrow> datetime option) \<Rightarrow> evidence_row \<Rightarrow> bool" where
  "deadline_readable parse row = (\<exists>x. expires_at_of parse (eo_metadata row) = Inr x)"

lemma retention_evaluate_state:
  "rt_state (retention_evaluate c created now m st expires) =
     (if st = Some DELETED then DELETED else if is_protected c m then PRESERVED
      else if (case deadline_for c created of None \<Rightarrow> False | Some d \<Rightarrow> \<not> dt_less now d) then LAPSED
      else if st = Some DELETION_PENDING then DELETION_PENDING else ACTIVE)"
  by (simp add: retention_evaluate_def Let_def)

lemma evaluate_row_state:
  assumes "deadline_readable parse row"
  obtains status where "evaluate_row parse row now = Inr status"
    "rt_state status = (if row_state row = Some DELETED then DELETED else if row_protected row then PRESERVED
       else if deadline_passed row now then LAPSED
       else if row_state row = Some DELETION_PENDING then DELETION_PENDING else ACTIVE)"
proof -
  from assms obtain x where x: "expires_at_of parse (eo_metadata row) = Inr x" by (auto simp: deadline_readable_def)
  let ?status = "retention_evaluate (row_class row) (captured_or_created row) now (eo_metadata row) (row_state row) x"
  from x have "evaluate_row parse row now = Inr ?status" by (simp add: evaluate_row_def row_class_def row_state_def)
  moreover have "rt_state ?status = (if row_state row = Some DELETED then DELETED else if row_protected row then PRESERVED
       else if deadline_passed row now then LAPSED
       else if row_state row = Some DELETION_PENDING then DELETION_PENDING else ACTIVE)"
    by (simp add: retention_evaluate_state row_protected_def deadline_passed_def row_deadline_def)
  ultimately show thesis by (rule that)
qed

lemma evaluate_row_unreadable: "\<not> deadline_readable parse row \<Longrightarrow> \<exists>e. evaluate_row parse row now = Inl e"
  by (cases "expires_at_of parse (eo_metadata row)") (auto simp: deadline_readable_def evaluate_row_def)

lemma authorize_row_ok: "authorize_row actor op row clock = Inr u \<longleftrightarrow>
    authorize_evidence actor op (eo_tenant_id row) (eo_venue_id row) clock = Inr ()"
  by (auto simp: authorize_row_def split: sum.split)

lemma authorize_row_same:
  "eo_tenant_id row' = eo_tenant_id row \<Longrightarrow> eo_venue_id row' = eo_venue_id row \<Longrightarrow>
   authorize_row actor op row' clock = authorize_row actor op row clock"
  by (simp add: authorize_row_def)

subsection \<open>What the two phases write\<close>

lemma lifecycle_of_value [simp]: "lifecycle_of (lifecycle_value s) = Some s"
  by (cases s) (simp_all add: lifecycle_of_def)

lemma captured_or_created_metadata [simp]: "captured_or_created (row\<lparr>eo_metadata := m\<rparr>) = captured_or_created row"
  by (simp add: captured_or_created_def split: option.split)

lemma mark_pending_row:
  assumes "mark_pending L row status = (row', effects)"
  shows "row_class row' = row_class row" "row_deadline row' = row_deadline row" "row_protected row' = row_protected row"
    "row_state row' = Some DELETION_PENDING" "eo_ref_uri row' = eo_ref_uri row"
    "eo_tenant_id row' = eo_tenant_id row" "eo_venue_id row' = eo_venue_id row"
  using assms
  by (auto simp: mark_pending_def row_class_def row_deadline_def row_protected_def row_state_def retention_class_of_def
      meta_get_def is_protected_def lifecycle_state_of_def simp del: lifecycle_value.simps split: if_splits)

lemma mark_pending_effects: "mark_pending L row status = (row', effects) \<Longrightarrow> set effects \<subseteq> {AuditDeletionRequested (rt_state status)}"
  by (auto simp: mark_pending_def split: if_splits)

lemma mark_pending_readable:
  assumes "mark_pending L row status = (row', effects)" "deadline_readable parse row"
    and "\<And>d. parse (std_isoformat L d) \<noteq> None"
  shows "deadline_readable parse row'"
proof (cases "lifecycle_state_of (eo_metadata row) = Some DELETION_PENDING")
  case True
  with assms(1,2) show ?thesis by (simp add: mark_pending_def)
next
  case False
  show ?thesis
  proof (cases "rt_expires_at status")
    case None
    with assms(1) False show ?thesis
      by (auto simp: mark_pending_def deadline_readable_def expires_at_of_def meta_get_def)
  next
    case (Some d)
    from assms(3) [of d] obtain x where "parse (std_isoformat L d) = Some x" by blast
    with assms(1) False Some show ?thesis
      by (auto simp: mark_pending_def deadline_readable_def expires_at_of_def meta_get_def)
  qed
qed

lemma mark_deleted_state [simp]: "row_state (mark_deleted L row t) = Some DELETED"
  by (simp add: mark_deleted_def row_state_def lifecycle_state_of_def meta_get_def del: lifecycle_value.simps)

subsection \<open>One call\<close>

lemma delete_expired_cases:
  obtains (refused) e where "delete_expired L parse accepts actor row now clock = (row, [], Inl e)"
      "authorize_row actor OP_DELETE row clock \<noteq> Inr () \<or> \<not> deadline_readable parse row"
    | (idle) "delete_expired L parse accepts actor row now clock = (row, [], Inr False)"
      "authorize_row actor OP_DELETE row clock = Inr ()" "deadline_readable parse row"
      "row_state row = Some DELETED \<or> row_protected row \<or> \<not> deadline_passed row now"
    | (attempt) status pending audits where
      "authorize_row actor OP_DELETE row clock = Inr ()" "deadline_readable parse row"
      "row_state row \<noteq> Some DELETED" "\<not> row_protected row" "deadline_passed row now"
      "rt_state status = LAPSED" "mark_pending L row status = (pending, audits)"
      "delete_expired L parse accepts actor row now clock =
        (if accepts then (mark_deleted L pending clock, audits @ [DeleteObject (eo_ref_uri row), AuditDeleted LAPSED], Inr True)
         else (pending, audits @ [DeleteObject (eo_ref_uri row), AuditCleanupFailed LAPSED], Inr False))"
proof (cases "authorize_row actor OP_DELETE row clock = Inr () \<and> deadline_readable parse row")
  case False
  then obtain e where "rbind (authorize_row actor OP_DELETE row clock) (\<lambda>_. evaluate_row parse row now) = Inl e"
    by (cases "authorize_row actor OP_DELETE row clock") (auto dest: evaluate_row_unreadable [of parse row now])
  with False show ?thesis by (intro refused [of e]) (auto simp: delete_expired_def)
next
  case True
  then have auth: "authorize_row actor OP_DELETE row clock = Inr ()" and "deadline_readable parse row" by simp_all
  from this(2) obtain status where status: "evaluate_row parse row now = Inr status"
    "rt_state status = (if row_state row = Some DELETED then DELETED else if row_protected row then PRESERVED
       else if deadline_passed row now then LAPSED
       else if row_state row = Some DELETION_PENDING then DELETION_PENDING else ACTIVE)" by (rule evaluate_row_state)
  show ?thesis
  proof (cases "rt_state status = LAPSED")
    case False
    with auth status True show ?thesis
      by (intro idle) (auto simp: delete_expired_def is_deletion_eligible_def split: if_splits)
  next
    case lapsed: True
    obtain pending audits where "mark_pending L row status = (pending, audits)" by (cases "mark_pending L row status")
    with lapsed auth status True show ?thesis
      by (intro attempt [of status pending audits])
        (auto simp: delete_expired_def is_deletion_eligible_def split: if_splits)
  qed
qed

lemma deleted_stays:
  "row_state row = Some DELETED \<Longrightarrow> cleanup_run L parse row cycles = (row, [])"
proof (induction cycles)
  case (Cons c cycles)
  obtain actor now clock accepts where c: "c = (actor, now, clock, accepts)" by (cases c)
  have "\<exists>r. delete_expired L parse accepts actor row now clock = (row, [], r)"
    by (rule delete_expired_cases [of L parse accepts actor row now clock]) (use Cons.prems in auto)
  with Cons c show ?case by auto
qed simp

definition deletions :: "retention_effect list \<Rightarrow> nat" where
  "deletions effects = length (filter (\<lambda>e. case e of DeleteObject _ \<Rightarrow> True | _ \<Rightarrow> False) effects)"

definition completions :: "retention_effect list \<Rightarrow> nat" where
  "completions effects = length (filter (\<lambda>e. case e of AuditDeleted _ \<Rightarrow> True | _ \<Rightarrow> False) effects)"

lemma deletions_simps [simp]: "deletions [] = 0" "deletions (xs @ ys) = deletions xs + deletions ys"
  "deletions (e # xs) = (case e of DeleteObject _ \<Rightarrow> 1 | _ \<Rightarrow> 0) + deletions xs"
  by (simp_all add: deletions_def split: retention_effect.split)

lemma completions_simps [simp]: "completions [] = 0" "completions (xs @ ys) = completions xs + completions ys"
  "completions (e # xs) = (case e of AuditDeleted _ \<Rightarrow> 1 | _ \<Rightarrow> 0) + completions xs"
  by (simp_all add: completions_def split: retention_effect.split)

lemma mark_pending_counts:
  "mark_pending L row status = (row', effects) \<Longrightarrow> deletions effects = 0 \<and> completions effects = 0"
  by (auto simp: mark_pending_def split: if_splits)

subsection \<open>Properties\<close>

text \<open>C15: An object is deleted only when the approved policy says so: a call that reaches the store was made by an
  active actor of the tenant and the venue of the row who may manage evidence, the row is not protected and not
  deleted yet, the deadline derived from its retention class has passed, and the row is recorded as pending before the
  call and as deleted exactly if the store accepted it. Every other call changes nothing and reaches nothing.\<close>

theorem deletion_justified:
  assumes "delete_expired L parse accepts actor row now clock = (row', effects, result)"
  shows "(effects = [] \<and> row' = row) \<or>
    (deletions effects = 1 \<and> DeleteObject (eo_ref_uri row) \<in> set effects \<and>
     \<not> row_protected row \<and> row_state row \<noteq> Some DELETED \<and> (\<exists>d. row_deadline row = Some d \<and> \<not> dt_less now d) \<and>
     ac_active actor \<and> ac_tenant_id actor = eo_tenant_id row \<and> EVIDENCE_MANAGE \<in> ac_permissions actor \<and>
     (ac_venue_scope actor = {} \<or> eo_venue_id row \<in> ac_venue_scope actor) \<and>
     row_state row' = Some (if accepts then DELETED else DELETION_PENDING) \<and> result = Inr accepts)"
proof (rule delete_expired_cases [of L parse accepts actor row now clock])
  fix status pending audits
  assume a: "authorize_row actor OP_DELETE row clock = Inr ()" "row_state row \<noteq> Some DELETED" "\<not> row_protected row"
    "deadline_passed row now" "mark_pending L row status = (pending, audits)"
    and run: "delete_expired L parse accepts actor row now clock =
        (if accepts then (mark_deleted L pending clock, audits @ [DeleteObject (eo_ref_uri row), AuditDeleted LAPSED], Inr True)
         else (pending, audits @ [DeleteObject (eo_ref_uri row), AuditCleanupFailed LAPSED], Inr False))"
  have "deletions audits = 0" "row_state pending = Some DELETION_PENDING"
    using mark_pending_counts [OF a(5)] mark_pending_row(4) [OF a(5)] by simp_all
  with assms run have "deletions effects = 1" "DeleteObject (eo_ref_uri row) \<in> set effects"
    "row_state row' = Some (if accepts then DELETED else DELETION_PENDING)" "result = Inr accepts"
    by (auto split: if_splits)
  moreover have "\<exists>d. row_deadline row = Some d \<and> \<not> dt_less now d"
    using a(4) by (auto simp: deadline_passed_def split: option.splits)
  moreover have "ac_active actor" "ac_tenant_id actor = eo_tenant_id row" "EVIDENCE_MANAGE \<in> ac_permissions actor"
    "ac_venue_scope actor = {} \<or> eo_venue_id row \<in> ac_venue_scope actor"
    using a(1) by (simp_all add: authorize_row_ok authorize_evidence_ok)
  ultimately show ?thesis using a(2,3) by blast
qed (use assms in auto)

lemma cleanup_completes_once: "cleanup_run L parse row cycles = (row', effects) \<Longrightarrow> completions effects \<le> 1"
proof (induction cycles arbitrary: row effects)
  case (Cons c cycles)
  obtain actor now clock accepts where c: "c = (actor, now, clock, accepts)" by (cases c)
  obtain row1 effects1 r where one: "delete_expired L parse accepts actor row now clock = (row1, effects1, r)"
    by (cases "delete_expired L parse accepts actor row now clock")
  obtain effects2 where rest: "cleanup_run L parse row1 cycles = (row', effects2)" "effects = effects1 @ effects2"
    using Cons.prems c one by (auto split: prod.splits)
  note IH = Cons.IH [OF rest(1)]
  show ?case
  proof (rule delete_expired_cases [of L parse accepts actor row now clock])
    fix status pending audits
    assume a: "mark_pending L row status = (pending, audits)"
      and run: "delete_expired L parse accepts actor row now clock =
        (if accepts then (mark_deleted L pending clock, audits @ [DeleteObject (eo_ref_uri row), AuditDeleted LAPSED], Inr True)
         else (pending, audits @ [DeleteObject (eo_ref_uri row), AuditCleanupFailed LAPSED], Inr False))"
    note none = mark_pending_counts [OF a]
    show ?thesis
    proof (cases accepts)
      case True
      with run one have "row_state row1 = Some DELETED" "completions effects1 = 1" using none by auto
      with deleted_stays [of row1 L parse cycles] rest show ?thesis by simp
    next
      case False
      with run one have "completions effects1 = 0" using none by auto
      with IH rest(2) show ?thesis by simp
    qed
  qed (use one rest IH in auto)
qed simp

lemma cleanup_until_accepted:
  assumes "\<And>d. parse (std_isoformat L d) \<noteq> None"
  shows "\<not> row_protected row \<Longrightarrow> row_deadline row = Some d \<Longrightarrow> row_state row \<noteq> Some DELETED \<Longrightarrow>
    deadline_readable parse row \<Longrightarrow>
    list_all (\<lambda>(actor, now, clock, accepts). authorize_row actor OP_DELETE row clock = Inr () \<and> \<not> dt_less now d) cycles \<Longrightarrow>
    cleanup_run L parse row cycles = (row', effects) \<Longrightarrow>
    (row_state row' = Some DELETED \<longleftrightarrow> list_ex (\<lambda>(_, _, _, accepts). accepts) cycles) \<and>
    deletions effects = length (takeWhile (\<lambda>(_, _, _, accepts). \<not> accepts) cycles) +
      (if list_ex (\<lambda>(_, _, _, accepts). accepts) cycles then 1 else 0)"
proof (induction cycles arbitrary: row effects)
  case (Cons c cycles)
  obtain actor now clock accepts where c: "c = (actor, now, clock, accepts)" by (cases c)
  have now: "authorize_row actor OP_DELETE row clock = Inr ()" "deadline_passed row now"
    using Cons.prems(2,5) c by (auto simp: deadline_passed_def)
  obtain row1 effects1 r where one: "delete_expired L parse accepts actor row now clock = (row1, effects1, r)"
    by (cases "delete_expired L parse accepts actor row now clock")
  obtain effects2 where rest: "cleanup_run L parse row1 cycles = (row', effects2)" "effects = effects1 @ effects2"
    using Cons.prems(6) c one by (auto split: prod.splits)
  show ?case
  proof (rule delete_expired_cases [of L parse accepts actor row now clock])
    fix status pending audits
    assume a: "mark_pending L row status = (pending, audits)"
      and run: "delete_expired L parse accepts actor row now clock =
        (if accepts then (mark_deleted L pending clock, audits @ [DeleteObject (eo_ref_uri row), AuditDeleted LAPSED], Inr True)
         else (pending, audits @ [DeleteObject (eo_ref_uri row), AuditCleanupFailed LAPSED], Inr False))"
    note kept = mark_pending_row [OF a] and none = mark_pending_counts [OF a]
    show ?thesis
    proof (cases accepts)
      case True
      with run one have "row_state row1 = Some DELETED" "deletions effects1 = 1" using none by auto
      with deleted_stays [of row1 L parse cycles] rest c True show ?thesis by simp
    next
      case False
      with run one have r1: "row1 = pending" "deletions effects1 = 1" using none by auto
      have "deadline_readable parse row1"
        using mark_pending_readable [OF a Cons.prems(4) assms] r1(1) by simp
      moreover have "list_all (\<lambda>(actor, now, clock, accepts). authorize_row actor OP_DELETE row1 clock = Inr () \<and> \<not> dt_less now d) cycles"
        using Cons.prems(5) authorize_row_same [OF kept(6,7)] r1(1) by simp
      ultimately have "(row_state row' = Some DELETED \<longleftrightarrow> list_ex (\<lambda>(_, _, _, accepts). accepts) cycles) \<and>
        deletions effects2 = length (takeWhile (\<lambda>(_, _, _, accepts). \<not> accepts) cycles) +
          (if list_ex (\<lambda>(_, _, _, accepts). accepts) cycles then 1 else 0)"
        using Cons.IH [of row1 effects2] rest(1) r1(1) kept Cons.prems(1,2) by simp
      with r1(2) rest(2) c False show ?thesis by simp
    qed
  qed (use now Cons.prems in auto)
qed simp

lemma cleanup_retries_until_deleted_parts:
  assumes "\<And>d. parse (std_isoformat L d) \<noteq> None"
    and "\<not> row_protected row" "row_deadline row = Some d" "row_state row \<noteq> Some DELETED" "deadline_readable parse row"
    and "list_all (\<lambda>(actor, now, clock, accepts). authorize_row actor OP_DELETE row clock = Inr () \<and> \<not> dt_less now d) cycles"
    and "cleanup_run L parse row cycles = (row', effects)"
  shows "row_state row' = Some DELETED \<longleftrightarrow> list_ex (\<lambda>(_, _, _, accepts). accepts) cycles"
    and "deletions effects = length (takeWhile (\<lambda>(_, _, _, accepts). \<not> accepts) cycles) +
      (if list_ex (\<lambda>(_, _, _, accepts). accepts) cycles then 1 else 0)"
    and "completions effects \<le> 1" and "list_ex (\<lambda>(_, _, _, accepts). accepts) cycles \<Longrightarrow> cleanup_run L parse row' later = (row', [])"
  using cleanup_until_accepted [OF assms(1-7)] cleanup_completes_once [OF assms(7)] deleted_stays [of row' L parse later]
  by blast+

text \<open>A failed deletion is retried until the store accepts it, and then never again: over any sequence of authorized
  cleanup calls after the deadline of an unprotected row the store is called in every cycle up to the first one it
  accepts and in none after it, the row ends as deleted exactly if some call was accepted, and at most one completion
  is audited. That \<open>fromisoformat\<close> reads what \<open>isoformat\<close> wrote is what the retry needs of the library.\<close>

theorem cleanup_retries_until_deleted:
  assumes "\<And>d. parse (std_isoformat L d) \<noteq> None"
    and "\<not> row_protected row" "row_deadline row = Some d" "row_state row \<noteq> Some DELETED" "deadline_readable parse row"
    and "list_all (\<lambda>(actor, now, clock, accepts). authorize_row actor OP_DELETE row clock = Inr () \<and> \<not> dt_less now d) cycles"
    and "cleanup_run L parse row cycles = (row', effects)"
  shows "(row_state row' = Some DELETED \<longleftrightarrow> list_ex (\<lambda>(_, _, _, accepts). accepts) cycles) \<and>
    (deletions effects = length (takeWhile (\<lambda>(_, _, _, accepts). \<not> accepts) cycles) +
      (if list_ex (\<lambda>(_, _, _, accepts). accepts) cycles then 1 else 0)) \<and>
    completions effects \<le> 1 \<and>
    (list_ex (\<lambda>(_, _, _, accepts). accepts) cycles \<longrightarrow> cleanup_run L parse row' later = (row', []))"
  using cleanup_retries_until_deleted_parts [OF assms] by blast

lemma signed_url_gate_parts:
  shows "(\<exists>effects. assert_signed_url_allowed parse actor row now clock = (effects, Inr ())) \<longleftrightarrow>
      authorize_evidence actor OP_SIGNED_URL (eo_tenant_id row) (eo_venue_id row) clock = Inr () \<and>
      deadline_readable parse row \<and> row_state row \<noteq> Some DELETED \<and>
      (row_protected row \<or> \<not> deadline_passed row now \<and> row_state row \<noteq> Some DELETION_PENDING)"
    and "\<not> deadline_readable parse row \<Longrightarrow> \<exists>e. delete_expired L parse accepts actor row now clock = (row, [], Inl e)"
proof -
  show "\<exists>e. delete_expired L parse accepts actor row now clock = (row, [], Inl e)" if "\<not> deadline_readable parse row"
    by (rule delete_expired_cases [of L parse accepts actor row now clock]) (use that in auto)
  show "(\<exists>effects. assert_signed_url_allowed parse actor row now clock = (effects, Inr ())) \<longleftrightarrow>
      authorize_evidence actor OP_SIGNED_URL (eo_tenant_id row) (eo_venue_id row) clock = Inr () \<and>
      deadline_readable parse row \<and> row_state row \<noteq> Some DELETED \<and>
      (row_protected row \<or> \<not> deadline_passed row now \<and> row_state row \<noteq> Some DELETION_PENDING)"
  proof (cases "authorize_row actor OP_SIGNED_URL row clock")
    case (Inl e)
    then show ?thesis using authorize_row_ok [of actor OP_SIGNED_URL row clock] by (simp add: assert_signed_url_allowed_def)
  next
    case (Inr u)
    then have auth: "authorize_evidence actor OP_SIGNED_URL (eo_tenant_id row) (eo_venue_id row) clock = Inr ()"
      using authorize_row_ok [of actor OP_SIGNED_URL row clock] by simp
    show ?thesis
    proof (cases "deadline_readable parse row")
      case False
      with evaluate_row_unreadable [of parse row now] Inr show ?thesis by (auto simp: assert_signed_url_allowed_def)
    next
      case True
      then obtain status where status: "evaluate_row parse row now = Inr status"
        "rt_state status = (if row_state row = Some DELETED then DELETED else if row_protected row then PRESERVED
           else if deadline_passed row now then LAPSED
           else if row_state row = Some DELETION_PENDING then DELETION_PENDING else ACTIVE)"
        by (rule evaluate_row_state)
      with Inr auth True show ?thesis by (auto simp: assert_signed_url_allowed_def is_access_allowed_def)
    qed
  qed
qed

text \<open>A signed URL is granted exactly to an actor who may read the evidence of the row, for a row that is not
  deleted and is either protected or neither past its deadline nor already pending deletion; the recorded deadline has
  to be readable as a timestamp although it is not trusted otherwise, so a garbled record locks even a protected row
  and keeps an expired one from being deleted.\<close>

theorem signed_url_gate:
  shows "((\<exists>effects. assert_signed_url_allowed parse actor row now clock = (effects, Inr ())) \<longleftrightarrow>
      authorize_evidence actor OP_SIGNED_URL (eo_tenant_id row) (eo_venue_id row) clock = Inr () \<and>
      deadline_readable parse row \<and> row_state row \<noteq> Some DELETED \<and>
      (row_protected row \<or> \<not> deadline_passed row now \<and> row_state row \<noteq> Some DELETION_PENDING)) \<and>
    (\<not> deadline_readable parse row \<longrightarrow> (\<exists>e. delete_expired L parse accepts actor row now clock = (row, [], Inl e)))"
  using signed_url_gate_parts by blast

subsection \<open>Witnesses\<close>

definition sample_row :: evidence_row where
  "sample_row = \<lparr>eo_ref_id = 1, eo_ref_uri = ''s3://evidence/1'', eo_tenant_id = 2, eo_venue_id = 3, eo_captured_at = None,
     eo_created_at = utc_at 0, eo_metadata = Map.empty\<rparr>"

definition sample_iso :: stdlib where
  "sample_iso = \<lparr>std_uuid5 = (\<lambda>_ _. 0), std_isoformat = (\<lambda>_. ''t''), std_repr_float = (\<lambda>_. ''''), std_parse_float = (\<lambda>_. None)\<rparr>"

lemma sample_row_facts:
  "\<not> row_protected sample_row" "row_deadline sample_row = Some (utc_at (days 365))" "row_state sample_row \<noteq> Some DELETED"
  "deadline_readable (\<lambda>_. Some (utc_at 0)) sample_row" "\<not> dt_less (utc_at (days 366)) (utc_at (days 365))"
proof -
  have c: "row_class sample_row = ''evidence_365_days''"
    by (simp add: row_class_def sample_row_def retention_class_of_def meta_get_def resolve_class_evidence_def resolve_retention_class_def)
  have empty: "eo_metadata sample_row = Map.empty" by (simp add: sample_row_def)
  show "\<not> row_protected sample_row" unfolding row_protected_def c empty by (simp add: is_protected_def)
  show "row_deadline sample_row = Some (utc_at (days 365))"
    unfolding row_deadline_def c by (simp add: deadline_for_def duration_for_def retention_policies_def timedelta_max_def days_def
        captured_or_created_def sample_row_def utc_at_def)
  show "row_state sample_row \<noteq> Some DELETED" by (simp add: row_state_def sample_row_def lifecycle_state_of_def meta_get_def)
  show "deadline_readable (\<lambda>_. Some (utc_at 0)) sample_row"
    by (simp add: deadline_readable_def expires_at_of_def sample_row_def meta_get_def)
  show "\<not> dt_less (utc_at (days 366)) (utc_at (days 365))" by (simp add: dt_less_def days_def)
qed

lemma sample_row_authorized: "authorize_row (sample_actor {3}) OP_DELETE sample_row (utc_at (days 366)) = Inr ()"
  by (simp add: authorize_row_ok authorize_evidence_ok sample_actor_def sample_row_def dt_less_def days_def)

definition sample_cycles :: "cleanup list" where
  "sample_cycles = [(sample_actor {3}, utc_at (days 366), utc_at (days 366), False),
     (sample_actor {3}, utc_at (days 366), utc_at (days 366), True), (sample_actor {3}, utc_at (days 366), utc_at (days 366), True)]"

lemma cleanup_retries_until_deleted_witness:
  "\<exists>row' effects. cleanup_run sample_iso (\<lambda>_. Some (utc_at 0)) sample_row sample_cycles = (row', effects) \<and>
     row_state row' = Some DELETED \<and> deletions effects = 2"
proof -
  obtain row' effects where run: "cleanup_run sample_iso (\<lambda>_. Some (utc_at 0)) sample_row sample_cycles = (row', effects)"
    by (cases "cleanup_run sample_iso (\<lambda>_. Some (utc_at 0)) sample_row sample_cycles")
  have all: "list_all (\<lambda>(actor, now, clock, accepts). authorize_row actor OP_DELETE sample_row clock = Inr () \<and>
      \<not> dt_less now (utc_at (days 365))) sample_cycles"
    by (simp add: sample_cycles_def sample_row_authorized sample_row_facts(5))
  have lib: "\<And>d. (\<lambda>_. Some (utc_at 0)) (std_isoformat sample_iso d) \<noteq> None" by simp
  from cleanup_retries_until_deleted [OF lib sample_row_facts(1-4) all run] run show ?thesis
    by (auto simp: sample_cycles_def)
qed

lemma sample_attempt:
  "\<exists>row' effects. delete_expired sample_iso (\<lambda>_. Some (utc_at 0)) True (sample_actor {3}) sample_row (utc_at (days 366))
     (utc_at (days 366)) = (row', effects, Inr True)"
proof (rule delete_expired_cases [of sample_iso "\<lambda>_. Some (utc_at 0)" True "sample_actor {3}" sample_row "utc_at (days 366)" "utc_at (days 366)"])
  assume "row_state sample_row = Some DELETED \<or> row_protected sample_row \<or> \<not> deadline_passed sample_row (utc_at (days 366))"
  then show ?thesis using sample_row_facts by (simp add: deadline_passed_def)
qed (use sample_row_facts sample_row_authorized in auto)

lemma deletion_justified_witness:
  "\<exists>row' effects. delete_expired sample_iso (\<lambda>_. Some (utc_at 0)) True (sample_actor {3}) sample_row (utc_at (days 366))
     (utc_at (days 366)) = (row', effects, Inr True) \<and>
     (effects = [] \<and> row' = sample_row \<or> DeleteObject ''s3://evidence/1'' \<in> set effects \<and> row_state row' = Some DELETED)"
proof -
  from sample_attempt obtain row' effects where run: "delete_expired sample_iso (\<lambda>_. Some (utc_at 0)) True (sample_actor {3})
      sample_row (utc_at (days 366)) (utc_at (days 366)) = (row', effects, Inr True)" by blast
  from deletion_justified [OF run] run show ?thesis by (auto simp: sample_row_def)
qed

lemma signed_url_gate_witness:
  "\<exists>e. delete_expired sample_iso (\<lambda>_. None) True (sample_actor {3})
     (sample_row\<lparr>eo_metadata := [''expires_at'' \<mapsto> MetaString ''soon'']\<rparr>) (utc_at 0) (utc_at 0) =
     (sample_row\<lparr>eo_metadata := [''expires_at'' \<mapsto> MetaString ''soon'']\<rparr>, [], Inl e)"
  by (rule conjunct2 [OF signed_url_gate, rule_format]) (simp add: deadline_readable_def expires_at_of_def meta_get_def)

end
