(* ===== verification/Evidence_Request.thy ===== *)
theory Evidence_Request
  imports Rule_Engine Evidence_State
begin

text \<open>
  The linkage of a rule event to its durable evidence request: the builder of the request
  (\<open>rules/evidence_request.py\<close>) and the service with its idempotent insert
  (\<open>application/services/evidence_linkage.py\<close>, \<open>repositories/evidence_linkage.py\<close>). The payload of an
  envelope is one of the canonical payload classes; the dictionaries of a deserialized envelope are parsed by pydantic
  and not modelled.
\<close>

subsection \<open>The canonical payloads\<close>

fun payload_event_type :: "rule_payload \<Rightarrow> rule_event_type" where
  "payload_event_type (OccupancySessionPayload _) = OCCUPANCY_SESSION"
| "payload_event_type (DwellThresholdPayload _) = DWELL_THRESHOLD"
| "payload_event_type (QueueCandidatePayload _) = QUEUE_CANDIDATE"
| "payload_event_type (ServiceGapPayload _) = SERVICE_GAP_CANDIDATE"
| "payload_event_type (TurnoverDelayPayload _) = TURNOVER_DELAY"
| "payload_event_type (DataQualityPayload _) = DATA_QUALITY"

record payload_provenance =
  pp_tenant_id :: uuid
  pp_venue_id :: uuid
  pp_session_id :: uuid
  pp_camera_id :: "uuid option"
  pp_configuration_version_id :: uuid
  pp_rule_id :: string
  pp_rule_version :: string

fun provenance_of :: "rule_payload \<Rightarrow> payload_provenance" where
  "provenance_of (OccupancySessionPayload p) = \<lparr>pp_tenant_id = op_tenant_id p, pp_venue_id = op_venue_id p,
     pp_session_id = op_session_id p, pp_camera_id = Some (op_camera_id p),
     pp_configuration_version_id = op_configuration_version_id p, pp_rule_id = op_rule_id p, pp_rule_version = op_rule_version p\<rparr>"
| "provenance_of (DwellThresholdPayload p) = \<lparr>pp_tenant_id = dp_tenant_id p, pp_venue_id = dp_venue_id p,
     pp_session_id = dp_session_id p, pp_camera_id = Some (dp_camera_id p),
     pp_configuration_version_id = dp_configuration_version_id p, pp_rule_id = dp_rule_id p, pp_rule_version = dp_rule_version p\<rparr>"
| "provenance_of (QueueCandidatePayload p) = \<lparr>pp_tenant_id = qp_tenant_id p, pp_venue_id = qp_venue_id p,
     pp_session_id = qp_session_id p, pp_camera_id = Some (qp_camera_id p),
     pp_configuration_version_id = qp_configuration_version_id p, pp_rule_id = qp_rule_id p, pp_rule_version = qp_rule_version p\<rparr>"
| "provenance_of (ServiceGapPayload p) = \<lparr>pp_tenant_id = gp_tenant_id p, pp_venue_id = gp_venue_id p,
     pp_session_id = gp_session_id p, pp_camera_id = Some (gp_camera_id p),
     pp_configuration_version_id = gp_configuration_version_id p, pp_rule_id = gp_rule_id p, pp_rule_version = gp_rule_version p\<rparr>"
| "provenance_of (TurnoverDelayPayload p) = \<lparr>pp_tenant_id = tp_tenant_id p, pp_venue_id = tp_venue_id p,
     pp_session_id = tp_session_id p, pp_camera_id = Some (tp_camera_id p),
     pp_configuration_version_id = tp_configuration_version_id p, pp_rule_id = tp_rule_id p, pp_rule_version = tp_rule_version p\<rparr>"
| "provenance_of (DataQualityPayload p) = \<lparr>pp_tenant_id = ip_tenant_id p, pp_venue_id = ip_venue_id p,
     pp_session_id = ip_session_id p, pp_camera_id = ip_camera_id p,
     pp_configuration_version_id = ip_configuration_version_id p, pp_rule_id = ip_rule_id p, pp_rule_version = ip_rule_version p\<rparr>"

text \<open>The one field of each payload that \<open>_interval_start\<close> finds.\<close>

fun interval_start :: "rule_payload \<Rightarrow> datetime option" where
  "interval_start (DwellThresholdPayload p) = Some (dp_dwell_start_time p)"
| "interval_start (QueueCandidatePayload p) = Some (qp_waiting_start_time p)"
| "interval_start (ServiceGapPayload p) = Some (gp_gap_start_time p)"
| "interval_start (TurnoverDelayPayload p) = Some (tp_turnover_start_time p)"
| "interval_start (OccupancySessionPayload p) = Some (op_occupancy_time p)"
| "interval_start (DataQualityPayload p) = None"

text \<open>The optional fields that go to the metadata.\<close>

fun payload_metadata :: "rule_payload \<Rightarrow> (string \<times> string option) list" where
  "payload_metadata (OccupancySessionPayload p) =
     (case op_spatial_context_id p of None \<Rightarrow> [] | Some c \<Rightarrow> [(''spatial_context_id'', Some c)])"
| "payload_metadata (DwellThresholdPayload p) =
     (case dp_spatial_context_id p of None \<Rightarrow> [] | Some c \<Rightarrow> [(''spatial_context_id'', Some c)])"
| "payload_metadata (QueueCandidatePayload p) = (''track_id'', Some (str_uuid (qp_track_id p))) #
     (case qp_spatial_context_id p of None \<Rightarrow> [] | Some c \<Rightarrow> [(''spatial_context_id'', Some c)])"
| "payload_metadata (ServiceGapPayload p) = (''track_id'', Some (str_uuid (gp_track_id p))) #
     (case gp_service_area_id p of None \<Rightarrow> [] | Some c \<Rightarrow> [(''service_area_id'', Some c)])"
| "payload_metadata (TurnoverDelayPayload p) = (''track_id'', Some (str_uuid (tp_track_id p))) #
     (case tp_spatial_context_id p of None \<Rightarrow> [] | Some c \<Rightarrow> [(''spatial_context_id'', Some c)])"
| "payload_metadata (DataQualityPayload p) =
     (case ip_track_id p of None \<Rightarrow> [] | Some t \<Rightarrow> [(''track_id'', Some (str_uuid t))]) @
     (case ip_spatial_context_id p of None \<Rightarrow> [] | Some c \<Rightarrow> [(''spatial_context_id'', Some c)])"

definition payload_of :: "event_envelope \<Rightarrow> rule_error + rule_payload" where
  "payload_of envelope =
     (if \<not> list_ex (\<lambda>t. event_type_value t = ee_event_type envelope)
         [OCCUPANCY_SESSION, DWELL_THRESHOLD, QUEUE_CANDIDATE, SERVICE_GAP_CANDIDATE, TURNOVER_DELAY, DATA_QUALITY]
      then Inl InvalidEvidenceRequest
      else if event_type_value (payload_event_type (ee_payload envelope)) \<noteq> ee_event_type envelope
      then Inl InvalidEvidenceRequest
      else Inr (ee_payload envelope))"

subsection \<open>The builder\<close>

record evidence_request_params =
  rq_tenant_id :: uuid
  rq_venue_id :: uuid
  rq_video_session_id :: uuid
  rq_camera_id :: "uuid option"
  rq_video_asset_id :: "uuid option"
  rq_start_time :: "datetime option"
  rq_end_time :: "datetime option"
  rq_start_frame :: "int option"
  rq_end_frame :: "int option"
  rq_detector_version :: "string option"
  rq_tracker_version :: "string option"

definition scope_params_from_envelope :: "event_envelope \<Rightarrow> rule_error + evidence_request_params" where
  "scope_params_from_envelope envelope =
     rbind (payload_of envelope) (\<lambda>payload. let p = provenance_of payload in
       Inr \<lparr>rq_tenant_id = pp_tenant_id p, rq_venue_id = pp_venue_id p, rq_video_session_id = pp_session_id p,
            rq_camera_id = pp_camera_id p, rq_video_asset_id = None, rq_start_time = None, rq_end_time = None,
            rq_start_frame = None, rq_end_frame = None, rq_detector_version = None, rq_tracker_version = None\<rparr>)"

definition request_start :: "event_envelope \<Rightarrow> rule_payload \<Rightarrow> evidence_request_params \<Rightarrow> datetime" where
  "request_start envelope payload params = (case rq_start_time params of Some t \<Rightarrow> t
     | None \<Rightarrow> (case interval_start payload of Some t \<Rightarrow> t | None \<Rightarrow> ee_event_time envelope))"

definition request_end :: "event_envelope \<Rightarrow> evidence_request_params \<Rightarrow> datetime" where
  "request_end envelope params = (case rq_end_time params of Some t \<Rightarrow> t | None \<Rightarrow> ee_event_time envelope)"

definition built_request :: "stdlib \<Rightarrow> event_envelope \<Rightarrow> rule_payload \<Rightarrow> evidence_request_params \<Rightarrow> uuid option \<Rightarrow> evidence_ref" where
  "built_request L envelope payload params camera =
     (let p = provenance_of payload; start_time = request_start envelope payload params; end_time = request_end envelope params in
      \<lparr>ev_ref_id = evidence_id L (ee_event_id envelope) (pp_session_id p), ev_schema_version = SCHEMA_VERSION,
       ev_ref_type = VIDEO_CLIP, ev_ref_uri = evidence_uri (pp_tenant_id p) (pp_session_id p) (pp_rule_id p),
       ev_event_id = ee_event_id envelope, ev_event_time = ee_event_time envelope,
       ev_tenant_id = Some (pp_tenant_id p), ev_venue_id = Some (pp_venue_id p),
       ev_video_asset_id = rq_video_asset_id params, ev_video_session_id = Some (pp_session_id p),
       ev_camera_id = camera, ev_start_time = Some start_time, ev_end_time = Some end_time,
       ev_start_frame = rq_start_frame params, ev_end_frame = rq_end_frame params,
       ev_configuration_version_id = Some (pp_configuration_version_id p),
       ev_detector_version = rq_detector_version params, ev_tracker_version = rq_tracker_version params,
       ev_rule_id = Some (pp_rule_id p), ev_rule_version = Some (pp_rule_version p),
       ev_checksum = None, ev_created_at = None,
       ev_metadata =
         [(''tenant_id'', Some (str_uuid (pp_tenant_id p))), (''venue_id'', Some (str_uuid (pp_venue_id p))),
          (''session_id'', Some (str_uuid (pp_session_id p))), (''event_id'', Some (str_uuid (ee_event_id envelope))),
          (''event_time'', Some (std_isoformat L (ee_event_time envelope))),
          (''interval_start'', Some (std_isoformat L start_time)), (''interval_end'', Some (std_isoformat L end_time)),
          (''source'', Some (ee_source envelope)),
          (''configuration_version_id'', Some (str_uuid (pp_configuration_version_id p))),
          (''rule_id'', Some (pp_rule_id p)), (''rule_version'', Some (pp_rule_version p))] @ payload_metadata payload\<rparr>)"

definition build_request :: "stdlib \<Rightarrow> event_envelope \<Rightarrow> evidence_request_params \<Rightarrow> evidence_requirement \<Rightarrow>
    rule_error + evidence_ref option" where
  "build_request L envelope params requirement =
     (if requirement = EVIDENCE_NONE then Inr None
      else rbind (payload_of envelope) (\<lambda>payload.
        let p = provenance_of payload;
            camera = (case rq_camera_id params of Some c \<Rightarrow> Some c | None \<Rightarrow> pp_camera_id p)
        in if rq_tenant_id params \<noteq> pp_tenant_id p then Inl InvalidEvidenceRequest
           else if rq_venue_id params \<noteq> pp_venue_id p then Inl InvalidEvidenceRequest
           else if rq_video_session_id params \<noteq> pp_session_id p then Inl InvalidEvidenceRequest
           else if rq_camera_id params \<noteq> None \<and> pp_camera_id p \<noteq> None \<and> rq_camera_id params \<noteq> pp_camera_id p
           then Inl InvalidEvidenceRequest
           else if dt_less (request_end envelope params) (request_start envelope payload params) then Inl InvalidEvidenceRequest
           else if camera = None \<and> rq_video_asset_id params = None then Inl InvalidEvidenceRequest
           else rbind (validated ''EvidenceRef'' evidence_ref_valid (built_request L envelope payload params camera)) (\<lambda>ref.
             Inr (Some ref))))"

subsection \<open>The linkage\<close>

text \<open>The row the worker claims: the columns, the processing state and the request itself.\<close>

record request_row =
  lk_ref_id :: uuid
  lk_schema_version :: string
  lk_tenant_id :: uuid
  lk_venue_id :: uuid
  lk_ref_type :: evidence_type
  lk_ref_uri :: string
  lk_event_time :: datetime
  lk_event_id :: uuid
  lk_session_id :: "uuid option"
  lk_camera_id :: "uuid option"
  lk_processing_state :: processing_state
  lk_evidence_request :: evidence_ref

definition to_request_row :: "evidence_ref \<Rightarrow> rule_error + request_row" where
  "to_request_row ref =
     (case (ev_tenant_id ref, ev_venue_id ref) of
        (Some tenant, Some venue) \<Rightarrow> Inr \<lparr>lk_ref_id = ev_ref_id ref, lk_schema_version = ev_schema_version ref,
          lk_tenant_id = tenant, lk_venue_id = venue, lk_ref_type = ev_ref_type ref, lk_ref_uri = ev_ref_uri ref,
          lk_event_time = ev_event_time ref, lk_event_id = ev_event_id ref, lk_session_id = ev_video_session_id ref,
          lk_camera_id = ev_camera_id ref, lk_processing_state = REQUESTED, lk_evidence_request = ref\<rparr>
      | _ \<Rightarrow> Inl InvalidEvidenceRequest)"

text \<open>The table of requests by primary key; an insert that conflicts returns the row that is there.\<close>

type_synonym request_table = "uuid \<rightharpoonup> request_row"

definition link_row :: "request_table \<Rightarrow> request_row \<Rightarrow> request_table \<times> request_row" where
  "link_row rows row = (case rows (lk_ref_id row) of None \<Rightarrow> (rows(lk_ref_id row \<mapsto> row), row) | Some existing \<Rightarrow> (rows, existing))"

definition link_event :: "stdlib \<Rightarrow> request_table \<Rightarrow> event_envelope \<Rightarrow> evidence_request_params option \<Rightarrow>
    evidence_requirement \<Rightarrow> rule_error + request_table \<times> request_row option" where
  "link_event L rows envelope params requirement =
     rbind (case params of Some p \<Rightarrow> Inr p | None \<Rightarrow> scope_params_from_envelope envelope) (\<lambda>p.
     rbind (build_request L envelope p requirement) (\<lambda>built.
       (case built of None \<Rightarrow> Inr (rows, None)
        | Some ref \<Rightarrow> rbind (to_request_row ref) (\<lambda>row.
            let (rows', linked) = link_row rows row in Inr (rows', Some linked)))))"

end
