(* ===== verification/Evidence_Request_Facts.thy ===== *)
theory Evidence_Request_Facts
  imports Evidence_Request Data_Quality_Facts
begin

text \<open>
  The request that the linkage builds from an event is the request that the engine attached to it, and one event has
  one row whatever is delivered again.
\<close>

subsection \<open>What the operational events carry\<close>

definition key_provenance :: "rule_definition \<Rightarrow> rule_evaluation_input \<Rightarrow> payload_provenance" where
  "key_provenance rule inp = (let key = primary_key inp in
     \<lparr>pp_tenant_id = key_tenant_id key, pp_venue_id = key_venue_id key, pp_session_id = key_session_id key,
      pp_camera_id = Some (key_camera_id key), pp_configuration_version_id = ri_configuration_version_id inp,
      pp_rule_id = rd_rule_id rule, pp_rule_version = rd_rule_version rule\<rparr>)"

definition carries :: "rule_definition \<Rightarrow> rule_evaluation_input \<Rightarrow> rule_event_type \<Rightarrow>
    rule_error + rule_evaluation_result \<Rightarrow> bool" where
  "carries rule inp t m = (\<forall>r e. m = Inr r \<longrightarrow> rr_event r = Some e \<longrightarrow>
     provenance_of (ee_payload e) = key_provenance rule inp \<and> payload_event_type (ee_payload e) = t \<and>
     ee_event_time e = ri_event_time inp \<and> payload_valid (ee_payload e) \<and>
     ee_event_type e = event_type_value (rd_output_event_type rule))"

lemma carries_none: "(\<And>r. m = Inr r \<Longrightarrow> rr_event r = None) \<Longrightarrow> carries rule inp t m"
  by (auto simp: carries_def)

lemma carries_invalid [intro]: "carries rule inp t (invalid_result rule inp reason)"
  by (rule carries_none) (auto dest!: rule_result_Inr)

lemma carries_no_match [intro]: "carries rule inp t (no_match_result rule inp key)"
  by (rule carries_none) (auto dest!: rule_result_Inr)

lemma carries_match [intro]:
  "provenance_of payload = key_provenance rule inp \<Longrightarrow> payload_event_type payload = t \<Longrightarrow>
     carries rule inp t (match_result L rule inp key payload)"
  by (auto simp: carries_def match_result_def Let_def dest!: rule_result_Inr)

lemma carries_Inl [intro]: "carries rule inp t (Inl e)"
  by (simp add: carries_def)

lemma carries_evaluators:
  "carries rule inp OCCUPANCY_SESSION (occupancy_session_evaluator L rule inp)"
  "carries rule inp DWELL_THRESHOLD (dwell_threshold_evaluator L rule inp)"
  "carries rule inp SERVICE_GAP_CANDIDATE (service_gap_evaluator L rule inp)"
  "carries rule inp TURNOVER_DELAY (turnover_delay_evaluator L rule inp)"
  "carries rule inp QUEUE_CANDIDATE (queue_evaluate L extra rule inp)"
  unfolding occupancy_session_evaluator_def dwell_threshold_evaluator_def service_gap_evaluator_def
    turnover_delay_evaluator_def occupancy_session_event_def queue_evaluate_def
  by (auto simp: primary_key_def key_provenance_def Let_def split: temporal_fact.split option.split)

lemma data_quality_evaluator_cases:
  assumes "data_quality_evaluator L rule inp = Inr r"
  obtains (silent) "rr_event r = None" "rr_evidence_requests r = []"
    | (reports) findings e evidence where "data_quality_event L rule inp (hd (ri_facts inp)) findings = Inr e"
      "rr_event r = Some e" "rr_evidence_requests r = [evidence]"
      "deterministic_evidence_ref L rule inp (ee_event_id e) = Inr evidence"
proof (cases "known_contexts_of (ri_configuration inp ''known_spatial_contexts'')")
  case None
  with assms show thesis by (auto simp: data_quality_evaluator_def Let_def intro!: silent dest!: rule_result_Inr)
next
  case (Some known)
  with assms obtain registry where reg: "build_quality_check_registry known (Some (ri_configuration_version_id inp)) = Inr registry"
    by (auto simp: data_quality_evaluator_def Let_def)
  show thesis
  proof (cases "quality_findings registry (hd (ri_facts inp)) = []")
    case True
    with assms Some reg show thesis
      by (auto simp: data_quality_evaluator_def Let_def intro!: silent dest!: rule_result_Inr)
  next
    case False
    with assms Some reg obtain e r1 evidence where
      event: "data_quality_event L rule inp (hd (ri_facts inp))
        (sort_key qf_quality_code (quality_findings registry (hd (ri_facts inp)))) = Inr e"
      and "rule_result rule inp MATCH (Some e) (Some (fact_key (hd (ri_facts inp)))) None = Inr r1"
      and "r = r1\<lparr>rr_evidence_requests := [evidence]\<rparr>" "deterministic_evidence_ref L rule inp (ee_event_id e) = Inr evidence"
      by (auto simp: data_quality_evaluator_def Let_def)
    then show thesis by (intro reports [OF event]) (auto dest!: rule_result_Inr)
  qed
qed

lemma carries_data_quality: "carries rule inp DATA_QUALITY (data_quality_evaluator L rule inp)"
proof (unfold carries_def, intro allI impI)
  fix r e assume run: "data_quality_evaluator L rule inp = Inr r" and e: "rr_event r = Some e"
  from run obtain findings where "data_quality_event L rule inp (hd (ri_facts inp)) findings = Inr e"
    by (cases rule: data_quality_evaluator_cases) (use e in auto)
  then show "provenance_of (ee_payload e) = key_provenance rule inp \<and> payload_event_type (ee_payload e) = DATA_QUALITY \<and>
     ee_event_time e = ri_event_time inp \<and> payload_valid (ee_payload e) \<and>
     ee_event_type e = event_type_value (rd_output_event_type rule)"
    by (auto simp: data_quality_event_def key_provenance_def primary_key_def Let_def)
qed

text \<open>The evaluators of the wiring with the type of event they build.\<close>

definition typed_evaluators :: "stdlib \<Rightarrow> (rule_evaluator \<times> rule_event_type) set" where
  "typed_evaluators L = {(occupancy_session_evaluator L, OCCUPANCY_SESSION), (dwell_threshold_evaluator L, DWELL_THRESHOLD),
     (queue_candidate_evaluator L, QUEUE_CANDIDATE), (queue_candidate_evaluator_v2 L, QUEUE_CANDIDATE),
     (service_gap_evaluator L, SERVICE_GAP_CANDIDATE), (turnover_delay_evaluator L, TURNOVER_DELAY),
     (data_quality_evaluator L, DATA_QUALITY)}"

lemma typed_carries: "(f, t) \<in> typed_evaluators L \<Longrightarrow> carries rule inp t (f rule inp)"
  using carries_evaluators carries_data_quality
  by (auto simp: typed_evaluators_def queue_candidate_evaluator_def queue_candidate_evaluator_v2_def)

lemma typed_requests:
  assumes "(f, t) \<in> typed_evaluators L" "f rule inp = Inr r"
  shows "rr_evidence_requests r = [] \<or> (\<exists>e ref. rr_event r = Some e \<and> rr_evidence_requests r = [ref] \<and>
    deterministic_evidence_ref L rule inp (ee_event_id e) = Inr ref)"
proof (cases "f = data_quality_evaluator L")
  case True
  with assms(2) show ?thesis by (auto elim: data_quality_evaluator_cases)
next
  case False
  with assms show ?thesis
    using occupancy_session.leaves_evidence [of L rule inp r] dwell_threshold.leaves_evidence [of L rule inp r]
      queue_candidate.leaves_evidence [of L rule inp r] queue_candidate_v2.leaves_evidence [of L rule inp r]
      service_gap.leaves_evidence [of L rule inp r] turnover_delay.leaves_evidence [of L rule inp r]
    by (auto simp: typed_evaluators_def)
qed

text \<open>The event and the one request of a match.\<close>

lemma engine_request:
  assumes "(f, t) \<in> typed_evaluators L" "registry_get g i v = Some rule" "rd_evidence_requirement rule = EVIDENCE_REQUIRED"
    and "map_of evs (rd_evaluator_id rule) = Some f" "evaluate_rule L g evs i v inp = Inr r" "rr_status r = MATCH"
  obtains e ref where "rr_event r = Some e" "rr_evidence_requests r = [ref]"
    "deterministic_evidence_ref L rule inp (ee_event_id e) = Inr ref"
    "provenance_of (ee_payload e) = key_provenance rule inp" "payload_event_type (ee_payload e) = t"
    "ee_event_time e = ri_event_time inp" "payload_valid (ee_payload e)"
    "ee_event_type e = event_type_value (rd_output_event_type rule)"
proof -
  from assms(5) obtain rule' f' r0 where st: "registry_get g i v = Some rule'" "map_of evs (rd_evaluator_id rule') = Some f'"
    "f' rule' inp = Inr r0" "apply_evidence_policy L rule' inp r0 = Inr r" by (rule evaluate_rule_stages)
  with assms(2,4) have same: "rule' = rule" "f' = f" by simp_all
  from apply_evidence_policy_Inr [OF st(4)] obtain refs where r: "r = r0\<lparr>rr_evidence_requests := refs\<rparr>" by blast
  with assms(6) have m: "rr_status r0 = MATCH" by simp
  with apply_evidence_policy_Inr [OF st(4)] obtain e where e: "rr_event r0 = Some e" by auto
  have req: "\<exists>ref. refs = [ref] \<and> deterministic_evidence_ref L rule inp (ee_event_id e) = Inr ref"
  proof (cases "rr_evidence_requests r0 = []")
    case True
    have "apply_evidence_policy L rule inp r0 =
        rbind (deterministic_evidence_ref L rule inp (ee_event_id e)) (\<lambda>request. Inr (r0\<lparr>rr_evidence_requests := [request]\<rparr>))"
      by (simp add: apply_evidence_policy_def m e assms(3) True)
    with st(4) same have "rbind (deterministic_evidence_ref L rule inp (ee_event_id e))
        (\<lambda>request. Inr (r0\<lparr>rr_evidence_requests := [request]\<rparr>)) = Inr r" by simp
    then obtain ref where ref: "deterministic_evidence_ref L rule inp (ee_event_id e) = Inr ref"
      "r0\<lparr>rr_evidence_requests := [ref]\<rparr> = r" unfolding rbind_eq_Inr by blast
    have "refs = rr_evidence_requests r" by (simp add: r)
    also have "\<dots> = [ref]" by (simp flip: ref(2))
    finally show ?thesis using ref(1) by blast
  next
    case False
    with st(4) same m e assms(3) have "r = r0" by (simp add: apply_evidence_policy_def)
    have "refs = rr_evidence_requests r" by (simp add: r)
    with \<open>r = r0\<close> have "refs = rr_evidence_requests r0" by simp
    with typed_requests [OF assms(1)] st(3) same e False show ?thesis by fastforce
  qed
  have "carries rule inp t (Inr r0)" using typed_carries [OF assms(1), of rule inp] st(3) same by simp
  with e have c: "provenance_of (ee_payload e) = key_provenance rule inp" "payload_event_type (ee_payload e) = t"
    "ee_event_time e = ri_event_time inp" "payload_valid (ee_payload e)"
    "ee_event_type e = event_type_value (rd_output_event_type rule)"
    unfolding carries_def by blast+
  from req obtain ref where ref: "refs = [ref]" "deterministic_evidence_ref L rule inp (ee_event_id e) = Inr ref" by blast
  show thesis by (rule that [OF _ _ ref(2) c]) (simp_all add: r e ref(1))
qed

definition same_request :: "evidence_ref \<Rightarrow> evidence_ref \<Rightarrow> bool" where
  "same_request a b = (ev_ref_id a = ev_ref_id b \<and> ev_ref_type a = ev_ref_type b \<and> ev_ref_uri a = ev_ref_uri b \<and>
     ev_event_id a = ev_event_id b \<and> ev_event_time a = ev_event_time b \<and> ev_tenant_id a = ev_tenant_id b \<and>
     ev_venue_id a = ev_venue_id b \<and> ev_video_session_id a = ev_video_session_id b \<and> ev_camera_id a = ev_camera_id b \<and>
     ev_configuration_version_id a = ev_configuration_version_id b \<and> ev_rule_id a = ev_rule_id b \<and>
     ev_rule_version a = ev_rule_version b)"

text \<open>The interval of the episode ends before it begins.\<close>

definition starts_late :: "event_envelope \<Rightarrow> bool" where
  "starts_late e = (case interval_start (ee_payload e) of None \<Rightarrow> False | Some s \<Rightarrow> dt_less (ee_event_time e) s)"

lemma interval_start_aware: "payload_valid p \<Longrightarrow> interval_start p = Some s \<Longrightarrow> aware s"
  by (cases p) auto

lemma payload_of_ok: "ee_event_type e = event_type_value (payload_event_type (ee_payload e)) \<Longrightarrow> payload_of e = Inr (ee_payload e)"
  by (cases "payload_event_type (ee_payload e)") (simp_all add: payload_of_def)

text \<open>The request built from an event with the scope of its payload.\<close>

definition default_params :: "payload_provenance \<Rightarrow> evidence_request_params" where
  "default_params p = \<lparr>rq_tenant_id = pp_tenant_id p, rq_venue_id = pp_venue_id p, rq_video_session_id = pp_session_id p,
     rq_camera_id = pp_camera_id p, rq_video_asset_id = None, rq_start_time = None, rq_end_time = None,
     rq_start_frame = None, rq_end_frame = None, rq_detector_version = None, rq_tracker_version = None\<rparr>"

lemma build_default:
  assumes "deterministic_evidence_ref L rule inp (ee_event_id e) = Inr ref"
    and "provenance_of (ee_payload e) = key_provenance rule inp" "ee_event_time e = ri_event_time inp"
    and "payload_valid (ee_payload e)" "ee_event_type e = event_type_value (payload_event_type (ee_payload e))"
  shows "starts_late e \<Longrightarrow> build_request L e (default_params (key_provenance rule inp)) EVIDENCE_REQUIRED = Inl InvalidEvidenceRequest"
    and "\<not> starts_late e \<Longrightarrow> \<exists>built. build_request L e (default_params (key_provenance rule inp)) EVIDENCE_REQUIRED = Inr (Some built) \<and>
      same_request ref built \<and> ev_tenant_id built \<noteq> None \<and> ev_venue_id built \<noteq> None"
proof -
  let ?params = "default_params (key_provenance rule inp)"
  let ?built = "built_request L e (ee_payload e) ?params (Some (key_camera_id (primary_key inp)))"
  have times: "request_end e ?params = ee_event_time e"
    "request_start e (ee_payload e) ?params = (case interval_start (ee_payload e) of Some t \<Rightarrow> t | None \<Rightarrow> ee_event_time e)"
    by (simp_all add: request_end_def request_start_def default_params_def)
  have late: "dt_less (request_end e ?params) (request_start e (ee_payload e) ?params) = starts_late e"
    by (simp add: times starts_late_def dt_less_def split: option.split)
  have pars: "rq_tenant_id ?params = pp_tenant_id (key_provenance rule inp)" "rq_venue_id ?params = pp_venue_id (key_provenance rule inp)"
    "rq_video_session_id ?params = pp_session_id (key_provenance rule inp)"
    "rq_camera_id ?params = Some (key_camera_id (primary_key inp))" "rq_video_asset_id ?params = None"
    "rq_start_frame ?params = None" "rq_end_frame ?params = None" "rq_detector_version ?params = None"
    "rq_tracker_version ?params = None" "pp_rule_version (key_provenance rule inp) = rd_rule_version rule"
    "pp_camera_id (key_provenance rule inp) = Some (key_camera_id (primary_key inp))"
    by (simp_all add: default_params_def key_provenance_def Let_def)
  have build: "build_request L e ?params EVIDENCE_REQUIRED =
     (if starts_late e then Inl InvalidEvidenceRequest
      else rbind (validated ''EvidenceRef'' evidence_ref_valid ?built) (\<lambda>ref. Inr (Some ref)))"
    unfolding build_request_def by (simp add: payload_of_ok [OF assms(5)] assms(2) Let_def pars late)
  then show "build_request L e ?params EVIDENCE_REQUIRED = Inl InvalidEvidenceRequest" if "starts_late e"
    using that by simp
  have same: "same_request ref ?built" "ev_tenant_id ?built \<noteq> None" "ev_venue_id ?built \<noteq> None"
    using assms(1-3) by (auto simp: deterministic_evidence_ref_def same_request_def built_request_def key_provenance_def Let_def)
  have valid: "evidence_ref_valid ref" and ref_rule: "ev_rule_version ref = Some (rd_rule_version rule)"
    "ev_rule_id ref = Some (rd_rule_id rule)"
    using assms(1) by (auto simp: deterministic_evidence_ref_def Let_def)
  have aware: "aware (ee_event_time e)" using valid assms(1,3) by (auto simp: deterministic_evidence_ref_def evidence_ref_valid_def Let_def)
  have "evidence_ref_valid ?built" if "\<not> starts_late e"
  proof -
    have "aware (request_start e (ee_payload e) ?params)"
      unfolding times using aware interval_start_aware [OF assms(4)] by (simp split: option.split)
    moreover have "aware (request_end e ?params)" unfolding times by (rule aware)
    moreover have "\<not> dt_less (request_end e ?params) (request_start e (ee_payload e) ?params)"
      using late that by simp
    moreover have "evidence_rule_version_ok (rd_rule_version rule)" using valid ref_rule by (simp add: evidence_ref_valid_def)
    moreover have "validate_schema_version SCHEMA_VERSION"
      using valid assms(1) by (auto simp: deterministic_evidence_ref_def evidence_ref_valid_def Let_def)
    ultimately show ?thesis using aware assms(2)
      by (simp add: evidence_ref_valid_def built_request_def evidence_uri_def validate_evidence_chain_def
          media_evidence_types_def pars Let_def)
  qed
  then show "\<exists>built. build_request L e ?params EVIDENCE_REQUIRED = Inr (Some built) \<and>
      same_request ref built \<and> ev_tenant_id built \<noteq> None \<and> ev_venue_id built \<noteq> None" if "\<not> starts_late e"
    using build same that by (intro exI [of _ ?built]) simp
qed

lemma default_scope:
  assumes "provenance_of (ee_payload e) = key_provenance rule inp" "ee_event_type e = event_type_value (payload_event_type (ee_payload e))"
  shows "scope_params_from_envelope e = Inr (default_params (key_provenance rule inp))"
  using assms by (simp add: scope_params_from_envelope_def payload_of_ok default_params_def Let_def)

lemma to_request_row_ok:
  assumes "ev_tenant_id ref \<noteq> None" "ev_venue_id ref \<noteq> None"
  shows "\<exists>row. to_request_row ref = Inr row \<and> lk_ref_id row = ev_ref_id ref \<and> lk_event_id row = ev_event_id ref \<and>
    lk_processing_state row = REQUESTED \<and> lk_evidence_request row = ref"
  using assms by (auto simp: to_request_row_def)

text \<open>C13: The evidence that is fetched is the evidence the engine asked for: linking the event of any match of an
  operational rule that requires evidence, with the scope its payload carries, is refused exactly when the episode
  starts after the event, and otherwise leaves a row under the identifier of the one request the engine attached; a
  fresh row is queued as REQUESTED and its request agrees with the one of the engine in the identifier, the type and
  location, the event, the tenant, venue, session and camera, the configuration version and the rule.\<close>

theorem engine_request_is_linked:
  assumes "(f, rd_output_event_type rule) \<in> typed_evaluators L" "registry_get g i v = Some rule"
    and "rd_evidence_requirement rule = EVIDENCE_REQUIRED" "map_of evs (rd_evaluator_id rule) = Some f"
    and "evaluate_rule L g evs i v inp = Inr r" "rr_status r = MATCH"
  shows "\<exists>e ref. rr_event r = Some e \<and> rr_evidence_requests r = [ref] \<and>
    (if starts_late e then link_event L rows e None EVIDENCE_REQUIRED = Inl InvalidEvidenceRequest
     else \<exists>rows' row. link_event L rows e None EVIDENCE_REQUIRED = Inr (rows', Some row) \<and> rows' (ev_ref_id ref) = Some row \<and>
       (rows (ev_ref_id ref) = None \<longrightarrow> rows' = rows(ev_ref_id ref \<mapsto> row) \<and> lk_processing_state row = REQUESTED \<and>
          same_request ref (lk_evidence_request row)))"
proof -
  from assms obtain e ref where e: "rr_event r = Some e" "rr_evidence_requests r = [ref]"
    "deterministic_evidence_ref L rule inp (ee_event_id e) = Inr ref"
    "provenance_of (ee_payload e) = key_provenance rule inp"
    "payload_event_type (ee_payload e) = rd_output_event_type rule" "ee_event_time e = ri_event_time inp"
    "payload_valid (ee_payload e)" "ee_event_type e = event_type_value (rd_output_event_type rule)"
    by (rule engine_request)
  from e(5,8) have t: "ee_event_type e = event_type_value (payload_event_type (ee_payload e))" by simp
  note build = build_default [OF e(3,4,6,7) t] and scope = default_scope [OF e(4) t]
  show ?thesis
  proof (cases "starts_late e")
    case True
    with build(1) e(1,2) show ?thesis by (simp add: link_event_def scope)
  next
    case False
    from build(2) [OF this] obtain built where b:
      "build_request L e (default_params (key_provenance rule inp)) EVIDENCE_REQUIRED = Inr (Some built)"
      "same_request ref built" "ev_tenant_id built \<noteq> None" "ev_venue_id built \<noteq> None" by blast
    from to_request_row_ok [OF b(3,4)] obtain row where row: "to_request_row built = Inr row"
      "lk_ref_id row = ev_ref_id built" "lk_processing_state row = REQUESTED" "lk_evidence_request row = built" by blast
    have id: "lk_ref_id row = ev_ref_id ref" using b(2) row(2) by (simp add: same_request_def)
    have link: "link_event L rows e None EVIDENCE_REQUIRED =
        (let (rows', linked) = link_row rows row in Inr (rows', Some linked))"
      by (simp add: link_event_def scope b(1) row(1))
    show ?thesis
    proof (cases "rows (ev_ref_id ref)")
      case None
      then have "link_event L rows e None EVIDENCE_REQUIRED = Inr (rows(ev_ref_id ref \<mapsto> row), Some row)"
        by (simp add: link link_row_def id)
      with None False e(1,2) b(2) row(3,4) show ?thesis by auto
    next
      case (Some existing)
      then have "link_event L rows e None EVIDENCE_REQUIRED = Inr (rows, Some existing)"
        by (simp add: link link_row_def id)
      with Some False e(1,2) show ?thesis by auto
    qed
  qed
qed

lemma build_request_id:
  "build_request L e p q = Inr (Some ref) \<Longrightarrow>
     \<exists>payload. payload_of e = Inr payload \<and> ev_ref_id ref = evidence_id L (ee_event_id e) (pp_session_id (provenance_of payload))"
  by (auto simp: build_request_def built_request_def Let_def split: if_splits)

lemma to_request_row_id: "to_request_row ref = Inr row \<Longrightarrow> lk_ref_id row = ev_ref_id ref"
  by (auto simp: to_request_row_def split: option.splits)

lemma link_event_Some:
  assumes "link_event L t e pp qq = Inr (t', Some w)"
  shows "\<exists>payload new. payload_of e = Inr payload \<and> link_row t new = (t', w) \<and>
    lk_ref_id new = evidence_id L (ee_event_id e) (pp_session_id (provenance_of payload))"
proof -
  from assms obtain p built where p: "build_request L e p qq = Inr built"
    and rest: "(case built of None \<Rightarrow> Inr (t, None)
        | Some ref \<Rightarrow> rbind (to_request_row ref) (\<lambda>row.
            let (rows', linked) = link_row t row in Inr (rows', Some linked))) = Inr (t', Some w)"
    unfolding link_event_def rbind_eq_Inr by blast
  from rest obtain ref where ref: "built = Some ref" by (cases built) auto
  from rest obtain row where row: "to_request_row ref = Inr row"
    and linked: "(let (rows', linked) = link_row t row in Inr (rows', Some linked)) = (Inr (t', Some w) :: rule_error + request_table \<times> request_row option)"
    by (auto simp: ref)
  from linked have now: "link_row t row = (t', w)" by (cases "link_row t row") simp
  from build_request_id [OF p [unfolded ref]] to_request_row_id [OF row] now show ?thesis by auto
qed

lemma link_event_None:
  assumes "link_event L t e pp qq = Inr (t', None)"
  shows "t' = t"
proof -
  from assms obtain built where "(case built of None \<Rightarrow> Inr (t, None)
        | Some ref \<Rightarrow> rbind (to_request_row ref) (\<lambda>row.
            let (rows', linked) = link_row t row in Inr (rows', Some linked))) = Inr (t', None)"
    unfolding link_event_def rbind_eq_Inr by blast
  then show ?thesis by (cases built) (auto simp: Let_def split: prod.splits)
qed

lemma link_event_once_parts:
  assumes "link_event L rows e p q = Inr (rows', Some row)"
  shows "rows \<subseteq>\<^sub>m rows'" and "link_event L rows' e p' q' = Inr (rows'', linked) \<Longrightarrow> rows'' = rows' \<and> linked \<in> {None, Some row}"
proof -
  from link_event_Some [OF assms] obtain payload new where new: "payload_of e = Inr payload" "link_row rows new = (rows', row)"
    "lk_ref_id new = evidence_id L (ee_event_id e) (pp_session_id (provenance_of payload))" by blast
  then have there: "rows' (lk_ref_id new) = Some row" and "rows \<subseteq>\<^sub>m rows'"
    by (auto simp: link_row_def map_le_def split: option.splits)
  from this(2) show "rows \<subseteq>\<^sub>m rows'" .
  show "rows'' = rows' \<and> linked \<in> {None, Some row}" if run: "link_event L rows' e p' q' = Inr (rows'', linked)"
  proof (cases linked)
    case None
    with run link_event_None show ?thesis by blast
  next
    case (Some w)
    with run have "link_event L rows' e p' q' = Inr (rows'', Some w)" by simp
    from link_event_Some [OF this] new(1) obtain again where
      "lk_ref_id again = evidence_id L (ee_event_id e) (pp_session_id (provenance_of payload))" "link_row rows' again = (rows'', w)"
      by auto
    with there new(3) Some show ?thesis by (auto simp: link_row_def)
  qed
qed

text \<open>One event has one evidence request: once an event has been linked, linking it again, with whatever parameters
  and requirement the second delivery brings, is refused or does nothing, or returns the very row of the first time and
  leaves the table alone; and linking never changes or removes a row that is there.\<close>

theorem link_event_once:
  assumes "link_event L rows e p q = Inr (rows', Some row)"
  shows "rows \<subseteq>\<^sub>m rows' \<and>
    (link_event L rows' e p' q' = Inr (rows'', linked) \<longrightarrow> (rows'' = rows' \<and> linked \<in> {None, Some row}))"
  using link_event_once_parts [OF assms] by blast

subsection \<open>Witnesses\<close>

text \<open>The turnover rule on an interval of one minute.\<close>

lemma sample_turnover_match:
  "\<exists>regs rule d r. turnover_delay_definition ''v1'' = Inr rule \<and> registry_get (fst regs) ''turnover_delay'' ''v1'' = Some rule \<and>
    rd_output_event_type rule = TURNOVER_DELAY \<and> rd_evidence_requirement rule = EVIDENCE_REQUIRED \<and>
    map_of (snd regs) (rd_evaluator_id rule) = Some (turnover_delay_evaluator sample_clock) \<and>
    evaluate_rule sample_clock (fst regs) (snd regs) ''turnover_delay'' ''v1'' (turnover_input d [] sample_windows ''v1'') = Inr r \<and>
    rr_status r = MATCH"
proof -
  from sample_clock_built obtain regs where
    b: "build_operational_registries sample_clock (occupancy_session_evaluator sample_clock) ''v1'' = Inr regs" by blast
  note w = wired [OF b]
  from w(4) obtain rule where rule: "turnover_delay_definition ''v1'' = Inr rule"
    "registry_get (fst regs) ''turnover_delay'' ''v1'' = Some rule" by blast
  from definitions_valid(5) [OF w(1)] rule(1) have n: "rule_named rule TURNOVER_DELAY ''v1'' ''turnover_delay_evaluator.v1''" by auto
  from rule(1) have "rd_evidence_requirement rule = EVIDENCE_REQUIRED"
    by (auto simp: turnover_delay_definition_def validated_def split: if_splits)
  moreover have "map_of (snd regs) (rd_evaluator_id rule) = Some (turnover_delay_evaluator sample_clock)"
    "rd_output_event_type rule = TURNOVER_DELAY"
    using n by (simp_all add: w(2) rule_named_def operational_evaluators_def)
  moreover obtain d where d: "open_interval sample_clock sample_policy (sample_dwelling 60) = Inr (Some d)"
    "turnover_due d [] 30 20" using sample_open_interval [of 60] by auto
  have "\<exists>r. evaluate_rule sample_clock (fst regs) (snd regs) ''turnover_delay'' ''v1'' (turnover_input d [] sample_windows ''v1'') = Inr r \<and>
      rr_status r = MATCH"
    using turnover_decides [OF b rule(1), of d "[]" sample_windows 30 20] open_interval_facts [OF d(1)] d(2) by auto
  ultimately show ?thesis using rule by blast
qed

lemma engine_request_is_linked_witness:
  "\<exists>rule (r :: rule_evaluation_result) e ref. turnover_delay_definition ''v1'' = Inr rule \<and> rr_status r = MATCH \<and> rr_event r = Some e \<and>
     rr_evidence_requests r = [ref] \<and>
     (starts_late e \<or> (\<exists>rows' row. link_event sample_clock Map.empty e None EVIDENCE_REQUIRED = Inr (rows', Some row) \<and>
        same_request ref (lk_evidence_request row)))"
proof -
  from sample_turnover_match obtain regs rule d r where s: "turnover_delay_definition ''v1'' = Inr rule"
    "registry_get (fst regs) ''turnover_delay'' ''v1'' = Some rule"
    "rd_output_event_type rule = TURNOVER_DELAY" "rd_evidence_requirement rule = EVIDENCE_REQUIRED"
    "map_of (snd regs) (rd_evaluator_id rule) = Some (turnover_delay_evaluator sample_clock)"
    "evaluate_rule sample_clock (fst regs) (snd regs) ''turnover_delay'' ''v1'' (turnover_input d [] sample_windows ''v1'') = Inr r"
    "rr_status r = MATCH" by blast
  have "(turnover_delay_evaluator sample_clock, rd_output_event_type rule) \<in> typed_evaluators sample_clock"
    by (simp add: typed_evaluators_def s(3))
  from engine_request_is_linked [OF this s(2,4-7), of Map.empty] obtain e ref where e: "rr_event r = Some e"
    "rr_evidence_requests r = [ref]" and linked: "starts_late e \<or> (\<exists>rows' row.
        link_event sample_clock Map.empty e None EVIDENCE_REQUIRED = Inr (rows', Some row) \<and>
        same_request ref (lk_evidence_request row))"
    by (auto split: if_splits)
  from s(1,7) e linked show ?thesis by blast
qed

lemma link_event_once_witness:
  "\<exists>e rows row. link_event sample_clock Map.empty e None EVIDENCE_OPTIONAL = Inr (rows, Some row) \<and> Map.empty \<subseteq>\<^sub>m rows"
proof -
  let ?e = "\<lparr>ee_event_id = 1, ee_event_type = ''occupancy_session'', ee_schema_version = SCHEMA_VERSION, ee_event_time = utc_at 5,
     ee_produced_at = utc_at 5, ee_correlation_id = None, ee_causation_id = None, ee_source = ''rule'',
     ee_payload = OccupancySessionPayload \<lparr>op_phase = STARTED, op_tenant_id = 1, op_venue_id = 2, op_session_id = 3,
       op_camera_id = 4, op_spatial_context_id = None, op_occupancy_count = 1, op_occupied_tracks = [5],
       op_occupancy_time = utc_at 5, op_configuration_version_id = 6, op_rule_id = ''r'', op_rule_version = ''v1''\<rparr>\<rparr>"
  have "\<exists>rows row. link_event sample_clock Map.empty ?e None EVIDENCE_OPTIONAL = Inr (rows, Some row)"
    by (simp add: link_event_def scope_params_from_envelope_def payload_of_def build_request_def built_request_def
        request_start_def request_end_def validated_def evidence_ref_valid_def validate_evidence_chain_def
        media_evidence_types_def evidence_uri_def evidence_rule_version_ok_def is_digit_def dt_less_def to_request_row_def
        link_row_def Let_def)
  then show ?thesis using link_event_once by blast
qed

end
