(* ===== verification/Config_Spatial.thy ===== *)
theory Config_Spatial
  imports Geometry
begin

text \<open>
  The deterministic spatial predicates of configuration validation: area, degeneracy and
  self-intersection of a \<open>GeometryModel\<close> (\<open>contracts/geometry/models.py\<close>), point containment and
  Sutherland--Hodgman clipping (\<open>validation/spatial.py\<close>) and the registry of spatial policies
  (\<open>validation/policy.py\<close>). Coordinates of a validated geometry are finite, so the arithmetic is on
  reals; a point without two finite coordinates ends a computation with \<open>NoPlanarPoint\<close>.
\<close>

datatype validation_failure = RingFailure ring_error | NoPlanarPoint

fun lift_ring :: "ring_error + 'a \<Rightarrow> validation_failure + 'a" where
  "lift_ring (Inl e) = Inl (RingFailure e)"
| "lift_ring (Inr x) = Inr x"

fun planar_point :: "pyfloat list \<Rightarrow> validation_failure + point2" where
  "planar_point (Fin x # Fin y # zs) = Inr (x, y)"
| "planar_point _ = Inl NoPlanarPoint"

text \<open>The exterior ring of a polygon as plane points.\<close>

definition planar_ring :: "geometry_model \<Rightarrow> validation_failure + point2 list" where
  "planar_ring g = rbind (lift_ring (ring g)) (mapM planar_point)"

subsection \<open>Area and self-intersection of a geometry\<close>

definition segments :: "'a list \<Rightarrow> ('a \<times> 'a) list" where
  "segments rg = zip rg (tl rg)"

definition shoelace_open :: "point2 list \<Rightarrow> real" where
  "shoelace_open rg = sum_list (map (\<lambda>((x1, y1), (x2, y2)). x1 * y2 - x2 * y1) (segments rg))"

definition area :: "geometry_model \<Rightarrow> validation_failure + real" where
  "area g = rbind (planar_ring g) (\<lambda>rg. Inr (\<bar>shoelace_open rg\<bar> / 2))"

definition MIN_AREA :: real where
  "MIN_AREA = 1 / 1000000000"

definition is_degenerate :: "geometry_model \<Rightarrow> validation_failure + bool" where
  "is_degenerate g =
     (if gm_geometry_type g \<noteq> POLYGON then Inr False
      else rbind (area g) (\<lambda>a. Inr (a \<le> MIN_AREA)))"

definition orientation :: "point2 \<Rightarrow> point2 \<Rightarrow> point2 \<Rightarrow> real" where
  "orientation a b c = (fst b - fst a) * (snd c - snd a) - (snd b - snd a) * (fst c - fst a)"

definition in_box :: "point2 \<Rightarrow> point2 \<Rightarrow> point2 \<Rightarrow> bool" where
  "in_box a b c = (min (fst a) (fst b) \<le> fst c \<and> fst c \<le> max (fst a) (fst b) \<and>
     min (snd a) (snd b) \<le> snd c \<and> snd c \<le> max (snd a) (snd b))"

definition segments_properly_intersect :: "point2 \<Rightarrow> point2 \<Rightarrow> point2 \<Rightarrow> point2 \<Rightarrow> bool" where
  "segments_properly_intersect a b c d =
     (let o1 = orientation a b c; o2 = orientation a b d;
          o3 = orientation c d a; o4 = orientation c d b
      in if o1 = 0 \<and> in_box a b c then False
         else if o2 = 0 \<and> in_box a b d then False
         else if o3 = 0 \<and> in_box c d a then False
         else if o4 = 0 \<and> in_box c d b then False
         else o1 * o2 < 0 \<and> o3 * o4 < 0)"

text \<open>The nested loops over pairs of segments, adjacent ones skipped.\<close>

definition ring_crosses_itself :: "(point2 \<times> point2) list \<Rightarrow> bool" where
  "ring_crosses_itself segs =
     list_ex (\<lambda>i. list_ex (\<lambda>j.
         \<not> (j = i + 1 \<or> (i = 0 \<and> j = length segs - 1)) \<and>
         segments_properly_intersect (fst (segs ! i)) (snd (segs ! i)) (fst (segs ! j)) (snd (segs ! j)))
       [i + 1 ..< length segs]) [0 ..< length segs]"

definition is_self_intersecting :: "geometry_model \<Rightarrow> validation_failure + bool" where
  "is_self_intersecting g =
     (if gm_geometry_type g \<noteq> POLYGON then Inr False
      else rbind (planar_ring g) (\<lambda>rg. Inr (ring_crosses_itself (segments rg))))"

subsection \<open>Spatial predicates\<close>

definition AREA_TOLERANCE :: real where
  "AREA_TOLERANCE = 1 / 1000000"

definition ON_SEGMENT_EPS :: real where
  "ON_SEGMENT_EPS = 1 / 1000000000000"

definition on_segment :: "point2 \<Rightarrow> point2 \<Rightarrow> point2 \<Rightarrow> bool" where
  "on_segment a b p =
     (\<bar>orientation a b p\<bar> \<le> ON_SEGMENT_EPS \<and>
      min (fst a) (fst b) - ON_SEGMENT_EPS \<le> fst p \<and> fst p \<le> max (fst a) (fst b) + ON_SEGMENT_EPS \<and>
      min (snd a) (snd b) - ON_SEGMENT_EPS \<le> snd p \<and> snd p \<le> max (snd a) (snd b) + ON_SEGMENT_EPS)"

text \<open>
  The loop of \<open>point_in_ring\<close> over the pairs of a vertex and the one before it: a boundary
  hit returns at once, a crossed edge toggles the flag.
\<close>

definition ray_toggles :: "point2 \<Rightarrow> point2 \<Rightarrow> point2 \<Rightarrow> bool" where
  "ray_toggles p pj pk =
     ((snd pk > snd p) \<noteq> (snd pj > snd p) \<and>
      fst p < (fst pj - fst pk) * (snd p - snd pk) /
        (if snd pj - snd pk \<noteq> 0 then snd pj - snd pk else 1 / 10 ^ 300) + fst pk)"

fun point_in_ring_loop :: "point2 \<Rightarrow> (point2 \<times> point2) list \<Rightarrow> bool \<Rightarrow> bool" where
  "point_in_ring_loop p [] inside = inside"
| "point_in_ring_loop p ((pj, pk) # es) inside =
     (if on_segment pj pk p then True
      else point_in_ring_loop p es (if ray_toggles p pj pk then \<not> inside else inside))"

definition point_in_ring :: "point2 \<Rightarrow> point2 list \<Rightarrow> bool" where
  "point_in_ring p rg = point_in_ring_loop p (if rg = [] then [] else with_previous rg) False"

definition LINE_EPS :: real where
  "LINE_EPS = 1 / 1000000000000000"

definition line_intersection :: "point2 \<Rightarrow> point2 \<Rightarrow> point2 \<Rightarrow> point2 \<Rightarrow> point2" where
  "line_intersection a b c d =
     (let (x1, y1) = a; (x2, y2) = b; (x3, y3) = c; (x4, y4) = d;
          denom = (x1 - x2) * (y3 - y4) - (y1 - y2) * (x3 - x4)
      in if \<bar>denom\<bar> < LINE_EPS then ((x1 + x2 + x3 + x4) / 4, (y1 + y2 + y3 + y4) / 4)
         else (((x1 * y2 - y1 * x2) * (x3 - x4) - (x1 - x2) * (x3 * y4 - y3 * x4)) / denom,
               ((x1 * y2 - y1 * x2) * (y3 - y4) - (y1 - y2) * (x3 * y4 - y3 * x4)) / denom))"

definition shoelace :: "point2 list \<Rightarrow> real" where
  "shoelace rg = sum_list (map (\<lambda>((x1, y1), (x2, y2)). x1 * y2 - x2 * y1) (edges rg))"

text \<open>One clip edge: \<open>s\<close> is the previous vertex, \<open>e\<close> the current one.\<close>

fun clip_walk :: "point2 \<Rightarrow> point2 \<Rightarrow> point2 \<Rightarrow> point2 list \<Rightarrow> point2 list" where
  "clip_walk a b s [] = []"
| "clip_walk a b s (e # es) =
     (if orientation a b e \<ge> 0 then
        (if orientation a b s < 0 then [line_intersection a b s e] else []) @ e # clip_walk a b e es
      else if orientation a b s \<ge> 0 then line_intersection a b s e # clip_walk a b e es
      else clip_walk a b e es)"

fun clip_edges :: "(point2 \<times> point2) list \<Rightarrow> point2 list \<Rightarrow> real" where
  "clip_edges [] out = \<bar>shoelace out\<bar> / 2"
| "clip_edges ((a, b) # es) out =
     (if out = [] then 0 else clip_edges es (clip_walk a b (last out) out))"

definition ring_intersection_area :: "point2 list \<Rightarrow> point2 list \<Rightarrow> real" where
  "ring_intersection_area subject clip =
     (if subject = [] then 0 else clip_edges (edges clip) subject)"

text \<open>The pure engine; \<open>None\<close> stands for a geometry that is not a polygon.\<close>

definition polygons :: "geometry_model \<Rightarrow> validation_failure + point2 list option" where
  "polygons g =
     (if gm_geometry_type g \<noteq> POLYGON then Inr None else rbind (planar_ring g) (\<lambda>rg. Inr (Some rg)))"

definition overlap_area :: "geometry_model \<Rightarrow> geometry_model \<Rightarrow> validation_failure + real" where
  "overlap_area a b =
     rbind (polygons a) (\<lambda>ra. rbind (polygons b) (\<lambda>rb.
       case (ra, rb) of (Some r, Some r') \<Rightarrow> Inr (ring_intersection_area r r') | _ \<Rightarrow> Inr 0))"

definition contains :: "geometry_model \<Rightarrow> geometry_model \<Rightarrow> validation_failure + bool" where
  "contains outer inner =
     rbind (polygons outer) (\<lambda>ro. rbind (polygons inner) (\<lambda>ri.
       case (ro, ri) of (Some r, Some r') \<Rightarrow> Inr (list_all (\<lambda>p. point_in_ring p r) r') | _ \<Rightarrow> Inr False))"

definition vertex_on_edge :: "point2 list \<Rightarrow> point2 list \<Rightarrow> bool" where
  "vertex_on_edge pa pb = list_ex (\<lambda>(s, e). list_ex (on_segment s e) pa) (segments pb)"

definition boundary_touches :: "geometry_model \<Rightarrow> geometry_model \<Rightarrow> validation_failure + bool" where
  "boundary_touches a b =
     rbind (polygons a) (\<lambda>ra. rbind (polygons b) (\<lambda>rb.
       case (ra, rb) of (Some r, Some r') \<Rightarrow> Inr (vertex_on_edge r r' \<or> vertex_on_edge r' r)
       | _ \<Rightarrow> Inr False))"

definition is_valid_polygon :: "geometry_model \<Rightarrow> validation_failure + bool" where
  "is_valid_polygon g =
     (if gm_geometry_type g \<noteq> POLYGON then Inr False
      else rbind (is_self_intersecting g) (\<lambda>si. if si then Inr False
        else rbind (is_degenerate g) (\<lambda>dg. if dg then Inr False
          else rbind (planar_ring g) (\<lambda>rg. Inr (hd rg = last rg)))))"

definition meaningful_overlap :: "real \<Rightarrow> geometry_model \<Rightarrow> geometry_model \<Rightarrow> validation_failure + bool" where
  "meaningful_overlap tolerance a b = rbind (overlap_area a b) (\<lambda>x. Inr (x > tolerance))"

subsection \<open>Spatial policies\<close>

datatype entity_kind = CAMERA_KIND | ZONE_KIND | TABLE_KIND | ENTRANCE_KIND | QUEUE_AREA_KIND
  | SERVICE_AREA_KIND | PRIVACY_ROI_KIND | EXCLUSION_ROI_KIND

fun kind_value :: "entity_kind \<Rightarrow> string" where
  "kind_value CAMERA_KIND = ''camera''"
| "kind_value ZONE_KIND = ''zone''"
| "kind_value TABLE_KIND = ''table''"
| "kind_value ENTRANCE_KIND = ''entrance''"
| "kind_value QUEUE_AREA_KIND = ''queue_area''"
| "kind_value SERVICE_AREA_KIND = ''service_area''"
| "kind_value PRIVACY_ROI_KIND = ''privacy_roi''"
| "kind_value EXCLUSION_ROI_KIND = ''exclusion_roi''"

datatype severity = ERROR | WARNING

record relationship_policy =
  rp_kind_a :: entity_kind
  rp_kind_b :: entity_kind
  rp_overlap :: overlap_policy
  rp_severity :: severity
  rp_requires_containment :: bool
  rp_permits_boundary_touch :: bool

text \<open>The registry: a dict keyed by the unordered pair of kinds.\<close>

type_synonym policy_registry = "entity_kind set \<rightharpoonup> relationship_policy"

definition plain_policy :: "entity_kind \<Rightarrow> entity_kind \<Rightarrow> overlap_policy \<Rightarrow> severity \<Rightarrow> relationship_policy" where
  "plain_policy a b ov sev = \<lparr>rp_kind_a = a, rp_kind_b = b, rp_overlap = ov, rp_severity = sev,
     rp_requires_containment = False, rp_permits_boundary_touch = False\<rparr>"

definition default_policies :: "relationship_policy list" where
  "default_policies =
    [plain_policy TABLE_KIND TABLE_KIND REJECT ERROR,
     (plain_policy TABLE_KIND ZONE_KIND VALIDATE ERROR)\<lparr>rp_requires_containment := True\<rparr>,
     (plain_policy QUEUE_AREA_KIND ZONE_KIND VALIDATE ERROR)\<lparr>rp_requires_containment := True\<rparr>,
     (plain_policy SERVICE_AREA_KIND ZONE_KIND VALIDATE ERROR)\<lparr>rp_requires_containment := True\<rparr>,
     (plain_policy ENTRANCE_KIND ZONE_KIND ALLOW ERROR)\<lparr>rp_permits_boundary_touch := True\<rparr>,
     plain_policy ZONE_KIND ZONE_KIND ALLOW WARNING,
     plain_policy QUEUE_AREA_KIND SERVICE_AREA_KIND ALLOW WARNING,
     plain_policy QUEUE_AREA_KIND QUEUE_AREA_KIND ALLOW WARNING,
     plain_policy PRIVACY_ROI_KIND ZONE_KIND ALLOW ERROR,
     plain_policy PRIVACY_ROI_KIND TABLE_KIND ALLOW ERROR,
     plain_policy PRIVACY_ROI_KIND QUEUE_AREA_KIND ALLOW ERROR,
     plain_policy PRIVACY_ROI_KIND SERVICE_AREA_KIND ALLOW ERROR,
     plain_policy PRIVACY_ROI_KIND ENTRANCE_KIND ALLOW ERROR,
     plain_policy EXCLUSION_ROI_KIND ZONE_KIND ALLOW ERROR,
     plain_policy EXCLUSION_ROI_KIND TABLE_KIND ALLOW ERROR,
     plain_policy EXCLUSION_ROI_KIND QUEUE_AREA_KIND ALLOW ERROR,
     plain_policy EXCLUSION_ROI_KIND SERVICE_AREA_KIND ALLOW ERROR,
     plain_policy EXCLUSION_ROI_KIND ENTRANCE_KIND ALLOW ERROR,
     plain_policy PRIVACY_ROI_KIND EXCLUSION_ROI_KIND VALIDATE ERROR,
     plain_policy CAMERA_KIND ZONE_KIND ALLOW WARNING]"

datatype policy_error = DuplicatePolicy entity_kind entity_kind

definition register_policy :: "policy_registry \<Rightarrow> relationship_policy \<Rightarrow> policy_error + policy_registry" where
  "register_policy registry p =
     (let key = {rp_kind_a p, rp_kind_b p} in
      if registry key \<noteq> None then Inl (DuplicatePolicy (rp_kind_a p) (rp_kind_b p))
      else Inr (registry(key \<mapsto> p)))"

definition default_registry :: "policy_error + policy_registry" where
  "default_registry = run_steps register_policy Map.empty default_policies"

definition policy_for :: "policy_registry \<Rightarrow> entity_kind \<Rightarrow> entity_kind \<Rightarrow> relationship_policy option" where
  "policy_for registry a b = registry {a, b}"

definition requires_containment :: "policy_registry \<Rightarrow> entity_kind \<Rightarrow> entity_kind \<Rightarrow> bool" where
  "requires_containment registry a b =
     (case policy_for registry a b of None \<Rightarrow> False | Some p \<Rightarrow> rp_requires_containment p)"

definition rejects_overlap :: "policy_registry \<Rightarrow> entity_kind \<Rightarrow> entity_kind \<Rightarrow> bool" where
  "rejects_overlap registry a b =
     (case policy_for registry a b of None \<Rightarrow> False | Some p \<Rightarrow> rp_overlap p = REJECT)"

definition permits_boundary_touch :: "policy_registry \<Rightarrow> entity_kind \<Rightarrow> entity_kind \<Rightarrow> bool" where
  "permits_boundary_touch registry a b =
     (case policy_for registry a b of None \<Rightarrow> False | Some p \<Rightarrow> rp_permits_boundary_touch p)"

definition severity_for :: "policy_registry \<Rightarrow> entity_kind \<Rightarrow> entity_kind \<Rightarrow> severity" where
  "severity_for registry a b =
     (case policy_for registry a b of None \<Rightarrow> ERROR | Some p \<Rightarrow> rp_severity p)"

text \<open>The default set registers without a duplicate, and only tables reject overlap.\<close>

definition DEFAULT_REGISTRY :: policy_registry where
  "DEFAULT_REGISTRY = (case default_registry of Inr r \<Rightarrow> r | Inl _ \<Rightarrow> Map.empty)"

lemma default_registry_built: "default_registry = Inr DEFAULT_REGISTRY"
  by (simp add: default_registry_def DEFAULT_REGISTRY_def default_policies_def plain_policy_def
      register_policy_def Let_def doubleton_eq_iff)

lemma default_rejects_overlap:
  "rejects_overlap DEFAULT_REGISTRY a b \<longleftrightarrow> a = TABLE_KIND \<and> b = TABLE_KIND"
  by (cases a; cases b)
    (simp_all add: rejects_overlap_def policy_for_def DEFAULT_REGISTRY_def default_registry_def
      default_policies_def plain_policy_def register_policy_def Let_def doubleton_eq_iff)

lemma default_requires_containment:
  "requires_containment DEFAULT_REGISTRY a ZONE_KIND \<longleftrightarrow>
     a \<in> {TABLE_KIND, QUEUE_AREA_KIND, SERVICE_AREA_KIND}"
  by (cases a)
    (simp_all add: requires_containment_def policy_for_def DEFAULT_REGISTRY_def default_registry_def
      default_policies_def plain_policy_def register_policy_def Let_def doubleton_eq_iff)

end
