(* ===== verification/Config_Validation.thy ===== *)
theory Config_Validation
  imports Config_Spatial Rules_Contracts
begin

text \<open>
  The configuration validation engine (\<open>domain/configuration/validation\<close>): the stable rule codes with
  their fixed severity, the finding collector, the eight validators in their order and the engine.
  The spatial engine, the camera resolver and the order in which Python iterates a set of camera
  ids are fields of the context. Message texts are left out of the findings.
\<close>

datatype rule_code =
    GEOMETRY_INVALID | GEOMETRY_EMPTY | GEOMETRY_OUT_OF_RANGE | GEOMETRY_SELF_INTERSECTION
  | GEOMETRY_ZERO_AREA | GEOMETRY_TYPE_INVALID | GEOMETRY_NOT_CLOSED
  | COORDINATE_SPACE_INVALID | COORDINATE_MIXED_SPACES
  | DUPLICATE_IDENTIFIER | MISSING_REFERENCE | CROSS_VERSION_REFERENCE | CROSS_TENANT_REFERENCE
  | INVALID_CONTAINMENT | TABLE_OVERLAP | INVALID_SPATIAL_RELATIONSHIP
  | ENTITY_GEOMETRY_CONTRACT_VIOLATION
  | CAMERA_REFERENCE_INVALID | CAMERA_RETIRED | CAMERA_UNAVAILABLE | CAMERA_PROFILE_INCOMPATIBLE
  | PRIVACY_POLICY_CONFLICT | EXCLUSION_POLICY_CONFLICT
  | ZONE_UNCOVERED | CAMERA_NO_CONFIGURED_COVERAGE

fun rule_code_value :: "rule_code \<Rightarrow> string" where
  "rule_code_value GEOMETRY_INVALID = ''GEOMETRY_INVALID''"
| "rule_code_value GEOMETRY_EMPTY = ''GEOMETRY_EMPTY''"
| "rule_code_value GEOMETRY_OUT_OF_RANGE = ''GEOMETRY_OUT_OF_RANGE''"
| "rule_code_value GEOMETRY_SELF_INTERSECTION = ''GEOMETRY_SELF_INTERSECTION''"
| "rule_code_value GEOMETRY_ZERO_AREA = ''GEOMETRY_ZERO_AREA''"
| "rule_code_value GEOMETRY_TYPE_INVALID = ''GEOMETRY_TYPE_INVALID''"
| "rule_code_value GEOMETRY_NOT_CLOSED = ''GEOMETRY_NOT_CLOSED''"
| "rule_code_value COORDINATE_SPACE_INVALID = ''COORDINATE_SPACE_INVALID''"
| "rule_code_value COORDINATE_MIXED_SPACES = ''COORDINATE_MIXED_SPACES''"
| "rule_code_value DUPLICATE_IDENTIFIER = ''DUPLICATE_IDENTIFIER''"
| "rule_code_value MISSING_REFERENCE = ''MISSING_REFERENCE''"
| "rule_code_value CROSS_VERSION_REFERENCE = ''CROSS_VERSION_REFERENCE''"
| "rule_code_value CROSS_TENANT_REFERENCE = ''CROSS_TENANT_REFERENCE''"
| "rule_code_value INVALID_CONTAINMENT = ''INVALID_CONTAINMENT''"
| "rule_code_value TABLE_OVERLAP = ''TABLE_OVERLAP''"
| "rule_code_value INVALID_SPATIAL_RELATIONSHIP = ''INVALID_SPATIAL_RELATIONSHIP''"
| "rule_code_value ENTITY_GEOMETRY_CONTRACT_VIOLATION = ''ENTITY_GEOMETRY_CONTRACT_VIOLATION''"
| "rule_code_value CAMERA_REFERENCE_INVALID = ''CAMERA_REFERENCE_INVALID''"
| "rule_code_value CAMERA_RETIRED = ''CAMERA_RETIRED''"
| "rule_code_value CAMERA_UNAVAILABLE = ''CAMERA_UNAVAILABLE''"
| "rule_code_value CAMERA_PROFILE_INCOMPATIBLE = ''CAMERA_PROFILE_INCOMPATIBLE''"
| "rule_code_value PRIVACY_POLICY_CONFLICT = ''PRIVACY_POLICY_CONFLICT''"
| "rule_code_value EXCLUSION_POLICY_CONFLICT = ''EXCLUSION_POLICY_CONFLICT''"
| "rule_code_value ZONE_UNCOVERED = ''ZONE_UNCOVERED''"
| "rule_code_value CAMERA_NO_CONFIGURED_COVERAGE = ''CAMERA_NO_CONFIGURED_COVERAGE''"

definition WARNING_CODES :: "rule_code set" where
  "WARNING_CODES = {ZONE_UNCOVERED, CAMERA_NO_CONFIGURED_COVERAGE}"

definition severity_of :: "rule_code \<Rightarrow> severity" where
  "severity_of code = (if code \<in> WARNING_CODES then WARNING else ERROR)"

fun severity_value :: "severity \<Rightarrow> string" where
  "severity_value ERROR = ''error''"
| "severity_value WARNING = ''warning''"

record config_finding =
  fd_code :: rule_code
  fd_entity_type :: "entity_kind option"
  fd_entity_id :: "string option"
  fd_related_entity_id :: "string option"

definition is_error :: "config_finding \<Rightarrow> bool" where
  "is_error f = (severity_of (fd_code f) = ERROR)"

record finding_collector =
  fc_findings :: "config_finding list"
  fc_geometry_ok :: bool
  fc_references_ok :: bool
  fc_checks_performed :: int

definition new_collector :: finding_collector where
  "new_collector = \<lparr>fc_findings = [], fc_geometry_ok = True, fc_references_ok = True,
     fc_checks_performed = 0\<rparr>"

definition add_findings :: "finding_collector \<Rightarrow> config_finding list \<Rightarrow> finding_collector" where
  "add_findings col fs = col\<lparr>fc_findings := fc_findings col @ fs\<rparr>"

record validator_context =
  vc_contains :: "geometry_model \<Rightarrow> geometry_model \<Rightarrow> validation_failure + bool"
  vc_meaningful_overlap :: "geometry_model \<Rightarrow> geometry_model \<Rightarrow> validation_failure + bool"
  vc_policies :: policy_registry
  vc_camera_resolver :: "(uuid \<Rightarrow> string option) option"
  vc_set_order :: "string list \<Rightarrow> string list"

type_synonym validator =
  "configuration_version \<Rightarrow> finding_collector \<Rightarrow> validator_context \<Rightarrow> validation_failure + finding_collector"

definition entity_finding :: "rule_code \<Rightarrow> entity_kind \<Rightarrow> string \<Rightarrow> string option \<Rightarrow> config_finding" where
  "entity_finding code kind pid related = \<lparr>fd_code = code, fd_entity_type = Some kind,
     fd_entity_id = Some pid, fd_related_entity_id = related\<rparr>"

subsection \<open>Structure\<close>

definition identified :: "configuration_version \<Rightarrow> (entity_kind \<times> string) list" where
  "identified v =
     map (\<lambda>c. (CAMERA_KIND, cam_profile_id c)) (cv_cameras v) @
     map (\<lambda>z. (ZONE_KIND, zone_profile_id z)) (cv_zones v) @
     map (\<lambda>t. (TABLE_KIND, table_profile_id t)) (cv_tables v) @
     map (\<lambda>e. (ENTRANCE_KIND, ent_profile_id e)) (cv_entrances v) @
     map (\<lambda>q. (QUEUE_AREA_KIND, qa_profile_id q)) (cv_queue_areas v) @
     map (\<lambda>s. (SERVICE_AREA_KIND, sa_profile_id s)) (cv_service_areas v) @
     map (\<lambda>p. (PRIVACY_ROI_KIND, priv_profile_id p)) (cv_privacy_rois v) @
     map (\<lambda>x. (EXCLUSION_ROI_KIND, excl_profile_id x)) (cv_exclusion_rois v)"

fun structural_findings :: "(string \<rightharpoonup> entity_kind) \<Rightarrow> (entity_kind \<times> string) list \<Rightarrow> config_finding list" where
  "structural_findings seen [] = []"
| "structural_findings seen ((category, pid) # rest) =
     (if blank pid then
        \<lparr>fd_code = MISSING_REFERENCE, fd_entity_type = Some category, fd_entity_id = None,
          fd_related_entity_id = None\<rparr> # structural_findings seen rest
      else case seen pid of
        Some other \<Rightarrow> entity_finding DUPLICATE_IDENTIFIER category pid (Some (kind_value other))
          # structural_findings seen rest
      | None \<Rightarrow> structural_findings (seen(pid \<mapsto> category)) rest)"

definition validate_structural :: validator where
  "validate_structural v col ctx = Inr (add_findings col (structural_findings Map.empty (identified v)))"

subsection \<open>References\<close>

definition REFERENCE_FAILURE_CODES :: "rule_code set" where
  "REFERENCE_FAILURE_CODES = {MISSING_REFERENCE, CROSS_VERSION_REFERENCE, CROSS_TENANT_REFERENCE}"

definition collect_profile_ids :: "configuration_version \<Rightarrow> string \<rightharpoonup> entity_kind" where
  "collect_profile_ids v = foldl (\<lambda>ids (category, pid). ids(pid \<mapsto> category)) Map.empty (identified v)"

fun zone_reference :: "string option \<Rightarrow> string list" where
  "zone_reference None = []"
| "zone_reference (Some r) = (if r = '''' then [] else [r])"

text \<open>Every reference as owner kind, owner id and target, in the order of the loops.\<close>

definition references_of :: "configuration_version \<Rightarrow> (entity_kind \<times> string \<times> string) list" where
  "references_of v =
     concat (map (\<lambda>c. map (\<lambda>r. (CAMERA_KIND, cam_profile_id c, r))
       (cam_detection_zones c @ cam_privacy_rois c @ cam_exclusion_rois c)) (cv_cameras v)) @
     concat (map (\<lambda>z. map (\<lambda>r. (ZONE_KIND, zone_profile_id z, r))
       (zone_contained_tables z @ zone_contained_entrances z @ zone_contained_queue_areas z @
        zone_contained_service_areas z)) (cv_zones v)) @
     concat (map (\<lambda>e. map (\<lambda>r. (ENTRANCE_KIND, ent_profile_id e, r))
       (zone_reference (ent_zone_profile_id e) @ ent_camera_profiles e)) (cv_entrances v)) @
     concat (map (\<lambda>q. map (\<lambda>r. (QUEUE_AREA_KIND, qa_profile_id q, r))
       (zone_reference (qa_zone_profile_id q) @ qa_camera_profiles q)) (cv_queue_areas v)) @
     concat (map (\<lambda>s. map (\<lambda>r. (SERVICE_AREA_KIND, sa_profile_id s, r))
       (zone_reference (sa_zone_profile_id s) @ sa_camera_profiles s)) (cv_service_areas v)) @
     concat (map (\<lambda>p. map (\<lambda>r. (PRIVACY_ROI_KIND, priv_profile_id p, r))
       (priv_camera_profiles p)) (cv_privacy_rois v)) @
     concat (map (\<lambda>x. map (\<lambda>r. (EXCLUSION_ROI_KIND, excl_profile_id x, r))
       (excl_camera_profiles x)) (cv_exclusion_rois v))"

fun check_in_version :: "(string \<rightharpoonup> entity_kind) \<Rightarrow> entity_kind \<times> string \<times> string \<Rightarrow> config_finding list" where
  "check_in_version all_ids (owner_type, owner_id, reference) =
     (case all_ids reference of
        None \<Rightarrow> [entity_finding MISSING_REFERENCE owner_type owner_id (Some reference)]
      | Some _ \<Rightarrow> [])"

definition reference_findings :: "configuration_version \<Rightarrow> config_finding list" where
  "reference_findings v = concat (map (check_in_version (collect_profile_ids v)) (references_of v))"

definition validate_references :: validator where
  "validate_references v col ctx =
     (let fs = reference_findings v; col' = add_findings col fs
      in Inr (if list_ex (\<lambda>f. fd_code f \<in> REFERENCE_FAILURE_CODES) fs
              then col'\<lparr>fc_references_ok := False\<rparr> else col'))"

subsection \<open>Coordinates\<close>

record geometry_entity =
  ge_kind :: entity_kind
  ge_profile_id :: string
  ge_geometry :: geometry_model
  ge_zone_profile_id :: "string option"

text \<open>
  A camera profile has no attribute \<open>geometry\<close> (its field is \<open>physical_placement\<close>), so
  \<open>getattr(item, "geometry", None)\<close> skips every camera.
\<close>

definition geometry_entities :: "configuration_version \<Rightarrow> geometry_entity list" where
  "geometry_entities v =
     map (\<lambda>z. \<lparr>ge_kind = ZONE_KIND, ge_profile_id = zone_profile_id z, ge_geometry = zone_geometry z,
       ge_zone_profile_id = None\<rparr>) (cv_zones v) @
     map (\<lambda>t. \<lparr>ge_kind = TABLE_KIND, ge_profile_id = table_profile_id t, ge_geometry = table_geometry t,
       ge_zone_profile_id = None\<rparr>) (cv_tables v) @
     map (\<lambda>e. \<lparr>ge_kind = ENTRANCE_KIND, ge_profile_id = ent_profile_id e, ge_geometry = ent_geometry e,
       ge_zone_profile_id = ent_zone_profile_id e\<rparr>) (cv_entrances v) @
     map (\<lambda>q. \<lparr>ge_kind = QUEUE_AREA_KIND, ge_profile_id = qa_profile_id q, ge_geometry = qa_geometry q,
       ge_zone_profile_id = qa_zone_profile_id q\<rparr>) (cv_queue_areas v) @
     map (\<lambda>s. \<lparr>ge_kind = SERVICE_AREA_KIND, ge_profile_id = sa_profile_id s, ge_geometry = sa_geometry s,
       ge_zone_profile_id = sa_zone_profile_id s\<rparr>) (cv_service_areas v) @
     map (\<lambda>p. \<lparr>ge_kind = PRIVACY_ROI_KIND, ge_profile_id = priv_profile_id p, ge_geometry = priv_geometry p,
       ge_zone_profile_id = None\<rparr>) (cv_privacy_rois v) @
     map (\<lambda>x. \<lparr>ge_kind = EXCLUSION_ROI_KIND, ge_profile_id = excl_profile_id x, ge_geometry = excl_geometry x,
       ge_zone_profile_id = None\<rparr>) (cv_exclusion_rois v)"

definition ge_finding :: "rule_code \<Rightarrow> geometry_entity \<Rightarrow> string option \<Rightarrow> config_finding" where
  "ge_finding code e related = entity_finding code (ge_kind e) (ge_profile_id e) related"

fun truthy :: "string option \<Rightarrow> bool" where
  "truthy None = False"
| "truthy (Some s) = (s \<noteq> '''')"

definition coordinate_findings :: "string set \<Rightarrow> geometry_entity \<Rightarrow> config_finding list" where
  "coordinate_findings camera_ids e =
     (let geom = ge_geometry e; ref = gm_reference_camera_profile_id geom in
      (if gm_coordinate_space geom = IMAGE_NORMALIZED then
         concat (map (\<lambda>point. concat (map (\<lambda>value.
           if float_in 0 value 1 then [] else [ge_finding GEOMETRY_OUT_OF_RANGE e None]) (take 2 point)))
           (gm_coordinates geom))
       else []) @
      (if is_camera_relative geom \<and> (case ref of None \<Rightarrow> True | Some r \<Rightarrow> r \<notin> camera_ids)
       then [ge_finding CAMERA_REFERENCE_INVALID e ref] else []) @
      (if gm_geometry_scope geom = VENUE \<and> truthy ref
       then [ge_finding COORDINATE_SPACE_INVALID e None] else []))"

definition space_findings :: "geometry_entity \<Rightarrow> config_finding list" where
  "space_findings e =
     (let camera_relative = (gm_coordinate_space (ge_geometry e) = IMAGE_NORMALIZED);
          venue_relative = (gm_coordinate_space (ge_geometry e) = VENUE_LOCAL)
      in if camera_relative = venue_relative then [ge_finding COORDINATE_SPACE_INVALID e None] else [])"

definition validate_coordinate_stage :: validator where
  "validate_coordinate_stage v col ctx =
     (let camera_ids = set (map cam_profile_id (cv_cameras v))
      in Inr (add_findings (add_findings col
          (concat (map (coordinate_findings camera_ids) (geometry_entities v))))
          (concat (map space_findings (geometry_entities v)))))"

subsection \<open>Geometry\<close>

definition GEOMETRY_FAILURE_CODES :: "rule_code set" where
  "GEOMETRY_FAILURE_CODES = {GEOMETRY_EMPTY, GEOMETRY_INVALID, GEOMETRY_SELF_INTERSECTION,
     GEOMETRY_ZERO_AREA, GEOMETRY_TYPE_INVALID, GEOMETRY_NOT_CLOSED, GEOMETRY_OUT_OF_RANGE,
     COORDINATE_SPACE_INVALID, COORDINATE_MIXED_SPACES}"

definition meets_geometry_contract :: "entity_kind \<Rightarrow> geometry_model \<Rightarrow> bool" where
  "meets_geometry_contract kind geom =
     (if kind \<in> {ZONE_KIND, TABLE_KIND, QUEUE_AREA_KIND, SERVICE_AREA_KIND} then
        gm_geometry_type geom = POLYGON \<and> gm_coordinate_space geom = VENUE_LOCAL
      else if kind = ENTRANCE_KIND then
        gm_geometry_type geom \<in> {LINESTRING, POLYGON} \<and> gm_coordinate_space geom = VENUE_LOCAL
      else if kind \<in> {PRIVACY_ROI_KIND, EXCLUSION_ROI_KIND} then
        gm_geometry_type geom = POLYGON \<and> gm_coordinate_space geom \<in> {IMAGE_NORMALIZED, VENUE_LOCAL}
      else if kind = CAMERA_KIND then
        (if gm_geometry_type geom = POINT then gm_coordinate_space geom = VENUE_LOCAL else False)
      else False)"

definition geometry_findings :: "geometry_entity \<Rightarrow> validation_failure + config_finding list" where
  "geometry_findings e =
     (let geom = ge_geometry e in
      if \<not> meets_geometry_contract (ge_kind e) geom
      then Inr [ge_finding ENTITY_GEOMETRY_CONTRACT_VIOLATION e None]
      else if gm_geometry_type geom = POLYGON then
        rbind (is_self_intersecting geom) (\<lambda>crosses.
        rbind (is_degenerate geom) (\<lambda>degenerate.
        rbind (lift_ring (ring geom)) (\<lambda>rg.
          Inr ((if crosses then [ge_finding GEOMETRY_SELF_INTERSECTION e None] else []) @
               (if degenerate then [ge_finding GEOMETRY_ZERO_AREA e None] else []) @
               (if hd rg \<noteq> last rg then [ge_finding GEOMETRY_NOT_CLOSED e None] else [])))))
      else Inr [])"

definition validate_geometry :: validator where
  "validate_geometry v col ctx =
     rbind (mapM geometry_findings (geometry_entities v)) (\<lambda>fss.
       let fs = concat fss; col' = add_findings col fs
       in Inr (if list_ex (\<lambda>f. fd_code f \<in> GEOMETRY_FAILURE_CODES) fs
               then col'\<lparr>fc_geometry_ok := False\<rparr> else col'))"

subsection \<open>Spatial policies\<close>

fun pairs_of :: "'a list \<Rightarrow> ('a \<times> 'a) list" where
  "pairs_of [] = []"
| "pairs_of (x # xs) = map (\<lambda>y. (x, y)) xs @ pairs_of xs"

definition overlap_findings :: "validator_context \<Rightarrow> geometry_entity \<times> geometry_entity \<Rightarrow>
    validation_failure + config_finding list" where
  "overlap_findings ctx = (\<lambda>(a, b).
     if ge_kind a = ge_kind b \<and> ge_kind a = PRIVACY_ROI_KIND then Inr []
     else if ge_kind a = ge_kind b \<and> ge_kind a = EXCLUSION_ROI_KIND then Inr []
     else if \<not> rejects_overlap (vc_policies ctx) (ge_kind a) (ge_kind b) then Inr []
     else rbind (vc_meaningful_overlap ctx (ge_geometry a) (ge_geometry b)) (\<lambda>overlaps.
       Inr (if overlaps then
              [ge_finding (if ge_kind a = ge_kind b \<and> ge_kind b = TABLE_KIND then TABLE_OVERLAP
                 else INVALID_SPATIAL_RELATIONSHIP) a (Some (ge_profile_id b))]
            else [])))"

definition zone_geometries :: "configuration_version \<Rightarrow> string \<rightharpoonup> geometry_model" where
  "zone_geometries v = map_of (rev (map (\<lambda>z. (zone_profile_id z, zone_geometry z))
     (filter (\<lambda>z. gm_geometry_type (zone_geometry z) = POLYGON) (cv_zones v))))"

definition containment_findings :: "validator_context \<Rightarrow> (string \<rightharpoonup> geometry_model) \<Rightarrow> geometry_entity \<Rightarrow>
    validation_failure + config_finding list" where
  "containment_findings ctx zones e =
     (case ge_zone_profile_id e of
        None \<Rightarrow> Inr []
      | Some parent_ref \<Rightarrow>
          if \<not> requires_containment (vc_policies ctx) (ge_kind e) ZONE_KIND then Inr []
          else (case zones parent_ref of
            None \<Rightarrow> Inr []
          | Some parent_geom \<Rightarrow> rbind (vc_contains ctx parent_geom (ge_geometry e)) (\<lambda>inside.
              Inr (if inside then [] else [ge_finding INVALID_CONTAINMENT e (Some parent_ref)]))))"

definition validate_spatial :: validator where
  "validate_spatial v col ctx =
     (if \<not> fc_geometry_ok col \<or> \<not> fc_references_ok col then Inr col
      else let polys = filter (\<lambda>e. gm_geometry_type (ge_geometry e) = POLYGON) (geometry_entities v) in
        rbind (mapM (overlap_findings ctx) (pairs_of polys)) (\<lambda>overlaps.
        rbind (mapM (containment_findings ctx (zone_geometries v)) (geometry_entities v)) (\<lambda>containments.
          Inr (add_findings (add_findings col (concat overlaps)) (concat containments)))))"

subsection \<open>Cameras\<close>

definition camera_findings :: "(uuid \<Rightarrow> string option) \<Rightarrow> string set \<Rightarrow> camera_profile \<Rightarrow> config_finding list" where
  "camera_findings camera_status zone_ids cam =
     (case camera_status (cam_camera_id cam) of
        None \<Rightarrow> [entity_finding CAMERA_REFERENCE_INVALID CAMERA_KIND (cam_profile_id cam) None]
      | Some status \<Rightarrow>
          if status \<in> {''retired'', ''disabled'', ''unavailable'', ''inactive''} then
            [entity_finding (if status = ''retired'' then CAMERA_RETIRED else CAMERA_UNAVAILABLE)
              CAMERA_KIND (cam_profile_id cam) None]
          else []) @
     (if cam_detection_zones cam = [] then
        [entity_finding CAMERA_NO_CONFIGURED_COVERAGE CAMERA_KIND (cam_profile_id cam) None]
      else if list_ex (\<lambda>z. z \<notin> zone_ids) (cam_detection_zones cam) then
        [entity_finding CROSS_VERSION_REFERENCE CAMERA_KIND (cam_profile_id cam) None]
      else [])"

definition covered_zones :: "configuration_version \<Rightarrow> string set" where
  "covered_zones v = set (concat (map cam_detection_zones (cv_cameras v)))"

definition uncovered_findings :: "configuration_version \<Rightarrow> config_finding list" where
  "uncovered_findings v =
     concat (map (\<lambda>z. if zone_profile_id z \<notin> covered_zones v
       then [entity_finding ZONE_UNCOVERED ZONE_KIND (zone_profile_id z) None] else []) (cv_zones v))"

definition validate_cameras :: validator where
  "validate_cameras v col ctx =
     (case vc_camera_resolver ctx of
        None \<Rightarrow> Inr col
      | Some camera_status \<Rightarrow>
          let zone_ids = set (map zone_profile_id (cv_zones v))
          in Inr (add_findings (add_findings col
              (concat (map (camera_findings camera_status zone_ids) (cv_cameras v))))
              (uncovered_findings v)))"

subsection \<open>Privacy and exclusion policies\<close>

text \<open>
  The dict built with \<open>setdefault(cam, []).append(roi)\<close>: an association list in insertion order.
  An ROI without camera profiles is filed under the key \<open>*\<close>.
\<close>

definition cameras_or_any :: "string list \<Rightarrow> string list" where
  "cameras_or_any cams = (if cams = [] then [''*''] else cams)"

fun append_under :: "string \<Rightarrow> 'a \<Rightarrow> (string \<times> 'a list) list \<Rightarrow> (string \<times> 'a list) list" where
  "append_under k x [] = [(k, [x])]"
| "append_under k x ((k', xs) # rest) =
     (if k = k' then (k', xs @ [x]) # rest else (k', xs) # append_under k x rest)"

definition by_camera :: "('a \<Rightarrow> string list) \<Rightarrow> 'a list \<Rightarrow> (string \<times> 'a list) list" where
  "by_camera profiles rois =
     foldl (\<lambda>d (cam, roi). append_under cam roi d) []
       (concat (map (\<lambda>roi. map (\<lambda>cam. (cam, roi)) (cameras_or_any (profiles roi))) rois))"

definition action_findings :: "string \<times> privacy_roi list \<Rightarrow> config_finding list" where
  "action_findings = (\<lambda>(cam, rois).
     if 1 < length (remdups (map priv_action rois))
     then [entity_finding PRIVACY_POLICY_CONFLICT PRIVACY_ROI_KIND cam None] else [])"

definition nullified_findings :: "privacy_roi list \<Rightarrow> exclusion_roi list \<Rightarrow> config_finding list" where
  "nullified_findings privs excls =
     concat (map (\<lambda>priv. concat (map (\<lambda>excl.
       if ''detection'' \<in> set (excl_excluded_tasks excl) \<and>
          gm_coordinate_space (priv_geometry priv) = gm_coordinate_space (excl_geometry excl)
       then [entity_finding EXCLUSION_POLICY_CONFLICT EXCLUSION_ROI_KIND (excl_profile_id excl)
         (Some (priv_profile_id priv))]
       else []) excls)) privs)"

definition the_list :: "(string \<times> 'a list) list \<Rightarrow> string \<Rightarrow> 'a list" where
  "the_list d k = (case map_of d k of None \<Rightarrow> [] | Some xs \<Rightarrow> xs)"

definition validate_privacy_policy :: validator where
  "validate_privacy_policy v col ctx =
     (let privacy_by_camera = by_camera priv_camera_profiles (cv_privacy_rois v);
          exclusion_by_camera = by_camera excl_camera_profiles (cv_exclusion_rois v);
          shared = vc_set_order ctx
            (filter (\<lambda>cam. cam \<in> set (map fst exclusion_by_camera)) (map fst privacy_by_camera))
      in Inr (add_findings (add_findings col (concat (map action_findings privacy_by_camera)))
          (concat (map (\<lambda>cam. nullified_findings (the_list privacy_by_camera cam)
             (the_list exclusion_by_camera cam)) shared))))"

subsection \<open>Coverage warnings\<close>

definition validate_cv_compatibility :: validator where
  "validate_cv_compatibility v col ctx =
     Inr (add_findings (add_findings col (uncovered_findings v))
       (concat (map (\<lambda>cam. if cam_detection_zones cam = []
         then [entity_finding CAMERA_NO_CONFIGURED_COVERAGE CAMERA_KIND (cam_profile_id cam) None]
         else []) (cv_cameras v))))"

subsection \<open>The engine\<close>

definition VALIDATOR_VERSION :: string where
  "VALIDATOR_VERSION = ''10.1.0''"

definition VALIDATOR_STAGES :: "(string \<times> validator) list" where
  "VALIDATOR_STAGES =
    [(''STRUCTURAL'', validate_structural), (''REFERENCE'', validate_references),
     (''COORDINATE'', validate_coordinate_stage), (''GEOMETRY'', validate_geometry),
     (''SPATIAL'', validate_spatial), (''CAMERA'', validate_cameras),
     (''PRIVACY_POLICY'', validate_privacy_policy), (''CV_COMPATIBILITY'', validate_cv_compatibility)]"

definition run_stage :: "configuration_version \<Rightarrow> validator_context \<Rightarrow> finding_collector \<Rightarrow>
    string \<times> validator \<Rightarrow> validation_failure + finding_collector" where
  "run_stage v ctx col = (\<lambda>(stage, fn).
     if stage = ''SPATIAL'' \<and> (\<not> fc_geometry_ok col \<or> \<not> fc_references_ok col) then Inr col
     else rbind (fn v col ctx) (\<lambda>col'. Inr (col'\<lparr>fc_checks_performed := fc_checks_performed col' + 1\<rparr>)))"

definition run_all_validators :: validator where
  "run_all_validators v col ctx = run_steps (run_stage v ctx) col VALIDATOR_STAGES"

record validation_outcome =
  vo_valid :: bool
  vo_errors :: "config_finding list"
  vo_warnings :: "config_finding list"
  vo_checks_performed :: int

definition validate :: "validator_context \<Rightarrow> configuration_version \<Rightarrow> validation_failure + validation_outcome" where
  "validate ctx v =
     rbind (run_all_validators v new_collector ctx) (\<lambda>col.
       let errors = filter is_error (fc_findings col);
           warnings = filter (\<lambda>f. \<not> is_error f) (fc_findings col)
       in Inr \<lparr>vo_valid = (errors = []), vo_errors = errors, vo_warnings = warnings,
            vo_checks_performed = fc_checks_performed col\<rparr>)"

definition to_finding_model :: "config_finding \<Rightarrow> validation_finding" where
  "to_finding_model f = \<lparr>vf_code = rule_code_value (fd_code f),
     vf_severity = severity_value (severity_of (fd_code f)),
     vf_entity_type = map_option kind_value (fd_entity_type f), vf_entity_id = fd_entity_id f,
     vf_related_entity_id = fd_related_entity_id f\<rparr>"

text \<open>\<open>None\<close> when pydantic rejects the result (a naive \<open>validated_at\<close>).\<close>

definition to_result_model :: "validation_outcome \<Rightarrow> configuration_version \<Rightarrow> string \<Rightarrow> string \<Rightarrow> datetime \<Rightarrow>
    validation_result option" where
  "to_result_model outcome version revision validated_by now =
     (let r = \<lparr>vr_valid = vo_valid outcome, vr_validator_version = VALIDATOR_VERSION,
            vr_content_revision = revision,
            vr_configuration_version_id = cv_configuration_version_id version,
            vr_configuration_id = cv_configuration_id version, vr_tenant_id = cv_tenant_id version,
            vr_venue_id = cv_venue_id version, vr_validated_at = now, vr_validated_by = validated_by,
            vr_errors = map to_finding_model (vo_errors outcome),
            vr_warnings = map to_finding_model (vo_warnings outcome),
            vr_checks_performed = vo_checks_performed outcome\<rparr>
      in if validation_result_valid r then Some r else None)"

definition default_context :: validator_context where
  "default_context = \<lparr>vc_contains = contains, vc_meaningful_overlap = meaningful_overlap AREA_TOLERANCE,
     vc_policies = DEFAULT_REGISTRY, vc_camera_resolver = None, vc_set_order = (\<lambda>xs. xs)\<rparr>"

end
