(* ===== verification/Config_Validation_Facts.thy ===== *)
theory Config_Validation_Facts
  imports Config_Validation Config_Samples
begin

text \<open>
  What a configuration version has to satisfy to be valid, stage by stage, and the theorem that the
  engine decides exactly that; what the pure spatial engine makes of the orientation of a ring, and
  what the wildcard of the privacy policies hides.
\<close>

subsection \<open>Stages as conditions\<close>

definition profile_ids :: "configuration_version \<Rightarrow> string list" where
  "profile_ids v = map snd (identified v)"

definition structure_ok :: "configuration_version \<Rightarrow> bool" where
  "structure_ok v = (distinct (profile_ids v) \<and> (\<forall>i\<in>set (profile_ids v). \<not> blank i))"

definition references_ok :: "configuration_version \<Rightarrow> bool" where
  "references_ok v = (\<forall>(kind, owner, r)\<in>set (references_of v). r \<in> set (profile_ids v))"

definition coordinates_ok :: "configuration_version \<Rightarrow> bool" where
  "coordinates_ok v = (\<forall>e\<in>set (geometry_entities v).
     (gm_coordinate_space (ge_geometry e) = IMAGE_NORMALIZED \<longrightarrow>
        (\<forall>point\<in>set (gm_coordinates (ge_geometry e)). \<forall>c\<in>set (take 2 point). float_in 0 c 1)) \<and>
     (is_camera_relative (ge_geometry e) \<longrightarrow>
        (\<exists>c\<in>set (cv_cameras v). gm_reference_camera_profile_id (ge_geometry e) = Some (cam_profile_id c))) \<and>
     (gm_geometry_scope (ge_geometry e) = VENUE \<longrightarrow> \<not> truthy (gm_reference_camera_profile_id (ge_geometry e))))"

definition simple_polygon :: "geometry_model \<Rightarrow> bool" where
  "simple_polygon g = (is_self_intersecting g = Inr False \<and> is_degenerate g = Inr False \<and>
     (\<exists>rg. ring g = Inr rg \<and> hd rg = last rg))"

definition geometries_ok :: "configuration_version \<Rightarrow> bool" where
  "geometries_ok v = (\<forall>e\<in>set (geometry_entities v). meets_geometry_contract (ge_kind e) (ge_geometry e) \<and>
     (gm_geometry_type (ge_geometry e) = POLYGON \<longrightarrow> simple_polygon (ge_geometry e)))"

definition overlaps_ok :: "validator_context \<Rightarrow> configuration_version \<Rightarrow> bool" where
  "overlaps_ok ctx v =
     (let polys = filter (\<lambda>e. gm_geometry_type (ge_geometry e) = POLYGON) (geometry_entities v)
      in \<forall>(a, b)\<in>set (pairs_of polys). rejects_overlap (vc_policies ctx) (ge_kind a) (ge_kind b) \<longrightarrow>
           \<not> (ge_kind a = ge_kind b \<and> ge_kind a \<in> {PRIVACY_ROI_KIND, EXCLUSION_ROI_KIND}) \<longrightarrow>
           vc_meaningful_overlap ctx (ge_geometry a) (ge_geometry b) = Inr False)"

definition containment_ok :: "validator_context \<Rightarrow> configuration_version \<Rightarrow> bool" where
  "containment_ok ctx v =
     (\<forall>e\<in>set (geometry_entities v). \<forall>parent zone.
        ge_zone_profile_id e = Some parent \<longrightarrow> requires_containment (vc_policies ctx) (ge_kind e) ZONE_KIND \<longrightarrow>
        zone_geometries v parent = Some zone \<longrightarrow> vc_contains ctx zone (ge_geometry e) = Inr True)"

definition cameras_ok :: "validator_context \<Rightarrow> configuration_version \<Rightarrow> bool" where
  "cameras_ok ctx v =
     (\<forall>camera_status. vc_camera_resolver ctx = Some camera_status \<longrightarrow> (\<forall>c\<in>set (cv_cameras v).
        (\<exists>s. camera_status (cam_camera_id c) = Some s \<and>
             s \<notin> {''retired'', ''disabled'', ''unavailable'', ''inactive''}) \<and>
        set (cam_detection_zones c) \<subseteq> set (map zone_profile_id (cv_zones v))))"

text \<open>An ROI is filed under a camera that it names, or under the wildcard when it names none.\<close>

definition privacy_ok :: "configuration_version \<Rightarrow> bool" where
  "privacy_ok v =
     (\<forall>cam. (\<forall>p\<in>set (cv_privacy_rois v). \<forall>q\<in>set (cv_privacy_rois v).
          cam \<in> set (cameras_or_any (priv_camera_profiles p)) \<longrightarrow>
          cam \<in> set (cameras_or_any (priv_camera_profiles q)) \<longrightarrow> priv_action p = priv_action q) \<and>
        (\<forall>p\<in>set (cv_privacy_rois v). \<forall>x\<in>set (cv_exclusion_rois v).
          cam \<in> set (cameras_or_any (priv_camera_profiles p)) \<longrightarrow>
          cam \<in> set (cameras_or_any (excl_camera_profiles x)) \<longrightarrow>
          ''detection'' \<in> set (excl_excluded_tasks x) \<longrightarrow>
          gm_coordinate_space (priv_geometry p) \<noteq> gm_coordinate_space (excl_geometry x)))"

subsection \<open>The findings of the stages\<close>

lemma is_error_iff: "is_error f \<longleftrightarrow> fd_code f \<notin> WARNING_CODES"
  by (simp add: is_error_def severity_of_def)

lemma fd_code_entity_finding [simp]: "fd_code (entity_finding c k i r) = c"
  by (simp add: entity_finding_def)

lemma fd_code_ge_finding [simp]: "fd_code (ge_finding c e r) = c"
  by (simp add: ge_finding_def)

lemma structural_findings_empty:
  "structural_findings seen xs = [] \<longleftrightarrow>
     distinct (map snd xs) \<and> (\<forall>i\<in>set (map snd xs). \<not> blank i) \<and> set (map snd xs) \<inter> dom seen = {}"
proof (induction xs arbitrary: seen)
  case (Cons x xs)
  obtain k i where x: "x = (k, i)" by fastforce
  show ?case
  proof (cases "seen i")
    case None
    then have "i \<notin> dom seen" by blast
    with None show ?thesis by (simp add: x Cons.IH del: fun_upd_apply) blast
  qed (auto simp: x)
qed simp

lemma structural_findings_errors: "f \<in> set (structural_findings seen xs) \<Longrightarrow> is_error f"
  by (induction seen xs rule: structural_findings.induct)
    (auto simp: is_error_iff WARNING_CODES_def split: if_splits option.splits)

lemma collect_ids_fold: "foldl (\<lambda>ids (category, pid). ids(pid \<mapsto> category)) m xs r = None \<longleftrightarrow>
    m r = None \<and> r \<notin> set (map snd xs)"
  by (induction xs arbitrary: m) (auto split: if_splits)

lemma collect_profile_ids_None: "collect_profile_ids v r = None \<longleftrightarrow> r \<notin> set (profile_ids v)"
  by (simp add: collect_profile_ids_def profile_ids_def collect_ids_fold)

lemma check_in_version_empty: "check_in_version ids (k, i, r) = [] \<longleftrightarrow> ids r \<noteq> None"
  by (cases "ids r") simp_all

lemma reference_findings_empty: "reference_findings v = [] \<longleftrightarrow> references_ok v"
proof -
  have "check_in_version (collect_profile_ids v) x = [] \<longleftrightarrow> (case x of (k, i, r) \<Rightarrow> r \<in> set (profile_ids v))" for x
    by (cases x) (simp only: check_in_version_empty collect_profile_ids_None prod.case not_not)
  then show ?thesis
    unfolding reference_findings_def references_ok_def concat_eq_Nil_conv list.set_map ball_simps by simp
qed

lemma reference_findings_code: "f \<in> set (reference_findings v) \<Longrightarrow> fd_code f = MISSING_REFERENCE"
  unfolding reference_findings_def by (auto split: option.splits)

lemma space_findings_empty [simp]: "space_findings e = []"
  by (cases "gm_coordinate_space (ge_geometry e)") (simp_all add: space_findings_def)

lemma coordinate_findings_errors: "f \<in> set (coordinate_findings cams e) \<Longrightarrow> is_error f"
  by (auto simp: coordinate_findings_def Let_def is_error_iff WARNING_CODES_def split: if_splits)

lemma coordinate_findings_empty:
  "concat (map (coordinate_findings (set (map cam_profile_id (cv_cameras v)))) (geometry_entities v)) = [] \<longleftrightarrow>
     coordinates_ok v"
  unfolding coordinates_ok_def coordinate_findings_def Let_def concat_eq_Nil_conv list.set_map ball_simps append_is_Nil_conv
  by (rule ball_cong [OF refl]) (auto split: option.splits)

lemma geometry_findings_errors: "geometry_findings e = Inr fs \<Longrightarrow> f \<in> set fs \<Longrightarrow> is_error f"
  by (auto simp: geometry_findings_def Let_def is_error_iff WARNING_CODES_def split: if_splits)

lemma lift_ring_Inr [simp]: "lift_ring m = Inr x \<longleftrightarrow> m = Inr x"
  by (cases m) simp_all

lemma geometry_findings_empty:
  "geometry_findings e = Inr [] \<longleftrightarrow> meets_geometry_contract (ge_kind e) (ge_geometry e) \<and>
     (gm_geometry_type (ge_geometry e) = POLYGON \<longrightarrow> simple_polygon (ge_geometry e))"
  by (auto simp: geometry_findings_def Let_def simple_polygon_def)

lemma mapM_all_empty: "mapM f xs = Inr yss \<Longrightarrow> concat yss = [] \<longleftrightarrow> (\<forall>x\<in>set xs. f x = Inr [])"
  by (induction xs arbitrary: yss) auto

lemma mapM_set: "mapM f xs = Inr yss \<Longrightarrow> y \<in> set (concat yss) \<Longrightarrow> \<exists>x\<in>set xs. \<exists>ys. f x = Inr ys \<and> y \<in> set ys"
  using mapM_Inr_set by fastforce

lemma overlap_findings_errors: "overlap_findings ctx p = Inr fs \<Longrightarrow> f \<in> set fs \<Longrightarrow> is_error f"
  by (auto simp: overlap_findings_def is_error_iff WARNING_CODES_def split: prod.splits if_splits)

lemma containment_findings_errors: "containment_findings ctx zs e = Inr fs \<Longrightarrow> f \<in> set fs \<Longrightarrow> is_error f"
  by (auto simp: containment_findings_def is_error_iff WARNING_CODES_def split: option.splits if_splits)

lemma overlap_findings_empty:
  "overlap_findings ctx (a, b) = Inr [] \<longleftrightarrow>
     (rejects_overlap (vc_policies ctx) (ge_kind a) (ge_kind b) \<longrightarrow>
      \<not> (ge_kind a = ge_kind b \<and> ge_kind a \<in> {PRIVACY_ROI_KIND, EXCLUSION_ROI_KIND}) \<longrightarrow>
      vc_meaningful_overlap ctx (ge_geometry a) (ge_geometry b) = Inr False)"
  by (auto simp: overlap_findings_def)

lemma containment_findings_empty:
  "containment_findings ctx zs e = Inr [] \<longleftrightarrow>
     (\<forall>parent zone. ge_zone_profile_id e = Some parent \<longrightarrow>
        requires_containment (vc_policies ctx) (ge_kind e) ZONE_KIND \<longrightarrow>
        zs parent = Some zone \<longrightarrow> vc_contains ctx zone (ge_geometry e) = Inr True)"
  by (auto simp: containment_findings_def split: option.splits)

subsection \<open>ROIs by camera\<close>

lemma append_under_map:
  "map_of (append_under k x d) k' = (if k' = k then Some ((case map_of d k of None \<Rightarrow> [] | Some xs \<Rightarrow> xs) @ [x])
     else map_of d k')"
  by (induction k x d rule: append_under.induct) auto

lemma append_under_keys: "fst ` set (append_under k x d) = insert k (fst ` set d)"
  by (induction k x d rule: append_under.induct) auto

lemma append_under_distinct: "distinct (map fst d) \<Longrightarrow> distinct (map fst (append_under k x d))"
proof (induction k x d rule: append_under.induct)
  case (2 k x k' xs rest)
  have "fst ` set (append_under k x rest) = insert k (fst ` set rest)" by (rule append_under_keys)
  with 2 show ?case by auto
qed simp

lemma append_under_fold:
  assumes "distinct (map fst d)" and "d' = foldl (\<lambda>d (cam, roi). append_under cam roi d) d ps"
  shows "distinct (map fst d')" "fst ` set d' = fst ` set d \<union> fst ` set ps"
    "the_list d' k = the_list d k @ map snd (filter (\<lambda>p. fst p = k) ps)"
proof -
  have "distinct (map fst d') \<and> fst ` set d' = fst ` set d \<union> fst ` set ps \<and>
      the_list d' k = the_list d k @ map snd (filter (\<lambda>p. fst p = k) ps)"
    using assms
  proof (induction ps arbitrary: d)
    case (Cons p ps)
    obtain cam roi where p: "p = (cam, roi)" by fastforce
    with Cons.prems(2) have "d' = foldl (\<lambda>d (cam, roi). append_under cam roi d) (append_under cam roi d) ps" by simp
    from Cons.IH [OF append_under_distinct [OF Cons.prems(1)] this]
    show ?case by (auto simp: p append_under_keys the_list_def append_under_map split: option.split)
  qed simp
  then show "distinct (map fst d')" "fst ` set d' = fst ` set d \<union> fst ` set ps"
    "the_list d' k = the_list d k @ map snd (filter (\<lambda>p. fst p = k) ps)" by simp_all
qed

definition filed :: "('a \<Rightarrow> string list) \<Rightarrow> string \<Rightarrow> 'a \<Rightarrow> bool" where
  "filed profiles cam roi = (cam \<in> set (cameras_or_any (profiles roi)))"

lemma by_camera_facts:
  "distinct (map fst (by_camera f rois))"
  "cam \<in> fst ` set (by_camera f rois) \<longleftrightarrow> (\<exists>r\<in>set rois. filed f cam r)"
  "set (the_list (by_camera f rois) cam) = {r\<in>set rois. filed f cam r}"
proof -
  note fold = append_under_fold [OF _ by_camera_def, simplified, of f rois]
  show "distinct (map fst (by_camera f rois))" by (rule fold(1))
  show "cam \<in> fst ` set (by_camera f rois) \<longleftrightarrow> (\<exists>r\<in>set rois. filed f cam r)"
    unfolding fold(2) filed_def by force
  show "set (the_list (by_camera f rois) cam) = {r\<in>set rois. filed f cam r}"
    unfolding fold(3) filed_def by (force simp: the_list_def)
qed

lemma by_camera_entry:
  "(cam, rs) \<in> set (by_camera f rois) \<Longrightarrow> set rs = {r\<in>set rois. filed f cam r}"
  using by_camera_facts(3) [of f rois cam] map_of_is_SomeI [OF by_camera_facts(1) [of f rois], of cam rs]
  by (simp add: the_list_def)

definition privacy_stage :: "validator_context \<Rightarrow> configuration_version \<Rightarrow> config_finding list" where
  "privacy_stage ctx v =
     (let privs = by_camera priv_camera_profiles (cv_privacy_rois v);
          excls = by_camera excl_camera_profiles (cv_exclusion_rois v)
      in concat (map action_findings privs) @
         concat (map (\<lambda>cam. nullified_findings (the_list privs cam) (the_list excls cam))
           (vc_set_order ctx (filter (\<lambda>cam. cam \<in> set (map fst excls)) (map fst privs)))))"

lemma add_findings_twice [simp]: "add_findings (add_findings col a) b = add_findings col (a @ b)"
  by (simp add: add_findings_def)

lemma validate_privacy_policy_stage:
  "validate_privacy_policy v col ctx = Inr (add_findings col (privacy_stage ctx v))"
  by (simp add: validate_privacy_policy_def privacy_stage_def Let_def)

lemma action_findings_empty:
  "action_findings (cam, rs) = [] \<longleftrightarrow> (\<forall>p\<in>set rs. \<forall>q\<in>set rs. priv_action p = priv_action q)"
proof -
  have "1 < length (remdups (map priv_action rs)) \<longleftrightarrow> \<not> card (priv_action ` set rs) \<le> Suc 0"
    by (simp add: length_remdups_card_conv not_le)
  also have "card (priv_action ` set rs) \<le> Suc 0 \<longleftrightarrow> (\<forall>p\<in>set rs. \<forall>q\<in>set rs. priv_action p = priv_action q)"
    unfolding card_le_Suc0_iff_eq [OF finite_imageI [OF finite_set]] by blast
  finally show ?thesis unfolding action_findings_def prod.case by (metis list.distinct(1))
qed

lemma nullified_findings_empty:
  "nullified_findings ps xs = [] \<longleftrightarrow> (\<forall>p\<in>set ps. \<forall>x\<in>set xs. ''detection'' \<in> set (excl_excluded_tasks x) \<longrightarrow>
     gm_coordinate_space (priv_geometry p) \<noteq> gm_coordinate_space (excl_geometry x))"
  by (auto simp: nullified_findings_def)

lemma privacy_stage_errors: "f \<in> set (privacy_stage ctx v) \<Longrightarrow> is_error f"
proof -
  have "is_error f" if "f \<in> set (action_findings x)" for x
    using that by (cases x) (simp add: action_findings_def is_error_iff WARNING_CODES_def split: if_splits)
  moreover have "is_error f" if "f \<in> set (nullified_findings ps xs)" for ps xs
    using that by (fastforce simp: nullified_findings_def is_error_iff WARNING_CODES_def split: if_splits)
  ultimately show "is_error f" if "f \<in> set (privacy_stage ctx v)"
    using that unfolding privacy_stage_def Let_def set_append set_concat set_map by blast
qed

lemma privacy_stage_empty:
  assumes "\<And>xs. set (vc_set_order ctx xs) = set xs"
  shows "privacy_stage ctx v = [] \<longleftrightarrow> privacy_ok v"
proof -
  let ?p = "by_camera priv_camera_profiles (cv_privacy_rois v)"
  let ?x = "by_camera excl_camera_profiles (cv_exclusion_rois v)"
  have "concat (map action_findings ?p) = [] \<longleftrightarrow> (\<forall>cam. \<forall>p\<in>set (cv_privacy_rois v). \<forall>q\<in>set (cv_privacy_rois v).
      filed priv_camera_profiles cam p \<longrightarrow> filed priv_camera_profiles cam q \<longrightarrow> priv_action p = priv_action q)"
    (is "?l = ?r")
  proof
    assume l: ?l
    show ?r
    proof (intro allI ballI impI)
      fix cam p q
      assume pq: "p \<in> set (cv_privacy_rois v)" "q \<in> set (cv_privacy_rois v)" "filed priv_camera_profiles cam p"
        "filed priv_camera_profiles cam q"
      then obtain rs where rs: "(cam, rs) \<in> set ?p"
        using by_camera_facts(2) [of cam priv_camera_profiles "cv_privacy_rois v"] by fastforce
      with l have "action_findings (cam, rs) = []" by simp
      then show "priv_action p = priv_action q"
        unfolding action_findings_empty by_camera_entry [OF rs] using pq by blast
    qed
  next
    assume r: ?r
    have "action_findings (cam, rs) = []" if "(cam, rs) \<in> set ?p" for cam rs
      unfolding action_findings_empty by_camera_entry [OF that] using r by blast
    then show ?l by fastforce
  qed
  moreover have "concat (map (\<lambda>cam. nullified_findings (the_list ?p cam) (the_list ?x cam))
      (vc_set_order ctx (filter (\<lambda>cam. cam \<in> set (map fst ?x)) (map fst ?p)))) = [] \<longleftrightarrow>
    (\<forall>cam. \<forall>p\<in>set (cv_privacy_rois v). \<forall>x\<in>set (cv_exclusion_rois v). filed priv_camera_profiles cam p \<longrightarrow>
      filed excl_camera_profiles cam x \<longrightarrow> ''detection'' \<in> set (excl_excluded_tasks x) \<longrightarrow>
      gm_coordinate_space (priv_geometry p) \<noteq> gm_coordinate_space (excl_geometry x))"
    unfolding concat_eq_Nil_conv list.set_map ball_simps assms set_filter nullified_findings_empty
      by_camera_facts(3) by_camera_facts(2) mem_Collect_eq by blast
  ultimately show ?thesis
    unfolding privacy_stage_def Let_def append_is_Nil_conv privacy_ok_def filed_def by (simp only: all_conj_distrib)
qed

subsection \<open>The run of the stages\<close>

definition coordinate_stage :: "configuration_version \<Rightarrow> config_finding list" where
  "coordinate_stage v =
     concat (map (coordinate_findings (set (map cam_profile_id (cv_cameras v)))) (geometry_entities v))"

definition spatial_stage :: "validator_context \<Rightarrow> configuration_version \<Rightarrow> validation_failure + config_finding list" where
  "spatial_stage ctx v =
     rbind (mapM (overlap_findings ctx)
       (pairs_of (filter (\<lambda>e. gm_geometry_type (ge_geometry e) = POLYGON) (geometry_entities v)))) (\<lambda>os.
     rbind (mapM (containment_findings ctx (zone_geometries v)) (geometry_entities v)) (\<lambda>cs.
       Inr (concat os @ concat cs)))"

definition camera_stage :: "validator_context \<Rightarrow> configuration_version \<Rightarrow> config_finding list" where
  "camera_stage ctx v = (case vc_camera_resolver ctx of None \<Rightarrow> []
     | Some camera_status \<Rightarrow>
         concat (map (camera_findings camera_status (set (map zone_profile_id (cv_zones v)))) (cv_cameras v)) @
         uncovered_findings v)"

definition coverage_stage :: "configuration_version \<Rightarrow> config_finding list" where
  "coverage_stage v = uncovered_findings v @
     concat (map (\<lambda>cam. if cam_detection_zones cam = []
       then [entity_finding CAMERA_NO_CONFIGURED_COVERAGE CAMERA_KIND (cam_profile_id cam) None] else []) (cv_cameras v))"

definition suppressed :: "configuration_version \<Rightarrow> config_finding list \<Rightarrow> bool" where
  "suppressed v gfs = (list_ex (\<lambda>f. fd_code f \<in> REFERENCE_FAILURE_CODES) (reference_findings v) \<or>
     list_ex (\<lambda>f. fd_code f \<in> GEOMETRY_FAILURE_CODES) gfs)"

lemma collector_simps [simp]:
  "fc_findings (add_findings col fs) = fc_findings col @ fs"
  "fc_geometry_ok (add_findings col fs) = fc_geometry_ok col"
  "fc_references_ok (add_findings col fs) = fc_references_ok col"
  "fc_checks_performed (add_findings col fs) = fc_checks_performed col"
  by (simp_all add: add_findings_def)

lemma stage_simps:
  "validate_coordinate_stage v col ctx = Inr (add_findings col (coordinate_stage v))"
  "validate_spatial v col ctx = (if \<not> fc_geometry_ok col \<or> \<not> fc_references_ok col then Inr col
     else rbind (spatial_stage ctx v) (\<lambda>fs. Inr (add_findings col fs)))"
  "validate_cameras v col ctx = Inr (add_findings col (camera_stage ctx v))"
  "validate_cv_compatibility v col ctx = Inr (add_findings col (coverage_stage v))"
  by (simp_all add: validate_coordinate_stage_def coordinate_stage_def validate_spatial_def spatial_stage_def Let_def
      rbind_assoc validate_cameras_def camera_stage_def validate_cv_compatibility_def coverage_stage_def add_findings_def
      split: option.split)

lemma run_all_stages:
  "run_all_validators v new_collector ctx = Inr col \<longleftrightarrow>
     (\<exists>gfs sfs. mapM geometry_findings (geometry_entities v) = Inr gfs \<and>
        (if suppressed v (concat gfs) then sfs = [] else spatial_stage ctx v = Inr sfs) \<and>
        col = \<lparr>fc_findings = structural_findings Map.empty (identified v) @ reference_findings v @
            coordinate_stage v @ concat gfs @ sfs @ camera_stage ctx v @ privacy_stage ctx v @ coverage_stage v,
          fc_geometry_ok = \<not> list_ex (\<lambda>f. fd_code f \<in> GEOMETRY_FAILURE_CODES) (concat gfs),
          fc_references_ok = \<not> list_ex (\<lambda>f. fd_code f \<in> REFERENCE_FAILURE_CODES) (reference_findings v),
          fc_checks_performed = (if suppressed v (concat gfs) then 7 else 8)\<rparr>)"
proof (cases "mapM geometry_findings (geometry_entities v)")
  case (Inl e)
  then show ?thesis
    by (simp add: run_all_validators_def VALIDATOR_STAGES_def run_stage_def validate_structural_def
        validate_references_def validate_geometry_def stage_simps Let_def del: rbind_eq_Inr)
next
  case (Inr gfs)
  note run = run_all_validators_def VALIDATOR_STAGES_def run_stage_def validate_structural_def suppressed_def
    validate_references_def validate_geometry_def stage_simps validate_privacy_policy_stage new_collector_def Inr
  show ?thesis
    by (cases "list_ex (\<lambda>f. fd_code f \<in> REFERENCE_FAILURE_CODES) (reference_findings v)";
        cases "list_ex (\<lambda>f. fd_code f \<in> GEOMETRY_FAILURE_CODES) (concat gfs)"; cases "spatial_stage ctx v")
      (auto simp: run Let_def add_findings_def simp del: rbind_eq_Inr)
qed

lemma uncovered_findings_warn: "f \<in> set (uncovered_findings v) \<Longrightarrow> \<not> is_error f"
  by (auto simp: uncovered_findings_def is_error_iff WARNING_CODES_def split: if_splits)

lemma coverage_stage_warn: "f \<in> set (coverage_stage v) \<Longrightarrow> \<not> is_error f"
  using uncovered_findings_warn by (auto simp: coverage_stage_def is_error_iff WARNING_CODES_def split: if_splits)

lemma camera_findings_clean:
  "(\<forall>f\<in>set (camera_findings camera_status zone_ids c). \<not> is_error f) \<longleftrightarrow>
     (\<exists>s. camera_status (cam_camera_id c) = Some s \<and> s \<notin> {''retired'', ''disabled'', ''unavailable'', ''inactive''}) \<and>
     set (cam_detection_zones c) \<subseteq> zone_ids"
proof -
  have "(\<forall>f\<in>set (if cam_detection_zones c = [] then [entity_finding CAMERA_NO_CONFIGURED_COVERAGE CAMERA_KIND (cam_profile_id c) None]
      else if list_ex (\<lambda>z. z \<notin> zone_ids) (cam_detection_zones c) then
        [entity_finding CROSS_VERSION_REFERENCE CAMERA_KIND (cam_profile_id c) None] else []). \<not> is_error f) \<longleftrightarrow>
      set (cam_detection_zones c) \<subseteq> zone_ids"
    by (auto simp: is_error_iff WARNING_CODES_def list_ex_iff)
  moreover have "(\<forall>f\<in>set (case camera_status (cam_camera_id c) of
        None \<Rightarrow> [entity_finding CAMERA_REFERENCE_INVALID CAMERA_KIND (cam_profile_id c) None]
      | Some status \<Rightarrow> if status \<in> {''retired'', ''disabled'', ''unavailable'', ''inactive''} then
            [entity_finding (if status = ''retired'' then CAMERA_RETIRED else CAMERA_UNAVAILABLE)
              CAMERA_KIND (cam_profile_id c) None] else []). \<not> is_error f) \<longleftrightarrow>
      (\<exists>s. camera_status (cam_camera_id c) = Some s \<and> s \<notin> {''retired'', ''disabled'', ''unavailable'', ''inactive''})"
    by (cases "camera_status (cam_camera_id c)") (simp_all add: is_error_iff WARNING_CODES_def)
  ultimately show ?thesis unfolding camera_findings_def set_append ball_Un by simp
qed

lemma camera_stage_clean: "(\<forall>f\<in>set (camera_stage ctx v). \<not> is_error f) \<longleftrightarrow> cameras_ok ctx v"
proof (cases "vc_camera_resolver ctx")
  case (Some camera_status)
  have "(\<forall>f\<in>set (camera_stage ctx v). \<not> is_error f) \<longleftrightarrow> (\<forall>c\<in>set (cv_cameras v).
      \<forall>f\<in>set (camera_findings camera_status (set (map zone_profile_id (cv_zones v))) c). \<not> is_error f)"
    using uncovered_findings_warn by (simp add: camera_stage_def Some) blast
  then show ?thesis unfolding camera_findings_clean cameras_ok_def by (simp add: Some)
qed (simp add: camera_stage_def cameras_ok_def)

lemma errors_empty: "(\<And>f. f \<in> set fs \<Longrightarrow> is_error f) \<Longrightarrow> (\<forall>f\<in>set fs. \<not> is_error f) \<longleftrightarrow> fs = []"
  by (cases fs) auto

lemma spatial_stage_empty:
  assumes "spatial_stage ctx v = Inr fs"
  shows "(\<forall>f\<in>set fs. \<not> is_error f) \<longleftrightarrow> overlaps_ok ctx v \<and> containment_ok ctx v"
proof -
  let ?polys = "filter (\<lambda>e. gm_geometry_type (ge_geometry e) = POLYGON) (geometry_entities v)"
  from assms obtain os cs where run: "mapM (overlap_findings ctx) (pairs_of ?polys) = Inr os"
      "mapM (containment_findings ctx (zone_geometries v)) (geometry_entities v) = Inr cs" "fs = concat os @ concat cs"
    by (auto simp: spatial_stage_def)
  have "is_error f" if "f \<in> set fs" for f
    using that mapM_set [OF run(1), of f] mapM_set [OF run(2), of f] overlap_findings_errors containment_findings_errors
    unfolding run(3) set_append by blast
  then have "(\<forall>f\<in>set fs. \<not> is_error f) \<longleftrightarrow> concat os = [] \<and> concat cs = []"
    using errors_empty [of fs] run(3) by blast
  also have "concat os = [] \<longleftrightarrow> overlaps_ok ctx v"
    unfolding mapM_all_empty [OF run(1)] overlaps_ok_def Let_def
    by (rule ball_cong [OF refl]) (simp add: overlap_findings_empty split: prod.split)
  also have "concat cs = [] \<longleftrightarrow> containment_ok ctx v"
    unfolding mapM_all_empty [OF run(2)] containment_ok_def by (rule ball_cong [OF refl]) (rule containment_findings_empty)
  finally show ?thesis .
qed

lemma validate_valid_iff:
  assumes run: "validate ctx v = Inr outcome" and order: "\<And>xs. set (vc_set_order ctx xs) = set xs"
  shows "vo_valid outcome \<longleftrightarrow> structure_ok v \<and> references_ok v \<and> coordinates_ok v \<and> geometries_ok v \<and>
    overlaps_ok ctx v \<and> containment_ok ctx v \<and> cameras_ok ctx v \<and> privacy_ok v"
proof -
  from run obtain col where col: "run_all_validators v new_collector ctx = Inr col"
    and valid: "vo_valid outcome \<longleftrightarrow> (\<forall>f\<in>set (fc_findings col). \<not> is_error f)"
    by (auto simp: validate_def Let_def filter_empty_conv)
  from col obtain gfs sfs where gfs: "mapM geometry_findings (geometry_entities v) = Inr gfs"
    and sfs: "if suppressed v (concat gfs) then sfs = [] else spatial_stage ctx v = Inr sfs"
    and findings: "fc_findings col = structural_findings Map.empty (identified v) @ reference_findings v @
        coordinate_stage v @ concat gfs @ sfs @ camera_stage ctx v @ privacy_stage ctx v @ coverage_stage v"
    unfolding run_all_stages by (metis (no_types, lifting) finding_collector.select_convs(1))
  have geometry: "(\<forall>f\<in>set (concat gfs). \<not> is_error f) \<longleftrightarrow> concat gfs = []"
    using mapM_set [OF gfs] geometry_findings_errors by (intro errors_empty) blast
  have references: "(\<forall>f\<in>set (reference_findings v). \<not> is_error f) \<longleftrightarrow> reference_findings v = []"
    using reference_findings_code by (intro errors_empty) (simp add: is_error_iff WARNING_CODES_def)
  have structural: "(\<forall>f\<in>set (structural_findings Map.empty (identified v)). \<not> is_error f) \<longleftrightarrow>
      structural_findings Map.empty (identified v) = []"
    using structural_findings_errors by (rule errors_empty)
  have coordinates: "(\<forall>f\<in>set (coordinate_stage v). \<not> is_error f) \<longleftrightarrow> coordinate_stage v = []"
    using coordinate_findings_errors by (intro errors_empty) (auto simp: coordinate_stage_def)
  have privacy: "(\<forall>f\<in>set (privacy_stage ctx v). \<not> is_error f) \<longleftrightarrow> privacy_stage ctx v = []"
    using privacy_stage_errors by (rule errors_empty)
  have "vo_valid outcome \<longleftrightarrow> structural_findings Map.empty (identified v) = [] \<and> reference_findings v = [] \<and>
      coordinate_stage v = [] \<and> concat gfs = [] \<and> (\<forall>f\<in>set sfs. \<not> is_error f) \<and> cameras_ok ctx v \<and> privacy_stage ctx v = []"
    unfolding valid findings set_append ball_Un geometry references camera_stage_clean structural coordinates privacy
    using coverage_stage_warn by blast
  also have "\<dots> \<longleftrightarrow> structural_findings Map.empty (identified v) = [] \<and> reference_findings v = [] \<and>
      coordinate_stage v = [] \<and> concat gfs = [] \<and> (overlaps_ok ctx v \<and> containment_ok ctx v) \<and> cameras_ok ctx v \<and>
      privacy_stage ctx v = []"
  proof (cases "reference_findings v = [] \<and> concat gfs = []")
    case True
    then have rf: "reference_findings v = []" and gf: "concat gfs = []" by blast+
    have "\<not> suppressed v (concat gfs)" unfolding suppressed_def rf gf by simp
    with sfs spatial_stage_empty [of ctx v sfs] show ?thesis by metis
  qed blast
  finally show ?thesis
    unfolding structural_findings_empty reference_findings_empty mapM_all_empty [OF gfs] geometry_findings_empty
      coordinate_findings_empty [folded coordinate_stage_def] privacy_stage_empty [OF order]
    by (auto simp: structure_ok_def profile_ids_def geometries_ok_def)
qed

subsection \<open>Totality\<close>

definition uniform_points :: "geometry_model \<Rightarrow> bool" where
  "uniform_points g = (\<exists>n. \<forall>p\<in>set (gm_coordinates g). length p = n)"

lemma planar_point_total: "2 \<le> length p \<Longrightarrow> list_all isfinite p \<Longrightarrow> \<exists>q. planar_point p = Inr q"
proof (cases p rule: planar_point.cases)
  case (1 x y zs)
  then show ?thesis by simp
qed (auto simp: numeral_2_eq_2 elim: isfinite.elims)

lemma mapM_returns: "(\<And>x. x \<in> set xs \<Longrightarrow> \<exists>y. f x = Inr y) \<Longrightarrow> \<exists>ys. mapM f xs = Inr ys"
proof (induction xs)
  case (Cons x xs)
  then obtain y ys where "f x = Inr y" "mapM f xs = Inr ys" by (metis list.set_intros(1,2))
  then show ?case by simp
qed simp

lemma ring_closed_total: "length p = length q \<Longrightarrow> \<exists>b. ring_closed p q = Inr b"
  by (induction p q rule: list_induct2) auto

lemma planar_ring_total:
  assumes valid: "geometry_model_valid g" and uniform: "uniform_points g" and poly: "gm_geometry_type g = POLYGON"
  shows "\<exists>rg. planar_ring g = Inr rg" "\<exists>rg. ring g = Inr rg"
proof -
  define coords where "coords = map (map (\<lambda>c. py_round c (PRECISION (gm_coordinate_space g)))) (gm_coordinates g)"
  from valid have ne: "coords \<noteq> []" and points: "\<forall>p\<in>set coords. 2 \<le> length p \<and> list_all isfinite p"
    by (auto simp: geometry_model_valid_def validate_coordinates_def coords_def list_all_iff)
  from uniform have "length (hd coords) = length (last coords)"
    using ne by (auto simp: uniform_points_def coords_def hd_map last_map)
  then obtain closed where closed: "ring_closed (hd coords) (last coords) = Inr closed"
    using ring_closed_total by blast
  then have ring: "ring g = Inr (if closed then coords else coords @ [hd coords])"
    using poly by (simp add: ring_def canonicalize_def coords_def Let_def)
  have "\<exists>q. planar_point p = Inr q" if "p \<in> set (if closed then coords else coords @ [hd coords])" for p
    using that points ne planar_point_total [of p] by (auto split: if_splits)
  with ring mapM_returns [of _ planar_point] show "\<exists>rg. planar_ring g = Inr rg" "\<exists>rg. ring g = Inr rg"
    by (auto simp: planar_ring_def)
qed

lemma overlap_area_total:
  "polygons a = Inr ra \<Longrightarrow> polygons b = Inr rb \<Longrightarrow> \<exists>r. overlap_area a b = Inr r"
  by (cases ra; cases rb) (simp_all add: overlap_area_def)

lemma contains_total:
  "polygons a = Inr ra \<Longrightarrow> polygons b = Inr rb \<Longrightarrow> \<exists>r. contains a b = Inr r"
  by (cases ra; cases rb) (auto simp: contains_def)

lemma validate_total:
  assumes geometries: "\<And>e. e \<in> set (geometry_entities v) \<Longrightarrow>
      geometry_model_valid (ge_geometry e) \<and> uniform_points (ge_geometry e)"
    and engine: "vc_contains ctx = contains" "vc_meaningful_overlap ctx = meaningful_overlap tolerance"
  shows "\<exists>outcome. validate ctx v = Inr outcome"
proof -
  have rings: "\<exists>rg. polygons (ge_geometry e) = Inr rg" if "e \<in> set (geometry_entities v)" for e
    using geometries [OF that] planar_ring_total by (auto simp: polygons_def)
  have "\<exists>fs. geometry_findings e = Inr fs" if "e \<in> set (geometry_entities v)" for e
  proof (cases "gm_geometry_type (ge_geometry e) = POLYGON")
    case True
    with geometries [OF that] obtain rg rg' where "planar_ring (ge_geometry e) = Inr rg" "ring (ge_geometry e) = Inr rg'"
      using planar_ring_total by blast
    then show ?thesis
      by (simp add: geometry_findings_def is_self_intersecting_def is_degenerate_def area_def Let_def)
  qed (simp add: geometry_findings_def Let_def)
  then obtain gfs where gfs: "mapM geometry_findings (geometry_entities v) = Inr gfs" using mapM_returns by blast
  have pairs: "a \<in> set xs \<and> b \<in> set xs" if "(a, b) \<in> set (pairs_of xs)" for a b and xs :: "geometry_entity list"
    using that by (induction xs rule: pairs_of.induct) auto
  have calls: "\<exists>r. vc_meaningful_overlap ctx (ge_geometry a) (ge_geometry b) = Inr r"
      "\<exists>r. vc_contains ctx g (ge_geometry b) = Inr r"
    if "a \<in> set (geometry_entities v)" "b \<in> set (geometry_entities v)" "g = ge_geometry a" for a b g
    using rings [OF that(1)] rings [OF that(2)] overlap_area_total [of "ge_geometry a" _ "ge_geometry b"]
      contains_total [of "ge_geometry a" _ "ge_geometry b"]
    unfolding engine that(3) meaningful_overlap_def by (metis rbind_Inr)+
  have "\<exists>fs. overlap_findings ctx p = Inr fs"
    if "p \<in> set (pairs_of (filter (\<lambda>e. gm_geometry_type (ge_geometry e) = POLYGON) (geometry_entities v)))" for p
  proof -
    obtain a b where p: "p = (a, b)" by fastforce
    from pairs [OF that [unfolded p]] have "a \<in> set (geometry_entities v)" "b \<in> set (geometry_entities v)" by simp_all
    from calls(1) [OF this refl] show ?thesis by (auto simp: overlap_findings_def p)
  qed
  then obtain os where os: "mapM (overlap_findings ctx)
      (pairs_of (filter (\<lambda>e. gm_geometry_type (ge_geometry e) = POLYGON) (geometry_entities v))) = Inr os"
    using mapM_returns by blast
  have zones: "\<exists>z\<in>set (geometry_entities v). g = ge_geometry z" if "zone_geometries v k = Some g" for k g
    using map_of_SomeD [OF that [unfolded zone_geometries_def]] by (force simp: geometry_entities_def)
  have "\<exists>fs. containment_findings ctx (zone_geometries v) e = Inr fs" if e: "e \<in> set (geometry_entities v)" for e
  proof (cases "ge_zone_profile_id e")
    case (Some k)
    show ?thesis
    proof (cases "zone_geometries v k")
      case (Some g)
      from zones [OF this] e obtain b where "vc_contains ctx g (ge_geometry e) = Inr b" using calls(2) by blast
      with Some \<open>ge_zone_profile_id e = Some k\<close> show ?thesis by (simp add: containment_findings_def)
    qed (simp add: containment_findings_def Some)
  qed (simp add: containment_findings_def)
  then obtain cs where "mapM (containment_findings ctx (zone_geometries v)) (geometry_entities v) = Inr cs"
    using mapM_returns by blast
  with os have spatial: "spatial_stage ctx v = Inr (concat os @ concat cs)" by (simp add: spatial_stage_def)
  have "\<exists>col. run_all_validators v new_collector ctx = Inr col"
    unfolding run_all_stages using gfs spatial by (cases "suppressed v (concat gfs)") auto
  then show ?thesis by (auto simp: validate_def Let_def)
qed

subsection \<open>Orientation\<close>

lemma clip_walk_inside:
  "orientation a b s \<ge> 0 \<Longrightarrow> \<forall>e\<in>set es. orientation a b e \<ge> 0 \<Longrightarrow> clip_walk a b s es = es"
  by (induction a b s es rule: clip_walk.induct) auto

lemma clip_walk_outside:
  "orientation a b s < 0 \<Longrightarrow> \<forall>e\<in>set es. orientation a b e < 0 \<Longrightarrow> clip_walk a b s es = []"
  by (induction a b s es rule: clip_walk.induct) auto

lemma clip_edges_inside:
  "out \<noteq> [] \<Longrightarrow> \<forall>(a, b)\<in>set es. \<forall>e\<in>set out. orientation a b e \<ge> 0 \<Longrightarrow> clip_edges es out = \<bar>shoelace out\<bar> / 2"
  by (induction es out rule: clip_edges.induct) (auto simp: clip_walk_inside)

lemma clip_edges_empty [simp]: "clip_edges es [] = 0"
  by (cases es rule: list.exhaust) (auto simp: shoelace_def edges_def)

definition clockwise_rect :: "real \<Rightarrow> real \<Rightarrow> real \<Rightarrow> real \<Rightarrow> point2 list" where
  "clockwise_rect x0 y0 x1 y1 = [(x0, y0), (x0, y1), (x1, y1), (x1, y0), (x0, y0)]"

definition counterclockwise_rect :: "real \<Rightarrow> real \<Rightarrow> real \<Rightarrow> real \<Rightarrow> point2 list" where
  "counterclockwise_rect x0 y0 x1 y1 = [(x0, y0), (x1, y0), (x1, y1), (x0, y1), (x0, y0)]"

lemma clockwise_hides:
  assumes "y0 < y1" "r \<noteq> []" "\<forall>p\<in>set r. x0 < fst p"
  shows "ring_intersection_area r (clockwise_rect x0 y0 x1 y1) = 0"
proof -
  have "orientation (x0, y0) (x0, y1) p < 0" if "p \<in> set r" for p
    using that assms(1,3) by (simp add: orientation_def)
  then have "clip_walk (x0, y0) (x0, y1) (last r) r = []"
    using assms(2) by (intro clip_walk_outside) auto
  with assms(2) show ?thesis by (simp add: ring_intersection_area_def clockwise_rect_def edges_def)
qed

lemma counterclockwise_measures:
  assumes "x0 < x1" "y0 < y1" "r \<noteq> []" "\<forall>p\<in>set r. x0 \<le> fst p \<and> fst p \<le> x1 \<and> y0 \<le> snd p \<and> snd p \<le> y1"
  shows "ring_intersection_area r (counterclockwise_rect x0 y0 x1 y1) = \<bar>shoelace r\<bar> / 2"
proof -
  have "\<forall>(a, b)\<in>set (edges (counterclockwise_rect x0 y0 x1 y1)). \<forall>e\<in>set r. orientation a b e \<ge> 0"
    using assms by (auto simp: counterclockwise_rect_def edges_def orientation_def mult_nonpos_nonneg mult_nonneg_nonpos2
        zero_le_mult_iff mult_le_0_iff)
  with assms(3) show ?thesis by (simp add: ring_intersection_area_def clip_edges_inside)
qed

subsection \<open>Properties\<close>

text \<open>C20: The engine decides exactly the conditions of a publishable configuration: when it returns, the version is valid
  if and only if every profile id is non-blank and used once, every reference names a profile of the version,
  coordinates and camera frames agree with their space, every geometry meets its entity's contract and every polygon is
  simple, no pair of entities overlaps against the policy, every declared parent zone contains its child, every camera
  exists and is in service, and the privacy and exclusion policies of each camera are consistent. That spatial checks
  are suppressed after a geometry or reference error does not change the verdict. The order in which Python iterates a
  set is any order.\<close>

theorem validation_decision:
  assumes "validate ctx v = Inr outcome" and "\<And>xs. set (vc_set_order ctx xs) = set xs"
  shows "vo_valid outcome \<longleftrightarrow> structure_ok v \<and> references_ok v \<and> coordinates_ok v \<and> geometries_ok v \<and>
    overlaps_ok ctx v \<and> containment_ok ctx v \<and> cameras_ok ctx v \<and> privacy_ok v"
  by (rule validate_valid_iff [OF assms])

text \<open>With the pure spatial engine a validation always returns a verdict, however broken the configuration is, provided
  the points of each geometry have the same number of coordinates. (A ring that mixes planar and spatial points passes
  the contract of a geometry and raises out of the engine.)\<close>

theorem validation_total:
  assumes "\<And>e. e \<in> set (geometry_entities v) \<Longrightarrow> geometry_model_valid (ge_geometry e) \<and> uniform_points (ge_geometry e)"
    and "vc_contains ctx = contains" "vc_meaningful_overlap ctx = meaningful_overlap tolerance"
  shows "\<exists>outcome. validate ctx v = Inr outcome"
  by (rule validate_total [OF assms])

text \<open>Whether an overlap of two tables is found depends on the direction in which the second one was drawn: against a
  counterclockwise rectangle a table that lies within it is reported exactly if its area exceeds the tolerance, but
  against the same rectangle drawn clockwise no table to the right of its left side is ever reported.\<close>

theorem table_overlap_orientation:
  assumes "ge_kind a = TABLE_KIND" "ge_kind b = TABLE_KIND"
    and "gm_geometry_type (ge_geometry a) = POLYGON" "gm_geometry_type (ge_geometry b) = POLYGON"
    and "planar_ring (ge_geometry a) = Inr r" "r \<noteq> []" "x0 < x1" "y0 < y1"
    and "\<forall>p\<in>set r. x0 < fst p \<and> fst p \<le> x1 \<and> y0 \<le> snd p \<and> snd p \<le> y1"
  shows "(planar_ring (ge_geometry b) = Inr (counterclockwise_rect x0 y0 x1 y1) \<longrightarrow>
      overlap_findings default_context (a, b) =
        Inr (if \<bar>shoelace r\<bar> / 2 > AREA_TOLERANCE then [ge_finding TABLE_OVERLAP a (Some (ge_profile_id b))] else [])) \<and>
    (planar_ring (ge_geometry b) = Inr (clockwise_rect x0 y0 x1 y1) \<longrightarrow>
      overlap_findings default_context (a, b) = Inr [])"
proof -
  have rejects: "rejects_overlap DEFAULT_REGISTRY TABLE_KIND TABLE_KIND" by (simp add: default_rejects_overlap)
  have "ring_intersection_area r (counterclockwise_rect x0 y0 x1 y1) = \<bar>shoelace r\<bar> / 2"
    using assms(6-9) by (intro counterclockwise_measures) auto
  moreover have "ring_intersection_area r (clockwise_rect x0 y0 x1 y1) = 0"
    using assms(6,8,9) by (intro clockwise_hides) auto
  ultimately show ?thesis
    using assms(1-5) rejects
    by (simp add: overlap_findings_def default_context_def meaningful_overlap_def overlap_area_def polygons_def
        AREA_TOLERANCE_def)
qed

text \<open>An exclusion region for all cameras is never compared with a privacy region of a named camera: when every exclusion
  ROI applies to all cameras (no camera profile listed) and every privacy ROI names its cameras, no exclusion conflict
  is reported, whatever the regions and the excluded tasks; had one exclusion ROI named a camera of a privacy ROI in
  the same space while it excludes detection, the conflict would be an error.\<close>

theorem wildcard_exclusion_unchecked:
  assumes "\<And>xs. set (vc_set_order ctx xs) = set xs"
    and "\<forall>p\<in>set (cv_privacy_rois v). priv_camera_profiles p \<noteq> [] \<and> ''*'' \<notin> set (priv_camera_profiles p)"
    and "validate_privacy_policy v new_collector ctx = Inr col'"
  shows "((\<forall>x\<in>set (cv_exclusion_rois v). excl_camera_profiles x = []) \<longrightarrow>
      EXCLUSION_POLICY_CONFLICT \<notin> fd_code ` set (fc_findings col')) \<and>
    (\<forall>p\<in>set (cv_privacy_rois v). \<forall>x\<in>set (cv_exclusion_rois v). \<forall>cam.
      cam \<in> set (priv_camera_profiles p) \<and> cam \<in> set (excl_camera_profiles x) \<and>
      ''detection'' \<in> set (excl_excluded_tasks x) \<and>
      gm_coordinate_space (priv_geometry p) = gm_coordinate_space (excl_geometry x) \<longrightarrow>
      EXCLUSION_POLICY_CONFLICT \<in> fd_code ` set (fc_findings col'))"
proof -
  let ?p = "by_camera priv_camera_profiles (cv_privacy_rois v)"
  let ?x = "by_camera excl_camera_profiles (cv_exclusion_rois v)"
  let ?shared = "vc_set_order ctx (filter (\<lambda>cam. cam \<in> set (map fst ?x)) (map fst ?p))"
  from assms(3) have col': "fc_findings col' = privacy_stage ctx v"
    by (auto simp: validate_privacy_policy_stage new_collector_def)
  have wild: "f \<notin> set (privacy_stage ctx v)" if wild: "\<forall>x\<in>set (cv_exclusion_rois v). excl_camera_profiles x = []"
    and f: "fd_code f = EXCLUSION_POLICY_CONFLICT" for f
  proof -
    have "\<not> filed priv_camera_profiles ''*'' p" if "p \<in> set (cv_privacy_rois v)" for p
      using assms(2) that by (auto simp: filed_def cameras_or_any_def)
    moreover have "cam = ''*''" if "x \<in> set (cv_exclusion_rois v)" "filed excl_camera_profiles cam x" for x cam
      using wild that by (auto simp: filed_def cameras_or_any_def)
    ultimately have none: "set ?shared = {}"
      unfolding assms(1) set_filter list.set_map by_camera_facts(2) by blast
    have "f \<notin> set (action_findings e)" for e
      using f by (cases e) (auto simp: action_findings_def)
    with none show ?thesis by (auto simp: privacy_stage_def Let_def)
  qed
  have named: "EXCLUSION_POLICY_CONFLICT \<in> fd_code ` set (privacy_stage ctx v)"
    if px: "p \<in> set (cv_privacy_rois v)" "x \<in> set (cv_exclusion_rois v)" "cam \<in> set (priv_camera_profiles p)"
      "cam \<in> set (excl_camera_profiles x)" "''detection'' \<in> set (excl_excluded_tasks x)"
      "gm_coordinate_space (priv_geometry p) = gm_coordinate_space (excl_geometry x)" for p x cam
  proof -
    have here: "filed priv_camera_profiles cam p" "filed excl_camera_profiles cam x"
      using px by (auto simp: filed_def cameras_or_any_def)
    then have "cam \<in> set ?shared"
      unfolding assms(1) set_filter list.set_map by_camera_facts(2) using px(1,2) by blast
    moreover have "p \<in> set (the_list ?p cam)" "x \<in> set (the_list ?x cam)"
      unfolding by_camera_facts(3) using px(1,2) here by simp_all
    then have "entity_finding EXCLUSION_POLICY_CONFLICT EXCLUSION_ROI_KIND (excl_profile_id x) (Some (priv_profile_id p))
        \<in> set (nullified_findings (the_list ?p cam) (the_list ?x cam))"
      using px(5,6) by (force simp: nullified_findings_def)
    ultimately have "entity_finding EXCLUSION_POLICY_CONFLICT EXCLUSION_ROI_KIND (excl_profile_id x)
        (Some (priv_profile_id p)) \<in> set (privacy_stage ctx v)"
      unfolding privacy_stage_def Let_def set_append set_concat set_map by blast
    then show ?thesis by (metis fd_code_entity_finding image_eqI)
  qed
  show ?thesis
    unfolding col' by (intro conjI impI ballI allI) (use wild in \<open>metis imageE\<close>, use named in blast)
qed

subsection \<open>Witnesses\<close>

definition venue_ring :: "point2 list \<Rightarrow> geometry_model" where
  "venue_ring rg = \<lparr>gm_geometry_id = ''g'', gm_geometry_type = POLYGON, gm_coordinate_space = VENUE_LOCAL,
     gm_geometry_scope = VENUE, gm_coordinates = map (\<lambda>(x, y). [Fin x, Fin y]) rg,
     gm_reference_camera_profile_id = None, gm_reference_width = None, gm_reference_height = None\<rparr>"

definition sample_table :: "string \<Rightarrow> point2 list \<Rightarrow> table" where
  "sample_table ident rg = \<lparr>table_profile_id = ident, table_name = ident, table_geometry = venue_ring rg,
     table_seat_count = None\<rparr>"

definition table_entity :: "string \<Rightarrow> point2 list \<Rightarrow> geometry_entity" where
  "table_entity ident rg = \<lparr>ge_kind = TABLE_KIND, ge_profile_id = ident, ge_geometry = venue_ring rg,
     ge_zone_profile_id = None\<rparr>"

definition tables_configuration :: "table list \<Rightarrow> configuration_version" where
  "tables_configuration ts = sample_configuration\<lparr>cv_zones := [], cv_queue_areas := [], cv_tables := ts\<rparr>"

lemma py_round_whole:
  assumes "x \<in> \<int>"
  shows "py_round (Fin x) n = Fin x"
proof -
  from assms obtain z where x: "x = of_int z" by (auto elim: Ints_cases)
  have "x * 10 ^ n = of_int (z * 10 ^ n)" by (simp add: x)
  then show ?thesis by (simp only: py_round.simps round_half_even_of_int) (simp add: x)
qed

lemma venue_ring_planar:
  assumes "\<forall>(x, y)\<in>set rg. x \<in> \<int> \<and> y \<in> \<int>" "rg \<noteq> []" "hd rg = last rg"
  shows "planar_ring (venue_ring rg) = Inr rg" "ring (venue_ring rg) = Inr (map (\<lambda>(x, y). [Fin x, Fin y]) rg)"
proof -
  have same: "map (map (\<lambda>c. py_round c 3)) (map (\<lambda>(x, y). [Fin x, Fin y]) rg) = map (\<lambda>(x, y). [Fin x, Fin y]) rg"
    using assms(1) by (auto simp: py_round_whole simp del: py_round.simps)
  have ends: "hd (map (\<lambda>(x, y). [Fin x, Fin y]) rg) = (case hd rg of (x, y) \<Rightarrow> [Fin x, Fin y])"
      "last (map (\<lambda>(x, y). [Fin x, Fin y]) rg) = (case hd rg of (x, y) \<Rightarrow> [Fin x, Fin y])"
    using assms(2,3) by (simp_all add: hd_map last_map)
  show ring: "ring (venue_ring rg) = Inr (map (\<lambda>(x, y). [Fin x, Fin y]) rg)"
    unfolding ring_def canonicalize_def venue_ring_def Let_def geometry_model.simps PRECISION_def coordinate_space.simps same ends
    by (cases "hd rg") (simp add: CLOSURE_EPSILON_def)
  have "mapM planar_point (map (\<lambda>(x, y). [Fin x, Fin y]) rg) = Inr rg" by (induction rg) auto
  then show "planar_ring (venue_ring rg) = Inr rg" by (simp add: planar_ring_def ring)
qed

lemma table_overlap_orientation_witness:
  "overlap_findings default_context (table_entity ''a'' (counterclockwise_rect 1 1 2 2),
      table_entity ''b'' (counterclockwise_rect 0 0 3 3)) =
     Inr [ge_finding TABLE_OVERLAP (table_entity ''a'' (counterclockwise_rect 1 1 2 2)) (Some ''b'')] \<and>
   overlap_findings default_context (table_entity ''a'' (counterclockwise_rect 1 1 2 2),
      table_entity ''b'' (clockwise_rect 0 0 3 3)) = Inr []"
proof -
  have rings: "planar_ring (venue_ring (counterclockwise_rect x0 y0 x1 y1)) = Inr (counterclockwise_rect x0 y0 x1 y1)"
      "planar_ring (venue_ring (clockwise_rect x0 y0 x1 y1)) = Inr (clockwise_rect x0 y0 x1 y1)"
    if "x0 \<in> \<int>" "y0 \<in> \<int>" "x1 \<in> \<int>" "y1 \<in> \<int>" for x0 y0 x1 y1
    using that by (auto intro!: venue_ring_planar(1) simp: counterclockwise_rect_def clockwise_rect_def)
  have poly: "gm_geometry_type (venue_ring rg) = POLYGON" for rg by (simp add: venue_ring_def)
  have ints: "(0::real) \<in> \<int>" "(1::real) \<in> \<int>" "(2::real) \<in> \<int>" "(3::real) \<in> \<int>" by simp_all
  note tables = table_overlap_orientation [of "table_entity ''a'' (counterclockwise_rect 1 1 2 2)"
    "table_entity ''b'' rg" "counterclockwise_rect 1 1 2 2" 0 3 0 3 for rg]
  have area: "\<bar>shoelace (counterclockwise_rect 1 1 2 2)\<bar> / 2 = 1"
    by (simp add: shoelace_def edges_def counterclockwise_rect_def)
  have within: "\<forall>p\<in>set (counterclockwise_rect 1 1 2 2). (0::real) < fst p \<and> fst p \<le> 3 \<and> 0 \<le> snd p \<and> snd p \<le> 3"
    by (simp add: counterclockwise_rect_def)
  have ne: "counterclockwise_rect 1 1 2 2 \<noteq> []" by (simp add: counterclockwise_rect_def)
  show ?thesis
    using tables [of "counterclockwise_rect 0 0 3 3"] tables [of "clockwise_rect 0 0 3 3"]
    by (simp add: table_entity_def poly rings ints within ne area AREA_TOLERANCE_def)
qed

lemma tables_geometry: "geometry_entities (tables_configuration ts) =
    map (\<lambda>t. \<lparr>ge_kind = TABLE_KIND, ge_profile_id = table_profile_id t, ge_geometry = table_geometry t,
       ge_zone_profile_id = None\<rparr>) ts"
  by (simp add: geometry_entities_def tables_configuration_def sample_configuration_def)

lemma sample_rect_valid:
  "geometry_model_valid (venue_ring (counterclockwise_rect x0 y0 x1 y1))"
  "uniform_points (venue_ring (counterclockwise_rect x0 y0 x1 y1))"
  by (auto simp: geometry_model_valid_def venue_ring_def validate_coordinates_def validate_geometry_consistency_def
      ring_counts_ok_def counterclockwise_rect_def uniform_points_def)

lemma validation_total_witness:
  "\<exists>outcome. validate default_context (tables_configuration [sample_table ''t'' (counterclockwise_rect 0 0 1 1)]) = Inr outcome"
  by (rule validation_total [where tolerance=AREA_TOLERANCE])
    (auto simp: tables_geometry sample_table_def sample_rect_valid default_context_def)

lemma validation_decision_witness:
  "\<exists>outcome. validate default_context (tables_configuration [sample_table ''t'' (counterclockwise_rect 0 0 3 3),
       sample_table ''t'' (counterclockwise_rect 5 5 6 6)]) = Inr outcome \<and> \<not> vo_valid outcome"
proof -
  let ?v = "tables_configuration [sample_table ''t'' (counterclockwise_rect 0 0 3 3),
    sample_table ''t'' (counterclockwise_rect 5 5 6 6)]"
  have "\<exists>outcome. validate default_context ?v = Inr outcome"
    by (rule validate_total [where tolerance=AREA_TOLERANCE])
      (auto simp: tables_geometry sample_table_def sample_rect_valid default_context_def)
  then obtain outcome where run: "validate default_context ?v = Inr outcome" ..
  have "\<not> structure_ok ?v"
    by (simp add: structure_ok_def profile_ids_def identified_def tables_configuration_def sample_configuration_def
        sample_table_def)
  then have "\<not> vo_valid outcome"
    using validation_decision [OF run] by (simp add: default_context_def)
  with run show ?thesis by blast
qed

definition sample_privacy :: privacy_roi where
  "sample_privacy = \<lparr>priv_profile_id = ''p'', priv_name = ''p'', priv_geometry = sample_square ''p'' 1,
     priv_action = ''blur'', priv_camera_profiles = [''cam-1'']\<rparr>"

definition sample_exclusion :: "string list \<Rightarrow> exclusion_roi" where
  "sample_exclusion cams = \<lparr>excl_profile_id = ''x'', excl_name = ''x'', excl_geometry = sample_square ''x'' 1,
     excl_excluded_tasks = [''detection''], excl_camera_profiles = cams\<rparr>"

definition roi_configuration :: "string list \<Rightarrow> configuration_version" where
  "roi_configuration cams = sample_configuration\<lparr>cv_privacy_rois := [sample_privacy],
     cv_exclusion_rois := [sample_exclusion cams]\<rparr>"

lemma wildcard_exclusion_unchecked_witness:
  "\<exists>everywhere named.
     validate_privacy_policy (roi_configuration []) new_collector default_context = Inr everywhere \<and>
     EXCLUSION_POLICY_CONFLICT \<notin> fd_code ` set (fc_findings everywhere) \<and>
     validate_privacy_policy (roi_configuration [''cam-1'']) new_collector default_context = Inr named \<and>
     EXCLUSION_POLICY_CONFLICT \<in> fd_code ` set (fc_findings named)"
proof -
  have order: "\<And>xs. set (vc_set_order default_context xs) = set xs" by (simp add: default_context_def)
  have names: "\<forall>p\<in>set (cv_privacy_rois (roi_configuration cams)). priv_camera_profiles p \<noteq> [] \<and>
      ''*'' \<notin> set (priv_camera_profiles p)" for cams
    by (simp add: roi_configuration_def sample_privacy_def)
  from wildcard_exclusion_unchecked [OF order names validate_privacy_policy_stage, of "[]"]
    wildcard_exclusion_unchecked [OF order names validate_privacy_policy_stage, of "[''cam-1'']"]
  show ?thesis
    by (simp add: validate_privacy_policy_stage roi_configuration_def sample_privacy_def sample_exclusion_def sample_square_def)
qed

end
