(* ===== verification/Config_Lifecycle.thy ===== *)
theory Config_Lifecycle
  imports Config_Validation Identity
begin

text \<open>
  The lifecycle of configuration versions: the state machine (\<open>domain/configuration/state_machine.py\<close>),
  the tenant-scoped repositories with their guarded updates
  (\<open>infrastructure/database/repositories/configuration.py\<close>), hydration and the service
  (\<open>domain/configuration/service.py\<close>). The store holds the rows of the tables; a row of
  \<open>configuration_versions\<close> is kept together with the entity rows that it owns. Clock, fresh identifiers,
  digest and validation context are arguments, and so is the order in which the entity rows come back:
  the queries of the hydration have no \<open>ORDER BY\<close>. A call that raises leaves the store alone, since its
  session is rolled back.
\<close>

subsection \<open>State machine\<close>

datatype transition_error =
    ConfigurationTransitionError configuration_status string "string list"
  | ConfigurationImmutableError

fun legal_transitions :: "configuration_status \<Rightarrow> (string \<times> configuration_status) list" where
  "legal_transitions DRAFT = [(''edit'', DRAFT), (''start_validation'', VALIDATING)]"
| "legal_transitions VALIDATING = [(''validation_succeeded'', VALIDATED), (''validation_failed'', DRAFT)]"
| "legal_transitions VALIDATED = [(''publish'', PUBLISHED)]"
| "legal_transitions PUBLISHED = []"

definition status_can_transition :: "configuration_status \<Rightarrow> string \<Rightarrow> bool" where
  "status_can_transition current operation = (operation \<in> set (map fst (legal_transitions current)))"

definition get_next_state :: "configuration_status \<Rightarrow> string \<Rightarrow> configuration_status option" where
  "get_next_state current operation = map_of (legal_transitions current) operation"

definition get_allowed_operations :: "configuration_status \<Rightarrow> string list" where
  "get_allowed_operations current = map fst (legal_transitions current)"

definition is_mutable :: "configuration_status \<Rightarrow> bool" where
  "is_mutable state = (state \<in> {DRAFT, VALIDATING, VALIDATED})"

definition is_terminal_status :: "configuration_status \<Rightarrow> bool" where
  "is_terminal_status state = (state = PUBLISHED)"

definition transition_status :: "configuration_status \<Rightarrow> string \<Rightarrow> bool \<Rightarrow> transition_error + configuration_status" where
  "transition_status current operation allow_idempotent =
     (if allow_idempotent \<and> operation \<in> {''publish''} \<and> current = PUBLISHED \<and> operation = ''publish''
      then Inr current
      else case get_next_state current operation of
        None \<Rightarrow> Inl (ConfigurationTransitionError current operation (get_allowed_operations current))
      | Some target \<Rightarrow> Inr target)"

definition assert_can_edit :: "configuration_status \<Rightarrow> transition_error + unit" where
  "assert_can_edit state =
     (if \<not> is_mutable state then Inl ConfigurationImmutableError
      else if state = VALIDATING then
        Inl (ConfigurationTransitionError state ''edit'' [''validation_succeeded'', ''validation_failed''])
      else if state = VALIDATED then Inl (ConfigurationTransitionError state ''edit'' [''publish''])
      else Inr ())"

definition assert_can_validate :: "configuration_status \<Rightarrow> transition_error + unit" where
  "assert_can_validate state =
     (if state \<noteq> DRAFT
      then Inl (ConfigurationTransitionError state ''start_validation'' (get_allowed_operations state))
      else Inr ())"

definition assert_can_publish :: "configuration_status \<Rightarrow> transition_error + unit" where
  "assert_can_publish state =
     (if state \<noteq> VALIDATED
      then Inl (ConfigurationTransitionError state ''publish'' (get_allowed_operations state))
      else Inr ())"

subsection \<open>Errors, store and environment\<close>

datatype configuration_error =
    NotFoundError
  | ConflictError
  | ImmutablePublishedError
  | StaleValidationError
  | ScopeError auth_error
  | ContractRejected
  | ValidationRaised validation_failure
  | UnconsumedColumn string
  | ConstraintViolation

fun translate :: "transition_error + 'a \<Rightarrow> configuration_error + 'a" where
  "translate (Inl (ConfigurationTransitionError _ _ _)) = Inl ConflictError"
| "translate (Inl ConfigurationImmutableError) = Inl ImmutablePublishedError"
| "translate (Inr x) = Inr x"

fun scoped :: "auth_error + 'a \<Rightarrow> configuration_error + 'a" where
  "scoped (Inl e) = Inl (ScopeError e)"
| "scoped (Inr x) = Inr x"

record session_row =
  vs_session_id :: uuid
  vs_tenant_id :: uuid
  vs_venue_id :: uuid
  vs_configuration_version_id :: "uuid option"

record config_store =
  cs_configurations :: "configuration list"
  cs_versions :: "configuration_version list"
  cs_sessions :: "session_row list"

text \<open>
  \<open>se_rejects_unknown\<close> says whether the database layer refuses an \<open>UPDATE\<close> that names a column
  which the table does not have, as SQLAlchemy does with a \<open>CompileError\<close>.
\<close>

record service_env =
  se_now :: datetime
  se_new_configuration_id :: uuid
  se_new_version_id :: uuid
  se_arrange :: "configuration_version \<Rightarrow> configuration_version"
  se_digest :: "content_payload \<Rightarrow> string"
  se_context :: validator_context
  se_rejects_unknown :: bool

datatype audit_type = EVENT_DRAFT_CREATED | EVENT_DRAFT_UPDATED | EVENT_VALIDATION_STARTED
  | EVENT_VALIDATION_COMPLETED | EVENT_PUBLISHED

type_synonym audit_event = "audit_type \<times> uuid \<times> configuration_status"

definition has_access :: "actor_context \<Rightarrow> uuid \<Rightarrow> bool" where
  "has_access actor venue = (if ac_venue_scope actor = {} then True else venue \<in> ac_venue_scope actor)"

subsection \<open>Repositories\<close>

text \<open>\<open>scalar_one_or_none\<close> on a unique key, then the venue scope of the actor.\<close>

definition visible :: "actor_context \<Rightarrow> ('a \<Rightarrow> uuid) \<Rightarrow> 'a option \<Rightarrow> 'a option" where
  "visible actor venue found =
     (case found of None \<Rightarrow> None | Some r \<Rightarrow> if \<not> has_access actor (venue r) then None else Some r)"

definition configuration_for_actor :: "config_store \<Rightarrow> actor_context \<Rightarrow> uuid \<Rightarrow> configuration option" where
  "configuration_for_actor s actor i = visible actor cfg_venue_id
     (find (\<lambda>c. cfg_configuration_id c = i \<and> cfg_tenant_id c = ac_tenant_id actor) (cs_configurations s))"

definition get_or_create :: "config_store \<Rightarrow> actor_context \<Rightarrow> service_env \<Rightarrow> uuid \<Rightarrow> string \<Rightarrow>
    configuration_error + config_store \<times> configuration" where
  "get_or_create s actor env venue name =
     rbind (scoped (require_tenant_venue_access actor (ac_tenant_id actor) venue)) (\<lambda>_.
       case find (\<lambda>c. cfg_venue_id c = venue \<and> cfg_tenant_id c = ac_tenant_id actor) (cs_configurations s) of
         Some c \<Rightarrow> Inr (s, c)
       | None \<Rightarrow>
           let c = \<lparr>cfg_configuration_id = se_new_configuration_id env, cfg_venue_id = venue,
                 cfg_tenant_id = ac_tenant_id actor, cfg_name = name,
                 cfg_current_published_version_id = None, cfg_updated_at = se_now env\<rparr>
           in if list_ex (\<lambda>c'. cfg_configuration_id c' = cfg_configuration_id c) (cs_configurations s)
              then Inl ConstraintViolation
              else Inr (s\<lparr>cs_configurations := cs_configurations s @ [c]\<rparr>, c))"

definition version_for_actor :: "config_store \<Rightarrow> actor_context \<Rightarrow> uuid \<Rightarrow> configuration_version option" where
  "version_for_actor s actor i = visible actor cv_venue_id
     (find (\<lambda>v. cv_configuration_version_id v = i \<and> cv_tenant_id v = ac_tenant_id actor) (cs_versions s))"

text \<open>\<open>ORDER BY version DESC LIMIT 1\<close>.\<close>

fun highest :: "configuration_version list \<Rightarrow> configuration_version option" where
  "highest [] = None"
| "highest (v # vs) = (case highest vs of None \<Rightarrow> Some v
     | Some w \<Rightarrow> if cv_version v < cv_version w then Some w else Some v)"

definition versions_of :: "config_store \<Rightarrow> actor_context \<Rightarrow> uuid \<Rightarrow> configuration_version list" where
  "versions_of s actor i =
     filter (\<lambda>v. cv_configuration_id v = i \<and> cv_tenant_id v = ac_tenant_id actor) (cs_versions s)"

definition get_latest_version :: "config_store \<Rightarrow> actor_context \<Rightarrow> uuid \<Rightarrow> configuration_version option" where
  "get_latest_version s actor i = visible actor cv_venue_id (highest (versions_of s actor i))"

definition get_latest_published_version :: "config_store \<Rightarrow> actor_context \<Rightarrow> uuid \<Rightarrow> configuration_version option" where
  "get_latest_published_version s actor i = visible actor cv_venue_id
     (highest (filter (\<lambda>v. cv_status v = PUBLISHED) (versions_of s actor i)))"

definition get_current_published_for_venue :: "config_store \<Rightarrow> actor_context \<Rightarrow> uuid \<Rightarrow> configuration_version option" where
  "get_current_published_for_venue s actor venue = visible actor cv_venue_id
     (find (\<lambda>v. cv_status v = PUBLISHED \<and>
        list_ex (\<lambda>c. cfg_configuration_id c = cv_configuration_id v \<and> cfg_tenant_id c = cv_tenant_id v \<and>
          cfg_venue_id c = venue \<and> cfg_tenant_id c = ac_tenant_id actor \<and>
          cfg_current_published_version_id c = Some (cv_configuration_version_id v)) (cs_configurations s))
        (cs_versions s))"

definition get_published_for_session :: "config_store \<Rightarrow> actor_context \<Rightarrow> uuid \<Rightarrow> configuration_version option" where
  "get_published_for_session s actor session_id =
     (case find (\<lambda>r. vs_session_id r = session_id \<and> vs_tenant_id r = ac_tenant_id actor) (cs_sessions s) of
        None \<Rightarrow> None
      | Some r \<Rightarrow> (case vs_configuration_version_id r of
          None \<Rightarrow> None
        | Some i \<Rightarrow> if \<not> has_access actor (vs_venue_id r) then None
            else visible actor cv_venue_id (find (\<lambda>v. cv_configuration_version_id v = i \<and>
              cv_tenant_id v = ac_tenant_id actor \<and> cv_status v = PUBLISHED) (cs_versions s))))"

text \<open>
  \<open>load_contract\<close>: the entity rows in the order they come back, and pydantic's verdict on the
  contract built from them.
\<close>

definition load_contract :: "service_env \<Rightarrow> configuration_version \<Rightarrow> configuration_error + configuration_version" where
  "load_contract env row =
     (let v = se_arrange env row
      in if configuration_version_valid v then Inr v else Inl ContractRejected)"

definition create_version :: "config_store \<Rightarrow> actor_context \<Rightarrow> service_env \<Rightarrow> uuid \<Rightarrow> uuid \<Rightarrow> int \<Rightarrow>
    configuration_error + config_store \<times> configuration_version" where
  "create_version s actor env configuration_id venue number =
     rbind (scoped (require_tenant_venue_access actor (ac_tenant_id actor) venue)) (\<lambda>_.
       let row = \<lparr>cv_configuration_version_id = se_new_version_id env, cv_configuration_id = configuration_id,
             cv_venue_id = venue, cv_tenant_id = ac_tenant_id actor, cv_version = number, cv_status = DRAFT,
             cv_cameras = [], cv_zones = [], cv_tables = [], cv_entrances = [], cv_queue_areas = [],
             cv_service_areas = [], cv_privacy_rois = [], cv_exclusion_rois = [],
             cv_validation_result = None, cv_validated_at = None, cv_validated_by = None,
             cv_published_at = None, cv_published_by = None, cv_replaced_version_id = None,
             cv_created_at = se_now env, cv_updated_at = se_now env, cv_schema_version = SCHEMA_VERSION\<rparr>
       in if list_ex (\<lambda>v. cv_configuration_version_id v = cv_configuration_version_id row) (cs_versions s) \<or>
             list_ex (\<lambda>v. cv_configuration_id v = configuration_id \<and> cv_version v = number) (cs_versions s) \<or>
             number < 1
          then Inl ConstraintViolation
          else Inr (s\<lparr>cs_versions := cs_versions s @ [row]\<rparr>, row))"

definition with_entities_of :: "configuration_version \<Rightarrow> configuration_version \<Rightarrow> configuration_version" where
  "with_entities_of contract row = row\<lparr>cv_cameras := cv_cameras contract, cv_zones := cv_zones contract,
     cv_tables := cv_tables contract, cv_entrances := cv_entrances contract,
     cv_queue_areas := cv_queue_areas contract, cv_service_areas := cv_service_areas contract,
     cv_privacy_rois := cv_privacy_rois contract, cv_exclusion_rois := cv_exclusion_rois contract\<rparr>"

text \<open>Delete and insert of the entity rows of a version.\<close>

definition replace_entities :: "config_store \<Rightarrow> configuration_version \<Rightarrow> configuration_version \<Rightarrow> config_store" where
  "replace_entities s version contract = s\<lparr>cs_versions := map (\<lambda>v.
     if cv_configuration_version_id v = cv_configuration_version_id version \<and> cv_tenant_id v = cv_tenant_id version
     then with_entities_of contract v else v) (cs_versions s)\<rparr>"

definition VERSION_COLUMNS :: "string list" where
  "VERSION_COLUMNS = [''configuration_version_id'', ''configuration_id'', ''venue_id'', ''tenant_id'',
     ''version'', ''status'', ''validation_result'', ''validated_at'', ''validated_by'', ''published_at'',
     ''published_by'', ''replaced_version_id'', ''schema_version'', ''created_at'', ''updated_at'']"

definition row_constraints :: "configuration_version \<Rightarrow> bool" where
  "row_constraints v = (1 \<le> cv_version v \<and>
     (cv_status v = PUBLISHED \<longrightarrow> cv_published_at v \<noteq> None \<and> cv_published_by v \<noteq> None) \<and>
     (cv_status v = VALIDATED \<longrightarrow> cv_validated_at v \<noteq> None) \<and>
     (cv_status v = PUBLISHED \<longrightarrow> cv_replaced_version_id v \<noteq> Some (cv_configuration_version_id v)))"

type_synonym column_update = "string \<times> (configuration_version \<Rightarrow> configuration_version)"

definition apply_updates :: "column_update list \<Rightarrow> configuration_version \<Rightarrow> configuration_version" where
  "apply_updates updates row =
     foldl (\<lambda>r (column, f). if column \<in> set VERSION_COLUMNS then f r else r) row updates"

text \<open>The guarded update; the flag tells whether a row was in the expected state.\<close>

definition update_status :: "config_store \<Rightarrow> actor_context \<Rightarrow> service_env \<Rightarrow> uuid \<Rightarrow> configuration_status \<Rightarrow>
    configuration_status \<Rightarrow> column_update list \<Rightarrow> configuration_error + config_store \<times> bool" where
  "update_status s actor env i from_status to_status extra =
     (case find (\<lambda>(column, _). column \<notin> set VERSION_COLUMNS \<and> se_rejects_unknown env) extra of
        Some (column, _) \<Rightarrow> Inl (UnconsumedColumn column)
      | None \<Rightarrow>
          let hit = (\<lambda>v. cv_configuration_version_id v = i \<and> cv_tenant_id v = ac_tenant_id actor \<and>
                cv_status v = from_status);
              rows = map (\<lambda>v. if hit v then apply_updates extra
                (v\<lparr>cv_status := to_status, cv_updated_at := se_now env\<rparr>) else v) (cs_versions s)
          in if \<not> list_all row_constraints (map snd (filter (hit \<circ> fst) (zip (cs_versions s) rows)))
             then Inl ConstraintViolation
             else Inr (s\<lparr>cs_versions := rows\<rparr>, list_ex hit (cs_versions s)))"

definition lock_venue_configuration :: "config_store \<Rightarrow> actor_context \<Rightarrow> uuid \<Rightarrow> configuration option" where
  "lock_venue_configuration s actor i =
     find (\<lambda>c. cfg_configuration_id c = i \<and> cfg_tenant_id c = ac_tenant_id actor) (cs_configurations s)"

definition set_current_published_version :: "config_store \<Rightarrow> actor_context \<Rightarrow> service_env \<Rightarrow> uuid \<Rightarrow> uuid \<Rightarrow>
    config_store \<times> bool" where
  "set_current_published_version s actor env i version_id =
     (let hit = (\<lambda>c. cfg_configuration_id c = i \<and> cfg_tenant_id c = ac_tenant_id actor)
      in (s\<lparr>cs_configurations := map (\<lambda>c. if hit c then
            c\<lparr>cfg_current_published_version_id := Some version_id, cfg_updated_at := se_now env\<rparr> else c)
            (cs_configurations s)\<rparr>, list_ex hit (cs_configurations s)))"

subsection \<open>The service\<close>

definition next_version_number :: "config_store \<Rightarrow> actor_context \<Rightarrow> uuid \<Rightarrow> int" where
  "next_version_number s actor i =
     (case get_latest_version s actor i of Some latest \<Rightarrow> cv_version latest + 1 | None \<Rightarrow> 1)"

definition create_draft :: "config_store \<Rightarrow> actor_context \<Rightarrow> service_env \<Rightarrow> uuid \<Rightarrow> string \<Rightarrow>
    configuration_error + config_store \<times> audit_event list \<times> configuration_version" where
  "create_draft s actor env venue name =
     rbind (get_or_create s actor env venue name) (\<lambda>(s1, config).
     rbind (create_version s1 actor env (cfg_configuration_id config) (cfg_venue_id config)
         (next_version_number s1 actor (cfg_configuration_id config))) (\<lambda>(s2, row).
       if configuration_version_valid row
       then Inr (s2, [(EVENT_DRAFT_CREATED, cv_configuration_version_id row, cv_status row)], row)
       else Inl ContractRejected))"

definition create_draft_from_version :: "config_store \<Rightarrow> actor_context \<Rightarrow> service_env \<Rightarrow> uuid \<Rightarrow>
    configuration_error + config_store \<times> audit_event list \<times> configuration_version" where
  "create_draft_from_version s actor env source_id =
     (case version_for_actor s actor source_id of
        None \<Rightarrow> Inl NotFoundError
      | Some source \<Rightarrow>
          rbind (load_contract env source) (\<lambda>source_contract.
          case configuration_for_actor s actor (cv_configuration_id source) of
            None \<Rightarrow> Inl NotFoundError
          | Some config \<Rightarrow>
              rbind (create_version s actor env (cfg_configuration_id config) (cfg_venue_id config)
                  (next_version_number s actor (cfg_configuration_id config))) (\<lambda>(s1, row).
                let draft = with_entities_of source_contract (source_contract
                      \<lparr>cv_configuration_version_id := cv_configuration_version_id row, cv_version := cv_version row,
                       cv_status := DRAFT, cv_validated_at := None, cv_validated_by := None,
                       cv_validation_result := None, cv_published_at := None, cv_published_by := None,
                       cv_replaced_version_id := None, cv_created_at := cv_created_at row,
                       cv_updated_at := cv_updated_at row\<rparr>)
                in Inr (replace_entities s1 row draft,
                     [(EVENT_DRAFT_CREATED, cv_configuration_version_id row, cv_status row)], draft))))"

record entity_updates =
  eu_cameras :: "camera_profile list option"
  eu_zones :: "zone list option"
  eu_tables :: "table list option"
  eu_entrances :: "entrance list option"
  eu_queue_areas :: "queue_area list option"
  eu_service_areas :: "service_area list option"
  eu_privacy_rois :: "privacy_roi list option"
  eu_exclusion_rois :: "exclusion_roi list option"

definition given :: "'a option \<Rightarrow> 'a \<Rightarrow> 'a" where
  "given new old = (case new of None \<Rightarrow> old | Some x \<Rightarrow> x)"

definition with_updates :: "entity_updates \<Rightarrow> configuration_version \<Rightarrow> configuration_version" where
  "with_updates u v = v\<lparr>cv_cameras := given (eu_cameras u) (cv_cameras v),
     cv_zones := given (eu_zones u) (cv_zones v), cv_tables := given (eu_tables u) (cv_tables v),
     cv_entrances := given (eu_entrances u) (cv_entrances v),
     cv_queue_areas := given (eu_queue_areas u) (cv_queue_areas v),
     cv_service_areas := given (eu_service_areas u) (cv_service_areas v),
     cv_privacy_rois := given (eu_privacy_rois u) (cv_privacy_rois v),
     cv_exclusion_rois := given (eu_exclusion_rois u) (cv_exclusion_rois v)\<rparr>"

text \<open>The attributes of the row that \<open>update_draft\<close> clears; the flush stamps \<open>updated_at\<close>.\<close>

definition clear_validation :: "config_store \<Rightarrow> service_env \<Rightarrow> configuration_version \<Rightarrow> config_store" where
  "clear_validation s env row = s\<lparr>cs_versions := map (\<lambda>v.
     if cv_configuration_version_id v = cv_configuration_version_id row
     then v\<lparr>cv_validation_result := None, cv_validated_at := None, cv_validated_by := None,
       cv_updated_at := se_now env\<rparr> else v) (cs_versions s)\<rparr>"

definition update_draft :: "config_store \<Rightarrow> actor_context \<Rightarrow> service_env \<Rightarrow> uuid \<Rightarrow> entity_updates \<Rightarrow>
    configuration_error + config_store \<times> audit_event list \<times> configuration_version" where
  "update_draft s actor env i u =
     (case version_for_actor s actor i of
        None \<Rightarrow> Inl NotFoundError
      | Some row \<Rightarrow>
          rbind (translate (assert_can_edit (cv_status row))) (\<lambda>_.
          rbind (load_contract env row) (\<lambda>current.
            let updated = (with_updates u current)\<lparr>cv_updated_at := se_now env\<rparr>;
                stale = (cv_validation_result updated \<noteq> None);
                cleared = (if stale then updated\<lparr>cv_validation_result := None, cv_validated_at := None,
                  cv_validated_by := None\<rparr> else updated);
                s1 = (if stale then clear_validation s env row else s)
            in Inr (replace_entities s1 row cleared,
                 [(EVENT_DRAFT_UPDATED, cv_configuration_version_id row, cv_status row)], cleared))))"

definition start_validation :: "config_store \<Rightarrow> actor_context \<Rightarrow> service_env \<Rightarrow> uuid \<Rightarrow>
    configuration_error + config_store \<times> audit_event list \<times> configuration_version" where
  "start_validation s actor env i =
     (case version_for_actor s actor i of
        None \<Rightarrow> Inl NotFoundError
      | Some row \<Rightarrow>
          rbind (translate (assert_can_validate (cv_status row))) (\<lambda>_.
          rbind (update_status s actor env i DRAFT VALIDATING []) (\<lambda>(s1, ok).
            if \<not> ok then Inl ConflictError
            else rbind (load_contract env (row\<lparr>cv_status := VALIDATING, cv_updated_at := se_now env\<rparr>)) (\<lambda>v.
              Inr (s1, [(EVENT_VALIDATION_STARTED, cv_configuration_version_id row, VALIDATING)],
                v\<lparr>cv_status := VALIDATING\<rparr>)))))"

fun raised :: "validation_failure + 'a \<Rightarrow> configuration_error + 'a" where
  "raised (Inl e) = Inl (ValidationRaised e)"
| "raised (Inr x) = Inr x"

definition success_updates :: "validation_result \<Rightarrow> string \<Rightarrow> column_update list" where
  "success_updates result validated_by =
     [(''validation_result'', \<lambda>r. r\<lparr>cv_validation_result := Some result\<rparr>),
      (''validated_at'', \<lambda>r. r\<lparr>cv_validated_at := Some (vr_validated_at result)\<rparr>),
      (''validated_by'', \<lambda>r. r\<lparr>cv_validated_by := Some validated_by\<rparr>),
      (''validation_errors'', \<lambda>r. r)]"

definition failure_updates :: "validation_result \<Rightarrow> column_update list" where
  "failure_updates result =
     [(''validation_result'', \<lambda>r. r\<lparr>cv_validation_result := Some result\<rparr>),
      (''validation_errors'', \<lambda>r. r),
      (''validated_at'', \<lambda>r. r\<lparr>cv_validated_at := None\<rparr>),
      (''validated_by'', \<lambda>r. r\<lparr>cv_validated_by := None\<rparr>)]"

definition run_validation :: "config_store \<Rightarrow> actor_context \<Rightarrow> service_env \<Rightarrow> uuid \<Rightarrow> string \<Rightarrow>
    configuration_error + config_store \<times> audit_event list \<times> configuration_version \<times> validation_result" where
  "run_validation s actor env i validated_by =
     (case version_for_actor s actor i of
        None \<Rightarrow> Inl NotFoundError
      | Some row \<Rightarrow>
          if cv_status row \<noteq> VALIDATING then Inl ConflictError
          else rbind (load_contract env row) (\<lambda>version.
            rbind (raised (validate (se_context env) version)) (\<lambda>outcome.
            case to_result_model outcome version (content_revision (se_digest env) version) validated_by (se_now env) of
              None \<Rightarrow> Inl ContractRejected
            | Some result \<Rightarrow>
                if vo_valid outcome then
                  rbind (update_status s actor env i VALIDATING VALIDATED (success_updates result validated_by))
                    (\<lambda>(s1, ok). if \<not> ok then Inl ConflictError
                       else Inr (s1, [(EVENT_VALIDATION_COMPLETED, cv_configuration_version_id row, VALIDATED)],
                         version\<lparr>cv_status := VALIDATED, cv_validation_result := Some result\<rparr>, result))
                else
                  rbind (update_status s actor env i VALIDATING DRAFT (failure_updates result))
                    (\<lambda>(s1, ok). if \<not> ok then Inl ConflictError
                       else Inr (s1, [(EVENT_VALIDATION_COMPLETED, cv_configuration_version_id row, DRAFT)],
                         version\<lparr>cv_status := DRAFT, cv_validation_result := Some result\<rparr>, result)))))"

record publish_result =
  pr_configuration_version_id :: uuid
  pr_previous_published_version_id :: "uuid option"
  pr_published_at :: datetime

definition publish_updates :: "datetime \<Rightarrow> string \<Rightarrow> uuid option \<Rightarrow> column_update list" where
  "publish_updates now published_by previous =
     [(''published_at'', \<lambda>r. r\<lparr>cv_published_at := Some now\<rparr>),
      (''published_by'', \<lambda>r. r\<lparr>cv_published_by := Some published_by\<rparr>),
      (''replaced_version_id'', \<lambda>r. r\<lparr>cv_replaced_version_id := previous\<rparr>)]"

definition publish_update :: "config_store \<Rightarrow> actor_context \<Rightarrow> service_env \<Rightarrow> configuration_version \<Rightarrow>
    uuid option \<Rightarrow> string \<Rightarrow> configuration_error + config_store \<times> audit_event list \<times> publish_result" where
  "publish_update s actor env row previous published_by =
     rbind (update_status s actor env (cv_configuration_version_id row) VALIDATED PUBLISHED
         (publish_updates (se_now env) published_by previous)) (\<lambda>(s1, ok).
       if \<not> ok then Inl ConflictError
       else let (s2, pointer_ok) = set_current_published_version s1 actor env (cv_configuration_id row)
              (cv_configuration_version_id row)
         in if \<not> pointer_ok then Inl ConflictError
            else Inr (s2, [(EVENT_PUBLISHED, cv_configuration_version_id row, PUBLISHED)],
              \<lparr>pr_configuration_version_id = cv_configuration_version_id row,
               pr_previous_published_version_id = previous, pr_published_at = se_now env\<rparr>))"

definition publish :: "config_store \<Rightarrow> actor_context \<Rightarrow> service_env \<Rightarrow> uuid \<Rightarrow> string \<Rightarrow>
    configuration_error + config_store \<times> audit_event list \<times> publish_result" where
  "publish s actor env i published_by =
     (case version_for_actor s actor i of
        None \<Rightarrow> Inl NotFoundError
      | Some row \<Rightarrow>
          if cv_status row = PUBLISHED then
            Inr (s, [], \<lparr>pr_configuration_version_id = cv_configuration_version_id row,
              pr_previous_published_version_id = cv_replaced_version_id row,
              pr_published_at = given (cv_published_at row) (se_now env)\<rparr>)
          else
            rbind (translate (assert_can_publish (cv_status row))) (\<lambda>_.
            if cv_status row \<noteq> VALIDATED then Inl ConflictError
            else rbind (load_contract env row) (\<lambda>version.
              case cv_validation_result row of
                None \<Rightarrow> Inl StaleValidationError
              | Some result \<Rightarrow>
                  if vr_content_revision result \<noteq> content_revision (se_digest env) version then Inl StaleValidationError
                  else if blocking_errors result \<noteq> [] then Inl ConflictError
                  else (case lock_venue_configuration s actor (cv_configuration_id row) of
                    None \<Rightarrow> Inl NotFoundError
                  | Some config \<Rightarrow>
                      (case get_latest_published_version s actor (cv_configuration_id row) of
                         Some newer \<Rightarrow>
                           if cv_version row < cv_version newer then Inl ConflictError
                           else publish_update s actor env row (cfg_current_published_version_id config) published_by
                       | None \<Rightarrow>
                           publish_update s actor env row (cfg_current_published_version_id config) published_by)))))"

subsection \<open>Reads\<close>

definition hydrated :: "service_env \<Rightarrow> configuration_version option \<Rightarrow> configuration_error + configuration_version option" where
  "hydrated env found = (case found of None \<Rightarrow> Inr None
     | Some row \<Rightarrow> rbind (load_contract env row) (\<lambda>v. Inr (Some v)))"

definition get_version :: "config_store \<Rightarrow> actor_context \<Rightarrow> service_env \<Rightarrow> uuid \<Rightarrow>
    configuration_error + configuration_version option" where
  "get_version s actor env i = hydrated env (version_for_actor s actor i)"

definition resolve_current_published :: "config_store \<Rightarrow> actor_context \<Rightarrow> service_env \<Rightarrow> uuid \<Rightarrow>
    configuration_error + configuration_version option" where
  "resolve_current_published s actor env venue = hydrated env (get_current_published_for_venue s actor venue)"

definition resolve_session_configuration :: "config_store \<Rightarrow> actor_context \<Rightarrow> service_env \<Rightarrow> uuid \<Rightarrow>
    configuration_error + configuration_version option" where
  "resolve_session_configuration s actor env session_id = hydrated env (get_published_for_session s actor session_id)"

subsection \<open>Runs\<close>

datatype config_call =
    CreateDraft uuid string
  | CreateDraftFrom uuid
  | UpdateDraft uuid entity_updates
  | StartValidation uuid
  | RunValidation uuid string
  | Publish uuid string

definition store_after :: "config_store \<Rightarrow> configuration_error + config_store \<times> 'a \<Rightarrow> config_store" where
  "store_after s result = (case result of Inl _ \<Rightarrow> s | Inr (s', _) \<Rightarrow> s')"

text \<open>One committed or rolled-back call of an actor.\<close>

fun config_step :: "config_store \<Rightarrow> actor_context \<times> service_env \<times> config_call \<Rightarrow> config_store" where
  "config_step s (actor, env, CreateDraft venue name) = store_after s (create_draft s actor env venue name)"
| "config_step s (actor, env, CreateDraftFrom i) = store_after s (create_draft_from_version s actor env i)"
| "config_step s (actor, env, UpdateDraft i u) = store_after s (update_draft s actor env i u)"
| "config_step s (actor, env, StartValidation i) = store_after s (start_validation s actor env i)"
| "config_step s (actor, env, RunValidation i by_whom) = store_after s (run_validation s actor env i by_whom)"
| "config_step s (actor, env, Publish i by_whom) = store_after s (publish s actor env i by_whom)"

definition config_run :: "config_store \<Rightarrow> (actor_context \<times> service_env \<times> config_call) list \<Rightarrow> config_store" where
  "config_run s calls = foldl config_step s calls"

definition empty_store :: config_store where
  "empty_store = \<lparr>cs_configurations = [], cs_versions = [], cs_sessions = []\<rparr>"

end
