(* ===== verification/Config_Lifecycle_Facts.thy ===== *)
theory Config_Lifecycle_Facts
  imports Config_Lifecycle Config_Validation_Facts "HOL-Library.Multiset"
begin

text \<open>
  What the service guarantees about the rows it stores: the moves a single row may make, as an
  inductive relation that every call refines, and what follows for reachable stores -- published versions never
  change, validated content was accepted by the engine, the current pointer is the highest published
  version -- and two calls that cannot work: recording a validation, and reading a published version
  without cameras.
\<close>

subsection \<open>Moves of a row\<close>

definition same_identity :: "configuration_version \<Rightarrow> configuration_version \<Rightarrow> bool" where
  "same_identity v w = (cv_configuration_version_id w = cv_configuration_version_id v \<and>
     cv_configuration_id w = cv_configuration_id v \<and> cv_venue_id w = cv_venue_id v \<and>
     cv_tenant_id w = cv_tenant_id v \<and> cv_version w = cv_version v)"

definition same_content :: "configuration_version \<Rightarrow> configuration_version \<Rightarrow> bool" where
  "same_content v w = (content_payload_of w = content_payload_of v)"

text \<open>The order of the rows of each entity table may differ, nothing else.\<close>

definition same_entities :: "configuration_version \<Rightarrow> configuration_version \<Rightarrow> bool" where
  "same_entities v w = (mset (cv_cameras w) = mset (cv_cameras v) \<and> mset (cv_zones w) = mset (cv_zones v) \<and>
     mset (cv_tables w) = mset (cv_tables v) \<and> mset (cv_entrances w) = mset (cv_entrances v) \<and>
     mset (cv_queue_areas w) = mset (cv_queue_areas v) \<and>
     mset (cv_service_areas w) = mset (cv_service_areas v) \<and>
     mset (cv_privacy_rois w) = mset (cv_privacy_rois v) \<and>
     mset (cv_exclusion_rois w) = mset (cv_exclusion_rois v))"

definition rearranged :: "configuration_version \<Rightarrow> configuration_version \<Rightarrow> bool" where
  "rearranged v w = (same_identity v w \<and> cv_status w = cv_status v \<and> same_entities v w)"

text \<open>A validation result without errors that was computed for exactly this content, up to the order of the rows.\<close>

definition clean_result :: "(content_payload \<Rightarrow> string) \<Rightarrow> configuration_version \<Rightarrow> validation_result \<Rightarrow> bool" where
  "clean_result digest w result = (vr_valid result \<and> vr_errors result = [] \<and> vr_content_revision result = content_revision digest w)"

definition accepted :: "(content_payload \<Rightarrow> string) \<Rightarrow> validator_context \<Rightarrow> configuration_version \<Rightarrow> bool" where
  "accepted digest ctx v = (\<exists>w outcome result. same_identity v w \<and> same_entities v w \<and> validate ctx w = Inr outcome \<and> vo_valid outcome \<and>
     cv_validation_result v = Some result \<and> clean_result digest w result)"

inductive row_moves :: "service_env \<Rightarrow> configuration_version \<Rightarrow> configuration_version \<Rightarrow> bool" for env where
  edit: "same_identity v w \<Longrightarrow> cv_status v = DRAFT \<Longrightarrow> cv_status w = DRAFT \<Longrightarrow> row_moves env v w"
| start: "same_identity v w \<Longrightarrow> same_content v w \<Longrightarrow> cv_status v = DRAFT \<Longrightarrow> cv_status w = VALIDATING \<Longrightarrow>
    row_moves env v w"
| reject: "same_identity v w \<Longrightarrow> same_content v w \<Longrightarrow> cv_status v = VALIDATING \<Longrightarrow> cv_status w = DRAFT \<Longrightarrow>
    \<not> se_rejects_unknown env \<Longrightarrow> row_moves env v w"
| accept: "same_identity v w \<Longrightarrow> same_content v w \<Longrightarrow> cv_status v = VALIDATING \<Longrightarrow> cv_status w = VALIDATED \<Longrightarrow>
    \<not> se_rejects_unknown env \<Longrightarrow> validate (se_context env) (se_arrange env v) = Inr outcome \<Longrightarrow> vo_valid outcome \<Longrightarrow>
    cv_validation_result w = Some result \<Longrightarrow> clean_result (se_digest env) (se_arrange env v) result \<Longrightarrow> row_moves env v w"
| release: "same_identity v w \<Longrightarrow> same_content v w \<Longrightarrow> cv_status v = VALIDATED \<Longrightarrow> cv_status w = PUBLISHED \<Longrightarrow>
    cv_validation_result w = cv_validation_result v \<Longrightarrow> row_moves env v w"

inductive_cases row_moves_cases: "row_moves env v w"

lemma row_moves_identity: "row_moves env v w \<Longrightarrow> same_identity v w"
  by (cases rule: row_moves.cases) auto

lemma row_moves_not_published: "row_moves env v w \<Longrightarrow> cv_status v \<noteq> PUBLISHED"
  by (cases rule: row_moves.cases) auto

definition stays_or_moves :: "service_env \<Rightarrow> configuration_version \<Rightarrow> configuration_version \<Rightarrow> bool" where
  "stays_or_moves env v w = (v = w \<or> row_moves env v w)"

definition fresh_draft :: "config_store \<Rightarrow> configuration_version \<Rightarrow> bool" where
  "fresh_draft s v = (cv_status v = DRAFT \<and>
     cv_configuration_version_id v \<notin> cv_configuration_version_id ` set (cs_versions s) \<and>
     (cv_configuration_id v, cv_version v) \<notin> (\<lambda>w. (cv_configuration_id w, cv_version w)) ` set (cs_versions s))"

text \<open>A call moves single rows and may append one fresh draft.\<close>

definition rows_evolve :: "service_env \<Rightarrow> config_store \<Rightarrow> config_store \<Rightarrow> bool" where
  "rows_evolve env s s' = (\<exists>ws drafts. cs_versions s' = ws @ drafts \<and> length drafts \<le> 1 \<and>
     list_all2 (stays_or_moves env) (cs_versions s) ws \<and> list_all (fresh_draft s) drafts)"

subsection \<open>Guarded updates\<close>

lemma apply_success: "apply_updates (success_updates r b) v = v\<lparr>cv_validation_result := Some r,
    cv_validated_at := Some (vr_validated_at r), cv_validated_by := Some b\<rparr>"
  by (simp add: apply_updates_def success_updates_def VERSION_COLUMNS_def)

lemma apply_failure: "apply_updates (failure_updates r) v = v\<lparr>cv_validation_result := Some r,
    cv_validated_at := None, cv_validated_by := None\<rparr>"
  by (simp add: apply_updates_def failure_updates_def VERSION_COLUMNS_def)

lemma apply_publish: "apply_updates (publish_updates now b p) v = v\<lparr>cv_published_at := Some now,
    cv_published_by := Some b, cv_replaced_version_id := p\<rparr>"
  by (simp add: apply_updates_def publish_updates_def VERSION_COLUMNS_def)

lemma apply_none: "apply_updates [] v = v"
  by (simp add: apply_updates_def)

lemma unknown_column:
  "se_rejects_unknown env \<Longrightarrow>
     find (\<lambda>(column, _). column \<notin> set VERSION_COLUMNS \<and> se_rejects_unknown env) (success_updates r b) \<noteq> None"
  "se_rejects_unknown env \<Longrightarrow>
     find (\<lambda>(column, _). column \<notin> set VERSION_COLUMNS \<and> se_rejects_unknown env) (failure_updates r) \<noteq> None"
  by (simp_all add: success_updates_def failure_updates_def VERSION_COLUMNS_def)

definition hit :: "actor_context \<Rightarrow> uuid \<Rightarrow> configuration_status \<Rightarrow> configuration_version \<Rightarrow> bool" where
  "hit actor i status v = (cv_configuration_version_id v = i \<and> cv_tenant_id v = ac_tenant_id actor \<and>
     cv_status v = status)"

lemma update_status_Inr:
  assumes "update_status s actor env i from_status to_status extra = Inr (s', ok)"
  shows "cs_versions s' = map (\<lambda>v. if hit actor i from_status v
      then apply_updates extra (v\<lparr>cv_status := to_status, cv_updated_at := se_now env\<rparr>) else v) (cs_versions s)"
    "cs_configurations s' = cs_configurations s" "cs_sessions s' = cs_sessions s"
    "ok \<longleftrightarrow> (\<exists>v\<in>set (cs_versions s). hit actor i from_status v)"
    "find (\<lambda>(column, _). column \<notin> set VERSION_COLUMNS \<and> se_rejects_unknown env) extra = None"
  using assms unfolding update_status_def Let_def hit_def
  by (auto split: option.splits if_splits simp: list_ex_iff)

lemma find_Some_set: "find P xs = Some x \<Longrightarrow> x \<in> set xs \<and> P x"
  by (induction xs) (auto split: if_splits)

lemma visible_Some: "visible actor f found = Some r \<longleftrightarrow> found = Some r \<and> has_access actor (f r)"
  by (auto simp: visible_def split: option.splits if_splits)

lemma version_for_actor_Some:
  "version_for_actor s actor i = Some row \<Longrightarrow> row \<in> set (cs_versions s) \<and> cv_configuration_version_id row = i \<and>
     cv_tenant_id row = ac_tenant_id actor \<and> has_access actor (cv_venue_id row)"
  unfolding version_for_actor_def visible_Some using find_Some_set by fastforce

lemma rows_evolve_same: "cs_versions s' = cs_versions s \<Longrightarrow> rows_evolve env s s'"
  unfolding rows_evolve_def
  by (rule exI [of _ "cs_versions s"], rule exI [of _ "[]"]) (simp add: stays_or_moves_def list_all2_same)

lemma rows_evolve_map:
  assumes "cs_versions s' = map f (cs_versions s)" "\<And>v. v \<in> set (cs_versions s) \<Longrightarrow> stays_or_moves env v (f v)"
  shows "rows_evolve env s s'"
  unfolding rows_evolve_def using assms
  by (intro exI [of _ "map f (cs_versions s)"] exI [of _ "[]"]) (simp add: list_all2_conv_all_nth)

subsection \<open>Every call refines the moves\<close>

definition unique_ids :: "config_store \<Rightarrow> bool" where
  "unique_ids s = distinct (map cv_configuration_version_id (cs_versions s))"

lemma unique_idsD:
  "unique_ids s \<Longrightarrow> v \<in> set (cs_versions s) \<Longrightarrow> w \<in> set (cs_versions s) \<Longrightarrow>
     cv_configuration_version_id v = cv_configuration_version_id w \<Longrightarrow> v = w"
  by (auto simp: unique_ids_def distinct_map dest: inj_onD)

lemma assert_can_edit_ok: "translate (assert_can_edit st) = Inr u \<longleftrightarrow> st = DRAFT"
  by (cases st) (simp_all add: assert_can_edit_def is_mutable_def)

lemma assert_can_validate_ok: "translate (assert_can_validate st) = Inr u \<longleftrightarrow> st = DRAFT"
  by (cases st) (simp_all add: assert_can_validate_def)

lemma assert_can_publish_ok: "translate (assert_can_publish st) = Inr u \<longleftrightarrow> st = VALIDATED"
  by (cases st) (simp_all add: assert_can_publish_def)

lemma load_contract_Inr: "load_contract env row = Inr v \<longleftrightarrow> v = se_arrange env row \<and> configuration_version_valid v"
  by (auto simp: load_contract_def Let_def)

lemma scoped_Inr [simp]: "scoped m = Inr x \<longleftrightarrow> m = Inr x"
  by (cases m) simp_all

lemma raised_Inr [simp]: "raised m = Inr x \<longleftrightarrow> m = Inr x"
  by (cases m) simp_all

lemma get_or_create_Inr:
  assumes "get_or_create s actor env venue name = Inr (s', c)"
  shows "cs_versions s' = cs_versions s" "cs_sessions s' = cs_sessions s"
    "cfg_tenant_id c = ac_tenant_id actor" "cfg_venue_id c = venue" "c \<in> set (cs_configurations s')"
    "cs_configurations s' = cs_configurations s \<or> cs_configurations s' = cs_configurations s @ [c] \<and>
       cfg_configuration_id c \<notin> cfg_configuration_id ` set (cs_configurations s) \<and>
       cfg_current_published_version_id c = None"
  using assms find_Some_set unfolding get_or_create_def Let_def
  by (fastforce split: option.splits if_splits simp: list_ex_iff image_iff)+

lemma create_version_Inr:
  assumes "create_version s actor env c venue n = Inr (s', row)"
  shows "cs_versions s' = cs_versions s @ [row]" "cs_configurations s' = cs_configurations s"
    "cs_sessions s' = cs_sessions s" "fresh_draft s row" "cv_configuration_id row = c" "cv_venue_id row = venue"
    "cv_tenant_id row = ac_tenant_id actor" "cv_version row = n"
  using assms unfolding create_version_def Let_def
  by (auto simp: fresh_draft_def list_ex_iff split: if_splits)

lemma create_draft_Inr:
  assumes "create_draft s actor env venue name = Inr (s', ev, v)"
  obtains s1 c where "get_or_create s actor env venue name = Inr (s1, c)"
    "create_version s1 actor env (cfg_configuration_id c) (cfg_venue_id c)
       (next_version_number s1 actor (cfg_configuration_id c)) = Inr (s', v)"
  using assms unfolding create_draft_def by (fastforce split: if_splits)

lemma create_from_Inr:
  assumes "create_draft_from_version s actor env i = Inr (s', ev, v)"
  obtains source c s1 row draft where "version_for_actor s actor i = Some source"
    "configuration_for_actor s actor (cv_configuration_id source) = Some c"
    "create_version s actor env (cfg_configuration_id c) (cfg_venue_id c)
       (next_version_number s actor (cfg_configuration_id c)) = Inr (s1, row)"
    "s' = replace_entities s1 row draft" "with_entities_of (se_arrange env source) draft = draft"
  using assms unfolding create_draft_from_version_def Let_def
  by (auto split: option.splits prod.splits simp: load_contract_Inr with_entities_of_def)

lemma update_draft_Inr:
  assumes "update_draft s actor env i u = Inr (s', ev, v)"
  obtains row s1 where "version_for_actor s actor i = Some row" "cv_status row = DRAFT"
    "s1 = s \<or> s1 = clear_validation s env row" "s' = replace_entities s1 row v"
proof -
  from assms obtain row current where row: "version_for_actor s actor i = Some row" "cv_status row = DRAFT"
    and rest: "(let updated = (with_updates u current)\<lparr>cv_updated_at := se_now env\<rparr>;
                stale = (cv_validation_result updated \<noteq> None);
                cleared = (if stale then updated\<lparr>cv_validation_result := None, cv_validated_at := None,
                  cv_validated_by := None\<rparr> else updated);
                s1 = (if stale then clear_validation s env row else s)
            in Inr (replace_entities s1 row cleared,
                 [(EVENT_DRAFT_UPDATED, cv_configuration_version_id row, cv_status row)], cleared)) =
          (Inr (s', ev, v) :: configuration_error + _)"
    unfolding update_draft_def by (auto split: option.splits simp: assert_can_edit_ok)
  from rest have "s' = replace_entities s row v \<or> s' = replace_entities (clear_validation s env row) row v"
    unfolding Let_def by (auto split: if_splits)
  with row that show thesis by blast
qed

lemma start_validation_Inr:
  assumes "start_validation s actor env i = Inr (s', ev, v)"
  obtains row ok where "version_for_actor s actor i = Some row" "cv_status row = DRAFT"
    "update_status s actor env i DRAFT VALIDATING [] = Inr (s', ok)"
  using assms unfolding start_validation_def
  by (auto split: option.splits if_splits prod.splits simp: assert_can_validate_ok)

lemma run_validation_Inr:
  assumes "run_validation s actor env i by_whom = Inr (s', ev, v, result)"
  obtains row outcome ok where "version_for_actor s actor i = Some row" "cv_status row = VALIDATING"
    "validate (se_context env) (se_arrange env row) = Inr outcome"
    "to_result_model outcome (se_arrange env row) (content_revision (se_digest env) (se_arrange env row)) by_whom
       (se_now env) = Some result"
    "if vo_valid outcome
     then update_status s actor env i VALIDATING VALIDATED (success_updates result by_whom) = Inr (s', ok)
     else update_status s actor env i VALIDATING DRAFT (failure_updates result) = Inr (s', ok)"
  using assms unfolding run_validation_def
  by (auto split: option.splits if_splits prod.splits simp: load_contract_Inr)

lemma publish_Inr:
  assumes "publish s actor env i by_whom = Inr (s', ev, r)"
  obtains row where "version_for_actor s actor i = Some row" "cv_status row = PUBLISHED" "s' = s" "ev = []"
  | row config result s1 where "version_for_actor s actor i = Some row" "cv_status row = VALIDATED"
    "configuration_version_valid (se_arrange env row)" "cv_validation_result row = Some result"
    "vr_content_revision result = content_revision (se_digest env) (se_arrange env row)" "vr_errors result = []"
    "lock_venue_configuration s actor (cv_configuration_id row) = Some config"
    "\<And>newer. get_latest_published_version s actor (cv_configuration_id row) = Some newer \<Longrightarrow>
       cv_version newer \<le> cv_version row"
    "update_status s actor env i VALIDATED PUBLISHED
       (publish_updates (se_now env) by_whom (cfg_current_published_version_id config)) = Inr (s1, True)"
    "set_current_published_version s1 actor env (cv_configuration_id row) i = (s', True)"
proof -
  from assms obtain row where row: "version_for_actor s actor i = Some row"
    by (auto simp: publish_def split: option.splits)
  then have i: "cv_configuration_version_id row = i" by (simp add: version_for_actor_Some)
  show thesis
  proof (cases "cv_status row = PUBLISHED")
    case True
    with assms row have "s' = s" "ev = []" by (auto simp: publish_def)
    with True row that(1) show thesis by blast
  next
    case False
    with assms row obtain result config where parts: "cv_status row = VALIDATED"
        "configuration_version_valid (se_arrange env row)" "cv_validation_result row = Some result"
        "vr_content_revision result = content_revision (se_digest env) (se_arrange env row)" "vr_errors result = []"
        "lock_venue_configuration s actor (cv_configuration_id row) = Some config"
        "\<And>newer. get_latest_published_version s actor (cv_configuration_id row) = Some newer \<Longrightarrow>
           \<not> cv_version row < cv_version newer"
      and upd: "publish_update s actor env row (cfg_current_published_version_id config) by_whom = Inr (s', ev, r)"
      by (auto simp: publish_def assert_can_publish_ok load_contract_Inr blocking_errors_def split: option.splits if_splits)
    from upd obtain s1 where "update_status s actor env i VALIDATED PUBLISHED
         (publish_updates (se_now env) by_whom (cfg_current_published_version_id config)) = Inr (s1, True)"
       "set_current_published_version s1 actor env (cv_configuration_id row) i = (s', True)"
      by (auto simp: publish_update_def i Let_def split: prod.splits if_splits)
    with row parts that(2) show thesis by (metis not_less)
  qed
qed

lemma rows_evolve_append:
  "cs_versions s' = cs_versions s @ [row] \<Longrightarrow> fresh_draft s row \<Longrightarrow> rows_evolve env s s'"
  unfolding rows_evolve_def
  by (rule exI [of _ "cs_versions s"], rule exI [of _ "[row]"]) (simp add: stays_or_moves_def list_all2_same)

lemma with_entities_identity [simp]:
  "cv_configuration_version_id (with_entities_of c v) = cv_configuration_version_id v"
  "cv_configuration_id (with_entities_of c v) = cv_configuration_id v"
  "cv_venue_id (with_entities_of c v) = cv_venue_id v" "cv_tenant_id (with_entities_of c v) = cv_tenant_id v"
  "cv_version (with_entities_of c v) = cv_version v" "cv_status (with_entities_of c v) = cv_status v"
  by (simp_all add: with_entities_of_def)

lemma create_from_versions:
  assumes "create_version s actor env c venue n = Inr (s1, row)"
  shows "cs_versions (replace_entities s1 row draft) = cs_versions s @ [with_entities_of draft row]"
    "fresh_draft s (with_entities_of draft row)"
proof -
  note new = create_version_Inr [OF assms]
  have "map (\<lambda>v. if cv_configuration_version_id v = cv_configuration_version_id row \<and> cv_tenant_id v = cv_tenant_id row
      then with_entities_of draft v else v) (cs_versions s) = cs_versions s"
    using new(4) by (intro map_idI) (force simp: fresh_draft_def image_iff)
  then show "cs_versions (replace_entities s1 row draft) = cs_versions s @ [with_entities_of draft row]"
    by (simp add: replace_entities_def new(1))
  show "fresh_draft s (with_entities_of draft row)" using new(4) by (simp add: fresh_draft_def)
qed

lemma update_draft_row:
  assumes "s1 = s \<or> s1 = clear_validation s env row"
  shows "cs_versions (replace_entities s1 row v) = map (\<lambda>w.
      let w' = (if s1 = s \<or> cv_configuration_version_id w \<noteq> cv_configuration_version_id row then w
           else w\<lparr>cv_validation_result := None, cv_validated_at := None, cv_validated_by := None,
             cv_updated_at := se_now env\<rparr>)
      in if cv_configuration_version_id w = cv_configuration_version_id row \<and> cv_tenant_id w = cv_tenant_id row
         then with_entities_of v w' else w') (cs_versions s)"
proof (cases "s1 = s")
  case False
  with assms have s1: "s1 = clear_validation s env row" by blast
  show ?thesis unfolding replace_entities_def s1 using False [unfolded s1]
    by (simp add: clear_validation_def Let_def)
qed (simp add: replace_entities_def Let_def)

lemma same_content_simps:
  "same_content v (v\<lparr>cv_status := st, cv_updated_at := t\<rparr>)"
  "same_content v (v\<lparr>cv_status := st, cv_updated_at := t, cv_validation_result := r, cv_validated_at := a, cv_validated_by := b\<rparr>)"
  "same_content v (v\<lparr>cv_status := st, cv_updated_at := t, cv_published_at := a, cv_published_by := b, cv_replaced_version_id := p\<rparr>)"
  "same_identity v (v\<lparr>cv_status := st, cv_updated_at := t\<rparr>)"
  "same_identity v (v\<lparr>cv_status := st, cv_updated_at := t, cv_validation_result := r, cv_validated_at := a, cv_validated_by := b\<rparr>)"
  "same_identity v (v\<lparr>cv_status := st, cv_updated_at := t, cv_published_at := a, cv_published_by := b, cv_replaced_version_id := p\<rparr>)"
  by (simp_all add: same_content_def content_payload_of_def same_identity_def)

lemma update_draft_evolves:
  assumes "unique_ids s" "update_draft s actor env i u = Inr (s', ev, v)"
  shows "rows_evolve env s s'"
proof -
  from assms(2) obtain row s1 where row: "version_for_actor s actor i = Some row" "cv_status row = DRAFT"
      "s1 = s \<or> s1 = clear_validation s env row" and s': "s' = replace_entities s1 row v"
    by (rule update_draft_Inr)
  have here: "row \<in> set (cs_versions s)" using version_for_actor_Some [OF row(1)] by blast
  have draft: "cv_status w = DRAFT" if "w \<in> set (cs_versions s)" "cv_configuration_version_id w = cv_configuration_version_id row" for w
    using unique_idsD [OF assms(1) that(1) here that(2)] row(2) by simp
  show ?thesis
    unfolding s' by (rule rows_evolve_map [OF update_draft_row [OF row(3)]])
      (use draft in \<open>auto simp: stays_or_moves_def Let_def same_identity_def intro!: row_moves.edit\<close>)
qed

lemma start_validation_evolves:
  assumes "start_validation s actor env i = Inr (s', ev, v)"
  shows "rows_evolve env s s'"
proof -
  from assms obtain row ok where "update_status s actor env i DRAFT VALIDATING [] = Inr (s', ok)"
    by (rule start_validation_Inr)
  note upd = update_status_Inr [OF this]
  show ?thesis
    by (rule rows_evolve_map [OF upd(1)])
      (auto simp: stays_or_moves_def hit_def apply_none same_content_simps intro!: row_moves.start)
qed

lemma validate_no_errors: "validate ctx v = Inr outcome \<Longrightarrow> vo_valid outcome \<Longrightarrow> vo_errors outcome = []"
  by (auto simp: validate_def Let_def split: sum.splits)

lemma run_validation_evolves:
  assumes "unique_ids s" "run_validation s actor env i by_whom = Inr (s', ev, v, result)"
  shows "rows_evolve env s s'"
proof -
  from assms(2) obtain row outcome ok where run: "version_for_actor s actor i = Some row"
    "validate (se_context env) (se_arrange env row) = Inr outcome"
    "if vo_valid outcome
     then update_status s actor env i VALIDATING VALIDATED (success_updates result by_whom) = Inr (s', ok)
     else update_status s actor env i VALIDATING DRAFT (failure_updates result) = Inr (s', ok)"
    "to_result_model outcome (se_arrange env row) (content_revision (se_digest env) (se_arrange env row)) by_whom (se_now env) = Some result"
    by (rule run_validation_Inr)
  have row: "row \<in> set (cs_versions s)" "cv_configuration_version_id row = i" using version_for_actor_Some [OF run(1)] by blast+
  have same: "w = row" if "w \<in> set (cs_versions s)" "hit actor i VALIDATING w" for w
    using unique_idsD [OF assms(1) that(1) row(1)] that(2) row(2) by (simp add: hit_def)
  show ?thesis
  proof (cases "vo_valid outcome")
    case True
    with run(3) have "update_status s actor env i VALIDATING VALIDATED (success_updates result by_whom) = Inr (s', ok)" by simp
    note upd = update_status_Inr [OF this]
    have lenient: "\<not> se_rejects_unknown env" using upd(5) unknown_column(1) [of env result by_whom] by argo
    have clean: "clean_result (se_digest env) (se_arrange env row) result"
      using run(4) True validate_no_errors [OF run(2)] by (auto simp: clean_result_def to_result_model_def Let_def split: if_splits)
    have moves: "row_moves env w (apply_updates (success_updates result by_whom)
        (w\<lparr>cv_status := VALIDATED, cv_updated_at := se_now env\<rparr>))"
      if "w \<in> set (cs_versions s)" "hit actor i VALIDATING w" for w
      unfolding apply_success
      by (rule row_moves.accept [OF _ _ _ _ lenient, where outcome = outcome and result = result])
        (use that same [OF that] run(2) True clean in \<open>simp_all add: same_content_simps hit_def\<close>)
    show ?thesis by (rule rows_evolve_map [OF upd(1)]) (use moves in \<open>auto simp: stays_or_moves_def\<close>)
  next
    case False
    with run(3) have "update_status s actor env i VALIDATING DRAFT (failure_updates result) = Inr (s', ok)" by simp
    note upd = update_status_Inr [OF this]
    have lenient: "\<not> se_rejects_unknown env" using upd(5) unknown_column(2) [of env result] by argo
    show ?thesis
      by (rule rows_evolve_map [OF upd(1)])
        (use lenient in \<open>auto simp: stays_or_moves_def hit_def apply_failure same_content_simps intro!: row_moves.reject\<close>)
  qed
qed

lemma publish_evolves:
  assumes "publish s actor env i by_whom = Inr (s', ev, r)"
  shows "rows_evolve env s s'"
  using assms
proof (cases rule: publish_Inr)
  case 1
  then show ?thesis by (intro rows_evolve_same) simp
next
  case (2 row config result s1)
  note upd = update_status_Inr [OF 2(9)]
  from 2(10) have "cs_versions s' = cs_versions s1"
    unfolding set_current_published_version_def Let_def by auto
  from this [unfolded upd(1)] show ?thesis
    by (rule rows_evolve_map) (auto simp: stays_or_moves_def hit_def apply_publish same_content_simps intro!: row_moves.release)
qed

lemma step_evolves:
  assumes "unique_ids s"
  shows "rows_evolve env s (config_step s (actor, env, call))"
proof -
  have same: "rows_evolve env s s" by (rule rows_evolve_same) simp
  show ?thesis
  proof (cases call)
    case (CreateDraft venue name)
    have "rows_evolve env s s'" if run: "create_draft s actor env venue name = Inr (s', ev, v)" for s' ev v
    proof -
      from run obtain s1 c where c: "get_or_create s actor env venue name = Inr (s1, c)"
        "create_version s1 actor env (cfg_configuration_id c) (cfg_venue_id c)
          (next_version_number s1 actor (cfg_configuration_id c)) = Inr (s', v)" by (rule create_draft_Inr)
      from create_version_Inr(1,4) [OF c(2)] get_or_create_Inr(1) [OF c(1)] show ?thesis
        by (intro rows_evolve_append) (simp_all add: fresh_draft_def)
    qed
    with same CreateDraft show ?thesis by (auto simp: store_after_def split: sum.splits)
  next
    case (CreateDraftFrom i)
    have "rows_evolve env s s'" if run: "create_draft_from_version s actor env i = Inr (s', ev, v)" for s' ev v
      using run by (rule create_from_Inr) (auto intro!: rows_evolve_append dest: create_from_versions)
    with same CreateDraftFrom show ?thesis by (auto simp: store_after_def split: sum.splits)
  next
    case (UpdateDraft i u)
    with same update_draft_evolves [OF assms] show ?thesis by (auto simp: store_after_def split: sum.splits)
  next
    case (StartValidation i)
    with same start_validation_evolves show ?thesis by (auto simp: store_after_def split: sum.splits)
  next
    case (RunValidation i by_whom)
    with same run_validation_evolves [OF assms] show ?thesis by (auto simp: store_after_def split: sum.splits)
  next
    case (Publish i by_whom)
    with same publish_evolves show ?thesis by (auto simp: store_after_def split: sum.splits)
  qed
qed

subsection \<open>Invariants of reachable stores\<close>

lemma config_run_invariant:
  assumes step: "\<And>s c. P s \<Longrightarrow> c \<in> set calls \<Longrightarrow> P (config_step s c)"
  shows "P s \<Longrightarrow> P (config_run s calls)"
  using step
proof (induction calls arbitrary: s)
  case (Cons c calls)
  then have "P (config_step s c)" by simp
  with Cons have "P (config_run (config_step s c) calls)" by simp
  then show ?case by (simp add: config_run_def)
qed (simp add: config_run_def)

lemma list_all2_right: "list_all2 P xs ys \<Longrightarrow> y \<in> set ys \<Longrightarrow> \<exists>x\<in>set xs. P x y"
  by (induction rule: list_all2_induct) auto

lemma list_all2_left: "list_all2 P xs ys \<Longrightarrow> x \<in> set xs \<Longrightarrow> \<exists>y\<in>set ys. P x y"
  by (induction rule: list_all2_induct) auto

lemma list_all2_map: "list_all2 P xs ys \<Longrightarrow> (\<And>x y. P x y \<Longrightarrow> f y = f x) \<Longrightarrow> map f ys = map f xs"
  by (induction rule: list_all2_induct) auto

lemma evolve_member:
  assumes "rows_evolve env s s'" "w \<in> set (cs_versions s')"
  obtains v where "v \<in> set (cs_versions s)" "stays_or_moves env v w" | "fresh_draft s w"
  using assms unfolding rows_evolve_def by (fastforce simp: list_all_iff dest: list_all2_right)

lemma evolve_member_old:
  assumes "rows_evolve env s s'" "v \<in> set (cs_versions s)"
  obtains w where "w \<in> set (cs_versions s')" "stays_or_moves env v w"
  using assms unfolding rows_evolve_def by (fastforce dest: list_all2_left)

lemma stays_or_moves_identity: "stays_or_moves env v w \<Longrightarrow> same_identity v w"
  using row_moves_identity by (auto simp: stays_or_moves_def same_identity_def)

definition numbers_unique :: "config_store \<Rightarrow> bool" where
  "numbers_unique s = distinct (map (\<lambda>v. (cv_configuration_id v, cv_version v)) (cs_versions s))"

lemma evolve_unique:
  assumes "rows_evolve env s s'" "unique_ids s"
  shows "unique_ids s'" "numbers_unique s \<Longrightarrow> numbers_unique s'"
proof -
  from assms(1) obtain ws drafts where ws: "cs_versions s' = ws @ drafts" "length drafts \<le> 1"
    "list_all2 (stays_or_moves env) (cs_versions s) ws" "list_all (fresh_draft s) drafts"
    by (auto simp: rows_evolve_def)
  have same: "map cv_configuration_version_id ws = map cv_configuration_version_id (cs_versions s)"
      "map (\<lambda>v. (cv_configuration_id v, cv_version v)) ws = map (\<lambda>v. (cv_configuration_id v, cv_version v)) (cs_versions s)"
    by (rule list_all2_map [OF ws(3)], drule stays_or_moves_identity, simp add: same_identity_def)+
  have ids: "cv_configuration_version_id ` set ws = cv_configuration_version_id ` set (cs_versions s)"
    using arg_cong [OF same(1), of set] by (simp only: list.set_map)
  have numbers: "(\<lambda>v. (cv_configuration_id v, cv_version v)) ` set ws =
      (\<lambda>v. (cv_configuration_id v, cv_version v)) ` set (cs_versions s)"
    using arg_cong [OF same(2), of set] by (simp only: list.set_map)
  show "unique_ids s'"
    using assms(2) ws(2,4) ids unfolding unique_ids_def ws(1) map_append distinct_append same
    by (cases drafts) (auto simp: fresh_draft_def)
  show "numbers_unique s'" if "numbers_unique s"
    using that ws(2,4) numbers unfolding numbers_unique_def ws(1) map_append distinct_append same
    by (cases drafts) (auto simp: fresh_draft_def)
qed

lemma step_unique: "unique_ids s \<Longrightarrow> unique_ids (config_step s c)"
  using evolve_unique(1) step_evolves by (cases c) blast

lemma step_keeps_published:
  assumes "unique_ids s" "v \<in> set (cs_versions s)" "cv_status v = PUBLISHED"
  shows "v \<in> set (cs_versions (config_step s c))"
proof -
  obtain actor env call where c: "c = (actor, env, call)" by (cases c)
  from step_evolves [OF assms(1)] assms(2) obtain w where "w \<in> set (cs_versions (config_step s c))" "stays_or_moves env v w"
    unfolding c by (rule evolve_member_old)
  with row_moves_not_published assms(3) show ?thesis by (auto simp: stays_or_moves_def)
qed

lemma run_unique: "unique_ids s \<Longrightarrow> unique_ids (config_run s calls)"
  by (rule config_run_invariant [where calls = calls]) (rule step_unique)

lemma run_keeps_published:
  assumes "unique_ids s" "v \<in> set (cs_versions s)" "cv_status v = PUBLISHED"
  shows "v \<in> set (cs_versions (config_run s calls))"
proof -
  have "unique_ids (config_run s calls) \<and> v \<in> set (cs_versions (config_run s calls))"
    by (rule config_run_invariant [where calls = calls]) (use assms step_unique step_keeps_published in auto)
  then show ?thesis ..
qed

text \<open>Accepted content.\<close>

definition faithful_env :: "(content_payload \<Rightarrow> string) \<Rightarrow> validator_context \<Rightarrow> service_env \<Rightarrow> bool" where
  "faithful_env digest ctx env = (se_digest env = digest \<and> se_context env = ctx \<and> (\<forall>v. rearranged v (se_arrange env v)))"

definition sound_rows :: "(content_payload \<Rightarrow> string) \<Rightarrow> validator_context \<Rightarrow> config_store \<Rightarrow> bool" where
  "sound_rows digest ctx s = (\<forall>v\<in>set (cs_versions s). cv_status v \<in> {VALIDATED, PUBLISHED} \<longrightarrow> accepted digest ctx v)"

lemma same_identity_trans: "same_identity v u \<Longrightarrow> same_identity v w \<Longrightarrow> same_identity w u"
  by (simp add: same_identity_def)

lemma accepted_same_content:
  assumes "accepted digest ctx v" "same_content v w" "same_identity v w" "cv_validation_result w = cv_validation_result v"
  shows "accepted digest ctx w"
proof -
  from assms(1) obtain u outcome result where u: "same_identity v u" "same_entities v u" "validate ctx u = Inr outcome" "vo_valid outcome"
    "cv_validation_result v = Some result" "clean_result digest u result" by (auto simp: accepted_def)
  moreover have "same_entities w u"
    using u(2) assms(2) by (simp add: same_content_def content_payload_of_def same_entities_def)
  ultimately show ?thesis
    unfolding accepted_def using assms(4) same_identity_trans [OF u(1) assms(3)]
    by (intro exI [of _ u] exI [of _ outcome] exI [of _ result]) simp
qed

lemma moves_accepted:
  assumes "row_moves env v w" "faithful_env digest ctx env" "cv_status v \<in> {VALIDATED, PUBLISHED} \<Longrightarrow> accepted digest ctx v"
    "cv_status w \<in> {VALIDATED, PUBLISHED}"
  shows "accepted digest ctx w"
  using assms(1)
proof (cases rule: row_moves.cases)
  case (accept outcome result)
  let ?u = "se_arrange env v"
  have u: "same_identity v ?u" "same_entities v ?u" "se_digest env = digest" "se_context env = ctx"
    using assms(2) by (simp_all add: faithful_env_def rearranged_def)
  have "same_identity w ?u" using same_identity_trans [OF u(1) accept(1)] .
  moreover have "same_entities w ?u" using u(2) accept(2) by (simp add: same_content_def content_payload_of_def same_entities_def)
  ultimately show ?thesis
    using accept u(3,4) unfolding accepted_def by (intro exI [of _ ?u] exI [of _ outcome] exI [of _ result]) simp
next
  case release
  with assms(3) have "accepted digest ctx v" by simp
  then show ?thesis using release(2,1,5) by (rule accepted_same_content)
qed (use assms(4) in simp_all)

lemma step_sound:
  assumes "unique_ids s" "sound_rows digest ctx s" "faithful_env digest ctx (fst (snd c))"
  shows "sound_rows digest ctx (config_step s c)"
  unfolding sound_rows_def
proof (intro ballI impI)
  fix w assume w: "w \<in> set (cs_versions (config_step s c))" "cv_status w \<in> {VALIDATED, PUBLISHED}"
  obtain actor env call where c: "c = (actor, env, call)" by (cases c)
  from step_evolves [OF assms(1)] w(1) show "accepted digest ctx w"
    unfolding c
  proof (cases rule: evolve_member)
    case (1 v)
    with assms(2) have v: "cv_status v \<in> {VALIDATED, PUBLISHED} \<Longrightarrow> accepted digest ctx v" by (auto simp: sound_rows_def)
    from 1(2) show ?thesis
      unfolding stays_or_moves_def
    proof
      assume "v = w" with v w(2) show ?thesis by blast
    next
      assume "row_moves env v w"
      then show ?thesis by (rule moves_accepted) (use assms(3) v w(2) in \<open>simp_all add: c\<close>)
    qed
  next
    case 2
    with w(2) show ?thesis by (simp add: fresh_draft_def)
  qed
qed

lemma run_sound:
  assumes "list_all (\<lambda>(actor, env, call). faithful_env digest ctx env) calls"
  shows "sound_rows digest ctx (config_run empty_store calls)"
proof -
  have "unique_ids (config_run empty_store calls) \<and> sound_rows digest ctx (config_run empty_store calls)"
  proof (rule config_run_invariant [where calls = calls])
    fix s c
    assume s: "unique_ids s \<and> sound_rows digest ctx s" and "c \<in> set calls"
    with assms have "faithful_env digest ctx (fst (snd c))" by (cases c) (auto simp: list_all_iff)
    with s step_unique step_sound show "unique_ids (config_step s c) \<and> sound_rows digest ctx (config_step s c)" by blast
  qed (simp add: empty_store_def unique_ids_def sound_rows_def)
  then show ?thesis ..
qed

lemma moves_strict: "row_moves env v w \<Longrightarrow> se_rejects_unknown env \<Longrightarrow> cv_status v \<in> {DRAFT, VALIDATING} \<Longrightarrow>
    cv_status w \<in> {DRAFT, VALIDATING} \<and> (cv_status v = VALIDATING \<longrightarrow> cv_status w = VALIDATING)"
  by (cases rule: row_moves.cases) auto

lemma run_strict:
  assumes "list_all (\<lambda>(actor, env, call). se_rejects_unknown env) calls"
  shows "\<forall>v\<in>set (cs_versions (config_run empty_store calls)). cv_status v \<in> {DRAFT, VALIDATING}"
proof -
  have "unique_ids (config_run empty_store calls) \<and>
      (\<forall>v\<in>set (cs_versions (config_run empty_store calls)). cv_status v \<in> {DRAFT, VALIDATING})"
  proof (rule config_run_invariant [where calls = calls])
    fix s c
    assume s: "unique_ids s \<and> (\<forall>v\<in>set (cs_versions s). cv_status v \<in> {DRAFT, VALIDATING})" and "c \<in> set calls"
    obtain actor env call where c: "c = (actor, env, call)" by (cases c)
    with assms \<open>c \<in> set calls\<close> have strict: "se_rejects_unknown env" by (auto simp: list_all_iff)
    have "cv_status w \<in> {DRAFT, VALIDATING}" if "w \<in> set (cs_versions (config_step s c))" for w
    proof -
      from s have "rows_evolve env s (config_step s c)" unfolding c by (intro step_evolves) blast
      then show ?thesis
        using that
      proof (cases rule: evolve_member)
        case (1 v)
        with s have "cv_status v \<in> {DRAFT, VALIDATING}" by blast
        with 1(2) moves_strict [OF _ strict] show ?thesis unfolding stays_or_moves_def by blast
      qed (simp add: fresh_draft_def)
    qed
    with s step_unique show "unique_ids (config_step s c) \<and>
        (\<forall>v\<in>set (cs_versions (config_step s c)). cv_status v \<in> {DRAFT, VALIDATING})" by blast
  qed (simp add: empty_store_def unique_ids_def)
  then show ?thesis ..
qed

subsection \<open>The current pointer and the version numbers\<close>

definition owns :: "configuration \<Rightarrow> configuration_version \<Rightarrow> bool" where
  "owns c v = (cv_configuration_id v = cfg_configuration_id c)"

definition scopes_match :: "config_store \<Rightarrow> bool" where
  "scopes_match s = (distinct (map cfg_configuration_id (cs_configurations s)) \<and>
     (\<forall>v\<in>set (cs_versions s). \<exists>c\<in>set (cs_configurations s). owns c v \<and>
        cv_tenant_id v = cfg_tenant_id c \<and> cv_venue_id v = cfg_venue_id c))"

definition pointer_ok :: "config_store \<Rightarrow> configuration \<Rightarrow> bool" where
  "pointer_ok s c = (case cfg_current_published_version_id c of
     None \<Rightarrow> \<forall>v\<in>set (cs_versions s). owns c v \<longrightarrow> cv_status v \<noteq> PUBLISHED
   | Some i \<Rightarrow> \<exists>v\<in>set (cs_versions s). owns c v \<and> cv_configuration_version_id v = i \<and> cv_status v = PUBLISHED \<and>
       (\<forall>w\<in>set (cs_versions s). owns c w \<and> cv_status w = PUBLISHED \<longrightarrow> cv_version w \<le> cv_version v))"

definition store_ok :: "config_store \<Rightarrow> bool" where
  "store_ok s = (unique_ids s \<and> numbers_unique s \<and> scopes_match s \<and> (\<forall>c\<in>set (cs_configurations s). pointer_ok s c))"

definition published_rows :: "config_store \<Rightarrow> configuration_version set" where
  "published_rows s = {v \<in> set (cs_versions s). cv_status v = PUBLISHED}"

lemma pointer_ok_published:
  "pointer_ok s c = (case cfg_current_published_version_id c of
     None \<Rightarrow> \<forall>v\<in>published_rows s. \<not> owns c v
   | Some i \<Rightarrow> \<exists>v\<in>published_rows s. owns c v \<and> cv_configuration_version_id v = i \<and>
       (\<forall>w\<in>published_rows s. owns c w \<longrightarrow> cv_version w \<le> cv_version v))"
  unfolding pointer_ok_def published_rows_def by (auto split: option.split)

lemma highest_max: "v \<in> set vs \<Longrightarrow> \<exists>h. highest vs = Some h \<and> h \<in> set vs \<and> cv_version v \<le> cv_version h"
proof (induction vs)
  case (Cons w ws)
  show ?case
  proof (cases "highest ws")
    case None
    then have "ws = []" by (cases ws) (auto split: option.splits if_splits)
    with Cons.prems show ?thesis by simp
  next
    case (Some h)
    have "h \<in> set ws" using Some
      by (induction ws arbitrary: h) (auto split: option.splits if_splits)
    with Cons Some show ?thesis by fastforce
  qed
qed simp

lemma scopes_matchD:
  assumes "scopes_match s" "v \<in> set (cs_versions s)" "w \<in> set (cs_versions s)"
    "cv_configuration_id w = cv_configuration_id v"
  shows "cv_tenant_id w = cv_tenant_id v" "cv_venue_id w = cv_venue_id v"
proof -
  from assms obtain c d where cd: "c \<in> set (cs_configurations s)" "d \<in> set (cs_configurations s)" "owns c v" "owns d w"
      "cv_tenant_id v = cfg_tenant_id c" "cv_venue_id v = cfg_venue_id c"
      "cv_tenant_id w = cfg_tenant_id d" "cv_venue_id w = cfg_venue_id d"
    by (metis scopes_match_def)
  then have "c = d"
    using assms(1,4) by (auto simp: scopes_match_def owns_def distinct_map dest: inj_onD)
  with cd show "cv_tenant_id w = cv_tenant_id v" "cv_venue_id w = cv_venue_id v" by simp_all
qed

text \<open>The highest version that the actor sees is the highest of all, since they share the scope.\<close>

lemma visible_highest:
  assumes "scopes_match s" "v \<in> set (cs_versions s)" "cv_tenant_id v = ac_tenant_id actor"
    "has_access actor (cv_venue_id v)" "P v" "cv_configuration_id v = i"
  obtains h where "visible actor cv_venue_id (highest (filter P (versions_of s actor i))) = Some h"
    "cv_version v \<le> cv_version h"
proof -
  from assms have "v \<in> set (filter P (versions_of s actor i))" by (simp add: versions_of_def)
  from highest_max [OF this] obtain h where h: "highest (filter P (versions_of s actor i)) = Some h"
      "h \<in> set (versions_of s actor i)" "cv_version v \<le> cv_version h" by auto
  then have "cv_venue_id h = cv_venue_id v"
    using scopes_matchD(2) [OF assms(1,2), of h] assms(6) by (simp add: versions_of_def)
  with h that assms(4) show thesis by (simp add: visible_Some)
qed

lemma evolve_scopes:
  assumes "rows_evolve env s s'" "scopes_match s"
    and "map (\<lambda>c. (cfg_configuration_id c, cfg_tenant_id c, cfg_venue_id c)) (cs_configurations s') =
      map (\<lambda>c. (cfg_configuration_id c, cfg_tenant_id c, cfg_venue_id c)) (cs_configurations s @ fresh)"
    and "distinct (map cfg_configuration_id (cs_configurations s @ fresh))"
    and "\<And>v. v \<in> set (cs_versions s') \<Longrightarrow> fresh_draft s v \<Longrightarrow> \<exists>c\<in>set (cs_configurations s'). owns c v \<and>
        cv_tenant_id v = cfg_tenant_id c \<and> cv_venue_id v = cfg_venue_id c"
  shows "scopes_match s'"
  unfolding scopes_match_def
proof (intro conjI ballI)
  have "map cfg_configuration_id (cs_configurations s') = map cfg_configuration_id (cs_configurations s @ fresh)"
    using arg_cong [OF assms(3), of "map fst"] by (simp add: comp_def)
  with assms(4) show "distinct (map cfg_configuration_id (cs_configurations s'))" by simp
next
  fix w assume w: "w \<in> set (cs_versions s')"
  from assms(1) w show "\<exists>c\<in>set (cs_configurations s'). owns c w \<and> cv_tenant_id w = cfg_tenant_id c \<and> cv_venue_id w = cfg_venue_id c"
  proof (cases rule: evolve_member)
    case (1 v)
    with assms(2) obtain c where c: "c \<in> set (cs_configurations s)" "owns c v" "cv_tenant_id v = cfg_tenant_id c"
        "cv_venue_id v = cfg_venue_id c" by (auto simp: scopes_match_def)
    then have "(cfg_configuration_id c, cfg_tenant_id c, cfg_venue_id c) \<in>
        set (map (\<lambda>c. (cfg_configuration_id c, cfg_tenant_id c, cfg_venue_id c)) (cs_configurations s'))"
      unfolding assms(3) by simp
    then obtain d where "d \<in> set (cs_configurations s')" "cfg_configuration_id d = cfg_configuration_id c"
        "cfg_tenant_id d = cfg_tenant_id c" "cfg_venue_id d = cfg_venue_id c" by auto
    with c stays_or_moves_identity [OF 1(2)] show ?thesis
      by (intro bexI [of _ d]) (simp_all add: owns_def same_identity_def)
  next
    case 2
    with assms(5) w show ?thesis by blast
  qed
qed

lemma has_access_require: "require_venue_access actor v = Inr u \<longleftrightarrow> has_access actor v"
  by (auto simp: require_venue_access_def has_access_def)

lemma published_map:
  assumes "cs_versions s' = map f (cs_versions s)"
    "\<And>v. v \<in> set (cs_versions s) \<Longrightarrow> f v = v \<or> cv_status v \<noteq> PUBLISHED \<and> cv_status (f v) \<noteq> PUBLISHED"
  shows "published_rows s' = published_rows s"
  using assms(2) unfolding published_rows_def assms(1) by (auto simp: image_iff) metis+

lemma published_append:
  "cs_versions s' = cs_versions s @ [row] \<Longrightarrow> cv_status row = DRAFT \<Longrightarrow> published_rows s' = published_rows s"
  by (auto simp: published_rows_def)

lemma pointer_ok_same:
  "published_rows s' = published_rows s \<Longrightarrow> pointer_ok s' c = pointer_ok s c"
  by (simp add: pointer_ok_published split: option.split)

lemma fresh_pointer:
  assumes "scopes_match s" "cfg_configuration_id c \<notin> cfg_configuration_id ` set (cs_configurations s)"
    "cfg_current_published_version_id c = None"
  shows "pointer_ok s c"
proof -
  have "\<not> owns c v" if "v \<in> set (cs_versions s)" for v
  proof
    assume "owns c v"
    from assms(1) that obtain d where "d \<in> set (cs_configurations s)" "owns d v" by (auto simp: scopes_match_def)
    with \<open>owns c v\<close> assms(2) show False by (auto simp: owns_def)
  qed
  then show ?thesis by (simp add: pointer_ok_def assms(3))
qed

text \<open>A call that adds a draft to a configuration of the store.\<close>

lemma draft_added_ok:
  assumes ok: "store_ok s" and versions: "cs_versions s' = cs_versions s @ [row]" "fresh_draft s row"
    and configurations: "cs_configurations s' = cs_configurations s @ fresh"
    and fresh: "\<And>c. c \<in> set fresh \<Longrightarrow> cfg_configuration_id c \<notin> cfg_configuration_id ` set (cs_configurations s) \<and>
        cfg_current_published_version_id c = None" "length fresh \<le> 1"
    and owner: "c \<in> set (cs_configurations s')" "owns c row" "cv_tenant_id row = cfg_tenant_id c"
      "cv_venue_id row = cfg_venue_id c"
  shows "store_ok s'"
proof -
  from ok have s: "unique_ids s" "numbers_unique s" "scopes_match s" "\<And>c. c \<in> set (cs_configurations s) \<Longrightarrow> pointer_ok s c"
    by (auto simp: store_ok_def)
  have evolves: "rows_evolve env s s'" for env by (rule rows_evolve_append [OF versions])
  have published: "published_rows s' = published_rows s"
    by (rule published_append [OF versions(1)]) (use versions(2) in \<open>simp add: fresh_draft_def\<close>)
  have "distinct (map cfg_configuration_id (cs_configurations s @ fresh))"
    using s(3) fresh by (cases fresh) (auto simp: scopes_match_def)
  then have scopes: "scopes_match s'"
  proof (rule evolve_scopes [OF evolves s(3), where fresh = fresh, rotated])
    fix v assume v: "v \<in> set (cs_versions s')" "fresh_draft s v"
    then have "v = row" using versions(1) by (auto simp: fresh_draft_def)
    with owner show "\<exists>c\<in>set (cs_configurations s'). owns c v \<and> cv_tenant_id v = cfg_tenant_id c \<and> cv_venue_id v = cfg_venue_id c"
      by blast
  qed (simp add: configurations)
  have "pointer_ok s' c" if "c \<in> set (cs_configurations s')" for c
    unfolding pointer_ok_same [OF published]
    using that s(4) fresh_pointer [OF s(3)] fresh(1) by (auto simp: configurations)
  with scopes evolve_unique [OF evolves s(1)] s(2) show ?thesis by (simp add: store_ok_def)
qed

text \<open>A call that moves rows without publishing one.\<close>

lemma unpublished_moves_ok:
  assumes "store_ok s" "rows_evolve env s s'" "published_rows s' = published_rows s"
    "cs_configurations s' = cs_configurations s" "length (cs_versions s') = length (cs_versions s)"
  shows "store_ok s'"
proof -
  from assms(1) have s: "unique_ids s" "numbers_unique s" "scopes_match s" by (simp_all add: store_ok_def)
  from assms(2) obtain ws drafts where ws: "cs_versions s' = ws @ drafts"
    "list_all2 (stays_or_moves env) (cs_versions s) ws" by (auto simp: rows_evolve_def)
  with assms(5) have all: "cs_versions s' = ws" by (auto dest: list_all2_lengthD)
  have "\<not> fresh_draft s v" if v: "v \<in> set (cs_versions s')" for v
  proof -
    from list_all2_right [OF ws(2), of v] v all obtain u where "u \<in> set (cs_versions s)" "same_identity u v"
      using stays_or_moves_identity by blast
    then show ?thesis by (auto simp: fresh_draft_def same_identity_def)
  qed
  then have "scopes_match s'"
    using s(3) by (intro evolve_scopes [OF assms(2) s(3), where fresh = "[]"]) (auto simp: assms(4) scopes_match_def)
  with assms(1,4) evolve_unique [OF assms(2) s(1)] s(2) pointer_ok_same [OF assms(3)] show ?thesis
    by (simp add: store_ok_def)
qed

lemma create_draft_ok:
  assumes "store_ok s" "create_draft s actor env venue name = Inr (s', ev, v)"
  shows "store_ok s'"
proof -
  from assms(2) obtain s1 c where c: "get_or_create s actor env venue name = Inr (s1, c)"
    and row: "create_version s1 actor env (cfg_configuration_id c) (cfg_venue_id c)
        (next_version_number s1 actor (cfg_configuration_id c)) = Inr (s', v)" by (rule create_draft_Inr)
  note got = get_or_create_Inr [OF c] and new = create_version_Inr [OF row]
  have versions: "cs_versions s' = cs_versions s @ [v]" "fresh_draft s v"
    using new(1,4) got(1) by (simp_all add: fresh_draft_def)
  have owner: "c \<in> set (cs_configurations s')" "owns c v" "cv_tenant_id v = cfg_tenant_id c" "cv_venue_id v = cfg_venue_id c"
    using got(3,5) new(2,5-7) by (simp_all add: owns_def)
  from got(6) show ?thesis
  proof
    assume "cs_configurations s1 = cs_configurations s"
    then show ?thesis using new(2) by (intro draft_added_ok [OF assms(1) versions _ _ _ owner, of "[]"]) simp_all
  next
    assume "cs_configurations s1 = cs_configurations s @ [c] \<and>
       cfg_configuration_id c \<notin> cfg_configuration_id ` set (cs_configurations s) \<and> cfg_current_published_version_id c = None"
    then show ?thesis using new(2) by (intro draft_added_ok [OF assms(1) versions _ _ _ owner, of "[c]"]) simp_all
  qed
qed

lemma configuration_for_actor_Some:
  "configuration_for_actor s actor i = Some c \<Longrightarrow> c \<in> set (cs_configurations s) \<and> cfg_configuration_id c = i \<and>
     cfg_tenant_id c = ac_tenant_id actor \<and> has_access actor (cfg_venue_id c)"
  unfolding configuration_for_actor_def visible_Some using find_Some_set by fastforce

lemma create_from_ok:
  assumes "store_ok s" "create_draft_from_version s actor env i = Inr (s', ev, v)"
  shows "store_ok s'"
  using assms(2)
proof (rule create_from_Inr)
  fix source c s1 row draft
  assume c: "configuration_for_actor s actor (cv_configuration_id source) = Some c"
    and row: "create_version s actor env (cfg_configuration_id c) (cfg_venue_id c)
        (next_version_number s actor (cfg_configuration_id c)) = Inr (s1, row)" and s': "s' = replace_entities s1 row draft"
  note new = create_version_Inr [OF row] and versions = create_from_versions [OF row, of draft, folded s']
  have "cs_configurations s' = cs_configurations s" by (simp add: s' replace_entities_def new(2))
  with configuration_for_actor_Some [OF c] new show ?thesis
    by (intro draft_added_ok [OF assms(1) versions, of "[]" c]) (simp_all add: owns_def)
qed

lemma update_draft_ok:
  assumes "store_ok s" "update_draft s actor env i u = Inr (s', ev, v)"
  shows "store_ok s'"
proof -
  have unique: "unique_ids s" using assms(1) by (simp add: store_ok_def)
  from assms(2) obtain row s1 where row: "version_for_actor s actor i = Some row" "cv_status row = DRAFT"
      "s1 = s \<or> s1 = clear_validation s env row" and s': "s' = replace_entities s1 row v"
    by (rule update_draft_Inr)
  have here: "row \<in> set (cs_versions s)" using version_for_actor_Some [OF row(1)] by blast
  note versions = update_draft_row [OF row(3), of v, folded s']
  have draft: "cv_status w = DRAFT" if "w \<in> set (cs_versions s)" "cv_configuration_version_id w = cv_configuration_version_id row" for w
    using unique_idsD [OF unique that(1) here that(2)] row(2) by simp
  have "cs_configurations s' = cs_configurations s"
    using row(3) by (auto simp: s' replace_entities_def clear_validation_def)
  moreover have "published_rows s' = published_rows s"
    by (rule published_map [OF versions]) (use draft in \<open>auto simp: Let_def\<close>)
  ultimately show ?thesis
    using update_draft_evolves [OF unique assms(2)]
    by (intro unpublished_moves_ok [OF assms(1)]) (simp_all add: versions)
qed

lemma update_status_ok:
  assumes "store_ok s" "rows_evolve env s s'" "update_status s actor env i st st' extra = Inr (s', ok)"
    "st \<noteq> PUBLISHED" "\<And>v. cv_status (apply_updates extra v) = cv_status v" "st' \<noteq> PUBLISHED"
  shows "store_ok s'"
proof -
  note upd = update_status_Inr [OF assms(3)]
  have "published_rows s' = published_rows s"
    by (rule published_map [OF upd(1)]) (use assms(4-6) in \<open>auto simp: hit_def\<close>)
  then show ?thesis by (rule unpublished_moves_ok [OF assms(1,2)]) (simp_all add: upd(1,2))
qed

lemma start_validation_ok:
  assumes "store_ok s" "start_validation s actor env i = Inr (s', ev, v)"
  shows "store_ok s'"
proof -
  from assms(2) obtain row ok where "update_status s actor env i DRAFT VALIDATING [] = Inr (s', ok)"
    by (rule start_validation_Inr)
  then show ?thesis
    by (rule update_status_ok [OF assms(1) start_validation_evolves [OF assms(2)]]) (simp_all add: apply_none)
qed

lemma run_validation_ok:
  assumes "store_ok s" "run_validation s actor env i by_whom = Inr (s', ev, v, result)"
  shows "store_ok s'"
proof -
  have unique: "unique_ids s" using assms(1) by (simp add: store_ok_def)
  note evolves = run_validation_evolves [OF unique assms(2)]
  from assms(2) obtain row outcome ok where "version_for_actor s actor i = Some row"
      "validate (se_context env) (se_arrange env row) = Inr outcome" and run:
    "if vo_valid outcome
     then update_status s actor env i VALIDATING VALIDATED (success_updates result by_whom) = Inr (s', ok)
     else update_status s actor env i VALIDATING DRAFT (failure_updates result) = Inr (s', ok)"
    by (rule run_validation_Inr)
  show ?thesis
  proof (cases "vo_valid outcome")
    case True
    with run have "update_status s actor env i VALIDATING VALIDATED (success_updates result by_whom) = Inr (s', ok)" by simp
    then show ?thesis by (rule update_status_ok [OF assms(1) evolves]) (simp_all add: apply_success)
  next
    case False
    with run have "update_status s actor env i VALIDATING DRAFT (failure_updates result) = Inr (s', ok)" by simp
    then show ?thesis by (rule update_status_ok [OF assms(1) evolves]) (simp_all add: apply_failure)
  qed
qed

lemma publish_effect:
  assumes "store_ok s" "version_for_actor s actor i = Some row" "cv_status row = VALIDATED"
    and upd: "update_status s actor env i VALIDATED PUBLISHED (publish_updates now by_whom previous) = Inr (s1, True)"
    and pointer: "set_current_published_version s1 actor env (cv_configuration_id row) i = (s', True)"
  obtains row' where "published_rows s' = insert row' (published_rows s)" "same_identity row row'"
    "cv_status row' = PUBLISHED" "cv_cameras row' = cv_cameras row"
    "cs_configurations s' = map (\<lambda>c. if owns c row then
       c\<lparr>cfg_current_published_version_id := Some i, cfg_updated_at := se_now env\<rparr> else c) (cs_configurations s)"
proof -
  have unique: "unique_ids s" and scopes: "scopes_match s" using assms(1) by (simp_all add: store_ok_def)
  have row: "row \<in> set (cs_versions s)" "cv_configuration_version_id row = i" "cv_tenant_id row = ac_tenant_id actor"
    using version_for_actor_Some [OF assms(2)] by blast+
  define row' where "row' = apply_updates (publish_updates now by_whom previous)
    (row\<lparr>cv_status := PUBLISHED, cv_updated_at := se_now env\<rparr>)"
  note map_rows = update_status_Inr [OF upd]
  have hit: "hit actor i VALIDATED v \<longleftrightarrow> v = row" if "v \<in> set (cs_versions s)" for v
    using unique_idsD [OF unique that row(1)] row(2,3) assms(3) by (auto simp: hit_def)
  have versions: "cs_versions s' = map (\<lambda>v. if v = row then row' else v) (cs_versions s)"
    using pointer hit unfolding set_current_published_version_def Let_def
    by (auto simp: map_rows(1) row'_def)
  have row': "same_identity row row'" "cv_status row' = PUBLISHED" "cv_cameras row' = cv_cameras row"
    by (simp_all add: row'_def apply_publish same_identity_def)
  have published: "published_rows s' = insert row' (published_rows s)"
    unfolding published_rows_def versions using row(1) row'(2) assms(3) by auto
  have owner: "cfg_configuration_id c = cv_configuration_id row \<and> cfg_tenant_id c = ac_tenant_id actor \<longleftrightarrow> owns c row"
    if "c \<in> set (cs_configurations s)" for c
  proof -
    from scopes row(1) obtain d where "d \<in> set (cs_configurations s)" "owns d row" "cv_tenant_id row = cfg_tenant_id d"
      by (auto simp: scopes_match_def)
    with scopes that row(3) show ?thesis by (auto simp: scopes_match_def owns_def distinct_map dest: inj_onD)
  qed
  have "cs_configurations s' = map (\<lambda>c. if owns c row then
      c\<lparr>cfg_current_published_version_id := Some i, cfg_updated_at := se_now env\<rparr> else c) (cs_configurations s)"
    using pointer owner unfolding set_current_published_version_def Let_def by (auto simp: map_rows(2))
  with published row' that show thesis by blast
qed

lemma publish_ok:
  assumes "store_ok s" "publish s actor env i by_whom = Inr (s', ev, r)"
  shows "store_ok s'"
  using assms(2)
proof (cases rule: publish_Inr)
  case 1
  with assms(1) show ?thesis by simp
next
  case (2 row config result s1)
  have s: "unique_ids s" "numbers_unique s" "scopes_match s" "\<And>c. c \<in> set (cs_configurations s) \<Longrightarrow> pointer_ok s c"
    using assms(1) by (auto simp: store_ok_def)
  note evolves = publish_evolves [OF assms(2)]
  from publish_effect [OF assms(1) 2(1,2,9,10)] obtain row' where
    published: "published_rows s' = insert row' (published_rows s)" and row': "same_identity row row'" "cv_status row' = PUBLISHED"
    and configurations: "cs_configurations s' = map (\<lambda>c. if owns c row then
       c\<lparr>cfg_current_published_version_id := Some i, cfg_updated_at := se_now env\<rparr> else c) (cs_configurations s)" .
  have row: "row \<in> set (cs_versions s)" "cv_configuration_version_id row = i" "cv_tenant_id row = ac_tenant_id actor"
      "has_access actor (cv_venue_id row)" using version_for_actor_Some [OF 2(1)] by blast+
  have newest: "cv_version w \<le> cv_version row" if "w \<in> published_rows s" "cv_configuration_id w = cv_configuration_id row" for w
  proof -
    note same = that(2)
    from that scopes_matchD [OF s(3) row(1), of w] row have "w \<in> set (cs_versions s)" "cv_tenant_id w = ac_tenant_id actor"
        "has_access actor (cv_venue_id w)" "cv_status w = PUBLISHED" by (simp_all add: published_rows_def)
    then obtain h where "visible actor cv_venue_id (highest (filter (\<lambda>v. cv_status v = PUBLISHED)
        (versions_of s actor (cv_configuration_id row)))) = Some h" "cv_version w \<le> cv_version h"
      using same by (rule visible_highest [OF s(3), where P = "\<lambda>v. cv_status v = PUBLISHED"])
    with 2(8) show ?thesis by (fastforce simp: get_latest_published_version_def)
  qed
  have "pointer_ok s' c'" if "c' \<in> set (cs_configurations s')" for c'
  proof -
    from that obtain c where c: "c \<in> set (cs_configurations s)" "c' = (if owns c row then
       c\<lparr>cfg_current_published_version_id := Some i, cfg_updated_at := se_now env\<rparr> else c)" by (auto simp: configurations)
    show ?thesis
    proof (cases "owns c row")
      case True
      with c have "owns c' row'" "cfg_current_published_version_id c' = Some i" "\<And>w. owns c' w \<longleftrightarrow> cv_configuration_id w = cv_configuration_id row"
        using row'(1) by (auto simp: owns_def same_identity_def)
      moreover have "cv_configuration_version_id row' = i" "cv_version row' = cv_version row"
        using row'(1) row(2) by (simp_all add: same_identity_def)
      ultimately show ?thesis
        unfolding pointer_ok_published published using newest by (auto intro!: exI [of _ row'])
    next
      case False
      with row'(1) have "\<not> owns c row'" by (simp add: owns_def same_identity_def)
      with s(4) [OF c(1)] c(2) False show ?thesis
        unfolding pointer_ok_published published by (auto split: option.splits)
    qed
  qed
  moreover have "scopes_match s'"
  proof -
    from evolves have "\<not> fresh_draft s v" if v: "v \<in> set (cs_versions s')" for v
    proof -
      from 2(10) have "cs_versions s' = cs_versions s1" unfolding set_current_published_version_def Let_def by auto
      with v update_status_Inr(1) [OF 2(9)] have "cv_configuration_version_id v \<in> cv_configuration_version_id ` set (cs_versions s)"
        by (auto simp: apply_publish)
      then show ?thesis by (simp add: fresh_draft_def)
    qed
    moreover have "map (\<lambda>c. (cfg_configuration_id c, cfg_tenant_id c, cfg_venue_id c)) (cs_configurations s') =
        map (\<lambda>c. (cfg_configuration_id c, cfg_tenant_id c, cfg_venue_id c)) (cs_configurations s @ [])"
      by (simp add: configurations)
    ultimately show ?thesis
      using s(3) by (intro evolve_scopes [OF evolves s(3), where fresh = "[]"]) (auto simp: scopes_match_def)
  qed
  ultimately show ?thesis using evolve_unique [OF evolves s(1)] s(2) by (simp add: store_ok_def)
qed

lemma step_ok: "store_ok s \<Longrightarrow> store_ok (config_step s c)"
proof -
  assume ok: "store_ok s"
  obtain actor env call where "c = (actor, env, call)" by (cases c)
  with ok create_draft_ok [OF ok] create_from_ok [OF ok] update_draft_ok [OF ok] start_validation_ok [OF ok]
    run_validation_ok [OF ok] publish_ok [OF ok]
  show ?thesis by (cases call) (auto simp: store_after_def split: sum.splits)
qed

lemma config_run_store_ok: "store_ok s \<Longrightarrow> store_ok (config_run s calls)"
  by (rule config_run_invariant [where calls = calls]) (rule step_ok)

lemma empty_store_ok: "store_ok empty_store"
  by (simp add: store_ok_def empty_store_def unique_ids_def numbers_unique_def scopes_match_def)

subsection \<open>What is served\<close>

text \<open>A tenant has one configuration for a venue.\<close>

definition venues_unique :: "config_store \<Rightarrow> bool" where
  "venues_unique s = distinct (map (\<lambda>c. (cfg_tenant_id c, cfg_venue_id c)) (cs_configurations s))"

definition scope_keys :: "config_store \<Rightarrow> (uuid \<times> uuid) list" where
  "scope_keys s = map (\<lambda>c. (cfg_tenant_id c, cfg_venue_id c)) (cs_configurations s)"

lemma get_or_create_venues:
  assumes "get_or_create s actor env venue name = Inr (s', c)" "venues_unique s"
  shows "venues_unique s'"
proof (cases "find (\<lambda>c. cfg_venue_id c = venue \<and> cfg_tenant_id c = ac_tenant_id actor) (cs_configurations s)")
  case None
  then have "(ac_tenant_id actor, venue) \<notin> (\<lambda>c. (cfg_tenant_id c, cfg_venue_id c)) ` set (cs_configurations s)"
    by (auto simp: find_None_iff)
  then show ?thesis using assms None by (auto simp: get_or_create_def venues_unique_def Let_def split: if_splits)
next
  case (Some d)
  then show ?thesis using assms by (simp add: get_or_create_def)
qed

lemma pointer_scope_keys: "scope_keys (fst (set_current_published_version s actor env i j)) = scope_keys s"
  by (simp add: set_current_published_version_def Let_def scope_keys_def)

lemma publish_scope_keys: "publish s actor env i by_whom = Inr (s', ev, r) \<Longrightarrow> scope_keys s' = scope_keys s"
proof (erule publish_Inr)
  fix row config result s1
  assume "update_status s actor env i VALIDATED PUBLISHED
      (publish_updates (se_now env) by_whom (cfg_current_published_version_id config)) = Inr (s1, True)"
    "set_current_published_version s1 actor env (cv_configuration_id row) i = (s', True)"
  then show ?thesis using pointer_scope_keys [of s1 actor env "cv_configuration_id row" i] update_status_Inr(2)
    by (fastforce simp: scope_keys_def)
qed simp

lemma step_venues: "venues_unique s \<Longrightarrow> venues_unique (config_step s c)"
proof -
  assume u: "venues_unique s"
  obtain actor env call where c: "c = (actor, env, call)" by (cases c)
  have keep: "venues_unique s'" if "scope_keys s' = scope_keys s" for s' using that u by (simp add: venues_unique_def scope_keys_def)
  have same: "venues_unique s'" if "cs_configurations s' = cs_configurations s" for s' using that u by (simp add: venues_unique_def)
  show ?thesis
  proof (cases call)
    case (CreateDraft venue name)
    have "venues_unique s'" if run: "create_draft s actor env venue name = Inr (s', ev, v)" for s' ev v
    proof -
      from run obtain s1 d where d: "get_or_create s actor env venue name = Inr (s1, d)"
        "create_version s1 actor env (cfg_configuration_id d) (cfg_venue_id d)
          (next_version_number s1 actor (cfg_configuration_id d)) = Inr (s', v)" by (rule create_draft_Inr)
      from get_or_create_venues [OF d(1) u] create_version_Inr(2) [OF d(2)] show ?thesis by (simp add: venues_unique_def)
    qed
    with u CreateDraft show ?thesis by (auto simp: c store_after_def split: sum.splits)
  next
    case (CreateDraftFrom i)
    have "venues_unique s'" if run: "create_draft_from_version s actor env i = Inr (s', ev, v)" for s' ev v
      using run by (rule create_from_Inr) (rule same, simp add: replace_entities_def create_version_Inr(2))
    with u CreateDraftFrom show ?thesis by (auto simp: c store_after_def split: sum.splits)
  next
    case (UpdateDraft i w)
    have "venues_unique s'" if run: "update_draft s actor env i w = Inr (s', ev, v)" for s' ev v
      using run by (rule update_draft_Inr) (rule same, auto simp: replace_entities_def clear_validation_def)
    with u UpdateDraft show ?thesis by (auto simp: c store_after_def split: sum.splits)
  next
    case (StartValidation i)
    have "venues_unique s'" if run: "start_validation s actor env i = Inr (s', ev, v)" for s' ev v
      using run by (rule start_validation_Inr) (rule same, simp add: update_status_Inr(2))
    with u StartValidation show ?thesis by (auto simp: c store_after_def split: sum.splits)
  next
    case (RunValidation i by_whom)
    have "venues_unique s'" if run: "run_validation s actor env i by_whom = Inr (s', ev, v, result)" for s' ev v result
      using run by (rule run_validation_Inr) (rule same, auto simp: update_status_Inr(2) split: if_splits)
    with u RunValidation show ?thesis by (auto simp: c store_after_def split: sum.splits)
  next
    case (Publish i by_whom)
    with u keep publish_scope_keys show ?thesis by (auto simp: c store_after_def split: sum.splits)
  qed
qed

lemma run_venues: "venues_unique (config_run empty_store calls)"
  by (rule config_run_invariant [where calls = calls and P = venues_unique], erule step_venues) (simp add: venues_unique_def empty_store_def)

definition points_to :: "config_store \<Rightarrow> actor_context \<Rightarrow> uuid \<Rightarrow> configuration_version \<Rightarrow> bool" where
  "points_to s actor venue v = (cv_status v = PUBLISHED \<and>
     list_ex (\<lambda>c. cfg_configuration_id c = cv_configuration_id v \<and> cfg_tenant_id c = cv_tenant_id v \<and> cfg_venue_id c = venue \<and>
       cfg_tenant_id c = ac_tenant_id actor \<and> cfg_current_published_version_id c = Some (cv_configuration_version_id v)) (cs_configurations s))"

lemma points_to_unique:
  assumes "venues_unique s" "c \<in> set (cs_configurations s)" "cfg_tenant_id c = ac_tenant_id actor" "points_to s actor (cfg_venue_id c) v"
  shows "cfg_current_published_version_id c = Some (cv_configuration_version_id v)"
proof -
  from assms(4) obtain d where d: "d \<in> set (cs_configurations s)" "cfg_venue_id d = cfg_venue_id c" "cfg_tenant_id d = ac_tenant_id actor"
    "cfg_current_published_version_id d = Some (cv_configuration_version_id v)" by (auto simp: points_to_def list_ex_iff)
  have "d = c" using assms(1-3) d by (auto simp: venues_unique_def distinct_map inj_on_def)
  with d(4) show ?thesis by simp
qed

lemma served_none:
  assumes "store_ok s" "venues_unique s" "c \<in> set (cs_configurations s)" "cfg_tenant_id c = ac_tenant_id actor"
    and "cfg_current_published_version_id c = None"
  shows "get_current_published_for_venue s actor (cfg_venue_id c) = None"
proof -
  have "find (points_to s actor (cfg_venue_id c)) (cs_versions s) = None"
    using points_to_unique [OF assms(2-4)] assms(5) by (force simp: find_None_iff)
  then show ?thesis by (simp add: get_current_published_for_venue_def visible_def points_to_def [abs_def])
qed

lemma served_current:
  assumes "store_ok s" "venues_unique s" "c \<in> set (cs_configurations s)" "cfg_tenant_id c = ac_tenant_id actor"
    and v: "v \<in> set (cs_versions s)" "cv_configuration_id v = cfg_configuration_id c" "cv_status v = PUBLISHED"
      "cfg_current_published_version_id c = Some (cv_configuration_version_id v)"
  shows "get_current_published_for_venue s actor (cfg_venue_id c) = (if has_access actor (cfg_venue_id c) then Some v else None)"
proof -
  have unique: "unique_ids s" and scopes: "scopes_match s" using assms(1) by (simp_all add: store_ok_def)
  obtain d where d: "d \<in> set (cs_configurations s)" "owns d v" "cv_tenant_id v = cfg_tenant_id d" "cv_venue_id v = cfg_venue_id d"
    using scopes v(1) by (auto simp: scopes_match_def)
  have dc: "d = c" using scopes assms(3) d(1,2) v(2) by (auto simp: scopes_match_def owns_def distinct_map dest: inj_onD)
  have here: "points_to s actor (cfg_venue_id c) v"
    using assms(3,4) v d(3) dc by (auto simp: points_to_def list_ex_iff)
  obtain w where w: "find (points_to s actor (cfg_venue_id c)) (cs_versions s) = Some w"
    using here v(1) by (cases "find (points_to s actor (cfg_venue_id c)) (cs_versions s)") (auto simp: find_None_iff)
  have "w = v"
    using points_to_unique [OF assms(2-4), of w] find_Some_set [OF w] v(4) unique_idsD [OF unique _ v(1), of w] by simp
  with w d(4) dc show ?thesis by (simp add: get_current_published_for_venue_def visible_def points_to_def [abs_def])
qed

lemma row_moves_legal:
  "row_moves env v w \<Longrightarrow> same_identity v w \<and> (\<exists>operation. (operation, cv_status w) \<in> set (legal_transitions (cv_status v)) \<and>
     (operation = ''edit'' \<or> content_payload_of w = content_payload_of v))"
  by (erule row_moves.cases) (auto simp: same_content_def)

subsection \<open>Properties\<close>

text \<open>C17: The rows of the versions form a state machine that ends in PUBLISHED. In every reachable store a published row
  is, whatever calls follow, in the store exactly as it was published -- content, validation result, publication data and
  all -- and one more call of any kind keeps every other row or moves it along one legal transition of the state machine, under its
  identity and, unless the transition is an edit, with its content; it adds at most one row, a draft
  under an identifier and a number that no version of its configuration has.\<close>

theorem published_version_immutable:
  assumes "s = config_run empty_store calls"
  shows "(\<forall>v\<in>set (cs_versions s). cv_status v = PUBLISHED \<longrightarrow> v \<in> set (cs_versions (config_run s later))) \<and>
    (\<exists>kept added. cs_versions (config_step s c) = kept @ added \<and> length added \<le> 1 \<and>
      list_all2 (\<lambda>v w. w = v \<or> same_identity v w \<and>
        (\<exists>operation. (operation, cv_status w) \<in> set (legal_transitions (cv_status v)) \<and>
           (operation = ''edit'' \<or> content_payload_of w = content_payload_of v))) (cs_versions s) kept \<and>
      (\<forall>w\<in>set added. cv_status w = DRAFT \<and> (\<forall>v\<in>set (cs_versions s). cv_configuration_version_id v \<noteq> cv_configuration_version_id w \<and>
         (cv_configuration_id v = cv_configuration_id w \<longrightarrow> cv_version v \<noteq> cv_version w))))"
proof -
  have ok: "store_ok s" unfolding assms by (rule config_run_store_ok [OF empty_store_ok])
  then have u: "unique_ids s" by (simp add: store_ok_def)
  obtain actor env call where c: "c = (actor, env, call)" by (cases c)
  from step_evolves [OF u] obtain ws drafts where ws: "cs_versions (config_step s c) = ws @ drafts" "length drafts \<le> 1"
    "list_all2 (stays_or_moves env) (cs_versions s) ws" "list_all (fresh_draft s) drafts"
    unfolding c rows_evolve_def by blast
  have "list_all2 (\<lambda>v w. w = v \<or> same_identity v w \<and> (\<exists>operation. (operation, cv_status w) \<in> set (legal_transitions (cv_status v)) \<and>
      (operation = ''edit'' \<or> content_payload_of w = content_payload_of v))) (cs_versions s) ws"
    by (rule list_all2_mono [OF ws(3)]) (use row_moves_legal in \<open>auto simp: stays_or_moves_def\<close>)
  moreover have "\<forall>w\<in>set drafts. cv_status w = DRAFT \<and> (\<forall>v\<in>set (cs_versions s).
      cv_configuration_version_id v \<noteq> cv_configuration_version_id w \<and>
      (cv_configuration_id v = cv_configuration_id w \<longrightarrow> cv_version v \<noteq> cv_version w))"
    using ws(4) unfolding list_all_iff fresh_draft_def image_iff by (metis prod.inject)
  ultimately show ?thesis using run_keeps_published [OF u] ws(1,2) by blast
qed

text \<open>C18: Only sound configurations are ever validated or published. In every store that calls with one validation context and one
  digest reach from the empty one, a validated or published version stores a validation result without errors, computed
  for a hydration of exactly its content, up to the order of the rows of its tables, and this content meets every
  condition of a publishable configuration. And a publication of a version that is not published yet demands,
  whatever the store, that the version is validated, that its stored result was computed for the content as it is hydrated now and
  has no blocking errors, and that the actor sees no published version with a higher number.\<close>

theorem published_is_sound:
  assumes "list_all (\<lambda>(actor, env, call). faithful_env digest ctx env) calls" "\<And>xs. set (vc_set_order ctx xs) = set xs"
    and "v \<in> set (cs_versions (config_run empty_store calls))" "cv_status v \<in> {VALIDATED, PUBLISHED}"
  shows "(\<exists>w result. same_identity v w \<and> same_entities v w \<and> structure_ok w \<and> references_ok w \<and> coordinates_ok w \<and> geometries_ok w \<and>
      overlaps_ok ctx w \<and> containment_ok ctx w \<and> cameras_ok ctx w \<and> privacy_ok w \<and> cv_validation_result v = Some result \<and>
      vr_valid result \<and> vr_errors result = [] \<and> vr_content_revision result = content_revision digest w) \<and>
    (\<forall>s actor env i by_whom out row. publish s actor env i by_whom = Inr out \<longrightarrow> version_for_actor s actor i = Some row \<longrightarrow>
      cv_status row \<noteq> PUBLISHED \<longrightarrow> cv_status row = VALIDATED \<and>
      (\<exists>result. cv_validation_result row = Some result \<and> vr_errors result = [] \<and>
        vr_content_revision result = content_revision (se_digest env) (se_arrange env row)) \<and>
      (\<forall>newer. get_latest_published_version s actor (cv_configuration_id row) = Some newer \<longrightarrow> cv_version newer \<le> cv_version row))"
proof -
  from run_sound [OF assms(1)] assms(3,4) obtain w outcome result where w: "same_identity v w"
    "same_entities v w" "validate ctx w = Inr outcome" "vo_valid outcome" "cv_validation_result v = Some result" "clean_result digest w result"
    by (auto simp: sound_rows_def accepted_def)
  have "cv_status row = VALIDATED \<and>
      (\<exists>result. cv_validation_result row = Some result \<and> vr_errors result = [] \<and>
        vr_content_revision result = content_revision (se_digest env) (se_arrange env row)) \<and>
      (\<forall>newer. get_latest_published_version s actor (cv_configuration_id row) = Some newer \<longrightarrow> cv_version newer \<le> cv_version row)"
    if p: "publish s actor env i by_whom = Inr out" "version_for_actor s actor i = Some row" "cv_status row \<noteq> PUBLISHED"
    for s actor env i by_whom out row
  proof -
    obtain s' ev r where "out = (s', ev, r)" by (cases out)
    with p(1) have "publish s actor env i by_whom = Inr (s', ev, r)" by simp
    then show ?thesis by (cases rule: publish_Inr) (use p(2,3) in auto)
  qed
  with w validate_valid_iff [OF w(3) assms(2)] show ?thesis unfolding clean_result_def by blast
qed

text \<open>C19: The current configuration of a venue is its highest published version, it is what is served, and it never regresses. In
  every reachable store the pointer of a configuration is empty exactly if no version of it is published, and then an actor of
  the tenant is served nothing for its venue; otherwise it names a published version with the highest number among the
  published ones, an actor of the tenant with access to the venue is served the hydration of exactly this row and any other actor of the tenant
  nothing, and after any further calls the pointer names a published version with a number at least as high.\<close>

theorem current_is_latest_published:
  assumes "s = config_run empty_store calls" "c \<in> set (cs_configurations s)"
    and "c' \<in> set (cs_configurations (config_run s later))" "cfg_configuration_id c' = cfg_configuration_id c"
    and "cfg_tenant_id c = ac_tenant_id actor"
  shows "(cfg_current_published_version_id c = None \<longleftrightarrow>
      (\<forall>v\<in>set (cs_versions s). cv_configuration_id v = cfg_configuration_id c \<longrightarrow> cv_status v \<noteq> PUBLISHED)) \<and>
    (cfg_current_published_version_id c = None \<longrightarrow> resolve_current_published s actor env (cfg_venue_id c) = Inr None) \<and>
    (\<forall>i. cfg_current_published_version_id c = Some i \<longrightarrow>
      (\<exists>v\<in>set (cs_versions s). cv_configuration_version_id v = i \<and> cv_configuration_id v = cfg_configuration_id c \<and>
         cv_status v = PUBLISHED \<and>
         (\<forall>w\<in>set (cs_versions s). cv_configuration_id w = cfg_configuration_id c \<and> cv_status w = PUBLISHED \<longrightarrow>
            cv_version w \<le> cv_version v) \<and>
         resolve_current_published s actor env (cfg_venue_id c) =
           (if has_access actor (cfg_venue_id c) then rbind (load_contract env v) (\<lambda>served. Inr (Some served)) else Inr None) \<and>
         (\<exists>v'\<in>set (cs_versions (config_run s later)).
            cfg_current_published_version_id c' = Some (cv_configuration_version_id v') \<and>
            cv_status v' = PUBLISHED \<and> cv_version v \<le> cv_version v')))"
proof -
  have s: "store_ok s" unfolding assms(1) by (rule config_run_store_ok [OF empty_store_ok])
  have venues: "venues_unique s" unfolding assms(1) by (rule run_venues)
  have now: "pointer_ok s c" and then': "pointer_ok (config_run s later) c'"
    using s assms(2,3) config_run_store_ok [OF s, of later] by (simp_all add: store_ok_def)
  have "\<exists>v'\<in>set (cs_versions (config_run s later)).
      cfg_current_published_version_id c' = Some (cv_configuration_version_id v') \<and>
      cv_status v' = PUBLISHED \<and> cv_version v \<le> cv_version v'"
    if v: "v \<in> set (cs_versions s)" "cv_configuration_id v = cfg_configuration_id c" "cv_status v = PUBLISHED" for v
  proof -
    have "v \<in> set (cs_versions (config_run s later))"
      using s v by (intro run_keeps_published) (simp_all add: store_ok_def)
    moreover have "owns c' v" using v(2) assms(4) by (simp add: owns_def)
    ultimately show ?thesis
      using then' v(3) unfolding pointer_ok_def by (auto split: option.splits)
  qed
  moreover have "resolve_current_published s actor env (cfg_venue_id c) = Inr None" if "cfg_current_published_version_id c = None"
    using served_none [OF s venues assms(2,5) that] by (simp add: resolve_current_published_def hydrated_def)
  moreover have "resolve_current_published s actor env (cfg_venue_id c) =
      (if has_access actor (cfg_venue_id c) then rbind (load_contract env v) (\<lambda>served. Inr (Some served)) else Inr None)"
    if "v \<in> set (cs_versions s)" "cv_configuration_id v = cfg_configuration_id c" "cv_status v = PUBLISHED"
      "cfg_current_published_version_id c = Some (cv_configuration_version_id v)" for v
    using served_current [OF s venues assms(2,5) that] by (simp add: resolve_current_published_def hydrated_def)
  ultimately show ?thesis using now unfolding pointer_ok_def owns_def by (auto split: option.splits)
qed

text \<open>Version numbers only grow and are never reused: in every reachable store a new draft, empty or cloned, gets a number
  higher than every version its configuration has, and no two versions of a configuration share a number.\<close>

theorem version_numbers_grow:
  assumes "s = config_run empty_store calls"
    and "create_draft s actor env venue name = Inr (s', ev, v) \<or> create_draft_from_version s actor env i = Inr (s', ev, v')"
    and "new \<in> set (cs_versions s') - set (cs_versions s)" "w \<in> set (cs_versions s)"
      "cv_configuration_id w = cv_configuration_id new"
  shows "cv_version w < cv_version new \<and> distinct (map (\<lambda>v. (cv_configuration_id v, cv_version v)) (cs_versions s'))"
proof -
  have s: "store_ok s" unfolding assms(1) by (rule config_run_store_ok [OF empty_store_ok])
  then have scopes: "scopes_match s" by (simp add: store_ok_def)
  have s': "store_ok s'" using assms(2) create_draft_ok [OF s] create_from_ok [OF s] by blast
  have grow: "cv_version w < next_version_number s1 actor c"
    if c: "cv_configuration_id w = c" "cs_versions s1 = cs_versions s" "cv_tenant_id w = ac_tenant_id actor"
      "has_access actor (cv_venue_id w)" for c s1
  proof -
    obtain h where "visible actor cv_venue_id (highest (filter (\<lambda>_. True) (versions_of s actor c))) = Some h"
        "cv_version w \<le> cv_version h"
      by (rule visible_highest [OF scopes assms(4) c(3,4) TrueI c(1)])
    then show ?thesis by (simp add: next_version_number_def get_latest_version_def versions_of_def c(2))
  qed
  have "cv_version w < cv_version new" if "create_draft s actor env venue name = Inr (s', ev, v)"
  proof -
    from that obtain s1 c where c: "get_or_create s actor env venue name = Inr (s1, c)"
      and row: "create_version s1 actor env (cfg_configuration_id c) (cfg_venue_id c)
        (next_version_number s1 actor (cfg_configuration_id c)) = Inr (s', v)" by (rule create_draft_Inr)
    note got = get_or_create_Inr [OF c] and made = create_version_Inr [OF row]
    have new: "new = v" "v \<in> set (cs_versions s')" using assms(3) made(1) got(1) by auto
    have "cv_tenant_id w = ac_tenant_id actor" "cv_venue_id w = cfg_venue_id c"
      using scopes_matchD [of s' w v] s' assms(4,5) new made(1,5-7) got(1) by (auto simp: store_ok_def)
    moreover have "has_access actor (cfg_venue_id c)"
      using row by (auto simp: create_version_def require_tenant_venue_access_def has_access_require)
    ultimately show ?thesis using grow [of "cfg_configuration_id c" s1] assms(5) new(1) made(5,8) got(1) by simp
  qed
  moreover have "cv_version w < cv_version new" if "create_draft_from_version s actor env i = Inr (s', ev, v')"
    using that
  proof (rule create_from_Inr)
    fix source c s1 row draft
    assume c: "configuration_for_actor s actor (cv_configuration_id source) = Some c"
      and row: "create_version s actor env (cfg_configuration_id c) (cfg_venue_id c)
        (next_version_number s actor (cfg_configuration_id c)) = Inr (s1, row)" and s1: "s' = replace_entities s1 row draft"
    note made = create_version_Inr [OF row] and versions = create_from_versions [OF row, of draft, folded s1]
    have new: "new = with_entities_of draft row" using assms(3) versions(1) by auto
    have "cv_tenant_id w = ac_tenant_id actor" "cv_venue_id w = cfg_venue_id c"
      using scopes_matchD [of s' w "with_entities_of draft row"] s' assms(4,5) new made(5-7) versions(1)
      by (auto simp: store_ok_def)
    moreover have "has_access actor (cfg_venue_id c)" using configuration_for_actor_Some [OF c] by blast
    ultimately show ?thesis using grow [of "cfg_configuration_id c" s] assms(5) new made(5,8) by simp
  qed
  ultimately show ?thesis using assms(2) s' by (auto simp: store_ok_def numbers_unique_def)
qed

text \<open>C26: No configuration can be validated against the real database layer: both updates with which a validation records its
  result name a column \<open>validation_errors\<close> that the table of versions does not have. When such an update is
  refused, as the library does, every call that would record a validation raises, and no version of any reachable store
  is ever validated or published.\<close>

theorem validation_never_recorded:
  assumes "se_rejects_unknown env" "list_all (\<lambda>(actor, env, call). se_rejects_unknown env) calls"
  shows "(\<exists>e. run_validation s actor env i by_whom = Inl e) \<and>
    (\<forall>v\<in>set (cs_versions (config_run empty_store calls)). cv_status v \<in> {DRAFT, VALIDATING})"
proof -
  have "\<exists>e. run_validation s actor env i by_whom = Inl e"
  proof (cases "run_validation s actor env i by_whom")
    case (Inr out)
    obtain s' ev v result where "out = (s', ev, v, result)" by (cases out)
    with Inr have "run_validation s actor env i by_whom = Inr (s', ev, v, result)" by simp
    then obtain row outcome ok where "version_for_actor s actor i = Some row" "cv_status row = VALIDATING"
      "validate (se_context env) (se_arrange env row) = Inr outcome"
      "to_result_model outcome (se_arrange env row) (content_revision (se_digest env) (se_arrange env row)) by_whom
         (se_now env) = Some result"
      and upd: "if vo_valid outcome
       then update_status s actor env i VALIDATING VALIDATED (success_updates result by_whom) = Inr (s', ok)
       else update_status s actor env i VALIDATING DRAFT (failure_updates result) = Inr (s', ok)"
      by (rule run_validation_Inr)
    from upd have False
      using update_status_Inr(5) [of s actor env i VALIDATING VALIDATED "success_updates result by_whom" s' ok]
        update_status_Inr(5) [of s actor env i VALIDATING DRAFT "failure_updates result" s' ok]
        unknown_column(1) [OF assms(1), of result by_whom] unknown_column(2) [OF assms(1), of result]
      by (cases "vo_valid outcome") (simp_all only: if_True if_False, blast+)
    then show ?thesis ..
  qed simp
  with run_strict [OF assms(2)] show ?thesis by blast
qed

text \<open>A configuration without cameras can be published but not read: publication does not ask for a camera, while the contract
  demands one of a published version, so that after the publication of a version without cameras every attempt
  to load it is rejected.\<close>

theorem published_without_camera_unreadable:
  assumes "s = config_run empty_store calls" "publish s actor env i by_whom = Inr (s', ev, r)"
    and "version_for_actor s actor i = Some row" "cv_status row = VALIDATED" "cv_cameras row = []"
    and "\<And>v. rearranged v (se_arrange env' v)"
  shows "get_version s' actor env' i = Inl ContractRejected"
proof -
  have s: "store_ok s" unfolding assms(1) by (rule config_run_store_ok [OF empty_store_ok])
  from publish_ok [OF s assms(2)] have unique: "unique_ids s'" by (simp add: store_ok_def)
  from assms(2) show ?thesis
  proof (cases rule: publish_Inr)
    case (1 row')
    with assms(3,4) show ?thesis by simp
  next
    case (2 row2 config result s1)
    with assms(3) have "row2 = row" by simp
    from publish_effect [OF s 2(1,2,9,10)] obtain row' where row': "published_rows s' = insert row' (published_rows s)"
        "same_identity row2 row'" "cv_status row' = PUBLISHED" "cv_cameras row' = cv_cameras row2" by blast
    from row'(1) have here: "row' \<in> set (cs_versions s')" by (auto simp: published_rows_def)
    have ids: "cv_configuration_version_id row' = i" "cv_tenant_id row' = ac_tenant_id actor" "has_access actor (cv_venue_id row')"
      using version_for_actor_Some [OF 2(1)] row'(2) by (auto simp: same_identity_def)
    have "find (\<lambda>v. cv_configuration_version_id v = i \<and> cv_tenant_id v = ac_tenant_id actor) (cs_versions s') = Some row'"
    proof (cases "find (\<lambda>v. cv_configuration_version_id v = i \<and> cv_tenant_id v = ac_tenant_id actor) (cs_versions s')")
      case None
      with here ids show ?thesis by (auto simp: find_None_iff)
    next
      case (Some u)
      with unique_idsD [OF unique _ here] find_Some_set [OF Some] ids show ?thesis by auto
    qed
    then have "version_for_actor s' actor i = Some row'" using ids by (simp add: version_for_actor_def visible_Some)
    moreover have "load_contract env' row' = Inl ContractRejected"
    proof -
      have "cv_status (se_arrange env' row') = PUBLISHED" "mset (cv_cameras (se_arrange env' row')) = mset (cv_cameras row')"
        using assms(6) [of row'] row'(3) by (simp_all add: rearranged_def same_entities_def)
      with assms(5) row'(4) \<open>row2 = row\<close> show ?thesis
        by (simp add: load_contract_def Let_def configuration_version_valid_def validate_published_immutable_def)
    qed
    ultimately show ?thesis by (simp add: get_version_def hydrated_def)
  qed
qed

subsection \<open>Witnesses\<close>

definition sample_env :: "bool \<Rightarrow> service_env" where
  "sample_env strict = \<lparr>se_now = utc_at 7, se_new_configuration_id = 6, se_new_version_id = 5,
     se_arrange = (\<lambda>v. v), se_digest = (\<lambda>_. ''digest''), se_context = default_context,
     se_rejects_unknown = strict\<rparr>"

definition manager :: actor_context where
  "manager = \<lparr>ac_actor_id = 1, ac_tenant_id = 2, ac_role_name = MANAGER,
     ac_permissions = permissions_for_role MANAGER, ac_venue_scope = {}, ac_authenticated_at = utc_at 0,
     ac_active = True\<rparr>"

definition bare_version :: configuration_version where
  "bare_version = \<lparr>cv_configuration_version_id = 5, cv_configuration_id = 6, cv_venue_id = 3, cv_tenant_id = 2,
     cv_version = 1, cv_status = DRAFT, cv_cameras = [], cv_zones = [], cv_tables = [], cv_entrances = [],
     cv_queue_areas = [], cv_service_areas = [], cv_privacy_rois = [], cv_exclusion_rois = [],
     cv_validation_result = None, cv_validated_at = None, cv_validated_by = None, cv_published_at = None,
     cv_published_by = None, cv_replaced_version_id = None, cv_created_at = utc_at 7,
     cv_updated_at = utc_at 7, cv_schema_version = SCHEMA_VERSION\<rparr>"

definition bare_store :: "configuration_version \<Rightarrow> uuid option \<Rightarrow> config_store" where
  "bare_store v current = \<lparr>cs_configurations = [\<lparr>cfg_configuration_id = 6, cfg_venue_id = 3, cfg_tenant_id = 2,
     cfg_name = ''Lobby'', cfg_current_published_version_id = current, cfg_updated_at = utc_at 7\<rparr>],
     cs_versions = [v], cs_sessions = []\<rparr>"

definition bare_result :: validation_result where
  "bare_result = \<lparr>vr_valid = True, vr_validator_version = VALIDATOR_VERSION, vr_content_revision = ''digest'',
     vr_configuration_version_id = 5, vr_configuration_id = 6, vr_tenant_id = 2, vr_venue_id = 3,
     vr_validated_at = utc_at 7, vr_validated_by = ''m'', vr_errors = [], vr_warnings = [], vr_checks_performed = 8\<rparr>"

lemmas bare_defs = sample_env_def manager_def bare_version_def bare_store_def bare_result_def

lemma created_bare: "config_step empty_store (manager, sample_env strict, CreateDraft 3 ''Lobby'') = bare_store bare_version None"
  by (simp add: store_after_def create_draft_def get_or_create_def empty_store_def require_tenant_venue_access_def
      require_same_tenant_def require_venue_access_def create_version_def next_version_number_def get_latest_version_def
      versions_of_def visible_def configuration_version_valid_def validate_profile_ids_unique_iff all_profile_ids_def
      validate_published_immutable_def bare_defs Let_def)

definition bare_at :: "configuration_status \<Rightarrow> configuration_version" where
  "bare_at st = (if st = VALIDATED \<or> st = PUBLISHED then bare_version\<lparr>cv_status := st,
     cv_validation_result := Some bare_result, cv_validated_at := Some (utc_at 7), cv_validated_by := Some ''m'',
     cv_published_at := (if st = PUBLISHED then Some (utc_at 7) else None),
     cv_published_by := (if st = PUBLISHED then Some ''m'' else None)\<rparr> else bare_version\<lparr>cv_status := st\<rparr>)"

lemma bare_valid: "st \<noteq> PUBLISHED \<Longrightarrow> configuration_version_valid (bare_at st)"
  by (simp add: bare_at_def bare_defs configuration_version_valid_def validate_profile_ids_unique_iff all_profile_ids_def
      validate_published_immutable_def validation_result_valid_def)

lemma bare_found: "version_for_actor (bare_store (bare_at st) c) manager 5 = Some (bare_at st)"
  by (simp add: version_for_actor_def visible_def has_access_def bare_at_def bare_defs)

lemma bare_started: "config_step (bare_store (bare_at DRAFT) c) (manager, sample_env strict, StartValidation 5) =
    bare_store (bare_at VALIDATING) c"
proof -
  have "load_contract (sample_env strict) ((bare_at DRAFT)\<lparr>cv_status := VALIDATING, cv_updated_at := se_now (sample_env strict)\<rparr>) =
      Inr (bare_at VALIDATING)"
    using bare_valid [of VALIDATING] by (simp add: load_contract_def bare_at_def sample_env_def bare_version_def)
  moreover have "update_status (bare_store (bare_at DRAFT) c) manager (sample_env strict) 5 DRAFT VALIDATING [] =
      Inr (bare_store (bare_at VALIDATING) c, True)"
    by (simp add: update_status_def row_constraints_def apply_updates_def bare_at_def bare_defs Let_def)
  moreover have "cv_status (bare_at DRAFT) = DRAFT" by (simp add: bare_at_def bare_version_def)
  ultimately show ?thesis
    by (simp add: store_after_def start_validation_def bare_found assert_can_validate_def)
qed

lemma bare_validates: "validate default_context (bare_at st) =
    Inr \<lparr>vo_valid = True, vo_errors = [], vo_warnings = [], vo_checks_performed = 8\<rparr>"
  by (simp add: validate_def run_all_validators_def VALIDATOR_STAGES_def run_stage_def validate_structural_def
      validate_references_def validate_geometry_def stage_simps validate_privacy_policy_stage new_collector_def
      add_findings_def coordinate_stage_def spatial_stage_def camera_stage_def coverage_stage_def privacy_stage_def
      identified_def reference_findings_def references_of_def geometry_entities_def uncovered_findings_def
      by_camera_def default_context_def bare_at_def bare_version_def Let_def)

lemma bare_validated: "config_step (bare_store (bare_at VALIDATING) c) (manager, sample_env False, RunValidation 5 ''m'') =
    bare_store (bare_at VALIDATED) c"
proof -
  have contract: "load_contract (sample_env False) (bare_at VALIDATING) = Inr (bare_at VALIDATING)"
    using bare_valid [of VALIDATING] by (simp add: load_contract_def sample_env_def)
  have same_ctx: "se_context (sample_env False) = default_context" by (simp add: sample_env_def)
  have result: "to_result_model \<lparr>vo_valid = True, vo_errors = [], vo_warnings = [], vo_checks_performed = 8\<rparr> (bare_at VALIDATING)
      (content_revision (se_digest (sample_env False)) (bare_at VALIDATING)) ''m'' (se_now (sample_env False)) = Some bare_result"
    by (simp add: to_result_model_def content_revision_def validation_result_valid_def bare_at_def bare_defs Let_def)
  have "update_status (bare_store (bare_at VALIDATING) c) manager (sample_env False) 5 VALIDATING VALIDATED
      (success_updates bare_result ''m'') = Inr (bare_store (bare_at VALIDATED) c, True)"
    by (simp add: update_status_def success_updates_def VERSION_COLUMNS_def apply_updates_def row_constraints_def
        bare_at_def bare_defs Let_def)
  moreover have "cv_status (bare_at VALIDATING) = VALIDATING" by (simp add: bare_at_def bare_version_def)
  ultimately show ?thesis
    by (simp add: store_after_def run_validation_def bare_found contract same_ctx bare_validates result)
qed

lemma bare_publishes: "\<exists>ev r. publish (bare_store (bare_at VALIDATED) None) manager (sample_env False) 5 ''m'' =
    Inr (bare_store (bare_at PUBLISHED) (Some 5), ev, r)"
proof -
  have contract: "load_contract (sample_env False) (bare_at VALIDATED) = Inr (bare_at VALIDATED)"
    using bare_valid [of VALIDATED] by (simp add: load_contract_def sample_env_def)
  have upd: "update_status (bare_store (bare_at VALIDATED) None) manager (sample_env False) 5 VALIDATED PUBLISHED
      (publish_updates (utc_at 7) ''m'' None) = Inr (bare_store (bare_at PUBLISHED) None, True)"
    by (simp add: update_status_def publish_updates_def VERSION_COLUMNS_def apply_updates_def row_constraints_def
        bare_at_def bare_defs Let_def)
  have pointer: "set_current_published_version (bare_store (bare_at PUBLISHED) None) manager (sample_env False) 6 5 =
      (bare_store (bare_at PUBLISHED) (Some 5), True)"
    by (simp add: set_current_published_version_def bare_store_def manager_def sample_env_def)
  have row: "cv_status (bare_at VALIDATED) = VALIDATED" "cv_validation_result (bare_at VALIDATED) = Some bare_result"
      "cv_configuration_id (bare_at VALIDATED) = 6" "cv_configuration_version_id (bare_at VALIDATED) = 5"
    by (simp_all add: bare_at_def bare_version_def)
  have lock: "\<exists>config. lock_venue_configuration (bare_store (bare_at VALIDATED) None) manager 6 = Some config \<and>
      cfg_current_published_version_id config = None"
    by (simp add: lock_venue_configuration_def bare_store_def manager_def)
  have none: "get_latest_published_version (bare_store (bare_at VALIDATED) None) manager 6 = None"
    by (simp add: get_latest_published_version_def versions_of_def visible_def bare_store_def bare_at_def)
  have revision: "vr_content_revision bare_result = content_revision (se_digest (sample_env False)) (bare_at VALIDATED)"
      "blocking_errors bare_result = []" "se_now (sample_env False) = utc_at 7"
    by (simp_all add: bare_result_def content_revision_def sample_env_def blocking_errors_def)
  from lock obtain config where lock: "lock_venue_configuration (bare_store (bare_at VALIDATED) None) manager 6 = Some config"
    "cfg_current_published_version_id config = None" by blast
  show ?thesis
    by (simp add: publish_def bare_found assert_can_publish_def contract row lock none revision publish_update_def upd pointer)
qed

definition bare_calls :: "(actor_context \<times> service_env \<times> config_call) list" where
  "bare_calls = map (\<lambda>c. (manager, sample_env False, c))
     [CreateDraft 3 ''Lobby'', StartValidation 5, RunValidation 5 ''m'']"

lemma bare_draft: "bare_version = bare_at DRAFT"
  by (simp add: bare_at_def bare_version_def)

lemma bare_run: "config_run empty_store bare_calls = bare_store (bare_at VALIDATED) None"
  unfolding config_run_def bare_calls_def list.map foldl_Cons foldl_Nil created_bare bare_draft bare_started bare_validated ..

lemma bare_published_run:
  "config_run empty_store (bare_calls @ [(manager, sample_env False, Publish 5 ''m'')]) = bare_store (bare_at PUBLISHED) (Some 5)"
proof -
  have "config_run empty_store (bare_calls @ [(manager, sample_env False, Publish 5 ''m'')]) =
      config_step (config_run empty_store bare_calls) (manager, sample_env False, Publish 5 ''m'')"
    by (simp add: config_run_def)
  with bare_publishes show ?thesis by (auto simp: bare_run store_after_def)
qed

lemma bare_faithful: "faithful_env (\<lambda>_. ''digest'') default_context (sample_env strict)"
  by (simp add: faithful_env_def sample_env_def rearranged_def same_identity_def same_entities_def)

lemma bare_member: "bare_at st \<in> set (cs_versions (bare_store (bare_at st) c))"
  by (simp add: bare_store_def)

lemma bare_status: "cv_status (bare_at st) = st"
  by (simp add: bare_at_def)

lemma published_version_immutable_witness:
  "bare_at PUBLISHED \<in> set (cs_versions (config_run
     (config_run empty_store (bare_calls @ [(manager, sample_env False, Publish 5 ''m'')]))
     [(manager, sample_env False, StartValidation 5), (manager, sample_env False, Publish 5 ''m'')]))"
  using published_version_immutable [OF bare_published_run [symmetric], of "[(manager, sample_env False, StartValidation 5),
      (manager, sample_env False, Publish 5 ''m'')]"] bare_member bare_status unfolding bare_published_run by blast

lemma published_is_sound_witness:
  "\<exists>result. cv_validation_result (bare_at VALIDATED) = Some result \<and> vr_errors result = [] \<and>
     vr_content_revision result = content_revision (\<lambda>_. ''digest'') (bare_at VALIDATED)"
proof -
  from bare_publishes obtain out where p: "publish (bare_store (bare_at VALIDATED) None) manager (sample_env False) 5 ''m'' = Inr out"
    by blast
  have c: "list_all (\<lambda>(actor, env, call). faithful_env (\<lambda>_. ''digest'') default_context env) bare_calls"
    by (simp add: bare_calls_def bare_faithful)
  have o: "\<And>xs. set (vc_set_order default_context xs) = set xs" by (simp add: default_context_def)
  have m: "bare_at VALIDATED \<in> set (cs_versions (config_run empty_store bare_calls))" by (simp add: bare_run bare_member)
  have st: "cv_status (bare_at VALIDATED) \<in> {VALIDATED, PUBLISHED}" "cv_status (bare_at VALIDATED) \<noteq> PUBLISHED" by (simp_all add: bare_status)
  from published_is_sound [OF c o m st(1)] p bare_found st(2) have "\<exists>result. cv_validation_result (bare_at VALIDATED) = Some result \<and>
      vr_errors result = [] \<and> vr_content_revision result = content_revision (se_digest (sample_env False)) (se_arrange (sample_env False) (bare_at VALIDATED))"
    by blast
  then show ?thesis by (simp add: sample_env_def)
qed

lemma current_is_latest_published_witness:
  "resolve_current_published (bare_store (bare_at PUBLISHED) (Some 5)) manager (sample_env False) 3 =
     rbind (load_contract (sample_env False) (bare_at PUBLISHED)) (\<lambda>served. Inr (Some served))"
proof -
  let ?calls = "bare_calls @ [(manager, sample_env False, Publish 5 ''m'')]"
  define c where "c = hd (cs_configurations (bare_store (bare_at PUBLISHED) (Some 5)))"
  have c: "c \<in> set (cs_configurations (bare_store (bare_at PUBLISHED) (Some 5)))"
      "cfg_current_published_version_id c = Some 5" "cfg_tenant_id c = ac_tenant_id manager" "cfg_venue_id c = 3"
    by (simp_all add: c_def bare_store_def manager_def)
  have same: "c \<in> set (cs_configurations (config_run (bare_store (bare_at PUBLISHED) (Some 5)) []))"
    using c(1) by (simp add: config_run_def)
  have v: "v = bare_at PUBLISHED" if "v \<in> set (cs_versions (bare_store (bare_at PUBLISHED) (Some 5)))" for v
    using that by (simp add: bare_store_def)
  have "has_access manager 3" by (simp add: has_access_def manager_def)
  with current_is_latest_published [OF bare_published_run [symmetric] c(1) same refl c(3), of "sample_env False"] c(2,4) v
  show ?thesis by auto
qed

lemma version_numbers_grow_witness:
  "\<exists>s' ev v. create_draft (bare_store bare_version None) manager ((sample_env False)\<lparr>se_new_version_id := 9\<rparr>) 3 ''Lobby'' =
       Inr (s', ev, v) \<and> cv_version bare_version < cv_version v"
proof -
  let ?env = "(sample_env False)\<lparr>se_new_version_id := 9\<rparr>"
  have "\<exists>s' ev v. create_draft (bare_store bare_version None) manager ?env 3 ''Lobby'' = Inr (s', ev, v) \<and>
      v \<in> set (cs_versions s') \<and> v \<notin> set (cs_versions (bare_store bare_version None)) \<and> cv_configuration_id v = 6"
    by (simp add: create_draft_def get_or_create_def require_tenant_venue_access_def
      require_same_tenant_def require_venue_access_def create_version_def next_version_number_def get_latest_version_def
      versions_of_def visible_def has_access_def configuration_version_valid_def validate_profile_ids_unique_iff
      all_profile_ids_def validate_published_immutable_def bare_defs Let_def)
  then obtain s' ev v where made: "create_draft (bare_store bare_version None) manager ?env 3 ''Lobby'' = Inr (s', ev, v)"
    "v \<in> set (cs_versions s') - set (cs_versions (bare_store bare_version None))" "cv_configuration_id v = 6" by blast
  have start: "bare_store bare_version None = config_run empty_store [(manager, sample_env False, CreateDraft 3 ''Lobby'')]"
    by (simp only: config_run_def foldl_Cons foldl_Nil created_bare)
  have "bare_version \<in> set (cs_versions (bare_store bare_version None))" "cv_configuration_id bare_version = cv_configuration_id v"
    using made(3) by (simp_all add: bare_store_def bare_version_def)
  from version_numbers_grow [OF start disjI1 [OF made(1)] made(2) this] made(1) show ?thesis by blast
qed

lemma validation_never_recorded_witness:
  "\<exists>e. run_validation (bare_store (bare_at VALIDATING) None) manager (sample_env True) 5 ''m'' = Inl e"
  by (rule conjunct1 [OF validation_never_recorded [where calls = "[]"]]) (simp_all add: sample_env_def)

lemma published_without_camera_unreadable_witness:
  "get_version (bare_store (bare_at PUBLISHED) (Some 5)) manager (sample_env False) 5 = Inl ContractRejected"
proof -
  from bare_publishes obtain ev r where run: "publish (bare_store (bare_at VALIDATED) None) manager (sample_env False) 5 ''m'' =
      Inr (bare_store (bare_at PUBLISHED) (Some 5), ev, r)" by blast
  have same: "rearranged v (se_arrange (sample_env False) v)" for v using bare_faithful by (simp add: faithful_env_def)
  have none: "cv_cameras (bare_at VALIDATED) = []" by (simp add: bare_at_def bare_version_def)
  show ?thesis
    by (rule published_without_camera_unreadable [OF bare_run [symmetric] run bare_found bare_status none same])
qed

end
