(* ===== verification/Lease_Queue.thy ===== *)
theory Lease_Queue
  imports Common_Contracts Geometry_Contracts
begin

text \<open>
  What the transactional outbox and inbox share: the backoff policy (\<open>infrastructure/reliability/backoff.py\<close>), the
  lease columns of a row with the claim and the guarded result transitions that both repositories write as SQL
  (\<open>infrastructure/database/repositories/outbox.py\<close>, \<open>inbox.py\<close>), and the transition triggers of the database
  (\<open>database/migrations/versions/016_outbox_retry_idempotency.py\<close>). A row is a record that extends the lease columns;
  the columns that never change are the extension. Statuses are the strings the code writes.
\<close>

subsection \<open>Backoff\<close>

text \<open>\<open>timedelta(seconds=x)\<close> in microseconds.\<close>

definition timedelta_seconds :: "real \<Rightarrow> int" where
  "timedelta_seconds x = round_half_even (x * 1000000)"

definition after :: "datetime \<Rightarrow> int \<Rightarrow> datetime" where
  "after t us = t\<lparr>dt_instant := dt_instant t + us\<rparr>"

definition MAX_EXPONENT :: int where
  "MAX_EXPONENT = 32"

datatype backoff_error = AttemptBelowOne | BoundsInconsistent | JitterOutOfRange

text \<open>\<open>draw\<close> is the value of \<open>rng.uniform(-jitter, jitter)\<close>.\<close>

definition backoff_seconds :: "int \<Rightarrow> real \<Rightarrow> real \<Rightarrow> real \<Rightarrow> real \<Rightarrow> real" where
  "backoff_seconds attempt base_seconds max_seconds jitter draw =
     (let exponent = min (attempt - 1) MAX_EXPONENT;
          delay = min max_seconds (base_seconds * 2 ^ nat exponent)
      in max 0 (if 0 < jitter then min max_seconds (delay * (1 + draw)) else delay))"

definition compute_backoff_delay :: "int \<Rightarrow> real \<Rightarrow> real \<Rightarrow> real \<Rightarrow> real \<Rightarrow> backoff_error + int" where
  "compute_backoff_delay attempt base_seconds max_seconds jitter draw =
     (if attempt < 1 then Inl AttemptBelowOne
      else if max_seconds < base_seconds then Inl BoundsInconsistent
      else if \<not> (0 \<le> jitter \<and> jitter < 1) then Inl JitterOutOfRange
      else Inr (timedelta_seconds (backoff_seconds attempt base_seconds max_seconds jitter draw)))"

lemma round_half_even_mono: "x \<le> y \<Longrightarrow> round_half_even x \<le> round_half_even y"
proof -
  assume le: "x \<le> y"
  then have "\<lfloor>x\<rfloor> \<le> \<lfloor>y\<rfloor>" by (rule floor_mono)
  then consider "\<lfloor>x\<rfloor> + 1 \<le> \<lfloor>y\<rfloor>" | "\<lfloor>x\<rfloor> = \<lfloor>y\<rfloor>" by linarith
  then show ?thesis
    using le by cases (auto simp: round_half_even_def Let_def)
qed

lemma timedelta_seconds_mono: "x \<le> y \<Longrightarrow> timedelta_seconds x \<le> timedelta_seconds y"
  by (simp add: timedelta_seconds_def round_half_even_mono)

text \<open>The delay without jitter: doubled with every attempt up to the cap.\<close>

definition plain_delay :: "int \<Rightarrow> real \<Rightarrow> real \<Rightarrow> real" where
  "plain_delay attempt base cap = min cap (base * 2 ^ nat (min (attempt - 1) MAX_EXPONENT))"

lemma plain_delay_bounds:
  assumes "0 \<le> base" "base \<le> cap"
  shows "base \<le> plain_delay attempt base cap" and "plain_delay attempt base cap \<le> cap"
proof -
  have "base * 1 \<le> base * 2 ^ n" for n :: nat using assms(1) by (intro mult_left_mono) simp_all
  then show "base \<le> plain_delay attempt base cap" using assms(2) by (simp add: plain_delay_def)
qed (simp add: plain_delay_def)

lemma plain_delay_mono:
  assumes "0 \<le> base" "a \<le> b"
  shows "plain_delay a base cap \<le> plain_delay b base cap"
proof -
  have "nat (min (a - 1) MAX_EXPONENT) \<le> nat (min (b - 1) MAX_EXPONENT)" using assms(2) by linarith
  then have "(2 :: real) ^ nat (min (a - 1) MAX_EXPONENT) \<le> 2 ^ nat (min (b - 1) MAX_EXPONENT)"
    by (intro power_increasing) simp_all
  then show ?thesis using assms(1) by (auto simp: plain_delay_def min_def mult_left_mono intro: order_trans)
qed

lemma backoff_within:
  assumes "0 \<le> base" "base \<le> cap" "0 \<le> jitter" "jitter < 1" "\<bar>draw\<bar> \<le> jitter"
  shows "(1 - jitter) * plain_delay attempt base cap \<le> backoff_seconds attempt base cap jitter draw"
    and "backoff_seconds attempt base cap jitter draw \<le> cap"
    and "backoff_seconds attempt base cap jitter draw \<le> (1 + jitter) * plain_delay attempt base cap"
proof -
  let ?d = "plain_delay attempt base cap"
  note b = plain_delay_bounds [OF assms(1,2), of attempt]
  have d: "0 \<le> ?d" using b(1) assms(1) by linarith
  have eq: "backoff_seconds attempt base cap jitter draw = max 0 (if 0 < jitter then min cap (?d * (1 + draw)) else ?d)"
    by (simp add: backoff_seconds_def plain_delay_def Let_def)
  have lo: "?d * (1 - jitter) \<le> ?d * (1 + draw)" and hi: "?d * (1 + draw) \<le> ?d * (1 + jitter)"
    and le: "?d * (1 - jitter) \<le> ?d"
    using d assms(3,5) by (auto intro!: mult_left_mono mult_left_le)
  have pos: "0 \<le> ?d * (1 - jitter)" using d assms(4) by simp
  show "(1 - jitter) * ?d \<le> backoff_seconds attempt base cap jitter draw"
    using lo le pos b(2) assms(3) by (auto simp: eq mult.commute max_def)
  show "backoff_seconds attempt base cap jitter draw \<le> cap" using b(2) d by (auto simp: eq)
  show "backoff_seconds attempt base cap jitter draw \<le> (1 + jitter) * ?d"
    using hi lo pos d assms(3) by (auto simp: eq mult.commute)
qed

text \<open>
  The backoff never waits longer than the cap, and stays within the jitter around the delay that doubles with every
  attempt: with \<open>|draw| \<le> jitter\<close> the call always returns, the delay lies between \<open>1 - jitter\<close> and \<open>1 + jitter\<close> times the
  plain delay and is at most the cap, and without jitter later attempts never wait for a shorter time.
\<close>

theorem backoff_bounded:
  assumes "1 \<le> attempt" "0 \<le> base" "base \<le> cap" "0 \<le> jitter" "jitter < 1" "\<bar>draw\<bar> \<le> jitter"
  shows "\<exists>d. compute_backoff_delay attempt base cap jitter draw = Inr d \<and> d \<le> timedelta_seconds cap \<and>
    timedelta_seconds ((1 - jitter) * plain_delay attempt base cap) \<le> d \<and>
    d \<le> timedelta_seconds ((1 + jitter) * plain_delay attempt base cap) \<and>
    (\<forall>later d'. jitter = 0 \<and> attempt \<le> later \<and> compute_backoff_delay later base cap jitter draw = Inr d' \<longrightarrow> d \<le> d')"
proof -
  note w = backoff_within [OF assms(2-6)]
  have "compute_backoff_delay a base cap jitter draw =
      Inr (timedelta_seconds (backoff_seconds a base cap jitter draw))" if "1 \<le> a" for a
    using that assms by (simp add: compute_backoff_delay_def)
  moreover have "backoff_seconds attempt base cap jitter draw \<le> backoff_seconds later base cap jitter draw"
    if "jitter = 0" "attempt \<le> later" for later
    using w [of attempt] w [of later] plain_delay_mono [OF assms(2) that(2), of cap] that(1) by auto
  ultimately show ?thesis
    using assms(1) w [of attempt] by (auto intro!: timedelta_seconds_mono)
qed

theorem backoff_bounded_witness:
  "(\<exists>d. compute_backoff_delay 3 1 300 0 0 = Inr d \<and> timedelta_seconds 4 \<le> d \<and> d \<le> timedelta_seconds 4) \<and> timedelta_seconds 4 = 4000000"
  using backoff_bounded [of 3 1 300 0 0]
  by (auto simp: plain_delay_def MAX_EXPONENT_def timedelta_seconds_def round_half_even_def)

subsection \<open>Rows under a lease\<close>

record lease_row =
  lr_status :: string
  lr_attempts :: int
  lr_claimed_by :: "string option"
  lr_claimed_until :: "datetime option"
  lr_available_at :: datetime
  lr_last_error :: "string option"

definition CLAIMABLE_STATUSES :: "string list" where
  "CLAIMABLE_STATUSES = [''pending'', ''failed'', ''processing'']"

definition MAX_ERROR_LENGTH :: nat where
  "MAX_ERROR_LENGTH = 2000"

definition truncate_error :: "string \<Rightarrow> string" where
  "truncate_error error = take MAX_ERROR_LENGTH error"

definition due :: "datetime \<Rightarrow> 'a lease_row_scheme \<Rightarrow> bool" where
  "due now r = (lr_status r \<in> set CLAIMABLE_STATUSES \<and> \<not> dt_less now (lr_available_at r) \<and>
     (case lr_claimed_until r of None \<Rightarrow> True | Some t \<Rightarrow> \<not> dt_less now t))"

definition leased :: "string \<Rightarrow> datetime \<Rightarrow> 'a lease_row_scheme \<Rightarrow> 'a lease_row_scheme" where
  "leased worker until r = r\<lparr>lr_status := ''processing'', lr_claimed_by := Some worker,
     lr_claimed_until := Some until, lr_attempts := lr_attempts r + 1\<rparr>"

text \<open>
  \<open>SELECT \<dots> ORDER BY available_at LIMIT \<dots> FOR UPDATE SKIP LOCKED\<close>: \<open>locked\<close> are the rows other transactions hold.
  Rows that are available at the same instant are taken in table order.
\<close>

definition selected :: "('a lease_row_scheme \<Rightarrow> uuid) \<Rightarrow> uuid set \<Rightarrow> nat \<Rightarrow> datetime \<Rightarrow> 'a lease_row_scheme list \<Rightarrow>
    'a lease_row_scheme list" where
  "selected row_id locked batch now rows = take batch
     (sort_key (\<lambda>r. dt_instant (lr_available_at r)) (filter (\<lambda>r. due now r \<and> row_id r \<notin> locked) rows))"

definition claim_rows :: "('a lease_row_scheme \<Rightarrow> uuid) \<Rightarrow> uuid set \<Rightarrow> string \<Rightarrow> nat \<Rightarrow> int \<Rightarrow> datetime \<Rightarrow>
    'a lease_row_scheme list \<Rightarrow> 'a lease_row_scheme list \<times> 'a lease_row_scheme list" where
  "claim_rows row_id locked worker batch lease_seconds now rows =
     (let chosen = selected row_id locked batch now rows; until = after now (lease_seconds * 1000000)
      in (map (\<lambda>r. if row_id r \<in> set (map row_id chosen) then leased worker until r else r) rows,
          map (leased worker until) chosen))"

definition owned :: "string \<Rightarrow> 'a lease_row_scheme \<Rightarrow> bool" where
  "owned worker r = (lr_status r = ''processing'' \<and> lr_claimed_by r = Some worker)"

text \<open>The guarded update of one row; the flag tells whether a row was still under the claim of the worker.\<close>

definition settle :: "('a lease_row_scheme \<Rightarrow> uuid) \<Rightarrow> uuid \<Rightarrow> string \<Rightarrow> ('a lease_row_scheme \<Rightarrow> 'a lease_row_scheme) \<Rightarrow>
    'a lease_row_scheme list \<Rightarrow> 'a lease_row_scheme list \<times> bool" where
  "settle row_id i worker f rows =
     (let hit = (\<lambda>r. row_id r = i \<and> owned worker r)
      in (map (\<lambda>r. if hit r then f r else r) rows, list_ex hit rows))"

definition finished :: "string \<Rightarrow> 'a lease_row_scheme \<Rightarrow> 'a lease_row_scheme" where
  "finished status r = r\<lparr>lr_status := status, lr_claimed_by := None, lr_claimed_until := None\<rparr>"

definition failed :: "string \<Rightarrow> datetime \<Rightarrow> 'a lease_row_scheme \<Rightarrow> 'a lease_row_scheme" where
  "failed error retry_at r = r\<lparr>lr_status := ''failed'', lr_claimed_by := None, lr_claimed_until := None,
     lr_available_at := retry_at, lr_last_error := Some (truncate_error error)\<rparr>"

definition buried :: "string \<Rightarrow> 'a lease_row_scheme \<Rightarrow> 'a lease_row_scheme" where
  "buried error r = r\<lparr>lr_status := ''dead_letter'', lr_claimed_by := None, lr_claimed_until := None,
     lr_last_error := Some (truncate_error error)\<rparr>"

text \<open>The triggers \<open>check_outbox_status_transition\<close> and \<open>check_inbox_status_transition\<close>, which differ in the final
  status only.\<close>

definition status_change_allowed :: "string \<Rightarrow> string \<Rightarrow> string \<Rightarrow> bool" where
  "status_change_allowed final old new =
     (new = old \<or>
      (old = ''pending'' \<and> new \<in> {''processing'', ''failed''}) \<or>
      (old = ''processing'' \<and> new \<in> {final, ''failed'', ''pending'', ''dead_letter''}) \<or>
      (old = ''failed'' \<and> new \<in> {''pending'', ''processing'', ''dead_letter''}))"

subsection \<open>The contract of a leased table\<close>

text \<open>What one step does to a row: nothing, a claim of a row that is not finished, or a result transition of a claim.\<close>

inductive row_step :: "string \<Rightarrow> 'a lease_row_scheme \<Rightarrow> 'a lease_row_scheme \<Rightarrow> bool" for final where
  row_stays: "row_step final r r"
| row_claimed: "lr_status r \<in> set CLAIMABLE_STATUSES \<Longrightarrow> row_step final r (leased worker until r)"
| row_finished: "lr_status r = ''processing'' \<Longrightarrow> row_step final r (finished final r)"
| row_failed: "lr_status r = ''processing'' \<Longrightarrow> row_step final r (failed error retry_at r)"
| row_buried: "lr_status r = ''processing'' \<Longrightarrow> row_step final r (buried error r)"

lemma row_step_more: "row_step final r r' \<Longrightarrow> lease_row.more r' = lease_row.more r"
  by (induction rule: row_step.induct) (simp_all add: leased_def finished_def failed_def buried_def)

lemma row_step_trigger: "row_step final r r' \<Longrightarrow> status_change_allowed final (lr_status r) (lr_status r')"
  by (induction rule: row_step.induct)
    (auto simp: leased_def finished_def failed_def buried_def status_change_allowed_def CLAIMABLE_STATUSES_def)

lemma row_step_final:
  "row_step final r r' \<Longrightarrow> final \<notin> set CLAIMABLE_STATUSES \<Longrightarrow> lr_status r \<in> {final, ''dead_letter''} \<Longrightarrow> r' = r"
  by (induction rule: row_step.induct) (auto simp: CLAIMABLE_STATUSES_def)

definition table_step :: "string \<Rightarrow> 'a lease_row_scheme list \<Rightarrow> 'a lease_row_scheme list \<Rightarrow> bool" where
  "table_step final rows rows' = list_all2 (row_step final) rows rows'"

lemma table_step_refl [simp]: "table_step final rows rows"
  by (simp add: table_step_def list_all2_conv_all_nth row_stays)

lemma table_step_map: "(\<And>r. r \<in> set rows \<Longrightarrow> row_step final r (f r)) \<Longrightarrow> table_step final rows (map f rows)"
  by (simp add: table_step_def list_all2_conv_all_nth)

lemma table_step_in:
  assumes "table_step final rows rows'" and "r' \<in> set rows'"
  obtains r where "r \<in> set rows" and "row_step final r r'"
  using assms unfolding table_step_def by (metis list_all2_conv_all_nth in_set_conv_nth)

lemma table_step_from:
  assumes "table_step final rows rows'" and "r \<in> set rows"
  obtains r' where "r' \<in> set rows'" and "row_step final r r'"
  using assms unfolding table_step_def by (metis list_all2_conv_all_nth in_set_conv_nth)

locale leased_table =
  fixes row_id :: "'a lease_row_scheme \<Rightarrow> uuid" and final :: string
  assumes id_of_more: "lease_row.more r = lease_row.more r' \<Longrightarrow> row_id r = row_id r'"
    and final_status: "final \<notin> set CLAIMABLE_STATUSES"
begin

lemma id_step: "row_step final r r' \<Longrightarrow> row_id r' = row_id r"
  by (rule id_of_more) (rule row_step_more)

lemma ids_step: "table_step final rows rows' \<Longrightarrow> map row_id rows' = map row_id rows"
  unfolding table_step_def by (induction rule: list_all2_induct) (simp_all add: id_step)

lemma more_step: "table_step final rows rows' \<Longrightarrow> map lease_row.more rows' = map lease_row.more rows"
  unfolding table_step_def by (induction rule: list_all2_induct) (simp_all add: row_step_more)

lemma chosen_due: "r \<in> set (selected row_id locked batch now rows) \<Longrightarrow>
    r \<in> set rows \<and> due now r \<and> row_id r \<notin> locked"
  unfolding selected_def by (auto dest!: in_set_takeD)

lemma claim_step:
  assumes "distinct (map row_id rows)"
  shows "table_step final rows (fst (claim_rows row_id locked worker batch lease now rows))"
  unfolding claim_rows_def Let_def fst_conv
proof (rule table_step_map)
  fix r assume r: "r \<in> set rows"
  show "row_step final r (if row_id r \<in> set (map row_id (selected row_id locked batch now rows))
      then leased worker (after now (lease * 1000000)) r else r)"
  proof (cases "row_id r \<in> set (map row_id (selected row_id locked batch now rows))")
    case True
    then obtain q where q: "q \<in> set (selected row_id locked batch now rows)" and "row_id q = row_id r"
      by auto
    then have "q = r"
      using chosen_due [OF q] r assms by (auto simp: distinct_map inj_on_def)
    with q chosen_due have "due now r" by blast
    then show ?thesis using True by (auto simp: due_def intro: row_claimed)
  qed (simp add: row_stays)
qed

lemma claimed_row:
  assumes "distinct (map row_id rows)" and "r' \<in> set (snd (claim_rows row_id locked worker batch lease now rows))"
  shows "r' \<in> set (fst (claim_rows row_id locked worker batch lease now rows)) \<and> owned worker r'"
proof -
  obtain q where q: "q \<in> set (selected row_id locked batch now rows)"
    and r': "r' = leased worker (after now (lease * 1000000)) q"
    using assms(2) unfolding claim_rows_def Let_def by auto
  have "r' \<in> set (fst (claim_rows row_id locked worker batch lease now rows))"
    using q chosen_due [OF q] unfolding claim_rows_def Let_def fst_conv r'
    by (auto intro!: image_eqI [where x = q])
  then show ?thesis by (simp add: r' owned_def leased_def)
qed

lemma settle_step:
  assumes "\<And>r. owned worker r \<Longrightarrow> row_step final r (f r)"
  shows "table_step final rows (fst (settle row_id i worker f rows))"
  unfolding settle_def Let_def fst_conv by (rule table_step_map) (simp add: assms row_stays)

lemma settle_lost: "\<not> snd (settle row_id i worker f rows) \<Longrightarrow> fst (settle row_id i worker f rows) = rows"
  by (auto simp: settle_def Let_def list_ex_iff intro!: map_idI)

lemma owned_steps:
  "owned worker r \<Longrightarrow> row_step final r (finished final r)"
  "owned worker r \<Longrightarrow> row_step final r (failed error retry_at r)"
  "owned worker r \<Longrightarrow> row_step final r (buried error r)"
  by (auto simp: owned_def intro: row_finished row_failed row_buried)

text \<open>A claim that another worker has taken over, or that was settled, can no longer be settled.\<close>

lemma claim_taken_over:
  assumes "distinct (map row_id rows)" and "worker \<noteq> other"
    and "i \<in> row_id ` set (snd (claim_rows row_id locked other batch lease now rows))"
  shows "\<not> snd (settle row_id i worker f (fst (claim_rows row_id locked other batch lease now rows)))"
proof
  let ?rows = "fst (claim_rows row_id locked other batch lease now rows)"
  assume "snd (settle row_id i worker f ?rows)"
  then obtain r where r: "r \<in> set ?rows" "row_id r = i" "owned worker r"
    by (auto simp: settle_def Let_def list_ex_iff)
  obtain q where q: "q \<in> set ?rows" "row_id q = i" "owned other q"
    using assms(3) claimed_row [OF assms(1)] by fastforce
  have "distinct (map row_id ?rows)"
    using assms(1) ids_step [OF claim_step [OF assms(1)]] by simp
  then have "r = q" using r q by (auto simp: distinct_map inj_on_def)
  then show False using r q assms(2) by (simp add: owned_def)
qed

end

end
