(* ===== verification/Outbox.thy ===== *)
theory Outbox
  imports Lease_Queue Identity
begin

text \<open>
  The transactional outbox: the audit contract and its builder (\<open>contracts/audit/models.py\<close>,
  \<open>infrastructure/audit/context.py\<close>), the enqueue service (\<open>application/services/outbox.py\<close>), the repository
  (\<open>infrastructure/database/repositories/outbox.py\<close>), the stream fields of the transport
  (\<open>infrastructure/transport/redis_streams.py\<close>) and the publisher (\<open>workers/outbox_publisher.py\<close>). The JSON forms of
  an envelope belong to pydantic and the \<open>json\<close> module and are the record \<open>codec\<close>. Trace fields, the time columns that
  only record when a row changed, and logging are left out.
\<close>

subsection \<open>JSON forms\<close>

text \<open>
  \<open>cd_dump\<close> is \<open>model_dump(mode="json")\<close>; \<open>cd_validate\<close> is \<open>model_validate\<close> with the payload parsed as the class of
  its event type; \<open>cd_dumps\<close> and \<open>cd_loads\<close> are \<open>json.dumps\<close> and \<open>json.loads\<close>; \<open>cd_uuid\<close> is \<open>uuid.UUID\<close> on a text.
\<close>

record 'j codec =
  cd_dump :: "event_envelope \<Rightarrow> 'j"
  cd_validate :: "'j \<Rightarrow> event_envelope option"
  cd_dumps :: "'j \<Rightarrow> string"
  cd_loads :: "string \<Rightarrow> 'j option"
  cd_uuid :: "string \<Rightarrow> uuid option"

text \<open>What the documentation of these libraries promises: they read back what they wrote, and pydantic accepts valid
  envelopes only. (Envelopes whose floats have no double are not written at all.)\<close>

definition codec_laws :: "'j codec \<Rightarrow> bool" where
  "codec_laws C =
     ((\<forall>e e'. cd_validate C (cd_dump C e) = Some e' \<longrightarrow> e' = e \<and> event_envelope_valid e) \<and>
      (\<forall>j. cd_loads C (cd_dumps C j) = Some j) \<and> (\<forall>u. cd_uuid C (str_uuid u) = Some u))"

subsection \<open>Audit records\<close>

datatype audit_category =
    AUDIT_AUTHENTICATION | AUDIT_AUTHORIZATION | AUDIT_VENUE | AUDIT_VIDEO | AUDIT_ANALYTICS | AUDIT_EVIDENCE
  | AUDIT_RECOMMENDATION | AUDIT_ALERT | AUDIT_USER | AUDIT_MEMBERSHIP | AUDIT_TENANT | AUDIT_SYSTEM

record audit_record =
  ad_actor_id :: uuid
  ad_tenant_id :: uuid
  ad_action :: string
  ad_action_category :: audit_category
  ad_schema_version :: string
  ad_membership_id :: "uuid option"
  ad_venue_id :: "uuid option"
  ad_correlation_id :: "string option"
  ad_timestamp :: datetime
  ad_metadata :: "(string \<times> string) list option"

definition blocked_terms :: "string list" where
  "blocked_terms = [''password'', ''token'', ''secret'', ''key'', ''credential'', ''authorization'']"

text \<open>\<open>str.lower\<close> on ASCII letters.\<close>

definition lower_char :: "char \<Rightarrow> char" where
  "lower_char c = (if 65 \<le> (of_char c :: nat) \<and> (of_char c :: nat) \<le> 90 then char_of ((of_char c :: nat) + 32) else c)"

text \<open>\<open>lower_key.replace("-", "_").split("_")[0].split(".")[0]\<close>.\<close>

definition first_segment :: "string \<Rightarrow> string" where
  "first_segment key =
     takeWhile (\<lambda>c. c \<noteq> CHR ''.'')
       (takeWhile (\<lambda>c. c \<noteq> CHR ''_'') (map (\<lambda>c. if c = CHR ''-'' then CHR ''_'' else c) (map lower_char key)))"

definition reject_secrets_in_metadata :: "(string \<times> string) list option \<Rightarrow> bool" where
  "reject_secrets_in_metadata m = (case m of None \<Rightarrow> True
     | Some entries \<Rightarrow> list_all (\<lambda>(key, _). first_segment key \<notin> set blocked_terms) entries)"

definition audit_record_valid :: "audit_record \<Rightarrow> bool" where
  "audit_record_valid a = (1 \<le> length (ad_action a) \<and> length (ad_action a) \<le> 512 \<and>
     validate_schema_version (ad_schema_version a) \<and> reject_secrets_in_metadata (ad_metadata a))"

text \<open>\<open>None\<close> when the contract rejects the record.\<close>

definition from_actor :: "actor_context \<Rightarrow> string \<Rightarrow> audit_category \<Rightarrow> string option \<Rightarrow> uuid option \<Rightarrow> uuid option \<Rightarrow>
    (string \<times> string) list option \<Rightarrow> datetime \<Rightarrow> audit_record option" where
  "from_actor actor action category correlation venue membership metadata now =
     (let a = \<lparr>ad_actor_id = ac_actor_id actor, ad_tenant_id = ac_tenant_id actor, ad_action = action,
            ad_action_category = category, ad_schema_version = SCHEMA_VERSION, ad_membership_id = membership,
            ad_venue_id = venue, ad_correlation_id = correlation, ad_timestamp = now, ad_metadata = metadata\<rparr>
      in if audit_record_valid a then Some a else None)"

subsection \<open>The repository\<close>

record 'j outbox_row = lease_row +
  ob_outbox_id :: uuid
  ob_schema_version :: string
  ob_event_id :: uuid
  ob_tenant_id :: uuid
  ob_venue_id :: "uuid option"
  ob_event_type :: string
  ob_payload :: 'j

datatype outbox_error = DuplicateEventError | EnvelopeRejected | OutsideScope auth_error | DatabaseError string

definition outbox_row_of :: "uuid \<Rightarrow> uuid \<Rightarrow> uuid \<Rightarrow> uuid option \<Rightarrow> string \<Rightarrow> 'j \<Rightarrow> datetime \<Rightarrow> 'j outbox_row" where
  "outbox_row_of new_id event_id tenant venue event_type payload available_at =
     \<lparr>lr_status = ''pending'', lr_attempts = 0, lr_claimed_by = None, lr_claimed_until = None,
      lr_available_at = available_at, lr_last_error = None, ob_outbox_id = new_id, ob_schema_version = SCHEMA_VERSION,
      ob_event_id = event_id, ob_tenant_id = tenant, ob_venue_id = venue, ob_event_type = event_type, ob_payload = payload\<rparr>"

text \<open>The insert with the constraints of the table; \<open>new_id\<close> is the generated primary key.\<close>

definition outbox_enqueue :: "'j outbox_row list \<Rightarrow> 'j outbox_row \<Rightarrow> outbox_error + 'j outbox_row list" where
  "outbox_enqueue rows row =
     (if 100 < length (ob_event_type row) then Inl (DatabaseError ''value too long for event_type'')
      else if list_all (\<lambda>c. c = CHR '' '') (ob_event_type row) then Inl (DatabaseError ''ck_outbox_events_event_type_not_empty'')
      else if ob_outbox_id row \<in> set (map ob_outbox_id rows) then Inl (DatabaseError ''outbox_events_pkey'')
      else if ob_event_id row \<in> set (map ob_event_id rows) then Inl DuplicateEventError
      else Inr (rows @ [row]))"

definition outbox_claim_next :: "uuid set \<Rightarrow> string \<Rightarrow> nat \<Rightarrow> int \<Rightarrow> datetime \<Rightarrow> 'j outbox_row list \<Rightarrow>
    'j outbox_row list \<times> 'j outbox_row list" where
  "outbox_claim_next = claim_rows ob_outbox_id"

definition outbox_mark_published :: "uuid \<Rightarrow> string \<Rightarrow> 'j outbox_row list \<Rightarrow> 'j outbox_row list \<times> bool" where
  "outbox_mark_published i worker rows = settle ob_outbox_id i worker (finished ''published'') rows"

definition outbox_mark_failed :: "uuid \<Rightarrow> string \<Rightarrow> string \<Rightarrow> datetime \<Rightarrow> 'j outbox_row list \<Rightarrow> 'j outbox_row list \<times> bool" where
  "outbox_mark_failed i worker error retry_at rows = settle ob_outbox_id i worker (failed error retry_at) rows"

definition outbox_mark_dead_letter :: "uuid \<Rightarrow> string \<Rightarrow> string \<Rightarrow> 'j outbox_row list \<Rightarrow> 'j outbox_row list \<times> bool" where
  "outbox_mark_dead_letter i worker error rows = settle ob_outbox_id i worker (buried error) rows"

subsection \<open>The service\<close>

text \<open>The two tables the service writes in the transaction of the caller.\<close>

record 'j outbox_tables =
  ot_audit :: "audit_record list"
  ot_outbox :: "'j outbox_row list"

text \<open>The correlation identifier of the running request fills in a missing one.\<close>

definition inject_correlation :: "string option \<Rightarrow> event_envelope \<Rightarrow> event_envelope" where
  "inject_correlation ambient e = (case (ee_correlation_id e, ambient) of
     (None, Some (c # cs)) \<Rightarrow> e\<lparr>ee_correlation_id := Some (c # cs)\<rparr> | _ \<Rightarrow> e)"

definition validate_envelope :: "'j codec \<Rightarrow> event_envelope \<Rightarrow> bool" where
  "validate_envelope C e = (cd_validate C (cd_dump C e) \<noteq> None)"

definition venue_scope_checked :: "actor_context \<Rightarrow> uuid option \<Rightarrow> outbox_error + unit" where
  "venue_scope_checked actor venue = (case venue of None \<Rightarrow> Inr ()
     | Some v \<Rightarrow> (case require_venue_access actor v of Inl e \<Rightarrow> Inl (OutsideScope e) | Inr u \<Rightarrow> Inr u))"

definition enqueue_event :: "'j codec \<Rightarrow> string option \<Rightarrow> 'j outbox_tables \<Rightarrow> actor_context \<Rightarrow> event_envelope \<Rightarrow> audit_record \<Rightarrow>
    uuid option \<Rightarrow> uuid \<Rightarrow> datetime \<Rightarrow> outbox_error + 'j outbox_tables \<times> 'j outbox_row" where
  "enqueue_event C ambient db actor envelope audit venue new_id now =
     (let e = inject_correlation ambient envelope in
      rbind (ensure (validate_envelope C e) EnvelopeRejected) (\<lambda>_.
      rbind (venue_scope_checked actor venue) (\<lambda>_.
      rbind (ensure (\<not> list_all (\<lambda>c. c = CHR '' '') (ad_action audit)) (DatabaseError ''ck_audit_events_action_not_empty'')) (\<lambda>_.
        let row = outbox_row_of new_id (ee_event_id e) (ac_tenant_id actor) venue (ee_event_type e) (cd_dump C e) now
        in rbind (outbox_enqueue (ot_outbox db) row) (\<lambda>rows.
             Inr (db\<lparr>ot_audit := ot_audit db @ [audit], ot_outbox := rows\<rparr>, row))))))"

subsection \<open>The publisher\<close>

record worker_settings =
  ws_batch_size :: nat
  ws_lease_seconds :: int
  ws_max_attempts :: int
  ws_backoff_base :: real
  ws_backoff_max :: real
  ws_backoff_jitter :: real

text \<open>The fields of the stream message (\<open>RedisStreamTransport.publish\<close>).\<close>

definition publish_fields :: "'j codec \<Rightarrow> 'j outbox_row \<Rightarrow> (string \<times> string) list" where
  "publish_fields C row =
     [(''event'', cd_dumps C (ob_payload row)), (''event_id'', str_uuid (ob_event_id row)),
      (''event_type'', ob_event_type row), (''tenant_id'', str_uuid (ob_tenant_id row)),
      (''schema_version'', ob_schema_version row)] @
     (case ob_venue_id row of None \<Rightarrow> [] | Some v \<Rightarrow> [(''venue_id'', str_uuid v)]) @
     (case cd_validate C (ob_payload row) of
        Some e \<Rightarrow> (case ee_correlation_id e of None \<Rightarrow> [] | Some c \<Rightarrow> [(''correlation_id'', c)])
      | None \<Rightarrow> [])"

text \<open>How the attempt to publish ended; the flag of a failure tells whether the exception is retryable.\<close>

datatype publish_outcome = Sent | NotSent bool string

definition publisher_dead_letter :: "string \<Rightarrow> 'j outbox_row \<Rightarrow> string \<Rightarrow> 'j outbox_row list \<Rightarrow> 'j outbox_row list" where
  "publisher_dead_letter worker row error rows = fst (outbox_mark_dead_letter (ob_outbox_id row) worker error rows)"

definition schedule_retry :: "worker_settings \<Rightarrow> string \<Rightarrow> 'j outbox_row \<Rightarrow> string \<Rightarrow> datetime \<Rightarrow> real \<Rightarrow> 'j outbox_row list \<Rightarrow>
    backoff_error + 'j outbox_row list" where
  "schedule_retry S worker row error now draw rows =
     (if ws_max_attempts S \<le> lr_attempts row then Inr (publisher_dead_letter worker row error rows)
      else rbind (compute_backoff_delay (lr_attempts row) (ws_backoff_base S) (ws_backoff_max S) (ws_backoff_jitter S) draw)
        (\<lambda>delay. Inr (fst (outbox_mark_failed (ob_outbox_id row) worker error (after now delay) rows))))"

text \<open>The transition that follows the attempt, in a transaction of its own; the flag counts the row as published.\<close>

definition publisher_settle :: "worker_settings \<Rightarrow> string \<Rightarrow> 'j outbox_row \<Rightarrow> publish_outcome \<Rightarrow> datetime \<Rightarrow> real \<Rightarrow>
    'j outbox_row list \<Rightarrow> backoff_error + 'j outbox_row list \<times> bool" where
  "publisher_settle S worker row outcome now draw rows =
     (case outcome of
        Sent \<Rightarrow> Inr (outbox_mark_published (ob_outbox_id row) worker rows)
      | NotSent retryable error \<Rightarrow>
          if \<not> retryable then Inr (publisher_dead_letter worker row error rows, False)
          else rbind (schedule_retry S worker row error now draw rows) (\<lambda>rows'. Inr (rows', False)))"

subsection \<open>The outbox is a leased table\<close>

interpretation outbox: leased_table "ob_outbox_id :: 'j outbox_row \<Rightarrow> uuid" "''published''"
proof
  fix r r' :: "'j outbox_row"
  assume "lease_row.more r = lease_row.more r'"
  then show "ob_outbox_id r = ob_outbox_id r'" by (cases r; cases r') simp
qed (simp add: CLAIMABLE_STATUSES_def)

end
