(* ===== verification/Inbox.thy ===== *)
theory Inbox
  imports Outbox Evidence_Request
begin

text \<open>
  The receiving side: the stream transport with its consumer group (\<open>infrastructure/transport/redis_streams.py\<close>), the
  ingress bridge (\<open>workers/inbox_ingress.py\<close>), the inbox service and repository (\<open>application/services/inbox.py\<close>,
  \<open>infrastructure/database/repositories/inbox.py\<close>), the consumer (\<open>workers/inbox_consumer.py\<close>) and the effect handlers
  (\<open>workers/operational_effects.py\<close>). Redis is its documented behaviour: a stream hands every message of the group out
  once and keeps it pending until it is acknowledged.
\<close>

subsection \<open>Replies of the Redis client\<close>

text \<open>
  The Python values that redis-py builds from a reply. Iterating a dictionary gives its keys and iterating a text its
  characters; unpacking into two names takes exactly two elements.
\<close>

datatype py_value = PyStr string | PyDict "(string \<times> string) list" | PyTuple "py_value list" | PyList "py_value list"

fun py_iter :: "py_value \<Rightarrow> py_value list" where
  "py_iter (PyStr s) = map (\<lambda>c. PyStr [c]) s"
| "py_iter (PyDict d) = map (\<lambda>(k, _). PyStr k) d"
| "py_iter (PyTuple vs) = vs"
| "py_iter (PyList vs) = vs"

datatype transport_error = PyValueError | PyKeyError

fun unpack_pair :: "py_value list \<Rightarrow> transport_error + py_value \<times> py_value" where
  "unpack_pair [a, b] = Inr (a, b)"
| "unpack_pair _ = Inl PyValueError"

text \<open>A parsed message: its identifier and, when the fields are a dictionary, its fields.\<close>

type_synonym parsed_message = "py_value \<times> (string \<times> string) list"

definition parse_entry :: "py_value \<Rightarrow> transport_error + parsed_message" where
  "parse_entry v = rbind (unpack_pair (py_iter v)) (\<lambda>(message_id, attrs).
     Inr (message_id, (case attrs of PyDict d \<Rightarrow> d | _ \<Rightarrow> [])))"

definition parse_stream :: "py_value \<Rightarrow> transport_error + parsed_message list" where
  "parse_stream v = rbind (unpack_pair (py_iter v)) (\<lambda>(_, stream_entries). mapM parse_entry (py_iter stream_entries))"

definition parse_entries :: "py_value \<Rightarrow> transport_error + parsed_message list" where
  "parse_entries entries = rbind (mapM parse_stream (py_iter entries)) (\<lambda>ms. Inr (concat ms))"

subsection \<open>The stream and its consumer group\<close>

record stream_message =
  sm_id :: string
  sm_fields :: "(string \<times> string) list"

text \<open>\<open>gr_unread\<close> was never handed out; \<open>gr_pending\<close> was handed out at an instant and not acknowledged.\<close>

record consumer_group =
  gr_unread :: "stream_message list"
  gr_pending :: "(stream_message \<times> datetime) list"

definition entry_value :: "stream_message \<Rightarrow> py_value" where
  "entry_value m = PyTuple [PyStr (sm_id m), PyDict (sm_fields m)]"

text \<open>\<open>XREADGROUP\<close> replies with a list of streams, each with its entries, and with nothing when there are none;
  \<open>XAUTOCLAIM\<close> replies with the entries themselves.\<close>

definition xreadgroup_reply :: "string \<Rightarrow> stream_message list \<Rightarrow> py_value" where
  "xreadgroup_reply stream ms =
     PyList (if ms = [] then [] else [PyList [PyStr stream, PyList (map entry_value ms)]])"

definition xautoclaim_reply :: "stream_message list \<Rightarrow> py_value" where
  "xautoclaim_reply ms = PyList (map entry_value ms)"

definition read_group :: "string \<Rightarrow> nat \<Rightarrow> datetime \<Rightarrow> consumer_group \<Rightarrow>
    consumer_group \<times> (transport_error + parsed_message list)" where
  "read_group stream count now g =
     (let ms = take count (gr_unread g) in
      (g\<lparr>gr_unread := drop count (gr_unread g), gr_pending := gr_pending g @ map (\<lambda>m. (m, now)) ms\<rparr>,
       parse_entries (xreadgroup_reply stream ms)))"

definition stuck :: "int \<Rightarrow> datetime \<Rightarrow> stream_message \<times> datetime \<Rightarrow> bool" where
  "stuck min_idle_seconds now p = (min_idle_seconds * 1000000 \<le> dt_instant now - dt_instant (snd p))"

definition claim_stuck :: "int \<Rightarrow> nat \<Rightarrow> datetime \<Rightarrow> consumer_group \<Rightarrow>
    consumer_group \<times> (transport_error + parsed_message list)" where
  "claim_stuck min_idle_seconds count now g =
     (let hit = take count (filter (stuck min_idle_seconds now) (gr_pending g)) in
      (g\<lparr>gr_pending := map (\<lambda>p. if p \<in> set hit then (fst p, now) else p) (gr_pending g)\<rparr>,
       parse_entries (xautoclaim_reply (map fst hit))))"

definition ack :: "py_value \<Rightarrow> consumer_group \<Rightarrow> consumer_group" where
  "ack message_id g = g\<lparr>gr_pending := filter (\<lambda>(m, _). PyStr (sm_id m) \<noteq> message_id) (gr_pending g)\<rparr>"

text \<open>The messages one cycle of the bridge has to handle; an exception ends the cycle.\<close>

record ingress_settings =
  is_stream :: string
  is_claim_idle_seconds :: int
  is_count :: nat

definition ingress_messages :: "ingress_settings \<Rightarrow> datetime \<Rightarrow> consumer_group \<Rightarrow>
    consumer_group \<times> (transport_error + parsed_message list)" where
  "ingress_messages S now g =
     (let (g1, claimed) = claim_stuck (is_claim_idle_seconds S) (is_count S) now g in
      case claimed of
        Inl e \<Rightarrow> (g1, Inl e)
      | Inr old \<Rightarrow>
          (let (g2, fresh) = read_group (is_stream S) (is_count S) now g1 in
           (g2, rbind fresh (\<lambda>new. Inr (old @ new)))))"

subsection \<open>The inbox repository\<close>

record 'j inbox_row = lease_row +
  ib_inbox_id :: uuid
  ib_tenant_id :: uuid
  ib_venue_id :: "uuid option"
  ib_source :: string
  ib_source_message_id :: string
  ib_event_type :: string
  ib_payload :: 'j

definition inbox_row_of :: "uuid \<Rightarrow> string \<Rightarrow> string \<Rightarrow> uuid \<Rightarrow> uuid option \<Rightarrow> string \<Rightarrow> 'j \<Rightarrow> datetime \<Rightarrow> 'j inbox_row" where
  "inbox_row_of new_id source source_message_id tenant venue event_type payload now =
     \<lparr>lr_status = ''pending'', lr_attempts = 0, lr_claimed_by = None, lr_claimed_until = None,
      lr_available_at = now, lr_last_error = None, ib_inbox_id = new_id, ib_tenant_id = tenant, ib_venue_id = venue,
      ib_source = source, ib_source_message_id = source_message_id, ib_event_type = event_type, ib_payload = payload\<rparr>"

text \<open>\<open>INSERT \<dots> ON CONFLICT (source, source_message_id) DO NOTHING\<close>.\<close>

definition inbox_receive :: "'j inbox_row list \<Rightarrow> 'j inbox_row \<Rightarrow> 'j inbox_row list \<times> 'j inbox_row option" where
  "inbox_receive rows row =
     (if (ib_source row, ib_source_message_id row) \<in> set (map (\<lambda>r. (ib_source r, ib_source_message_id r)) rows)
      then (rows, None) else (rows @ [row], Some row))"

definition inbox_claim_next :: "uuid set \<Rightarrow> string \<Rightarrow> nat \<Rightarrow> int \<Rightarrow> datetime \<Rightarrow> 'j inbox_row list \<Rightarrow>
    'j inbox_row list \<times> 'j inbox_row list" where
  "inbox_claim_next = claim_rows ib_inbox_id"

definition inbox_mark_processed :: "uuid \<Rightarrow> string \<Rightarrow> 'j inbox_row list \<Rightarrow> 'j inbox_row list \<times> bool" where
  "inbox_mark_processed i worker rows = settle ib_inbox_id i worker (finished ''processed'') rows"

definition inbox_mark_failed :: "uuid \<Rightarrow> string \<Rightarrow> string \<Rightarrow> datetime \<Rightarrow> 'j inbox_row list \<Rightarrow> 'j inbox_row list \<times> bool" where
  "inbox_mark_failed i worker error retry_at rows = settle ib_inbox_id i worker (failed error retry_at) rows"

definition inbox_mark_dead_letter :: "uuid \<Rightarrow> string \<Rightarrow> string \<Rightarrow> 'j inbox_row list \<Rightarrow> 'j inbox_row list \<times> bool" where
  "inbox_mark_dead_letter i worker error rows = settle ib_inbox_id i worker (buried error) rows"

interpretation inbox: leased_table "ib_inbox_id :: 'j inbox_row \<Rightarrow> uuid" "''processed''"
proof
  fix r r' :: "'j inbox_row"
  assume "lease_row.more r = lease_row.more r'"
  then show "ib_inbox_id r = ib_inbox_id r'" by (cases r; cases r') simp
qed (simp add: CLAIMABLE_STATUSES_def)

subsection \<open>The ingress bridge\<close>

definition SOURCE_OUTBOX :: string where
  "SOURCE_OUTBOX = ''outbox''"

definition parse_envelope :: "'j codec \<Rightarrow> (string \<times> string) list \<Rightarrow> transport_error + event_envelope" where
  "parse_envelope C attrs =
     (case map_of attrs ''event'' of
        None \<Rightarrow> Inl PyKeyError
      | Some raw \<Rightarrow>
          (case cd_loads C raw of
             None \<Rightarrow> Inl PyValueError
           | Some payload \<Rightarrow> (case cd_validate C payload of None \<Rightarrow> Inl PyValueError | Some e \<Rightarrow> Inr e)))"

definition message_uuid :: "'j codec \<Rightarrow> string \<Rightarrow> transport_error + uuid" where
  "message_uuid C text = (case cd_uuid C text of None \<Rightarrow> Inl PyValueError | Some u \<Rightarrow> Inr u)"

text \<open>The envelope with the tenant and the venue of the message; an empty venue text counts as none.\<close>

definition read_message :: "'j codec \<Rightarrow> (string \<times> string) list \<Rightarrow> transport_error + event_envelope \<times> uuid \<times> uuid option" where
  "read_message C attrs =
     rbind (parse_envelope C attrs) (\<lambda>e.
     rbind (case map_of attrs ''tenant_id'' of None \<Rightarrow> Inl PyKeyError | Some t \<Rightarrow> message_uuid C t) (\<lambda>tenant.
     rbind (case map_of attrs ''venue_id'' of None \<Rightarrow> Inr None | Some v \<Rightarrow>
              if v = '''' then Inr None else rbind (message_uuid C v) (\<lambda>u. Inr (Some u))) (\<lambda>venue.
       Inr (e, tenant, venue))))"

text \<open>\<open>InboxService.receive\<close>: the envelope is validated once more and stored under its event identifier.\<close>

definition receive_event :: "'j codec \<Rightarrow> 'j inbox_row list \<Rightarrow> string \<Rightarrow> event_envelope \<Rightarrow> uuid \<Rightarrow> uuid option \<Rightarrow> uuid \<Rightarrow> datetime \<Rightarrow>
    transport_error + 'j inbox_row list \<times> 'j inbox_row option" where
  "receive_event C rows source e tenant venue new_id now =
     rbind (ensure (validate_envelope C e) PyValueError) (\<lambda>_.
       Inr (inbox_receive rows (inbox_row_of new_id source (str_uuid (ee_event_id e)) tenant venue (ee_event_type e)
         (cd_dump C e) now)))"

text \<open>What the environment does to the handling of a message: the transaction commits or fails, and so does the
  acknowledgement.\<close>

record relay_outcome =
  ro_committed :: bool
  ro_acknowledged :: bool

definition acknowledged :: "relay_outcome \<Rightarrow> py_value \<Rightarrow> consumer_group \<Rightarrow> consumer_group" where
  "acknowledged outcome message_id g = (if ro_acknowledged outcome then ack message_id g else g)"

definition handle_message :: "'j codec \<Rightarrow> relay_outcome \<Rightarrow> parsed_message \<Rightarrow> uuid \<Rightarrow> datetime \<Rightarrow>
    consumer_group \<times> 'j inbox_row list \<Rightarrow> (consumer_group \<times> 'j inbox_row list) \<times> bool" where
  "handle_message C outcome msg new_id now s =
     (let (message_id, attrs) = msg; (g, rows) = s in
      case read_message C attrs of
        Inl _ \<Rightarrow> ((acknowledged outcome message_id g, rows), True)
      | Inr (e, tenant, venue) \<Rightarrow>
          (case receive_event C rows SOURCE_OUTBOX e tenant venue new_id now of
             Inl _ \<Rightarrow> ((acknowledged outcome message_id g, rows), True)
           | Inr (rows', _) \<Rightarrow>
               if \<not> ro_committed outcome then ((g, rows), False)
               else ((acknowledged outcome message_id g, rows'), ro_acknowledged outcome)))"

subsection \<open>The consumer\<close>

datatype effect_error = RetryableEffect string | NonRetryableEffect string

type_synonym ('j, 'b) effect_handlers = "string \<Rightarrow> ('j inbox_row \<Rightarrow> 'b \<Rightarrow> effect_error + 'b) option"

text \<open>
  One transaction: the effect runs on the business state in a savepoint together with the final mark; a lost claim or an
  exception discards what it wrote. An exception of the backoff rolls the whole transaction back.
\<close>

definition effect_failed :: "worker_settings \<Rightarrow> string \<Rightarrow> 'j inbox_row \<Rightarrow> effect_error \<Rightarrow> datetime \<Rightarrow> real \<Rightarrow> 'j inbox_row list \<Rightarrow>
    'j inbox_row list" where
  "effect_failed S worker row error now draw rows =
     (case error of
        NonRetryableEffect text \<Rightarrow> fst (inbox_mark_dead_letter (ib_inbox_id row) worker text rows)
      | RetryableEffect text \<Rightarrow>
          if ws_max_attempts S \<le> lr_attempts row then fst (inbox_mark_dead_letter (ib_inbox_id row) worker text rows)
          else (case compute_backoff_delay (lr_attempts row) (ws_backoff_base S) (ws_backoff_max S) (ws_backoff_jitter S) draw of
                  Inl _ \<Rightarrow> rows
                | Inr delay \<Rightarrow> fst (inbox_mark_failed (ib_inbox_id row) worker text (after now delay) rows)))"

definition process_row :: "worker_settings \<Rightarrow> ('j, 'b) effect_handlers \<Rightarrow> string \<Rightarrow> 'j inbox_row \<Rightarrow> datetime \<Rightarrow> real \<Rightarrow>
    'j inbox_row list \<times> 'b \<Rightarrow> ('j inbox_row list \<times> 'b) \<times> bool" where
  "process_row S handlers worker row now draw s =
     (let (rows, business) = s in
      case handlers (ib_event_type row) of
        None \<Rightarrow> ((fst (inbox_mark_dead_letter (ib_inbox_id row) worker ''no effect handler registered'' rows), business), False)
      | Some handler \<Rightarrow>
          (case handler row business of
             Inl error \<Rightarrow> ((effect_failed S worker row error now draw rows, business), False)
           | Inr business' \<Rightarrow>
               (let (rows', ok) = inbox_mark_processed (ib_inbox_id row) worker rows
                in if ok then ((rows', business'), True) else ((rows, business), False))))"

text \<open>\<open>register_handler\<close> on the dictionary of handlers; the deployed consumer (\<open>_main\<close>) is built without any.\<close>

definition register_handler :: "string \<Rightarrow> ('j inbox_row \<Rightarrow> 'b \<Rightarrow> effect_error + 'b) \<Rightarrow> ('j, 'b) effect_handlers \<Rightarrow> ('j, 'b) effect_handlers" where
  "register_handler event_type handler handlers = handlers(event_type \<mapsto> handler)"

definition deployed_handlers :: "('j, 'b) effect_handlers" where
  "deployed_handlers = Map.empty"

subsection \<open>The operational effects\<close>

definition OPERATIONAL_EFFECT_TYPES :: "string list" where
  "OPERATIONAL_EFFECT_TYPES = [event_type_value OCCUPANCY_SESSION]"

text \<open>The effect on the table of evidence requests; its exceptions are no \<open>NonRetryableError\<close>.\<close>

definition evidence_effect :: "'j codec \<Rightarrow> stdlib \<Rightarrow> 'j inbox_row \<Rightarrow> request_table \<Rightarrow> effect_error + request_table" where
  "evidence_effect C L row requests =
     (case cd_validate C (ib_payload row) of
        None \<Rightarrow> Inl (RetryableEffect ''ValidationError'')
      | Some envelope \<Rightarrow>
          (case link_event L requests envelope None EVIDENCE_REQUIRED of
             Inl _ \<Rightarrow> Inl (RetryableEffect ''InvalidEvidenceRequestError'')
           | Inr (requests', _) \<Rightarrow> Inr requests'))"

definition build_operational_effect_handlers :: "'j codec \<Rightarrow> stdlib \<Rightarrow> ('j, request_table) effect_handlers" where
  "build_operational_effect_handlers C L event_type =
     (if event_type \<in> set OPERATIONAL_EFFECT_TYPES then Some (evidence_effect C L) else None)"

end
