(* ===== verification/Delivery.thy ===== *)
theory Delivery
  imports Inbox
begin

text \<open>
  The delivery pipeline as one system: the outbox, the stream with its consumer group, the inbox and the business state,
  with the rows and messages that workers hold in memory. Every action is one database transaction or one call of the
  broker, so that runs of actions are the interleavings of any number of producers, publishers, bridges and consumers;
  a crash forgets what a worker holds. The cycles of the three workers are the sequences of their actions.
\<close>

record ('j, 'b) delivery =
  dl_tables :: "'j outbox_tables"
  dl_group :: consumer_group
  dl_inbox :: "'j inbox_row list"
  dl_business :: 'b
  dl_publishing :: "(string \<times> 'j outbox_row) list"
  dl_attempted :: "(string \<times> 'j outbox_row \<times> publish_outcome) list"
  dl_relaying :: "parsed_message list"
  dl_consuming :: "(string \<times> 'j inbox_row) list"

text \<open>
  What never enters a decision of the program: all messages ever sent, and the inbox rows whose effects were committed, in
  the order of the commits.
\<close>

record ('j, 'b) delivery_log = "('j, 'b) delivery" +
  dl_sent :: "stream_message list"
  dl_committed :: "'j inbox_row list"

record ('j, 'b) delivery_env =
  de_codec :: "'j codec"
  de_outbox_settings :: worker_settings
  de_inbox_settings :: worker_settings
  de_ingress_settings :: ingress_settings
  de_handlers :: "('j, 'b) effect_handlers"

datatype action =
    Enqueue actor_context "string option" event_envelope audit_record "uuid option" uuid datetime
  | ClaimOutbox string "uuid set" datetime
  | Attempt nat publish_outcome string
  | SettleAttempt nat datetime real
  | ReadStream datetime
  | Relay nat relay_outcome uuid datetime
  | ClaimInbox string "uuid set" datetime
  | Process nat bool datetime real
  | Crash string
  | CrashBridge

definition remove_nth :: "nat \<Rightarrow> 'a list \<Rightarrow> 'a list" where
  "remove_nth i xs = take i xs @ drop (Suc i) xs"

lemma set_remove_nth: "set (remove_nth i xs) \<subseteq> set xs"
  by (auto simp: remove_nth_def dest: in_set_takeD in_set_dropD)

definition enqueue_action :: "('j, 'b) delivery_env \<Rightarrow> ('j, 'b) delivery_log \<Rightarrow> actor_context \<Rightarrow> string option \<Rightarrow> event_envelope \<Rightarrow>
    audit_record \<Rightarrow> uuid option \<Rightarrow> uuid \<Rightarrow> datetime \<Rightarrow> ('j, 'b) delivery_log" where
  "enqueue_action E s actor ambient envelope audit venue new_id now =
     (case enqueue_event (de_codec E) ambient (dl_tables s) actor envelope audit venue new_id now of
        Inl _ \<Rightarrow> s | Inr (tables, _) \<Rightarrow> s\<lparr>dl_tables := tables\<rparr>)"

definition claim_outbox_action :: "('j, 'b) delivery_env \<Rightarrow> ('j, 'b) delivery_log \<Rightarrow> string \<Rightarrow> uuid set \<Rightarrow> datetime \<Rightarrow>
    ('j, 'b) delivery_log" where
  "claim_outbox_action E s worker locked now =
     (let (rows, claimed) = outbox_claim_next locked worker (ws_batch_size (de_outbox_settings E))
            (ws_lease_seconds (de_outbox_settings E)) now (ot_outbox (dl_tables s))
      in s\<lparr>dl_tables := (dl_tables s)\<lparr>ot_outbox := rows\<rparr>,
           dl_publishing := dl_publishing s @ map (\<lambda>r. (worker, r)) claimed\<rparr>)"

text \<open>The call of the broker; \<open>message_id\<close> is the identifier it gives to a new message.\<close>

definition attempt_action :: "('j, 'b) delivery_env \<Rightarrow> ('j, 'b) delivery_log \<Rightarrow> nat \<Rightarrow> publish_outcome \<Rightarrow> string \<Rightarrow>
    ('j, 'b) delivery_log" where
  "attempt_action E s i outcome message_id =
     (if length (dl_publishing s) \<le> i then s
      else let (worker, row) = dl_publishing s ! i;
               s1 = s\<lparr>dl_publishing := remove_nth i (dl_publishing s),
                      dl_attempted := dl_attempted s @ [(worker, row, outcome)]\<rparr>
           in if outcome = Sent then
                let m = \<lparr>sm_id = message_id, sm_fields = publish_fields (de_codec E) row\<rparr>
                in s1\<lparr>dl_group := (dl_group s)\<lparr>gr_unread := gr_unread (dl_group s) @ [m]\<rparr>, dl_sent := dl_sent s @ [m]\<rparr>
              else s1)"

definition settle_action :: "('j, 'b) delivery_env \<Rightarrow> ('j, 'b) delivery_log \<Rightarrow> nat \<Rightarrow> datetime \<Rightarrow> real \<Rightarrow> ('j, 'b) delivery_log" where
  "settle_action E s i now draw =
     (if length (dl_attempted s) \<le> i then s
      else let (worker, row, outcome) = dl_attempted s ! i;
               s1 = s\<lparr>dl_attempted := remove_nth i (dl_attempted s)\<rparr>
           in case publisher_settle (de_outbox_settings E) worker row outcome now draw (ot_outbox (dl_tables s)) of
                Inl _ \<Rightarrow> s1
              | Inr (rows, _) \<Rightarrow> s1\<lparr>dl_tables := (dl_tables s)\<lparr>ot_outbox := rows\<rparr>\<rparr>)"

definition read_action :: "('j, 'b) delivery_env \<Rightarrow> ('j, 'b) delivery_log \<Rightarrow> datetime \<Rightarrow> ('j, 'b) delivery_log" where
  "read_action E s now =
     (let (g, messages) = ingress_messages (de_ingress_settings E) now (dl_group s) in
      case messages of
        Inl _ \<Rightarrow> s\<lparr>dl_group := g\<rparr>
      | Inr ms \<Rightarrow> s\<lparr>dl_group := g, dl_relaying := dl_relaying s @ ms\<rparr>)"

definition relay_action :: "('j, 'b) delivery_env \<Rightarrow> ('j, 'b) delivery_log \<Rightarrow> nat \<Rightarrow> relay_outcome \<Rightarrow> uuid \<Rightarrow> datetime \<Rightarrow>
    ('j, 'b) delivery_log" where
  "relay_action E s i outcome new_id now =
     (if length (dl_relaying s) \<le> i \<or> new_id \<in> set (map ib_inbox_id (dl_inbox s)) then s
      else let ((g, rows), _) = handle_message (de_codec E) outcome (dl_relaying s ! i) new_id now (dl_group s, dl_inbox s)
           in s\<lparr>dl_group := g, dl_inbox := rows, dl_relaying := remove_nth i (dl_relaying s)\<rparr>)"

definition claim_inbox_action :: "('j, 'b) delivery_env \<Rightarrow> ('j, 'b) delivery_log \<Rightarrow> string \<Rightarrow> uuid set \<Rightarrow> datetime \<Rightarrow>
    ('j, 'b) delivery_log" where
  "claim_inbox_action E s worker locked now =
     (let (rows, claimed) = inbox_claim_next locked worker (ws_batch_size (de_inbox_settings E))
            (ws_lease_seconds (de_inbox_settings E)) now (dl_inbox s)
      in s\<lparr>dl_inbox := rows, dl_consuming := dl_consuming s @ map (\<lambda>r. (worker, r)) claimed\<rparr>)"

text \<open>\<open>committed\<close> tells whether the transaction of the row commits.\<close>

definition process_action :: "('j, 'b) delivery_env \<Rightarrow> ('j, 'b) delivery_log \<Rightarrow> nat \<Rightarrow> bool \<Rightarrow> datetime \<Rightarrow> real \<Rightarrow>
    ('j, 'b) delivery_log" where
  "process_action E s i committed now draw =
     (if length (dl_consuming s) \<le> i then s
      else let (worker, row) = dl_consuming s ! i;
               s1 = s\<lparr>dl_consuming := remove_nth i (dl_consuming s)\<rparr>
           in if \<not> committed then s1
              else let ((rows, business), ok) = process_row (de_inbox_settings E) (de_handlers E) worker row now draw
                         (dl_inbox s, dl_business s)
                   in s1\<lparr>dl_inbox := rows, dl_business := business,
                         dl_committed := (if ok then dl_committed s @ [row] else dl_committed s)\<rparr>)"

fun deliver :: "('j, 'b) delivery_env \<Rightarrow> ('j, 'b) delivery_log \<Rightarrow> action \<Rightarrow> ('j, 'b) delivery_log" where
  "deliver E s (Enqueue actor ambient envelope audit venue new_id now) =
     enqueue_action E s actor ambient envelope audit venue new_id now"
| "deliver E s (ClaimOutbox worker locked now) = claim_outbox_action E s worker locked now"
| "deliver E s (Attempt i outcome message_id) = attempt_action E s i outcome message_id"
| "deliver E s (SettleAttempt i now draw) = settle_action E s i now draw"
| "deliver E s (ReadStream now) = read_action E s now"
| "deliver E s (Relay i outcome new_id now) = relay_action E s i outcome new_id now"
| "deliver E s (ClaimInbox worker locked now) = claim_inbox_action E s worker locked now"
| "deliver E s (Process i committed now draw) = process_action E s i committed now draw"
| "deliver E s (Crash worker) = s\<lparr>dl_publishing := filter (\<lambda>j. fst j \<noteq> worker) (dl_publishing s),
     dl_attempted := filter (\<lambda>j. fst j \<noteq> worker) (dl_attempted s),
     dl_consuming := filter (\<lambda>j. fst j \<noteq> worker) (dl_consuming s)\<rparr>"
| "deliver E s CrashBridge = s\<lparr>dl_relaying := []\<rparr>"

definition delivery_run :: "('j, 'b) delivery_env \<Rightarrow> ('j, 'b) delivery_log \<Rightarrow> action list \<Rightarrow> ('j, 'b) delivery_log" where
  "delivery_run E s acts = foldl (deliver E) s acts"

definition delivery_start :: "'b \<Rightarrow> ('j, 'b) delivery_log" where
  "delivery_start business = \<lparr>dl_tables = \<lparr>ot_audit = [], ot_outbox = []\<rparr>,
     dl_group = \<lparr>gr_unread = [], gr_pending = []\<rparr>, dl_inbox = [], dl_business = business, dl_publishing = [],
     dl_attempted = [], dl_relaying = [], dl_consuming = [], dl_sent = [], dl_committed = []\<rparr>"

subsection \<open>The cycles of the workers\<close>

text \<open>\<open>run_once\<close> of a worker that was idle: the claim, then each row in turn.\<close>

definition publisher_cycle :: "string \<Rightarrow> uuid set \<Rightarrow> datetime \<Rightarrow> (publish_outcome \<times> string \<times> datetime \<times> real) list \<Rightarrow> action list" where
  "publisher_cycle worker locked now attempts = ClaimOutbox worker locked now #
     concat (map (\<lambda>(outcome, message_id, t, draw). [Attempt 0 outcome message_id, SettleAttempt 0 t draw]) attempts)"

definition ingress_cycle :: "datetime \<Rightarrow> (relay_outcome \<times> uuid \<times> datetime) list \<Rightarrow> action list" where
  "ingress_cycle now relays = ReadStream now # map (\<lambda>(outcome, new_id, t). Relay 0 outcome new_id t) relays"

definition consumer_cycle :: "string \<Rightarrow> uuid set \<Rightarrow> datetime \<Rightarrow> (bool \<times> datetime \<times> real) list \<Rightarrow> action list" where
  "consumer_cycle worker locked now rows = ClaimInbox worker locked now #
     map (\<lambda>(committed, t, draw). Process 0 committed t draw) rows"

end
