(* ===== verification/Delivery_Facts.thy ===== *)
theory Delivery_Facts
  imports Delivery
begin

text \<open>
  What the delivery pipeline guarantees: the invariants of the outbox with the messages it sent, of the messages in transit
  and of the inbox with the committed effects, their preservation by every action, the end-to-end properties, and the two
  places where the wiring breaks them (reclaimed messages and the deployed consumer).
\<close>

subsection \<open>Columns that never change\<close>

lemma outbox_same_more:
  fixes r r' :: "'j outbox_row"
  assumes "lease_row.more r = lease_row.more r'"
  shows "ob_outbox_id r = ob_outbox_id r'" "ob_event_id r = ob_event_id r'" "ob_tenant_id r = ob_tenant_id r'"
    "ob_venue_id r = ob_venue_id r'" "ob_event_type r = ob_event_type r'" "ob_payload r = ob_payload r'"
    "ob_schema_version r = ob_schema_version r'"
  using assms by (cases r; cases r'; simp)+

lemma inbox_same_more:
  fixes r r' :: "'j inbox_row"
  assumes "lease_row.more r = lease_row.more r'"
  shows "ib_inbox_id r = ib_inbox_id r'" "ib_tenant_id r = ib_tenant_id r'" "ib_venue_id r = ib_venue_id r'"
    "ib_source r = ib_source r'" "ib_source_message_id r = ib_source_message_id r'" "ib_event_type r = ib_event_type r'"
    "ib_payload r = ib_payload r'"
  using assms by (cases r; cases r'; simp)+

lemma publish_fields_same_more: "lease_row.more r = lease_row.more r' \<Longrightarrow> publish_fields C r = publish_fields C r'"
  by (simp add: publish_fields_def outbox_same_more [of r r'])

definition mores :: "'a lease_row_scheme list \<Rightarrow> 'a set" where
  "mores rows = lease_row.more ` set rows"

lemma mores_step: "table_step final rows rows' \<Longrightarrow> mores rows' = mores rows"
proof -
  assume "table_step final rows rows'"
  then have "map lease_row.more rows' = map lease_row.more rows"
    unfolding table_step_def by (induction rule: list_all2_induct) (simp_all add: row_step_more)
  then show ?thesis unfolding mores_def by (metis list.set_map)
qed

lemma mores_append [simp]: "mores (rows @ [row]) = insert (lease_row.more row) (mores rows)"
  by (simp add: mores_def)

subsection \<open>Statuses after a guarded update\<close>

lemma settle_in:
  "r' \<in> set (fst (settle row_id i worker f rows)) \<Longrightarrow>
     r' \<in> set rows \<or> (\<exists>r\<in>set rows. row_id r = i \<and> owned worker r \<and> r' = f r)"
  by (auto simp: settle_def Let_def split: if_splits)

lemma claim_in:
  "r' \<in> set (fst (claim_rows row_id locked worker batch lease now rows)) \<Longrightarrow>
     r' \<in> set rows \<or> (\<exists>r\<in>set rows. r' = leased worker (after now (lease * 1000000)) r)"
  by (auto simp: claim_rows_def Let_def split: if_splits)

lemma claimed_in:
  "r' \<in> set (snd (claim_rows row_id locked worker batch lease now rows)) \<Longrightarrow>
     \<exists>r\<in>set rows. due now r \<and> r' = leased worker (after now (lease * 1000000)) r"
  by (auto simp: claim_rows_def Let_def selected_def dest!: in_set_takeD)

lemma status_after [simp]:
  "lr_status (finished status r) = status" "lr_status (failed error retry_at r) = ''failed''"
  "lr_status (buried error r) = ''dead_letter''" "lr_status (leased worker until r) = ''processing''"
  by (simp_all add: finished_def failed_def buried_def leased_def)

lemma more_after [simp]:
  "lease_row.more (finished status r) = lease_row.more r" "lease_row.more (failed error retry_at r) = lease_row.more r"
  "lease_row.more (buried error r) = lease_row.more r" "lease_row.more (leased worker until r) = lease_row.more r"
  by (simp_all add: finished_def failed_def buried_def leased_def)

lemma ids_after [simp]:
  "ib_inbox_id (finished status r) = ib_inbox_id r" "ob_outbox_id (finished status q) = ob_outbox_id q"
  by (simp_all add: finished_def)

subsection \<open>The outbox and what was sent\<close>

text \<open>The row carries the valid envelope it was enqueued with.\<close>

definition genuine :: "'j codec \<Rightarrow> 'j outbox_row \<Rightarrow> bool" where
  "genuine C q = (\<exists>e. event_envelope_valid e \<and> cd_validate C (cd_dump C e) = Some e \<and> ob_payload q = cd_dump C e \<and>
     ob_event_id q = ee_event_id e \<and> ob_event_type q = ee_event_type e)"

lemma genuine_same_more: "lease_row.more r = lease_row.more r' \<Longrightarrow> genuine C r \<longleftrightarrow> genuine C r'"
  by (simp add: genuine_def outbox_same_more [of r r'])

definition sent_as :: "'j codec \<Rightarrow> stream_message list \<Rightarrow> 'j outbox_row \<Rightarrow> bool" where
  "sent_as C sent r = (publish_fields C r \<in> sm_fields ` set sent)"

lemma sent_as_same_more: "lease_row.more r = lease_row.more r' \<Longrightarrow> sent_as C sent r \<longleftrightarrow> sent_as C sent r'"
  by (simp add: sent_as_def publish_fields_same_more [of r r'])

definition outbox_ok :: "'j codec \<Rightarrow> 'j outbox_row list \<Rightarrow> (string \<times> 'j outbox_row) list \<Rightarrow>
    (string \<times> 'j outbox_row \<times> publish_outcome) list \<Rightarrow> stream_message list \<Rightarrow> bool" where
  "outbox_ok C rows publishing attempted sent =
     (distinct (map ob_outbox_id rows) \<and> distinct (map ob_event_id rows) \<and> (\<forall>q\<in>set rows. genuine C q) \<and>
      (\<forall>j\<in>set publishing. lease_row.more (snd j) \<in> mores rows) \<and>
      (\<forall>j\<in>set attempted. lease_row.more (fst (snd j)) \<in> mores rows \<and>
         (snd (snd j) = Sent \<longrightarrow> sent_as C sent (fst (snd j)))) \<and>
      (\<forall>q\<in>set rows. lr_status q = ''published'' \<longrightarrow> sent_as C sent q))"

lemma outbox_ok_table:
  assumes ok: "outbox_ok C rows publishing attempted sent" and step: "table_step ''published'' rows rows'"
    and published: "\<And>q'. q' \<in> set rows' \<Longrightarrow> lr_status q' = ''published'' \<Longrightarrow> q' \<in> set rows \<or> sent_as C sent q'"
  shows "outbox_ok C rows' publishing attempted sent"
proof -
  have ids: "map ob_outbox_id rows' = map ob_outbox_id rows" by (rule outbox.ids_step [OF step])
  have same: "map lease_row.more rows' = map lease_row.more rows" by (rule outbox.more_step [OF step])
  have "map ob_event_id rows' = map ob_event_id rows"
  proof (rule nth_equalityI)
    show len: "length (map ob_event_id rows') = length (map ob_event_id rows)" using same by (metis length_map)
    fix i assume i: "i < length (map ob_event_id rows')"
    with same len have "lease_row.more (rows' ! i) = lease_row.more (rows ! i)" by (metis length_map nth_map)
    with i len show "map ob_event_id rows' ! i = map ob_event_id rows ! i" by (simp add: outbox_same_more [of "rows' ! i" "rows ! i"])
  qed
  moreover have "genuine C q'" if "q' \<in> set rows'" for q'
  proof -
    obtain q where q: "q \<in> set rows" and s: "row_step ''published'' q q'" using step \<open>q' \<in> set rows'\<close> by (rule table_step_in)
    then show ?thesis using ok genuine_same_more [OF row_step_more [OF s], of C] by (auto simp: outbox_ok_def)
  qed
  moreover have "\<forall>q\<in>set rows'. lr_status q = ''published'' \<longrightarrow> sent_as C sent q"
    using published ok unfolding outbox_ok_def by blast
  ultimately show ?thesis
    using ok ids by (simp add: outbox_ok_def mores_step [OF step])
qed

lemma outbox_ok_jobs:
  assumes "outbox_ok C rows publishing attempted sent" and "set publishing' \<subseteq> set publishing"
    and "set attempted' \<subseteq> set attempted"
  shows "outbox_ok C rows publishing' attempted' sent"
  using assms by (auto simp: outbox_ok_def)

lemma outbox_ok_sent: "outbox_ok C rows publishing attempted sent \<Longrightarrow> outbox_ok C rows publishing attempted (sent @ later)"
  by (auto simp: outbox_ok_def sent_as_def)

lemma outbox_enqueue_row:
  "outbox_enqueue rows row = Inr rows' \<Longrightarrow>
     rows' = rows @ [row] \<and> ob_outbox_id row \<notin> ob_outbox_id ` set rows \<and> ob_event_id row \<notin> ob_event_id ` set rows"
  by (auto simp: outbox_enqueue_def split: if_splits)

lemma outbox_ok_enqueue:
  assumes ok: "outbox_ok C rows publishing attempted sent" and "outbox_enqueue rows row = Inr rows'" and "genuine C row"
    and "lr_status row = ''pending''"
  shows "outbox_ok C rows' publishing attempted sent"
  using ok outbox_enqueue_row [OF assms(2)] assms(3,4) by (auto simp: outbox_ok_def)

lemma enqueue_event_row:
  assumes "enqueue_event C ambient db actor envelope audit venue new_id now = Inr (db', row)"
  shows "outbox_enqueue (ot_outbox db) row = Inr (ot_outbox db') \<and> ot_audit db' = ot_audit db @ [audit] \<and>
    row = outbox_row_of new_id (ee_event_id envelope) (ac_tenant_id actor) venue (ee_event_type envelope)
      (cd_dump C (inject_correlation ambient envelope)) now \<and> validate_envelope C (inject_correlation ambient envelope) \<and>
    (case venue of None \<Rightarrow> True | Some v \<Rightarrow> require_venue_access actor v = Inr ())"
proof -
  have "ee_event_id (inject_correlation ambient envelope) = ee_event_id envelope"
    and "ee_event_type (inject_correlation ambient envelope) = ee_event_type envelope"
    by (auto simp: inject_correlation_def split: option.splits list.splits)
  then show ?thesis
    using assms by (auto simp: enqueue_event_def Let_def venue_scope_checked_def split: option.splits sum.splits)
qed

lemma enqueue_event_genuine:
  assumes "codec_laws C" and "enqueue_event C ambient db actor envelope audit venue new_id now = Inr (db', row)"
  shows "genuine C row \<and> lr_status row = ''pending''"
proof -
  let ?e = "inject_correlation ambient envelope"
  have row: "row = outbox_row_of new_id (ee_event_id envelope) (ac_tenant_id actor) venue (ee_event_type envelope) (cd_dump C ?e) now"
    and v: "validate_envelope C ?e"
    using enqueue_event_row [OF assms(2)] by auto
  have "event_envelope_valid ?e \<and> cd_validate C (cd_dump C ?e) = Some ?e"
    using v assms(1) by (auto simp: validate_envelope_def codec_laws_def)
  moreover have "ee_event_id ?e = ee_event_id envelope" and "ee_event_type ?e = ee_event_type envelope"
    by (auto simp: inject_correlation_def split: option.splits list.splits)
  ultimately show ?thesis unfolding genuine_def row by (auto simp: outbox_row_of_def intro!: exI [of _ ?e])
qed

text \<open>Where \<open>publisher_settle\<close> leaves the table.\<close>

lemma publisher_settle_cases:
  assumes "publisher_settle S worker row outcome now draw rows = Inr (rows', ok)"
  obtains "outcome = Sent" and "(rows', ok) = settle ob_outbox_id (ob_outbox_id row) worker (finished ''published'') rows"
  | error where "outcome \<noteq> Sent" and "rows' = fst (settle ob_outbox_id (ob_outbox_id row) worker (buried error) rows)"
  | error retry_at where "outcome \<noteq> Sent"
      and "rows' = fst (settle ob_outbox_id (ob_outbox_id row) worker (failed error retry_at) rows)"
  using assms
  by (auto simp: publisher_settle_def schedule_retry_def publisher_dead_letter_def outbox_mark_published_def
      outbox_mark_failed_def outbox_mark_dead_letter_def split: publish_outcome.splits if_splits)

lemma publisher_settle_step:
  "publisher_settle S worker row outcome now draw rows = Inr (rows', ok) \<Longrightarrow> table_step ''published'' rows rows'"
  by (erule publisher_settle_cases) (metis fst_conv outbox.settle_step outbox.owned_steps)+

lemma publisher_settle_published:
  assumes "publisher_settle S worker row outcome now draw rows = Inr (rows', ok)" and "q' \<in> set rows'"
    and "lr_status q' = ''published''"
  shows "q' \<in> set rows \<or> outcome = Sent \<and> ob_outbox_id q' = ob_outbox_id row"
  using assms(1)
proof (cases rule: publisher_settle_cases)
  case 1
  have "q' \<in> set (fst (settle ob_outbox_id (ob_outbox_id row) worker (finished ''published'') rows))"
    using assms(2) 1(2) by (metis fst_conv)
  from settle_in [OF this] 1(1) show ?thesis by (auto simp: finished_def)
next
  case (2 error)
  from settle_in [OF assms(2) [unfolded 2(2)]] assms(3) show ?thesis by auto
next
  case (3 error retry_at)
  from settle_in [OF assms(2) [unfolded 3(2)]] assms(3) show ?thesis by auto
qed


subsection \<open>Messages in transit\<close>

definition transit_ok :: "'j codec \<Rightarrow> 'j outbox_row list \<Rightarrow> stream_message list \<Rightarrow> consumer_group \<Rightarrow> parsed_message list \<Rightarrow> bool" where
  "transit_ok C rows sent g relaying =
     ((\<forall>m\<in>set sent. \<exists>q\<in>set rows. sm_fields m = publish_fields C q) \<and> set (gr_unread g) \<subseteq> set sent \<and>
      fst ` set (gr_pending g) \<subseteq> set sent \<and> (\<forall>p\<in>set relaying. snd p \<in> sm_fields ` set sent))"

lemma transit_ok_rows:
  assumes ok: "transit_ok C rows sent g relaying" and m: "mores rows \<subseteq> mores rows'"
  shows "transit_ok C rows' sent g relaying"
proof -
  have "\<exists>q'\<in>set rows'. publish_fields C q = publish_fields C q'" if "q \<in> set rows" for q
  proof -
    have "lease_row.more q \<in> mores rows'" using m that by (auto simp: mores_def)
    then show ?thesis by (auto simp: mores_def intro: publish_fields_same_more)
  qed
  then show ?thesis using ok by (force simp: transit_ok_def)
qed

lemma mapM_entries: "mapM parse_entry (map entry_value ms) = Inr (map (\<lambda>m. (PyStr (sm_id m), sm_fields m)) ms)"
  by (induction ms) (simp_all add: parse_entry_def entry_value_def)

lemma parse_xreadgroup:
  "parse_entries (xreadgroup_reply stream ms) = Inr (map (\<lambda>m. (PyStr (sm_id m), sm_fields m)) ms)"
  by (cases ms) (simp_all add: parse_entries_def xreadgroup_reply_def parse_stream_def mapM_entries del: list.map)

lemma unpack_pair_length: "length vs \<noteq> 2 \<Longrightarrow> unpack_pair vs = Inl PyValueError"
  by (cases vs rule: unpack_pair.cases) auto

text \<open>A reclaimed entry is read as a stream whose entries are the keys of its fields.\<close>

lemma parse_xautoclaim:
  assumes "ms \<noteq> []" and "\<forall>m\<in>set ms. \<exists>k v rest. sm_fields m = (k, v) # rest \<and> length k \<noteq> 2"
  shows "parse_entries (xautoclaim_reply ms) = Inl PyValueError"
proof -
  obtain m rest where ms: "ms = m # rest" using assms(1) by (cases ms) auto
  then obtain k v others where m: "sm_fields m = (k, v) # others" and k: "length k \<noteq> 2" using assms(2) by auto
  have "unpack_pair (map (\<lambda>c. PyStr [c]) k) = Inl PyValueError"
    using k by (intro unpack_pair_length) simp
  then have "parse_stream (entry_value m) = Inl PyValueError"
    by (simp add: parse_stream_def entry_value_def m parse_entry_def)
  then show ?thesis by (simp add: parse_entries_def xautoclaim_reply_def ms)
qed

lemma claim_stuck_result:
  assumes "\<forall>m\<in>fst ` set (gr_pending g). \<exists>row. sm_fields m = publish_fields C (row :: 'j outbox_row)"
  shows "snd (claim_stuck idle count now g) =
     (if take count (filter (stuck idle now) (gr_pending g)) = [] then Inr [] else Inl PyValueError)"
proof (cases "take count (filter (stuck idle now) (gr_pending g)) = []")
  case True
  then show ?thesis unfolding claim_stuck_def Let_def by (simp only: True) (simp add: xautoclaim_reply_def parse_entries_def)
next
  case False
  let ?hit = "take count (filter (stuck idle now) (gr_pending g))"
  have "\<exists>k v rest. sm_fields m = (k, v) # rest \<and> length k \<noteq> 2" if "m \<in> set (map fst ?hit)" for m
  proof -
    obtain p where p: "p \<in> set ?hit" "m = fst p" using \<open>m \<in> set (map fst ?hit)\<close> by auto
    then have "m \<in> fst ` set (gr_pending g)" by (auto dest!: in_set_takeD)
    then obtain row :: "'j outbox_row" where "sm_fields m = publish_fields C row" using assms by auto
    then have "sm_fields m = (''event'', cd_dumps C (ob_payload row)) # tl (publish_fields C row)"
      by (simp add: publish_fields_def)
    moreover have "length ''event'' \<noteq> 2" by simp
    ultimately show ?thesis by blast
  qed
  then have "parse_entries (xautoclaim_reply (map fst ?hit)) = Inl PyValueError"
    using False by (intro parse_xautoclaim) auto
  then show ?thesis using False by (simp add: claim_stuck_def Let_def)
qed

lemma transit_ok_ack: "transit_ok C rows sent g relaying \<Longrightarrow> transit_ok C rows sent (ack i g) relaying"
  by (auto simp: transit_ok_def ack_def)

lemma transit_ok_acknowledged:
  "transit_ok C rows sent g relaying \<Longrightarrow> transit_ok C rows sent (acknowledged outcome i g) relaying"
  by (simp add: acknowledged_def transit_ok_ack)

lemma transit_ok_relaying:
  "transit_ok C rows sent g relaying \<Longrightarrow> set relaying' \<subseteq> set relaying \<Longrightarrow> transit_ok C rows sent g relaying'"
  by (auto simp: transit_ok_def)

lemma transit_ok_send:
  assumes ok: "transit_ok C rows sent g relaying" and "lease_row.more row \<in> mores rows"
    and m: "sm_fields m = publish_fields C row"
  shows "transit_ok C rows (sent @ [m]) (g\<lparr>gr_unread := gr_unread g @ [m]\<rparr>) relaying"
proof -
  obtain q where "q \<in> set rows" and "lease_row.more row = lease_row.more q" using assms(2) by (auto simp: mores_def)
  then have "\<exists>q\<in>set rows. sm_fields m = publish_fields C q" using m publish_fields_same_more [of row q C] by auto
  then show ?thesis using ok by (auto simp: transit_ok_def)
qed

lemma claim_stuck_group:
  "gr_unread (fst (claim_stuck idle count now g)) = gr_unread g"
  "fst ` set (gr_pending (fst (claim_stuck idle count now g))) = fst ` set (gr_pending g)"
proof -
  have "map fst (gr_pending (fst (claim_stuck idle count now g))) = map fst (gr_pending g)"
    by (simp add: claim_stuck_def Let_def)
  then show "fst ` set (gr_pending (fst (claim_stuck idle count now g))) = fst ` set (gr_pending g)"
    by (metis list.set_map)
qed (simp add: claim_stuck_def Let_def)

lemma ingress_messages_ok:
  assumes ok: "transit_ok C rows sent g relaying" and eq: "ingress_messages S now g = (g', messages)"
  shows "transit_ok C rows sent g' (case messages of Inl _ \<Rightarrow> relaying | Inr ms \<Rightarrow> relaying @ ms)"
proof -
  obtain g1 claimed where c: "claim_stuck (is_claim_idle_seconds S) (is_count S) now g = (g1, claimed)" by fastforce
  have u: "gr_unread g1 = gr_unread g" and p: "fst ` set (gr_pending g1) = fst ` set (gr_pending g)"
    using claim_stuck_group [of "is_claim_idle_seconds S" "is_count S" now g] c by simp_all
  have pending: "\<forall>m\<in>fst ` set (gr_pending g). \<exists>row. sm_fields m = publish_fields C row"
  proof
    fix m assume "m \<in> fst ` set (gr_pending g)"
    then have "m \<in> set sent" using ok unfolding transit_ok_def by blast
    then show "\<exists>row. sm_fields m = publish_fields C row" using ok unfolding transit_ok_def by blast
  qed
  have claimed: "claimed = Inr [] \<or> claimed = Inl PyValueError"
    using claim_stuck_result [OF pending, of "is_claim_idle_seconds S" "is_count S" now] c by (auto split: if_splits)
  then show ?thesis
  proof
    assume "claimed = Inl PyValueError"
    then show ?thesis using eq c u p ok by (auto simp: ingress_messages_def transit_ok_def)
  next
    assume empty: "claimed = Inr []"
    let ?ms = "take (is_count S) (gr_unread g)"
    have g': "g' = g1\<lparr>gr_unread := drop (is_count S) (gr_unread g), gr_pending := gr_pending g1 @ map (\<lambda>m. (m, now)) ?ms\<rparr>"
      and ms: "messages = Inr (map (\<lambda>m. (PyStr (sm_id m), sm_fields m)) ?ms)"
      using eq c empty by (auto simp: ingress_messages_def read_group_def Let_def parse_xreadgroup u)
    have "set ?ms \<subseteq> set sent" using ok set_take_subset by (fastforce simp: transit_ok_def)
    moreover have "set (drop (is_count S) (gr_unread g)) \<subseteq> set sent" using ok set_drop_subset by (fastforce simp: transit_ok_def)
    ultimately show ?thesis using ok p unfolding g' ms by (auto simp: transit_ok_def image_Un)
  qed
qed

subsection \<open>The inbox and the committed effects\<close>

text \<open>The row is the enqueued event: its identifier, tenant, venue, type and payload.\<close>

definition relayed :: "'j outbox_row list \<Rightarrow> 'j inbox_row \<Rightarrow> bool" where
  "relayed rows r = (\<exists>q\<in>set rows. ib_source r = SOURCE_OUTBOX \<and> ib_source_message_id r = str_uuid (ob_event_id q) \<and>
     ib_tenant_id r = ob_tenant_id q \<and> ib_venue_id r = ob_venue_id q \<and> ib_event_type r = ob_event_type q \<and>
     ib_payload r = ob_payload q)"

lemma relayed_same_more: "lease_row.more r = lease_row.more r' \<Longrightarrow> relayed rows r \<longleftrightarrow> relayed rows r'"
  by (simp add: relayed_def inbox_same_more [of r r'])

lemma relayed_rows: "relayed rows r \<Longrightarrow> mores rows \<subseteq> mores rows' \<Longrightarrow> relayed rows' r"
proof -
  assume "relayed rows r" and m: "mores rows \<subseteq> mores rows'"
  then obtain q where q: "q \<in> set rows" "ib_source r = SOURCE_OUTBOX" "ib_source_message_id r = str_uuid (ob_event_id q)"
    "ib_tenant_id r = ob_tenant_id q" "ib_venue_id r = ob_venue_id q" "ib_event_type r = ob_event_type q"
    "ib_payload r = ob_payload q" by (auto simp: relayed_def)
  obtain q' where "q' \<in> set rows'" and "lease_row.more q = lease_row.more q'" using q(1) m by (fastforce simp: mores_def)
  then show ?thesis using q(2-) by (auto simp: relayed_def outbox_same_more [of q q'])
qed

text \<open>Applying the effect of a row to the business state.\<close>

definition apply_effect :: "('j, 'b) effect_handlers \<Rightarrow> 'j inbox_row \<Rightarrow> 'b \<Rightarrow> 'b option" where
  "apply_effect handlers row b = (case handlers (ib_event_type row) of None \<Rightarrow> None
     | Some handler \<Rightarrow> (case handler row b of Inl _ \<Rightarrow> None | Inr b' \<Rightarrow> Some b'))"

fun apply_effects :: "('j, 'b) effect_handlers \<Rightarrow> 'j inbox_row list \<Rightarrow> 'b \<Rightarrow> 'b option" where
  "apply_effects handlers [] b = Some b"
| "apply_effects handlers (row # rows) b = Option.bind (apply_effect handlers row b) (apply_effects handlers rows)"

lemma apply_effects_snoc:
  "apply_effects handlers (rows @ [row]) b = Option.bind (apply_effects handlers rows b) (apply_effect handlers row)"
  by (induction rows arbitrary: b) (auto split: bind_split)

definition message_key :: "'j inbox_row \<Rightarrow> string \<times> string" where
  "message_key r = (ib_source r, ib_source_message_id r)"

definition inbox_ok :: "('j, 'b) effect_handlers \<Rightarrow> 'b \<Rightarrow> 'j outbox_row list \<Rightarrow> 'j inbox_row list \<Rightarrow> (string \<times> 'j inbox_row) list \<Rightarrow>
    'j inbox_row list \<Rightarrow> 'b \<Rightarrow> bool" where
  "inbox_ok handlers b0 rows inbox consuming committed b =
     (distinct (map ib_inbox_id inbox) \<and> distinct (map message_key inbox) \<and> (\<forall>r\<in>set inbox. relayed rows r) \<and>
      (\<forall>j\<in>set consuming. lease_row.more (snd j) \<in> mores inbox) \<and> (\<forall>r\<in>set committed. lease_row.more r \<in> mores inbox) \<and>
      distinct (map ib_inbox_id committed) \<and>
      (\<forall>r\<in>set inbox. lr_status r = ''processed'' \<longleftrightarrow> ib_inbox_id r \<in> ib_inbox_id ` set committed) \<and>
      apply_effects handlers committed b0 = Some b)"


lemma inbox_table_keys: "table_step ''processed'' inbox inbox' \<Longrightarrow> map message_key inbox' = map message_key inbox"
proof -
  assume "table_step ''processed'' inbox inbox'"
  then show ?thesis
    unfolding table_step_def
    by (induction rule: list_all2_induct) (simp_all add: message_key_def inbox_same_more(4,5) [OF row_step_more])
qed

lemma inbox_ok_table:
  assumes ok: "inbox_ok handlers b0 rows inbox consuming committed b" and step: "table_step ''processed'' inbox inbox'"
    and processed: "\<And>r'. r' \<in> set inbox' \<Longrightarrow> lr_status r' = ''processed'' \<Longrightarrow> r' \<in> set inbox"
  shows "inbox_ok handlers b0 rows inbox' consuming committed b"
proof -
  have one: "relayed rows r' \<and> (lr_status r' = ''processed'' \<longleftrightarrow> ib_inbox_id r' \<in> ib_inbox_id ` set committed)"
    if r': "r' \<in> set inbox'" for r'
  proof -
    obtain r where r: "r \<in> set inbox" and s: "row_step ''processed'' r r'" using step r' by (rule table_step_in)
    have "relayed rows r'" using ok r relayed_same_more [OF row_step_more [OF s]] by (auto simp: inbox_ok_def)
    moreover have "lr_status r = ''processed'' \<Longrightarrow> r' = r"
      using row_step_final [OF s] by (simp add: CLAIMABLE_STATUSES_def)
    moreover have "ib_inbox_id r' = ib_inbox_id r" by (rule inbox.id_step [OF s])
    ultimately show ?thesis using ok r processed [OF r'] by (auto simp: inbox_ok_def)
  qed
  then show ?thesis
    using ok inbox_table_keys [OF step] inbox.ids_step [OF step] by (simp add: inbox_ok_def mores_step [OF step])
qed

lemma inbox_ok_rows: "inbox_ok handlers b0 rows inbox consuming committed b \<Longrightarrow> mores rows \<subseteq> mores rows' \<Longrightarrow>
    inbox_ok handlers b0 rows' inbox consuming committed b"
  by (auto simp: inbox_ok_def intro: relayed_rows)

lemma inbox_ok_jobs: "inbox_ok handlers b0 rows inbox consuming committed b \<Longrightarrow> set consuming' \<subseteq> set consuming \<Longrightarrow>
    inbox_ok handlers b0 rows inbox consuming' committed b"
  by (auto simp: inbox_ok_def)

lemma inbox_ok_receive:
  assumes ok: "inbox_ok handlers b0 rows inbox consuming committed b" and "inbox_receive inbox row = (inbox', got)"
    and "relayed rows row" and "lr_status row = ''pending''" and fresh: "ib_inbox_id row \<notin> ib_inbox_id ` set inbox"
  shows "inbox_ok handlers b0 rows inbox' consuming committed b"
proof (cases "message_key row \<in> message_key ` set inbox")
  case True
  then have "inbox' = inbox" using assms(2) by (auto simp: inbox_receive_def message_key_def)
  then show ?thesis using ok by simp
next
  case False
  then have inbox': "inbox' = inbox @ [row]"
    using assms(2) by (auto simp: inbox_receive_def message_key_def image_iff split: if_splits)
  have "ib_inbox_id row \<notin> ib_inbox_id ` set committed"
  proof
    assume "ib_inbox_id row \<in> ib_inbox_id ` set committed"
    then obtain r where "r \<in> set committed" and id: "ib_inbox_id r = ib_inbox_id row" by auto
    then have "lease_row.more r \<in> mores inbox" using ok by (auto simp: inbox_ok_def)
    then obtain q where "q \<in> set inbox" and "lease_row.more r = lease_row.more q" by (auto simp: mores_def)
    then show False using fresh id inbox_same_more(1) [of r q] by (metis image_eqI)
  qed
  then show ?thesis using ok False assms(3,4) fresh by (auto simp: inbox_ok_def inbox')
qed

lemma inbox_ok_claim:
  assumes ok: "inbox_ok handlers b0 rows inbox consuming committed b"
    and eq: "inbox_claim_next locked worker batch lease now inbox = (inbox', claimed)"
  shows "inbox_ok handlers b0 rows inbox' (consuming @ map (\<lambda>r. (worker, r)) claimed) committed b"
proof -
  have inbox': "inbox' = fst (claim_rows ib_inbox_id locked worker batch lease now inbox)"
    and claimed: "claimed = snd (claim_rows ib_inbox_id locked worker batch lease now inbox)"
    using eq by (simp_all add: inbox_claim_next_def)
  have d: "distinct (map ib_inbox_id inbox)" using ok by (simp add: inbox_ok_def)
  have "inbox_ok handlers b0 rows inbox' consuming committed b"
    unfolding inbox' using claim_in [of _ ib_inbox_id] by (intro inbox_ok_table [OF ok inbox.claim_step [OF d]]) fastforce
  moreover have "lease_row.more r \<in> mores inbox'" if "r \<in> set claimed" for r
    using inbox.claimed_row [OF d, of r] that unfolding inbox' claimed by (auto simp: mores_def)
  ultimately show ?thesis by (auto simp: inbox_ok_def)
qed

text \<open>A row is processed by the commit that applies its effect, and only by it.\<close>

lemma inbox_ok_processed:
  assumes ok: "inbox_ok handlers b0 rows inbox consuming committed b"
    and known: "lease_row.more row \<in> mores inbox" and effect: "apply_effect handlers row b = Some b'"
    and mark: "inbox_mark_processed (ib_inbox_id row) worker inbox = (inbox', True)"
  shows "inbox_ok handlers b0 rows inbox' consuming (committed @ [row]) b'"
proof -
  have inbox': "inbox' = fst (settle ib_inbox_id (ib_inbox_id row) worker (finished ''processed'') inbox)"
    using mark by (simp add: inbox_mark_processed_def)
  have step: "table_step ''processed'' inbox inbox'"
    unfolding inbox' by (rule inbox.settle_step) (rule inbox.owned_steps)
  obtain q where q: "q \<in> set inbox" "ib_inbox_id q = ib_inbox_id row" "owned worker q"
    using mark by (auto simp: inbox_mark_processed_def settle_def Let_def list_ex_iff)
  have d: "distinct (map ib_inbox_id inbox)" using ok by (simp add: inbox_ok_def)
  have fresh: "ib_inbox_id row \<notin> ib_inbox_id ` set committed"
    using ok q by (auto simp: inbox_ok_def owned_def)
  have one: "relayed rows r' \<and> (lr_status r' = ''processed'' \<longleftrightarrow> ib_inbox_id r' \<in> ib_inbox_id ` set (committed @ [row]))"
    if r': "r' \<in> set inbox'" for r'
  proof -
    obtain r where r: "r \<in> set inbox" and r'_def: "r' = (if ib_inbox_id r = ib_inbox_id row \<and> owned worker r then finished ''processed'' r else r)"
      using r' by (auto simp: inbox' settle_def Let_def)
    have same: "ib_inbox_id r = ib_inbox_id row \<Longrightarrow> r = q" using d r q by (auto simp: distinct_map inj_on_def)
    have "relayed rows r'" using ok r relayed_same_more [of r' r rows] by (auto simp: inbox_ok_def r'_def)
    moreover have id: "ib_inbox_id r' = ib_inbox_id r" by (auto simp: r'_def intro: inbox_same_more)
    moreover have "lr_status r' = ''processed'' \<longleftrightarrow> ib_inbox_id r \<in> insert (ib_inbox_id row) (ib_inbox_id ` set committed)"
      using ok r q same by (auto simp: inbox_ok_def r'_def)
    ultimately show ?thesis by simp
  qed
  show ?thesis
    using ok one fresh known effect inbox_table_keys [OF step] inbox.ids_step [OF step]
    by (auto simp: inbox_ok_def mores_step [OF step] apply_effects_snoc)
qed

lemma effect_failed_cases:
  obtains "effect_failed S worker row error now draw rows = rows"
  | msg where "effect_failed S worker row error now draw rows = fst (settle ib_inbox_id (ib_inbox_id row) worker (buried msg) rows)"
  | msg t where "effect_failed S worker row error now draw rows = fst (settle ib_inbox_id (ib_inbox_id row) worker (failed msg t) rows)"
proof (cases error)
  case (NonRetryableEffect msg)
  then show thesis by (intro that(2)) (simp add: effect_failed_def inbox_mark_dead_letter_def)
next
  case (RetryableEffect msg)
  show thesis
  proof (cases "ws_max_attempts S \<le> lr_attempts row")
    case True
    then show thesis using RetryableEffect by (intro that(2)) (simp add: effect_failed_def inbox_mark_dead_letter_def)
  next
    case False
    show thesis
    proof (cases "compute_backoff_delay (lr_attempts row) (ws_backoff_base S) (ws_backoff_max S) (ws_backoff_jitter S) draw")
      case (Inl e)
      then show thesis using RetryableEffect False by (intro that(1)) (simp add: effect_failed_def)
    next
      case (Inr delay)
      then show thesis using RetryableEffect False by (intro that(3)) (simp add: effect_failed_def inbox_mark_failed_def)
    qed
  qed
qed

lemma inbox_ok_settled:
  assumes ok: "inbox_ok handlers b0 rows inbox consuming committed b"
    and step: "\<And>r. owned worker r \<Longrightarrow> row_step ''processed'' r (f r)" and "\<And>r. lr_status (f r) \<noteq> ''processed''"
  shows "inbox_ok handlers b0 rows (fst (settle ib_inbox_id i worker f inbox)) consuming committed b"
proof (rule inbox_ok_table [OF ok inbox.settle_step])
  show "owned worker r \<Longrightarrow> row_step ''processed'' r (f r)" for r by (rule step)
  show "r' \<in> set inbox" if "r' \<in> set (fst (settle ib_inbox_id i worker f inbox))" and "lr_status r' = ''processed''" for r'
    using settle_in [OF that(1)] that(2) assms(3) by auto
qed

lemma inbox_ok_effect_failed:
  assumes ok: "inbox_ok handlers b0 rows inbox consuming committed b"
  shows "inbox_ok handlers b0 rows (effect_failed S worker row error now draw inbox) consuming committed b"
  by (cases S worker row error now draw inbox rule: effect_failed_cases)
    (simp_all add: ok inbox_ok_settled [OF ok] inbox.owned_steps)

lemma inbox_ok_process_row:
  assumes ok: "inbox_ok handlers b0 rows inbox consuming committed b" and known: "lease_row.more row \<in> mores inbox"
    and eq: "process_row S handlers worker row now draw (inbox, b) = ((inbox', b'), marked)"
  shows "inbox_ok handlers b0 rows inbox' consuming (if marked then committed @ [row] else committed) b'"
proof (cases "handlers (ib_event_type row)")
  case None
  then have "inbox' = fst (settle ib_inbox_id (ib_inbox_id row) worker (buried ''no effect handler registered'') inbox)"
    and "b' = b" and "\<not> marked"
    using eq by (simp_all add: process_row_def inbox_mark_dead_letter_def)
  then show ?thesis by (simp add: inbox_ok_settled [OF ok] inbox.owned_steps)
next
  case (Some handler)
  show ?thesis
  proof (cases "handler row b")
    case (Inl error)
    then have "inbox' = effect_failed S worker row error now draw inbox" and "b' = b" and "\<not> marked"
      using eq Some by (simp_all add: process_row_def)
    then show ?thesis by (simp add: inbox_ok_effect_failed [OF ok])
  next
    case (Inr b1)
    obtain rows' mark where m: "inbox_mark_processed (ib_inbox_id row) worker inbox = (rows', mark)" by fastforce
    have effect: "apply_effect handlers row b = Some b1" using Some Inr by (simp add: apply_effect_def)
    show ?thesis
    proof (cases mark)
      case True
      then have "inbox' = rows'" and "b' = b1" and "marked" using eq Some Inr m by (simp_all add: process_row_def)
      then show ?thesis using inbox_ok_processed [OF ok known effect] m True by simp
    next
      case False
      then have "inbox' = inbox" and "b' = b" and "\<not> marked" using eq Some Inr m by (simp_all add: process_row_def)
      then show ?thesis using ok by simp
    qed
  qed
qed

subsection \<open>The whole system\<close>

definition delivery_ok :: "('j, 'b) delivery_env \<Rightarrow> 'b \<Rightarrow> ('j, 'b) delivery_log \<Rightarrow> bool" where
  "delivery_ok E b0 s =
     (outbox_ok (de_codec E) (ot_outbox (dl_tables s)) (dl_publishing s) (dl_attempted s) (dl_sent s) \<and>
      transit_ok (de_codec E) (ot_outbox (dl_tables s)) (dl_sent s) (dl_group s) (dl_relaying s) \<and>
      inbox_ok (de_handlers E) b0 (ot_outbox (dl_tables s)) (dl_inbox s) (dl_consuming s) (dl_committed s) (dl_business s))"

lemma delivery_start_ok: "delivery_ok E b0 (delivery_start b0)"
  by (simp add: delivery_ok_def delivery_start_def outbox_ok_def transit_ok_def inbox_ok_def)

lemma delivery_ok_outbox:
  assumes ok: "delivery_ok E b0 s" and "outbox_ok (de_codec E) rows publishing attempted (dl_sent s)"
    and "mores (ot_outbox (dl_tables s)) \<subseteq> mores rows"
  shows "delivery_ok E b0 (s\<lparr>dl_tables := (dl_tables s)\<lparr>ot_outbox := rows\<rparr>, dl_publishing := publishing, dl_attempted := attempted\<rparr>)"
  using assms by (auto simp: delivery_ok_def intro: transit_ok_rows inbox_ok_rows)

lemma enqueue_action_ok:
  assumes "codec_laws (de_codec E)" and ok: "delivery_ok E b0 s"
  shows "delivery_ok E b0 (enqueue_action E s actor ambient envelope audit venue new_id now)"
proof (cases "enqueue_event (de_codec E) ambient (dl_tables s) actor envelope audit venue new_id now")
  case (Inl e)
  then show ?thesis using ok by (simp add: enqueue_action_def)
next
  case (Inr p)
  then obtain db row where eq: "enqueue_event (de_codec E) ambient (dl_tables s) actor envelope audit venue new_id now = Inr (db, row)"
    by (cases p) auto
  have enq: "outbox_enqueue (ot_outbox (dl_tables s)) row = Inr (ot_outbox db)" using enqueue_event_row [OF eq] by blast
  have "outbox_ok (de_codec E) (ot_outbox db) (dl_publishing s) (dl_attempted s) (dl_sent s)"
    using outbox_ok_enqueue [OF _ enq] enqueue_event_genuine [OF assms(1) eq] ok by (auto simp: delivery_ok_def)
  moreover have "mores (ot_outbox (dl_tables s)) \<subseteq> mores (ot_outbox db)"
    using outbox_enqueue_row [OF enq] by auto
  ultimately show ?thesis
    using ok eq by (auto simp: delivery_ok_def enqueue_action_def intro: transit_ok_rows inbox_ok_rows)
qed

lemma claim_outbox_action_ok:
  assumes ok: "delivery_ok E b0 s"
  shows "delivery_ok E b0 (claim_outbox_action E s worker locked now)"
proof -
  let ?rows = "ot_outbox (dl_tables s)"
  let ?claim = "claim_rows ob_outbox_id locked worker (ws_batch_size (de_outbox_settings E))
    (ws_lease_seconds (de_outbox_settings E)) now ?rows"
  have o: "outbox_ok (de_codec E) ?rows (dl_publishing s) (dl_attempted s) (dl_sent s)" using ok by (simp add: delivery_ok_def)
  then have d: "distinct (map ob_outbox_id ?rows)" by (simp add: outbox_ok_def)
  have "outbox_ok (de_codec E) (fst ?claim) (dl_publishing s) (dl_attempted s) (dl_sent s)"
    using claim_in [of _ ob_outbox_id] by (intro outbox_ok_table [OF o outbox.claim_step [OF d]]) fastforce
  moreover have "lease_row.more r \<in> mores (fst ?claim)" if "r \<in> set (snd ?claim)" for r
    using outbox.claimed_row [OF d that] by (auto simp: mores_def)
  ultimately have "outbox_ok (de_codec E) (fst ?claim) (dl_publishing s @ map (\<lambda>r. (worker, r)) (snd ?claim)) (dl_attempted s) (dl_sent s)"
    by (auto simp: outbox_ok_def)
  from delivery_ok_outbox [OF ok this] mores_step [OF outbox.claim_step [OF d]]
  show ?thesis by (simp add: claim_outbox_action_def outbox_claim_next_def split_beta Let_def)
qed

lemma attempt_action_ok:
  assumes ok: "delivery_ok E b0 s"
  shows "delivery_ok E b0 (attempt_action E s i outcome message_id)"
proof (cases "length (dl_publishing s) \<le> i")
  case True
  then show ?thesis using ok by (simp add: attempt_action_def)
next
  case False
  obtain worker row where job: "dl_publishing s ! i = (worker, row)" by fastforce
  then have "(worker, row) \<in> set (dl_publishing s)" using False by (metis nth_mem not_le)
  then have row: "lease_row.more row \<in> mores (ot_outbox (dl_tables s))"
    using ok by (force simp: delivery_ok_def outbox_ok_def)
  have o: "outbox_ok (de_codec E) (ot_outbox (dl_tables s)) (remove_nth i (dl_publishing s)) (dl_attempted s) (dl_sent s)"
    using ok by (auto simp: delivery_ok_def intro: outbox_ok_jobs dest: set_remove_nth [THEN subsetD])
  show ?thesis
  proof (cases "outcome = Sent")
    case True
    let ?m = "\<lparr>sm_id = message_id, sm_fields = publish_fields (de_codec E) row\<rparr>"
    have "outbox_ok (de_codec E) (ot_outbox (dl_tables s)) (remove_nth i (dl_publishing s))
        (dl_attempted s @ [(worker, row, Sent)]) (dl_sent s @ [?m])"
      using outbox_ok_sent [OF o, of "[?m]"] row by (auto simp: outbox_ok_def sent_as_def)
    moreover have "transit_ok (de_codec E) (ot_outbox (dl_tables s)) (dl_sent s @ [?m])
        ((dl_group s)\<lparr>gr_unread := gr_unread (dl_group s) @ [?m]\<rparr>) (dl_relaying s)"
      using ok row by (intro transit_ok_send [where row = row]) (auto simp: delivery_ok_def)
    ultimately show ?thesis
      using ok False True job by (simp add: attempt_action_def delivery_ok_def Let_def)
  next
    case other: False
    have "outbox_ok (de_codec E) (ot_outbox (dl_tables s)) (remove_nth i (dl_publishing s))
        (dl_attempted s @ [(worker, row, outcome)]) (dl_sent s)"
      using o row other by (auto simp: outbox_ok_def)
    then show ?thesis
      using ok False other job by (simp add: attempt_action_def delivery_ok_def Let_def)
  qed
qed

lemma settle_action_ok:
  assumes ok: "delivery_ok E b0 s"
  shows "delivery_ok E b0 (settle_action E s i now draw)"
proof (cases "length (dl_attempted s) \<le> i")
  case True
  then show ?thesis using ok by (simp add: settle_action_def)
next
  case False
  obtain worker row outcome where job: "dl_attempted s ! i = (worker, row, outcome)" by (metis prod_cases3)
  then have "(worker, row, outcome) \<in> set (dl_attempted s)" using False by (metis nth_mem not_le)
  then have row: "lease_row.more row \<in> mores (ot_outbox (dl_tables s))" and sent: "outcome = Sent \<Longrightarrow> sent_as (de_codec E) (dl_sent s) row"
    using ok by (force simp: delivery_ok_def outbox_ok_def)+
  have o: "outbox_ok (de_codec E) (ot_outbox (dl_tables s)) (dl_publishing s) (remove_nth i (dl_attempted s)) (dl_sent s)"
    using ok by (auto simp: delivery_ok_def intro: outbox_ok_jobs dest: set_remove_nth [THEN subsetD])
  show ?thesis
  proof (cases "publisher_settle (de_outbox_settings E) worker row outcome now draw (ot_outbox (dl_tables s))")
    case (Inl e)
    then show ?thesis using ok o False job by (simp add: settle_action_def delivery_ok_def)
  next
    case (Inr p)
    then obtain rows mark where p: "publisher_settle (de_outbox_settings E) worker row outcome now draw (ot_outbox (dl_tables s)) = Inr (rows, mark)"
      by (cases p) auto
    note step = publisher_settle_step [OF p]
    have "q' \<in> set (ot_outbox (dl_tables s)) \<or> sent_as (de_codec E) (dl_sent s) q'"
      if q': "q' \<in> set rows" and published: "lr_status q' = ''published''" for q'
    proof -
      obtain q where q: "q \<in> set (ot_outbox (dl_tables s))" "row_step ''published'' q q'" using step q' by (rule table_step_in)
      obtain r where r: "r \<in> set (ot_outbox (dl_tables s))" "lease_row.more row = lease_row.more r" using row by (auto simp: mores_def)
      have "ob_outbox_id q' = ob_outbox_id row \<Longrightarrow> q = r"
        using o q(1) r(1) outbox.id_step [OF q(2)] outbox_same_more(1) [OF r(2)]
        by (auto simp: outbox_ok_def distinct_map inj_on_def)
      then have "ob_outbox_id q' = ob_outbox_id row \<Longrightarrow> lease_row.more q' = lease_row.more row"
        using row_step_more [OF q(2)] r(2) by simp
      then show ?thesis
        using publisher_settle_published [OF p q' published] sent sent_as_same_more by blast
    qed
    then have "outbox_ok (de_codec E) rows (dl_publishing s) (remove_nth i (dl_attempted s)) (dl_sent s)"
      by (rule outbox_ok_table [OF o step])
    moreover have "mores (ot_outbox (dl_tables s)) \<subseteq> mores rows" by (simp add: mores_step [OF step])
    ultimately show ?thesis
      using ok False job p by (auto simp: settle_action_def delivery_ok_def Let_def intro: transit_ok_rows inbox_ok_rows)
  qed
qed

lemma read_action_ok:
  assumes ok: "delivery_ok E b0 s"
  shows "delivery_ok E b0 (read_action E s now)"
proof -
  obtain g messages where eq: "ingress_messages (de_ingress_settings E) now (dl_group s) = (g, messages)" by fastforce
  have "transit_ok (de_codec E) (ot_outbox (dl_tables s)) (dl_sent s) g
      (case messages of Inl _ \<Rightarrow> dl_relaying s | Inr ms \<Rightarrow> dl_relaying s @ ms)"
    using ok by (intro ingress_messages_ok [OF _ eq]) (simp add: delivery_ok_def)
  then show ?thesis using ok eq by (cases messages) (simp_all add: read_action_def delivery_ok_def)
qed

lemma read_message_genuine:
  assumes laws: "codec_laws C" and "genuine C q"
  obtains e where "cd_validate C (cd_dump C e) = Some e" and "ob_payload q = cd_dump C e" and "ob_event_id q = ee_event_id e"
    and "ob_event_type q = ee_event_type e" and "read_message C (publish_fields C q) = Inr (e, ob_tenant_id q, ob_venue_id q)"
proof -
  obtain e where e: "cd_validate C (cd_dump C e) = Some e" "ob_payload q = cd_dump C e" "ob_event_id q = ee_event_id e"
    "ob_event_type q = ee_event_type e" using assms(2) by (auto simp: genuine_def)
  have "parse_envelope C (publish_fields C q) = Inr e"
    using laws e(1,2) by (simp add: parse_envelope_def publish_fields_def codec_laws_def)
  moreover have "map_of (publish_fields C q) ''tenant_id'' = Some (str_uuid (ob_tenant_id q))"
    by (simp add: publish_fields_def)
  moreover have "map_of (publish_fields C q) ''venue_id'' = map_option str_uuid (ob_venue_id q)"
    by (simp add: publish_fields_def split: option.split)
  moreover have "str_uuid u \<noteq> ''''" for u
    using length_str_uuid [of u] by (metis list.size(3) zero_neq_numeral)
  ultimately have "read_message C (publish_fields C q) = Inr (e, ob_tenant_id q, ob_venue_id q)"
    using laws by (cases "ob_venue_id q") (simp_all add: read_message_def message_uuid_def codec_laws_def)
  with e that show thesis by blast
qed

lemma receive_event_genuine:
  assumes "codec_laws C" and "cd_validate C (cd_dump C e) = Some e"
  shows "receive_event C rows source e tenant venue new_id now = Inr (inbox_receive rows
    (inbox_row_of new_id source (str_uuid (ee_event_id e)) tenant venue (ee_event_type e) (cd_dump C e) now))"
  using assms by (simp add: receive_event_def validate_envelope_def codec_laws_def)

text \<open>Handling a genuine message: it is stored unless it was already, and only a committed insert is acknowledged.\<close>

lemma handle_genuine:
  assumes laws: "codec_laws C" and q: "genuine C q"
  obtains e where "cd_validate C (cd_dump C e) = Some e" and "ob_payload q = cd_dump C e" and "ob_event_id q = ee_event_id e"
    and "ob_event_type q = ee_event_type e"
    and "handle_message C outcome (mid, publish_fields C q) new_id now (g, inbox) =
      (if ro_committed outcome then ((acknowledged outcome mid g, fst (inbox_receive inbox
         (inbox_row_of new_id SOURCE_OUTBOX (str_uuid (ob_event_id q)) (ob_tenant_id q) (ob_venue_id q) (ob_event_type q)
           (ob_payload q) now))), ro_acknowledged outcome)
       else ((g, inbox), False))"
proof -
  obtain e where e: "cd_validate C (cd_dump C e) = Some e" "ob_payload q = cd_dump C e" "ob_event_id q = ee_event_id e"
    "ob_event_type q = ee_event_type e" "read_message C (publish_fields C q) = Inr (e, ob_tenant_id q, ob_venue_id q)"
    using read_message_genuine [OF assms] by metis
  have "handle_message C outcome (mid, publish_fields C q) new_id now (g, inbox) =
      (if ro_committed outcome then ((acknowledged outcome mid g, fst (inbox_receive inbox
         (inbox_row_of new_id SOURCE_OUTBOX (str_uuid (ob_event_id q)) (ob_tenant_id q) (ob_venue_id q) (ob_event_type q)
           (ob_payload q) now))), ro_acknowledged outcome)
       else ((g, inbox), False))"
    unfolding handle_message_def e(2-4)
    by (simp add: e(5) receive_event_genuine [OF laws e(1)] split: prod.split)
  with e(1-4) that show thesis by blast
qed

lemma handle_genuine_eq:
  assumes "codec_laws C" and "genuine C q"
  shows "handle_message C outcome (mid, publish_fields C q) new_id now (g, inbox) =
      (if ro_committed outcome then ((acknowledged outcome mid g, fst (inbox_receive inbox
         (inbox_row_of new_id SOURCE_OUTBOX (str_uuid (ob_event_id q)) (ob_tenant_id q) (ob_venue_id q) (ob_event_type q)
           (ob_payload q) now))), ro_acknowledged outcome)
       else ((g, inbox), False))"
  by (rule handle_genuine [OF assms])

lemma relay_action_ok:
  assumes laws: "codec_laws (de_codec E)" and ok: "delivery_ok E b0 s"
  shows "delivery_ok E b0 (relay_action E s i outcome new_id now)"
proof (cases "length (dl_relaying s) \<le> i \<or> new_id \<in> set (map ib_inbox_id (dl_inbox s))")
  case True
  then show ?thesis using ok by (auto simp: relay_action_def)
next
  case False
  let ?C = "de_codec E" and ?rows = "ot_outbox (dl_tables s)"
  obtain mid attrs where job: "dl_relaying s ! i = (mid, attrs)" by fastforce
  then have "(mid, attrs) \<in> set (dl_relaying s)" using False by (metis nth_mem not_le)
  then have "attrs \<in> sm_fields ` set (dl_sent s)" using ok by (force simp: delivery_ok_def transit_ok_def)
  then obtain q where q: "q \<in> set ?rows" and attrs: "attrs = publish_fields ?C q"
    using ok by (auto simp: delivery_ok_def transit_ok_def)
  have "genuine ?C q" using ok q by (auto simp: delivery_ok_def outbox_ok_def)
  let ?row = "inbox_row_of new_id SOURCE_OUTBOX (str_uuid (ob_event_id q)) (ob_tenant_id q) (ob_venue_id q) (ob_event_type q)
    (ob_payload q) now"
  have h: "handle_message ?C outcome (mid, attrs) new_id now (dl_group s, dl_inbox s) =
      (if ro_committed outcome then ((acknowledged outcome mid (dl_group s), fst (inbox_receive (dl_inbox s) ?row)), ro_acknowledged outcome)
       else ((dl_group s, dl_inbox s), False))"
    unfolding attrs by (rule handle_genuine [OF laws \<open>genuine ?C q\<close>])
  have t: "transit_ok ?C ?rows (dl_sent s) (dl_group s) (remove_nth i (dl_relaying s))"
    by (rule transit_ok_relaying [OF _ set_remove_nth]) (use ok in \<open>simp add: delivery_ok_def\<close>)
  have i: "inbox_ok (de_handlers E) b0 ?rows (dl_inbox s) (dl_consuming s) (dl_committed s) (dl_business s)"
    using ok by (simp add: delivery_ok_def)
  have relayed: "relayed ?rows ?row" using q by (auto simp: relayed_def inbox_row_of_def)
  have pending: "lr_status ?row = ''pending''" and fresh: "ib_inbox_id ?row \<notin> ib_inbox_id ` set (dl_inbox s)"
    using False by (auto simp: inbox_row_of_def)
  have "inbox_receive (dl_inbox s) ?row = (fst (inbox_receive (dl_inbox s) ?row), snd (inbox_receive (dl_inbox s) ?row))" by simp
  from inbox_ok_receive [OF i this relayed pending fresh]
  have "inbox_ok (de_handlers E) b0 ?rows (fst (inbox_receive (dl_inbox s) ?row)) (dl_consuming s) (dl_committed s) (dl_business s)" .
  then show ?thesis
    using ok False job t h by (auto simp: relay_action_def delivery_ok_def intro: transit_ok_acknowledged)
qed

lemma claim_inbox_action_ok: "delivery_ok E b0 s \<Longrightarrow> delivery_ok E b0 (claim_inbox_action E s worker locked now)"
  by (auto simp: claim_inbox_action_def delivery_ok_def split_beta Let_def intro: inbox_ok_claim)

lemma process_action_ok:
  assumes ok: "delivery_ok E b0 s"
  shows "delivery_ok E b0 (process_action E s i committed now draw)"
proof (cases "length (dl_consuming s) \<le> i")
  case True
  then show ?thesis using ok by (simp add: process_action_def)
next
  case False
  obtain worker row where job: "dl_consuming s ! i = (worker, row)" by fastforce
  then have "(worker, row) \<in> set (dl_consuming s)" using False by (metis nth_mem not_le)
  then have row: "lease_row.more row \<in> mores (dl_inbox s)" using ok by (force simp: delivery_ok_def inbox_ok_def)
  have i: "inbox_ok (de_handlers E) b0 (ot_outbox (dl_tables s)) (dl_inbox s) (remove_nth i (dl_consuming s)) (dl_committed s) (dl_business s)"
    by (rule inbox_ok_jobs [OF _ set_remove_nth]) (use ok in \<open>simp add: delivery_ok_def\<close>)
  obtain inbox business mark where p: "process_row (de_inbox_settings E) (de_handlers E) worker row now draw (dl_inbox s, dl_business s) =
      ((inbox, business), mark)" by (metis surj_pair)
  from inbox_ok_process_row [OF i row p] show ?thesis
    using ok i False job p by (auto simp: process_action_def delivery_ok_def Let_def)
qed

lemma crash_ok: "delivery_ok E b0 s \<Longrightarrow> delivery_ok E b0 (deliver E s (Crash worker))"
  by (auto simp: delivery_ok_def intro: outbox_ok_jobs inbox_ok_jobs)

lemma crash_bridge_ok: "delivery_ok E b0 s \<Longrightarrow> delivery_ok E b0 (deliver E s CrashBridge)"
  by (auto simp: delivery_ok_def transit_ok_def)

lemmas action_ok = claim_outbox_action_ok attempt_action_ok settle_action_ok read_action_ok claim_inbox_action_ok
  process_action_ok crash_ok crash_bridge_ok

lemma deliver_ok: "codec_laws (de_codec E) \<Longrightarrow> delivery_ok E b0 s \<Longrightarrow> delivery_ok E b0 (deliver E s a)"
  using action_ok [of E b0 s] enqueue_action_ok [of E b0 s] relay_action_ok [of E b0 s] by (cases a) auto

lemma delivery_run_ok: "codec_laws (de_codec E) \<Longrightarrow> delivery_ok E b0 s \<Longrightarrow> delivery_ok E b0 (delivery_run E s acts)"
  unfolding delivery_run_def by (induction acts arbitrary: s) (simp_all add: deliver_ok)

lemma delivery_reachable_ok: "codec_laws (de_codec E) \<Longrightarrow> delivery_ok E b0 (delivery_run E (delivery_start b0) acts)"
  by (rule delivery_run_ok) (simp_all add: delivery_start_ok)

subsection \<open>What an action does to the tables\<close>

lemma outbox_after:
  assumes ok: "delivery_ok E b0 s"
  shows "table_step ''published'' (ot_outbox (dl_tables s)) (ot_outbox (dl_tables (deliver E s a))) \<or>
    (\<exists>row. ot_outbox (dl_tables (deliver E s a)) = ot_outbox (dl_tables s) @ [row])"
proof (cases a)
  case (Enqueue actor ambient envelope audit venue new_id now)
  then show ?thesis
    by (auto simp: enqueue_action_def split: sum.splits prod.splits dest!: enqueue_event_row outbox_enqueue_row)
next
  case (ClaimOutbox worker locked now)
  have "distinct (map ob_outbox_id (ot_outbox (dl_tables s)))" using ok by (simp add: delivery_ok_def outbox_ok_def)
  from outbox.claim_step [OF this] show ?thesis
    by (simp add: ClaimOutbox claim_outbox_action_def outbox_claim_next_def split_beta Let_def)
next
  case (SettleAttempt i now draw)
  then show ?thesis
    by (auto simp: settle_action_def Let_def split: prod.splits sum.splits dest: publisher_settle_step)
qed (auto simp: attempt_action_def read_action_def relay_action_def claim_inbox_action_def process_action_def Let_def
    split: prod.splits sum.splits)

lemma process_row_table:
  assumes "process_row S handlers worker row now draw (inbox, b) = ((inbox', b'), marked)"
  shows "table_step ''processed'' inbox inbox'"
proof (cases "handlers (ib_event_type row)")
  case None
  then have "inbox' = fst (settle ib_inbox_id (ib_inbox_id row) worker (buried ''no effect handler registered'') inbox)"
    using assms by (simp add: process_row_def inbox_mark_dead_letter_def)
  then show ?thesis by (simp add: inbox.settle_step inbox.owned_steps)
next
  case (Some handler)
  show ?thesis
  proof (cases "handler row b")
    case (Inl error)
    then have "inbox' = effect_failed S worker row error now draw inbox" using assms Some by (simp add: process_row_def)
    then show ?thesis
      by (cases S worker row error now draw inbox rule: effect_failed_cases)
        (simp_all add: inbox.settle_step inbox.owned_steps)
  next
    case (Inr b1)
    have "table_step ''processed'' inbox (fst (inbox_mark_processed (ib_inbox_id row) worker inbox))"
      unfolding inbox_mark_processed_def by (rule inbox.settle_step) (rule inbox.owned_steps)
    then show ?thesis using assms Some Inr by (auto simp: process_row_def split: prod.splits if_splits)
  qed
qed

lemma inbox_after:
  assumes ok: "delivery_ok E b0 s"
  shows "table_step ''processed'' (dl_inbox s) (dl_inbox (deliver E s a)) \<or>
    (\<exists>row. dl_inbox (deliver E s a) = dl_inbox s @ [row])"
proof (cases a)
  case (Relay i outcome new_id now)
  show ?thesis
  proof (cases "length (dl_relaying s) \<le> i \<or> new_id \<in> set (map ib_inbox_id (dl_inbox s))")
    case False
    obtain g rows handled where h: "handle_message (de_codec E) outcome (dl_relaying s ! i) new_id now (dl_group s, dl_inbox s) =
        ((g, rows), handled)" by (metis surj_pair)
    then have "rows = dl_inbox s \<or> (\<exists>row. rows = dl_inbox s @ [row])"
      by (auto simp: handle_message_def receive_event_def inbox_receive_def ensure_def split: prod.splits sum.splits if_splits)
    then show ?thesis using False h Relay by (auto simp: relay_action_def)
  qed (auto simp: Relay relay_action_def)
next
  case (ClaimInbox worker locked now)
  have "distinct (map ib_inbox_id (dl_inbox s))" using ok by (simp add: delivery_ok_def inbox_ok_def)
  from inbox.claim_step [OF this] show ?thesis
    by (simp add: ClaimInbox claim_inbox_action_def inbox_claim_next_def split_beta Let_def)
next
  case (Process i committed now draw)
  then show ?thesis
    by (auto simp: process_action_def Let_def split: prod.splits dest: process_row_table)
qed (auto simp: enqueue_action_def claim_outbox_action_def attempt_action_def settle_action_def read_action_def Let_def
    split: prod.splits sum.splits)

lemma table_step_row:
  assumes "table_step final rows rows'" and "final \<notin> set CLAIMABLE_STATUSES" and "r \<in> set rows"
  shows "\<exists>r'\<in>set rows'. lease_row.more r' = lease_row.more r \<and> status_change_allowed final (lr_status r) (lr_status r') \<and>
    (lr_status r \<in> {final, ''dead_letter''} \<longrightarrow> r' = r)"
proof -
  obtain r' where "r' \<in> set rows'" and s: "row_step final r r'" using assms(1,3) by (rule table_step_from)
  then show ?thesis using row_step_more [OF s] row_step_trigger [OF s] row_step_final [OF s assms(2)] by auto
qed

lemma row_kept:
  assumes "table_step final rows rows' \<or> (\<exists>row. rows' = rows @ [row])" and "final \<notin> set CLAIMABLE_STATUSES" and "r \<in> set rows"
  shows "\<exists>r'\<in>set rows'. lease_row.more r' = lease_row.more r \<and> status_change_allowed final (lr_status r) (lr_status r') \<and>
    (lr_status r \<in> {final, ''dead_letter''} \<longrightarrow> r' = r)"
  using assms(1)
proof
  assume "table_step final rows rows'"
  from table_step_row [OF this assms(2,3)] show ?thesis .
next
  assume "\<exists>row. rows' = rows @ [row]"
  then show ?thesis using assms(3) by (auto simp: status_change_allowed_def)
qed

subsection \<open>Exactly once\<close>

lemma delivery_effects:
  assumes "delivery_ok E b0 s"
  shows "apply_effects (de_handlers E) (dl_committed s) b0 = Some (dl_business s) \<and>
    distinct (map message_key (dl_committed s)) \<and> (\<forall>r\<in>set (dl_committed s). relayed (ot_outbox (dl_tables s)) r) \<and>
    distinct (map message_key (dl_inbox s)) \<and>
    (\<forall>r\<in>set (dl_inbox s). lr_status r = ''processed'' \<longleftrightarrow> message_key r \<in> message_key ` set (dl_committed s))"
proof -
  let ?inbox = "dl_inbox s" and ?committed = "dl_committed s"
  have ok: "inbox_ok (de_handlers E) b0 (ot_outbox (dl_tables s)) ?inbox (dl_consuming s) ?committed (dl_business s)"
    using assms by (simp add: delivery_ok_def)
  have origin: "\<exists>q\<in>set ?inbox. lease_row.more q = lease_row.more r" if "r \<in> set ?committed" for r
    using ok that by (fastforce simp: inbox_ok_def mores_def)
  have key_id: "message_key r = message_key r' \<longleftrightarrow> ib_inbox_id r = ib_inbox_id r'"
    if "r \<in> set ?inbox \<union> set ?committed" and "r' \<in> set ?inbox \<union> set ?committed" for r r'
  proof -
    obtain q where q: "q \<in> set ?inbox" "lease_row.more q = lease_row.more r" using \<open>r \<in> _\<close> origin by auto
    obtain q' where q': "q' \<in> set ?inbox" "lease_row.more q' = lease_row.more r'" using \<open>r' \<in> _\<close> origin by auto
    have "message_key q = message_key q' \<longleftrightarrow> q = q'" and "ib_inbox_id q = ib_inbox_id q' \<longleftrightarrow> q = q'"
      using ok q(1) q'(1) by (auto simp: inbox_ok_def distinct_map inj_on_def)
    then show ?thesis by (simp add: message_key_def inbox_same_more [OF q(2)] inbox_same_more [OF q'(2)])
  qed
  have "distinct (map message_key ?committed)"
    using ok key_id by (auto simp: inbox_ok_def distinct_map inj_on_def)
  moreover have "relayed (ot_outbox (dl_tables s)) r" if "r \<in> set ?committed" for r
    using origin [OF that] ok relayed_same_more by (metis inbox_ok_def)
  moreover have "lr_status r = ''processed'' \<longleftrightarrow> message_key r \<in> message_key ` set ?committed" if "r \<in> set ?inbox" for r
  proof -
    have "lr_status r = ''processed'' \<longleftrightarrow> ib_inbox_id r \<in> ib_inbox_id ` set ?committed" using ok that by (simp add: inbox_ok_def)
    also have "\<dots> \<longleftrightarrow> message_key r \<in> message_key ` set ?committed" using key_id that by (auto simp: image_iff)
    finally show ?thesis .
  qed
  ultimately show ?thesis using ok by (simp add: inbox_ok_def)
qed

text \<open>
  C9: Effects happen exactly once. Whatever the producers, publishers, bridges and consumers do, in any interleaving, with
  failed and repeated calls of the broker, lost claims, lost transactions and crashes: the business state is the result of
  applying the committed rows one after the other, no message is committed twice, a row is marked processed exactly when
  its effect was committed, and every committed row is an event that was enqueued, with its tenant, venue and payload.
\<close>

theorem effects_exactly_once:
  assumes "codec_laws (de_codec E)" and "s = delivery_run E (delivery_start b0) acts"
  shows "apply_effects (de_handlers E) (dl_committed s) b0 = Some (dl_business s) \<and>
    distinct (map message_key (dl_committed s)) \<and> (\<forall>r\<in>set (dl_committed s). relayed (ot_outbox (dl_tables s)) r) \<and>
    distinct (map message_key (dl_inbox s)) \<and>
    (\<forall>r\<in>set (dl_inbox s). lr_status r = ''processed'' \<longleftrightarrow> message_key r \<in> message_key ` set (dl_committed s))"
  using delivery_effects [OF delivery_reachable_ok [OF assms(1)]] unfolding assms(2) .

subsection \<open>Durability\<close>

text \<open>
  Nothing is lost and nothing is rewritten. One action keeps every row of the outbox and of the inbox with its
  identifier, tenant and payload; the status changes only as the triggers of the database allow, so that no update is
  ever refused; published, processed and dead-lettered rows never change again; and a row is marked published only after
  its event was handed to the stream.
\<close>

theorem rows_durable:
  assumes "codec_laws (de_codec E)" and "s = delivery_run E (delivery_start b0) acts" and "s' = deliver E s a"
  shows "(\<forall>q\<in>set (ot_outbox (dl_tables s)). \<exists>q'\<in>set (ot_outbox (dl_tables s')). lease_row.more q' = lease_row.more q \<and>
      status_change_allowed ''published'' (lr_status q) (lr_status q') \<and>
      (lr_status q \<in> {''published'', ''dead_letter''} \<longrightarrow> q' = q)) \<and>
    (\<forall>r\<in>set (dl_inbox s). \<exists>r'\<in>set (dl_inbox s'). lease_row.more r' = lease_row.more r \<and>
      status_change_allowed ''processed'' (lr_status r) (lr_status r') \<and>
      (lr_status r \<in> {''processed'', ''dead_letter''} \<longrightarrow> r' = r)) \<and>
    (\<forall>q\<in>set (ot_outbox (dl_tables s')). lr_status q = ''published'' \<longrightarrow> sent_as (de_codec E) (dl_sent s') q)"
proof -
  have ok: "delivery_ok E b0 s" unfolding assms(2) by (rule delivery_reachable_ok [OF assms(1)])
  have "delivery_ok E b0 s'" unfolding assms(3) by (rule deliver_ok [OF assms(1) ok])
  then have "\<forall>q\<in>set (ot_outbox (dl_tables s')). lr_status q = ''published'' \<longrightarrow> sent_as (de_codec E) (dl_sent s') q"
    by (simp add: delivery_ok_def outbox_ok_def)
  moreover have "''published'' \<notin> set CLAIMABLE_STATUSES" and "''processed'' \<notin> set CLAIMABLE_STATUSES"
    by (simp_all add: CLAIMABLE_STATUSES_def)
  ultimately show ?thesis
    using row_kept [OF outbox_after [OF ok]] row_kept [OF inbox_after [OF ok]] unfolding assms(3) by blast
qed

subsection \<open>Messages that the bridge failed to store\<close>

lemma fields_event: "publish_fields C r = publish_fields C q \<Longrightarrow> ob_event_id r = ob_event_id q"
proof -
  assume eq: "publish_fields C r = publish_fields C q"
  have id: "map_of (publish_fields C r) ''event_id'' = Some (str_uuid (ob_event_id r))" for r by (simp add: publish_fields_def)
  have "str_uuid (ob_event_id r) = str_uuid (ob_event_id q)" using id [of r] id [of q] eq by simp
  then show ?thesis by (simp add: str_uuid_inj)
qed

text \<open>The event is published, no copy of its message is to be read or relayed, and it is not in the inbox: what is left of
  it is at most pending in the group.\<close>

definition stranded :: "'j codec \<Rightarrow> ('j, 'b) delivery_log \<Rightarrow> 'j outbox_row \<Rightarrow> bool" where
  "stranded C s q =
     (q \<in> set (ot_outbox (dl_tables s)) \<and> lr_status q = ''published'' \<and>
      (\<forall>j\<in>set (dl_publishing s). ob_event_id (snd j) \<noteq> ob_event_id q) \<and>
      (\<forall>m\<in>set (gr_unread (dl_group s)). sm_fields m \<noteq> publish_fields C q) \<and>
      (\<forall>p\<in>set (dl_relaying s). snd p \<noteq> publish_fields C q) \<and>
      (\<forall>r\<in>set (dl_inbox s). ib_source_message_id r \<noteq> str_uuid (ob_event_id q)))"

lemma same_event: "delivery_ok E b0 s \<Longrightarrow> q \<in> set (ot_outbox (dl_tables s)) \<Longrightarrow> r \<in> set (ot_outbox (dl_tables s)) \<Longrightarrow>
    ob_event_id r = ob_event_id q \<Longrightarrow> r = q"
  by (auto simp: delivery_ok_def outbox_ok_def distinct_map inj_on_def)

lemma inbox_keys_kept:
  assumes "table_step ''processed'' (dl_inbox s) inbox'" and "stranded C s q" and r': "r' \<in> set inbox'"
  shows "ib_source_message_id r' \<noteq> str_uuid (ob_event_id q)"
proof -
  obtain r where r: "r \<in> set (dl_inbox s)" and st: "row_step ''processed'' r r'" using assms(1) r' by (rule table_step_in)
  have "ib_source_message_id r' = ib_source_message_id r" by (rule inbox_same_more(5) [OF row_step_more [OF st]])
  then show ?thesis using assms(2) r by (simp add: stranded_def)
qed

lemma stranded_claim:
  assumes ok: "delivery_ok E b0 s" and st: "stranded (de_codec E) s q"
  shows "\<forall>j\<in>set (dl_publishing (claim_outbox_action E s worker locked now)). ob_event_id (snd j) \<noteq> ob_event_id q"
proof
  let ?S = "de_outbox_settings E"
  let ?claimed = "snd (claim_rows ob_outbox_id locked worker (ws_batch_size ?S) (ws_lease_seconds ?S) now (ot_outbox (dl_tables s)))"
  fix j assume "j \<in> set (dl_publishing (claim_outbox_action E s worker locked now))"
  then consider "j \<in> set (dl_publishing s)" | "snd j \<in> set ?claimed"
    by (auto simp: claim_outbox_action_def outbox_claim_next_def split_beta Let_def)
  then show "ob_event_id (snd j) \<noteq> ob_event_id q"
  proof cases
    case 1
    then show ?thesis using st by (simp add: stranded_def)
  next
    case 2
    from claimed_in [OF 2] obtain r where r: "r \<in> set (ot_outbox (dl_tables s))" "due now r"
      and "snd j = leased worker (after now (ws_lease_seconds ?S * 1000000)) r" by auto
    then have "ob_event_id (snd j) = ob_event_id r" by (simp add: leased_def)
    moreover have "r \<noteq> q" using r(2) st by (auto simp: due_def stranded_def CLAIMABLE_STATUSES_def)
    ultimately show ?thesis using same_event [OF ok _ r(1)] st by (auto simp: stranded_def)
  qed
qed

lemma stranded_read:
  assumes ok: "delivery_ok E b0 s" and st: "stranded (de_codec E) s q"
  shows "stranded (de_codec E) (read_action E s now) q"
proof -
  let ?S = "de_ingress_settings E" and ?g = "dl_group s"
  obtain g1 claimed where c: "claim_stuck (is_claim_idle_seconds ?S) (is_count ?S) now ?g = (g1, claimed)" by fastforce
  have u: "gr_unread g1 = gr_unread ?g" using claim_stuck_group(1) [of "is_claim_idle_seconds ?S" "is_count ?S" now ?g] c by simp
  have pending: "\<forall>m\<in>fst ` set (gr_pending ?g). \<exists>row. sm_fields m = publish_fields (de_codec E) row"
    using ok unfolding delivery_ok_def transit_ok_def by blast
  have "claimed = Inr [] \<or> claimed = Inl PyValueError"
    using claim_stuck_result [OF pending, of "is_claim_idle_seconds ?S" "is_count ?S" now] c by (auto split: if_splits)
  then show ?thesis
  proof
    assume "claimed = Inl PyValueError"
    then have "read_action E s now = s\<lparr>dl_group := g1\<rparr>" using c by (simp add: read_action_def ingress_messages_def)
    then show ?thesis using st u by (simp add: stranded_def)
  next
    assume "claimed = Inr []"
    then have r: "gr_unread (dl_group (read_action E s now)) = drop (is_count ?S) (gr_unread ?g)"
      and rel: "dl_relaying (read_action E s now) =
        dl_relaying s @ map (\<lambda>m. (PyStr (sm_id m), sm_fields m)) (take (is_count ?S) (gr_unread ?g))"
      and same: "dl_tables (read_action E s now) = dl_tables s" "dl_publishing (read_action E s now) = dl_publishing s"
        "dl_inbox (read_action E s now) = dl_inbox s"
      using c u by (simp_all add: read_action_def ingress_messages_def read_group_def Let_def parse_xreadgroup)
    show ?thesis
      using st unfolding stranded_def r rel same by (auto dest: in_set_takeD in_set_dropD)
  qed
qed

lemma stranded_relay:
  assumes laws: "codec_laws (de_codec E)" and ok: "delivery_ok E b0 s" and st: "stranded (de_codec E) s q"
  shows "stranded (de_codec E) (relay_action E s i outcome new_id now) q"
proof (cases "length (dl_relaying s) \<le> i \<or> new_id \<in> set (map ib_inbox_id (dl_inbox s))")
  case True
  then show ?thesis using st by (auto simp: relay_action_def)
next
  case False
  let ?C = "de_codec E"
  obtain mid attrs where job: "dl_relaying s ! i = (mid, attrs)" by fastforce
  then have job_in: "(mid, attrs) \<in> set (dl_relaying s)" using False by (metis nth_mem not_le)
  then have "attrs \<in> sm_fields ` set (dl_sent s)" using ok by (force simp: delivery_ok_def transit_ok_def)
  then obtain p where p: "p \<in> set (ot_outbox (dl_tables s))" and attrs: "attrs = publish_fields ?C p"
    using ok by (auto simp: delivery_ok_def transit_ok_def)
  have "genuine ?C p" using ok p by (auto simp: delivery_ok_def outbox_ok_def)
  have "p \<noteq> q" using st job_in attrs by (auto simp: stranded_def)
  then have other: "str_uuid (ob_event_id p) \<noteq> str_uuid (ob_event_id q)"
    using same_event [OF ok _ p] st by (auto simp: stranded_def str_uuid_inj)
  let ?row = "inbox_row_of new_id SOURCE_OUTBOX (str_uuid (ob_event_id p)) (ob_tenant_id p) (ob_venue_id p) (ob_event_type p)
    (ob_payload p) now"
  have h: "handle_message ?C outcome (mid, attrs) new_id now (dl_group s, dl_inbox s) =
      (if ro_committed outcome then ((acknowledged outcome mid (dl_group s), fst (inbox_receive (dl_inbox s) ?row)), ro_acknowledged outcome)
       else ((dl_group s, dl_inbox s), False))"
    unfolding attrs by (rule handle_genuine [OF laws \<open>genuine ?C p\<close>])
  have inbox: "ib_source_message_id r \<noteq> str_uuid (ob_event_id q)" if "r \<in> set (fst (inbox_receive (dl_inbox s) ?row))" for r
    using that st other by (auto simp: inbox_receive_def stranded_def inbox_row_of_def split: if_splits)
  have unread: "gr_unread (acknowledged outcome mid (dl_group s)) = gr_unread (dl_group s)"
    by (simp add: acknowledged_def ack_def)
  have rest: "\<forall>x\<in>set (remove_nth i (dl_relaying s)). snd x \<noteq> publish_fields ?C q"
    using st set_remove_nth [of i "dl_relaying s"] by (auto simp: stranded_def)
  show ?thesis
    using st inbox rest False job h by (auto simp: relay_action_def stranded_def unread)
qed

lemma stranded_step:
  assumes laws: "codec_laws (de_codec E)" and ok: "delivery_ok E b0 s" and st: "stranded (de_codec E) s q"
  shows "stranded (de_codec E) (deliver E s a) q"
proof -
  have "''published'' \<notin> set CLAIMABLE_STATUSES" by (simp add: CLAIMABLE_STATUSES_def)
  from row_kept [OF outbox_after [OF ok, of a] this, of q]
  have kept: "q \<in> set (ot_outbox (dl_tables (deliver E s a)))" using st by (auto simp: stranded_def)
  show ?thesis
  proof (cases a)
    case (Enqueue actor ambient envelope audit venue new_id now)
    then show ?thesis using st kept
      by (auto simp: stranded_def enqueue_action_def split: sum.splits prod.splits)
  next
    case (ClaimOutbox worker locked now)
    then show ?thesis
      using st kept stranded_claim [OF ok st, of worker locked now]
      by (simp add: stranded_def claim_outbox_action_def split_beta Let_def)
  next
    case (Attempt i outcome message_id)
    show ?thesis
    proof (cases "length (dl_publishing s) \<le> i")
      case True
      then show ?thesis using st Attempt by (simp add: attempt_action_def)
    next
      case False
      obtain worker row where job: "dl_publishing s ! i = (worker, row)" by fastforce
      then have "(worker, row) \<in> set (dl_publishing s)" using False by (metis nth_mem not_le)
      then have "publish_fields (de_codec E) row \<noteq> publish_fields (de_codec E) q"
        using st fields_event by (fastforce simp: stranded_def)
      moreover have "\<forall>j\<in>set (remove_nth i (dl_publishing s)). ob_event_id (snd j) \<noteq> ob_event_id q"
        using st set_remove_nth [of i "dl_publishing s"] by (auto simp: stranded_def)
      ultimately show ?thesis using st Attempt False job by (auto simp: attempt_action_def stranded_def Let_def)
    qed
  next
    case (SettleAttempt i now draw)
    then show ?thesis using st kept by (auto simp: settle_action_def stranded_def Let_def split: prod.splits sum.splits)
  next
    case (ReadStream now)
    then show ?thesis using stranded_read [OF ok st] by simp
  next
    case (Relay i outcome new_id now)
    then show ?thesis using stranded_relay [OF laws ok st] by simp
  next
    case (ClaimInbox worker locked now)
    have "distinct (map ib_inbox_id (dl_inbox s))" using ok by (simp add: delivery_ok_def inbox_ok_def)
    from inbox_keys_kept [OF inbox.claim_step [OF this] st] show ?thesis
      using st ClaimInbox by (simp add: stranded_def claim_inbox_action_def inbox_claim_next_def split_beta Let_def)
  next
    case (Process i committed now draw)
    show ?thesis
    proof (cases "length (dl_consuming s) \<le> i \<or> \<not> committed")
      case True
      then show ?thesis using st Process by (auto simp: process_action_def stranded_def Let_def split: prod.splits)
    next
      case False
      obtain worker row where job: "dl_consuming s ! i = (worker, row)" by fastforce
      obtain rows business mark where p: "process_row (de_inbox_settings E) (de_handlers E) worker row now draw (dl_inbox s, dl_business s) =
          ((rows, business), mark)" by (metis surj_pair)
      from inbox_keys_kept [OF process_row_table [OF p] st] show ?thesis
        using st Process False job p by (auto simp: process_action_def stranded_def Let_def)
    qed
  next
    case (Crash worker)
    then show ?thesis using st by (simp add: stranded_def)
  next
    case CrashBridge
    then show ?thesis using st by (simp add: stranded_def)
  qed
qed

lemma stranded_run:
  "codec_laws (de_codec E) \<Longrightarrow> delivery_ok E b0 s \<Longrightarrow> stranded (de_codec E) s q \<Longrightarrow> stranded (de_codec E) (delivery_run E s acts) q"
  unfolding delivery_run_def by (induction acts arbitrary: s) (simp_all add: deliver_ok stranded_step)


subsection \<open>The deployed consumer\<close>

text \<open>
  The consumer that is deployed has no handlers: whatever is enqueued and delivered, no effect is ever committed and the
  business state never changes; a claimed message is dead-lettered the moment it is processed.
\<close>

theorem deployed_consumer_discards:
  assumes "codec_laws (de_codec E)" and "de_handlers E = deployed_handlers" and "s = delivery_run E (delivery_start b0) acts"
  shows "dl_committed s = [] \<and> dl_business s = b0 \<and> (\<forall>r\<in>set (dl_inbox s). lr_status r \<noteq> ''processed'') \<and>
    (\<forall>i worker row r now draw. i < length (dl_consuming s) \<and> dl_consuming s ! i = (worker, row) \<and> r \<in> set (dl_inbox s) \<and>
       ib_inbox_id r = ib_inbox_id row \<and> owned worker r \<longrightarrow>
       buried ''no effect handler registered'' r \<in> set (dl_inbox (deliver E s (Process i True now draw))))"
proof -
  have effects: "apply_effects (de_handlers E) (dl_committed s) b0 = Some (dl_business s)"
    and processed: "\<forall>r\<in>set (dl_inbox s). lr_status r = ''processed'' \<longleftrightarrow> message_key r \<in> message_key ` set (dl_committed s)"
    using delivery_effects [OF delivery_reachable_ok [OF assms(1), of b0 acts]] unfolding assms(3) by blast+
  have none: "apply_effect (de_handlers E) row b = None" for row b
    by (simp add: apply_effect_def assms(2) deployed_handlers_def)
  have empty: "dl_committed s = []" using effects by (cases "dl_committed s") (simp_all add: none)
  have "buried ''no effect handler registered'' r \<in> set (dl_inbox (deliver E s (Process i True now draw)))"
    if "i < length (dl_consuming s)" and "dl_consuming s ! i = (worker, row)" and "r \<in> set (dl_inbox s)"
      and "ib_inbox_id r = ib_inbox_id row" and "owned worker r" for i worker row r now draw
    using that
    by (force simp: process_action_def process_row_def assms(2) deployed_handlers_def inbox_mark_dead_letter_def settle_def Let_def)
  then show ?thesis using effects processed empty by simp
qed

subsection \<open>Delivery of one event\<close>

text \<open>Nothing is in flight and no row is due.\<close>

definition idle :: "datetime \<Rightarrow> ('j, 'b) delivery_log \<Rightarrow> bool" where
  "idle t s = (dl_publishing s = [] \<and> dl_attempted s = [] \<and> dl_relaying s = [] \<and> dl_consuming s = [] \<and>
     dl_group s = \<lparr>gr_unread = [], gr_pending = []\<rparr> \<and> (\<forall>q\<in>set (ot_outbox (dl_tables s)). \<not> due t q) \<and>
     (\<forall>r\<in>set (dl_inbox s). \<not> due t r))"

lemma claim_only:
  assumes "\<forall>r\<in>set old. \<not> due now r" and "due now row" and "0 < batch" and "row_id row \<notin> row_id ` set old"
  shows "claim_rows row_id {} worker batch lease now (old @ [row]) =
    (old @ [leased worker (after now (lease * 1000000)) row], [leased worker (after now (lease * 1000000)) row])"
proof -
  have "filter (\<lambda>r. due now r \<and> row_id r \<notin> {}) (old @ [row]) = [row]" using assms(1,2) by (auto simp: filter_empty_conv)
  then have "selected row_id {} batch now (old @ [row]) = [row]" using assms(3) by (simp add: selected_def)
  moreover have "\<forall>r\<in>set old. row_id r \<noteq> row_id row" using assms(4) by (metis image_eqI)
  then have "map (\<lambda>r. if row_id r = row_id row then leased worker t r else r) old = old" for t
    by (intro map_idI) simp
  ultimately show ?thesis by (simp add: claim_rows_def Let_def)
qed

lemma settle_only:
  assumes "row_id row \<notin> row_id ` set old" and "owned worker row"
  shows "settle row_id (row_id row) worker f (old @ [row]) = (old @ [f row], True)"
proof -
  have "\<forall>r\<in>set old. row_id r \<noteq> row_id row" using assms(1) by (metis image_eqI)
  then have "map (\<lambda>r. if row_id r = row_id row \<and> owned worker r then f r else r) old = old"
    by (intro map_idI) simp
  then show ?thesis using assms by (simp add: settle_def Let_def)
qed

lemma owned_leased [simp]: "owned worker (leased worker until r)"
  by (simp add: owned_def leased_def)

lemma ids_leased [simp]: "ob_outbox_id (leased worker until q) = ob_outbox_id q" "ib_inbox_id (leased worker until r) = ib_inbox_id r"
  by (simp_all add: leased_def)

lemma publisher_cycle_delivers:
  assumes outbox: "ot_outbox (dl_tables s) = old @ [row]" and "\<forall>r\<in>set old. \<not> due t r" and "due t row"
    and "ob_outbox_id row \<notin> ob_outbox_id ` set old" and "0 < ws_batch_size (de_outbox_settings E)"
    and jobs: "dl_publishing s = []" "dl_attempted s = []"
  shows "delivery_run E s (publisher_cycle worker {} t [(Sent, mid, t, draw)]) =
    (let m = \<lparr>sm_id = mid, sm_fields = publish_fields (de_codec E) row\<rparr>;
         sent = finished ''published'' (leased worker (after t (ws_lease_seconds (de_outbox_settings E) * 1000000)) row)
     in s\<lparr>dl_tables := (dl_tables s)\<lparr>ot_outbox := old @ [sent]\<rparr>,
          dl_group := (dl_group s)\<lparr>gr_unread := gr_unread (dl_group s) @ [m]\<rparr>, dl_sent := dl_sent s @ [m]\<rparr>)"
proof -
  let ?lease = "ws_lease_seconds (de_outbox_settings E)"
  let ?leased = "leased worker (after t (?lease * 1000000)) row"
  let ?m = "\<lparr>sm_id = mid, sm_fields = publish_fields (de_codec E) row\<rparr>"
  have claim: "deliver E s (ClaimOutbox worker {} t) =
      s\<lparr>dl_tables := (dl_tables s)\<lparr>ot_outbox := old @ [?leased]\<rparr>, dl_publishing := [(worker, ?leased)]\<rparr>"
    using claim_only [of old t row "ws_batch_size (de_outbox_settings E)" ob_outbox_id worker ?lease] assms(2-5) jobs
    by (simp add: claim_outbox_action_def outbox_claim_next_def outbox)
  have fields: "publish_fields (de_codec E) ?leased = publish_fields (de_codec E) row"
    by (rule publish_fields_same_more) simp
  have attempt: "deliver E (s\<lparr>dl_tables := (dl_tables s)\<lparr>ot_outbox := old @ [?leased]\<rparr>, dl_publishing := [(worker, ?leased)]\<rparr>)
      (Attempt 0 Sent mid) =
      s\<lparr>dl_tables := (dl_tables s)\<lparr>ot_outbox := old @ [?leased]\<rparr>, dl_publishing := [], dl_attempted := [(worker, ?leased, Sent)],
        dl_group := (dl_group s)\<lparr>gr_unread := gr_unread (dl_group s) @ [?m]\<rparr>, dl_sent := dl_sent s @ [?m]\<rparr>"
    using jobs by (simp add: attempt_action_def remove_nth_def Let_def fields)
  have settle: "settle ob_outbox_id (ob_outbox_id row) worker (finished ''published'') (old @ [?leased]) =
      (old @ [finished ''published'' ?leased], True)"
    using settle_only [of ob_outbox_id ?leased old worker "finished ''published''"] assms(4) by simp
  show ?thesis
    using jobs unfolding delivery_run_def publisher_cycle_def
    by (simp add: claim attempt del: deliver.simps)
      (simp add: settle_action_def publisher_settle_def outbox_mark_published_def settle remove_nth_def Let_def)
qed

lemma ingress_cycle_delivers:
  assumes laws: "codec_laws (de_codec E)" and q: "genuine (de_codec E) q" and fields: "sm_fields m = publish_fields (de_codec E) q"
    and group: "dl_group s = \<lparr>gr_unread = [m], gr_pending = []\<rparr>" and "dl_relaying s = []"
    and "0 < is_count (de_ingress_settings E)" and "iid \<notin> ib_inbox_id ` set (dl_inbox s)"
    and new: "(SOURCE_OUTBOX, str_uuid (ob_event_id q)) \<notin> message_key ` set (dl_inbox s)"
  shows "delivery_run E s (ingress_cycle t [(\<lparr>ro_committed = True, ro_acknowledged = True\<rparr>, iid, t)]) =
    s\<lparr>dl_group := \<lparr>gr_unread = [], gr_pending = []\<rparr>, dl_inbox := dl_inbox s @ [inbox_row_of iid SOURCE_OUTBOX
      (str_uuid (ob_event_id q)) (ob_tenant_id q) (ob_venue_id q) (ob_event_type q) (ob_payload q) t]\<rparr>"
proof -
  let ?row = "inbox_row_of iid SOURCE_OUTBOX (str_uuid (ob_event_id q)) (ob_tenant_id q) (ob_venue_id q) (ob_event_type q)
    (ob_payload q) t"
  let ?s1 = "s\<lparr>dl_group := \<lparr>gr_unread = [], gr_pending = [(m, t)]\<rparr>, dl_relaying := [(PyStr (sm_id m), sm_fields m)]\<rparr>"
  have read: "deliver E s (ReadStream t) = ?s1"
    using assms(5,6) by (simp add: read_action_def ingress_messages_def claim_stuck_def read_group_def group Let_def
        xautoclaim_reply_def parse_entries_def [of "PyList []"] parse_xreadgroup take_Cons' drop_Cons')
  have receive: "inbox_receive (dl_inbox s) ?row = (dl_inbox s @ [?row], Some ?row)"
    using new by (auto simp: inbox_receive_def message_key_def inbox_row_of_def)
  have "handle_message (de_codec E) \<lparr>ro_committed = True, ro_acknowledged = True\<rparr> (PyStr (sm_id m), publish_fields (de_codec E) q) iid t
      (\<lparr>gr_unread = [], gr_pending = [(m, t)]\<rparr>, dl_inbox s) = ((\<lparr>gr_unread = [], gr_pending = []\<rparr>, dl_inbox s @ [?row]), True)"
    by (simp add: handle_genuine_eq [OF laws q] receive acknowledged_def ack_def)
  then have relay: "deliver E ?s1 (Relay 0 \<lparr>ro_committed = True, ro_acknowledged = True\<rparr> iid t) =
      s\<lparr>dl_group := \<lparr>gr_unread = [], gr_pending = []\<rparr>, dl_inbox := dl_inbox s @ [?row]\<rparr>"
    using assms(5,7) by (simp add: relay_action_def fields remove_nth_def)
  show ?thesis unfolding delivery_run_def ingress_cycle_def by (simp add: read relay del: deliver.simps)
qed

lemma consumer_cycle_delivers:
  assumes inbox: "dl_inbox s = old @ [row]" and "\<forall>r\<in>set old. \<not> due t r" and "due t row"
    and "ib_inbox_id row \<notin> ib_inbox_id ` set old" and "0 < ws_batch_size (de_inbox_settings E)" and jobs: "dl_consuming s = []"
    and effect: "apply_effect (de_handlers E) (leased worker (after t (ws_lease_seconds (de_inbox_settings E) * 1000000)) row)
      (dl_business s) = Some b'"
  shows "delivery_run E s (consumer_cycle worker {} t [(True, t, draw)]) =
    (let claimed = leased worker (after t (ws_lease_seconds (de_inbox_settings E) * 1000000)) row
     in s\<lparr>dl_inbox := old @ [finished ''processed'' claimed], dl_business := b', dl_committed := dl_committed s @ [claimed]\<rparr>)"
proof -
  let ?lease = "ws_lease_seconds (de_inbox_settings E)"
  let ?leased = "leased worker (after t (?lease * 1000000)) row"
  have claim: "deliver E s (ClaimInbox worker {} t) = s\<lparr>dl_inbox := old @ [?leased], dl_consuming := [(worker, ?leased)]\<rparr>"
    using claim_only [of old t row "ws_batch_size (de_inbox_settings E)" ib_inbox_id worker ?lease] assms(2-5) jobs
    by (simp add: claim_inbox_action_def inbox_claim_next_def inbox)
  have settle: "settle ib_inbox_id (ib_inbox_id row) worker (finished ''processed'') (old @ [?leased]) =
      (old @ [finished ''processed'' ?leased], True)"
    using settle_only [of ib_inbox_id ?leased old worker "finished ''processed''"] assms(4) by simp
  obtain handler where h: "de_handlers E (ib_event_type ?leased) = Some handler" and b': "handler ?leased (dl_business s) = Inr b'"
    using effect by (auto simp: apply_effect_def split: option.splits sum.splits)
  have "process_row (de_inbox_settings E) (de_handlers E) worker ?leased t draw (old @ [?leased], dl_business s) =
      ((old @ [finished ''processed'' ?leased], b'), True)"
    by (simp add: process_row_def h b' inbox_mark_processed_def settle)
  then show ?thesis
    using jobs unfolding delivery_run_def consumer_cycle_def
    by (simp add: claim del: deliver.simps) (simp add: process_action_def remove_nth_def Let_def)
qed

lemma event_delivered_parts:
  fixes E :: "('j, 'b) delivery_env"
  assumes laws: "codec_laws (de_codec E)" and s: "s = delivery_run E (delivery_start b0) acts" and idle: "idle t s"
    and enqueue: "enqueue_event (de_codec E) ambient (dl_tables s) actor envelope audit venue oid t = Inr (tables, q)"
    and sizes: "0 < ws_batch_size (de_outbox_settings E)" "0 < ws_batch_size (de_inbox_settings E)"
      "0 < is_count (de_ingress_settings E)"
    and iid: "iid \<notin> ib_inbox_id ` set (dl_inbox s)"
    and claimed: "claimed = leased consumer (after t (ws_lease_seconds (de_inbox_settings E) * 1000000))
      (inbox_row_of iid SOURCE_OUTBOX (str_uuid (ob_event_id q)) (ob_tenant_id q) (ob_venue_id q) (ob_event_type q) (ob_payload q) t)"
    and effect: "apply_effect (de_handlers E) claimed (dl_business s) = Some b'"
    and u: "u = delivery_run E s (Enqueue actor ambient envelope audit venue oid t #
      publisher_cycle publisher {} t [(Sent, mid, t, 0)] @
      ingress_cycle t [(\<lparr>ro_committed = True, ro_acknowledged = True\<rparr>, iid, t)] @ consumer_cycle consumer {} t [(True, t, 0)])"
  shows "dl_business u = b' \<and> dl_committed u = dl_committed s @ [claimed] \<and>
    (\<exists>q'\<in>set (ot_outbox (dl_tables u)). lease_row.more q' = lease_row.more q \<and> lr_status q' = ''published'') \<and>
    finished ''processed'' claimed \<in> set (dl_inbox u) \<and> dl_publishing u = [] \<and> dl_attempted u = [] \<and>
    dl_relaying u = [] \<and> dl_consuming u = [] \<and> dl_group u = \<lparr>gr_unread = [], gr_pending = []\<rparr>"
proof -
  let ?C = "de_codec E"
  let ?row = "inbox_row_of iid SOURCE_OUTBOX (str_uuid (ob_event_id q)) (ob_tenant_id q) (ob_venue_id q) (ob_event_type q) (ob_payload q) t"
  let ?m = "\<lparr>sm_id = mid, sm_fields = publish_fields ?C q\<rparr>"
  let ?q = "finished ''published'' (leased publisher (after t (ws_lease_seconds (de_outbox_settings E) * 1000000)) q)"
  define s1 where "s1 = s\<lparr>dl_tables := tables\<rparr>"
  define s2 where "s2 = s1\<lparr>dl_tables := tables\<lparr>ot_outbox := ot_outbox (dl_tables s) @ [?q]\<rparr>,
     dl_group := \<lparr>gr_unread = [?m], gr_pending = []\<rparr>, dl_sent := dl_sent s @ [?m]\<rparr>"
  define s3 where "s3 = s2\<lparr>dl_group := \<lparr>gr_unread = [], gr_pending = []\<rparr>, dl_inbox := dl_inbox s @ [?row]\<rparr>"
  have ok: "delivery_ok E b0 s" unfolding s by (rule delivery_reachable_ok [OF laws])
  have enq: "outbox_enqueue (ot_outbox (dl_tables s)) q = Inr (ot_outbox tables)"
    and q: "q = outbox_row_of oid (ee_event_id envelope) (ac_tenant_id actor) venue (ee_event_type envelope)
      (cd_dump ?C (inject_correlation ambient envelope)) t"
    using enqueue_event_row [OF enqueue] by blast+
  note fresh = outbox_enqueue_row [OF enq]
  have genuine: "genuine ?C q" using enqueue_event_genuine [OF laws enqueue] by simp
  have idle': "dl_publishing s = []" "dl_attempted s = []" "dl_relaying s = []" "dl_consuming s = []"
    "dl_group s = \<lparr>gr_unread = [], gr_pending = []\<rparr>" "\<forall>p\<in>set (ot_outbox (dl_tables s)). \<not> due t p"
    "\<forall>r\<in>set (dl_inbox s). \<not> due t r" using idle by (simp_all add: idle_def)
  have due: "due t q" "due t ?row"
    by (simp_all add: q outbox_row_of_def inbox_row_of_def due_def CLAIMABLE_STATUSES_def dt_less_def)
  have new: "(SOURCE_OUTBOX, str_uuid (ob_event_id q)) \<notin> message_key ` set (dl_inbox s)"
  proof
    assume "(SOURCE_OUTBOX, str_uuid (ob_event_id q)) \<in> message_key ` set (dl_inbox s)"
    then obtain r where "r \<in> set (dl_inbox s)" and r: "ib_source_message_id r = str_uuid (ob_event_id q)"
      by (auto simp: message_key_def)
    then have "relayed (ot_outbox (dl_tables s)) r" using ok by (simp add: delivery_ok_def inbox_ok_def)
    then have "\<exists>p\<in>set (ot_outbox (dl_tables s)). ob_event_id p = ob_event_id q" using r by (auto simp: relayed_def str_uuid_inj)
    then show False using fresh by (metis image_eqI)
  qed
  have "deliver E s (Enqueue actor ambient envelope audit venue oid t) = s1"
    by (simp add: enqueue_action_def enqueue s1_def)
  moreover have "delivery_run E s1 (publisher_cycle publisher {} t [(Sent, mid, t, 0)]) = s2"
    using publisher_cycle_delivers [of s1 "ot_outbox (dl_tables s)" q t E publisher mid 0] fresh due sizes idle'
    by (simp add: s1_def s2_def Let_def)
  moreover have "delivery_run E s2 (ingress_cycle t [(\<lparr>ro_committed = True, ro_acknowledged = True\<rparr>, iid, t)]) = s3"
    using ingress_cycle_delivers [OF laws genuine, of ?m s2 iid t] new iid sizes idle' by (simp add: s1_def s2_def s3_def)
  moreover have final: "delivery_run E s3 (consumer_cycle consumer {} t [(True, t, 0)]) =
      s3\<lparr>dl_inbox := dl_inbox s @ [finished ''processed'' claimed], dl_business := b', dl_committed := dl_committed s @ [claimed]\<rparr>"
    using consumer_cycle_delivers [of s3 "dl_inbox s" ?row t E consumer b' 0] idle' due sizes iid effect
    by (simp add: s1_def s2_def s3_def claimed inbox_row_of_def Let_def)
  ultimately have "u = s3\<lparr>dl_inbox := dl_inbox s @ [finished ''processed'' claimed], dl_business := b',
      dl_committed := dl_committed s @ [claimed]\<rparr>"
    unfolding u by (simp add: delivery_run_def)
  then show ?thesis using idle' by (simp add: s1_def s2_def s3_def)
qed

text \<open>
  C10: An enqueued event is delivered. From every reachable state in which nothing is in flight and no older row is due, the
  cycles of the publisher, of the bridge and of the consumer, one each and without failures, commit the effect of the event
  exactly once (where its handler succeeds on the business state), leave its outbox row published and its inbox row processed,
  and leave nothing in flight.
\<close>

theorem event_delivered:
  fixes E :: "('j, 'b) delivery_env"
  assumes laws: "codec_laws (de_codec E)" and s: "s = delivery_run E (delivery_start b0) acts" and idle: "idle t s"
    and enqueue: "enqueue_event (de_codec E) ambient (dl_tables s) actor envelope audit venue oid t = Inr (tables, q)"
    and sizes: "0 < ws_batch_size (de_outbox_settings E)" "0 < ws_batch_size (de_inbox_settings E)"
      "0 < is_count (de_ingress_settings E)"
    and iid: "iid \<notin> ib_inbox_id ` set (dl_inbox s)"
    and claimed: "claimed = leased consumer (after t (ws_lease_seconds (de_inbox_settings E) * 1000000))
      (inbox_row_of iid SOURCE_OUTBOX (str_uuid (ob_event_id q)) (ob_tenant_id q) (ob_venue_id q) (ob_event_type q) (ob_payload q) t)"
    and effect: "apply_effect (de_handlers E) claimed (dl_business s) = Some b'"
    and u: "u = delivery_run E s (Enqueue actor ambient envelope audit venue oid t #
      publisher_cycle publisher {} t [(Sent, mid, t, 0)] @
      ingress_cycle t [(\<lparr>ro_committed = True, ro_acknowledged = True\<rparr>, iid, t)] @ consumer_cycle consumer {} t [(True, t, 0)])"
  shows "dl_business u = b' \<and> dl_committed u = dl_committed s @ [claimed] \<and>
    (\<exists>q'\<in>set (ot_outbox (dl_tables u)). lease_row.more q' = lease_row.more q \<and> lr_status q' = ''published'') \<and>
    finished ''processed'' claimed \<in> set (dl_inbox u) \<and> dl_publishing u = [] \<and> dl_attempted u = [] \<and>
    dl_relaying u = [] \<and> dl_consuming u = [] \<and> dl_group u = \<lparr>gr_unread = [], gr_pending = []\<rparr>"
  using event_delivered_parts [OF laws s idle enqueue sizes iid claimed effect u] .

subsection \<open>The evidence requests of delivered events\<close>

text \<open>The row that linking an event alone gives, and what a request has to say of its event.\<close>

definition linked_request :: "stdlib \<Rightarrow> event_envelope \<Rightarrow> request_row option" where
  "linked_request L e = (case link_event L Map.empty e None EVIDENCE_REQUIRED of Inr (_, linked) \<Rightarrow> linked | Inl _ \<Rightarrow> None)"

definition request_matches :: "stdlib \<Rightarrow> event_envelope \<Rightarrow> request_row \<Rightarrow> bool" where
  "request_matches L e row = (let p = provenance_of (ee_payload e); ref = lk_evidence_request row in
     lk_ref_id row = evidence_id L (ee_event_id e) (pp_session_id p) \<and> lk_event_id row = ee_event_id e \<and>
     lk_event_time row = ee_event_time e \<and> lk_tenant_id row = pp_tenant_id p \<and> lk_venue_id row = pp_venue_id p \<and>
     lk_session_id row = Some (pp_session_id p) \<and> lk_camera_id row = pp_camera_id p \<and> lk_ref_type row = VIDEO_CLIP \<and>
     lk_ref_uri row = evidence_uri (pp_tenant_id p) (pp_session_id p) (pp_rule_id p) \<and> lk_processing_state row = REQUESTED \<and>
     ev_ref_id ref = lk_ref_id row \<and> ev_event_id ref = ee_event_id e \<and> ev_tenant_id ref = Some (pp_tenant_id p) \<and>
     ev_venue_id ref = Some (pp_venue_id p) \<and> ev_video_session_id ref = Some (pp_session_id p) \<and> ev_camera_id ref = pp_camera_id p \<and>
     ev_start_time ref = Some (case interval_start (ee_payload e) of Some t \<Rightarrow> t | None \<Rightarrow> ee_event_time e) \<and>
     ev_end_time ref = Some (ee_event_time e) \<and> ev_rule_id ref = Some (pp_rule_id p) \<and> ev_rule_version ref = Some (pp_rule_version p) \<and>
     ev_configuration_version_id ref = Some (pp_configuration_version_id p))"

lemma link_event_row:
  assumes "link_event L requests e None EVIDENCE_REQUIRED = Inr (requests', linked)"
  obtains row where "linked_request L e = Some row" and "request_matches L e row" and "requests' = fst (link_row requests row)"
proof -
  obtain params built where p: "scope_params_from_envelope e = Inr params"
    and b1: "build_request L e params EVIDENCE_REQUIRED = Inr built"
    and l: "(case built of None \<Rightarrow> Inr (requests, None)
        | Some ref \<Rightarrow> rbind (to_request_row ref) (\<lambda>row.
            let (rows', linked) = link_row requests row in Inr (rows', Some linked))) = Inr (requests', linked)"
    using assms unfolding link_event_def by (simp only: option.case rbind_eq_Inr) blast
  have "built \<noteq> None"
    using b1 unfolding build_request_def by (auto simp: Let_def split: if_splits)
  then obtain ref where built: "built = Some ref" by blast
  note b = b1 [unfolded built]
  obtain row where r: "to_request_row ref = Inr row" and req: "requests' = fst (link_row requests row)"
    using l unfolding built by (auto simp: split_beta Let_def)
  have lr: "linked_request L e = Some row"
    by (simp add: linked_request_def link_event_def p b r link_row_def)
  have camera: "ref = built_request L e (ee_payload e) params (rq_camera_id params)"
    using b p by (auto simp: build_request_def Let_def validated_def payload_of_def scope_params_from_envelope_def split: if_splits option.splits)
  have params: "rq_start_time params = None" "rq_end_time params = None" "rq_camera_id params = pp_camera_id (provenance_of (ee_payload e))"
    using p by (auto simp: scope_params_from_envelope_def payload_of_def Let_def split: if_splits)
  have "request_matches L e row"
    using r params unfolding camera by (auto simp: request_matches_def to_request_row_def built_request_def request_start_def request_end_def Let_def)
  with lr req that show thesis by blast
qed

lemma evidence_effect_link:
  assumes "apply_effect (build_operational_effect_handlers C L) r b = Some b'"
  obtains e row where "cd_validate C (ib_payload r) = Some e" and "ib_event_type r = event_type_value OCCUPANCY_SESSION"
    and "linked_request L e = Some row" and "request_matches L e row" and "b' = fst (link_row b row)"
proof -
  obtain e linked where e: "cd_validate C (ib_payload r) = Some e" and t: "ib_event_type r = event_type_value OCCUPANCY_SESSION"
    and l: "link_event L b e None EVIDENCE_REQUIRED = Inr (b', linked)"
    using assms by (auto simp: apply_effect_def build_operational_effect_handlers_def OPERATIONAL_EFFECT_TYPES_def evidence_effect_def
        split: option.splits sum.splits if_splits prod.splits)
  from link_event_row [OF l] obtain row where "linked_request L e = Some row" "request_matches L e row" "b' = fst (link_row b row)" by blast
  with e t that show thesis by blast
qed

text \<open>The table that linking a list of events in order gives: for every identifier the first event that has it decides.\<close>

definition linked_requests :: "stdlib \<Rightarrow> event_envelope list \<Rightarrow> request_table" where
  "linked_requests L es = map_of (map (\<lambda>e. (lk_ref_id (the (linked_request L e)), the (linked_request L e))) es)"

lemma linked_requests_snoc:
  "linked_request L e = Some row \<Longrightarrow> linked_requests L (es @ [e]) = fst (link_row (linked_requests L es) row)"
  by (rule ext) (auto simp: linked_requests_def link_row_def map_add_def split: option.splits)

lemma evidence_effects:
  assumes "apply_effects (build_operational_effect_handlers C L) rows Map.empty = Some b"
  shows "\<exists>es. map (\<lambda>r. cd_validate C (ib_payload r)) rows = map Some es \<and> b = linked_requests L es \<and>
    (\<forall>e\<in>set es. \<exists>row. linked_request L e = Some row \<and> request_matches L e row) \<and>
    (\<forall>r\<in>set rows. ib_event_type r = event_type_value OCCUPANCY_SESSION)"
  using assms
proof (induction rows arbitrary: b rule: rev_induct)
  case Nil
  then show ?case by (auto simp: linked_requests_def)
next
  case (snoc r rows)
  then obtain b1 where b1: "apply_effects (build_operational_effect_handlers C L) rows Map.empty = Some b1"
    and eff: "apply_effect (build_operational_effect_handlers C L) r b1 = Some b"
    by (auto simp: apply_effects_snoc bind_eq_Some_conv)
  from snoc.IH [OF b1] obtain es where es: "map (\<lambda>r. cd_validate C (ib_payload r)) rows = map Some es" "b1 = linked_requests L es"
    "\<forall>e\<in>set es. \<exists>row. linked_request L e = Some row \<and> request_matches L e row"
    "\<forall>r\<in>set rows. ib_event_type r = event_type_value OCCUPANCY_SESSION" by blast
  obtain e row where e: "cd_validate C (ib_payload r) = Some e" "ib_event_type r = event_type_value OCCUPANCY_SESSION"
    "linked_request L e = Some row" "request_matches L e row" "b = fst (link_row b1 row)" using evidence_effect_link [OF eff] by metis
  have "b = linked_requests L (es @ [e])" using e(3,5) es(2) by (simp add: linked_requests_snoc)
  then show ?case using es e by (intro exI [of _ "es @ [e]"]) auto
qed

text \<open>
  C12: Evidence follows events. With the operational effects the payloads of the committed rows are events, each of which was
  enqueued under its identifier, and the table of evidence requests is exactly what linking these events in the order of their
  commits gives: for every identifier the row of the first event that has it. Each row names the event, the tenant, the venue,
  the session, the camera, the rule and the interval that the payload of its event states, and waits in REQUESTED.
\<close>

theorem evidence_follows_events:
  assumes "codec_laws (de_codec E)" and "de_handlers E = build_operational_effect_handlers (de_codec E) L"
    and "s = delivery_run E (delivery_start Map.empty) acts"
  shows "\<exists>es. map (\<lambda>r. cd_validate (de_codec E) (ib_payload r)) (dl_committed s) = map Some es \<and>
    dl_business s = map_of (map (\<lambda>e. (lk_ref_id (the (linked_request L e)), the (linked_request L e))) es) \<and>
    (\<forall>e\<in>set es. (\<exists>row. linked_request L e = Some row \<and> request_matches L e row) \<and>
      (\<exists>q\<in>set (ot_outbox (dl_tables s)). ob_payload q = cd_dump (de_codec E) e \<and> ob_event_id q = ee_event_id e \<and>
         ob_event_type q = event_type_value OCCUPANCY_SESSION))"
proof -
  have ok: "delivery_ok E Map.empty s" unfolding assms(3) by (rule delivery_reachable_ok [OF assms(1)])
  have effects: "apply_effects (build_operational_effect_handlers (de_codec E) L) (dl_committed s) Map.empty = Some (dl_business s)"
    and origin: "\<forall>r\<in>set (dl_committed s). relayed (ot_outbox (dl_tables s)) r"
    using delivery_effects [OF ok] unfolding assms(2) by blast+
  from evidence_effects [OF effects] obtain es where es: "map (\<lambda>r. cd_validate (de_codec E) (ib_payload r)) (dl_committed s) = map Some es"
    "dl_business s = linked_requests L es" "\<forall>e\<in>set es. \<exists>row. linked_request L e = Some row \<and> request_matches L e row"
    "\<forall>r\<in>set (dl_committed s). ib_event_type r = event_type_value OCCUPANCY_SESSION" by blast
  have "\<exists>q\<in>set (ot_outbox (dl_tables s)). ob_payload q = cd_dump (de_codec E) e \<and> ob_event_id q = ee_event_id e \<and>
         ob_event_type q = event_type_value OCCUPANCY_SESSION" if e: "e \<in> set es" for e
  proof -
    have "Some e \<in> set (map (\<lambda>r. cd_validate (de_codec E) (ib_payload r)) (dl_committed s))" using e es(1) by simp
    then obtain r where r: "r \<in> set (dl_committed s)" "cd_validate (de_codec E) (ib_payload r) = Some e" by auto
    then obtain q where q: "q \<in> set (ot_outbox (dl_tables s))" "ib_payload r = ob_payload q" "ib_event_type r = ob_event_type q"
      using origin by (auto simp: relayed_def)
    have "genuine (de_codec E) q" using ok q(1) by (simp add: delivery_ok_def outbox_ok_def)
    then obtain e' where "cd_validate (de_codec E) (cd_dump (de_codec E) e') = Some e'" "ob_payload q = cd_dump (de_codec E) e'"
      "ob_event_id q = ee_event_id e'" by (auto simp: genuine_def)
    then show ?thesis using q r es(4) by (metis option.inject)
  qed
  then show ?thesis using es(1-3) unfolding linked_requests_def by blast
qed

subsection \<open>A parser of identifiers\<close>

definition hex_value :: "char \<Rightarrow> nat" where
  "hex_value c = (let n = of_char c in if n < 58 then n - 48 else n - 87)"

definition parse_uuid :: "string \<Rightarrow> uuid option" where
  "parse_uuid s =
     (let n = foldl (\<lambda>a c. a * 16 + hex_value c) 0 (filter (\<lambda>c. c \<noteq> CHR ''-'') s); u = of_nat n
      in if str_uuid u = s then Some u else None)"

lemma hex_value_char: "d < 16 \<Longrightarrow> hex_value (hex_char d) = d"
  by (simp add: hex_value_def of_char_hex_char Let_def)

lemma minus_not_hex_char: "d < 16 \<Longrightarrow> hex_char d \<noteq> CHR ''-''"
proof
  assume d: "d < 16" and "hex_char d = CHR ''-''"
  then have "(of_char (hex_char d) :: nat) = 45" by simp
  with d show False by (auto simp: of_char_hex_char split: if_splits)
qed

lemma filter_hex_range: "filter (\<lambda>c. c \<noteq> CHR ''-'') (hex_range u a b) = hex_range u a b"
  using minus_not_hex_char [of "uuid_digit u _"]
  by (auto simp: hex_range_def uuid_digit_def intro!: filter_True dest: sym)

lemma hex_range_append: "a \<le> b \<Longrightarrow> b \<le> c \<Longrightarrow> hex_range u a b @ hex_range u b c = hex_range u a c"
  unfolding hex_range_def by (metis map_append upt_add_eq_append le_add_diff_inverse)

lemma str_uuid_digits: "filter (\<lambda>c. c \<noteq> CHR ''-'') (str_uuid u) = hex_range u 0 32"
  by (simp add: str_uuid_def filter_hex_range hex_range_append)

lemma hex_prefix_value: "k \<le> 32 \<Longrightarrow> foldl (\<lambda>a c. a * 16 + hex_value c) 0 (hex_range u 0 k) = unat u div 16 ^ (32 - k)"
proof (induction k)
  case 0
  have "unat u < 16 ^ 32" using unsigned_less [of u] by simp
  then show ?case by (simp add: hex_range_def)
next
  case (Suc k)
  have last: "hex_range u 0 (Suc k) = hex_range u 0 k @ [hex_char (uuid_digit u k)]" by (simp add: hex_range_def)
  have "32 - k = Suc (31 - k)" using Suc.prems by simp
  then have "unat u div 16 ^ (32 - k) = unat u div 16 ^ (31 - k) div 16"
    by (metis div_mult2_eq mult.commute power_Suc)
  moreover have "hex_value (hex_char (uuid_digit u k)) = unat u div 16 ^ (31 - k) mod 16"
    by (simp add: hex_value_char uuid_digit_def)
  ultimately show ?case using Suc by (simp add: last)
qed

lemma parse_str_uuid [simp]: "parse_uuid (str_uuid u) = Some u"
  using hex_prefix_value [of 32 u] by (simp add: parse_uuid_def str_uuid_digits)

subsection \<open>Witnesses\<close>

definition sample_session_event :: event_envelope where
  "sample_session_event = \<lparr>ee_event_id = 1, ee_event_type = ''occupancy_session'', ee_schema_version = SCHEMA_VERSION,
     ee_event_time = utc_at 5, ee_produced_at = utc_at 5, ee_correlation_id = None, ee_causation_id = None,
     ee_source = ''rule'', ee_payload = OccupancySessionPayload \<lparr>op_phase = STARTED, op_tenant_id = 1, op_venue_id = 2,
       op_session_id = 3, op_camera_id = 4, op_spatial_context_id = None, op_occupancy_count = 1, op_occupied_tracks = [5],
       op_occupancy_time = utc_at 5, op_configuration_version_id = 6, op_rule_id = ''r'', op_rule_version = ''v1''\<rparr>\<rparr>"

text \<open>JSON texts that know one event.\<close>

definition sample_codec :: "string codec" where
  "sample_codec = \<lparr>cd_dump = (\<lambda>e. if e = sample_session_event then ''event'' else ''other''),
     cd_validate = (\<lambda>j. if j = ''event'' then Some sample_session_event else None), cd_dumps = (\<lambda>j. j), cd_loads = Some,
     cd_uuid = parse_uuid\<rparr>"

lemma sample_codec_laws [simp]: "codec_laws sample_codec"
  by (auto simp: codec_laws_def sample_codec_def sample_session_event_def event_envelope_valid_def)

definition sample_worker :: worker_settings where
  "sample_worker = \<lparr>ws_batch_size = 20, ws_lease_seconds = 60, ws_max_attempts = 10, ws_backoff_base = 1,
     ws_backoff_max = 300, ws_backoff_jitter = 0\<rparr>"

definition sample_env_of :: "(string, 'b) effect_handlers \<Rightarrow> (string, 'b) delivery_env" where
  "sample_env_of handlers = \<lparr>de_codec = sample_codec, de_outbox_settings = sample_worker, de_inbox_settings = sample_worker,
     de_ingress_settings = \<lparr>is_stream = ''events'', is_claim_idle_seconds = 120, is_count = 8\<rparr>, de_handlers = handlers\<rparr>"

lemma sample_env_of_simps [simp]:
  "de_codec (sample_env_of handlers) = sample_codec" "de_outbox_settings (sample_env_of handlers) = sample_worker"
  "de_inbox_settings (sample_env_of handlers) = sample_worker" "de_handlers (sample_env_of handlers) = handlers"
  "is_count (de_ingress_settings (sample_env_of handlers)) = 8" "ws_batch_size sample_worker = 20"
  by (simp_all add: sample_env_of_def sample_worker_def)

text \<open>A business state that counts the effects.\<close>

definition counting :: "(string, nat) effect_handlers" where
  "counting = [''occupancy_session'' \<mapsto> (\<lambda>_ n. Inr (n + 1))]"

definition sample_producer :: actor_context where
  "sample_producer = \<lparr>ac_actor_id = 9, ac_tenant_id = 1, ac_role_name = ADMIN, ac_permissions = {}, ac_venue_scope = {},
     ac_authenticated_at = utc_at 0, ac_active = True\<rparr>"

definition sample_audit :: audit_record where
  "sample_audit = \<lparr>ad_actor_id = 9, ad_tenant_id = 1, ad_action = ''persisted'', ad_action_category = AUDIT_ANALYTICS,
     ad_schema_version = SCHEMA_VERSION, ad_membership_id = None, ad_venue_id = None, ad_correlation_id = None,
     ad_timestamp = utc_at 0, ad_metadata = None\<rparr>"

definition sample_outbox_row :: "string outbox_row" where
  "sample_outbox_row = outbox_row_of 10 1 1 None ''occupancy_session'' ''event'' (utc_at 7)"

lemma sample_enqueue:
  "enqueue_event sample_codec None \<lparr>ot_audit = [], ot_outbox = []\<rparr> sample_producer sample_session_event sample_audit None 10 (utc_at 7) =
     Inr (\<lparr>ot_audit = [sample_audit], ot_outbox = [sample_outbox_row]\<rparr>, sample_outbox_row)"
  by (simp add: enqueue_event_def inject_correlation_def validate_envelope_def venue_scope_checked_def sample_codec_def
      sample_session_event_def sample_producer_def sample_audit_def sample_outbox_row_def outbox_enqueue_def outbox_row_of_def Let_def)

definition sample_inbox_row :: "string inbox_row" where
  "sample_inbox_row = leased ''c'' (after (utc_at 7) 60000000)
     (inbox_row_of 11 SOURCE_OUTBOX (str_uuid 1) 1 None ''occupancy_session'' ''event'' (utc_at 7))"

lemma sample_outbox_row_simps:
  "ob_event_id sample_outbox_row = 1" "ob_tenant_id sample_outbox_row = 1" "ob_venue_id sample_outbox_row = None"
  "ob_event_type sample_outbox_row = ''occupancy_session''" "ob_payload sample_outbox_row = ''event''"
  by (simp_all add: sample_outbox_row_def outbox_row_of_def)

definition sample_delivery :: "action list" where
  "sample_delivery = Enqueue sample_producer None sample_session_event sample_audit None 10 (utc_at 7) #
     publisher_cycle ''p'' {} (utc_at 7) [(Sent, ''m'', utc_at 7, 0)] @
     ingress_cycle (utc_at 7) [(\<lparr>ro_committed = True, ro_acknowledged = True\<rparr>, 11, utc_at 7)] @
     consumer_cycle ''c'' {} (utc_at 7) [(True, utc_at 7, 0)]"

lemma sample_claimed:
  "sample_inbox_row = leased ''c'' (after (utc_at 7) (ws_lease_seconds (de_inbox_settings (sample_env_of handlers)) * 1000000))
     (inbox_row_of 11 SOURCE_OUTBOX (str_uuid (ob_event_id sample_outbox_row)) (ob_tenant_id sample_outbox_row)
       (ob_venue_id sample_outbox_row) (ob_event_type sample_outbox_row) (ob_payload sample_outbox_row) (utc_at 7))"
  by (simp add: sample_inbox_row_def sample_outbox_row_simps sample_env_of_def sample_worker_def)

lemma sample_delivered:
  assumes "apply_effect handlers sample_inbox_row b0 = Some b'"
  shows "dl_business (delivery_run (sample_env_of handlers) (delivery_start b0) sample_delivery) = b' \<and>
    dl_committed (delivery_run (sample_env_of handlers) (delivery_start b0) sample_delivery) = [sample_inbox_row] \<and>
    (\<exists>q'\<in>set (ot_outbox (dl_tables (delivery_run (sample_env_of handlers) (delivery_start b0) sample_delivery))).
       lr_status q' = ''published'')"
proof -
  have start: "delivery_start b0 = delivery_run (sample_env_of handlers) (delivery_start b0) []" by (simp add: delivery_run_def)
  have "idle (utc_at 7) (delivery_start b0)" by (simp add: idle_def delivery_start_def)
  from event_delivered_parts [OF _ start this, of None sample_producer sample_session_event sample_audit None 10
      "\<lparr>ot_audit = [sample_audit], ot_outbox = [sample_outbox_row]\<rparr>" sample_outbox_row 11 sample_inbox_row "''c''" b' _ "''p''" "''m''"]
  show ?thesis
    using assms sample_claimed [of handlers] by (auto simp: delivery_start_def sample_enqueue sample_delivery_def)
qed

lemma sample_counted: "apply_effect counting sample_inbox_row n = Some (n + 1)"
  by (simp add: apply_effect_def counting_def sample_inbox_row_def leased_def inbox_row_of_def)

lemma effects_exactly_once_witness:
  "apply_effects counting [sample_inbox_row] 0 =
      Some (dl_business (delivery_run (sample_env_of counting) (delivery_start 0) sample_delivery)) \<and>
    distinct (map message_key [sample_inbox_row]) \<and>
    relayed (ot_outbox (dl_tables (delivery_run (sample_env_of counting) (delivery_start 0) sample_delivery))) sample_inbox_row"
  using effects_exactly_once [of "sample_env_of counting" _ 0 sample_delivery] sample_delivered [OF sample_counted [of 0]]
  by simp

lemma rows_durable_witness:
  "\<exists>q. q \<in> set (ot_outbox (dl_tables (delivery_run (sample_env_of counting) (delivery_start 0) sample_delivery))) \<and>
     lr_status q = ''published'' \<and> q \<in> set (ot_outbox (dl_tables (deliver (sample_env_of counting)
       (delivery_run (sample_env_of counting) (delivery_start 0) sample_delivery) (ClaimOutbox ''other'' {} (utc_at 99)))))"
proof -
  let ?s = "delivery_run (sample_env_of counting) (delivery_start 0) sample_delivery"
  obtain q where q: "q \<in> set (ot_outbox (dl_tables ?s))" "lr_status q = ''published''"
    using sample_delivered [OF sample_counted [of 0]] by auto
  from rows_durable [of "sample_env_of counting" ?s 0 sample_delivery _ "ClaimOutbox ''other'' {} (utc_at 99)"] q
  show ?thesis by fastforce
qed

text \<open>The transaction of the bridge fails once.\<close>

definition sample_outage :: "action list" where
  "sample_outage = Enqueue sample_producer None sample_session_event sample_audit None 10 (utc_at 7) #
     publisher_cycle ''p'' {} (utc_at 7) [(Sent, ''m'', utc_at 7, 0)] @
     ingress_cycle (utc_at 7) [(\<lparr>ro_committed = False, ro_acknowledged = False\<rparr>, 11, utc_at 7)]"

lemma sample_stranded:
  "\<exists>q. stranded sample_codec (delivery_run (sample_env_of counting) (delivery_start 0) sample_outage) q \<and> ob_event_id q = 1"
proof -
  let ?E = "sample_env_of counting" and ?row = sample_outbox_row
  define s1 where "s1 = (delivery_start 0 :: (string, nat) delivery_log)\<lparr>dl_tables := \<lparr>ot_audit = [sample_audit], ot_outbox = [?row]\<rparr>\<rparr>"
  let ?q = "finished ''published'' (leased ''p'' (after (utc_at 7) (ws_lease_seconds sample_worker * 1000000)) ?row)"
  let ?m = "\<lparr>sm_id = ''m'', sm_fields = publish_fields sample_codec ?row\<rparr>"
  define s2 where "s2 = s1\<lparr>dl_tables := (dl_tables s1)\<lparr>ot_outbox := [?q]\<rparr>, dl_group := \<lparr>gr_unread = [?m], gr_pending = []\<rparr>, dl_sent := [?m]\<rparr>"
  have genuine: "genuine sample_codec ?row" using enqueue_event_genuine [OF sample_codec_laws sample_enqueue] by simp
  have enqueue: "deliver ?E (delivery_start 0) (Enqueue sample_producer None sample_session_event sample_audit None 10 (utc_at 7)) = s1"
    by (simp add: enqueue_action_def sample_enqueue delivery_start_def s1_def)
  have "due (utc_at 7) ?row"
    by (simp add: sample_outbox_row_def outbox_row_of_def due_def CLAIMABLE_STATUSES_def dt_less_def)
  then have publish: "delivery_run ?E s1 (publisher_cycle ''p'' {} (utc_at 7) [(Sent, ''m'', utc_at 7, 0)]) = s2"
    using publisher_cycle_delivers [of s1 "[]" ?row "utc_at 7" ?E "''p''" "''m''" 0]
    by (simp add: s1_def s2_def delivery_start_def Let_def)
  let ?s3 = "s2\<lparr>dl_group := \<lparr>gr_unread = [], gr_pending = [(?m, utc_at 7)]\<rparr>, dl_relaying := [(PyStr ''m'', publish_fields sample_codec ?row)]\<rparr>"
  have read: "deliver ?E s2 (ReadStream (utc_at 7)) = ?s3"
    by (simp add: s2_def s1_def delivery_start_def read_action_def ingress_messages_def claim_stuck_def read_group_def Let_def
        xautoclaim_reply_def parse_entries_def [of "PyList []"] parse_xreadgroup take_Cons' drop_Cons')
  have relay: "deliver ?E ?s3 (Relay 0 \<lparr>ro_committed = False, ro_acknowledged = False\<rparr> 11 (utc_at 7)) =
      ?s3\<lparr>dl_relaying := []\<rparr>"
    by (simp add: relay_action_def handle_genuine_eq [OF sample_codec_laws genuine] remove_nth_def s2_def s1_def delivery_start_def)
  have "delivery_run ?E (delivery_start 0) sample_outage = ?s3\<lparr>dl_relaying := []\<rparr>"
    using enqueue publish read relay by (simp add: sample_outage_def delivery_run_def ingress_cycle_def del: deliver.simps)
  moreover have "stranded sample_codec (?s3\<lparr>dl_relaying := []\<rparr>) ?q"
    by (simp add: stranded_def s2_def s1_def delivery_start_def)
  moreover have "ob_event_id ?q = 1" by (simp add: finished_def leased_def sample_outbox_row_simps)
  ultimately show ?thesis by auto
qed


lemma deployed_consumer_discards_witness:
  "dl_committed (delivery_run (sample_env_of deployed_handlers) (delivery_start (0 :: nat)) sample_delivery) = [] \<and>
   dl_business (delivery_run (sample_env_of deployed_handlers) (delivery_start (0 :: nat)) sample_delivery) = 0"
  using deployed_consumer_discards [of "sample_env_of deployed_handlers" _ "0 :: nat" sample_delivery] by simp

lemma event_delivered_witness:
  "dl_business (delivery_run (sample_env_of counting) (delivery_start 0) sample_delivery) = 1 \<and>
   finished ''processed'' sample_inbox_row \<in> set (dl_inbox (delivery_run (sample_env_of counting) (delivery_start 0) sample_delivery))"
proof -
  have start: "delivery_start 0 = delivery_run (sample_env_of counting) (delivery_start 0) []" by (simp add: delivery_run_def)
  have "idle (utc_at 7) (delivery_start 0 :: (string, nat) delivery_log)" by (simp add: idle_def delivery_start_def)
  from event_delivered [OF _ start this, of None sample_producer sample_session_event sample_audit None 10
      "\<lparr>ot_audit = [sample_audit], ot_outbox = [sample_outbox_row]\<rparr>" sample_outbox_row 11 sample_inbox_row "''c''" 1 _ "''p''" "''m''"]
  show ?thesis
    using sample_counted [of 0] sample_claimed [of counting] by (auto simp: delivery_start_def sample_enqueue sample_delivery_def)
qed

definition plain_clock :: stdlib where
  "plain_clock = \<lparr>std_uuid5 = (\<lambda>_ _. 0), std_isoformat = (\<lambda>_. ''t''), std_repr_float = (\<lambda>_. ''r''), std_parse_float = (\<lambda>_. None)\<rparr>"

lemma evidence_follows_events_witness:
  "\<exists>rq. dl_business (delivery_run (sample_env_of (build_operational_effect_handlers sample_codec plain_clock))
      (delivery_start Map.empty) sample_delivery) (evidence_id plain_clock 1 3) = Some rq"
proof -
  let ?H = "build_operational_effect_handlers sample_codec plain_clock"
  have payload: "ib_payload sample_inbox_row = ''event''" and type: "ib_event_type sample_inbox_row = ''occupancy_session''"
    by (simp_all add: sample_inbox_row_def leased_def inbox_row_of_def)
  have "\<exists>rows row. link_event plain_clock Map.empty sample_session_event None EVIDENCE_REQUIRED = Inr (rows, Some row)"
    by (simp add: sample_session_event_def link_event_def scope_params_from_envelope_def payload_of_def build_request_def built_request_def
        request_start_def request_end_def validated_def evidence_ref_valid_def validate_evidence_chain_def
        media_evidence_types_def evidence_uri_def evidence_rule_version_ok_def is_digit_def dt_less_def to_request_row_def
        link_row_def Let_def)
  then obtain b' where "apply_effect ?H sample_inbox_row Map.empty = Some b'"
    by (auto simp: apply_effect_def build_operational_effect_handlers_def OPERATIONAL_EFFECT_TYPES_def evidence_effect_def type payload
        sample_codec_def)
  from sample_delivered [OF this]
  have "sample_inbox_row \<in> set (dl_committed (delivery_run (sample_env_of ?H) (delivery_start Map.empty) sample_delivery))" by simp
  moreover obtain es where es: "map (\<lambda>r. cd_validate sample_codec (ib_payload r)) (dl_committed (delivery_run (sample_env_of ?H)
        (delivery_start Map.empty) sample_delivery)) = map Some es"
    "dl_business (delivery_run (sample_env_of ?H) (delivery_start Map.empty) sample_delivery) = linked_requests plain_clock es"
    "\<forall>e\<in>set es. \<exists>row. linked_request plain_clock e = Some row \<and> request_matches plain_clock e row"
    using evidence_follows_events [of "sample_env_of ?H" plain_clock _ sample_delivery] unfolding linked_requests_def by auto
  ultimately have "cd_validate sample_codec ''event'' \<in> set (map Some es)" unfolding es(1) [symmetric] using payload by force
  then have e: "sample_session_event \<in> set es" by (auto simp: sample_codec_def)
  then obtain row where "linked_request plain_clock sample_session_event = Some row" "request_matches plain_clock sample_session_event row"
    using es(3) by blast
  then have "evidence_id plain_clock 1 3 \<in> fst ` set (map (\<lambda>e. (lk_ref_id (the (linked_request plain_clock e)), the (linked_request plain_clock e))) es)"
    using e by (force simp: request_matches_def sample_session_event_def Let_def)
  then show ?thesis unfolding es(2) linked_requests_def by (meson map_of_eq_None_iff option.exhaust)
qed

end
