(* ===== verification/Persistence.thy ===== *)
theory Persistence
  imports Outbox
begin

text \<open>
  The persistence boundary of the operational slice (\<open>application/services/operational_persistence.py\<close>): the business fact,
  the domain event, the audit record and the outbox row are written in one savepoint. The unique constraints of the tables
  are written out; foreign keys are taken to hold. The text PostgreSQL gives for a violated primary key is an argument,
  because the code decides by it.
\<close>

record temporal_fact_row =
  tf_fact_id :: uuid
  tf_fact_type :: string
  tf_fsm_kind :: string
  tf_tenant_id :: uuid
  tf_venue_id :: uuid
  tf_session_id :: uuid
  tf_camera_id :: uuid
  tf_configuration_version_id :: uuid
  tf_event_time :: datetime
  tf_source_transition_id :: uuid
  tf_fsm_version :: string
  tf_policy_revision :: string
  tf_payload :: occupancy_snapshot

record operational_event_row =
  oe_event_id :: uuid
  oe_event_type :: string
  oe_schema_version :: string
  oe_tenant_id :: uuid
  oe_venue_id :: uuid
  oe_session_id :: uuid
  oe_camera_id :: uuid
  oe_event_time :: datetime
  oe_produced_at :: datetime
  oe_correlation_id :: "string option"
  oe_causation_id :: "string option"
  oe_source :: string
  oe_payload :: rule_payload
  oe_processing_time :: "datetime option"

definition FACT_TYPE_OCCUPANCY_SNAPSHOT :: string where
  "FACT_TYPE_OCCUPANCY_SNAPSHOT = ''occupancy_snapshot''"

definition fact_row :: "occupancy_snapshot \<Rightarrow> temporal_fact_row" where
  "fact_row f =
     \<lparr>tf_fact_id = sn_snapshot_id f, tf_fact_type = FACT_TYPE_OCCUPANCY_SNAPSHOT, tf_fsm_kind = sn_fsm_kind f,
      tf_tenant_id = key_tenant_id (sn_key f), tf_venue_id = key_venue_id (sn_key f),
      tf_session_id = key_session_id (sn_key f), tf_camera_id = key_camera_id (sn_key f),
      tf_configuration_version_id = key_configuration_version_id (sn_key f), tf_event_time = sn_event_time f,
      tf_source_transition_id = sn_source_transition_id f, tf_fsm_version = sn_fsm_version f,
      tf_policy_revision = sn_policy_revision f, tf_payload = f\<rparr>"

definition event_row :: "occupancy_snapshot \<Rightarrow> event_envelope \<Rightarrow> datetime option \<Rightarrow> operational_event_row" where
  "event_row f e processing_time =
     \<lparr>oe_event_id = ee_event_id e, oe_event_type = ee_event_type e, oe_schema_version = ee_schema_version e,
      oe_tenant_id = key_tenant_id (sn_key f), oe_venue_id = key_venue_id (sn_key f),
      oe_session_id = key_session_id (sn_key f), oe_camera_id = key_camera_id (sn_key f),
      oe_event_time = ee_event_time e, oe_produced_at = ee_produced_at e, oe_correlation_id = ee_correlation_id e,
      oe_causation_id = ee_causation_id e, oe_source = ee_source e, oe_payload = ee_payload e,
      oe_processing_time = processing_time\<rparr>"

subsection \<open>Constraints\<close>

datatype violation = TemporalFactsKey | OperationalEventsKey | CheckFailed string

definition contains_text :: "string \<Rightarrow> string \<Rightarrow> bool" where
  "contains_text needle haystack =
     list_ex (\<lambda>i. take (length needle) (drop i haystack) = needle) [0..<Suc (length haystack)]"

definition DUPLICATE_CONSTRAINTS :: "string list" where
  "DUPLICATE_CONSTRAINTS = [''uq_outbox_events_event_id'', ''pk_temporal_facts'', ''pk_operational_events'']"

definition is_duplicate :: "string \<Rightarrow> bool" where
  "is_duplicate message = list_ex (\<lambda>name. contains_text name message) DUPLICATE_CONSTRAINTS"

text \<open>The message of PostgreSQL for the key of \<open>temporal_facts\<close>, which the migration leaves unnamed.\<close>

definition fact_key_message :: string where
  "fact_key_message = ''duplicate key value violates unique constraint \"temporal_facts_pkey\"''"

record 'j persistence =
  pe_tables :: "'j outbox_tables"
  pe_facts :: "temporal_fact_row list"
  pe_events :: "operational_event_row list"

definition blank :: "string \<Rightarrow> bool" where
  "blank s = list_all (\<lambda>c. c = CHR '' '') s"

definition violated :: "'j persistence \<Rightarrow> temporal_fact_row \<Rightarrow> operational_event_row \<Rightarrow> datetime \<Rightarrow> violation option" where
  "violated p f e now =
     (if blank (tf_fsm_kind f) then Some (CheckFailed ''ck_temporal_facts_fsm_kind_not_empty'')
      else if dt_less now (tf_event_time f) then Some (CheckFailed ''ck_temporal_facts_ingestion_not_before_event'')
      else if tf_fact_id f \<in> set (map tf_fact_id (pe_facts p)) then Some TemporalFactsKey
      else if blank (oe_event_type e) then Some (CheckFailed ''ck_operational_events_event_type_not_empty'')
      else if blank (oe_source e) then Some (CheckFailed ''ck_operational_events_source_not_empty'')
      else if dt_less now (oe_event_time e) then Some (CheckFailed ''ck_operational_events_ingestion_not_before_event'')
      else if (case oe_processing_time e of None \<Rightarrow> False | Some t \<Rightarrow> dt_less t (oe_event_time e))
      then Some (CheckFailed ''ck_operational_events_processing_not_before_event'')
      else if (dt_instant (oe_event_time e), oe_event_id e) \<in> set (map (\<lambda>r. (dt_instant (oe_event_time r), oe_event_id r)) (pe_events p))
      then Some OperationalEventsKey
      else None)"

subsection \<open>The service\<close>

record persistence_result =
  pr_created :: bool
  pr_event_id :: uuid
  pr_fact_id :: "uuid option"
  pr_outbox_id :: "uuid option"

datatype persistence_error = AuditRejected | NotEnqueued outbox_error | IntegrityError string

definition replayed_result :: "event_envelope \<Rightarrow> persistence_result" where
  "replayed_result e = \<lparr>pr_created = False, pr_event_id = ee_event_id e, pr_fact_id = None, pr_outbox_id = None\<rparr>"

definition find_by_event_id :: "'j persistence \<Rightarrow> uuid \<Rightarrow> bool" where
  "find_by_event_id p i = (i \<in> set (map ob_event_id (ot_outbox (pe_tables p))))"

definition audit_metadata :: "occupancy_snapshot \<Rightarrow> event_envelope \<Rightarrow> (string \<times> string) list" where
  "audit_metadata f e =
     [(''event_id'', str_uuid (ee_event_id e)), (''event_type'', ee_event_type e), (''fact_id'', str_uuid (sn_snapshot_id f)),
      (''fact_type'', FACT_TYPE_OCCUPANCY_SNAPSHOT),
      (''configuration_version_id'', str_uuid (key_configuration_version_id (sn_key f))), (''source'', ee_source e)]"

definition persist :: "'j codec \<Rightarrow> (violation \<Rightarrow> string) \<Rightarrow> 'j persistence \<Rightarrow> occupancy_snapshot \<Rightarrow> event_envelope \<Rightarrow> actor_context \<Rightarrow>
    string option \<Rightarrow> datetime option \<Rightarrow> string \<Rightarrow> audit_category \<Rightarrow> string option \<Rightarrow> uuid \<Rightarrow> datetime \<Rightarrow>
    persistence_error + 'j persistence \<times> persistence_result" where
  "persist C message p snapshot event actor correlation processing_time action category ambient new_id now =
     (if find_by_event_id p (ee_event_id event) then Inr (p, replayed_result event)
      else case from_actor actor action category correlation (Some (key_venue_id (sn_key snapshot))) None
          (Some (audit_metadata snapshot event)) now of
        None \<Rightarrow> Inl AuditRejected
      | Some audit \<Rightarrow>
          (let enqueued = enqueue_event C ambient (pe_tables p) actor event audit (Some (key_venue_id (sn_key snapshot))) new_id now
           in if enqueued = Inl EnvelopeRejected \<or> (\<exists>e\<in>{AuthenticationError, AuthorizationError, MalformedIdentifier, NoPermissionsGiven}.
                enqueued = Inl (OutsideScope e)) then Inl (NotEnqueued (projl enqueued))
              else case violated p (fact_row snapshot) (event_row snapshot event processing_time) now of
                Some v \<Rightarrow> (if is_duplicate (message v) then Inr (p, replayed_result event) else Inl (IntegrityError (message v)))
              | None \<Rightarrow>
                  (case enqueued of
                     Inl (DatabaseError text) \<Rightarrow> if is_duplicate text then Inr (p, replayed_result event) else Inl (IntegrityError text)
                   | Inl _ \<Rightarrow> Inr (p, replayed_result event)
                   | Inr (tables, row) \<Rightarrow>
                       Inr (\<lparr>pe_tables = tables, pe_facts = pe_facts p @ [fact_row snapshot],
                             pe_events = pe_events p @ [event_row snapshot event processing_time]\<rparr>,
                         \<lparr>pr_created = True, pr_event_id = ee_event_id event, pr_fact_id = Some (sn_snapshot_id snapshot),
                          pr_outbox_id = Some (ob_outbox_id row)\<rparr>))))"

text \<open>A sequence of calls, each in a transaction of its own that an exception rolls back.\<close>

record persist_call =
  pc_fact :: occupancy_snapshot
  pc_event :: event_envelope
  pc_actor :: actor_context
  pc_correlation :: "string option"
  pc_ambient :: "string option"
  pc_processing_time :: "datetime option"
  pc_action :: string
  pc_category :: audit_category
  pc_new_id :: uuid
  pc_now :: datetime

definition persist_step :: "'j codec \<Rightarrow> (violation \<Rightarrow> string) \<Rightarrow> 'j persistence \<Rightarrow> persist_call \<Rightarrow> 'j persistence" where
  "persist_step C message p c =
     (case persist C message p (pc_fact c) (pc_event c) (pc_actor c) (pc_correlation c) (pc_processing_time c) (pc_action c)
        (pc_category c) (pc_ambient c) (pc_new_id c) (pc_now c) of
        Inl _ \<Rightarrow> p | Inr (p', _) \<Rightarrow> p')"

definition persist_run :: "'j codec \<Rightarrow> (violation \<Rightarrow> string) \<Rightarrow> 'j persistence \<Rightarrow> persist_call list \<Rightarrow> 'j persistence" where
  "persist_run C message p calls = foldl (persist_step C message) p calls"

definition empty_persistence :: "'j persistence" where
  "empty_persistence = \<lparr>pe_tables = \<lparr>ot_audit = [], ot_outbox = []\<rparr>, pe_facts = [], pe_events = []\<rparr>"

end
