(* ===== verification/Persistence_Facts.thy ===== *)
theory Persistence_Facts
  imports Persistence Rules_Composition
begin

text \<open>
  The four tables of the persistence boundary grow together, and two ways in which an event is lost: a second event of one
  fact, and the start of a session in the frame in which the last one ends.
\<close>

subsection \<open>All or nothing\<close>

text \<open>One row per event in each table, in the same order.\<close>

definition aligned :: "'j persistence \<Rightarrow> bool" where
  "aligned p =
     (list_all2 (\<lambda>e q. oe_event_id e = ob_event_id q \<and> oe_event_type e = ob_event_type q \<and> ob_venue_id q = Some (oe_venue_id e))
        (pe_events p) (ot_outbox (pe_tables p)) \<and>
      list_all2 (\<lambda>f e. tf_tenant_id f = oe_tenant_id e \<and> tf_venue_id f = oe_venue_id e \<and> tf_session_id f = oe_session_id e \<and>
        tf_camera_id f = oe_camera_id e) (pe_facts p) (pe_events p) \<and>
      list_all2 (\<lambda>a q. ad_tenant_id a = ob_tenant_id q \<and> ad_venue_id a = ob_venue_id q) (ot_audit (pe_tables p)) (ot_outbox (pe_tables p)) \<and>
      distinct (map ob_event_id (ot_outbox (pe_tables p))) \<and> distinct (map tf_fact_id (pe_facts p)))"

lemma persist_outcomes:
  assumes "persist C message p snapshot event actor correlation processing_time action category ambient new_id now = Inr (p', r)"
  obtains (replayed) "p' = p" and "\<not> pr_created r"
  | (created) tables row audit where "pr_created r"
      and "enqueue_event C ambient (pe_tables p) actor event audit (Some (key_venue_id (sn_key snapshot))) new_id now = Inr (tables, row)"
      and "p' = \<lparr>pe_tables = tables, pe_facts = pe_facts p @ [fact_row snapshot],
         pe_events = pe_events p @ [event_row snapshot event processing_time]\<rparr>"
      and "sn_snapshot_id snapshot \<notin> tf_fact_id ` set (pe_facts p)"
      and "ad_tenant_id audit = ac_tenant_id actor" and "ad_venue_id audit = Some (key_venue_id (sn_key snapshot))"
proof (cases "find_by_event_id p (ee_event_id event)")
  case True
  then have "p' = p" and "\<not> pr_created r" using assms by (auto simp: persist_def replayed_result_def)
  then show thesis by (rule replayed)
next
  case False
  obtain audit where a: "from_actor actor action category correlation (Some (key_venue_id (sn_key snapshot))) None
      (Some (audit_metadata snapshot event)) now = Some audit"
    using assms False by (auto simp: persist_def split: option.splits)
  then have audit: "ad_tenant_id audit = ac_tenant_id actor" "ad_venue_id audit = Some (key_venue_id (sn_key snapshot))"
    by (auto simp: from_actor_def Let_def split: if_splits)
  let ?enq = "enqueue_event C ambient (pe_tables p) actor event audit (Some (key_venue_id (sn_key snapshot))) new_id now"
  show thesis
  proof (cases "violated p (fact_row snapshot) (event_row snapshot event processing_time) now")
    case (Some v)
    then have "p' = p" and "\<not> pr_created r"
      using assms False a by (auto simp: persist_def Let_def replayed_result_def split: if_splits)
    then show thesis by (rule replayed)
  next
    case None
    then have fresh: "sn_snapshot_id snapshot \<notin> tf_fact_id ` set (pe_facts p)"
      by (auto simp: violated_def fact_row_def split: if_splits)
    show thesis
    proof (cases ?enq)
      case (Inl e)
      then have "p' = p" and "\<not> pr_created r"
        using assms False a None by (cases e; auto simp: persist_def Let_def replayed_result_def split: if_splits)+
      then show thesis by (rule replayed)
    next
      case (Inr q)
      then obtain tables row where "?enq = Inr (tables, row)" by (cases q) auto
      then have "pr_created r" and "p' = \<lparr>pe_tables = tables, pe_facts = pe_facts p @ [fact_row snapshot],
         pe_events = pe_events p @ [event_row snapshot event processing_time]\<rparr>"
        using assms False a None by (auto simp: persist_def Let_def)
      with \<open>?enq = Inr (tables, row)\<close> show thesis using created fresh audit by blast
    qed
  qed
qed

lemma enqueued_row:
  assumes "enqueue_event C ambient db actor envelope audit venue new_id now = Inr (db', row)"
  shows "ot_outbox db' = ot_outbox db @ [row] \<and> ot_audit db' = ot_audit db @ [audit] \<and> ob_event_id row = ee_event_id envelope \<and>
    ob_event_type row = ee_event_type envelope \<and> ob_tenant_id row = ac_tenant_id actor \<and> ob_venue_id row = venue \<and>
    ob_event_id row \<notin> ob_event_id ` set (ot_outbox db)"
proof -
  have "ee_event_id (inject_correlation ambient envelope) = ee_event_id envelope"
    and "ee_event_type (inject_correlation ambient envelope) = ee_event_type envelope"
    by (auto simp: inject_correlation_def split: option.splits list.splits)
  then show ?thesis
    using assms by (auto simp: enqueue_event_def outbox_enqueue_def outbox_row_of_def Let_def split: if_splits)
qed

lemma persist_aligned:
  assumes "aligned p" and "persist C message p snapshot event actor correlation processing_time action category ambient new_id now = Inr (p', r)"
  shows "aligned p'"
  using assms(2)
proof (cases rule: persist_outcomes)
  case replayed
  then show ?thesis using assms(1) by simp
next
  case (created tables row audit)
  from enqueued_row [OF created(2)] created(4-6) assms(1) show ?thesis
    unfolding created(3) by (auto simp: aligned_def fact_row_def event_row_def intro!: list_all2_appendI)
qed

lemma persist_run_aligned: "aligned p \<Longrightarrow> aligned (persist_run C message p calls)"
  unfolding persist_run_def
  by (induction calls arbitrary: p) (auto simp: persist_step_def split: sum.splits dest: persist_aligned)

text \<open>
  C11: Business facts, events, audit records and outbox rows commit or fail together. After any sequence of calls, with any
  messages of the database, the four tables have one row per event, in the same order and with the same scope; no event
  and no fact is stored twice; and a call that does not report a creation changes nothing.
\<close>

theorem persistence_all_or_nothing:
  assumes p: "p = persist_run C message empty_persistence calls"
    and call: "persist C message p snapshot event actor correlation processing_time action category ambient new_id now = Inr (p', r)"
  shows "aligned p \<and> (\<not> pr_created r \<longrightarrow> p' = p) \<and>
    (pr_created r \<longrightarrow> aligned p' \<and> ee_event_id event \<notin> ob_event_id ` set (ot_outbox (pe_tables p)) \<and>
       map ob_event_id (ot_outbox (pe_tables p')) = map ob_event_id (ot_outbox (pe_tables p)) @ [ee_event_id event] \<and>
       pe_facts p' = pe_facts p @ [fact_row snapshot])"
proof -
  have a: "aligned p" unfolding p by (rule persist_run_aligned) (simp add: aligned_def empty_persistence_def)
  from call show ?thesis
  proof (cases rule: persist_outcomes)
    case replayed
    then show ?thesis using a by simp
  next
    case (created tables row audit)
    from enqueued_row [OF created(2)] created(1,3) persist_aligned [OF a call] a show ?thesis by auto
  qed
qed

subsection \<open>Two events of one snapshot\<close>

lemma fact_key_message_unknown: "\<not> is_duplicate fact_key_message"
  by (simp add: is_duplicate_def DUPLICATE_CONSTRAINTS_def contains_text_def fact_key_message_def upt_rec)

text \<open>
  One fact can carry one event only. When a fact was stored with an event, storing another event of the same fact
  never stores the event: it raises with the name PostgreSQL gives to the key of the table, and under the name the code
  looks for it would be reported as already persisted.
\<close>

theorem second_event_of_fact_lost:
  assumes first: "persist C message p snapshot event1 actor correlation processing_time action category ambient id1 now = Inr (p1, r1)"
    and "pr_created r1" and other: "ee_event_id event2 \<notin> ob_event_id ` set (ot_outbox (pe_tables p1))"
  shows "(message TemporalFactsKey = fact_key_message \<longrightarrow>
      (\<exists>e. persist C message p1 snapshot event2 actor correlation processing_time action category ambient id2 now = Inl e)) \<and>
    (is_duplicate (message TemporalFactsKey) \<longrightarrow>
      (\<forall>p2 r2. persist C message p1 snapshot event2 actor correlation processing_time action category ambient id2 now = Inr (p2, r2) \<longrightarrow>
        p2 = p1 \<and> \<not> pr_created r2))"
proof -
  have stored: "sn_snapshot_id snapshot \<in> tf_fact_id ` set (pe_facts p1)"
    and checks: "\<not> blank (sn_fsm_kind snapshot) \<and> \<not> dt_less now (sn_event_time snapshot)"
    using first
  proof (cases rule: persist_outcomes)
    case replayed
    with \<open>pr_created r1\<close> show "sn_snapshot_id snapshot \<in> tf_fact_id ` set (pe_facts p1)" by simp
  next
    case (created tables row audit)
    then show "sn_snapshot_id snapshot \<in> tf_fact_id ` set (pe_facts p1)" by (simp add: fact_row_def)
  next
    show "\<not> blank (sn_fsm_kind snapshot) \<and> \<not> dt_less now (sn_event_time snapshot)"
      using first \<open>pr_created r1\<close>
      by (auto simp: persist_def Let_def replayed_result_def violated_def fact_row_def
          split: if_splits option.splits sum.splits outbox_error.splits)
  qed
  have v: "violated p1 (fact_row snapshot) (event_row snapshot event2 processing_time) now = Some TemporalFactsKey"
    using stored checks by (simp add: violated_def fact_row_def)
  have notin: "\<not> find_by_event_id p1 (ee_event_id event2)" using other by (simp add: find_by_event_id_def)
  have "\<exists>e. persist C message p1 snapshot event2 actor correlation processing_time action category ambient id2 now = Inl e"
    if "message TemporalFactsKey = fact_key_message"
    using that fact_key_message_unknown notin by (simp add: persist_def v Let_def split: option.splits)
  moreover have "p2 = p1 \<and> \<not> pr_created r2"
    if "persist C message p1 snapshot event2 actor correlation processing_time action category ambient id2 now = Inr (p2, r2)" for p2 r2
    using that notin by (auto simp: persist_def v Let_def replayed_result_def split: option.splits if_splits)
  ultimately show ?thesis by blast
qed

subsection \<open>The start of a session in the frame in which the last one ends\<close>

lemma match_event:
  "match_result L rule inp key payload = Inr r \<Longrightarrow> rr_event r = Some e \<Longrightarrow>
     ee_event_type e = event_type_value (rd_output_event_type rule) \<and> (\<exists>s. ee_source e = ''rule:'' @ s) \<and>
     ee_event_time e = ri_event_time inp \<and> ee_correlation_id e = None \<and> event_envelope_valid e"
  by (auto simp: match_result_def rule_result_def validated_def Let_def split: if_splits)

lemma session_event_made:
  assumes b: "build_operational_registries L dq v = Inr regs"
    and sn: "occupancy_snapshot_valid sn" "key_fsm_kind (sn_key sn) = ''occupancy''"
    and r: "evaluate_session L regs v sn = Inr r" "rr_event r = Some e"
  shows "ee_event_type e = ''occupancy_session'' \<and> (\<exists>s. ee_source e = ''rule:'' @ s) \<and> ee_event_time e = sn_event_time sn \<and>
    ee_correlation_id e = None \<and> event_envelope_valid e"
proof -
  note w = wired [OF b]
  from w(3) obtain rule where rule: "occupancy_session_definition v = Inr rule"
    and g: "registry_get (fst regs) ''occupancy_session'' v = Some rule" by blast
  from definitions_valid(1) [OF w(1)] rule have n: "rule_named rule OCCUPANCY_SESSION v ''occupancy_session_evaluator.v1''"
    and c: "rd_input_fact_types rule = {OCCUPANCY_SNAPSHOT}" "rd_configuration_requirements rule = {}" by auto
  from session_evaluator_decides [OF n w(1) sn, of L] obtain r0 where
    r0: "occupancy_session_evaluator L rule (session_input v sn) = Inr r0" "rr_status r0 = MATCH \<longrightarrow> rr_event r0 \<noteq> None"
    by blast
  have "validate_input rule (session_input v sn) = Inr ()"
    using n c by (simp add: validate_input_Inr session_input_def input_scope_def rule_named_def)
  moreover have "map_of (snd regs) (rd_evaluator_id rule) = Some (occupancy_session_evaluator L)"
    using n by (simp add: w(2) rule_named_def operational_evaluators_def)
  moreover have "rule_definition_valid rule" using n by (simp add: rule_named_def)
  ultimately obtain refs where "evaluate_session L regs v sn = Inr (r0\<lparr>rr_evidence_requests := refs\<rparr>)"
    using evaluate_lawful [OF occupancy_session.lawful_evaluator_axioms g _ _ r0(1) _ session_input_valid [OF sn(1) w(1)] r0(2)]
    unfolding evaluate_session_def by blast
  with r have event: "rr_event r0 = Some e" by auto
  from r0(1) event obtain ph where "occupancy_session_event L rule (session_input v sn) sn ph = Inr r0"
    by (auto simp: occupancy_session_evaluator_def session_input_def sn(2) rule_result_def validated_def split: if_splits)
  from match_event [OF this [unfolded occupancy_session_event_def] event] n show ?thesis
    by (simp add: rule_named_def session_input_def)
qed

text \<open>
  C25: When the last track leaves in the very frame in which another one enters, the start of the new session is never
  stored: both events carry one identifier, so after the end was stored the service reports the start as already
  persisted and writes neither its fact, nor the event, nor an outbox row.
\<close>

theorem session_start_lost:
  assumes b: "build_operational_registries L dq v = Inr regs"
    and valid: "occupancy_snapshot_valid sn1" "occupancy_snapshot_valid sn2"
    and scope: "sn_key sn1 = key" "sn_key sn2 = key" "key_fsm_kind key = ''occupancy''"
    and time: "sn_event_time sn1 = sn_event_time sn2"
    and phases: "snapshot_phase sn1 = Some ENDED" "snapshot_phase sn2 = Some STARTED"
    and stored: "evaluate_session L regs v sn1 = Inr r1" "rr_event r1 = Some e1"
      "persist C message p sn1 e1 actor correlation processing_time action category ambient id1 now = Inr (p1, done1)" "pr_created done1"
  shows "\<exists>r2 e2. evaluate_session L regs v sn2 = Inr r2 \<and> rr_event r2 = Some e2 \<and> result_phase r2 = Some STARTED \<and>
    ee_payload e2 \<noteq> ee_payload e1 \<and>
    persist C message p1 sn2 e2 actor correlation processing_time action category ambient id2 now = Inr (p1, replayed_result e2)"
proof -
  from occupancy_session_id_collision [OF b valid scope time phases] stored(1,2) obtain r2 e2 where
    r2: "evaluate_session L regs v sn2 = Inr r2" "rr_event r2 = Some e2" and same: "ee_event_id e1 = ee_event_id e2"
    and other: "ee_payload e1 \<noteq> ee_payload e2" by auto
  from wired(3) [OF b] obtain rule where "occupancy_session_definition v = Inr rule" by blast
  from evaluate_session_decides [OF b this valid(2)] scope r2(1) phases(2) have "result_phase r2 = Some STARTED" by simp
  moreover from stored(3) have "find_by_event_id p1 (ee_event_id e2)"
  proof (cases rule: persist_outcomes)
    case replayed
    with stored(4) show ?thesis by simp
  next
    case (created tables row audit)
    from enqueued_row [OF created(2)] same show ?thesis by (simp add: created(3) find_by_event_id_def)
  qed
  ultimately show ?thesis using r2 other by (auto simp: persist_def)
qed

subsection \<open>Samples\<close>

definition one_event_codec :: "event_envelope \<Rightarrow> string codec" where
  "one_event_codec e = \<lparr>cd_dump = (\<lambda>x. if x = e then ''event'' else ''other''),
     cd_validate = (\<lambda>j. if j = ''event'' then Some e else None), cd_dumps = (\<lambda>j. j), cd_loads = Some, cd_uuid = (\<lambda>_. None)\<rparr>"

definition sample_writer :: actor_context where
  "sample_writer = \<lparr>ac_actor_id = 9, ac_tenant_id = 1, ac_role_name = ADMIN, ac_permissions = {}, ac_venue_scope = {},
     ac_authenticated_at = utc_at 0, ac_active = True\<rparr>"

abbreviation sample_persist :: "'j codec \<Rightarrow> 'j persistence \<Rightarrow> occupancy_snapshot \<Rightarrow> event_envelope \<Rightarrow> uuid \<Rightarrow>
    persistence_error + 'j persistence \<times> persistence_result" where
  "sample_persist C p sn e i \<equiv>
     persist C (\<lambda>_. fact_key_message) p sn e sample_writer None None ''persisted'' AUDIT_ANALYTICS None i (utc_at 100000000)"

lemma sample_persist_creates:
  assumes e: "ee_event_type e = ''occupancy_session''" "ee_source e = ''rule:'' @ s" "ee_correlation_id e = None"
      "\<not> dt_less (utc_at 100000000) (ee_event_time e)"
    and sn: "sn_fsm_kind sn = ''occupancy''" "\<not> dt_less (utc_at 100000000) (sn_event_time sn)"
  shows "\<exists>p1 d. sample_persist (one_event_codec e) empty_persistence sn e 20 = Inr (p1, d) \<and> pr_created d \<and>
    map ob_event_id (ot_outbox (pe_tables p1)) = [ee_event_id e] \<and> map tf_fact_id (pe_facts p1) = [sn_snapshot_id sn]"
  using assms
  by (simp add: persist_def empty_persistence_def find_by_event_id_def from_actor_def audit_record_valid_def Let_def
      reject_secrets_in_metadata_def audit_metadata_def first_segment_def blocked_terms_def lower_char_def
      enqueue_event_def inject_correlation_def validate_envelope_def one_event_codec_def venue_scope_checked_def
      require_venue_access_def sample_writer_def outbox_row_of_def outbox_enqueue_def ensure_def
      violated_def blank_def fact_row_def event_row_def)

definition sample_stored_event :: event_envelope where
  "sample_stored_event = \<lparr>ee_event_id = 1, ee_event_type = ''occupancy_session'', ee_schema_version = SCHEMA_VERSION,
     ee_event_time = utc_at 5, ee_produced_at = utc_at 5, ee_correlation_id = None, ee_causation_id = None,
     ee_source = ''rule:r'', ee_payload = OccupancySessionPayload \<lparr>op_phase = STARTED, op_tenant_id = 1, op_venue_id = 2,
       op_session_id = 3, op_camera_id = 4, op_spatial_context_id = None, op_occupancy_count = 1, op_occupied_tracks = [5],
       op_occupancy_time = utc_at 5, op_configuration_version_id = 6, op_rule_id = ''r'', op_rule_version = ''v1''\<rparr>\<rparr>"

definition sample_stored_fact :: occupancy_snapshot where
  "sample_stored_fact = \<lparr>sn_schema_version = SCHEMA_VERSION, sn_snapshot_id = 7, sn_fsm_kind = ''occupancy'',
     sn_key = sample_scope, sn_event_time = utc_at 5, sn_previous_count = 0, sn_delta = 1, sn_occupancy_count = 1,
     sn_occupied_tracks = [5], sn_source_transition_id = 8, sn_fsm_version = ''f'', sn_policy_revision = ''r''\<rparr>"

lemma sample_stored:
  "\<exists>p1 d. sample_persist (one_event_codec sample_stored_event) empty_persistence sample_stored_fact sample_stored_event 20 =
     Inr (p1, d) \<and> pr_created d \<and> map ob_event_id (ot_outbox (pe_tables p1)) = [1] \<and> map tf_fact_id (pe_facts p1) = [7]"
  using sample_persist_creates [of sample_stored_event "''r''" sample_stored_fact]
  by (simp add: sample_stored_event_def sample_stored_fact_def dt_less_def)

theorem persistence_all_or_nothing_witness:
  "\<exists>p d p1. sample_persist (one_event_codec sample_stored_event) empty_persistence sample_stored_fact sample_stored_event 20 = Inr (p1, d) \<and>
     aligned (p1 :: string persistence) \<and> map ob_event_id (ot_outbox (pe_tables p1)) = [1] \<and> pe_facts p1 = [fact_row sample_stored_fact] \<and>
     p = (empty_persistence :: string persistence)"
proof -
  from sample_stored obtain p1 d where s: "sample_persist (one_event_codec sample_stored_event) empty_persistence sample_stored_fact sample_stored_event 20 =
     Inr (p1, d)" "pr_created d" "map ob_event_id (ot_outbox (pe_tables p1)) = [1]"
    by (elim exE conjE)
  have "empty_persistence = persist_run (one_event_codec sample_stored_event) (\<lambda>_. fact_key_message) empty_persistence []"
    by (simp add: persist_run_def)
  from persistence_all_or_nothing [OF this s(1)] s show ?thesis by (auto simp: empty_persistence_def)
qed

theorem second_event_of_fact_lost_witness:
  "\<exists>(p1 :: string persistence) e. map ob_event_id (ot_outbox (pe_tables p1)) = [1] \<and>
     sample_persist (one_event_codec sample_stored_event) p1 sample_stored_fact (sample_stored_event\<lparr>ee_event_id := 2\<rparr>) 21 = Inl e"
proof -
  from sample_stored obtain p1 d where s: "sample_persist (one_event_codec sample_stored_event) empty_persistence sample_stored_fact sample_stored_event 20 =
     Inr (p1, d)" "pr_created d" "map ob_event_id (ot_outbox (pe_tables p1)) = [1]"
    by (elim exE conjE)
  have "ee_event_id (sample_stored_event\<lparr>ee_event_id := 2\<rparr>) \<notin> ob_event_id ` set (ot_outbox (pe_tables p1))"
    using s(3) by (auto simp flip: set_map)
  from second_event_of_fact_lost [OF s(1,2) this, of 21, THEN conjunct1, THEN mp, OF refl] obtain e where
    "sample_persist (one_event_codec sample_stored_event) p1 sample_stored_fact (sample_stored_event\<lparr>ee_event_id := 2\<rparr>) 21 = Inl e"
    by (elim exE)
  with s(3) show ?thesis by (intro exI conjI)
qed

lemma sample_handover_snapshots:
  "\<exists>s out sn0 sn1 sn2. run_facts (occupancy_step sample_lib sample_policy) sample_occupancy
     [sample_occupancy_input 7 ENTER_CONFIRMED 10 1, sample_occupancy_input 7 EXIT_CONFIRMED 11 2,
      sample_occupancy_input 8 ENTER_CONFIRMED 11 2] = Inr (s, out) \<and> List.map_filter snd out = [sn0, sn1, sn2] \<and>
      occupancy_snapshot_valid sn1 \<and> occupancy_snapshot_valid sn2 \<and> sn_key sn1 = sample_scope \<and>
      sn_key sn2 = sample_scope \<and> sn_event_time sn1 = utc_at 11000000 \<and> sn_event_time sn2 = utc_at 11000000 \<and>
      sn_fsm_kind sn1 = ''occupancy'' \<and> snapshot_phase sn1 = Some ENDED \<and> snapshot_phase sn2 = Some STARTED"
  by (simp add: occupancy_eval snapshot_phase_def)

theorem session_start_lost_witness:
  "\<exists>regs s out sn0 sn1 sn2 r1 r2 e1 e2 p1 d. run_facts (occupancy_step sample_lib sample_policy) sample_occupancy
     [sample_occupancy_input 7 ENTER_CONFIRMED 10 1, sample_occupancy_input 7 EXIT_CONFIRMED 11 2,
      sample_occupancy_input 8 ENTER_CONFIRMED 11 2] = Inr (s, out) \<and> List.map_filter snd out = [sn0, sn1, sn2] \<and>
    evaluate_session sample_lib regs ''v1'' sn1 = Inr r1 \<and> rr_event r1 = Some e1 \<and>
    sample_persist (one_event_codec e1) empty_persistence sn1 e1 20 = Inr (p1, d) \<and> pr_created d \<and>
    evaluate_session sample_lib regs ''v1'' sn2 = Inr r2 \<and> rr_event r2 = Some e2 \<and> ee_payload e2 \<noteq> ee_payload e1 \<and>
    sample_persist (one_event_codec e1) p1 sn2 e2 21 = Inr (p1, replayed_result e2)"
proof -
  from sample_handover_snapshots obtain s out sn0 sn1 sn2 where
    run: "run_facts (occupancy_step sample_lib sample_policy) sample_occupancy
     [sample_occupancy_input 7 ENTER_CONFIRMED 10 1, sample_occupancy_input 7 EXIT_CONFIRMED 11 2,
      sample_occupancy_input 8 ENTER_CONFIRMED 11 2] = Inr (s, out)" "List.map_filter snd out = [sn0, sn1, sn2]"
    and sn: "occupancy_snapshot_valid sn1" "occupancy_snapshot_valid sn2" "sn_key sn1 = sample_scope"
      "sn_key sn2 = sample_scope" "sn_event_time sn1 = utc_at 11000000" "sn_event_time sn2 = utc_at 11000000"
      "sn_fsm_kind sn1 = ''occupancy''" "snapshot_phase sn1 = Some ENDED" "snapshot_phase sn2 = Some STARTED"
    by (elim exE conjE)
  from sample_built obtain regs where
    b: "build_operational_registries sample_lib (occupancy_session_evaluator sample_lib) ''v1'' = Inr regs" by blast
  have time: "sn_event_time sn1 = sn_event_time sn2" using sn(5,6) by simp
  from occupancy_session_id_collision [OF b sn(1-4) sample_scope_simps(1) time sn(8,9)] obtain r1 e1 where
    r1: "evaluate_session sample_lib regs ''v1'' sn1 = Inr r1" "rr_event r1 = Some e1" by blast
  from session_event_made [OF b sn(1) _ r1] sn(3) obtain src where
    e1: "ee_event_type e1 = ''occupancy_session''" "ee_source e1 = ''rule:'' @ src" "ee_event_time e1 = utc_at 11000000"
      "ee_correlation_id e1 = None" using sn(5) by auto
  from sample_persist_creates [OF e1(1,2,4) _ sn(7)] e1(3) sn(5) obtain p1 d where
    stored: "sample_persist (one_event_codec e1) empty_persistence sn1 e1 20 = Inr (p1, d)" "pr_created d"
    by (auto simp: dt_less_def)
  from session_start_lost [OF b sn(1-4) sample_scope_simps(1) time sn(8,9) r1 stored, of 21] run r1 stored show ?thesis
    by blast
qed

end
