(* ===== verification/Frame_Source.thy ===== *)
theory Frame_Source
  imports Lease_Queue
begin

text \<open>
  Frame ingestion (\<open>backend/app/intelligence/sources\<close>): the lifecycle and the frame loop of \<open>FrameSource\<close> (\<open>base.py\<close>), the
  recorded source (\<open>file.py\<close>) and the live source with its bounded reconnection (\<open>rtsp.py\<close>). Decoder, transport and
  storage are protocols without an implementation under \<open>src\<close>; what their calls do is the argument \<open>source_env\<close>, indexed
  by the number of the call. A source is a record that extends the state of the base class; a hook returns its result or
  its exception together with the state it leaves.
\<close>

subsection \<open>Errors and frames\<close>

datatype source_error =
    EndOfStream | FrameSourceError | SourceNotOpenError | SourceTerminatedError | FrameDecodeError
  | InvalidStateTransitionError | QueueClosedError | RtspConnectionError | StorageError | ContractError | ProviderError

text \<open>The subclasses of \<open>FrameSourceError\<close>.\<close>

definition frame_source_error :: "source_error \<Rightarrow> bool" where
  "frame_source_error e = (e \<notin> {EndOfStream, StorageError, ContractError, ProviderError})"

datatype decode_status = DECODE_OK | DECODE_ERROR | DECODE_DROPPED

record decoded_frame =
  df_width :: int
  df_height :: int
  df_data :: string
  df_pts_seconds :: "real option"
  df_source_timestamp :: "datetime option"

definition optional :: "('a \<Rightarrow> bool) \<Rightarrow> 'a option \<Rightarrow> bool" where
  "optional ok v = (case v of None \<Rightarrow> True | Some x \<Rightarrow> ok x)"

definition decoded_frame_valid :: "decoded_frame \<Rightarrow> bool" where
  "decoded_frame_valid f = (1 \<le> df_width f \<and> 1 \<le> df_height f \<and> optional (\<lambda>p. 0 \<le> p) (df_pts_seconds f) \<and>
     optional aware (df_source_timestamp f))"

record frame_data =
  fd_frame_index :: int
  fd_width :: "int option"
  fd_height :: "int option"
  fd_data :: string
  fd_pts_seconds :: "real option"
  fd_source_timestamp :: "datetime option"
  fd_decode_status :: decode_status

definition frame_data_valid :: "frame_data \<Rightarrow> bool" where
  "frame_data_valid d = (0 \<le> fd_frame_index d \<and> optional (\<lambda>w. 1 \<le> w) (fd_width d) \<and> optional (\<lambda>h. 1 \<le> h) (fd_height d) \<and>
     optional (\<lambda>p. 0 \<le> p) (fd_pts_seconds d) \<and> optional aware (fd_source_timestamp d))"

record frame_packet =
  fp_frame_id :: uuid
  fp_session_id :: uuid
  fp_schema_version :: string
  fp_frame_index :: int
  fp_event_time :: datetime
  fp_width :: "int option"
  fp_height :: "int option"
  fp_source_ref :: "uuid option"

definition frame_packet_valid :: "frame_packet \<Rightarrow> bool" where
  "frame_packet_valid p = (validate_schema_version (fp_schema_version p) \<and> 0 \<le> fp_frame_index p \<and> aware (fp_event_time p) \<and>
     optional (\<lambda>w. 1 \<le> w) (fp_width p) \<and> optional (\<lambda>h. 1 \<le> h) (fp_height p))"

subsection \<open>The environment\<close>

datatype read_outcome = ReadFrame decoded_frame | ReadEnd | ReadRaises source_error

record source_env =
  se_read :: "nat \<Rightarrow> read_outcome"
  se_exists :: "source_error + bool"
  se_connect :: "nat \<Rightarrow> source_error option"
  se_open :: "nat \<Rightarrow> source_error option"
  se_draw :: "nat \<Rightarrow> real"
  se_now :: "nat \<Rightarrow> datetime"
  se_frame_id :: "nat \<Rightarrow> uuid"

text \<open>\<open>decoder.read\<close>: a frame the class \<open>DecodedFrame\<close> rejects is an exception of the decoder.\<close>

definition read_decoder :: "source_env \<Rightarrow> nat \<Rightarrow> source_error + decoded_frame option" where
  "read_decoder E n =
     (case se_read E n of
        ReadFrame f \<Rightarrow> if decoded_frame_valid f then Inr (Some f) else Inl ProviderError
      | ReadEnd \<Rightarrow> Inr None
      | ReadRaises e \<Rightarrow> Inl e)"

definition wrap_error :: "source_error \<Rightarrow> source_error" where
  "wrap_error e = (if frame_source_error e then e else FrameSourceError)"

subsection \<open>The base class\<close>

datatype source_state = SOURCE_CREATED | SOURCE_RUNNING | SOURCE_DRAINING | SOURCE_CLOSED | SOURCE_FAILED

record frame_source =
  fs_state :: source_state
  fs_session_id :: uuid
  fs_live :: bool
  fs_source_ref :: "uuid option"
  fs_max_consecutive :: int
  fs_frame_index :: int
  fs_dropped :: int
  fs_decode_errors :: int
  fs_consecutive :: int
  fs_last_data :: "frame_data option"
  fs_reads :: nat

type_synonym ('s, 'a) hook = "'s \<Rightarrow> (source_error + 'a) \<times> 's"

text \<open>\<open>_make_packet\<close> and the companion data that both subclasses store with it.\<close>

definition make_packet :: "source_env \<Rightarrow> 'a frame_source_scheme \<Rightarrow> int \<Rightarrow> int \<Rightarrow> datetime \<Rightarrow> frame_packet" where
  "make_packet E s w h event_time =
     \<lparr>fp_frame_id = se_frame_id E (fs_reads s), fp_session_id = fs_session_id s, fp_schema_version = SCHEMA_VERSION,
      fp_frame_index = fs_frame_index s, fp_event_time = event_time, fp_width = Some w, fp_height = Some h,
      fp_source_ref = fs_source_ref s\<rparr>"

definition companion :: "int \<Rightarrow> decoded_frame \<Rightarrow> frame_data" where
  "companion index f =
     \<lparr>fd_frame_index = index, fd_width = Some (df_width f), fd_height = Some (df_height f), fd_data = df_data f,
      fd_pts_seconds = df_pts_seconds f, fd_source_timestamp = df_source_timestamp f, fd_decode_status = DECODE_OK\<rparr>"

definition emit :: "source_env \<Rightarrow> 'a frame_source_scheme \<Rightarrow> decoded_frame \<Rightarrow> datetime \<Rightarrow>
    (source_error + frame_packet) \<times> 'a frame_source_scheme" where
  "emit E s f event_time =
     (let p = make_packet E s (df_width f) (df_height f) event_time in
      if \<not> frame_packet_valid p then (Inl ContractError, s)
      else
        let s1 = s\<lparr>fs_frame_index := fs_frame_index s + 1\<rparr>; d = companion (fp_frame_index p) f in
        if \<not> frame_data_valid d then (Inl ContractError, s1) else (Inr p, s1\<lparr>fs_last_data := Some d\<rparr>))"

definition open_source :: "('a frame_source_scheme, unit) hook \<Rightarrow> ('a frame_source_scheme \<Rightarrow> 'a frame_source_scheme) \<Rightarrow>
    ('a frame_source_scheme, unit) hook" where
  "open_source start stop s =
     (if fs_state s \<noteq> SOURCE_CREATED then (Inl InvalidStateTransitionError, s)
      else case start s of
        (Inl e, s1) \<Rightarrow> (Inl e, stop (s1\<lparr>fs_state := SOURCE_FAILED\<rparr>))
      | (Inr (), s1) \<Rightarrow> (Inr (), s1\<lparr>fs_state := SOURCE_RUNNING\<rparr>))"

definition aclose :: "('a frame_source_scheme \<Rightarrow> 'a frame_source_scheme) \<Rightarrow> 'a frame_source_scheme \<Rightarrow> 'a frame_source_scheme" where
  "aclose stop s = (if fs_state s = SOURCE_CLOSED then s else stop (s\<lparr>fs_state := SOURCE_CLOSED\<rparr>))"

text \<open>The loop of \<open>__anext__\<close>: a frame that cannot be decoded is counted and skipped. For an arbitrary hook it may run for
  ever, which is the result \<open>None\<close>.\<close>

definition count_decode_error :: "'a frame_source_scheme \<Rightarrow> 'a frame_source_scheme" where
  "count_decode_error s = s\<lparr>fs_decode_errors := fs_decode_errors s + 1, fs_consecutive := fs_consecutive s + 1\<rparr>"

partial_function (option) next_loop :: "('a frame_source_scheme, frame_packet) hook \<Rightarrow> 'a frame_source_scheme \<Rightarrow>
    ((source_error + frame_packet) \<times> 'a frame_source_scheme) option" where
  "next_loop produce s =
     (case produce s of
        (Inr p, s1) \<Rightarrow> Some (Inr p, s1\<lparr>fs_consecutive := 0\<rparr>)
      | (Inl e, s1) \<Rightarrow>
          if e = EndOfStream then
            Some (Inl EndOfStream, if fs_state s1 = SOURCE_RUNNING then s1\<lparr>fs_state := SOURCE_DRAINING\<rparr> else s1)
          else if e = FrameDecodeError then
            (let s2 = count_decode_error s1 in
             if fs_max_consecutive s2 \<le> fs_consecutive s2
             then Some (Inl SourceTerminatedError, s2\<lparr>fs_state := SOURCE_FAILED\<rparr>)
             else next_loop produce s2)
          else Some (Inl e, s1))"

definition anext :: "('a frame_source_scheme, frame_packet) hook \<Rightarrow> 'a frame_source_scheme \<Rightarrow>
    ((source_error + frame_packet) \<times> 'a frame_source_scheme) option" where
  "anext produce s =
     (if fs_state s = SOURCE_CLOSED then Some (Inl SourceNotOpenError, s)
      else if fs_state s = SOURCE_FAILED then Some (Inl SourceTerminatedError, s)
      else if fs_state s \<notin> {SOURCE_RUNNING, SOURCE_DRAINING} then Some (Inl SourceNotOpenError, s)
      else next_loop produce s)"

definition note_dropped :: "'a frame_source_scheme \<Rightarrow> 'a frame_source_scheme" where
  "note_dropped s = s\<lparr>fs_dropped := fs_dropped s + 1\<rparr>"

subsection \<open>Recorded video\<close>

record file_source = frame_source +
  fl_started :: bool
  fl_streaming :: bool
  fl_capture_time :: "datetime option"

definition new_file_source :: "uuid \<Rightarrow> uuid option \<Rightarrow> string \<Rightarrow> datetime option \<Rightarrow> int \<Rightarrow> source_error + file_source" where
  "new_file_source session_id source_ref object_key capture_time max_consecutive =
     (if object_key = '''' then Inl ContractError
      else Inr \<lparr>fs_state = SOURCE_CREATED, fs_session_id = session_id, fs_live = False, fs_source_ref = source_ref,
        fs_max_consecutive = max_consecutive, fs_frame_index = 0, fs_dropped = 0, fs_decode_errors = 0, fs_consecutive = 0,
        fs_last_data = None, fs_reads = 0, fl_started = False, fl_streaming = False, fl_capture_time = capture_time\<rparr>)"

definition file_start :: "source_env \<Rightarrow> (file_source, unit) hook" where
  "file_start E s =
     (case se_exists E of
        Inl e \<Rightarrow> (Inl (if e = StorageError then FrameSourceError else e), s)
      | Inr present \<Rightarrow>
          if \<not> present then (Inl FrameSourceError, s)
          else
            let s1 = s\<lparr>fl_streaming := True\<rparr> in
            case se_open E 0 of
              Some e \<Rightarrow> (Inl (if e = StorageError then FrameSourceError else e), s1)
            | None \<Rightarrow> (Inr (), s1\<lparr>fl_started := True\<rparr>))"

definition file_event_time :: "file_source \<Rightarrow> decoded_frame \<Rightarrow> datetime option" where
  "file_event_time s f =
     (case (fl_capture_time s, df_pts_seconds f) of
        (Some t, Some p) \<Rightarrow> Some (after t (timedelta_seconds p))
      | _ \<Rightarrow> df_source_timestamp f)"

definition file_produce :: "source_env \<Rightarrow> (file_source, frame_packet) hook" where
  "file_produce E s =
     (if \<not> fl_started s \<or> \<not> fl_streaming s then (Inl SourceNotOpenError, s)
      else
        let s1 = s\<lparr>fs_reads := fs_reads s + 1\<rparr> in
        case read_decoder E (fs_reads s) of
          Inl e \<Rightarrow> (Inl (wrap_error e), s1)
        | Inr None \<Rightarrow> (Inl EndOfStream, s1)
        | Inr (Some f) \<Rightarrow>
            (case file_event_time s1 f of
               None \<Rightarrow> (Inl FrameSourceError, s1\<lparr>fs_state := SOURCE_FAILED\<rparr>)
             | Some t \<Rightarrow> emit E s1 f t))"

definition file_stop :: "file_source \<Rightarrow> file_source" where
  "file_stop s = s\<lparr>fl_started := False, fl_streaming := False\<rparr>"

subsection \<open>Live video\<close>

record reconnect_policy =
  rp_max_attempts :: int
  rp_base_delay :: real
  rp_max_delay :: real
  rp_jitter :: real

definition reconnect_policy_valid :: "reconnect_policy \<Rightarrow> bool" where
  "reconnect_policy_valid p = (1 \<le> rp_max_attempts p \<and> 0 < rp_base_delay p \<and> rp_base_delay p \<le> rp_max_delay p \<and>
     0 \<le> rp_jitter p \<and> rp_jitter p < 1)"

text \<open>\<open>rs_connects\<close> counts the calls of the transport and \<open>rs_waited\<close> the microseconds slept between them.\<close>

record rtsp_source = frame_source +
  rs_connected :: bool
  rs_attempts :: int
  rs_reconnects :: int
  rs_policy :: reconnect_policy
  rs_connects :: nat
  rs_waited :: int

definition new_rtsp_source :: "uuid \<Rightarrow> uuid option \<Rightarrow> reconnect_policy \<Rightarrow> int \<Rightarrow> rtsp_source" where
  "new_rtsp_source session_id source_ref policy max_consecutive =
     \<lparr>fs_state = SOURCE_CREATED, fs_session_id = session_id, fs_live = True, fs_source_ref = source_ref,
      fs_max_consecutive = max_consecutive, fs_frame_index = 0, fs_dropped = 0, fs_decode_errors = 0, fs_consecutive = 0,
      fs_last_data = None, fs_reads = 0, rs_connected = False, rs_attempts = 0, rs_reconnects = 0, rs_policy = policy,
      rs_connects = 0, rs_waited = 0\<rparr>"

text \<open>\<open>transport.connect\<close> followed by \<open>decoder.open\<close>; the flag tells whether a stream was returned.\<close>

definition connect_open :: "source_env \<Rightarrow> nat \<Rightarrow> bool \<times> source_error option" where
  "connect_open E n = (case se_connect E n of Some e \<Rightarrow> (False, Some e) | None \<Rightarrow> (True, se_open E n))"

definition rtsp_start :: "source_env \<Rightarrow> (rtsp_source, unit) hook" where
  "rtsp_start E s =
     (let s1 = s\<lparr>rs_connects := rs_connects s + 1\<rparr> in
      case connect_open E (rs_connects s) of
        (stream, Some e) \<Rightarrow> (Inl e, s1\<lparr>rs_connected := stream\<rparr>)
      | (stream, None) \<Rightarrow> (Inr (), s1\<lparr>rs_connected := stream\<rparr>))"

definition begin_attempt :: "rtsp_source \<Rightarrow> int \<Rightarrow> rtsp_source" where
  "begin_attempt s delay = s\<lparr>rs_attempts := rs_attempts s + 1, rs_waited := rs_waited s + delay, rs_connects := rs_connects s + 1\<rparr>"

definition reconnect_delay :: "source_env \<Rightarrow> rtsp_source \<Rightarrow> backoff_error + int" where
  "reconnect_delay E s = compute_backoff_delay (rs_attempts s + 1) (rp_base_delay (rs_policy s)) (rp_max_delay (rs_policy s))
     (rp_jitter (rs_policy s)) (se_draw E (rs_connects s))"

function reconnect_or_fail :: "source_env \<Rightarrow> (rtsp_source, unit) hook" where
  "reconnect_or_fail E s =
     (if rs_attempts s < rp_max_attempts (rs_policy s) then
        (case reconnect_delay E s of
           Inl _ \<Rightarrow> (Inl ContractError, s\<lparr>rs_attempts := rs_attempts s + 1\<rparr>)
         | Inr delay \<Rightarrow>
             (let s1 = begin_attempt s delay in
              case connect_open E (rs_connects s) of
                (_, None) \<Rightarrow> (Inr (), s1\<lparr>rs_connected := True, rs_reconnects := rs_reconnects s1 + 1\<rparr>)
              | (_, Some e) \<Rightarrow>
                  if e = RtspConnectionError \<or> e = FrameDecodeError then reconnect_or_fail E (s1\<lparr>rs_connected := False\<rparr>)
                  else (Inl e, s1)))
      else (Inl SourceTerminatedError, s\<lparr>fs_state := SOURCE_FAILED\<rparr>))"
  by pat_completeness auto
termination
  by (relation "measure (\<lambda>(E, s). nat (rp_max_attempts (rs_policy s) - rs_attempts s))") (auto simp: begin_attempt_def)

declare reconnect_or_fail.simps [simp del]

lemma reconnect_Inr:
  "reconnect_or_fail E s = (Inr u, s1) \<Longrightarrow> rs_connected s1 \<and> rs_attempts s < rs_attempts s1 \<and>
     rs_attempts s1 \<le> rp_max_attempts (rs_policy s) \<and> rs_policy s1 = rs_policy s"
proof (induction E s rule: reconnect_or_fail.induct)
  case (1 E s)
  note run = 1(2) [unfolded reconnect_or_fail.simps [of E s]]
  have more: "rs_attempts s < rp_max_attempts (rs_policy s)" using run by (auto split: if_splits)
  then obtain delay where delay: "reconnect_delay E s = Inr delay" using run by (auto split: sum.splits)
  obtain stream e where c: "connect_open E (rs_connects s) = (stream, e)" by fastforce
  show ?case
  proof (cases e)
    case None
    with run more delay c show ?thesis by (auto simp: begin_attempt_def Let_def)
  next
    case (Some x)
    with run more delay c have "x = RtspConnectionError \<or> x = FrameDecodeError"
      and "reconnect_or_fail E (begin_attempt s delay\<lparr>rs_connected := False\<rparr>) = (Inr u, s1)"
      by (auto simp: Let_def split: if_splits)
    from 1(1) [OF more delay refl c [symmetric] Some this(1) this(2)] show ?thesis by (simp add: begin_attempt_def)
  qed
qed

definition live_event_time :: "source_env \<Rightarrow> rtsp_source \<Rightarrow> decoded_frame \<Rightarrow> datetime" where
  "live_event_time E s f = (case df_source_timestamp f of Some t \<Rightarrow> t | None \<Rightarrow> se_now E (fs_reads s))"

function rtsp_produce :: "source_env \<Rightarrow> (rtsp_source, frame_packet) hook" where
  "rtsp_produce E s =
     (case (if rs_connected s then (Inr (), s) else reconnect_or_fail E s) of
        (Inl e, s1) \<Rightarrow> (Inl e, s1)
      | (Inr (), s1) \<Rightarrow>
          (let s2 = s1\<lparr>fs_reads := fs_reads s1 + 1\<rparr> in
           case read_decoder E (fs_reads s1) of
             Inl e \<Rightarrow> if e = RtspConnectionError then rtsp_produce E (s2\<lparr>rs_connected := False\<rparr>) else (Inl (wrap_error e), s2)
           | Inr None \<Rightarrow> rtsp_produce E (s2\<lparr>rs_connected := False\<rparr>)
           | Inr (Some f) \<Rightarrow> emit E (s2\<lparr>rs_attempts := 0\<rparr>) f (live_event_time E s2 f)))"
  by pat_completeness auto
termination
  by (relation "measure (\<lambda>(E, s). 2 * nat (rp_max_attempts (rs_policy s) - rs_attempts s) + (if rs_connected s then 1 else 0))")
    (auto split: if_splits dest: reconnect_Inr [OF sym])

declare rtsp_produce.simps [simp del]

definition rtsp_stop :: "rtsp_source \<Rightarrow> rtsp_source" where
  "rtsp_stop s = s\<lparr>rs_connected := False\<rparr>"

end
