(* ===== verification/Frame_Pipeline.thy ===== *)
theory Frame_Pipeline
  imports Frame_Source
begin

text \<open>
  The bounded queue between a frame source and the vision pipeline (\<open>sources/queue.py\<close>) and the pipeline that runs a source
  through it (\<open>intelligence/pipeline.py\<close>). A call that would wait on the condition of the queue has no result (\<open>None\<close>) and
  leaves the queue as it is; the waiting task is resumed by evaluating the call again, as the loops of \<open>put\<close> and \<open>get\<close> do.
  The tasks of the pipeline take turns in any order.
\<close>

subsection \<open>The queue\<close>

datatype full_policy = BLOCK | DROP_OLDEST

record 'f frame_queue =
  fq_maxsize :: nat
  fq_policy :: full_policy
  fq_items :: "'f list"
  fq_closed :: bool
  fq_dropped :: nat
  fq_enqueued :: nat
  fq_dequeued :: nat
  fq_max_observed :: nat

definition new_queue :: "int \<Rightarrow> full_policy \<Rightarrow> source_error + 'f frame_queue" where
  "new_queue maxsize policy =
     (if maxsize < 1 then Inl ContractError
      else Inr \<lparr>fq_maxsize = nat maxsize, fq_policy = policy, fq_items = [], fq_closed = False, fq_dropped = 0,
        fq_enqueued = 0, fq_dequeued = 0, fq_max_observed = 0\<rparr>)"

definition admit :: "'f \<Rightarrow> 'f frame_queue \<Rightarrow> 'f frame_queue" where
  "admit x q = (let items = fq_items q @ [x] in
     q\<lparr>fq_items := items, fq_enqueued := fq_enqueued q + 1, fq_max_observed := max (fq_max_observed q) (length items)\<rparr>)"

definition evict :: "'f frame_queue \<Rightarrow> 'f frame_queue" where
  "evict q = (if fq_maxsize q \<le> length (fq_items q)
     then q\<lparr>fq_items := tl (fq_items q), fq_dropped := fq_dropped q + 1\<rparr> else q)"

definition queue_put :: "'f \<Rightarrow> 'f frame_queue \<Rightarrow> (source_error + 'f frame_queue) option" where
  "queue_put x q =
     (if fq_closed q then Some (Inl QueueClosedError)
      else case fq_policy q of
        DROP_OLDEST \<Rightarrow> Some (Inr (admit x (evict q)))
      | BLOCK \<Rightarrow> if fq_maxsize q \<le> length (fq_items q) then None else Some (Inr (admit x q)))"

definition queue_get :: "'f frame_queue \<Rightarrow> (source_error + 'f \<times> 'f frame_queue) option" where
  "queue_get q =
     (case fq_items q of
        [] \<Rightarrow> if fq_closed q then Some (Inl QueueClosedError) else None
      | x # xs \<Rightarrow> Some (Inr (x, q\<lparr>fq_items := xs, fq_dequeued := fq_dequeued q + 1\<rparr>)))"

definition queue_shutdown :: "'f frame_queue \<Rightarrow> 'f frame_queue" where
  "queue_shutdown q = q\<lparr>fq_closed := True\<rparr>"

record queue_stats =
  qs_qsize :: nat
  qs_maxsize :: nat
  qs_full_policy :: full_policy
  qs_closed :: bool
  qs_total_enqueued :: nat
  qs_total_dequeued :: nat
  qs_dropped_frames :: nat
  qs_max_observed :: nat

definition stats :: "'f frame_queue \<Rightarrow> queue_stats" where
  "stats q = \<lparr>qs_qsize = length (fq_items q), qs_maxsize = fq_maxsize q, qs_full_policy = fq_policy q,
     qs_closed = fq_closed q, qs_total_enqueued = fq_enqueued q, qs_total_dequeued = fq_dequeued q,
     qs_dropped_frames = fq_dropped q, qs_max_observed = fq_max_observed q\<rparr>"

subsection \<open>The pipeline\<close>

record queued_frame =
  qf_packet :: frame_packet
  qf_data :: frame_data

datatype producer_task = Fetching | Putting queued_frame | ProducerDone "source_error option"

datatype consumer_task = Getting | ConsumerDone "source_error option"

record 's pipeline =
  pl_source :: 's
  pl_queue :: "queued_frame frame_queue"
  pl_producer :: producer_task
  pl_consumer :: consumer_task
  pl_consumed :: "queued_frame list"

text \<open>A task that ends with the error of a queue that is shut down ends normally.\<close>

definition task_end :: "queued_frame frame_queue \<Rightarrow> source_error \<Rightarrow> source_error option" where
  "task_end q e = (if e = QueueClosedError \<and> fq_closed q then None else Some e)"

definition produce_turn :: "('a frame_source_scheme, frame_packet) hook \<Rightarrow> 'a frame_source_scheme pipeline \<Rightarrow>
    'a frame_source_scheme pipeline" where
  "produce_turn produce p =
     (case pl_producer p of
        Fetching \<Rightarrow>
          (case anext produce (pl_source p) of
             None \<Rightarrow> p
           | Some (Inl e, s) \<Rightarrow> p\<lparr>pl_source := s,
               pl_producer := ProducerDone (if e = EndOfStream then None else task_end (pl_queue p) e)\<rparr>
           | Some (Inr packet, s) \<Rightarrow>
               (case fs_last_data s of
                  None \<Rightarrow> p\<lparr>pl_source := s, pl_producer := ProducerDone (Some FrameSourceError)\<rparr>
                | Some d \<Rightarrow> p\<lparr>pl_source := s, pl_producer := Putting \<lparr>qf_packet = packet, qf_data = d\<rparr>\<rparr>))
      | Putting x \<Rightarrow>
          (case queue_put x (pl_queue p) of
             None \<Rightarrow> p
           | Some (Inl e) \<Rightarrow> p\<lparr>pl_producer := ProducerDone (task_end (pl_queue p) e)\<rparr>
           | Some (Inr q) \<Rightarrow> p\<lparr>pl_queue := q, pl_producer := Fetching,
               pl_source := (note_dropped ^^ (fq_dropped q - fq_dropped (pl_queue p))) (pl_source p)\<rparr>)
      | ProducerDone _ \<Rightarrow> p)"

text \<open>\<open>consume\<close> tells what the consumer raises on its n-th frame.\<close>

definition consume_turn :: "(nat \<Rightarrow> source_error option) \<Rightarrow> 's pipeline \<Rightarrow> 's pipeline" where
  "consume_turn consume p =
     (case pl_consumer p of
        Getting \<Rightarrow>
          (case queue_get (pl_queue p) of
             None \<Rightarrow> p
           | Some (Inl e) \<Rightarrow> p\<lparr>pl_consumer := ConsumerDone (task_end (pl_queue p) e)\<rparr>
           | Some (Inr (x, q)) \<Rightarrow> p\<lparr>pl_queue := q, pl_consumed := pl_consumed p @ [x],
               pl_consumer := (case consume (length (pl_consumed p)) of
                 None \<Rightarrow> Getting | Some e \<Rightarrow> ConsumerDone (task_end q e))\<rparr>)
      | ConsumerDone _ \<Rightarrow> p)"

definition producer_finished :: "'s pipeline \<Rightarrow> bool" where
  "producer_finished p = (case pl_producer p of ProducerDone _ \<Rightarrow> True | _ \<Rightarrow> False)"

definition consumer_finished :: "'s pipeline \<Rightarrow> bool" where
  "consumer_finished p = (case pl_consumer p of ConsumerDone _ \<Rightarrow> True | _ \<Rightarrow> False)"

text \<open>The orchestrating task shuts the queue down when the first of the two has finished.\<close>

definition main_turn :: "'s pipeline \<Rightarrow> 's pipeline" where
  "main_turn p = (if producer_finished p \<or> consumer_finished p then p\<lparr>pl_queue := queue_shutdown (pl_queue p)\<rparr> else p)"

datatype turn = ProducerTurn | ConsumerTurn | MainTurn

fun take_turn :: "('a frame_source_scheme, frame_packet) hook \<Rightarrow> (nat \<Rightarrow> source_error option) \<Rightarrow>
    'a frame_source_scheme pipeline \<Rightarrow> turn \<Rightarrow> 'a frame_source_scheme pipeline" where
  "take_turn produce consume p ProducerTurn = produce_turn produce p"
| "take_turn produce consume p ConsumerTurn = consume_turn consume p"
| "take_turn produce consume p MainTurn = main_turn p"

definition pipeline_run :: "('a frame_source_scheme, frame_packet) hook \<Rightarrow> (nat \<Rightarrow> source_error option) \<Rightarrow>
    'a frame_source_scheme pipeline \<Rightarrow> turn list \<Rightarrow> 'a frame_source_scheme pipeline" where
  "pipeline_run produce consume = foldl (take_turn produce consume)"

text \<open>The failure \<open>run\<close> raises when both tasks are done: the source's one first.\<close>

definition first_real_failure :: "'s pipeline \<Rightarrow> source_error option" where
  "first_real_failure p =
     (let real = (\<lambda>e. case e of Some QueueClosedError \<Rightarrow> None | _ \<Rightarrow> e) in
      case real (case pl_producer p of ProducerDone e \<Rightarrow> e | _ \<Rightarrow> None) of
        Some e \<Rightarrow> Some e
      | None \<Rightarrow> real (case pl_consumer p of ConsumerDone e \<Rightarrow> e | _ \<Rightarrow> None))"

definition start_pipeline :: "'s \<Rightarrow> queued_frame frame_queue \<Rightarrow> source_error + 's pipeline" where
  "start_pipeline s q =
     (if fq_closed q then Inl QueueClosedError
      else Inr \<lparr>pl_source = s, pl_queue = q, pl_producer = Fetching, pl_consumer = Getting, pl_consumed = []\<rparr>)"

end
