(* ===== verification/Frame_Facts.thy ===== *)
theory Frame_Facts
  imports Frame_Pipeline
begin

text \<open>
  What the base class needs from its hooks, that both sources provide it, and what follows: a request for a frame always
  returns, reconnection is bounded, and the pipeline delivers the frames of a source in order and accounts for every frame
  it drops.
\<close>

subsection \<open>The contract of a hook\<close>

text \<open>The part of the state that only the base class writes.\<close>

definition base_kept :: "'a frame_source_scheme \<Rightarrow> 'a frame_source_scheme \<Rightarrow> bool" where
  "base_kept s s' = (fs_session_id s' = fs_session_id s \<and> fs_max_consecutive s' = fs_max_consecutive s \<and>
     fs_consecutive s' = fs_consecutive s \<and> fs_decode_errors s' = fs_decode_errors s \<and> fs_dropped s' = fs_dropped s \<and>
     (fs_state s' = fs_state s \<or> fs_state s' = SOURCE_FAILED))"

lemma base_kept_refl [simp]: "base_kept s s"
  by (simp add: base_kept_def)

lemma base_kept_trans: "base_kept s s1 \<Longrightarrow> base_kept s1 s2 \<Longrightarrow> base_kept s s2"
  by (auto simp: base_kept_def)

definition emitted :: "'a frame_source_scheme \<Rightarrow> frame_packet \<Rightarrow> 'a frame_source_scheme \<Rightarrow> bool" where
  "emitted s p s' = (frame_packet_valid p \<and> fp_frame_index p = fs_frame_index s \<and> fs_frame_index s' = fs_frame_index s + 1 \<and>
     fp_session_id p = fs_session_id s \<and>
     (\<exists>d. fs_last_data s' = Some d \<and> frame_data_valid d \<and> fd_frame_index d = fp_frame_index p))"

locale frame_hook =
  fixes produce :: "('a frame_source_scheme, frame_packet) hook"
  assumes base: "produce s = (r, s') \<Longrightarrow> base_kept s s'"
    and frame: "produce s = (Inr p, s') \<Longrightarrow> emitted s p s'"
    and no_frame: "produce s = (Inl e, s') \<Longrightarrow> 0 \<le> fs_frame_index s \<Longrightarrow> fs_frame_index s' = fs_frame_index s"
begin

text \<open>Every round of the loop uses up one of the decode errors that are left.\<close>

lemma loop_returns:
  "\<exists>r s'. next_loop produce s = Some (r, s')"
proof (induction "nat (fs_max_consecutive s - fs_consecutive s)" arbitrary: s rule: less_induct)
  case less
  obtain r s1 where p: "produce s = (r, s1)" by fastforce
  note b = base [OF p]
  show ?case
  proof (cases r)
    case (Inl e)
    let ?s2 = "count_decode_error s1"
    have "\<exists>r s'. next_loop produce ?s2 = Some (r, s')" if "fs_consecutive ?s2 < fs_max_consecutive ?s2"
      using less [of ?s2] that b by (simp add: base_kept_def count_decode_error_def)
    then show ?thesis by (subst next_loop.simps) (auto simp: p Inl Let_def not_le)
  qed (subst next_loop.simps, simp add: p)
qed

lemma anext_returns: "\<exists>r s'. anext produce s = Some (r, s')"
  using loop_returns [of s] by (simp add: anext_def)

text \<open>What one request changes.\<close>

definition requested :: "'a frame_source_scheme \<Rightarrow> source_error + frame_packet \<Rightarrow> 'a frame_source_scheme \<Rightarrow> bool" where
  "requested s r s' =
     (fs_session_id s' = fs_session_id s \<and> fs_max_consecutive s' = fs_max_consecutive s \<and> fs_dropped s' = fs_dropped s \<and>
      fs_decode_errors s \<le> fs_decode_errors s' \<and>
      fs_decode_errors s' - fs_decode_errors s \<le> max 1 (fs_max_consecutive s - fs_consecutive s) \<and>
      (case r of
         Inr p \<Rightarrow> emitted (s\<lparr>fs_frame_index := fs_frame_index s\<rparr>) p s' \<and> fs_consecutive s' = 0
       | Inl e \<Rightarrow> fs_frame_index s' = fs_frame_index s))"

lemma loop_requested:
  "next_loop produce s = Some (r, s') \<Longrightarrow> 0 \<le> fs_frame_index s \<Longrightarrow> requested s r s'"
proof (induction "nat (fs_max_consecutive s - fs_consecutive s)" arbitrary: s rule: less_induct)
  case less
  obtain x s1 where p: "produce s = (x, s1)" by fastforce
  note b = base [OF p]
  show ?case
  proof (cases x)
    case (Inr packet)
    from frame [OF p [unfolded Inr]] less(2) b show ?thesis
      by (subst (asm) next_loop.simps) (auto simp: p Inr requested_def base_kept_def emitted_def)
  next
    case (Inl e)
    note same = no_frame [OF p [unfolded Inl] less(3)]
    let ?s2 = "count_decode_error s1"
    show ?thesis
    proof (cases "e = FrameDecodeError \<and> fs_consecutive ?s2 < fs_max_consecutive ?s2")
      case True
      then have "next_loop produce ?s2 = Some (r, s')"
        using less(2) by (subst (asm) next_loop.simps) (simp add: p Inl Let_def)
      moreover have "nat (fs_max_consecutive ?s2 - fs_consecutive ?s2) < nat (fs_max_consecutive s - fs_consecutive s)"
        using True b by (simp add: base_kept_def count_decode_error_def)
      ultimately have "requested ?s2 r s'" using less(1) less(3) same by (simp add: count_decode_error_def)
      then show ?thesis
        using b same True by (auto simp: requested_def count_decode_error_def base_kept_def emitted_def split: sum.splits)
    next
      case False
      with less(2) b same show ?thesis
        by (subst (asm) next_loop.simps)
          (auto simp: p Inl Let_def requested_def base_kept_def count_decode_error_def split: if_splits)
    qed
  qed
qed

lemma anext_requested: "anext produce s = Some (r, s') \<Longrightarrow> 0 \<le> fs_frame_index s \<Longrightarrow> requested s r s'"
  using loop_requested [of s r s'] by (auto simp: anext_def requested_def split: if_splits)

end

subsection \<open>Both sources provide it\<close>

lemma emit_valid:
  assumes "decoded_frame_valid f"
  shows "emit E s f t = (Inr p, s') \<Longrightarrow> emitted s p s' \<and> base_kept s s'"
    and "emit E s f t = (Inl e, s') \<Longrightarrow> 0 \<le> fs_frame_index s \<Longrightarrow> s' = s"
  using assms
  by (auto simp: emit_def Let_def emitted_def base_kept_def make_packet_def companion_def frame_data_valid_def
      decoded_frame_valid_def optional_def split: if_splits)

lemma emit_base: "emit E s f t = (r, s') \<Longrightarrow> base_kept s s'"
  by (auto simp: emit_def Let_def base_kept_def split: if_splits)

lemma read_valid: "read_decoder E n = Inr (Some f) \<Longrightarrow> decoded_frame_valid f"
  by (auto simp: read_decoder_def split: read_outcome.splits if_splits)

text \<open>A hook ends with the emission of a decoded frame, or with an exception that leaves the base state alone.\<close>

definition quiet :: "'a frame_source_scheme \<Rightarrow> 'a frame_source_scheme \<Rightarrow> bool" where
  "quiet s s' = (base_kept s s' \<and> fs_frame_index s' = fs_frame_index s)"

lemma quiet_trans: "quiet s s1 \<Longrightarrow> quiet s1 s2 \<Longrightarrow> quiet s s2"
  unfolding quiet_def by (auto intro: base_kept_trans)

lemma file_produce_cases:
  assumes "file_produce E s = (r, s')"
  obtains (emission) f t where "decoded_frame_valid f" and "emit E (s\<lparr>fs_reads := fs_reads s + 1\<rparr>) f t = (r, s')"
  | (exception) e where "r = Inl e" and "quiet s s'"
  using assms unfolding file_produce_def Let_def
  by (auto split: if_splits sum.splits option.splits simp: quiet_def base_kept_def intro: read_valid)

lemma reconnect_quiet: "reconnect_or_fail E s = (r, s') \<Longrightarrow> quiet s s'"
proof (induction E s rule: reconnect_or_fail.induct)
  case (1 E s)
  note run = 1(2) [unfolded reconnect_or_fail.simps [of E s]]
  show ?case
  proof (cases "rs_attempts s < rp_max_attempts (rs_policy s)")
    case True
    show ?thesis
    proof (cases "reconnect_delay E s")
      case (Inr delay)
      obtain stream e where c: "connect_open E (rs_connects s) = (stream, e)" by fastforce
      show ?thesis
      proof (cases "e = Some RtspConnectionError \<or> e = Some FrameDecodeError")
        case again: True
        then obtain x where x: "e = Some x" "x = RtspConnectionError \<or> x = FrameDecodeError" by blast
        have "reconnect_or_fail E (begin_attempt s delay\<lparr>rs_connected := False\<rparr>) = (r, s')"
          using run True Inr c x by (auto simp: Let_def)
        from 1(1) [OF True Inr refl c [symmetric] x this] show ?thesis
          by (auto simp: begin_attempt_def quiet_def base_kept_def)
      next
        case False
        with run True Inr c show ?thesis
          by (auto simp: Let_def begin_attempt_def quiet_def base_kept_def split: option.splits if_splits)
      qed
    qed (use run True in \<open>auto simp: quiet_def base_kept_def\<close>)
  qed (use run in \<open>auto simp: quiet_def base_kept_def\<close>)
qed

interpretation recorded: frame_hook "file_produce E" for E
proof
  fix s s' :: file_source and r
  assume "file_produce E s = (r, s')"
  then show "base_kept s s'"
    by (cases rule: file_produce_cases) (auto dest!: emit_base simp: quiet_def base_kept_def)
next
  fix s s' :: file_source and p
  assume "file_produce E s = (Inr p, s')"
  then show "emitted s p s'"
    by (cases rule: file_produce_cases) (auto dest!: emit_valid(1) simp: emitted_def)
next
  fix s s' :: file_source and e
  assume "file_produce E s = (Inl e, s')" "0 \<le> fs_frame_index s"
  from this(1) show "fs_frame_index s' = fs_frame_index s"
    by (cases rule: file_produce_cases) (use \<open>0 \<le> fs_frame_index s\<close> in \<open>auto dest!: emit_valid(2) simp: quiet_def\<close>)
qed

definition rtsp_outcome :: "source_env \<Rightarrow> rtsp_source \<Rightarrow> source_error + frame_packet \<Rightarrow> rtsp_source \<Rightarrow> bool" where
  "rtsp_outcome E s r s' =
     ((\<exists>s1 f t. decoded_frame_valid f \<and> quiet s s1 \<and> rs_attempts s1 = 0 \<and> emit E s1 f t = (r, s')) \<or>
      ((\<exists>e. r = Inl e) \<and> quiet s s'))"

lemma rtsp_outcome_later: "quiet s s1 \<Longrightarrow> rtsp_outcome E s1 r s' \<Longrightarrow> rtsp_outcome E s r s'"
  unfolding rtsp_outcome_def using quiet_trans [of s s1] by blast

lemma rtsp_step:
  "(if rs_connected s then (Inr (), s) else reconnect_or_fail E s) = (Inl e, s1) \<Longrightarrow> rtsp_produce E s = (Inl e, s1)"
  "(if rs_connected s then (Inr (), s) else reconnect_or_fail E s) = (Inr (), s1) \<Longrightarrow> rtsp_produce E s =
     (case read_decoder E (fs_reads s1) of
        Inl e \<Rightarrow> if e = RtspConnectionError then rtsp_produce E (s1\<lparr>fs_reads := fs_reads s1 + 1, rs_connected := False\<rparr>)
          else (Inl (wrap_error e), s1\<lparr>fs_reads := fs_reads s1 + 1\<rparr>)
      | Inr None \<Rightarrow> rtsp_produce E (s1\<lparr>fs_reads := fs_reads s1 + 1, rs_connected := False\<rparr>)
      | Inr (Some f) \<Rightarrow> emit E (s1\<lparr>fs_reads := fs_reads s1 + 1, rs_attempts := 0\<rparr>) f
          (live_event_time E (s1\<lparr>fs_reads := fs_reads s1 + 1\<rparr>) f))"
  by (subst rtsp_produce.simps, simp only: prod.case sum.case unit.case Let_def)+

lemma rtsp_produce_outcome: "rtsp_produce E s = (r, s') \<Longrightarrow> rtsp_outcome E s r s'"
proof (induction E s rule: rtsp_produce.induct)
  case (1 E s)
  obtain a s1 where a: "(if rs_connected s then (Inr (), s) else reconnect_or_fail E s) = (a, s1)" by fastforce
  have q: "quiet s s1" using a reconnect_quiet [of E s a s1] by (auto simp: quiet_def split: if_splits)
  let ?s2 = "s1\<lparr>fs_reads := fs_reads s1 + 1\<rparr>"
  have q2: "quiet s ?s2" "quiet s (?s2\<lparr>rs_connected := False\<rparr>)" "quiet s (?s2\<lparr>rs_attempts := 0\<rparr>)"
    using q by (simp_all add: quiet_def base_kept_def)
  show ?case
  proof (cases a)
    case (Inl e)
    with 1(3) q rtsp_step(1) a show ?thesis by (auto simp: rtsp_outcome_def)
  next
    case (Inr u)
    then have a0: "a = Inr ()" by simp
    note run = 1(3) [unfolded rtsp_step(2) [OF a [unfolded a0]]]
    note lost = 1(1) [OF a [symmetric] a0 refl refl] and ended = 1(2) [OF a [symmetric] a0 refl refl]
    show ?thesis
    proof (cases "read_decoder E (fs_reads s1)")
      case (Inl e)
      show ?thesis
      proof (cases "e = RtspConnectionError")
        case True
        with run Inl have "rtsp_produce E (?s2\<lparr>rs_connected := False\<rparr>) = (r, s')" by (simp add: Let_def)
        from lost [OF Inl True this] show ?thesis by (rule rtsp_outcome_later [OF q2(2)])
      next
        case False
        with run Inl q2(1) show ?thesis by (auto simp: Let_def rtsp_outcome_def)
      qed
    next
      case (Inr fo)
      show ?thesis
      proof (cases fo)
        case None
        with run Inr have "rtsp_produce E (?s2\<lparr>rs_connected := False\<rparr>) = (r, s')" by (simp add: Let_def)
        from ended [OF Inr None this] show ?thesis by (rule rtsp_outcome_later [OF q2(2)])
      next
        case (Some f)
        with run Inr have "emit E (?s2\<lparr>rs_attempts := 0\<rparr>) f (live_event_time E ?s2 f) = (r, s')"
          by (auto simp: Let_def)
        moreover have "decoded_frame_valid f" using read_valid Inr Some by blast
        moreover have "rs_attempts (?s2\<lparr>rs_attempts := 0\<rparr>) = 0" by simp
        ultimately show ?thesis using q2(3) unfolding rtsp_outcome_def by blast
      qed
    qed
  qed
qed

lemma rtsp_produce_cases:
  assumes "rtsp_produce E s = (r, s')"
  obtains (emission) s1 f t where "decoded_frame_valid f" and "quiet s s1" and "rs_attempts s1 = 0" and "emit E s1 f t = (r, s')"
  | (exception) e where "r = Inl e" and "quiet s s'"
  using rtsp_produce_outcome [OF assms] unfolding rtsp_outcome_def by blast

interpretation live: frame_hook "rtsp_produce E" for E
proof
  fix s s' :: rtsp_source and r
  assume "rtsp_produce E s = (r, s')"
  then show "base_kept s s'"
    by (cases rule: rtsp_produce_cases) (auto dest!: emit_base simp: quiet_def intro: base_kept_trans)
next
  fix s s' :: rtsp_source and p
  assume "rtsp_produce E s = (Inr p, s')"
  then show "emitted s p s'"
    by (cases rule: rtsp_produce_cases) (auto dest!: emit_valid(1) simp: emitted_def quiet_def base_kept_def)
next
  fix s s' :: rtsp_source and e
  assume "rtsp_produce E s = (Inl e, s')" "0 \<le> fs_frame_index s"
  from this(1) show "fs_frame_index s' = fs_frame_index s"
    by (cases rule: rtsp_produce_cases) (use \<open>0 \<le> fs_frame_index s\<close> in \<open>auto dest!: emit_valid(2) simp: quiet_def\<close>)
qed

subsection \<open>Reconnection is bounded\<close>

definition draws_within :: "source_env \<Rightarrow> rtsp_source \<Rightarrow> bool" where
  "draws_within E s = (reconnect_policy_valid (rs_policy s) \<and> (\<forall>n. \<bar>se_draw E n\<bar> \<le> rp_jitter (rs_policy s)))"

definition longest_delay :: "rtsp_source \<Rightarrow> int" where
  "longest_delay s = timedelta_seconds (rp_max_delay (rs_policy s))"

text \<open>What reconnecting costs: every attempt is one call of the transport and waits for the longest delay at most.\<close>

definition reconnecting :: "rtsp_source \<Rightarrow> int \<Rightarrow> rtsp_source \<Rightarrow> bool" where
  "reconnecting s used s' =
     (0 \<le> used \<and> int (rs_connects s') = int (rs_connects s) + used \<and> rs_waited s' \<le> rs_waited s + used * longest_delay s \<and>
      rs_attempts s + used \<le> max (rs_attempts s) (rp_max_attempts (rs_policy s)) \<and> rs_policy s' = rs_policy s)"

lemma reconnecting_refl: "reconnecting s 0 s"
  by (simp add: reconnecting_def)

lemma reconnecting_trans:
  "reconnecting s u s1 \<Longrightarrow> rs_attempts s1 = rs_attempts s + u \<Longrightarrow> reconnecting s1 v s2 \<Longrightarrow> reconnecting s (u + v) s2"
  by (auto simp: reconnecting_def longest_delay_def distrib_right)

lemma reconnect_delay_within:
  assumes "draws_within E s" "0 \<le> rs_attempts s"
  obtains delay where "reconnect_delay E s = Inr delay" and "delay \<le> longest_delay s"
proof -
  from assms(1) have p: "0 \<le> rp_base_delay (rs_policy s)" "rp_base_delay (rs_policy s) \<le> rp_max_delay (rs_policy s)"
    "0 \<le> rp_jitter (rs_policy s)" "rp_jitter (rs_policy s) < 1" "\<bar>se_draw E (rs_connects s)\<bar> \<le> rp_jitter (rs_policy s)"
    by (auto simp: draws_within_def reconnect_policy_valid_def)
  have "reconnect_delay E s = Inr (timedelta_seconds (backoff_seconds (rs_attempts s + 1) (rp_base_delay (rs_policy s))
      (rp_max_delay (rs_policy s)) (rp_jitter (rs_policy s)) (se_draw E (rs_connects s))))"
    using p assms(2) by (simp add: reconnect_delay_def compute_backoff_delay_def)
  then show thesis
    by (rule that) (simp add: longest_delay_def timedelta_seconds_mono backoff_within(2) [OF p])
qed

lemma begin_attempt_reconnecting:
  assumes "rs_attempts s < rp_max_attempts (rs_policy s)" "delay \<le> longest_delay s"
  shows "reconnecting s 1 (begin_attempt s delay)"
  using assms by (simp add: reconnecting_def begin_attempt_def)

lemma reconnecting_cong:
  "reconnecting s u s1 \<Longrightarrow> rs_connects s2 = rs_connects s1 \<Longrightarrow> rs_waited s2 = rs_waited s1 \<Longrightarrow> rs_policy s2 = rs_policy s1 \<Longrightarrow>
     reconnecting s u s2"
  by (simp add: reconnecting_def)

lemma reconnect_reconnecting:
  assumes "reconnect_or_fail E s = (r, s')" "draws_within E s" "0 \<le> rs_attempts s"
  shows "\<exists>used. reconnecting s used s' \<and> rs_attempts s' = rs_attempts s + used"
  using assms
proof (induction E s rule: reconnect_or_fail.induct)
  case (1 E s)
  note run = 1(2) [unfolded reconnect_or_fail.simps [of E s]]
  show ?case
  proof (cases "rs_attempts s < rp_max_attempts (rs_policy s)")
    case True
    from reconnect_delay_within [OF 1(3,4)] obtain delay where
      delay: "reconnect_delay E s = Inr delay" "delay \<le> longest_delay s" .
    note one = begin_attempt_reconnecting [OF True delay(2)]
    have att: "rs_attempts (begin_attempt s delay) = rs_attempts s + 1" by (simp add: begin_attempt_def)
    obtain stream e where c: "connect_open E (rs_connects s) = (stream, e)" by fastforce
    show ?thesis
    proof (cases "e = Some RtspConnectionError \<or> e = Some FrameDecodeError")
      case again: True
      then obtain x where x: "e = Some x" "x = RtspConnectionError \<or> x = FrameDecodeError" by blast
      let ?s1 = "begin_attempt s delay\<lparr>rs_connected := False\<rparr>"
      have "reconnect_or_fail E ?s1 = (r, s')" using run True delay c x by (auto simp: Let_def)
      from 1(1) [OF True delay(1) refl c [symmetric] x this] 1(3,4) obtain used where
        "reconnecting ?s1 used s'" "rs_attempts s' = rs_attempts ?s1 + used"
        by (auto simp: draws_within_def begin_attempt_def)
      then show ?thesis
        using reconnecting_trans [of s 1 ?s1 used s'] reconnecting_cong [OF one, of ?s1] att by auto
    next
      case False
      with run True delay c have "s' \<in> {begin_attempt s delay, begin_attempt s delay\<lparr>rs_connected := True,
          rs_reconnects := rs_reconnects (begin_attempt s delay) + 1\<rparr>}"
        by (auto simp: Let_def split: option.splits if_splits)
      then show ?thesis using one att reconnecting_cong [OF one, of s'] by auto
    qed
  next
    case False
    with run show ?thesis using reconnecting_cong [OF reconnecting_refl, of s' s] by auto
  qed
qed

lemma emit_rtsp:
  fixes s :: rtsp_source
  assumes "emit E s f t = (r, s')"
  shows "rs_connects s' = rs_connects s \<and> rs_waited s' = rs_waited s \<and> rs_policy s' = rs_policy s \<and> rs_attempts s' = rs_attempts s"
  using assms by (auto simp: emit_def Let_def split: if_splits)

text \<open>A call of the hook that gives no frame keeps the count of attempts, unless the frame itself was rejected.\<close>

lemma rtsp_reconnecting:
  assumes "rtsp_produce E s = (r, s')" "draws_within E s" "0 \<le> rs_attempts s"
  shows "\<exists>used. reconnecting s used s' \<and>
    (rs_attempts s' = rs_attempts s + used \<or> rs_attempts s' = 0 \<and> (r = Inl ContractError \<or> (\<exists>p. r = Inr p)))"
  using assms
proof (induction E s rule: rtsp_produce.induct)
  case (1 E s)
  obtain a s1 where a: "(if rs_connected s then (Inr (), s) else reconnect_or_fail E s) = (a, s1)" by fastforce
  have "\<exists>u. reconnecting s u s1 \<and> rs_attempts s1 = rs_attempts s + u"
    using a reconnect_reconnecting [of E s a s1] 1(4,5) by (auto split: if_splits intro: exI [of _ 0] reconnecting_refl)
  then obtain u where u: "reconnecting s u s1" "rs_attempts s1 = rs_attempts s + u" by blast
  show ?case
  proof (cases a)
    case (Inl e)
    then have "s' = s1" using 1(3) rtsp_step(1) a by auto
    then show ?thesis using u by blast
  next
    case (Inr x)
    then have a0: "a = Inr ()" by simp
    note run = 1(3) [unfolded rtsp_step(2) [OF a [unfolded a0]]]
    let ?s2 = "s1\<lparr>fs_reads := fs_reads s1 + 1\<rparr>" and ?s3 = "s1\<lparr>fs_reads := fs_reads s1 + 1, rs_connected := False\<rparr>"
    note lost = 1(1) [OF a [symmetric] a0 refl refl] and ended = 1(2) [OF a [symmetric] a0 refl refl]
    have ok: "draws_within E ?s3" "0 \<le> rs_attempts ?s3"
      using 1(4,5) u by (auto simp: draws_within_def reconnecting_def)
    have chain: ?thesis
      if "\<exists>v. reconnecting ?s3 v s' \<and> (rs_attempts s' = rs_attempts ?s3 + v \<or> rs_attempts s' = 0 \<and> (r = Inl ContractError \<or> (\<exists>p. r = Inr p)))"
    proof -
      from that obtain v where v: "reconnecting ?s3 v s'"
        "rs_attempts s' = rs_attempts ?s3 + v \<or> rs_attempts s' = 0 \<and> (r = Inl ContractError \<or> (\<exists>p. r = Inr p))" by blast
      have "reconnecting s (u + v) s'"
        by (rule reconnecting_trans [OF reconnecting_cong [OF u(1), of ?s3] _ v(1)]) (simp_all add: u(2))
      then show ?thesis using v(2) u(2) by (intro exI [of _ "u + v"]) auto
    qed
    show ?thesis
    proof (cases "read_decoder E (fs_reads s1)")
      case (Inl e)
      show ?thesis
      proof (cases "e = RtspConnectionError")
        case True
        with run Inl have "rtsp_produce E ?s3 = (r, s')" by simp
        from chain [OF lost [OF Inl True _ ]] this ok show ?thesis by simp
      next
        case False
        with run Inl have "s' = ?s2" by auto
        then show ?thesis using u reconnecting_cong [OF u(1), of s'] by auto
      qed
    next
      case (Inr fo)
      show ?thesis
      proof (cases fo)
        case None
        with run Inr have "rtsp_produce E ?s3 = (r, s')" by simp
        from chain [OF ended [OF Inr None]] this ok show ?thesis by simp
      next
        case (Some f)
        with run Inr have em: "emit E (s1\<lparr>fs_reads := fs_reads s1 + 1, rs_attempts := 0\<rparr>) f (live_event_time E ?s2 f) = (r, s')"
          by simp
        moreover from em have "r = Inl ContractError \<or> (\<exists>p. r = Inr p)" by (auto simp: emit_def Let_def split: if_splits)
        ultimately show ?thesis using emit_rtsp [OF em] reconnecting_cong [OF u(1), of s'] by auto
      qed
    qed
  qed
qed

lemma live_loop_reconnecting:
  assumes "next_loop (rtsp_produce E) s = Some (r, s')" "draws_within E s" "0 \<le> rs_attempts s"
  shows "\<exists>used. reconnecting s used s' \<and>
    (rs_attempts s' = rs_attempts s + used \<or> rs_attempts s' = 0 \<and> (r = Inl ContractError \<or> (\<exists>p. r = Inr p)))"
  using assms
proof (induction "nat (fs_max_consecutive s - fs_consecutive s)" arbitrary: s rule: less_induct)
  case less
  obtain x s1 where p: "rtsp_produce E s = (x, s1)" by fastforce
  note b = live.base [OF p]
  from rtsp_reconnecting [OF p less(3,4)] obtain u where u: "reconnecting s u s1"
    "rs_attempts s1 = rs_attempts s + u \<or> rs_attempts s1 = 0 \<and> (x = Inl ContractError \<or> (\<exists>p. x = Inr p))" by blast
  let ?s2 = "count_decode_error s1"
  show ?case
  proof (cases "x = Inl FrameDecodeError \<and> fs_consecutive ?s2 < fs_max_consecutive ?s2")
    case True
    then have run: "next_loop (rtsp_produce E) ?s2 = Some (r, s')"
      using less(2) by (subst (asm) next_loop.simps) (simp add: p Let_def)
    have "nat (fs_max_consecutive ?s2 - fs_consecutive ?s2) < nat (fs_max_consecutive s - fs_consecutive s)"
      using True b by (simp add: base_kept_def count_decode_error_def)
    moreover have att: "rs_attempts ?s2 = rs_attempts s + u" using u True by (simp add: count_decode_error_def)
    moreover have "draws_within E ?s2" "0 \<le> rs_attempts ?s2"
      using less(3,4) u(1) att by (auto simp: draws_within_def reconnecting_def count_decode_error_def)
    ultimately obtain v where v: "reconnecting ?s2 v s'"
        "rs_attempts s' = rs_attempts ?s2 + v \<or> rs_attempts s' = 0 \<and> (r = Inl ContractError \<or> (\<exists>p. r = Inr p))"
      using less(1) [OF _ run] by blast
    have "reconnecting s u ?s2" by (rule reconnecting_cong [OF u(1)]) (simp_all add: count_decode_error_def)
    from reconnecting_trans [OF this att v(1)] v(2) att show ?thesis by (intro exI [of _ "u + v"]) auto
  next
    case False
    with less(2) have "(r = x \<or> x = Inl FrameDecodeError \<and> r = Inl SourceTerminatedError) \<and> rs_attempts s' = rs_attempts s1 \<and>
        rs_connects s' = rs_connects s1 \<and> rs_waited s' = rs_waited s1 \<and> rs_policy s' = rs_policy s1"
      by (subst (asm) next_loop.simps)
        (auto simp: p Let_def count_decode_error_def split: if_splits sum.splits)
    then show ?thesis using u reconnecting_cong [OF u(1), of s'] by auto
  qed
qed

text \<open>A transport that never connects again.\<close>

lemma dead_transport:
  assumes "\<forall>n. se_connect E n = Some RtspConnectionError" "draws_within E s" "0 \<le> rs_attempts s" "\<not> rs_connected s"
  shows "\<exists>s'. reconnect_or_fail E s = (Inl SourceTerminatedError, s') \<and> fs_state s' = SOURCE_FAILED \<and>
    rs_connects s' = rs_connects s + nat (rp_max_attempts (rs_policy s) - rs_attempts s)"
  using assms(2-4)
proof (induction "nat (rp_max_attempts (rs_policy s) - rs_attempts s)" arbitrary: s)
  case 0
  then show ?case by (subst reconnect_or_fail.simps) simp
next
  case (Suc n)
  then have more: "rs_attempts s < rp_max_attempts (rs_policy s)" by simp
  from reconnect_delay_within [OF Suc(3,4)] obtain delay where delay: "reconnect_delay E s = Inr delay" .
  let ?s1 = "begin_attempt s delay\<lparr>rs_connected := False\<rparr>"
  have "reconnect_or_fail E s = reconnect_or_fail E ?s1"
    using more delay assms(1) by (subst reconnect_or_fail.simps) (simp add: connect_open_def Let_def)
  moreover have "draws_within E ?s1" "0 \<le> rs_attempts ?s1" "\<not> rs_connected ?s1"
    "n = nat (rp_max_attempts (rs_policy ?s1) - rs_attempts ?s1)" "rs_connects ?s1 = rs_connects s + 1"
    using Suc(2-5) by (auto simp: draws_within_def begin_attempt_def)
  ultimately show ?case using Suc(1) [of ?s1] Suc(2) by auto
qed

lemma dead_request:
  assumes "\<forall>n. se_connect E n = Some RtspConnectionError" "draws_within E s" "0 \<le> rs_attempts s" "\<not> rs_connected s"
    and "fs_state s = SOURCE_RUNNING"
  shows "\<exists>s'. anext (rtsp_produce E) s = Some (Inl SourceTerminatedError, s') \<and> fs_state s' = SOURCE_FAILED \<and>
    rs_connects s' = rs_connects s + nat (rp_max_attempts (rs_policy s) - rs_attempts s)"
proof -
  from dead_transport [OF assms(1-4)] obtain s' where s': "reconnect_or_fail E s = (Inl SourceTerminatedError, s')"
    "fs_state s' = SOURCE_FAILED" "rs_connects s' = rs_connects s + nat (rp_max_attempts (rs_policy s) - rs_attempts s)" by blast
  have "rtsp_produce E s = (Inl SourceTerminatedError, s')" by (rule rtsp_step) (simp add: assms(4) s')
  then show ?thesis using s' assms(5) by (simp add: anext_def next_loop.simps)
qed

text \<open>
  C30: Reconnection is bounded. A request to a live source under a valid policy makes no more calls of the transport than
  the attempts that are left, and waits between them for at most the longest delay each; the count of attempts starts again
  only with a frame. When the transport never connects again the source fails after exactly the attempts that are left.
\<close>

theorem reconnection_bounded:
  assumes "anext (rtsp_produce E) s = Some (r, s')" "draws_within E s" "0 \<le> rs_attempts s" "rs_attempts s \<le> rp_max_attempts (rs_policy s)"
  shows "int (rs_connects s') \<le> int (rs_connects s) + (rp_max_attempts (rs_policy s) - rs_attempts s) \<and>
    rs_waited s' \<le> rs_waited s + (int (rs_connects s') - int (rs_connects s)) * longest_delay s \<and>
    (rs_attempts s' < rs_attempts s \<longrightarrow> r = Inl ContractError \<or> (\<exists>p. r = Inr p)) \<and>
    rs_attempts s' \<le> rp_max_attempts (rs_policy s) \<and>
    ((\<forall>n. se_connect E n = Some RtspConnectionError) \<and> \<not> rs_connected s \<and> fs_state s = SOURCE_RUNNING \<longrightarrow>
       r = Inl SourceTerminatedError \<and> fs_state s' = SOURCE_FAILED \<and>
       int (rs_connects s') = int (rs_connects s) + (rp_max_attempts (rs_policy s) - rs_attempts s))"
proof -
  have "\<exists>used. reconnecting s used s' \<and>
      (rs_attempts s' = rs_attempts s + used \<or> rs_attempts s' = 0 \<and> (r = Inl ContractError \<or> (\<exists>p. r = Inr p)))"
  proof (cases "next_loop (rtsp_produce E) s = Some (r, s')")
    case True
    from live_loop_reconnecting [OF this assms(2,3)] show ?thesis .
  next
    case False
    then have "s' = s" using assms(1) by (auto simp: anext_def split: if_splits)
    then show ?thesis using reconnecting_refl [of s] by (intro exI [of _ 0]) auto
  qed
  then obtain used where u: "reconnecting s used s'"
      "rs_attempts s' = rs_attempts s + used \<or> rs_attempts s' = 0 \<and> (r = Inl ContractError \<or> (\<exists>p. r = Inr p))" by blast
  moreover have "r = Inl SourceTerminatedError \<and> fs_state s' = SOURCE_FAILED \<and>
      int (rs_connects s') = int (rs_connects s) + (rp_max_attempts (rs_policy s) - rs_attempts s)"
    if "\<forall>n. se_connect E n = Some RtspConnectionError" "\<not> rs_connected s" "fs_state s = SOURCE_RUNNING"
    using dead_request [OF that(1) assms(2,3) that(2,3)] assms(1,4) by auto
  ultimately show ?thesis using assms(3,4) by (auto simp: reconnecting_def)
qed

definition dead_env :: source_env where
  "dead_env = \<lparr>se_read = (\<lambda>_. ReadEnd), se_exists = Inr True, se_connect = (\<lambda>_. Some RtspConnectionError), se_open = (\<lambda>_. None),
     se_draw = (\<lambda>_. 0), se_now = (\<lambda>_. utc_at 0), se_frame_id = of_nat\<rparr>"

definition sample_reconnect :: reconnect_policy where
  "sample_reconnect = \<lparr>rp_max_attempts = 3, rp_base_delay = 1, rp_max_delay = 4, rp_jitter = 0\<rparr>"

theorem reconnection_bounded_witness:
  "\<exists>s'. anext (rtsp_produce dead_env) (new_rtsp_source 3 None sample_reconnect 100\<lparr>fs_state := SOURCE_RUNNING\<rparr>) =
     Some (Inl SourceTerminatedError, s') \<and> rs_connects s' = 3 \<and> rs_waited s' \<le> 12000000 \<and> fs_state s' = SOURCE_FAILED"
proof -
  let ?s = "new_rtsp_source 3 None sample_reconnect 100\<lparr>fs_state := SOURCE_RUNNING\<rparr>"
  have ok: "draws_within dead_env ?s" "0 \<le> rs_attempts ?s" "rs_attempts ?s \<le> rp_max_attempts (rs_policy ?s)"
    by (simp_all add: draws_within_def dead_env_def new_rtsp_source_def sample_reconnect_def reconnect_policy_valid_def)
  obtain r s' where run: "anext (rtsp_produce dead_env) ?s = Some (r, s')" using live.anext_returns by blast
  have "longest_delay ?s = 4000000"
    by (simp add: longest_delay_def new_rtsp_source_def sample_reconnect_def timedelta_seconds_def round_half_even_def)
  with reconnection_bounded [OF run ok] run show ?thesis
    by (auto simp: dead_env_def new_rtsp_source_def sample_reconnect_def)
qed

subsection \<open>Requests return\<close>

text \<open>
  C29: A request for the next frame always returns, for recorded and for live sources, whatever decoder, transport and storage
  do: frames that cannot be decoded are skipped until the source ends it after the configured number in a row, and the live
  source reconnects a bounded number of times. Every frame that comes out satisfies the contract, has the next index and the
  identity of the session, and its decoded data is stored with it.
\<close>

theorem frame_request_returns:
  "(\<exists>r s'. anext (file_produce E) f = Some (r, s') \<and>
     (0 \<le> fs_frame_index f \<longrightarrow> (case r of Inr p \<Rightarrow> emitted f p s' | Inl e \<Rightarrow> fs_frame_index s' = fs_frame_index f) \<and>
        fs_decode_errors s' - fs_decode_errors f \<le> max 1 (fs_max_consecutive f - fs_consecutive f))) \<and>
   (\<exists>r s'. anext (rtsp_produce E) l = Some (r, s') \<and>
     (0 \<le> fs_frame_index l \<longrightarrow> (case r of Inr p \<Rightarrow> emitted l p s' | Inl e \<Rightarrow> fs_frame_index s' = fs_frame_index l) \<and>
        fs_decode_errors s' - fs_decode_errors l \<le> max 1 (fs_max_consecutive l - fs_consecutive l)))"
proof -
  obtain r1 f1 where f: "anext (file_produce E) f = Some (r1, f1)" using recorded.anext_returns by blast
  obtain r2 l1 where l: "anext (rtsp_produce E) l = Some (r2, l1)" using live.anext_returns by blast
  from recorded.anext_requested [OF f] live.anext_requested [OF l] f l show ?thesis
    by (auto simp: recorded.requested_def live.requested_def split: sum.splits)
qed

theorem frame_request_returns_witness:
  "\<exists>s'. anext (rtsp_produce dead_env) (new_rtsp_source 3 None sample_reconnect 100\<lparr>fs_state := SOURCE_RUNNING\<rparr>) =
     Some (Inl SourceTerminatedError, s') \<and> fs_frame_index s' = 0 \<and> fs_decode_errors s' \<le> 100"
proof -
  let ?s = "new_rtsp_source 3 None sample_reconnect 100\<lparr>fs_state := SOURCE_RUNNING\<rparr>"
  have "draws_within dead_env ?s" "0 \<le> rs_attempts ?s" "\<not> rs_connected ?s" "fs_state ?s = SOURCE_RUNNING"
    "\<forall>n. se_connect dead_env n = Some RtspConnectionError"
    by (simp_all add: draws_within_def dead_env_def new_rtsp_source_def sample_reconnect_def reconnect_policy_valid_def)
  from dead_request [OF this(5,1-4)] obtain s1 where
    dead: "anext (rtsp_produce dead_env) ?s = Some (Inl SourceTerminatedError, s1)" by blast
  have z: "0 \<le> fs_frame_index ?s" "fs_frame_index ?s = 0" "fs_decode_errors ?s = 0" "fs_max_consecutive ?s = 100" "fs_consecutive ?s = 0"
    by (simp_all add: new_rtsp_source_def)
  from frame_request_returns [of dead_env _ ?s, THEN conjunct2] obtain r s' where
    run: "anext (rtsp_produce dead_env) ?s = Some (r, s')" and
    facts: "0 \<le> fs_frame_index ?s \<longrightarrow> (case r of Inr p \<Rightarrow> emitted ?s p s' | Inl e \<Rightarrow> fs_frame_index s' = fs_frame_index ?s) \<and>
       fs_decode_errors s' - fs_decode_errors ?s \<le> max 1 (fs_max_consecutive ?s - fs_consecutive ?s)" by (elim exE conjE)
  from run dead have "r = Inl SourceTerminatedError" by simp
  with run facts z show ?thesis by (intro exI [of _ s']) simp
qed

end
