(* ===== verification/Pipeline_Facts.thy ===== *)
theory Pipeline_Facts
  imports Frame_Facts
begin

text \<open>
  The bounded queue and the pipeline over any source that keeps the contract of a hook: bounds and accounting of the queue,
  order and completeness of what the consumer gets, and progress.
\<close>

subsection \<open>The queue\<close>

definition queue_ok :: "'f frame_queue \<Rightarrow> bool" where
  "queue_ok q = (1 \<le> fq_maxsize q \<and> length (fq_items q) \<le> fq_maxsize q \<and> fq_max_observed q \<le> fq_maxsize q \<and>
     (fq_policy q = BLOCK \<longrightarrow> fq_dropped q = 0) \<and> fq_enqueued q = fq_dequeued q + length (fq_items q) + fq_dropped q)"

lemma new_queue_ok: "new_queue n policy = Inr q \<Longrightarrow> queue_ok q"
  by (auto simp: new_queue_def queue_ok_def split: if_splits)

lemma put_admits:
  assumes "queue_put x q = Some (Inr q')" "queue_ok q"
  obtains k where "fq_items q' = drop k (fq_items q) @ [x]" and "fq_dropped q' = fq_dropped q + k" and "k \<le> length (fq_items q)"
    and "fq_dequeued q' = fq_dequeued q" and "fq_closed q' = fq_closed q" and "\<not> fq_closed q" and "queue_ok q'"
    and "fq_policy q' = fq_policy q"
proof (cases "fq_policy q = DROP_OLDEST \<and> fq_maxsize q \<le> length (fq_items q)")
  case True
  then have "q' = admit x (q\<lparr>fq_items := tl (fq_items q), fq_dropped := fq_dropped q + 1\<rparr>)" "\<not> fq_closed q"
    using assms(1) by (auto simp: queue_put_def evict_def split: if_splits)
  then show thesis
    using that [of 1] True assms(2) by (cases "fq_items q") (auto simp: admit_def Let_def queue_ok_def drop_Suc)
next
  case False
  then have "q' = admit x q" "\<not> fq_closed q" "length (fq_items q) < fq_maxsize q"
    using assms(1) by (auto simp: queue_put_def evict_def split: if_splits full_policy.splits)
  then show thesis
    using that [of 0] assms(2) by (auto simp: admit_def Let_def queue_ok_def)
qed

lemma put_outcome: "queue_put x q = Some (Inl e) \<Longrightarrow> e = QueueClosedError \<and> fq_closed q"
  by (auto simp: queue_put_def split: if_splits full_policy.splits)

lemma put_waits: "queue_put x q = None \<longleftrightarrow> \<not> fq_closed q \<and> fq_policy q = BLOCK \<and> fq_maxsize q \<le> length (fq_items q)"
  by (auto simp: queue_put_def split: full_policy.splits)

lemma get_outcome:
  "queue_get q = Some (Inr (x, q')) \<Longrightarrow> fq_items q = x # fq_items q' \<and> fq_dequeued q' = fq_dequeued q + 1 \<and>
     fq_dropped q' = fq_dropped q \<and> fq_closed q' = fq_closed q \<and> fq_policy q' = fq_policy q \<and> (queue_ok q \<longrightarrow> queue_ok q')"
  "queue_get q = Some (Inl e) \<Longrightarrow> e = QueueClosedError \<and> fq_closed q \<and> fq_items q = []"
  "queue_get q = None \<longleftrightarrow> fq_items q = [] \<and> \<not> fq_closed q"
  by (auto simp: queue_get_def queue_ok_def split: list.splits if_splits)

subsection \<open>The invariant of the pipeline\<close>

abbreviation frame_number :: "queued_frame \<Rightarrow> int" where
  "frame_number x \<equiv> fp_frame_index (qf_packet x)"

definition held :: "'s pipeline \<Rightarrow> queued_frame list" where
  "held p = (case pl_producer p of Putting x \<Rightarrow> [x] | _ \<Rightarrow> [])"

definition seen :: "'s pipeline \<Rightarrow> queued_frame list" where
  "seen p = pl_consumed p @ fq_items (pl_queue p) @ held p"

definition consumer_failed :: "'s pipeline \<Rightarrow> bool" where
  "consumer_failed p = (\<exists>e. pl_consumer p = ConsumerDone (Some e))"

definition frames_ok :: "'a frame_source_scheme pipeline \<Rightarrow> bool" where
  "frames_ok p = (sorted_wrt (<) (map frame_number (seen p)) \<and>
     (\<forall>x\<in>set (seen p). 0 \<le> frame_number x \<and> frame_number x < fs_frame_index (pl_source p) \<and> frame_packet_valid (qf_packet x) \<and>
        fd_frame_index (qf_data x) = frame_number x))"

definition tasks_ok :: "'s pipeline \<Rightarrow> bool" where
  "tasks_ok p = ((fq_closed (pl_queue p) \<longrightarrow> producer_finished p \<or> consumer_finished p) \<and>
     (pl_consumer p = ConsumerDone None \<longrightarrow> producer_finished p \<and> fq_items (pl_queue p) = []) \<and>
     pl_consumer p \<noteq> ConsumerDone (Some QueueClosedError))"

definition counted :: "'a frame_source_scheme pipeline \<Rightarrow> bool" where
  "counted p = (0 \<le> fs_frame_index (pl_source p) \<and> fq_dequeued (pl_queue p) = length (pl_consumed p) \<and>
     fs_dropped (pl_source p) = int (fq_dropped (pl_queue p)) \<and>
     (\<not> consumer_failed p \<longrightarrow> fs_frame_index (pl_source p) = int (length (seen p)) + int (fq_dropped (pl_queue p))))"

definition pipeline_ok :: "'a frame_source_scheme pipeline \<Rightarrow> bool" where
  "pipeline_ok p = (queue_ok (pl_queue p) \<and> frames_ok p \<and> tasks_ok p \<and> counted p)"

lemma dropped_notes:
  "fs_dropped ((note_dropped ^^ k) s) = fs_dropped s + int k \<and> fs_frame_index ((note_dropped ^^ k) s) = fs_frame_index s \<and>
   fs_last_data ((note_dropped ^^ k) s) = fs_last_data s \<and> fs_state ((note_dropped ^^ k) s) = fs_state s"
  by (induction k) (auto simp: note_dropped_def)

lemma seen_dropped:
  "sorted_wrt (<) (map frame_number (a @ b @ c)) \<Longrightarrow> sorted_wrt (<) (map frame_number (a @ drop k b @ c))"
  by (auto simp: sorted_wrt_append dest: in_set_dropD)
    (metis drop_map sorted_wrt_drop)

context frame_hook
begin

lemma produce_turn_ok:
  assumes "pipeline_ok p"
  shows "pipeline_ok (produce_turn produce p)"
proof (cases "pl_producer p")
  case Fetching
  obtain r s where step: "anext produce (pl_source p) = Some (r, s)" using anext_returns by blast
  have idx: "0 \<le> fs_frame_index (pl_source p)" using assms by (simp add: pipeline_ok_def counted_def)
  note req = anext_requested [OF step idx]
  have fin: "\<not> producer_finished p" "pl_consumer p \<noteq> ConsumerDone None"
    using Fetching assms by (auto simp: producer_finished_def pipeline_ok_def tasks_ok_def)
  show ?thesis
  proof (cases r)
    case (Inl e)
    define t where "t = ProducerDone (if e = EndOfStream then None else task_end (pl_queue p) e)"
    have "produce_turn produce p = p\<lparr>pl_source := s, pl_producer := t\<rparr>"
      by (simp add: produce_turn_def Fetching step Inl t_def)
    moreover have "held (p\<lparr>pl_source := s, pl_producer := t\<rparr>) = held p" "producer_finished (p\<lparr>pl_source := s, pl_producer := t\<rparr>)"
      by (simp_all add: held_def t_def Fetching producer_finished_def)
    ultimately show ?thesis
      using assms req Inl
      by (auto simp: pipeline_ok_def frames_ok_def tasks_ok_def counted_def seen_def consumer_failed_def requested_def)
  next
    case (Inr packet)
    with req obtain d where d: "fs_last_data s = Some d" "fd_frame_index d = fp_frame_index packet" and
      pk: "frame_packet_valid packet" "fp_frame_index packet = fs_frame_index (pl_source p)"
        "fs_frame_index s = fs_frame_index (pl_source p) + 1" "fs_dropped s = fs_dropped (pl_source p)"
      by (auto simp: requested_def emitted_def)
    let ?x = "\<lparr>qf_packet = packet, qf_data = d\<rparr>"
    have turn: "produce_turn produce p = p\<lparr>pl_source := s, pl_producer := Putting ?x\<rparr>"
      by (simp add: produce_turn_def Fetching step Inr d)
    have seen: "seen (p\<lparr>pl_source := s, pl_producer := Putting ?x\<rparr>) = seen p @ [?x]"
      by (simp add: seen_def held_def Fetching)
    show ?thesis
      using assms d pk idx fin unfolding turn pipeline_ok_def frames_ok_def counted_def seen
      by (auto simp: tasks_ok_def consumer_failed_def sorted_wrt_append producer_finished_def consumer_finished_def Fetching)
  qed
next
  case (Putting x)
  have fin: "\<not> producer_finished p" "pl_consumer p \<noteq> ConsumerDone None"
    using Putting assms by (auto simp: producer_finished_def pipeline_ok_def tasks_ok_def)
  show ?thesis
  proof (cases "queue_put x (pl_queue p)")
    case None
    then show ?thesis using assms by (simp add: produce_turn_def Putting)
  next
    case (Some res)
    show ?thesis
    proof (cases res)
      case (Inl e)
      with Some put_outcome [of x "pl_queue p" e] have e: "e = QueueClosedError" "fq_closed (pl_queue p)" by auto
      then have "consumer_failed p"
        using assms fin by (auto simp: pipeline_ok_def tasks_ok_def consumer_failed_def consumer_finished_def
            split: consumer_task.splits)
      moreover have "produce_turn produce p = p\<lparr>pl_producer := ProducerDone None\<rparr>"
        using Some Inl e by (simp add: produce_turn_def Putting task_end_def)
      ultimately show ?thesis
        using assms by (auto simp: pipeline_ok_def frames_ok_def tasks_ok_def counted_def seen_def held_def Putting
            consumer_failed_def producer_finished_def sorted_wrt_append)
    next
      case (Inr q)
      have qok: "queue_ok (pl_queue p)" using assms by (simp add: pipeline_ok_def)
      from put_admits [OF Some [unfolded Inr] qok] obtain k where
        items: "fq_items q = drop k (fq_items (pl_queue p)) @ [x]" and k: "fq_dropped q = fq_dropped (pl_queue p) + k"
        "k \<le> length (fq_items (pl_queue p))" and same: "fq_dequeued q = fq_dequeued (pl_queue p)"
        "\<not> fq_closed q" "queue_ok q" by metis
      let ?s = "(note_dropped ^^ k) (pl_source p)"
      let ?p = "p\<lparr>pl_queue := q, pl_producer := Fetching, pl_source := ?s\<rparr>"
      have turn: "produce_turn produce p = ?p" using Some Inr k by (simp add: produce_turn_def Putting)
      have seen: "seen ?p = pl_consumed p @ drop k (fq_items (pl_queue p)) @ [x]" by (simp add: seen_def held_def items)
      have old: "seen p = pl_consumed p @ fq_items (pl_queue p) @ [x]" by (simp add: seen_def held_def Putting)
      have "frames_ok ?p"
        using assms seen_dropped [of "pl_consumed p" "fq_items (pl_queue p)" "[x]" k] unfolding frames_ok_def pipeline_ok_def seen old
        by (auto simp: dropped_notes dest: in_set_dropD)
      moreover have "counted ?p"
        using assms k unfolding counted_def pipeline_ok_def seen old by (auto simp: dropped_notes same consumer_failed_def)
      ultimately show ?thesis
        using same fin assms unfolding turn by (simp add: pipeline_ok_def tasks_ok_def)
    qed
  qed
next
  case (ProducerDone e)
  then show ?thesis using assms by (simp add: produce_turn_def)
qed

end

text \<open>A consumer that never raises the error of the queue itself.\<close>

definition honest :: "(nat \<Rightarrow> source_error option) \<Rightarrow> bool" where
  "honest consume = (\<forall>n. consume n \<noteq> Some QueueClosedError)"

lemma consume_turn_ok:
  assumes "pipeline_ok p" "honest consume"
  shows "pipeline_ok (consume_turn consume p)"
proof (cases "pl_consumer p")
  case Getting
  show ?thesis
  proof (cases "queue_get (pl_queue p)")
    case None
    then show ?thesis using assms by (simp add: consume_turn_def Getting)
  next
    case (Some res)
    show ?thesis
    proof (cases res)
      case (Inl e)
      with Some get_outcome(2) [of "pl_queue p" e] have e: "e = QueueClosedError" "fq_closed (pl_queue p)"
        "fq_items (pl_queue p) = []" by auto
      then have "producer_finished p"
        using assms by (auto simp: pipeline_ok_def tasks_ok_def consumer_finished_def Getting)
      moreover have "consume_turn consume p = p\<lparr>pl_consumer := ConsumerDone None\<rparr>"
        using Some Inl e by (simp add: consume_turn_def Getting task_end_def)
      ultimately show ?thesis
        using assms e by (auto simp: pipeline_ok_def frames_ok_def tasks_ok_def counted_def seen_def held_def consumer_failed_def
            producer_finished_def Getting)
    next
      case (Inr xq)
      then obtain x q where xq: "res = Inr (x, q)" by (cases xq) auto
      from get_outcome(1) [OF Some [unfolded xq]] have got: "fq_items (pl_queue p) = x # fq_items q"
        "fq_dequeued q = fq_dequeued (pl_queue p) + 1" "fq_dropped q = fq_dropped (pl_queue p)"
        "fq_closed q = fq_closed (pl_queue p)" "queue_ok q" using assms by (auto simp: pipeline_ok_def)
      define c where "c = (case consume (length (pl_consumed p)) of None \<Rightarrow> Getting | Some e \<Rightarrow> ConsumerDone (task_end q e))"
      let ?p = "p\<lparr>pl_queue := q, pl_consumed := pl_consumed p @ [x], pl_consumer := c\<rparr>"
      have turn: "consume_turn consume p = ?p" using Some xq by (simp add: consume_turn_def Getting c_def)
      have seen: "seen ?p = seen p" by (simp add: seen_def held_def got)
      have "c = Getting \<or> (\<exists>e. c = ConsumerDone (Some e) \<and> e \<noteq> QueueClosedError)"
        using assms(2) by (auto simp: c_def honest_def task_end_def split: option.splits)
      then show ?thesis
        using assms got unfolding turn pipeline_ok_def frames_ok_def counted_def seen
        by (auto simp: tasks_ok_def consumer_failed_def producer_finished_def consumer_finished_def Getting)
    qed
  qed
next
  case (ConsumerDone e)
  then show ?thesis using assms by (simp add: consume_turn_def)
qed

lemma main_turn_ok: "pipeline_ok p \<Longrightarrow> pipeline_ok (main_turn p)"
  by (auto simp: main_turn_def queue_shutdown_def pipeline_ok_def frames_ok_def tasks_ok_def counted_def seen_def held_def
      consumer_failed_def producer_finished_def consumer_finished_def queue_ok_def)

context frame_hook
begin

lemma turn_ok: "pipeline_ok p \<Longrightarrow> honest consume \<Longrightarrow> pipeline_ok (take_turn produce consume p t)"
  by (cases t) (simp_all add: produce_turn_ok consume_turn_ok main_turn_ok)

lemma pipeline_run_ok: "pipeline_ok p \<Longrightarrow> honest consume \<Longrightarrow> pipeline_ok (pipeline_run produce consume p turns)"
  unfolding pipeline_run_def by (induction turns arbitrary: p) (simp_all add: turn_ok)

end

subsection \<open>What the consumer gets\<close>

definition fresh_source :: "'a frame_source_scheme \<Rightarrow> bool" where
  "fresh_source s = (fs_frame_index s = 0 \<and> fs_dropped s = 0)"

lemma start_pipeline_ok:
  assumes "start_pipeline s q = Inr p" "new_queue n policy = Inr q" "fresh_source s"
  shows "pipeline_ok p \<and> fq_policy (pl_queue p) = policy \<and> int (fq_maxsize (pl_queue p)) = n"
  using assms new_queue_ok [OF assms(2)]
  by (auto simp: start_pipeline_def new_queue_def fresh_source_def pipeline_ok_def frames_ok_def tasks_ok_def counted_def seen_def
      held_def consumer_failed_def split: if_splits)

lemma increasing_full:
  assumes "sorted_wrt (<) (xs :: int list)" "\<forall>x\<in>set xs. 0 \<le> x \<and> x < int (length xs)"
  shows "xs = [0..int (length xs) - 1]"
proof (rule sorted_distinct_set_unique)
  have d: "distinct xs" using assms(1) by (simp add: strict_sorted_iff)
  show "sorted xs" "distinct xs" using assms(1) by (simp_all add: strict_sorted_iff)
  have "set xs \<subseteq> {0..int (length xs) - 1}" using assms(2) by auto
  moreover have "card {0..int (length xs) - 1} = length xs" by simp
  ultimately have "set xs = {0..int (length xs) - 1}" using card_subset_eq d distinct_card by (metis finite_atLeastAtMost_int)
  then show "set xs = set [0..int (length xs) - 1]" by simp
qed simp_all

lemma turn_keeps_queue:
  "fq_policy (pl_queue (take_turn produce consume p t)) = fq_policy (pl_queue p) \<and>
   fq_maxsize (pl_queue (take_turn produce consume p t)) = fq_maxsize (pl_queue p)"
  by (cases t) (auto simp: produce_turn_def consume_turn_def main_turn_def queue_shutdown_def queue_put_def queue_get_def admit_def
      evict_def Let_def split: producer_task.splits consumer_task.splits option.splits sum.splits prod.splits full_policy.splits
      list.splits if_splits)

lemma run_keeps_queue:
  "fq_policy (pl_queue (pipeline_run produce consume p turns)) = fq_policy (pl_queue p) \<and>
   fq_maxsize (pl_queue (pipeline_run produce consume p turns)) = fq_maxsize (pl_queue p)"
  unfolding pipeline_run_def by (induction turns arbitrary: p) (simp_all add: turn_keeps_queue)

text \<open>A run that ended without failure.\<close>

definition clean_end :: "'s pipeline \<Rightarrow> bool" where
  "clean_end p = (producer_finished p \<and> consumer_finished p \<and> first_real_failure p = None)"

lemma clean_end_complete:
  assumes "pipeline_ok p" "clean_end p"
  shows "int (length (pl_consumed p)) + int (fq_dropped (pl_queue p)) = fs_frame_index (pl_source p) \<and> fq_items (pl_queue p) = [] \<and>
    seen p = pl_consumed p \<and>
    (fq_policy (pl_queue p) = BLOCK \<longrightarrow> map frame_number (pl_consumed p) = [0..fs_frame_index (pl_source p) - 1])"
proof -
  have c: "pl_consumer p = ConsumerDone None"
    using assms by (cases "pl_consumer p")
      (auto simp: clean_end_def consumer_finished_def first_real_failure_def Let_def pipeline_ok_def tasks_ok_def
        split: option.splits source_error.splits)
  then have fin: "producer_finished p" "fq_items (pl_queue p) = []" using assms(1) by (auto simp: pipeline_ok_def tasks_ok_def)
  then have seen: "seen p = pl_consumed p"
    by (auto simp: seen_def held_def producer_finished_def split: producer_task.splits)
  have count: "int (length (pl_consumed p)) + int (fq_dropped (pl_queue p)) = fs_frame_index (pl_source p)"
    using assms(1) c seen by (simp add: pipeline_ok_def counted_def consumer_failed_def)
  have "map frame_number (pl_consumed p) = [0..fs_frame_index (pl_source p) - 1]" if "fq_policy (pl_queue p) = BLOCK"
  proof -
    have n: "int (length (pl_consumed p)) = fs_frame_index (pl_source p)"
      using count that assms(1) by (simp add: pipeline_ok_def queue_ok_def)
    have "sorted_wrt (<) (map frame_number (pl_consumed p))"
      "\<forall>x\<in>set (map frame_number (pl_consumed p)). 0 \<le> x \<and> x < int (length (map frame_number (pl_consumed p)))"
      using assms(1) n by (auto simp: pipeline_ok_def frames_ok_def seen)
    from increasing_full [OF this] n show ?thesis by simp
  qed
  with count fin seen show ?thesis by simp
qed

text \<open>
  C27: The pipeline never exceeds its queue and hands the frames of a source to the consumer in order, each with its own data,
  however the tasks take turns: the numbers of the consumed, queued and held frames strictly increase, the queue keeps its
  bound, evicted frames are counted on both sides, and unless the consumer failed every frame the source made is consumed,
  queued, held or counted as dropped.
\<close>

theorem frames_accounted:
  assumes "start_pipeline s q = Inr p0" "new_queue n policy = Inr q" "fresh_source s" "honest consume"
    and p: "p = pipeline_run (rtsp_produce E) consume p0 turns"
  shows "sorted_wrt (<) (map frame_number (pl_consumed p @ fq_items (pl_queue p) @ held p)) \<and>
    list_all (\<lambda>x. frame_packet_valid (qf_packet x) \<and> fd_frame_index (qf_data x) = frame_number x) (pl_consumed p) \<and>
    int (length (fq_items (pl_queue p))) \<le> n \<and> int (fq_max_observed (pl_queue p)) \<le> n \<and>
    fs_dropped (pl_source p) = int (fq_dropped (pl_queue p)) \<and>
    (policy = BLOCK \<longrightarrow> fq_dropped (pl_queue p) = 0) \<and>
    (\<not> consumer_failed p \<longrightarrow> fs_frame_index (pl_source p) =
       int (length (pl_consumed p) + length (fq_items (pl_queue p)) + length (held p) + fq_dropped (pl_queue p)))"
proof -
  note st = start_pipeline_ok [OF assms(1-3)]
  have ok: "pipeline_ok p" unfolding p using live.pipeline_run_ok st assms(4) by blast
  have kept: "fq_policy (pl_queue p) = policy" "int (fq_maxsize (pl_queue p)) = n"
    using run_keeps_queue [of "rtsp_produce E" consume p0 turns] st by (simp_all add: p)
  show ?thesis
    using ok kept by (auto simp: pipeline_ok_def frames_ok_def counted_def queue_ok_def seen_def list_all_iff)
qed

definition sample_frame :: "int \<Rightarrow> decoded_frame" where
  "sample_frame t = \<lparr>df_width = 640, df_height = 480, df_data = ''pixels'', df_pts_seconds = None, df_source_timestamp = Some (utc_at t)\<rparr>"

definition sample_video :: "nat \<Rightarrow> source_env" where
  "sample_video n = \<lparr>se_read = (\<lambda>i. if i < n then ReadFrame (sample_frame (int i)) else ReadEnd), se_exists = Inr True,
     se_connect = (\<lambda>_. None), se_open = (\<lambda>_. None), se_draw = (\<lambda>_. 0), se_now = (\<lambda>_. utc_at 0), se_frame_id = of_nat\<rparr>"

definition sample_live :: rtsp_source where
  "sample_live = new_rtsp_source 3 None sample_reconnect 100\<lparr>fs_state := SOURCE_RUNNING, rs_connected := True\<rparr>"

definition sample_queue :: "full_policy \<Rightarrow> queued_frame frame_queue" where
  "sample_queue policy = \<lparr>fq_maxsize = 1, fq_policy = policy, fq_items = [], fq_closed = False, fq_dropped = 0,
     fq_enqueued = 0, fq_dequeued = 0, fq_max_observed = 0\<rparr>"

lemma sample_queue_new: "new_queue 1 policy = Inr (sample_queue policy)"
  by (simp add: new_queue_def sample_queue_def)

lemma live_frame:
  "rs_connected s \<Longrightarrow> fs_reads s < n \<Longrightarrow> 0 \<le> fs_frame_index s \<Longrightarrow> fs_state s = SOURCE_RUNNING \<Longrightarrow>
     \<exists>packet s'. anext (rtsp_produce (sample_video n)) s = Some (Inr packet, s') \<and> fp_frame_index packet = fs_frame_index s \<and>
       rs_connected s' \<and> fs_reads s' = fs_reads s + 1 \<and> fs_frame_index s' = fs_frame_index s + 1 \<and> fs_state s' = SOURCE_RUNNING \<and>
       fs_dropped s' = fs_dropped s \<and> (\<exists>d. fs_last_data s' = Some d)"
  by (simp add: anext_def next_loop.simps rtsp_step(2) read_decoder_def sample_video_def sample_frame_def decoded_frame_valid_def
      optional_def emit_def Let_def make_packet_def companion_def frame_packet_valid_def frame_data_valid_def live_event_time_def
      aware_def utc_at_def)

theorem frames_accounted_witness:
  "\<exists>p. pipeline_run (rtsp_produce (sample_video 2)) (\<lambda>_. None)
       \<lparr>pl_source = sample_live, pl_queue = sample_queue DROP_OLDEST, pl_producer = Fetching, pl_consumer = Getting, pl_consumed = []\<rparr>
       [ProducerTurn, ProducerTurn, ProducerTurn, ProducerTurn] = p \<and>
     fs_dropped (pl_source p) = int (fq_dropped (pl_queue p)) \<and> int (length (fq_items (pl_queue p))) \<le> 1 \<and>
     fs_frame_index (pl_source p) = int (length (pl_consumed p) + length (fq_items (pl_queue p)) + length (held p) + fq_dropped (pl_queue p))"
proof -
  let ?initial = "\<lparr>pl_source = sample_live, pl_queue = sample_queue DROP_OLDEST, pl_producer = Fetching, pl_consumer = Getting, pl_consumed = []\<rparr>"
  let ?turns = "[ProducerTurn, ProducerTurn, ProducerTurn, ProducerTurn]"
  let ?p = "pipeline_run (rtsp_produce (sample_video 2)) (\<lambda>_. None) ?initial ?turns"
  have start: "start_pipeline sample_live (sample_queue DROP_OLDEST) = Inr ?initial"
    by (simp add: start_pipeline_def sample_queue_def)
  have "fresh_source sample_live" "honest (\<lambda>_. None)"
    by (simp_all add: fresh_source_def sample_live_def new_rtsp_source_def honest_def)
  from frames_accounted [OF start sample_queue_new this refl, of "sample_video 2" ?turns]
  have facts: "fs_dropped (pl_source ?p) = int (fq_dropped (pl_queue ?p))" "int (length (fq_items (pl_queue ?p))) \<le> 1"
    "\<not> consumer_failed ?p \<longrightarrow> fs_frame_index (pl_source ?p) =
       int (length (pl_consumed ?p) + length (fq_items (pl_queue ?p)) + length (held ?p) + fq_dropped (pl_queue ?p))" by blast+
  have "pl_consumer (take_turn produce consume q ProducerTurn) = pl_consumer q" for produce consume
    and q :: "rtsp_source pipeline"
    by (auto simp: produce_turn_def split: producer_task.splits option.splits sum.splits prod.splits)
  then have "\<not> consumer_failed ?p" by (simp add: pipeline_run_def consumer_failed_def)
  with facts show ?thesis by blast
qed

subsection \<open>Progress\<close>

definition pipeline_done :: "'s pipeline \<Rightarrow> bool" where
  "pipeline_done p = (producer_finished p \<and> consumer_finished p)"

context frame_hook
begin

text \<open>No reachable state is stuck: some task can still do something until both are done.\<close>

lemma never_stuck:
  assumes "pipeline_ok p" "\<not> pipeline_done p"
  obtains t where "take_turn produce consume p t \<noteq> p"
proof (cases "fq_closed (pl_queue p) \<or> \<not> producer_finished p \<and> \<not> consumer_finished p")
  case False
  then have "take_turn produce consume p MainTurn \<noteq> p"
    by (auto simp: main_turn_def queue_shutdown_def intro!: notI dest!: arg_cong [where f = "\<lambda>p. fq_closed (pl_queue p)"])
  then show thesis by (rule that)
next
  case True
  show thesis
  proof (cases "pl_producer p")
    case Fetching
    have "pl_producer (take_turn produce consume p ProducerTurn) \<noteq> Fetching"
      using anext_returns [of "pl_source p"] by (auto simp: produce_turn_def Fetching split: sum.splits option.splits)
    then show thesis using that [of ProducerTurn] Fetching by metis
  next
    case (Putting x)
    show thesis
    proof (cases "queue_put x (pl_queue p)")
      case None
      then have full: "fq_items (pl_queue p) \<noteq> []" "\<not> fq_closed (pl_queue p)"
        using assms(1) put_waits [of x "pl_queue p"] by (auto simp: pipeline_ok_def queue_ok_def)
      then have "pl_consumer p = Getting"
        using True Putting by (auto simp: consumer_finished_def split: consumer_task.splits)
      then have "length (pl_consumed (take_turn produce consume p ConsumerTurn)) = length (pl_consumed p) + 1"
        using full by (auto simp: consume_turn_def queue_get_def split: list.splits)
      then show thesis using that [of ConsumerTurn] by (metis n_not_Suc_n Suc_eq_plus1)
    next
      case (Some res)
      then have "pl_producer (take_turn produce consume p ProducerTurn) \<noteq> pl_producer p"
        by (auto simp: produce_turn_def Putting split: sum.splits)
      then show thesis using that [of ProducerTurn] by metis
    qed
  next
    case (ProducerDone e)
    then have c: "pl_consumer p = Getting" "fq_closed (pl_queue p)"
      using assms(2) True by (auto simp: pipeline_done_def producer_finished_def consumer_finished_def split: consumer_task.splits)
    show thesis
    proof (cases "fq_items (pl_queue p)")
      case Nil
      then have "pl_consumer (take_turn produce consume p ConsumerTurn) \<noteq> Getting"
        using c by (simp add: consume_turn_def queue_get_def)
      then show thesis using that [of ConsumerTurn] c by metis
    next
      case (Cons x xs)
      then have "length (pl_consumed (take_turn produce consume p ConsumerTurn)) = length (pl_consumed p) + 1"
        using c by (simp add: consume_turn_def queue_get_def)
      then show thesis using that [of ConsumerTurn] by (metis n_not_Suc_n Suc_eq_plus1)
    qed
  qed
qed

end

subsection \<open>Recorded video is delivered completely\<close>

text \<open>A video of \<open>n\<close> decodable frames whose times can be resolved.\<close>

definition whole_video :: "source_env \<Rightarrow> file_source \<Rightarrow> nat \<Rightarrow> bool" where
  "whole_video E s n =
     ((\<forall>i<n. \<exists>f t. se_read E i = ReadFrame f \<and> decoded_frame_valid f \<and> file_event_time s f = Some t \<and> aware t) \<and>
      (\<forall>i\<ge>n. se_read E i = ReadEnd))"

definition reading :: "source_env \<Rightarrow> nat \<Rightarrow> file_source \<Rightarrow> bool" where
  "reading E n s = (whole_video E s n \<and> fl_started s \<and> fl_streaming s \<and> fs_state s \<in> {SOURCE_RUNNING, SOURCE_DRAINING} \<and>
     fs_frame_index s = int (min (fs_reads s) n))"

lemma whole_video_cong: "fl_capture_time s' = fl_capture_time s \<Longrightarrow> whole_video E s' n = whole_video E s n"
  by (simp add: whole_video_def file_event_time_def)

lemma emit_succeeds:
  assumes "decoded_frame_valid f" "aware t" "0 \<le> fs_frame_index s"
  shows "\<exists>p d. emit E s f t = (Inr p, s\<lparr>fs_frame_index := fs_frame_index s + 1, fs_last_data := Some d\<rparr>)"
  using assms by (simp add: emit_def Let_def make_packet_def companion_def frame_packet_valid_def frame_data_valid_def
      decoded_frame_valid_def optional_def) (rule exI, rule refl)

lemma reading_next:
  assumes "reading E n s"
  obtains (frame) packet s' d where "fs_reads s < n" and "anext (file_produce E) s = Some (Inr packet, s')" and "reading E n s'"
      and "fs_reads s' = fs_reads s + 1" and "fs_last_data s' = Some d"
  | (finish) s' where "n \<le> fs_reads s" and "anext (file_produce E) s = Some (Inl EndOfStream, s')" and "reading E n s'"
proof (cases "fs_reads s < n")
  case True
  with assms obtain f t where f: "se_read E (fs_reads s) = ReadFrame f" "decoded_frame_valid f" "file_event_time s f = Some t" "aware t"
    by (auto simp: reading_def whole_video_def)
  let ?s1 = "s\<lparr>fs_reads := fs_reads s + 1\<rparr>"
  have "0 \<le> fs_frame_index ?s1" using assms by (simp add: reading_def)
  from emit_succeeds [OF f(2,4) this, of E] obtain p d where
    em: "emit E ?s1 f t = (Inr p, ?s1\<lparr>fs_frame_index := fs_frame_index ?s1 + 1, fs_last_data := Some d\<rparr>)" by blast
  have "file_event_time ?s1 f = Some t" using f(3) by (simp add: file_event_time_def)
  then have "file_produce E s = (Inr p, ?s1\<lparr>fs_frame_index := fs_frame_index ?s1 + 1, fs_last_data := Some d\<rparr>)"
    using assms f em by (simp add: file_produce_def reading_def Let_def read_decoder_def)
  then have "anext (file_produce E) s =
      Some (Inr p, ?s1\<lparr>fs_frame_index := fs_frame_index ?s1 + 1, fs_last_data := Some d, fs_consecutive := 0\<rparr>)"
    using assms by (auto simp: anext_def reading_def next_loop.simps)
  then show thesis
    by (rule frame [OF True]) (use assms True in \<open>auto simp: reading_def whole_video_def file_event_time_def\<close>)
next
  case False
  then have "file_produce E s = (Inl EndOfStream, s\<lparr>fs_reads := fs_reads s + 1\<rparr>)"
    using assms by (simp add: file_produce_def reading_def Let_def read_decoder_def whole_video_def)
  then have "anext (file_produce E) s = Some (Inl EndOfStream, s\<lparr>fs_reads := fs_reads s + 1, fs_state := SOURCE_DRAINING\<rparr>)"
    using assms by (auto simp: anext_def reading_def next_loop.simps)
  then show thesis
    by (rule finish [OF leI [OF False]]) (use assms False in \<open>auto simp: reading_def whole_video_def file_event_time_def\<close>)
qed

text \<open>While nothing fails: the tasks end only as they should.\<close>

definition replaying :: "source_env \<Rightarrow> nat \<Rightarrow> file_source pipeline \<Rightarrow> bool" where
  "replaying E n p = (pipeline_ok p \<and> reading E n (pl_source p) \<and> \<not> consumer_failed p \<and>
     (producer_finished p \<longrightarrow> pl_producer p = ProducerDone None \<and> n \<le> fs_reads (pl_source p)))"

text \<open>A bound on the turns that are left.\<close>

definition turns_left :: "nat \<Rightarrow> file_source pipeline \<Rightarrow> nat" where
  "turns_left n p =
     (case pl_producer p of
        Fetching \<Rightarrow> 4 * (n + 1 - fs_reads (pl_source p)) + 1 | Putting _ \<Rightarrow> 4 * (n + 1 - fs_reads (pl_source p)) + 3
      | ProducerDone _ \<Rightarrow> 0) +
     length (fq_items (pl_queue p)) + (if consumer_finished p then 0 else 1) + (if fq_closed (pl_queue p) then 0 else 1)"

lemma reading_notes: "reading E n ((note_dropped ^^ k) s) = reading E n s \<and> fs_reads ((note_dropped ^^ k) s) = fs_reads s"
proof -
  have "reading E n (note_dropped s) = reading E n s \<and> fs_reads (note_dropped s) = fs_reads s" for s :: file_source
    by (auto simp: reading_def note_dropped_def whole_video_def file_event_time_def)
  then show ?thesis by (induction k arbitrary: s) auto
qed

lemma produce_turn_replays:
  assumes "replaying E n p"
  shows "replaying E n (produce_turn (file_produce E) p) \<and>
    (produce_turn (file_produce E) p \<noteq> p \<longrightarrow> turns_left n (produce_turn (file_produce E) p) < turns_left n p)"
proof -
  have ok: "pipeline_ok (produce_turn (file_produce E) p)"
    using assms recorded.produce_turn_ok by (simp add: replaying_def)
  show ?thesis
  proof (cases "pl_producer p")
    case Fetching
    have "reading E n (pl_source p)" using assms by (simp add: replaying_def)
    then show ?thesis
    proof (cases rule: reading_next)
      case (frame packet s' d)
      then show ?thesis
        using assms ok by (auto simp: replaying_def produce_turn_def Fetching turns_left_def consumer_failed_def producer_finished_def
            consumer_finished_def)
    next
      case (finish s')
      have "fs_reads s' \<ge> n" using finish(1,2) assms Fetching
        by (auto simp: anext_def next_loop.simps file_produce_def replaying_def reading_def whole_video_def read_decoder_def Let_def split: if_splits)
      then show ?thesis
        using assms ok finish by (auto simp: replaying_def produce_turn_def Fetching turns_left_def consumer_failed_def producer_finished_def
            consumer_finished_def)
    qed
  next
    case (Putting x)
    show ?thesis
    proof (cases "queue_put x (pl_queue p)")
      case None
      then show ?thesis using assms by (simp add: produce_turn_def Putting)
    next
      case (Some res)
      show ?thesis
      proof (cases res)
        case (Inl e)
        with Some put_outcome [of x "pl_queue p" e] have "fq_closed (pl_queue p)" by auto
        then have "consumer_finished p" using assms Putting by (auto simp: replaying_def pipeline_ok_def tasks_ok_def producer_finished_def)
        then have "pl_consumer p = ConsumerDone None"
          using assms by (auto simp: replaying_def consumer_failed_def consumer_finished_def split: consumer_task.splits)
        then show ?thesis using assms Putting by (auto simp: replaying_def pipeline_ok_def tasks_ok_def producer_finished_def)
      next
        case (Inr q)
        have qok: "queue_ok (pl_queue p)" using assms by (simp add: replaying_def pipeline_ok_def)
        from put_admits [OF Some [unfolded Inr] qok] obtain k where
          "fq_items q = drop k (fq_items (pl_queue p)) @ [x]" "fq_closed q = fq_closed (pl_queue p)" by metis
        then show ?thesis
          using assms ok Some Inr by (auto simp: replaying_def produce_turn_def Putting turns_left_def consumer_failed_def
              producer_finished_def consumer_finished_def reading_notes)
      qed
    qed
  next
    case (ProducerDone e)
    then show ?thesis using assms by (simp add: produce_turn_def)
  qed
qed

lemma consume_turn_replays:
  assumes "replaying E n p"
  shows "replaying E n (consume_turn (\<lambda>_. None) p) \<and>
    (consume_turn (\<lambda>_. None) p \<noteq> p \<longrightarrow> turns_left n (consume_turn (\<lambda>_. None) p) < turns_left n p)"
proof -
  have ok: "pipeline_ok (consume_turn (\<lambda>_. None) p)"
    using assms consume_turn_ok [of p "\<lambda>_. None"] by (simp add: replaying_def honest_def)
  show ?thesis
  proof (cases "pl_consumer p")
    case Getting
    show ?thesis
    proof (cases "queue_get (pl_queue p)")
      case None
      then show ?thesis using assms by (simp add: consume_turn_def Getting)
    next
      case (Some res)
      show ?thesis
      proof (cases res)
        case (Inl e)
        with Some get_outcome(2) [of "pl_queue p" e] have "e = QueueClosedError" "fq_closed (pl_queue p)" by auto
        then show ?thesis using assms ok Some Inl
          by (auto simp: replaying_def consume_turn_def Getting turns_left_def consumer_failed_def producer_finished_def
              consumer_finished_def task_end_def split: producer_task.splits)
      next
        case (Inr xq)
        then obtain x q where "res = Inr (x, q)" by (cases xq) auto
        with Some get_outcome(1) [of "pl_queue p" x q] show ?thesis using assms ok
          by (auto simp: replaying_def consume_turn_def Getting turns_left_def consumer_failed_def producer_finished_def
              consumer_finished_def split: producer_task.splits)
      qed
    qed
  next
    case (ConsumerDone e)
    then show ?thesis using assms by (simp add: consume_turn_def)
  qed
qed

lemma main_turn_replays:
  assumes "replaying E n p"
  shows "replaying E n (main_turn p) \<and> (main_turn p \<noteq> p \<longrightarrow> turns_left n (main_turn p) < turns_left n p)"
  using assms main_turn_ok [of p]
  by (auto simp: replaying_def main_turn_def queue_shutdown_def turns_left_def consumer_failed_def producer_finished_def
      consumer_finished_def split: producer_task.splits consumer_task.splits)

lemma turn_replays:
  "replaying E n p \<Longrightarrow> replaying E n (take_turn (file_produce E) (\<lambda>_. None) p t) \<and>
     (take_turn (file_produce E) (\<lambda>_. None) p t \<noteq> p \<longrightarrow>
        turns_left n (take_turn (file_produce E) (\<lambda>_. None) p t) < turns_left n p)"
  by (cases t) (simp_all add: produce_turn_replays consume_turn_replays main_turn_replays)

text \<open>A schedule gives every task its turn again and again; \<open>at_turn\<close> is the state before the turn with number \<open>k\<close>.\<close>

definition fair :: "(nat \<Rightarrow> turn) \<Rightarrow> bool" where
  "fair schedule = (\<forall>n t. \<exists>m\<ge>n. schedule m = t)"

abbreviation at_turn :: "source_env \<Rightarrow> file_source pipeline \<Rightarrow> (nat \<Rightarrow> turn) \<Rightarrow> nat \<Rightarrow> file_source pipeline" where
  "at_turn E p0 schedule k \<equiv> pipeline_run (file_produce E) (\<lambda>_. None) p0 (map schedule [0..<k])"

lemma at_turn_Suc: "at_turn E p0 schedule (Suc k) = take_turn (file_produce E) (\<lambda>_. None) (at_turn E p0 schedule k) (schedule k)"
  by (simp add: pipeline_run_def)

lemma at_turn_replays: "replaying E n p0 \<Longrightarrow> replaying E n (at_turn E p0 schedule k)"
  by (induction k) (simp_all only: at_turn_Suc turn_replays, simp add: pipeline_run_def)

lemma first_change:
  assumes "f m \<noteq> f (j :: nat)" "j \<le> m"
  obtains i where "j \<le> i" "f i = f j" "f (Suc i) \<noteq> f j"
proof -
  define k where "k = (LEAST k. j \<le> k \<and> f k \<noteq> f j)"
  have k: "j \<le> k" "f k \<noteq> f j" using LeastI [of "\<lambda>k. j \<le> k \<and> f k \<noteq> f j" m] assms by (auto simp: k_def)
  then obtain i where i: "k = Suc i" "j \<le> i" by (cases k) (auto simp: le_Suc_eq)
  have "f i = f j" using not_less_Least [of i "\<lambda>k. j \<le> k \<and> f k \<noteq> f j"] i by (auto simp: k_def)
  with k i that show thesis by blast
qed

lemma fair_changes:
  assumes "fair schedule" "replaying E n p0" "\<not> pipeline_done (at_turn E p0 schedule j)"
  obtains i where "j \<le> i" "turns_left n (at_turn E p0 schedule (Suc i)) < turns_left n (at_turn E p0 schedule j)"
proof -
  let ?at = "at_turn E p0 schedule"
  have "pipeline_ok (?at j)" using at_turn_replays [OF assms(2)] by (simp add: replaying_def)
  from recorded.never_stuck [OF this assms(3)] obtain t where t: "take_turn (file_produce E) (\<lambda>_. None) (?at j) t \<noteq> ?at j" by blast
  from assms(1) obtain m where m: "j \<le> m" "schedule m = t" by (auto simp: fair_def)
  obtain k where "?at k \<noteq> ?at j" "j \<le> k"
  proof (cases "?at m = ?at j")
    case True
    then show thesis using t m that [of "Suc m"] at_turn_Suc [of E p0 schedule m] by simp
  next
    case False
    then show thesis using that m by blast
  qed
  from first_change [where f = ?at, OF this] obtain i where i: "j \<le> i" "?at i = ?at j" "?at (Suc i) \<noteq> ?at j" by blast
  have "turns_left n (?at (Suc i)) < turns_left n (?at i)"
    using turn_replays [OF at_turn_replays [OF assms(2)], of schedule i "schedule i"] i(2,3) unfolding at_turn_Suc by metis
  with i that show thesis by metis
qed

lemma fair_finishes:
  assumes "fair schedule" "replaying E n p0"
  shows "\<exists>k. pipeline_done (at_turn E p0 schedule k)"
proof -
  have "\<exists>k. pipeline_done (at_turn E p0 schedule k)" for j :: nat
  proof (induction "turns_left n (at_turn E p0 schedule j)" arbitrary: j rule: less_induct)
    case less
    show ?case
    proof (cases "pipeline_done (at_turn E p0 schedule j)")
      case False
      from fair_changes [OF assms this] less show ?thesis by metis
    qed blast
  qed
  then show ?thesis .
qed

lemma done_stays: "pipeline_done p \<Longrightarrow> pipeline_done (take_turn produce consume p t)"
  by (cases t) (auto simp: pipeline_done_def producer_finished_def consumer_finished_def produce_turn_def consume_turn_def main_turn_def
      split: producer_task.splits consumer_task.splits)

lemma done_later: "pipeline_done (at_turn E p0 schedule k) \<Longrightarrow> k \<le> m \<Longrightarrow> pipeline_done (at_turn E p0 schedule m)"
proof (induction m)
  case (Suc m)
  show ?case
  proof (cases "k = Suc m")
    case True
    then show ?thesis using Suc.prems(1) by simp
  next
    case False
    then have "pipeline_done (at_turn E p0 schedule m)" using Suc by simp
    then show ?thesis unfolding at_turn_Suc by (rule done_stays)
  qed
qed simp

text \<open>
  C28: Recorded video is processed completely. Under the blocking policy, with a consumer that does not fail, the pipeline
  over a video of \<open>n\<close> decodable frames ends, whatever the size of the queue and in whatever order the three tasks take their turns, as
  long as each of them gets its turn again and again: from some turn on both tasks are done, the run has no failure to report, nothing was dropped,
  and the consumer has got the frames \<open>0\<close> to \<open>n - 1\<close>, each once and in order.
\<close>

theorem recorded_replay_complete:
  assumes "reading E n s" "fs_reads s = 0" "fs_dropped s = 0" "new_queue capacity BLOCK = Inr q" "start_pipeline s q = Inr p0"
    and fair: "\<forall>k t. \<exists>m\<ge>k. schedule m = t"
  shows "\<exists>k. \<forall>m\<ge>k. \<exists>p. p = pipeline_run (file_produce E) (\<lambda>_. None) p0 (map schedule [0..<m]) \<and> pipeline_done p \<and>
    first_real_failure p = None \<and> map frame_number (pl_consumed p) = [0..int n - 1] \<and> fs_dropped (pl_source p) = 0"
proof -
  have "fresh_source s" using assms(1-3) by (simp add: fresh_source_def reading_def)
  note st = start_pipeline_ok [OF assms(5,4) this]
  have "pl_source p0 = s" "pl_producer p0 = Fetching" "pl_consumer p0 = Getting"
    using assms(5) by (auto simp: start_pipeline_def split: if_splits)
  then have start: "replaying E n p0"
    using st assms(1) by (simp add: replaying_def consumer_failed_def producer_finished_def)
  have complete: "first_real_failure p = None \<and> map frame_number (pl_consumed p) = [0..int n - 1] \<and> fs_dropped (pl_source p) = 0"
    if r: "replaying E n p" "pipeline_done p" and policy: "fq_policy (pl_queue p) = BLOCK" for p
  proof -
    have ends: "pl_producer p = ProducerDone None" "n \<le> fs_reads (pl_source p)" "pl_consumer p = ConsumerDone None"
      using r by (auto simp: replaying_def pipeline_done_def consumer_finished_def consumer_failed_def split: consumer_task.splits)
    then have none: "first_real_failure p = None" by (simp add: first_real_failure_def Let_def)
    then have "clean_end p" using r(2) by (simp add: clean_end_def pipeline_done_def)
    moreover have ok: "pipeline_ok p" "fs_frame_index (pl_source p) = int n"
      using r(1) ends(2) by (auto simp: replaying_def reading_def)
    ultimately have "map frame_number (pl_consumed p) = [0..int n - 1]" using clean_end_complete [of p] policy by (simp only:)
    moreover have "fs_dropped (pl_source p) = 0" using ok(1) policy by (simp add: pipeline_ok_def counted_def queue_ok_def)
    ultimately show ?thesis using none by blast
  qed
  from fair_finishes [OF _ start, of schedule] fair obtain k where k: "pipeline_done (at_turn E p0 schedule k)" by (auto simp: fair_def)
  have "fq_policy (pl_queue (at_turn E p0 schedule m)) = BLOCK" for m using st run_keeps_queue by metis
  then show ?thesis using complete [OF at_turn_replays [OF start]] done_later [OF k] by blast
qed

definition sample_file :: file_source where
  "sample_file = \<lparr>fs_state = SOURCE_RUNNING, fs_session_id = 3, fs_live = False, fs_source_ref = None, fs_max_consecutive = 100,
     fs_frame_index = 0, fs_dropped = 0, fs_decode_errors = 0, fs_consecutive = 0, fs_last_data = None, fs_reads = 0,
     fl_started = True, fl_streaming = True, fl_capture_time = None\<rparr>"

definition sample_schedule :: "nat \<Rightarrow> turn" where
  "sample_schedule k = (if k mod 3 = 0 then ProducerTurn else if k mod 3 = 1 then ConsumerTurn else MainTurn)"

lemma sample_schedule_fair: "\<exists>m\<ge>k. sample_schedule m = t"
proof -
  have "sample_schedule (3 * k) = ProducerTurn" "sample_schedule (3 * k + 1) = ConsumerTurn" "sample_schedule (3 * k + 2) = MainTurn"
    by (simp_all add: sample_schedule_def) presburger
  then show ?thesis by (cases t) (rule exI [of _ "3 * k"] exI [of _ "3 * k + 1"] exI [of _ "3 * k + 2"]; simp)+
qed

theorem recorded_replay_complete_witness:
  "\<exists>k p. p = pipeline_run (file_produce (sample_video 3)) (\<lambda>_. None)
       \<lparr>pl_source = sample_file, pl_queue = sample_queue BLOCK, pl_producer = Fetching, pl_consumer = Getting, pl_consumed = []\<rparr>
       (map sample_schedule [0..<k]) \<and>
     pipeline_done p \<and> first_real_failure p = None \<and> map frame_number (pl_consumed p) = [0, 1, 2]"
proof -
  let ?initial = "\<lparr>pl_source = sample_file, pl_queue = sample_queue BLOCK, pl_producer = Fetching, pl_consumer = Getting, pl_consumed = []\<rparr>"
  have r: "reading (sample_video 3) 3 sample_file" "fs_reads sample_file = 0" "fs_dropped sample_file = 0"
    by (auto simp: reading_def whole_video_def sample_video_def sample_frame_def sample_file_def decoded_frame_valid_def optional_def
        file_event_time_def aware_def utc_at_def)
  have s: "start_pipeline sample_file (sample_queue BLOCK) = Inr ?initial" by (simp add: start_pipeline_def sample_queue_def)
  have f: "\<forall>k t. \<exists>m\<ge>k. sample_schedule m = t" using sample_schedule_fair by blast
  have "[0..int 3 - 1] = [0, 1, 2]" by (simp add: upto.simps)
  with recorded_replay_complete [OF r sample_queue_new s f] show ?thesis by (metis order_refl)
qed

subsection \<open>A failure that is not reported\<close>

lemma consumer_done_stays:
  "pl_consumer p = ConsumerDone e \<Longrightarrow> pl_consumer (pipeline_run produce consume p turns) = ConsumerDone e \<and>
     pl_consumed (pipeline_run produce consume p turns) = pl_consumed p"
proof -
  assume ended: "pl_consumer p = ConsumerDone e"
  have "pl_consumer (take_turn produce consume p t) = pl_consumer p \<and> pl_consumed (take_turn produce consume p t) = pl_consumed p"
    if "pl_consumer p = ConsumerDone e" for p :: "'a frame_source_scheme pipeline" and t
    using that by (cases t) (auto simp: produce_turn_def consume_turn_def main_turn_def
        split: producer_task.splits option.splits sum.splits prod.splits)
  then show ?thesis using ended unfolding pipeline_run_def by (induction turns arbitrary: p) auto
qed

text \<open>
  C33: A consumer that raises the error of the queue itself while the queue is open fails without a trace: the consumer task
  ends with this error, takes no further frame however the run goes on, and when the source ends normally the run reports
  no failure at all.
\<close>

theorem consumer_error_swallowed:
  assumes "pl_consumer p = Getting" "\<not> fq_closed (pl_queue p)" "fq_items (pl_queue p) = x # xs"
    and raises: "consume (length (pl_consumed p)) = Some QueueClosedError"
    and p': "p' = pipeline_run (file_produce E) consume (take_turn (file_produce E) consume p ConsumerTurn) turns"
  shows "pl_consumer p' = ConsumerDone (Some QueueClosedError) \<and> pl_consumed p' = pl_consumed p @ [x] \<and>
    (pl_producer p' = ProducerDone None \<longrightarrow> pipeline_done p' \<and> first_real_failure p' = None)"
proof -
  have "pl_consumer (consume_turn consume p) = ConsumerDone (Some QueueClosedError) \<and>
      pl_consumed (consume_turn consume p) = pl_consumed p @ [x]"
    using assms(1-4) by (simp add: consume_turn_def queue_get_def task_end_def)
  then have "pl_consumer p' = ConsumerDone (Some QueueClosedError)" "pl_consumed p' = pl_consumed p @ [x]"
    using consumer_done_stays [of "consume_turn consume p"] by (auto simp: p')
  then show ?thesis
    by (simp add: pipeline_done_def producer_finished_def consumer_finished_def first_real_failure_def Let_def)
qed

theorem consumer_error_swallowed_witness:
  "\<exists>x y p. pl_producer p = ProducerDone None \<and> fq_items (pl_queue p) = [x, y] \<and>
     (\<exists>p'. p' = pipeline_run (file_produce (sample_video 2)) (\<lambda>_. Some QueueClosedError)
          (take_turn (file_produce (sample_video 2)) (\<lambda>_. Some QueueClosedError) p ConsumerTurn) [MainTurn] \<and>
        pipeline_done p' \<and> first_real_failure p' = None \<and> pl_consumed p' = [x] \<and> fq_items (pl_queue p') = [y])"
proof -
  define frame where "frame i = \<lparr>qf_packet = make_packet (sample_video 2) (sample_file\<lparr>fs_frame_index := i\<rparr>) 640 480 (utc_at i),
      qf_data = companion i (sample_frame i)\<rparr>" for i
  let ?p = "\<lparr>pl_source = sample_file, pl_queue = sample_queue BLOCK\<lparr>fq_maxsize := 2, fq_items := [frame 0, frame 1]\<rparr>,
      pl_producer = ProducerDone None, pl_consumer = Getting, pl_consumed = []\<rparr>"
  let ?run = "pipeline_run (file_produce (sample_video 2)) (\<lambda>_. Some QueueClosedError)
      (take_turn (file_produce (sample_video 2)) (\<lambda>_. Some QueueClosedError) ?p ConsumerTurn) [MainTurn]"
  have "pl_producer ?run = ProducerDone None \<and> fq_items (pl_queue ?run) = [frame 1]"
    by (simp add: pipeline_run_def consume_turn_def queue_get_def main_turn_def queue_shutdown_def producer_finished_def sample_queue_def)
  with consumer_error_swallowed [of ?p "frame 0" "[frame 1]" "\<lambda>_. Some QueueClosedError" ?run "sample_video 2" "[MainTurn]"]
  have "pipeline_done ?run" "first_real_failure ?run = None" "pl_consumed ?run = [frame 0]" "fq_items (pl_queue ?run) = [frame 1]"
    by (simp_all add: sample_queue_def)
  then show ?thesis by (intro exI [of _ "frame 0"] exI [of _ "frame 1"] exI [of _ ?p] conjI exI [of _ ?run]) simp_all
qed

end
