(* ===== verification/Live_Session.thy ===== *)
theory Live_Session
  imports Lease_Queue
begin

text \<open>
  Live video sessions: the state machine of the domain (\<open>domain/video/live_session_state_machine.py\<close>), the service with the
  audit log of transitions (\<open>application/services/live_session.py\<close>) and the session repository it uses. What the database
  accepts is an argument of the service; \<open>declared_rules\<close> are the rules the models and the migration declare. A call is one
  transaction: a refused row leaves the store as it was.
\<close>

subsection \<open>The state machine\<close>

datatype live_status = CONNECTING | LIVE_ACTIVE | DEGRADED | RECONNECTING | STOPPED | LIVE_FAILED

fun live_status_value :: "live_status \<Rightarrow> string" where
  "live_status_value CONNECTING = ''connecting''"
| "live_status_value LIVE_ACTIVE = ''active''"
| "live_status_value DEGRADED = ''degraded''"
| "live_status_value RECONNECTING = ''reconnecting''"
| "live_status_value STOPPED = ''stopped''"
| "live_status_value LIVE_FAILED = ''failed''"

definition live_statuses :: "live_status list" where
  "live_statuses = [CONNECTING, LIVE_ACTIVE, DEGRADED, RECONNECTING, STOPPED, LIVE_FAILED]"

definition parse_live_status :: "string \<Rightarrow> live_status option" where
  "parse_live_status text = find (\<lambda>s. live_status_value s = text) live_statuses"

fun LEGAL_TRANSITIONS :: "live_status \<Rightarrow> (string \<times> live_status) list" where
  "LEGAL_TRANSITIONS CONNECTING =
     [(''connected'', LIVE_ACTIVE), (''connection_failed'', LIVE_FAILED), (''stop_requested'', STOPPED)]"
| "LEGAL_TRANSITIONS LIVE_ACTIVE =
     [(''stale_detected'', DEGRADED), (''stop_requested'', STOPPED), (''fatal_error'', LIVE_FAILED)]"
| "LEGAL_TRANSITIONS DEGRADED =
     [(''reconnecting'', RECONNECTING), (''stop_requested'', STOPPED), (''fatal_error'', LIVE_FAILED)]"
| "LEGAL_TRANSITIONS RECONNECTING =
     [(''reconnected'', LIVE_ACTIVE), (''reconnect_failed'', DEGRADED), (''fatal_error'', LIVE_FAILED), (''stop_requested'', STOPPED)]"
| "LEGAL_TRANSITIONS STOPPED = []"
| "LEGAL_TRANSITIONS LIVE_FAILED = []"

definition TERMINAL_STATES :: "live_status set" where
  "TERMINAL_STATES = {STOPPED, LIVE_FAILED}"

definition IDEMPOTENT_OPERATIONS :: "string list" where
  "IDEMPOTENT_OPERATIONS = [''stop_requested'']"

datatype live_error =
    LiveSessionTransitionError live_status string "string list"
  | LiveSessionTerminalError live_status

record live_transition_record =
  lt_session_id :: uuid
  lt_previous_state :: live_status
  lt_new_state :: live_status
  lt_transition_time :: datetime
  lt_reason :: string
  lt_source :: string
  lt_correlation_id :: "string option"
  lt_actor_id :: "uuid option"

definition live_is_terminal :: "live_status \<Rightarrow> bool" where
  "live_is_terminal s = (s \<in> TERMINAL_STATES)"

definition live_get_next_state :: "live_status \<Rightarrow> string \<Rightarrow> live_status option" where
  "live_get_next_state current operation = map_of (LEGAL_TRANSITIONS current) operation"

definition live_can_transition :: "live_status \<Rightarrow> string \<Rightarrow> bool" where
  "live_can_transition current operation =
     (operation \<in> set (map fst (LEGAL_TRANSITIONS current)) \<or>
      (current \<in> TERMINAL_STATES \<and> operation \<in> set IDEMPOTENT_OPERATIONS))"

definition live_get_allowed_operations :: "live_status \<Rightarrow> string list" where
  "live_get_allowed_operations current =
     map fst (LEGAL_TRANSITIONS current) @ (if current \<in> TERMINAL_STATES then IDEMPOTENT_OPERATIONS else [])"

definition live_record :: "live_status \<Rightarrow> live_status \<Rightarrow> uuid \<Rightarrow> string \<Rightarrow> string \<Rightarrow> string option \<Rightarrow> uuid option \<Rightarrow> datetime \<Rightarrow>
    live_transition_record" where
  "live_record current new session_id reason source correlation actor now =
     \<lparr>lt_session_id = session_id, lt_previous_state = current, lt_new_state = new, lt_transition_time = now, lt_reason = reason,
      lt_source = source, lt_correlation_id = correlation, lt_actor_id = actor\<rparr>"

definition live_transition :: "live_status \<Rightarrow> string \<Rightarrow> uuid \<Rightarrow> string \<Rightarrow> string \<Rightarrow> string option \<Rightarrow> uuid option \<Rightarrow> bool \<Rightarrow> datetime \<Rightarrow>
    live_error + live_transition_record" where
  "live_transition current operation session_id reason source correlation actor allow_idempotent now =
     (if allow_idempotent \<and> operation \<in> set IDEMPOTENT_OPERATIONS \<and> current \<in> TERMINAL_STATES \<and> operation = ''stop_requested''
      then Inr (live_record current current session_id reason source correlation actor now)
      else if current \<in> TERMINAL_STATES then Inl (LiveSessionTerminalError current)
      else case live_get_next_state current operation of
        None \<Rightarrow> Inl (LiveSessionTransitionError current operation (live_get_allowed_operations current))
      | Some new \<Rightarrow> Inr (live_record current new session_id reason source correlation actor now))"

definition live_assert_can_transition :: "live_status \<Rightarrow> string \<Rightarrow> live_error + unit" where
  "live_assert_can_transition current operation =
     rbind (ensure (\<not> (current \<in> TERMINAL_STATES \<and> \<not> (operation \<in> set IDEMPOTENT_OPERATIONS \<and> operation = ''stop_requested'')))
       (LiveSessionTerminalError current)) (\<lambda>_.
       ensure (live_can_transition current operation)
         (LiveSessionTransitionError current operation (live_get_allowed_operations current)))"

subsection \<open>The store\<close>

record live_row =
  ls_session_id :: uuid
  ls_tenant_id :: uuid
  ls_venue_id :: uuid
  ls_source_type :: string
  ls_camera_id :: "uuid option"
  ls_asset_id :: "uuid option"
  ls_configuration_version_id :: "uuid option"
  ls_status :: string
  ls_started_at :: datetime
  ls_ended_at :: "datetime option"

record live_log =
  ll_session_id :: uuid
  ll_venue_id :: uuid
  ll_tenant_id :: uuid
  ll_previous_state :: string
  ll_new_state :: string
  ll_transition_time :: datetime
  ll_reason :: string
  ll_source :: string
  ll_correlation_id :: "string option"
  ll_actor_id :: "uuid option"

record live_store =
  lv_rows :: "live_row list"
  lv_logs :: "live_log list"

record live_rules =
  lr_row_ok :: "live_row \<Rightarrow> bool"
  lr_log_ok :: "live_log \<Rightarrow> bool"

definition VIDEO_SESSION_STATUSES :: "string list" where
  "VIDEO_SESSION_STATUSES = [''active'', ''ended'', ''failed'', ''connecting'', ''degraded'', ''reconnecting'', ''stopped'']"

definition LIVE_SESSION_STATUSES :: "string list" where
  "LIVE_SESSION_STATUSES = [''connecting'', ''active'', ''degraded'', ''reconnecting'', ''stopped'', ''failed'']"

text \<open>The check constraints of \<open>video_sessions\<close> and the enumerations of both models.\<close>

definition session_row_accepted :: "live_row \<Rightarrow> bool" where
  "session_row_accepted r =
     (ls_status r \<in> set VIDEO_SESSION_STATUSES \<and>
      ((ls_source_type r = ''live'' \<and> ls_camera_id r \<noteq> None) \<or> (ls_source_type r = ''recorded'' \<and> ls_asset_id r \<noteq> None)) \<and>
      (case ls_ended_at r of None \<Rightarrow> True | Some t \<Rightarrow> \<not> dt_less t (ls_started_at r)) \<and>
      ((ls_status r = ''active'' \<and> ls_ended_at r = None) \<or> (ls_status r \<in> {''ended'', ''failed''} \<and> ls_ended_at r \<noteq> None)))"

definition transition_log_accepted :: "live_log \<Rightarrow> bool" where
  "transition_log_accepted l = (ll_previous_state l \<in> set LIVE_SESSION_STATUSES \<and> ll_new_state l \<in> set LIVE_SESSION_STATUSES \<and>
     length (ll_reason l) \<le> 1024 \<and> length (ll_source l) \<le> 32)"

definition declared_rules :: live_rules where
  "declared_rules = \<lparr>lr_row_ok = session_row_accepted, lr_log_ok = transition_log_accepted\<rparr>"

subsection \<open>The service\<close>

datatype session_failure = RowRefused | LogRefused | SessionNotFound | NotLive | UnknownStatus | Rejected live_error

record create_request =
  cr_camera_id :: uuid
  cr_venue_id :: uuid
  cr_configuration_version_id :: "uuid option"

definition new_session_row :: "uuid \<Rightarrow> uuid \<Rightarrow> create_request \<Rightarrow> datetime \<Rightarrow> live_row" where
  "new_session_row new_id tenant req now =
     \<lparr>ls_session_id = new_id, ls_tenant_id = tenant, ls_venue_id = cr_venue_id req, ls_source_type = ''live'',
      ls_camera_id = Some (cr_camera_id req), ls_asset_id = None, ls_configuration_version_id = cr_configuration_version_id req,
      ls_status = live_status_value CONNECTING, ls_started_at = now, ls_ended_at = None\<rparr>"

definition create_session :: "live_rules \<Rightarrow> live_store \<Rightarrow> uuid \<Rightarrow> uuid \<Rightarrow> create_request \<Rightarrow> string option \<Rightarrow> uuid \<Rightarrow> datetime \<Rightarrow> datetime \<Rightarrow>
    session_failure + live_store \<times> live_row" where
  "create_session R db tenant actor req correlation new_id now later =
     (let row = new_session_row new_id tenant req now;
          log_row = \<lparr>ll_session_id = new_id, ll_venue_id = cr_venue_id req, ll_tenant_id = tenant, ll_previous_state = ''none'',
            ll_new_state = live_status_value CONNECTING, ll_transition_time = later,
            ll_reason = ''Session created, awaiting RTSP connection'', ll_source = ''system'', ll_correlation_id = correlation,
            ll_actor_id = Some actor\<rparr>
      in if \<not> lr_row_ok R row \<or> new_id \<in> set (map ls_session_id (lv_rows db)) then Inl RowRefused
         else if \<not> lr_log_ok R log_row then Inl LogRefused
         else Inr (\<lparr>lv_rows = lv_rows db @ [row], lv_logs = lv_logs db @ [log_row]\<rparr>, row))"

definition get_for_actor :: "live_store \<Rightarrow> uuid \<Rightarrow> uuid \<Rightarrow> live_row option" where
  "get_for_actor db tenant session_id = find (\<lambda>r. ls_session_id r = session_id \<and> ls_tenant_id r = tenant) (lv_rows db)"

definition moved_row :: "live_row \<Rightarrow> live_status \<Rightarrow> datetime \<Rightarrow> live_row" where
  "moved_row r new now = r\<lparr>ls_status := live_status_value new,
     ls_ended_at := (if new \<in> {STOPPED, LIVE_FAILED} then Some now else ls_ended_at r)\<rparr>"

definition log_of :: "live_row \<Rightarrow> uuid \<Rightarrow> live_transition_record \<Rightarrow> live_log" where
  "log_of r tenant t =
     \<lparr>ll_session_id = ls_session_id r, ll_venue_id = ls_venue_id r, ll_tenant_id = tenant,
      ll_previous_state = live_status_value (lt_previous_state t), ll_new_state = live_status_value (lt_new_state t),
      ll_transition_time = lt_transition_time t, ll_reason = lt_reason t, ll_source = lt_source t,
      ll_correlation_id = lt_correlation_id t, ll_actor_id = lt_actor_id t\<rparr>"

definition transition_state :: "live_rules \<Rightarrow> live_store \<Rightarrow> uuid \<Rightarrow> uuid \<Rightarrow> string \<Rightarrow> string \<Rightarrow> string \<Rightarrow> string option \<Rightarrow> uuid option \<Rightarrow>
    datetime \<Rightarrow> datetime \<Rightarrow> session_failure + live_store \<times> live_status" where
  "transition_state R db session_id tenant operation reason source correlation actor now later =
     (case get_for_actor db tenant session_id of
        None \<Rightarrow> Inl SessionNotFound
      | Some r \<Rightarrow>
          if ls_source_type r \<noteq> ''live'' then Inl NotLive
          else case parse_live_status (ls_status r) of
            None \<Rightarrow> Inl UnknownStatus
          | Some current \<Rightarrow>
              (case live_transition current operation session_id reason source correlation actor True now of
                 Inl e \<Rightarrow> Inl (Rejected e)
               | Inr t \<Rightarrow>
                   let r' = moved_row r (lt_new_state t) later in
                   if \<not> lr_row_ok R r' then Inl RowRefused
                   else if \<not> lr_log_ok R (log_of r tenant t) then Inl LogRefused
                   else Inr (\<lparr>lv_rows = map (\<lambda>q. if q = r then r' else q) (lv_rows db), lv_logs = lv_logs db @ [log_of r tenant t]\<rparr>,
                     lt_new_state t)))"

record live_status_response =
  sr_row :: live_row
  sr_status :: live_status
  sr_last_transition :: "(datetime \<times> string) option"

text \<open>\<open>ORDER BY transition_time DESC LIMIT limit\<close>; rows of the same instant in the order of the table.\<close>

definition get_transition_history :: "live_store \<Rightarrow> uuid \<Rightarrow> uuid \<Rightarrow> nat \<Rightarrow> live_log list" where
  "get_transition_history db session_id tenant limit =
     take limit (sort_key (\<lambda>l. - dt_instant (ll_transition_time l))
       (filter (\<lambda>l. ll_session_id l = session_id \<and> ll_tenant_id l = tenant) (lv_logs db)))"

definition get_session_status :: "live_store \<Rightarrow> uuid \<Rightarrow> uuid \<Rightarrow> session_failure + live_status_response option" where
  "get_session_status db session_id tenant =
     (case get_for_actor db tenant session_id of
        None \<Rightarrow> Inr None
      | Some r \<Rightarrow>
          (case parse_live_status (ls_status r) of
             None \<Rightarrow> Inl UnknownStatus
           | Some s \<Rightarrow> Inr (Some \<lparr>sr_row = r, sr_status = s,
               sr_last_transition = (case get_transition_history db session_id tenant 1 of
                 [] \<Rightarrow> None | l # _ \<Rightarrow> Some (ll_transition_time l, ll_reason l))\<rparr>)))"

definition get_active_live_sessions :: "live_store \<Rightarrow> uuid \<Rightarrow> uuid option \<Rightarrow> live_row list" where
  "get_active_live_sessions db tenant venue =
     filter (\<lambda>r. ls_tenant_id r = tenant \<and> ls_source_type r = ''live'' \<and>
       ls_status r \<in> {''connecting'', ''active'', ''degraded'', ''reconnecting''} \<and>
       (case venue of None \<Rightarrow> True | Some v \<Rightarrow> ls_venue_id r = v)) (lv_rows db)"

text \<open>\<open>request_stop\<close> and the \<open>mark_\<dots>\<close> methods are \<open>transition_state\<close> with a fixed operation, reason and source.\<close>

definition request_stop :: "live_rules \<Rightarrow> live_store \<Rightarrow> uuid \<Rightarrow> uuid \<Rightarrow> uuid \<Rightarrow> string \<Rightarrow> string option \<Rightarrow> datetime \<Rightarrow> datetime \<Rightarrow>
    session_failure + live_store \<times> live_status" where
  "request_stop R db session_id tenant actor reason correlation now later =
     transition_state R db session_id tenant ''stop_requested'' reason ''actor'' correlation (Some actor) now later"

definition mark_connected :: "live_rules \<Rightarrow> live_store \<Rightarrow> uuid \<Rightarrow> uuid \<Rightarrow> string option \<Rightarrow> datetime \<Rightarrow> datetime \<Rightarrow>
    session_failure + live_store \<times> live_status" where
  "mark_connected R db session_id tenant correlation now later = transition_state R db session_id tenant ''connected''
     ''RTSP connection established, frames flowing'' ''system'' correlation None now later"

datatype live_call =
    CallCreate uuid uuid create_request "string option" uuid datetime datetime
  | CallTransition uuid uuid string string string "string option" "uuid option" datetime datetime

fun live_step :: "live_rules \<Rightarrow> live_store \<Rightarrow> live_call \<Rightarrow> live_store" where
  "live_step R db (CallCreate tenant actor req correlation new_id now later) =
     (case create_session R db tenant actor req correlation new_id now later of Inl _ \<Rightarrow> db | Inr (db', _) \<Rightarrow> db')"
| "live_step R db (CallTransition session_id tenant operation reason source correlation actor now later) =
     (case transition_state R db session_id tenant operation reason source correlation actor now later of
        Inl _ \<Rightarrow> db | Inr (db', _) \<Rightarrow> db')"

definition live_run :: "live_rules \<Rightarrow> live_store \<Rightarrow> live_call list \<Rightarrow> live_store" where
  "live_run R = foldl (live_step R)"

definition empty_live_store :: live_store where
  "empty_live_store = \<lparr>lv_rows = [], lv_logs = []\<rparr>"

end
