(* ===== verification/Live_Session_Facts.thy ===== *)
theory Live_Session_Facts
  imports Live_Session
begin

text \<open>
  The lifecycle of live sessions: every log is a path of the state machine that ends in the status of the row, whatever the
  database accepts; and what the declared constraints make of it.
\<close>

subsection \<open>The log is a path\<close>

lemma live_status_value_inj [simp]: "live_status_value a = live_status_value b \<longleftrightarrow> a = b"
  by (cases a; cases b) simp_all

lemma parse_live_status_value [simp]: "parse_live_status (live_status_value s) = Some s"
  by (cases s) (simp_all add: parse_live_status_def live_statuses_def)

lemma parse_live_status_Some: "parse_live_status text = Some s \<Longrightarrow> text = live_status_value s"
  by (auto simp: parse_live_status_def find_Some_iff)

text \<open>One entry: the creation, an edge of the table, or a repeated stop of a session that is over.\<close>

fun live_edge :: "live_status option \<Rightarrow> live_status \<Rightarrow> bool" where
  "live_edge None b = (b = CONNECTING)"
| "live_edge (Some a) b = (b \<in> snd ` set (LEGAL_TRANSITIONS a) \<or> (a \<in> TERMINAL_STATES \<and> b = a))"

fun live_text :: "live_status option \<Rightarrow> string" where
  "live_text None = ''none''"
| "live_text (Some a) = live_status_value a"

fun live_path :: "live_status option \<Rightarrow> live_log list \<Rightarrow> live_status option \<Rightarrow> bool" where
  "live_path a [] b = (a = b)"
| "live_path a (l # ls) b =
     (\<exists>s. ll_previous_state l = live_text a \<and> ll_new_state l = live_status_value s \<and> live_edge a s \<and> live_path (Some s) ls b)"

lemma live_path_append: "live_path a (ls @ ms) c \<longleftrightarrow> (\<exists>b. live_path a ls b \<and> live_path b ms c)"
  by (induction ls arbitrary: a) auto

lemma live_transition_edge:
  "live_transition current operation session_id reason source correlation actor idem now = Inr t \<Longrightarrow>
     lt_previous_state t = current \<and> live_edge (Some current) (lt_new_state t)"
  by (auto simp: live_transition_def live_record_def live_get_next_state_def dest!: map_of_SomeD
      split: if_splits option.splits intro: rev_image_eqI)

definition session_logs :: "live_store \<Rightarrow> uuid \<Rightarrow> live_log list" where
  "session_logs db i = filter (\<lambda>l. ll_session_id l = i) (lv_logs db)"

definition row_ok :: "live_store \<Rightarrow> live_row \<Rightarrow> bool" where
  "row_ok db r = (\<exists>s. ls_status r = live_status_value s \<and> ls_source_type r = ''live'' \<and>
     live_path None (session_logs db (ls_session_id r)) (Some s) \<and> (ls_ended_at r \<noteq> None \<longleftrightarrow> s \<in> TERMINAL_STATES))"

definition live_ok :: "live_store \<Rightarrow> bool" where
  "live_ok db = (distinct (map ls_session_id (lv_rows db)) \<and> (\<forall>r\<in>set (lv_rows db). row_ok db r) \<and>
     ll_session_id ` set (lv_logs db) \<subseteq> ls_session_id ` set (lv_rows db))"

lemma create_session_cases:
  assumes "create_session R db tenant actor req correlation new_id now later = Inr (db', row)"
  obtains l where "db' = \<lparr>lv_rows = lv_rows db @ [row], lv_logs = lv_logs db @ [l]\<rparr>" and "row = new_session_row new_id tenant req now"
    and "ll_session_id l = new_id" and "ll_previous_state l = ''none''" and "ll_new_state l = live_status_value CONNECTING"
    and "new_id \<notin> ls_session_id ` set (lv_rows db)" and "lr_row_ok R row" and "lr_log_ok R l"
proof -
  define l where "l = \<lparr>ll_session_id = new_id, ll_venue_id = cr_venue_id req, ll_tenant_id = tenant, ll_previous_state = ''none'',
      ll_new_state = live_status_value CONNECTING, ll_transition_time = later,
      ll_reason = ''Session created, awaiting RTSP connection'', ll_source = ''system'', ll_correlation_id = correlation,
      ll_actor_id = Some actor\<rparr>"
  have "row = new_session_row new_id tenant req now \<and> db' = \<lparr>lv_rows = lv_rows db @ [row], lv_logs = lv_logs db @ [l]\<rparr> \<and>
      new_id \<notin> ls_session_id ` set (lv_rows db) \<and> lr_row_ok R row \<and> lr_log_ok R l"
    using assms unfolding create_session_def Let_def l_def [symmetric] by (simp split: if_splits) metis
  moreover have "ll_session_id l = new_id" "ll_previous_state l = ''none''" "ll_new_state l = live_status_value CONNECTING"
    by (simp_all add: l_def)
  ultimately show thesis by (intro that) auto
qed

lemma transition_state_cases:
  assumes "transition_state R db session_id tenant operation reason source correlation actor now later = Inr (db', new)"
  obtains r current t where "r \<in> set (lv_rows db)" and "ls_session_id r = session_id" and "ls_tenant_id r = tenant"
    and "ls_status r = live_status_value current" and "lt_previous_state t = current" and "lt_new_state t = new"
    and "live_edge (Some current) new" and "lr_row_ok R (moved_row r new later)"
    and "db' = \<lparr>lv_rows = map (\<lambda>q. if q = r then moved_row r new later else q) (lv_rows db), lv_logs = lv_logs db @ [log_of r tenant t]\<rparr>"
    and "live_transition current operation session_id reason source correlation actor True now = Inr t"
proof -
  from assms obtain r where r: "get_for_actor db tenant session_id = Some r"
    by (auto simp: transition_state_def split: option.splits)
  then have in_rows: "r \<in> set (lv_rows db)" "ls_session_id r = session_id" "ls_tenant_id r = tenant"
    by (auto simp: get_for_actor_def find_Some_iff)
  from assms r obtain current t where cur: "parse_live_status (ls_status r) = Some current"
    and t: "live_transition current operation session_id reason source correlation actor True now = Inr t"
    by (auto simp: transition_state_def split: option.splits if_splits sum.splits)
  have "lr_row_ok R (moved_row r (lt_new_state t) later) \<and> new = lt_new_state t \<and>
      db' = \<lparr>lv_rows = map (\<lambda>q. if q = r then moved_row r (lt_new_state t) later else q) (lv_rows db),
        lv_logs = lv_logs db @ [log_of r tenant t]\<rparr>"
    using assms r cur t by (auto simp: transition_state_def Let_def split: if_splits)
  with in_rows parse_live_status_Some [OF cur] live_transition_edge [OF t] t show thesis by (intro that) auto
qed

lemma create_session_ok:
  assumes "live_ok db" "create_session R db tenant actor req correlation new_id now later = Inr (db', row)"
  shows "live_ok db'"
  using assms(2)
proof (cases rule: create_session_cases)
  case (1 l)
  have old: "row_ok db' r" if "r \<in> set (lv_rows db)" for r
  proof -
    have "ls_session_id r \<noteq> new_id" using that 1(6) by auto
    then have "session_logs db' (ls_session_id r) = session_logs db (ls_session_id r)" by (simp add: session_logs_def 1(1,3))
    then show ?thesis using assms(1) that by (simp add: live_ok_def row_ok_def)
  qed
  have "session_logs db new_id = []"
    using assms(1) 1(6) by (auto simp: session_logs_def live_ok_def filter_empty_conv)
  then have "session_logs db' new_id = [l]" using 1(3) by (simp add: session_logs_def 1(1))
  then have "row_ok db' row"
    using 1(2,4,5) by (auto simp: row_ok_def new_session_row_def TERMINAL_STATES_def intro!: exI [of _ CONNECTING])
  with old assms(1) 1 show ?thesis by (auto simp: live_ok_def new_session_row_def)
qed

lemma transition_state_ok:
  assumes "live_ok db" "transition_state R db session_id tenant operation reason source correlation actor now later = Inr (db', new)"
  shows "live_ok db'"
  using assms(2)
proof (cases rule: transition_state_cases)
  case (1 r current t)
  let ?r = "moved_row r new later" and ?l = "log_of r tenant t"
  have id: "ls_session_id ?r = ls_session_id r" "ll_session_id ?l = ls_session_id r" by (simp_all add: moved_row_def log_of_def)
  have ids: "map ls_session_id (lv_rows db') = map ls_session_id (lv_rows db)" using id by (simp add: 1(9))
  have inj: "inj_on ls_session_id (set (lv_rows db))" using assms(1) by (simp add: live_ok_def distinct_map)
  have old: "row_ok db' q" if "q \<in> set (lv_rows db)" "q \<noteq> r" for q
  proof -
    have "ls_session_id q \<noteq> ls_session_id r" using that inj 1(1) by (auto dest: inj_onD)
    then have "session_logs db' (ls_session_id q) = session_logs db (ls_session_id q)" using id by (simp add: session_logs_def 1(9))
    then show ?thesis using assms(1) that by (simp add: live_ok_def row_ok_def)
  qed
  have rok: "row_ok db r" using assms(1) 1(1) by (simp add: live_ok_def)
  then have path: "live_path None (session_logs db (ls_session_id r)) (Some current)" and src: "ls_source_type r = ''live''"
    and ended: "ls_ended_at r \<noteq> None \<longleftrightarrow> current \<in> TERMINAL_STATES" using 1(4) by (auto simp: row_ok_def)
  have "session_logs db' (ls_session_id r) = session_logs db (ls_session_id r) @ [?l]" using id by (simp add: session_logs_def 1(9))
  moreover have "live_path (Some current) [?l] (Some new)" using 1(5-7) by (auto simp: log_of_def)
  ultimately have "live_path None (session_logs db' (ls_session_id r)) (Some new)"
    using path by (simp only: live_path_append) blast
  moreover have "ls_ended_at ?r \<noteq> None \<longleftrightarrow> new \<in> TERMINAL_STATES"
    using ended 1(7) by (cases current) (auto simp: moved_row_def TERMINAL_STATES_def)
  ultimately have "row_ok db' ?r" using src id by (auto simp: row_ok_def moved_row_def)
  with old have rows: "\<forall>q\<in>set (lv_rows db'). row_ok db' q" by (auto simp: 1(9))
  have "ls_session_id ` set (lv_rows db') = ls_session_id ` set (lv_rows db)" using arg_cong [OF ids, of set] by (simp only: set_map)
  moreover have "ll_session_id ` set (lv_logs db') = insert (ls_session_id r) (ll_session_id ` set (lv_logs db))"
    using id by (simp add: 1(9))
  moreover have "ll_session_id ` set (lv_logs db) \<subseteq> ls_session_id ` set (lv_rows db)" using assms(1) by (simp add: live_ok_def)
  moreover have "ls_session_id r \<in> ls_session_id ` set (lv_rows db)" using 1(1) by (rule imageI)
  ultimately have "ll_session_id ` set (lv_logs db') \<subseteq> ls_session_id ` set (lv_rows db')" by simp
  with rows ids assms(1) show ?thesis by (simp add: live_ok_def)
qed

lemma live_step_ok: "live_ok db \<Longrightarrow> live_ok (live_step R db c)"
  by (cases c) (auto split: sum.splits intro: create_session_ok transition_state_ok)

lemma live_run_ok: "live_ok db \<Longrightarrow> live_ok (live_run R db calls)"
  unfolding live_run_def by (induction calls arbitrary: db) (simp_all add: live_step_ok)

lemma terminal_edge: "live_edge (Some a) b \<Longrightarrow> a \<in> TERMINAL_STATES \<Longrightarrow> b = a"
  by (cases a) (auto simp: TERMINAL_STATES_def)

lemma terminal_step:
  assumes "live_ok db" "r \<in> set (lv_rows db)" "ls_status r = live_status_value s" "s \<in> TERMINAL_STATES"
  shows "\<exists>r'\<in>set (lv_rows (live_step R db c)). ls_session_id r' = ls_session_id r \<and> ls_status r' = ls_status r"
proof (cases c)
  case (CallCreate tenant actor req correlation new_id now later)
  show ?thesis
  proof (cases "create_session R db tenant actor req correlation new_id now later")
    case (Inr q)
    then obtain db' row where q: "create_session R db tenant actor req correlation new_id now later = Inr (db', row)" by (cases q) auto
    then show ?thesis by (cases rule: create_session_cases) (use assms(2) CallCreate q in auto)
  qed (use assms(2) CallCreate in auto)
next
  case (CallTransition session_id tenant operation reason source correlation actor now later)
  show ?thesis
  proof (cases "transition_state R db session_id tenant operation reason source correlation actor now later")
    case (Inr q)
    then obtain db' new where q: "transition_state R db session_id tenant operation reason source correlation actor now later = Inr (db', new)"
      by (cases q) auto
    then show ?thesis
    proof (cases rule: transition_state_cases)
      case (1 r0 current t)
      have "live_step R db c = db'" using CallTransition q by simp
      moreover have "(if r = r0 then moved_row r0 new later else r) \<in> set (lv_rows db')" using assms(2) by (auto simp: 1(9))
      moreover have "ls_status (moved_row r0 new later) = ls_status r \<and> ls_session_id (moved_row r0 new later) = ls_session_id r" if "r = r0"
      proof -
        have "current = s" using that 1(4) assms(3) by simp
        with terminal_edge [OF 1(7)] assms(4) have "new = s" by blast
        then show ?thesis using that assms(3) by (simp add: moved_row_def)
      qed
      ultimately show ?thesis by (cases "r = r0") (auto intro: bexI [rotated])
    qed
  qed (use assms(2) CallTransition in auto)
qed

lemma terminal_run:
  assumes "live_ok db" "r \<in> set (lv_rows db)" "ls_status r = live_status_value s" "s \<in> TERMINAL_STATES"
  shows "\<exists>r'\<in>set (lv_rows (live_run R db calls)). ls_session_id r' = ls_session_id r \<and> ls_status r' = ls_status r"
  using assms
proof (induction calls arbitrary: db r)
  case Nil
  then show ?case by (auto simp: live_run_def)
next
  case (Cons c calls)
  from terminal_step [OF Cons(2-5)] obtain r1 where r1: "r1 \<in> set (lv_rows (live_step R db c))"
    "ls_session_id r1 = ls_session_id r" "ls_status r1 = ls_status r" by blast
  from Cons.IH [OF live_step_ok [OF Cons(2)] r1(1)] r1 Cons(4,5) show ?case by (auto simp: live_run_def)
qed

text \<open>
  C31: Whatever the database accepts, after any sequence of calls the log of every session is a path of the state machine that
  begins with its creation and ends in the status of the row, the end time is set exactly for a session that is over, and a
  session that is over keeps its status for ever.
\<close>

theorem live_lifecycle:
  assumes "db = live_run R empty_live_store calls" "r \<in> set (lv_rows db)"
  shows "\<exists>s. ls_status r = live_status_value s \<and> live_path None (session_logs db (ls_session_id r)) (Some s) \<and>
    (ls_ended_at r \<noteq> None \<longleftrightarrow> s \<in> TERMINAL_STATES) \<and>
    (s \<in> TERMINAL_STATES \<longrightarrow> (\<forall>more. \<exists>r'\<in>set (lv_rows (live_run R db more)).
       ls_session_id r' = ls_session_id r \<and> ls_status r' = ls_status r))"
proof -
  have ok: "live_ok db" unfolding assms(1) by (rule live_run_ok) (simp add: live_ok_def empty_live_store_def)
  then obtain s where "ls_status r = live_status_value s" "live_path None (session_logs db (ls_session_id r)) (Some s)"
    "ls_ended_at r \<noteq> None \<longleftrightarrow> s \<in> TERMINAL_STATES" using assms(2) by (auto simp: live_ok_def row_ok_def)
  with terminal_run [OF ok assms(2)] show ?thesis by blast
qed

text \<open>A database that accepts the lifecycle.\<close>

definition permissive_rules :: live_rules where
  "permissive_rules = \<lparr>lr_row_ok = (\<lambda>_. True), lr_log_ok = (\<lambda>_. True)\<rparr>"

definition sample_request :: create_request where
  "sample_request = \<lparr>cr_camera_id = 4, cr_venue_id = 2, cr_configuration_version_id = None\<rparr>"

definition sample_live_calls :: "live_call list" where
  "sample_live_calls = [CallCreate 1 9 sample_request None 30 (utc_at 1) (utc_at 1),
     CallTransition 30 1 ''connected'' ''up'' ''system'' None None (utc_at 2) (utc_at 2),
     CallTransition 30 1 ''stop_requested'' ''done'' ''actor'' None (Some 9) (utc_at 3) (utc_at 3)]"

lemmas live_eval = live_run_def create_session_def transition_state_def new_session_row_def Let_def get_for_actor_def
  parse_live_status_def live_statuses_def live_transition_def live_get_next_state_def live_record_def TERMINAL_STATES_def
  IDEMPOTENT_OPERATIONS_def moved_row_def log_of_def empty_live_store_def

theorem live_lifecycle_witness:
  "\<exists>r. lv_rows (live_run permissive_rules empty_live_store sample_live_calls) = [r] \<and> ls_status r = ''stopped'' \<and>
     ls_ended_at r \<noteq> None \<and> live_path None (session_logs (live_run permissive_rules empty_live_store sample_live_calls) 30) (Some STOPPED)"
proof -
  let ?db = "live_run permissive_rules empty_live_store sample_live_calls"
  obtain r where r: "lv_rows ?db = [r]" "ls_status r = ''stopped''" "ls_session_id r = 30"
    by (simp add: sample_live_calls_def permissive_rules_def sample_request_def live_eval)
  from live_lifecycle [OF refl, of r permissive_rules sample_live_calls] r obtain s where
    "ls_status r = live_status_value s" "live_path None (session_logs ?db (ls_session_id r)) (Some s)"
    "ls_ended_at r \<noteq> None \<longleftrightarrow> s \<in> TERMINAL_STATES" by auto
  moreover from this(1) r(2) have "s = STOPPED" using live_status_value_inj [of s STOPPED] by simp
  ultimately show ?thesis using r by (simp add: TERMINAL_STATES_def)
qed

subsection \<open>Under the declared constraints\<close>

lemma declared_status:
  "session_row_accepted (moved_row r new later) \<Longrightarrow> new = LIVE_ACTIVE \<or> new = LIVE_FAILED"
  by (cases new) (auto simp: session_row_accepted_def moved_row_def)

lemma declared_refuses: "create_session declared_rules db tenant actor req correlation new_id now later = Inl RowRefused"
  by (simp add: create_session_def new_session_row_def declared_rules_def session_row_accepted_def Let_def)

lemma declared_run: "live_run declared_rules empty_live_store calls = empty_live_store"
proof -
  have "live_step declared_rules empty_live_store c = empty_live_store" for c
    by (cases c) (simp_all add: declared_refuses transition_state_def get_for_actor_def empty_live_store_def)
  then show ?thesis unfolding live_run_def by (induction calls) simp_all
qed

text \<open>
  C32: With the constraints the models and the migration declare no live session can be created at all, because the initial
  status satisfies no case of the check on status and end time: every sequence of calls leaves the store empty, and even a
  live row that came from elsewhere can never be stopped, only found failed.
\<close>

theorem live_session_never_starts:
  "create_session declared_rules db tenant actor req correlation new_id now later = Inl RowRefused \<and>
   live_run declared_rules empty_live_store calls = empty_live_store \<and>
   (request_stop declared_rules db session_id tenant actor reason correlation now later = Inr (db', new) \<longrightarrow> new = LIVE_FAILED)"
proof -
  have "new = LIVE_FAILED"
    if run: "request_stop declared_rules db session_id tenant actor reason correlation now later = Inr (db', new)"
  proof -
    from run have "transition_state declared_rules db session_id tenant ''stop_requested'' reason ''actor'' correlation (Some actor) now later =
        Inr (db', new)" by (simp add: request_stop_def)
    then show ?thesis
    proof (cases rule: transition_state_cases)
      case (1 r current t)
      then have cases: "new = LIVE_ACTIVE \<or> new = LIVE_FAILED" using declared_status by (simp add: declared_rules_def)
      from 1(10,6) have "new \<noteq> LIVE_ACTIVE"
        by (cases current) (auto simp: live_transition_def live_record_def live_get_next_state_def TERMINAL_STATES_def IDEMPOTENT_OPERATIONS_def
            split: if_splits)
      with cases show ?thesis by blast
    qed
  qed
  then show ?thesis using declared_refuses declared_run by blast
qed

definition sample_failed_store :: live_store where
  "sample_failed_store = \<lparr>lv_rows = [(new_session_row 30 1 sample_request (utc_at 1))\<lparr>ls_status := ''failed'', ls_ended_at := Some (utc_at 2)\<rparr>],
     lv_logs = []\<rparr>"

theorem live_session_never_starts_witness:
  "(\<exists>db' new. request_stop declared_rules sample_failed_store 30 1 9 ''stop'' None (utc_at 3) (utc_at 3) = Inr (db', new) \<and> new = LIVE_FAILED) \<and>
   create_session declared_rules empty_live_store 1 9 sample_request None 30 (utc_at 1) (utc_at 1) = Inl RowRefused"
proof -
  obtain db' new where run: "request_stop declared_rules sample_failed_store 30 1 9 ''stop'' None (utc_at 3) (utc_at 3) = Inr (db', new)"
    by (simp add: request_stop_def sample_failed_store_def sample_request_def declared_rules_def session_row_accepted_def
        transition_log_accepted_def VIDEO_SESSION_STATUSES_def LIVE_SESSION_STATUSES_def live_eval dt_less_def utc_at_def)
  with live_session_never_starts [of sample_failed_store 1 9 sample_request None 30 "utc_at 3" "utc_at 3" "[]" 30 "''stop''" db' new]
    live_session_never_starts [of empty_live_store 1 9 sample_request None 30 "utc_at 1" "utc_at 1" "[]" 30 "''stop''" db' new]
  show ?thesis by blast
qed

end
