(* ===== verification/Canonical_Json_Facts.thy ===== *)
theory Canonical_Json_Facts
  imports Canonical_Json "HOL-Library.Multiset"
begin

text \<open>
  The canonical text identifies a payload: the encoder is injective on trees, and sorting the keys makes the text of a
  tree depend only on the value it denotes, in which the order of the entries of a dictionary does not exist.
\<close>

subsection \<open>Quoted text is a prefix code\<close>

lemma escape_char_prefix:
  assumes "escape_char c @ x = escape_char d @ y"
  shows "c = d \<and> x = y"
proof -
  have hex: "c' = d'" if "(of_char c' :: nat) < 32" "(of_char d' :: nat) < 32"
    "hex_char (of_char c' div 16) = hex_char (of_char d' div 16)" "hex_char (of_char c' mod 16) = hex_char (of_char d' mod 16)" for c' d' :: char
  proof -
    have "(of_char c' :: nat) div 16 = of_char d' div 16" "(of_char c' :: nat) mod 16 = of_char d' mod 16"
      using that hex_char_inj by (simp_all add: hex_char_inj)
    then have "(of_char c' :: nat) = of_char d'" by (metis div_mult_mod_eq)
    then show ?thesis by simp
  qed
  show ?thesis
    using assms hex [of c d] unfolding escape_char_def by (simp split: if_splits)
qed

lemma escape_char_head: "\<exists>h t. escape_char c = h # t \<and> h \<noteq> CHR 34"
  by (simp add: escape_char_def)

lemma escaped_prefix:
  "concat (map escape_char s) @ CHR 34 # x = concat (map escape_char t) @ CHR 34 # y \<Longrightarrow> s = t \<and> x = y"
proof (induction s arbitrary: t)
  case Nil
  then show ?case using escape_char_head [of "hd t"] by (cases t) auto
next
  case (Cons c s)
  obtain d t' where t: "t = d # t'" using Cons.prems escape_char_head [of c] by (cases t) auto
  then have "escape_char c @ concat (map escape_char s) @ CHR 34 # x = escape_char d @ concat (map escape_char t') @ CHR 34 # y"
    using Cons.prems by simp
  from escape_char_prefix [OF this] Cons.IH [of t'] show ?case using t by simp
qed

lemma quote_text_prefix: "quote_text s @ x = quote_text t @ y \<longleftrightarrow> s = t \<and> x = y"
  using escaped_prefix [of s x t y] by (auto simp: quote_text_def)

subsection \<open>Atoms\<close>

definition atom_text :: "string \<Rightarrow> bool" where
  "atom_text s = (s \<noteq> [] \<and> set s \<inter> set '',]}[{'' = {} \<and> CHR 34 \<notin> set s)"

text \<open>What \<open>repr\<close> of a float promises: texts of different floats differ, and are no other atoms.\<close>

definition float_text :: "('f \<Rightarrow> string) \<Rightarrow> bool" where
  "float_text R = (inj R \<and> (\<forall>x. atom_text (R x) \<and> R x \<noteq> ''null'' \<and> R x \<noteq> ''true'' \<and> R x \<noteq> ''false'' \<and> (\<forall>i. R x \<noteq> str_int i)))"

lemma digit_of_char: "d < 10 \<Longrightarrow> (of_char (char_of (48 + d)) :: nat) = 48 + d"
  by simp

lemma str_nat_digits: "c \<in> set (str_nat n) \<Longrightarrow> 48 \<le> (of_char c :: nat) \<and> (of_char c :: nat) < 58"
proof (induction n rule: str_nat.induct)
  case (1 n)
  show ?case
  proof (cases "n < 10")
    case True
    then show ?thesis using "1.prems" by (simp add: str_nat.simps [of n])
  next
    case False
    then show ?thesis using 1 by (auto simp: str_nat.simps [of n])
  qed
qed

lemma str_nat_nonempty: "str_nat n \<noteq> []"
  by (simp add: str_nat.simps [of n])

lemma str_nat_inj: "str_nat n = str_nat m \<Longrightarrow> n = m"
proof (induction n arbitrary: m rule: str_nat.induct)
  case (1 n)
  have digit: "char_of (48 + a) = (char_of (48 + b) :: char) \<Longrightarrow> a = b" if "a < 10" "b < 10" for a b :: nat
    using that by (metis digit_of_char add_left_cancel)
  show ?case
  proof (cases "n < 10"; cases "m < 10")
    assume "n < 10" "m < 10"
    then show ?thesis using "1.prems" digit by (simp add: str_nat.simps [of n] str_nat.simps [of m])
  next
    assume "n < 10" "\<not> m < 10"
    then show ?thesis using "1.prems" str_nat_nonempty [of "m div 10"] by (simp add: str_nat.simps [of n] str_nat.simps [of m])
  next
    assume "\<not> n < 10" "m < 10"
    then show ?thesis using "1.prems" str_nat_nonempty [of "n div 10"] by (simp add: str_nat.simps [of n] str_nat.simps [of m])
  next
    assume n: "\<not> n < 10" and m: "\<not> m < 10"
    then have "str_nat (n div 10) = str_nat (m div 10)" "char_of (48 + n mod 10) = (char_of (48 + m mod 10) :: char)"
      using "1.prems" by (simp_all add: str_nat.simps [of n] str_nat.simps [of m])
    then have "n div 10 = m div 10" "n mod 10 = m mod 10" using "1.IH" [OF n] digit by simp_all
    then show ?thesis by (metis div_mult_mod_eq)
  qed
qed

lemma minus_not_in_str_nat: "CHR ''-'' \<notin> set (str_nat n)"
  using str_nat_digits [of "CHR ''-''" n] by auto

lemma str_int_inj: "str_int i = str_int j \<longleftrightarrow> i = j"
proof
  assume eq: "str_int i = str_int j"
  have "\<not> (i < 0 \<and> \<not> j < 0)" "\<not> (\<not> i < 0 \<and> j < 0)"
    using eq minus_not_in_str_nat [of "nat i"] minus_not_in_str_nat [of "nat j"] by (auto simp: str_int_def) (metis list.set_intros(1))+
  with eq have "nat \<bar>i\<bar> = nat \<bar>j\<bar>" by (auto simp: str_int_def dest!: str_nat_inj split: if_splits)
  with \<open>\<not> (i < 0 \<and> \<not> j < 0)\<close> \<open>\<not> (\<not> i < 0 \<and> j < 0)\<close> show "i = j" by linarith
qed simp

lemma atom_str_int: "atom_text (str_int i)" "str_int i \<noteq> ''null''" "str_int i \<noteq> ''true''" "str_int i \<noteq> ''false''"
proof -
  have c: "c = CHR ''-'' \<or> (48 \<le> (of_char c :: nat) \<and> (of_char c :: nat) < 58)" if "c \<in> set (str_int i)" for c
    using that str_nat_digits [of c] by (auto simp: str_int_def split: if_splits)
  have "CHR '','' \<notin> set (str_int i)" "CHR '']'' \<notin> set (str_int i)" "CHR ''}'' \<notin> set (str_int i)" "CHR ''['' \<notin> set (str_int i)"
    "CHR ''{'' \<notin> set (str_int i)" "CHR 34 \<notin> set (str_int i)" "CHR ''l'' \<notin> set (str_int i)" "CHR ''e'' \<notin> set (str_int i)"
    using c by fastforce+
  then show "atom_text (str_int i)" "str_int i \<noteq> ''null''" "str_int i \<noteq> ''true''" "str_int i \<noteq> ''false''"
    using str_nat_nonempty by (auto simp: atom_text_def str_int_def)
qed

definition starts_ok :: "string \<Rightarrow> bool" where
  "starts_ok x = (x = [] \<or> hd x \<in> set '',]}'')"

lemma starts_ok_Cons [simp]: "starts_ok (c # x) \<longleftrightarrow> c \<in> set '',]}''"
  by (simp add: starts_ok_def)

lemma atom_prefix:
  assumes "atom_text s" "atom_text t" "starts_ok x" "starts_ok y" "s @ x = t @ y"
  shows "s = t \<and> x = y"
proof -
  have tw: "takeWhile (\<lambda>c. c \<notin> set '',]}'') (u @ z) = u" if "atom_text u" "starts_ok z" for u z
  proof -
    have "takeWhile (\<lambda>c. c \<notin> set '',]}'') (u @ z) = u @ takeWhile (\<lambda>c. c \<notin> set '',]}'') z"
      using that(1) by (intro takeWhile_append2) (auto simp: atom_text_def)
    moreover have "takeWhile (\<lambda>c. c \<notin> set '',]}'') z = []" using that(2) by (cases z) auto
    ultimately show ?thesis by simp
  qed
  have "s = t" using tw [OF assms(1,3)] tw [OF assms(2,4)] assms(5) by simp
  then show ?thesis using assms(5) by simp
qed

subsection \<open>The encoder is injective\<close>

lemma join_str_Cons: "join_str sep (z # zs) = z @ concat (map (\<lambda>e. sep @ e) zs)"
  by (induction zs arbitrary: z) simp_all

text \<open>The text of \<open>a\<close>, followed by a delimiter, determines \<open>a\<close> and where it ends.\<close>

definition readable :: "('a \<Rightarrow> string) \<Rightarrow> 'a \<Rightarrow> bool" where
  "readable r a = (\<forall>b x y. starts_ok x \<longrightarrow> starts_ok y \<longrightarrow> r a @ x = r b @ y \<longrightarrow> a = b \<and> x = y)"

lemma readableD: "readable r a \<Longrightarrow> starts_ok x \<Longrightarrow> starts_ok y \<Longrightarrow> r a @ x = r b @ y \<Longrightarrow> a = b \<and> x = y"
  by (simp add: readable_def)

lemma items_tail_inj:
  assumes c: "c = CHR '']'' \<or> c = CHR ''}''"
  shows "\<forall>a\<in>set as. readable r a \<Longrightarrow>
    concat (map (\<lambda>e. '','' @ r e) as) @ c # x = concat (map (\<lambda>e. '','' @ r e) bs) @ c # y \<Longrightarrow> as = bs \<and> x = y"
proof (induction as arbitrary: bs)
  case Nil
  then show ?case using c by (cases bs) auto
next
  case (Cons a as)
  obtain b bs' where bs: "bs = b # bs'" using Cons.prems(2) c by (cases bs) auto
  let ?X = "concat (map (\<lambda>e. '','' @ r e) as) @ c # x" and ?Y = "concat (map (\<lambda>e. '','' @ r e) bs') @ c # y"
  have "starts_ok ?X" using c by (cases as) auto
  moreover have "starts_ok ?Y" using c by (cases bs') auto
  moreover have "r a @ ?X = r b @ ?Y" using Cons.prems(2) bs by simp
  ultimately have "a = b \<and> ?X = ?Y" using Cons.prems(1) by (intro readableD) simp_all
  moreover from this have "as = bs' \<and> x = y" using Cons.IH [of bs'] Cons.prems(1) by simp
  ultimately show ?case using bs by simp
qed

lemma items_inj:
  assumes inj: "\<forall>a\<in>set as. readable r a"
    and c: "c = CHR '']'' \<or> c = CHR ''}''" and head: "\<And>e. r e \<noteq> [] \<and> hd (r e) \<noteq> CHR '']'' \<and> hd (r e) \<noteq> CHR ''}''"
    and eq: "join_str '','' (map r as) @ c # x = join_str '','' (map r bs) @ c # y"
  shows "as = bs \<and> x = y"
proof (cases as)
  case Nil
  then show ?thesis using eq c head [of "hd bs"]
    by (cases bs) (auto simp: join_str_Cons hd_append Cons_eq_append_conv, (metis list.sel(1))+)
next
  case (Cons a as')
  obtain b bs' where bs: "bs = b # bs'"
    using eq c head [of a] Cons by (cases bs) (auto simp: join_str_Cons hd_append append_eq_Cons_conv)
  let ?X = "concat (map (\<lambda>e. '','' @ r e) as') @ c # x" and ?Y = "concat (map (\<lambda>e. '','' @ r e) bs') @ c # y"
  have "starts_ok ?X" using c by (cases as') auto
  moreover have "starts_ok ?Y" using c by (cases bs') auto
  moreover have "r a @ ?X = r b @ ?Y" using eq Cons bs by (simp add: join_str_Cons comp_def)
  ultimately have ab: "a = b \<and> ?X = ?Y" using inj Cons by (intro readableD) simp_all
  then have "as' = bs' \<and> x = y" using items_tail_inj [OF c, of as' r x bs' y] inj Cons by simp
  with ab show ?thesis using Cons bs by simp
qed

definition is_atom :: "'f json \<Rightarrow> bool" where
  "is_atom j = (case j of JText _ \<Rightarrow> False | JArr _ \<Rightarrow> False | JObj _ \<Rightarrow> False | _ \<Rightarrow> True)"

lemma atom_render: "float_text R \<Longrightarrow> is_atom j \<Longrightarrow> atom_text (render R j)"
  by (cases j) (auto simp: is_atom_def float_text_def atom_str_int, auto simp: atom_text_def)

lemma atom_render_inj:
  assumes "float_text R" "is_atom a" "is_atom b" "render R a = render R b"
  shows "a = b"
proof -
  have R: "R x = R y \<longleftrightarrow> x = y" "R x \<noteq> ''null''" "R x \<noteq> ''true''" "R x \<noteq> ''false''" "R x \<noteq> str_int i"
    "''null'' \<noteq> R x" "''true'' \<noteq> R x" "''false'' \<noteq> R x" "str_int i \<noteq> R x" for x y i
    using assms(1) unfolding float_text_def by (auto simp: inj_eq, metis+)
  have I: "''null'' \<noteq> str_int i" "''true'' \<noteq> str_int i" "''false'' \<noteq> str_int i" for i
    using atom_str_int(2-4) [of i] by (metis+)
  note facts = R I atom_str_int(2-4) str_int_inj
  show ?thesis
  proof (cases a)
    case JNull
    then show ?thesis using assms(3,4) facts by (cases b) (simp_all add: is_atom_def split: if_splits)
  next
    case (JBool z)
    show ?thesis
    proof (cases z)
      case True
      then show ?thesis using JBool assms(3,4) R(2-9) I by (cases b) (auto simp: is_atom_def split: if_splits)
    next
      case False
      then show ?thesis using JBool assms(3,4) R(2-9) I by (cases b) (auto simp: is_atom_def split: if_splits)
    qed
  next
    case (JInt z)
    then show ?thesis using assms(3,4) facts by (cases b) (simp_all add: is_atom_def split: if_splits)
  next
    case (JFloat z)
    then show ?thesis using assms(3,4) facts by (cases b) (simp_all add: is_atom_def split: if_splits)
  qed (use assms(2) in \<open>simp_all add: is_atom_def\<close>)
qed

lemma render_head:
  assumes "float_text R"
  shows "render R j \<noteq> [] \<and> hd (render R j) \<noteq> CHR '']'' \<and> hd (render R j) \<noteq> CHR ''}'' \<and>
    (hd (render R j) = CHR 34 \<longleftrightarrow> (\<exists>s. j = JText s)) \<and> (hd (render R j) = CHR ''['' \<longleftrightarrow> (\<exists>xs. j = JArr xs)) \<and>
    (hd (render R j) = CHR ''{'' \<longleftrightarrow> (\<exists>kvs. j = JObj kvs))"
proof (cases "is_atom j")
  case True
  then have "atom_text (render R j)" using assms by (rule atom_render [rotated])
  then have ne: "render R j \<noteq> []" and h: "c \<notin> set (render R j) \<Longrightarrow> hd (render R j) \<noteq> c" for c
    by (auto simp: atom_text_def)
  have "(\<nexists>s. j = JText s) \<and> (\<nexists>xs. j = JArr xs) \<and> (\<nexists>kvs. j = JObj kvs)" using True by (cases j) (simp_all add: is_atom_def)
  moreover have "hd (render R j) \<noteq> CHR '']''" "hd (render R j) \<noteq> CHR ''}''" "hd (render R j) \<noteq> CHR 34"
    "hd (render R j) \<noteq> CHR ''[''" "hd (render R j) \<noteq> CHR ''{''"
    using \<open>atom_text (render R j)\<close> h by (auto simp: atom_text_def)
  ultimately show ?thesis using ne by blast
next
  case False
  then show ?thesis by (cases j) (auto simp: is_atom_def quote_text_def)
qed

lemma render_prefix_atom:
  assumes R: "float_text R" and a: "is_atom a" and xy: "starts_ok x" "starts_ok y" and eq: "render R a @ x = render R b @ y"
  shows "a = b \<and> x = y"
proof -
  have "hd (render R b) = hd (render R a)"
    using eq render_head [OF R, of a] render_head [OF R, of b] by (metis hd_append2)
  then have b: "is_atom b" using a render_head [OF R, of a] render_head [OF R, of b] by (cases b; cases a) (simp_all add: is_atom_def del: render.simps)
  show ?thesis using atom_prefix [OF atom_render [OF R a] atom_render [OF R b] xy eq] atom_render_inj [OF R a b] by simp
qed

lemma readable_atom: "float_text R \<Longrightarrow> is_atom a \<Longrightarrow> readable (render R) a"
  unfolding readable_def by (intro allI impI) (rule render_prefix_atom)

lemma readable_item:
  assumes "readable r v"
  shows "readable (\<lambda>(k, v). quote_text k @ '':'' @ r v) (k, v)"
  using assms by (auto simp: readable_def quote_text_prefix)

lemma render_readable:
  assumes R: "float_text R"
  shows "readable (render R) a"
proof (induction a)
  case (JText s)
  show ?case
    unfolding readable_def
  proof (intro allI impI)
    fix b x y assume eq: "render R (JText s) @ x = render R b @ y"
    then have "hd (render R b) = CHR 34" using render_head [OF R, of b] by (cases "render R b") (auto simp: quote_text_def)
    then obtain t where "b = JText t" using render_head [OF R, of b] by auto
    then show "JText s = b \<and> x = y" using eq by (simp add: quote_text_prefix)
  qed
next
  case (JArr xs)
  show ?case
    unfolding readable_def
  proof (intro allI impI)
    fix b x y assume eq: "render R (JArr xs) @ x = render R b @ y"
    then have "hd (render R b) = CHR ''[''" using render_head [OF R, of b] by (cases "render R b") auto
    then obtain ys where b: "b = JArr ys" using render_head [OF R, of b] by auto
    have "xs = ys \<and> x = y"
      by (rule items_inj [of xs "render R" "CHR '']''" x ys y]) (use JArr eq b render_head [OF R] in auto)
    then show "JArr xs = b \<and> x = y" using b by simp
  qed
next
  case (JObj kvs)
  have items: "readable (\<lambda>(k, v). quote_text k @ '':'' @ render R v) e" if "e \<in> set kvs" for e
    using JObj [OF that, of "snd e"] readable_item [of "render R" "snd e" "fst e"] by (cases e) simp
  show ?case
    unfolding readable_def
  proof (intro allI impI)
    fix b x y assume eq: "render R (JObj kvs) @ x = render R b @ y"
    then have "hd (render R b) = CHR ''{''" using render_head [OF R, of b] by (cases "render R b") auto
    then obtain ys where b: "b = JObj ys" using render_head [OF R, of b] by auto
    have "kvs = ys \<and> x = y"
      by (rule items_inj [of kvs "\<lambda>(k, v). quote_text k @ '':'' @ render R v" "CHR ''}''" x ys y])
        (use items eq b in \<open>auto simp: quote_text_def split: prod.splits\<close>)
    then show "JObj kvs = b \<and> x = y" using b by simp
  qed
qed (rule readable_atom [OF R], simp add: is_atom_def)+

lemma render_inj: "float_text R \<Longrightarrow> render R a = render R b \<longleftrightarrow> a = b"
  using readableD [OF render_readable, of R "[]" "[]" a b] by (auto simp: starts_ok_def)

subsection \<open>The value of a tree\<close>

datatype 'f jvalue = VNull | VBool bool | VInt int | VFloat 'f | VText string | VArr "'f jvalue list"
  | VObj "string \<Rightarrow> 'f jvalue option"

fun denote :: "'f json \<Rightarrow> 'f jvalue" where
  "denote JNull = VNull"
| "denote (JBool b) = VBool b"
| "denote (JInt i) = VInt i"
| "denote (JFloat x) = VFloat x"
| "denote (JText s) = VText s"
| "denote (JArr xs) = VArr (map denote xs)"
| "denote (JObj kvs) = VObj (map_of (map (\<lambda>(k, v). (k, denote v)) kvs))"

fun wf_json :: "'f json \<Rightarrow> bool" where
  "wf_json (JArr xs) = list_all wf_json xs"
| "wf_json (JObj kvs) = (distinct (map fst kvs) \<and> list_all (\<lambda>(k, v). wf_json v) kvs)"
| "wf_json j = True"

lemma fst_items: "map fst (map (\<lambda>(k, v). (k, f v)) kvs) = map fst kvs"
  by (induction kvs) auto

lemma keys_dict_set: "fst ` set (dict_set k v d) = insert k (fst ` set d)"
  by (induction k v d rule: dict_set.induct) (simp_all add: insert_commute)

lemma distinct_dict_set: "distinct (map fst d) \<Longrightarrow> distinct (map fst (dict_set k v d))"
  by (induction k v d rule: dict_set.induct) (auto simp: keys_dict_set)

lemma values_dict_set: "snd ` set (dict_set k v d) \<subseteq> insert v (snd ` set d)"
  by (induction k v d rule: dict_set.induct) auto

lemma dict_of_wf: "distinct (map fst (dict_of kvs)) \<and> snd ` set (dict_of kvs) \<subseteq> snd ` set kvs"
proof -
  let ?f = "foldl (\<lambda>d (k, v). dict_set k v d)"
  have "distinct (map fst d) \<Longrightarrow> distinct (map fst (?f d kvs)) \<and> snd ` set (?f d kvs) \<subseteq> snd ` set d \<union> snd ` set kvs"
    for d :: "('a \<times> 'b) list"
  proof (induction kvs arbitrary: d)
    case (Cons a kvs)
    obtain k v where a: "a = (k, v)" by (cases a)
    have "distinct (map fst (?f (dict_set k v d) kvs))"
      and "snd ` set (?f (dict_set k v d) kvs) \<subseteq> snd ` set (dict_set k v d) \<union> snd ` set kvs"
      using Cons.IH [of "dict_set k v d"] distinct_dict_set [OF Cons.prems] by simp_all
    moreover have "snd ` set (dict_set k v d) \<union> snd ` set kvs \<subseteq> snd ` set d \<union> snd ` set (a # kvs)"
      using values_dict_set [of k v d] a by auto
    ultimately show ?case using a by (simp add: subset_trans)
  qed simp
  from this [of "[]"] show ?thesis by (simp add: dict_of_def)
qed

lemma wf_normalize_json: "wf_json (normalize_json j)"
proof (induction j)
  case (JObj kvs)
  let ?d = "map (\<lambda>(k, v). (k, normalize_json v)) kvs"
  have "wf_json v" if "(k, v) \<in> set (dict_of ?d)" for k v
  proof -
    have "v \<in> snd ` set ?d" using that dict_of_wf [of ?d] by force
    then show ?thesis using JObj by fastforce
  qed
  then show ?case using dict_of_wf [of ?d] by (auto simp: list_all_iff)
qed (auto simp: list_all_iff)

lemma wf_normalize_payload: "wf_json (normalize_payload L p)"
proof (induction p)
  case (PDict kvs)
  let ?d = "map (\<lambda>(k, v). (str_key k, normalize_payload L v)) kvs"
  have "wf_json v" if "(k, v) \<in> set (dict_of ?d)" for k v
  proof -
    have "v \<in> snd ` set ?d" using that dict_of_wf [of ?d] by force
    then show ?thesis using PDict by fastforce
  qed
  then show ?case using dict_of_wf [of ?d] by (auto simp: list_all_iff)
qed (auto simp: list_all_iff wf_normalize_json)

lemma denote_sort: "wf_json j \<Longrightarrow> denote (sort_json j) = denote j"
proof (induction j)
  case (JObj kvs)
  let ?s = "sort_key fst (map (\<lambda>(k, v). (k, sort_json v)) kvs)"
  have eq: "denote (sort_json v) = denote v" if "(k, v) \<in> set kvs" for k v
    using JObj that by (fastforce simp: list_all_iff)
  have "set (map (\<lambda>(k, v). (k, denote v)) ?s) = set (map (\<lambda>(k, v). (k, denote v)) kvs)"
    using eq by (force simp: image_iff)
  moreover have "distinct (map fst (map (\<lambda>(k, v). (k, denote v)) ?s))"
  proof -
    have "mset (map fst ?s) = mset (map fst (map (\<lambda>(k, v). (k, sort_json v)) kvs))" by (simp only: mset_map mset_sort)
    then have "mset (map fst ?s) = mset (map fst kvs)" by (simp only: fst_items)
    then have "distinct (map fst ?s)" using JObj.prems by (metis mset_eq_imp_distinct_iff wf_json.simps(2))
    then show ?thesis by (simp only: fst_items)
  qed
  moreover have "distinct (map fst (map (\<lambda>(k, v). (k, denote v)) kvs))" using JObj.prems by (simp only: fst_items wf_json.simps)
  ultimately have "map_of (map (\<lambda>(k, v). (k, denote v)) ?s) = map_of (map (\<lambda>(k, v). (k, denote v)) kvs)"
    by (simp only: map_of_inject_set)
  then show ?case by simp
qed (auto simp: list_all_iff)

lemma denote_cases:
  "denote j = VNull \<longleftrightarrow> j = JNull" "denote j = VBool b \<longleftrightarrow> j = JBool b" "denote j = VInt i \<longleftrightarrow> j = JInt i"
  "denote j = VFloat x \<longleftrightarrow> j = JFloat x" "denote j = VText s \<longleftrightarrow> j = JText s"
  "denote j = VArr vs \<longleftrightarrow> (\<exists>xs. j = JArr xs \<and> map denote xs = vs)"
  "denote j = VObj m \<longleftrightarrow> (\<exists>kvs. j = JObj kvs \<and> map_of (map (\<lambda>(k, v). (k, denote v)) kvs) = m)"
  by (cases j; auto)+

lemma denote_cases_sym:
  "VNull = denote j \<longleftrightarrow> j = JNull" "VBool b = denote j \<longleftrightarrow> j = JBool b" "VInt i = denote j \<longleftrightarrow> j = JInt i"
  "VFloat x = denote j \<longleftrightarrow> j = JFloat x" "VText s = denote j \<longleftrightarrow> j = JText s"
  "VArr vs = denote j \<longleftrightarrow> (\<exists>xs. j = JArr xs \<and> map denote xs = vs)"
  "VObj m = denote j \<longleftrightarrow> (\<exists>kvs. j = JObj kvs \<and> map_of (map (\<lambda>(k, v). (k, denote v)) kvs) = m)"
  using denote_cases by metis+

lemma sorted_items_eq:
  assumes "distinct (map fst xs)" "distinct (map fst ys)" "set xs = set (ys :: (string \<times> 'a) list)"
  shows "sort_key fst xs = sort_key fst ys"
proof (rule map_sorted_distinct_set_unique [of fst])
  show "inj_on fst (set (sort_key fst xs) \<union> set (sort_key fst ys))"
    using assms by (simp add: distinct_map)
  show "distinct (map fst (sort_key fst xs))" "distinct (map fst (sort_key fst ys))"
    using assms(1,2) by (metis distinct_map distinct_sort set_sort)+
qed (use assms(3) in simp_all)

lemma sort_unique: "wf_json a \<Longrightarrow> wf_json b \<Longrightarrow> denote a = denote b \<Longrightarrow> sort_json a = sort_json b"
proof (induction a arbitrary: b)
  case (JArr xs)
  then obtain ys where b: "b = JArr ys" "map denote ys = map denote xs" by (auto simp: denote_cases_sym)
  then have len: "length ys = length xs" by (metis length_map)
  have "sort_json (xs ! i) = sort_json (ys ! i)" if "i < length xs" for i
  proof -
    have "denote (xs ! i) = denote (ys ! i)" using b(2) len that by (metis nth_map)
    then show ?thesis using JArr.IH [of "xs ! i" "ys ! i"] JArr.prems(1,2) b(1) len that by (simp add: list_all_length)
  qed
  then show ?case using b(1) len by (simp add: list_eq_iff_nth_eq)
next
  case (JObj kvs)
  then obtain ys where b: "b = JObj ys"
    and m: "map_of (map (\<lambda>(k, v). (k, denote v)) ys) = map_of (map (\<lambda>(k, v). (k, denote v)) kvs)"
    by (auto simp: denote_cases_sym)
  have dist: "distinct (map fst kvs)" "distinct (map fst ys)" using JObj.prems b by simp_all
  then have same: "set (map (\<lambda>(k, v). (k, denote v)) ys) = set (map (\<lambda>(k, v). (k, denote v)) kvs)"
    using m by (subst (asm) map_of_inject_set) (simp_all only: fst_items)
  have sorted_eq: "sort_json v = sort_json w" if "(k, v) \<in> set kvs" "(k', w) \<in> set ys" "denote v = denote w" for k k' v w
    using JObj.IH [of "(k, v)" v w] JObj.prems b that by (auto simp: list_all_iff)
  have "set (map (\<lambda>(k, v). (k, sort_json v)) kvs) = set (map (\<lambda>(k, v). (k, sort_json v)) ys)"
  proof (intro set_eqI iffI)
    fix e assume "e \<in> set (map (\<lambda>(k, v). (k, sort_json v)) kvs)"
    then obtain k v where e: "e = (k, sort_json v)" and kv: "(k, v) \<in> set kvs" by auto
    from kv have "(k, denote v) \<in> set (map (\<lambda>(k, v). (k, denote v)) kvs)" by force
    then have "(k, denote v) \<in> set (map (\<lambda>(k, v). (k, denote v)) ys)" by (simp only: same)
    then obtain w where "(k, w) \<in> set ys" "denote v = denote w" by auto
    then show "e \<in> set (map (\<lambda>(k, v). (k, sort_json v)) ys)" using sorted_eq [OF kv] e by force
  next
    fix e assume "e \<in> set (map (\<lambda>(k, v). (k, sort_json v)) ys)"
    then obtain k v where e: "e = (k, sort_json v)" and kv: "(k, v) \<in> set ys" by auto
    from kv have "(k, denote v) \<in> set (map (\<lambda>(k, v). (k, denote v)) ys)" by force
    then have "(k, denote v) \<in> set (map (\<lambda>(k, v). (k, denote v)) kvs)" by (simp only: same)
    then obtain w where w: "(k, w) \<in> set kvs" "denote w = denote v" by auto
    then show "e \<in> set (map (\<lambda>(k, v). (k, sort_json v)) kvs)" using sorted_eq [OF w(1) kv w(2)] e by force
  qed
  then have "sort_key fst (map (\<lambda>(k, v). (k, sort_json v)) kvs) = sort_key fst (map (\<lambda>(k, v). (k, sort_json v)) ys)"
    by (intro sorted_items_eq) (simp_all only: fst_items dist)
  then show ?case using b by simp
qed (simp_all add: denote_cases_sym)

lemma dumps_eq_iff: "float_text R \<Longrightarrow> wf_json a \<Longrightarrow> wf_json b \<Longrightarrow> dumps R a = dumps R b \<longleftrightarrow> denote a = denote b"
  by (metis dumps_def render_inj denote_sort sort_unique)

subsection \<open>What a payload means\<close>

text \<open>
  The value a payload stands for, without its normal form: identifiers and timestamps stand for their texts, tuples and lists for
  sequences, and a dictionary maps every text to the value of the last entry whose key has this text.
\<close>

fun json_meaning :: "'f json \<Rightarrow> 'f jvalue" where
  "json_meaning (JArr xs) = VArr (map json_meaning xs)"
| "json_meaning (JObj kvs) = VObj (map_of (rev (map (\<lambda>(k, v). (k, json_meaning v)) kvs)))"
| "json_meaning j = denote j"

fun meaning :: "stdlib \<Rightarrow> 'f payload \<Rightarrow> 'f jvalue" where
  "meaning L PNull = VNull"
| "meaning L (PBool b) = VBool b"
| "meaning L (PInt i) = VInt i"
| "meaning L (PFloat x) = VFloat x"
| "meaning L (PText s) = VText s"
| "meaning L (PDatetime d) = VText (std_isoformat L d)"
| "meaning L (PUuid u) = VText (str_uuid u)"
| "meaning L (PList xs) = VArr (map (meaning L) xs)"
| "meaning L (PTuple xs) = VArr (map (meaning L) xs)"
| "meaning L (PDict kvs) = VObj (map_of (rev (map (\<lambda>(k, v). (str_key k, meaning L v)) kvs)))"
| "meaning L (PModel j) = json_meaning j"

lemma map_of_dict_set: "map_of (dict_set k v d) = (map_of d)(k \<mapsto> v)"
  by (induction k v d rule: dict_set.induct) (auto simp: fun_eq_iff)

lemma map_of_dict_of: "map_of (dict_of kvs) = map_of (rev kvs)"
proof -
  have "map_of (foldl (\<lambda>d (k, v). dict_set k v d) d kvs) = map_of d ++ map_of (rev kvs)" for d
    by (induction kvs arbitrary: d) (auto simp: map_of_dict_set fun_eq_iff map_add_def split: option.splits)
  from this [of "[]"] show ?thesis by (simp add: dict_of_def)
qed

lemma denote_dict: "denote (JObj (dict_of kvs)) = VObj (map_of (rev (map (\<lambda>(k, v). (k, denote v)) kvs)))"
  by (simp add: map_of_map map_of_dict_of rev_map)

lemma denote_normalize_json: "denote (normalize_json j) = json_meaning j"
proof (induction j rule: normalize_json.induct)
  case (2 kvs)
  then show ?case
    by (simp only: normalize_json.simps denote_dict map_map json_meaning.simps)
      (auto intro!: arg_cong [where f = map_of] arg_cong [where f = rev])
qed (simp_all cong: map_cong)

lemma denote_normalize_payload: "denote (normalize_payload L p) = meaning L p"
proof (induction L p rule: normalize_payload.induct)
  case (2 L kvs)
  then show ?case
    by (simp only: normalize_payload.simps denote_dict map_map meaning.simps)
      (auto intro!: arg_cong [where f = map_of] arg_cong [where f = rev])
qed (simp_all add: denote_normalize_json cong: map_cong)

text \<open>
  C34: The canonical text identifies what a request means: two payloads have the same text exactly when they stand for the same
  value. So neither the order of the keys at any depth nor a tuple against a list makes a difference, and neither does what the
  normalisation forgets: a key counts as its text and the last entry under a text decides, and an identifier or a timestamp counts as its
  text. Values that differ in anything else never have the same text.
\<close>

theorem canonical_text_exact:
  assumes "float_text R"
  shows "dumps R (normalize_payload L a) = dumps R (normalize_payload L b) \<longleftrightarrow> meaning L a = meaning L b"
  unfolding denote_normalize_payload [symmetric]
  by (rule dumps_eq_iff [OF assms wf_normalize_payload wf_normalize_payload])

lemma canonical_text_exact_witness:
  "dumps (\<lambda>b. if b then ''1.5'' else ''2.5'') (normalize_payload \<lparr>std_uuid5 = \<lambda>_ _. 0, std_isoformat = \<lambda>_. ''t'', std_repr_float = \<lambda>_. [], std_parse_float = \<lambda>_. None\<rparr>
     (PDict [(KText ''b'', PTuple [PFloat True]), (KInt 1, PDatetime (utc_at 0))])) =
   dumps (\<lambda>b. if b then ''1.5'' else ''2.5'') (normalize_payload \<lparr>std_uuid5 = \<lambda>_ _. 0, std_isoformat = \<lambda>_. ''t'', std_repr_float = \<lambda>_. [], std_parse_float = \<lambda>_. None\<rparr>
     (PDict [(KText ''1'', PText ''t''), (KText ''b'', PList [PFloat True])]))"
proof -
  let ?L = "\<lparr>std_uuid5 = \<lambda>_ _. 0, std_isoformat = \<lambda>_. ''t'', std_repr_float = \<lambda>_. [], std_parse_float = \<lambda>_. None\<rparr>"
  let ?R = "\<lambda>b. if b then ''1.5'' else ''2.5''"
  have dot: "CHR ''.'' \<notin> set (str_int i)" for i
    using str_nat_digits [of "CHR ''.''" "nat i"] str_nat_digits [of "CHR ''.''" "nat (- i)"] by (auto simp: str_int_def)
  have "(of_char (CHR ''1'') :: nat) = 49" by simp
  then have one: "(char_of (49 :: nat) :: char) = CHR ''1''" by (metis char_of_char)
  have "''1.5'' \<noteq> str_int i \<and> ''2.5'' \<noteq> str_int i" for i
    using dot [of i] by (metis list.set_intros)
  then have "float_text ?R" by (auto simp: float_text_def atom_text_def inj_def)
  moreover have "meaning ?L (PDict [(KText ''b'', PTuple [PFloat True]), (KInt 1, PDatetime (utc_at 0))]) =
      meaning ?L (PDict [(KText ''1'', PText ''t''), (KText ''b'', PList [PFloat True])])"
    using one by (simp add: str_int_def str_nat.simps fun_upd_twist)
  ultimately show ?thesis by (simp only: canonical_text_exact)
qed

end
