(* ===== verification/Evidence_Package.thy ===== *)
theory Evidence_Package
  imports Evidence_Resolution Evidence_State Canonical_Json
begin

text \<open>
  Extraction results (\<open>domain/evidence/extraction.py\<close>) and the auditable package that connects an event with its stored
  evidence (\<open>domain/evidence/package.py\<close>). The models are values of records and compose the reference of
  \<open>Rules_Contracts\<close> and the resolved source of \<open>Evidence_Resolution\<close>; a refusal of \<open>finalize\<close> carries the label of the
  first field the models disagree about. Comparisons of timestamps compare instants.
\<close>

subsection \<open>Extraction results\<close>

datatype extraction_status = EX_SUCCESS | EX_PARTIAL | EX_SOURCE_NOT_FOUND | EX_CORRUPT_SOURCE | EX_FAILED | EX_CANCELLED

fun extraction_status_value :: "extraction_status \<Rightarrow> string" where
  "extraction_status_value EX_SUCCESS = ''success''"
| "extraction_status_value EX_PARTIAL = ''partial''"
| "extraction_status_value EX_SOURCE_NOT_FOUND = ''source_not_found''"
| "extraction_status_value EX_CORRUPT_SOURCE = ''corrupt_source''"
| "extraction_status_value EX_FAILED = ''extraction_failed''"
| "extraction_status_value EX_CANCELLED = ''cancelled''"

record extracted_evidence =
  xe_extraction_id :: uuid
  xe_status :: extraction_status
  xe_evidence_ref_id :: uuid
  xe_event_id :: "uuid option"
  xe_tenant_id :: "uuid option"
  xe_venue_id :: "uuid option"
  xe_session_id :: "uuid option"
  xe_camera_id :: "uuid option"
  xe_configuration_version_id :: "uuid option"
  xe_rule_id :: "string option"
  xe_rule_version :: "string option"
  xe_requested_start :: datetime
  xe_requested_end :: datetime
  xe_actual_start_time :: "datetime option"
  xe_actual_end_time :: "datetime option"
  xe_start_frame :: "int option"
  xe_end_frame :: "int option"
  xe_media_path :: "string option"
  xe_media_format :: "string option"
  xe_duration_seconds :: "real option"
  xe_size_bytes :: "int option"
  xe_metadata :: metadata
  xe_reason :: "string option"

definition extracted_evidence_valid :: "extracted_evidence \<Rightarrow> bool" where
  "extracted_evidence_valid x =
     (aware (xe_requested_start x) \<and> aware (xe_requested_end x) \<and> validate_utc_opt (xe_actual_start_time x) \<and>
      validate_utc_opt (xe_actual_end_time x) \<and> (case xe_start_frame x of None \<Rightarrow> True | Some n \<Rightarrow> 0 \<le> n) \<and>
      (case xe_end_frame x of None \<Rightarrow> True | Some n \<Rightarrow> 0 \<le> n) \<and> (case xe_duration_seconds x of None \<Rightarrow> True | Some d \<Rightarrow> 0 \<le> d) \<and>
      (case xe_size_bytes x of None \<Rightarrow> True | Some n \<Rightarrow> 0 \<le> n))"

definition deterministic_extraction_id :: "stdlib \<Rightarrow> resolved_source \<Rightarrow> uuid" where
  "deterministic_extraction_id L segment =
     std_uuid5 L TEMPORAL_ID_NAMESPACE (join_str ''|'' [''evidence_extraction'', str_uuid (rs_evidence_ref_id segment),
       (case rs_segments segment of [] \<Rightarrow> [] | s # _ \<Rightarrow> str_uuid (ss_asset_id s)),
       std_isoformat L (rs_requested_start segment), std_isoformat L (rs_requested_end segment)])"

subsection \<open>The package\<close>

record evidence_package =
  ep_package_id :: uuid
  ep_schema_version :: string
  ep_evidence_ref :: evidence_ref
  ep_resolved_source :: resolved_source
  ep_extraction :: extracted_evidence
  ep_created_at :: "datetime option"

text \<open>The values Python takes for false: \<open>None\<close>, \<open>False\<close>, the empty text, zero and the empty containers.\<close>

definition meta_truthy :: "meta_value \<Rightarrow> bool" where
  "meta_truthy v = (v \<notin> {MetaNull, MetaBool False, MetaString [], MetaOther ''0'', MetaOther ''0.0'', MetaOther ''[]'', MetaOther ''{}''})"

definition text_or :: "string option \<Rightarrow> string option \<Rightarrow> string option" where
  "text_or a b = (case a of Some s \<Rightarrow> if s \<noteq> [] then a else b | None \<Rightarrow> b)"

definition package_checksum :: "evidence_package \<Rightarrow> meta_value option" where
  "package_checksum p =
     (case xe_metadata (ep_extraction p) ''checksum_sha256'' of
        Some v \<Rightarrow> if meta_truthy v then Some v else map_option MetaString (ev_checksum (ep_evidence_ref p))
      | None \<Rightarrow> map_option MetaString (ev_checksum (ep_evidence_ref p)))"

definition storage_reference :: "evidence_package \<Rightarrow> string option" where
  "storage_reference p = text_or (xe_media_path (ep_extraction p)) (Some (ev_ref_uri (ep_evidence_ref p)))"

subsection \<open>The audit trail\<close>

record provenance_hop =
  ph_position :: nat
  ph_link :: string
  ph_value :: "meta_value option"

definition id_or :: "uuid option \<Rightarrow> meta_value option" where
  "id_or i = map_option (\<lambda>u. MetaString (str_uuid u)) i"

definition interval_text :: "stdlib \<Rightarrow> datetime \<Rightarrow> datetime \<Rightarrow> string" where
  "interval_text L s e = ''['' @ std_isoformat L s @ '','' @ std_isoformat L e @ '']''"

definition optional_text :: "int option \<Rightarrow> string" where
  "optional_text n = (case n of None \<Rightarrow> ''None'' | Some i \<Rightarrow> str_int i)"

definition frame_range :: "int option \<Rightarrow> int option \<Rightarrow> string option" where
  "frame_range s e = (if s = None \<and> e = None then None else Some (''['' @ optional_text s @ '','' @ optional_text e @ '']''))"

definition rule_text :: "string option \<Rightarrow> string option \<Rightarrow> string option" where
  "rule_text rule version = (case rule of None \<Rightarrow> None
     | Some r \<Rightarrow> Some (case version of None \<Rightarrow> r | Some v \<Rightarrow> r @ '':'' @ v))"

definition provenance_links :: "stdlib \<Rightarrow> evidence_package \<Rightarrow> (string \<times> meta_value option) list" where
  "provenance_links L p =
     (let ref = ep_evidence_ref p; x = ep_extraction p in
      [(''event -> evidence'', id_or (Some (ev_event_id ref))),
       (''evidence -> source'', id_or (ev_video_asset_id ref)),
       (''source -> session'', id_or (ev_video_session_id ref)),
       (''session -> camera'', id_or (ev_camera_id ref)),
       (''camera -> requested_time'', Some (MetaString (interval_text L (xe_requested_start x) (xe_requested_end x)))),
       (''camera -> frame_range'', map_option MetaString (frame_range (ev_start_frame ref) (ev_end_frame ref))),
       (''time -> detector_version'', map_option MetaString (ev_detector_version ref)),
       (''time -> tracker_version'', map_option MetaString (ev_tracker_version ref)),
       (''processing -> configuration'', id_or (ev_configuration_version_id ref)),
       (''configuration -> rule'', map_option MetaString (rule_text (ev_rule_id ref) (ev_rule_version ref))),
       (''rule -> checksum'', package_checksum p),
       (''checksum -> stored_evidence'', map_option MetaString (storage_reference p))])"

definition provenance_chain :: "stdlib \<Rightarrow> evidence_package \<Rightarrow> provenance_hop list" where
  "provenance_chain L p = map (\<lambda>(i, link, v). \<lparr>ph_position = i, ph_link = link, ph_value = v\<rparr>)
     (enumerate 1 (provenance_links L p))"

definition chain_value :: "stdlib \<Rightarrow> evidence_package \<Rightarrow> string \<Rightarrow> meta_value option" where
  "chain_value L p link = (case find (\<lambda>h. ph_link h = link) (provenance_chain L p) of None \<Rightarrow> None | Some h \<Rightarrow> ph_value h)"

subsection \<open>Finalisation\<close>

datatype package_error = Inconsistent string | NoStorageReference | NoIntegrityChecksum | NaiveCreatedAt

definition require_equal :: "('a \<Rightarrow> 'a \<Rightarrow> bool) \<Rightarrow> string \<Rightarrow> 'a list \<Rightarrow> package_error + unit" where
  "require_equal eq label values = ensure (list_all (eq (hd values)) (tl values)) (Inconsistent label)"

definition require_equal_optional :: "string \<Rightarrow> 'a option list \<Rightarrow> package_error + unit" where
  "require_equal_optional label values =
     (case List.map_filter (\<lambda>v. v) values of
        [] \<Rightarrow> Inr ()
      | expected # present \<Rightarrow> ensure (list_all (\<lambda>v. v = expected) present) (Inconsistent label))"

definition checksum_of :: "extracted_evidence \<Rightarrow> string option" where
  "checksum_of x = (case xe_metadata x ''checksum_sha256'' of Some (MetaString s) \<Rightarrow> Some s | _ \<Rightarrow> None)"

definition package_identity :: "stdlib \<Rightarrow> evidence_ref \<Rightarrow> extracted_evidence \<Rightarrow> uuid" where
  "package_identity L ref x =
     std_uuid5 L TEMPORAL_ID_NAMESPACE (join_str ''|'' [''evidence_package'', str_uuid (ev_ref_id ref),
       str_uuid (xe_extraction_id x), extraction_status_value (xe_status x)])"

definition completed_ok :: "extracted_evidence \<Rightarrow> package_error + unit" where
  "completed_ok x =
     (if xe_status x = EX_SUCCESS \<or> xe_status x = EX_PARTIAL then
        (if text_or (xe_media_path x) None = None then Inl NoStorageReference
         else if text_or (checksum_of x) None = None then Inl NoIntegrityChecksum
         else Inr ())
      else Inr ())"

definition finalize_package :: "stdlib \<Rightarrow> evidence_ref \<Rightarrow> resolved_source \<Rightarrow> extracted_evidence \<Rightarrow> datetime option \<Rightarrow>
    package_error + evidence_package" where
  "finalize_package L ref src x created_at =
     rbind (require_equal (=) ''evidence ref id'' [ev_ref_id ref, rs_evidence_ref_id src, xe_evidence_ref_id x]) (\<lambda>_.
     rbind (require_equal (=) ''event id'' [Some (ev_event_id ref), Some (rs_event_id src), xe_event_id x]) (\<lambda>_.
     rbind (require_equal_optional ''tenant id'' [ev_tenant_id ref, rs_tenant_id src, xe_tenant_id x]) (\<lambda>_.
     rbind (require_equal_optional ''venue id'' [ev_venue_id ref, rs_venue_id src, xe_venue_id x]) (\<lambda>_.
     rbind (require_equal_optional ''session id'' [ev_video_session_id ref, rs_video_session_id src, xe_session_id x]) (\<lambda>_.
     rbind (require_equal_optional ''camera id'' [ev_camera_id ref, rs_camera_id src, xe_camera_id x]) (\<lambda>_.
     rbind (require_equal_optional ''configuration version id''
       [ev_configuration_version_id ref, rs_configuration_version_id src, xe_configuration_version_id x]) (\<lambda>_.
     rbind (require_equal_optional ''rule id'' [ev_rule_id ref, rs_rule_id src, xe_rule_id x]) (\<lambda>_.
     rbind (require_equal_optional ''rule version'' [ev_rule_version ref, rs_rule_version src, xe_rule_version x]) (\<lambda>_.
     rbind (require_equal dt_eq ''requested start'' [requested_start ref, rs_requested_start src, xe_requested_start x]) (\<lambda>_.
     rbind (require_equal dt_eq ''requested end'' [requested_end ref, rs_requested_end src, xe_requested_end x]) (\<lambda>_.
     rbind (completed_ok x) (\<lambda>_.
     rbind (ensure (validate_utc_opt created_at) NaiveCreatedAt) (\<lambda>_.
       Inr \<lparr>ep_package_id = package_identity L ref x, ep_schema_version = SCHEMA_VERSION, ep_evidence_ref = ref,
            ep_resolved_source = src, ep_extraction = x, ep_created_at = created_at\<rparr>)))))))))))))"

end
