(* ===== verification/Evidence_Work.thy ===== *)
theory Evidence_Work
  imports Evidence_Package Lease_Queue
begin

text \<open>
  The evidence worker (\<open>workers/evidence.py\<close>) with its durable work store
  (\<open>infrastructure/database/repositories/evidence_work.py\<close>). The keys the two keep on the metadata of a reference are the
  fields of a record; texts of reasons are constructors; a checkpoint is read back as the values that were stored. The
  candidates, the extractor, the random draw and the stop event are arguments. So are two answers of the database layer,
  fields of the environment of a worker: whether it builds an update that names the column \<open>metadata\<close>, and whether a
  session takes the statement that links a package. Documented is that it does neither: the attribute of the model class
  is \<open>metadata_\<close> (\<open>models/evidence.py\<close>), the name \<open>metadata\<close> of a declarative class is its table registry, of which an
  update cannot be made, and \<open>session.add\<close> takes mapped instances only. Both calls raise then. A session is one
  transaction: an exception leaves the store as it was. Changes of a row that was loaded in a session are flushed before
  the next statement of this session is executed, which is the default of the session factory. Telemetry and metrics are
  left out.
\<close>

subsection \<open>Rows\<close>

datatype lease_text = LeaseCleared | LeaseUntil datetime

datatype work_reason =
    AbandonedRequest | CrashedClaimRecovered | RequestMissing | CandidateLookupFailed | SourceUnauthorized
  | SourceNotFound | ExtractionRaised | SourceGone | SourceCorrupt | ExtractionFailedReason | IntegrityFailed
  | BudgetExhausted work_reason | PackageRefused package_error | CheckpointMissing | CheckpointUnreadable
  | CheckpointIntegrityFailed

datatype checkpoint = CheckpointInvalid | Checkpoint resolved_source extracted_evidence

record work_meta =
  wm_state :: "string option"
  wm_claimed_by :: "string option"
  wm_lease_until :: "lease_text option"
  wm_attempts :: "int option"
  wm_retry_at :: "datetime option"
  wm_last_error :: "work_reason option"
  wm_recovery :: "checkpoint option"
  wm_request :: "evidence_ref option"
  wm_artifact_key :: "string option"
  wm_extraction_id :: "uuid option"
  wm_package_id :: "uuid option"

record work_row =
  wr_ref_id :: uuid
  wr_tenant_id :: uuid
  wr_venue_id :: uuid
  wr_created_at :: datetime
  wr_meta :: work_meta

abbreviation wr_state :: "work_row \<Rightarrow> string option" where
  "wr_state r \<equiv> wm_state (wr_meta r)"

definition with_meta :: "(work_meta \<Rightarrow> work_meta) \<Rightarrow> work_row \<Rightarrow> work_row" where
  "with_meta f r = r\<lparr>wr_meta := f (wr_meta r)\<rparr>"

definition set_state :: "string \<Rightarrow> work_row \<Rightarrow> work_row" where
  "set_state s = with_meta (\<lambda>m. m\<lparr>wm_state := Some s\<rparr>)"

definition attempts_of :: "work_row \<Rightarrow> int" where
  "attempts_of r = (case wm_attempts (wr_meta r) of None \<Rightarrow> 0 | Some n \<Rightarrow> n)"

record package_row =
  pr_package_id :: uuid
  pr_tenant_id :: uuid
  pr_venue_id :: uuid
  pr_created_at :: datetime

datatype work_audit = EVENT_EXPIRED | EVENT_RECOVERED | EVENT_UPLOADED | EVENT_FINALIZED | EVENT_RETRYABLE_FAILURE | EVENT_TERMINAL_FAILURE

record work_store =
  wk_rows :: "work_row list"
  wk_packages :: "package_row list"
  wk_links :: "(uuid \<times> uuid \<times> uuid) list"
  wk_audit :: "(uuid \<times> work_audit) list"

definition audited :: "work_row \<Rightarrow> work_audit \<Rightarrow> work_store \<Rightarrow> work_store" where
  "audited r event db = db\<lparr>wk_audit := wk_audit db @ [(wr_ref_id r, event)]\<rparr>"

subsection \<open>The work store: enqueue, expiry, promotion, claims\<close>

text \<open>\<open>SELECT \<dots> ORDER BY created_at LIMIT \<dots> FOR UPDATE SKIP LOCKED\<close>, and the change of the selected rows.\<close>

definition work_selection :: "(work_row \<Rightarrow> bool) \<Rightarrow> uuid set \<Rightarrow> nat \<Rightarrow> work_store \<Rightarrow> work_row list" where
  "work_selection P locked limit db =
     take limit (sort_key (\<lambda>r. dt_instant (wr_created_at r)) (filter (\<lambda>r. P r \<and> wr_ref_id r \<notin> locked) (wk_rows db)))"

definition change_rows :: "(work_row \<Rightarrow> bool) \<Rightarrow> (work_row \<Rightarrow> work_row) \<Rightarrow> uuid set \<Rightarrow> nat \<Rightarrow> work_store \<Rightarrow> work_row list \<times> work_store" where
  "change_rows P f locked limit db =
     (let chosen = work_selection P locked limit db
      in (map f chosen, db\<lparr>wk_rows := map (\<lambda>r. if wr_ref_id r \<in> set (map wr_ref_id chosen) then f r else r) (wk_rows db)\<rparr>))"

definition pending :: "work_row \<Rightarrow> bool" where
  "pending r = (wr_state r = None \<or> wr_state r = Some ''requested'')"

definition queue_pending :: "uuid set \<Rightarrow> nat \<Rightarrow> work_store \<Rightarrow> work_row list \<times> work_store" where
  "queue_pending = change_rows pending (set_state ''queued'')"

definition retry_due :: "datetime \<Rightarrow> work_row \<Rightarrow> bool" where
  "retry_due now r = (wr_state r = Some ''retryable_failure'' \<and>
     (case wm_retry_at (wr_meta r) of None \<Rightarrow> True | Some t \<Rightarrow> \<not> dt_less now t))"

definition promote_due_retries :: "datetime \<Rightarrow> uuid set \<Rightarrow> nat \<Rightarrow> work_store \<Rightarrow> work_row list \<times> work_store" where
  "promote_due_retries now =
     change_rows (retry_due now) (\<lambda>r. with_meta (\<lambda>m. m\<lparr>wm_retry_at := None\<rparr>) (set_state ''queued'' r))"

definition abandoned :: "datetime \<Rightarrow> work_row \<Rightarrow> bool" where
  "abandoned cutoff r = (wr_state r \<in> {Some ''requested'', Some ''queued''} \<and> \<not> dt_less cutoff (wr_created_at r))"

definition expire_abandoned :: "datetime \<Rightarrow> work_reason \<Rightarrow> uuid set \<Rightarrow> nat \<Rightarrow> work_store \<Rightarrow> work_row list \<times> work_store" where
  "expire_abandoned cutoff reason =
     change_rows (abandoned cutoff) (\<lambda>r. with_meta (\<lambda>m. m\<lparr>wm_last_error := Some reason\<rparr>) (set_state ''expired'' r))"

definition lease_passed :: "datetime \<Rightarrow> lease_text \<Rightarrow> bool" where
  "lease_passed now l = (case l of LeaseCleared \<Rightarrow> True | LeaseUntil t \<Rightarrow> \<not> dt_less now t)"

definition claimable :: "datetime \<Rightarrow> work_row \<Rightarrow> bool" where
  "claimable now r = (wr_state r = Some ''queued'' \<and>
     (case wm_lease_until (wr_meta r) of None \<Rightarrow> True | Some l \<Rightarrow> lease_passed now l))"

definition hold :: "string \<Rightarrow> datetime \<Rightarrow> work_row \<Rightarrow> work_row" where
  "hold worker until = with_meta (\<lambda>m. m\<lparr>wm_claimed_by := Some worker, wm_lease_until := Some (LeaseUntil until)\<rparr>)"

definition claimed :: "string \<Rightarrow> datetime \<Rightarrow> work_row \<Rightarrow> work_row" where
  "claimed worker until r =
     with_meta (\<lambda>m. m\<lparr>wm_attempts := Some (attempts_of r + 1)\<rparr>) (hold worker until (set_state ''extracting'' r))"

definition claim_queued :: "string \<Rightarrow> int \<Rightarrow> datetime \<Rightarrow> uuid set \<Rightarrow> nat \<Rightarrow> work_store \<Rightarrow> work_row list \<times> work_store" where
  "claim_queued worker lease_seconds now =
     change_rows (claimable now) (claimed worker (after now (lease_seconds * 1000000)))"

subsection \<open>The work store: recovery and guarded transitions\<close>

definition stale :: "datetime \<Rightarrow> work_row \<Rightarrow> bool" where
  "stale now r = (wr_state r \<in> {Some ''extracting'', Some ''uploading''} \<and>
     (case wm_lease_until (wr_meta r) of None \<Rightarrow> False | Some l \<Rightarrow> lease_passed now l))"

definition list_stale :: "datetime \<Rightarrow> nat \<Rightarrow> work_store \<Rightarrow> work_row list" where
  "list_stale now limit db = take limit (sort_key (\<lambda>r. dt_instant (wr_created_at r)) (filter (stale now) (wk_rows db)))"

definition lock_stale :: "uuid \<Rightarrow> string \<Rightarrow> int \<Rightarrow> datetime \<Rightarrow> work_store \<Rightarrow> work_row option" where
  "lock_stale i worker lease_seconds now db =
     map_option (hold worker (after now (lease_seconds * 1000000))) (find (\<lambda>r. wr_ref_id r = i \<and> stale now r) (wk_rows db))"

text \<open>The pending changes of a row that belongs to the session are written before a statement runs.\<close>

definition flush :: "work_row \<Rightarrow> work_row list \<Rightarrow> work_row list" where
  "flush r rows = map (\<lambda>x. if wr_ref_id x = wr_ref_id r then x\<lparr>wr_meta := wr_meta r\<rparr> else x) rows"

definition guard :: "work_row \<Rightarrow> string \<Rightarrow> string \<Rightarrow> work_row \<Rightarrow> bool" where
  "guard r from_state worker x =
     (wr_ref_id x = wr_ref_id r \<and> wr_state x = Some from_state \<and> wm_claimed_by (wr_meta x) = Some worker)"

datatype work_error = MachineRefused evidence_error | BackoffRefused backoff_error | UpdateRefused | LinkRefused | PackageExists

text \<open>
  The first argument tells whether the database layer builds an update with \<open>values(metadata=\<dots>)\<close>: otherwise the call
  raises before anything is flushed or executed. The second tells whether the row was loaded in this session.
\<close>

definition persist_transition :: "bool \<Rightarrow> bool \<Rightarrow> work_row \<Rightarrow> string \<Rightarrow> string \<Rightarrow> string \<Rightarrow> (work_meta \<Rightarrow> work_meta) \<Rightarrow> work_store \<Rightarrow>
    work_error + bool \<times> work_row \<times> work_store" where
  "persist_transition built attached r from_state to_state worker updates db =
     (if \<not> built then Inl UpdateRefused
      else let rows = if attached then flush r (wk_rows db) else wk_rows db;
               new = set_state to_state (with_meta updates r)
        in if list_ex (guard r from_state worker) rows
           then Inr (True, new, db\<lparr>wk_rows := map (\<lambda>x. if guard r from_state worker x then x\<lparr>wr_meta := wr_meta new\<rparr> else x) rows\<rparr>)
           else Inr (False, r, db\<lparr>wk_rows := rows\<rparr>))"

definition save_finalized :: "bool \<Rightarrow> bool \<Rightarrow> bool \<Rightarrow> work_row \<Rightarrow> string \<Rightarrow> package_row \<Rightarrow> uuid \<times> uuid \<times> uuid \<Rightarrow> (work_meta \<Rightarrow> work_meta) \<Rightarrow>
    work_store \<Rightarrow> work_error + bool \<times> work_row \<times> work_store" where
  "save_finalized built link_accepted attached r worker package link updates db =
     (case persist_transition built attached r ''uploading'' ''finalized'' worker updates db of
        Inl e \<Rightarrow> Inl e
      | Inr (False, r', db') \<Rightarrow> Inr (False, r', db')
      | Inr (True, r', db') \<Rightarrow>
          if \<not> link_accepted then Inl LinkRefused
          else if pr_package_id package \<in> pr_package_id ` set (wk_packages db') then Inl PackageExists
          else Inr (True, r', db'\<lparr>wk_packages := wk_packages db' @ [package], wk_links := wk_links db' @ [link]\<rparr>))"

subsection \<open>The worker: failures and finalisation\<close>

datatype work_point = AfterQueue | AfterExpire | BeforeRecover nat | AfterRecover | AfterPromote | BeforeProcess nat

record work_env =
  we_worker_id :: string
  we_batch_size :: nat
  we_lease_seconds :: int
  we_max_attempts :: int
  we_backoff_base :: real
  we_backoff_max :: real
  we_backoff_jitter :: real
  we_timeout_seconds :: int
  we_draw :: "work_row \<Rightarrow> real"
  we_candidates :: "evidence_ref \<Rightarrow> source_recording list option"
  we_extract :: "evidence_ref \<Rightarrow> resolved_source \<Rightarrow> extracted_evidence option"
  we_update_built :: bool
  we_link_accepted :: bool
  we_locked :: "uuid set"
  we_stdlib :: stdlib
  we_stopped :: "work_point \<Rightarrow> bool"

type_synonym session_result = "work_error + bool \<times> work_store"

text \<open>The state service on the row.\<close>

definition state_metadata :: "work_row \<Rightarrow> metadata" where
  "state_metadata r = (case wr_state r of None \<Rightarrow> Map.empty | Some s \<Rightarrow> [''processing_state'' \<mapsto> MetaString s])"

definition apply_event :: "work_row \<Rightarrow> evidence_event \<Rightarrow> processing_state \<Rightarrow> evidence_error + work_row \<times> bool" where
  "apply_event r event expected =
     rbind (evidence_apply (state_metadata r) event (Some expected) None) (\<lambda>(m, result).
       Inr (with_meta (\<lambda>w. w\<lparr>wm_state := map_option meta_str (m ''processing_state'')\<rparr>) r, er_applied result))"

definition mark_terminal :: "work_env \<Rightarrow> bool \<Rightarrow> work_row \<Rightarrow> work_reason \<Rightarrow> work_store \<Rightarrow> session_result" where
  "mark_terminal E attached r reason db =
     (case current_state (state_metadata r) of
        Inl e \<Rightarrow> Inl (MachineRefused e)
      | Inr state \<Rightarrow>
          (case apply_event r TERMINAL_FAILURE_EVENT state of
             Inl e \<Rightarrow> if e = EvidenceStateMismatch then Inr (False, db) else Inl (MachineRefused e)
           | Inr (r1, applied) \<Rightarrow>
               if \<not> applied then Inr (False, db)
               else (case persist_transition (we_update_built E) attached r1 (processing_value state) ''terminal_failure'' (we_worker_id E)
                       (\<lambda>m. m\<lparr>wm_last_error := Some reason\<rparr>) db of
                   Inl e \<Rightarrow> Inl e
                 | Inr (True, r2, db') \<Rightarrow> Inr (True, audited r2 EVENT_TERMINAL_FAILURE db')
                 | Inr (False, r2, db') \<Rightarrow> Inr (False, db'))))"

definition mark_retryable :: "work_env \<Rightarrow> work_row \<Rightarrow> datetime \<Rightarrow> work_reason \<Rightarrow> work_store \<Rightarrow> session_result" where
  "mark_retryable E r now reason db =
     (if we_max_attempts E \<le> attempts_of r then mark_terminal E False r (BudgetExhausted reason) db
      else case apply_event r RETRYABLE_FAILURE_EVENT EXTRACTING of
          Inl e \<Rightarrow> if e = EvidenceStateMismatch then Inr (False, db) else Inl (MachineRefused e)
        | Inr (r1, applied) \<Rightarrow>
            if \<not> applied then Inr (False, db)
            else (case compute_backoff_delay (attempts_of r) (we_backoff_base E) (we_backoff_max E) (we_backoff_jitter E) (we_draw E r) of
                Inl e \<Rightarrow> Inl (BackoffRefused e)
              | Inr delay \<Rightarrow>
                  (case persist_transition (we_update_built E) False r1 ''extracting'' ''retryable_failure'' (we_worker_id E)
                      (\<lambda>m. m\<lparr>wm_retry_at := Some (after now delay), wm_last_error := Some reason\<rparr>) db of
                     Inl e \<Rightarrow> Inl e
                   | Inr (True, r2, db') \<Rightarrow> Inr (True, audited r2 EVENT_RETRYABLE_FAILURE db')
                   | Inr (False, r2, db') \<Rightarrow> Inr (False, db'))))"

definition sha256_hex :: "string \<Rightarrow> bool" where
  "sha256_hex s = (length s = 64 \<and> list_all is_hex s)"

definition integrity_ok :: "extracted_evidence \<Rightarrow> bool" where
  "integrity_ok x = (text_or (xe_media_path x) None \<noteq> None \<and>
     (case checksum_of x of None \<Rightarrow> False | Some s \<Rightarrow> sha256_hex s))"

definition package_row_of :: "work_row \<Rightarrow> evidence_ref \<Rightarrow> evidence_package \<Rightarrow> datetime \<Rightarrow> package_row" where
  "package_row_of r evidence p now =
     \<lparr>pr_package_id = ep_package_id p,
      pr_tenant_id = (case ev_tenant_id evidence of Some t \<Rightarrow> t | None \<Rightarrow> wr_tenant_id r),
      pr_venue_id = (case ev_venue_id evidence of Some v \<Rightarrow> v | None \<Rightarrow> wr_venue_id r),
      pr_created_at = now\<rparr>"

definition finalize_session :: "work_env \<Rightarrow> bool \<Rightarrow> work_row \<Rightarrow> evidence_ref \<Rightarrow> resolved_source \<Rightarrow> extracted_evidence \<Rightarrow> datetime \<Rightarrow>
    work_store \<Rightarrow> session_result" where
  "finalize_session E attached r evidence segment x now db =
     (case finalize_package (we_stdlib E) evidence segment x None of
        Inl e \<Rightarrow> mark_terminal E attached r (PackageRefused e) db
      | Inr p \<Rightarrow>
          rbind (save_finalized (we_update_built E) (we_link_accepted E) attached r (we_worker_id E) (package_row_of r evidence p now)
              (ep_package_id p, wr_ref_id r, wr_tenant_id r) (\<lambda>m. m\<lparr>wm_package_id := Some (ep_package_id p)\<rparr>) db) (\<lambda>(ok, r', db').
            Inr (ok, if ok then audited r' EVENT_FINALIZED db' else db')))"

definition finalize_from_checkpoint :: "work_env \<Rightarrow> work_row \<Rightarrow> datetime \<Rightarrow> work_store \<Rightarrow> session_result" where
  "finalize_from_checkpoint E r now db =
     (case wm_recovery (wr_meta r) of
        None \<Rightarrow> mark_terminal E True r CheckpointMissing db
      | Some c \<Rightarrow>
          (case wm_request (wr_meta r) of
             None \<Rightarrow> mark_terminal E True r RequestMissing db
           | Some evidence \<Rightarrow>
               (case c of
                  CheckpointInvalid \<Rightarrow> mark_terminal E True r CheckpointUnreadable db
                | Checkpoint segment x \<Rightarrow>
                    if \<not> integrity_ok x then mark_terminal E True r CheckpointIntegrityFailed db
                    else finalize_session E True r evidence segment x now db)))"

text \<open>The end of a session writes what is pending, here the claim of the locked row.\<close>

definition recover_stale :: "work_env \<Rightarrow> uuid \<Rightarrow> datetime \<Rightarrow> work_store \<Rightarrow> session_result" where
  "recover_stale E i now db =
     (case lock_stale i (we_worker_id E) (we_lease_seconds E) now db of
        None \<Rightarrow> Inr (False, db)
      | Some locked \<Rightarrow>
          if wr_state locked = Some ''uploading'' then finalize_from_checkpoint E locked now db
          else case apply_event locked RETRYABLE_FAILURE_EVENT EXTRACTING of
              Inl e \<Rightarrow> Inl (MachineRefused e)
            | Inr (r1, applied) \<Rightarrow>
                if \<not> applied then Inr (False, db\<lparr>wk_rows := flush r1 (wk_rows db)\<rparr>)
                else (case persist_transition (we_update_built E) True r1 ''extracting'' ''retryable_failure'' (we_worker_id E)
                    (\<lambda>m. m\<lparr>wm_retry_at := Some now, wm_lease_until := Some LeaseCleared, wm_last_error := Some CrashedClaimRecovered\<rparr>) db of
                   Inl e \<Rightarrow> Inl e
                 | Inr (True, r2, db') \<Rightarrow> Inr (True, audited r2 EVENT_RECOVERED db')
                 | Inr (False, r2, db') \<Rightarrow> Inr (False, db')))"

subsection \<open>The worker: processing a claim\<close>

definition upload_checkpoint :: "work_env \<Rightarrow> work_row \<Rightarrow> resolved_source \<Rightarrow> extracted_evidence \<Rightarrow> work_store \<Rightarrow>
    work_error + bool \<times> work_row \<times> work_store" where
  "upload_checkpoint E r segment x db =
     (case apply_event r EXTRACTION_COMPLETE EXTRACTING of
        Inl e \<Rightarrow> Inl (MachineRefused e)
      | Inr (r1, applied) \<Rightarrow>
          if \<not> applied then Inr (False, r1, db)
          else (case persist_transition (we_update_built E) False r1 ''extracting'' ''uploading'' (we_worker_id E)
              (\<lambda>m. m\<lparr>wm_recovery := Some (Checkpoint segment x), wm_artifact_key := xe_media_path x,
                     wm_extraction_id := Some (xe_extraction_id x)\<rparr>) db of
             Inl e \<Rightarrow> Inl e
           | Inr (True, r2, db') \<Rightarrow> Inr (True, r2, audited r2 EVENT_UPLOADED db')
           | Inr (False, r2, db') \<Rightarrow> Inr (False, r2, db')))"

text \<open>An exception ends the processing of the reference with the store as the last session left it.\<close>

definition in_session :: "session_result \<Rightarrow> work_store \<Rightarrow> (work_error + bool) \<times> work_store" where
  "in_session result db = (case result of Inl e \<Rightarrow> (Inl e, db) | Inr (b, db') \<Rightarrow> (Inr b, db'))"

definition process_extracted :: "work_env \<Rightarrow> work_row \<Rightarrow> evidence_ref \<Rightarrow> resolved_source \<Rightarrow> extracted_evidence \<Rightarrow> datetime \<Rightarrow> work_store \<Rightarrow>
    (work_error + bool) \<times> work_store" where
  "process_extracted E r evidence segment x now db =
     (if xe_status x = EX_CANCELLED then (Inr False, db)
      else if xe_status x = EX_SOURCE_NOT_FOUND then in_session (mark_terminal E False r SourceGone db) db
      else if xe_status x = EX_CORRUPT_SOURCE then in_session (mark_terminal E False r SourceCorrupt db) db
      else if xe_status x = EX_FAILED then in_session (mark_retryable E r now ExtractionFailedReason db) db
      else if \<not> integrity_ok x then in_session (mark_retryable E r now IntegrityFailed db) db
      else case upload_checkpoint E r segment x db of
          Inl e \<Rightarrow> (Inl e, db)
        | Inr (False, _, db') \<Rightarrow> (Inr False, db')
        | Inr (True, r', db') \<Rightarrow> in_session (finalize_session E False r' evidence segment x now db') db')"

definition process_claimed :: "work_env \<Rightarrow> work_row \<Rightarrow> datetime \<Rightarrow> work_store \<Rightarrow> (work_error + bool) \<times> work_store" where
  "process_claimed E r now db =
     (case wm_request (wr_meta r) of
        None \<Rightarrow> in_session (mark_terminal E False r RequestMissing db) db
      | Some evidence \<Rightarrow>
          (case we_candidates E evidence of
             None \<Rightarrow> in_session (mark_retryable E r now CandidateLookupFailed db) db
           | Some recordings \<Rightarrow>
               let segment = resolve_source evidence recordings in
               if rs_status segment = AUTHORIZATION_FAILURE then in_session (mark_terminal E False r SourceUnauthorized db) db
               else if rs_status segment = SOURCE_NOT_FOUND then in_session (mark_terminal E False r SourceNotFound db) db
               else (case we_extract E evidence segment of
                   None \<Rightarrow> in_session (mark_retryable E r now ExtractionRaised db) db
                 | Some x \<Rightarrow> process_extracted E r evidence segment x now db)))"

subsection \<open>One cycle\<close>

text \<open>The loops over the stale and the claimed references: an exception is logged, and the stop event ends the loop.\<close>

fun work_loop :: "(work_row \<Rightarrow> work_store \<Rightarrow> (work_error + bool) \<times> work_store) \<Rightarrow> (nat \<Rightarrow> bool) \<Rightarrow> nat \<Rightarrow> work_row list \<Rightarrow> work_store \<Rightarrow> nat \<times> work_store" where
  "work_loop f stopped i [] db = (0, db)"
| "work_loop f stopped i (r # rs) db =
     (if stopped i then (0, db)
      else let (result, db1) = f r db; (handled, db2) = work_loop f stopped (Suc i) rs db1
           in ((if result = Inr True then 1 else 0) + handled, db2))"

definition expire_session :: "work_env \<Rightarrow> datetime \<Rightarrow> work_store \<Rightarrow> work_row list \<times> work_store" where
  "expire_session E now db =
     (let (expired, db') = expire_abandoned (after now (- (we_timeout_seconds E * 1000000))) AbandonedRequest (we_locked E) (we_batch_size E) db
      in (expired, foldl (\<lambda>d r. audited r EVENT_EXPIRED d) db' expired))"

definition run_once :: "work_env \<Rightarrow> datetime \<Rightarrow> work_store \<Rightarrow> nat \<times> work_store" where
  "run_once E now db0 =
     (let (queued, db1) = queue_pending (we_locked E) (we_batch_size E) db0 in
      if we_stopped E AfterQueue then (length queued, db1)
      else let (expired, db2) = expire_session E now db1; handled2 = length queued + length expired in
        if we_stopped E AfterExpire then (handled2, db2)
        else let (recovered, db3) = work_loop (\<lambda>r db. in_session (recover_stale E (wr_ref_id r) now db) db)
                  (\<lambda>i. we_stopped E (BeforeRecover i)) 0 (list_stale now (we_batch_size E) db2) db2;
                 handled3 = handled2 + recovered in
          if we_stopped E AfterRecover then (handled3, db3)
          else let (_, db4) = promote_due_retries now (we_locked E) (we_batch_size E) db3 in
            if we_stopped E AfterPromote then (handled3, db4)
            else let (mine, db5) = claim_queued (we_worker_id E) (we_lease_seconds E) now (we_locked E) (we_batch_size E) db4;
                     (processed, db6) = work_loop (\<lambda>r db. process_claimed E r now db) (\<lambda>i. we_stopped E (BeforeProcess i)) 0 mine db5
                 in (handled3 + processed, db6))"

end
