(* ===== verification/Evidence_Package_Facts.thy ===== *)
theory Evidence_Package_Facts
  imports Evidence_Package Evidence_Resolution_Facts
begin

text \<open>
  A package is created only from a chain that agrees, it carries the artifact and the checksum of the extraction at the end
  of a trail of twelve hops, and its identity depends on the request and the extraction only.
\<close>

definition agree :: "'a option list \<Rightarrow> bool" where
  "agree values = (\<forall>a\<in>set values. \<forall>b\<in>set values. a \<noteq> None \<longrightarrow> b \<noteq> None \<longrightarrow> a = b)"

lemma require_equal_optional_agree: "require_equal_optional label values = Inr u \<longleftrightarrow> agree values"
proof -
  have "agree values \<longleftrightarrow> (\<forall>a\<in>set (List.map_filter (\<lambda>v. v) values). \<forall>b\<in>set (List.map_filter (\<lambda>v. v) values). a = b)"
  proof -
    have "set (List.map_filter (\<lambda>v. v) values) = {a. Some a \<in> set values}" by (force simp: map_filter_def)
    then show ?thesis unfolding agree_def by (metis (no_types, lifting) mem_Collect_eq option.exhaust option.inject option.distinct(1))
  qed
  moreover have "(\<forall>x\<in>set (a # l). \<forall>y\<in>set (a # l). x = y) \<longleftrightarrow> (\<forall>v\<in>set l. v = a)" for a :: 'a and l
    by (metis list.set_intros set_ConsD)
  ultimately show ?thesis
    by (cases "List.map_filter (\<lambda>v. v) values") (simp_all add: require_equal_optional_def list_all_iff)
qed

lemma require_equal_three: "require_equal eq label [a, b, c] = Inr u \<longleftrightarrow> eq a b \<and> eq a c"
  by (simp add: require_equal_def)

text \<open>The condition under which a package exists, as one formula.\<close>

definition chain_agrees :: "evidence_ref \<Rightarrow> resolved_source \<Rightarrow> extracted_evidence \<Rightarrow> bool" where
  "chain_agrees ref src x =
     (rs_evidence_ref_id src = ev_ref_id ref \<and> xe_evidence_ref_id x = ev_ref_id ref \<and>
      rs_event_id src = ev_event_id ref \<and> xe_event_id x = Some (ev_event_id ref) \<and>
      agree [ev_tenant_id ref, rs_tenant_id src, xe_tenant_id x] \<and> agree [ev_venue_id ref, rs_venue_id src, xe_venue_id x] \<and>
      agree [ev_video_session_id ref, rs_video_session_id src, xe_session_id x] \<and>
      agree [ev_camera_id ref, rs_camera_id src, xe_camera_id x] \<and>
      agree [ev_configuration_version_id ref, rs_configuration_version_id src, xe_configuration_version_id x] \<and>
      agree [ev_rule_id ref, rs_rule_id src, xe_rule_id x] \<and> agree [ev_rule_version ref, rs_rule_version src, xe_rule_version x] \<and>
      dt_eq (requested_start ref) (rs_requested_start src) \<and> dt_eq (requested_start ref) (xe_requested_start x) \<and>
      dt_eq (requested_end ref) (rs_requested_end src) \<and> dt_eq (requested_end ref) (xe_requested_end x))"

lemma completed_ok_iff:
  "completed_ok x = Inr u \<longleftrightarrow> (xe_status x \<in> {EX_SUCCESS, EX_PARTIAL} \<longrightarrow>
     (\<exists>path. xe_media_path x = Some path \<and> path \<noteq> []) \<and> (\<exists>c. checksum_of x = Some c \<and> c \<noteq> []))"
  by (auto simp: completed_ok_def text_or_def split: option.splits if_splits)

lemma finalize_package_iff:
  "finalize_package L ref src x created_at = Inr p \<longleftrightarrow> chain_agrees ref src x \<and> completed_ok x = Inr () \<and>
     validate_utc_opt created_at \<and>
     p = \<lparr>ep_package_id = package_identity L ref x, ep_schema_version = SCHEMA_VERSION, ep_evidence_ref = ref,
          ep_resolved_source = src, ep_extraction = x, ep_created_at = created_at\<rparr>"
  by (auto simp: finalize_package_def require_equal_optional_agree require_equal_three chain_agrees_def)

lemma provenance_positions: "map ph_position (provenance_chain L p) = [1..<13]"
  by (simp add: provenance_chain_def provenance_links_def Let_def upt_rec)

lemma chain_last:
  "chain_value L p ''checksum -> stored_evidence'' = map_option MetaString (storage_reference p)"
  "chain_value L p ''rule -> checksum'' = package_checksum p"
  "chain_value L p ''event -> evidence'' = Some (MetaString (str_uuid (ev_event_id (ep_evidence_ref p))))"
  by (simp_all add: chain_value_def provenance_chain_def provenance_links_def Let_def id_or_def)

text \<open>
  C38: Finalized evidence loses no provenance. A completed extraction yields a package exactly when request, source and
  extraction agree, the extraction carries its artifact and its checksum, and the time of creation, when there is one, is
  aware; the trail of the package then has twelve hops
  in order, begins with the event of the request and ends with the checksum and the location the extraction recorded, and a
  second finalization gives the same identity at whatever aware time.
\<close>

theorem package_complete:
  assumes "xe_status x \<in> {EX_SUCCESS, EX_PARTIAL}"
  shows "((\<exists>p. finalize_package L ref src x created_at = Inr p) \<longleftrightarrow> chain_agrees ref src x \<and>
       (\<exists>path. xe_media_path x = Some path \<and> path \<noteq> []) \<and> (\<exists>c. checksum_of x = Some c \<and> c \<noteq> []) \<and>
       validate_utc_opt created_at) \<and>
    (\<forall>p. finalize_package L ref src x created_at = Inr p \<longrightarrow>
       map ph_position (provenance_chain L p) = [1..<13] \<and>
       chain_value L p ''event -> evidence'' = Some (MetaString (str_uuid (ev_event_id ref))) \<and>
       chain_value L p ''rule -> checksum'' = map_option MetaString (checksum_of x) \<and>
       chain_value L p ''checksum -> stored_evidence'' = map_option MetaString (xe_media_path x) \<and>
       (\<forall>later. validate_utc_opt later \<longrightarrow> (\<exists>p'. finalize_package L ref src x later = Inr p' \<and> ep_package_id p' = ep_package_id p)))"
proof -
  have ex: "(\<exists>p. finalize_package L ref src x created_at = Inr p) \<longleftrightarrow> chain_agrees ref src x \<and> completed_ok x = Inr () \<and> validate_utc_opt created_at"
    by (simp add: finalize_package_iff)
  have "map ph_position (provenance_chain L p) = [1..<13] \<and>
       chain_value L p ''event -> evidence'' = Some (MetaString (str_uuid (ev_event_id ref))) \<and>
       chain_value L p ''rule -> checksum'' = map_option MetaString (checksum_of x) \<and>
       chain_value L p ''checksum -> stored_evidence'' = map_option MetaString (xe_media_path x) \<and>
       (\<forall>later. validate_utc_opt later \<longrightarrow> (\<exists>p'. finalize_package L ref src x later = Inr p' \<and> ep_package_id p' = ep_package_id p))"
    if f: "finalize_package L ref src x created_at = Inr p" for p
  proof -
    have parts: "ep_evidence_ref p = ref" "ep_extraction p = x" "ep_package_id p = package_identity L ref x"
      and ok: "chain_agrees ref src x" "completed_ok x = Inr ()" using f by (simp_all add: finalize_package_iff)
    obtain path c where path: "xe_media_path x = Some path" "path \<noteq> []" and c: "checksum_of x = Some c" "c \<noteq> []"
      using ok(2) assms by (auto simp: completed_ok_iff)
    have "xe_metadata x ''checksum_sha256'' = Some (MetaString c)"
      using c(1) by (auto simp: checksum_of_def split: option.splits meta_value.splits)
    then have "package_checksum p = Some (MetaString c)" using parts c(2) by (simp add: package_checksum_def meta_truthy_def)
    moreover have "storage_reference p = Some path" using parts path by (simp add: storage_reference_def text_or_def)
    moreover have "\<exists>p'. finalize_package L ref src x later = Inr p' \<and> ep_package_id p' = ep_package_id p" if "validate_utc_opt later" for later
      using that ok parts by (simp add: finalize_package_iff)
    ultimately show ?thesis using parts path c by (simp add: provenance_positions chain_last)
  qed
  then show ?thesis using ex assms by (auto simp: completed_ok_iff)
qed

subsection \<open>Samples\<close>

definition package_lib :: stdlib where
  "package_lib = \<lparr>std_uuid5 = \<lambda>_ s. of_nat (length s), std_isoformat = \<lambda>_. ''t'', std_repr_float = \<lambda>_. [], std_parse_float = \<lambda>_. None\<rparr>"

definition sample_segment :: resolved_source where
  "sample_segment = resolve_source sample_evidence [sample_recording 6 0 20]"

definition sample_extraction :: extracted_evidence where
  "sample_extraction = \<lparr>xe_extraction_id = 8, xe_status = EX_SUCCESS, xe_evidence_ref_id = 1, xe_event_id = Some 2,
     xe_tenant_id = Some 3, xe_venue_id = Some 4, xe_session_id = None, xe_camera_id = Some 5,
     xe_configuration_version_id = None, xe_rule_id = None, xe_rule_version = None, xe_requested_start = utc_at 5,
     xe_requested_end = utc_at 15, xe_actual_start_time = Some (utc_at 5), xe_actual_end_time = Some (utc_at 15),
     xe_start_frame = None, xe_end_frame = None, xe_media_path = Some ''evidence/1.mp4'', xe_media_format = Some ''mp4'',
     xe_duration_seconds = None, xe_size_bytes = Some 100,
     xe_metadata = [''checksum_sha256'' \<mapsto> MetaString (replicate 64 (CHR ''a''))], xe_reason = None\<rparr>"

lemma sample_segment_resolved:
  "sample_segment = source_outcome sample_evidence RESOLVED
     [\<lparr>ss_asset_id = 6, ss_camera_id = Some 5, ss_session_id = None, ss_start_time = utc_at 5, ss_end_time = utc_at 15\<rparr>] None"
  by (simp add: sample_segment_def resolve_source_def sample_resolution_defs source_cover_def clipped_def dt_less_def dt_max_def
      dt_min_def Let_def dt_eq_def)

lemma sample_chain_agrees: "chain_agrees sample_evidence sample_segment sample_extraction"
  by (simp add: chain_agrees_def sample_segment_resolved source_outcome_def sample_extraction_def sample_resolution_defs agree_def dt_eq_def)

lemma sample_checksum: "checksum_of sample_extraction = Some (replicate 64 (CHR ''a''))"
  by (simp add: checksum_of_def sample_extraction_def)

lemma package_complete_witness:
  "\<exists>p. finalize_package package_lib sample_evidence sample_segment sample_extraction None = Inr p \<and>
     chain_value package_lib p ''checksum -> stored_evidence'' = Some (MetaString ''evidence/1.mp4'')"
proof -
  have s: "xe_status sample_extraction \<in> {EX_SUCCESS, EX_PARTIAL}" by (simp add: sample_extraction_def)
  note c = package_complete [OF s, of package_lib sample_evidence sample_segment None]
  have m: "xe_media_path sample_extraction = Some ''evidence/1.mp4''" by (simp add: sample_extraction_def)
  then obtain p where "finalize_package package_lib sample_evidence sample_segment sample_extraction None = Inr p"
    using conjunct1 [OF c] sample_chain_agrees sample_checksum by auto
  then show ?thesis using conjunct2 [OF c] m by (intro exI [of _ p]) simp
qed

end
