(* ===== verification/Evidence_Work_Facts.thy ===== *)
theory Evidence_Work_Facts
  imports Evidence_Work Evidence_State_Facts Evidence_Package_Facts
begin

text \<open>
  Facts about the evidence worker. Whatever workers do and however their sessions interleave, each session moves the
  references only along the transitions of its own events (whether or not the database layer builds the guarded updates),
  and a reference in a terminal state stays as it is. With the documented answer of the database layer no guarded update
  is ever built: every claimed reference is stranded in extraction.
\<close>

subsection \<open>Sessions as steps\<close>

datatype work_step =
    QueueStep "uuid set" nat
  | PromoteStep datetime "uuid set" nat
  | ExpireStep datetime work_reason "uuid set" nat
  | ClaimStep string int datetime "uuid set" nat
  | RecoverStep work_env uuid datetime
  | TerminalStep work_env work_row work_reason
  | RetryableStep work_env work_row datetime work_reason
  | UploadStep work_env work_row resolved_source extracted_evidence
  | FinalizeStep work_env work_row evidence_ref resolved_source extracted_evidence datetime

definition session_store :: "session_result \<Rightarrow> work_store \<Rightarrow> work_store" where
  "session_store result db = (case result of Inl _ \<Rightarrow> db | Inr (_, db') \<Rightarrow> db')"

fun take_work_step :: "work_store \<Rightarrow> work_step \<Rightarrow> work_store" where
  "take_work_step db (QueueStep locked n) = snd (queue_pending locked n db)"
| "take_work_step db (PromoteStep now locked n) = snd (promote_due_retries now locked n db)"
| "take_work_step db (ExpireStep cutoff reason locked n) =
     (let (expired, db') = expire_abandoned cutoff reason locked n db in foldl (\<lambda>d r. audited r EVENT_EXPIRED d) db' expired)"
| "take_work_step db (ClaimStep worker lease now locked n) = snd (claim_queued worker lease now locked n db)"
| "take_work_step db (RecoverStep E i now) = session_store (recover_stale E i now db) db"
| "take_work_step db (TerminalStep E r reason) = session_store (mark_terminal E False r reason db) db"
| "take_work_step db (RetryableStep E r now reason) = session_store (mark_retryable E r now reason db) db"
| "take_work_step db (UploadStep E r segment x) =
     (case upload_checkpoint E r segment x db of Inl _ \<Rightarrow> db | Inr (_, _, db') \<Rightarrow> db')"
| "take_work_step db (FinalizeStep E r evidence segment x now) = session_store (finalize_session E False r evidence segment x now db) db"

definition work_run :: "work_store \<Rightarrow> work_step list \<Rightarrow> work_store" where
  "work_run = foldl take_work_step"

text \<open>The events of the state machine that a session may apply.\<close>

fun step_events :: "work_step \<Rightarrow> evidence_event set" where
  "step_events (QueueStep locked n) = {QUEUE}"
| "step_events (PromoteStep now locked n) = {RETRY}"
| "step_events (ExpireStep cutoff reason locked n) = {EXPIRE}"
| "step_events (ClaimStep worker lease now locked n) = {START_EXTRACTING}"
| "step_events (RecoverStep E i now) = {RETRYABLE_FAILURE_EVENT, FINALIZE, TERMINAL_FAILURE_EVENT}"
| "step_events (TerminalStep E r reason) = {TERMINAL_FAILURE_EVENT}"
| "step_events (RetryableStep E r now reason) = {RETRYABLE_FAILURE_EVENT, TERMINAL_FAILURE_EVENT}"
| "step_events (UploadStep E r segment x) = {EXTRACTION_COMPLETE}"
| "step_events (FinalizeStep E r evidence segment x now) = {FINALIZE, TERMINAL_FAILURE_EVENT}"

subsection \<open>What a step does to the rows\<close>

definition work_state :: "work_row \<Rightarrow> processing_state option" where
  "work_state r = (case wr_state r of None \<Rightarrow> Some REQUESTED | Some s \<Rightarrow> processing_state_of s)"

definition same_row :: "work_row \<Rightarrow> work_row \<Rightarrow> bool" where
  "same_row r r' = (r' = r\<lparr>wr_meta := wr_meta r'\<rparr>)"

definition moves_by :: "evidence_event set \<Rightarrow> work_row \<Rightarrow> work_row \<Rightarrow> bool" where
  "moves_by ev r r' = (same_row r r' \<and> (r' = r \<or> (\<exists>s e t. e \<in> ev \<and> work_state r = Some s \<and>
     declared_transition s e = Some t \<and> wr_state r' = Some (processing_value t))))"

definition rows_move :: "evidence_event set \<Rightarrow> work_store \<Rightarrow> work_store \<Rightarrow> bool" where
  "rows_move ev db db' = list_all2 (moves_by ev) (wk_rows db) (wk_rows db')"

definition work_keys :: "work_store \<Rightarrow> bool" where
  "work_keys db = distinct (map wr_ref_id (wk_rows db))"

lemma moves_by_refl [simp]: "moves_by ev r r"
  by (simp add: moves_by_def same_row_def)

lemma moves_by_mono: "moves_by ev r r' \<Longrightarrow> ev \<subseteq> ev' \<Longrightarrow> moves_by ev' r r'"
  unfolding moves_by_def by blast

lemma rows_move_mono: "rows_move ev db db' \<Longrightarrow> ev \<subseteq> ev' \<Longrightarrow> rows_move ev' db db'"
  unfolding rows_move_def by (erule list_all2_mono) (erule moves_by_mono)

lemma rows_move_refl [simp]: "rows_move ev db db"
  by (simp add: rows_move_def list_all2_same)

lemma rows_move_audited [simp]: "rows_move ev db (audited r e db') = rows_move ev db db'"
  by (simp add: rows_move_def audited_def)

lemma rows_move_fold_audit [simp]: "rows_move ev db (foldl (\<lambda>d r. audited r e d) db' rs) = rows_move ev db db'"
  by (induction rs arbitrary: db') simp_all

lemma rows_move_map:
  assumes "\<And>r. r \<in> set (wk_rows db) \<Longrightarrow> moves_by ev r (g r)"
  shows "rows_move ev db (db\<lparr>wk_rows := map g (wk_rows db)\<rparr>)"
  using assms by (simp add: rows_move_def list_all2_map2 list_all2_same)

lemma row_by_id: "work_keys db \<Longrightarrow> r \<in> set (wk_rows db) \<Longrightarrow> r' \<in> set (wk_rows db) \<Longrightarrow> wr_ref_id r' = wr_ref_id r \<Longrightarrow> r' = r"
  by (auto simp: work_keys_def distinct_map inj_on_def)

lemma work_selection_sub: "set (work_selection P locked n db) \<subseteq> {r \<in> set (wk_rows db). P r}"
  by (auto simp: work_selection_def dest!: in_set_takeD)

lemma work_selected:
  assumes "work_keys db" "r \<in> set (wk_rows db)" "wr_ref_id r \<in> wr_ref_id ` set (work_selection P locked n db)"
  shows "P r"
proof -
  from assms(3) obtain r' where "r' \<in> set (work_selection P locked n db)" "wr_ref_id r = wr_ref_id r'" by auto
  then show ?thesis using work_selection_sub [of P locked n db] row_by_id [OF assms(1,2)] by auto
qed

lemma change_rows_move:
  assumes "work_keys db" "\<And>r. P r \<Longrightarrow> moves_by ev r (f r)"
  shows "rows_move ev db (snd (change_rows P f locked n db))"
  unfolding change_rows_def Let_def snd_conv
proof (rule rows_move_map)
  fix r assume r: "r \<in> set (wk_rows db)"
  show "moves_by ev r (if wr_ref_id r \<in> set (map wr_ref_id (work_selection P locked n db)) then f r else r)"
    using work_selected [OF assms(1) r, of P locked n] assms(2) [of r] by simp
qed

lemma moves_by_event:
  assumes "wr_state r = Some (processing_value s)" "declared_transition s e = Some t" "e \<in> ev" "same_row r r'"
    "wr_state r' = Some (processing_value t)"
  shows "moves_by ev r r'"
proof -
  have "work_state r = Some s" using assms(1) by (simp add: work_state_def)
  then show ?thesis using assms(2-5) unfolding moves_by_def by blast
qed

lemma declared_rows:
  "declared_transition REQUESTED QUEUE = Some QUEUED" "declared_transition QUEUED START_EXTRACTING = Some EXTRACTING"
  "declared_transition EXTRACTING EXTRACTION_COMPLETE = Some UPLOADING" "declared_transition UPLOADING FINALIZE = Some FINALIZED"
  "declared_transition EXTRACTING RETRYABLE_FAILURE_EVENT = Some RETRYABLE_FAILURE"
  "declared_transition RETRYABLE_FAILURE RETRY = Some QUEUED" "declared_transition REQUESTED EXPIRE = Some EXPIRED"
  "declared_transition QUEUED EXPIRE = Some EXPIRED" "declared_transition EXTRACTING TERMINAL_FAILURE_EVENT = Some TERMINAL_FAILURE"
  "declared_transition UPLOADING TERMINAL_FAILURE_EVENT = Some TERMINAL_FAILURE"
  by (simp_all add: declared_transition_def evidence_transitions_def)

lemma work_state_text: "wr_state r = Some (processing_value s) \<Longrightarrow> work_state r = Some s"
  by (simp add: work_state_def)

lemma processing_value_inj: "processing_value s = processing_value t \<longleftrightarrow> s = t"
  by (metis option.inject processing_state_of_value)

lemma with_meta_same [simp]: "same_row r (with_meta f r)"
  by (simp add: same_row_def with_meta_def)

lemma same_row_refl [simp]: "same_row r r"
  by (simp add: same_row_def)

lemma same_row_trans: "same_row a b \<Longrightarrow> same_row b c \<Longrightarrow> same_row a c"
  unfolding same_row_def by (metis work_row.update_convs(5) work_row.surjective)

lemma same_row_id: "same_row r r' \<Longrightarrow> wr_ref_id r' = wr_ref_id r"
  unfolding same_row_def by (metis work_row.select_convs(1) work_row.surjective work_row.update_convs(5))

lemma same_row_put [simp]: "same_row r (r\<lparr>wr_meta := m\<rparr>)"
  by (simp add: same_row_def)

lemma changed_row [simp]:
  "wr_ref_id (hold worker until r) = wr_ref_id r" "wr_ref_id (claimed worker until r) = wr_ref_id r"
  "wr_ref_id (with_meta f r) = wr_ref_id r" "wr_ref_id (set_state s r) = wr_ref_id r" "same_row r (set_state s r)"
  "same_row r (hold worker until r)" "same_row r (claimed worker until r)"
  "wr_state (set_state s r) = Some s" "wr_state (with_meta (\<lambda>m. m\<lparr>wm_retry_at := a\<rparr>) r) = wr_state r"
  "wr_state (with_meta (\<lambda>m. m\<lparr>wm_last_error := b\<rparr>) r) = wr_state r" "wr_state (hold worker until r) = wr_state r"
  "wr_state (claimed worker until r) = Some ''extracting''"
  "same_row r (with_meta g (set_state s r))"
  by (simp_all add: set_state_def hold_def claimed_def same_row_def with_meta_def)

lemmas row_change_defs = with_meta_def set_state_def hold_def claimed_def

lemma queue_moves: "work_keys db \<Longrightarrow> rows_move {QUEUE} db (snd (queue_pending locked n db))"
  unfolding queue_pending_def
proof (rule change_rows_move)
  fix r assume "pending r"
  then have "work_state r = Some REQUESTED" using work_state_text [of r REQUESTED] by (auto simp: pending_def work_state_def)
  then show "moves_by {QUEUE} r (set_state ''queued'' r)"
    using declared_rows(1) by (auto simp: moves_by_def)
qed

lemma promote_moves: "work_keys db \<Longrightarrow> rows_move {RETRY} db (snd (promote_due_retries now locked n db))"
  unfolding promote_due_retries_def
  by (erule change_rows_move, rule moves_by_event [OF _ declared_rows(6)])
    (simp_all add: retry_due_def)

lemma expire_moves: "work_keys db \<Longrightarrow> rows_move {EXPIRE} db (snd (expire_abandoned cutoff reason locked n db))"
  unfolding expire_abandoned_def
proof (erule change_rows_move)
  fix r assume p: "abandoned cutoff r"
  let ?f = "with_meta (\<lambda>m. m\<lparr>wm_last_error := Some reason\<rparr>) (set_state ''expired'' r)"
  have s: "same_row r ?f" by (rule same_row_trans [of _ "set_state ''expired'' r"]) simp_all
  have "\<exists>s. wr_state r = Some (processing_value s) \<and> declared_transition s EXPIRE = Some EXPIRED"
    using p declared_rows(7,8) by (auto simp: abandoned_def intro: exI [of _ REQUESTED] exI [of _ QUEUED])
  then show "moves_by {EXPIRE} r ?f" using moves_by_event [OF _ _ _ s, of _ EXPIRE EXPIRED] by auto
qed

lemma claim_moves: "work_keys db \<Longrightarrow> rows_move {START_EXTRACTING} db (snd (claim_queued worker lease now locked n db))"
  unfolding claim_queued_def
  by (erule change_rows_move, rule moves_by_event [OF _ declared_rows(2)]) (simp_all add: claimable_def)

subsection \<open>Guarded transitions\<close>

lemma detached_persist:
  assumes "declared_transition s e = Some t" "e \<in> ev"
    and p: "persist_transition built False r (processing_value s) (processing_value t) worker f db = Inr (ok, r', db')"
  shows "rows_move ev db db'"
proof -
  let ?n = "wr_meta (set_state (processing_value t) (with_meta f r))"
  have "rows_move ev db (db\<lparr>wk_rows := map (\<lambda>x. if guard r (processing_value s) worker x then x\<lparr>wr_meta := ?n\<rparr> else x) (wk_rows db)\<rparr>)"
  proof (rule rows_move_map)
    fix x
    have "moves_by ev x (x\<lparr>wr_meta := ?n\<rparr>)" if "guard r (processing_value s) worker x"
      using that by (intro moves_by_event [OF _ assms(1,2)]) (simp_all add: guard_def set_state_def with_meta_def)
    then show "moves_by ev x (if guard r (processing_value s) worker x then x\<lparr>wr_meta := ?n\<rparr> else x)" by simp
  qed
  then show ?thesis using p by (auto simp: persist_transition_def Let_def split: if_splits)
qed

text \<open>A row of the session whose pending state is not the one the guard asks for: only the pending changes are written.\<close>

lemma attached_persist_fails:
  assumes "wr_state r \<noteq> Some from_state" "persist_transition built True r from_state to_state worker f db = Inr (ok, r', db')"
  shows "\<not> ok \<and> db' = db\<lparr>wk_rows := flush r (wk_rows db)\<rparr>"
proof -
  have "\<not> list_ex (guard r from_state worker) (flush r (wk_rows db))"
    using assms(1) by (auto simp: flush_def guard_def list_ex_iff)
  then show ?thesis using assms(2) by (auto simp: persist_transition_def split: if_splits)
qed

text \<open>The guarded update of a row that the session loaded replaces the row of the table, or changes nothing but this row.\<close>

lemma flush_moves:
  assumes "work_keys db" "r0 \<in> set (wk_rows db)" "moves_by ev r0 r"
  shows "rows_move ev db (db\<lparr>wk_rows := flush r (wk_rows db)\<rparr>)"
  unfolding flush_def
proof (rule rows_move_map)
  fix x assume x: "x \<in> set (wk_rows db)"
  have s: "same_row r0 r" using assms(3) by (simp add: moves_by_def)
  have "moves_by ev x (x\<lparr>wr_meta := wr_meta r\<rparr>)" if "wr_ref_id x = wr_ref_id r"
  proof -
    have "x = r0" by (rule row_by_id [OF assms(1,2) x]) (simp only: that same_row_id [OF s])
    moreover have "r0\<lparr>wr_meta := wr_meta r\<rparr> = r" using s unfolding same_row_def by metis
    ultimately show ?thesis using assms(3) by simp
  qed
  then show "moves_by ev x (if wr_ref_id x = wr_ref_id r then x\<lparr>wr_meta := wr_meta r\<rparr> else x)" by simp
qed

lemma flush_then_guard:
  "wr_state r = Some from_state \<Longrightarrow> wm_claimed_by (wr_meta r) = Some worker \<Longrightarrow>
   map (\<lambda>x. if guard r from_state worker x then x\<lparr>wr_meta := n\<rparr> else x) (flush r rows) = flush (r\<lparr>wr_meta := n\<rparr>) rows"
  by (auto simp: flush_def guard_def)

lemma state_metadata_state: "current_state (state_metadata r) = Inr s \<Longrightarrow> work_state r = Some s"
  by (auto simp: current_state_def state_metadata_def meta_get_def work_state_def split: option.splits)

lemma apply_event_Inr:
  assumes "apply_event r e s = Inr (r', applied)"
  shows "work_state r = Some s \<and> (if applied then \<exists>t. declared_transition s e = Some t \<and>
      r' = with_meta (\<lambda>m. m\<lparr>wm_state := Some (processing_value t)\<rparr>) r else r' = r)"
proof -
  obtain m res where ap: "evidence_apply (state_metadata r) e (Some s) None = Inr (m, res)"
    and r': "r' = with_meta (\<lambda>w. w\<lparr>wm_state := map_option meta_str (m ''processing_state'')\<rparr>) r" and applied: "applied = er_applied res"
    using assms by (auto simp: apply_event_def)
  from ap obtain p where cs: "current_state (state_metadata r) = Inr p" and p: "p = s"
    by (auto simp: evidence_apply_def split: if_splits)
  have st: "map_option meta_str (state_metadata r ''processing_state'') = wr_state r"
    by (cases "wr_state r") (simp_all add: state_metadata_def)
  show ?thesis
  proof (cases applied)
    case False
    then have "m = state_metadata r" using ap applied cs p by (auto simp: evidence_apply_def split: if_splits)
    then show ?thesis using False r' st state_metadata_state [OF cs] p by (simp add: with_meta_def)
  next
    case True
    then obtain t where "evidence_next_state s e = Inr t" "m = persist_state (state_metadata r) t"
      using ap applied cs p by (auto simp: evidence_apply_def split: if_splits)
    then show ?thesis using True r' state_metadata_state [OF cs] p
      by (auto simp: evidence_next_state_table persist_state_def split: if_splits option.splits)
  qed
qed

lemma apply_event_text:
  assumes "apply_event r e s = Inr (r', True)" "s \<noteq> REQUESTED"
  shows "wr_state r = Some (processing_value s)"
proof -
  have "work_state r = Some s" using apply_event_Inr [OF assms(1)] by simp
  then show ?thesis using assms(2) by (auto simp: work_state_def processing_state_of_def find_Some_iff split: option.splits)
qed

lemma declared_unique:
  "declared_transition s TERMINAL_FAILURE_EVENT = Some t \<Longrightarrow> t = TERMINAL_FAILURE \<and> s \<in> {EXTRACTING, UPLOADING}"
  "declared_transition EXTRACTING RETRYABLE_FAILURE_EVENT = Some t \<Longrightarrow> t = RETRYABLE_FAILURE"
  "declared_transition EXTRACTING EXTRACTION_COMPLETE = Some t \<Longrightarrow> t = UPLOADING"
  by (cases s; simp add: declared_transition_def evidence_transitions_def)+

subsection \<open>The operations of the worker\<close>

definition session_effect :: "evidence_event set \<Rightarrow> work_store \<Rightarrow> session_result \<Rightarrow> bool" where
  "session_effect ev db result = (case result of Inl _ \<Rightarrow> True | Inr (_, db') \<Rightarrow> rows_move ev db db')"

lemma session_effect_mono: "session_effect ev db result \<Longrightarrow> ev \<subseteq> ev' \<Longrightarrow> session_effect ev' db result"
  by (auto simp: session_effect_def rows_move_mono split: sum.splits)

lemma session_effectI: "(\<And>b db'. result = Inr (b, db') \<Longrightarrow> rows_move ev db db') \<Longrightarrow> session_effect ev db result"
  by (auto simp: session_effect_def split: sum.split)

lemma mark_terminal_cases:
  assumes "mark_terminal E attached r reason db = Inr (b, db')" "db' \<noteq> db"
  obtains state r1 ok r2 db2 where "apply_event r TERMINAL_FAILURE_EVENT state = Inr (r1, True)"
    "persist_transition (we_update_built E) attached r1 (processing_value state) (processing_value TERMINAL_FAILURE) (we_worker_id E)
       (\<lambda>m. m\<lparr>wm_last_error := Some reason\<rparr>) db = Inr (ok, r2, db2)"
    "db' = db2 \<or> db' = audited r2 EVENT_TERMINAL_FAILURE db2"
  using assms by (auto simp: mark_terminal_def split: sum.splits prod.splits if_splits bool.splits)

lemma mark_terminal_detached: "session_effect {TERMINAL_FAILURE_EVENT} db (mark_terminal E False r reason db)"
proof (rule session_effectI, goal_cases)
  case (1 b db')
  show ?case
  proof (cases "db' = db")
    case False
    from 1 False show ?thesis
    proof (rule mark_terminal_cases, goal_cases)
      case (1 state r1 ok r2 db2)
      obtain t where t: "declared_transition state TERMINAL_FAILURE_EVENT = Some t" using apply_event_Inr [OF 1(1)] by auto
      then have "t = TERMINAL_FAILURE" by (rule declared_unique(1) [THEN conjunct1])
      then have "rows_move {TERMINAL_FAILURE_EVENT} db db2" using t detached_persist [OF t _ 1(2) [folded \<open>t = _\<close>]] by simp
      then show ?case using 1(3) by auto
    qed
  qed simp
qed

lemma mark_retryable_effect:
  "session_effect {RETRYABLE_FAILURE_EVENT, TERMINAL_FAILURE_EVENT} db (mark_retryable E r now reason db)"
proof (rule session_effectI, goal_cases)
  case (1 b db')
  show ?case
  proof (cases "we_max_attempts E \<le> attempts_of r \<or> db' = db")
    case True
    have "session_effect {RETRYABLE_FAILURE_EVENT, TERMINAL_FAILURE_EVENT} db (mark_terminal E False r (BudgetExhausted reason) db)"
      by (rule session_effect_mono [OF mark_terminal_detached]) simp
    then show ?thesis using 1 True by (auto simp: session_effect_def mark_retryable_def)
  next
    case False
    then obtain r1 delay ok r2 db2 where
      p: "persist_transition (we_update_built E) False r1 ''extracting'' ''retryable_failure'' (we_worker_id E)
          (\<lambda>m. m\<lparr>wm_retry_at := Some (after now delay), wm_last_error := Some reason\<rparr>) db = Inr (ok, r2, db2)"
      and db': "db' = db2 \<or> db' = audited r2 EVENT_RETRYABLE_FAILURE db2"
      using 1 by (auto simp: mark_retryable_def split: sum.splits prod.splits if_splits bool.splits)
    have "rows_move {RETRYABLE_FAILURE_EVENT, TERMINAL_FAILURE_EVENT} db db2"
      using detached_persist [OF declared_rows(5), of _ "we_update_built E" r1 "we_worker_id E" _ db ok r2 db2] p by simp
    then show ?thesis using db' by auto
  qed
qed

lemma upload_effect: "upload_checkpoint E r segment x db = Inr (ok, r', db') \<Longrightarrow> rows_move {EXTRACTION_COMPLETE} db db'"
proof -
  assume u: "upload_checkpoint E r segment x db = Inr (ok, r', db')"
  show ?thesis
  proof (cases "db' = db")
    case False
    then obtain r1 ok2 r2 db2 where "persist_transition (we_update_built E) False r1 ''extracting'' ''uploading'' (we_worker_id E)
          (\<lambda>m. m\<lparr>wm_recovery := Some (Checkpoint segment x), wm_artifact_key := xe_media_path x,
                     wm_extraction_id := Some (xe_extraction_id x)\<rparr>) db = Inr (ok2, r2, db2)"
      and db': "db' = db2 \<or> db' = audited r2 EVENT_UPLOADED db2"
      using u by (auto simp: upload_checkpoint_def split: sum.splits prod.splits if_splits bool.splits)
    then have "rows_move {EXTRACTION_COMPLETE} db db2"
      using detached_persist [OF declared_rows(3), of _ "we_update_built E" r1 "we_worker_id E" _ db ok2 r2 db2] by simp
    then show ?thesis using db' by auto
  qed simp
qed

text \<open>Rows loaded by the session: \<open>r\<close> is the row \<open>r0\<close> of the table with a new claim.\<close>

definition loaded :: "work_store \<Rightarrow> string \<Rightarrow> work_row \<Rightarrow> bool" where
  "loaded db worker r = (work_keys db \<and> wm_claimed_by (wr_meta r) = Some worker \<and>
     (\<exists>r0\<in>set (wk_rows db). same_row r0 r \<and> wr_state r = wr_state r0 \<and>
     wr_state r0 \<in> {Some ''extracting'', Some ''uploading''}))"

lemma loaded_moves:
  assumes l: "loaded db worker r" and s: "wr_state r = Some (processing_value s)" and d: "declared_transition s e = Some t"
    and e: "e \<in> ev" and r1: "same_row r r1" "wr_state r1 = Some (processing_value t)"
  shows "rows_move ev db (db\<lparr>wk_rows := flush r1 (wk_rows db)\<rparr>)"
proof -
  obtain r0 where r0: "r0 \<in> set (wk_rows db)" "same_row r0 r" "wr_state r0 = wr_state r" and k: "work_keys db"
    using l by (auto simp: loaded_def)
  have "moves_by ev r0 r1"
    by (rule moves_by_event [OF _ d e same_row_trans [OF r0(2) r1(1)] r1(2)]) (simp add: r0(3) s)
  then show ?thesis by (rule flush_moves [OF k r0(1)])
qed

lemma mark_terminal_attached:
  assumes l: "loaded db worker r"
  shows "session_effect {TERMINAL_FAILURE_EVENT} db (mark_terminal E True r reason db)"
proof (rule session_effectI, goal_cases)
  case (1 b db')
  show ?case
  proof (cases "db' = db")
    case False
    from 1 False show ?thesis
    proof (rule mark_terminal_cases, goal_cases)
      case (1 state r1 ok r2 db2)
      obtain t where t: "declared_transition state TERMINAL_FAILURE_EVENT = Some t"
        and r1: "r1 = with_meta (\<lambda>m. m\<lparr>wm_state := Some (processing_value t)\<rparr>) r" using apply_event_Inr [OF 1(1)] by auto
      have tt: "t = TERMINAL_FAILURE" "state \<in> {EXTRACTING, UPLOADING}" using declared_unique(1) [OF t] by simp_all
      have s1: "wr_state r1 = Some (processing_value t)" by (simp add: r1 with_meta_def)
      have ne: "wr_state r1 \<noteq> Some (processing_value state)" using tt s1 by auto
      have sr: "same_row r r1" by (simp add: r1)
      have st: "wr_state r = Some (processing_value state)" using apply_event_text [OF 1(1)] tt(2) by auto
      have "rows_move {TERMINAL_FAILURE_EVENT} db (db\<lparr>wk_rows := flush r1 (wk_rows db)\<rparr>)"
        by (rule loaded_moves [OF l st t _ sr s1]) simp
      then have "rows_move {TERMINAL_FAILURE_EVENT} db db2" using attached_persist_fails [OF ne 1(2)] by simp
      then show ?case using 1(3) by auto
    qed
  qed simp
qed

lemma save_finalized_cases:
  assumes "save_finalized built link attached r worker package l f db = Inr (ok, r', db')"
  obtains db2 where "persist_transition built attached r ''uploading'' ''finalized'' worker f db = Inr (ok, r', db2)"
    "wk_rows db' = wk_rows db2"
  using assms by (auto simp: save_finalized_def split: sum.splits prod.splits if_splits bool.splits)

lemma finalize_rows:
  assumes "\<And>f ok r' db2. persist_transition (we_update_built E) attached r ''uploading'' ''finalized'' (we_worker_id E) f db = Inr (ok, r', db2) \<Longrightarrow>
      rows_move ev db db2"
    and "\<And>reason. session_effect ev db (mark_terminal E attached r reason db)"
  shows "session_effect ev db (finalize_session E attached r evidence segment x now db)"
proof (cases "finalize_package (we_stdlib E) evidence segment x None")
  case (Inl e)
  then show ?thesis using assms(2) by (simp add: finalize_session_def)
next
  case (Inr p)
  show ?thesis
  proof (rule session_effectI, goal_cases)
    case (1 b db')
    then obtain r' db2 l pk f where s: "save_finalized (we_update_built E) (we_link_accepted E) attached r (we_worker_id E) pk l f db = Inr (b, r', db2)"
      and "wk_rows db' = wk_rows db2"
      using Inr by (auto simp: finalize_session_def audited_def split: if_splits)
    moreover from s obtain db3 where "persist_transition (we_update_built E) attached r ''uploading'' ''finalized'' (we_worker_id E) f db = Inr (b, r', db3)"
      "wk_rows db2 = wk_rows db3" by (rule save_finalized_cases)
    ultimately show ?case using assms(1) by (simp add: rows_move_def)
  qed
qed

lemma finalize_detached:
  "session_effect {FINALIZE, TERMINAL_FAILURE_EVENT} db (finalize_session E False r evidence segment x now db)"
proof (rule finalize_rows)
  show "rows_move {FINALIZE, TERMINAL_FAILURE_EVENT} db db2"
    if "persist_transition (we_update_built E) False r ''uploading'' ''finalized'' (we_worker_id E) f db = Inr (ok, r', db2)" for f ok r' db2
    using detached_persist [OF declared_rows(4), of _ "we_update_built E" r "we_worker_id E" f db ok r' db2] that by simp
  show "session_effect {FINALIZE, TERMINAL_FAILURE_EVENT} db (mark_terminal E False r reason db)" for reason
    by (rule session_effect_mono [OF mark_terminal_detached]) simp
qed

lemma finalize_attached:
  assumes l: "loaded db (we_worker_id E) r" and u: "wr_state r = Some ''uploading''"
  shows "session_effect {FINALIZE, TERMINAL_FAILURE_EVENT} db (finalize_session E True r evidence segment x now db)"
proof (rule finalize_rows)
  show "rows_move {FINALIZE, TERMINAL_FAILURE_EVENT} db db2"
    if p: "persist_transition (we_update_built E) True r ''uploading'' ''finalized'' (we_worker_id E) f db = Inr (ok, r', db2)" for f ok r' db2
  proof -
    let ?n = "wr_meta (set_state ''finalized'' (with_meta f r))"
    have c: "wm_claimed_by (wr_meta r) = Some (we_worker_id E)" using l by (simp add: loaded_def)
    obtain r0 where r0: "r0 \<in> set (wk_rows db)" "same_row r0 r" using l by (auto simp: loaded_def)
    have "guard r ''uploading'' (we_worker_id E) (r0\<lparr>wr_meta := wr_meta r\<rparr>)"
      using u c same_row_id [OF r0(2)] by (simp add: guard_def)
    moreover have "r0\<lparr>wr_meta := wr_meta r\<rparr> \<in> set (flush r (wk_rows db))"
      using r0(1) same_row_id [OF r0(2)] by (force simp: flush_def)
    ultimately have "list_ex (guard r ''uploading'' (we_worker_id E)) (flush r (wk_rows db))" by (auto simp: list_ex_iff)
    then have "db2 = db\<lparr>wk_rows := flush (r\<lparr>wr_meta := ?n\<rparr>) (wk_rows db)\<rparr>"
      using p flush_then_guard [OF u c, of ?n "wk_rows db"] by (auto simp: persist_transition_def Let_def split: if_splits)
    moreover have "rows_move {FINALIZE, TERMINAL_FAILURE_EVENT} db (db\<lparr>wk_rows := flush (r\<lparr>wr_meta := ?n\<rparr>) (wk_rows db)\<rparr>)"
      by (rule loaded_moves [OF l _ declared_rows(4)]) (simp_all add: u)
    ultimately show ?thesis by simp
  qed
  show "session_effect {FINALIZE, TERMINAL_FAILURE_EVENT} db (mark_terminal E True r reason db)" for reason
    by (rule session_effect_mono [OF mark_terminal_attached [OF l]]) simp
qed

lemma lock_stale_loaded:
  assumes "work_keys db" "lock_stale i worker lease now db = Some r"
  shows "loaded db worker r"
proof -
  obtain r0 where f: "find (\<lambda>r. wr_ref_id r = i \<and> stale now r) (wk_rows db) = Some r0" and r: "r = hold worker (after now (lease * 1000000)) r0"
    using assms(2) by (auto simp: lock_stale_def)
  then have r0: "r0 \<in> set (wk_rows db)" "stale now r0" by (auto simp: find_Some_iff)
  have "wm_claimed_by (wr_meta r) = Some worker" by (simp add: r row_change_defs)
  moreover have "same_row r0 r" "wr_state r = wr_state r0" by (simp_all add: r)
  moreover have "wr_state r0 \<in> {Some ''extracting'', Some ''uploading''}" using r0(2) by (simp add: stale_def)
  ultimately show ?thesis using assms(1) r0(1) unfolding loaded_def by blast
qed

lemma from_checkpoint_effect:
  assumes "loaded db (we_worker_id E) r" "wr_state r = Some ''uploading''"
  shows "session_effect {FINALIZE, TERMINAL_FAILURE_EVENT} db (finalize_from_checkpoint E r now db)"
proof -
  have "session_effect {FINALIZE, TERMINAL_FAILURE_EVENT} db (mark_terminal E True r reason db)" for reason
    by (rule session_effect_mono [OF mark_terminal_attached [OF assms(1)]]) simp
  then show ?thesis
    using finalize_attached [OF assms] unfolding finalize_from_checkpoint_def by (simp split: option.split checkpoint.split)
qed

lemma retry_extracting:
  "wr_state r = Some ''extracting'' \<Longrightarrow>
   apply_event r RETRYABLE_FAILURE_EVENT EXTRACTING = Inr (set_state ''retryable_failure'' r, True)"
  using declared_rows(5) processing_state_of_value [of EXTRACTING]
  by (simp add: apply_event_def evidence_apply_def current_state_def state_metadata_def meta_get_def evidence_next_state_table
      event_target_table persist_state_def set_state_def)

lemma recover_effect:
  assumes k: "work_keys db"
  shows "session_effect {RETRYABLE_FAILURE_EVENT, FINALIZE, TERMINAL_FAILURE_EVENT} db (recover_stale E i now db)"
proof (cases "lock_stale i (we_worker_id E) (we_lease_seconds E) now db")
  case None
  then show ?thesis by (simp add: recover_stale_def session_effect_def)
next
  case (Some r)
  note l = lock_stale_loaded [OF k Some]
  show ?thesis
  proof (cases "wr_state r = Some ''uploading''")
    case True
    have "session_effect {RETRYABLE_FAILURE_EVENT, FINALIZE, TERMINAL_FAILURE_EVENT} db (finalize_from_checkpoint E r now db)"
      by (rule session_effect_mono [OF from_checkpoint_effect [OF l True]]) simp
    then show ?thesis using True Some by (simp add: recover_stale_def)
  next
    case False
    then have s: "wr_state r = Some ''extracting''" using l by (auto simp: loaded_def)
    note a = retry_extracting [OF s]
    have q: "rows_move {RETRYABLE_FAILURE_EVENT, FINALIZE, TERMINAL_FAILURE_EVENT} db
        (db\<lparr>wk_rows := flush (set_state ''retryable_failure'' r) (wk_rows db)\<rparr>)"
      by (rule loaded_moves [OF l _ declared_rows(5)]) (simp_all add: s)
    show ?thesis
    proof (rule session_effectI, goal_cases)
      case (1 b db')
      then obtain ok r2 db2 f where
        p: "persist_transition (we_update_built E) True (set_state ''retryable_failure'' r) ''extracting'' ''retryable_failure'' (we_worker_id E) f db =
          Inr (ok, r2, db2)" and d: "db' = db2 \<or> db' = audited r2 EVENT_RECOVERED db2"
        using Some False a by (auto simp: recover_stale_def split: sum.splits prod.splits bool.splits)
      then have "db2 = db\<lparr>wk_rows := flush (set_state ''retryable_failure'' r) (wk_rows db)\<rparr>"
        using attached_persist_fails [OF _ p] by simp
      then show ?case using q d by auto
    qed
  qed
qed

lemma session_store_moves: "session_effect ev db result \<Longrightarrow> rows_move ev db (session_store result db)"
  by (auto simp: session_effect_def session_store_def split: sum.split)

lemma step_moves: "work_keys db \<Longrightarrow> rows_move (step_events st) db (take_work_step db st)"
proof (cases st)
  case (ExpireStep cutoff reason locked n)
  assume "work_keys db"
  then show ?thesis using ExpireStep expire_moves [of db cutoff reason locked n]
    by (cases "expire_abandoned cutoff reason locked n db") simp
next
  case (UploadStep E r segment x)
  then show ?thesis using upload_effect [of E r segment x db] by (auto split: sum.split)
qed (simp_all add: queue_moves promote_moves claim_moves session_store_moves recover_effect mark_terminal_detached
    mark_retryable_effect finalize_detached)

subsection \<open>Any interleaving of sessions\<close>

lemma moves_keys: "list_all2 (moves_by ev) rows rows' \<Longrightarrow> map wr_ref_id rows' = map wr_ref_id rows"
  by (induction rule: list_all2_induct) (auto simp: moves_by_def same_row_id)

lemma step_keys: "work_keys db \<Longrightarrow> work_keys (take_work_step db st)"
  using moves_keys [OF step_moves [unfolded rows_move_def]] by (simp add: work_keys_def)

lemma work_run_Cons: "work_run db (st # steps) = work_run (take_work_step db st) steps"
  by (simp add: work_run_def)

lemma run_keys: "work_keys db \<Longrightarrow> work_keys (work_run db steps)"
  by (induction steps arbitrary: db) (simp_all add: work_run_def step_keys)

text \<open>A row that is over stays as it is, and no row is added, removed or given another identity.\<close>

definition over_kept :: "work_row \<Rightarrow> work_row \<Rightarrow> bool" where
  "over_kept r r' = (same_row r r' \<and> (\<forall>s. work_state r = Some s \<longrightarrow> is_terminal s \<longrightarrow> r' = r))"

lemma moves_over_kept: "moves_by ev r r' \<Longrightarrow> over_kept r r'"
  using declared_target by (auto simp: moves_by_def over_kept_def)

lemma over_kept_trans: "over_kept a b \<Longrightarrow> over_kept b c \<Longrightarrow> over_kept a c"
  unfolding over_kept_def using same_row_trans by blast

lemma run_over_kept: "work_keys db \<Longrightarrow> list_all2 over_kept (wk_rows db) (wk_rows (work_run db steps))"
proof (induction steps arbitrary: db)
  case Nil
  then show ?case by (simp add: work_run_def list_all2_same over_kept_def)
next
  case (Cons st steps)
  have "list_all2 over_kept (wk_rows db) (wk_rows (take_work_step db st))"
    using step_moves [OF Cons.prems, of st] unfolding rows_move_def by (rule list_all2_mono) (rule moves_over_kept)
  moreover have "list_all2 over_kept (wk_rows (take_work_step db st)) (wk_rows (work_run (take_work_step db st) steps))"
    by (rule Cons.IH [OF step_keys [OF Cons.prems]])
  ultimately show ?case
    unfolding work_run_Cons using list_all2_trans [of over_kept over_kept over_kept] over_kept_trans by blast
qed

text \<open>
  C37: Every session of a worker moves the references only along the state machine. Whatever workers did before, with
  whatever leases, crashes, stale copies and interleavings, the next session leaves each row as it is or takes it along one
  declared transition from the state it is in, by an event this kind of session applies: queueing, retry, expiry, claim,
  recovery, failure, upload or finalization. Over the whole run no row is added, removed or given another identity, and a
  row that is finalized, dead-lettered or expired is never changed again.
\<close>

theorem evidence_work_follows_machine:
  assumes "work_keys db"
  shows "list_all2 (\<lambda>r r'. same_row r r' \<and> (r' = r \<or> (\<exists>s e t. e \<in> step_events st \<and> work_state r = Some s \<and>
        declared_transition s e = Some t \<and> wr_state r' = Some (processing_value t))))
      (wk_rows (work_run db steps)) (wk_rows (take_work_step (work_run db steps) st)) \<and>
    list_all2 (\<lambda>r r'. same_row r r' \<and> (\<forall>s. work_state r = Some s \<longrightarrow> is_terminal s \<longrightarrow> r' = r))
      (wk_rows db) (wk_rows (work_run db steps))"
  using step_moves [OF run_keys [OF assms], of st steps] run_over_kept [OF assms, of steps]
  by (simp add: rows_move_def moves_by_def [abs_def] over_kept_def [abs_def])

subsection \<open>Sessions whose guarded updates are not built\<close>

text \<open>The documented answer of the database layer, in the environment of a session that has one.\<close>

fun step_env :: "work_step \<Rightarrow> work_env option" where
  "step_env (RecoverStep E i now) = Some E"
| "step_env (TerminalStep E r reason) = Some E"
| "step_env (RetryableStep E r now reason) = Some E"
| "step_env (UploadStep E r segment x) = Some E"
| "step_env (FinalizeStep E r evidence segment x now) = Some E"
| "step_env _ = None"

definition documented :: "work_step \<Rightarrow> bool" where
  "documented st = (case step_env st of None \<Rightarrow> True | Some E \<Rightarrow> \<not> we_update_built E)"

lemma persist_unbuilt [simp]: "persist_transition False attached r a b worker f db = Inl UpdateRefused"
  by (simp add: persist_transition_def)

text \<open>Such a session reports no success and leaves the store as it was.\<close>

definition fruitless :: "work_store \<Rightarrow> session_result \<Rightarrow> bool" where
  "fruitless db result = (case result of Inl _ \<Rightarrow> True | Inr (ok, db') \<Rightarrow> \<not> ok \<and> db' = db)"

lemma mark_terminal_unbuilt: "\<not> we_update_built E \<Longrightarrow> fruitless db (mark_terminal E attached r reason db)"
  by (simp add: mark_terminal_def fruitless_def split: sum.split prod.split)

lemma mark_retryable_unbuilt: "\<not> we_update_built E \<Longrightarrow> fruitless db (mark_retryable E r now reason db)"
  using mark_terminal_unbuilt [of E db False r "BudgetExhausted reason"]
  by (simp add: mark_retryable_def fruitless_def split: sum.split prod.split)

lemma upload_unbuilt:
  "\<not> we_update_built E \<Longrightarrow> upload_checkpoint E r segment x db = Inr (ok, r', db') \<Longrightarrow> \<not> ok \<and> db' = db"
  by (auto simp: upload_checkpoint_def split: sum.splits prod.splits if_splits)

lemma finalize_unbuilt: "\<not> we_update_built E \<Longrightarrow> fruitless db (finalize_session E attached r evidence segment x now db)"
  by (cases "finalize_package (we_stdlib E) evidence segment x None")
    (simp_all add: finalize_session_def mark_terminal_unbuilt, simp add: save_finalized_def fruitless_def)

lemma recover_unbuilt: "\<not> we_update_built E \<Longrightarrow> fruitless db (recover_stale E i now db)"
proof (cases "lock_stale i (we_worker_id E) (we_lease_seconds E) now db")
  case None
  then show ?thesis by (simp add: recover_stale_def fruitless_def)
next
  case (Some r)
  assume b: "\<not> we_update_built E"
  have s: "wr_state r \<in> {Some ''extracting'', Some ''uploading''}"
    using Some by (auto simp: lock_stale_def stale_def find_Some_iff)
  have "fruitless db (finalize_from_checkpoint E r now db)"
    unfolding finalize_from_checkpoint_def
    using b by (simp add: mark_terminal_unbuilt finalize_unbuilt split: option.split checkpoint.split)
  then show ?thesis
    using b Some s retry_extracting [of r] by (auto simp: recover_stale_def fruitless_def)
qed

lemma fruitless_session: "fruitless db result \<Longrightarrow> session_store result db = db \<and>
    snd (in_session result db) = db \<and> fst (in_session result db) \<noteq> Inr True"
  by (auto simp: fruitless_def session_store_def in_session_def split: sum.splits)

lemma process_extracted_unbuilt:
  assumes "\<not> we_update_built E"
  shows "snd (process_extracted E r evidence segment x now db) = db \<and> fst (process_extracted E r evidence segment x now db) \<noteq> Inr True"
proof (cases "upload_checkpoint E r segment x db")
  case (Inr out)
  then show ?thesis
    using upload_unbuilt [OF assms, of r segment x db] assms
    by (cases out) (auto simp: process_extracted_def fruitless_session mark_terminal_unbuilt mark_retryable_unbuilt)
qed (simp add: process_extracted_def fruitless_session mark_terminal_unbuilt mark_retryable_unbuilt assms)

lemma process_claimed_unbuilt:
  "\<not> we_update_built E \<Longrightarrow> snd (process_claimed E r now db) = db \<and> fst (process_claimed E r now db) \<noteq> Inr True"
  by (simp add: process_claimed_def Let_def fruitless_session mark_terminal_unbuilt mark_retryable_unbuilt process_extracted_unbuilt
      split: option.split)

text \<open>A reference in extraction stays as it is, and nothing is stored.\<close>

lemma change_rows_keeps:
  assumes "work_keys db" "r \<in> set (wk_rows db)" "\<not> P r"
  shows "r \<in> set (wk_rows (snd (change_rows P f locked n db)))"
proof -
  have "wr_ref_id r \<notin> wr_ref_id ` set (work_selection P locked n db)"
    using work_selected [OF assms(1,2)] assms(3) by blast
  then show ?thesis using assms(2) by (force simp: change_rows_def Let_def)
qed

lemma change_rows_stored [simp]:
  "wk_packages (snd (change_rows P f locked n db)) = wk_packages db" "wk_links (snd (change_rows P f locked n db)) = wk_links db"
  by (simp_all add: change_rows_def Let_def)

lemma audit_stored [simp]:
  "wk_rows (foldl (\<lambda>d r. audited r e d) db rs) = wk_rows db" "wk_packages (foldl (\<lambda>d r. audited r e d) db rs) = wk_packages db"
  "wk_links (foldl (\<lambda>d r. audited r e d) db rs) = wk_links db"
  by (induction rs arbitrary: db) (simp_all add: audited_def)

lemma documented_step:
  assumes "work_keys db" "r \<in> set (wk_rows db)" "wr_state r = Some ''extracting''" "documented st"
  shows "r \<in> set (wk_rows (take_work_step db st)) \<and> wk_packages (take_work_step db st) = wk_packages db \<and>
    wk_links (take_work_step db st) = wk_links db"
proof -
  note keeps = change_rows_keeps [OF assms(1,2)]
  note idle = assms(3) pending_def retry_due_def abandoned_def claimable_def
  show ?thesis
  proof (cases st)
    case (ExpireStep cutoff reason locked n)
    have "r \<in> set (wk_rows (snd (expire_abandoned cutoff reason locked n db)))"
      unfolding expire_abandoned_def by (rule keeps) (simp add: idle)
    moreover have "wk_packages (snd (expire_abandoned cutoff reason locked n db)) = wk_packages db"
      "wk_links (snd (expire_abandoned cutoff reason locked n db)) = wk_links db"
      by (simp_all add: expire_abandoned_def)
    ultimately show ?thesis using ExpireStep by (simp add: case_prod_beta Let_def)
  next
    case (UploadStep E r' segment x)
    then have "\<not> we_update_built E" using assms(4) by (simp add: documented_def)
    then show ?thesis using UploadStep assms(2) upload_unbuilt [of E r' segment x db] by (auto split: sum.split)
  qed (use assms(2,4) keeps in \<open>simp_all add: idle documented_def fruitless_session mark_terminal_unbuilt mark_retryable_unbuilt
      finalize_unbuilt recover_unbuilt queue_pending_def promote_due_retries_def claim_queued_def\<close>)
qed

lemma documented_run:
  assumes "work_keys db" "r \<in> set (wk_rows db)" "wr_state r = Some ''extracting''" "list_all documented steps"
  shows "r \<in> set (wk_rows (work_run db steps)) \<and> wk_packages (work_run db steps) = wk_packages db \<and>
    wk_links (work_run db steps) = wk_links db"
  using assms
proof (induction steps arbitrary: db)
  case (Cons st steps)
  note d = documented_step [OF Cons.prems(1-3), of st]
  have "documented st" "list_all documented steps" using Cons.prems(4) by simp_all
  then show ?case using Cons.IH [OF step_keys [OF Cons.prems(1)] _ Cons.prems(3), of st] d by (simp add: work_run_Cons)
qed (simp add: work_run_def)

subsection \<open>One cycle\<close>

definition DONE_STATES :: "string set" where
  "DONE_STATES = {''finalized'', ''terminal_failure'', ''expired''}"

text \<open>\<open>r\<close> is a row of the table and the only one that is not over.\<close>

definition only_row :: "work_store \<Rightarrow> work_row \<Rightarrow> bool" where
  "only_row db r = (work_keys db \<and> r \<in> set (wk_rows db) \<and>
     list_all (\<lambda>x. x = r \<or> wr_state x \<in> Some ` DONE_STATES) (wk_rows db))"

definition put_row :: "work_row \<Rightarrow> work_store \<Rightarrow> work_store" where
  "put_row r db = db\<lparr>wk_rows := map (\<lambda>x. if wr_ref_id x = wr_ref_id r then r else x) (wk_rows db)\<rparr>"

lemma only_put:
  assumes "only_row db r" "wr_ref_id r' = wr_ref_id r"
  shows "only_row (put_row r' db) r'"
proof -
  have id: "wr_ref_id \<circ> (\<lambda>x. if wr_ref_id x = wr_ref_id r' then r' else x) = wr_ref_id" by auto
  have "r' \<in> set (wk_rows (put_row r' db))" using assms by (force simp: only_row_def put_row_def)
  moreover have "list_all (\<lambda>x. x = r' \<or> wr_state x \<in> Some ` DONE_STATES) (wk_rows (put_row r' db))"
    using assms by (auto simp: only_row_def put_row_def list_all_iff)
  ultimately show ?thesis using assms(1) by (simp add: only_row_def work_keys_def put_row_def id)
qed

lemma only_id: "only_row db r \<Longrightarrow> x \<in> set (wk_rows db) \<Longrightarrow> wr_ref_id x = wr_ref_id r \<Longrightarrow> x = r"
  using row_by_id by (auto simp: only_row_def)

lemma filter_only:
  assumes "only_row db r" "\<And>x. P x \<Longrightarrow> wr_state x \<notin> Some ` DONE_STATES"
  shows "filter P (wk_rows db) = (if P r then [r] else [])"
proof -
  have d: "distinct (wk_rows db)" using assms(1) by (auto simp: only_row_def work_keys_def distinct_map)
  have p: "P x \<longleftrightarrow> x = r \<and> P r" if "x \<in> set (wk_rows db)" for x
    using assms(1) assms(2) [of x] that by (auto simp: only_row_def list_all_iff)
  have "filter P (wk_rows db) = filter (\<lambda>x. x = r \<and> P r) (wk_rows db)" using p by (intro filter_cong) auto
  also have "\<dots> = (if P r then filter (\<lambda>x. x = r) (wk_rows db) else [])" by simp
  also have "filter (\<lambda>x. x = r) (wk_rows db) = [r]"
    using d assms(1) distinct_length_filter [OF d, of "\<lambda>x. x = r"] replicate_length_same [of "filter (\<lambda>x. x = r) (wk_rows db)" r]
    by (auto simp: only_row_def Int_absorb1 insert_absorb Int_insert_left)
  finally show ?thesis by simp
qed

lemma change_only:
  assumes o: "only_row db r" and P: "\<And>x. P x \<Longrightarrow> wr_state x \<notin> Some ` DONE_STATES" and f: "wr_ref_id (f r) = wr_ref_id r" and n: "0 < n"
  shows "change_rows P f {} n db = (if P r then ([f r], put_row (f r) db) else ([], db))"
proof -
  have sel: "work_selection P {} n db = (if P r then [r] else [])"
    using filter_only [OF o P] n by (simp add: work_selection_def)
  show ?thesis
  proof (cases "P r")
    case True
    have "map (\<lambda>x. if wr_ref_id x = wr_ref_id r then f x else x) (wk_rows db) = map (\<lambda>x. if wr_ref_id x = wr_ref_id r then f r else x) (wk_rows db)"
      using only_id [OF o] by auto
    then show ?thesis using True sel by (simp add: change_rows_def put_row_def f)
  next
    case False
    then show ?thesis using sel by (simp add: change_rows_def)
  qed
qed

definition idle_env :: "work_env \<Rightarrow> bool" where
  "idle_env E = (0 < we_batch_size E \<and> we_locked E = {} \<and> we_stopped E = (\<lambda>_. False))"

lemma live:
  "pending x \<Longrightarrow> wr_state x \<notin> Some ` DONE_STATES" "abandoned c x \<Longrightarrow> wr_state x \<notin> Some ` DONE_STATES"
  "retry_due now x \<Longrightarrow> wr_state x \<notin> Some ` DONE_STATES" "claimable now x \<Longrightarrow> wr_state x \<notin> Some ` DONE_STATES"
  "stale now x \<Longrightarrow> wr_state x \<notin> Some ` DONE_STATES"
  by (auto simp: pending_def abandoned_def retry_due_def claimable_def stale_def DONE_STATES_def)

lemma list_stale_only:
  assumes "only_row db r" "\<not> stale now r"
  shows "list_stale now n db = []"
  using filter_only [OF assms(1), of "stale now", OF live(5)] assms(2) by (simp add: list_stale_def)

text \<open>
  C35: A claimed reference is stranded. With the documented answer of the database layer no guarded update of the worker is
  ever built, so that every failure, upload, finalization and recovery raises. One undisturbed cycle on a pending request
  whose references are otherwise all over, whatever sources and artifacts are at hand, queues and claims it and ends with
  the reference in extraction and one attempt more; after whatever sessions of whatever workers come later the row is the
  same, and no package and no link was stored.
\<close>

theorem evidence_stranded:
  assumes o: "only_row db r" and p: "pending r" and l: "wm_lease_until (wr_meta r) = None"
    and young: "dt_less (after now (- (we_timeout_seconds E * 1000000))) (wr_created_at r)"
    and e: "idle_env E" and u: "\<not> we_update_built E" and later: "list_all documented steps"
  shows "\<exists>r'. run_once E now db = (1, put_row r' db) \<and> wr_ref_id r' = wr_ref_id r \<and> wr_state r' = Some ''extracting'' \<and>
    wm_claimed_by (wr_meta r') = Some (we_worker_id E) \<and> wm_attempts (wr_meta r') = Some (attempts_of r + 1) \<and>
    r' \<in> set (wk_rows (work_run (put_row r' db) steps)) \<and>
    wk_packages (work_run (put_row r' db) steps) = wk_packages db \<and> wk_links (work_run (put_row r' db) steps) = wk_links db"
proof -
  let ?r1 = "set_state ''queued'' r" and ?n = "we_batch_size E"
  let ?r2 = "claimed (we_worker_id E) (after now (we_lease_seconds E * 1000000)) ?r1"
  let ?db1 = "put_row ?r1 db"
  let ?db2 = "put_row ?r2 ?db1"
  have n: "0 < ?n" and lk: "we_locked E = {}" and st: "\<And>w. \<not> we_stopped E w"
    using e by (simp_all add: idle_env_def)
  have q1: "queue_pending {} ?n db = ([?r1], ?db1)"
    unfolding queue_pending_def using change_only [OF o, of pending "set_state ''queued''" ?n, OF live(1)] p n by simp
  have o1: "only_row ?db1 ?r1" using only_put [OF o, of ?r1] by simp
  have "\<not> abandoned (after now (- (we_timeout_seconds E * 1000000))) ?r1"
    using young by (simp add: abandoned_def set_state_def with_meta_def)
  then have q2: "expire_session E now ?db1 = ([], ?db1)"
    unfolding expire_session_def expire_abandoned_def lk
    using change_only [OF o1, of "abandoned (after now (- (we_timeout_seconds E * 1000000)))"
      "\<lambda>r. with_meta (\<lambda>m. m\<lparr>wm_last_error := Some AbandonedRequest\<rparr>) (set_state ''expired'' r)" ?n, OF live(2)] n by simp
  have q3: "list_stale now ?n ?db1 = []"
    by (rule list_stale_only [OF o1]) (simp add: stale_def)
  have nd: "\<not> retry_due now ?r1" by (simp add: retry_due_def)
  have q4: "promote_due_retries now {} ?n ?db1 = ([], ?db1)"
    unfolding promote_due_retries_def
    using change_only [OF o1, of "retry_due now" "\<lambda>r. with_meta (\<lambda>m. m\<lparr>wm_retry_at := None\<rparr>) (set_state ''queued'' r)" ?n, OF live(3) [where now = now]] n nd by simp
  have "claimable now ?r1" using l by (simp add: claimable_def) (simp add: set_state_def with_meta_def)
  then have q5: "claim_queued (we_worker_id E) (we_lease_seconds E) now {} ?n ?db1 = ([?r2], ?db2)"
    unfolding claim_queued_def
    using change_only [OF o1, of "claimable now" "claimed (we_worker_id E) (after now (we_lease_seconds E * 1000000))" ?n, OF live(4) [where now = now]] n
    by (simp add: same_row_id)
  have idr: "wr_ref_id ?r2 = wr_ref_id r" by (simp add: row_change_defs)
  have o2: "only_row ?db2 ?r2" using only_put [OF o1, of ?r2] idr by simp
  have put: "?db2 = put_row ?r2 db" using idr by (auto simp: put_row_def)
  obtain res where pc: "process_claimed E ?r2 now ?db2 = (res, ?db2)" "res \<noteq> Inr True"
    using process_claimed_unbuilt [OF u, of ?r2 now ?db2] by (cases "process_claimed E ?r2 now ?db2") simp
  have run: "run_once E now db = (1, put_row ?r2 db)"
    unfolding put [symmetric] by (simp add: run_once_def lk q1 q2 q3 q4 q5 pc st)
  have s2: "wr_state ?r2 = Some ''extracting''" by simp
  have "work_keys (put_row ?r2 db)" "?r2 \<in> set (wk_rows (put_row ?r2 db))"
    using o2 unfolding put by (simp_all add: only_row_def)
  note rest = documented_run [OF this s2 later]
  have "wm_claimed_by (wr_meta ?r2) = Some (we_worker_id E)" "wm_attempts (wr_meta ?r2) = Some (attempts_of r + 1)"
    by (simp_all add: row_change_defs attempts_of_def)
  then show ?thesis using run idr s2 rest by (intro exI [of _ ?r2]) (simp add: put_row_def)
qed

subsection \<open>Samples\<close>

definition sample_request_row :: work_row where
  "sample_request_row = \<lparr>wr_ref_id = 1, wr_tenant_id = 3, wr_venue_id = 4, wr_created_at = utc_at 0,
     wr_meta = \<lparr>wm_state = Some ''requested'', wm_claimed_by = None, wm_lease_until = None, wm_attempts = None, wm_retry_at = None,
       wm_last_error = None, wm_recovery = None, wm_request = Some sample_evidence, wm_artifact_key = None, wm_extraction_id = None,
       wm_package_id = None\<rparr>\<rparr>"

definition sample_work_store :: work_store where
  "sample_work_store = \<lparr>wk_rows = [sample_request_row], wk_packages = [], wk_links = [], wk_audit = []\<rparr>"

definition sample_work_env :: "bool \<Rightarrow> work_env" where
  "sample_work_env built = \<lparr>we_worker_id = ''w'', we_batch_size = 10, we_lease_seconds = 60, we_max_attempts = 5, we_backoff_base = 1,
     we_backoff_max = 300, we_backoff_jitter = 0, we_timeout_seconds = 86400, we_draw = \<lambda>_. 0,
     we_candidates = \<lambda>_. Some [sample_recording 6 0 20], we_extract = \<lambda>_ _. Some sample_extraction, we_update_built = built, we_link_accepted = False,
     we_locked = {}, we_stdlib = package_lib, we_stopped = \<lambda>_. False\<rparr>"

definition sample_package :: evidence_package where
  "sample_package = \<lparr>ep_package_id = package_identity package_lib sample_evidence sample_extraction, ep_schema_version = SCHEMA_VERSION,
     ep_evidence_ref = sample_evidence, ep_resolved_source = sample_segment, ep_extraction = sample_extraction, ep_created_at = None\<rparr>"

lemma sample_only: "only_row sample_work_store sample_request_row"
  by (simp add: only_row_def work_keys_def sample_work_store_def)

lemma evidence_work_follows_machine_witness:
  "list_all2 (\<lambda>r r'. same_row r r' \<and> (r' = r \<or> (\<exists>s e t. e \<in> {START_EXTRACTING} \<and> work_state r = Some s \<and>
      declared_transition s e = Some t \<and> wr_state r' = Some (processing_value t))))
    [set_state ''queued'' sample_request_row] [claimed ''w'' (after (utc_at 0) 60000000) (set_state ''queued'' sample_request_row)]"
proof -
  have k: "work_keys sample_work_store" by (simp add: work_keys_def sample_work_store_def)
  have a: "wk_rows (work_run sample_work_store [QueueStep {} 5]) = [set_state ''queued'' sample_request_row]"
    by (simp add: work_run_def queue_pending_def change_rows_def work_selection_def sample_work_store_def pending_def sample_request_row_def)
  have c: "claimable (utc_at 0) (set_state ''queued'' sample_request_row)"
    by (simp add: claimable_def sample_request_row_def set_state_def with_meta_def)
  have b: "wk_rows (take_work_step (work_run sample_work_store [QueueStep {} 5]) (ClaimStep ''w'' 60 (utc_at 0) {} 5)) =
      [claimed ''w'' (after (utc_at 0) 60000000) (set_state ''queued'' sample_request_row)]"
    by (simp add: claim_queued_def change_rows_def work_selection_def a c)
  from evidence_work_follows_machine [OF k, of "ClaimStep ''w'' 60 (utc_at 0) {} 5" "[QueueStep {} 5]"] show ?thesis
    unfolding a b by simp
qed

lemma evidence_stranded_witness:
  "\<exists>r'. run_once (sample_work_env False) (utc_at 1000000) sample_work_store = (1, put_row r' sample_work_store) \<and>
    wr_state r' = Some ''extracting'' \<and>
    r' \<in> set (wk_rows (work_run (put_row r' sample_work_store)
      [UploadStep (sample_work_env False) (set_state ''extracting'' sample_request_row) sample_segment sample_extraction,
       RecoverStep (sample_work_env False) 1 (utc_at 100000000)]))"
proof -
  let ?steps = "[UploadStep (sample_work_env False) (set_state ''extracting'' sample_request_row) sample_segment sample_extraction,
       RecoverStep (sample_work_env False) 1 (utc_at 100000000)]"
  have a: "pending sample_request_row" "wm_lease_until (wr_meta sample_request_row) = None"
    "dt_less (after (utc_at 1000000) (- (we_timeout_seconds (sample_work_env False) * 1000000))) (wr_created_at sample_request_row)"
    "idle_env (sample_work_env False)" "\<not> we_update_built (sample_work_env False)"
    by (simp_all add: sample_request_row_def pending_def sample_work_env_def idle_env_def dt_less_def after_def)
  have "list_all documented ?steps"
    by (simp add: documented_def sample_work_env_def)
  from evidence_stranded [OF sample_only a this] show ?thesis by blast
qed

end
