(* ===== verification/Idempotency.thy ===== *)
theory Idempotency
  imports Canonical_Json Lease_Queue Identity Evidence_State
begin

text \<open>
  The idempotent execution of an operation (\<open>application/services/idempotency.py\<close>) over the table of idempotency records
  (\<open>infrastructure/database/repositories/idempotency.py\<close>). The store is what other transactions see: the table and the
  business state \<open>'b\<close> that a handler changes. The transaction of the caller is committed when the call returns and rolled
  back when it raises. The clock, the new identifier, the claim token and the digest are arguments, and so is what other transactions
  commit before each statement; a statement reads committed rows, and the unique key makes an insert wait for the
  transaction that holds it. The attributes that the session hands out for a row it has fetched are an argument, because an
  object that is already loaded need not be refreshed. The loop has no bound: \<open>None\<close> stands for not returning.
  A handler sees the business state and the request; results are JSON values, which the column returns as they were
  stored. The columns \<open>schema_version\<close>, \<open>created_at\<close> and \<open>expires_at\<close> are left out, and with them the checks that no time of a
  row is before its creation: they hold while the clock does not run backwards and the lease is not negative.
\<close>

subsection \<open>Records\<close>

record 'r idem_row =
  ir_idempotency_id :: uuid
  ir_tenant_id :: uuid
  ir_actor_id :: uuid
  ir_venue_id :: "uuid option"
  ir_operation :: string
  ir_key :: string
  ir_request_hash :: string
  ir_status :: string
  ir_result :: "'r option"
  ir_claimed_by :: "string option"
  ir_claimed_until :: "datetime option"
  ir_updated_at :: "datetime option"
  ir_completed_at :: "datetime option"

record ('r, 'b) idem_store =
  is_rows :: "'r idem_row list"
  is_business :: 'b

text \<open>The declared checks: operation and key are not blank, and a hash has 64 characters; operations are \<open>VARCHAR(128)\<close>.\<close>

definition not_blank :: "string \<Rightarrow> bool" where
  "not_blank s = list_ex (\<lambda>c. c \<noteq> CHR '' '') s"

definition idem_row_accepted :: "'r idem_row \<Rightarrow> bool" where
  "idem_row_accepted r = (not_blank (ir_operation r) \<and> not_blank (ir_key r) \<and> length (ir_request_hash r) = 64 \<and>
     length (ir_operation r) \<le> 128 \<and> length (ir_key r) \<le> 128)"

definition unit_of :: "'r idem_row \<Rightarrow> uuid \<times> string \<times> string" where
  "unit_of r = (ir_tenant_id r, ir_operation r, ir_key r)"

definition get_record :: "uuid \<times> string \<times> string \<Rightarrow> 'r idem_row list \<Rightarrow> 'r idem_row option" where
  "get_record u rows = find (\<lambda>r. unit_of r = u) rows"

datatype idem_error = KeyInvalid | VenueDenied | DatabaseRefused | VenueConflict | PayloadConflict | InProgress | HandlerRaised

text \<open>\<open>INSERT \<dots> ON CONFLICT DO NOTHING\<close>; the checks are evaluated before the conflict, and the primary key is no
  target of the clause.\<close>

definition create_claim :: "'r idem_row \<Rightarrow> 'r idem_row list \<Rightarrow> idem_error + ('r idem_row option \<times> 'r idem_row list)" where
  "create_claim row rows =
     (if \<not> idem_row_accepted row then Inl DatabaseRefused
      else if list_ex (\<lambda>r. unit_of r = unit_of row) rows then Inr (None, rows)
      else if ir_idempotency_id row \<in> ir_idempotency_id ` set rows then Inl DatabaseRefused
      else Inr (Some row, rows @ [row]))"

definition reclaimable :: "uuid \<Rightarrow> datetime \<Rightarrow> 'r idem_row \<Rightarrow> bool" where
  "reclaimable i now r = (ir_idempotency_id r = i \<and> ir_status r = ''in_progress'' \<and>
     (case ir_claimed_until r of None \<Rightarrow> False | Some t \<Rightarrow> dt_less t now))"

definition reclaim_record :: "uuid \<Rightarrow> string \<Rightarrow> uuid \<Rightarrow> uuid option \<Rightarrow> string \<Rightarrow> int \<Rightarrow> datetime \<Rightarrow> 'r idem_row list \<Rightarrow> bool \<times> 'r idem_row list" where
  "reclaim_record i request_hash actor venue claim lease_seconds now rows =
     (list_ex (reclaimable i now) rows,
      map (\<lambda>r. if reclaimable i now r then r\<lparr>ir_request_hash := request_hash, ir_actor_id := actor, ir_venue_id := venue,
             ir_claimed_by := Some claim, ir_claimed_until := Some (after now (lease_seconds * 1000000)), ir_updated_at := Some now\<rparr>
           else r) rows)"

definition completable :: "uuid \<Rightarrow> string \<Rightarrow> 'r idem_row \<Rightarrow> bool" where
  "completable i claim r = (ir_idempotency_id r = i \<and> ir_status r = ''in_progress'' \<and> ir_claimed_by r = Some claim)"

definition complete_record :: "uuid \<Rightarrow> string \<Rightarrow> 'r \<Rightarrow> datetime \<Rightarrow> 'r idem_row list \<Rightarrow> bool \<times> 'r idem_row list" where
  "complete_record i claim result now rows =
     (list_ex (completable i claim) rows,
      map (\<lambda>r. if completable i claim r then r\<lparr>ir_status := ''completed'', ir_result := Some result, ir_claimed_by := None,
             ir_claimed_until := None, ir_completed_at := Some now, ir_updated_at := Some now\<rparr> else r) rows)"

subsection \<open>The service\<close>

record 'r idem_result =
  id_idempotency_id :: uuid
  id_replayed :: bool
  id_result :: "'r option"

record ('q, 'r, 'b) idem_call =
  ic_actor :: actor_context
  ic_operation :: string
  ic_key :: string
  ic_request :: "'q payload"
  ic_handler :: "'b \<Rightarrow> 'q payload \<Rightarrow> ('r \<times> 'b) option"
  ic_venue :: "uuid option"

record ('q, 'r, 'b) idem_env =
  ie_clock :: "nat \<Rightarrow> datetime"
  ie_others :: "nat \<Rightarrow> ('r, 'b) idem_store \<Rightarrow> ('r, 'b) idem_store"
  ie_attributes :: "nat \<Rightarrow> 'r idem_row \<Rightarrow> 'r idem_row"
  ie_new_id :: uuid
  ie_claim :: string
  ie_lease_seconds :: int
  ie_wait_timeout :: int
  ie_stdlib :: stdlib
  ie_float_text :: "'q \<Rightarrow> string"
  ie_digest :: "string \<Rightarrow> string"

definition call_unit :: "('q, 'r, 'b) idem_call \<Rightarrow> uuid \<times> string \<times> string" where
  "call_unit c = (ac_tenant_id (ic_actor c), ic_operation c, ic_key c)"

definition call_hash :: "('q, 'r, 'b) idem_env \<Rightarrow> ('q, 'r, 'b) idem_call \<Rightarrow> string" where
  "call_hash E c = canonical_request_hash (ie_stdlib E) (ie_float_text E) (ie_digest E) (ic_request c)"

definition claim_row :: "('q, 'r, 'b) idem_env \<Rightarrow> ('q, 'r, 'b) idem_call \<Rightarrow> datetime \<Rightarrow> 'r idem_row" where
  "claim_row E c now = \<lparr>ir_idempotency_id = ie_new_id E, ir_tenant_id = ac_tenant_id (ic_actor c), ir_actor_id = ac_actor_id (ic_actor c),
     ir_venue_id = ic_venue c, ir_operation = ic_operation c, ir_key = ic_key c, ir_request_hash = call_hash E c,
     ir_status = ''in_progress'', ir_result = None, ir_claimed_by = Some (ie_claim E),
     ir_claimed_until = Some (after now (ie_lease_seconds E * 1000000)), ir_updated_at = None, ir_completed_at = None\<rparr>"

text \<open>The handler under the claim, then \<open>complete\<close>, whose answer the service does not look at; \<open>db\<close> is what a rollback leaves.\<close>

definition run_claimed :: "('q, 'r, 'b) idem_env \<Rightarrow> ('q, 'r, 'b) idem_call \<Rightarrow> uuid \<Rightarrow> datetime \<Rightarrow> 'r idem_row list \<Rightarrow> ('r, 'b) idem_store \<Rightarrow>
    (idem_error + 'r idem_result) \<times> ('r, 'b) idem_store" where
  "run_claimed E c i now rows db =
     (case ic_handler c (is_business db) (ic_request c) of
        None \<Rightarrow> (Inl HandlerRaised, db)
      | Some (result, business) \<Rightarrow>
          (Inr \<lparr>id_idempotency_id = i, id_replayed = False, id_result = Some result\<rparr>,
           \<lparr>is_rows = snd (complete_record i (ie_claim E) result now rows), is_business = business\<rparr>))"

definition lease_over :: "datetime \<Rightarrow> 'r idem_row \<Rightarrow> bool" where
  "lease_over now r = (case ir_claimed_until r of None \<Rightarrow> False | Some t \<Rightarrow> \<not> dt_less now t)"

text \<open>\<open>n\<close> counts the statements and the readings of the clock.\<close>

partial_function (option) execute_loop :: "('q, 'r, 'b) idem_env \<Rightarrow> ('q, 'r, 'b) idem_call \<Rightarrow> datetime \<Rightarrow> nat \<Rightarrow> ('r, 'b) idem_store \<Rightarrow>
    ((idem_error + 'r idem_result) \<times> ('r, 'b) idem_store) option" where
  "execute_loop E c deadline n db0 =
     (let db = ie_others E n db0; now = ie_clock E (n + 1) in
      case map_option (ie_attributes E n) (get_record (call_unit c) (is_rows db)) of
        None \<Rightarrow>
          (let db' = ie_others E (n + 1) db in
           case create_claim (claim_row E c now) (is_rows db') of
             Inl e \<Rightarrow> Some (Inl e, db')
           | Inr (None, _) \<Rightarrow> execute_loop E c deadline (n + 2) db'
           | Inr (Some row, rows) \<Rightarrow> Some (run_claimed E c (ir_idempotency_id row) (ie_clock E (n + 2)) rows db'))
      | Some record \<Rightarrow>
          if ir_venue_id record \<noteq> ic_venue c then Some (Inl VenueConflict, db)
          else if ir_status record = ''completed'' then
            Some (if ir_request_hash record \<noteq> call_hash E c then Inl PayloadConflict
                  else Inr \<lparr>id_idempotency_id = ir_idempotency_id record, id_replayed = True, id_result = ir_result record\<rparr>, db)
          else if lease_over now record then
            (let db' = ie_others E (n + 1) db;
                 (ok, rows) = reclaim_record (ir_idempotency_id record) (call_hash E c) (ac_actor_id (ic_actor c)) (ic_venue c)
                   (ie_claim E) (ie_lease_seconds E) now (is_rows db')
             in if ok then Some (run_claimed E c (ir_idempotency_id record) (ie_clock E (n + 2)) rows db')
                else execute_loop E c deadline (n + 2) db')
          else if \<not> dt_less (ie_clock E (n + 2)) deadline then Some (Inl InProgress, db)
          else execute_loop E c deadline (n + 3) db)"

definition execute :: "('q, 'r, 'b) idem_env \<Rightarrow> ('q, 'r, 'b) idem_call \<Rightarrow> ('r, 'b) idem_store \<Rightarrow>
    ((idem_error + 'r idem_result) \<times> ('r, 'b) idem_store) option" where
  "execute E c db =
     (if \<not> idempotency_key_ok (ic_key c) then Some (Inl KeyInvalid, db)
      else if (case ic_venue c of None \<Rightarrow> False | Some v \<Rightarrow> require_venue_access (ic_actor c) v \<noteq> Inr ()) then Some (Inl VenueDenied, db)
      else execute_loop E c (after (ie_clock E 0) (ie_wait_timeout E)) 1 db)"

end
