(* ===== verification/Idempotency_Facts.thy ===== *)
theory Idempotency_Facts
  imports Idempotency Canonical_Json_Facts Evidence_Package_Facts
begin

text \<open>
  Facts about the idempotent execution: whatever other transactions commit between its statements, an operation that has a
  completed record is never executed again and every success returns what this record holds; and without interference a
  fresh key is executed and its repetition replayed or refused.
\<close>

subsection \<open>What the table promises\<close>

definition settled :: "'r idem_row list \<Rightarrow> bool" where
  "settled rows = (distinct (map unit_of rows) \<and> distinct (map ir_idempotency_id rows) \<and>
     list_all (\<lambda>r. ir_status r \<in> {''in_progress'', ''completed''}) rows)"

definition keeps :: "'r idem_row list \<Rightarrow> 'r idem_row list \<Rightarrow> bool" where
  "keeps rows rows' = (\<forall>r\<in>set rows. ir_status r = ''completed'' \<longrightarrow> r \<in> set rows')"

definition units_kept :: "'r idem_row list \<Rightarrow> 'r idem_row list \<Rightarrow> bool" where
  "units_kept rows rows' = (\<forall>r\<in>set rows. \<forall>r'\<in>set rows'. ir_idempotency_id r' = ir_idempotency_id r \<longrightarrow> unit_of r' = unit_of r)"

text \<open>Other transactions keep the table well-formed, leave an identifier with its unit and never touch a completed record.\<close>

definition honest_others :: "('q, 'r, 'b) idem_env \<Rightarrow> bool" where
  "honest_others E = (\<forall>n db. settled (is_rows db) \<longrightarrow>
     settled (is_rows (ie_others E n db)) \<and> keeps (is_rows db) (is_rows (ie_others E n db)) \<and>
     units_kept (is_rows db) (is_rows (ie_others E n db)))"

text \<open>The session hands out a row as it is stored, or as it was while it was in progress.\<close>

definition honest_session :: "('q, 'r, 'b) idem_env \<Rightarrow> bool" where
  "honest_session E = (\<forall>n r. ie_attributes E n r = r \<or>
     (ir_idempotency_id (ie_attributes E n r) = ir_idempotency_id r \<and> ir_status (ie_attributes E n r) = ''in_progress''))"

lemma keeps_refl [simp]: "keeps rows rows"
  by (simp add: keeps_def)

lemma keeps_trans: "keeps a b \<Longrightarrow> keeps b c \<Longrightarrow> keeps a c"
  by (auto simp: keeps_def)

lemma settled_unit: "settled rows \<Longrightarrow> r \<in> set rows \<Longrightarrow> r' \<in> set rows \<Longrightarrow> unit_of r' = unit_of r \<Longrightarrow> r' = r"
  by (auto simp: settled_def distinct_map inj_on_def)

lemma settled_id: "settled rows \<Longrightarrow> r \<in> set rows \<Longrightarrow> r' \<in> set rows \<Longrightarrow> ir_idempotency_id r' = ir_idempotency_id r \<Longrightarrow> r' = r"
  by (auto simp: settled_def distinct_map inj_on_def)

lemma units_kept_refl: "settled rows \<Longrightarrow> units_kept rows rows"
  using settled_id by (fastforce simp: units_kept_def)

lemma get_record_append: "get_record u rows = None \<Longrightarrow> unit_of r = u \<Longrightarrow> get_record u (rows @ [r]) = Some r"
  by (induction rows) (auto simp: get_record_def split: if_splits)

lemma get_record_Some: "get_record u rows = Some r \<Longrightarrow> r \<in> set rows \<and> unit_of r = u"
  by (auto simp: get_record_def find_Some_iff)

lemma get_record_None: "get_record u rows = None \<longleftrightarrow> (\<forall>r\<in>set rows. unit_of r \<noteq> u)"
  by (auto simp: get_record_def find_None_iff)

lemma settled_map:
  assumes "settled rows" "\<And>r. unit_of (f r) = unit_of r" "\<And>r. ir_idempotency_id (f r) = ir_idempotency_id r"
    "\<And>r. ir_status r \<in> {''in_progress'', ''completed''} \<Longrightarrow> ir_status (f r) \<in> {''in_progress'', ''completed''}"
  shows "settled (map f rows)"
proof -
  have "unit_of \<circ> f = unit_of" "ir_idempotency_id \<circ> f = ir_idempotency_id" using assms(2,3) by (auto simp: comp_def)
  moreover have "list_all (\<lambda>r. ir_status r \<in> {''in_progress'', ''completed''}) (map f rows)"
    unfolding list_all_iff
  proof
    fix x assume "x \<in> set (map f rows)"
    then obtain r where "r \<in> set rows" "x = f r" by auto
    then show "ir_status x \<in> {''in_progress'', ''completed''}"
      using assms(1) assms(4) [of r] unfolding settled_def list_all_iff by blast
  qed
  ultimately show ?thesis using assms(1) by (simp add: settled_def)
qed

lemma settled_reclaim: "settled rows \<Longrightarrow> settled (snd (reclaim_record i h a v cl lease now rows))"
  unfolding reclaim_record_def snd_conv by (rule settled_map) (auto simp: unit_of_def reclaimable_def)

lemma settled_complete: "settled rows \<Longrightarrow> settled (snd (complete_record i cl res now rows))"
  unfolding complete_record_def snd_conv by (rule settled_map) (auto simp: unit_of_def)

lemma keeps_reclaim: "keeps rows (snd (reclaim_record i h a v cl lease now rows))"
  by (force simp: keeps_def reclaim_record_def reclaimable_def)

lemma keeps_complete: "keeps rows (snd (complete_record i cl res now rows))"
  by (force simp: keeps_def complete_record_def completable_def)

lemma create_claim_Some:
  assumes "create_claim row rows = Inr (Some row', rows')" "settled rows" "ir_status row = ''in_progress''"
  shows "row' = row \<and> rows' = rows @ [row] \<and> settled rows' \<and> keeps rows rows'"
  using assms by (auto simp: create_claim_def settled_def keeps_def list_ex_iff split: if_splits) blast

lemma honest_session_row: "honest_session E \<Longrightarrow> ie_attributes E n r = r \<or>
    (ir_idempotency_id (ie_attributes E n r) = ir_idempotency_id r \<and> ir_status (ie_attributes E n r) = ''in_progress'')"
  by (simp add: honest_session_def)

lemma honest_session_id: "honest_session E \<Longrightarrow> ir_idempotency_id (ie_attributes E n r) = ir_idempotency_id r"
  using honest_session_row [of E n r] by auto

lemma honest_session_completed: "honest_session E \<Longrightarrow> ir_status (ie_attributes E n r) = ''completed'' \<Longrightarrow> ie_attributes E n r = r"
  using honest_session_row [of E n r] by auto

subsection \<open>The handler runs under a claim\<close>

text \<open>\<open>r\<close> holds the claim of the call in the table \<open>rows\<close>.\<close>

definition holds_claim :: "('q, 'r, 'b) idem_env \<Rightarrow> ('q, 'r, 'b) idem_call \<Rightarrow> 'r idem_row \<Rightarrow> 'r idem_row list \<Rightarrow> bool" where
  "holds_claim E c r rows = (r \<in> set rows \<and> unit_of r = call_unit c \<and> ir_status r = ''in_progress'' \<and> ir_claimed_by r = Some (ie_claim E) \<and>
     ir_venue_id r = ic_venue c \<and> ir_request_hash r = call_hash E c)"

definition backed :: "('q, 'r, 'b) idem_env \<Rightarrow> ('q, 'r, 'b) idem_call \<Rightarrow> 'r idem_result \<Rightarrow> 'r idem_row \<Rightarrow> bool" where
  "backed E c x r = (unit_of r = call_unit c \<and> ir_status r = ''completed'' \<and> ir_venue_id r = ic_venue c \<and>
     ir_request_hash r = call_hash E c \<and> ir_idempotency_id r = id_idempotency_id x \<and> ir_result r = id_result x)"

lemma run_claimed_records:
  assumes "run_claimed E c i now rows db = (Inr x, db')" "settled rows" "holds_claim E c r rows" "ir_idempotency_id r = i"
  shows "settled (is_rows db') \<and> keeps rows (is_rows db') \<and> (\<exists>r'\<in>set (is_rows db'). backed E c x r') \<and> \<not> id_replayed x"
proof -
  obtain result business where x: "x = \<lparr>id_idempotency_id = i, id_replayed = False, id_result = Some result\<rparr>"
    and db': "is_rows db' = snd (complete_record i (ie_claim E) result now rows)"
    using assms(1) by (auto simp: run_claimed_def split: option.splits)
  let ?r = "r\<lparr>ir_status := ''completed'', ir_result := Some result, ir_claimed_by := None, ir_claimed_until := None,
      ir_completed_at := Some now, ir_updated_at := Some now\<rparr>"
  have "completable i (ie_claim E) r" using assms(3,4) by (simp add: holds_claim_def completable_def)
  then have "?r \<in> set (is_rows db')" using assms(3) by (force simp: db' complete_record_def holds_claim_def)
  moreover have "backed E c x ?r" using assms(3,4) by (simp add: backed_def x holds_claim_def unit_of_def)
  ultimately show ?thesis using settled_complete [OF assms(2)] keeps_complete x by (auto simp: db')
qed

lemma run_claimed_fails: "run_claimed E c i now rows db = (Inl e, db') \<Longrightarrow> db' = db"
  by (auto simp: run_claimed_def split: option.splits)

lemma claim_row_holds:
  assumes "create_claim (claim_row E c now) rows = Inr (Some row, rows')" "settled rows"
  shows "holds_claim E c row rows' \<and> settled rows' \<and> keeps rows rows'"
  using create_claim_Some [OF assms] by (auto simp: holds_claim_def claim_row_def unit_of_def call_unit_def)

lemma reclaim_holds:
  assumes "settled rows" "reclaim_record i (call_hash E c) actor (ic_venue c) (ie_claim E) lease now rows = (True, rows')"
    and unit: "\<And>r. r \<in> set rows \<Longrightarrow> ir_idempotency_id r = i \<Longrightarrow> unit_of r = call_unit c"
  shows "\<exists>r. holds_claim E c r rows' \<and> ir_idempotency_id r = i"
proof -
  obtain r where r: "r \<in> set rows" "reclaimable i now r" using assms(2) by (auto simp: reclaim_record_def list_ex_iff)
  let ?r = "r\<lparr>ir_request_hash := call_hash E c, ir_actor_id := actor, ir_venue_id := ic_venue c,
     ir_claimed_by := Some (ie_claim E), ir_claimed_until := Some (after now (lease * 1000000)), ir_updated_at := Some now\<rparr>"
  have "?r \<in> set rows'" using assms(2) r by (force simp: reclaim_record_def)
  moreover have "unit_of r = call_unit c" using r unit by (simp add: reclaimable_def)
  ultimately have "holds_claim E c ?r rows'" "ir_idempotency_id ?r = i"
    using r(2) by (simp_all add: holds_claim_def unit_of_def reclaimable_def)
  then show ?thesis by blast
qed

subsection \<open>Any interference of other transactions\<close>

definition done_before :: "('q, 'r, 'b) idem_call \<Rightarrow> ('r, 'b) idem_store \<Rightarrow> bool" where
  "done_before c db = (\<exists>r\<in>set (is_rows db). unit_of r = call_unit c \<and> ir_status r = ''completed'')"

text \<open>What the other transactions made of a store, without this call.\<close>

definition by_others :: "('q, 'r, 'b) idem_env \<Rightarrow> ('r, 'b) idem_store \<Rightarrow> ('r, 'b) idem_store \<Rightarrow> bool" where
  "by_others E = (\<lambda>a b. \<exists>n. b = ie_others E n a)\<^sup>*\<^sup>*"

lemma by_others_refl [simp]: "by_others E db db"
  by (simp add: by_others_def)

lemma by_others_step [simp]: "by_others E db (ie_others E n db)"
  unfolding by_others_def by (rule r_into_rtranclp) blast

lemma by_others_trans: "by_others E a b \<Longrightarrow> by_others E b c \<Longrightarrow> by_others E a c"
  unfolding by_others_def by (rule rtranclp_trans)

text \<open>
  A success is backed by a completed record, and is a replay when there was one before; an error and a replay leave the
  store as the other transactions made it.
\<close>

definition sound :: "('q, 'r, 'b) idem_env \<Rightarrow> ('q, 'r, 'b) idem_call \<Rightarrow> ('r, 'b) idem_store \<Rightarrow>
    (idem_error + 'r idem_result) \<times> ('r, 'b) idem_store \<Rightarrow> bool" where
  "sound E c db out = (settled (is_rows (snd out)) \<and> keeps (is_rows db) (is_rows (snd out)) \<and>
     (\<forall>x. fst out = Inr x \<longrightarrow> (\<exists>r\<in>set (is_rows (snd out)). backed E c x r) \<and> (done_before c db \<longrightarrow> id_replayed x) \<and>
       (id_replayed x \<longrightarrow> by_others E db (snd out))) \<and>
     (\<forall>e. fst out = Inl e \<longrightarrow> by_others E db (snd out)))"

lemma sound_later: "sound E c db' out \<Longrightarrow> keeps (is_rows db) (is_rows db') \<Longrightarrow> by_others E db db' \<Longrightarrow> sound E c db out"
proof -
  assume s: "sound E c db' out" and k: "keeps (is_rows db) (is_rows db')" and b: "by_others E db db'"
  have "done_before c db \<Longrightarrow> done_before c db'" using k by (auto simp: done_before_def keeps_def)
  then show ?thesis using s keeps_trans [OF k] by_others_trans [OF b] unfolding sound_def by blast
qed

lemma sound_error: "settled (is_rows db) \<Longrightarrow> sound E c db (Inl e, db)"
  by (simp add: sound_def)

lemma sound_run:
  assumes "settled rows" "keeps (is_rows db) rows" "holds_claim E c r rows" "ir_idempotency_id r = i" "settled (is_rows db)" "\<not> done_before c db"
  shows "sound E c db (run_claimed E c i now rows db)"
proof (cases "run_claimed E c i now rows db")
  case (Pair result db')
  show ?thesis
  proof (cases result)
    case (Inl e)
    then show ?thesis using Pair run_claimed_fails [of E c i now rows db e db'] sound_error [OF assms(5)] by simp
  next
    case (Inr x)
    from run_claimed_records [OF Pair [unfolded Inr] assms(1,3,4)] keeps_trans [OF assms(2)] assms(6) show ?thesis
      using Pair Inr by (auto simp: sound_def)
  qed
qed

lemma not_done_reclaim:
  assumes "settled (is_rows db)" "reclaim_record i h actor v cl lease now (is_rows db) = (True, rows')"
    and unit: "\<And>r. r \<in> set (is_rows db) \<Longrightarrow> ir_idempotency_id r = i \<Longrightarrow> unit_of r = call_unit c"
  shows "\<not> done_before c db"
proof
  assume "done_before c db"
  then obtain r where r: "r \<in> set (is_rows db)" "unit_of r = call_unit c" "ir_status r = ''completed''" by (auto simp: done_before_def)
  obtain r' where r': "r' \<in> set (is_rows db)" "reclaimable i now r'" using assms(2) by (auto simp: reclaim_record_def list_ex_iff)
  then have "unit_of r' = unit_of r" using unit r by (simp add: reclaimable_def)
  then have "r' = r" using settled_unit [OF assms(1) r(1) r'(1)] by simp
  then show False using r r' by (simp add: reclaimable_def)
qed

lemma execute_loop_sound:
  "execute_loop E c deadline n db = Some out \<Longrightarrow> honest_others E \<and> honest_session E \<longrightarrow> settled (is_rows db) \<longrightarrow> sound E c db out"
proof (induction rule: execute_loop.raw_induct [rotated, consumes 1, case_names step])
  case (step loop E c deadline n db0 out)
  show ?case
  proof (intro impI)
    assume h: "honest_others E \<and> honest_session E" and s0: "settled (is_rows db0)"
    let ?db = "ie_others E n db0" and ?now = "ie_clock E (n + 1)"
    let ?db' = "ie_others E (n + 1) ?db"
    have s: "settled (is_rows ?db)" "keeps (is_rows db0) (is_rows ?db)" using h s0 by (simp_all add: honest_others_def)
    have s': "settled (is_rows ?db')" "keeps (is_rows ?db) (is_rows ?db')" "units_kept (is_rows ?db) (is_rows ?db')" using h s(1) by (simp_all add: honest_others_def)
    have again: "sound E c d out" if "loop E c deadline m d = Some out" "settled (is_rows d)" for m d
      using step.IH [OF that(1)] h that(2) by blast
    have "sound E c ?db out"
    proof (cases "get_record (call_unit c) (is_rows ?db)")
      case None
      show ?thesis
      proof (cases "create_claim (claim_row E c ?now) (is_rows ?db')")
        case (Inl e)
        then have "out = (Inl e, ?db')" using step.hyps None by (simp add: Let_def)
        then show ?thesis using sound_later [OF sound_error [OF s'(1)] s'(2) by_others_step] by simp
      next
        case (Inr p)
        obtain claim rows where p: "p = (claim, rows)" by (cases p)
        show ?thesis
        proof (cases claim)
          case None': None
          then have "loop E c deadline (n + 2) ?db' = Some out" using step.hyps None Inr p by (simp add: Let_def)
          then show ?thesis using sound_later [OF again s'(2) by_others_step] s'(1) by blast
        next
          case (Some row)
          then have out: "out = run_claimed E c (ir_idempotency_id row) (ie_clock E (n + 2)) rows ?db'"
            using step.hyps None Inr p by (simp add: Let_def)
          have cl: "create_claim (claim_row E c ?now) (is_rows ?db') = Inr (Some row, rows)" using Inr p Some by simp
          from claim_row_holds [OF this s'(1)] have hc: "holds_claim E c row rows" "settled rows" "keeps (is_rows ?db') rows" by simp_all
          have "\<not> done_before c ?db'"
          proof
            assume "done_before c ?db'"
            then have "list_ex (\<lambda>r. unit_of r = unit_of (claim_row E c ?now)) (is_rows ?db')"
              by (auto simp: done_before_def list_ex_iff claim_row_def unit_of_def call_unit_def)
            then show False using cl by (auto simp: create_claim_def split: if_splits)
          qed
          then have "sound E c ?db' out" unfolding out by (rule sound_run [OF hc(2,3,1) refl s'(1)])
          then show ?thesis by (rule sound_later [OF _ s'(2) by_others_step])
        qed
      qed
    next
      case (Some stored)
      define rcd where "rcd = ie_attributes E n stored"
      have rec: "stored \<in> set (is_rows ?db)" "unit_of stored = call_unit c" using get_record_Some [OF Some] by simp_all
      have i: "ir_idempotency_id rcd = ir_idempotency_id stored" using honest_session_id [OF conjunct2 [OF h], of n stored] by (simp add: rcd_def)
      note now = step.hyps [unfolded Some option.map rcd_def [symmetric] Let_def]
      consider "ir_venue_id rcd \<noteq> ic_venue c" | "ir_venue_id rcd = ic_venue c" "ir_status rcd = ''completed''"
        | "ir_venue_id rcd = ic_venue c" "ir_status rcd \<noteq> ''completed''" "lease_over ?now rcd"
        | "ir_venue_id rcd = ic_venue c" "ir_status rcd \<noteq> ''completed''" "\<not> lease_over ?now rcd" by blast
      then show ?thesis
      proof cases
        case 1
        then have "out = (Inl VenueConflict, ?db)" using now by simp
        then show ?thesis using sound_error [OF s(1)] by simp
      next
        case 2
        then have "out = (if ir_request_hash rcd \<noteq> call_hash E c then Inl PayloadConflict
            else Inr \<lparr>id_idempotency_id = ir_idempotency_id rcd, id_replayed = True, id_result = ir_result rcd\<rparr>, ?db)"
          using now by simp
        moreover have "rcd = stored" using h 2 honest_session_completed by (auto simp: rcd_def)
        ultimately show ?thesis using s(1) rec 2 by (auto simp: sound_def backed_def split: if_splits)
      next
        case 3
        obtain ok rows where rl: "reclaim_record (ir_idempotency_id rcd) (call_hash E c) (ac_actor_id (ic_actor c)) (ic_venue c)
            (ie_claim E) (ie_lease_seconds E) ?now (is_rows ?db') = (ok, rows)" by fastforce
        show ?thesis
        proof (cases ok)
          case False
          then have "loop E c deadline (n + 2) ?db' = Some out" using now 3 rl by simp
          then show ?thesis using sound_later [OF again s'(2) by_others_step] s'(1) by blast
        next
          case True
          then have out: "out = run_claimed E c (ir_idempotency_id rcd) (ie_clock E (n + 2)) rows ?db'"
            using now 3 rl by simp
          have unit: "unit_of r = call_unit c" if "r \<in> set (is_rows ?db')" "ir_idempotency_id r = ir_idempotency_id rcd" for r
            using s'(3) rec that i by (auto simp: units_kept_def)
          obtain r where hc: "holds_claim E c r rows" "ir_idempotency_id r = ir_idempotency_id rcd"
            using reclaim_holds [OF s'(1) rl [unfolded eqTrueI [OF True]] unit] by blast
          have t: "settled rows" "keeps (is_rows ?db') rows" using settled_reclaim [OF s'(1)] keeps_reclaim rl by (metis snd_conv)+
          have "\<not> done_before c ?db'"
            using not_done_reclaim [OF s'(1) rl [unfolded eqTrueI [OF True]] unit] .
          then have "sound E c ?db' out" unfolding out by (rule sound_run [OF t hc s'(1)])
          then show ?thesis by (rule sound_later [OF _ s'(2) by_others_step])
        qed
      next
        case 4
        show ?thesis
        proof (cases "dt_less (ie_clock E (n + 2)) deadline")
          case True
          then have "loop E c deadline (n + 3) ?db = Some out" using now 4 by simp
          then show ?thesis using again s(1) by blast
        next
          case False
          then have "out = (Inl InProgress, ?db)" using now 4 by simp
          then show ?thesis using sound_error [OF s(1)] by simp
        qed
      qed
    qed
    then show "sound E c db0 out" by (rule sound_later [OF _ s(2) by_others_step])
  qed
qed

lemma execute_sound:
  assumes "execute E c db = Some out" "honest_others E" "honest_session E" "settled (is_rows db)"
  shows "sound E c db out"
proof -
  consider e where "out = (Inl e, db)" | "execute_loop E c (after (ie_clock E 0) (ie_wait_timeout E)) 1 db = Some out"
    using assms(1) by (auto simp only: execute_def option.inject split: if_splits)
  then show ?thesis
  proof cases
    case 2
    then show ?thesis using execute_loop_sound [OF 2] assms(2-4) by blast
  qed (simp add: sound_error assms(4))
qed

text \<open>
  C36: An operation is executed at most once. When a call with a key has succeeded, then whatever other transactions commit
  between and during the calls, as long as they respect the keys of the table and leave completed records alone, and
  whether the session hands out rows as they are stored or as they were in progress, a later call of the same tenant, operation
  and key that succeeds is a replay: it has the payload hash and the venue of the first call, returns its record and its
  result, and its handler has no effect on the store. A call that fails has none either.
\<close>

theorem idempotent_execution:
  assumes first: "execute E c db = Some (Inr x, db1)" and h: "honest_others E" "honest_session E" "settled (is_rows db)"
    and between: "settled (is_rows db2)" "keeps (is_rows db1) (is_rows db2)"
    and second: "execute E' c' db2 = Some (y, db3)" and h': "honest_others E'" "honest_session E'"
    and same: "call_unit c' = call_unit c"
  shows "(\<forall>z. y = Inr z \<longrightarrow> id_replayed z \<and> id_result z = id_result x \<and> id_idempotency_id z = id_idempotency_id x \<and>
      call_hash E' c' = call_hash E c \<and> ic_venue c' = ic_venue c) \<and>
    by_others E' db2 db3"
proof -
  obtain r where r: "r \<in> set (is_rows db1)" "backed E c x r"
    using execute_sound [OF first h] by (auto simp: sound_def)
  then have r2: "r \<in> set (is_rows db2)" using between(2) by (auto simp: keeps_def backed_def)
  then have d: "done_before c' db2" using r(2) same by (auto simp: done_before_def backed_def)
  have s: "sound E' c' db2 (y, db3)" by (rule execute_sound [OF second h' between(1)])
  have r3: "r \<in> set (is_rows db3)" "settled (is_rows db3)" using s r2 r(2) by (auto simp: sound_def keeps_def backed_def)
  show ?thesis
  proof (cases y)
    case (Inl e)
    then show ?thesis using s by (simp add: sound_def)
  next
    case (Inr z)
    obtain r' where r': "r' \<in> set (is_rows db3)" "backed E' c' z r'" using s Inr by (auto simp: sound_def)
    have "r' = r"
      using settled_unit [OF r3(2,1) r'(1)] r(2) r'(2) same by (simp add: backed_def)
    then show ?thesis using s d Inr r(2) r'(2) by (auto simp: sound_def backed_def)
  qed
qed

subsection \<open>Calls without interference\<close>

definition no_interference :: "('q, 'r, 'b) idem_env \<Rightarrow> bool" where
  "no_interference E = (\<forall>n db. ie_others E n db = db)"

definition call_allowed :: "('q, 'r, 'b) idem_call \<Rightarrow> bool" where
  "call_allowed c = (idempotency_key_ok (ic_key c) \<and>
     (case ic_venue c of None \<Rightarrow> True | Some v \<Rightarrow> require_venue_access (ic_actor c) v = Inr ()))"

lemma execute_allowed: "call_allowed c \<Longrightarrow> execute E c db = execute_loop E c (after (ie_clock E 0) (ie_wait_timeout E)) 1 db"
  by (simp add: call_allowed_def execute_def split: option.splits)

lemma execute_completed:
  assumes "call_allowed c" "no_interference E" "\<And>n. ie_attributes E n r = r"
    and r: "get_record (call_unit c) (is_rows db) = Some r" "ir_status r = ''completed''" "ir_venue_id r = ic_venue c"
  shows "execute E c db = Some (if ir_request_hash r \<noteq> call_hash E c then Inl PayloadConflict
      else Inr \<lparr>id_idempotency_id = ir_idempotency_id r, id_replayed = True, id_result = ir_result r\<rparr>, db)"
  unfolding execute_allowed [OF assms(1)] using assms(2,3) r
  by (subst execute_loop.simps) (simp add: no_interference_def)

definition completed_row :: "('q, 'r, 'b) idem_env \<Rightarrow> ('q, 'r, 'b) idem_call \<Rightarrow> 'r \<Rightarrow> 'r idem_row" where
  "completed_row E c result = (claim_row E c (ie_clock E 2))\<lparr>ir_status := ''completed'', ir_result := Some result, ir_claimed_by := None,
     ir_claimed_until := None, ir_completed_at := Some (ie_clock E 3), ir_updated_at := Some (ie_clock E 3)\<rparr>"

lemma completed_row_simps [simp]:
  "unit_of (completed_row E c result) = call_unit c" "ir_status (completed_row E c result) = ''completed''"
  "ir_venue_id (completed_row E c result) = ic_venue c" "ir_request_hash (completed_row E c result) = call_hash E c"
  "ir_idempotency_id (completed_row E c result) = ie_new_id E" "ir_result (completed_row E c result) = Some result"
  by (simp_all add: completed_row_def claim_row_def unit_of_def call_unit_def)

lemma execute_fresh:
  assumes a: "call_allowed c" "no_interference E" and fresh: "get_record (call_unit c) (is_rows db) = None"
    and row: "\<And>now. idem_row_accepted (claim_row E c now)" "ie_new_id E \<notin> ir_idempotency_id ` set (is_rows db)"
    and handler: "ic_handler c (is_business db) (ic_request c) = Some (result, business)"
  shows "execute E c db = Some (Inr \<lparr>id_idempotency_id = ie_new_id E, id_replayed = False, id_result = Some result\<rparr>,
      \<lparr>is_rows = is_rows db @ [completed_row E c result], is_business = business\<rparr>)"
proof -
  let ?row = "claim_row E c (ie_clock E 2)"
  have u: "unit_of ?row = call_unit c" by (simp add: claim_row_def unit_of_def call_unit_def)
  have free: "unit_of r \<noteq> call_unit c" if "r \<in> set (is_rows db)" for r using fresh that by (simp add: get_record_None)
  have claim: "create_claim ?row (is_rows db) = Inr (Some ?row, is_rows db @ [?row])"
    using row free u by (auto simp: create_claim_def list_ex_iff) (simp add: claim_row_def)
  have "\<not> completable (ie_new_id E) (ie_claim E) r" if "r \<in> set (is_rows db)" for r
    using row(2) that by (force simp: completable_def)
  moreover have "completable (ie_new_id E) (ie_claim E) ?row" by (simp add: completable_def claim_row_def)
  ultimately have stored: "snd (complete_record (ie_new_id E) (ie_claim E) result (ie_clock E 3) (is_rows db @ [?row])) =
      is_rows db @ [completed_row E c result]"
    by (simp add: complete_record_def completed_row_def map_idI)
  have i: "ir_idempotency_id ?row = ie_new_id E" by (simp add: claim_row_def)
  have clocks: "ie_clock E (1 + 1) = ie_clock E 2" "ie_clock E (1 + 2) = ie_clock E 3" by (simp_all add: numeral_eq_Suc)
  have "execute E c db = Some (run_claimed E c (ie_new_id E) (ie_clock E 3) (is_rows db @ [?row]) db)"
    unfolding execute_allowed [OF a(1)]
    by (subst execute_loop.simps) (simp only: a(2) [unfolded no_interference_def, rule_format] fresh claim clocks i Let_def
      option.map option.case sum.case prod.case)
  then show ?thesis by (simp add: run_claimed_def handler stored)
qed

text \<open>
  C39: A fresh key is executed, and repeating the call replays it. Without interference, when the key and the venue are
  admitted and the row satisfies the constraints of the table, the first call returns with the answer of its handler, whose
  change of the business state is stored together with the completed record; every later call of the unit in the same venue
  returns at once and changes nothing: with the same payload it replays the answer, with another payload it is refused.
\<close>

theorem execute_then_replay:
  assumes "call_allowed c" "no_interference E" "get_record (call_unit c) (is_rows db) = None"
    and "\<And>now. idem_row_accepted (claim_row E c now)" "ie_new_id E \<notin> ir_idempotency_id ` set (is_rows db)"
    and "ic_handler c (is_business db) (ic_request c) = Some (result, business)"
    and later: "call_allowed c'" "no_interference E'" "\<And>n r. ie_attributes E' n r = r" "call_unit c' = call_unit c" "ic_venue c' = ic_venue c"
  shows "\<exists>r. execute E c db = Some (Inr \<lparr>id_idempotency_id = ie_new_id E, id_replayed = False, id_result = Some result\<rparr>,
      \<lparr>is_rows = is_rows db @ [r], is_business = business\<rparr>) \<and> ir_status r = ''completed'' \<and>
    execute E' c' \<lparr>is_rows = is_rows db @ [r], is_business = business\<rparr> =
      Some (if call_hash E' c' = call_hash E c
         then Inr \<lparr>id_idempotency_id = ie_new_id E, id_replayed = True, id_result = Some result\<rparr> else Inl PayloadConflict,
       \<lparr>is_rows = is_rows db @ [r], is_business = business\<rparr>)"
proof -
  let ?r = "completed_row E c result"
  let ?db = "\<lparr>is_rows = is_rows db @ [?r], is_business = business\<rparr>"
  have "get_record (call_unit c') (is_rows ?db) = Some ?r"
    using get_record_append [OF assms(3), of ?r] later(4) by simp
  then show ?thesis
    using execute_fresh [OF assms(1-6)] execute_completed [OF later(1,2,3)] later(5) by (intro exI [of _ ?r]) simp
qed

lemma execute_loop_returns:
  assumes quiet: "no_interference E" "\<And>n r. ie_attributes E n r = r" "settled (is_rows db)"
    and late: "\<And>m. N \<le> m \<Longrightarrow> \<not> dt_less (ie_clock E m) deadline"
      "\<And>m r t. N \<le> m \<Longrightarrow> r \<in> set (is_rows db) \<Longrightarrow> ir_claimed_until r = Some t \<Longrightarrow> dt_less t (ie_clock E m)"
  shows "\<exists>out. execute_loop E c deadline n db = Some out"
proof (induction "N - n" arbitrary: n rule: less_induct)
  case less
  have others: "ie_others E m d = d" for m d using quiet(1) by (simp add: no_interference_def)
  have again: "\<exists>out. execute_loop E c deadline m db = Some out" if "n < m" "n < N" for m
    by (rule less) (use that in linarith)
  show ?case
  proof (cases "get_record (call_unit c) (is_rows db)")
    case None
    have "\<not> list_ex (\<lambda>r. unit_of r = unit_of (claim_row E c now)) (is_rows db)" for now
      using None by (auto simp: get_record_None list_ex_iff claim_row_def unit_of_def call_unit_def)
    then have "(\<exists>e. create_claim (claim_row E c now) (is_rows db) = Inl e) \<or>
        (\<exists>row rows. create_claim (claim_row E c now) (is_rows db) = Inr (Some row, rows))" for now
      by (simp add: create_claim_def)
    from this [of "ie_clock E (n + 1)"] show ?thesis
      using None by (subst execute_loop.simps) (auto simp: others quiet(2))
  next
    case (Some r)
    have r: "r \<in> set (is_rows db)" using get_record_Some [OF Some] by simp
    note unfolded = execute_loop.simps [of E c deadline n db, unfolded others Some option.map quiet(2) option.case Let_def]
    show ?thesis
    proof (cases "ir_venue_id r \<noteq> ic_venue c \<or> ir_status r = ''completed''")
      case True
      then show ?thesis by (subst unfolded) auto
    next
      case False
      then have live: "ir_venue_id r = ic_venue c" "ir_status r \<noteq> ''completed''" by simp_all
      have p: "ir_status r = ''in_progress''" using quiet(3) r live(2) by (auto simp: settled_def list_all_iff)
      show ?thesis
      proof (cases "N \<le> n")
        case True
        show ?thesis
        proof (cases "lease_over (ie_clock E (n + 1)) r")
          case over: True
          then obtain t where t: "ir_claimed_until r = Some t" by (auto simp: lease_over_def split: option.splits)
          have "reclaimable (ir_idempotency_id r) (ie_clock E (n + 1)) r"
            using late(2) [OF _ r t, of "n + 1"] True p t by (simp add: reclaimable_def)
          then have "fst (reclaim_record (ir_idempotency_id r) h a v cl lease (ie_clock E (n + 1)) (is_rows db))" for h a v cl lease
            using r by (auto simp: reclaim_record_def list_ex_iff)
          then show ?thesis using live over by (subst unfolded) (simp add: case_prod_beta)
        next
          case False
          then show ?thesis using live late(1) [of "n + 2"] True by (subst unfolded) simp
        qed
      next
        case False
        then show ?thesis using live again [of "n + 2"] again [of "n + 3"]
          by (subst unfolded) (simp add: case_prod_beta)
      qed
    qed
  qed
qed

text \<open>
  C40: A call always returns once it is left alone. When no other transaction touches the table, the session shows the rows as
  they are stored, and the clock goes on for ever and never runs backwards, a call on any well-formed table ends, with a
  result, a refusal or the report that the operation is in progress: neither a claim that nobody completes, nor a lease that
  ends exactly now, keeps it waiting for ever.
\<close>

theorem execute_returns:
  assumes "no_interference E" "\<And>n r. ie_attributes E n r = r" "settled (is_rows db)"
    and "\<And>m n. m \<le> n \<Longrightarrow> \<not> dt_less (ie_clock E n) (ie_clock E m)" "\<And>t. \<exists>n. dt_less t (ie_clock E n)"
  shows "\<exists>result db'. execute E c db = Some (result, db')"
proof -
  let ?deadline = "after (ie_clock E 0) (ie_wait_timeout E)"
  let ?times = "?deadline # map (\<lambda>r. case ir_claimed_until r of None \<Rightarrow> ?deadline | Some t \<Rightarrow> t) (is_rows db)"
  obtain k where k: "dt_less t (ie_clock E (k t))" for t using assms(5) by metis
  define N where "N = Max (k ` set ?times)"
  have late: "dt_less t (ie_clock E m)" if "t \<in> set ?times" "N \<le> m" for t m
  proof -
    have "k t \<le> N" unfolding N_def by (rule Max_ge) (use that(1) in auto)
    then show ?thesis using k [of t] assms(4) [of "k t" m] that(2) by (simp add: dt_less_def)
  qed
  have "\<exists>out. execute_loop E c ?deadline 1 db = Some out"
  proof (rule execute_loop_returns [OF assms(1-3)])
    show "\<not> dt_less (ie_clock E m) ?deadline" if "N \<le> m" for m
      using late [of ?deadline m] that by (simp add: dt_less_def)
    show "dt_less t (ie_clock E m)" if "N \<le> m" "r \<in> set (is_rows db)" "ir_claimed_until r = Some t" for m r t
      by (rule late) (use that in \<open>force+\<close>)
  qed
  then show ?thesis by (auto simp: execute_def)
qed

subsection \<open>Samples\<close>

definition sample_idem_call :: "string \<Rightarrow> (unit, string, int) idem_call" where
  "sample_idem_call q = \<lparr>ic_actor = \<lparr>ac_actor_id = 1, ac_tenant_id = 2, ac_role_name = MANAGER, ac_permissions = {}, ac_venue_scope = {},
       ac_authenticated_at = utc_at 0, ac_active = True\<rparr>,
     ic_operation = ''alert.create'', ic_key = ''key-1'', ic_request = PText q, ic_handler = \<lambda>b _. Some (''ok'', b + 1), ic_venue = None\<rparr>"

definition sample_idem_env :: "(unit, string, int) idem_env" where
  "sample_idem_env = \<lparr>ie_clock = \<lambda>n. utc_at (of_nat n), ie_others = \<lambda>_ db. db, ie_attributes = \<lambda>_ r. r, ie_new_id = 7, ie_claim = ''c'',
     ie_lease_seconds = 30, ie_wait_timeout = 1000000,
     ie_stdlib = package_lib, ie_float_text = \<lambda>_. ''0.0'', ie_digest = \<lambda>text. take 64 (text @ replicate 64 (CHR ''0''))\<rparr>"

definition sample_idem_store :: "(string, int) idem_store" where
  "sample_idem_store = \<lparr>is_rows = [], is_business = 0\<rparr>"

lemma sample_idem_row: "idem_row_accepted (claim_row sample_idem_env (sample_idem_call q) now)"
  by (simp add: idem_row_accepted_def claim_row_def sample_idem_call_def sample_idem_env_def not_blank_def call_hash_def canonical_request_hash_def)

lemma sample_idem_allowed: "call_allowed (sample_idem_call q)" "no_interference sample_idem_env"
  by (simp_all add: call_allowed_def no_interference_def sample_idem_env_def)
    (simp add: sample_idem_call_def idempotency_key_ok_def printable_def)

lemma sample_idem_honest: "honest_others sample_idem_env" "honest_session sample_idem_env" "settled (is_rows sample_idem_store)"
  using units_kept_refl by (auto simp: honest_others_def honest_session_def sample_idem_env_def) (simp add: settled_def sample_idem_store_def)

lemma execute_then_replay_witness:
  "\<exists>r. execute sample_idem_env (sample_idem_call ''a'') sample_idem_store =
      Some (Inr \<lparr>id_idempotency_id = 7, id_replayed = False, id_result = Some ''ok''\<rparr>, \<lparr>is_rows = [r], is_business = 1\<rparr>) \<and>
    execute sample_idem_env (sample_idem_call ''b'') \<lparr>is_rows = [r], is_business = 1\<rparr> =
      Some (Inl PayloadConflict, \<lparr>is_rows = [r], is_business = 1\<rparr>)"
proof -
  have "get_record (call_unit (sample_idem_call ''a'')) (is_rows sample_idem_store) = None"
    "ie_new_id sample_idem_env \<notin> ir_idempotency_id ` set (is_rows sample_idem_store)"
    "ic_handler (sample_idem_call ''a'') (is_business sample_idem_store) (ic_request (sample_idem_call ''a'')) = Some (''ok'', 1)"
    "\<And>n r. ie_attributes sample_idem_env n r = r" "call_unit (sample_idem_call ''b'') = call_unit (sample_idem_call ''a'')"
    "ic_venue (sample_idem_call ''b'') = ic_venue (sample_idem_call ''a'')"
    by (simp_all add: get_record_def sample_idem_store_def sample_idem_env_def sample_idem_call_def call_unit_def)
  note out = execute_then_replay [OF sample_idem_allowed this(1) sample_idem_row this(2,3) sample_idem_allowed this(4-6)]
  have "call_hash sample_idem_env (sample_idem_call ''b'') \<noteq> call_hash sample_idem_env (sample_idem_call ''a'')"
    by (simp add: sample_idem_env_def sample_idem_call_def call_hash_def canonical_request_hash_def dumps_def quote_text_def escape_char_def)
  then have "\<exists>r. execute sample_idem_env (sample_idem_call ''a'') sample_idem_store =
      Some (Inr \<lparr>id_idempotency_id = ie_new_id sample_idem_env, id_replayed = False, id_result = Some ''ok''\<rparr>,
        \<lparr>is_rows = is_rows sample_idem_store @ [r], is_business = 1\<rparr>) \<and>
    execute sample_idem_env (sample_idem_call ''b'') \<lparr>is_rows = is_rows sample_idem_store @ [r], is_business = 1\<rparr> =
      Some (Inl PayloadConflict, \<lparr>is_rows = is_rows sample_idem_store @ [r], is_business = 1\<rparr>)"
    using out by auto
  moreover have "ie_new_id sample_idem_env = 7" "is_rows sample_idem_store = []"
    by (simp_all add: sample_idem_env_def sample_idem_store_def)
  ultimately show ?thesis by simp
qed

lemma idempotent_execution_witness:
  "\<exists>db1 z. execute sample_idem_env (sample_idem_call ''a'') sample_idem_store =
      Some (Inr \<lparr>id_idempotency_id = 7, id_replayed = False, id_result = Some ''ok''\<rparr>, db1) \<and> is_business db1 = 1 \<and>
    execute sample_idem_env (sample_idem_call ''a'') db1 = Some (Inr z, db1) \<and> id_replayed z \<and> id_result z = Some ''ok''"
proof -
  let ?r = "completed_row sample_idem_env (sample_idem_call ''a'') ''ok''"
  let ?db = "\<lparr>is_rows = [?r], is_business = 1\<rparr> :: (string, int) idem_store"
  have one: "execute sample_idem_env (sample_idem_call ''a'') sample_idem_store =
      Some (Inr \<lparr>id_idempotency_id = 7, id_replayed = False, id_result = Some ''ok''\<rparr>, ?db)"
    using execute_fresh [OF sample_idem_allowed, of "''a''" sample_idem_store "''ok''" 1] sample_idem_row
    by (simp add: get_record_def sample_idem_store_def) (simp add: sample_idem_env_def sample_idem_call_def)
  have "get_record (call_unit (sample_idem_call ''a'')) (is_rows ?db) = Some ?r" by (simp add: get_record_def)
  then have two: "execute sample_idem_env (sample_idem_call ''a'') ?db =
      Some (Inr \<lparr>id_idempotency_id = 7, id_replayed = True, id_result = Some ''ok''\<rparr>, ?db)"
    using execute_completed [OF sample_idem_allowed, of ?r "''a''" "?db"] by (simp add: sample_idem_env_def)
  have "settled (is_rows ?db)" by (simp add: settled_def)
  from idempotent_execution [OF one sample_idem_honest this keeps_refl two sample_idem_honest(1,2) refl] one two show ?thesis
    by (intro exI [of _ ?db] exI [of _ "\<lparr>id_idempotency_id = 7, id_replayed = True, id_result = Some ''ok''\<rparr>"]) simp
qed

definition stuck_record :: "string idem_row" where
  "stuck_record = (claim_row sample_idem_env (sample_idem_call ''a'') (utc_at 0))\<lparr>ir_claimed_by := Some ''gone'', ir_claimed_until := Some (utc_at 2)\<rparr>"

lemma execute_returns_witness:
  "\<exists>result db'. execute sample_idem_env (sample_idem_call ''a'') \<lparr>is_rows = [stuck_record], is_business = 0\<rparr> = Some (result, db')"
proof (rule execute_returns [OF sample_idem_allowed(2)])
  show "ie_attributes sample_idem_env n r = r" for n r by (simp add: sample_idem_env_def)
  show "settled (is_rows \<lparr>is_rows = [stuck_record], is_business = 0\<rparr>)" by (simp add: settled_def stuck_record_def claim_row_def)
  show "\<not> dt_less (ie_clock sample_idem_env n) (ie_clock sample_idem_env m)" if "m \<le> n" for m n
    using that by (simp add: sample_idem_env_def dt_less_def)
  show "\<exists>n. dt_less t (ie_clock sample_idem_env n)" for t
    by (rule exI [of _ "nat (dt_instant t + 1)"]) (simp add: sample_idem_env_def dt_less_def)
qed

end
