(* ===== verification/Spec2Isabelle.thy ===== *)
theory Spec2Isabelle
  imports Presence_Facts Dwell_Facts Occupancy_Facts Classification_Facts Waiting_Facts Geometry_Facts
    Spatial_Facts Line_Crossing_Facts Rules_Composition Data_Quality_Facts Evidence_State_Facts
    Evidence_Resolution_Facts Identity_Facts Evidence_Retention_Facts Evidence_Request_Facts
    Config_Validation_Facts Config_Lifecycle_Facts Delivery_Facts Persistence_Facts
    Pipeline_Facts Live_Session_Facts Canonical_Json_Facts Evidence_Work_Facts Idempotency_Facts
begin

text \<open>
  \<^bold>\<open>The program.\<close> The repository turns video of a venue into operational events with evidence. Its Python side (\<open>backend\<close>,
  \<open>contracts\<close>) is a chain: frame sources feed a bounded pipeline; detections and tracks (third-party models, not modelled)
  become observations; temporal engines keep one state per track or scope and report facts; spatial engines place points in
  the configured geometry; rules turn facts into events; events are persisted with an outbox, relayed through a stream
  into an inbox and applied by handlers, which request evidence; a worker extracts the evidence, and retention deletes it.
  Around this chain stand the versioned configuration, identity and authorization, live sessions and idempotent requests.

  \<^bold>\<open>The theories.\<close> Each component has a theory with its data and operations, in the order of the code, and mostly a theory
  \<open>..._Facts\<close> with what holds of it. The names are those of the code; a suffix or prefix keeps the fields of records apart.

  Foundations. \<open>Prelude\<close>: results (\<open>'e + 'a\<close>, \<open>Inl\<close> is an exception), sequencing, runs of a step, texts. \<open>Common_Contracts\<close>
  (\<open>contracts/common\<close>): identifiers, timestamps, versions, and the standard library as a record of functions. \<open>Fsm\<close>,
  \<open>Event_Order\<close>: the deterministic machine of \<open>temporal/fsm.py\<close> and the order of events, with the locales \<open>legal_fsm\<close>,
  \<open>engine_core\<close>, \<open>event_time_engine\<close> and \<open>restartable_engine\<close>, which every temporal engine interprets. \<open>Samples\<close>,
  \<open>Config_Samples\<close>: concrete data for the witnesses.

  Temporal engines (\<open>intelligence/temporal\<close>, \<open>contracts/temporal\<close>). \<open>Temporal_Contracts\<close>, \<open>Temporal_Engine\<close>, \<open>Presence\<close>,
  \<open>Dwell\<close>, \<open>Occupancy\<close>, \<open>Movement\<close>, \<open>Classification\<close>, \<open>Waiting\<close>. The facts show confirmation and alternation of
  presence, dwell as the span of confirmed presence, occupancy as a set, the measurements and the hysteresis of movement, the
  evidence that waiting rests on, idempotence of repeated and refusal of late inputs, and transparent checkpoints.

  Space (\<open>intelligence/geometry\<close>, \<open>intelligence/spatial\<close>, \<open>contracts/geometry\<close>, \<open>contracts/spatial\<close>). \<open>Geometry_Contracts\<close>,
  \<open>Geometry\<close>, \<open>Spatial_Contracts\<close>, \<open>Spatial_Engine\<close>, \<open>Line_Crossing\<close>. The facts refine the spatial passes to a specification over
  sets of regions and compare line crossing with geometric intersection.

  Rules (\<open>intelligence/rules\<close>, \<open>contracts/rules\<close>, \<open>contracts/events\<close>). \<open>Rules_Contracts\<close>, \<open>Rule_Engine\<close>, \<open>Operational_Rules\<close>,
  \<open>Data_Quality\<close>; \<open>Rules_Composition\<close> puts the rules on top of the temporal engines. The locales \<open>passing_evaluator\<close> and
  \<open>lawful_evaluator\<close> say when an evaluator is never refused; all evaluators of the program are instances.

  Configuration (\<open>domain/configuration\<close>, \<open>contracts/configuration\<close>). \<open>Config_Contracts\<close>, \<open>Config_Spatial\<close>, \<open>Config_Validation\<close>,
  \<open>Config_Lifecycle\<close>. The facts characterise acceptance declaratively and show what every sequence of calls of the service
  keeps: published versions never change, the pointer names the highest one, published content was validated.

  Delivery. \<open>Lease_Queue\<close> (claims, leases, backoff, with the locale \<open>leased_table\<close>), \<open>Outbox\<close>, \<open>Inbox\<close> (its two instances, the
  stream, and the workers \<open>outbox_publisher.py\<close>, \<open>inbox_ingress.py\<close>, \<open>inbox_consumer.py\<close>), \<open>Delivery\<close> (all of them as one
  system of actions, each a transaction or a broker call, so that lists of actions are the interleavings), \<open>Persistence\<close>
  (\<open>operational_persistence.py\<close>). The facts show exactly-once effects, delivery, and where events are lost.

  Evidence. \<open>Evidence_State\<close> (state machine and service), \<open>Evidence_Request\<close> (linkage of events), \<open>Evidence_Resolution\<close>,
  \<open>Evidence_Package\<close>, \<open>Evidence_Work\<close> (\<open>workers/evidence.py\<close> with its repository), \<open>Evidence_Retention\<close>. The facts show exact
  linkage and resolution, complete packages, legal moves of every worker session, justified deletion, and that with the
  documented behaviour of the database layer the worker never completes anything.

  Video and requests. \<open>Frame_Source\<close>, \<open>Frame_Pipeline\<close> (\<open>intelligence/sources\<close>, \<open>pipeline.py\<close>; the locale \<open>frame_hook\<close> is what the
  base class needs from a source, and both sources are instances; \<open>Pipeline_Facts\<close> has the interleavings of the tasks),
  \<open>Live_Session\<close>, \<open>Identity\<close> (tokens, roles, scopes, authorizers), \<open>Canonical_Json\<close> and \<open>Idempotency\<close> (\<open>services/idempotency.py\<close>).

  \<^bold>\<open>How the code is represented.\<close> Errors are values of sum types, one constructor for each exception the callers tell apart; the
  texts of messages are dropped, texts of reasons become constructors where nothing reads them. A database transaction is a
  function on the tables: an exception leaves the store as it was, a session is atomic, and changes of loaded objects
  are written before the next statement that is executed. Concurrency is a list of such steps, in any order, with crashes as
  steps or as steps that never come. Loops are structural recursion. Where the code may run forever they are
  \<open>partial_function (option)\<close>, and \<open>None\<close> stands for not returning (\<open>Frame_Source\<close>, \<open>Idempotency\<close>); that they return is
  proved as such. No fuel is used.

  \<^bold>\<open>Idealisations.\<close> Floating-point numbers are real numbers, with infinities and NaN where the code meets them (\<open>pyfloat\<close>); a bound
  that depends on rounding is not claimed. Python integers are \<open>int\<close>. A datetime is an instant in
  microseconds with an optional offset; \<open>isinstance\<close> tests that typing decides are left out. Validation by pydantic is a predicate on
  records, applied where the code constructs or validates one.

  \<^bold>\<open>Arguments of the model.\<close> Code outside the repository is an argument of the definitions that use it: \<open>uuid5\<close>, \<open>isoformat\<close>,
  \<open>repr\<close> and parsing of floats, digests; the JSON codec of the events, with round-trip laws as hypotheses; clocks, random draws,
  fresh identifiers; the JWT library, the lookups and the UUID parser of authentication; the outcome of each call of the object
  store, the decoder, the camera transport and the extractor; the order of rows without \<open>ORDER BY\<close> and of iteration over sets;
  and the answers of the database layer: which columns a table has, which statements the object mapper builds or accepts,
  what a loaded object shows. Hypotheses about them state documented behaviour, and each is met by the instance of a witness.
  Redis streams are modelled by their documented commands.

  \<^bold>\<open>Not modelled.\<close> HTTP routes and wiring, declarative tables without behaviour, migrations (apart from the ones whose
  constraints matter), object-store adapters, media upload and cleanup, the provenance document and the extractor, detection and
  tracking adapters (third-party numerical code), telemetry, camera credentials, read models, scripts, and the desktop client.

  \<^bold>\<open>What the proofs found.\<close> The theorems of kind error state behaviour that the documentation of the code excludes: a
  session start that shares its identity with an end, messages that are read and then lost, a validation that is never recorded,
  a live session that never starts, an error of the consumer that is swallowed, and evidence that stays in extraction
  because guarded updates are not built. The other properties hold as the code means them to.
\<close>

end
